(* ===== verification/Prelude.thy ===== *)
theory Prelude
  imports Main "HOL-Library.Multiset"
begin

text \<open>
  Shared vocabulary of the development: the exceptions of the platform as values of one
  error type, results as sums with a bind, tables as lists of rows with the generic query
  and update operations the repositories use, Python string helpers, and two interface
  locales: \<open>keyed_table\<close> (what a table keyed by its primary key promises) and
  \<open>transition_system\<close> (an invariant kept by every step holds in every reachable state).
\<close>

named_theorems result_simps
named_theorems table_simps

section \<open>Errors and results\<close>

text \<open>
  One constructor per exception class that the modelled code raises or lets through. The
  texts of messages are kept only where the code computes them from its input.
\<close>

datatype py_error =
    ValueError string
  | RuntimeError string
  | PermissionError "string list"
  | RoleRequired string
  | KeyError string
  | TypeError string
  | NotFound nat
  | AccessDenied string
  | RetryNotAllowed string
  | DeleteNotAllowed string "nat list"
  | IdempotencyConflict
  | AssetTypeConflict string string string
  | IdentityConflict string string string
  | AnalystsIncompatible string string
  | AdmissionRejected string string string
  | InsufficientSessions string
  | InvalidOperation
  | ProviderUnavailable string
  | ProviderInvalidData string
  | NetworkError string
  | CleanNotAllowed string
  | IdentityError string
  | LookupError string
  | IntegrityViolation string
  | StockLeanError string bool
  | GatewayError string
  | FileNotFound string
  | ClassificationNotFound string
  | ClassificationUnavailable string
  | TypeUnsupported string string
  | ProviderError string string
  | IntegrityAuditError string
  | WebhookTargetError string
  | AttributeError string

type_synonym 'a result = "py_error + 'a"

definition bind_result :: "'a result \<Rightarrow> ('a \<Rightarrow> 'b result) \<Rightarrow> 'b result" where
  "bind_result m f = (case m of Inl e \<Rightarrow> Inl e | Inr x \<Rightarrow> f x)"

definition require :: "bool \<Rightarrow> py_error \<Rightarrow> unit result" where
  "require b e = (if b then Inr () else Inl e)"

definition of_option :: "py_error \<Rightarrow> 'a option \<Rightarrow> 'a result" where
  "of_option e m = (case m of None \<Rightarrow> Inl e | Some x \<Rightarrow> Inr x)"

lemma bind_result_simps [simp, result_simps]:
  "bind_result (Inl e) f = Inl e"
  "bind_result (Inr x) f = f x"
  by (simp_all add: bind_result_def)

lemma bind_result_Inr_iff [result_simps]:
  "bind_result m f = Inr y \<longleftrightarrow> (\<exists>x. m = Inr x \<and> f x = Inr y)"
  by (cases m) simp_all

lemma bind_result_Inl_iff [result_simps]:
  "bind_result m f = Inl e \<longleftrightarrow> m = Inl e \<or> (\<exists>x. m = Inr x \<and> f x = Inl e)"
  by (cases m) simp_all

lemma bind_resultE:
  assumes "bind_result m f = Inr y"
  obtains x where "m = Inr x" and "f x = Inr y"
  using assms by (cases m) simp_all

lemma require_Inr_iff [simp, result_simps]: "require b e = Inr u \<longleftrightarrow> b"
  by (simp add: require_def)

lemma require_Inl_iff [simp, result_simps]: "require b e = Inl e' \<longleftrightarrow> \<not> b \<and> e' = e"
  by (auto simp: require_def)

lemma require_True [simp]: "require True e = Inr ()"
  by (simp add: require_def)

lemma require_False [simp]: "require False e = Inl e"
  by (simp add: require_def)

lemma of_option_Inr_iff [simp, result_simps]: "of_option e m = Inr x \<longleftrightarrow> m = Some x"
  by (cases m) (simp_all add: of_option_def)

lemma of_option_Inl_iff [simp, result_simps]: "of_option e m = Inl e' \<longleftrightarrow> m = None \<and> e' = e"
  by (cases m) (auto simp: of_option_def)

lemma of_option_simps [simp]:
  "of_option e None = Inl e" "of_option e (Some x) = Inr x"
  by (simp_all add: of_option_def)

text \<open>A loop that stops at the first exception and collects its results.\<close>

fun map_result :: "('a \<Rightarrow> 'b result) \<Rightarrow> 'a list \<Rightarrow> 'b list result" where
  "map_result f [] = Inr []"
| "map_result f (x # xs) =
     bind_result (f x) (\<lambda>y. bind_result (map_result f xs) (\<lambda>ys. Inr (y # ys)))"

lemma map_result_length: "map_result f xs = Inr ys \<Longrightarrow> length ys = length xs"
  by (induction xs arbitrary: ys) (auto simp: result_simps)

lemma map_result_nth:
  "map_result f xs = Inr ys \<Longrightarrow> i < length xs \<Longrightarrow> f (xs ! i) = Inr (ys ! i)"
  by (induction xs arbitrary: ys i) (auto simp: result_simps nth_Cons split: nat.splits)

lemma map_result_total:
  "(\<And>x. x \<in> set xs \<Longrightarrow> f x = Inr (g x)) \<Longrightarrow> map_result f xs = Inr (map g xs)"
  by (induction xs) simp_all

lemma map_result_set:
  "map_result f xs = Inr ys \<Longrightarrow> y \<in> set ys \<Longrightarrow> \<exists>x\<in>set xs. f x = Inr y"
  by (induction xs arbitrary: ys) (auto simp: result_simps)

section \<open>Tables as lists of rows\<close>

text \<open>
  A table is the list of its rows in insertion order. \<open>find_row\<close> is a lookup by key,
  \<open>update_row\<close> the write of one loaded row, \<open>update_where\<close> and \<open>delete_where\<close> the bulk
  statements, each with the predicate of its \<open>WHERE\<close> clause.
\<close>

definition find_row :: "('r \<Rightarrow> 'k) \<Rightarrow> 'k \<Rightarrow> 'r list \<Rightarrow> 'r option" where
  "find_row key k t = find (\<lambda>r. key r = k) t"

definition update_where :: "('r \<Rightarrow> bool) \<Rightarrow> ('r \<Rightarrow> 'r) \<Rightarrow> 'r list \<Rightarrow> 'r list" where
  "update_where P f t = map (\<lambda>r. if P r then f r else r) t"

definition update_row :: "('r \<Rightarrow> 'k) \<Rightarrow> 'k \<Rightarrow> ('r \<Rightarrow> 'r) \<Rightarrow> 'r list \<Rightarrow> 'r list" where
  "update_row key k f t = update_where (\<lambda>r. key r = k) f t"

definition delete_where :: "('r \<Rightarrow> bool) \<Rightarrow> 'r list \<Rightarrow> 'r list" where
  "delete_where P t = filter (\<lambda>r. \<not> P r) t"

definition unique_keys :: "('r \<Rightarrow> 'k) \<Rightarrow> 'r list \<Rightarrow> bool" where
  "unique_keys key t \<longleftrightarrow> distinct (map key t)"

lemma find_row_simps [simp, table_simps]:
  "find_row key k [] = None"
  "find_row key k (r # t) = (if key r = k then Some r else find_row key k t)"
  by (simp_all add: find_row_def)

lemma find_row_Some: "find_row key k t = Some r \<Longrightarrow> r \<in> set t \<and> key r = k"
  by (induction t) (auto split: if_splits)

lemma find_row_None: "find_row key k t = None \<longleftrightarrow> k \<notin> key ` set t"
  by (induction t) auto

lemma find_row_unique:
  "unique_keys key t \<Longrightarrow> r \<in> set t \<Longrightarrow> find_row key (key r) t = Some r"
  by (induction t) (auto simp: unique_keys_def)

lemma find_row_append [table_simps]:
  "find_row key k (t @ u) = (case find_row key k t of None \<Rightarrow> find_row key k u | Some r \<Rightarrow> Some r)"
  by (induction t) auto

lemma update_where_simps [simp, table_simps]:
  "update_where P f [] = []"
  "update_where P f (r # t) = (if P r then f r else r) # update_where P f t"
  by (simp_all add: update_where_def)

lemma update_row_simps [simp, table_simps]:
  "update_row key k f [] = []"
  "update_row key k f (r # t) = (if key r = k then f r else r) # update_row key k f t"
  by (simp_all add: update_row_def)

lemma delete_where_simps [simp, table_simps]:
  "delete_where P [] = []"
  "delete_where P (r # t) = (if P r then delete_where P t else r # delete_where P t)"
  by (simp_all add: delete_where_def)

lemma length_update_where [simp, table_simps]: "length (update_where P f t) = length t"
  by (simp add: update_where_def)

lemma length_update_row [simp, table_simps]: "length (update_row key k f t) = length t"
  by (simp add: update_row_def)

lemma set_delete_where [simp, table_simps]: "set (delete_where P t) = {r \<in> set t. \<not> P r}"
  by (auto simp: delete_where_def)

lemma set_update_where: "set (update_where P f t) = (\<lambda>r. if P r then f r else r) ` set t"
  by (simp add: update_where_def)

lemma set_update_row:
  "set (update_row key k f t) = (\<lambda>r. if key r = k then f r else r) ` set t"
  by (simp add: update_row_def set_update_where)

lemma map_key_update_row:
  "(\<And>r. key' (f r) = key' r) \<Longrightarrow> map key' (update_row key k f t) = map key' t"
  by (induction t) auto

lemma map_key_update_where:
  "(\<And>r. key' (f r) = key' r) \<Longrightarrow> map key' (update_where P f t) = map key' t"
  by (induction t) auto

lemma find_update_row:
  assumes "\<And>r. key (f r) = key r"
  shows "find_row key j (update_row key k f t) =
    (if j = k then map_option f (find_row key k t) else find_row key j t)"
  by (induction t) (auto simp: assms)

lemma find_delete_where:
  assumes "unique_keys key t"
  shows "find_row key k (delete_where P t) =
    (case find_row key k t of None \<Rightarrow> None | Some r \<Rightarrow> if P r then None else Some r)"
  using assms
proof (induction t)
  case (Cons r t)
  then have IH: "find_row key k (delete_where P t) =
    (case find_row key k t of None \<Rightarrow> None | Some r \<Rightarrow> if P r then None else Some r)"
    by (simp add: unique_keys_def)
  show ?case
  proof (cases "key r = k \<and> P r")
    case True
    with Cons.prems have "k \<notin> key ` set t" by (auto simp: unique_keys_def)
    then have "find_row key k t = None" by (simp add: find_row_None)
    with True IH show ?thesis by simp
  next
    case False
    with IH show ?thesis by auto
  qed
qed simp

lemma unique_keys_update_row:
  "(\<And>r. key (f r) = key r) \<Longrightarrow> unique_keys key (update_row key' k f t) = unique_keys key t"
  by (simp add: unique_keys_def map_key_update_row)

lemma unique_keys_delete_where: "unique_keys key t \<Longrightarrow> unique_keys key (delete_where P t)"
  by (auto simp: unique_keys_def delete_where_def intro: distinct_map_filter)

lemma unique_keys_snoc:
  "unique_keys key (t @ [r]) \<longleftrightarrow> unique_keys key t \<and> key r \<notin> key ` set t"
  by (auto simp: unique_keys_def)

text \<open>
  The contract of a table keyed by its primary key: reading back an updated or inserted
  row, and frame conditions for the other keys.
\<close>

locale keyed_table =
  fixes key :: "'r \<Rightarrow> 'k"
    and get :: "'k \<Rightarrow> 't \<Rightarrow> 'r option"
    and put :: "'k \<Rightarrow> ('r \<Rightarrow> 'r) \<Rightarrow> 't \<Rightarrow> 't"
    and add :: "'r \<Rightarrow> 't \<Rightarrow> 't"
  assumes get_key: "get k t = Some r \<Longrightarrow> key r = k"
    and get_put: "(\<And>r. key (f r) = key r) \<Longrightarrow>
      get j (put k f t) = (if j = k then map_option f (get k t) else get j t)"
    and get_add: "get (key r) t = None \<Longrightarrow>
      get j (add r t) = (if j = key r then Some r else get j t)"
begin

lemma get_put_same:
  "(\<And>r. key (f r) = key r) \<Longrightarrow> get k t = Some r \<Longrightarrow> get k (put k f t) = Some (f r)"
  by (simp add: get_put)

lemma get_put_other:
  "(\<And>r. key (f r) = key r) \<Longrightarrow> j \<noteq> k \<Longrightarrow> get j (put k f t) = get j t"
  by (simp add: get_put)

lemma get_put_missing:
  "(\<And>r. key (f r) = key r) \<Longrightarrow> get k t = None \<Longrightarrow> get j (put k f t) = get j t"
  by (auto simp: get_put)

lemma get_put_put:
  assumes "\<And>r. key (f r) = key r" and "\<And>r. key (g r) = key r"
  shows "get j (put k g (put k f t)) = get j (put k (g \<circ> f) t)"
  using assms by (simp add: get_put option.map_comp)

lemma get_put_changed:
  assumes "\<And>r. key (f r) = key r" and "get j (put k f t) = Some r"
  shows "(j = k \<and> (\<exists>r0. get k t = Some r0 \<and> r = f r0)) \<or> (j \<noteq> k \<and> get j t = Some r)"
  using assms by (auto simp: get_put split: if_splits)

end

text \<open>Every table of the model is an instance, whatever its key field is.\<close>

interpretation row_table: keyed_table key "find_row key" "update_row key" "\<lambda>r t. t @ [r]" for key
proof unfold_locales
  fix k t r
  assume "find_row key k t = Some r"
  then show "key r = k" by (auto dest: find_row_Some)
next
  fix f j k t
  assume "\<And>r. key (f r) = key r"
  then show "find_row key j (update_row key k f t) =
      (if j = k then map_option f (find_row key k t) else find_row key j t)"
    by (rule find_update_row)
next
  fix r t j
  assume "find_row key (key r) t = None"
  then show "find_row key j (t @ [r]) = (if j = key r then Some r else find_row key j t)"
    by (auto simp: find_row_append split: option.splits)
qed

text \<open>Sums over a table of which one row is rewritten.\<close>

lemma sum_list_update_row:
  fixes g :: "'r \<Rightarrow> int"
  assumes "unique_keys key t" and "find_row key k t = Some r"
  shows "sum_list (map g (update_row key k f t)) = sum_list (map g t) - g r + g (f r)"
  using assms
proof (induction t)
  case (Cons x t)
  show ?case
  proof (cases "key x = k")
    case True
    then have "k \<notin> key ` set t" using Cons.prems(1) by (auto simp: unique_keys_def)
    then have "update_row key k f t = t"
      by (induction t) auto
    then show ?thesis using True Cons.prems(2) by simp
  next
    case False
    then show ?thesis using Cons by (simp add: unique_keys_def)
  qed
qed simp

lemma length_filter_sum: "int (length (filter P xs)) = sum_list (map (\<lambda>x. if P x then 1 else 0) xs)"
  by (induction xs) auto

lemma find_row_member:
  "unique_keys key t \<Longrightarrow> r \<in> set t \<Longrightarrow> find_row key (key r) t = Some r"
  by (induction t) (auto simp: unique_keys_def)

section \<open>Python strings\<close>

text \<open>
  A Python \<open>str\<close> is a list of characters; the model covers code points below 256 (the
  range of the type \<^typ>\<open>char\<close>).
\<close>

definition is_space :: "char \<Rightarrow> bool" where
  "is_space c \<longleftrightarrow> (let n = of_char c :: nat in (9 \<le> n \<and> n \<le> 13) \<or> (28 \<le> n \<and> n \<le> 32) \<or> n = 133 \<or> n = 160)"

definition str_strip :: "string \<Rightarrow> string" where
  "str_strip s = rev (dropWhile is_space (rev (dropWhile is_space s)))"

definition is_lower_ascii :: "char \<Rightarrow> bool" where
  "is_lower_ascii c \<longleftrightarrow> (let n = of_char c :: nat in 97 \<le> n \<and> n \<le> 122)"

definition is_upper_ascii :: "char \<Rightarrow> bool" where
  "is_upper_ascii c \<longleftrightarrow> (let n = of_char c :: nat in 65 \<le> n \<and> n \<le> 90)"

definition is_digit :: "char \<Rightarrow> bool" where
  "is_digit c \<longleftrightarrow> (let n = of_char c :: nat in 48 \<le> n \<and> n \<le> 57)"

definition starts_with :: "string \<Rightarrow> string \<Rightarrow> bool" where
  "starts_with p s \<longleftrightarrow> take (length p) s = p"

text \<open>\<open>s.split(c)\<close> for a one-character separator.\<close>

fun split_char :: "char \<Rightarrow> string \<Rightarrow> string list" where
  "split_char c [] = [[]]"
| "split_char c (x # xs) =
     (if x = c then [] # split_char c xs
      else (case split_char c xs of [] \<Rightarrow> [[x]] | w # ws \<Rightarrow> (x # w) # ws))"

lemma split_char_nonempty [simp]: "split_char c s \<noteq> []"
  by (induction s) (auto split: list.splits)

text \<open>\<open>dict.fromkeys(xs)\<close> used as order-preserving removal of duplicates.\<close>

fun dedup :: "'a list \<Rightarrow> 'a list" where
  "dedup [] = []"
| "dedup (x # xs) = x # filter (\<lambda>y. y \<noteq> x) (dedup xs)"

lemma set_dedup [simp]: "set (dedup xs) = set xs"
  by (induction xs) auto

lemma distinct_dedup [simp]: "distinct (dedup xs)"
  by (induction xs) auto

section \<open>Transition systems\<close>

text \<open>
  A component as an initial condition and a step relation, with an invariant that holds
  at the start and is kept by each step.
\<close>

inductive reach :: "('s \<Rightarrow> bool) \<Rightarrow> ('s \<Rightarrow> 's \<Rightarrow> bool) \<Rightarrow> 's \<Rightarrow> bool"
  for init :: "'s \<Rightarrow> bool" and step :: "'s \<Rightarrow> 's \<Rightarrow> bool" where
  reach_init: "init s \<Longrightarrow> reach init step s"
| reach_step: "reach init step s \<Longrightarrow> step s t \<Longrightarrow> reach init step t"

locale transition_system =
  fixes init :: "'s \<Rightarrow> bool"
    and step :: "'s \<Rightarrow> 's \<Rightarrow> bool"
    and inv :: "'s \<Rightarrow> bool"
  assumes inv_init: "init s \<Longrightarrow> inv s"
    and inv_step: "inv s \<Longrightarrow> step s t \<Longrightarrow> inv t"
begin

lemma reach_inv: "reach init step s \<Longrightarrow> inv s"
  by (induction rule: reach.induct) (auto intro: inv_init inv_step)

lemma steps_inv: "step\<^sup>*\<^sup>* s t \<Longrightarrow> inv s \<Longrightarrow> inv t"
  by (induction rule: rtranclp_induct) (auto intro: inv_step)

end

end
