(* ===== verification/Domain.thy ===== *)
theory Domain
  imports Prelude
begin

text \<open>
  The assessment domain (\<open>domain/runs.py\<close>, \<open>domain/instruments.py\<close>): the sixteen run
  statuses, the table of allowed transitions and the check that guards status writes, the
  asset types and the normalisation of tickers.
\<close>

section \<open>Run statuses\<close>

datatype run_status =
    WAITING_FOR_DATA
  | QUEUED
  | ADMITTED
  | STARTING
  | RUNNING_ANALYSTS
  | RESEARCH_DEBATE
  | TRADER_PLAN
  | RISK_DEBATE
  | PORTFOLIO_DECISION
  | FINALIZING
  | SUCCEEDED
  | FAILED
  | CANCEL_REQUESTED
  | CANCELLING
  | CANCELLED
  | NEEDS_ATTENTION

fun status_value :: "run_status \<Rightarrow> string" where
  "status_value WAITING_FOR_DATA = ''waiting_for_data''"
| "status_value QUEUED = ''queued''"
| "status_value ADMITTED = ''admitted''"
| "status_value STARTING = ''starting''"
| "status_value RUNNING_ANALYSTS = ''running_analysts''"
| "status_value RESEARCH_DEBATE = ''research_debate''"
| "status_value TRADER_PLAN = ''trader_plan''"
| "status_value RISK_DEBATE = ''risk_debate''"
| "status_value PORTFOLIO_DECISION = ''portfolio_decision''"
| "status_value FINALIZING = ''finalizing''"
| "status_value SUCCEEDED = ''succeeded''"
| "status_value FAILED = ''failed''"
| "status_value CANCEL_REQUESTED = ''cancel_requested''"
| "status_value CANCELLING = ''cancelling''"
| "status_value CANCELLED = ''cancelled''"
| "status_value NEEDS_ATTENTION = ''needs_attention''"

definition all_statuses :: "run_status list" where
  "all_statuses = [WAITING_FOR_DATA, QUEUED, ADMITTED, STARTING, RUNNING_ANALYSTS,
     RESEARCH_DEBATE, TRADER_PLAN, RISK_DEBATE, PORTFOLIO_DECISION, FINALIZING, SUCCEEDED,
     FAILED, CANCEL_REQUESTED, CANCELLING, CANCELLED, NEEDS_ATTENTION]"

text \<open>The enum call \<open>RunStatus(value)\<close>: the member with that value, else \<open>ValueError\<close>.\<close>

definition parse_status :: "string \<Rightarrow> run_status result" where
  "parse_status v = (case find (\<lambda>s. status_value s = v) all_statuses of
     None \<Rightarrow> Inl (ValueError ''RunStatus'') | Some s \<Rightarrow> Inr s)"

lemma all_statuses_UNIV: "s \<in> set all_statuses"
  by (cases s) (simp_all add: all_statuses_def)

lemma status_value_inject [simp]: "status_value s = status_value t \<longleftrightarrow> s = t"
  by (cases s; cases t) simp_all

lemma parse_status_value [simp]: "parse_status (status_value s) = Inr s"
  by (cases s) (simp_all add: parse_status_def all_statuses_def)

lemma parse_status_Inr: "parse_status v = Inr s \<longleftrightarrow> v = status_value s"
proof
  assume "parse_status v = Inr s"
  then have "find (\<lambda>s. status_value s = v) all_statuses = Some s"
    by (simp add: parse_status_def split: option.splits)
  then show "v = status_value s" by (auto simp: find_Some_iff)
qed simp

definition terminal_statuses :: "run_status set" where
  "terminal_statuses = {SUCCEEDED, FAILED, CANCELLED, NEEDS_ATTENTION}"

text \<open>\<open>ALLOWED_TRANSITIONS.get(current, set())\<close>: terminal statuses have no entry.\<close>

fun allowed_transitions :: "run_status \<Rightarrow> run_status set" where
  "allowed_transitions WAITING_FOR_DATA = {QUEUED, FAILED, CANCELLED, NEEDS_ATTENTION}"
| "allowed_transitions QUEUED = {ADMITTED, CANCELLED}"
| "allowed_transitions ADMITTED = {STARTING, CANCEL_REQUESTED, QUEUED}"
| "allowed_transitions STARTING = {RUNNING_ANALYSTS, FAILED, CANCEL_REQUESTED}"
| "allowed_transitions RUNNING_ANALYSTS = {RESEARCH_DEBATE, FAILED, CANCEL_REQUESTED}"
| "allowed_transitions RESEARCH_DEBATE = {TRADER_PLAN, FAILED, CANCEL_REQUESTED}"
| "allowed_transitions TRADER_PLAN = {RISK_DEBATE, FAILED, CANCEL_REQUESTED}"
| "allowed_transitions RISK_DEBATE = {PORTFOLIO_DECISION, FAILED, CANCEL_REQUESTED}"
| "allowed_transitions PORTFOLIO_DECISION = {FINALIZING, FAILED, CANCEL_REQUESTED}"
| "allowed_transitions FINALIZING = {SUCCEEDED, FAILED, CANCEL_REQUESTED}"
| "allowed_transitions CANCEL_REQUESTED = {CANCELLING, CANCELLED}"
| "allowed_transitions CANCELLING = {CANCELLED, NEEDS_ATTENTION}"
| "allowed_transitions SUCCEEDED = {}"
| "allowed_transitions FAILED = {}"
| "allowed_transitions CANCELLED = {}"
| "allowed_transitions NEEDS_ATTENTION = {}"

definition assert_transition :: "run_status \<Rightarrow> run_status \<Rightarrow> unit result" where
  "assert_transition current target =
     (if target \<notin> allowed_transitions current
      then Inl (ValueError (''illegal run transition: '' @ status_value current @ '' -> '' @
             status_value target))
      else Inr ())"

lemma assert_transition_Inr [simp, result_simps]:
  "assert_transition s t = Inr u \<longleftrightarrow> t \<in> allowed_transitions s"
  by (simp add: assert_transition_def)

section \<open>The lifecycle as a transition system\<close>

inductive allowed_step :: "run_status \<Rightarrow> run_status \<Rightarrow> bool" where
  "assert_transition s t = Inr () \<Longrightarrow> allowed_step s t"

inductive_simps allowed_step_iff: "allowed_step s t"

text \<open>
  How far a run has come. Every allowed transition but the requeue of an admitted run
  moves forward, so a run makes only finitely many of them.
\<close>

fun progress_rank :: "run_status \<Rightarrow> nat" where
  "progress_rank WAITING_FOR_DATA = 0"
| "progress_rank QUEUED = 1"
| "progress_rank ADMITTED = 2"
| "progress_rank STARTING = 3"
| "progress_rank RUNNING_ANALYSTS = 4"
| "progress_rank RESEARCH_DEBATE = 5"
| "progress_rank TRADER_PLAN = 6"
| "progress_rank RISK_DEBATE = 7"
| "progress_rank PORTFOLIO_DECISION = 8"
| "progress_rank FINALIZING = 9"
| "progress_rank CANCEL_REQUESTED = 10"
| "progress_rank CANCELLING = 11"
| "progress_rank SUCCEEDED = 12"
| "progress_rank FAILED = 12"
| "progress_rank CANCELLED = 12"
| "progress_rank NEEDS_ATTENTION = 12"

lemma allowed_step_rank:
  "allowed_step s t \<Longrightarrow> (s = ADMITTED \<and> t = QUEUED) \<or> progress_rank s < progress_rank t"
  by (cases s) (auto simp: allowed_step_iff)

lemma rank_le_12: "progress_rank s \<le> 12"
  by (cases s) simp_all

lemma terminal_iff_no_step:
  "s \<in> terminal_statuses \<longleftrightarrow> (\<forall>t. assert_transition s t \<noteq> Inr ())"
  by (cases s) (auto simp: terminal_statuses_def)

lemma reaches_cancelled:
  "s \<notin> terminal_statuses \<Longrightarrow> allowed_step\<^sup>*\<^sup>* s CANCELLED"
proof -
  have cr: "allowed_step\<^sup>*\<^sup>* CANCEL_REQUESTED CANCELLED"
    by (rule r_into_rtranclp) (simp add: allowed_step_iff)
  assume "s \<notin> terminal_statuses"
  then consider "CANCEL_REQUESTED \<in> allowed_transitions s" | "CANCELLED \<in> allowed_transitions s"
    by (cases s) (auto simp: terminal_statuses_def)
  then show ?thesis
  proof cases
    case 1
    then have "allowed_step s CANCEL_REQUESTED" by (simp add: allowed_step_iff)
    then show ?thesis using cr by (rule converse_rtranclp_into_rtranclp)
  next
    case 2
    then show ?thesis by (auto simp: allowed_step_iff intro: r_into_rtranclp)
  qed
qed

text \<open>
  C1. The transition table: the four terminal statuses are exactly the statuses the guard
  lets no run leave, every other status can still be brought to \<open>cancelled\<close> by allowed
  transitions, and every allowed transition but the requeue of an admitted run moves
  strictly forward, so no run can cycle through the pipeline.
\<close>

theorem run_lifecycle:
  "(s \<in> terminal_statuses \<longleftrightarrow> (\<forall>t. assert_transition s t \<noteq> Inr ()))
   \<and> (s \<in> terminal_statuses \<or> allowed_step\<^sup>*\<^sup>* s CANCELLED)
   \<and> (assert_transition s t = Inr () \<longrightarrow>
         (s = ADMITTED \<and> t = QUEUED) \<or> progress_rank s < progress_rank t)"
  using terminal_iff_no_step reaches_cancelled allowed_step_rank [of s t]
  by (auto simp: allowed_step_iff)

theorem run_lifecycle_witness:
  "assert_transition QUEUED ADMITTED = Inr () \<and> progress_rank QUEUED < progress_rank ADMITTED"
  using run_lifecycle [of QUEUED ADMITTED] by (simp add: assert_transition_def)

section \<open>Instruments\<close>

datatype asset_type = STOCK | FUND | CRYPTO

fun asset_value :: "asset_type \<Rightarrow> string" where
  "asset_value STOCK = ''stock''"
| "asset_value FUND = ''fund''"
| "asset_value CRYPTO = ''crypto''"

definition parse_asset_type :: "string \<Rightarrow> asset_type result" where
  "parse_asset_type v = (if v = ''stock'' then Inr STOCK else if v = ''fund'' then Inr FUND
     else if v = ''crypto'' then Inr CRYPTO else Inl (ValueError ''AssetType''))"

lemma asset_value_inject [simp]: "asset_value a = asset_value b \<longleftrightarrow> a = b"
  by (cases a; cases b) simp_all

text \<open>
  \<open>str.upper\<close> on one code point below 256. The micro sign and y with diaeresis are mapped
  outside that range; they stay as they are here, and are refused by the pattern either way.
\<close>

definition upper_char :: "char \<Rightarrow> string" where
  "upper_char c = (let n = of_char c :: nat in
     if 97 \<le> n \<and> n \<le> 122 then [char_of (n - 32)]
     else if n = 223 then ''SS''
     else if 224 \<le> n \<and> n \<le> 254 \<and> n \<noteq> 247 then [char_of (n - 32)]
     else [c])"

definition str_upper :: "string \<Rightarrow> string" where
  "str_upper s = concat (map upper_char s)"

text \<open>The two character classes of the pattern \<open>_TICKER\<close>.\<close>

definition ticker_first :: "char \<Rightarrow> bool" where
  "ticker_first c \<longleftrightarrow> is_upper_ascii c \<or> is_digit c \<or> c = CHR ''^''"

definition ticker_rest :: "char \<Rightarrow> bool" where
  "ticker_rest c \<longleftrightarrow> is_upper_ascii c \<or> is_digit c \<or> c \<in> set ''.^=_-''"

definition ticker_fullmatch :: "string \<Rightarrow> bool" where
  "ticker_fullmatch s = (case s of [] \<Rightarrow> False
     | c # cs \<Rightarrow> ticker_first c \<and> length cs \<le> 31 \<and> list_all ticker_rest cs)"

definition canonicalize_ticker :: "string \<Rightarrow> string result" where
  "canonicalize_ticker raw =
     (let ticker = str_upper (str_strip raw)
      in if \<not> ticker_fullmatch ticker then Inl (ValueError ''invalid ticker'') else Inr ticker)"

lemma ticker_first_rest: "ticker_first c \<Longrightarrow> ticker_rest c"
  by (auto simp: ticker_first_def ticker_rest_def)

lemma ticker_fullmatch_chars: "ticker_fullmatch s \<Longrightarrow> c \<in> set s \<Longrightarrow> ticker_rest c"
  by (auto simp: ticker_fullmatch_def list_all_iff dest: ticker_first_rest split: list.splits)

lemma ticker_rest_not_space: "ticker_rest c \<Longrightarrow> \<not> is_space c"
  by (auto simp: ticker_rest_def is_upper_ascii_def is_digit_def is_space_def Let_def)

lemma ticker_rest_upper: "ticker_rest c \<Longrightarrow> upper_char c = [c]"
  by (auto simp: ticker_rest_def is_upper_ascii_def is_digit_def upper_char_def Let_def)

lemma str_strip_id: "(\<And>c. c \<in> set s \<Longrightarrow> \<not> is_space c) \<Longrightarrow> str_strip s = s"
proof -
  assume ns: "\<And>c. c \<in> set s \<Longrightarrow> \<not> is_space c"
  have dw: "dropWhile is_space xs = xs" if "set xs \<subseteq> set s" for xs
    using that ns by (cases xs) auto
  show ?thesis by (simp add: str_strip_def dw)
qed

lemma str_upper_id: "(\<And>c. c \<in> set s \<Longrightarrow> upper_char c = [c]) \<Longrightarrow> str_upper s = s"
  by (induction s) (auto simp: str_upper_def)

lemma canonicalize_ticker_Inr:
  "canonicalize_ticker raw = Inr t \<longleftrightarrow> t = str_upper (str_strip raw) \<and> ticker_fullmatch t"
  unfolding canonicalize_ticker_def Let_def by (cases "ticker_fullmatch (str_upper (str_strip raw))") auto

lemma canonicalize_fullmatch: "ticker_fullmatch t \<Longrightarrow> canonicalize_ticker t = Inr t"
  using ticker_fullmatch_chars ticker_rest_not_space ticker_rest_upper
  by (simp add: canonicalize_ticker_Inr str_strip_id str_upper_id)

text \<open>
  C2. Normalising a ticker is idempotent, and an accepted ticker has one to thirty-two
  characters, all of them upper-case letters, digits or one of the five punctuation marks
  of the pattern: what is stored in \<open>canonical_ticker\<close> is a normal form.
\<close>

theorem canonical_ticker_normal_form:
  assumes "canonicalize_ticker raw = Inr t"
  shows "canonicalize_ticker t = Inr t \<and> 1 \<le> length t \<and> length t \<le> 32
    \<and> list_all ticker_rest t \<and> ticker_first (hd t)"
proof -
  from assms have fm: "ticker_fullmatch t" by (auto simp: canonicalize_ticker_Inr)
  then have "1 \<le> length t \<and> length t \<le> 32 \<and> ticker_first (hd t)"
    by (auto simp: ticker_fullmatch_def split: list.splits)
  with fm show ?thesis
    by (auto simp: canonicalize_fullmatch list_all_iff dest: ticker_fullmatch_chars)
qed

theorem canonical_ticker_normal_form_witness:
  "canonicalize_ticker '' brk-b '' = Inr ''BRK-B'' \<and> canonicalize_ticker ''BRK-B'' = Inr ''BRK-B''"
proof -
  have h: "canonicalize_ticker '' brk-b '' = Inr ''BRK-B''" by code_simp
  show ?thesis using h canonical_ticker_normal_form [OF h] by simp
qed

end
