(* ===== verification/SchedPolicy.thy ===== *)
theory SchedPolicy
  imports Domain Complex_Main
begin

text \<open>
  The admission policy (\<open>scheduler/policy.py\<close>): what the scheduler knows of the gateway and
  of the host, the limits an administrator sets, and the decision with its reasons. The
  percentages and sizes are Python floats; the code only compares them, so they are kept
  as rationals (a NaN is not modelled).
\<close>

section \<open>Snapshots\<close>

record gateway_snapshot =
  gw_active_completions :: int
  gw_model :: string
  gw_reasoning_effort :: string
  gw_snapshot_id :: string
  gw_latency_ms :: int

record system_snapshot =
  sys_cpu_percent :: rat
  sys_available_memory_gib :: rat
  sys_available_disk_gib :: rat
  sys_available_disk_percent :: rat
  sys_cpu_above_limit_for_two_minutes :: bool

record capacity_snapshot =
  cap_active_runs :: int
  cap_gateway :: gateway_snapshot
  cap_system :: system_snapshot
  cap_open_circuits :: "string list"

record admission_decision =
  ad_allowed :: bool
  ad_reasons :: "string list"

section \<open>The policy\<close>

record admission_policy =
  pol_max_running_total :: int
  pol_hard_max_running_total :: int
  pol_gateway_active_limit :: int
  pol_cpu_limit_percent :: rat
  pol_minimum_memory_gib :: rat
  pol_minimum_disk_gib :: rat
  pol_minimum_disk_percent :: rat

definition ABSOLUTE_MAX_RUNNING_TOTAL :: int where
  "ABSOLUTE_MAX_RUNNING_TOTAL = 32"

definition default_policy :: admission_policy where
  "default_policy = \<lparr>pol_max_running_total = 2,
     pol_hard_max_running_total = ABSOLUTE_MAX_RUNNING_TOTAL,
     pol_gateway_active_limit = 3, pol_cpu_limit_percent = 85, pol_minimum_memory_gib = 8,
     pol_minimum_disk_gib = 10, pol_minimum_disk_percent = 10\<rparr>"

text \<open>\<open>__post_init__\<close>: a policy object exists only if it passes these checks.\<close>

definition policy_post_init :: "admission_policy \<Rightarrow> admission_policy result" where
  "policy_post_init p =
     (if \<not> (1 \<le> pol_max_running_total p
            \<and> pol_max_running_total p \<le> pol_hard_max_running_total p
            \<and> pol_hard_max_running_total p \<le> ABSOLUTE_MAX_RUNNING_TOTAL)
      then Inl (ValueError ''scheduler capacity exceeds the hard maximum of 32'')
      else if pol_gateway_active_limit p < 1
      then Inl (ValueError ''gateway active limit must be positive'')
      else Inr p)"

definition policy_evaluate :: "admission_policy \<Rightarrow> capacity_snapshot \<Rightarrow> admission_decision" where
  "policy_evaluate p s =
     (let reasons =
        (if cap_active_runs s \<ge> pol_max_running_total p then [''run_capacity''] else []) @
        (if gw_active_completions (cap_gateway s) \<ge> pol_gateway_active_limit p
         then [''gateway_capacity''] else []) @
        (if sys_cpu_above_limit_for_two_minutes (cap_system s) then [''cpu''] else []) @
        (if sys_available_memory_gib (cap_system s) < pol_minimum_memory_gib p
         then [''memory''] else []) @
        (if sys_available_disk_gib (cap_system s) < pol_minimum_disk_gib p
         then [''disk_gib''] else []) @
        (if sys_available_disk_percent (cap_system s) < pol_minimum_disk_percent p
         then [''disk_percent''] else []) @
        (if cap_open_circuits s \<noteq> [] then [''circuit_breaker''] else [])
      in \<lparr>ad_allowed = (reasons = []), ad_reasons = reasons\<rparr>)"

lemma policy_post_init_Inr:
  "policy_post_init p = Inr q \<longleftrightarrow> q = p \<and> 1 \<le> pol_max_running_total p
     \<and> pol_max_running_total p \<le> pol_hard_max_running_total p
     \<and> pol_hard_max_running_total p \<le> 32 \<and> 1 \<le> pol_gateway_active_limit p"
  by (auto simp: policy_post_init_def ABSOLUTE_MAX_RUNNING_TOTAL_def)

lemma policy_evaluate_allowed:
  "ad_allowed (policy_evaluate p s) \<longleftrightarrow>
     cap_active_runs s < pol_max_running_total p
     \<and> gw_active_completions (cap_gateway s) < pol_gateway_active_limit p
     \<and> \<not> sys_cpu_above_limit_for_two_minutes (cap_system s)
     \<and> pol_minimum_memory_gib p \<le> sys_available_memory_gib (cap_system s)
     \<and> pol_minimum_disk_gib p \<le> sys_available_disk_gib (cap_system s)
     \<and> pol_minimum_disk_percent p \<le> sys_available_disk_percent (cap_system s)
     \<and> cap_open_circuits s = []"
  by (auto simp: policy_evaluate_def Let_def)

lemma policy_evaluate_reasons:
  "ad_allowed (policy_evaluate p s) \<longleftrightarrow> ad_reasons (policy_evaluate p s) = []"
  by (simp add: policy_evaluate_def Let_def)

lemma policy_evaluate_open_circuit:
  "cap_open_circuits s \<noteq> [] \<Longrightarrow> \<not> ad_allowed (policy_evaluate p s)"
  by (simp add: policy_evaluate_allowed)

section \<open>The host probe\<close>

text \<open>
  \<open>SystemProbe.sample\<close> (\<open>scheduler/probes.py\<close>): the state is the time since which the
  one-minute load has been above the limit. The readings of the operating system are
  arguments.
\<close>

record host_reading =
  hr_now :: rat
  hr_load_percent :: rat
  hr_memory_available :: rat
  hr_disk_free :: rat
  hr_disk_percent :: rat

definition GIB :: rat where "GIB = 1024 ^ 3"

text \<open>\<open>_one_minute_cpu_percent\<close> where \<open>os.getloadavg\<close> exists.\<close>

definition one_minute_cpu_percent :: "int \<Rightarrow> rat \<Rightarrow> rat" where
  "one_minute_cpu_percent cpu_count one_minute_load =
     (let n = (if cpu_count = 0 then 1 else cpu_count)
      in min 100 (max 0 (one_minute_load / of_int n * 100)))"

definition probe_sample ::
    "rat \<Rightarrow> rat \<Rightarrow> rat option \<Rightarrow> host_reading \<Rightarrow> rat option \<times> system_snapshot" where
  "probe_sample cpu_limit_percent sustained_seconds since r =
     (let now = hr_now r;
          since' = (if hr_load_percent r > cpu_limit_percent
                    then (case since of None \<Rightarrow> Some now | Some t \<Rightarrow> Some t)
                    else None);
          sustained = (case since' of None \<Rightarrow> False | Some t \<Rightarrow> now - t \<ge> sustained_seconds)
      in (since',
          \<lparr>sys_cpu_percent = hr_load_percent r,
           sys_available_memory_gib = hr_memory_available r / GIB,
           sys_available_disk_gib = hr_disk_free r / GIB,
           sys_available_disk_percent = 100 - hr_disk_percent r,
           sys_cpu_above_limit_for_two_minutes = sustained\<rparr>))"

fun probe_run ::
    "rat \<Rightarrow> rat \<Rightarrow> rat option \<Rightarrow> host_reading list \<Rightarrow> rat option \<times> system_snapshot list" where
  "probe_run cap dur since [] = (since, [])"
| "probe_run cap dur since (r # rs) =
     (let (since', s) = probe_sample cap dur since r;
          (since'', ss) = probe_run cap dur since' rs
      in (since'', s # ss))"

lemma probe_run_append:
  "probe_run cap dur since (rs @ [r]) =
     (let (since', ss) = probe_run cap dur since rs;
          (since'', s) = probe_sample cap dur since' r
      in (since'', ss @ [s]))"
  by (induction rs arbitrary: since) (auto simp: Let_def split: prod.splits)

text \<open>
  The remembered time after a run of samples: the time of the first sample of the last
  uninterrupted stretch of high samples.
\<close>

definition high_suffix :: "rat \<Rightarrow> host_reading list \<Rightarrow> host_reading list" where
  "high_suffix cap rs = rev (takeWhile (\<lambda>r. hr_load_percent r > cap) (rev rs))"

lemma high_suffix_snoc:
  "high_suffix cap (rs @ [r]) = (if hr_load_percent r > cap then high_suffix cap rs @ [r] else [])"
  by (simp add: high_suffix_def)

lemma probe_run_since:
  "fst (probe_run cap dur None rs) =
     (case high_suffix cap rs of [] \<Rightarrow> None | r # _ \<Rightarrow> Some (hr_now r))"
proof (induction rs rule: rev_induct)
  case Nil
  then show ?case by (simp add: high_suffix_def)
next
  case (snoc r rs)
  then show ?case
    by (cases "high_suffix cap rs")
       (auto simp: probe_run_append probe_sample_def high_suffix_snoc Let_def
             split: prod.splits option.splits)
qed

text \<open>
  The CPU guard reports sustained overload exactly when the last sample and all samples
  back to some earlier one were above the limit and that earlier one is at least the
  required duration old: one sample at or below the limit resets it, and a short burst
  never trips it.
\<close>

theorem cpu_guard_sustained:
  "sys_cpu_above_limit_for_two_minutes (last (snd (probe_run cap dur None (rs @ [r])))) \<longleftrightarrow>
     (case high_suffix cap (rs @ [r]) of [] \<Rightarrow> False | r0 # _ \<Rightarrow> hr_now r - hr_now r0 \<ge> dur)"
  using probe_run_since [of cap dur rs]
  by (cases "high_suffix cap rs")
     (auto simp: probe_run_append probe_sample_def high_suffix_snoc Let_def
           split: prod.splits option.splits)

end
