(* ===== verification/Circuits.thy ===== *)
theory Circuits
  imports SchedPolicy "HOL-Library.List_Lexorder" "HOL-Library.Char_ord"
begin

text \<open>
  The circuit breakers of the gateway and of the data vendors (\<open>scheduler/circuits.py\<close>).
  The state is the three tables the repository touches: breakers, gateway samples and
  vendor samples. Times are microseconds. The three values of the status column are a
  datatype.
\<close>

section \<open>State\<close>

datatype breaker_status = Closed | Open | HalfOpen

record breaker =
  cb_name :: string
  cb_status :: breaker_status
  cb_failure_count :: int
  cb_opened_until :: "int option"
  cb_backoff_seconds :: int
  cb_last_error_code :: "string option"

record gateway_sample =
  gs_sampled_at :: int
  gs_healthy :: bool
  gs_latency_ms :: int
  gs_active_completions :: int

record vendor_sample =
  vs_sampled_at :: int
  vs_healthy :: bool
  vs_latency_ms :: int
  vs_vendor :: string
  vs_category :: string

record circuits =
  ct_breakers :: "breaker list"
  ct_gateway_samples :: "gateway_sample list"
  ct_vendor_samples :: "vendor_sample list"

definition SECOND :: int where "SECOND = 1000000"

definition FAILURE_WINDOW :: int where "FAILURE_WINDOW = 60 * SECOND"
definition FAILURES_TO_OPEN :: int where "FAILURES_TO_OPEN = 3"
definition INITIAL_BACKOFF_SECONDS :: int where "INITIAL_BACKOFF_SECONDS = 300"
definition MAX_BACKOFF_SECONDS :: int where "MAX_BACKOFF_SECONDS = 1800"

lemmas circuit_consts =
  SECOND_def FAILURE_WINDOW_def FAILURES_TO_OPEN_def INITIAL_BACKOFF_SECONDS_def
  MAX_BACKOFF_SECONDS_def

section \<open>Operations\<close>

definition seed_breaker :: "string \<Rightarrow> breaker" where
  "seed_breaker name = \<lparr>cb_name = name, cb_status = Closed, cb_failure_count = 0,
     cb_opened_until = None, cb_backoff_seconds = INITIAL_BACKOFF_SECONDS,
     cb_last_error_code = None\<rparr>"

text \<open>\<open>_locked_breaker\<close>: insert the seed row unless the name exists, then load the row.\<close>

definition locked_breaker :: "string \<Rightarrow> circuits \<Rightarrow> circuits" where
  "locked_breaker name c =
     (case find_row cb_name name (ct_breakers c) of
        None \<Rightarrow> c\<lparr>ct_breakers := ct_breakers c @ [seed_breaker name]\<rparr>
      | Some _ \<Rightarrow> c)"

definition apply_sample ::
    "bool \<Rightarrow> int \<Rightarrow> string option \<Rightarrow> int \<Rightarrow> breaker \<Rightarrow> breaker" where
  "apply_sample healthy failures error_code now b =
     (if healthy then
        (if cb_status b = HalfOpen
         then b\<lparr>cb_status := Closed, cb_failure_count := 0, cb_opened_until := None,
                cb_backoff_seconds := INITIAL_BACKOFF_SECONDS, cb_last_error_code := None\<rparr>
         else b)
      else
        (let b1 = b\<lparr>cb_failure_count := failures, cb_last_error_code := error_code\<rparr>
         in if cb_status b1 = HalfOpen then
              (let b2 = b1\<lparr>cb_backoff_seconds :=
                     min (cb_backoff_seconds b1 * 2) MAX_BACKOFF_SECONDS\<rparr>
               in b2\<lparr>cb_status := Open,
                     cb_opened_until := Some (now + cb_backoff_seconds b2 * SECOND)\<rparr>)
            else if cb_status b1 = Closed \<and> failures \<ge> FAILURES_TO_OPEN then
              b1\<lparr>cb_status := Open,
                 cb_opened_until := Some (now + cb_backoff_seconds b1 * SECOND)\<rparr>
            else b1))"

definition gateway_failures :: "int \<Rightarrow> circuits \<Rightarrow> int" where
  "gateway_failures now c = int (length (filter
     (\<lambda>s. now - FAILURE_WINDOW \<le> gs_sampled_at s \<and> gs_sampled_at s \<le> now \<and> \<not> gs_healthy s)
     (ct_gateway_samples c)))"

definition record_gateway_sample ::
    "bool \<Rightarrow> int \<Rightarrow> int \<Rightarrow> string option \<Rightarrow> gateway_snapshot option \<Rightarrow> circuits \<Rightarrow> circuits" where
  "record_gateway_sample healthy latency_ms now error_code snapshot c =
     (let c1 = c\<lparr>ct_gateway_samples := ct_gateway_samples c @
            [\<lparr>gs_sampled_at = now, gs_healthy = healthy, gs_latency_ms = latency_ms,
              gs_active_completions =
                (case snapshot of None \<Rightarrow> 0 | Some g \<Rightarrow> gw_active_completions g)\<rparr>]\<rparr>;
          c2 = locked_breaker ''gateway'' c1;
          failures = gateway_failures now c2
      in c2\<lparr>ct_breakers := update_row cb_name ''gateway''
             (apply_sample healthy failures error_code now) (ct_breakers c2)\<rparr>)"

definition vendor_breaker_name :: "string \<Rightarrow> string \<Rightarrow> string" where
  "vendor_breaker_name category vendor = ''vendor:'' @ category @ '':'' @ vendor"

definition vendor_failures :: "string \<Rightarrow> string \<Rightarrow> int \<Rightarrow> circuits \<Rightarrow> int" where
  "vendor_failures vendor category now c = int (length (filter
     (\<lambda>s. vs_vendor s = vendor \<and> vs_category s = category
        \<and> now - FAILURE_WINDOW \<le> vs_sampled_at s \<and> vs_sampled_at s \<le> now \<and> \<not> vs_healthy s)
     (ct_vendor_samples c)))"

definition record_vendor_sample ::
    "string \<Rightarrow> string \<Rightarrow> bool \<Rightarrow> int \<Rightarrow> int \<Rightarrow> string option \<Rightarrow> circuits \<Rightarrow> circuits" where
  "record_vendor_sample vendor category healthy latency_ms now error_code c =
     (let name = vendor_breaker_name category vendor;
          c1 = c\<lparr>ct_vendor_samples := ct_vendor_samples c @
            [\<lparr>vs_sampled_at = now, vs_healthy = healthy, vs_latency_ms = latency_ms,
              vs_vendor = vendor, vs_category = category\<rparr>]\<rparr>;
          c2 = locked_breaker name c1;
          failures = vendor_failures vendor category now c2
      in c2\<lparr>ct_breakers := update_row cb_name name
             (apply_sample healthy failures error_code now) (ct_breakers c2)\<rparr>)"

text \<open>
  \<open>_is_relevant\<close>. The three-way unpacking of \<open>name.split(":", 2)\<close> raises where the name has
  fewer than two colons.
\<close>

definition after_second_colon :: "string \<Rightarrow> string option" where
  "after_second_colon name =
     (case dropWhile (\<lambda>c. c \<noteq> CHR '':'') name of
        [] \<Rightarrow> None
      | _ # rest \<Rightarrow> (case dropWhile (\<lambda>c. c \<noteq> CHR '':'') rest of
            [] \<Rightarrow> None
          | _ # vendor \<Rightarrow> Some vendor))"

definition is_relevant :: "string list option \<Rightarrow> string \<Rightarrow> bool result" where
  "is_relevant vendors name =
     (if name = ''gateway'' \<or> vendors = None then Inr True
      else if \<not> starts_with ''vendor:'' name then Inr False
      else (case after_second_colon name of
              None \<Rightarrow> Inl (ValueError ''not enough values to unpack'')
            | Some vendor \<Rightarrow> Inr (vendor \<in> set (the vendors))))"

fun filter_relevant :: "string list option \<Rightarrow> string list \<Rightarrow> string list result" where
  "filter_relevant vendors [] = Inr []"
| "filter_relevant vendors (n # ns) =
     bind_result (is_relevant vendors n) (\<lambda>keep.
     bind_result (filter_relevant vendors ns) (\<lambda>rest.
       Inr (if keep then n # rest else rest)))"

definition is_blocking :: "int \<Rightarrow> breaker \<Rightarrow> bool" where
  "is_blocking now b \<longleftrightarrow> cb_status b = HalfOpen
     \<or> (cb_status b = Open
        \<and> (case cb_opened_until b of None \<Rightarrow> True | Some u \<Rightarrow> u > now))"

definition blockers :: "int \<Rightarrow> string list option \<Rightarrow> circuits \<Rightarrow> string list result" where
  "blockers now vendors c =
     filter_relevant vendors (sort (map cb_name (filter (is_blocking now) (ct_breakers c))))"

definition is_expired :: "int \<Rightarrow> breaker \<Rightarrow> bool" where
  "is_expired now b \<longleftrightarrow> cb_status b = Open
     \<and> (case cb_opened_until b of None \<Rightarrow> False | Some u \<Rightarrow> u \<le> now)"

definition to_half_open :: "breaker \<Rightarrow> breaker" where
  "to_half_open b = b\<lparr>cb_status := HalfOpen, cb_opened_until := None\<rparr>"

definition acquire_probe :: "string \<Rightarrow> int \<Rightarrow> circuits \<Rightarrow> bool \<times> circuits" where
  "acquire_probe name now c =
     (case find_row cb_name name (ct_breakers c) of
        None \<Rightarrow> (False, c)
      | Some b \<Rightarrow>
          (if cb_status b \<noteq> Open then (False, c)
           else (case cb_opened_until b of
                   None \<Rightarrow> (False, c)
                 | Some u \<Rightarrow> (if u > now then (False, c)
                     else (True, c\<lparr>ct_breakers :=
                             update_row cb_name name to_half_open (ct_breakers c)\<rparr>)))))"

definition acquire_expired_probes ::
    "int \<Rightarrow> string list option \<Rightarrow> circuits \<Rightarrow> (string list \<times> circuits) result" where
  "acquire_expired_probes now vendors c =
     bind_result (filter_relevant vendors
         (sort (map cb_name (filter (is_expired now) (ct_breakers c))))) (\<lambda>names.
       Inr (names, c\<lparr>ct_breakers :=
         update_where (\<lambda>b. cb_name b \<in> set names) to_half_open (ct_breakers c)\<rparr>))"

section \<open>Which names are relevant\<close>

lemma filter_relevant_Inr:
  "filter_relevant vendors ns = Inr out \<Longrightarrow>
     set out = {n \<in> set ns. is_relevant vendors n = Inr True}"
  by (induction ns arbitrary: out) (auto simp: result_simps split: if_splits)

lemma after_second_colon_vendor:
  "CHR '':'' \<notin> set category \<Longrightarrow>
     after_second_colon (vendor_breaker_name category vendor) = Some vendor"
proof -
  assume "CHR '':'' \<notin> set category"
  then have "dropWhile (\<lambda>c. c \<noteq> CHR '':'') (category @ CHR '':'' # vendor) = CHR '':'' # vendor"
    by (induction category) auto
  then show ?thesis by (simp add: after_second_colon_def vendor_breaker_name_def)
qed

lemma is_relevant_total: "\<exists>r. is_relevant vendors (vendor_breaker_name category vendor) = Inr r"
proof -
  have "dropWhile (\<lambda>c. c \<noteq> CHR '':'') (category @ CHR '':'' # vendor) \<noteq> []"
    by (simp add: dropWhile_eq_Nil_conv)
  then show ?thesis
    by (auto simp: is_relevant_def after_second_colon_def vendor_breaker_name_def starts_with_def
             split: list.splits option.splits)
qed

section \<open>The invariant\<close>

definition breaker_ok :: "breaker \<Rightarrow> bool" where
  "breaker_ok b \<longleftrightarrow> (cb_status b = Open \<longleftrightarrow> cb_opened_until b \<noteq> None)
     \<and> INITIAL_BACKOFF_SECONDS \<le> cb_backoff_seconds b
     \<and> cb_backoff_seconds b \<le> MAX_BACKOFF_SECONDS
     \<and> (cb_status b = Closed \<longrightarrow> cb_backoff_seconds b = INITIAL_BACKOFF_SECONDS)"

definition circuits_ok :: "circuits \<Rightarrow> bool" where
  "circuits_ok c \<longleftrightarrow> list_all breaker_ok (ct_breakers c) \<and> unique_keys cb_name (ct_breakers c)"

definition circuits_init :: "circuits \<Rightarrow> bool" where
  "circuits_init c \<longleftrightarrow> ct_breakers c = [] \<and> ct_gateway_samples c = [] \<and> ct_vendor_samples c = []"

lemma apply_sample_name [simp]: "cb_name (apply_sample h f e now b) = cb_name b"
  by (simp add: apply_sample_def Let_def)

lemma to_half_open_simps [simp]:
  "cb_name (to_half_open b) = cb_name b" "cb_status (to_half_open b) = HalfOpen"
  "cb_opened_until (to_half_open b) = None"
  "cb_backoff_seconds (to_half_open b) = cb_backoff_seconds b"
  by (simp_all add: to_half_open_def)

lemma seed_breaker_ok: "breaker_ok (seed_breaker name)"
  by (simp add: breaker_ok_def seed_breaker_def circuit_consts)

lemma apply_sample_ok: "breaker_ok b \<Longrightarrow> breaker_ok (apply_sample h f e now b)"
  by (cases "cb_status b") (auto simp: breaker_ok_def apply_sample_def Let_def circuit_consts)

lemma to_half_open_ok: "breaker_ok b \<Longrightarrow> breaker_ok (to_half_open b)"
  by (simp add: breaker_ok_def)

lemma circuits_ok_update_row:
  "(\<And>b. cb_name (f b) = cb_name b) \<Longrightarrow> (\<And>b. breaker_ok b \<Longrightarrow> breaker_ok (f b)) \<Longrightarrow> circuits_ok c \<Longrightarrow>
     circuits_ok (c\<lparr>ct_breakers := update_row cb_name name f (ct_breakers c)\<rparr>)"
  by (auto simp: circuits_ok_def unique_keys_update_row list_all_iff set_update_row)

lemma circuits_ok_update_where:
  "(\<And>b. cb_name (f b) = cb_name b) \<Longrightarrow> (\<And>b. breaker_ok b \<Longrightarrow> breaker_ok (f b)) \<Longrightarrow> circuits_ok c \<Longrightarrow>
     circuits_ok (c\<lparr>ct_breakers := update_where P f (ct_breakers c)\<rparr>)"
  by (auto simp: circuits_ok_def unique_keys_def map_key_update_where list_all_iff set_update_where)

lemma locked_breaker_ok: "circuits_ok c \<Longrightarrow> circuits_ok (locked_breaker name c)"
  by (auto simp: locked_breaker_def circuits_ok_def unique_keys_snoc find_row_None
      seed_breaker_ok seed_breaker_def split: option.splits intro: seed_breaker_ok [unfolded seed_breaker_def])

lemma circuits_ok_samples [simp]:
  "circuits_ok (c\<lparr>ct_gateway_samples := g\<rparr>) = circuits_ok c"
  "circuits_ok (c\<lparr>ct_vendor_samples := v\<rparr>) = circuits_ok c"
  by (simp_all add: circuits_ok_def)

lemma record_gateway_sample_ok:
  "circuits_ok c \<Longrightarrow> circuits_ok (record_gateway_sample h l now e snap c)"
  unfolding record_gateway_sample_def Let_def
  by (intro circuits_ok_update_row locked_breaker_ok apply_sample_ok) simp_all

lemma record_vendor_sample_ok:
  "circuits_ok c \<Longrightarrow> circuits_ok (record_vendor_sample v cat h l now e c)"
  unfolding record_vendor_sample_def Let_def
  by (intro circuits_ok_update_row locked_breaker_ok apply_sample_ok) simp_all

lemma acquire_probe_ok: "circuits_ok c \<Longrightarrow> circuits_ok (snd (acquire_probe n now c))"
  by (auto simp: acquire_probe_def circuits_ok_update_row to_half_open_ok split: option.splits)

lemma acquire_expired_probes_ok:
  "circuits_ok c \<Longrightarrow> acquire_expired_probes now vs c = Inr (ns, c') \<Longrightarrow> circuits_ok c'"
  by (auto simp: acquire_expired_probes_def result_simps circuits_ok_update_where to_half_open_ok)

inductive circuit_step :: "circuits \<Rightarrow> circuits \<Rightarrow> bool" where
  gateway_sample: "circuit_step c (record_gateway_sample h l now e snap c)"
| vendor_sample: "circuit_step c (record_vendor_sample v cat h l now e c)"
| one_probe: "circuit_step c (snd (acquire_probe n now c))"
| expired_probes: "acquire_expired_probes now vs c = Inr (ns, c') \<Longrightarrow> circuit_step c c'"

lemma circuit_step_ok: "circuit_step c c' \<Longrightarrow> circuits_ok c \<Longrightarrow> circuits_ok c'"
  by (induction rule: circuit_step.induct)
     (auto intro: record_gateway_sample_ok record_vendor_sample_ok acquire_probe_ok
        acquire_expired_probes_ok)

interpretation circuit_sys: transition_system circuits_init circuit_step circuits_ok
proof unfold_locales
  show "circuits_init s \<Longrightarrow> circuits_ok s" for s
    by (simp add: circuits_init_def circuits_ok_def unique_keys_def)
qed (rule circuit_step_ok)

text \<open>
  Whatever samples and probe requests arrive, in whatever order and with whatever
  clock readings: there is one breaker per name, a breaker has an expiry time exactly while
  it is open, its back-off stays between five and thirty minutes, and a closed breaker is
  always back at the initial back-off.
\<close>

theorem breaker_invariant:
  "reach circuits_init circuit_step c \<Longrightarrow>
     unique_keys cb_name (ct_breakers c) \<and> list_all breaker_ok (ct_breakers c)"
  using circuit_sys.reach_inv [of c] by (simp add: circuits_ok_def)

definition no_circuits :: circuits where
  "no_circuits = \<lparr>ct_breakers = [], ct_gateway_samples = [], ct_vendor_samples = []\<rparr>"

theorem breaker_invariant_witness:
  "list_all breaker_ok (ct_breakers
     (record_gateway_sample False 5 0 (Some ''down'') None no_circuits))"
proof -
  have "circuits_init no_circuits" by (simp add: circuits_init_def no_circuits_def)
  then have "reach circuits_init circuit_step
      (record_gateway_sample False 5 0 (Some ''down'') None no_circuits)"
    by (blast intro: reach_step reach_init gateway_sample)
  then show ?thesis by (simp add: breaker_invariant)
qed

section \<open>One probe at a time\<close>

text \<open>
  What the admission of runs relies on: while a probe is in flight its breaker blocks, so
  the policy refuses every admission, and no second probe is handed out.
\<close>

locale probe_gate =
  fixes ok :: "'c \<Rightarrow> bool"
    and blocked :: "int \<Rightarrow> 'c \<Rightarrow> 'n set"
    and probe :: "int \<Rightarrow> 'c \<Rightarrow> 'n set \<times> 'c"
  assumes probe_not_blocked: "ok c \<Longrightarrow> fst (probe now c) \<inter> blocked now c = {}"
    and probe_blocks: "ok c \<Longrightarrow> fst (probe now c) \<subseteq> blocked later (snd (probe now c))"
    and probe_keeps: "ok c \<Longrightarrow> blocked later c \<subseteq> blocked later (snd (probe now c))"
    and probe_ok: "ok c \<Longrightarrow> ok (snd (probe now c))"
begin

lemma no_second_probe:
  assumes "ok c"
  shows "fst (probe now c) \<inter> fst (probe later (snd (probe now c))) = {}"
  using probe_blocks [OF assms, of now later] probe_not_blocked [OF probe_ok [OF assms], of later now]
  by blast

lemma probe_in_flight_blocks:
  "ok c \<Longrightarrow> n \<in> fst (probe now c) \<Longrightarrow> blocked later (snd (probe now c)) \<noteq> {}"
  using probe_blocks by blast

lemma blocked_after_two:
  assumes "ok c"
  shows "fst (probe now c) \<subseteq> blocked t (snd (probe later (snd (probe now c))))"
  using probe_blocks [OF assms, of now t] probe_keeps [OF probe_ok [OF assms], of t now later]
  by blast

end

definition blocked_names :: "string list option \<Rightarrow> int \<Rightarrow> circuits \<Rightarrow> string set" where
  "blocked_names vendors now c =
     {n \<in> cb_name ` {b \<in> set (ct_breakers c). is_blocking now b}. is_relevant vendors n = Inr True}"

definition probe_names :: "string list option \<Rightarrow> int \<Rightarrow> circuits \<Rightarrow> string set \<times> circuits" where
  "probe_names vendors now c =
     (case acquire_expired_probes now vendors c of
        Inl e \<Rightarrow> ({}, c) | Inr (ns, c') \<Rightarrow> (set ns, c'))"

lemma blockers_names:
  assumes "blockers now vendors c = Inr ns"
  shows "set ns = blocked_names vendors now c"
  using filter_relevant_Inr [OF assms [unfolded blockers_def]] by (simp add: blocked_names_def)

lemma acquire_expired_names:
  assumes "acquire_expired_probes now vendors c = Inr (ns, c')"
  shows "set ns = {n \<in> cb_name ` {b \<in> set (ct_breakers c). is_expired now b}. is_relevant vendors n = Inr True}
     \<and> c' = c\<lparr>ct_breakers := update_where (\<lambda>b. cb_name b \<in> set ns) to_half_open (ct_breakers c)\<rparr>"
proof -
  from assms have f: "filter_relevant vendors
        (sort (map cb_name (filter (is_expired now) (ct_breakers c)))) = Inr ns"
    and c: "c' = c\<lparr>ct_breakers := update_where (\<lambda>b. cb_name b \<in> set ns) to_half_open (ct_breakers c)\<rparr>"
    by (auto simp: acquire_expired_probes_def result_simps)
  from filter_relevant_Inr [OF f] c show ?thesis by simp
qed

lemma unique_breaker:
  "circuits_ok c \<Longrightarrow> b \<in> set (ct_breakers c) \<Longrightarrow> b' \<in> set (ct_breakers c) \<Longrightarrow>
     cb_name b = cb_name b' \<Longrightarrow> b = b'"
  by (auto simp: circuits_ok_def unique_keys_def distinct_map dest: inj_onD)

lemma expired_not_blocking: "is_expired now b \<Longrightarrow> \<not> is_blocking now b"
  by (auto simp: is_expired_def is_blocking_def split: option.splits)

lemma half_open_blocking: "is_blocking now (to_half_open b)"
  by (simp add: is_blocking_def)

lemma probe_names_disjoint:
  assumes "circuits_ok c"
  shows "fst (probe_names vendors now c) \<inter> blocked_names vendors now c = {}"
proof (cases "acquire_expired_probes now vendors c")
  case (Inr r)
  obtain ns c' where r: "r = (ns, c')" by (cases r)
  note eq = acquire_expired_names [OF Inr [unfolded r]]
  have "n \<notin> set ns" if "n \<in> blocked_names vendors now c" for n
  proof
    assume "n \<in> set ns"
    with eq obtain b where b: "b \<in> set (ct_breakers c)" "is_expired now b" "cb_name b = n" by auto
    from that obtain b' where b': "b' \<in> set (ct_breakers c)" "is_blocking now b'" "cb_name b' = n"
      by (auto simp: blocked_names_def)
    from unique_breaker [OF assms b(1) b'(1)] b b' have "b = b'" by simp
    with b b' show False by (simp add: expired_not_blocking)
  qed
  then show ?thesis by (auto simp: probe_names_def Inr r)
qed (simp add: probe_names_def)

lemma probe_names_blocked:
  "fst (probe_names vendors now c) \<subseteq> blocked_names vendors later (snd (probe_names vendors now c))"
proof (cases "acquire_expired_probes now vendors c")
  case (Inr r)
  obtain ns c' where r: "r = (ns, c')" by (cases r)
  note eq = acquire_expired_names [OF Inr [unfolded r]]
  show ?thesis
  proof
    fix n
    assume "n \<in> fst (probe_names vendors now c)"
    then have n: "n \<in> set ns" by (simp add: probe_names_def Inr r)
    with eq obtain b where b: "b \<in> set (ct_breakers c)" "cb_name b = n"
      and rel: "is_relevant vendors n = Inr True" by auto
    with n eq have "to_half_open b \<in> set (ct_breakers c')"
      by (auto simp: set_update_where)
    moreover have "cb_name (to_half_open b) = n \<and> is_blocking later (to_half_open b)"
      using b by (simp add: half_open_blocking)
    ultimately have "n \<in> cb_name ` {b \<in> set (ct_breakers c'). is_blocking later b}"
      by blast
    with rel show "n \<in> blocked_names vendors later (snd (probe_names vendors now c))"
      by (simp add: probe_names_def Inr r blocked_names_def)
  qed
qed (simp add: probe_names_def)

lemma probe_names_keeps:
  "blocked_names vendors later c \<subseteq> blocked_names vendors later (snd (probe_names vendors now c))"
proof (cases "acquire_expired_probes now vendors c")
  case (Inr r)
  obtain ns c' where r: "r = (ns, c')" by (cases r)
  note eq = acquire_expired_names [OF Inr [unfolded r]]
  show ?thesis
  proof
    fix n
    assume "n \<in> blocked_names vendors later c"
    then obtain b where b: "b \<in> set (ct_breakers c)" "cb_name b = n" "is_blocking later b"
      and rel: "is_relevant vendors n = Inr True" by (auto simp: blocked_names_def)
    let ?b = "if cb_name b \<in> set ns then to_half_open b else b"
    have "?b \<in> set (ct_breakers c')" using eq b by (auto simp: set_update_where)
    moreover have "cb_name ?b = n \<and> is_blocking later ?b"
      using b by (simp add: half_open_blocking)
    ultimately have "n \<in> cb_name ` {b \<in> set (ct_breakers c'). is_blocking later b}"
      by blast
    with rel show "n \<in> blocked_names vendors later (snd (probe_names vendors now c))"
      by (simp add: probe_names_def Inr r blocked_names_def)
  qed
qed (simp add: probe_names_def)

lemma probe_names_ok: "circuits_ok c \<Longrightarrow> circuits_ok (snd (probe_names vendors now c))"
  using acquire_expired_probes_ok [of c now vendors]
  by (simp add: probe_names_def split: sum.splits prod.splits)

interpretation circuit_gate: probe_gate circuits_ok "blocked_names vendors" "probe_names vendors" for vendors
  by unfold_locales
     (simp_all add: probe_names_disjoint probe_names_ok probe_names_blocked probe_names_keeps)

text \<open>
  At most one probe is in flight per breaker: the breakers a scheduler pass moves to
  half-open are none of those it found blocking, no later pass hands any of them out again,
  and until a sample arrives each of them makes the policy refuse admission.
\<close>

theorem single_probe_in_flight:
  assumes "circuits_ok c"
    and "acquire_expired_probes now vendors c = Inr (ns, c')"
    and "acquire_expired_probes later vendors c' = Inr (ms, c'')"
    and "blockers later vendors c' = Inr blocked"
    and "cap_open_circuits snap = blocked"
    and "ns \<noteq> []"
  shows "set ns \<inter> set ms = {} \<and> set ns \<subseteq> set blocked
    \<and> \<not> ad_allowed (policy_evaluate p snap)"
proof -
  have p1: "probe_names vendors now c = (set ns, c')" and p2: "probe_names vendors later c' = (set ms, c'')"
    using assms(2,3) by (simp_all add: probe_names_def)
  have "set ns \<inter> set ms = {}"
    using circuit_gate.no_second_probe [OF assms(1), of vendors now later] p1 p2 by simp
  moreover have sub: "set ns \<subseteq> set blocked"
    using circuit_gate.probe_blocks [OF assms(1), of vendors now later] p1 blockers_names [OF assms(4)]
    by simp
  moreover have "\<not> ad_allowed (policy_evaluate p snap)"
    using sub assms(5,6) by (intro policy_evaluate_open_circuit) auto
  ultimately show ?thesis by blast
qed

text \<open>Three failures open the gateway breaker; after the back-off a probe is handed out.\<close>

definition demo_open :: circuits where
  "demo_open = \<lparr>ct_breakers = [\<lparr>cb_name = ''gateway'', cb_status = Open, cb_failure_count = 3,
       cb_opened_until = Some 300, cb_backoff_seconds = 300, cb_last_error_code = None\<rparr>],
     ct_gateway_samples = [], ct_vendor_samples = []\<rparr>"

definition demo_probing :: circuits where
  "demo_probing = \<lparr>ct_breakers = [\<lparr>cb_name = ''gateway'', cb_status = HalfOpen,
       cb_failure_count = 3, cb_opened_until = None, cb_backoff_seconds = 300,
       cb_last_error_code = None\<rparr>],
     ct_gateway_samples = [], ct_vendor_samples = []\<rparr>"

definition demo_capacity :: "string list \<Rightarrow> capacity_snapshot" where
  "demo_capacity blocked = \<lparr>cap_active_runs = 0,
     cap_gateway = \<lparr>gw_active_completions = 0, gw_model = ''m'', gw_reasoning_effort = ''high'',
        gw_snapshot_id = ''s'', gw_latency_ms = 1\<rparr>,
     cap_system = \<lparr>sys_cpu_percent = 1, sys_available_memory_gib = 64,
        sys_available_disk_gib = 100, sys_available_disk_percent = 50,
        sys_cpu_above_limit_for_two_minutes = False\<rparr>,
     cap_open_circuits = blocked\<rparr>"

theorem single_probe_in_flight_witness:
  "circuits_ok demo_open
   \<and> acquire_expired_probes 300 (Some []) demo_open = Inr ([''gateway''], demo_probing)
   \<and> \<not> ad_allowed (policy_evaluate default_policy (demo_capacity [''gateway'']))"
proof -
  have ok: "circuits_ok demo_open"
    by (simp add: circuits_ok_def demo_open_def breaker_ok_def unique_keys_def circuit_consts)
  have a: "acquire_expired_probes 300 (Some []) demo_open = Inr ([''gateway''], demo_probing)"
    by (simp add: acquire_expired_probes_def demo_open_def demo_probing_def is_expired_def
        is_relevant_def to_half_open_def)
  have b: "acquire_expired_probes 301 (Some []) demo_probing = Inr ([], demo_probing)"
    by (simp add: acquire_expired_probes_def demo_probing_def is_expired_def update_where_def)
  have c: "blockers 301 (Some []) demo_probing = Inr [''gateway'']"
    by (simp add: blockers_def demo_probing_def is_blocking_def is_relevant_def)
  have d: "cap_open_circuits (demo_capacity [''gateway'']) = [''gateway'']"
    by (simp add: demo_capacity_def)
  show ?thesis
    using single_probe_in_flight [OF ok a b c d, of default_policy] ok a by simp
qed

section \<open>The back-off schedule\<close>

text \<open>
  One failed recovery: the expired breaker is probed and the probe fails. The times are
  those of the probe and of the failed sample.
\<close>

definition failed_probe :: "int \<Rightarrow> int \<Rightarrow> string option \<Rightarrow> breaker \<Rightarrow> breaker" where
  "failed_probe now failures error_code b = apply_sample False failures error_code now (to_half_open b)"

lemma failed_probe_open:
  "cb_status (failed_probe now f e b) = Open
   \<and> cb_backoff_seconds (failed_probe now f e b) = min (cb_backoff_seconds b * 2) 1800
   \<and> cb_opened_until (failed_probe now f e b)
       = Some (now + min (cb_backoff_seconds b * 2) 1800 * SECOND)"
  by (simp add: failed_probe_def apply_sample_def to_half_open_def Let_def MAX_BACKOFF_SECONDS_def)

lemma fold_failed_probe_backoff:
  assumes "cb_backoff_seconds b = min (300 * 2 ^ k) 1800"
  shows "cb_backoff_seconds (fold (\<lambda>(now, f, e). failed_probe now f e) es b)
     = min (300 * 2 ^ (k + length es)) 1800"
  using assms
proof (induction es arbitrary: b k)
  case (Cons x es)
  obtain now f e where x: "x = (now, f, e)" by (cases x)
  have "cb_backoff_seconds (failed_probe now f e b) = min (300 * 2 ^ Suc k) 1800"
    using Cons.prems failed_probe_open [of now f e b] by (auto simp: min_def)
  from Cons.IH [OF this] show ?case by (simp add: x)
qed simp

text \<open>
  The back-off schedule: a closed breaker that opens after three failures in a minute
  stays open for five minutes, and each failed probe doubles the time up to thirty minutes,
  so after the n-th failed probe in a row it is closed to traffic for min(300 * 2^n, 1800)
  seconds counted from that failure; one healthy probe sample resets it.
\<close>

theorem breaker_backoff_schedule:
  assumes "breaker_ok b" and "cb_status b = Closed" and "failures \<ge> FAILURES_TO_OPEN"
    and "opened = apply_sample False failures e0 t0 b"
    and "after = failed_probe now f e (fold (\<lambda>(now, f, e). failed_probe now f e) es opened)"
  shows "cb_opened_until opened = Some (t0 + 300 * SECOND)
    \<and> cb_opened_until after = Some (now + min (300 * 2 ^ Suc (length es)) 1800 * SECOND)
    \<and> apply_sample True g e' t (to_half_open after) = seed_breaker (cb_name b)"
proof -
  let ?b = "fold (\<lambda>(now, f, e). failed_probe now f e) es opened"
  have bo: "cb_backoff_seconds b = 300"
    using assms(1,2) by (simp add: breaker_ok_def circuit_consts)
  then have o: "cb_opened_until opened = Some (t0 + 300 * SECOND)" and "cb_backoff_seconds opened = 300"
    using assms(2,3,4) by (simp_all add: apply_sample_def Let_def)
  then have "cb_backoff_seconds ?b = min (300 * 2 ^ length es) 1800"
    using fold_failed_probe_backoff [of opened 0 es] by simp
  then have a: "cb_opened_until after = Some (now + min (300 * 2 ^ Suc (length es)) 1800 * SECOND)"
    using failed_probe_open [of now f e ?b] assms(5) by (auto simp: min_def)
  have nm: "cb_name (fold (\<lambda>(now, f, e). failed_probe now f e) xs y) = cb_name y" for xs y
    by (induction xs arbitrary: y) (auto simp: failed_probe_def)
  have "cb_name after = cb_name b"
    by (simp add: assms(4,5) failed_probe_def nm)
  then have "apply_sample True g e' t (to_half_open after) = seed_breaker (cb_name b)"
    by (simp add: apply_sample_def to_half_open_def seed_breaker_def)
  with o a show ?thesis by simp
qed

theorem breaker_backoff_schedule_witness:
  "breaker_ok (seed_breaker ''gateway'')
   \<and> cb_opened_until (failed_probe 900 1 None
        (apply_sample False 3 None 0 (seed_breaker ''gateway''))) = Some (900 + 600 * SECOND)"
proof -
  have st: "cb_status (seed_breaker ''gateway'') = Closed" by (simp add: seed_breaker_def)
  have th: "(3::int) \<ge> FAILURES_TO_OPEN" by (simp add: FAILURES_TO_OPEN_def)
  show ?thesis
    using seed_breaker_ok
      breaker_backoff_schedule [OF seed_breaker_ok st th refl refl, of None 0 900 1 None "[]"]
    by simp
qed

end
