(* ===== verification/Json.thy ===== *)
theory Json
  imports Prelude "HOL-Library.List_Lexorder" "HOL-Library.Char_ord"
begin

text \<open>
  JSON values as the Python code handles them (\<open>dict\<close> keeps insertion order, keys are
  unique by construction of the update operation), dictionary access, and the canonical
  serialisation \<open>json.dumps(value, sort_keys=True, separators=(",", ":"))\<close> that the
  platform hashes. A float is kept as the text \<open>repr\<close> prints for it.
\<close>

datatype json =
    JNull
  | JBool bool
  | JInt int
  | JFloat string
  | JStr string
  | JList "json list"
  | JObj "(string \<times> json) list"

section \<open>Dictionaries\<close>

fun dict_get :: "string \<Rightarrow> (string \<times> json) list \<Rightarrow> json option" where
  "dict_get k [] = None"
| "dict_get k ((k', v) # kvs) = (if k' = k then Some v else dict_get k kvs)"

fun dict_set :: "string \<Rightarrow> json \<Rightarrow> (string \<times> json) list \<Rightarrow> (string \<times> json) list" where
  "dict_set k v [] = [(k, v)]"
| "dict_set k v ((k', v') # kvs) = (if k' = k then (k, v) # kvs else (k', v') # dict_set k v kvs)"

definition dict_update ::
    "(string \<times> json) list \<Rightarrow> (string \<times> json) list \<Rightarrow> (string \<times> json) list" where
  "dict_update d e = fold (\<lambda>(k, v) acc. dict_set k v acc) e d"

definition dict_pop :: "string \<Rightarrow> (string \<times> json) list \<Rightarrow> (string \<times> json) list" where
  "dict_pop k d = filter (\<lambda>kv. fst kv \<noteq> k) d"

lemma dict_get_set [simp]: "dict_get j (dict_set k v d) = (if j = k then Some v else dict_get j d)"
  by (induction d) auto

lemma dict_get_pop [simp]: "dict_get j (dict_pop k d) = (if j = k then None else dict_get j d)"
  by (induction d) (auto simp: dict_pop_def)

lemma dict_update_simps [simp]:
  "dict_update d [] = d"
  "dict_update d ((k, v) # e) = dict_update (dict_set k v d) e"
  by (simp_all add: dict_update_def)

lemma dict_get_append:
  "dict_get j (d @ e) = (case dict_get j d of None \<Rightarrow> dict_get j e | Some v \<Rightarrow> Some v)"
  by (induction d) auto

lemma dict_get_update:
  "dict_get j (dict_update d e) =
    (case dict_get j (rev e) of None \<Rightarrow> dict_get j d | Some v \<Rightarrow> Some v)"
  by (induction e arbitrary: d) (auto simp: dict_get_append split: option.splits)

lemma dict_get_None_iff: "dict_get k d = None \<longleftrightarrow> k \<notin> fst ` set d"
  by (induction k d rule: dict_get.induct) auto

fun json_get :: "string \<Rightarrow> json \<Rightarrow> json option" where
  "json_get k (JObj d) = dict_get k d"
| "json_get k _ = None"

text \<open>Truth value of a JSON value in a Python condition.\<close>

definition json_truthy :: "json \<Rightarrow> bool" where
  "json_truthy j = (case j of JNull \<Rightarrow> False | JBool b \<Rightarrow> b | JInt i \<Rightarrow> i \<noteq> 0
     | JFloat s \<Rightarrow> s \<noteq> ''0.0'' \<and> s \<noteq> ''-0.0'' | JStr s \<Rightarrow> s \<noteq> [] | JList l \<Rightarrow> l \<noteq> [] | JObj d \<Rightarrow> d \<noteq> [])"

section \<open>Canonical text\<close>

fun nat_digits :: "nat \<Rightarrow> string" where
  "nat_digits n = (if n < 10 then [char_of (48 + n)]
     else nat_digits (n div 10) @ [char_of (48 + n mod 10)])"

declare nat_digits.simps [simp del]

definition int_str :: "int \<Rightarrow> string" where
  "int_str i = (if i < 0 then ''-'' @ nat_digits (nat (- i)) else nat_digits (nat i))"

definition hex_digit :: "nat \<Rightarrow> char" where
  "hex_digit n = (if n < 10 then char_of (48 + n) else char_of (87 + n))"

definition json_escape_char :: "char \<Rightarrow> string" where
  "json_escape_char c = (let n = of_char c :: nat in
     if n = 34 then [CHR 0x5C, CHR 0x22]
     else if n = 92 then [CHR 0x5C, CHR 0x5C]
     else if n = 10 then CHR 0x5C # ''n''
     else if n = 13 then CHR 0x5C # ''r''
     else if n = 9 then CHR 0x5C # ''t''
     else if n = 8 then CHR 0x5C # ''b''
     else if n = 12 then CHR 0x5C # ''f''
     else if n < 32 \<or> 126 < n then CHR 0x5C # ''u00'' @ [hex_digit (n div 16), hex_digit (n mod 16)]
     else [c])"

definition json_quote :: "string \<Rightarrow> string" where
  "json_quote s = [CHR 0x22] @ concat (map json_escape_char s) @ [CHR 0x22]"

fun join_with :: "string \<Rightarrow> string list \<Rightarrow> string" where
  "join_with sep [] = []"
| "join_with sep [x] = x"
| "join_with sep (x # y # xs) = x @ sep @ join_with sep (y # xs)"

fun json_dumps :: "json \<Rightarrow> string" where
  "json_dumps JNull = ''null''"
| "json_dumps (JBool b) = (if b then ''true'' else ''false'')"
| "json_dumps (JInt i) = int_str i"
| "json_dumps (JFloat s) = s"
| "json_dumps (JStr s) = json_quote s"
| "json_dumps (JList js) = ''['' @ join_with '','' (map json_dumps js) @ '']''"
| "json_dumps (JObj d) = ''{'' @ join_with '',''
     (map (\<lambda>(k, t). json_quote k @ '':'' @ t)
        (sort_key fst (map (\<lambda>(k, v). (k, json_dumps v)) d))) @ ''}''"

text \<open>
  The same with \<open>ensure_ascii=False\<close>, and the text with Python's default separators, which
  are followed by a space; \<open>quote\<close> is one of the two quotings.
\<close>

definition utf8_char :: "char \<Rightarrow> string" where
  "utf8_char c = (let n = of_char c :: nat in
     if n < 127 then json_escape_char c else if n = 127 then [c]
     else [char_of (192 + n div 64), char_of (128 + n mod 64)])"

definition utf8_quote :: "string \<Rightarrow> string" where
  "utf8_quote s = [CHR 0x22] @ concat (map utf8_char s) @ [CHR 0x22]"

fun json_dump_utf8 :: "json \<Rightarrow> string" where
  "json_dump_utf8 (JStr s) = utf8_quote s"
| "json_dump_utf8 (JList js) = ''['' @ join_with '','' (map json_dump_utf8 js) @ '']''"
| "json_dump_utf8 (JObj d) = ''{'' @ join_with '',''
     (map (\<lambda>(k, t). utf8_quote k @ '':'' @ t)
        (sort_key fst (map (\<lambda>(k, v). (k, json_dump_utf8 v)) d))) @ ''}''"
| "json_dump_utf8 j = json_dumps j"

fun json_spaced :: "(string \<Rightarrow> string) \<Rightarrow> json \<Rightarrow> string" where
  "json_spaced quote (JStr s) = quote s"
| "json_spaced quote (JList js) = ''['' @ join_with '', '' (map (json_spaced quote) js) @ '']''"
| "json_spaced quote (JObj d) = ''{'' @ join_with '', ''
     (map (\<lambda>(k, t). quote k @ '': '' @ t)
        (sort_key fst (map (\<lambda>(k, v). (k, json_spaced quote v)) d))) @ ''}''"
| "json_spaced quote j = json_dumps j"

section \<open>\<open>int(text)\<close>\<close>

text \<open>\<open>int(text)\<close> for ASCII text: surrounding blanks, a sign, digits with single underscores.\<close>

fun digits_value :: "int \<Rightarrow> string \<Rightarrow> int option" where
  "digits_value n [] = Some n"
| "digits_value n (c # cs) =
     (if is_digit c then digits_value (10 * n + (of_char c - 48)) cs
      else if c = CHR 0x5F then
        (case cs of [] \<Rightarrow> None | c' # _ \<Rightarrow> (if is_digit c' then digits_value n cs else None))
      else None)"

definition unsigned_int :: "string \<Rightarrow> int option" where
  "unsigned_int s = (case s of [] \<Rightarrow> None | c # _ \<Rightarrow> (if is_digit c then digits_value 0 s else None))"

definition signed_int :: "string \<Rightarrow> int option" where
  "signed_int s = (case s of [] \<Rightarrow> None
     | c # cs \<Rightarrow> (if c = CHR ''-'' then map_option uminus (unsigned_int cs)
         else if c = CHR ''+'' then unsigned_int cs else unsigned_int s))"

definition int_of_text :: "string \<Rightarrow> int result" where
  "int_of_text s = of_option (ValueError ''invalid literal for int()'') (signed_int (str_strip s))"

section \<open>Enumerated sub-values\<close>

definition json_string :: "json \<Rightarrow> string result" where
  "json_string j = (case j of JStr s \<Rightarrow> Inr s | _ \<Rightarrow> Inl (TypeError ''str''))"

definition opt_str :: "string option \<Rightarrow> json" where
  "opt_str x = (case x of None \<Rightarrow> JNull | Some s \<Rightarrow> JStr s)"

definition opt_bool :: "bool option \<Rightarrow> json" where
  "opt_bool b = (case b of None \<Rightarrow> JNull | Some v \<Rightarrow> JBool v)"

text \<open>
  The order of keys does not matter for the canonical text: two dictionaries that hold the
  same pairs, each key once, are serialised to the same text.
\<close>

lemma sort_key_fst_unique:
  fixes xs ys :: "('a::linorder \<times> 'b) list"
  assumes "mset xs = mset ys" and "distinct (map fst xs)"
  shows "sort_key fst xs = sort_key fst ys"
proof (rule sort_key_eq_sort_key)
  show "mset xs = mset ys" by (rule assms(1))
  from assms(2) show "inj_on fst (set xs)" by (simp add: distinct_map)
qed

lemma json_dumps_key_order:
  assumes "mset d = mset e" and "distinct (map fst d)"
  shows "json_dumps (JObj d) = json_dumps (JObj e)"
proof -
  let ?f = "\<lambda>(k, v). (k, json_dumps v)"
  have "mset (map ?f d) = mset (map ?f e)"
    using assms(1) by simp
  moreover have "distinct (map fst (map ?f d))"
    using assms(2) by (simp add: comp_def case_prod_unfold)
  ultimately have "sort_key fst (map ?f d) = sort_key fst (map ?f e)"
    by (rule sort_key_fst_unique)
  then show ?thesis by simp
qed

end
