(* ===== verification/Store.thy ===== *)
theory Store
  imports Domain Json Circuits
begin

text \<open>
  The platform's tables (\<open>models/*.py\<close>) as one state record, and the operations every
  component shares: drawing a fresh identifier, the append-only event log of a run, the
  audit trail and the coordination locks.

  A row record has those columns of its model class that the modelled operations read or
  write under a condition. Identifiers are natural numbers (a UUID
  is a 128-bit number); \<open>db_uuid\<close> is the sequence of values \<open>uuid4\<close> returns and
  \<open>db_drawn\<close> how many were drawn. A timestamp is the number of microseconds since the
  epoch, a date its ordinal, a JSON object column its list of pairs. An operation runs as
  one transaction: it maps a state to an error (the transaction rolls back) or to the new
  state with the operation's value.
\<close>

section \<open>Rows\<close>

type_synonym dict = "(string \<times> json) list"

record instrument =
  ins_id :: nat
  ins_ticker :: string
  ins_asset_type :: string
  ins_exchange :: "string option"
  ins_name :: "string option"
  ins_metadata :: dict

record batch =
  bat_id :: nat
  bat_submitted_by :: nat
  bat_idempotency_key :: string
  bat_defaults :: dict

record request =
  req_id :: nat
  req_batch :: nat
  req_instrument :: nat
  req_analysis_date :: int
  req_config :: dict

record config_snapshot =
  cfg_id :: nat
  cfg_content :: dict
  cfg_sha256 :: string
  cfg_gateway_snapshot_id :: "string option"

record run =
  run_id :: nat
  run_request :: nat
  run_attempt :: int
  run_status :: run_status
  run_snapshot :: "nat option"
  run_retry_of :: "nat option"
  run_clean_of :: "nat option"
  run_version :: int
  run_created_at :: int
  run_admitted_at :: "int option"
  run_started_at :: "int option"
  run_finished_at :: "int option"
  run_error_code :: "string option"
  run_error_summary :: "string option"

record requirement =
  dr_id :: nat
  dr_run :: nat
  dr_provider_request_id :: string
  dr_external_request_key :: string
  dr_required_products :: "string list"
  dr_status :: string
  dr_progress :: dict
  dr_manifest_snapshot_id :: "string option"
  dr_manifest_sha256 :: "string option"
  dr_next_poll_at :: "int option"
  dr_lease_owner :: "string option"
  dr_lease_expires_at :: "int option"
  dr_fingerprint :: "string option"
  dr_version :: int
  dr_created_at :: int

record run_event =
  ev_id :: nat
  ev_run :: nat
  ev_sequence :: int
  ev_type :: string
  ev_payload :: dict
  ev_created_at :: int

record audit_event =
  au_actor_type :: string
  au_actor_id :: string
  au_action :: string
  au_object_type :: string
  au_object_id :: string
  au_request_id :: string
  au_metadata :: dict

record user =
  usr_id :: nat
  usr_issuer :: string
  usr_subject :: string
  usr_display_name :: string
  usr_email :: "string option"
  usr_status :: string

record role =
  rol_id :: nat
  rol_name :: string

record worker =
  wk_id :: nat
  wk_instance_name :: string
  wk_status :: string
  wk_capabilities :: dict
  wk_pid :: int
  wk_heartbeat_at :: int

record lease =
  ls_id :: nat
  ls_run :: nat
  ls_worker :: nat
  ls_child_pid :: "int option"
  ls_child_pgid :: "int option"
  ls_expires_at :: int
  ls_heartbeat_at :: int

record run_step =
  st_id :: nat
  st_run :: nat
  st_name :: string
  st_status :: string
  st_attempt :: int
  st_started_at :: "int option"
  st_finished_at :: "int option"
  st_error_code :: "string option"
  st_summary :: json

record artifact =
  art_id :: nat
  art_run :: nat
  art_kind :: string
  art_media_type :: string
  art_size :: int
  art_sha256 :: string
  art_storage_key :: string
  art_retention_class :: string
  art_metadata :: dict
  art_created_at :: int
  art_deleted_at :: "int option"

record decision =
  dec_id :: nat
  dec_run :: nat
  dec_rating :: string
  dec_executive_summary :: string
  dec_investment_thesis :: string
  dec_price_target :: "rat option"
  dec_time_horizon :: "string option"

record evidence =
  evd_id :: nat
  evd_run :: nat
  evd_source :: string
  evd_tool_name :: string
  evd_arguments :: json
  evd_collected_at :: int
  evd_effective_at :: "int option"
  evd_freshness :: "string option"
  evd_artifact :: "nat option"
  evd_content_hash :: string

record validation =
  val_id :: nat
  val_run :: nat
  val_horizon :: int
  val_status :: string
  val_scheduled_for :: int
  val_observed_at :: "int option"
  val_raw_return :: "rat option"
  val_benchmark_return :: "rat option"
  val_alpha :: "rat option"
  val_mae :: "rat option"
  val_mfe :: "rat option"
  val_trigger_results :: dict
  val_data_artifact :: "nat option"
  val_attempts :: int
  val_next_attempt_at :: "int option"
  val_error_code :: "string option"
  val_calculation_version :: string
  val_calendar_code :: "string option"
  val_entry_session :: "int option"
  val_exit_session :: "int option"
  val_matures_at :: "int option"
  val_claimed_at :: "int option"
  val_lease_expires_at :: "int option"
  val_worker_instance :: "string option"
  val_price_return :: "rat option"
  val_benchmark_price_return :: "rat option"
  val_price_alpha :: "rat option"
  val_total_return :: "rat option"
  val_benchmark_total_return :: "rat option"
  val_total_alpha :: "rat option"
  val_normalization_version :: "string option"
  val_provider_adapter_version :: "string option"
  val_provider_id :: "string option"

record price_basis =
  pb_id :: nat
  pb_run :: nat
  pb_status :: string
  pb_target_price :: rat
  pb_reference_session :: "int option"
  pb_reference_close :: "rat option"
  pb_target_multiple :: "rat option"
  pb_currency :: "string option"
  pb_provider_id :: "string option"
  pb_provider_adapter_version :: "string option"
  pb_normalization_version :: "string option"
  pb_collected_at :: "int option"
  pb_attempts :: int
  pb_next_attempt_at :: "int option"
  pb_error_code :: "string option"
  pb_claimed_at :: "int option"
  pb_lease_expires_at :: "int option"
  pb_worker_instance :: "string option"
  pb_created_at :: int

record review =
  rvw_id :: nat
  rvw_run :: nat
  rvw_reviewer :: nat
  rvw_verdict :: string
  rvw_comment :: string

record comment =
  cmt_id :: nat
  cmt_run :: nat
  cmt_author :: nat
  cmt_body :: string

record webhook =
  wh_id :: nat
  wh_owner :: nat
  wh_endpoint :: string
  wh_event_types :: "string list"
  wh_encrypted_secret :: string
  wh_status :: string
  wh_created_at :: int

record delivery =
  dl_id :: nat
  dl_webhook :: nat
  dl_event :: nat
  dl_attempt :: int
  dl_status :: string
  dl_response_code :: "int option"
  dl_next_attempt_at :: "int option"
  dl_created_at :: int

record integrity =
  itg_id :: nat
  itg_run :: nat
  itg_artifact :: "nat option"
  itg_policy_version :: string
  itg_status :: string
  itg_audit_mode :: string
  itg_temporal_scope :: string
  itg_analysis_date :: int
  itg_checked_at :: int
  itg_reason_codes :: "string list"
  itg_findings :: json
  itg_fingerprint :: string
  itg_created_at :: int

record credential =
  crd_id :: nat
  crd_principal :: nat
  crd_public_id :: string
  crd_token_hash :: string
  crd_scopes :: "string list"
  crd_expires_at :: "int option"
  crd_last_used_at :: "int option"
  crd_revoked_at :: "int option"

text \<open>
  The two administrator policies are single rows keyed \<open>default\<close>; their JSON column holds
  the policy's fields, so it is kept as the policy itself.
\<close>

record model_route =
  mrt_model :: string
  mrt_reasoning_effort :: string

record routing_policy =
  rp_fast :: model_route
  rp_slow :: model_route

record 'c policy_record =
  pc_content :: 'c
  pc_version :: int
  pc_updated_by :: "nat option"
  pc_updated_at :: int

section \<open>The state\<close>

record db =
  db_instruments :: "instrument list"
  db_batches :: "batch list"
  db_requests :: "request list"
  db_snapshots :: "config_snapshot list"
  db_runs :: "run list"
  db_requirements :: "requirement list"
  db_events :: "run_event list"
  db_audits :: "audit_event list"
  db_users :: "user list"
  db_roles :: "role list"
  db_user_roles :: "(nat \<times> nat) list"
  db_workers :: "worker list"
  db_leases :: "lease list"
  db_steps :: "run_step list"
  db_artifacts :: "artifact list"
  db_decisions :: "decision list"
  db_evidence :: "evidence list"
  db_validations :: "validation list"
  db_bases :: "price_basis list"
  db_reviews :: "review list"
  db_comments :: "comment list"
  db_webhooks :: "webhook list"
  db_deliveries :: "delivery list"
  db_integrity :: "integrity list"
  db_credentials :: "credential list"
  db_policy :: "admission_policy policy_record option"
  db_routing :: "routing_policy policy_record option"
  db_circuits :: circuits
  db_locks :: "string list"
  db_uuid :: "nat \<Rightarrow> nat"
  db_drawn :: nat

type_synonym 'a tx = "db \<Rightarrow> (db \<times> 'a) result"

definition empty_db :: db where
  "empty_db = \<lparr>db_instruments = [], db_batches = [], db_requests = [], db_snapshots = [],
     db_runs = [], db_requirements = [], db_events = [], db_audits = [], db_users = [],
     db_roles = [], db_user_roles = [], db_workers = [], db_leases = [], db_steps = [],
     db_artifacts = [], db_decisions = [], db_evidence = [], db_validations = [],
     db_bases = [], db_reviews = [], db_comments = [], db_webhooks = [], db_deliveries = [],
     db_integrity = [], db_credentials = [], db_policy = None, db_routing = None,
     db_circuits = no_circuits, db_locks = [], db_uuid = id,
     db_drawn = 0\<rparr>"

definition find_run :: "nat \<Rightarrow> db \<Rightarrow> run option" where
  "find_run rid d = find_row run_id rid (db_runs d)"

definition find_request :: "nat \<Rightarrow> db \<Rightarrow> request option" where
  "find_request i d = find_row req_id i (db_requests d)"

definition find_instrument :: "nat \<Rightarrow> db \<Rightarrow> instrument option" where
  "find_instrument i d = find_row ins_id i (db_instruments d)"

definition find_batch_row :: "nat \<Rightarrow> db \<Rightarrow> batch option" where
  "find_batch_row i d = find_row bat_id i (db_batches d)"

definition update_run :: "nat \<Rightarrow> (run \<Rightarrow> run) \<Rightarrow> db \<Rightarrow> db" where
  "update_run rid f d = d\<lparr>db_runs := update_row run_id rid f (db_runs d)\<rparr>"

section \<open>Fresh identifiers\<close>

definition uuid4 :: "db \<Rightarrow> nat" where
  "uuid4 d = db_uuid d (db_drawn d)"

definition drawn :: "db \<Rightarrow> db" where
  "drawn d = d\<lparr>db_drawn := Suc (db_drawn d)\<rparr>"

section \<open>The event log\<close>

text \<open>\<open>SELECT coalesce(max(sequence), 0) + 1 FROM run_events WHERE run_id = \<dots>\<close>\<close>

definition run_sequences :: "nat \<Rightarrow> run_event list \<Rightarrow> int list" where
  "run_sequences rid evs = map ev_sequence (filter (\<lambda>e. ev_run e = rid) evs)"

definition max_or_zero :: "int list \<Rightarrow> int" where
  "max_or_zero xs = (case xs of [] \<Rightarrow> 0 | s # ss \<Rightarrow> fold max ss s)"

definition next_sequence :: "nat \<Rightarrow> run_event list \<Rightarrow> int" where
  "next_sequence rid evs = max_or_zero (run_sequences rid evs) + 1"

definition append_event :: "int \<Rightarrow> nat \<Rightarrow> string \<Rightarrow> dict \<Rightarrow> db \<Rightarrow> db" where
  "append_event now rid event_type payload d =
     (let s = next_sequence rid (db_events d);
          event = \<lparr>ev_id = uuid4 d, ev_run = rid, ev_sequence = (if s = 0 then 1 else s),
                   ev_type = event_type, ev_payload = payload, ev_created_at = now\<rparr>
      in (drawn d)\<lparr>db_events := db_events d @ [event]\<rparr>)"

text \<open>
  The contract of the log: the events of a run are numbered 1, 2, 3 and so on in the order
  they were appended.
\<close>

definition numbered :: "int list \<Rightarrow> bool" where
  "numbered xs \<longleftrightarrow> (\<forall>i<length xs. xs ! i = int i + 1)"

definition events_numbered :: "run_event list \<Rightarrow> bool" where
  "events_numbered evs \<longleftrightarrow> (\<forall>rid. numbered (run_sequences rid evs))"

lemma numbered_Nil [simp]: "numbered []"
  by (simp add: numbered_def)

lemma numbered_snoc: "numbered (xs @ [x]) \<longleftrightarrow> numbered xs \<and> x = int (length xs) + 1"
  by (auto simp: numbered_def nth_append less_Suc_eq)

lemma max_or_zero_snoc: "max_or_zero (xs @ [x]) = (if xs = [] then x else max x (max_or_zero xs))"
  by (cases xs) (simp_all add: max_or_zero_def)

lemma max_or_zero_numbered: "numbered xs \<Longrightarrow> max_or_zero xs = int (length xs)"
proof (induction xs rule: rev_induct)
  case Nil
  then show ?case by (simp add: max_or_zero_def)
next
  case (snoc x xs)
  then show ?case by (simp add: numbered_snoc max_or_zero_snoc)
qed

lemma run_sequences_append [simp]:
  "run_sequences rid (evs @ evs') = run_sequences rid evs @ run_sequences rid evs'"
  by (simp add: run_sequences_def)

lemma run_sequences_one [simp]:
  "run_sequences rid [e] = (if ev_run e = rid then [ev_sequence e] else [])"
  by (simp add: run_sequences_def)

lemma run_sequences_Nil [simp]: "run_sequences rid [] = []"
  by (simp add: run_sequences_def)

lemma next_sequence_numbered:
  "events_numbered evs \<Longrightarrow> next_sequence rid evs = int (length (run_sequences rid evs)) + 1"
  by (simp add: next_sequence_def events_numbered_def max_or_zero_numbered)

lemma events_numbered_snoc:
  "events_numbered evs \<Longrightarrow> ev_sequence e = next_sequence (ev_run e) evs \<Longrightarrow> events_numbered (evs @ [e])"
  using next_sequence_numbered [of evs "ev_run e"]
  by (auto simp: events_numbered_def numbered_snoc)

locale event_log =
  fixes events :: "'s \<Rightarrow> run_event list"
    and append :: "nat \<Rightarrow> string \<Rightarrow> dict \<Rightarrow> 's \<Rightarrow> 's"
  assumes appended: "\<exists>e. events (append rid ty p s) = events s @ [e] \<and> ev_run e = rid
      \<and> ev_type e = ty \<and> ev_payload e = p
      \<and> (events_numbered (events s) \<longrightarrow> ev_sequence e = next_sequence rid (events s))"
begin

lemma append_numbered:
  "events_numbered (events s) \<Longrightarrow> events_numbered (events (append rid ty p s))"
  using appended [of rid ty p s] by (auto intro: events_numbered_snoc)

lemma append_prefix: "\<exists>es. events (append rid ty p s) = events s @ es"
  using appended by blast

lemma append_other:
  "j \<noteq> rid \<Longrightarrow> run_sequences j (events (append rid ty p s)) = run_sequences j (events s)"
  using appended [of rid ty p s] by auto

lemma append_last_number:
  assumes "events_numbered (events s)"
  shows "last (run_sequences rid (events (append rid ty p s)))
    = int (length (run_sequences rid (events s))) + 1"
  using appended [of rid ty p s] assms next_sequence_numbered [OF assms, of rid] by auto

end

interpretation run_log: event_log db_events "append_event now" for now
  by unfold_locales
     (auto simp: append_event_def Let_def drawn_def next_sequence_numbered)

section \<open>Frame conditions of the shared operations\<close>

named_theorems store_frame

lemma append_event_frame [simp, store_frame]:
  "db_instruments (append_event now rid ty p d) = db_instruments d"
  "db_batches (append_event now rid ty p d) = db_batches d"
  "db_requests (append_event now rid ty p d) = db_requests d"
  "db_snapshots (append_event now rid ty p d) = db_snapshots d"
  "db_runs (append_event now rid ty p d) = db_runs d"
  "db_requirements (append_event now rid ty p d) = db_requirements d"
  "db_audits (append_event now rid ty p d) = db_audits d"
  "db_users (append_event now rid ty p d) = db_users d"
  "db_roles (append_event now rid ty p d) = db_roles d"
  "db_user_roles (append_event now rid ty p d) = db_user_roles d"
  "db_workers (append_event now rid ty p d) = db_workers d"
  "db_leases (append_event now rid ty p d) = db_leases d"
  "db_steps (append_event now rid ty p d) = db_steps d"
  "db_artifacts (append_event now rid ty p d) = db_artifacts d"
  "db_decisions (append_event now rid ty p d) = db_decisions d"
  "db_evidence (append_event now rid ty p d) = db_evidence d"
  "db_validations (append_event now rid ty p d) = db_validations d"
  "db_bases (append_event now rid ty p d) = db_bases d"
  "db_reviews (append_event now rid ty p d) = db_reviews d"
  "db_comments (append_event now rid ty p d) = db_comments d"
  "db_webhooks (append_event now rid ty p d) = db_webhooks d"
  "db_deliveries (append_event now rid ty p d) = db_deliveries d"
  "db_integrity (append_event now rid ty p d) = db_integrity d"
  "db_credentials (append_event now rid ty p d) = db_credentials d"
  "db_policy (append_event now rid ty p d) = db_policy d"
  "db_routing (append_event now rid ty p d) = db_routing d"
  "db_circuits (append_event now rid ty p d) = db_circuits d"
  "db_locks (append_event now rid ty p d) = db_locks d"
  "db_uuid (append_event now rid ty p d) = db_uuid d"
  "db_drawn (append_event now rid ty p d) = Suc (db_drawn d)"
  by (simp_all add: append_event_def Let_def drawn_def)

lemma drawn_frame [simp, store_frame]:
  "db_instruments (drawn d) = db_instruments d"
  "db_batches (drawn d) = db_batches d"
  "db_requests (drawn d) = db_requests d"
  "db_snapshots (drawn d) = db_snapshots d"
  "db_runs (drawn d) = db_runs d"
  "db_requirements (drawn d) = db_requirements d"
  "db_events (drawn d) = db_events d"
  "db_audits (drawn d) = db_audits d"
  "db_users (drawn d) = db_users d"
  "db_roles (drawn d) = db_roles d"
  "db_user_roles (drawn d) = db_user_roles d"
  "db_workers (drawn d) = db_workers d"
  "db_leases (drawn d) = db_leases d"
  "db_steps (drawn d) = db_steps d"
  "db_artifacts (drawn d) = db_artifacts d"
  "db_decisions (drawn d) = db_decisions d"
  "db_evidence (drawn d) = db_evidence d"
  "db_validations (drawn d) = db_validations d"
  "db_bases (drawn d) = db_bases d"
  "db_reviews (drawn d) = db_reviews d"
  "db_comments (drawn d) = db_comments d"
  "db_webhooks (drawn d) = db_webhooks d"
  "db_deliveries (drawn d) = db_deliveries d"
  "db_integrity (drawn d) = db_integrity d"
  "db_credentials (drawn d) = db_credentials d"
  "db_policy (drawn d) = db_policy d"
  "db_routing (drawn d) = db_routing d"
  "db_circuits (drawn d) = db_circuits d"
  "db_locks (drawn d) = db_locks d"
  "db_uuid (drawn d) = db_uuid d"
  "db_drawn (drawn d) = Suc (db_drawn d)"
  by (simp_all add: drawn_def)

lemma update_run_frame [simp, store_frame]:
  "db_instruments (update_run rid f d) = db_instruments d"
  "db_batches (update_run rid f d) = db_batches d"
  "db_requests (update_run rid f d) = db_requests d"
  "db_snapshots (update_run rid f d) = db_snapshots d"
  "db_requirements (update_run rid f d) = db_requirements d"
  "db_events (update_run rid f d) = db_events d"
  "db_audits (update_run rid f d) = db_audits d"
  "db_users (update_run rid f d) = db_users d"
  "db_roles (update_run rid f d) = db_roles d"
  "db_user_roles (update_run rid f d) = db_user_roles d"
  "db_workers (update_run rid f d) = db_workers d"
  "db_leases (update_run rid f d) = db_leases d"
  "db_steps (update_run rid f d) = db_steps d"
  "db_artifacts (update_run rid f d) = db_artifacts d"
  "db_decisions (update_run rid f d) = db_decisions d"
  "db_evidence (update_run rid f d) = db_evidence d"
  "db_validations (update_run rid f d) = db_validations d"
  "db_bases (update_run rid f d) = db_bases d"
  "db_reviews (update_run rid f d) = db_reviews d"
  "db_comments (update_run rid f d) = db_comments d"
  "db_webhooks (update_run rid f d) = db_webhooks d"
  "db_deliveries (update_run rid f d) = db_deliveries d"
  "db_integrity (update_run rid f d) = db_integrity d"
  "db_credentials (update_run rid f d) = db_credentials d"
  "db_policy (update_run rid f d) = db_policy d"
  "db_routing (update_run rid f d) = db_routing d"
  "db_circuits (update_run rid f d) = db_circuits d"
  "db_locks (update_run rid f d) = db_locks d"
  "db_uuid (update_run rid f d) = db_uuid d"
  "db_drawn (update_run rid f d) = db_drawn d"
  "db_runs (update_run rid f d) = update_row run_id rid f (db_runs d)"
  by (simp_all add: update_run_def)

lemma append_event_added:
  "\<exists>e. db_events (append_event now rid ty p d) = db_events d @ [e] \<and> ev_run e = rid
     \<and> ev_type e = ty \<and> ev_payload e = p \<and> ev_created_at e = now"
  by (simp add: append_event_def Let_def)

lemma append_event_numbered [intro]:
  "events_numbered (db_events d) \<Longrightarrow> events_numbered (db_events (append_event now rid ty p d))"
  by (rule run_log.append_numbered)

section \<open>The audit trail\<close>

record principal =
  pr_issuer :: string
  pr_subject :: string
  pr_actor_type :: string
  pr_scopes :: "string list"
  pr_display_name :: string
  pr_email :: "string option"
  pr_roles :: "string list"

definition append_audit ::
    "principal \<Rightarrow> string \<Rightarrow> string \<Rightarrow> string \<Rightarrow> string \<Rightarrow> dict \<Rightarrow> db \<Rightarrow> db" where
  "append_audit pr action object_type object_id request_id metadata d =
     (drawn d)\<lparr>db_audits := db_audits d @
       [\<lparr>au_actor_type = pr_actor_type pr, au_actor_id = pr_subject pr, au_action = action,
         au_object_type = object_type, au_object_id = object_id, au_request_id = request_id,
         au_metadata = metadata\<rparr>]\<rparr>"

lemma append_audit_frame [simp, store_frame]:
  "db_instruments (append_audit pr a t i r m d) = db_instruments d"
  "db_batches (append_audit pr a t i r m d) = db_batches d"
  "db_requests (append_audit pr a t i r m d) = db_requests d"
  "db_snapshots (append_audit pr a t i r m d) = db_snapshots d"
  "db_runs (append_audit pr a t i r m d) = db_runs d"
  "db_requirements (append_audit pr a t i r m d) = db_requirements d"
  "db_events (append_audit pr a t i r m d) = db_events d"
  "db_users (append_audit pr a t i r m d) = db_users d"
  "db_roles (append_audit pr a t i r m d) = db_roles d"
  "db_user_roles (append_audit pr a t i r m d) = db_user_roles d"
  "db_workers (append_audit pr a t i r m d) = db_workers d"
  "db_leases (append_audit pr a t i r m d) = db_leases d"
  "db_steps (append_audit pr a t i r m d) = db_steps d"
  "db_artifacts (append_audit pr a t i r m d) = db_artifacts d"
  "db_decisions (append_audit pr a t i r m d) = db_decisions d"
  "db_evidence (append_audit pr a t i r m d) = db_evidence d"
  "db_validations (append_audit pr a t i r m d) = db_validations d"
  "db_bases (append_audit pr a t i r m d) = db_bases d"
  "db_reviews (append_audit pr a t i r m d) = db_reviews d"
  "db_comments (append_audit pr a t i r m d) = db_comments d"
  "db_webhooks (append_audit pr a t i r m d) = db_webhooks d"
  "db_deliveries (append_audit pr a t i r m d) = db_deliveries d"
  "db_integrity (append_audit pr a t i r m d) = db_integrity d"
  "db_credentials (append_audit pr a t i r m d) = db_credentials d"
  "db_policy (append_audit pr a t i r m d) = db_policy d"
  "db_routing (append_audit pr a t i r m d) = db_routing d"
  "db_circuits (append_audit pr a t i r m d) = db_circuits d"
  "db_locks (append_audit pr a t i r m d) = db_locks d"
  "db_uuid (append_audit pr a t i r m d) = db_uuid d"
  "db_drawn (append_audit pr a t i r m d) = Suc (db_drawn d)"
  by (simp_all add: append_audit_def)

section \<open>Coordination locks\<close>

text \<open>
  \<open>persistence/locks.py\<close>. A lock is a row of \<open>coordination_locks\<close> selected \<open>FOR UPDATE\<close>.
  \<open>held\<close> is the set of keys other transactions hold; a select with \<open>SKIP LOCKED\<close> does not
  see those rows, one that waits sees them after the other transaction ends.
\<close>

definition lock_statement :: "string set \<Rightarrow> string \<Rightarrow> bool \<Rightarrow> db \<Rightarrow> string option" where
  "lock_statement held key wait d =
     (if key \<in> set (db_locks d) \<and> (wait \<or> key \<notin> held) then Some key else None)"

definition ensure_lock :: "string \<Rightarrow> db \<Rightarrow> db" where
  "ensure_lock key d =
     (if key \<in> set (db_locks d) then d else d\<lparr>db_locks := db_locks d @ [key]\<rparr>)"

definition acquire_lock :: "string set \<Rightarrow> string \<Rightarrow> bool \<Rightarrow> db \<Rightarrow> bool \<times> db" where
  "acquire_lock held key wait d =
     (if wait then
        (let d' = (if key \<in> set (db_locks d) then d else ensure_lock key d)
         in (lock_statement held key True d' \<noteq> None, d'))
      else if lock_statement held key False d \<noteq> None then (True, d)
      else if key \<in> set (db_locks d) then (False, d)
      else (let d' = ensure_lock key d in (lock_statement held key False d' \<noteq> None, d')))"

lemma acquire_lock_result:
  "fst (acquire_lock held key wait d) \<longleftrightarrow> wait \<or> key \<notin> held"
  by (auto simp: acquire_lock_def lock_statement_def ensure_lock_def Let_def)

lemma acquire_lock_state:
  "\<exists>l. snd (acquire_lock held key wait d) = d\<lparr>db_locks := l\<rparr>"
proof -
  have "snd (acquire_lock held key wait d) = d
      \<or> snd (acquire_lock held key wait d) = d\<lparr>db_locks := db_locks d @ [key]\<rparr>"
    by (simp add: acquire_lock_def ensure_lock_def Let_def)
  then show ?thesis
  proof
    assume "snd (acquire_lock held key wait d) = d"
    then have "snd (acquire_lock held key wait d) = d\<lparr>db_locks := db_locks d\<rparr>" by simp
    then show ?thesis by blast
  qed blast
qed

lemma acquire_lock_frame [simp, store_frame]:
  "db_instruments (snd (acquire_lock held key wait d)) = db_instruments d"
  "db_batches (snd (acquire_lock held key wait d)) = db_batches d"
  "db_requests (snd (acquire_lock held key wait d)) = db_requests d"
  "db_snapshots (snd (acquire_lock held key wait d)) = db_snapshots d"
  "db_runs (snd (acquire_lock held key wait d)) = db_runs d"
  "db_requirements (snd (acquire_lock held key wait d)) = db_requirements d"
  "db_events (snd (acquire_lock held key wait d)) = db_events d"
  "db_audits (snd (acquire_lock held key wait d)) = db_audits d"
  "db_users (snd (acquire_lock held key wait d)) = db_users d"
  "db_roles (snd (acquire_lock held key wait d)) = db_roles d"
  "db_user_roles (snd (acquire_lock held key wait d)) = db_user_roles d"
  "db_workers (snd (acquire_lock held key wait d)) = db_workers d"
  "db_leases (snd (acquire_lock held key wait d)) = db_leases d"
  "db_steps (snd (acquire_lock held key wait d)) = db_steps d"
  "db_artifacts (snd (acquire_lock held key wait d)) = db_artifacts d"
  "db_decisions (snd (acquire_lock held key wait d)) = db_decisions d"
  "db_evidence (snd (acquire_lock held key wait d)) = db_evidence d"
  "db_validations (snd (acquire_lock held key wait d)) = db_validations d"
  "db_bases (snd (acquire_lock held key wait d)) = db_bases d"
  "db_reviews (snd (acquire_lock held key wait d)) = db_reviews d"
  "db_comments (snd (acquire_lock held key wait d)) = db_comments d"
  "db_webhooks (snd (acquire_lock held key wait d)) = db_webhooks d"
  "db_deliveries (snd (acquire_lock held key wait d)) = db_deliveries d"
  "db_integrity (snd (acquire_lock held key wait d)) = db_integrity d"
  "db_credentials (snd (acquire_lock held key wait d)) = db_credentials d"
  "db_policy (snd (acquire_lock held key wait d)) = db_policy d"
  "db_routing (snd (acquire_lock held key wait d)) = db_routing d"
  "db_circuits (snd (acquire_lock held key wait d)) = db_circuits d"
  "db_uuid (snd (acquire_lock held key wait d)) = db_uuid d"
  "db_drawn (snd (acquire_lock held key wait d)) = db_drawn d"
  using acquire_lock_state [of held key wait d] by auto

section \<open>Well-formed states\<close>

text \<open>
  Identifiers come from the \<open>uuid4\<close> stream without repetition, primary keys are unique, a
  run has at most one lease, and the event log is numbered.
\<close>

definition uuid_ok :: "db \<Rightarrow> bool" where
  "uuid_ok d \<longleftrightarrow> inj (db_uuid d)
     \<and> run_id ` set (db_runs d) \<subseteq> db_uuid d ` {..<db_drawn d}"

definition db_ok :: "db \<Rightarrow> bool" where
  "db_ok d \<longleftrightarrow> uuid_ok d \<and> unique_keys run_id (db_runs d)
     \<and> unique_keys ls_run (db_leases d) \<and> events_numbered (db_events d)"

lemma uuid4_fresh: "uuid_ok d \<Longrightarrow> uuid4 d \<notin> run_id ` set (db_runs d)"
proof
  assume ok: "uuid_ok d" and "uuid4 d \<in> run_id ` set (db_runs d)"
  then obtain k where "k < db_drawn d" and "db_uuid d (db_drawn d) = db_uuid d k"
    by (auto simp: uuid_ok_def uuid4_def)
  with ok show False by (simp add: uuid_ok_def inj_eq)
qed

lemma uuid_ok_mono:
  assumes "uuid_ok d" and "db_uuid d' = db_uuid d" and "db_drawn d \<le> db_drawn d'"
    and "run_id ` set (db_runs d') \<subseteq> run_id ` set (db_runs d)"
  shows "uuid_ok d'"
  using assms by (fastforce simp: uuid_ok_def)

lemma empty_db_ok: "db_ok empty_db"
  by (simp add: db_ok_def uuid_ok_def empty_db_def unique_keys_def events_numbered_def)

lemma unique_run_ids: "db_ok d \<Longrightarrow> unique_keys run_id (db_runs d)"
  by (simp add: db_ok_def)

lemma find_run_Some: "find_run rid d = Some r \<Longrightarrow> r \<in> set (db_runs d) \<and> run_id r = rid"
  by (auto simp: find_run_def dest: find_row_Some)

lemma find_run_update:
  "(\<And>r. run_id (f r) = run_id r) \<Longrightarrow>
     find_run j (update_run rid f d) = (if j = rid then map_option f (find_run rid d) else find_run j d)"
  by (simp add: find_run_def row_table.get_put)

lemma find_run_simps [simp]:
  "find_run j (append_event now rid ty p d) = find_run j d"
  "find_run j (append_audit pr a t i r m d) = find_run j d"
  "find_run j (drawn d) = find_run j d"
  by (simp_all add: find_run_def)

end
