(* ===== verification/PyDates.thy ===== *)
theory PyDates
  imports Json
begin

text \<open>
  What the code uses of Python's \<open>datetime\<close>: a \<open>date\<close> is its proleptic Gregorian ordinal
  (day 1 is 0001-01-01), a UTC \<open>datetime\<close> the number of microseconds since 1970-01-01.
\<close>

definition DAY :: int where "DAY = 86400000000"
definition HOUR :: int where "HOUR = 3600000000"
definition MINUTE :: int where "MINUTE = 60000000"

definition EPOCH_ORDINAL :: int where "EPOCH_ORDINAL = 719163"

text \<open>\<open>datetime.date()\<close> and \<open>datetime.combine(d, time.min, utc)\<close>.\<close>

definition date_of :: "int \<Rightarrow> int" where
  "date_of t = EPOCH_ORDINAL + t div DAY"

definition midnight :: "int \<Rightarrow> int" where
  "midnight d = (d - EPOCH_ORDINAL) * DAY"

text \<open>\<open>date.weekday()\<close>: Monday is 0.\<close>

definition weekday :: "int \<Rightarrow> int" where
  "weekday d = (d + 6) mod 7"

lemma date_of_midnight [simp]: "date_of (midnight d) = d"
  by (simp add: date_of_def midnight_def DAY_def)

lemma midnight_le: "midnight (date_of t) \<le> t \<and> t < midnight (date_of t + 1)"
proof -
  have "t = t div DAY * DAY + t mod DAY" by simp
  moreover have "0 \<le> t mod DAY" and "t mod DAY < DAY" by (simp_all add: DAY_def)
  moreover have "midnight (date_of t + 1) = t div DAY * DAY + DAY"
    by (simp add: date_of_def midnight_def algebra_simps)
  moreover have "midnight (date_of t) = t div DAY * DAY"
    by (simp add: date_of_def midnight_def)
  ultimately show ?thesis by linarith
qed

lemma weekday_range: "0 \<le> weekday d \<and> weekday d < 7"
  by (simp add: weekday_def)

text \<open>Year, month and day of an ordinal, and \<open>date.isoformat()\<close>.\<close>

definition civil :: "int \<Rightarrow> int \<times> int \<times> int" where
  "civil n =
     (let z = n + 305; era = z div 146097; doe = z mod 146097;
          yoe = (doe - doe div 1460 + doe div 36524 - doe div 146096) div 365;
          doy = doe - (365 * yoe + yoe div 4 - yoe div 100);
          mp = (5 * doy + 2) div 153;
          d = doy - (153 * mp + 2) div 5 + 1;
          m = (if mp < 10 then mp + 3 else mp - 9);
          y = yoe + era * 400 + (if m \<le> 2 then 1 else 0)
      in (y, m, d))"

definition pad_left :: "nat \<Rightarrow> string \<Rightarrow> string" where
  "pad_left n s = replicate (n - length s) (CHR ''0'') @ s"

definition iso_date :: "int \<Rightarrow> string" where
  "iso_date n = (case civil n of (y, m, d) \<Rightarrow>
     pad_left 4 (int_str y) @ ''-'' @ pad_left 2 (int_str m) @ ''-'' @ pad_left 2 (int_str d))"

lemma iso_date_epoch: "iso_date EPOCH_ORDINAL = ''1970-01-01''"
  by code_simp

end
