(* ===== verification/Integrity.thy ===== *)
theory Integrity
  imports Store PyDates
begin

text \<open>
  The point-in-time integrity policy (\<open>integrity/policy.py\<close>, \<open>integrity/contracts.py\<close>,
  \<open>integrity/repository.py\<close>): the recorder that classifies each tool a run used, the document
  it finalises and the latest supported assessment of a run. SHA-256 is the argument \<open>sha\<close>
  (a hash of the standard library).
\<close>

section \<open>Documents\<close>

datatype integrity_status = SAFE | AT_RISK | UNKNOWN

fun integrity_value :: "integrity_status \<Rightarrow> string" where
  "integrity_value SAFE = ''safe''"
| "integrity_value AT_RISK = ''at_risk''"
| "integrity_value UNKNOWN = ''unknown''"

definition CURRENT_POLICY_VERSION :: string where
  "CURRENT_POLICY_VERSION = ''point-in-time.v1''"

record finding =
  fnd_tool_name :: string
  fnd_status :: integrity_status
  fnd_reason_code :: string
  fnd_details :: dict

record integrity_document =
  idoc_policy_version :: string
  idoc_status :: integrity_status
  idoc_temporal_scope :: string
  idoc_analysis_date :: int
  idoc_checked_at :: int
  idoc_findings :: "finding list"
  idoc_reason_codes :: "string list"
  idoc_input_fingerprint :: string

definition finding_dump :: "finding \<Rightarrow> json" where
  "finding_dump f = JObj [(''tool_name'', JStr (fnd_tool_name f)),
     (''status'', JStr (integrity_value (fnd_status f))),
     (''reason_code'', JStr (fnd_reason_code f)), (''details'', JObj (fnd_details f))]"

section \<open>The recorder\<close>

record recorder =
  rec_analysis_date :: int
  rec_checked_at :: int
  rec_temporal_scope :: string
  rec_findings :: "finding list"

definition new_recorder :: "int \<Rightarrow> int \<Rightarrow> recorder" where
  "new_recorder analysis_date now = \<lparr>rec_analysis_date = analysis_date, rec_checked_at = now,
     rec_temporal_scope =
       (if analysis_date \<ge> date_of now then ''contemporaneous'' else ''historical_reconstruction''),
     rec_findings = []\<rparr>"

definition is_historical :: "recorder \<Rightarrow> bool" where
  "is_historical r \<longleftrightarrow> rec_temporal_scope r = ''historical_reconstruction''"

definition record_finding ::
    "string \<Rightarrow> integrity_status \<Rightarrow> string \<Rightarrow> dict \<Rightarrow> recorder \<Rightarrow> recorder" where
  "record_finding tool status reason details r = r\<lparr>rec_findings := rec_findings r @
     [\<lparr>fnd_tool_name = tool, fnd_status = status, fnd_reason_code = reason,
       fnd_details = details\<rparr>]\<rparr>"

fun status_priority :: "integrity_status \<Rightarrow> nat" where
  "status_priority SAFE = 0"
| "status_priority UNKNOWN = 1"
| "status_priority AT_RISK = 2"

text \<open>\<open>max(statuses, key=priority)\<close>: the first status of the highest priority.\<close>

fun worst_status :: "integrity_status \<Rightarrow> integrity_status list \<Rightarrow> integrity_status" where
  "worst_status w [] = w"
| "worst_status w (s # ss) = worst_status (if status_priority w < status_priority s then s else w) ss"

definition finalize_findings :: "recorder \<Rightarrow> finding list" where
  "finalize_findings r =
     (if rec_findings r = [] then
        (if rec_temporal_scope r = ''contemporaneous''
         then [\<lparr>fnd_tool_name = ''run'', fnd_status = SAFE,
                fnd_reason_code = ''live_current_snapshot'', fnd_details = []\<rparr>]
         else [\<lparr>fnd_tool_name = ''run'', fnd_status = UNKNOWN,
                fnd_reason_code = ''no_observed_tools'', fnd_details = []\<rparr>])
      else rec_findings r)"

definition integrity_finalize :: "(string \<Rightarrow> string) \<Rightarrow> recorder \<Rightarrow> integrity_document" where
  "integrity_finalize sha r =
     (let findings = finalize_findings r;
          statuses = map fnd_status findings;
          status = worst_status (hd statuses) (tl statuses);
          reason_codes = dedup (map fnd_reason_code findings);
          payload = JObj [(''policy_version'', JStr CURRENT_POLICY_VERSION),
            (''temporal_scope'', JStr (rec_temporal_scope r)),
            (''analysis_date'', JStr (iso_date (rec_analysis_date r))),
            (''findings'', JList (map finding_dump findings))]
      in \<lparr>idoc_policy_version = CURRENT_POLICY_VERSION, idoc_status = status,
          idoc_temporal_scope = rec_temporal_scope r, idoc_analysis_date = rec_analysis_date r,
          idoc_checked_at = rec_checked_at r, idoc_findings = findings,
          idoc_reason_codes = reason_codes,
          idoc_input_fingerprint = sha (json_dump_utf8 payload)\<rparr>)"

section \<open>Classifying the tools of a run\<close>

definition DATE_BOUNDED_TOOLS :: "string list" where
  "DATE_BOUNDED_TOOLS = [''get_stock_data'', ''get_verified_market_snapshot'',
     ''get_indicators'', ''get_news'', ''get_global_news'']"

definition FINANCIAL_STATEMENT_TOOLS :: "string list" where
  "FINANCIAL_STATEMENT_TOOLS = [''get_balance_sheet'', ''get_cashflow'', ''get_income_statement'']"

definition CURRENT_SNAPSHOT_TOOLS :: "string list" where
  "CURRENT_SNAPSHOT_TOOLS = [''get_fundamentals'', ''get_insider_transactions'',
     ''get_prediction_markets'']"

fun contains_str :: "string \<Rightarrow> string \<Rightarrow> bool" where
  "contains_str p [] = (p = [])"
| "contains_str p (c # s) = (starts_with p (c # s) \<or> contains_str p s)"

text \<open>\<open>visible_tool_output_text\<close> on JSON outputs.\<close>

fun visible_text :: "json \<Rightarrow> string" where
  "visible_text (JStr s) = s"
| "visible_text (JObj d) =
     (case dict_get ''content'' (map (\<lambda>(k, v). (k, JStr (visible_text v))) d) of
        Some (JStr t) \<Rightarrow> t
      | _ \<Rightarrow> (case dict_get ''text'' (map (\<lambda>(k, v). (k, JStr (visible_text v))) d) of
          Some (JStr t) \<Rightarrow> t
        | _ \<Rightarrow> json_spaced utf8_quote (JObj d)))"
| "visible_text (JList js) = join_with [CHR 0x0A] (map visible_text js)"
| "visible_text JNull = ''None''"
| "visible_text (JBool b) = (if b then ''True'' else ''False'')"
| "visible_text (JInt i) = int_str i"
| "visible_text (JFloat s) = s"

definition record_observed_tool :: "recorder option \<Rightarrow> string \<Rightarrow> json \<Rightarrow> recorder option" where
  "record_observed_tool rc tool output =
     (case rc of
        None \<Rightarrow> None
      | Some r \<Rightarrow>
          (if \<not> is_historical r then Some r
           else (let rendered = visible_text output in
             if tool \<in> set DATE_BOUNDED_TOOLS
             then Some (record_finding tool SAFE ''date_bounded_route'' [] r)
             else if tool \<in> set FINANCIAL_STATEMENT_TOOLS
             then Some (record_finding tool SAFE ''point_in_time_filtered'' [] r)
             else if tool = ''get_macro_indicators'' then
               (if starts_with ''POINT_IN_TIME_VINTAGE:'' rendered
                then Some (record_finding tool SAFE ''fred_vintage_applied'' [] r)
                else if starts_with ''DATA_UNAVAILABLE:'' rendered
                then Some (record_finding tool SAFE ''macro_data_unavailable'' [] r)
                else Some (record_finding tool UNKNOWN ''unregistered_tool'' [] r))
             else if tool \<in> set CURRENT_SNAPSHOT_TOOLS then
               (if contains_str ''POINT_IN_TIME_DATA_UNAVAILABLE:'' rendered
                then Some (record_finding tool SAFE ''current_snapshot_blocked'' [] r)
                else Some (record_finding tool AT_RISK ''current_snapshot_exposed'' [] r))
             else Some (record_finding tool UNKNOWN ''unregistered_tool'' [] r))))"

definition evidence_temporal_metadata ::
    "string \<Rightarrow> int option \<Rightarrow> json \<Rightarrow> int \<Rightarrow> int option \<times> string option" where
  "evidence_temporal_metadata tool analysis_date output now =
     (case analysis_date of
        None \<Rightarrow> (None, None)
      | Some d \<Rightarrow>
          (let effective_at = midnight d + DAY - 1; rendered = visible_text output in
           if tool \<in> set DATE_BOUNDED_TOOLS then (Some effective_at, Some ''point_in_time_bounded'')
           else if tool \<in> set FINANCIAL_STATEMENT_TOOLS
           then (Some effective_at, Some ''point_in_time_filtered'')
           else if tool = ''get_macro_indicators'' \<and> starts_with ''POINT_IN_TIME_VINTAGE:'' rendered
           then (Some effective_at, Some ''point_in_time_vintage'')
           else if tool = ''get_macro_indicators'' \<and> starts_with ''DATA_UNAVAILABLE:'' rendered
           then (None, Some ''point_in_time_unavailable'')
           else if contains_str ''POINT_IN_TIME_DATA_UNAVAILABLE:'' rendered
           then (None, Some ''point_in_time_unavailable'')
           else (None, if d \<ge> date_of now then Some ''current_snapshot'' else None)))"

definition observe_tools :: "recorder \<Rightarrow> (string \<times> json) list \<Rightarrow> recorder" where
  "observe_tools r calls = fold (\<lambda>(tool, output) r.
     case record_observed_tool (Some r) tool output of None \<Rightarrow> r | Some r' \<Rightarrow> r') calls r"

section \<open>Properties of the document\<close>

lemma worst_status_max:
  "status_priority (worst_status w ss) = fold max (map status_priority ss) (status_priority w)"
  by (induction ss arbitrary: w) (auto simp: max_def)

lemma status_priority_inject: "status_priority s = status_priority t \<longleftrightarrow> s = t"
  by (cases s; cases t) simp_all

lemma worst_status_in: "worst_status w ss \<in> insert w (set ss)"
  by (induction ss arbitrary: w) auto

lemma worst_status_ge: "s \<in> insert w (set ss) \<Longrightarrow> status_priority s \<le> status_priority (worst_status w ss)"
proof (induction ss arbitrary: w s)
  case (Cons t ss)
  let ?w = "if status_priority w < status_priority t then t else w"
  have "status_priority w \<le> status_priority ?w" and "status_priority t \<le> status_priority ?w" by auto
  moreover have "status_priority ?w \<le> status_priority (worst_status ?w ss)"
    by (rule Cons.IH) simp
  ultimately show ?case using Cons.prems Cons.IH [of s ?w] by auto
qed simp

lemma finalize_findings_nonempty: "finalize_findings r \<noteq> []"
  by (simp add: finalize_findings_def)

lemma worst_status_list:
  assumes "xs \<noteq> []"
  shows "worst_status (hd xs) (tl xs) \<in> set xs
    \<and> (\<forall>s\<in>set xs. status_priority s \<le> status_priority (worst_status (hd xs) (tl xs)))"
  using assms worst_status_in [of "hd xs" "tl xs"] worst_status_ge [of _ "hd xs" "tl xs"]
  by (cases xs) auto

lemma worst_is_safe:
  assumes "xs \<noteq> []"
  shows "worst_status (hd xs) (tl xs) = SAFE \<longleftrightarrow> (\<forall>s\<in>set xs. s = SAFE)"
proof
  assume "worst_status (hd xs) (tl xs) = SAFE"
  with worst_status_list [OF assms] have "\<forall>s\<in>set xs. status_priority s \<le> 0" by simp
  then show "\<forall>s\<in>set xs. s = SAFE"
    using status_priority_inject by (metis le_zero_eq status_priority.simps(1))
qed (use worst_status_list [OF assms] in blast)

lemma worst_is_at_risk:
  assumes "xs \<noteq> []"
  shows "worst_status (hd xs) (tl xs) = AT_RISK \<longleftrightarrow> (\<exists>s\<in>set xs. s = AT_RISK)"
proof
  assume "\<exists>s\<in>set xs. s = AT_RISK"
  with worst_status_list [OF assms] have "2 \<le> status_priority (worst_status (hd xs) (tl xs))" by force
  then show "worst_status (hd xs) (tl xs) = AT_RISK"
    by (cases "worst_status (hd xs) (tl xs)") simp_all
qed (use worst_status_list [OF assms] in force)

lemma idoc_status_finalize:
  "idoc_status (integrity_finalize sha r) =
     worst_status (hd (map fnd_status (finalize_findings r))) (tl (map fnd_status (finalize_findings r)))"
  by (simp add: integrity_finalize_def Let_def)

lemma observe_tools_simps [simp]:
  "observe_tools r [] = r"
  "observe_tools r ((t, out) # cs) =
     observe_tools (case record_observed_tool (Some r) t out of None \<Rightarrow> r | Some r' \<Rightarrow> r') cs"
  by (simp_all add: observe_tools_def)

lemma record_finding_simps [simp]:
  "rec_temporal_scope (record_finding t s c d r) = rec_temporal_scope r"
  "is_historical (record_finding t s c d r) = is_historical r"
  "rec_findings (record_finding t s c d r) = rec_findings r @
     [\<lparr>fnd_tool_name = t, fnd_status = s, fnd_reason_code = c, fnd_details = d\<rparr>]"
  by (simp_all add: record_finding_def is_historical_def)

text \<open>One observed tool of a historical run appends exactly one finding with its status.\<close>

definition tool_status :: "string \<Rightarrow> json \<Rightarrow> integrity_status" where
  "tool_status tool output =
     (if tool \<in> set (DATE_BOUNDED_TOOLS @ FINANCIAL_STATEMENT_TOOLS) then SAFE
      else if tool = ''get_macro_indicators'' then
        (if starts_with ''POINT_IN_TIME_VINTAGE:'' (visible_text output)
            \<or> starts_with ''DATA_UNAVAILABLE:'' (visible_text output) then SAFE else UNKNOWN)
      else if tool \<in> set CURRENT_SNAPSHOT_TOOLS then
        (if contains_str ''POINT_IN_TIME_DATA_UNAVAILABLE:'' (visible_text output)
         then SAFE else AT_RISK)
      else UNKNOWN)"

lemma record_observed_tool_historical:
  "is_historical r \<Longrightarrow> \<exists>r'. record_observed_tool (Some r) tool out = Some r' \<and> is_historical r'
     \<and> rec_temporal_scope r' = rec_temporal_scope r
     \<and> map fnd_status (rec_findings r') = map fnd_status (rec_findings r) @ [tool_status tool out]"
  unfolding record_observed_tool_def tool_status_def Let_def by simp

lemma observe_tools_historical:
  "is_historical r \<Longrightarrow> rec_temporal_scope (observe_tools r calls) = rec_temporal_scope r
     \<and> map fnd_status (rec_findings (observe_tools r calls))
       = map fnd_status (rec_findings r) @ map (\<lambda>c. tool_status (fst c) (snd c)) calls"
proof (induction calls arbitrary: r)
  case (Cons c calls)
  obtain t out where c: "c = (t, out)" by (cases c)
  obtain r' where r': "record_observed_tool (Some r) t out = Some r'" "is_historical r'"
    "rec_temporal_scope r' = rec_temporal_scope r"
    "map fnd_status (rec_findings r') = map fnd_status (rec_findings r) @ [tool_status t out]"
    using record_observed_tool_historical [OF Cons.prems] by blast
  then show ?case using Cons.IH [OF r'(2)] by (simp add: c)
qed simp

lemma observe_tools_live: "\<not> is_historical r \<Longrightarrow> observe_tools r calls = r"
  by (induction calls) (auto simp: record_observed_tool_def)

text \<open>
  A reconstruction of a past date is certified point-in-time safe only if it used at
  least one tool and every tool call it made was classified safe; one exposed current
  snapshot makes it at risk whatever the other calls were, and a historical run that used
  no tool at all is unknown. A live run records nothing and is safe.
\<close>

theorem integrity_verdict:
  assumes "doc = integrity_finalize sha (observe_tools (new_recorder analysis_date now) calls)"
  shows "(idoc_status doc = SAFE \<longleftrightarrow> analysis_date \<ge> date_of now
            \<or> (calls \<noteq> [] \<and> (\<forall>c\<in>set calls. tool_status (fst c) (snd c) = SAFE)))
    \<and> (idoc_status doc = AT_RISK \<longleftrightarrow> analysis_date < date_of now
            \<and> (\<exists>c\<in>set calls. tool_status (fst c) (snd c) = AT_RISK))"
proof (cases "analysis_date \<ge> date_of now")
  case True
  then have "\<not> is_historical (new_recorder analysis_date now)"
    by (simp add: is_historical_def new_recorder_def)
  then show ?thesis
    using True assms by (simp add: observe_tools_live idoc_status_finalize finalize_findings_def new_recorder_def)
next
  case False
  let ?r = "observe_tools (new_recorder analysis_date now) calls"
  let ?xs = "map fnd_status (finalize_findings ?r)"
  have h: "is_historical (new_recorder analysis_date now)"
    using False by (simp add: is_historical_def new_recorder_def)
  have st: "map fnd_status (rec_findings ?r) = map (\<lambda>c. tool_status (fst c) (snd c)) calls"
    using observe_tools_historical [OF h, of calls] by (simp add: new_recorder_def)
  have sc: "rec_temporal_scope ?r = ''historical_reconstruction''"
    using observe_tools_historical [OF h, of calls] False by (simp add: new_recorder_def)
  have xs: "?xs = (if calls = [] then [UNKNOWN] else map (\<lambda>c. tool_status (fst c) (snd c)) calls)"
  proof (cases "calls = []")
    case True
    then have "rec_findings ?r = []" by (simp add: new_recorder_def)
    then show ?thesis using True sc by (simp add: finalize_findings_def)
  next
    case False
    then have "rec_findings ?r \<noteq> []" using st by force
    then show ?thesis using False st by (simp add: finalize_findings_def)
  qed
  have ne: "?xs \<noteq> []" by (simp add: finalize_findings_nonempty)
  have bex: "(\<exists>s\<in>set ?xs. s = AT_RISK) \<longleftrightarrow> (\<exists>c\<in>set calls. tool_status (fst c) (snd c) = AT_RISK)"
    unfolding xs by (cases "calls = []") (simp_all only: set_map image_iff list.set if_True if_False bex_simps, auto)
  have ball: "(\<forall>s\<in>set ?xs. s = SAFE) \<longleftrightarrow> calls \<noteq> [] \<and> (\<forall>c\<in>set calls. tool_status (fst c) (snd c) = SAFE)"
    unfolding xs by auto
  have "idoc_status doc = worst_status (hd ?xs) (tl ?xs)"
    unfolding assms by (rule idoc_status_finalize)
  then show ?thesis
    using worst_is_safe [OF ne] worst_is_at_risk [OF ne] False unfolding bex ball by simp
qed

theorem integrity_verdict_witness:
  "idoc_status (integrity_finalize id (observe_tools (new_recorder 10 (midnight 20))
      [(''get_news'', JStr ''x''), (''get_fundamentals'', JStr ''y'')])) = AT_RISK"
proof -
  have "tool_status ''get_fundamentals'' (JStr ''y'') = AT_RISK" by code_simp
  then show ?thesis
    using integrity_verdict [OF refl, of id 10 "midnight 20"
        "[(''get_news'', JStr ''x''), (''get_fundamentals'', JStr ''y'')]"]
    by simp
qed

section \<open>The stored assessments\<close>

definition persist_document ::
    "int \<Rightarrow> nat \<Rightarrow> integrity_document \<Rightarrow> nat option \<Rightarrow> string \<Rightarrow> db \<Rightarrow> db \<times> integrity" where
  "persist_document now rid doc artifact_id audit_mode d =
     (case find (\<lambda>i. itg_run i = rid \<and> itg_policy_version i = idoc_policy_version doc
                  \<and> itg_fingerprint i = idoc_input_fingerprint doc) (db_integrity d) of
        Some existing \<Rightarrow> (d, existing)
      | None \<Rightarrow>
          (let row = \<lparr>itg_id = uuid4 d, itg_run = rid, itg_artifact = artifact_id,
                 itg_policy_version = idoc_policy_version doc,
                 itg_status = integrity_value (idoc_status doc), itg_audit_mode = audit_mode,
                 itg_temporal_scope = idoc_temporal_scope doc,
                 itg_analysis_date = idoc_analysis_date doc, itg_checked_at = idoc_checked_at doc,
                 itg_reason_codes = idoc_reason_codes doc,
                 itg_findings = JList (map finding_dump (idoc_findings doc)),
                 itg_fingerprint = idoc_input_fingerprint doc, itg_created_at = now\<rparr>
           in ((drawn d)\<lparr>db_integrity := db_integrity d @ [row]\<rparr>, row)))"

text \<open>
  The row with rank one per run: the greatest by check time, creation time and identifier
  among the rows of the current policy version.
\<close>

definition newer_integrity :: "integrity \<Rightarrow> integrity \<Rightarrow> bool" where
  "newer_integrity a b \<longleftrightarrow> itg_checked_at b < itg_checked_at a
     \<or> (itg_checked_at a = itg_checked_at b \<and> (itg_created_at b < itg_created_at a
        \<or> (itg_created_at a = itg_created_at b \<and> itg_id b < itg_id a)))"

definition latest_integrity :: "nat \<Rightarrow> db \<Rightarrow> integrity option" where
  "latest_integrity rid d =
     (case filter (\<lambda>i. itg_run i = rid \<and> itg_policy_version i = CURRENT_POLICY_VERSION)
             (db_integrity d) of
        [] \<Rightarrow> None
      | i # is \<Rightarrow> Some (fold (\<lambda>j best. if newer_integrity j best then j else best) is i))"

lemma persist_document_idempotent:
  "persist_document now' rid doc art' mode' (fst (persist_document now rid doc art mode d))
     = (fst (persist_document now rid doc art mode d), snd (persist_document now rid doc art mode d))"
proof (cases "find (\<lambda>i. itg_run i = rid \<and> itg_policy_version i = idoc_policy_version doc
                  \<and> itg_fingerprint i = idoc_input_fingerprint doc) (db_integrity d)")
  case None
  have "find P (xs @ [x]) = (case find P xs of None \<Rightarrow> if P x then Some x else None | Some y \<Rightarrow> Some y)"
    for P :: "integrity \<Rightarrow> bool" and xs x
    by (induction xs) auto
  then show ?thesis using None by (simp add: persist_document_def Let_def)
qed (simp add: persist_document_def)

end
