(* ===== verification/Decimals.thy ===== *)
theory Decimals
  imports Prelude Complex_Main
begin

text \<open>
  Python's \<open>decimal.Decimal\<close> under the default context: a finite decimal is the rational it
  denotes, and every arithmetic operation returns the exact result rounded half-even to 28
  significant digits (\<open>round28\<close>). \<open>quantize10\<close> is
  \<open>value.quantize(Decimal("0.0000000001"), rounding=ROUND_HALF_EVEN)\<close>, which raises
  \<open>InvalidOperation\<close> where the result needs more than 28 digits. Exponent limits, NaN,
  infinities and the sign of zero are not modelled.

  The locale \<open>decimal_context\<close> is what the calculators rely on, whatever the precision.
\<close>

section \<open>Rounding half to even\<close>

definition round_half_even :: "rat \<Rightarrow> int" where
  "round_half_even x =
     (let f = \<lfloor>x\<rfloor>; r = x - of_int f
      in if r < 1 / 2 then f else if r > 1 / 2 then f + 1 else if even f then f else f + 1)"

lemma round_half_even_error: "\<bar>of_int (round_half_even x) - x\<bar> \<le> 1 / 2"
proof -
  have "of_int \<lfloor>x\<rfloor> \<le> x" and "x < of_int \<lfloor>x\<rfloor> + 1" by linarith+
  then show ?thesis by (auto simp: round_half_even_def Let_def)
qed

lemma round_half_even_of_int [simp]: "round_half_even (of_int n) = n"
  by (simp add: round_half_even_def Let_def)

lemma round_half_even_mono:
  assumes "x \<le> y"
  shows "round_half_even x \<le> round_half_even y"
proof (cases "\<lfloor>x\<rfloor> = \<lfloor>y\<rfloor>")
  case True
  with assms show ?thesis by (auto simp: round_half_even_def Let_def)
next
  case False
  with floor_mono [OF assms] have "\<lfloor>x\<rfloor> + 1 \<le> \<lfloor>y\<rfloor>" by linarith
  moreover have "round_half_even x \<le> \<lfloor>x\<rfloor> + 1" and "\<lfloor>y\<rfloor> \<le> round_half_even y"
    by (auto simp: round_half_even_def Let_def)
  ultimately show ?thesis by linarith
qed

lemma round_half_even_minus: "round_half_even (- x) = - round_half_even x"
proof (cases "x = of_int \<lfloor>x\<rfloor>")
  case True
  then obtain n where n: "x = of_int n" by blast
  have "round_half_even (- x) = round_half_even (of_int (- n))" by (simp add: n)
  also have "\<dots> = - round_half_even x" by (simp only: round_half_even_of_int n)
  finally show ?thesis .
next
  case False
  let ?f = "\<lfloor>x\<rfloor>"
  have lo: "of_int ?f < x" using False by (metis floor_correct order_le_neq_trans)
  have hi: "x < of_int ?f + 1" by linarith
  have fl: "\<lfloor>- x\<rfloor> = - ?f - 1" using lo hi by (simp add: floor_unique)
  show ?thesis
    unfolding round_half_even_def fl Let_def by auto
qed

section \<open>Twenty-eight significant digits\<close>

fun ndigits :: "nat \<Rightarrow> nat" where
  "ndigits n = (if n < 10 then 1 else Suc (ndigits (n div 10)))"

declare ndigits.simps [simp del]

lemma ndigits_bounds: "0 < n \<Longrightarrow> 10 ^ (ndigits n - 1) \<le> n \<and> n < 10 ^ ndigits n"
proof (induction n rule: ndigits.induct)
  case (1 n)
  show ?case
  proof (cases "n < 10")
    case True
    with 1 show ?thesis by (simp add: ndigits.simps [of n])
  next
    case False
    with 1 have IH: "10 ^ (ndigits (n div 10) - 1) \<le> n div 10" "n div 10 < 10 ^ ndigits (n div 10)"
      by auto
    have pos: "0 < ndigits (n div 10)" by (subst ndigits.simps) simp
    have "10 ^ ndigits (n div 10) = 10 * (10::nat) ^ (ndigits (n div 10) - 1)"
      using pos by (cases "ndigits (n div 10)") simp_all
    also have "\<dots> \<le> 10 * (n div 10)" using IH by simp
    also have "\<dots> \<le> n" by simp
    finally have lo: "10 ^ ndigits (n div 10) \<le> n" .
    have "n < 10 * (n div 10) + 10"
      using mult_div_mod_eq [of 10 n] by (smt (verit) add_less_cancel_left mod_less_divisor zero_less_numeral)
    also have "\<dots> \<le> 10 * 10 ^ ndigits (n div 10)" using IH by simp
    finally have "n < 10 ^ Suc (ndigits (n div 10))" by simp
    with lo False show ?thesis by (simp add: ndigits.simps [of n])
  qed
qed

text \<open>\<open>adjusted x\<close> is the exponent of the leading digit of a positive rational.\<close>

definition adjusted :: "rat \<Rightarrow> int" where
  "adjusted x =
     (let (n, d) = quotient_of x;
          k = int (ndigits (nat n)) - int (ndigits (nat d))
      in if 10 powi k \<le> x then k else k - 1)"

definition round28 :: "rat \<Rightarrow> rat" where
  "round28 x =
     (if x = 0 then 0
      else let e = adjusted \<bar>x\<bar> - 27
           in of_int (round_half_even (x / 10 powi e)) * 10 powi e)"

lemma powi_mono: "m \<le> n \<Longrightarrow> (10::rat) powi m \<le> 10 powi n"
  by (simp add: power_int_increasing)

lemma powi_pos: "0 < (10::rat) powi k"
  by (simp add: zero_less_power_int)

lemma powi_add: "(10::rat) powi (m + n) = 10 powi m * 10 powi n"
  by (simp add: power_int_add)

lemma adjusted_bounds:
  assumes "0 < x"
  shows "10 powi (adjusted x) \<le> x \<and> x < 10 powi (adjusted x + 1)"
proof -
  obtain n d where nd: "quotient_of x = (n, d)" by (cases "quotient_of x")
  have d0: "0 < d" using quotient_of_denom_pos [OF nd] .
  have x: "x = of_int n / of_int d" using quotient_of_div [OF nd] .
  have n0: "0 < n" using assms d0 by (simp add: x zero_less_divide_iff)
  let ?a = "ndigits (nat n)" and ?b = "ndigits (nat d)"
  have pa: "0 < ?a" and pb: "0 < ?b" by (subst ndigits.simps, simp)+
  have nb: "10 ^ (?a - 1) \<le> nat n \<and> nat n < 10 ^ ?a" by (rule ndigits_bounds) (simp add: n0)
  have db: "10 ^ (?b - 1) \<le> nat d \<and> nat d < 10 ^ ?b" by (rule ndigits_bounds) (simp add: d0)
  have conv: "rat_of_nat (nat n) = of_int n" "rat_of_nat (nat d) = of_int d"
    using n0 d0 by simp_all
  have "rat_of_nat (10 ^ (?a - 1)) \<le> of_int n" "of_int n < rat_of_nat (10 ^ ?a)"
    "rat_of_nat (10 ^ (?b - 1)) \<le> of_int d" "of_int d < rat_of_nat (10 ^ ?b)"
    using nb db unfolding conv [symmetric] of_nat_le_iff of_nat_less_iff by simp_all
  then have n1: "10 powi (int ?a - 1) \<le> rat_of_int n" and n2: "rat_of_int n < 10 powi (int ?a)"
    and d1: "10 powi (int ?b - 1) \<le> rat_of_int d" and d2: "rat_of_int d < 10 powi (int ?b)"
    using pa pb by (simp_all add: power_int_def nat_diff_distrib)
  let ?k = "int ?a - int ?b"
  have d0': "0 < rat_of_int d" using d0 by simp
  have hi: "x < 10 powi (?k + 1)"
  proof -
    have "rat_of_int n < 10 powi (?k + 1) * 10 powi (int ?b - 1)"
      using n2 by (simp add: powi_add [symmetric])
    also have "\<dots> \<le> 10 powi (?k + 1) * rat_of_int d"
      using d1 powi_pos [of "?k + 1"] by simp
    finally show ?thesis using d0' by (simp add: x divide_less_eq)
  qed
  have lo: "10 powi (?k - 1) \<le> x"
  proof -
    have "10 powi (?k - 1) * rat_of_int d \<le> 10 powi (?k - 1) * 10 powi (int ?b)"
      using d2 powi_pos [of "?k - 1"] by simp
    also have "\<dots> = 10 powi (?k - 1 + int ?b)"
      by (rule powi_add [symmetric])
    also have "\<dots> = 10 powi (int ?a - 1)"
      by (simp only: diff_add_eq diff_diff_eq) (simp add: algebra_simps)
    also have "\<dots> \<le> rat_of_int n" by (rule n1)
    finally show ?thesis using d0' by (simp add: x le_divide_eq)
  qed
  show ?thesis
    using lo hi by (simp add: adjusted_def nd Let_def)
qed

lemma adjusted_mono:
  assumes "0 < x" and "x \<le> y"
  shows "adjusted x \<le> adjusted y"
proof (rule ccontr)
  assume "\<not> adjusted x \<le> adjusted y"
  then have "adjusted y + 1 \<le> adjusted x" by simp
  then have "10 powi (adjusted y + 1) \<le> (10::rat) powi (adjusted x)" by (rule powi_mono)
  moreover have "y < 10 powi (adjusted y + 1)" using adjusted_bounds [of y] assms by simp
  moreover have "10 powi (adjusted x) \<le> x" using adjusted_bounds [of x] assms by simp
  ultimately show False using assms(2) by simp
qed

lemma round28_minus: "round28 (- x) = - round28 x"
  by (simp add: round28_def Let_def round_half_even_minus)

lemma round28_scaled:
  assumes "0 < x"
  shows "10 ^ 27 \<le> x / 10 powi (adjusted x - 27) \<and> x / 10 powi (adjusted x - 27) < 10 ^ 28"
proof -
  have "(10::rat) powi (adjusted x) = 10 ^ 27 * 10 powi (adjusted x - 27)"
    using powi_add [of 27 "adjusted x - 27"] by simp
  moreover have "(10::rat) powi (adjusted x + 1) = 10 ^ 28 * 10 powi (adjusted x - 27)"
    using powi_add [of 28 "adjusted x - 27"] by (simp add: add.commute)
  ultimately show ?thesis
    using adjusted_bounds [OF assms] powi_pos [of "adjusted x - 27"]
    by (simp add: le_divide_eq divide_less_eq)
qed

lemma round28_bounds:
  assumes "0 < x"
  shows "10 powi (adjusted x) \<le> round28 x \<and> round28 x \<le> 10 powi (adjusted x + 1)"
proof -
  let ?e = "adjusted x - 27"
  have "round_half_even (of_int (10 ^ 27)) \<le> round_half_even (x / 10 powi ?e)"
    using round28_scaled [OF assms] by (intro round_half_even_mono) simp
  then have lo: "10 ^ 27 \<le> round_half_even (x / 10 powi ?e)"
    by (simp only: round_half_even_of_int)
  have "round_half_even (x / 10 powi ?e) \<le> round_half_even (of_int (10 ^ 28))"
    using round28_scaled [OF assms] by (intro round_half_even_mono) simp
  then have hi: "round_half_even (x / 10 powi ?e) \<le> 10 ^ 28"
    by (simp only: round_half_even_of_int)
  have r: "round28 x = of_int (round_half_even (x / 10 powi ?e)) * 10 powi ?e"
    using assms by (simp add: round28_def Let_def)
  have "(10::rat) ^ 27 \<le> of_int (round_half_even (x / 10 powi ?e))"
    using lo by (metis of_int_le_iff of_int_numeral of_int_power)
  moreover have "of_int (round_half_even (x / 10 powi ?e)) \<le> (10::rat) ^ 28"
    using hi by (metis of_int_le_iff of_int_numeral of_int_power)
  moreover have "(10::rat) powi (adjusted x) = 10 ^ 27 * 10 powi ?e"
    using powi_add [of 27 ?e] by simp
  moreover have "(10::rat) powi (adjusted x + 1) = 10 ^ 28 * 10 powi ?e"
    using powi_add [of 28 ?e] by (simp add: add.commute)
  ultimately show ?thesis
    using powi_pos [of ?e] unfolding r by simp
qed

lemma round28_zero [simp]: "round28 0 = 0"
  by (simp add: round28_def)

lemma round28_pos: "0 < x \<Longrightarrow> 0 < round28 x"
  using round28_bounds [of x] powi_pos [of "adjusted x"] by linarith

lemma round28_mono_pos:
  assumes "0 < x" and "x \<le> y"
  shows "round28 x \<le> round28 y"
proof (cases "adjusted x = adjusted y")
  case True
  let ?e = "adjusted y - 27"
  have "round_half_even (x / 10 powi ?e) \<le> round_half_even (y / 10 powi ?e)"
    using assms(2) powi_pos [of ?e] by (intro round_half_even_mono divide_right_mono) simp_all
  then show ?thesis
    using assms True powi_pos [of ?e] by (simp add: round28_def Let_def)
next
  case False
  with adjusted_mono [OF assms] have "adjusted x + 1 \<le> adjusted y" by simp
  then have "10 powi (adjusted x + 1) \<le> (10::rat) powi (adjusted y)" by (rule powi_mono)
  then show ?thesis
    using round28_bounds [OF assms(1)] round28_bounds [of y] assms by linarith
qed

lemma round28_mono: "x \<le> y \<Longrightarrow> round28 x \<le> round28 y"
proof -
  assume le: "x \<le> y"
  consider "0 < x" | "x \<le> 0" "0 \<le> y" | "y < 0" by linarith
  then show ?thesis
  proof cases
    case 1
    then show ?thesis using le by (rule round28_mono_pos)
  next
    case 2
    have "round28 x \<le> 0"
      using 2 round28_pos [of "- x"] by (cases "x = 0") (auto simp: round28_minus)
    moreover have "0 \<le> round28 y"
      using 2 round28_pos [of y] by (cases "y = 0") auto
    ultimately show ?thesis by linarith
  next
    case 3
    then have "round28 (- y) \<le> round28 (- x)" using le by (intro round28_mono_pos) simp_all
    then show ?thesis by (simp add: round28_minus)
  qed
qed

lemma round28_error: "\<bar>round28 x - x\<bar> \<le> \<bar>x\<bar> / (2 * 10 ^ 27)"
proof (cases "x = 0")
  case False
  let ?e = "adjusted \<bar>x\<bar> - 27"
  have p: "0 < (10::rat) powi ?e" by (rule powi_pos)
  have "round28 x - x = (of_int (round_half_even (x / 10 powi ?e)) - x / 10 powi ?e) * 10 powi ?e"
    using False p by (simp add: round28_def Let_def field_simps)
  then have "\<bar>round28 x - x\<bar> \<le> 1 / 2 * 10 powi ?e"
    using round_half_even_error [of "x / 10 powi ?e"] p by (simp add: abs_mult)
  moreover have "10 ^ 27 * 10 powi ?e \<le> \<bar>x\<bar>"
    using round28_scaled [of "\<bar>x\<bar>"] False p by (simp add: le_divide_eq)
  ultimately show ?thesis by simp
qed simp

lemma round28_one [simp]: "round28 1 = 1"
proof -
  have "quotient_of 1 = (1, 1)" by (simp add: quotient_of_number)
  then have a: "adjusted 1 = 0"
    by (simp add: adjusted_def)
  have "(1::rat) / 10 powi (- 27) = of_int (10 ^ 27)"
    by (simp add: power_int_minus)
  then have "round_half_even (1 / 10 powi (- 27)) = 10 ^ 27"
    by (simp only: round_half_even_of_int)
  then show ?thesis by (simp add: round28_def Let_def a power_int_minus)
qed

lemma adjusted_unique:
  assumes "10 powi k \<le> x" and "x < 10 powi (k + 1)"
  shows "adjusted x = k"
proof (rule ccontr)
  have x: "0 < x" using assms(1) powi_pos [of k] by linarith
  note b = adjusted_bounds [OF x]
  assume "adjusted x \<noteq> k"
  then consider "adjusted x + 1 \<le> k" | "k + 1 \<le> adjusted x" by linarith
  then show False
  proof cases
    case 1
    from powi_mono [OF this] show False using assms b by linarith
  next
    case 2
    from powi_mono [OF this] show False using assms b by linarith
  qed
qed

lemma round28_fixed:
  assumes "10 powi k \<le> y" and "y < 10 powi (k + 1)" and "y = of_int m * 10 powi (k - 27)"
  shows "round28 y = y"
proof -
  have y: "0 < y" using assms(1) powi_pos [of k] by linarith
  have "adjusted y = k" using assms(1,2) by (rule adjusted_unique)
  moreover have "y / 10 powi (k - 27) = of_int m"
    using powi_pos [of "k - 27"] by (simp add: assms(3))
  ultimately show ?thesis using y assms(3) by (simp add: round28_def Let_def)
qed

lemma round28_idem [simp]: "round28 (round28 x) = round28 x"
proof -
  have pos: "round28 (round28 x) = round28 x" if x: "0 < x" for x
  proof (cases "round28 x < 10 powi (adjusted x + 1)")
    case True
    have "round28 x = of_int (round_half_even (x / 10 powi (adjusted x - 27))) * 10 powi (adjusted x - 27)"
      using x by (simp add: round28_def Let_def)
    with round28_bounds [OF x] True show ?thesis by (intro round28_fixed) blast+
  next
    case False
    let ?k = "adjusted x + 1"
    have y: "round28 x = 10 powi ?k" using False round28_bounds [OF x] by linarith
    have "(10::rat) powi ?k = of_int (10 ^ 27) * 10 powi (?k - 27)"
      using powi_add [of 27 "?k - 27"] by (simp add: add.commute)
    moreover have "(10::rat) powi ?k < 10 powi (?k + 1)"
      by (rule power_int_strict_increasing) simp_all
    ultimately show ?thesis unfolding y by (rule round28_fixed [OF order_refl, rotated])
  qed
  show ?thesis
  proof (cases x "0 :: rat" rule: linorder_cases)
    case less
    then have "round28 (round28 (- x)) = round28 (- x)" by (intro pos) simp
    then show ?thesis by (simp add: round28_minus)
  qed (simp_all add: pos)
qed

section \<open>The contract of the arithmetic\<close>

locale decimal_context =
  fixes rnd :: "rat \<Rightarrow> rat"
  assumes rnd_mono: "x \<le> y \<Longrightarrow> rnd x \<le> rnd y"
    and rnd_minus: "rnd (- x) = - rnd x"
    and rnd_pos: "0 < x \<Longrightarrow> 0 < rnd x"
    and rnd_one: "rnd 1 = 1"
    and rnd_idem: "rnd (rnd x) = rnd x"
begin

text \<open>A representable number is a lower bound of what a larger one rounds to.\<close>

lemma rnd_ge: "rnd c \<le> x \<Longrightarrow> rnd c \<le> rnd x"
  using rnd_mono [of "rnd c" x] by (simp add: rnd_idem)

lemma rnd_zero: "rnd 0 = 0"
  using rnd_minus [of 0] by simp

lemma rnd_neg: "x < 0 \<Longrightarrow> rnd x < 0"
  using rnd_pos [of "- x"] by (simp add: rnd_minus)

lemma rnd_nonneg: "0 \<le> x \<Longrightarrow> 0 \<le> rnd x"
  using rnd_mono [of 0 x] by (simp add: rnd_zero)

lemma rnd_sign: "(0 < rnd x \<longleftrightarrow> 0 < x) \<and> (rnd x < 0 \<longleftrightarrow> x < 0) \<and> (rnd x = 0 \<longleftrightarrow> x = 0)"
  using rnd_pos [of x] rnd_neg [of x] rnd_zero by (cases x "0 :: rat" rule: linorder_cases) auto

text \<open>The return \<open>exit / entry - 1\<close> as the code computes it, in two rounded steps.\<close>

definition ret :: "rat \<Rightarrow> rat \<Rightarrow> rat" where
  "ret exit entry = rnd (rnd (exit / entry) - 1)"

lemma ret_mono: "0 < entry \<Longrightarrow> a \<le> b \<Longrightarrow> ret a entry \<le> ret b entry"
  unfolding ret_def by (intro rnd_mono diff_right_mono divide_right_mono) simp_all

lemma ret_same: "0 < p \<Longrightarrow> ret p p = 0"
  by (simp add: ret_def rnd_one rnd_zero)

lemma ret_nonpos: "0 < entry \<Longrightarrow> a \<le> entry \<Longrightarrow> ret a entry \<le> 0"
  using ret_mono [of entry a entry] by (simp add: ret_same)

lemma ret_nonneg: "0 < entry \<Longrightarrow> entry \<le> a \<Longrightarrow> 0 \<le> ret a entry"
  using ret_mono [of entry entry a] by (simp add: ret_same)

end

interpretation dec28: decimal_context round28
  by unfold_locales (rule round28_mono round28_minus round28_pos round28_one round28_idem; assumption?)+

section \<open>Quantising\<close>

definition quantize10 :: "rat \<Rightarrow> rat result" where
  "quantize10 x =
     (let m = round_half_even (x * 10 ^ 10)
      in if \<bar>m\<bar> \<ge> 10 ^ 28 then Inl InvalidOperation else Inr (of_int m / 10 ^ 10))"

lemma quantize10_Inr:
  "quantize10 x = Inr q \<Longrightarrow> q = of_int (round_half_even (x * 10 ^ 10)) / 10 ^ 10"
  unfolding quantize10_def Let_def by (simp only: split: if_splits) simp_all

lemma quantize10_error: "quantize10 x = Inr q \<Longrightarrow> \<bar>q - x\<bar> \<le> 1 / (2 * 10 ^ 10)"
proof -
  assume "quantize10 x = Inr q"
  then have q: "q = of_int (round_half_even (x * 10 ^ 10)) / 10 ^ 10" by (rule quantize10_Inr)
  have "q - x = (of_int (round_half_even (x * 10 ^ 10)) - x * 10 ^ 10) / 10 ^ 10"
    unfolding q by (simp add: field_simps)
  then have "\<bar>q - x\<bar> = \<bar>of_int (round_half_even (x * 10 ^ 10)) - x * 10 ^ 10\<bar> / 10 ^ 10"
    by (simp only: abs_divide) simp
  also have "\<dots> \<le> (1 / 2) / 10 ^ 10"
    by (intro divide_right_mono round_half_even_error) simp
  finally show ?thesis by simp
qed

lemma quantize10_mono:
  "quantize10 x = Inr p \<Longrightarrow> quantize10 y = Inr q \<Longrightarrow> x \<le> y \<Longrightarrow> p \<le> q"
proof -
  assume a: "quantize10 x = Inr p" "quantize10 y = Inr q" "x \<le> y"
  have "round_half_even (x * 10 ^ 10) \<le> round_half_even (y * 10 ^ 10)"
    using a(3) by (intro round_half_even_mono) simp
  then have "of_int (round_half_even (x * 10 ^ 10)) / (10::rat) ^ 10
      \<le> of_int (round_half_even (y * 10 ^ 10)) / 10 ^ 10"
    by (intro divide_right_mono) simp_all
  then show ?thesis using a(1,2) [THEN quantize10_Inr] by simp
qed

lemma quantize10_small:
  assumes "\<bar>x\<bar> \<le> 10 ^ 17"
  shows "\<exists>q. quantize10 x = Inr q"
proof -
  let ?m = "round_half_even (x * 10 ^ 10)"
  have "\<bar>x * 10 ^ 10\<bar> \<le> 10 ^ 27" using assms by (simp add: abs_mult)
  then have "\<bar>rat_of_int ?m\<bar> \<le> 10 ^ 27 + 1"
    using round_half_even_error [of "x * 10 ^ 10"] by linarith
  then have "rat_of_int \<bar>?m\<bar> \<le> of_int (10 ^ 27 + 1)" by simp
  then have "\<bar>?m\<bar> < 10 ^ 28" unfolding of_int_le_iff by simp
  then have "\<not> \<bar>?m\<bar> \<ge> 10 ^ 28" by (simp only: not_le)
  then show ?thesis unfolding quantize10_def Let_def by (simp only: if_False) blast
qed

end
