(* ===== verification/Memory.thy ===== *)
theory Memory
  imports Integrity Decimals "HOL-Library.Product_Lexorder"
begin

text \<open>
  History-assisted assessments (\<open>memory/context.py\<close>, \<open>memory/repository.py\<close>): which
  validated past runs a new run may remember, the entries made of them and the hash that
  pins the snapshot. SHA-256 (\<open>sha\<close>) and the text \<open>str\<close> gives a stored decimal
  (\<open>show\<close>) are arguments.
\<close>

datatype memory_mode = INDEPENDENT | HISTORICAL

fun memory_mode_value :: "memory_mode \<Rightarrow> string" where
  "memory_mode_value INDEPENDENT = ''independent''"
| "memory_mode_value HISTORICAL = ''historical''"

definition parse_memory_mode :: "string \<Rightarrow> memory_mode result" where
  "parse_memory_mode v = (if v = ''independent'' then Inr INDEPENDENT
     else if v = ''historical'' then Inr HISTORICAL else Inl (ValueError ''MemoryMode''))"

record candidate =
  mc_source_run_id :: nat
  mc_validation_id :: nat
  mc_ticker :: string
  mc_analysis_date :: int
  mc_exit_session :: int
  mc_horizon :: int
  mc_rating :: string
  mc_executive_summary :: string
  mc_investment_thesis :: string
  mc_price_target :: "rat option"
  mc_time_horizon :: "string option"
  mc_raw_return :: rat
  mc_alpha :: rat
  mc_mae :: rat
  mc_mfe :: rat
  mc_direction_correct :: "bool option"
  mc_price_target_hit :: "bool option"

record memory_entry =
  me_candidate :: candidate
  me_decision :: string
  me_reflection :: string
  me_content_sha256 :: string

record memory_snapshot =
  ms_mode :: memory_mode
  ms_entries :: "memory_entry list"
  ms_snapshot_sha256 :: string

section \<open>The text of an entry\<close>

definition newline :: string where "newline = [CHR 0x0A]"

definition decision_text :: "(rat \<Rightarrow> string) \<Rightarrow> candidate \<Rightarrow> string" where
  "decision_text show c = join_with newline
     ([''Rating: '' @ mc_rating c,
       ''Executive Summary: '' @ mc_executive_summary c,
       ''Investment Thesis: '' @ mc_investment_thesis c] @
      (case mc_price_target c of None \<Rightarrow> [] | Some t \<Rightarrow> [''Price Target: '' @ show t]) @
      (case mc_time_horizon c of None \<Rightarrow> [] | Some h \<Rightarrow>
         (if h = [] then [] else [''Time Horizon: '' @ h])))"

text \<open>\<open>format(value, "+.1%")\<close>\<close>

definition percent_text :: "rat \<Rightarrow> string" where
  "percent_text x =
     (let m = round_half_even (\<bar>x\<bar> * 1000)
      in (if x < 0 then ''-'' else ''+'') @ int_str (m div 10) @ ''.'' @ int_str (m mod 10) @ ''%'')"

definition reflection_text :: "candidate \<Rightarrow> string" where
  "reflection_text c =
     (let direction = (case mc_direction_correct c of Some True \<Rightarrow> ''correct''
            | Some False \<Rightarrow> ''incorrect'' | None \<Rightarrow> ''not classified'');
          target = (case mc_price_target_hit c of Some True \<Rightarrow> ''hit''
            | Some False \<Rightarrow> ''not hit'' | None \<Rightarrow> ''not set'')
      in ''Validated after '' @ int_str (mc_horizon c) @ '' sessions: direction '' @ direction @
         ''; raw return '' @ percent_text (mc_raw_return c) @
         ''; alpha '' @ percent_text (mc_alpha c) @
         ''; maximum adverse excursion '' @ percent_text (mc_mae c) @
         ''; maximum favorable excursion '' @ percent_text (mc_mfe c) @
         ''; price target '' @ target @ ''. Treat this as retrospective calibration, not as '' @
         ''current market evidence. Historical ratings are calibration observations, '' @
         ''not votes. Derive the current rating from current-date evidence first; use '' @
         ''this record only to check rating semantics, sizing, and risk controls. '' @
         ''Regime changes can invalidate even a previously correct direction.'')"

definition candidate_dump ::
    "(nat \<Rightarrow> string) \<Rightarrow> (rat \<Rightarrow> string) \<Rightarrow> candidate \<Rightarrow> dict" where
  "candidate_dump uuid_str show c =
     [(''source_run_id'', JStr (uuid_str (mc_source_run_id c))),
      (''validation_id'', JStr (uuid_str (mc_validation_id c))),
      (''ticker'', JStr (mc_ticker c)),
      (''analysis_date'', JStr (iso_date (mc_analysis_date c))),
      (''exit_session'', JStr (iso_date (mc_exit_session c))),
      (''horizon'', JInt (mc_horizon c)), (''rating'', JStr (mc_rating c)),
      (''executive_summary'', JStr (mc_executive_summary c)),
      (''investment_thesis'', JStr (mc_investment_thesis c)),
      (''price_target'', (case mc_price_target c of None \<Rightarrow> JNull | Some t \<Rightarrow> JStr (show t))),
      (''time_horizon'', opt_str (mc_time_horizon c)),
      (''raw_return'', JStr (show (mc_raw_return c))), (''alpha'', JStr (show (mc_alpha c))),
      (''max_adverse_excursion'', JStr (show (mc_mae c))),
      (''max_favorable_excursion'', JStr (show (mc_mfe c))),
      (''direction_correct'', opt_bool (mc_direction_correct c)),
      (''price_target_hit'', opt_bool (mc_price_target_hit c))]"

definition memory_entry_of ::
    "(string \<Rightarrow> string) \<Rightarrow> (nat \<Rightarrow> string) \<Rightarrow> (rat \<Rightarrow> string) \<Rightarrow> candidate \<Rightarrow> memory_entry" where
  "memory_entry_of sha uuid_str show c =
     \<lparr>me_candidate = c, me_decision = decision_text show c, me_reflection = reflection_text c,
      me_content_sha256 = sha (json_dumps (JObj (candidate_dump uuid_str show c @
        [(''decision'', JStr (decision_text show c)), (''reflection'', JStr (reflection_text c))])))\<rparr>"

definition entry_dump ::
    "(nat \<Rightarrow> string) \<Rightarrow> (rat \<Rightarrow> string) \<Rightarrow> memory_entry \<Rightarrow> json" where
  "entry_dump uuid_str show e =
     JObj (filter (\<lambda>kv. fst kv \<notin> {''executive_summary'', ''investment_thesis'', ''price_target'',
              ''time_horizon''}) (candidate_dump uuid_str show (me_candidate e)) @
       [(''decision'', JStr (me_decision e)), (''reflection'', JStr (me_reflection e)),
        (''content_sha256'', JStr (me_content_sha256 e))])"

section \<open>Selecting the candidates\<close>

definition eligible :: "string \<Rightarrow> int \<Rightarrow> candidate \<Rightarrow> bool" where
  "eligible ticker analysis_date c \<longleftrightarrow> mc_ticker c = ticker
     \<and> mc_analysis_date c < analysis_date \<and> mc_exit_session c < analysis_date"

definition candidate_key :: "candidate \<Rightarrow> int \<times> nat \<times> int" where
  "candidate_key c = (mc_analysis_date c, mc_source_run_id c, mc_horizon c)"

definition selected_key :: "candidate \<Rightarrow> int \<times> nat" where
  "selected_key c = (mc_analysis_date c, mc_source_run_id c)"

text \<open>\<open>list.sort(key=\<dots>, reverse=True)\<close> keeps equal elements in their order.\<close>

definition sort_desc :: "('a \<Rightarrow> 'k::linorder) \<Rightarrow> 'a list \<Rightarrow> 'a list" where
  "sort_desc key xs = rev (sort_key key (rev xs))"

fun select_loop :: "nat \<Rightarrow> nat list \<Rightarrow> candidate list \<Rightarrow> candidate list \<Rightarrow> candidate list" where
  "select_loop limit seen selected [] = selected"
| "select_loop limit seen selected (c # cs) =
     (if mc_source_run_id c \<in> set seen then select_loop limit seen selected cs
      else (let selected' = selected @ [c]
            in if length selected' = limit then selected'
               else select_loop limit (mc_source_run_id c # seen) selected' cs))"

definition select_memory ::
    "memory_mode \<Rightarrow> string \<Rightarrow> int \<Rightarrow> candidate list \<Rightarrow> nat \<Rightarrow> candidate list" where
  "select_memory mode ticker analysis_date candidates limit =
     (if mode = HISTORICAL then
        (let sorted = sort_desc candidate_key (filter (eligible ticker analysis_date) candidates)
         in sort_key selected_key (select_loop limit [] [] sorted))
      else [])"

definition build_memory_snapshot ::
    "(string \<Rightarrow> string) \<Rightarrow> (nat \<Rightarrow> string) \<Rightarrow> (rat \<Rightarrow> string) \<Rightarrow> memory_mode \<Rightarrow> string \<Rightarrow> int
       \<Rightarrow> candidate list \<Rightarrow> int \<Rightarrow> memory_snapshot result" where
  "build_memory_snapshot sha uuid_str show mode ticker analysis_date candidates limit =
     (if limit < 1 then Inl (ValueError ''memory entry limit must be positive'')
      else (let entries = map (memory_entry_of sha uuid_str show)
                  (select_memory mode ticker analysis_date candidates (nat limit))
            in Inr \<lparr>ms_mode = mode, ms_entries = entries,
                 ms_snapshot_sha256 = sha (json_dumps (JObj
                   [(''mode'', JStr (memory_mode_value mode)),
                    (''entries'', JList (map (entry_dump uuid_str show) entries))]))\<rparr>))"

section \<open>What is selected\<close>

lemma set_sort_desc [simp]: "set (sort_desc key xs) = set xs"
  by (simp add: sort_desc_def)

lemma sort_desc_sorted: "sorted_wrt (\<lambda>x y. key y \<le> key x) (sort_desc key xs)"
proof -
  have "sorted (map key (sort_key key (rev xs)))" by simp
  then have "sorted_wrt (\<lambda>x y. key x \<le> key y) (sort_key key (rev xs))"
    by (simp add: sorted_map)
  then show ?thesis by (simp add: sort_desc_def sorted_wrt_rev)
qed

lemma sort_desc_mset:
  assumes "mset xs = mset ys" and "inj_on key (set xs)"
  shows "sort_desc key xs = sort_desc key ys"
proof -
  have "sort_key key (rev xs) = sort_key key (rev ys)"
    by (rule sort_key_eq_sort_key) (simp_all add: assms)
  then show ?thesis by (simp add: sort_desc_def)
qed

lemma select_loop_spec:
  assumes "distinct (map mc_source_run_id sel)" and "set seen = mc_source_run_id ` set sel"
    and "length sel < limit"
  shows "distinct (map mc_source_run_id (select_loop limit seen sel cs))
    \<and> length (select_loop limit seen sel cs) \<le> limit
    \<and> set sel \<subseteq> set (select_loop limit seen sel cs)
    \<and> set (select_loop limit seen sel cs) \<subseteq> set sel \<union> set cs"
  using assms
proof (induction cs arbitrary: seen sel)
  case (Cons c cs)
  show ?case
  proof (cases "mc_source_run_id c \<in> set seen")
    case True
    then show ?thesis using Cons.IH [OF Cons.prems] by auto
  next
    case False
    then have d: "distinct (map mc_source_run_id (sel @ [c]))" using Cons.prems by auto
    show ?thesis
    proof (cases "length (sel @ [c]) = limit")
      case True
      then show ?thesis using False d by (auto simp: Let_def)
    next
      case nl: False
      then have "length (sel @ [c]) < limit" using Cons.prems by simp
      with d Cons.IH [of "sel @ [c]" "mc_source_run_id c # seen"] Cons.prems
      have "distinct (map mc_source_run_id (select_loop limit (mc_source_run_id c # seen) (sel @ [c]) cs))
        \<and> length (select_loop limit (mc_source_run_id c # seen) (sel @ [c]) cs) \<le> limit
        \<and> set (sel @ [c]) \<subseteq> set (select_loop limit (mc_source_run_id c # seen) (sel @ [c]) cs)
        \<and> set (select_loop limit (mc_source_run_id c # seen) (sel @ [c]) cs) \<subseteq> set (sel @ [c]) \<union> set cs"
        by auto
      then show ?thesis using False nl by (auto simp: Let_def)
    qed
  qed
qed (simp add: less_imp_le)

lemma select_loop_superset: "set sel \<subseteq> set (select_loop limit seen sel cs)"
  by (induction cs arbitrary: seen sel) (auto simp: Let_def subset_iff)

text \<open>
  Nothing newer is left out: a candidate whose run was not selected is no newer than any
  selected one, and there are then already \<open>limit\<close> of them.
\<close>

lemma select_loop_complete:
  assumes "sorted_wrt (\<lambda>x y. candidate_key y \<le> candidate_key x) (sel @ cs)"
    and "set seen = mc_source_run_id ` set sel" and "length sel < limit"
    and "c \<in> set cs" and "mc_source_run_id c \<notin> mc_source_run_id ` set (select_loop limit seen sel cs)"
  shows "length (select_loop limit seen sel cs) = limit
    \<and> (\<forall>x\<in>set (select_loop limit seen sel cs). candidate_key c \<le> candidate_key x)"
  using assms
proof (induction cs arbitrary: seen sel)
  case (Cons d cs)
  have sub: "set sel \<subseteq> set (select_loop limit seen sel (d # cs))"
    by (rule select_loop_superset)
  show ?case
  proof (cases "mc_source_run_id d \<in> set seen")
    case True
    then have eq: "select_loop limit seen sel (d # cs) = select_loop limit seen sel cs" by simp
    have "c \<noteq> d" using True Cons.prems(2,5) sub by blast
    then have "c \<in> set cs" using Cons.prems(4) by simp
    moreover have "sorted_wrt (\<lambda>x y. candidate_key y \<le> candidate_key x) (sel @ cs)"
      using Cons.prems(1) by (auto simp: sorted_wrt_append)
    ultimately show ?thesis using Cons.IH [of sel seen] Cons.prems(2,3,5) eq by simp
  next
    case new: False
    show ?thesis
    proof (cases "length (sel @ [d]) = limit")
      case len: True
      then have eq: "select_loop limit seen sel (d # cs) = sel @ [d]" using new by simp
      have "c \<noteq> d" using Cons.prems(5) eq by auto
      then have "c \<in> set cs" using Cons.prems(4) by simp
      then have "\<forall>x\<in>set (sel @ [d]). candidate_key c \<le> candidate_key x"
        using Cons.prems(1) by (auto simp: sorted_wrt_append)
      then show ?thesis using eq len by simp
    next
      case nl: False
      let ?r = "select_loop limit (mc_source_run_id d # seen) (sel @ [d]) cs"
      have eq: "select_loop limit seen sel (d # cs) = ?r" using new nl by (simp add: Let_def)
      have "set (sel @ [d]) \<subseteq> set ?r" by (rule select_loop_superset)
      then have "c \<noteq> d" using Cons.prems(5) eq by auto
      then have "c \<in> set cs" using Cons.prems(4) by simp
      then show ?thesis
        using Cons.IH [of "sel @ [d]" "mc_source_run_id d # seen"] Cons.prems nl eq by simp
    qed
  qed
qed simp

lemma select_memory_set:
  assumes "mode = HISTORICAL"
  shows "set (select_memory mode ticker d cands limit)
    = set (select_loop limit [] [] (sort_desc candidate_key (filter (eligible ticker d) cands)))"
  using assms by (simp add: select_memory_def Let_def)

lemma snapshot_selection:
  assumes "build_memory_snapshot sha uuid_str show mode ticker analysis_date cands limit = Inr snap"
  shows "1 \<le> limit \<and> map me_candidate (ms_entries snap)
    = select_memory mode ticker analysis_date cands (nat limit)"
  using assms
  by (auto simp: build_memory_snapshot_def Let_def comp_def memory_entry_of_def split: if_splits)

lemma snapshot_total:
  assumes "1 \<le> limit"
  shows "\<exists>snap. build_memory_snapshot sha us show mode ticker d cands limit = Inr snap"
proof -
  have "(limit < 1) = False" using assms by simp
  then show ?thesis unfolding build_memory_snapshot_def Let_def by (simp only: if_False) blast
qed

lemma select_memory_members:
  assumes "0 < limit" and "c \<in> set (select_memory mode ticker d cands limit)"
  shows "mode = HISTORICAL \<and> c \<in> set cands \<and> eligible ticker d c"
proof (cases mode)
  case HISTORICAL
  then show ?thesis
    using assms select_loop_spec [of "[]" "[]" limit "sort_desc candidate_key (filter (eligible ticker d) cands)"]
    by (auto simp: select_memory_set)
qed (use assms in \<open>simp add: select_memory_def\<close>)

text \<open>
  C6. No look-ahead: every entry of a snapshot is a run of the same ticker that was analysed
  and whose validation had ended strictly before the new analysis date; there are at most
  \<open>limit\<close> entries, no two of the same run, ordered by date; and an eligible run that is not
  among them is no newer than any that is, with the limit used up. An independent assessment
  remembers nothing.
\<close>

theorem memory_no_lookahead:
  assumes "build_memory_snapshot sha uuid_str show mode ticker analysis_date cands limit = Inr snap"
    and "sel = map me_candidate (ms_entries snap)"
  shows "list_all (\<lambda>c. c \<in> set cands \<and> mc_ticker c = ticker \<and> mc_analysis_date c < analysis_date
            \<and> mc_exit_session c < analysis_date) sel
    \<and> int (length sel) \<le> limit \<and> distinct (map mc_source_run_id sel)
    \<and> sorted (map selected_key sel)
    \<and> (mode = INDEPENDENT \<longrightarrow> sel = [])
    \<and> (\<forall>c. mode = HISTORICAL \<and> c \<in> set cands \<and> eligible ticker analysis_date c
          \<and> mc_source_run_id c \<notin> mc_source_run_id ` set sel \<longrightarrow>
          int (length sel) = limit \<and> list_all (\<lambda>x. candidate_key c \<le> candidate_key x) sel)"
proof -
  from snapshot_selection [OF assms(1)] assms(2) have lim: "1 \<le> limit"
    and sel: "sel = select_memory mode ticker analysis_date cands (nat limit)" by simp_all
  let ?sorted = "sort_desc candidate_key (filter (eligible ticker analysis_date) cands)"
  let ?loop = "select_loop (nat limit) [] [] ?sorted"
  show ?thesis
  proof (cases mode)
    case INDEPENDENT
    then show ?thesis using sel lim by (simp add: select_memory_def)
  next
    case HISTORICAL
    then have s: "sel = sort_key selected_key ?loop" using sel by (simp add: select_memory_def Let_def)
    have spec: "distinct (map mc_source_run_id ?loop) \<and> length ?loop \<le> nat limit
        \<and> set ?loop \<subseteq> set ?sorted"
      using select_loop_spec [of "[]" "[]" "nat limit" ?sorted] lim by simp
    have "distinct (map mc_source_run_id sel)"
    proof -
      have "mset (map mc_source_run_id sel) = mset (map mc_source_run_id ?loop)"
        by (simp add: s)
      then show ?thesis using spec by (metis mset_eq_imp_distinct_iff)
    qed
    moreover have "list_all (\<lambda>c. c \<in> set cands \<and> mc_ticker c = ticker
        \<and> mc_analysis_date c < analysis_date \<and> mc_exit_session c < analysis_date) sel"
      using spec by (auto simp: s list_all_iff eligible_def)
    moreover have "int (length sel) \<le> limit" using spec lim by (simp add: s nat_le_iff le_nat_iff)
    moreover have "int (length sel) = limit \<and> list_all (\<lambda>x. candidate_key c \<le> candidate_key x) sel"
      if "c \<in> set cands" "eligible ticker analysis_date c"
        "mc_source_run_id c \<notin> mc_source_run_id ` set sel" for c
      using select_loop_complete [of "[]" ?sorted "[]" "nat limit" c] lim that sort_desc_sorted
      by (auto simp: s list_all_iff)
    ultimately show ?thesis using HISTORICAL by (auto simp: s)
  qed
qed

definition demo_candidate :: "nat \<Rightarrow> int \<Rightarrow> candidate" where
  "demo_candidate rid d = \<lparr>mc_source_run_id = rid, mc_validation_id = rid, mc_ticker = ''X'',
     mc_analysis_date = d, mc_exit_session = d + 1, mc_horizon = 1, mc_rating = ''Buy'',
     mc_executive_summary = [], mc_investment_thesis = [], mc_price_target = None,
     mc_time_horizon = None, mc_raw_return = 0, mc_alpha = 0, mc_mae = 0, mc_mfe = 0,
     mc_direction_correct = None, mc_price_target_hit = None\<rparr>"

theorem memory_no_lookahead_witness:
  "\<exists>snap. build_memory_snapshot id (\<lambda>_. []) (\<lambda>_. []) HISTORICAL ''X'' 10
       [demo_candidate 1 3, demo_candidate 2 9] 5 = Inr snap
     \<and> map me_candidate (ms_entries snap) = [demo_candidate 1 3]
     \<and> list_all (\<lambda>c. mc_exit_session c < 10) (map me_candidate (ms_entries snap))"
proof -
  have "select_memory HISTORICAL ''X'' 10 [demo_candidate 1 3, demo_candidate 2 9] 5 = [demo_candidate 1 3]"
    by (simp add: select_memory_def eligible_def demo_candidate_def sort_desc_def)
  moreover obtain snap where s: "build_memory_snapshot id (\<lambda>_. []) (\<lambda>_. []) HISTORICAL ''X'' 10
      [demo_candidate 1 3, demo_candidate 2 9] 5 = Inr snap"
    using snapshot_total [of 5 id "\<lambda>_. []" "\<lambda>_. []" HISTORICAL "''X''" 10
        "[demo_candidate 1 3, demo_candidate 2 9]"] by auto
  ultimately have e: "map me_candidate (ms_entries snap) = [demo_candidate 1 3]"
    using snapshot_selection [OF s] by simp
  have "list_all (\<lambda>c. c \<in> set [demo_candidate 1 3, demo_candidate 2 9] \<and> mc_ticker c = ''X''
      \<and> mc_analysis_date c < 10 \<and> mc_exit_session c < 10) (map me_candidate (ms_entries snap))"
    by (rule conjunct1 [OF memory_no_lookahead [OF s refl]])
  then have "list_all (\<lambda>c. mc_exit_session c < 10) (map me_candidate (ms_entries snap))"
    by (rule list.pred_mono_strong) (elim conjE, assumption)
  with s e show ?thesis by (intro exI conjI)
qed

text \<open>
  The snapshot is a function of the set of candidates: the order in which the database
  returns the rows does not change the entries or the hash, as long as no run has two
  candidates with the same date and horizon.
\<close>

theorem memory_order_independent:
  assumes "mset cands = mset cands'"
    and "inj_on candidate_key (set cands)"
  shows "build_memory_snapshot sha uuid_str show mode ticker d cands limit
       = build_memory_snapshot sha uuid_str show mode ticker d cands' limit"
proof -
  have "mset (filter (eligible ticker d) cands) = mset (filter (eligible ticker d) cands')"
    using assms(1) by simp
  moreover have "inj_on candidate_key (set (filter (eligible ticker d) cands))"
    using assms(2) by (rule inj_on_subset) auto
  ultimately have "sort_desc candidate_key (filter (eligible ticker d) cands)
      = sort_desc candidate_key (filter (eligible ticker d) cands')"
    by (rule sort_desc_mset)
  then show ?thesis by (simp add: build_memory_snapshot_def select_memory_def)
qed

theorem memory_order_independent_witness:
  "build_memory_snapshot id (\<lambda>_. []) (\<lambda>_. []) HISTORICAL ''X'' 10
      [demo_candidate 1 3, demo_candidate 2 4] 5
   = build_memory_snapshot id (\<lambda>_. []) (\<lambda>_. []) HISTORICAL ''X'' 10
      [demo_candidate 2 4, demo_candidate 1 3] 5"
  by (rule memory_order_independent)
     (simp_all add: add_mset_commute demo_candidate_def candidate_key_def)

section \<open>The candidates in the database\<close>

text \<open>
  \<open>HistoricalMemoryRepository.build\<close>: the joined rows of the query in its order, each turned
  into a candidate unless its recorded exit session cannot be read. \<open>parse_date\<close> is
  \<open>date.fromisoformat\<close>.
\<close>

record memory_row =
  mr_run :: run
  mr_request :: request
  mr_instrument :: instrument
  mr_decision :: decision
  mr_validation :: validation

definition memory_rows :: "string \<Rightarrow> int \<Rightarrow> db \<Rightarrow> memory_row list" where
  "memory_rows ticker analysis_date d =
     [\<lparr>mr_run = r, mr_request = q, mr_instrument = i, mr_decision = dec, mr_validation = v\<rparr>.
        r \<leftarrow> db_runs d, q \<leftarrow> db_requests d, run_request r = req_id q,
        i \<leftarrow> db_instruments d, req_instrument q = ins_id i,
        dec \<leftarrow> db_decisions d, dec_run dec = run_id r,
        v \<leftarrow> db_validations d, val_run v = run_id r,
        case latest_integrity (run_id r) d of None \<Rightarrow> False | Some a \<Rightarrow> itg_status a = ''safe'',
        ins_ticker i = ticker \<and> run_status r = SUCCEEDED \<and> req_analysis_date q < analysis_date
          \<and> val_status v = ''completed'' \<and> val_observed_at v \<noteq> None
          \<and> val_raw_return v \<noteq> None \<and> val_alpha v \<noteq> None
          \<and> val_mae v \<noteq> None \<and> val_mfe v \<noteq> None]"

definition optional_bool :: "json option \<Rightarrow> bool option" where
  "optional_bool j = (case j of Some (JBool b) \<Rightarrow> Some b | _ \<Rightarrow> None)"

definition memory_candidate ::
    "(json \<Rightarrow> int option) \<Rightarrow> memory_row \<Rightarrow> candidate option" where
  "memory_candidate parse_date m =
     (let v = mr_validation m; dec = mr_decision m; trig = val_trigger_results v
      in case Option.bind (dict_get ''exit_session'' trig) parse_date of
           None \<Rightarrow> None
         | Some exit_session \<Rightarrow>
             (if val_horizon v \<notin> {1, 5, 20} then None
              else Some \<lparr>mc_source_run_id = run_id (mr_run m), mc_validation_id = val_id v,
                mc_ticker = ins_ticker (mr_instrument m),
                mc_analysis_date = req_analysis_date (mr_request m),
                mc_exit_session = exit_session, mc_horizon = val_horizon v,
                mc_rating = dec_rating dec, mc_executive_summary = dec_executive_summary dec,
                mc_investment_thesis = dec_investment_thesis dec,
                mc_price_target = dec_price_target dec, mc_time_horizon = dec_time_horizon dec,
                mc_raw_return = the (val_raw_return v), mc_alpha = the (val_alpha v),
                mc_mae = the (val_mae v), mc_mfe = the (val_mfe v),
                mc_direction_correct = optional_bool (dict_get ''direction_correct'' trig),
                mc_price_target_hit = optional_bool (dict_get ''price_target_hit'' trig)\<rparr>))"

definition memory_row_key :: "memory_row \<Rightarrow> int \<times> int \<times> int" where
  "memory_row_key m = (req_analysis_date (mr_request m), run_created_at (mr_run m),
     val_horizon (mr_validation m))"

definition history_build ::
    "(string \<Rightarrow> string) \<Rightarrow> (nat \<Rightarrow> string) \<Rightarrow> (rat \<Rightarrow> string) \<Rightarrow> (json \<Rightarrow> int option)
       \<Rightarrow> string \<Rightarrow> int \<Rightarrow> memory_mode \<Rightarrow> int \<Rightarrow> db \<Rightarrow> memory_snapshot result" where
  "history_build sha uuid_str show parse_date ticker analysis_date mode limit d =
     (if mode = INDEPENDENT
      then build_memory_snapshot sha uuid_str show mode ticker analysis_date [] limit
      else build_memory_snapshot sha uuid_str show mode ticker analysis_date
        (List.map_filter (memory_candidate parse_date)
           (sort_desc memory_row_key (memory_rows ticker analysis_date d))) limit)"

lemma memory_row_members:
  assumes "m \<in> set (memory_rows ticker analysis_date d)"
  shows "mr_run m \<in> set (db_runs d) \<and> run_status (mr_run m) = SUCCEEDED
    \<and> (\<exists>a. latest_integrity (run_id (mr_run m)) d = Some a \<and> itg_status a = ''safe'')"
proof -
  have "(case latest_integrity (run_id (mr_run m)) d of None \<Rightarrow> False | Some a \<Rightarrow> itg_status a = ''safe'')"
    and "mr_run m \<in> set (db_runs d)" and "run_status (mr_run m) = SUCCEEDED"
    using assms unfolding memory_rows_def by (auto split: if_splits)
  then show ?thesis by (cases "latest_integrity (run_id (mr_run m)) d") auto
qed

lemma memory_candidate_source:
  "memory_candidate parse_date m = Some c \<Longrightarrow> mc_source_run_id c = run_id (mr_run m)"
  by (auto simp: memory_candidate_def Let_def split: option.splits if_splits)

lemma history_build_certified:
  assumes "history_build sha us show pd ticker date mode limit d = Inr snap"
    and "c \<in> set (map me_candidate (ms_entries snap))"
  shows "\<exists>r a. r \<in> set (db_runs d) \<and> run_id r = mc_source_run_id c \<and> run_status r = SUCCEEDED
    \<and> latest_integrity (run_id r) d = Some a \<and> itg_status a = ''safe''"
proof -
  let ?cands = "List.map_filter (memory_candidate pd) (sort_desc memory_row_key (memory_rows ticker date d))"
  have "c \<in> set ?cands"
  proof (cases mode)
    case INDEPENDENT
    with assms snapshot_selection show ?thesis
      by (fastforce simp: history_build_def select_memory_def)
  next
    case HISTORICAL
    with assms(1) have s: "build_memory_snapshot sha us show mode ticker date ?cands limit = Inr snap"
      by (simp add: history_build_def)
    from snapshot_selection [OF s] assms(2)
    have "c \<in> set (select_memory mode ticker date ?cands (nat limit))" "0 < nat limit" by auto
    then show ?thesis using select_memory_members by blast
  qed
  then obtain m where "m \<in> set (memory_rows ticker date d)" "memory_candidate pd m = Some c"
    by (auto simp: List.map_filter_def)
  then show ?thesis using memory_row_members memory_candidate_source by metis
qed

end
