(* ===== verification/Access.thy ===== *)
theory Access
  imports Store
begin

text \<open>
  Who may do what: the scopes of a principal (\<open>auth/principal.py\<close>), what a verified OIDC
  token gives its bearer (\<open>auth/oidc.py\<close>), the local identity that caps it
  (\<open>identity/access.py\<close>, \<open>identity/repository.py\<close>), the user row of a principal
  (\<open>AssessmentRepository.upsert_user\<close>) and API credentials (\<open>auth/tokens.py\<close>). A set of
  strings is a list read as a set. The decoding and the signature check of a JWT are done
  by a library: the model starts from its claims. SHA-256 (\<open>sha\<close>) and the random parts of a
  token are arguments.
\<close>

section \<open>Scopes\<close>

definition FORMAL_ROLES :: "string list" where
  "FORMAL_ROLES = [''Admin'', ''User'']"

definition USER_SCOPES :: "string list" where
  "USER_SCOPES = [''assessments:read'', ''assessments:submit'', ''assessments:cancel'',
     ''assessments:review'', ''validations:read'', ''validations:write'', ''artifacts:read'']"

definition ADMIN_SCOPES :: "string list" where
  "ADMIN_SCOPES = USER_SCOPES @ [''assessments:admin'', ''system:read'', ''users:manage'']"

definition role_scopes :: "string \<Rightarrow> string list" where
  "role_scopes role = (if role = ''User'' then USER_SCOPES
     else if role = ''Admin'' then ADMIN_SCOPES else [])"

definition human_scopes :: "string list \<Rightarrow> string list \<Rightarrow> string list" where
  "human_scopes token_scopes roles =
     filter (\<lambda>s. \<exists>r\<in>set roles. s \<in> set (role_scopes r)) token_scopes"

definition principal_require :: "string list \<Rightarrow> principal \<Rightarrow> unit result" where
  "principal_require required pr =
     (let missing = filter (\<lambda>s. s \<notin> set (pr_scopes pr)) (dedup required)
      in if missing = [] then Inr () else Inl (PermissionError (sort missing)))"

definition is_admin :: "principal \<Rightarrow> bool" where
  "is_admin pr \<longleftrightarrow> ''Admin'' \<in> set (pr_roles pr)"

text \<open>The two checks every administrator operation starts with.\<close>

definition require_admin :: "principal \<Rightarrow> unit result" where
  "require_admin pr = bind_result (principal_require [''assessments:admin''] pr)
     (\<lambda>_. require (is_admin pr) (RoleRequired ''Admin''))"

lemma principal_require_Inr_iff [simp, result_simps]:
  "principal_require required pr = Inr u \<longleftrightarrow> set required \<subseteq> set (pr_scopes pr)"
  by (auto simp: principal_require_def Let_def filter_empty_conv)

lemma require_admin_Inr_iff [result_simps]:
  "require_admin pr = Inr u \<longleftrightarrow> ''assessments:admin'' \<in> set (pr_scopes pr) \<and> is_admin pr"
  by (auto simp: require_admin_def result_simps)

section \<open>The principal of a verified token\<close>

text \<open>
  \<open>str.split()\<close> without an argument: the words between runs of white space.
\<close>

fun split_words :: "string \<Rightarrow> string \<Rightarrow> string list" where
  "split_words word [] = (if word = [] then [] else [rev word])"
| "split_words word (c # cs) =
     (if is_space c then (if word = [] then split_words [] cs else rev word # split_words [] cs)
      else split_words (c # word) cs)"

text \<open>\<open>str(value)\<close>; the text of a value that is not a string is the argument \<open>repr\<close>.\<close>

definition py_str :: "(json \<Rightarrow> string) \<Rightarrow> json \<Rightarrow> string" where
  "py_str repr j = (case j of JStr s \<Rightarrow> s | _ \<Rightarrow> repr j)"

definition claim_roles :: "(json \<Rightarrow> string) \<Rightarrow> dict \<Rightarrow> string list result" where
  "claim_roles repr claims =
     (case dict_get ''realm_access'' claims of
        Some (JObj realm) \<Rightarrow>
          (case dict_get ''roles'' realm of
             None \<Rightarrow> Inr []
           | Some (JList rs) \<Rightarrow> Inr (map (py_str repr) rs)
           | Some (JStr s) \<Rightarrow> Inr (map (\<lambda>c. [c]) s)
           | Some (JObj kvs) \<Rightarrow> Inr (map fst kvs)
           | Some _ \<Rightarrow> Inl (TypeError ''not iterable''))
      | _ \<Rightarrow> Inr [])"

definition claim_text :: "string \<Rightarrow> dict \<Rightarrow> string option" where
  "claim_text k claims = (case dict_get k claims of Some (JStr s) \<Rightarrow> Some s | _ \<Rightarrow> None)"

definition is_service_token :: "dict \<Rightarrow> bool" where
  "is_service_token claims \<longleftrightarrow>
     (case (case dict_get ''client_id'' claims of None \<Rightarrow> dict_get ''azp'' claims | Some v \<Rightarrow> Some v)
        of Some (JStr _) \<Rightarrow> True | _ \<Rightarrow> False)
     \<and> (case dict_get ''email'' claims of None \<Rightarrow> True | Some v \<Rightarrow> \<not> json_truthy v)
     \<and> list_all (\<lambda>k. dict_get k claims = None) [''sid'', ''session_state'', ''auth_time'']"

definition oidc_principal ::
    "(json \<Rightarrow> string) \<Rightarrow> string \<Rightarrow> dict \<Rightarrow> principal result" where
  "oidc_principal repr issuer claims =
     bind_result (claim_roles repr claims) (\<lambda>roles.
     bind_result (of_option (KeyError ''sub'') (claim_text ''sub'' claims)) (\<lambda>subject.
       let scopes = split_words [] (case dict_get ''scope'' claims of None \<Rightarrow> []
            | Some v \<Rightarrow> py_str repr v);
           actor_type = (if is_service_token claims then ''service'' else ''user'')
       in Inr \<lparr>pr_issuer = issuer, pr_subject = subject, pr_actor_type = actor_type,
            pr_scopes = (if actor_type = ''user'' then human_scopes scopes roles else scopes),
            pr_display_name = (case claim_text ''name'' claims of Some n \<Rightarrow> n
               | None \<Rightarrow> (case claim_text ''preferred_username'' claims of Some n \<Rightarrow> n | None \<Rightarrow> [])),
            pr_email = claim_text ''email'' claims, pr_roles = roles\<rparr>))"

section \<open>Users and roles\<close>

definition find_user :: "string \<Rightarrow> string \<Rightarrow> db \<Rightarrow> user option" where
  "find_user issuer subject d =
     find (\<lambda>u. usr_issuer u = issuer \<and> usr_subject u = subject) (db_users d)"

definition principal_user :: "principal \<Rightarrow> db \<Rightarrow> user option" where
  "principal_user pr d = find_user (pr_issuer pr) (pr_subject pr) d"

definition shown_name :: "principal \<Rightarrow> string" where
  "shown_name pr = (if pr_display_name pr = [] then pr_subject pr else pr_display_name pr)"

definition insert_user :: "principal \<Rightarrow> db \<Rightarrow> db" where
  "insert_user pr d =
     (if principal_user pr d \<noteq> None then d
      else (drawn d)\<lparr>db_users := db_users d @
        [\<lparr>usr_id = uuid4 d, usr_issuer = pr_issuer pr, usr_subject = pr_subject pr,
          usr_display_name = shown_name pr, usr_email = pr_email pr, usr_status = ''active''\<rparr>]\<rparr>)"

definition ensure_role :: "string \<Rightarrow> db \<Rightarrow> db" where
  "ensure_role name d =
     (if name \<in> rol_name ` set (db_roles d) then d
      else (drawn d)\<lparr>db_roles := db_roles d @ [\<lparr>rol_id = uuid4 d, rol_name = name\<rparr>]\<rparr>)"

definition sync_roles :: "nat \<Rightarrow> string list \<Rightarrow> db \<Rightarrow> db" where
  "sync_roles uid roles d =
     (let d1 = fold ensure_role FORMAL_ROLES d;
          known = filter (\<lambda>r. rol_name r \<in> set FORMAL_ROLES) (db_roles d1);
          kept = delete_where (\<lambda>ur. fst ur = uid \<and> snd ur \<in> rol_id ` set known) (db_user_roles d1)
      in d1\<lparr>db_user_roles := kept @
           map (\<lambda>r. (uid, rol_id r)) (filter (\<lambda>r. rol_name r \<in> set roles) known)\<rparr>)"

definition upsert_user :: "principal \<Rightarrow> user tx" where
  "upsert_user pr d =
     (let created = (principal_user pr d = None);
          d1 = (if created then insert_user pr d else d)
      in bind_result (of_option (RuntimeError ''user upsert did not return a user'')
           (principal_user pr d1)) (\<lambda>u.
         let u' = u\<lparr>usr_display_name := shown_name pr, usr_email := pr_email pr\<rparr>;
             d2 = d1\<lparr>db_users := update_row usr_id (usr_id u) (\<lambda>_. u') (db_users d1)\<rparr>;
             d3 = (if created then sync_roles (usr_id u) (pr_roles pr) d2 else d2)
         in Inr (d3, u')))"

section \<open>The local identity\<close>

record local_identity =
  li_id :: nat
  li_display_name :: string
  li_email :: "string option"
  li_status :: string
  li_role :: "string option"

definition user_role_names :: "nat \<Rightarrow> db \<Rightarrow> string list" where
  "user_role_names uid d = [rol_name r. ur \<leftarrow> db_user_roles d, fst ur = uid,
     r \<leftarrow> db_roles d, rol_id r = snd ur]"

definition sole :: "'a list \<Rightarrow> 'a option" where
  "sole xs = (case xs of [x] \<Rightarrow> Some x | _ \<Rightarrow> None)"

definition get_human :: "string \<Rightarrow> string \<Rightarrow> db \<Rightarrow> local_identity option" where
  "get_human issuer subject d =
     (case find_user issuer subject d of None \<Rightarrow> None
      | Some u \<Rightarrow> Some \<lparr>li_id = usr_id u, li_display_name = usr_display_name u,
          li_email = usr_email u, li_status = usr_status u,
          li_role = sole (dedup (filter (\<lambda>r. r \<in> set FORMAL_ROLES) (user_role_names (usr_id u) d)))\<rparr>)"

text \<open>The rest of \<open>provision_from_principal\<close> for an active user.\<close>

definition grant_formal_role :: "principal \<Rightarrow> string \<Rightarrow> user \<Rightarrow> local_identity tx" where
  "grant_formal_role pr role u d =
     (let u' = u\<lparr>usr_display_name := shown_name pr, usr_email := pr_email pr\<rparr>;
          d2 = fold ensure_role FORMAL_ROLES
            (d\<lparr>db_users := update_row usr_id (usr_id u) (\<lambda>_. u') (db_users d)\<rparr>)
      in bind_result (of_option (RuntimeError ''formal role provisioning failed'')
           (find (\<lambda>r. rol_name r = role) (db_roles d2))) (\<lambda>selected.
         let formal = rol_id ` {r \<in> set (db_roles d2). rol_name r \<in> set FORMAL_ROLES};
             kept = delete_where (\<lambda>ur. fst ur = usr_id u \<and> snd ur \<in> formal) (db_user_roles d2)
         in Inr (d2\<lparr>db_user_roles := kept @
                 (if (usr_id u, rol_id selected) \<in> set kept then []
                  else [(usr_id u, rol_id selected)])\<rparr>,
               \<lparr>li_id = usr_id u, li_display_name = usr_display_name u',
                 li_email = usr_email u', li_status = usr_status u', li_role = Some role\<rparr>)))"

definition provision_from_principal :: "principal \<Rightarrow> string \<Rightarrow> local_identity tx" where
  "provision_from_principal pr role d =
     (if role \<notin> set FORMAL_ROLES then Inl (ValueError ''a formal role is required'')
      else (let d1 = insert_user pr d in
        bind_result (of_option (RuntimeError ''identity provisioning did not return a user'')
           (principal_user pr d1)) (\<lambda>u.
        if usr_status u \<noteq> ''active'' then
          Inr (d1, \<lparr>li_id = usr_id u, li_display_name = usr_display_name u,
            li_email = usr_email u, li_status = usr_status u,
            li_role = sole (filter (\<lambda>r. r \<in> set FORMAL_ROLES) (user_role_names (usr_id u) d1))\<rparr>)
        else grant_formal_role pr role u d1)))"

text \<open>\<open>IdentityAccessService.enforce\<close>\<close>

definition not_provisioned :: py_error where
  "not_provisioned = AccessDenied ''identity_not_provisioned''"

definition effective_principal :: "principal \<Rightarrow> string \<Rightarrow> local_identity \<Rightarrow> principal" where
  "effective_principal pr token_role identity =
     (let effective_role =
            (if token_role = ''Admin'' \<and> li_role identity = Some ''Admin'' then ''Admin'' else ''User'');
          ceiling = (if effective_role = ''Admin'' then ADMIN_SCOPES else USER_SCOPES)
      in \<lparr>pr_issuer = pr_issuer pr, pr_subject = pr_subject pr, pr_actor_type = pr_actor_type pr,
          pr_scopes = filter (\<lambda>s. s \<in> set ceiling) (pr_scopes pr),
          pr_display_name = li_display_name identity, pr_email = li_email identity,
          pr_roles = [effective_role]\<rparr>)"

definition token_roles :: "principal \<Rightarrow> string list" where
  "token_roles pr = dedup (filter (\<lambda>r. r \<in> set FORMAL_ROLES) (pr_roles pr))"

definition identity_source :: "principal \<Rightarrow> local_identity tx" where
  "identity_source pr d =
     (case get_human (pr_issuer pr) (pr_subject pr) d of
        Some identity \<Rightarrow> Inr (d, identity)
      | None \<Rightarrow> (case token_roles pr of
            [role] \<Rightarrow> provision_from_principal pr role d
          | _ \<Rightarrow> Inl not_provisioned))"

definition identity_check :: "principal \<Rightarrow> local_identity \<Rightarrow> principal result" where
  "identity_check pr identity =
     (if li_status identity \<noteq> ''active'' then Inl (AccessDenied ''account_disabled'')
      else (case (li_role identity, token_roles pr) of
          (Some r, [token_role]) \<Rightarrow>
            (if r \<in> set FORMAL_ROLES then Inr (effective_principal pr token_role identity)
             else Inl not_provisioned)
        | _ \<Rightarrow> Inl not_provisioned))"

definition enforce_identity :: "principal \<Rightarrow> principal tx" where
  "enforce_identity pr d =
     (if pr_actor_type pr \<noteq> ''user'' then Inr (d, pr)
      else bind_result (identity_source pr d) (\<lambda>(d', identity).
           bind_result (identity_check pr identity) (\<lambda>p. Inr (d', p))))"

lemma effective_principal_scopes:
  "set (pr_scopes (effective_principal pr tr i)) \<subseteq> set (pr_scopes pr)"
  "pr_roles (effective_principal pr tr i) =
     [if tr = ''Admin'' \<and> li_role i = Some ''Admin'' then ''Admin'' else ''User'']"
  "set (pr_scopes (effective_principal pr tr i)) \<subseteq>
     set (role_scopes (if tr = ''Admin'' \<and> li_role i = Some ''Admin'' then ''Admin'' else ''User''))"
  by (auto simp: effective_principal_def Let_def role_scopes_def)

lemma grant_formal_role_role:
  assumes "grant_formal_role pr role u d = Inr (d', i)"
  shows "li_role i = Some role"
  using assms unfolding grant_formal_role_def Let_def
  by (elim bind_resultE) (simp only: sum.inject prod.inject local_identity.simps, elim conjE, hypsubst, simp)

lemma provision_role:
  assumes "provision_from_principal pr role d = Inr (d', i)" and "li_status i = ''active''"
  shows "li_role i = Some role"
proof -
  from assms(1) obtain u where "principal_user pr (insert_user pr d) = Some u"
    and "if usr_status u \<noteq> ''active'' then li_status i = usr_status u
       else grant_formal_role pr role u (insert_user pr d) = Inr (d', i)"
    unfolding provision_from_principal_def Let_def
    by (auto elim!: bind_resultE split: if_split_asm)
  then show ?thesis using assms(2) grant_formal_role_role by (metis (full_types))
qed

lemma enforce_identity_cases:
  assumes "enforce_identity pr d = Inr (d', p)" and "pr_actor_type pr = ''user''"
  obtains tr i where "token_roles pr = [tr]" and "p = effective_principal pr tr i"
    and "li_status i = ''active''"
    and "get_human (pr_issuer pr) (pr_subject pr) d = Some i \<and> d' = d
      \<or> get_human (pr_issuer pr) (pr_subject pr) d = None \<and> li_role i = Some tr"
proof -
  obtain i where src: "identity_source pr d = Inr (d', i)" and chk: "identity_check pr i = Inr p"
    using assms by (auto simp: enforce_identity_def result_simps)
  from chk obtain tr where tr: "token_roles pr = [tr]" "p = effective_principal pr tr i"
    "li_status i = ''active''"
    unfolding identity_check_def
    by (cases "li_role i"; cases "token_roles pr"; cases "tl (token_roles pr)")
       (simp_all split: if_split_asm)
  show ?thesis
  proof (cases "get_human (pr_issuer pr) (pr_subject pr) d")
    case None
    then have "provision_from_principal pr tr d = Inr (d', i)"
      using src tr by (simp add: identity_source_def)
    then have "li_role i = Some tr" using tr(3) by (rule provision_role)
    with None show ?thesis by (intro that [OF tr] disjI2 conjI)
  next
    case (Some j)
    then have "j = i \<and> d' = d" using src by (simp add: identity_source_def)
    with Some show ?thesis by (intro that [OF tr] disjI1 conjI) simp_all
  qed
qed

text \<open>
  C24. No privilege beyond both sources: a human's request runs with scopes that the token
  carried and that the effective role allows, with exactly one formal role, and with the
  administrator role only if the token names it as its sole formal role and the local
  identity, where there is one, holds it too. A disabled account gets nothing.
\<close>

theorem effective_scope_ceiling:
  assumes "enforce_identity pr d = Inr (d', p)" and "pr_actor_type pr = ''user''"
  shows "set (pr_scopes p) \<subseteq> set (pr_scopes pr)
    \<and> (\<exists>r. pr_roles p = [r] \<and> r \<in> set FORMAL_ROLES \<and> set (pr_scopes p) \<subseteq> set (role_scopes r))
    \<and> (is_admin p \<longrightarrow> token_roles pr = [''Admin'']
         \<and> (case get_human (pr_issuer pr) (pr_subject pr) d of None \<Rightarrow> True
            | Some i \<Rightarrow> li_role i = Some ''Admin''))
    \<and> (case get_human (pr_issuer pr) (pr_subject pr) d of None \<Rightarrow> True
       | Some i \<Rightarrow> li_status i = ''active'')"
proof -
  obtain tr i where tr: "token_roles pr = [tr]" and p: "p = effective_principal pr tr i"
    and st: "li_status i = ''active''"
    and src: "get_human (pr_issuer pr) (pr_subject pr) d = Some i \<and> d' = d
      \<or> get_human (pr_issuer pr) (pr_subject pr) d = None \<and> li_role i = Some tr"
    by (rule enforce_identity_cases [OF assms])
  have "set (pr_scopes p) \<subseteq> set (pr_scopes pr)" unfolding p by (rule effective_principal_scopes)
  moreover have "\<exists>r. pr_roles p = [r] \<and> r \<in> set FORMAL_ROLES \<and> set (pr_scopes p) \<subseteq> set (role_scopes r)"
    using effective_principal_scopes(2,3) [of pr tr i] unfolding p FORMAL_ROLES_def by auto
  moreover have "is_admin p \<longrightarrow> token_roles pr = [''Admin''] \<and> li_role i = Some ''Admin''"
    using effective_principal_scopes(2) [of pr tr i] tr unfolding p is_admin_def by (auto split: if_splits)
  ultimately show ?thesis using src st by auto
qed

definition demo_user_principal :: "string \<Rightarrow> principal" where
  "demo_user_principal role = \<lparr>pr_issuer = ''kc'', pr_subject = ''ann'', pr_actor_type = ''user'',
     pr_scopes = [''assessments:read'', ''assessments:admin''], pr_display_name = ''Ann'',
     pr_email = None, pr_roles = [role]\<rparr>"

theorem effective_scope_ceiling_witness:
  "\<exists>d' p. enforce_identity (demo_user_principal ''User'') empty_db = Inr (d', p)
     \<and> pr_roles p = [''User''] \<and> \<not> is_admin p"
proof -
  have "case enforce_identity (demo_user_principal ''User'') empty_db of
      Inl _ \<Rightarrow> False | Inr (d', p) \<Rightarrow> pr_roles p = [''User'']" by code_simp
  then obtain d' p where e: "enforce_identity (demo_user_principal ''User'') empty_db = Inr (d', p)"
    and r: "pr_roles p = [''User'']" by (auto split: sum.splits prod.splits)
  have "pr_actor_type (demo_user_principal ''User'') = ''user''" by (simp add: demo_user_principal_def)
  from effective_scope_ceiling [OF e this] have "is_admin p \<longrightarrow> token_roles (demo_user_principal ''User'') = [''Admin'']"
    by blast
  moreover have "token_roles (demo_user_principal ''User'') \<noteq> [''Admin'']" by code_simp
  ultimately show ?thesis using e r by blast
qed

section \<open>API credentials\<close>

text \<open>
  \<open>ApiTokenService\<close>. \<open>pepper\<close> is the service's key; the public identifier and the secret part
  of a new token are the two random texts. The table's unique columns reject a repeated
  public identifier or hash.
\<close>

definition token_hash :: "(string \<Rightarrow> string) \<Rightarrow> string \<Rightarrow> string \<Rightarrow> string" where
  "token_hash sha pepper token = sha (pepper @ token)"

definition raw_token :: "string \<Rightarrow> string \<Rightarrow> string" where
  "raw_token public_id secret = ''tng_'' @ public_id @ ''_'' @ secret"

definition insert_credential :: "credential \<Rightarrow> credential tx" where
  "insert_credential c d =
     (if crd_public_id c \<in> crd_public_id ` set (db_credentials d)
        \<or> crd_token_hash c \<in> crd_token_hash ` set (db_credentials d)
      then Inl (RuntimeError ''unique constraint'')
      else Inr ((drawn d)\<lparr>db_credentials := db_credentials d @ [c]\<rparr>, c))"

definition create_token ::
    "(string \<Rightarrow> string) \<Rightarrow> (nat \<Rightarrow> string) \<Rightarrow> string \<Rightarrow> int \<Rightarrow> principal \<Rightarrow> string list
       \<Rightarrow> int option \<Rightarrow> string option \<Rightarrow> string \<Rightarrow> string \<Rightarrow> (nat \<times> string) tx" where
  "create_token sha uuid_str pepper now pr scopes expires_at request_id public_id secret d =
     bind_result (require_admin pr) (\<lambda>_.
     bind_result (require (scopes \<noteq> [] \<and> set scopes \<subseteq> set (pr_scopes pr))
       (PermissionError [])) (\<lambda>_.
     bind_result (require (case expires_at of None \<Rightarrow> True | Some t \<Rightarrow> t > now)
       (ValueError ''API credential expiry must be in the future'')) (\<lambda>_.
     bind_result (upsert_user pr d) (\<lambda>(d1, u).
     bind_result (insert_credential \<lparr>crd_id = uuid4 d1, crd_principal = usr_id u,
         crd_public_id = public_id,
         crd_token_hash = token_hash sha pepper (raw_token public_id secret),
         crd_scopes = sort (dedup scopes), crd_expires_at = expires_at,
         crd_last_used_at = None, crd_revoked_at = None\<rparr> d1) (\<lambda>(d2, c).
     Inr ((case request_id of None \<Rightarrow> d2
           | Some rid \<Rightarrow> append_audit pr ''api_credential.create'' ''api_credential''
               (uuid_str (crd_id c)) rid
               [(''public_id'', JStr public_id),
                (''scopes'', JList (map JStr (sort (dedup scopes))))] d2),
          (crd_id c, raw_token public_id secret)))))))"

definition usable_credential :: "int \<Rightarrow> credential \<Rightarrow> bool" where
  "usable_credential now c \<longleftrightarrow> crd_revoked_at c = None
     \<and> (case crd_expires_at c of None \<Rightarrow> True | Some t \<Rightarrow> t > now)"

definition verify_token ::
    "(string \<Rightarrow> string) \<Rightarrow> string \<Rightarrow> int \<Rightarrow> string \<Rightarrow> principal tx" where
  "verify_token sha pepper now token d =
     (if \<not> starts_with ''tng_'' token \<or> length token > 256
      then Inl (ValueError ''invalid API credential'')
      else
        bind_result (of_option (ValueError ''invalid API credential'')
          (find_row crd_token_hash (token_hash sha pepper token) (db_credentials d))) (\<lambda>c.
        bind_result (of_option (ValueError ''invalid API credential'')
          (find_row usr_id (crd_principal c) (db_users d))) (\<lambda>u.
        bind_result (require (usable_credential now c)
          (ValueError ''expired or revoked API credential'')) (\<lambda>_.
        bind_result (require (usr_status u = ''active'')
          (ValueError ''API credential owner is inactive'')) (\<lambda>_.
        Inr (d\<lparr>db_credentials := update_row crd_id (crd_id c)
               (\<lambda>x. x\<lparr>crd_last_used_at := Some now\<rparr>) (db_credentials d)\<rparr>,
          \<lparr>pr_issuer = usr_issuer u, pr_subject = ''api:'' @ crd_public_id c,
            pr_actor_type = ''service'', pr_scopes = crd_scopes c,
            pr_display_name = usr_display_name u, pr_email = None,
            pr_roles = user_role_names (usr_id u) d\<rparr>))))))"

definition owned_credential :: "principal \<Rightarrow> nat \<Rightarrow> db \<Rightarrow> credential option" where
  "owned_credential pr cid d = find (\<lambda>c. crd_id c = cid
     \<and> map_option usr_id (principal_user pr d) = Some (crd_principal c)) (db_credentials d)"

definition mark_revoked ::
    "(nat \<Rightarrow> string) \<Rightarrow> int \<Rightarrow> principal \<Rightarrow> string \<Rightarrow> credential \<Rightarrow> db \<Rightarrow> db" where
  "mark_revoked uuid_str now pr request_id c d =
     (if crd_revoked_at c \<noteq> None then d
      else append_audit pr ''api_credential.revoke'' ''api_credential'' (uuid_str (crd_id c))
             request_id [(''public_id'', JStr (crd_public_id c))]
             (d\<lparr>db_credentials := update_row crd_id (crd_id c)
               (\<lambda>x. x\<lparr>crd_revoked_at := Some now\<rparr>) (db_credentials d)\<rparr>))"

definition revoke_token ::
    "(nat \<Rightarrow> string) \<Rightarrow> int \<Rightarrow> principal \<Rightarrow> nat \<Rightarrow> string \<Rightarrow> unit tx" where
  "revoke_token uuid_str now pr cid request_id d =
     bind_result (require_admin pr) (\<lambda>_.
     bind_result (of_option (ValueError ''API credential was not found'') (owned_credential pr cid d))
       (\<lambda>c. Inr (mark_revoked uuid_str now pr request_id c d, ())))"

lemma upsert_user_credentials:
  assumes "upsert_user pr d = Inr (d', u)" shows "db_credentials d' = db_credentials d"
proof -
  have "db_credentials (fold ensure_role rs x) = db_credentials x" for rs x
    by (induction rs arbitrary: x) (simp_all add: ensure_role_def)
  then show ?thesis
    using assms by (cases "principal_user pr d") (auto simp: upsert_user_def insert_user_def sync_roles_def Let_def elim!: bind_resultE)
qed

lemma create_token_facts:
  assumes "create_token sha us pepper now pr scopes ex rq pid sec d = Inr (d1, cid, tok)"
  shows "''assessments:admin'' \<in> set (pr_scopes pr) \<and> is_admin pr \<and> set scopes \<subseteq> set (pr_scopes pr)
    \<and> tok = raw_token pid sec
    \<and> (\<exists>c cs. db_credentials d1 = cs @ [c] \<and> cs = db_credentials d \<and> crd_id c = cid \<and> set (crd_scopes c) = set scopes
        \<and> crd_token_hash c = token_hash sha pepper tok \<and> crd_expires_at c = ex
        \<and> crd_revoked_at c = None
        \<and> crd_token_hash c \<notin> crd_token_hash ` set cs)"
proof -
  from assms obtain d0 u c c' d2 where adm: "require_admin pr = Inr ()" and up: "upsert_user pr d = Inr (d0, u)"
    and sub: "scopes \<noteq> [] \<and> set scopes \<subseteq> set (pr_scopes pr)"
    and ins: "insert_credential c d0 = Inr (d2, c')"
    and c: "crd_scopes c = sort (dedup scopes)" "crd_expires_at c = ex"
      "crd_token_hash c = token_hash sha pepper (raw_token pid sec)" "crd_revoked_at c = None"
    and d1: "db_credentials d1 = db_credentials d2" "cid = crd_id c'" "tok = raw_token pid sec"
    unfolding create_token_def bind_result_Inr_iff split_paired_Ex prod.case require_Inr_iff
      sum.inject prod.inject
    by (elim exE conjE, hypsubst) (cases rq; simp)
  from ins have "c' = c" by (simp add: insert_credential_def split: if_split_asm)
  from ins have "db_credentials d2 = db_credentials d0 @ [c]"
    and "crd_token_hash c \<notin> crd_token_hash ` set (db_credentials d0)"
    by (auto simp: insert_credential_def split: if_split_asm)
  with adm sub c d1 \<open>c' = c\<close> upsert_user_credentials [OF up] show ?thesis by (auto simp: require_admin_Inr_iff)
qed

lemma find_row_update_by_other:
  assumes "\<And>r. key' (f r) = key' r"
  shows "find_row key' k (update_row key i f t)
    = map_option (\<lambda>r. if key r = i then f r else r) (find_row key' k t)"
  by (induction t) (auto simp: assms)

lemma verify_token_facts:
  assumes "verify_token sha pepper t tok d = Inr (d', p)"
  shows "\<exists>c. find_row crd_token_hash (token_hash sha pepper tok) (db_credentials d) = Some c
    \<and> usable_credential t c \<and> pr_scopes p = crd_scopes c \<and> pr_actor_type p = ''service''
    \<and> pr_subject p = ''api:'' @ crd_public_id c"
  using assms
  unfolding verify_token_def
  by (simp split: if_split_asm)
     (elim bind_resultE, simp only: sum.inject prod.inject of_option_Inr_iff require_Inr_iff,
      elim conjE, hypsubst, simp)

lemma verify_token_credentials:
  assumes "verify_token sha pepper t tok d = Inr (d', p)"
  shows "\<exists>i. db_credentials d' = update_row crd_id i (\<lambda>x. x\<lparr>crd_last_used_at := Some t\<rparr>) (db_credentials d)"
  using assms unfolding verify_token_def by (auto elim!: bind_resultE split: if_split_asm)

lemma revoke_token_marks:
  assumes "revoke_token us t pr cid rq d = Inr (d', u)"
    and "unique_keys crd_id (db_credentials d)" and "c \<in> set (db_credentials d)" and "crd_id c = cid"
    and "find_row crd_token_hash h (db_credentials d) = Some c"
  shows "\<exists>c'. find_row crd_token_hash h (db_credentials d') = Some c' \<and> crd_revoked_at c' \<noteq> None"
proof -
  from assms(1) obtain c0 where own: "owned_credential pr cid d = Some c0"
    and d': "d' = mark_revoked us t pr rq c0 d"
    by (auto simp: revoke_token_def elim!: bind_resultE)
  from own have "c0 \<in> set (db_credentials d) \<and> crd_id c0 = cid"
    by (auto simp: owned_credential_def find_Some_iff)
  then have "c0 = c" using assms(2,3,4)
    by (metis unique_keys_def distinct_map inj_on_def)
  then show ?thesis using assms(4,5) by (auto simp: d' mark_revoked_def find_row_update_by_other)
qed

section \<open>The life of a credential\<close>

text \<open>
  What happens to the table of credentials after one was created: the operations of the service,
  in any order and by anyone, and transactions that leave the table alone (only
  \<open>auth/tokens.py\<close> writes it). The primary key is enforced by the database.
\<close>

inductive token_step :: "(string \<Rightarrow> string) \<Rightarrow> (nat \<Rightarrow> string) \<Rightarrow> string \<Rightarrow> db \<Rightarrow> db \<Rightarrow> bool"
  for sha :: "string \<Rightarrow> string" and us :: "nat \<Rightarrow> string" and pepper :: string
where
  ts_create: "create_token sha us pepper now pr scopes ex rq pid sec d = Inr (d', made) \<Longrightarrow>
    token_step sha us pepper d d'"
| ts_verify: "verify_token sha pepper now tok d = Inr (d', p) \<Longrightarrow> token_step sha us pepper d d'"
| ts_revoke: "revoke_token us now pr cid rq d = Inr (d', u) \<Longrightarrow> token_step sha us pepper d d'"
| ts_other: "db_credentials d' = db_credentials d \<Longrightarrow> token_step sha us pepper d d'"

definition keyed_token_step :: "(string \<Rightarrow> string) \<Rightarrow> (nat \<Rightarrow> string) \<Rightarrow> string \<Rightarrow> db \<Rightarrow> db \<Rightarrow> bool" where
  "keyed_token_step sha us pepper d d' \<longleftrightarrow> token_step sha us pepper d d' \<and> unique_keys crd_id (db_credentials d')"

text \<open>The row behind a token; what was fixed at its creation stays, and a revocation stays.\<close>

definition credential_kept :: "string \<Rightarrow> credential \<Rightarrow> db \<Rightarrow> bool" where
  "credential_kept h c0 d \<longleftrightarrow> (\<exists>c. find_row crd_token_hash h (db_credentials d) = Some c \<and> crd_id c = crd_id c0
     \<and> crd_scopes c = crd_scopes c0 \<and> crd_expires_at c = crd_expires_at c0
     \<and> (crd_revoked_at c0 \<noteq> None \<longrightarrow> crd_revoked_at c \<noteq> None))"

lemma credential_kept_update:
  assumes "credential_kept h c0 d" and "db_credentials d' = update_row crd_id i f (db_credentials d)"
    and "\<And>x. crd_id (f x) = crd_id x \<and> crd_token_hash (f x) = crd_token_hash x \<and> crd_scopes (f x) = crd_scopes x
      \<and> crd_expires_at (f x) = crd_expires_at x \<and> (crd_revoked_at x \<noteq> None \<longrightarrow> crd_revoked_at (f x) \<noteq> None)"
  shows "credential_kept h c0 d'"
proof -
  obtain c where c: "find_row crd_token_hash h (db_credentials d) = Some c" "crd_id c = crd_id c0"
    "crd_scopes c = crd_scopes c0" "crd_expires_at c = crd_expires_at c0"
    "crd_revoked_at c0 \<noteq> None \<longrightarrow> crd_revoked_at c \<noteq> None" using assms(1) unfolding credential_kept_def by blast
  have "find_row crd_token_hash h (db_credentials d') = Some (if crd_id c = i then f c else c)"
    using c(1) assms(2,3) by (simp add: find_row_update_by_other)
  then show ?thesis unfolding credential_kept_def using c assms(3) [of c]
    by (intro exI [of _ "if crd_id c = i then f c else c"]) auto
qed

lemma token_step_kept:
  assumes "token_step sha us pepper d d'" and "credential_kept h c0 d" shows "credential_kept h c0 d'"
  using assms(1)
proof cases
  case (ts_create now pr scopes ex rq pid sec made)
  obtain cid tok where made: "made = (cid, tok)" by (cases made)
  obtain c cs where cs: "db_credentials d' = cs @ [c]" and ex: "cs = db_credentials d"
    using create_token_facts [OF ts_create [unfolded made]] by blast
  show ?thesis using assms(2) unfolding credential_kept_def cs ex by (auto simp: find_row_append)
next
  case (ts_verify now tok p)
  from verify_token_credentials [OF this] obtain i where
    "db_credentials d' = update_row crd_id i (\<lambda>x. x\<lparr>crd_last_used_at := Some now\<rparr>) (db_credentials d)" by blast
  then show ?thesis by (rule credential_kept_update [OF assms(2)]) simp
next
  case (ts_revoke now pr cid rq u)
  then obtain c where "d' = mark_revoked us now pr rq c d" by (auto simp: revoke_token_def elim!: bind_resultE)
  then consider "db_credentials d' = db_credentials d"
    | "db_credentials d' = update_row crd_id (crd_id c) (\<lambda>x. x\<lparr>crd_revoked_at := Some now\<rparr>) (db_credentials d)"
    by (auto simp: mark_revoked_def split: if_split_asm)
  then show ?thesis
  proof cases
    case 1
    then show ?thesis using assms(2) by (simp add: credential_kept_def)
  next
    case 2
    then show ?thesis by (rule credential_kept_update [OF assms(2)]) simp
  qed
next
  case ts_other
  then show ?thesis using assms(2) by (simp add: credential_kept_def)
qed

interpretation token_life: transition_system "credential_kept h c0" "keyed_token_step sha us pepper" "credential_kept h c0"
  for h c0 sha us pepper
  by unfold_locales (auto simp: keyed_token_step_def intro: token_step_kept)

lemma keyed_token_steps_unique:
  "(keyed_token_step sha us pepper)\<^sup>*\<^sup>* d d' \<Longrightarrow> unique_keys crd_id (db_credentials d) \<Longrightarrow> unique_keys crd_id (db_credentials d')"
  by (induction rule: rtranclp_induct) (auto simp: keyed_token_step_def)

lemma revoked_refused:
  assumes "credential_kept (token_hash sha pepper tok) c0 d" and "crd_revoked_at c0 \<noteq> None"
  shows "verify_token sha pepper t tok d = Inl (ValueError ''expired or revoked API credential'')
    \<or> verify_token sha pepper t tok d = Inl (ValueError ''invalid API credential'')"
  using assms by (auto simp: credential_kept_def verify_token_def usable_credential_def of_option_def split: option.split)

text \<open>
  C25. An API credential never exceeds its issuer: only an administrator creates one, with scopes of
  his own. Whatever the service does afterwards, in any order and for anyone, verifying the token
  yields a service principal with exactly those scopes and only before the expiry; and once it has
  been revoked, it is refused at every later time, whatever the service does after the revocation.
\<close>

theorem api_token_lifecycle:
  assumes "create_token sha us pepper now pr scopes ex rq pid sec d = Inr (d1, cid, tok)"
    and "unique_keys crd_id (db_credentials d1)" and "(keyed_token_step sha us pepper)\<^sup>*\<^sup>* d1 d2"
  shows "is_admin pr \<and> set scopes \<subseteq> set (pr_scopes pr)
    \<and> (\<forall>t d3 p. verify_token sha pepper t tok d2 = Inr (d3, p) \<longrightarrow>
          set (pr_scopes p) = set scopes \<and> pr_actor_type p = ''service''
          \<and> (case ex of None \<Rightarrow> True | Some e \<Rightarrow> t < e))
    \<and> (\<forall>t t' pr' rq' d3 d4. revoke_token us t pr' cid rq' d2 = Inr (d3, ()) \<and> (keyed_token_step sha us pepper)\<^sup>*\<^sup>* d3 d4 \<longrightarrow>
          verify_token sha pepper t' tok d4 = Inl (ValueError ''expired or revoked API credential'')
          \<or> verify_token sha pepper t' tok d4 = Inl (ValueError ''invalid API credential''))"
proof -
  from create_token_facts [OF assms(1)] obtain c cs
    where adm: "is_admin pr" and sub: "set scopes \<subseteq> set (pr_scopes pr)"
      and cs: "db_credentials d1 = cs @ [c]" and cid: "crd_id c = cid"
      and sc: "set (crd_scopes c) = set scopes" and h: "crd_token_hash c = token_hash sha pepper tok"
      and e: "crd_expires_at c = ex" and new: "crd_token_hash c \<notin> crd_token_hash ` set cs"
      and fresh: "crd_revoked_at c = None"
    by blast
  let ?h = "token_hash sha pepper tok"
  have "find_row crd_token_hash ?h (db_credentials d1) = Some c"
    using new find_row_None [of crd_token_hash "crd_token_hash c" cs] by (simp add: cs h find_row_append)
  then have "credential_kept ?h c d1" by (simp add: credential_kept_def fresh)
  then have kept: "credential_kept ?h c d2" by (rule token_life.steps_inv [OF assms(3)])
  then obtain c2 where c2: "find_row crd_token_hash ?h (db_credentials d2) = Some c2" "crd_id c2 = cid"
    "crd_scopes c2 = crd_scopes c" "crd_expires_at c2 = ex" by (auto simp: credential_kept_def cid e)
  have ver: "set (pr_scopes p) = set scopes \<and> pr_actor_type p = ''service''
      \<and> (case ex of None \<Rightarrow> True | Some e \<Rightarrow> t < e)"
    if "verify_token sha pepper t tok d2 = Inr (d3, p)" for t d3 p
    using verify_token_facts [OF that] c2 sc by (auto simp: usable_credential_def)
  have rev: "verify_token sha pepper t' tok d4 = Inl (ValueError ''expired or revoked API credential'')
      \<or> verify_token sha pepper t' tok d4 = Inl (ValueError ''invalid API credential'')"
    if "revoke_token us t pr' cid rq' d2 = Inr (d3, ())" and later: "(keyed_token_step sha us pepper)\<^sup>*\<^sup>* d3 d4" for t t' pr' rq' d3 d4
  proof -
    have "c2 \<in> set (db_credentials d2)" using c2(1) by (auto dest: find_row_Some)
    from revoke_token_marks [OF that(1) keyed_token_steps_unique [OF assms(3,2)] this c2(2)] c2
    obtain c3 where "find_row crd_token_hash ?h (db_credentials d3) = Some c3" "crd_revoked_at c3 \<noteq> None" by blast
    then have "credential_kept ?h c3 d3" by (simp add: credential_kept_def)
    then have "credential_kept ?h c3 d4" by (rule token_life.steps_inv [OF later])
    then show ?thesis using \<open>crd_revoked_at c3 \<noteq> None\<close> by (rule revoked_refused)
  qed
  from adm sub ver rev show ?thesis by blast
qed

definition demo_admin :: principal where
  "demo_admin = \<lparr>pr_issuer = ''kc'', pr_subject = ''root'', pr_actor_type = ''user'',
     pr_scopes = ADMIN_SCOPES, pr_display_name = ''Root'', pr_email = None, pr_roles = [''Admin'']\<rparr>"

definition demo_create :: "(db \<times> nat \<times> string) result" where
  "demo_create = create_token id (\<lambda>_. []) ''pepper'' 0 demo_admin [''assessments:read''] (Some 9) None ''p1'' ''s'' empty_db"

definition demo_token_run :: "(db \<times> db \<times> principal \<times> db \<times> nat \<times> string) result" where
  "demo_token_run = bind_result demo_create (\<lambda>(d1, cid, tok).
     bind_result (verify_token id ''pepper'' 5 tok d1) (\<lambda>(d2, p).
     bind_result (revoke_token (\<lambda>_. []) 6 demo_admin cid ''r'' d2) (\<lambda>(d3, _). Inr (d1, d2, p, d3, cid, tok))))"

text \<open>A token is created, used and revoked; then it is refused.\<close>

theorem api_token_lifecycle_witness:
  "\<exists>d1 d2 p d3 cid tok. demo_create = Inr (d1, cid, tok) \<and> verify_token id ''pepper'' 5 tok d1 = Inr (d2, p)
     \<and> set (pr_scopes p) = {''assessments:read''} \<and> revoke_token (\<lambda>_. []) 6 demo_admin cid ''r'' d2 = Inr (d3, ())
     \<and> (verify_token id ''pepper'' 7 tok d3 = Inl (ValueError ''expired or revoked API credential'')
        \<or> verify_token id ''pepper'' 7 tok d3 = Inl (ValueError ''invalid API credential''))"
proof -
  have "(case demo_token_run of Inl _ \<Rightarrow> False | Inr (d1, d2, _) \<Rightarrow>
      unique_keys crd_id (db_credentials d1) \<and> unique_keys crd_id (db_credentials d2))"
    by code_simp
  then obtain d1 d2 p d3 cid tok where run: "demo_token_run = Inr (d1, d2, p, d3, cid, tok)"
    and u: "unique_keys crd_id (db_credentials d1)" "unique_keys crd_id (db_credentials d2)"
    by (auto split: sum.splits prod.splits)
  have c: "demo_create = Inr (d1, cid, tok)" and v: "verify_token id ''pepper'' 5 tok d1 = Inr (d2, p)"
    and r: "revoke_token (\<lambda>_. []) 6 demo_admin cid ''r'' d2 = Inr (d3, ())"
    using run unfolding demo_token_run_def by (auto elim!: bind_resultE)
  have "keyed_token_step id (\<lambda>_. []) ''pepper'' d1 d2"
    using ts_verify [OF v] u by (simp add: keyed_token_step_def)
  then have steps: "(keyed_token_step id (\<lambda>_. []) ''pepper'')\<^sup>*\<^sup>* d1 d2" by blast
  from api_token_lifecycle [OF c [unfolded demo_create_def] u(1) rtranclp.rtrancl_refl]
  have "set (pr_scopes p) = {''assessments:read''}" using v by simp
  moreover from api_token_lifecycle [OF c [unfolded demo_create_def] u(1) steps] r
  have "verify_token id ''pepper'' 7 tok d3 = Inl (ValueError ''expired or revoked API credential'')
        \<or> verify_token id ''pepper'' 7 tok d3 = Inl (ValueError ''invalid API credential'')"
    by blast
  ultimately show ?thesis using c v r by blast
qed

end
