(* ===== verification/Admission.thy ===== *)
theory Admission
  imports Access Memory
begin

text \<open>
  The scheduler (\<open>scheduler/repository.py\<close>, \<open>model_routing.py\<close>): the two versioned policies
  and \<open>admit_one\<close>, the transaction that moves at most one queued run to admitted and pins
  the configuration it will run with.
\<close>

section \<open>Versioned policies\<close>

text \<open>
  \<open>get\<close> seeds the row with the default, then reads it. \<open>update\<close> needs an administrator with
  a user row; it replaces the content and counts the version up.
\<close>

definition default_routing :: routing_policy where
  "default_routing = \<lparr>
     rp_fast = \<lparr>mrt_model = ''gpt-5.6-terra'', mrt_reasoning_effort = ''high''\<rparr>,
     rp_slow = \<lparr>mrt_model = ''gpt-5.6-sol'', mrt_reasoning_effort = ''high''\<rparr>\<rparr>"

definition seed_policy :: "'c \<Rightarrow> int \<Rightarrow> 'c policy_record option \<Rightarrow> 'c policy_record" where
  "seed_policy initial now row = (case row of Some r \<Rightarrow> r
     | None \<Rightarrow> \<lparr>pc_content = initial, pc_version = 1, pc_updated_by = None, pc_updated_at = now\<rparr>)"

definition replace_policy :: "'c \<Rightarrow> nat \<Rightarrow> int \<Rightarrow> 'c policy_record \<Rightarrow> 'c policy_record" where
  "replace_policy new uid now r = r\<lparr>pc_content := new, pc_version := pc_version r + 1,
     pc_updated_by := Some uid, pc_updated_at := now\<rparr>"

definition get_scheduler_policy :: "int \<Rightarrow> admission_policy tx" where
  "get_scheduler_policy now d =
     (let r = seed_policy default_policy now (db_policy d)
      in bind_result (policy_post_init (pc_content r)) (\<lambda>p. Inr (d\<lparr>db_policy := Some r\<rparr>, p)))"

definition get_routing_policy :: "int \<Rightarrow> db \<Rightarrow> db \<times> routing_policy" where
  "get_routing_policy now d =
     (let r = seed_policy default_routing now (db_routing d)
      in (d\<lparr>db_routing := Some r\<rparr>, pc_content r))"

definition policy_dict :: "(rat \<Rightarrow> json) \<Rightarrow> admission_policy \<Rightarrow> json" where
  "policy_dict num p = JObj [(''max_running_total'', JInt (pol_max_running_total p)),
     (''hard_max_running_total'', JInt (pol_hard_max_running_total p)),
     (''gateway_active_limit'', JInt (pol_gateway_active_limit p)),
     (''cpu_limit_percent'', num (pol_cpu_limit_percent p)),
     (''minimum_memory_gib'', num (pol_minimum_memory_gib p)),
     (''minimum_disk_gib'', num (pol_minimum_disk_gib p)),
     (''minimum_disk_percent'', num (pol_minimum_disk_percent p))]"

definition route_dict :: "model_route \<Rightarrow> json" where
  "route_dict r = JObj [(''model'', JStr (mrt_model r)),
     (''reasoning_effort'', JStr (mrt_reasoning_effort r))]"

definition routing_dict :: "routing_policy \<Rightarrow> json" where
  "routing_dict p = JObj [(''fast'', route_dict (rp_fast p)), (''slow'', route_dict (rp_slow p))]"

definition routing_snapshot_id :: "(string \<Rightarrow> string) \<Rightarrow> routing_policy \<Rightarrow> string" where
  "routing_snapshot_id sha p = sha (json_dumps (routing_dict p))"

definition policy_actor :: "principal \<Rightarrow> db \<Rightarrow> nat result" where
  "policy_actor pr d = of_option (RuntimeError ''policy actor is not synchronized'')
     (map_option usr_id (principal_user pr d))"

definition update_scheduler_policy ::
    "(rat \<Rightarrow> json) \<Rightarrow> int \<Rightarrow> principal \<Rightarrow> admission_policy \<Rightarrow> string \<Rightarrow> admission_policy tx" where
  "update_scheduler_policy num now pr policy request_id d =
     bind_result (require_admin pr) (\<lambda>_.
     bind_result (if db_policy d \<noteq> None then Inr (d, default_policy) else get_scheduler_policy now d) (\<lambda>(d1, _).
     bind_result (of_option (RuntimeError ''scheduler policy is unavailable'') (db_policy d1)) (\<lambda>r.
     bind_result (policy_actor pr d1) (\<lambda>uid.
     Inr (append_audit pr ''scheduler.policy.update'' ''scheduler_policy'' ''default'' request_id
            [(''old'', policy_dict num (pc_content r)), (''new'', policy_dict num policy)]
            (d1\<lparr>db_policy := Some (replace_policy policy uid now r)\<rparr>), policy)))))"

definition update_routing_policy ::
    "int \<Rightarrow> principal \<Rightarrow> routing_policy \<Rightarrow> string \<Rightarrow> routing_policy tx" where
  "update_routing_policy now pr policy request_id d =
     bind_result (require_admin pr) (\<lambda>_.
     let d1 = (if db_routing d \<noteq> None then d else fst (get_routing_policy now d)) in
     bind_result (of_option (RuntimeError ''model routing policy is unavailable'') (db_routing d1)) (\<lambda>r.
     bind_result (policy_actor pr d1) (\<lambda>uid.
     Inr (append_audit pr ''model_routing.policy.update'' ''model_routing_policy'' ''default''
            request_id [(''old'', routing_dict (pc_content r)), (''new'', routing_dict policy)]
            (d1\<lparr>db_routing := Some (replace_policy policy uid now r)\<rparr>), policy))))"

section \<open>Admission\<close>

definition ACTIVE_RUN_STATUSES :: "run_status list" where
  "ACTIVE_RUN_STATUSES = [ADMITTED, STARTING, RUNNING_ANALYSTS, RESEARCH_DEBATE, TRADER_PLAN,
     RISK_DEBATE, PORTFOLIO_DECISION, FINALIZING, CANCEL_REQUESTED, CANCELLING]"

record execution_metadata =
  em_root_commit :: string
  em_tradingagents_commit :: string
  em_prompt_schema_version :: string
  em_data_vendors :: "(string \<times> string) list"
  em_tool_vendors :: "(string \<times> string) list"
  em_vendor_policies :: dict

definition configured_vendors :: "execution_metadata \<Rightarrow> string list" where
  "configured_vendors m = dedup (filter (\<lambda>v. v \<noteq> [] \<and> v \<noteq> ''default'')
     (concat (map (\<lambda>chain. map str_strip (split_char CHR '','' chain))
        (map snd (em_data_vendors m) @ map snd (em_tool_vendors m)))))"

definition is_lower_hex :: "char \<Rightarrow> bool" where
  "is_lower_hex c \<longleftrightarrow> c \<in> set ''0123456789abcdef''"

definition has_verified_data_manifest :: "dict \<Rightarrow> bool" where
  "has_verified_data_manifest config =
     (case dict_get ''data_manifest'' config of
        Some (JObj m) \<Rightarrow>
          (case (dict_get ''snapshot_id'' m, dict_get ''manifest_sha256'' m) of
             (Some (JStr sid), Some (JStr s)) \<Rightarrow>
               str_strip sid \<noteq> [] \<and> length s = 64 \<and> list_all is_lower_hex s
           | _ \<Rightarrow> False)
      | _ \<Rightarrow> False)"

definition depth_rounds :: "string \<Rightarrow> (int \<times> int) result" where
  "depth_rounds depth = (if depth = ''shallow'' then Inr (1, 1)
     else if depth = ''medium'' then Inr (2, 2)
     else if depth = ''deep'' then Inr (3, 3) else Inl (ValueError ''Depth''))"

definition str_dict :: "(string \<times> string) list \<Rightarrow> json" where
  "str_dict m = JObj (map (\<lambda>(k, v). (k, JStr v)) m)"

definition memory_dump ::
    "(nat \<Rightarrow> string) \<Rightarrow> (rat \<Rightarrow> string) \<Rightarrow> memory_snapshot \<Rightarrow> json" where
  "memory_dump uuid_str show ms = JObj [(''mode'', JStr (memory_mode_value (ms_mode ms))),
     (''entries'', JList (map (entry_dump uuid_str show) (ms_entries ms))),
     (''snapshot_sha256'', JStr (ms_snapshot_sha256 ms))]"

text \<open>
  The functions of the environment: SHA-256, the text of a UUID, of a decimal and of a JSON
  value that is not a string, and the parser of ISO dates.
\<close>

record environment =
  env_sha :: "string \<Rightarrow> string"
  env_uuid :: "nat \<Rightarrow> string"
  env_show :: "rat \<Rightarrow> string"
  env_repr :: "json \<Rightarrow> string"
  env_date :: "json \<Rightarrow> int option"

definition benchmark_ticker :: "environment \<Rightarrow> dict \<Rightarrow> string" where
  "benchmark_ticker env config =
     (case dict_get ''benchmark_ticker'' config of
        None \<Rightarrow> ''SPY''
      | Some j \<Rightarrow> (if json_truthy j then py_str (env_repr env) j else ''SPY''))"

definition build_run_snapshot ::
    "environment \<Rightarrow> dict \<Rightarrow> gateway_snapshot \<Rightarrow> execution_metadata \<Rightarrow> memory_snapshot
       \<Rightarrow> routing_policy \<Rightarrow> (dict \<times> string) result" where
  "build_run_snapshot env config gw m ms routing =
     bind_result (of_option (KeyError ''depth'') (dict_get ''depth'' config)) (\<lambda>depth.
     bind_result (depth_rounds (case depth of JStr s \<Rightarrow> s | _ \<Rightarrow> [])) (\<lambda>(debate, risk).
       let content =
         [(''request'', JObj config),
          (''resolved'', JObj [(''debate_rounds'', JInt debate), (''risk_rounds'', JInt risk),
             (''benchmark_ticker'', JStr (benchmark_ticker env config))]),
          (''gateway'', JObj [(''model'', JStr (gw_model gw)),
             (''reasoning_effort'', JStr (gw_reasoning_effort gw)),
             (''snapshot_id'', JStr (gw_snapshot_id gw)), (''routes'', routing_dict routing),
             (''routing_snapshot_id'', JStr (routing_snapshot_id (env_sha env) routing))]),
          (''source'', JObj [(''root_commit'', JStr (em_root_commit m)),
             (''tradingagents_commit'', JStr (em_tradingagents_commit m))]),
          (''prompt_schema_version'', JStr (em_prompt_schema_version m)),
          (''data_vendors'', str_dict (em_data_vendors m)),
          (''tool_vendors'', str_dict (em_tool_vendors m)),
          (''vendor_policies'', JObj (em_vendor_policies m)),
          (''memory'', memory_dump (env_uuid env) (env_show env) ms)]
       in Inr (content, env_sha env (json_dumps (JObj content)))))"

section \<open>Choosing a candidate\<close>

record queued =
  qd_run :: run
  qd_request :: request
  qd_instrument :: instrument
  qd_batch :: batch

definition request_rows :: "nat \<Rightarrow> db \<Rightarrow> (request \<times> instrument) list" where
  "request_rows rid d = [(q, i). q \<leftarrow> db_requests d, req_id q = rid,
     i \<leftarrow> db_instruments d, req_instrument q = ins_id i]"

definition run_rows :: "db \<Rightarrow> (run \<times> request \<times> instrument) list" where
  "run_rows d = [(r, q, i). r \<leftarrow> db_runs d, (q, i) \<leftarrow> request_rows (run_request r) d]"

definition active_run_count :: "db \<Rightarrow> int" where
  "active_run_count d =
     int (length (filter (\<lambda>r. run_status r \<in> set ACTIVE_RUN_STATUSES) (db_runs d)))"

definition ticker_active_count :: "string \<Rightarrow> db \<Rightarrow> int" where
  "ticker_active_count ticker d = int (length (filter
     (\<lambda>(r, q, i). ins_ticker i = ticker \<and> run_status r \<in> set ACTIVE_RUN_STATUSES) (run_rows d)))"

text \<open>
  The queued runs in order of creation. \<open>busy\<close> are the runs whose row, or whose request,
  instrument or batch row, another transaction has locked.
\<close>

definition queued_rows :: "nat set \<Rightarrow> db \<Rightarrow> queued list" where
  "queued_rows busy d = sort_key (\<lambda>c. (run_created_at (qd_run c), run_id (qd_run c)))
     [\<lparr>qd_run = r, qd_request = q, qd_instrument = i, qd_batch = b\<rparr>. (r, q, i) \<leftarrow> run_rows d,
        b \<leftarrow> db_batches d, req_batch q = bat_id b, run_status r = QUEUED, run_id r \<notin> busy]"

definition manifest_required :: "execution_metadata \<Rightarrow> bool" where
  "manifest_required m =
     (case dict_get ''stocklean'' (em_vendor_policies m) of
        Some (JObj p) \<Rightarrow> (case dict_get ''manifest_required'' p of
            Some j \<Rightarrow> json_truthy j | None \<Rightarrow> False)
      | _ \<Rightarrow> False)"

definition ticker_lock :: "string \<Rightarrow> string" where
  "ticker_lock ticker = ''ticker:'' @ ticker"

definition candidate_ticker :: "queued \<Rightarrow> string" where
  "candidate_ticker c = ins_ticker (qd_instrument c)"

fun pick_candidate ::
    "string set \<Rightarrow> bool \<Rightarrow> bool \<Rightarrow> queued list \<Rightarrow> db \<Rightarrow> db \<times> queued option \<times> bool" where
  "pick_candidate held required missing [] d = (d, None, missing)"
| "pick_candidate held required missing (c # cs) d =
     (if required \<and> \<not> has_verified_data_manifest (req_config (qd_request c))
      then pick_candidate held required True cs d
      else (case acquire_lock held (ticker_lock (candidate_ticker c)) False d of
              (False, d1) \<Rightarrow> pick_candidate held required missing cs d1
            | (True, d1) \<Rightarrow>
                (if ticker_active_count (candidate_ticker c) d1 = 0 then (d1, Some c, missing)
                 else pick_candidate held required missing cs d1)))"

section \<open>admit_one\<close>

definition refused :: "string \<Rightarrow> admission_decision" where
  "refused reason = \<lparr>ad_allowed = False, ad_reasons = [reason]\<rparr>"

definition add_gateway_sample :: "int \<Rightarrow> gateway_snapshot \<Rightarrow> db \<Rightarrow> db" where
  "add_gateway_sample now gw d = d\<lparr>db_circuits := (db_circuits d)\<lparr>ct_gateway_samples :=
     ct_gateway_samples (db_circuits d) @
     [\<lparr>gs_sampled_at = now, gs_healthy = True, gs_latency_ms = gw_latency_ms gw,
       gs_active_completions = gw_active_completions gw\<rparr>]\<rparr>\<rparr>"

definition request_memory_mode :: "batch \<Rightarrow> memory_mode result" where
  "request_memory_mode b = parse_memory_mode (case dict_get ''memory_mode'' (bat_defaults b) of
     None \<Rightarrow> memory_mode_value INDEPENDENT | Some (JStr s) \<Rightarrow> s | Some _ \<Rightarrow> [])"

definition default_value :: "string \<Rightarrow> batch \<Rightarrow> json result" where
  "default_value k b = of_option (KeyError k) (dict_get k (bat_defaults b))"

definition admission_config :: "queued \<Rightarrow> memory_mode \<Rightarrow> dict result" where
  "admission_config c mode =
     bind_result (default_value ''analysts'' (qd_batch c)) (\<lambda>analysts.
     bind_result (default_value ''depth'' (qd_batch c)) (\<lambda>depth.
     bind_result (default_value ''language'' (qd_batch c)) (\<lambda>language.
     Inr (dict_update
       [(''ticker'', JStr (candidate_ticker c)),
        (''asset_type'', JStr (ins_asset_type (qd_instrument c))),
        (''analysis_date'', JStr (iso_date (req_analysis_date (qd_request c)))),
        (''analysts'', analysts), (''depth'', depth),
        (''memory_mode'', JStr (memory_mode_value mode)), (''language'', language)]
       (req_config (qd_request c))))))"

definition pin_snapshot :: "dict \<Rightarrow> string \<Rightarrow> gateway_snapshot \<Rightarrow> db \<Rightarrow> db \<times> config_snapshot" where
  "pin_snapshot content hash gw d =
     (case find_row cfg_sha256 hash (db_snapshots d) of
        Some s \<Rightarrow> (d, s)
      | None \<Rightarrow>
          (let s = \<lparr>cfg_id = uuid4 d, cfg_content = content, cfg_sha256 = hash,
                 cfg_gateway_snapshot_id = Some (gw_snapshot_id gw)\<rparr>
           in ((drawn d)\<lparr>db_snapshots := db_snapshots d @ [s]\<rparr>, s)))"

definition admit_run ::
    "int \<Rightarrow> config_snapshot \<Rightarrow> memory_snapshot \<Rightarrow> run \<Rightarrow> db \<Rightarrow> db result" where
  "admit_run now s ms r d =
     bind_result (require (run_snapshot r \<in> {None, Some (cfg_id s)})
       (RuntimeError ''run configuration snapshot is already pinned'')) (\<lambda>_.
     bind_result (assert_transition (run_status r) ADMITTED) (\<lambda>_.
     Inr (append_event now (run_id r) ''assessment.admitted''
       [(''config_snapshot_sha256'', JStr (cfg_sha256 s)),
        (''memory_mode'', JStr (memory_mode_value (ms_mode ms))),
        (''memory_entry_count'', JInt (int (length (ms_entries ms)))),
        (''memory_snapshot_sha256'', JStr (ms_snapshot_sha256 ms))]
       (update_run (run_id r) (\<lambda>x. x\<lparr>run_snapshot := Some (cfg_id s), run_status := ADMITTED,
          run_admitted_at := Some now, run_version := run_version x + 1\<rparr>) d))))"

definition admit_candidate ::
    "environment \<Rightarrow> int \<Rightarrow> gateway_snapshot \<Rightarrow> execution_metadata \<Rightarrow> routing_policy \<Rightarrow> queued
       \<Rightarrow> db \<Rightarrow> db result" where
  "admit_candidate env now gw m routing c d =
     bind_result (request_memory_mode (qd_batch c)) (\<lambda>mode.
     bind_result (admission_config c mode) (\<lambda>config.
     bind_result (history_build (env_sha env) (env_uuid env) (env_show env) (env_date env)
        (candidate_ticker c) (req_analysis_date (qd_request c)) mode 5 d) (\<lambda>ms.
     bind_result (build_run_snapshot env config gw m ms routing) (\<lambda>(content, hash).
     case pin_snapshot content hash gw d of (d1, s) \<Rightarrow>
       admit_run now s ms (qd_run c) d1))))"

text \<open>The second half of \<open>admit_one\<close>, for the chosen candidate.\<close>

definition admit_chosen ::
    "environment \<Rightarrow> int \<Rightarrow> admission_policy \<Rightarrow> gateway_snapshot \<Rightarrow> system_snapshot
       \<Rightarrow> execution_metadata \<Rightarrow> routing_policy \<Rightarrow> string list \<Rightarrow> queued
       \<Rightarrow> admission_decision tx" where
  "admit_chosen env now policy gw sys m routing external c d =
     (let vendors = Some (configured_vendors m) in
      bind_result (blockers now vendors (db_circuits d)) (\<lambda>persisted.
      let decision = policy_evaluate policy
            \<lparr>cap_active_runs = active_run_count d, cap_gateway = gw, cap_system = sys,
             cap_open_circuits = sort (dedup (persisted @ external))\<rparr>
      in if \<not> ad_allowed decision then Inr (d, decision)
         else bind_result (acquire_expired_probes now vendors (db_circuits d)) (\<lambda>(_, cs).
              bind_result (admit_candidate env now gw m routing c (d\<lparr>db_circuits := cs\<rparr>))
                (\<lambda>d'. Inr (d', decision)))))"

definition admit_one ::
    "environment \<Rightarrow> string set \<Rightarrow> nat set \<Rightarrow> int \<Rightarrow> admission_policy \<Rightarrow> gateway_snapshot
       \<Rightarrow> system_snapshot \<Rightarrow> execution_metadata \<Rightarrow> routing_policy \<Rightarrow> string list
       \<Rightarrow> admission_decision tx" where
  "admit_one env held busy now policy gw sys m routing external d =
     (case acquire_lock held ''global:admission'' False d of
        (False, d0) \<Rightarrow> Inr (d0, refused ''admission_lock'')
      | (True, d0) \<Rightarrow>
          (let d1 = add_gateway_sample now gw d0; candidates = queued_rows busy d1 in
           if candidates = [] then Inr (d1, refused ''queue_empty'')
           else (case pick_candidate held (manifest_required m) False candidates d1 of
                   (d2, None, missing) \<Rightarrow>
                     Inr (d2, refused (if missing then ''data_manifest_missing'' else ''ticker_active''))
                 | (d2, Some c, missing) \<Rightarrow>
                     admit_chosen env now policy gw sys m routing external c d2)))"

section \<open>What admit_one does\<close>

definition ineligible :: "string set \<Rightarrow> bool \<Rightarrow> db \<Rightarrow> queued \<Rightarrow> bool" where
  "ineligible held required d c \<longleftrightarrow>
     (required \<and> \<not> has_verified_data_manifest (req_config (qd_request c)))
     \<or> ticker_lock (candidate_ticker c) \<in> held
     \<or> ticker_active_count (candidate_ticker c) d \<noteq> 0"

definition admitted_run :: "int \<Rightarrow> nat \<Rightarrow> run \<Rightarrow> run" where
  "admitted_run now sid x = x\<lparr>run_snapshot := Some sid, run_status := ADMITTED,
     run_admitted_at := Some now, run_version := run_version x + 1\<rparr>"

lemma run_rows_cong:
  "db_runs d' = db_runs d \<Longrightarrow> db_requests d' = db_requests d \<Longrightarrow> db_instruments d' = db_instruments d \<Longrightarrow>
     run_rows d' = run_rows d"
  by (simp only: run_rows_def request_rows_def)

lemma run_rows_locks [simp]: "run_rows (d\<lparr>db_locks := l\<rparr>) = run_rows d"
  by (rule run_rows_cong) simp_all

lemma ticker_active_count_locks [simp]: "ticker_active_count t (d\<lparr>db_locks := l\<rparr>) = ticker_active_count t d"
  by (simp add: ticker_active_count_def)

lemma ineligible_locks [simp]: "ineligible held rq (d\<lparr>db_locks := l\<rparr>) c = ineligible held rq d c"
  by (simp add: ineligible_def)

lemma run_rows_sample [simp]: "run_rows (add_gateway_sample now gw d) = run_rows d"
  by (rule run_rows_cong) (simp_all add: add_gateway_sample_def)

lemma acquire_lock_obtain:
  obtains l where "acquire_lock held key False d = (key \<notin> held, d\<lparr>db_locks := l\<rparr>)"
proof -
  obtain l where "snd (acquire_lock held key False d) = d\<lparr>db_locks := l\<rparr>"
    using acquire_lock_state by blast
  moreover have "fst (acquire_lock held key False d) = (key \<notin> held)"
    by (simp add: acquire_lock_result)
  ultimately show ?thesis using that by (metis prod.collapse)
qed

lemma pick_candidate_spec:
  "pick_candidate held rq miss cs d = (d', res, miss') \<Longrightarrow>
     (\<exists>l. d' = d\<lparr>db_locks := l\<rparr>)
     \<and> (case res of None \<Rightarrow> list_all (ineligible held rq d) cs
        | Some c \<Rightarrow> \<exists>pre post. cs = pre @ c # post \<and> list_all (ineligible held rq d) pre
            \<and> \<not> ineligible held rq d c)"
proof (induction cs arbitrary: miss d)
  case Nil
  then have "d' = d\<lparr>db_locks := db_locks d\<rparr>" and "res = None" by simp_all
  then show ?case by (auto simp del: db.unfold_congs intro!: exI [of _ "db_locks d"])
next
  case (Cons c cs)
  obtain l where lock: "acquire_lock held (ticker_lock (candidate_ticker c)) False d
      = (ticker_lock (candidate_ticker c) \<notin> held, d\<lparr>db_locks := l\<rparr>)"
    by (rule acquire_lock_obtain)
  show ?case
  proof (cases "ineligible held rq d c")
    case True
    from True Cons.prems lock obtain m l' where "pick_candidate held rq m cs (d\<lparr>db_locks := l'\<rparr>) = (d', res, miss')"
    proof (cases "rq \<and> \<not> has_verified_data_manifest (req_config (qd_request c))")
      case rejected: True
      then show ?thesis using Cons.prems that [of True "db_locks d"] by simp
    next
      case False
      then show ?thesis using Cons.prems that [of miss l] True lock
        by (auto simp: ineligible_def split: bool.splits if_split_asm)
    qed
    from Cons.IH [OF this] have st: "\<exists>l. d' = d\<lparr>db_locks := l\<rparr>"
      and res: "case res of None \<Rightarrow> list_all (ineligible held rq d) cs
        | Some c \<Rightarrow> \<exists>pre post. cs = pre @ c # post \<and> list_all (ineligible held rq d) pre
            \<and> \<not> ineligible held rq d c" by (auto split: option.splits)
    show ?thesis
    proof (cases res)
      case None
      with st res True show ?thesis by simp
    next
      case (Some x)
      with res obtain pre post where "cs = pre @ x # post" "list_all (ineligible held rq d) pre"
        "\<not> ineligible held rq d x" by auto
      then have "c # cs = (c # pre) @ x # post \<and> list_all (ineligible held rq d) (c # pre)
          \<and> \<not> ineligible held rq d x" using True by simp
      with st Some show ?thesis by (simp only: option.case) blast
    qed
  next
    case False
    then have "d' = d\<lparr>db_locks := l\<rparr> \<and> res = Some c"
      using Cons.prems lock by (auto simp: ineligible_def)
    then show ?thesis using False by (auto intro: exI [of _ "[]"])
  qed
qed

lemma pin_snapshot_frame:
  "pin_snapshot content hash gw d = (d', s) \<Longrightarrow>
     db_runs d' = db_runs d \<and> db_events d' = db_events d \<and> db_requests d' = db_requests d
     \<and> db_instruments d' = db_instruments d \<and> s \<in> set (db_snapshots d') \<and> cfg_sha256 s = hash"
  by (auto simp: pin_snapshot_def Let_def dest: find_row_Some split: option.splits)

lemma admit_run_facts:
  assumes "admit_run now s ms r d = Inr d'"
  shows "run_status r = QUEUED \<and> run_snapshot r \<in> {None, Some (cfg_id s)}
    \<and> db_runs d' = update_row run_id (run_id r) (admitted_run now (cfg_id s)) (db_runs d)
    \<and> db_requests d' = db_requests d \<and> db_instruments d' = db_instruments d
    \<and> db_snapshots d' = db_snapshots d
    \<and> (\<exists>e. db_events d' = db_events d @ [e] \<and> ev_run e = run_id r \<and> ev_type e = ''assessment.admitted'')"
proof -
  from assms have t: "assert_transition (run_status r) ADMITTED = Inr ()"
    and p: "run_snapshot r \<in> {None, Some (cfg_id s)}"
    and d': "d' = append_event now (run_id r) ''assessment.admitted''
       [(''config_snapshot_sha256'', JStr (cfg_sha256 s)),
        (''memory_mode'', JStr (memory_mode_value (ms_mode ms))),
        (''memory_entry_count'', JInt (int (length (ms_entries ms)))),
        (''memory_snapshot_sha256'', JStr (ms_snapshot_sha256 ms))]
       (update_run (run_id r) (admitted_run now (cfg_id s)) d)"
    unfolding admit_run_def admitted_run_def by (auto elim!: bind_resultE)
  have "run_status r = QUEUED"
    using t by (cases "run_status r") (simp_all add: assert_transition_def)
  moreover have "\<exists>e. db_events d' = db_events d @ [e] \<and> ev_run e = run_id r \<and> ev_type e = ''assessment.admitted''"
    using append_event_added [of now "run_id r" "''assessment.admitted''" _
        "update_run (run_id r) (admitted_run now (cfg_id s)) d"] unfolding d' by auto
  ultimately show ?thesis using p by (simp add: d')
qed

lemma admit_candidate_facts:
  assumes "admit_candidate env now gw m routing c d = Inr d'"
  obtains s mode config ms content d1 e where "run_status (qd_run c) = QUEUED"
    and "request_memory_mode (qd_batch c) = Inr mode" and "admission_config c mode = Inr config"
    and "build_run_snapshot env config gw m ms routing = Inr (content, cfg_sha256 s)"
    and "pin_snapshot content (cfg_sha256 s) gw d = (d1, s)" and "s \<in> set (db_snapshots d')"
    and "run_snapshot (qd_run c) \<in> {None, Some (cfg_id s)}"
    and "db_runs d' = update_row run_id (run_id (qd_run c)) (admitted_run now (cfg_id s)) (db_runs d)"
    and "db_snapshots d' = db_snapshots d1"
    and "db_requests d' = db_requests d" and "db_instruments d' = db_instruments d"
    and "db_events d' = db_events d @ [e]" and "ev_run e = run_id (qd_run c)"
    and "ev_type e = ''assessment.admitted''"
proof -
  from assms obtain mode config ms content hash where
    1: "request_memory_mode (qd_batch c) = Inr mode" "admission_config c mode = Inr config"
      "build_run_snapshot env config gw m ms routing = Inr (content, hash)"
    and adm: "(case pin_snapshot content hash gw d of (d1, s) \<Rightarrow> admit_run now s ms (qd_run c) d1) = Inr d'"
    unfolding admit_candidate_def by (auto elim!: bind_resultE)
  obtain d1 s where pin: "pin_snapshot content hash gw d = (d1, s)" by fastforce
  with adm have "admit_run now s ms (qd_run c) d1 = Inr d'" by simp
  note run = admit_run_facts [OF this] and pinned = pin_snapshot_frame [OF pin]
  from run pinned obtain e where "db_events d' = db_events d @ [e]" "ev_run e = run_id (qd_run c)"
    "ev_type e = ''assessment.admitted''" by auto
  then show ?thesis using 1 pin run pinned by (intro that [of mode config ms content s d1 e]) auto
qed

lemma admit_chosen_cases:
  assumes "admit_chosen env now policy gw sys m routing external c d = Inr (d', dec)"
  shows "(\<not> ad_allowed dec \<and> d' = d)
    \<or> (ad_allowed dec \<and> active_run_count d < pol_max_running_total policy
        \<and> (\<exists>cs. admit_candidate env now gw m routing c (d\<lparr>db_circuits := cs\<rparr>) = Inr d'))"
  using assms unfolding admit_chosen_def Let_def
  by (elim bind_resultE, simp only: split: if_split_asm)
     (erule bind_resultE, auto simp: policy_evaluate_allowed elim!: bind_resultE)

text \<open>The two ways the transaction ends.\<close>

lemma admit_one_cases:
  assumes "admit_one env held busy now policy gw sys m routing external d = Inr (d', dec)"
  obtains (refused) "\<not> ad_allowed dec" "db_runs d' = db_runs d" "db_events d' = db_events d"
      "db_requests d' = db_requests d" "db_instruments d' = db_instruments d"
      "db_snapshots d' = db_snapshots d"
  | (admitted) c pre post d2 where "ad_allowed dec" "''global:admission'' \<notin> held"
      "queued_rows busy d = pre @ c # post"
      "list_all (ineligible held (manifest_required m) d) pre"
      "\<not> ineligible held (manifest_required m) d c"
      "active_run_count d < pol_max_running_total policy"
      "run_rows d2 = run_rows d" "db_runs d2 = db_runs d" "db_events d2 = db_events d"
      "db_requests d2 = db_requests d" "db_instruments d2 = db_instruments d"
      "db_snapshots d2 = db_snapshots d"
      "admit_candidate env now gw m routing c d2 = Inr d'"
proof -
  obtain l where lock: "acquire_lock held ''global:admission'' False d
      = (''global:admission'' \<notin> held, d\<lparr>db_locks := l\<rparr>)"
    by (rule acquire_lock_obtain)
  let ?d1 = "add_gateway_sample now gw (d\<lparr>db_locks := l\<rparr>)"
  have rows: "run_rows ?d1 = run_rows d" by simp
  have same: "db_runs ?d1 = db_runs d" "db_events ?d1 = db_events d" "db_requests ?d1 = db_requests d"
    "db_instruments ?d1 = db_instruments d" "db_snapshots ?d1 = db_snapshots d"
    "db_batches ?d1 = db_batches d"
    by (simp_all add: add_gateway_sample_def)
  have cand: "queued_rows busy ?d1 = queued_rows busy d"
    by (simp only: queued_rows_def rows same)
  have inel: "ineligible held rq ?d1 = ineligible held rq d" for rq
    by (rule ext) (simp add: ineligible_def ticker_active_count_def)
  show ?thesis
  proof (cases "''global:admission'' \<in> held")
    case True
    then have "d' = d\<lparr>db_locks := l\<rparr>" "dec = refused ''admission_lock''"
      using assms lock by (simp_all add: admit_one_def)
    then show ?thesis by (intro refused) (simp_all add: refused_def)
  next
    case free: False
    show ?thesis
    proof (cases "queued_rows busy d = []")
      case True
      then have "d' = ?d1" "dec = refused ''queue_empty''"
        using assms lock free cand by (simp_all add: admit_one_def Let_def)
      then show ?thesis using same by (intro refused) (simp_all add: refused_def)
    next
      case nonempty: False
      obtain d2 res miss where pick: "pick_candidate held (manifest_required m) False
          (queued_rows busy d) ?d1 = (d2, res, miss)" by (metis prod_cases3)
      from pick_candidate_spec [OF pick] obtain l2 where d2: "d2 = ?d1\<lparr>db_locks := l2\<rparr>" by blast
      have same2: "db_runs d2 = db_runs d" "db_events d2 = db_events d" "db_requests d2 = db_requests d"
        "db_instruments d2 = db_instruments d" "db_snapshots d2 = db_snapshots d"
        unfolding d2 by (simp_all add: same)
      show ?thesis
      proof (cases res)
        case None
        then have "d' = d2" "\<not> ad_allowed dec"
          using assms lock free nonempty pick cand
          by (auto simp: admit_one_def Let_def refused_def split: if_split_asm)
        then show ?thesis using same2 by (intro refused) simp_all
      next
        case (Some c)
        then have "admit_chosen env now policy gw sys m routing external c d2 = Inr (d', dec)"
          using assms lock free nonempty pick cand by (simp add: admit_one_def Let_def)
        note alt = admit_chosen_cases [OF this]
        from alt show ?thesis
        proof (elim disjE conjE exE)
          assume "\<not> ad_allowed dec" "d' = d2"
          then show ?thesis using same2 by (intro refused) simp_all
        next
          fix cs
          assume ok: "ad_allowed dec"
            and cap: "active_run_count d2 < pol_max_running_total policy"
            and adm: "admit_candidate env now gw m routing c (d2\<lparr>db_circuits := cs\<rparr>) = Inr d'"
          have "active_run_count d < pol_max_running_total policy"
            using cap same2 by (simp add: active_run_count_def)
          moreover obtain pre post where "queued_rows busy d = pre @ c # post"
            "list_all (ineligible held (manifest_required m) d) pre"
            "\<not> ineligible held (manifest_required m) d c"
            using pick_candidate_spec [OF pick] Some inel by auto
          moreover have "run_rows (d2\<lparr>db_circuits := cs\<rparr>) = run_rows d"
            by (rule run_rows_cong) (simp_all add: same2)
          ultimately show ?thesis using ok free adm same2
            by (intro admitted [of pre c post "d2\<lparr>db_circuits := cs\<rparr>"]) simp_all
        qed
      qed
    qed
  qed
qed

section \<open>Counting active runs\<close>

definition is_active :: "run \<Rightarrow> bool" where
  "is_active r \<longleftrightarrow> run_status r \<in> set ACTIVE_RUN_STATUSES"

text \<open>How many rows of the join a run contributes for a ticker: at most one.\<close>

definition ticker_weight :: "string \<Rightarrow> db \<Rightarrow> run \<Rightarrow> int" where
  "ticker_weight t d r = int (length (filter (\<lambda>(q, i). ins_ticker i = t) (request_rows (run_request r) d)))"

definition refs_ok :: "db \<Rightarrow> bool" where
  "refs_ok d \<longleftrightarrow> unique_keys run_id (db_runs d) \<and> unique_keys req_id (db_requests d)
     \<and> unique_keys ins_id (db_instruments d)"

lemma active_run_count_sum:
  "active_run_count d = sum_list (map (\<lambda>r. if is_active r then 1 else 0) (db_runs d))"
  by (simp add: active_run_count_def is_active_def length_filter_sum)

lemma ticker_active_count_sum:
  "ticker_active_count t d = sum_list (map (\<lambda>r. if is_active r then ticker_weight t d r else 0) (db_runs d))"
proof -
  have "int (length (filter (\<lambda>(r, q, i). ins_ticker i = t \<and> is_active r)
          [(r, q, i). r \<leftarrow> rs, (q, i) \<leftarrow> request_rows (run_request r) d]))
      = sum_list (map (\<lambda>r. if is_active r then ticker_weight t d r else 0) rs)" for rs :: "run list"
  proof (induction rs)
    case (Cons r rs)
    have "filter (\<lambda>(r, q, i). ins_ticker i = t \<and> is_active r) (map (\<lambda>(q, i). (r, q, i)) ys)
        = (if is_active r then map (\<lambda>(q, i). (r, q, i)) (filter (\<lambda>(q, i). ins_ticker i = t) ys) else [])"
      for ys :: "(request \<times> instrument) list"
      by (induction ys) auto
    then show ?case using Cons.IH by (simp add: ticker_weight_def)
  qed simp
  then show ?thesis by (simp add: ticker_active_count_def run_rows_def is_active_def)
qed

lemma single_match:
  assumes "unique_keys key t"
  shows "length (filter (\<lambda>x. key x = k) t) \<le> 1"
  using assms
proof (induction t)
  case (Cons x t)
  then show ?case
    by (cases "key x = k") (auto simp: unique_keys_def filter_empty_conv image_iff)
qed simp

lemma request_rows_single:
  assumes "refs_ok d"
  shows "length (request_rows rid d) \<le> 1"
proof -
  have "length (request_rows rid d) \<le> length (filter (\<lambda>q. req_id q = rid) (db_requests d))" for rid
  proof -
    have one: "length [(q, i). i \<leftarrow> db_instruments d, req_instrument q = ins_id i] \<le> 1"
      for q :: request
    proof -
      have "length [(q, i). i \<leftarrow> xs, req_instrument q = ins_id i]
          = length (filter (\<lambda>i. ins_id i = req_instrument q) xs)" for xs :: "instrument list"
        by (induction xs) auto
      then show ?thesis
        using single_match [of ins_id "db_instruments d" "req_instrument q"] assms
        by (simp add: refs_ok_def)
    qed
    have "length [(q, i). q \<leftarrow> qs, req_id q = rid, i \<leftarrow> db_instruments d, req_instrument q = ins_id i]
        \<le> length (filter (\<lambda>q. req_id q = rid) qs)" for qs :: "request list"
    proof (induction qs)
      case (Cons a qs)
      then show ?case using one [of a] by auto
    qed simp
    then show ?thesis by (simp add: request_rows_def)
  qed
  then show ?thesis
    using single_match [of req_id "db_requests d"] assms by (meson refs_ok_def order_trans)
qed

lemma ticker_weight_le: "refs_ok d \<Longrightarrow> ticker_weight t d r \<le> 1"
  using request_rows_single [of d "run_request r"]
    order_trans [OF length_filter_le [of "\<lambda>(q, i). ins_ticker i = t" "request_rows (run_request r) d"]]
  by (simp add: ticker_weight_def)

text \<open>
  The effect on the two counts of rewriting one run; requests and instruments are not
  touched.
\<close>

lemma counts_update_run:
  assumes "unique_keys run_id (db_runs d)" and "r \<in> set (db_runs d)"
    and "db_runs d' = update_row run_id (run_id r) f (db_runs d)"
    and "db_requests d' = db_requests d" and "db_instruments d' = db_instruments d"
    and "run_request (f r) = run_request r"
  shows "active_run_count d' = active_run_count d - (if is_active r then 1 else 0)
      + (if is_active (f r) then 1 else 0)"
    and "ticker_active_count t d' = ticker_active_count t d
      - (if is_active r then ticker_weight t d r else 0)
      + (if is_active (f r) then ticker_weight t d r else 0)"
proof -
  have find: "find_row run_id (run_id r) (db_runs d) = Some r"
    by (rule find_row_member) (rule assms)+
  show "active_run_count d' = active_run_count d - (if is_active r then 1 else 0)
      + (if is_active (f r) then 1 else 0)"
    unfolding active_run_count_sum assms(3) by (rule sum_list_update_row [OF assms(1) find])
  have w: "ticker_weight t d' = ticker_weight t d"
    by (rule ext) (simp only: ticker_weight_def request_rows_def assms(4,5))
  have "ticker_weight t d (f r) = ticker_weight t d r"
    by (simp add: ticker_weight_def assms(6))
  then show "ticker_active_count t d' = ticker_active_count t d
      - (if is_active r then ticker_weight t d r else 0)
      + (if is_active (f r) then ticker_weight t d r else 0)"
    unfolding ticker_active_count_sum assms(3) w
    using sum_list_update_row [OF assms(1) find, of "\<lambda>r. if is_active r then ticker_weight t d r else 0" f]
    by simp
qed

section \<open>Properties\<close>

lemma queued_rows_member:
  assumes "c \<in> set (queued_rows busy d)"
  shows "qd_run c \<in> set (db_runs d) \<and> run_status (qd_run c) = QUEUED
    \<and> (qd_request c, qd_instrument c) \<in> set (request_rows (run_request (qd_run c)) d)
    \<and> run_id (qd_run c) \<notin> busy"
  using assms by (auto simp: queued_rows_def run_rows_def split: if_split_asm)

lemma admitted_run_simps [simp]:
  "run_id (admitted_run now sid r) = run_id r"
  "run_request (admitted_run now sid r) = run_request r"
  "run_status (admitted_run now sid r) = ADMITTED"
  "run_snapshot (admitted_run now sid r) = Some sid"
  by (simp_all add: admitted_run_def)

lemma admit_one_counts:
  assumes "admit_one env held busy now policy gw sys m routing external d = Inr (d', dec)"
    and "refs_ok d"
  shows "active_run_count d' = active_run_count d + (if ad_allowed dec then 1 else 0)
    \<and> (ad_allowed dec \<longrightarrow> active_run_count d < pol_max_running_total policy)
    \<and> ticker_active_count t d' \<le> max 1 (ticker_active_count t d)"
  using assms(1)
proof (cases rule: admit_one_cases)
  case refused
  then have "run_rows d' = run_rows d" by (intro run_rows_cong)
  then show ?thesis using refused by (simp add: active_run_count_def ticker_active_count_def)
next
  case (admitted c pre post d2)
  from admitted(13) show ?thesis
  proof (cases rule: admit_candidate_facts)
  case (1 s mode config ms content d1 e)
  note st = 1(1) and runs = 1(8) [unfolded admitted(8)]
    and same = 1(10) [unfolded admitted(10)] 1(11) [unfolded admitted(11)]
  have c: "c \<in> set (queued_rows busy d)" using admitted(3) by simp
  have mem: "qd_run c \<in> set (db_runs d)" using queued_rows_member [OF c] by simp
  have u: "unique_keys run_id (db_runs d)" using assms(2) by (simp add: refs_ok_def)
  have a: "\<not> is_active (qd_run c)" using st by (simp add: is_active_def ACTIVE_RUN_STATUSES_def)
  have a': "is_active (admitted_run now (cfg_id s) (qd_run c))"
    by (simp add: is_active_def ACTIVE_RUN_STATUSES_def)
  note counts = counts_update_run [OF u mem runs same, simplified, simplified a a', simplified]
  have "ticker_active_count t d' \<le> max 1 (ticker_active_count t d)"
  proof (cases "t = candidate_ticker c")
    case True
    then have "ticker_active_count t d = 0" using admitted(5) by (simp add: ineligible_def)
    then show ?thesis using counts(2) [of t] ticker_weight_le [OF assms(2), of t "qd_run c"] by simp
  next
    case False
    have "ticker_weight t d (qd_run c) = 0"
    proof -
      have w: "ticker_weight (candidate_ticker c) d (qd_run c) + ticker_weight t d (qd_run c) \<le> 1"
        using request_rows_single [OF assms(2), of "run_request (qd_run c)"] False
        by (cases "request_rows (run_request (qd_run c)) d") (auto simp: ticker_weight_def)
      have "1 \<le> ticker_weight (candidate_ticker c) d (qd_run c)"
        using queued_rows_member [OF c] by (auto simp: ticker_weight_def candidate_ticker_def
            Suc_le_eq filter_empty_conv)
      moreover have "0 \<le> ticker_weight t d (qd_run c)" by (simp add: ticker_weight_def)
      ultimately show ?thesis using w by linarith
    qed
    then show ?thesis using counts(2) [of t] by simp
  qed
  then show ?thesis using counts(1) admitted by simp
  qed
qed

text \<open>
  C2. Admission control is safe: one call admits at most one run; it never lifts the number
  of active runs above the policy's limit; it never makes a second run of a ticker active;
  and a call that refuses changes no run and writes no event.
\<close>

theorem admission_safe:
  assumes "admit_one env held busy now policy gw sys m routing external d = Inr (d', dec)"
    and "refs_ok d"
  shows "active_run_count d' = active_run_count d + (if ad_allowed dec then 1 else 0)
    \<and> (ad_allowed dec \<longrightarrow> active_run_count d' \<le> pol_max_running_total policy)
    \<and> ticker_active_count t d' \<le> max 1 (ticker_active_count t d)
    \<and> (\<not> ad_allowed dec \<longrightarrow> db_runs d' = db_runs d \<and> db_events d' = db_events d)"
proof -
  have "\<not> ad_allowed dec \<longrightarrow> db_runs d' = db_runs d \<and> db_events d' = db_events d"
    using assms(1) by (cases rule: admit_one_cases) simp_all
  then show ?thesis using admit_one_counts [OF assms, of t] by auto
qed

text \<open>
  Admission is first come, first served among the eligible: the admitted run is the
  first in creation order that has its data manifest where one is required, whose ticker
  lock is free and whose ticker has no active run; it was queued, it is moved to admitted
  with its version counted up, exactly one event is appended, and no other run changes.
\<close>

theorem admission_fifo:
  assumes "admit_one env held busy now policy gw sys m routing external d = Inr (d', dec)"
    and "ad_allowed dec"
  shows "\<exists>c pre post sid e. queued_rows busy d = pre @ c # post
    \<and> list_all (ineligible held (manifest_required m) d) pre
    \<and> \<not> ineligible held (manifest_required m) d c
    \<and> run_status (qd_run c) = QUEUED \<and> ''global:admission'' \<notin> held
    \<and> db_runs d' = update_row run_id (run_id (qd_run c)) (admitted_run now sid) (db_runs d)
    \<and> db_events d' = db_events d @ [e] \<and> ev_run e = run_id (qd_run c)
    \<and> ev_type e = ''assessment.admitted''"
  using assms(1)
proof (cases rule: admit_one_cases)
  case refused
  then show ?thesis using assms(2) by simp
next
  case (admitted c pre post d2)
  from admitted(13) show ?thesis
  proof (cases rule: admit_candidate_facts)
    case (1 s mode config ms content d1 e)
    show ?thesis
      using admitted(2,3,4,5,8,9) 1(1,8,12,13,14)
      by (intro exI [of _ c] exI [of _ pre] exI [of _ post] exI [of _ "cfg_id s"] exI [of _ e] conjI)
         simp_all
  qed
qed

definition snapshots_ok :: "(string \<Rightarrow> string) \<Rightarrow> db \<Rightarrow> bool" where
  "snapshots_ok sha d \<longleftrightarrow>
     list_all (\<lambda>s. cfg_sha256 s = sha (json_dumps (JObj (cfg_content s)))) (db_snapshots d)"

lemma build_run_snapshot_facts:
  assumes "build_run_snapshot env config gw m ms routing = Inr (content, hash)"
  shows "hash = env_sha env (json_dumps (JObj content))
    \<and> dict_get ''request'' content = Some (JObj config)
    \<and> dict_get ''memory'' content = Some (memory_dump (env_uuid env) (env_show env) ms)"
  using assms unfolding build_run_snapshot_def Let_def by (auto elim!: bind_resultE)

lemma pin_snapshot_ok:
  assumes "pin_snapshot content (sha (json_dumps (JObj content))) gw d = (d', s)" and "snapshots_ok sha d"
  shows "snapshots_ok sha d' \<and> set (db_snapshots d) \<subseteq> set (db_snapshots d')"
  using assms by (auto simp: pin_snapshot_def snapshots_ok_def Let_def split: option.splits)

text \<open>
  A run is admitted with a pinned configuration: the snapshot row it points to carries
  the hash of the canonical text of exactly the content that was built for it, its request
  section is the batch defaults overridden by the request's own settings, no stored
  snapshot is removed or changed, and a run already pinned to another snapshot is never
  re-admitted with a different one.
\<close>

theorem admission_pins_config:
  assumes "admit_one env held busy now policy gw sys m routing external d = Inr (d', dec)"
    and "ad_allowed dec" and "snapshots_ok (env_sha env) d"
  shows "\<exists>c s content config mode. c \<in> set (queued_rows busy d) \<and> s \<in> set (db_snapshots d')
    \<and> db_runs d' = update_row run_id (run_id (qd_run c)) (admitted_run now (cfg_id s)) (db_runs d)
    \<and> run_snapshot (qd_run c) \<in> {None, Some (cfg_id s)}
    \<and> cfg_sha256 s = env_sha env (json_dumps (JObj content))
    \<and> cfg_sha256 s = env_sha env (json_dumps (JObj (cfg_content s)))
    \<and> dict_get ''request'' content = Some (JObj config) \<and> admission_config c mode = Inr config
    \<and> set (db_snapshots d) \<subseteq> set (db_snapshots d') \<and> snapshots_ok (env_sha env) d'"
  using assms(1)
proof (cases rule: admit_one_cases)
  case refused
  then show ?thesis using assms(2) by simp
next
  case (admitted c pre post d2)
  from admitted(13) show ?thesis
  proof (cases rule: admit_candidate_facts)
    case (1 s mode config ms content d1 e)
    note built = build_run_snapshot_facts [OF 1(4)]
    have "snapshots_ok (env_sha env) d2"
      using assms(3) admitted(12) by (simp add: snapshots_ok_def)
    with 1(5) built have p: "snapshots_ok (env_sha env) d1" "set (db_snapshots d2) \<subseteq> set (db_snapshots d1)"
      using pin_snapshot_ok [of content "env_sha env" gw d2 d1 s] by auto
    then have ok: "snapshots_ok (env_sha env) d'" and sub: "set (db_snapshots d) \<subseteq> set (db_snapshots d')"
      using 1(9) admitted(12) by (simp_all add: snapshots_ok_def)
    have "cfg_sha256 s = env_sha env (json_dumps (JObj (cfg_content s)))"
      using ok 1(6) by (auto simp: snapshots_ok_def list_all_iff)
    then show ?thesis
      using admitted(3,8) 1(3,6,7,8) built ok sub
      by (intro exI [of _ c] exI [of _ s] exI [of _ content] exI [of _ config] exI [of _ mode] conjI)
         simp_all
  qed
qed

section \<open>A concrete admission\<close>

definition demo_instrument :: instrument where
  "demo_instrument = \<lparr>ins_id = 1, ins_ticker = ''SPY'', ins_asset_type = ''fund'',
     ins_exchange = None, ins_name = None, ins_metadata = []\<rparr>"

definition demo_batch :: batch where
  "demo_batch = \<lparr>bat_id = 2, bat_submitted_by = 9, bat_idempotency_key = ''key-0001'',
     bat_defaults = [(''analysts'', JList [JStr ''market'']), (''depth'', JStr ''deep''),
       (''language'', JStr ''en'')]\<rparr>"

definition demo_request :: request where
  "demo_request = \<lparr>req_id = 3, req_batch = 2, req_instrument = 1, req_analysis_date = 739000,
     req_config = []\<rparr>"

definition demo_run :: "run_status \<Rightarrow> run" where
  "demo_run st = \<lparr>run_id = 4, run_request = 3, run_attempt = 1, run_status = st,
     run_snapshot = None, run_retry_of = None, run_clean_of = None, run_version = 1,
     run_created_at = 0, run_admitted_at = None, run_started_at = None, run_finished_at = None,
     run_error_code = None, run_error_summary = None\<rparr>"

definition demo_db :: "run_status \<Rightarrow> db" where
  "demo_db st = empty_db\<lparr>db_instruments := [demo_instrument], db_batches := [demo_batch],
     db_requests := [demo_request], db_runs := [demo_run st],
     db_uuid := (\<lambda>n. n + 4), db_drawn := 1\<rparr>"

definition demo_env :: environment where
  "demo_env = \<lparr>env_sha = (\<lambda>_. ''h''), env_uuid = (\<lambda>_. ''u''), env_show = (\<lambda>_. ''0''),
     env_repr = (\<lambda>_. []), env_date = (\<lambda>_. None)\<rparr>"

definition demo_gateway :: gateway_snapshot where
  "demo_gateway = \<lparr>gw_active_completions = 0, gw_model = ''m'', gw_reasoning_effort = ''high'',
     gw_snapshot_id = ''g'', gw_latency_ms = 5\<rparr>"

definition demo_host :: system_snapshot where
  "demo_host = \<lparr>sys_cpu_percent = 10, sys_available_memory_gib = 16,
     sys_available_disk_gib = 100, sys_available_disk_percent = 50,
     sys_cpu_above_limit_for_two_minutes = False\<rparr>"

definition demo_metadata :: execution_metadata where
  "demo_metadata = \<lparr>em_root_commit = ''c'', em_tradingagents_commit = ''t'',
     em_prompt_schema_version = ''v1'', em_data_vendors = [], em_tool_vendors = [],
     em_vendor_policies = []\<rparr>"

definition demo_admission :: "(db \<times> admission_decision) result" where
  "demo_admission = admit_one demo_env {} {} 7 default_policy demo_gateway demo_host demo_metadata
     default_routing [] (demo_db QUEUED)"

lemma demo_admission_allowed:
  "\<exists>d' dec. demo_admission = Inr (d', dec) \<and> ad_allowed dec \<and> active_run_count (demo_db QUEUED) = 0"
proof -
  have "(case demo_admission of Inl _ \<Rightarrow> False | Inr (d', dec) \<Rightarrow> ad_allowed dec)
      \<and> active_run_count (demo_db QUEUED) = 0"
    by code_simp
  then show ?thesis by (auto split: sum.splits prod.splits)
qed

theorem admission_safe_witness:
  "\<exists>d' dec. demo_admission = Inr (d', dec) \<and> ad_allowed dec \<and> active_run_count d' = 1"
proof -
  obtain d' dec where a: "demo_admission = Inr (d', dec)" "ad_allowed dec"
    and z: "active_run_count (demo_db QUEUED) = 0"
    using demo_admission_allowed by blast
  have "refs_ok (demo_db QUEUED)" by (simp add: refs_ok_def demo_db_def unique_keys_def)
  from admission_safe [OF a(1) [unfolded demo_admission_def] this] a z show ?thesis by auto
qed

theorem admission_fifo_witness:
  "\<exists>d' dec c sid. demo_admission = Inr (d', dec) \<and> c \<in> set (queued_rows {} (demo_db QUEUED))
     \<and> db_runs d' = update_row run_id (run_id (qd_run c)) (admitted_run 7 sid) (db_runs (demo_db QUEUED))"
proof -
  obtain d' dec where a: "demo_admission = Inr (d', dec)" "ad_allowed dec"
    using demo_admission_allowed by blast
  from admission_fifo [OF a(1) [unfolded demo_admission_def] a(2)] a show ?thesis
    by (metis in_set_conv_decomp)
qed

theorem admission_pins_config_witness:
  "\<exists>d' dec s. demo_admission = Inr (d', dec) \<and> s \<in> set (db_snapshots d') \<and> cfg_sha256 s = ''h''"
proof -
  obtain d' dec where a: "demo_admission = Inr (d', dec)" "ad_allowed dec"
    using demo_admission_allowed by blast
  have "snapshots_ok (env_sha demo_env) (demo_db QUEUED)"
    by (simp add: snapshots_ok_def demo_db_def empty_db_def)
  from admission_pins_config [OF a(1) [unfolded demo_admission_def] a(2) this] a show ?thesis
    by (auto simp: demo_env_def)
qed

end
