(* ===== verification/Calendars.thy ===== *)
theory Calendars
  imports PyDates Domain
begin

text \<open>
  When a validation is due (\<open>validation/calendars.py\<close>). The NYSE calendar comes from the
  package \<open>exchange_calendars\<close> and is an argument; crypto assets trade every day, and an
  unknown exchange falls back to weekdays with a New York close. Daylight saving in New York
  follows the rule in force since 2007 (second Sunday of March to first Sunday of November),
  so the maturity of an earlier session is not modelled.
\<close>

section \<open>New York time\<close>

definition first_sunday :: "int \<Rightarrow> int \<Rightarrow> int" where
  "first_sunday d mday = 1 + (6 - weekday (d - mday + 1)) mod 7"

definition new_york_dst :: "int \<Rightarrow> bool" where
  "new_york_dst d = (case civil d of (_, m, mday) \<Rightarrow>
     if m = 3 then mday \<ge> first_sunday d mday + 7
     else if m = 11 then mday < first_sunday d mday
     else 3 < m \<and> m < 11)"

text \<open>The UTC instant of a wall-clock time of an afternoon in New York.\<close>

definition new_york_to_utc :: "int \<Rightarrow> int \<Rightarrow> int" where
  "new_york_to_utc d hour = midnight d + (hour + (if new_york_dst d then 4 else 5)) * HOUR"

lemma weekday_succ: "weekday (d + 1) = (if weekday d = 6 then 0 else weekday d + 1)"
proof -
  have "(d + 1 + 6) mod 7 = ((d + 6) mod 7 + 1) mod 7"
    using mod_add_left_eq [of "d + 6" 7 1] by (simp only: ac_simps)
  moreover have "(m + 1) mod 7 = (if m = 6 then 0 else m + 1)" if "0 \<le> m" "m < 7" for m :: int
    using that by (auto simp: mod_pos_pos_trivial)
  ultimately show ?thesis using weekday_range [of d] by (simp add: weekday_def)
qed

section \<open>Schedules\<close>

record schedule =
  sch_calendar_code :: string
  sch_entry_session :: int
  sch_exit_session :: int
  sch_matures_at :: int

text \<open>The three operations of the external calendar the code calls.\<close>

record exchange_calendar =
  xc_date_to_session :: "int \<Rightarrow> int result"
  xc_session_offset :: "int \<Rightarrow> int \<Rightarrow> int result"
  xc_session_close :: "int \<Rightarrow> int result"

definition US_EXCHANGES :: "string list" where
  "US_EXCHANGES = [''ASE'', ''AMEX'', ''ARCA'', ''BATS'', ''NCM'', ''NGM'', ''NMS'', ''NASDAQ'',
     ''NYQ'', ''NYSE'', ''PCX'']"

definition lower_char :: "char \<Rightarrow> char" where
  "lower_char c = (let n = of_char c :: nat in
     if (65 \<le> n \<and> n \<le> 90) \<or> (192 \<le> n \<and> n \<le> 222 \<and> n \<noteq> 215) then char_of (n + 32) else c)"

definition str_lower :: "string \<Rightarrow> string" where
  "str_lower = map lower_char"

definition provider_buffer_hours :: "string \<Rightarrow> int" where
  "provider_buffer_hours asset_type = (if asset_type = ''fund'' then 6 else 2)"

text \<open>\<open>while entry.weekday() >= 5: entry += timedelta(days=1)\<close>\<close>

function next_weekday :: "int \<Rightarrow> int" where
  "next_weekday d = (if weekday d \<ge> 5 then next_weekday (d + 1) else d)"
  by auto
termination
  by (relation "measure (\<lambda>d. if weekday d < 5 then 0 else nat (7 - weekday d))")
     (auto simp: weekday_succ intro: conjunct2 [OF weekday_range])

declare next_weekday.simps [simp del]

text \<open>The loop that counts the remaining sessions down on weekdays.\<close>

function advance_weekdays :: "int \<Rightarrow> nat \<Rightarrow> int" where
  "advance_weekdays d remaining =
     (if remaining = 0 then d
      else advance_weekdays (d + 1) (if weekday (d + 1) < 5 then remaining - 1 else remaining))"
  by auto
termination
  using weekday_range
  by (relation "measures [\<lambda>(d, n). n, \<lambda>(d, n). if weekday d = 6 then 0 else nat (7 - weekday d)]")
     (auto simp: weekday_succ order_le_less)

declare advance_weekdays.simps [simp del]

definition weekday_fallback :: "string \<Rightarrow> int \<Rightarrow> int \<Rightarrow> schedule" where
  "weekday_fallback asset_type analysis_date horizon =
     (let entry = next_weekday analysis_date;
          exit_session = advance_weekdays entry (nat horizon)
      in \<lparr>sch_calendar_code = ''WEEKDAY_FALLBACK'', sch_entry_session = entry,
          sch_exit_session = exit_session,
          sch_matures_at = new_york_to_utc exit_session (16 + provider_buffer_hours asset_type)\<rparr>)"

definition us_schedule :: "exchange_calendar \<Rightarrow> string \<Rightarrow> int \<Rightarrow> int \<Rightarrow> schedule result" where
  "us_schedule xnys asset_type analysis_date horizon =
     bind_result (xc_date_to_session xnys analysis_date) (\<lambda>entry.
     bind_result (xc_session_offset xnys entry horizon) (\<lambda>exit_session.
     bind_result (xc_session_close xnys exit_session) (\<lambda>close.
     Inr \<lparr>sch_calendar_code = ''XNYS'', sch_entry_session = entry, sch_exit_session = exit_session,
          sch_matures_at = close + provider_buffer_hours asset_type * HOUR\<rparr>)))"

definition calendar_schedule ::
    "exchange_calendar \<Rightarrow> string \<Rightarrow> string option \<Rightarrow> int \<Rightarrow> int \<Rightarrow> schedule result" where
  "calendar_schedule xnys asset_type exchange analysis_date horizon =
     (if horizon < 0 then Inl (ValueError ''horizon cannot be negative'')
      else let asset = str_lower (str_strip asset_type);
               venue = str_upper (str_strip (case exchange of None \<Rightarrow> [] | Some e \<Rightarrow> e)) in
        if asset = ''crypto'' then
          Inr \<lparr>sch_calendar_code = ''24/7'', sch_entry_session = analysis_date,
               sch_exit_session = analysis_date + horizon,
               sch_matures_at = midnight (analysis_date + horizon + 1) + 15 * MINUTE\<rparr>
        else if venue \<in> set US_EXCHANGES then us_schedule xnys asset analysis_date horizon
        else Inr (weekday_fallback asset analysis_date horizon))"

lemma advance_weekdays_0: "advance_weekdays d 0 = d"
  by (subst advance_weekdays.simps) simp

section \<open>The weekday fallback\<close>

definition is_weekday :: "int \<Rightarrow> bool" where
  "is_weekday d \<longleftrightarrow> weekday d < 5"

text \<open>The number of weekdays after \<open>d\<close> up to and including \<open>e\<close>.\<close>

definition weekdays_between :: "int \<Rightarrow> int \<Rightarrow> nat" where
  "weekdays_between d e = card {x. d < x \<and> x \<le> e \<and> is_weekday x}"

lemma next_weekday_spec:
  "d \<le> next_weekday d \<and> is_weekday (next_weekday d) \<and> (\<forall>x. d \<le> x \<and> x < next_weekday d \<longrightarrow> \<not> is_weekday x)"
proof (induction d rule: next_weekday.induct)
  case (1 d)
  show ?case
  proof (cases "weekday d \<ge> 5")
    case True
    then have eq: "next_weekday d = next_weekday (d + 1)" by (subst next_weekday.simps) simp
    have "\<not> is_weekday d" using True by (simp add: is_weekday_def)
    then show ?thesis using 1 [OF True] unfolding eq
      by (metis add1_zle_eq order_le_less order_trans zle_add1_eq_le zless_add1_eq)
  next
    case False
    then show ?thesis by (subst next_weekday.simps, simp add: is_weekday_def)+
  qed
qed

lemma next_weekday_gap: "next_weekday d \<le> d + 2"
proof (rule ccontr)
  assume "\<not> next_weekday d \<le> d + 2"
  then have lt: "d + 2 < next_weekday d" by simp
  have "\<not> is_weekday x" if "d \<le> x" "x < next_weekday d" for x
    using next_weekday_spec [of d] that by blast
  from this [of d] this [of "d + 1"] this [of "d + 2"] lt
  have "\<not> is_weekday d" "\<not> is_weekday (d + 1)" "\<not> is_weekday (d + 2)" by auto
  then show False
    using weekday_succ [of d] weekday_succ [of "d + 1"] weekday_range [of d]
    by (auto simp: is_weekday_def add.assoc add.commute split: if_split_asm)
qed

lemma weekdays_between_refl [simp]: "weekdays_between d d = 0"
proof -
  have "{x. d < x \<and> x \<le> d \<and> is_weekday x} = {}" by auto
  then show ?thesis by (simp only: weekdays_between_def card.empty)
qed

lemma weekdays_between_step:
  assumes "d + 1 \<le> e"
  shows "weekdays_between d e = (if is_weekday (d + 1) then 1 else 0) + weekdays_between (d + 1) e"
proof -
  have fin: "finite {x. d + 1 < x \<and> x \<le> e \<and> is_weekday x}"
    by (rule finite_subset [of _ "{d..e}"]) auto
  have "{x. d < x \<and> x \<le> e \<and> is_weekday x}
      = (if is_weekday (d + 1) then {d + 1} else {}) \<union> {x. d + 1 < x \<and> x \<le> e \<and> is_weekday x}"
  proof (rule set_eqI)
    fix x
    have "d < x \<longleftrightarrow> x = d + 1 \<or> d + 1 < x" by linarith
    then show "x \<in> {x. d < x \<and> x \<le> e \<and> is_weekday x} \<longleftrightarrow>
        x \<in> (if is_weekday (d + 1) then {d + 1} else {}) \<union> {x. d + 1 < x \<and> x \<le> e \<and> is_weekday x}"
      using assms by auto
  qed
  then show ?thesis using fin by (auto simp: weekdays_between_def card_insert_if)
qed

lemma advance_weekdays_spec:
  "d \<le> advance_weekdays d n \<and> weekdays_between d (advance_weekdays d n) = n
     \<and> (n = 0 \<or> is_weekday (advance_weekdays d n))"
proof (induction d n rule: advance_weekdays.induct)
  case (1 d n)
  show ?case
  proof (cases "n = 0")
    case True
    then show ?thesis by (simp add: advance_weekdays.simps)
  next
    case False
    let ?n = "if weekday (d + 1) < 5 then n - 1 else n"
    have eq: "advance_weekdays d n = advance_weekdays (d + 1) ?n"
      using False by (subst advance_weekdays.simps) simp
    note IH = 1 [OF False]
    have le: "d + 1 \<le> advance_weekdays (d + 1) ?n" using IH by blast
    have "weekdays_between d (advance_weekdays (d + 1) ?n) = n"
      using weekdays_between_step [OF le] IH False by (auto simp: is_weekday_def)
    moreover have "is_weekday (advance_weekdays (d + 1) ?n)"
    proof (cases "?n = 0")
      case True
      then have "advance_weekdays (d + 1) ?n = d + 1" by (simp add: advance_weekdays.simps)
      moreover have "is_weekday (d + 1)" using True False by (auto simp: is_weekday_def split: if_splits)
      ultimately show ?thesis by simp
    next
      case nonzero: False
      from IH have "?n = 0 \<or> is_weekday (advance_weekdays (d + 1) ?n)" by (rule conjunct2 [OF conjunct2])
      with nonzero show ?thesis by meson
    qed
    ultimately show ?thesis using le by (simp add: eq)
  qed
qed

text \<open>
  C15. Outside the crypto and US calendars a validation spans exactly its horizon in
  weekdays: the entry is the first weekday on or after the analysis date, at most two days
  later, the exit is the weekday that is \<open>horizon\<close> weekdays after it, and the validation
  matures on the evening of the exit session in New York, never before its close.
\<close>

theorem weekday_schedule:
  assumes "calendar_schedule xnys asset_type exchange d horizon = Inr s"
    and "str_lower (str_strip asset_type) \<noteq> ''crypto''"
    and "str_upper (str_strip (case exchange of None \<Rightarrow> [] | Some e \<Rightarrow> e)) \<notin> set US_EXCHANGES"
  shows "d \<le> sch_entry_session s \<and> sch_entry_session s \<le> d + 2 \<and> is_weekday (sch_entry_session s)
    \<and> (\<forall>x\<in>{d..<sch_entry_session s}. \<not> is_weekday x)
    \<and> sch_entry_session s \<le> sch_exit_session s \<and> is_weekday (sch_exit_session s)
    \<and> int (weekdays_between (sch_entry_session s) (sch_exit_session s)) = horizon
    \<and> midnight (sch_exit_session s) + 20 * HOUR \<le> sch_matures_at s
    \<and> sch_matures_at s \<le> midnight (sch_exit_session s + 1) + 3 * HOUR"
proof -
  let ?a = "str_lower (str_strip asset_type)"
  from assms have h: "0 \<le> horizon" and s: "s = weekday_fallback ?a d horizon"
    by (auto simp: calendar_schedule_def Let_def split: if_split_asm)
  let ?e = "next_weekday d"
  have e: "sch_entry_session s = ?e" and x: "sch_exit_session s = advance_weekdays ?e (nat horizon)"
    and m: "sch_matures_at s = new_york_to_utc (sch_exit_session s) (16 + provider_buffer_hours ?a)"
    by (simp_all add: s weekday_fallback_def Let_def)
  note entry = next_weekday_spec [of d] and exit = advance_weekdays_spec [of ?e "nat horizon"]
  have "is_weekday (sch_exit_session s)"
  proof (cases "nat horizon = 0")
    case True
    then show ?thesis using entry by (simp add: x advance_weekdays_0)
  next
    case False
    then show ?thesis using exit by (simp only: x simp_thms)
  qed
  moreover have "midnight (sch_exit_session s) + 20 * HOUR \<le> sch_matures_at s
      \<and> sch_matures_at s \<le> midnight (sch_exit_session s + 1) + 3 * HOUR"
    by (simp add: m new_york_to_utc_def provider_buffer_hours_def midnight_def HOUR_def DAY_def algebra_simps)
  moreover have "\<forall>x\<in>{d..<sch_entry_session s}. \<not> is_weekday x"
    using entry unfolding e by (meson atLeastLessThan_iff)
  moreover have "d \<le> sch_entry_session s" "sch_entry_session s \<le> d + 2" "is_weekday (sch_entry_session s)"
    using entry next_weekday_gap [of d] unfolding e by blast+
  moreover have "sch_entry_session s \<le> sch_exit_session s"
    "int (weekdays_between (sch_entry_session s) (sch_exit_session s)) = horizon"
    using exit h unfolding e x by simp_all
  ultimately show ?thesis by (elim conjE, intro conjI)
qed

definition no_calendar :: exchange_calendar where
  "no_calendar = \<lparr>xc_date_to_session = (\<lambda>_. Inl (ValueError [])),
     xc_session_offset = (\<lambda>_ _. Inl (ValueError [])), xc_session_close = (\<lambda>_. Inl (ValueError []))\<rparr>"

theorem weekday_schedule_witness:
  "\<exists>s. calendar_schedule no_calendar ''stock'' None 739000 5 = Inr s
     \<and> int (weekdays_between (sch_entry_session s) (sch_exit_session s)) = 5"
proof -
  have a: "str_lower (str_strip ''stock'') \<noteq> ''crypto''" by code_simp
  have v: "str_upper (str_strip (case (None :: string option) of None \<Rightarrow> [] | Some e \<Rightarrow> e)) \<notin> set US_EXCHANGES"
    by code_simp
  have c: "calendar_schedule no_calendar ''stock'' None 739000 5
      = Inr (weekday_fallback (str_lower (str_strip ''stock'')) 739000 5)"
    using a v by (simp add: calendar_schedule_def Let_def)
  from weekday_schedule [OF c a v] c show ?thesis by blast
qed

end
