(* ===== verification/Prices.thy ===== *)
theory Prices
  imports Calendars Decimals Store
begin

text \<open>
  Price series and the outcome calculators (\<open>validation/prices.py\<close>, \<open>price_contracts.py\<close>,
  \<open>normalizer.py\<close>, \<open>bases.py\<close>, \<open>directions.py\<close>, \<open>calculator.py\<close>, \<open>calculator_v2.py\<close>).
  Every decimal operation is the exact one followed by \<open>round28\<close>. \<open>show\<close> is \<open>str\<close> of a
  decimal.
\<close>

section \<open>Series and their validation\<close>

record price_series =
  ps_ticker :: string
  ps_sessions :: "int list"
  ps_open :: "rat list"
  ps_high :: "rat list"
  ps_low :: "rat list"
  ps_close :: "rat list"
  ps_adjusted_close :: "rat list"

definition all_positive :: "rat list \<Rightarrow> bool" where
  "all_positive xs = list_all (\<lambda>x. 0 < x) xs"

definition validate_price_series :: "price_series \<Rightarrow> price_series result" where
  "validate_price_series s =
     (let n = length (ps_sessions s) in
      if \<not> list_all (\<lambda>xs. length xs = n)
             [ps_open s, ps_high s, ps_low s, ps_close s, ps_adjusted_close s]
         \<or> ps_sessions s = []
      then Inl (ValueError ''price arrays must be non-empty and equal length'')
      else if ps_sessions s \<noteq> sort (dedup (ps_sessions s))
      then Inl (ValueError ''price sessions must be monotonic and unique'')
      else if \<not> all_positive (ps_open s @ ps_high s @ ps_low s @ ps_close s @ ps_adjusted_close s)
      then Inl (ValueError ''prices must be finite and positive'')
      else Inr s)"

datatype ohlc_basis = AS_TRADED | SPLIT_NORMALIZED | UNKNOWN_BASIS

record provider_series =
  pv_ticker :: string
  pv_provider_symbol :: string
  pv_provider_id :: string
  pv_provider_adapter_version :: string
  pv_request_fingerprint :: string
  pv_currency :: "string option"
  pv_timezone :: "string option"
  pv_collected_at :: int
  pv_ohlc_basis :: ohlc_basis
  pv_sessions :: "int list"
  pv_open :: "rat list"
  pv_high :: "rat list"
  pv_low :: "rat list"
  pv_close :: "rat list"
  pv_adjusted_close :: "rat list option"
  pv_cash_distributions :: "rat list"
  pv_split_coefficient :: "rat list"

fun bars_consistent :: "rat list \<Rightarrow> rat list \<Rightarrow> rat list \<Rightarrow> rat list \<Rightarrow> bool" where
  "bars_consistent (o1 # os) (h # hs) (l # ls) (c # cs) =
     (\<not> (h < max o1 c \<or> l > min o1 c \<or> h < l) \<and> bars_consistent os hs ls cs)"
| "bars_consistent _ _ _ _ = True"

definition validate_provider_series :: "provider_series \<Rightarrow> provider_series result" where
  "validate_provider_series s =
     (let n = length (pv_sessions s);
          adjusted = (case pv_adjusted_close s of None \<Rightarrow> [] | Some a \<Rightarrow> a) in
      if \<not> list_all (\<lambda>xs. length xs = n)
             [pv_open s, pv_high s, pv_low s, pv_close s, pv_cash_distributions s,
              pv_split_coefficient s]
         \<or> (pv_adjusted_close s \<noteq> None \<and> length adjusted \<noteq> n) \<or> pv_sessions s = []
      then Inl (ValueError ''price and action arrays must be non-empty and equal length'')
      else if pv_sessions s \<noteq> sort (dedup (pv_sessions s))
      then Inl (ValueError ''price sessions must be monotonic and unique'')
      else if \<not> all_positive (pv_open s @ pv_high s @ pv_low s @ pv_close s @ adjusted)
      then Inl (ValueError ''prices must be finite and positive'')
      else if \<not> list_all (\<lambda>x. 0 \<le> x) (pv_cash_distributions s)
      then Inl (ValueError ''cash distributions must be finite and non-negative'')
      else if \<not> all_positive (pv_split_coefficient s)
      then Inl (ValueError ''split coefficients must be finite and positive'')
      else if \<not> bars_consistent (pv_open s) (pv_high s) (pv_low s) (pv_close s)
      then Inl (ValueError ''OHLC values are inconsistent'')
      else Inr s)"

datatype quality = Not_available | Matched | Minor_difference | Material_difference

fun quality_value :: "quality \<Rightarrow> string" where
  "quality_value Not_available = ''not_available''"
| "quality_value Matched = ''matched''"
| "quality_value Minor_difference = ''minor_difference''"
| "quality_value Material_difference = ''material_difference''"

fun quality_rank :: "quality \<Rightarrow> nat" where
  "quality_rank Not_available = 0"
| "quality_rank Matched = 1"
| "quality_rank Minor_difference = 2"
| "quality_rank Material_difference = 3"

record canonical_series =
  cn_ticker :: string
  cn_provider_symbol :: string
  cn_provider_id :: string
  cn_provider_adapter_version :: string
  cn_request_fingerprint :: string
  cn_currency :: "string option"
  cn_timezone :: "string option"
  cn_collected_at :: int
  cn_sessions :: "int list"
  cn_open :: "rat list"
  cn_high :: "rat list"
  cn_low :: "rat list"
  cn_close :: "rat list"
  cn_cash_distributions :: "rat list"
  cn_price_index :: "rat list"
  cn_total_return_index :: "rat list"
  cn_quality :: quality
  cn_provider_total_return :: "rat option"

section \<open>Normalisation\<close>

text \<open>\<open>exit / entry - 1\<close> in two rounded steps.\<close>

definition relative :: "rat \<Rightarrow> rat \<Rightarrow> rat" where
  "relative x base = round28 (round28 (x / base) - 1)"

text \<open>
  \<open>_later_split_factors\<close>: from the last session backwards, each factor is the product of the
  split coefficients of the later sessions.
\<close>

fun split_factors_from :: "rat \<Rightarrow> rat list \<Rightarrow> rat list" where
  "split_factors_from cumulative [] = []"
| "split_factors_from cumulative (s # ss) =
     cumulative # split_factors_from (round28 (cumulative * s)) ss"

definition later_split_factors :: "provider_series \<Rightarrow> rat list" where
  "later_split_factors s = rev (split_factors_from 1 (rev (pv_split_coefficient s)))"

definition adjust :: "rat list \<Rightarrow> rat list \<Rightarrow> rat list" where
  "adjust factors values = map2 (\<lambda>v f. round28 (v / f)) values factors"

text \<open>The loop that chains an index: \<open>index[-1] * gain / previous\<close>.\<close>

fun chain_index :: "rat \<Rightarrow> rat \<Rightarrow> (rat \<times> rat) list \<Rightarrow> rat list" where
  "chain_index previous level [] = []"
| "chain_index previous level ((close, gain) # rest) =
     (let level' = round28 (round28 (level * gain) / previous)
      in level' # chain_index close level' rest)"

definition index_of :: "rat list \<Rightarrow> rat list \<Rightarrow> rat list" where
  "index_of closes gains = (case closes of [] \<Rightarrow> [100]
     | c # cs \<Rightarrow> 100 # chain_index c 100 (zip cs (tl gains)))"

definition quality_status :: "provider_series \<Rightarrow> rat \<Rightarrow> quality \<times> rat option" where
  "quality_status s canonical =
     (case pv_adjusted_close s of
        None \<Rightarrow> (Not_available, None)
      | Some adjusted_close \<Rightarrow>
          (let provider = relative (last adjusted_close) (hd adjusted_close);
               difference = \<bar>round28 (provider - canonical)\<bar>
           in (if difference \<le> 1 / 10 ^ 6 then Matched
               else if difference \<le> 1 / 10 ^ 3 then Minor_difference
               else Material_difference, Some provider)))"

definition normalize_prices :: "provider_series \<Rightarrow> canonical_series result" where
  "normalize_prices s =
     (if pv_ohlc_basis s = UNKNOWN_BASIS then Inl (ValueError ''provider OHLC basis is unknown'')
      else
        let factors = (if pv_ohlc_basis s = AS_TRADED then later_split_factors s
              else replicate (length (pv_sessions s)) 1);
            close = adjust factors (pv_close s);
            distributions = adjust factors (pv_cash_distributions s);
            price_index = index_of close close;
            total_return_index = index_of close (map2 (\<lambda>c x. round28 (c + x)) close distributions);
            canonical = relative (last total_return_index) 100;
            quality = quality_status s canonical
        in Inr \<lparr>cn_ticker = pv_ticker s, cn_provider_symbol = pv_provider_symbol s,
             cn_provider_id = pv_provider_id s,
             cn_provider_adapter_version = pv_provider_adapter_version s,
             cn_request_fingerprint = pv_request_fingerprint s, cn_currency = pv_currency s,
             cn_timezone = pv_timezone s, cn_collected_at = pv_collected_at s, cn_sessions = pv_sessions s,
             cn_open = adjust factors (pv_open s), cn_high = adjust factors (pv_high s),
             cn_low = adjust factors (pv_low s), cn_close = close,
             cn_cash_distributions = distributions, cn_price_index = price_index,
             cn_total_return_index = total_return_index, cn_quality = fst quality,
             cn_provider_total_return = snd quality\<rparr>)"

section \<open>Ratings\<close>

definition bullish :: "string \<Rightarrow> bool" where
  "bullish rating \<longleftrightarrow> rating \<in> {''Buy'', ''Overweight''}"

definition bearish :: "string \<Rightarrow> bool" where
  "bearish rating \<longleftrightarrow> rating \<in> {''Sell'', ''Underweight''}"

definition direction_text :: "string \<Rightarrow> string" where
  "direction_text rating = (if bullish rating then ''bullish''
     else if bearish rating then ''bearish'' else ''neutral'')"

record direction_evaluation =
  de_direction :: string
  de_direction_correct :: bool
  de_direction_basis :: string

definition evaluate_rating_direction :: "string \<Rightarrow> rat \<Rightarrow> rat \<Rightarrow> direction_evaluation" where
  "evaluate_rating_direction rating total_return total_alpha =
     (let own = ''instrument_total_return''; relative_basis = ''benchmark_total_alpha'' in
      if rating = ''Buy'' then \<lparr>de_direction = ''bullish'', de_direction_correct = (total_return > 0), de_direction_basis = own\<rparr>
      else if rating = ''Sell'' then \<lparr>de_direction = ''bearish'', de_direction_correct = (total_return < 0), de_direction_basis = own\<rparr>
      else if rating = ''Overweight'' then \<lparr>de_direction = ''bullish'', de_direction_correct = (total_alpha > 0), de_direction_basis = relative_basis\<rparr>
      else if rating = ''Underweight'' then \<lparr>de_direction = ''bearish'', de_direction_correct = (total_alpha < 0), de_direction_basis = relative_basis\<rparr>
      else \<lparr>de_direction = ''neutral'', de_direction_correct = (\<bar>total_return\<bar> \<le> 3 / 100), de_direction_basis = own\<rparr>)"

definition DIRECTION_RULE_VERSION :: string where
  "DIRECTION_RULE_VERSION = ''rating-direction.v2''"

section \<open>The first calculator\<close>

record outcome_v1 =
  o1_raw_return :: rat
  o1_benchmark_return :: rat
  o1_alpha :: rat
  o1_mae :: rat
  o1_mfe :: rat
  o1_entry_session :: int
  o1_exit_session :: int
  o1_trigger_results :: dict

text \<open>\<open>next(index for index, session in enumerate(sessions) if session >= analysis_date)\<close>\<close>

definition first_index :: "int \<Rightarrow> int list \<Rightarrow> nat option" where
  "first_index d sessions =
     (let i = length (takeWhile (\<lambda>x. x < d) sessions)
      in if i < length sessions then Some i else None)"

definition slice :: "nat \<Rightarrow> nat \<Rightarrow> 'a list \<Rightarrow> 'a list" where
  "slice i j xs = take (Suc j - i) (drop i xs)"

text \<open>The loop over the bars of the horizon: the adjusted highs and lows.\<close>

fun adjusted_bars :: "(rat \<times> rat \<times> rat \<times> rat) list \<Rightarrow> (rat \<times> rat) list result" where
  "adjusted_bars [] = Inr []"
| "adjusted_bars ((close, adj_close, high, low) # rest) =
     (if close \<le> 0 then Inl (ValueError ''raw close prices must be positive'')
      else let f = round28 (adj_close / close) in
        bind_result (adjusted_bars rest) (\<lambda>bars.
          Inr ((round28 (high * f), round28 (low * f)) # bars)))"

definition v1_target_hit :: "string \<Rightarrow> rat list \<Rightarrow> rat list \<Rightarrow> rat option \<Rightarrow> bool option" where
  "v1_target_hit rating highs lows price_target =
     (case price_target of None \<Rightarrow> None
      | Some t \<Rightarrow> Some (if bullish rating then Max (set highs) \<ge> t else Min (set lows) \<le> t))"

definition v1_direction_correct :: "string \<Rightarrow> rat \<Rightarrow> bool" where
  "v1_direction_correct rating raw_return =
     (if bullish rating then raw_return > 0
      else if bearish rating then raw_return < 0 else \<bar>raw_return\<bar> \<le> 3 / 100)"

definition calculate_outcome ::
    "(rat \<Rightarrow> string) \<Rightarrow> price_series \<Rightarrow> price_series \<Rightarrow> int \<Rightarrow> int \<Rightarrow> string \<Rightarrow> rat option
       \<Rightarrow> outcome_v1 result" where
  "calculate_outcome show instrument benchmark analysis_date horizon rating price_target =
     (if horizon < 0 then Inl (ValueError ''horizon cannot be negative'')
      else case first_index analysis_date (ps_sessions instrument) of
        None \<Rightarrow> Inl (InsufficientSessions ''instrument'')
      | Some i \<Rightarrow>
        (let j = i + nat horizon in
         if j \<ge> length (ps_sessions instrument) then Inl (InsufficientSessions ''instrument'')
         else
          let entry_session = ps_sessions instrument ! i; exit_session = ps_sessions instrument ! j;
              closes = map_of (rev (zip (ps_sessions benchmark) (ps_adjusted_close benchmark)));
              entry = ps_adjusted_close instrument ! i; exit = ps_adjusted_close instrument ! j
          in case (closes entry_session, closes exit_session) of
            (Some bentry, Some bexit) \<Rightarrow>
              (if Min {entry, exit, bentry, bexit} \<le> 0
               then Inl (ValueError ''entry and exit prices must be positive'')
               else bind_result (adjusted_bars (slice i j (zip (ps_close instrument)
                      (zip (ps_adjusted_close instrument) (zip (ps_high instrument) (ps_low instrument)))))) (\<lambda>bars.
                 let highs = map fst bars; lows = map snd bars;
                     raw = relative exit entry; bench = relative bexit bentry;
                     alpha = round28 (raw - bench);
                     mae = Min ((\<lambda>v. relative v entry) ` set lows);
                     mfe = Max ((\<lambda>v. relative v entry) ` set highs)
                 in bind_result (quantize10 raw) (\<lambda>q_raw. bind_result (quantize10 bench) (\<lambda>q_bench.
                    bind_result (quantize10 alpha) (\<lambda>q_alpha. bind_result (quantize10 mae) (\<lambda>q_mae.
                    bind_result (quantize10 mfe) (\<lambda>q_mfe.
                    Inr \<lparr>o1_raw_return = q_raw, o1_benchmark_return = q_bench, o1_alpha = q_alpha,
                      o1_mae = q_mae, o1_mfe = q_mfe, o1_entry_session = entry_session,
                      o1_exit_session = exit_session,
                      o1_trigger_results =
                        [(''rating'', JStr rating), (''direction'', JStr (direction_text rating)),
                         (''direction_correct'', JBool (v1_direction_correct rating raw)),
                         (''price_target_hit'', opt_bool (v1_target_hit rating highs lows price_target)),
                         (''entry_price'', JStr (show entry)), (''exit_price'', JStr (show exit)),
                         (''entry_session'', JStr (iso_date entry_session)),
                         (''exit_session'', JStr (iso_date exit_session))]\<rparr>)))))))
          | _ \<Rightarrow> Inl (InsufficientSessions ''benchmark'')))"

section \<open>The second calculator\<close>

record target_basis =
  tb_reference_session :: int
  tb_reference_close :: rat
  tb_target_multiple :: rat

definition prepare_target_basis :: "rat \<Rightarrow> int \<Rightarrow> canonical_series \<Rightarrow> target_basis result" where
  "prepare_target_basis price_target analysis_date prices =
     (case filter (\<lambda>sc. fst sc \<le> analysis_date) (zip (cn_sessions prices) (cn_close prices)) of
        [] \<Rightarrow> Inl (ValueError ''target basis has no session on or before the analysis date'')
      | c # cs \<Rightarrow>
          (case last (c # cs) of (session, close) \<Rightarrow>
             if close \<le> 0 \<or> price_target \<le> 0
             then Inl (ValueError ''target basis prices must be positive'')
             else Inr \<lparr>tb_reference_session = session, tb_reference_close = close,
                       tb_target_multiple = round28 (price_target / close)\<rparr>))"

record outcome_v2 =
  o2_price_return :: rat
  o2_benchmark_price_return :: rat
  o2_price_alpha :: rat
  o2_total_return :: rat
  o2_benchmark_total_return :: rat
  o2_total_alpha :: rat
  o2_mae :: rat
  o2_mfe :: rat
  o2_trigger_results :: dict

definition session_index :: "canonical_series \<Rightarrow> int \<Rightarrow> nat result" where
  "session_index series session =
     (let i = length (takeWhile (\<lambda>x. x \<noteq> session) (cn_sessions series))
      in if i < length (cn_sessions series) then Inr i
         else Inl (InsufficientSessions (cn_ticker series)))"

definition return_between :: "rat list \<Rightarrow> nat \<Rightarrow> nat \<Rightarrow> rat result" where
  "return_between values i j =
     (if values ! i \<le> 0 then Inl (ValueError ''entry index value must be positive'')
      else Inr (relative (values ! j) (values ! i)))"

definition worse_quality :: "canonical_series \<Rightarrow> canonical_series \<Rightarrow> quality" where
  "worse_quality a b = (if quality_rank (cn_quality b) > quality_rank (cn_quality a)
     then cn_quality b else cn_quality a)"

definition target_hit :: "string \<Rightarrow> rat list \<Rightarrow> rat list \<Rightarrow> rat \<Rightarrow> bool option" where
  "target_hit rating highs lows t =
     (if bullish rating then Some (Max (set highs) \<ge> t)
      else if bearish rating then Some (Min (set lows) \<le> t) else None)"

text \<open>The price target: its status, the rebased target and whether it was reached.\<close>

definition target_outcome ::
    "canonical_series \<Rightarrow> string \<Rightarrow> rat list \<Rightarrow> rat list \<Rightarrow> rat option \<Rightarrow> target_basis option
       \<Rightarrow> (string \<times> rat option \<times> bool option) result" where
  "target_outcome instrument rating highs lows price_target basis =
     (case price_target of
        None \<Rightarrow> Inr (''not_set'', None, None)
      | Some _ \<Rightarrow>
          (case basis of
             None \<Rightarrow> Inr (''basis_unavailable'', None, None)
           | Some b \<Rightarrow> bind_result (session_index instrument (tb_reference_session b)) (\<lambda>k.
               let t = round28 (tb_target_multiple b * cn_close instrument ! k)
               in Inr (''evaluated'', Some t, target_hit rating highs lows t))))"

definition v2_trigger_results ::
    "(rat \<Rightarrow> string) \<Rightarrow> string \<Rightarrow> direction_evaluation \<Rightarrow> string \<Rightarrow> rat option \<Rightarrow> bool option \<Rightarrow> quality
       \<Rightarrow> rat \<Rightarrow> rat \<Rightarrow> schedule \<Rightarrow> dict" where
  "v2_trigger_results show rating d status rebased hit q entry exit sch =
     [(''rating'', JStr rating), (''direction'', JStr (de_direction d)),
      (''direction_correct'', JBool (de_direction_correct d)),
      (''direction_basis'', JStr (de_direction_basis d)),
      (''direction_rule_version'', JStr DIRECTION_RULE_VERSION),
      (''price_target_hit'', opt_bool hit), (''price_target_status'', JStr status),
      (''rebased_price_target'', opt_str (map_option show rebased)),
      (''data_quality_status'', JStr (quality_value q)),
      (''entry_price'', JStr (show entry)), (''exit_price'', JStr (show exit)),
      (''entry_session'', JStr (iso_date (sch_entry_session sch))),
      (''exit_session'', JStr (iso_date (sch_exit_session sch)))]"

text \<open>The eight results, quantised.\<close>

definition quantize_outcome ::
    "rat \<Rightarrow> rat \<Rightarrow> rat \<Rightarrow> rat \<Rightarrow> rat \<Rightarrow> rat \<Rightarrow> rat \<Rightarrow> dict \<Rightarrow> outcome_v2 result" where
  "quantize_outcome pr bpr tr btr total_alpha mae mfe trig =
     bind_result (quantize10 pr) (\<lambda>q_pr. bind_result (quantize10 bpr) (\<lambda>q_bpr.
     bind_result (quantize10 (round28 (pr - bpr))) (\<lambda>q_pa. bind_result (quantize10 tr) (\<lambda>q_tr.
     bind_result (quantize10 btr) (\<lambda>q_btr. bind_result (quantize10 total_alpha) (\<lambda>q_ta.
     bind_result (quantize10 mae) (\<lambda>q_mae. bind_result (quantize10 mfe) (\<lambda>q_mfe.
     Inr \<lparr>o2_price_return = q_pr, o2_benchmark_price_return = q_bpr, o2_price_alpha = q_pa,
          o2_total_return = q_tr, o2_benchmark_total_return = q_btr, o2_total_alpha = q_ta,
          o2_mae = q_mae, o2_mfe = q_mfe, o2_trigger_results = trig\<rparr>))))))))"

definition calculate_outcome_v2 ::
    "(rat \<Rightarrow> string) \<Rightarrow> canonical_series \<Rightarrow> canonical_series \<Rightarrow> schedule \<Rightarrow> string \<Rightarrow> rat option
       \<Rightarrow> target_basis option \<Rightarrow> outcome_v2 result" where
  "calculate_outcome_v2 show instrument benchmark sch rating price_target basis =
     bind_result (session_index instrument (sch_entry_session sch)) (\<lambda>i.
     bind_result (session_index instrument (sch_exit_session sch)) (\<lambda>j.
     bind_result (session_index benchmark (sch_entry_session sch)) (\<lambda>bi.
     bind_result (session_index benchmark (sch_exit_session sch)) (\<lambda>bj.
     bind_result (require (i \<le> j \<and> bi \<le> bj)
       (ValueError ''validation exit session precedes entry session'')) (\<lambda>_.
     bind_result (return_between (cn_close instrument) i j) (\<lambda>pr.
     bind_result (return_between (cn_close benchmark) bi bj) (\<lambda>bpr.
     bind_result (return_between (cn_total_return_index instrument) i j) (\<lambda>tr.
     bind_result (return_between (cn_total_return_index benchmark) bi bj) (\<lambda>btr.
     let entry = cn_close instrument ! i;
         highs = slice i j (cn_high instrument); lows = slice i j (cn_low instrument);
         mae = Min ((\<lambda>v. relative v entry) ` set lows);
         mfe = Max ((\<lambda>v. relative v entry) ` set highs);
         total_alpha = round28 (tr - btr)
     in bind_result (target_outcome instrument rating highs lows price_target basis)
          (\<lambda>(status, rebased, hit).
        quantize_outcome pr bpr tr btr total_alpha mae mfe
          (v2_trigger_results show rating (evaluate_rating_direction rating tr total_alpha)
             status rebased hit (worse_quality instrument benchmark) entry
             (cn_close instrument ! j) sch)))))))))))"

section \<open>What normalisation keeps\<close>

lemma relative_ret: "relative x base = dec28.ret x base"
  by (simp add: relative_def dec28.ret_def)

lemma strictly_sorted_dedup: "xs = sort (dedup xs) \<Longrightarrow> sorted xs \<and> distinct xs"
  by (metis distinct_dedup distinct_sort sorted_sort)

lemma bars_consistent_nth:
  "bars_consistent os hs ls cs \<Longrightarrow> i < length os \<Longrightarrow> length hs = length os \<Longrightarrow> length ls = length os \<Longrightarrow>
     length cs = length os \<Longrightarrow>
     ls ! i \<le> os ! i \<and> ls ! i \<le> cs ! i \<and> os ! i \<le> hs ! i \<and> cs ! i \<le> hs ! i"
proof (induction os hs ls cs arbitrary: i rule: bars_consistent.induct)
  case (1 o1 os h hs l ls c cs)
  then show ?case by (cases i) (auto simp: not_less)
qed auto

lemma validate_provider_series_facts:
  assumes "validate_provider_series s = Inr s'"
  shows "s' = s" and "pv_sessions s \<noteq> []" and "sorted (pv_sessions s) \<and> distinct (pv_sessions s)"
    and "length (pv_open s) = length (pv_sessions s)" and "length (pv_high s) = length (pv_sessions s)"
    and "length (pv_low s) = length (pv_sessions s)" and "length (pv_close s) = length (pv_sessions s)"
    and "length (pv_cash_distributions s) = length (pv_sessions s)"
    and "length (pv_split_coefficient s) = length (pv_sessions s)"
    and "all_positive (pv_low s)" and "all_positive (pv_close s)"
    and "list_all (\<lambda>x. 0 \<le> x) (pv_cash_distributions s)" and "all_positive (pv_split_coefficient s)"
    and "bars_consistent (pv_open s) (pv_high s) (pv_low s) (pv_close s)"
  using assms strictly_sorted_dedup
  by (auto simp: validate_provider_series_def Let_def all_positive_def split: if_split_asm)

lemma split_factors_length [simp]: "length (split_factors_from f ss) = length ss"
  by (induction ss arbitrary: f) simp_all

lemma split_factors_positive:
  "0 < f \<Longrightarrow> all_positive ss \<Longrightarrow> all_positive (split_factors_from f ss)"
  by (induction ss arbitrary: f) (simp_all add: all_positive_def round28_pos)

lemma later_split_factors_positive:
  "all_positive (pv_split_coefficient s) \<Longrightarrow> all_positive (later_split_factors s)
     \<and> length (later_split_factors s) = length (pv_split_coefficient s)"
  using split_factors_positive [of 1 "rev (pv_split_coefficient s)"]
  by (auto simp: later_split_factors_def all_positive_def list_all_iff)

lemma adjust_nth:
  "length fs = length vs \<Longrightarrow> i < length vs \<Longrightarrow> adjust fs vs ! i = round28 (vs ! i / fs ! i)"
  by (simp add: adjust_def)

lemma adjust_length [simp]: "length (adjust fs vs) = min (length vs) (length fs)"
  by (simp add: adjust_def)

lemma chain_index_length [simp]: "length (chain_index p l xs) = length xs"
  by (induction xs arbitrary: p l) (auto simp: Let_def)

lemma chain_index_le:
  assumes "0 < p" and "0 \<le> l" and "l \<le> l'" and "length cs = length gs" and "all_positive cs"
    and "\<And>i. i < length cs \<Longrightarrow> cs ! i \<le> gs ! i" and "j < length cs"
  shows "chain_index p l (zip cs cs) ! j \<le> chain_index p l' (zip cs gs) ! j"
  using assms
proof (induction cs arbitrary: p l l' gs j)
  case (Cons c cs)
  then obtain g gs' where gs: "gs = g # gs'" by (cases gs) auto
  have c: "0 < c" and cg: "c \<le> g" using Cons.prems(5) Cons.prems(6) [of 0] by (auto simp: gs all_positive_def)
  let ?a = "round28 (round28 (l * c) / p)" and ?b = "round28 (round28 (l' * g) / p)"
  have "l * c \<le> l' * g" using Cons.prems(2,3) c cg by (intro mult_mono) simp_all
  then have ab: "?a \<le> ?b"
    using Cons.prems(1) by (intro round28_mono divide_right_mono) simp_all
  have a0: "0 \<le> ?a"
    using Cons.prems(1,2) c by (intro dec28.rnd_nonneg divide_nonneg_pos) simp_all
  show ?case
  proof (cases j)
    case 0
    then show ?thesis using ab by (simp add: gs Let_def)
  next
    case (Suc k)
    have "chain_index c ?a (zip cs cs) ! k \<le> chain_index c ?b (zip cs gs') ! k"
    proof (rule Cons.IH [OF c a0 ab])
      show "length cs = length gs'" using Cons.prems(4) by (simp add: gs)
      show "all_positive cs" using Cons.prems(5) by (simp add: all_positive_def)
      show "cs ! i \<le> gs' ! i" if "i < length cs" for i using Cons.prems(6) [of "Suc i"] that by (simp add: gs)
      show "k < length cs" using Cons.prems(7) Suc by simp
    qed
    then show ?thesis using Suc by (simp add: gs Let_def)
  qed
qed simp

lemma chain_index_positive:
  assumes "0 < p" and "0 < l" and "all_positive cs" and "all_positive gs" and "length cs = length gs"
  shows "all_positive (chain_index p l (zip cs gs))"
  using assms
proof (induction cs arbitrary: p l gs)
  case (Cons c cs)
  then obtain g gs' where gs: "gs = g # gs'" by (cases gs) auto
  have "0 < round28 (round28 (l * g) / p)"
    using Cons.prems by (intro round28_pos divide_pos_pos) (simp_all add: gs all_positive_def round28_pos)
  with Cons show ?case by (simp add: gs all_positive_def Let_def)
qed (simp add: all_positive_def)

lemma index_of_length: "cs \<noteq> [] \<Longrightarrow> length gs = length cs \<Longrightarrow> length (index_of cs gs) = length cs"
  by (cases cs) (simp_all add: index_of_def)

lemma index_of_positive:
  "all_positive cs \<Longrightarrow> all_positive gs \<Longrightarrow> length gs = length cs \<Longrightarrow> all_positive (index_of cs gs)"
  using chain_index_positive [of "hd cs" 100 "tl cs" "tl gs"]
  by (cases cs; cases gs) (auto simp: index_of_def all_positive_def)

lemma index_of_le:
  assumes "all_positive cs" and "length gs = length cs" and "\<And>i. i < length cs \<Longrightarrow> cs ! i \<le> gs ! i"
    and "j < length cs"
  shows "index_of cs cs ! j \<le> index_of cs gs ! j"
proof (cases cs)
  case (Cons c cs')
  then obtain g gs' where gs: "gs = g # gs'" using assms(2) by (cases gs) auto
  show ?thesis
  proof (cases j)
    case (Suc k)
    have "chain_index c 100 (zip cs' cs') ! k \<le> chain_index c 100 (zip cs' gs') ! k"
    proof (rule chain_index_le)
      show "cs' ! i \<le> gs' ! i" if "i < length cs'" for i using assms(3) [of "Suc i"] that by (simp add: Cons gs)
    qed (use assms Suc in \<open>auto simp: Cons gs all_positive_def\<close>)
    then show ?thesis by (simp add: index_of_def Cons gs Suc)
  qed (simp add: index_of_def Cons gs)
qed (use assms in simp)

definition series_ok :: "canonical_series \<Rightarrow> bool" where
  "series_ok c \<longleftrightarrow>
     (let n = length (cn_sessions c) in
      0 < n \<and> sorted (cn_sessions c) \<and> distinct (cn_sessions c)
      \<and> list_all (\<lambda>xs. length xs = n) [cn_open c, cn_high c, cn_low c, cn_close c,
           cn_cash_distributions c, cn_price_index c, cn_total_return_index c]
      \<and> (\<forall>i<n. 0 < cn_low c ! i \<and> cn_low c ! i \<le> min (cn_open c ! i) (cn_close c ! i)
          \<and> max (cn_open c ! i) (cn_close c ! i) \<le> cn_high c ! i
          \<and> 0 < cn_price_index c ! i \<and> cn_price_index c ! i \<le> cn_total_return_index c ! i))"

lemma all_positive_nth: "all_positive xs \<Longrightarrow> i < length xs \<Longrightarrow> 0 < xs ! i"
  by (auto simp: all_positive_def list_all_length)

lemma normalize_prices_ok:
  assumes "validate_provider_series s = Inr s'" and "normalize_prices s = Inr c"
  shows "series_ok c \<and> cn_sessions c = pv_sessions s"
proof -
  note v = validate_provider_series_facts [OF assms(1)]
  let ?n = "length (pv_sessions s)"
  obtain fs where fs: "all_positive fs" "length fs = ?n"
    and c: "cn_open c = adjust fs (pv_open s)" "cn_high c = adjust fs (pv_high s)"
      "cn_low c = adjust fs (pv_low s)" "cn_close c = adjust fs (pv_close s)"
      "cn_cash_distributions c = adjust fs (pv_cash_distributions s)"
      "cn_price_index c = index_of (cn_close c) (cn_close c)"
      "cn_total_return_index c = index_of (cn_close c)
         (map2 (\<lambda>c x. round28 (c + x)) (cn_close c) (cn_cash_distributions c))"
      "cn_sessions c = pv_sessions s"
  proof -
    let ?fs = "if pv_ohlc_basis s = AS_TRADED then later_split_factors s else replicate ?n 1"
    have "all_positive ?fs \<and> length ?fs = ?n"
      using later_split_factors_positive [OF v(13)] v(9) by (auto simp: all_positive_def list_all_iff)
    moreover have "c = c" ..
    ultimately show ?thesis
      using assms(2) that [of ?fs] unfolding normalize_prices_def Let_def
      by (auto split: if_split_asm)
  qed
  let ?gs = "map2 (\<lambda>c x. round28 (c + x)) (cn_close c) (cn_cash_distributions c)"
  have len: "length (cn_open c) = ?n" "length (cn_high c) = ?n" "length (cn_low c) = ?n"
    "length (cn_close c) = ?n" "length (cn_cash_distributions c) = ?n" "length ?gs = ?n"
    using v fs by (simp_all add: c)
  have f: "0 < fs ! i" if "i < ?n" for i using fs that by (auto intro: all_positive_nth)
  have mono: "adjust fs xs ! i \<le> adjust fs ys ! i"
    if "i < ?n" "length xs = ?n" "length ys = ?n" "xs ! i \<le> ys ! i" for xs ys i
    using that f [of i] fs by (simp add: adjust_nth round28_mono divide_right_mono)
  have close_pos: "all_positive (cn_close c)"
    using all_positive_nth [OF v(11)] f v(7) fs
    by (auto simp: all_positive_def list_all_length c adjust_nth intro!: round28_pos divide_pos_pos)
  have gain: "cn_close c ! i \<le> ?gs ! i" if i: "i < ?n" for i
  proof -
    have "0 \<le> pv_cash_distributions s ! i" using v(8,12) i by (simp add: list_all_length)
    then have "0 \<le> cn_cash_distributions c ! i"
      using f [OF i] v(8) fs i by (simp add: c adjust_nth dec28.rnd_nonneg)
    moreover have "cn_close c ! i = round28 (pv_close s ! i / fs ! i)"
      using v(7) fs i by (simp add: c adjust_nth)
    ultimately show ?thesis using dec28.rnd_ge [of "pv_close s ! i / fs ! i"] len i by simp
  qed
  have gains_pos: "all_positive ?gs"
  proof -
    have "0 < ?gs ! i" if "i < ?n" for i
    proof -
      have "0 < cn_close c ! i" using all_positive_nth [OF close_pos, of i] len that by simp
      also have "\<dots> \<le> ?gs ! i" by (rule gain [OF that])
      finally show ?thesis .
    qed
    then show ?thesis using len by (auto simp only: all_positive_def list_all_length)
  qed
  have ne: "cn_close c \<noteq> []" using len(4) v(2) by auto
  have idx: "length (cn_price_index c) = ?n" "length (cn_total_return_index c) = ?n"
    using index_of_length [OF ne] len by (simp_all add: c)
  have "0 < cn_low c ! i \<and> cn_low c ! i \<le> min (cn_open c ! i) (cn_close c ! i)
      \<and> max (cn_open c ! i) (cn_close c ! i) \<le> cn_high c ! i
      \<and> 0 < cn_price_index c ! i \<and> cn_price_index c ! i \<le> cn_total_return_index c ! i"
    if i: "i < ?n" for i
  proof -
    have "pv_low s ! i \<le> pv_open s ! i \<and> pv_low s ! i \<le> pv_close s ! i
        \<and> pv_open s ! i \<le> pv_high s ! i \<and> pv_close s ! i \<le> pv_high s ! i"
      using bars_consistent_nth [OF v(14)] v i by simp
    then have "cn_low c ! i \<le> cn_open c ! i \<and> cn_low c ! i \<le> cn_close c ! i
        \<and> cn_open c ! i \<le> cn_high c ! i \<and> cn_close c ! i \<le> cn_high c ! i"
      using v i unfolding c by (intro conjI mono) simp_all
    moreover have "0 < cn_low c ! i"
      using all_positive_nth [OF v(10)] v(6) f [OF i] fs i by (simp add: c adjust_nth round28_pos)
    moreover have "0 < cn_price_index c ! i"
      using index_of_positive [OF close_pos close_pos] idx i by (simp add: c(6) all_positive_nth)
    moreover have "cn_price_index c ! i \<le> cn_total_return_index c ! i"
      unfolding c(6,7) using len i gain by (intro index_of_le [OF close_pos]) simp_all
    ultimately show ?thesis by simp
  qed
  then show ?thesis using v len idx by (auto simp: series_ok_def Let_def c(8))
qed

text \<open>
  Normalisation keeps a validated series sane, whatever the splits, the distributions
  and the rounding to 28 digits: the sessions are unchanged and strictly increasing, all
  columns have one entry per session, every price is positive with
  low \<open>\<le>\<close> open, close \<open>\<le>\<close> high, and the total-return index is never below the price index.
\<close>

theorem normalisation_keeps_ohlc:
  assumes "validate_provider_series s = Inr s'" and "normalize_prices s = Inr c"
  shows "cn_sessions c = pv_sessions s \<and> sorted (cn_sessions c) \<and> distinct (cn_sessions c)
    \<and> list_all (\<lambda>xs. length xs = length (pv_sessions s)) [cn_open c, cn_high c, cn_low c, cn_close c,
         cn_cash_distributions c, cn_price_index c, cn_total_return_index c]
    \<and> (\<forall>i<length (pv_sessions s). 0 < cn_low c ! i
         \<and> cn_low c ! i \<le> min (cn_open c ! i) (cn_close c ! i)
         \<and> max (cn_open c ! i) (cn_close c ! i) \<le> cn_high c ! i
         \<and> cn_price_index c ! i \<le> cn_total_return_index c ! i)"
  using normalize_prices_ok [OF assms] by (auto simp: series_ok_def Let_def)

definition demo_series :: provider_series where
  "demo_series = \<lparr>pv_ticker = ''X'', pv_provider_symbol = ''X'', pv_provider_id = ''p'',
     pv_provider_adapter_version = ''v'', pv_request_fingerprint = ''f'', pv_currency = None,
     pv_timezone = None, pv_collected_at = 0,
     pv_ohlc_basis = AS_TRADED, pv_sessions = [10, 11, 14], pv_open = [20, 21, 11],
     pv_high = [22, 23, 12], pv_low = [19, 20, 10], pv_close = [21, 22, 11],
     pv_adjusted_close = None, pv_cash_distributions = [0, 0, 1],
     pv_split_coefficient = [1, 1, 2]\<rparr>"

theorem normalisation_keeps_ohlc_witness:
  "\<exists>c. normalize_prices demo_series = Inr c \<and> cn_sessions c = [10, 11, 14]
     \<and> cn_price_index c ! 2 \<le> cn_total_return_index c ! 2"
proof -
  have v: "validate_provider_series demo_series = Inr demo_series"
    by (simp add: validate_provider_series_def demo_series_def all_positive_def)
  have "pv_ohlc_basis demo_series \<noteq> UNKNOWN_BASIS" by (simp add: demo_series_def)
  then obtain c where c: "normalize_prices demo_series = Inr c"
    unfolding normalize_prices_def Let_def by (simp only: if_False)
  from normalisation_keeps_ohlc [OF v c] c show ?thesis
    by (auto simp: demo_series_def)
qed

section \<open>What the second calculator reports\<close>

lemma session_index_facts:
  "session_index c d = Inr i \<Longrightarrow> i < length (cn_sessions c) \<and> cn_sessions c ! i = d"
  by (auto simp: session_index_def Let_def split: if_split_asm dest: nth_length_takeWhile)

lemma slice_nth:
  assumes "i \<le> j" and "j < length xs"
  shows "set (slice i j xs) = (\<lambda>k. xs ! k) ` {i..j}"
proof -
  have "slice i j xs = map ((!) xs) [i..<Suc j]"
    using assms by (intro nth_equalityI) (simp_all add: slice_def del: upt_Suc)
  then show ?thesis by (simp only: set_map set_upt atLeastLessThanSuc_atLeastAtMost)
qed

lemma calculate_outcome_v2_cases:
  assumes "calculate_outcome_v2 show c b sch rating target basis = Inr out"
  obtains i j bi bj pr bpr tr btr status rebased hit q where
    "session_index c (sch_entry_session sch) = Inr i" and "session_index c (sch_exit_session sch) = Inr j"
    and "i \<le> j" and "return_between (cn_close c) i j = Inr pr"
    and "return_between (cn_total_return_index c) i j = Inr tr"
    and "target_outcome c rating (slice i j (cn_high c)) (slice i j (cn_low c)) target basis
      = Inr (status, rebased, hit)"
    and "quantize_outcome pr bpr tr btr (round28 (tr - btr))
       (Min ((\<lambda>v. relative v (cn_close c ! i)) ` set (slice i j (cn_low c))))
       (Max ((\<lambda>v. relative v (cn_close c ! i)) ` set (slice i j (cn_high c))))
       (v2_trigger_results show rating (evaluate_rating_direction rating tr (round28 (tr - btr)))
          status rebased hit q (cn_close c ! i) (cn_close c ! j) sch) = Inr out"
    and "session_index b (sch_entry_session sch) = Inr bi" and "session_index b (sch_exit_session sch) = Inr bj"
    and "bi \<le> bj" and "return_between (cn_total_return_index b) bi bj = Inr btr"
proof -
  from assms show ?thesis
    unfolding calculate_outcome_v2_def Let_def
    by (elim bind_resultE) (auto intro: that split: prod.splits)
qed

lemma quantize_outcome_facts:
  assumes "quantize_outcome pr bpr tr btr ta mae mfe trig = Inr out"
  shows "quantize10 pr = Inr (o2_price_return out)" and "quantize10 tr = Inr (o2_total_return out)"
    and "quantize10 ta = Inr (o2_total_alpha out)"
    and "quantize10 mae = Inr (o2_mae out)" and "quantize10 mfe = Inr (o2_mfe out)"
    and "o2_trigger_results out = trig"
  using assms unfolding quantize_outcome_def by (auto elim!: bind_resultE)

lemma window_bounds:
  assumes "series_ok c" and "i \<le> j" and "j < length (cn_sessions c)"
  shows "Min ((\<lambda>v. relative v (cn_close c ! i)) ` set (slice i j (cn_low c)))
      \<le> relative (cn_close c ! j) (cn_close c ! i)" (is "?mae \<le> ?ret")
    and "relative (cn_close c ! j) (cn_close c ! i)
      \<le> Max ((\<lambda>v. relative v (cn_close c ! i)) ` set (slice i j (cn_high c)))" (is "_ \<le> ?mfe")
    and "Min ((\<lambda>v. relative v (cn_close c ! i)) ` set (slice i j (cn_low c))) \<le> 0"
    and "0 \<le> Max ((\<lambda>v. relative v (cn_close c ! i)) ` set (slice i j (cn_high c)))"
proof -
  let ?e = "cn_close c ! i"
  have ok: "0 < cn_low c ! k \<and> cn_low c ! k \<le> cn_close c ! k \<and> cn_close c ! k \<le> cn_high c ! k"
    if "k \<le> j" for k
    using assms that by (auto simp: series_ok_def Let_def)
  have e: "0 < ?e" using ok [OF assms(2)] by linarith
  have lows: "set (slice i j (cn_low c)) = (\<lambda>k. cn_low c ! k) ` {i..j}"
    and highs: "set (slice i j (cn_high c)) = (\<lambda>k. cn_high c ! k) ` {i..j}"
    using assms by (simp_all add: slice_nth series_ok_def Let_def)
  have lo: "?mae \<le> relative (cn_low c ! k) ?e" if "k \<in> {i..j}" for k
    unfolding lows using that by (intro Min_le) auto
  have hi: "relative (cn_high c ! k) ?e \<le> ?mfe" if "k \<in> {i..j}" for k
    unfolding highs using that by (intro Max_ge) auto
  have mono: "relative x ?e \<le> relative y ?e" if "x \<le> y" for x y
    unfolding relative_ret using e that by (rule dec28.ret_mono)
  have j: "j \<in> {i..j}" and i: "i \<in> {i..j}" using assms(2) by simp_all
  show "?mae \<le> ?ret" using lo [OF j] mono [of "cn_low c ! j" "cn_close c ! j"] ok [of j] by linarith
  show "?ret \<le> ?mfe" using hi [OF j] mono [of "cn_close c ! j" "cn_high c ! j"] ok [of j] by linarith
  have z: "relative ?e ?e = 0" unfolding relative_ret using e by (rule dec28.ret_same)
  show "?mae \<le> 0" using lo [OF i] mono [of "cn_low c ! i" ?e] ok [of i] assms(2) z by linarith
  show "0 \<le> ?mfe" using hi [OF i] mono [of ?e "cn_high c ! i"] ok [of i] assms(2) z by linarith
qed

lemma quantize10_nonneg: "quantize10 x = Inr q \<Longrightarrow> 0 \<le> x \<Longrightarrow> 0 \<le> q"
  and quantize10_nonpos: "quantize10 x = Inr q \<Longrightarrow> x \<le> 0 \<Longrightarrow> q \<le> 0"
proof -
  have z: "quantize10 0 = Inr 0"
    by (simp add: quantize10_def round_half_even_of_int [of 0, simplified])
  show "quantize10 x = Inr q \<Longrightarrow> 0 \<le> x \<Longrightarrow> 0 \<le> q" using quantize10_mono [OF z] by blast
  show "quantize10 x = Inr q \<Longrightarrow> x \<le> 0 \<Longrightarrow> q \<le> 0" using quantize10_mono [OF _ z] by blast
qed

text \<open>
  C19. The reported excursions bracket the reported return: for a series that came out of
  the normaliser, the maximum adverse excursion is at most zero and at most the price
  return, the maximum favorable excursion at least zero and at least the price return, and
  a validation whose exit is its entry reports a return of zero. Rounding and quantising
  keep all of it.
\<close>

theorem outcome_bounds:
  assumes "validate_provider_series s = Inr s'" and "normalize_prices s = Inr c"
    and "calculate_outcome_v2 show c b sch rating target basis = Inr out"
  shows "o2_mae out \<le> o2_price_return out \<and> o2_price_return out \<le> o2_mfe out
    \<and> o2_mae out \<le> 0 \<and> 0 \<le> o2_mfe out
    \<and> sch_entry_session sch \<le> sch_exit_session sch
    \<and> (sch_entry_session sch = sch_exit_session sch \<longrightarrow> o2_price_return out = 0)"
  using assms(3)
proof (cases rule: calculate_outcome_v2_cases)
  case (1 i j bi bj pr bpr tr btr status rebased hit q)
  have ok: "series_ok c" using normalize_prices_ok [OF assms(1,2)] by blast
  note si = session_index_facts [OF 1(1)] and sj = session_index_facts [OF 1(2)]
  note q = quantize_outcome_facts [OF 1(7)]
  have pr: "pr = relative (cn_close c ! j) (cn_close c ! i)" and e: "0 < cn_close c ! i"
    using 1(4) by (auto simp: return_between_def not_le split: if_split_asm)
  note w = window_bounds [OF ok 1(3), of, OF conjunct1 [OF sj], folded pr]
  have "sch_entry_session sch \<le> sch_exit_session sch"
    using si sj 1(3) ok by (auto simp: series_ok_def Let_def dest: sorted_nth_mono)
  moreover have "o2_price_return out = 0" if "sch_entry_session sch = sch_exit_session sch"
  proof -
    have "j = i" using si sj that ok by (metis nth_eq_iff_index_eq series_ok_def)
    then have "pr = 0" unfolding pr relative_ret using e by (simp add: dec28.ret_same)
    then show ?thesis using quantize10_nonneg [OF q(1)] quantize10_nonpos [OF q(1)] by simp
  qed
  ultimately show ?thesis
    using quantize10_mono [OF q(4,1) w(1)] quantize10_mono [OF q(1,5) w(2)]
      quantize10_nonpos [OF q(4) w(3)] quantize10_nonneg [OF q(5) w(4)] by blast
qed

lemma round28_sign: "0 < round28 x \<longleftrightarrow> 0 < x" "round28 x < 0 \<longleftrightarrow> x < 0"
proof -
  have pos: "0 < round28 y \<longleftrightarrow> 0 < y" for y
    using round28_pos [of y] round28_mono [of y 0] by (cases "0 < y") auto
  show "0 < round28 x \<longleftrightarrow> 0 < x" by (rule pos)
  show "round28 x < 0 \<longleftrightarrow> x < 0" using pos [of "- x"] by (simp add: round28_minus)
qed

text \<open>The rule by rating on the exact returns, and the target on the bars \<open>i\<close> to \<open>j\<close>.\<close>

definition direction_rule :: "string \<Rightarrow> rat \<Rightarrow> rat \<Rightarrow> bool" where
  "direction_rule rating tr btr \<longleftrightarrow>
     (if rating = ''Buy'' then 0 < tr else if rating = ''Sell'' then tr < 0
      else if rating = ''Overweight'' then btr < tr else if rating = ''Underweight'' then tr < btr
      else \<bar>tr\<bar> \<le> 3 / 100)"

definition target_rule :: "canonical_series \<Rightarrow> string \<Rightarrow> nat \<Rightarrow> nat \<Rightarrow> rat \<Rightarrow> json" where
  "target_rule c rating i j t =
     (if bullish rating then JBool (\<exists>k. i \<le> k \<and> k \<le> j \<and> t \<le> cn_high c ! k)
      else if bearish rating then JBool (\<exists>k. i \<le> k \<and> k \<le> j \<and> cn_low c ! k \<le> t) else JNull)"

lemma direction_correct_iff:
  "de_direction_correct (evaluate_rating_direction rating tr (round28 (tr - btr))) \<longleftrightarrow> direction_rule rating tr btr"
  by (simp add: evaluate_rating_direction_def direction_rule_def Let_def round28_sign)

lemma target_hit_iff:
  assumes "series_ok c" and "i \<le> j" and "j < length (cn_sessions c)"
  shows "opt_bool (target_hit rating (slice i j (cn_high c)) (slice i j (cn_low c)) t) = target_rule c rating i j t"
proof -
  have set: "set (slice i j (cn_low c)) = (\<lambda>k. cn_low c ! k) ` {i..j}" "set (slice i j (cn_high c)) = (\<lambda>k. cn_high c ! k) ` {i..j}"
    using assms by (simp_all add: slice_nth series_ok_def Let_def)
  have "t \<le> Max ((\<lambda>k. cn_high c ! k) ` {i..j}) \<longleftrightarrow> (\<exists>k. i \<le> k \<and> k \<le> j \<and> t \<le> cn_high c ! k)"
    using assms(2) by (subst Max_ge_iff) auto
  moreover have "Min ((\<lambda>k. cn_low c ! k) ` {i..j}) \<le> t \<longleftrightarrow> (\<exists>k. i \<le> k \<and> k \<le> j \<and> cn_low c ! k \<le> t)"
    using assms(2) by (subst Min_le_iff) auto
  ultimately show ?thesis by (simp add: target_hit_def target_rule_def opt_bool_def set)
qed

lemma reported_three_percent: "quantize10 tr = Inr q \<Longrightarrow> \<bar>tr\<bar> \<le> 3 / 100 \<Longrightarrow> \<bar>q\<bar> \<le> 3 / 100"
proof -
  assume q: "quantize10 tr = Inr q" and "\<bar>tr\<bar> \<le> 3 / 100"
  then have tr: "tr \<le> 3 / 100" "- (3 / 100) \<le> tr" by linarith+
  have e: "quantize10 (3 / 100) = Inr (3 / 100)" "quantize10 (- (3 / 100)) = Inr (- (3 / 100))"
    using round_half_even_of_int [of 300000000] round_half_even_of_int [of "- 300000000"]
    by (simp_all add: quantize10_def)
  show ?thesis using quantize10_mono [OF q e(1) tr(1)] quantize10_mono [OF e(2) q tr(2)] by linarith
qed

text \<open>
  C18. The verdict is the direction rule, exactly: with the total returns of the instrument and of
  the benchmark from the entry to the exit session, \<open>direction_correct\<close> is true if and only if the
  return is positive for Buy, negative for Sell, above the benchmark's for Overweight, below it for
  Underweight, and within three percent for anything else, in spite of the rounding of the alpha;
  the reported returns are these, quantised, and a verdict of correct never contradicts the sign of
  the reported number. The price target is reached if and only if a high (for a bullish rating) or a
  low (for a bearish one) of the window got to it; there is no such verdict for another rating, a
  missing target or a missing basis. For a series that came out of the normaliser.
\<close>

theorem outcome_verdict:
  assumes "validate_provider_series s = Inr s'" and "normalize_prices s = Inr c"
    and "calculate_outcome_v2 show c b sch rating target basis = Inr out"
  shows "\<exists>i j bi bj tr btr.
      session_index c (sch_entry_session sch) = Inr i \<and> session_index c (sch_exit_session sch) = Inr j \<and> i \<le> j
    \<and> session_index b (sch_entry_session sch) = Inr bi \<and> session_index b (sch_exit_session sch) = Inr bj
    \<and> tr = relative (cn_total_return_index c ! j) (cn_total_return_index c ! i)
    \<and> btr = relative (cn_total_return_index b ! bj) (cn_total_return_index b ! bi)
    \<and> quantize10 tr = Inr (o2_total_return out) \<and> quantize10 (round28 (tr - btr)) = Inr (o2_total_alpha out)
    \<and> dict_get ''direction_correct'' (o2_trigger_results out) = Some (JBool (direction_rule rating tr btr))
    \<and> (direction_rule rating tr btr \<longrightarrow>
          (rating = ''Buy'' \<longrightarrow> 0 \<le> o2_total_return out) \<and> (rating = ''Sell'' \<longrightarrow> o2_total_return out \<le> 0)
        \<and> (rating = ''Overweight'' \<longrightarrow> 0 \<le> o2_total_alpha out) \<and> (rating = ''Underweight'' \<longrightarrow> o2_total_alpha out \<le> 0)
        \<and> (\<not> bullish rating \<and> \<not> bearish rating \<longrightarrow> \<bar>o2_total_return out\<bar> \<le> 3 / 100))
    \<and> (case (target, basis) of
         (Some _, Some bs) \<Rightarrow> (\<exists>k t. session_index c (tb_reference_session bs) = Inr k
            \<and> t = round28 (tb_target_multiple bs * cn_close c ! k)
            \<and> dict_get ''rebased_price_target'' (o2_trigger_results out) = Some (JStr (show t))
            \<and> dict_get ''price_target_hit'' (o2_trigger_results out) = Some (target_rule c rating i j t))
       | _ \<Rightarrow> dict_get ''price_target_hit'' (o2_trigger_results out) = Some JNull)"
  using assms(3)
proof (cases rule: calculate_outcome_v2_cases)
  case (1 i j bi bj pr bpr tr btr status rebased hit q)
  have ok: "series_ok c" using normalize_prices_ok [OF assms(1,2)] by blast
  note q = quantize_outcome_facts [OF 1(7)]
  have tr: "tr = relative (cn_total_return_index c ! j) (cn_total_return_index c ! i)"
    and btr: "btr = relative (cn_total_return_index b ! bj) (cn_total_return_index b ! bi)"
    using 1(5,11) by (auto simp: return_between_def split: if_split_asm)
  have verdict: "dict_get ''direction_correct'' (o2_trigger_results out) = Some (JBool (direction_rule rating tr btr))"
    by (simp add: q(6) v2_trigger_results_def direction_correct_iff)
  have signs: "(rating = ''Buy'' \<longrightarrow> 0 \<le> o2_total_return out) \<and> (rating = ''Sell'' \<longrightarrow> o2_total_return out \<le> 0)
      \<and> (rating = ''Overweight'' \<longrightarrow> 0 \<le> o2_total_alpha out) \<and> (rating = ''Underweight'' \<longrightarrow> o2_total_alpha out \<le> 0)
      \<and> (\<not> bullish rating \<and> \<not> bearish rating \<longrightarrow> \<bar>o2_total_return out\<bar> \<le> 3 / 100)"
    if "direction_rule rating tr btr"
    using that reported_three_percent [OF q(2)] quantize10_nonneg [OF q(2)] quantize10_nonpos [OF q(2)]
      quantize10_nonneg [OF q(3)] quantize10_nonpos [OF q(3)] round28_sign [of "tr - btr"]
    by (auto simp: direction_rule_def bullish_def bearish_def split: if_split_asm)
  have none: "opt_bool None = JNull" by (simp add: opt_bool_def)
  have target: "case (target, basis) of
         (Some _, Some bs) \<Rightarrow> (\<exists>k t. session_index c (tb_reference_session bs) = Inr k
            \<and> t = round28 (tb_target_multiple bs * cn_close c ! k)
            \<and> dict_get ''rebased_price_target'' (o2_trigger_results out) = Some (JStr (show t))
            \<and> dict_get ''price_target_hit'' (o2_trigger_results out) = Some (target_rule c rating i j t))
       | _ \<Rightarrow> dict_get ''price_target_hit'' (o2_trigger_results out) = Some JNull"
    using 1(6) none
    by (auto simp: target_outcome_def Let_def q(6) v2_trigger_results_def opt_str_def
        target_hit_iff [OF ok 1(3) conjunct1 [OF session_index_facts [OF 1(2)]], symmetric]
        elim!: bind_resultE split: option.splits)
  show ?thesis
    using 1(1-3,8,9) tr btr q(2,3) verdict signs target by blast
qed

definition flat_series :: provider_series where
  "flat_series = \<lparr>pv_ticker = ''X'', pv_provider_symbol = ''X'', pv_provider_id = ''p'',
     pv_provider_adapter_version = ''v'', pv_request_fingerprint = ''f'', pv_currency = None,
     pv_timezone = None, pv_collected_at = 0,
     pv_ohlc_basis = SPLIT_NORMALIZED, pv_sessions = [10, 11], pv_open = [1, 1], pv_high = [1, 1],
     pv_low = [1, 1], pv_close = [1, 1], pv_adjusted_close = None, pv_cash_distributions = [0, 0],
     pv_split_coefficient = [1, 1]\<rparr>"

definition flat_schedule :: schedule where
  "flat_schedule = \<lparr>sch_calendar_code = ''24/7'', sch_entry_session = 10, sch_exit_session = 11,
     sch_matures_at = 0\<rparr>"

lemma round28_hundred: "round28 100 = 100"
proof (rule round28_fixed [of 2 _ "10 ^ 27"])
  have "(10::rat) powi 2 = 10 powi (27 + (2 - 27))" by (rule arg_cong [where f = "\<lambda>k. 10 powi k"]) simp
  also have "\<dots> = 10 powi 27 * 10 powi (2 - 27)" by (rule powi_add)
  finally have "(10::rat) powi 2 = 10 powi 27 * 10 powi (2 - 27)" .
  moreover have "(10::rat) powi 2 = 100" "(10::rat) powi 27 = of_int (10 ^ 27)"
    by (simp_all add: power_int_def)
  ultimately show "(100::rat) = of_int (10 ^ 27) * 10 powi (2 - 27)" by (simp only:)
qed (simp_all add: power_int_def)

lemma relative_same: "0 < p \<Longrightarrow> relative p p = 0"
  unfolding relative_ret by (rule dec28.ret_same)

lemma quantize10_zero: "quantize10 0 = Inr 0"
  by (simp add: quantize10_def round_half_even_of_int [of 0, simplified])

definition flat_canonical :: canonical_series where
  "flat_canonical = \<lparr>cn_ticker = ''X'', cn_provider_symbol = ''X'', cn_provider_id = ''p'',
     cn_provider_adapter_version = ''v'', cn_request_fingerprint = ''f'', cn_currency = None,
     cn_timezone = None, cn_collected_at = 0,
     cn_sessions = [10, 11], cn_open = [1, 1], cn_high = [1, 1], cn_low = [1, 1], cn_close = [1, 1],
     cn_cash_distributions = [0, 0], cn_price_index = [100, 100],
     cn_total_return_index = [100, 100], cn_quality = Not_available,
     cn_provider_total_return = None\<rparr>"

lemma flat_normalizes: "normalize_prices flat_series = Inr flat_canonical"
  by (simp add: normalize_prices_def flat_series_def flat_canonical_def Let_def adjust_def
      index_of_def numeral_2_eq_2 round28_hundred relative_same quality_status_def)

lemma flat_evaluates:
  "\<exists>out. calculate_outcome_v2 (\<lambda>_. []) flat_canonical flat_canonical flat_schedule ''Hold'' None None = Inr out
     \<and> dict_get ''direction_correct'' (o2_trigger_results out) = Some (JBool True)"
proof -
  have i: "session_index flat_canonical 10 = Inr 0" "session_index flat_canonical 11 = Inr 1"
    by (simp_all add: session_index_def flat_canonical_def)
  have r: "return_between (cn_close flat_canonical) 0 1 = Inr 0"
    "return_between (cn_total_return_index flat_canonical) 0 1 = Inr 0"
    by (simp_all add: return_between_def flat_canonical_def relative_same)
  have w: "slice 0 1 (cn_low flat_canonical) = [1, 1]" "slice 0 1 (cn_high flat_canonical) = [1, 1]"
    "cn_close flat_canonical ! 0 = 1"
    by (simp_all add: slice_def flat_canonical_def numeral_2_eq_2)
  have sch: "sch_entry_session flat_schedule = 10" "sch_exit_session flat_schedule = 11"
    by (simp_all add: flat_schedule_def)
  have d: "de_direction_correct (evaluate_rating_direction ''Hold'' 0 0)"
    by (simp add: evaluate_rating_direction_def)
  show ?thesis
    unfolding calculate_outcome_v2_def sch i bind_result_simps r Let_def w target_outcome_def
    by (simp add: quantize_outcome_def relative_same quantize10_zero v2_trigger_results_def d)
qed

theorem outcome_bounds_witness:
  "\<exists>out. calculate_outcome_v2 (\<lambda>_. []) flat_canonical flat_canonical flat_schedule ''Hold'' None None = Inr out
     \<and> o2_mae out \<le> o2_price_return out \<and> o2_price_return out \<le> o2_mfe out"
proof -
  have v: "validate_provider_series flat_series = Inr flat_series"
    by (simp add: validate_provider_series_def flat_series_def all_positive_def)
  obtain out where out: "calculate_outcome_v2 (\<lambda>_. []) flat_canonical flat_canonical flat_schedule ''Hold'' None None = Inr out"
    using flat_evaluates by blast
  from outcome_bounds [OF v flat_normalizes out] out show ?thesis by blast
qed

theorem outcome_verdict_witness:
  "\<exists>out. calculate_outcome_v2 (\<lambda>_. []) flat_canonical flat_canonical flat_schedule ''Hold'' None None = Inr out
     \<and> dict_get ''direction_correct'' (o2_trigger_results out) = Some (JBool True)
     \<and> dict_get ''price_target_hit'' (o2_trigger_results out) = Some JNull \<and> \<bar>o2_total_return out\<bar> \<le> 3 / 100"
proof -
  have v: "validate_provider_series flat_series = Inr flat_series"
    by (simp add: validate_provider_series_def flat_series_def all_positive_def)
  obtain out where out: "calculate_outcome_v2 (\<lambda>_. []) flat_canonical flat_canonical flat_schedule ''Hold'' None None = Inr out"
    and c: "dict_get ''direction_correct'' (o2_trigger_results out) = Some (JBool True)"
    using flat_evaluates by blast
  have "\<not> bullish ''Hold'' \<and> \<not> bearish ''Hold''" by (simp add: bullish_def bearish_def)
  with outcome_verdict [OF v flat_normalizes out] out c show ?thesis by auto
qed

end
