(* ===== verification/Artifacts.thy ===== *)
theory Artifacts
  imports Store
begin

text \<open>
  The artifact store on the local file system (\<open>artifacts/store.py\<close>,
  \<open>assessments/files.py\<close>): a content-addressed tree below a base directory. A path is the list
  of its components, the file system a map from paths to contents; there are no symbolic
  links below the base and disk operations do not fail. \<open>sha\<close> is the hexadecimal digest and
  \<open>uuid_str\<close> the text of a run's identifier.
\<close>

section \<open>Paths\<close>

type_synonym path = "string list"
type_synonym files = "path \<Rightarrow> string option"

record stored_artifact =
  sa_kind :: string
  sa_media_type :: string
  sa_size :: int
  sa_sha256 :: string
  sa_storage_key :: string
  sa_path :: path

definition is_alnum :: "char \<Rightarrow> bool" where
  "is_alnum c \<longleftrightarrow> is_upper_ascii c \<or> is_lower_ascii c \<or> is_digit c"

text \<open>\<open>^[A-Za-z0-9][A-Za-z0-9_-]{0,63}$\<close>\<close>

definition artifact_kind_ok :: "string \<Rightarrow> bool" where
  "artifact_kind_ok kind = (case kind of [] \<Rightarrow> False
     | c # cs \<Rightarrow> is_alnum c \<and> list_all (\<lambda>x. is_alnum x \<or> x = CHR ''_'' \<or> x = CHR ''-'') cs
         \<and> length cs \<le> 63)"

text \<open>\<open>Path.resolve()\<close> of an absolute path: \<open>.\<close> and empty components vanish, \<open>..\<close> goes up.\<close>

definition path_step :: "path \<Rightarrow> string \<Rightarrow> path" where
  "path_step acc c = (if c = [] \<or> c = ''.'' then acc
     else if c = ''..'' then butlast acc else acc @ [c])"

definition resolve_path :: "path \<Rightarrow> path" where
  "resolve_path cs = foldl path_step [] cs"

text \<open>\<open>root / key\<close>: an absolute key replaces the root.\<close>

definition join_path :: "path \<Rightarrow> string \<Rightarrow> path" where
  "join_path base key = (if starts_with ''/'' key then split_char CHR ''/'' key
     else base @ split_char CHR ''/'' key)"

definition relative_to :: "path \<Rightarrow> path \<Rightarrow> bool" where
  "relative_to base p \<longleftrightarrow> take (length base) p = base"

section \<open>Operations\<close>

definition artifact_resolve :: "path \<Rightarrow> string \<Rightarrow> path result" where
  "artifact_resolve base key =
     (let candidate = resolve_path (join_path base key)
      in if relative_to base candidate then Inr candidate
         else Inl (ValueError ''artifact key escapes storage root''))"

definition artifact_put ::
    "(string \<Rightarrow> string) \<Rightarrow> path \<Rightarrow> string \<Rightarrow> string \<Rightarrow> string \<Rightarrow> string \<Rightarrow> files
       \<Rightarrow> (files \<times> stored_artifact) result" where
  "artifact_put sha base run_text kind media_type content fs =
     (if \<not> artifact_kind_ok kind then Inl (ValueError (''invalid artifact kind: '' @ kind))
      else
        let dir = resolve_path (base @ split_char CHR ''/'' run_text @ [kind]) in
        if \<not> relative_to base dir
        then Inl (ValueError ''artifact destination escapes storage root'')
        else
          let digest = sha content; destination = dir @ [digest]
          in Inr (fs(destination \<mapsto> content),
               \<lparr>sa_kind = kind, sa_media_type = media_type, sa_size = int (length content),
                sa_sha256 = digest,
                sa_storage_key = join_with ''/'' (drop (length base) destination),
                sa_path = destination\<rparr>))"

definition artifact_verify :: "(string \<Rightarrow> string) \<Rightarrow> path \<Rightarrow> string \<Rightarrow> string \<Rightarrow> files \<Rightarrow> bool result" where
  "artifact_verify sha base key expected fs =
     bind_result (artifact_resolve base key) (\<lambda>p.
       Inr (case fs p of None \<Rightarrow> False | Some content \<Rightarrow> sha content = expected))"

text \<open>\<open>shutil.rmtree\<close> of the run's directory; the result tells whether there was one.\<close>

definition delete_run_directory :: "path \<Rightarrow> string \<Rightarrow> path list \<Rightarrow> files \<Rightarrow> files \<times> bool" where
  "delete_run_directory base run_text existing fs =
     (let candidate = base @ [run_text]
      in if list_ex (\<lambda>p. relative_to candidate p \<and> fs p \<noteq> None) existing
         then (\<lambda>p. if relative_to candidate p then None else fs p, True) else (fs, False))"

section \<open>Lemmas\<close>

text \<open>A component that is a plain name.\<close>

definition plain_name :: "string \<Rightarrow> bool" where
  "plain_name c \<longleftrightarrow> c \<noteq> [] \<and> c \<noteq> ''.'' \<and> c \<noteq> ''..'' \<and> CHR ''/'' \<notin> set c"

lemma path_step_plain: "plain_name c \<Longrightarrow> path_step acc c = acc @ [c]"
  by (simp add: path_step_def plain_name_def)

lemma foldl_path_step_plain: "list_all plain_name cs \<Longrightarrow> foldl path_step acc cs = acc @ cs"
  by (induction cs arbitrary: acc) (simp_all add: path_step_plain)

lemma resolve_path_plain: "list_all plain_name cs \<Longrightarrow> resolve_path cs = cs"
  by (simp add: resolve_path_def foldl_path_step_plain)

lemma split_char_single: "c \<notin> set s \<Longrightarrow> split_char c s = [s]"
  by (induction s) auto

lemma split_char_cons: "c \<notin> set s \<Longrightarrow> split_char c (s @ c # t) = s # split_char c t"
  by (induction s) auto

lemma split_join:
  assumes "list_all (\<lambda>w. c \<notin> set w) ws" and "ws \<noteq> []"
  shows "split_char c (join_with [c] ws) = ws"
  using assms
proof (induction ws)
  case (Cons w ws)
  then show ?case
    by (cases ws) (simp_all add: split_char_single split_char_cons)
qed simp

lemma kind_plain:
  assumes "artifact_kind_ok k"
  shows "plain_name k"
proof -
  from assms obtain c cs where k: "k = c # cs" and c: "is_alnum c"
    and cs: "list_all (\<lambda>x. is_alnum x \<or> x = CHR ''_'' \<or> x = CHR ''-'') cs"
    by (auto simp: artifact_kind_ok_def split: list.splits)
  have no: "\<not> is_alnum (CHR ''/'')" "\<not> is_alnum (CHR ''.'')"
    by (simp_all add: is_alnum_def is_upper_ascii_def is_lower_ascii_def is_digit_def)
  have "CHR ''/'' \<notin> set cs"
    using cs no by (auto simp: list_all_iff)
  with k c no show ?thesis by (auto simp: plain_name_def)
qed

lemma relative_to_append [simp]: "relative_to base (base @ p)"
  by (simp add: relative_to_def)

lemma relative_to_iff: "relative_to base p \<longleftrightarrow> (\<exists>q. p = base @ q)"
  unfolding relative_to_def by (metis append_eq_conv_conj append_take_drop_id)

lemma join_with_starts:
  assumes "list_all plain_name ws" and "ws \<noteq> []"
  shows "\<not> starts_with ''/'' (join_with ''/'' ws)"
proof -
  from assms(2) obtain w vs where ws: "ws = w # vs" by (cases ws) auto
  with assms(1) have w: "plain_name w" by simp
  then obtain c cs where "w = c # cs" and "c \<noteq> CHR ''/''"
    by (cases w) (auto simp: plain_name_def)
  with ws show ?thesis by (cases vs) (simp_all add: starts_with_def)
qed

lemma resolve_key:
  assumes "list_all plain_name base" and "list_all plain_name ws" and "ws \<noteq> []"
  shows "artifact_resolve base (join_with ''/'' ws) = Inr (base @ ws)"
proof -
  have "list_all (\<lambda>w. CHR ''/'' \<notin> set w) ws"
    using assms(2) by (auto simp: list_all_iff plain_name_def)
  then have "split_char CHR ''/'' (join_with ''/'' ws) = ws"
    using assms(3) by (rule split_join)
  then have "join_path base (join_with ''/'' ws) = base @ ws"
    using join_with_starts [OF assms(2,3)] by (simp add: join_path_def)
  moreover have "resolve_path (base @ ws) = base @ ws"
    using assms by (intro resolve_path_plain) simp
  ultimately show ?thesis by (simp add: artifact_resolve_def)
qed

text \<open>
  The contract of a content-addressed store: what was put can be read back under the key
  that was returned, and nothing else changes.
\<close>

locale content_store =
  fixes put :: "'k \<Rightarrow> 'c \<Rightarrow> 's \<Rightarrow> 's"
    and key_of :: "'k \<Rightarrow> 'c \<Rightarrow> 'a"
    and get :: "'a \<Rightarrow> 's \<Rightarrow> 'c option"
  assumes get_put: "get a (put k c s) = (if a = key_of k c then Some c else get a s)"
begin

lemma get_put_same: "get (key_of k c) (put k c s) = Some c"
  by (simp add: get_put)

lemma put_twice: "get a (put k c (put k c s)) = get a (put k c s)"
  by (simp add: get_put)

lemma put_commute:
  assumes "key_of k c \<noteq> key_of k' c'"
  shows "get a (put k c (put k' c' s)) = get a (put k' c' (put k c s))"
  using assms by (auto simp: get_put)

end

definition content_path :: "(string \<Rightarrow> string) \<Rightarrow> path \<Rightarrow> string \<times> string \<Rightarrow> string \<Rightarrow> path" where
  "content_path sha base k content = base @ [fst k, snd k, sha content]"

interpretation artifact_files:
    content_store "\<lambda>k c (fs::files). fs(content_path sha base k c \<mapsto> c)" "content_path sha base"
      "\<lambda>p fs. fs p" for sha base
  by unfold_locales simp

lemma artifact_put_eq:
  assumes "list_all plain_name base" and "plain_name rt" and "artifact_kind_ok kind"
  shows "artifact_put sha base rt kind media content fs =
     Inr (fs(content_path sha base (rt, kind) content \<mapsto> content),
       \<lparr>sa_kind = kind, sa_media_type = media, sa_size = int (length content),
        sa_sha256 = sha content, sa_storage_key = join_with ''/'' [rt, kind, sha content],
        sa_path = base @ [rt, kind, sha content]\<rparr>)"
proof -
  have "split_char CHR ''/'' rt = [rt]"
    using assms(2) by (simp add: plain_name_def split_char_single)
  moreover have "resolve_path (base @ [rt, kind]) = base @ [rt, kind]"
    using assms kind_plain by (intro resolve_path_plain) simp
  ultimately show ?thesis
    using assms(3) by (simp add: artifact_put_def content_path_def Let_def)
qed

section \<open>Properties\<close>

text \<open>
  C34. Round trip of the artifact store: under a plain root directory, a stored content is
  verified under the key and the digest the store returned, its recorded path is the one the
  key resolves to, every other path keeps its file, and storing other content later under
  any key leaves it in place unless it has the same digest.
\<close>

theorem artifact_roundtrip:
  assumes "list_all plain_name base" and "plain_name rt" and "artifact_kind_ok kind"
    and "\<And>c. plain_name (sha c)"
  shows "\<exists>fs' s. artifact_put sha base rt kind media content fs = Inr (fs', s)
     \<and> artifact_resolve base (sa_storage_key s) = Inr (sa_path s)
     \<and> fs' (sa_path s) = Some content
     \<and> artifact_verify sha base (sa_storage_key s) (sa_sha256 s) fs' = Inr True
     \<and> (\<forall>p. p = sa_path s \<or> fs' p = fs p)
     \<and> (\<forall>rt2 kind2 media2 content2 fs2 s2.
          artifact_put sha base rt2 kind2 media2 content2 fs' \<noteq> Inr (fs2, s2)
          \<or> sa_path s2 = sa_path s \<or> fs2 (sa_path s) = Some content)"
proof -
  let ?p = "base @ [rt, kind, sha content]"
  let ?fs = "fs(?p \<mapsto> content)"
  let ?s = "\<lparr>sa_kind = kind, sa_media_type = media, sa_size = int (length content),
        sa_sha256 = sha content, sa_storage_key = join_with ''/'' [rt, kind, sha content],
        sa_path = ?p\<rparr>"
  have put: "artifact_put sha base rt kind media content fs = Inr (?fs, ?s)"
    using artifact_put_eq [OF assms(1,2,3)] by (simp add: content_path_def)
  have res: "artifact_resolve base (join_with ''/'' [rt, kind, sha content]) = Inr ?p"
    using assms kind_plain by (intro resolve_key) simp_all
  have later: "sa_path s2 = ?p \<or> fs2 ?p = Some content"
    if "artifact_put sha base rt2 kind2 media2 content2 ?fs = Inr (fs2, s2)" for rt2 kind2 media2 content2 fs2 s2
    using that by (auto simp: artifact_put_def Let_def split: if_split_asm)
  show ?thesis
    using put res later by (intro exI [of _ ?fs] exI [of _ ?s]) (auto simp: artifact_verify_def)
qed

lemma artifact_roundtrip_witness:
  "\<exists>fs' s. artifact_put (\<lambda>_. ''ab'') [''srv''] ''r1'' ''report_md'' ''text/plain'' ''hello'' Map.empty = Inr (fs', s)
     \<and> artifact_resolve [''srv''] (sa_storage_key s) = Inr (sa_path s)
     \<and> fs' (sa_path s) = Some ''hello''
     \<and> artifact_verify (\<lambda>_. ''ab'') [''srv''] (sa_storage_key s) (sa_sha256 s) fs' = Inr True"
proof -
  have "list_all plain_name [''srv'']" "plain_name ''r1''" "plain_name ''ab''"
    "artifact_kind_ok ''report_md''"
    by code_simp+
  then show ?thesis
    using artifact_roundtrip [of "[''srv'']" "''r1''" "''report_md''" "\<lambda>_. ''ab''" "''text/plain''" "''hello''" Map.empty]
    by blast
qed

lemma split_char_free: "x \<in> set (split_char c s) \<Longrightarrow> c \<notin> set x"
  by (induction c s arbitrary: x rule: split_char.induct) (auto split: list.splits if_split_asm)

text \<open>A resolved path has no empty, no dot and no dot-dot component left.\<close>

lemma path_step_plain_list:
  "list_all plain_name acc \<Longrightarrow> CHR ''/'' \<notin> set c \<Longrightarrow> list_all plain_name (path_step acc c)"
  by (auto simp: path_step_def plain_name_def list_all_iff dest: in_set_butlastD)

lemma resolve_path_normal:
  assumes "\<forall>c\<in>set cs. CHR ''/'' \<notin> set c" shows "list_all plain_name (resolve_path cs)"
proof -
  have "list_all plain_name (foldl path_step acc cs)" if "list_all plain_name acc" for acc
    using that assms by (induction cs arbitrary: acc) (simp_all add: path_step_plain_list)
  then show ?thesis by (simp add: resolve_path_def)
qed

lemma plain_no_slash: "list_all plain_name base \<Longrightarrow> c \<in> set base \<Longrightarrow> CHR ''/'' \<notin> set c"
  by (auto simp: list_all_iff plain_name_def)

definition below :: "path \<Rightarrow> path \<Rightarrow> bool" where
  "below base p \<longleftrightarrow> (\<exists>q. p = base @ q \<and> list_all plain_name q)"

lemma resolved_below:
  assumes "list_all plain_name base" and "\<forall>c\<in>set cs. CHR ''/'' \<notin> set c" and "relative_to base (resolve_path cs)"
  shows "below base (resolve_path cs)"
  using resolve_path_normal [OF assms(2)] assms(3) by (auto simp: below_def relative_to_iff)

lemma artifact_resolve_below:
  assumes "list_all plain_name base" and "artifact_resolve base key = Inr p" shows "below base p"
proof -
  have p: "p = resolve_path (join_path base key)" and rel: "relative_to base p"
    using assms(2) by (auto simp: artifact_resolve_def Let_def split: if_split_asm)
  have "\<forall>c\<in>set (join_path base key). CHR ''/'' \<notin> set c"
    using plain_no_slash [OF assms(1)] split_char_free by (auto simp: join_path_def split: if_split_asm)
  then show ?thesis using resolved_below [OF assms(1)] p rel by simp
qed

lemma artifact_put_below:
  assumes "list_all plain_name base" and "\<And>c. plain_name (sha c)" and "artifact_put sha base rt kind media content fs = Inr (fs', s)"
  shows "below base (sa_path s) \<and> fs' = fs(sa_path s \<mapsto> content)"
proof -
  let ?dir = "resolve_path (base @ split_char CHR ''/'' rt @ [kind])"
  have kind: "artifact_kind_ok kind" and rel: "relative_to base ?dir" and s: "sa_path s = ?dir @ [sha content]"
    and fs: "fs' = fs(sa_path s \<mapsto> content)"
    using assms(3) by (auto simp: artifact_put_def Let_def split: if_split_asm)
  have "CHR ''/'' \<notin> set kind" using kind_plain [OF kind] by (simp add: plain_name_def)
  then have "\<forall>c\<in>set (base @ split_char CHR ''/'' rt @ [kind]). CHR ''/'' \<notin> set c"
    using plain_no_slash [OF assms(1)] split_char_free by auto
  from resolved_below [OF assms(1) this rel] show ?thesis using assms(2) by (auto simp: below_def s fs)
qed

text \<open>A key that leaves the root and does not come back into it is refused.\<close>

lemma climbing_refused:
  assumes "list_all plain_name base" and "base \<noteq> []" and "list_all plain_name ws" and "ws \<noteq> []" and "hd ws \<noteq> last base"
  shows "artifact_resolve base (''../'' @ join_with ''/'' ws) = Inl (ValueError ''artifact key escapes storage root'')"
proof -
  have ws: "split_char CHR ''/'' (join_with ''/'' ws) = ws"
    using assms(3,4) by (intro split_join) (auto simp: list_all_iff plain_name_def)
  have split: "split_char CHR ''/'' (''../'' @ join_with ''/'' ws) = ''..'' # ws"
    using split_char_cons [of "CHR ''/''" "''..''" "join_with ''/'' ws"] ws by simp
  have "foldl path_step [] base = base" using foldl_path_step_plain [OF assms(1), of "[]"] by simp
  then have "resolve_path (base @ ''..'' # ws) = butlast base @ ws"
    using foldl_path_step_plain [OF assms(3)] by (simp add: resolve_path_def path_step_def)
  moreover have "\<not> relative_to base (butlast base @ ws)"
  proof
    assume "relative_to base (butlast base @ ws)"
    then obtain q where "butlast base @ ws = (butlast base @ [last base]) @ q"
      using assms(2) by (auto simp: relative_to_iff)
    then show False using assms(5) by auto
  qed
  moreover have "\<not> starts_with ''/'' (''../'' @ join_with ''/'' ws)" by (simp add: starts_with_def)
  then have "join_path base (''../'' @ join_with ''/'' ws) = base @ ''..'' # ws" by (simp only: join_path_def split if_False)
  ultimately show ?thesis unfolding artifact_resolve_def by (simp only: Let_def if_False)
qed

text \<open>
  C35. No key reaches outside the root: under a plain root, whatever text is given as a storage key,
  run name or kind, the path the store resolves or writes is the root followed by plain names, none
  of them empty, a dot or a dot-dot, writing changes that one file only, and a key that climbs out of
  the root is refused. The digest is a plain name.
\<close>

theorem artifact_confinement:
  assumes "list_all plain_name base" and "\<And>c. plain_name (sha c)"
  shows "(\<forall>key p. artifact_resolve base key = Inr p \<longrightarrow> (\<exists>q. p = base @ q \<and> list_all plain_name q))
    \<and> (\<forall>rt kind media content fs fs' s. artifact_put sha base rt kind media content fs = Inr (fs', s) \<longrightarrow>
          (\<exists>q. sa_path s = base @ q \<and> list_all plain_name q) \<and> fs' = fs(sa_path s \<mapsto> content))
    \<and> (\<forall>ws. base \<noteq> [] \<and> list_all plain_name ws \<and> ws \<noteq> [] \<and> hd ws \<noteq> last base \<longrightarrow>
          artifact_resolve base (''../'' @ join_with ''/'' ws) = Inl (ValueError ''artifact key escapes storage root''))"
  using artifact_resolve_below [OF assms(1)] artifact_put_below [OF assms(1), of sha, OF assms(2)]
    climbing_refused [OF assms(1)]
  unfolding below_def by (intro conjI allI impI) blast+

lemma artifact_confinement_witness:
  "artifact_resolve [''srv''] ''../etc/passwd'' = Inl (ValueError ''artifact key escapes storage root'')
   \<and> (\<exists>p. artifact_resolve [''srv''] ''r1/../x'' = Inr p \<and> (\<exists>q. p = [''srv''] @ q \<and> list_all plain_name q))"
proof -
  have plain: "list_all plain_name [''srv'']" "list_all plain_name [''etc'', ''passwd'']" "plain_name ''ab''"
    "hd [''etc'', ''passwd''] \<noteq> last [''srv'']" by code_simp+
  note conf = artifact_confinement [OF plain(1), of "\<lambda>_. ''ab''", OF plain(3)]
  have "artifact_resolve [''srv''] (''../'' @ join_with ''/'' [''etc'', ''passwd'']) = Inl (ValueError ''artifact key escapes storage root'')"
    using conf plain(2,4) by blast
  moreover have "(case artifact_resolve [''srv''] ''r1/../x'' of Inr _ \<Rightarrow> True | Inl _ \<Rightarrow> False)" by code_simp
  then obtain p where "artifact_resolve [''srv''] ''r1/../x'' = Inr p" by (auto split: sum.splits)
  ultimately show ?thesis using conf by auto
qed

end
