(* ===== verification/ValidationJobs.thy ===== *)
theory ValidationJobs
  imports Prices Artifacts Access "HOL-Library.Product_Lexorder"
begin

text \<open>
  Scheduling, claiming and settling of outcome validations (\<open>validation/repository.py\<close>,
  \<open>validation/service.py\<close>, \<open>validation/worker.py\<close>). The price providers are functions of the
  number of the call, the ticker and the two dates; \<open>locked\<close> are the rows another transaction
  holds. A worker's pass is three transactions (claim, complete, settle); between them other
  transactions may run, so each is an operation of its own.
\<close>

section \<open>Parameters\<close>

text \<open>
  The environment of the validation jobs: the text of identifiers and decimals, the digest,
  pydantic's \<open>model_dump(mode="json")\<close> of the three series classes and \<open>datetime.isoformat\<close>.
\<close>

record job_env =
  je_uuid :: "nat \<Rightarrow> string"
  je_show :: "rat \<Rightarrow> string"
  je_sha :: "string \<Rightarrow> string"
  je_root :: path
  je_series :: "price_series \<Rightarrow> dict"
  je_provider :: "provider_series \<Rightarrow> dict"
  je_canonical :: "canonical_series \<Rightarrow> dict"
  je_iso :: "int \<Rightarrow> string"

type_synonym 'a history = "nat \<Rightarrow> string \<Rightarrow> int \<Rightarrow> int \<Rightarrow> 'a result"

definition RETRY_MINUTES :: "int list" where
  "RETRY_MINUTES = [5, 10, 20, 30]"

definition LEASE_DURATION :: int where
  "LEASE_DURATION = 5 * MINUTE"

text \<open>\<open>_RETRY_MINUTES[min(max(attempts - 1, 0), len(_RETRY_MINUTES) - 1)]\<close>\<close>

definition retry_delay :: "int \<Rightarrow> int" where
  "retry_delay attempts =
     RETRY_MINUTES ! nat (min (max (attempts - 1) 0) (int (length RETRY_MINUTES) - 1)) * MINUTE"

section \<open>Scheduling\<close>

definition HORIZONS :: "int list" where
  "HORIZONS = [1, 5, 20]"

definition service_horizons :: "int list option \<Rightarrow> int list result" where
  "service_horizons horizons =
     (let given = (case horizons of None \<Rightarrow> HORIZONS | Some hs \<Rightarrow> if hs = [] then HORIZONS else hs);
          resolved = sort (dedup given)
      in if resolved = [] \<or> list_ex (\<lambda>h. h \<notin> set HORIZONS) resolved
         then Inl (ValueError ''horizons must contain only 1, 5, or 20'') else Inr resolved)"

definition SYSTEM_VALIDATION_PRINCIPAL :: principal where
  "SYSTEM_VALIDATION_PRINCIPAL = \<lparr>pr_issuer = ''tradingng-system'', pr_subject = ''validation-scheduler'',
     pr_actor_type = ''service'', pr_scopes = [''validations:read'', ''validations:write''],
     pr_display_name = ''Validation Scheduler'', pr_email = None, pr_roles = []\<rparr>"

definition new_validation :: "nat \<Rightarrow> nat \<Rightarrow> int \<Rightarrow> int \<Rightarrow> string \<Rightarrow> schedule option \<Rightarrow> validation" where
  "new_validation i rid horizon due version sch =
     \<lparr>val_id = i, val_run = rid, val_horizon = horizon, val_status = ''scheduled'',
      val_scheduled_for = due, val_observed_at = None, val_raw_return = None,
      val_benchmark_return = None, val_alpha = None, val_mae = None, val_mfe = None,
      val_trigger_results = [], val_data_artifact = None, val_attempts = 0,
      val_next_attempt_at = None, val_error_code = None, val_calculation_version = version,
      val_calendar_code = map_option sch_calendar_code sch,
      val_entry_session = map_option sch_entry_session sch,
      val_exit_session = map_option sch_exit_session sch,
      val_matures_at = map_option sch_matures_at sch, val_claimed_at = None,
      val_lease_expires_at = None, val_worker_instance = None, val_price_return = None,
      val_benchmark_price_return = None, val_price_alpha = None, val_total_return = None,
      val_benchmark_total_return = None, val_total_alpha = None, val_normalization_version = None,
      val_provider_adapter_version = None, val_provider_id = None\<rparr>"

text \<open>The two \<open>INSERT \<dots> ON CONFLICT DO NOTHING\<close> statements.\<close>

definition insert_basis :: "int \<Rightarrow> nat \<Rightarrow> rat \<Rightarrow> db \<Rightarrow> db" where
  "insert_basis now rid target d =
     (if list_ex (\<lambda>b. pb_run b = rid) (db_bases d) then drawn d
      else (drawn d)\<lparr>db_bases := db_bases d @
        [\<lparr>pb_id = uuid4 d, pb_run = rid, pb_status = ''pending'', pb_target_price = target,
          pb_reference_session = None, pb_reference_close = None, pb_target_multiple = None,
          pb_currency = None, pb_provider_id = None, pb_provider_adapter_version = None,
          pb_normalization_version = None, pb_collected_at = None, pb_attempts = 0,
          pb_next_attempt_at = None, pb_error_code = None, pb_claimed_at = None,
          pb_lease_expires_at = None, pb_worker_instance = None, pb_created_at = now\<rparr>]\<rparr>)"

definition insert_validation :: "nat \<Rightarrow> int \<Rightarrow> int \<Rightarrow> string \<Rightarrow> schedule option \<Rightarrow> db \<Rightarrow> db" where
  "insert_validation rid horizon due version sch d =
     (if list_ex (\<lambda>v. val_run v = rid \<and> val_horizon v = horizon) (db_validations d) then drawn d
      else (drawn d)\<lparr>db_validations := db_validations d @
        [new_validation (uuid4 d) rid horizon due version sch]\<rparr>)"

text \<open>The run with its request, instrument and decision.\<close>

definition decided_rows :: "nat \<Rightarrow> db \<Rightarrow> (run \<times> request \<times> instrument \<times> decision) list" where
  "decided_rows rid d = [(r, q, i, c). r \<leftarrow> db_runs d, run_id r = rid, q \<leftarrow> db_requests d,
     req_id q = run_request r, i \<leftarrow> db_instruments d, ins_id i = req_instrument q,
     c \<leftarrow> db_decisions d, dec_run c = run_id r]"

definition due_time ::
    "exchange_calendar \<Rightarrow> string \<Rightarrow> instrument \<Rightarrow> int \<Rightarrow> int \<Rightarrow> (int \<times> schedule option) result" where
  "due_time xnys version i analysis_date horizon =
     (if version = ''validation.v2'' then
        bind_result (calendar_schedule xnys (ins_asset_type i) (ins_exchange i) analysis_date horizon)
          (\<lambda>s. Inr (sch_matures_at s, Some s))
      else Inr (midnight (analysis_date + horizon), None))"

fun insert_horizons ::
    "exchange_calendar \<Rightarrow> string \<Rightarrow> nat \<Rightarrow> instrument \<Rightarrow> int \<Rightarrow> int list \<Rightarrow> db \<Rightarrow> db result" where
  "insert_horizons xnys version rid i analysis_date [] d = Inr d"
| "insert_horizons xnys version rid i analysis_date (h # hs) d =
     bind_result (due_time xnys version i analysis_date h) (\<lambda>(due, sch).
       insert_horizons xnys version rid i analysis_date hs
         (insert_validation rid h due (if version = ''validation.v2'' then version else ''validation.v1'') sch d))"

definition run_validations :: "nat \<Rightarrow> db \<Rightarrow> validation list" where
  "run_validations rid d = sort_key val_horizon (filter (\<lambda>v. val_run v = rid) (db_validations d))"

definition schedule_validations ::
    "(nat \<Rightarrow> string) \<Rightarrow> exchange_calendar \<Rightarrow> int \<Rightarrow> string \<Rightarrow> nat \<Rightarrow> int list \<Rightarrow> principal \<Rightarrow> string
       \<Rightarrow> validation list tx" where
  "schedule_validations uuid_str xnys now version rid horizons pr request_id d =
     (case decided_rows rid d of
        [] \<Rightarrow> Inl (ValueError ''assessment run was not found'')
      | (r, q, i, c) # _ \<Rightarrow>
          if run_status r \<noteq> SUCCEEDED then Inl (ValueError ''only a successful run can be validated'')
          else
            let d1 = (case dec_price_target c of
                  Some t \<Rightarrow> if version = ''validation.v2'' then insert_basis now rid t d else d
                | None \<Rightarrow> d)
            in bind_result (insert_horizons xnys version rid i (req_analysis_date q) horizons d1) (\<lambda>d2.
               let d3 = append_audit pr ''validation.schedule'' ''assessment_run'' (uuid_str rid)
                     request_id [(''horizons'', JList (map JInt horizons))] d2
               in Inr (d3, filter (\<lambda>v. val_horizon v \<in> set horizons) (run_validations rid d3))))"

definition service_schedule ::
    "(nat \<Rightarrow> string) \<Rightarrow> exchange_calendar \<Rightarrow> int \<Rightarrow> principal \<Rightarrow> nat \<Rightarrow> int list option \<Rightarrow> string
       \<Rightarrow> validation list tx" where
  "service_schedule uuid_str xnys now pr rid horizons request_id d =
     bind_result (principal_require [''validations:write''] pr) (\<lambda>_.
     bind_result (service_horizons horizons) (\<lambda>hs.
       schedule_validations uuid_str xnys now ''validation.v2'' rid hs pr request_id d))"

text \<open>
  The two listings. A view fills the total-return fields of an older row from its legacy
  columns.
\<close>

definition validation_view :: "validation \<Rightarrow> validation" where
  "validation_view v = v\<lparr>
     val_total_return := (case val_total_return v of None \<Rightarrow> val_raw_return v | x \<Rightarrow> x),
     val_benchmark_total_return :=
       (case val_benchmark_total_return v of None \<Rightarrow> val_benchmark_return v | x \<Rightarrow> x),
     val_total_alpha := (case val_total_alpha v of None \<Rightarrow> val_alpha v | x \<Rightarrow> x)\<rparr>"

definition list_for_run :: "principal \<Rightarrow> nat \<Rightarrow> db \<Rightarrow> validation list result" where
  "list_for_run pr rid d = bind_result (principal_require [''validations:read''] pr)
     (\<lambda>_. Inr (map validation_view (run_validations rid d)))"

definition list_validations :: "principal \<Rightarrow> string option \<Rightarrow> int \<Rightarrow> db \<Rightarrow> validation list result" where
  "list_validations pr status limit d =
     bind_result (principal_require [''validations:read''] pr) (\<lambda>_.
     bind_result (require (1 \<le> limit \<and> limit \<le> 200)
       (ValueError ''validation limit must be between 1 and 200'')) (\<lambda>_.
     Inr (map validation_view (take (nat limit)
       (sort_key (\<lambda>v. (- val_scheduled_for v, - int (val_id v)))
         (filter (\<lambda>v. case status of None \<Rightarrow> True | Some s \<Rightarrow> val_status v = s) (db_validations d)))))))"

section \<open>The manual retry\<close>

definition update_validation :: "nat \<Rightarrow> (validation \<Rightarrow> validation) \<Rightarrow> db \<Rightarrow> db" where
  "update_validation i f d = d\<lparr>db_validations := update_row val_id i f (db_validations d)\<rparr>"

definition find_validation :: "nat \<Rightarrow> db \<Rightarrow> validation option" where
  "find_validation i d = find_row val_id i (db_validations d)"

text \<open>The three lease columns are cleared together.\<close>

definition unleased :: "validation \<Rightarrow> validation" where
  "unleased v = v\<lparr>val_claimed_at := None, val_lease_expires_at := None, val_worker_instance := None\<rparr>"

definition lease_over :: "int \<Rightarrow> int option \<Rightarrow> bool" where
  "lease_over now expires = (case expires of None \<Rightarrow> True | Some t \<Rightarrow> t \<le> now)"

definition retry_validation ::
    "(nat \<Rightarrow> string) \<Rightarrow> int \<Rightarrow> nat \<Rightarrow> principal \<Rightarrow> string \<Rightarrow> validation tx" where
  "retry_validation uuid_str now i pr request_id d =
     bind_result (principal_require [''validations:write''] pr) (\<lambda>_.
     bind_result (of_option (ValueError ''validation was not found'') (find_validation i d)) (\<lambda>v.
     bind_result (require (val_status v \<in> {''failed'', ''unavailable''}
         \<or> (val_status v = ''running'' \<and> lease_over now (val_lease_expires_at v)))
       (ValueError ''validation is not eligible for retry'')) (\<lambda>_.
     let f = (\<lambda>x. (unleased x)\<lparr>val_status := ''scheduled'', val_scheduled_for := now,
           val_next_attempt_at := None, val_error_code := None\<rparr>);
         d1 = append_event now (val_run v) ''validation.retry_requested''
           [(''validation_id'', JStr (uuid_str i)), (''horizon'', JInt (val_horizon v))]
           (update_validation i f d);
         d2 = append_audit pr ''validation.retry'' ''validation'' (uuid_str i) request_id
           [(''horizon'', JInt (val_horizon v)), (''attempts'', JInt (val_attempts v))] d1
     in Inr (d2, validation_view (f v)))))"

section \<open>Recomputing the directions\<close>

definition direction_keys :: "string \<Rightarrow> direction_evaluation \<Rightarrow> dict" where
  "direction_keys rating e = [(''rating'', JStr rating), (''direction'', JStr (de_direction e)),
     (''direction_correct'', JBool (de_direction_correct e)),
     (''direction_basis'', JStr (de_direction_basis e)),
     (''direction_rule_version'', JStr DIRECTION_RULE_VERSION)]"

text \<open>\<open>updated == previous\<close> compares dictionaries, so the order of the keys does not count.\<close>

definition same_dict :: "dict \<Rightarrow> dict \<Rightarrow> bool" where
  "same_dict a b \<longleftrightarrow>
     list_all (\<lambda>k. dict_get k a = dict_get k b) (map fst a @ map fst b)"

definition recompute_one ::
    "(nat \<Rightarrow> string) \<Rightarrow> int \<Rightarrow> principal \<Rightarrow> string \<Rightarrow> validation \<times> decision \<Rightarrow> db \<times> nat \<Rightarrow> db \<times> nat" where
  "recompute_one uuid_str now pr request_id vc dn =
     (case (vc, dn) of ((v, c), (d, changed)) \<Rightarrow>
       (case (val_total_return v, val_total_alpha v) of
          (Some tr, Some ta) \<Rightarrow>
            (let e = evaluate_rating_direction (dec_rating c) tr ta;
                 previous = val_trigger_results v;
                 updated = dict_update previous (direction_keys (dec_rating c) e);
                 metadata = [(''validation_id'', JStr (uuid_str (val_id v))),
                   (''horizon'', JInt (val_horizon v)),
                   (''previous_direction_correct'',
                      case dict_get ''direction_correct'' previous of None \<Rightarrow> JNull | Some j \<Rightarrow> j),
                   (''direction_correct'', JBool (de_direction_correct e)),
                   (''direction_basis'', JStr (de_direction_basis e)),
                   (''direction_rule_version'', JStr DIRECTION_RULE_VERSION)]
             in if same_dict updated previous then (d, changed)
                else (append_audit pr ''validation.direction_recompute'' ''validation''
                        (uuid_str (val_id v)) request_id metadata
                        (append_event now (val_run v) ''validation.direction_recomputed'' metadata
                          (update_validation (val_id v) (\<lambda>x. x\<lparr>val_trigger_results := updated\<rparr>) d)),
                      Suc changed))
        | _ \<Rightarrow> (d, changed)))"

definition recompute_rows :: "nat list \<Rightarrow> db \<Rightarrow> (validation \<times> decision) list" where
  "recompute_rows rids d = sort_key (\<lambda>(v, c). (val_run v, val_horizon v))
     [(v, c). v \<leftarrow> db_validations d, val_run v \<in> set rids, val_status v = ''completed'',
        val_calculation_version v = ''validation.v2'', val_total_return v \<noteq> None,
        val_total_alpha v \<noteq> None, c \<leftarrow> db_decisions d, dec_run c = val_run v]"

definition recompute_directions ::
    "(nat \<Rightarrow> string) \<Rightarrow> int \<Rightarrow> nat list \<Rightarrow> principal \<Rightarrow> string \<Rightarrow> db \<Rightarrow> db \<times> nat" where
  "recompute_directions uuid_str now rids pr request_id d =
     (if rids = [] then (d, 0)
      else fold (recompute_one uuid_str now pr request_id) (recompute_rows rids d) (d, 0))"

section \<open>Claims\<close>

record claimed_validation =
  cv_id :: nat
  cv_run :: nat
  cv_ticker :: string
  cv_benchmark :: string
  cv_analysis_date :: int
  cv_horizon :: int
  cv_rating :: string
  cv_price_target :: "rat option"
  cv_version :: string
  cv_calendar_code :: "string option"
  cv_entry_session :: "int option"
  cv_exit_session :: "int option"
  cv_matures_at :: "int option"
  cv_target_basis :: "target_basis option"

record claimed_basis =
  cb_id :: nat
  cb_run :: nat
  cb_ticker :: string
  cb_analysis_date :: int
  cb_target_price :: rat

definition update_basis :: "nat \<Rightarrow> (price_basis \<Rightarrow> price_basis) \<Rightarrow> db \<Rightarrow> db" where
  "update_basis i f d = d\<lparr>db_bases := update_row pb_id i f (db_bases d)\<rparr>"

definition find_basis :: "nat \<Rightarrow> db \<Rightarrow> price_basis option" where
  "find_basis i d = find_row pb_id i (db_bases d)"

definition unleased_basis :: "price_basis \<Rightarrow> price_basis" where
  "unleased_basis b = b\<lparr>pb_claimed_at := None, pb_lease_expires_at := None, pb_worker_instance := None\<rparr>"

text \<open>Recovery of expired leases, one row at a time with its event.\<close>

definition recover_validation :: "(nat \<Rightarrow> string) \<Rightarrow> int \<Rightarrow> validation \<Rightarrow> db \<Rightarrow> db" where
  "recover_validation uuid_str now v d =
     append_event now (val_run v) ''validation.recovered''
       [(''validation_id'', JStr (uuid_str (val_id v))), (''horizon'', JInt (val_horizon v))]
       (update_validation (val_id v) (\<lambda>x. (unleased x)\<lparr>val_status := ''scheduled'',
          val_next_attempt_at := None, val_error_code := Some ''lease_expired''\<rparr>) d)"

definition expired_validations :: "nat set \<Rightarrow> int \<Rightarrow> db \<Rightarrow> validation list" where
  "expired_validations locked now d = filter (\<lambda>v. val_status v = ''running''
     \<and> lease_over now (val_lease_expires_at v) \<and> val_id v \<notin> locked) (db_validations d)"

definition recover_validations :: "(nat \<Rightarrow> string) \<Rightarrow> nat set \<Rightarrow> int \<Rightarrow> db \<Rightarrow> db" where
  "recover_validations uuid_str locked now d =
     fold (recover_validation uuid_str now) (expired_validations locked now d) d"

definition recover_basis :: "(nat \<Rightarrow> string) \<Rightarrow> int \<Rightarrow> price_basis \<Rightarrow> db \<Rightarrow> db" where
  "recover_basis uuid_str now b d =
     append_event now (pb_run b) ''validation.price_basis_recovered''
       [(''price_basis_id'', JStr (uuid_str (pb_id b)))]
       (update_basis (pb_id b) (\<lambda>x. (unleased_basis x)\<lparr>pb_status := ''pending'',
          pb_next_attempt_at := None, pb_error_code := Some ''lease_expired''\<rparr>) d)"

definition expired_bases :: "nat set \<Rightarrow> int \<Rightarrow> db \<Rightarrow> price_basis list" where
  "expired_bases locked now d = filter (\<lambda>b. pb_status b = ''running''
     \<and> lease_over now (pb_lease_expires_at b) \<and> pb_id b \<notin> locked) (db_bases d)"

definition recover_bases :: "(nat \<Rightarrow> string) \<Rightarrow> nat set \<Rightarrow> int \<Rightarrow> db \<Rightarrow> db" where
  "recover_bases uuid_str locked now d =
     fold (recover_basis uuid_str now) (expired_bases locked now d) d"

definition after_wait :: "int \<Rightarrow> int option \<Rightarrow> bool" where
  "after_wait now next_attempt = (case next_attempt of None \<Rightarrow> False | Some t \<Rightarrow> t \<le> now)"

definition basis_due :: "int \<Rightarrow> price_basis \<Rightarrow> bool" where
  "basis_due now b \<longleftrightarrow> pb_status b = ''pending''
     \<or> (pb_status b = ''retry_wait'' \<and> after_wait now (pb_next_attempt_at b))"

definition basis_rows :: "nat set \<Rightarrow> int \<Rightarrow> db \<Rightarrow> (price_basis \<times> request \<times> instrument) list" where
  "basis_rows locked now d = sort_key (\<lambda>(b, q, i). (pb_created_at b, pb_id b))
     [(b, q, i). b \<leftarrow> db_bases d, basis_due now b, pb_id b \<notin> locked, r \<leftarrow> db_runs d,
        run_id r = pb_run b, q \<leftarrow> db_requests d, req_id q = run_request r,
        i \<leftarrow> db_instruments d, ins_id i = req_instrument q]"

definition claim_basis ::
    "(nat \<Rightarrow> string) \<Rightarrow> string \<Rightarrow> nat set \<Rightarrow> int \<Rightarrow> db \<Rightarrow> db \<times> claimed_basis option" where
  "claim_basis uuid_str worker locked now d =
     (let d1 = recover_bases uuid_str locked now d in
      case basis_rows locked now d1 of
        [] \<Rightarrow> (d1, None)
      | (b, q, i) # _ \<Rightarrow>
          (update_basis (pb_id b) (\<lambda>x. x\<lparr>pb_status := ''running'', pb_attempts := pb_attempts x + 1,
             pb_next_attempt_at := None, pb_claimed_at := Some now,
             pb_lease_expires_at := Some (now + LEASE_DURATION),
             pb_worker_instance := Some worker\<rparr>) d1,
           Some \<lparr>cb_id = pb_id b, cb_run = pb_run b, cb_ticker = ins_ticker i,
             cb_analysis_date = req_analysis_date q, cb_target_price = pb_target_price b\<rparr>))"

definition validation_due :: "int \<Rightarrow> validation \<Rightarrow> bool" where
  "validation_due now v \<longleftrightarrow> (val_status v = ''scheduled'' \<and> val_scheduled_for v \<le> now)
     \<or> (val_status v = ''retry_wait'' \<and> after_wait now (val_next_attempt_at v))"

definition outer_rows :: "('a \<Rightarrow> bool) \<Rightarrow> 'a list \<Rightarrow> 'a option list" where
  "outer_rows P xs = (case filter P xs of [] \<Rightarrow> [None] | ys \<Rightarrow> map Some ys)"

record due_row =
  du_validation :: validation
  du_request :: request
  du_instrument :: instrument
  du_snapshot :: "config_snapshot option"
  du_decision :: decision
  du_basis :: "price_basis option"

definition due_rows :: "nat set \<Rightarrow> int \<Rightarrow> db \<Rightarrow> due_row list" where
  "due_rows locked now d =
     sort_key (\<lambda>u. (val_scheduled_for (du_validation u), val_id (du_validation u)))
     [\<lparr>du_validation = v, du_request = q, du_instrument = i, du_snapshot = s, du_decision = c,
        du_basis = b\<rparr>. v \<leftarrow> db_validations d, validation_due now v, val_id v \<notin> locked,
        r \<leftarrow> db_runs d, run_id r = val_run v, q \<leftarrow> db_requests d, req_id q = run_request r,
        i \<leftarrow> db_instruments d, ins_id i = req_instrument q,
        s \<leftarrow> outer_rows (\<lambda>x. run_snapshot r = Some (cfg_id x)) (db_snapshots d),
        c \<leftarrow> db_decisions d, dec_run c = run_id r,
        b \<leftarrow> outer_rows (\<lambda>x. pb_run x = run_id r) (db_bases d)]"

definition running_validations :: "db \<Rightarrow> nat" where
  "running_validations d = length (filter (\<lambda>v. val_status v = ''running'') (db_validations d))"

text \<open>\<open>resolved.get(\<dots>) or content.get(\<dots>) or "SPY"\<close>\<close>

definition claimed_benchmark :: "(json \<Rightarrow> string) \<Rightarrow> config_snapshot option \<Rightarrow> string" where
  "claimed_benchmark repr s =
     (let content = (case s of None \<Rightarrow> [] | Some x \<Rightarrow> cfg_content x);
          resolved = (case dict_get ''resolved'' content of Some j \<Rightarrow> j | None \<Rightarrow> JNull);
          pick = (\<lambda>j alt. case j of Some v \<Rightarrow> if json_truthy v then py_str repr v else alt | None \<Rightarrow> alt)
      in pick (json_get ''benchmark_ticker'' resolved)
           (pick (dict_get ''benchmark_ticker'' content) ''SPY''))"

definition claimed_target_basis :: "price_basis option \<Rightarrow> target_basis option" where
  "claimed_target_basis b =
     (case b of None \<Rightarrow> None
      | Some x \<Rightarrow>
          (if pb_status x = ''completed'' then
             (case (pb_reference_session x, pb_reference_close x, pb_target_multiple x) of
                (Some s, Some c, Some m) \<Rightarrow> Some \<lparr>tb_reference_session = s, tb_reference_close = c,
                   tb_target_multiple = m\<rparr>
              | _ \<Rightarrow> None)
           else None))"

definition claimed_of :: "(json \<Rightarrow> string) \<Rightarrow> due_row \<Rightarrow> claimed_validation" where
  "claimed_of repr u = (let v = du_validation u in
     \<lparr>cv_id = val_id v, cv_run = val_run v, cv_ticker = ins_ticker (du_instrument u),
      cv_benchmark = claimed_benchmark repr (du_snapshot u),
      cv_analysis_date = req_analysis_date (du_request u), cv_horizon = val_horizon v,
      cv_rating = dec_rating (du_decision u), cv_price_target = dec_price_target (du_decision u),
      cv_version = val_calculation_version v, cv_calendar_code = val_calendar_code v,
      cv_entry_session = val_entry_session v, cv_exit_session = val_exit_session v,
      cv_matures_at = val_matures_at v, cv_target_basis = claimed_target_basis (du_basis u)\<rparr>)"

definition mark_running :: "string \<Rightarrow> int \<Rightarrow> validation \<Rightarrow> validation" where
  "mark_running worker now x = x\<lparr>val_status := ''running'', val_attempts := val_attempts x + 1,
     val_next_attempt_at := None, val_claimed_at := Some now,
     val_lease_expires_at := Some (now + LEASE_DURATION), val_worker_instance := Some worker\<rparr>"

definition claim_validation ::
    "(nat \<Rightarrow> string) \<Rightarrow> (json \<Rightarrow> string) \<Rightarrow> nat \<Rightarrow> string \<Rightarrow> nat set \<Rightarrow> int \<Rightarrow> db
       \<Rightarrow> db \<times> claimed_validation option" where
  "claim_validation uuid_str repr max_running worker locked now d =
     (let d1 = recover_validations uuid_str locked now d in
      if running_validations d1 \<ge> max_running then (d1, None)
      else (case due_rows locked now d1 of
              [] \<Rightarrow> (d1, None)
            | u # _ \<Rightarrow> (update_validation (val_id (du_validation u)) (mark_running worker now) d1,
                        Some (claimed_of repr u))))"

section \<open>The computation between the transactions\<close>

datatype job_output =
    Output_v1 price_series price_series outcome_v1
  | Output_v2 provider_series provider_series canonical_series canonical_series outcome_v2

definition run_v1 ::
    "(rat \<Rightarrow> string) \<Rightarrow> price_series history \<Rightarrow> int \<Rightarrow> claimed_validation \<Rightarrow> job_output result" where
  "run_v1 show fetch now c =
     (let start = cv_analysis_date c - 7 in
      bind_result (fetch 0 (cv_ticker c) start (date_of now)) (\<lambda>instrument.
      bind_result (fetch 1 (cv_benchmark c) start (date_of now)) (\<lambda>benchmark.
      bind_result (calculate_outcome show instrument benchmark (cv_analysis_date c) (cv_horizon c)
          (cv_rating c) (cv_price_target c)) (\<lambda>out.
      Inr (Output_v1 instrument benchmark out)))))"

definition claimed_schedule :: "claimed_validation \<Rightarrow> schedule result" where
  "claimed_schedule c =
     (case (cv_calendar_code c, cv_entry_session c, cv_exit_session c, cv_matures_at c) of
        (Some code, Some entry, Some exit, Some matures) \<Rightarrow>
          Inr \<lparr>sch_calendar_code = code, sch_entry_session = entry, sch_exit_session = exit,
               sch_matures_at = matures\<rparr>
      | _ \<Rightarrow> Inl (ValueError ''validation.v2 schedule is incomplete''))"

definition run_v2 ::
    "(rat \<Rightarrow> string) \<Rightarrow> provider_series history option \<Rightarrow> claimed_validation \<Rightarrow> job_output result" where
  "run_v2 show fetch2 c =
     bind_result (of_option (RuntimeError ''validation.v2 price provider is not configured'') fetch2) (\<lambda>fetch.
     bind_result (claimed_schedule c) (\<lambda>sch.
     let start = cv_analysis_date c - 14 in
     bind_result (fetch 0 (cv_ticker c) start (sch_exit_session sch)) (\<lambda>iraw.
     bind_result (fetch 1 (cv_benchmark c) start (sch_exit_session sch)) (\<lambda>braw.
     bind_result (normalize_prices iraw) (\<lambda>instrument.
     bind_result (normalize_prices braw) (\<lambda>benchmark.
     bind_result (calculate_outcome_v2 show instrument benchmark sch (cv_rating c)
         (cv_price_target c) (cv_target_basis c)) (\<lambda>out.
     Inr (Output_v2 iraw braw instrument benchmark out))))))))"

definition validation_job ::
    "(rat \<Rightarrow> string) \<Rightarrow> price_series history \<Rightarrow> provider_series history option \<Rightarrow> int
       \<Rightarrow> claimed_validation \<Rightarrow> job_output result" where
  "validation_job show fetch fetch2 now c =
     (if cv_version c = ''validation.v2'' then run_v2 show fetch2 c else run_v1 show fetch now c)"

definition basis_job ::
    "provider_series history option \<Rightarrow> claimed_basis \<Rightarrow> (canonical_series \<times> target_basis) result" where
  "basis_job fetch2 c =
     bind_result (of_option (RuntimeError ''validation.v2 price provider is not configured'') fetch2) (\<lambda>fetch.
     bind_result (fetch 0 (cb_ticker c) (cb_analysis_date c - 14) (cb_analysis_date c)) (\<lambda>raw.
     bind_result (normalize_prices raw) (\<lambda>prices.
     bind_result (prepare_target_basis (cb_target_price c) (cb_analysis_date c) prices) (\<lambda>prepared.
     Inr (prices, prepared)))))"

section \<open>Settling a job\<close>

definition payload_v1 :: "job_env \<Rightarrow> price_series \<Rightarrow> price_series \<Rightarrow> json" where
  "payload_v1 env instrument benchmark =
     JObj [(''instrument'', JObj (je_series env instrument)),
           (''benchmark'', JObj (je_series env benchmark))]"

definition series_payload :: "job_env \<Rightarrow> canonical_series \<Rightarrow> json" where
  "series_payload env s =
     (let payload = je_canonical env s;
          close = (case dict_get ''close'' payload of Some j \<Rightarrow> j | None \<Rightarrow> JNull)
      in JObj (dict_set ''source'' (JStr (cn_provider_id s)) (dict_set ''adjusted_close'' close payload)))"

definition NORMALIZATION_VERSION :: string where
  "NORMALIZATION_VERSION = ''prices.v1''"

definition payload_v2 ::
    "job_env \<Rightarrow> provider_series \<Rightarrow> provider_series \<Rightarrow> canonical_series \<Rightarrow> canonical_series \<Rightarrow> json" where
  "payload_v2 env iraw braw i b =
     JObj [(''schema_version'', JStr ''validation-prices.v2''),
       (''instrument'', series_payload env i), (''benchmark'', series_payload env b),
       (''provider_series'', JObj [(''instrument'', JObj (je_provider env iraw)),
          (''benchmark'', JObj (je_provider env braw))]),
       (''provenance'', JObj [(''provider_id'', JStr (cn_provider_id i)),
          (''instrument_provider_id'', JStr (cn_provider_id i)),
          (''benchmark_provider_id'', JStr (cn_provider_id b)),
          (''instrument_provider_symbol'', JStr (cn_provider_symbol i)),
          (''benchmark_provider_symbol'', JStr (cn_provider_symbol b)),
          (''instrument_request_fingerprint'', JStr (cn_request_fingerprint i)),
          (''benchmark_request_fingerprint'', JStr (cn_request_fingerprint b)),
          (''instrument_adapter_version'', JStr (cn_provider_adapter_version i)),
          (''benchmark_adapter_version'', JStr (cn_provider_adapter_version b)),
          (''normalization_version'', JStr NORMALIZATION_VERSION),
          (''instrument_data_quality_status'', JStr (quality_value (cn_quality i))),
          (''benchmark_data_quality_status'', JStr (quality_value (cn_quality b))),
          (''collected_at'', JStr (je_iso env (max (cn_collected_at i) (cn_collected_at b))))])]"

text \<open>
  A row of \<open>artifacts\<close>; the table is unique in run, kind and digest, and so is the storage
  key, which is made of the three.
\<close>

definition insert_artifact :: "int \<Rightarrow> dict \<Rightarrow> nat \<Rightarrow> stored_artifact \<Rightarrow> db \<Rightarrow> (db \<times> nat) result" where
  "insert_artifact now metadata rid s d =
     (if list_ex (\<lambda>a. art_run a = rid \<and> art_kind a = sa_kind s \<and> art_sha256 a = sa_sha256 s) (db_artifacts d)
      then Inl (IntegrityViolation ''artifacts'')
      else Inr ((drawn d)\<lparr>db_artifacts := db_artifacts d @
        [\<lparr>art_id = uuid4 d, art_run = rid, art_kind = sa_kind s, art_media_type = sa_media_type s,
          art_size = sa_size s, art_sha256 = sa_sha256 s, art_storage_key = sa_storage_key s,
          art_retention_class = ''permanent'', art_metadata = metadata, art_created_at = now, art_deleted_at = None\<rparr>]\<rparr>, uuid4 d))"

definition payload_text :: "job_env \<Rightarrow> job_output \<Rightarrow> string" where
  "payload_text env out = json_dump_utf8 (case out of
     Output_v1 i b _ \<Rightarrow> payload_v1 env i b | Output_v2 ir br i b _ \<Rightarrow> payload_v2 env ir br i b)"

definition store_prices :: "job_env \<Rightarrow> claimed_validation \<Rightarrow> job_output \<Rightarrow> files \<Rightarrow> (files \<times> stored_artifact) result" where
  "store_prices env c out fs =
     artifact_put (je_sha env) (je_root env) (je_uuid env (cv_run c))
       (''validation_'' @ int_str (cv_horizon c) @ ''_prices'') ''application/json'' (payload_text env out) fs"

text \<open>The columns written by \<open>_complete\<close> and \<open>_complete_v2\<close>.\<close>

definition outcome_columns :: "job_output \<Rightarrow> validation \<Rightarrow> validation" where
  "outcome_columns out v = (case out of
     Output_v1 _ _ x \<Rightarrow> v\<lparr>val_raw_return := Some (o1_raw_return x),
       val_benchmark_return := Some (o1_benchmark_return x), val_alpha := Some (o1_alpha x),
       val_mae := Some (o1_mae x), val_mfe := Some (o1_mfe x),
       val_trigger_results := o1_trigger_results x\<rparr>
   | Output_v2 _ _ i _ x \<Rightarrow> v\<lparr>val_price_return := Some (o2_price_return x),
       val_benchmark_price_return := Some (o2_benchmark_price_return x),
       val_price_alpha := Some (o2_price_alpha x), val_total_return := Some (o2_total_return x),
       val_benchmark_total_return := Some (o2_benchmark_total_return x),
       val_total_alpha := Some (o2_total_alpha x), val_raw_return := Some (o2_total_return x),
       val_benchmark_return := Some (o2_benchmark_total_return x),
       val_alpha := Some (o2_total_alpha x), val_mae := Some (o2_mae x), val_mfe := Some (o2_mfe x),
       val_trigger_results := o2_trigger_results x,
       val_normalization_version := Some NORMALIZATION_VERSION,
       val_provider_adapter_version := Some (cn_provider_adapter_version i),
       val_provider_id := Some (cn_provider_id i)\<rparr>)"

definition mark_completed :: "int \<Rightarrow> nat \<Rightarrow> job_output \<Rightarrow> validation \<Rightarrow> validation" where
  "mark_completed now artifact out v = (unleased (outcome_columns out v))\<lparr>val_status := ''completed'',
     val_observed_at := Some now, val_data_artifact := Some artifact, val_error_code := None\<rparr>"

definition completed_payload :: "job_env \<Rightarrow> claimed_validation \<Rightarrow> job_output \<Rightarrow> dict" where
  "completed_payload env c out =
     [(''validation_id'', JStr (je_uuid env (cv_id c))), (''horizon'', JInt (cv_horizon c))] @
     (case out of Output_v1 _ _ _ \<Rightarrow> []
      | Output_v2 _ _ _ _ _ \<Rightarrow> [(''calculation_version'', JStr (cv_version c))])"

definition artifact_metadata :: "job_env \<Rightarrow> claimed_validation \<Rightarrow> job_output \<Rightarrow> dict" where
  "artifact_metadata env c out = (''validation_id'', JStr (je_uuid env (cv_id c))) #
     (case out of Output_v1 _ _ _ \<Rightarrow> []
      | Output_v2 _ _ i _ _ \<Rightarrow> [(''schema_version'', JStr ''validation-prices.v2''),
          (''provider_id'', JStr (cn_provider_id i)),
          (''provider_adapter_version'', JStr (cn_provider_adapter_version i)),
          (''normalization_version'', JStr NORMALIZATION_VERSION)])"

definition complete_validation ::
    "job_env \<Rightarrow> int \<Rightarrow> claimed_validation \<Rightarrow> job_output \<Rightarrow> stored_artifact \<Rightarrow> db \<Rightarrow> db result" where
  "complete_validation env now c out s d =
     bind_result (require (case find_validation (cv_id c) d of None \<Rightarrow> False
         | Some v \<Rightarrow> val_status v = ''running'') (RuntimeError ''claimed validation is no longer running'')) (\<lambda>_.
     bind_result (insert_artifact now (artifact_metadata env c out) (cv_run c) s d) (\<lambda>(d1, artifact).
     Inr (append_event now (cv_run c) ''validation.completed'' (completed_payload env c out)
       (update_validation (cv_id c) (mark_completed now artifact out) d1))))"

text \<open>\<open>_retry\<close> and \<open>_terminal_error\<close>.\<close>

definition retry_claimed :: "nat \<Rightarrow> int \<Rightarrow> bool \<Rightarrow> string \<Rightarrow> db \<Rightarrow> db" where
  "retry_claimed i now next_day code d =
     update_validation i (\<lambda>v. (unleased v)\<lparr>val_status := ''retry_wait'',
       val_next_attempt_at := Some (if next_day then midnight (date_of now + 1)
          else now + retry_delay (val_attempts v)),
       val_error_code := Some code\<rparr>) d"

definition terminal_error :: "nat \<Rightarrow> string \<Rightarrow> string \<Rightarrow> db \<Rightarrow> db" where
  "terminal_error i status code d =
     update_validation i (\<lambda>v. (unleased v)\<lparr>val_status := status, val_error_code := Some code\<rparr>) d"

text \<open>The \<open>except\<close> clauses of \<open>run_once\<close>, in their order.\<close>

datatype settlement = Retry_later bool string | Terminal string string

fun settlement_of :: "py_error \<Rightarrow> settlement" where
  "settlement_of (InsufficientSessions _) = Retry_later True ''future_sessions''"
| "settlement_of (ProviderUnavailable _) = Retry_later False ''provider_unavailable''"
| "settlement_of (ProviderInvalidData _) = Terminal ''unavailable'' ''invalid_market_data''"
| "settlement_of (NetworkError _) = Retry_later False ''provider_unavailable''"
| "settlement_of (ValueError _) = Terminal ''unavailable'' ''invalid_market_data''"
| "settlement_of _ = Terminal ''failed'' ''calculation_error''"

definition settle_validation :: "nat \<Rightarrow> int \<Rightarrow> py_error \<Rightarrow> db \<Rightarrow> db" where
  "settle_validation i now e d = (case settlement_of e of
     Retry_later next_day code \<Rightarrow> retry_claimed i now next_day code d
   | Terminal status code \<Rightarrow> terminal_error i status code d)"

text \<open>What a worker does once its computation has ended, on the state it then finds.\<close>

definition finish_validation ::
    "job_env \<Rightarrow> int \<Rightarrow> claimed_validation \<Rightarrow> job_output result \<Rightarrow> files \<times> db \<Rightarrow> files \<times> db" where
  "finish_validation env now c job w = (case w of (fs, d) \<Rightarrow>
     (case job of
        Inl e \<Rightarrow> (fs, settle_validation (cv_id c) now e d)
      | Inr out \<Rightarrow>
          (case store_prices env c out fs of
             Inl e \<Rightarrow> (fs, settle_validation (cv_id c) now e d)
           | Inr (fs1, s) \<Rightarrow>
               (case complete_validation env now c out s d of
                  Inl e \<Rightarrow> (fs1, settle_validation (cv_id c) now e d)
                | Inr d1 \<Rightarrow> (fs1, d1)))))"

section \<open>Settling a price basis\<close>

definition complete_basis ::
    "job_env \<Rightarrow> int \<Rightarrow> claimed_basis \<Rightarrow> canonical_series \<Rightarrow> target_basis \<Rightarrow> db \<Rightarrow> db result" where
  "complete_basis env now c prices prepared d =
     (case find_basis (cb_id c) d of
        None \<Rightarrow> Inl (RuntimeError ''claimed target-price basis is no longer running'')
      | Some b \<Rightarrow>
          (if pb_status b \<noteq> ''running''
           then Inl (RuntimeError ''claimed target-price basis is no longer running'')
           else Inr (append_event now (pb_run b) ''validation.price_basis_completed''
             [(''price_basis_id'', JStr (je_uuid env (pb_id b))),
              (''reference_session'', JStr (iso_date (tb_reference_session prepared)))]
             (update_basis (cb_id c) (\<lambda>x. (unleased_basis x)\<lparr>pb_status := ''completed'',
                pb_reference_session := Some (tb_reference_session prepared),
                pb_reference_close := Some (tb_reference_close prepared),
                pb_target_multiple := Some (tb_target_multiple prepared),
                pb_currency := cn_currency prices, pb_provider_id := Some (cn_provider_id prices),
                pb_provider_adapter_version := Some (cn_provider_adapter_version prices),
                pb_normalization_version := Some NORMALIZATION_VERSION,
                pb_collected_at := Some (cn_collected_at prices), pb_next_attempt_at := None,
                pb_error_code := None\<rparr>) d))))"

definition retry_basis :: "nat \<Rightarrow> int \<Rightarrow> string \<Rightarrow> db \<Rightarrow> db" where
  "retry_basis i now code d =
     update_basis i (\<lambda>b. (unleased_basis b)\<lparr>pb_status := ''retry_wait'',
       pb_next_attempt_at := Some (now + retry_delay (pb_attempts b)), pb_error_code := Some code\<rparr>) d"

definition terminal_basis :: "nat \<Rightarrow> string \<Rightarrow> db \<Rightarrow> db" where
  "terminal_basis i code d =
     update_basis i (\<lambda>b. (unleased_basis b)\<lparr>pb_status := ''unavailable'', pb_error_code := Some code\<rparr>) d"

fun settle_basis :: "nat \<Rightarrow> int \<Rightarrow> py_error \<Rightarrow> db \<Rightarrow> db" where
  "settle_basis i now (ProviderUnavailable _) = retry_basis i now ''provider_unavailable''"
| "settle_basis i now (NetworkError _) = retry_basis i now ''provider_unavailable''"
| "settle_basis i now (ProviderInvalidData _) = terminal_basis i ''invalid_market_data''"
| "settle_basis i now (ValueError _) = terminal_basis i ''invalid_market_data''"
| "settle_basis i now (InsufficientSessions _) = terminal_basis i ''invalid_market_data''"
| "settle_basis i now _ = terminal_basis i ''basis_calculation_error''"

definition finish_basis ::
    "job_env \<Rightarrow> int \<Rightarrow> claimed_basis \<Rightarrow> (canonical_series \<times> target_basis) result \<Rightarrow> db \<Rightarrow> db" where
  "finish_basis env now c job d =
     (case bind_result job (\<lambda>(prices, prepared). complete_basis env now c prices prepared d) of
        Inl e \<Rightarrow> settle_basis (cb_id c) now e d
      | Inr d1 \<Rightarrow> d1)"

text \<open>\<open>run_once\<close>, when no other transaction comes between its own.\<close>

definition run_once ::
    "job_env \<Rightarrow> (json \<Rightarrow> string) \<Rightarrow> price_series history \<Rightarrow> provider_series history option \<Rightarrow> nat
       \<Rightarrow> string \<Rightarrow> nat set \<Rightarrow> nat set \<Rightarrow> int \<Rightarrow> files \<times> db \<Rightarrow> (files \<times> db) \<times> bool" where
  "run_once env repr fetch fetch2 max_running worker locked_b locked_v now w =
     (case w of (fs, d) \<Rightarrow>
       (case claim_basis (je_uuid env) worker locked_b now d of
          (d1, Some c) \<Rightarrow> ((fs, finish_basis env now c (basis_job fetch2 c) d1), True)
        | (d1, None) \<Rightarrow>
            (case claim_validation (je_uuid env) repr max_running worker locked_v now d1 of
               (d2, None) \<Rightarrow> ((fs, d2), False)
             | (d2, Some c) \<Rightarrow>
                 (finish_validation env now c (validation_job (je_show env) fetch fetch2 now c) (fs, d2), True))))"

section \<open>Shared lemmas\<close>

lemma list_all_update_row:
  "list_all P t \<Longrightarrow> (\<And>x. P x \<Longrightarrow> P (f x)) \<Longrightarrow> list_all P (update_row key k f t)"
  by (induction t) auto

lemma update_validation_frame [simp, store_frame]:
  "db_runs (update_validation i f d) = db_runs d"
  "db_requests (update_validation i f d) = db_requests d"
  "db_instruments (update_validation i f d) = db_instruments d"
  "db_decisions (update_validation i f d) = db_decisions d"
  "db_snapshots (update_validation i f d) = db_snapshots d"
  "db_events (update_validation i f d) = db_events d"
  "db_bases (update_validation i f d) = db_bases d"
  "db_leases (update_validation i f d) = db_leases d"
  "db_artifacts (update_validation i f d) = db_artifacts d"
  "db_uuid (update_validation i f d) = db_uuid d"
  "db_drawn (update_validation i f d) = db_drawn d"
  "db_validations (update_validation i f d) = update_row val_id i f (db_validations d)"
  by (simp_all add: update_validation_def)

lemma update_basis_frame [simp, store_frame]:
  "db_runs (update_basis i f d) = db_runs d"
  "db_requests (update_basis i f d) = db_requests d"
  "db_instruments (update_basis i f d) = db_instruments d"
  "db_decisions (update_basis i f d) = db_decisions d"
  "db_events (update_basis i f d) = db_events d"
  "db_validations (update_basis i f d) = db_validations d"
  "db_bases (update_basis i f d) = update_row pb_id i f (db_bases d)"
  by (simp_all add: update_basis_def)

lemma unleased_simps [simp]:
  "val_id (unleased v) = val_id v" "val_run (unleased v) = val_run v"
  "val_horizon (unleased v) = val_horizon v" "val_status (unleased v) = val_status v"
  "val_attempts (unleased v) = val_attempts v" "val_claimed_at (unleased v) = None"
  "val_lease_expires_at (unleased v) = None" "val_worker_instance (unleased v) = None"
  "val_raw_return (unleased v) = val_raw_return v"
  "val_data_artifact (unleased v) = val_data_artifact v"
  "val_next_attempt_at (unleased v) = val_next_attempt_at v"
  "val_error_code (unleased v) = val_error_code v"
  by (simp_all add: unleased_def)

lemma unleased_basis_simps [simp]:
  "pb_id (unleased_basis b) = pb_id b" "pb_run (unleased_basis b) = pb_run b"
  "pb_status (unleased_basis b) = pb_status b" "pb_attempts (unleased_basis b) = pb_attempts b"
  "pb_claimed_at (unleased_basis b) = None" "pb_lease_expires_at (unleased_basis b) = None"
  "pb_worker_instance (unleased_basis b) = None"
  by (simp_all add: unleased_basis_def)

lemma outcome_columns_simps [simp]:
  "val_id (outcome_columns out v) = val_id v" "val_run (outcome_columns out v) = val_run v"
  "val_horizon (outcome_columns out v) = val_horizon v"
  "val_attempts (outcome_columns out v) = val_attempts v"
  "val_raw_return (outcome_columns out v) \<noteq> None"
  by (cases out; simp add: outcome_columns_def)+

section \<open>The life of a validation\<close>

definition VALIDATION_STATUSES :: "string list" where
  "VALIDATION_STATUSES = [''scheduled'', ''running'', ''completed'', ''retry_wait'', ''unavailable'', ''failed'']"

definition leased :: "int option \<Rightarrow> int option \<Rightarrow> string option \<Rightarrow> bool" where
  "leased claimed expires worker \<longleftrightarrow>
     (\<exists>t. claimed = Some t \<and> expires = Some (t + LEASE_DURATION)) \<and> worker \<noteq> None"

definition validation_ok :: "validation \<Rightarrow> bool" where
  "validation_ok v \<longleftrightarrow> val_status v \<in> set VALIDATION_STATUSES \<and> 0 \<le> val_attempts v
     \<and> (if val_status v = ''running''
        then leased (val_claimed_at v) (val_lease_expires_at v) (val_worker_instance v) \<and> 1 \<le> val_attempts v
        else val_claimed_at v = None \<and> val_lease_expires_at v = None \<and> val_worker_instance v = None)
     \<and> (val_status v = ''retry_wait'' \<longrightarrow> val_next_attempt_at v \<noteq> None \<and> val_error_code v \<noteq> None)
     \<and> (val_status v = ''completed'' \<longrightarrow> val_error_code v = None \<and> val_raw_return v \<noteq> None
          \<and> val_data_artifact v \<noteq> None)
     \<and> (val_status v \<in> {''unavailable'', ''failed''} \<longrightarrow> val_error_code v \<noteq> None)"

definition basis_ok :: "price_basis \<Rightarrow> bool" where
  "basis_ok b \<longleftrightarrow> pb_status b \<in> {''pending'', ''running'', ''completed'', ''retry_wait'', ''unavailable''}
     \<and> 0 \<le> pb_attempts b
     \<and> (if pb_status b = ''running'' then leased (pb_claimed_at b) (pb_lease_expires_at b) (pb_worker_instance b)
        else pb_claimed_at b = None \<and> pb_lease_expires_at b = None \<and> pb_worker_instance b = None)
     \<and> (pb_status b = ''completed'' \<longrightarrow> pb_reference_session b \<noteq> None \<and> pb_reference_close b \<noteq> None
          \<and> pb_target_multiple b \<noteq> None)
     \<and> (pb_status b = ''retry_wait'' \<longrightarrow> pb_next_attempt_at b \<noteq> None)"

definition jobs_ok :: "db \<Rightarrow> bool" where
  "jobs_ok d \<longleftrightarrow> list_all validation_ok (db_validations d) \<and> list_all basis_ok (db_bases d)
     \<and> distinct (map (\<lambda>v. (val_run v, val_horizon v)) (db_validations d))
     \<and> distinct (map pb_run (db_bases d))"

lemma new_validation_ok: "validation_ok (new_validation i rid h due ver sch)"
  by (simp add: validation_ok_def new_validation_def VALIDATION_STATUSES_def)

lemma mark_running_ok: "validation_ok v \<Longrightarrow> validation_ok (mark_running w now v)"
  by (simp add: validation_ok_def mark_running_def VALIDATION_STATUSES_def leased_def)

lemma mark_completed_ok: "validation_ok v \<Longrightarrow> validation_ok (mark_completed now a out v)"
  by (simp add: validation_ok_def mark_completed_def VALIDATION_STATUSES_def)

lemma rescheduled_ok: "validation_ok v \<Longrightarrow> validation_ok ((unleased v)\<lparr>val_status := ''scheduled'',
    val_next_attempt_at := None, val_error_code := e\<rparr>)"
  by (simp add: validation_ok_def VALIDATION_STATUSES_def)

lemma reset_ok: "validation_ok v \<Longrightarrow> validation_ok ((unleased v)\<lparr>val_status := ''scheduled'',
    val_scheduled_for := t, val_next_attempt_at := None, val_error_code := None\<rparr>)"
  by (simp add: validation_ok_def VALIDATION_STATUSES_def)

lemma retry_wait_ok: "validation_ok v \<Longrightarrow> validation_ok ((unleased v)\<lparr>val_status := ''retry_wait'',
    val_next_attempt_at := Some t, val_error_code := Some e\<rparr>)"
  by (simp add: validation_ok_def VALIDATION_STATUSES_def)

lemma terminal_ok: "validation_ok v \<Longrightarrow> s \<in> {''unavailable'', ''failed''} \<Longrightarrow>
    validation_ok ((unleased v)\<lparr>val_status := s, val_error_code := Some e\<rparr>)"
  by (auto simp: validation_ok_def VALIDATION_STATUSES_def)

lemma trigger_ok: "validation_ok v \<Longrightarrow> validation_ok (v\<lparr>val_trigger_results := t\<rparr>)"
  by (simp add: validation_ok_def)

lemma jobs_ok_update_validation:
  assumes "jobs_ok d" and "\<And>v. validation_ok v \<Longrightarrow> validation_ok (f v)"
    and "\<And>v. val_run (f v) = val_run v" and "\<And>v. val_horizon (f v) = val_horizon v"
  shows "jobs_ok (update_validation i f d)"
  using assms map_key_update_row [of "\<lambda>v. (val_run v, val_horizon v)" f val_id i "db_validations d"]
  by (simp add: jobs_ok_def list_all_update_row)

lemma jobs_ok_update_basis:
  assumes "jobs_ok d" and "\<And>b. basis_ok b \<Longrightarrow> basis_ok (f b)" and "\<And>b. pb_run (f b) = pb_run b"
  shows "jobs_ok (update_basis i f d)"
  using assms map_key_update_row [of pb_run f pb_id i "db_bases d"]
  by (simp add: jobs_ok_def list_all_update_row)

lemma jobs_ok_frame [simp]:
  "jobs_ok (append_event now rid ty p d) = jobs_ok d"
  "jobs_ok (append_audit pr a t i r m d) = jobs_ok d"
  "jobs_ok (drawn d) = jobs_ok d"
  by (simp_all add: jobs_ok_def)

lemma jobs_ok_fold: "jobs_ok d \<Longrightarrow> (\<And>x d. jobs_ok d \<Longrightarrow> jobs_ok (f x d)) \<Longrightarrow> jobs_ok (fold f xs d)"
  by (induction xs arbitrary: d) simp_all

lemma insert_basis_jobs_ok: "jobs_ok d \<Longrightarrow> jobs_ok (insert_basis now rid t d)"
  by (auto simp: insert_basis_def jobs_ok_def basis_ok_def list_ex_iff)

lemma insert_validation_jobs_ok: "jobs_ok d \<Longrightarrow> jobs_ok (insert_validation rid h due ver sch d)"
  using new_validation_ok [of "uuid4 d" rid h due ver sch]
  by (auto simp: insert_validation_def jobs_ok_def list_ex_iff new_validation_def)

lemma insert_horizons_jobs_ok:
  "insert_horizons xnys ver rid i ad hs d = Inr d' \<Longrightarrow> jobs_ok d \<Longrightarrow> jobs_ok d'"
proof (induction hs arbitrary: d)
  case (Cons h hs)
  from Cons.prems(1) obtain due sch where
    "insert_horizons xnys ver rid i ad hs (insert_validation rid h due
       (if ver = ''validation.v2'' then ver else ''validation.v1'') sch d) = Inr d'"
    by (auto elim!: bind_resultE)
  then show ?case by (rule Cons.IH) (rule insert_validation_jobs_ok [OF Cons.prems(2)])
qed simp

lemma schedule_jobs_ok:
  assumes "schedule_validations us xnys now ver rid hs pr req d = Inr (d', vs)" and ok: "jobs_ok d"
  shows "jobs_ok d'"
proof -
  from assms(1) obtain r q i c rest where rows: "decided_rows rid d = (r, q, i, c) # rest"
    by (auto simp: schedule_validations_def split: list.splits)
  let ?d1 = "case dec_price_target c of
      Some t \<Rightarrow> if ver = ''validation.v2'' then insert_basis now rid t d else d | None \<Rightarrow> d"
  have "jobs_ok ?d1" using ok by (simp add: insert_basis_jobs_ok split: option.split)
  moreover from assms(1) obtain d2 where
    ins: "insert_horizons xnys ver rid i (req_analysis_date q) hs ?d1 = Inr d2" and
    d': "d' = append_audit pr ''validation.schedule'' ''assessment_run'' (us rid) req
        [(''horizons'', JList (map JInt hs))] d2"
    by (auto simp: schedule_validations_def rows Let_def split: if_split_asm elim!: bind_resultE)
  ultimately have "jobs_ok d2" using insert_horizons_jobs_ok by blast
  then show ?thesis by (simp add: d')
qed

lemma retry_jobs_ok:
  assumes "retry_validation us now i pr req d = Inr (d', v)" and ok: "jobs_ok d"
  shows "jobs_ok d'"
proof -
  have "jobs_ok (update_validation i (\<lambda>x. (unleased x)\<lparr>val_status := ''scheduled'', val_scheduled_for := now,
           val_next_attempt_at := None, val_error_code := None\<rparr>) d)"
    using ok by (rule jobs_ok_update_validation) (simp_all add: reset_ok)
  with assms(1) show ?thesis
    by (auto simp: retry_validation_def Let_def elim!: bind_resultE)
qed

lemma recompute_jobs_ok:
  "jobs_ok d \<Longrightarrow> jobs_ok (fst (recompute_directions us now rids pr req d))"
proof -
  have one: "jobs_ok (fst (recompute_one us now pr req vc (d, n)))" if "jobs_ok d" for vc d n
  proof -
    have upd: "jobs_ok (update_validation i (\<lambda>x. x\<lparr>val_trigger_results := t\<rparr>) d)" for i t
      using that by (rule jobs_ok_update_validation) (simp_all add: trigger_ok)
    show ?thesis using that upd
      by (cases vc) (simp add: recompute_one_def Let_def split: option.split)
  qed
  have "jobs_ok (fst (fold (recompute_one us now pr req) rows (d, n)))" if "jobs_ok d" for rows d n
    using that
  proof (induction rows arbitrary: d n)
    case (Cons x rows)
    then show ?case
      using one [of d x n] by (cases "recompute_one us now pr req x (d, n)") simp
  qed simp
  then show "jobs_ok d \<Longrightarrow> jobs_ok (fst (recompute_directions us now rids pr req d))"
    by (simp add: recompute_directions_def)
qed

lemma recover_validation_jobs_ok: "jobs_ok d \<Longrightarrow> jobs_ok (recover_validation us now v d)"
  unfolding recover_validation_def jobs_ok_frame
  by (rule jobs_ok_update_validation) (simp_all add: rescheduled_ok)

lemma recover_basis_jobs_ok: "jobs_ok d \<Longrightarrow> jobs_ok (recover_basis us now b d)"
  unfolding recover_basis_def jobs_ok_frame
  by (rule jobs_ok_update_basis) (simp_all add: basis_ok_def)

lemma recover_validations_jobs_ok: "jobs_ok d \<Longrightarrow> jobs_ok (recover_validations us locked now d)"
  unfolding recover_validations_def by (rule jobs_ok_fold) (simp_all add: recover_validation_jobs_ok)

lemma claim_basis_jobs_ok: "jobs_ok d \<Longrightarrow> jobs_ok (fst (claim_basis us w locked now d))"
proof -
  assume "jobs_ok d"
  then have ok: "jobs_ok (recover_bases us locked now d)"
    unfolding recover_bases_def by (rule jobs_ok_fold) (simp_all add: recover_basis_jobs_ok)
  have "jobs_ok (update_basis i (\<lambda>x. x\<lparr>pb_status := ''running'', pb_attempts := pb_attempts x + 1,
             pb_next_attempt_at := None, pb_claimed_at := Some now,
             pb_lease_expires_at := Some (now + LEASE_DURATION),
             pb_worker_instance := Some w\<rparr>) (recover_bases us locked now d))" for i
    using ok by (rule jobs_ok_update_basis) (simp_all add: basis_ok_def leased_def)
  with ok show ?thesis by (simp add: claim_basis_def Let_def split: list.split)
qed

lemma claim_validation_jobs_ok: "jobs_ok d \<Longrightarrow> jobs_ok (fst (claim_validation us repr n w locked now d))"
proof -
  assume "jobs_ok d"
  then have ok: "jobs_ok (recover_validations us locked now d)"
    by (rule recover_validations_jobs_ok)
  have "jobs_ok (update_validation i (mark_running w now) (recover_validations us locked now d))" for i
    using ok by (rule jobs_ok_update_validation) (simp_all add: mark_running_ok, simp_all add: mark_running_def)
  with ok show ?thesis by (simp add: claim_validation_def Let_def split: list.split)
qed

lemma settlement_terminal: "settlement_of e = Terminal s code \<Longrightarrow> s \<in> {''unavailable'', ''failed''}"
  by (cases e) simp_all

lemma settle_validation_jobs_ok: "jobs_ok d \<Longrightarrow> jobs_ok (settle_validation i now e d)"
proof (cases "settlement_of e")
  case (Retry_later nd code)
  assume "jobs_ok d"
  then show ?thesis unfolding settle_validation_def Retry_later settlement.case retry_claimed_def
    by (rule jobs_ok_update_validation) (simp_all add: retry_wait_ok)
next
  case (Terminal s code)
  assume "jobs_ok d"
  then show ?thesis unfolding settle_validation_def Terminal settlement.case terminal_error_def
    using settlement_terminal [OF Terminal]
    by (intro jobs_ok_update_validation) (simp_all add: terminal_ok)
qed

lemma complete_validation_jobs_ok:
  assumes "complete_validation env now c out s d = Inr d'" and "jobs_ok d"
  shows "jobs_ok d'"
proof -
  from assms(1) obtain d1 a where ins: "insert_artifact now (artifact_metadata env c out) (cv_run c) s d = Inr (d1, a)" and
    d': "d' = append_event now (cv_run c) ''validation.completed'' (completed_payload env c out)
       (update_validation (cv_id c) (mark_completed now a out) d1)"
    by (auto simp: complete_validation_def elim!: bind_resultE)
  have "jobs_ok d1" using ins assms(2)
    by (auto simp: insert_artifact_def jobs_ok_def split: if_split_asm)
  then show ?thesis unfolding d' jobs_ok_frame
    by (rule jobs_ok_update_validation) (simp_all add: mark_completed_ok, simp_all add: mark_completed_def)
qed

lemma finish_validation_jobs_ok:
  "jobs_ok d \<Longrightarrow> jobs_ok (snd (finish_validation env now c job (fs, d)))"
  by (auto simp: finish_validation_def settle_validation_jobs_ok complete_validation_jobs_ok split: sum.split)

lemma settle_basis_jobs_ok: "jobs_ok d \<Longrightarrow> jobs_ok (settle_basis i now e d)"
proof -
  assume ok: "jobs_ok d"
  have "jobs_ok (retry_basis i now code d)" for code unfolding retry_basis_def using ok
    by (rule jobs_ok_update_basis) (simp_all add: basis_ok_def)
  moreover have "jobs_ok (terminal_basis i code d)" for code unfolding terminal_basis_def using ok
    by (rule jobs_ok_update_basis) (simp_all add: basis_ok_def)
  ultimately show ?thesis by (cases e) simp_all
qed

lemma complete_basis_jobs_ok:
  assumes "complete_basis env now c p tb d = Inr d'" and ok: "jobs_ok d"
  shows "jobs_ok d'"
proof -
  have "jobs_ok (update_basis i (\<lambda>x. (unleased_basis x)\<lparr>pb_status := ''completed'',
                pb_reference_session := Some s, pb_reference_close := Some cl,
                pb_target_multiple := Some m,
                pb_currency := cu, pb_provider_id := pi, pb_provider_adapter_version := av,
                pb_normalization_version := nv, pb_collected_at := co, pb_next_attempt_at := None,
                pb_error_code := None\<rparr>) d)" for i s cl m cu pi av nv co
    using ok by (rule jobs_ok_update_basis) (simp_all add: basis_ok_def)
  with assms(1) show ?thesis
    by (auto simp: complete_basis_def split: option.splits if_split_asm)
qed

lemma finish_basis_jobs_ok: "jobs_ok d \<Longrightarrow> jobs_ok (finish_basis env now c job d)"
  by (cases "bind_result job (\<lambda>(prices, prepared). complete_basis env now c prices prepared d)")
     (auto simp: finish_basis_def settle_basis_jobs_ok elim!: bind_resultE intro: complete_basis_jobs_ok)

text \<open>
  The transactions of the component, in any order and with any arguments: a worker may finish
  a job it claimed long ago, with whatever its provider returned.
\<close>

inductive job_step :: "db \<Rightarrow> db \<Rightarrow> bool" where
  step_schedule: "schedule_validations us xnys now ver rid hs pr req d = Inr (d', vs) \<Longrightarrow> job_step d d'"
| step_retry: "retry_validation us now i pr req d = Inr (d', v) \<Longrightarrow> job_step d d'"
| step_recompute: "job_step d (fst (recompute_directions us now rids pr req d))"
| step_claim: "job_step d (fst (claim_validation us repr n w locked now d))"
| step_claim_basis: "job_step d (fst (claim_basis us w locked now d))"
| step_finish: "job_step d (snd (finish_validation env now c job (fs, d)))"
| step_finish_basis: "job_step d (finish_basis env now cb jb d)"

definition jobs_init :: "db \<Rightarrow> bool" where
  "jobs_init d \<longleftrightarrow> db_validations d = [] \<and> db_bases d = []"

lemma job_step_ok: "job_step d d' \<Longrightarrow> jobs_ok d \<Longrightarrow> jobs_ok d'"
  by (induction rule: job_step.induct)
     (simp_all add: schedule_jobs_ok retry_jobs_ok recompute_jobs_ok claim_validation_jobs_ok
        claim_basis_jobs_ok finish_validation_jobs_ok finish_basis_jobs_ok)

interpretation jobs: transition_system jobs_init job_step jobs_ok
  by unfold_locales (simp add: jobs_init_def jobs_ok_def, rule job_step_ok)

text \<open>
  C33. Whatever order schedules, retries, recomputations, claims and completions come in, every
  validation has one of its six statuses; it holds a lease (claimed at some time, to the end
  of the five minutes that follow, by a worker) exactly while it is running; a completed one has a return,
  an artifact and no error; one that waits has a time for its next attempt; and no run has
  two validations of the same horizon.
\<close>

theorem validation_lifecycle:
  assumes "reach jobs_init job_step d" and "v \<in> set (db_validations d)"
  shows "val_status v \<in> set VALIDATION_STATUSES
    \<and> (val_status v = ''running'' \<longleftrightarrow> leased (val_claimed_at v) (val_lease_expires_at v) (val_worker_instance v))
    \<and> (val_status v = ''completed'' \<longrightarrow> val_raw_return v \<noteq> None \<and> val_data_artifact v \<noteq> None \<and> val_error_code v = None)
    \<and> (val_status v = ''retry_wait'' \<longrightarrow> val_next_attempt_at v \<noteq> None)
    \<and> (\<forall>u \<in> set (db_validations d). val_run u = val_run v \<and> val_horizon u = val_horizon v \<longrightarrow> u = v)"
proof -
  from jobs.reach_inv [OF assms(1)] have ok: "jobs_ok d" .
  with assms(2) have v: "validation_ok v" by (simp add: jobs_ok_def list_all_iff)
  then have "val_status v = ''running'' \<longleftrightarrow> leased (val_claimed_at v) (val_lease_expires_at v) (val_worker_instance v)"
    by (auto simp: validation_ok_def leased_def split: if_split_asm)
  moreover have "\<forall>u \<in> set (db_validations d). val_run u = val_run v \<and> val_horizon u = val_horizon v \<longrightarrow> u = v"
    using ok assms(2) by (auto simp: jobs_ok_def distinct_map inj_on_def)
  ultimately show ?thesis using v by (simp add: validation_ok_def)
qed

section \<open>What a claim does\<close>

lemma update_row_keeps: "v \<in> set t \<Longrightarrow> key v \<noteq> k \<Longrightarrow> v \<in> set (update_row key k f t)"
  by (auto simp: set_update_row image_iff intro!: bexI [of _ v])

lemma map_val_id_recover:
  "map val_id (db_validations (fold (recover_validation us now) xs d)) = map val_id (db_validations d)"
proof (induction xs arbitrary: d)
  case (Cons x xs)
  have "map val_id (db_validations (recover_validation us now x d)) = map val_id (db_validations d)"
    by (simp add: recover_validation_def map_key_update_row)
  with Cons show ?case by simp
qed simp

lemma recover_keeps:
  "v \<in> set (db_validations d) \<Longrightarrow> val_id v \<notin> val_id ` set xs \<Longrightarrow>
     v \<in> set (db_validations (fold (recover_validation us now) xs d))"
proof (induction xs arbitrary: d)
  case (Cons x xs)
  have "v \<in> set (db_validations (recover_validation us now x d))"
    using Cons.prems by (simp add: recover_validation_def update_row_keeps)
  with Cons show ?case by simp
qed simp

lemma unique_keysD:
  "unique_keys key t \<Longrightarrow> x \<in> set t \<Longrightarrow> y \<in> set t \<Longrightarrow> key x = key y \<Longrightarrow> x = y"
  by (auto simp: unique_keys_def distinct_map inj_on_def)

lemma sort_key_head: "sort_key f xs = y # ys \<Longrightarrow> x \<in> set xs \<Longrightarrow> f y \<le> f x"
proof -
  assume s: "sort_key f xs = y # ys" and x: "x \<in> set xs"
  have "sorted (map f (y # ys))" using sorted_sort_key [of f xs] s by simp
  moreover have "x \<in> set (y # ys)" using x set_sort [of f xs] s by simp
  ultimately show ?thesis by auto
qed

lemma due_rows_member:
  assumes "u \<in> set (due_rows locked now d)"
  shows "du_validation u \<in> set (db_validations d)" and "validation_due now (du_validation u)"
    and "val_id (du_validation u) \<notin> locked"
  using assms by (auto simp: due_rows_def)

lemma running_validations_mark:
  assumes "unique_keys val_id (db_validations d)" and "v \<in> set (db_validations d)"
    and "val_status v \<noteq> ''running''"
  shows "running_validations (update_validation (val_id v) (mark_running w now) d) = Suc (running_validations d)"
proof -
  let ?g = "\<lambda>x. if val_status x = ''running'' then 1 else (0::int)"
  have "find_row val_id (val_id v) (db_validations d) = Some v"
    using find_row_member assms(1,2) .
  then have "int (running_validations (update_validation (val_id v) (mark_running w now) d))
      = int (running_validations d) - ?g v + ?g (mark_running w now v)"
    unfolding running_validations_def length_filter_sum update_validation_frame
    by (rule sum_list_update_row [OF assms(1)])
  then show ?thesis using assms(3) by (simp add: mark_running_def)
qed

lemma claim_validation_Some:
  assumes "claim_validation us repr n w locked now d = (d', Some c)"
  obtains u us' where "due_rows locked now (recover_validations us locked now d) = u # us'"
    and "running_validations (recover_validations us locked now d) < n"
    and "d' = update_validation (val_id (du_validation u)) (mark_running w now)
              (recover_validations us locked now d)"
    and "cv_id c = val_id (du_validation u)" and "c = claimed_of repr u"
  using assms by (auto simp: claim_validation_def claimed_of_def Let_def split: if_split_asm list.splits)

text \<open>
  A claim never takes the number of running validations above the limit. It takes the row
  that is first by due time and identifier among the rows due and not locked, which is
  neither waiting for a later time nor under a live lease; the row gets a fresh five-minute
  lease and one more attempt, and every validation under a live lease stays as it was.
\<close>

theorem claim_exclusive:
  assumes uniq: "unique_keys val_id (db_validations d)"
    and claim: "claim_validation us repr n w locked now d = (d', Some c)"
  shows "running_validations d' \<le> n
     \<and> (\<exists>u \<in> set (due_rows locked now (recover_validations us locked now d)).
          validation_due now (du_validation u) \<and> cv_id c = val_id (du_validation u) \<and> cv_id c \<notin> locked
          \<and> find_validation (cv_id c) d' = Some (mark_running w now (du_validation u))
          \<and> (\<forall>x \<in> set (due_rows locked now (recover_validations us locked now d)).
               (val_scheduled_for (du_validation u), val_id (du_validation u))
                 \<le> (val_scheduled_for (du_validation x), val_id (du_validation x))))
     \<and> (\<forall>v \<in> set (db_validations d). val_status v = ''running'' \<and> \<not> lease_over now (val_lease_expires_at v)
          \<longrightarrow> v \<in> set (db_validations d') \<and> val_id v \<noteq> cv_id c)"
proof -
  let ?d1 = "recover_validations us locked now d"
  obtain u us' where rows: "due_rows locked now ?d1 = u # us'" and room: "running_validations ?d1 < n"
    and d': "d' = update_validation (val_id (du_validation u)) (mark_running w now) ?d1"
    and c: "cv_id c = val_id (du_validation u)"
    using claim by (rule claim_validation_Some)
  have u: "u \<in> set (due_rows locked now ?d1)" using rows by simp
  note mem = due_rows_member [OF u]
  have uniq1: "unique_keys val_id (db_validations ?d1)"
    using uniq by (simp add: unique_keys_def recover_validations_def map_val_id_recover)
  have idle: "val_status (du_validation u) \<noteq> ''running''"
    using mem(2) by (auto simp: validation_due_def)
  have bound: "running_validations d' \<le> n"
    using running_validations_mark [OF uniq1 mem(1) idle] room by (simp add: d')
  have found: "find_validation (cv_id c) d' = Some (mark_running w now (du_validation u))"
    using find_row_member [OF uniq1 mem(1)]
    by (simp add: d' c find_validation_def row_table.get_put mark_running_def)
  have first: "\<forall>x \<in> set (due_rows locked now ?d1). (val_scheduled_for (du_validation u), val_id (du_validation u))
      \<le> (val_scheduled_for (du_validation x), val_id (du_validation x))"
  proof
    fix x assume "x \<in> set (due_rows locked now ?d1)"
    then show "(val_scheduled_for (du_validation u), val_id (du_validation u))
        \<le> (val_scheduled_for (du_validation x), val_id (du_validation x))"
      using rows unfolding due_rows_def set_sort by (intro sort_key_head)
  qed
  have others: "v \<in> set (db_validations d') \<and> val_id v \<noteq> cv_id c"
    if v: "v \<in> set (db_validations d)" and run: "val_status v = ''running''"
      and live: "\<not> lease_over now (val_lease_expires_at v)" for v
  proof -
    have "val_id v \<notin> val_id ` set (expired_validations locked now d)"
      using unique_keysD [OF uniq v] live by (auto simp: expired_validations_def)
    then have v1: "v \<in> set (db_validations ?d1)"
      unfolding recover_validations_def using v by (intro recover_keeps)
    have ne: "val_id v \<noteq> val_id (du_validation u)"
      using unique_keysD [OF uniq1 v1 mem(1)] run idle by blast
    with v1 show ?thesis by (simp add: d' c update_row_keeps)
  qed
  show ?thesis
  proof (intro conjI)
    show "\<exists>u \<in> set (due_rows locked now ?d1).
          validation_due now (du_validation u) \<and> cv_id c = val_id (du_validation u) \<and> cv_id c \<notin> locked
          \<and> find_validation (cv_id c) d' = Some (mark_running w now (du_validation u))
          \<and> (\<forall>x \<in> set (due_rows locked now ?d1).
               (val_scheduled_for (du_validation u), val_id (du_validation u))
                 \<le> (val_scheduled_for (du_validation x), val_id (du_validation x)))"
      using mem(2,3) c found first by (intro bexI [OF _ u]) simp
  qed (use bound others in auto)
qed

section \<open>Settling\<close>

lemma find_validation_update:
  "(\<And>v. val_id (f v) = val_id v) \<Longrightarrow> find_validation j (update_validation i f d) =
     (if j = i then map_option f (find_validation i d) else find_validation j d)"
  by (simp add: find_validation_def row_table.get_put)

lemma retry_delay_cases: "retry_delay a = (if a \<le> 1 then 5 else if a = 2 then 10 else if a = 3 then 20 else 30) * MINUTE"
  by (auto simp: retry_delay_def RETRY_MINUTES_def nat_eq_iff min_def max_def numeral_eq_Suc)

lemma retry_delay_mono: "a \<le> b \<Longrightarrow> retry_delay a \<le> retry_delay b"
  by (simp add: retry_delay_cases MINUTE_def)

text \<open>
  How a failed job is settled: an unavailable provider or a broken connection makes the
  validation wait 5, 10, 20 and then always 30 minutes, longer with every attempt, missing
  sessions make it wait for the next midnight; it is not due before that time and is due
  from then on. Invalid data and every other error end it, and it is never due again. In
  each case the lease is given up and the number of attempts stays.
\<close>

theorem settlement_schedule:
  assumes v: "find_validation i d = Some v"
  shows "\<exists>v'. find_validation i (settle_validation i now e d) = Some v'
     \<and> val_lease_expires_at v' = None \<and> val_attempts v' = val_attempts v
     \<and> (case settlement_of e of
          Terminal status code \<Rightarrow> val_status v' = status \<and> val_error_code v' = Some code
            \<and> (\<forall>t. \<not> validation_due t v')
        | Retry_later next_day code \<Rightarrow> val_status v' = ''retry_wait'' \<and> val_error_code v' = Some code
            \<and> (\<exists>t. val_next_attempt_at v' = Some t \<and> now < t
                 \<and> (if next_day then t = midnight (date_of now + 1) \<and> t \<le> now + DAY
                    else t - now \<in> {5 * MINUTE, 10 * MINUTE, 20 * MINUTE, 30 * MINUTE}
                      \<and> (\<forall>a \<le> val_attempts v. retry_delay a \<le> t - now))
                 \<and> (\<forall>s. validation_due s v' \<longleftrightarrow> t \<le> s)))"
proof (cases "settlement_of e")
  case (Terminal status code)
  then have "status \<in> {''unavailable'', ''failed''}" by (rule settlement_terminal)
  then have "\<not> validation_due t ((unleased v)\<lparr>val_status := status, val_error_code := Some code\<rparr>)" for t
    by (auto simp: validation_due_def)
  with v show ?thesis
    by (simp add: Terminal settle_validation_def terminal_error_def find_validation_update)
next
  case (Retry_later next_day code)
  define t where "t = (if next_day then midnight (date_of now + 1) else now + retry_delay (val_attempts v))"
  let ?v = "(unleased v)\<lparr>val_status := ''retry_wait'', val_next_attempt_at := Some t, val_error_code := Some code\<rparr>"
  have m: "midnight (date_of now + 1) \<le> now + DAY"
    using midnight_le [of now] by (simp add: midnight_def algebra_simps)
  have "now < t" using midnight_le [of now]
    by (simp add: t_def retry_delay_cases MINUTE_def)
  moreover have "if next_day then t = midnight (date_of now + 1) \<and> t \<le> now + DAY
      else t - now \<in> {5 * MINUTE, 10 * MINUTE, 20 * MINUTE, 30 * MINUTE}
        \<and> (\<forall>a \<le> val_attempts v. retry_delay a \<le> t - now)"
    using m retry_delay_mono [of _ "val_attempts v"] retry_delay_cases [of "val_attempts v"]
    by (simp add: t_def)
  moreover have "find_validation i (settle_validation i now e d) = Some ?v"
    using v by (simp add: Retry_later settle_validation_def retry_claimed_def find_validation_update t_def)
  moreover have "\<forall>s. validation_due s ?v \<longleftrightarrow> t \<le> s"
    by (simp add: validation_due_def after_wait_def)
  ultimately show ?thesis unfolding Retry_later settlement.case
    by (intro exI [of _ ?v] exI [of _ t] conjI) simp_all
qed

lemma finish_settles:
  assumes "find_validation (cv_id c) d = Some v" and "val_status v \<noteq> ''running''"
  obtains e where "snd (finish_validation env now c job (fs, d)) = settle_validation (cv_id c) now e d"
proof -
  have "complete_validation env now c out s d = Inl (RuntimeError ''claimed validation is no longer running'')" for out s
    using assms by (simp add: complete_validation_def)
  then have "\<exists>e. snd (finish_validation env now c job (fs, d)) = settle_validation (cv_id c) now e d"
    by (auto simp: finish_validation_def split: sum.split)
  then show ?thesis using that by blast
qed

text \<open>
  C38. A worker that ends its job late destroys the result of the worker that replaced it:
  when the claimed validation was completed meanwhile, whatever the late job produced, the
  validation is failed, unavailable or waiting afterwards, with an error code, although its
  returns and its artifact are still those of the completion. (The guard of \<open>_complete\<close> on
  the running status raises, and the handlers of \<open>run_once\<close> that settle that exception
  check neither the status nor the owner of the row.)
\<close>

theorem late_worker_overwrites:
  assumes "find_validation (cv_id c) d = Some v" and "val_status v = ''completed''"
  shows "\<exists>v' e. find_validation (cv_id c) (snd (finish_validation env now c job (fs, d))) = Some v'
     \<and> val_status v' \<in> {''failed'', ''unavailable'', ''retry_wait''}
     \<and> val_error_code v' = Some e
     \<and> val_raw_return v' = val_raw_return v \<and> val_data_artifact v' = val_data_artifact v
     \<and> val_observed_at v' = val_observed_at v"
proof -
  from assms(2) have nr: "val_status v \<noteq> ''running''" by simp
  obtain e where fin: "snd (finish_validation env now c job (fs, d)) = settle_validation (cv_id c) now e d"
    by (rule finish_settles [OF assms(1) nr])
  show ?thesis
  proof (cases "settlement_of e")
    case (Terminal status code)
    then have "status \<in> {''unavailable'', ''failed''}" by (rule settlement_terminal)
    then show ?thesis unfolding fin using assms(1)
      by (auto simp: Terminal settle_validation_def terminal_error_def find_validation_update unleased_def)
  next
    case (Retry_later next_day code)
    then show ?thesis unfolding fin using assms(1)
      by (simp add: settle_validation_def retry_claimed_def find_validation_update unleased_def)
  qed
qed

section \<open>Scheduling\<close>

lemma insert_validation_frame [simp]:
  "db_runs (insert_validation rid h due ver sch d) = db_runs d"
  "db_requests (insert_validation rid h due ver sch d) = db_requests d"
  "db_instruments (insert_validation rid h due ver sch d) = db_instruments d"
  "db_decisions (insert_validation rid h due ver sch d) = db_decisions d"
  "db_bases (insert_validation rid h due ver sch d) = db_bases d"
  by (simp_all add: insert_validation_def)

lemma insert_basis_frame [simp]:
  "db_runs (insert_basis now rid t d) = db_runs d"
  "db_requests (insert_basis now rid t d) = db_requests d"
  "db_instruments (insert_basis now rid t d) = db_instruments d"
  "db_decisions (insert_basis now rid t d) = db_decisions d"
  "db_validations (insert_basis now rid t d) = db_validations d"
  by (simp_all add: insert_basis_def)

lemma insert_horizons_frame:
  "insert_horizons xnys ver rid i ad hs d = Inr d' \<Longrightarrow>
     db_runs d' = db_runs d \<and> db_requests d' = db_requests d \<and> db_instruments d' = db_instruments d
     \<and> db_decisions d' = db_decisions d \<and> db_bases d' = db_bases d"
  by (induction hs arbitrary: d) (auto elim!: bind_resultE)

definition scheduled_row :: "nat \<Rightarrow> int set \<Rightarrow> validation \<Rightarrow> bool" where
  "scheduled_row rid hs v \<longleftrightarrow> val_run v = rid \<and> val_horizon v \<in> hs \<and> val_status v = ''scheduled''
     \<and> val_attempts v = 0"

definition has_horizon :: "nat \<Rightarrow> int \<Rightarrow> db \<Rightarrow> bool" where
  "has_horizon rid h d \<longleftrightarrow> (\<exists>v \<in> set (db_validations d). val_run v = rid \<and> val_horizon v = h)"

lemma insert_validation_cases:
  "(has_horizon rid h d \<and> db_validations (insert_validation rid h due ver sch d) = db_validations d)
   \<or> (\<not> has_horizon rid h d \<and> (\<exists>v. db_validations (insert_validation rid h due ver sch d) = db_validations d @ [v]
        \<and> scheduled_row rid {h} v))"
  by (auto simp: insert_validation_def has_horizon_def list_ex_iff scheduled_row_def new_validation_def)

lemma insert_horizons_adds:
  "insert_horizons xnys ver rid i ad hs d = Inr d' \<Longrightarrow>
     \<exists>new. db_validations d' = db_validations d @ new \<and> list_all (scheduled_row rid (set hs)) new
       \<and> (\<forall>h \<in> set hs. has_horizon rid h d')"
proof (induction hs arbitrary: d)
  case (Cons h hs)
  let ?ver = "if ver = ''validation.v2'' then ver else ''validation.v1''"
  from Cons.prems obtain due sch where
    rest: "insert_horizons xnys ver rid i ad hs (insert_validation rid h due ?ver sch d) = Inr d'"
    by (auto elim!: bind_resultE)
  let ?d1 = "insert_validation rid h due ?ver sch d"
  from Cons.IH [OF rest] obtain new where new: "db_validations d' = db_validations ?d1 @ new"
    and rows: "list_all (scheduled_row rid (set hs)) new" and all: "\<forall>h \<in> set hs. has_horizon rid h d'"
    by blast
  have rows': "list_all (scheduled_row rid (set (h # hs))) new"
    using rows by (auto simp: list_all_iff scheduled_row_def)
  from insert_validation_cases [of rid h d due ?ver sch] show ?case
  proof (elim disjE conjE exE)
    assume "has_horizon rid h d" and "db_validations ?d1 = db_validations d"
    with new rows' all show ?thesis by (intro exI [of _ new]) (auto simp: has_horizon_def)
  next
    fix v assume "db_validations ?d1 = db_validations d @ [v]" and v: "scheduled_row rid {h} v"
    with new rows' all show ?thesis
      by (intro exI [of _ "v # new"]) (auto simp: has_horizon_def scheduled_row_def list_all_iff)
  qed
qed simp

lemma insert_horizons_again:
  assumes "insert_horizons xnys ver rid i ad hs d = Inr d'" and "\<forall>h \<in> set hs. has_horizon rid h e"
  shows "\<exists>e'. insert_horizons xnys ver rid i ad hs e = Inr e' \<and> db_validations e' = db_validations e
     \<and> db_bases e' = db_bases e"
  using assms
proof (induction hs arbitrary: d e)
  case (Cons h hs)
  let ?ver = "if ver = ''validation.v2'' then ver else ''validation.v1''"
  from Cons.prems(1) obtain due sch where t: "due_time xnys ver i ad h = Inr (due, sch)" and
    rest: "insert_horizons xnys ver rid i ad hs (insert_validation rid h due ?ver sch d) = Inr d'"
    by (auto elim!: bind_resultE)
  have same: "db_validations (insert_validation rid h due ?ver sch e) = db_validations e"
    using insert_validation_cases [of rid h e due ?ver sch] Cons.prems(2) by auto
  have "\<forall>h \<in> set hs. has_horizon rid h (insert_validation rid h' due ?ver sch e)"
    if "db_validations (insert_validation rid h' due ?ver sch e) = db_validations e" for h'
    using Cons.prems(2) that by (simp add: has_horizon_def)
  from Cons.IH [OF rest this [OF same]] same show ?case by (auto simp: t)
qed simp

lemma decided_rows_cong:
  "db_runs d' = db_runs d \<Longrightarrow> db_requests d' = db_requests d \<Longrightarrow> db_instruments d' = db_instruments d
     \<Longrightarrow> db_decisions d' = db_decisions d \<Longrightarrow> decided_rows rid d' = decided_rows rid d"
  by (simp add: decided_rows_def cong: if_cong)

lemma schedule_validations_cases:
  assumes "schedule_validations us xnys now ver rid hs pr req d = Inr (d', vs)"
  obtains r q i c rest d2 where "decided_rows rid d = (r, q, i, c) # rest" and "run_status r = SUCCEEDED"
    and "insert_horizons xnys ver rid i (req_analysis_date q) hs
          (case dec_price_target c of Some t \<Rightarrow> if ver = ''validation.v2'' then insert_basis now rid t d else d
             | None \<Rightarrow> d) = Inr d2"
    and "d' = append_audit pr ''validation.schedule'' ''assessment_run'' (us rid) req
        [(''horizons'', JList (map JInt hs))] d2"
    and "vs = filter (\<lambda>v. val_horizon v \<in> set hs) (run_validations rid d')"
proof -
  from assms obtain r q i c rest where rows: "decided_rows rid d = (r, q, i, c) # rest"
    and st: "run_status r = SUCCEEDED"
    by (auto simp: schedule_validations_def split: list.splits if_split_asm)
  from assms show thesis
    by (auto simp: schedule_validations_def rows st Let_def elim!: bind_resultE intro: that [OF rows st])
qed

text \<open>
  Scheduling is idempotent: it succeeds only for a successful run, keeps every existing
  validation, adds only fresh scheduled rows of the requested horizons, and afterwards each
  requested horizon has its row; doing it again at any later time, with the same horizons,
  succeeds and changes no validation and no price basis.
\<close>

theorem schedule_idempotent:
  assumes "schedule_validations us xnys now ver rid hs pr req d = Inr (d1, vs)"
  shows "(\<exists>r \<in> set (db_runs d). run_id r = rid \<and> run_status r = SUCCEEDED)
     \<and> (\<exists>new. db_validations d1 = db_validations d @ new \<and> list_all (scheduled_row rid (set hs)) new)
     \<and> (\<forall>h \<in> set hs. \<exists>v \<in> set vs. val_run v = rid \<and> val_horizon v = h)
     \<and> (\<exists>d2. schedule_validations us xnys now' ver rid hs pr' req' d1 = Inr (d2, vs)
          \<and> db_validations d2 = db_validations d1 \<and> db_bases d2 = db_bases d1)"
proof -
  obtain r q i c rest d2 where rows: "decided_rows rid d = (r, q, i, c) # rest" and st: "run_status r = SUCCEEDED"
    and ins: "insert_horizons xnys ver rid i (req_analysis_date q) hs
          (case dec_price_target c of Some t \<Rightarrow> if ver = ''validation.v2'' then insert_basis now rid t d else d
             | None \<Rightarrow> d) = Inr d2"
    and d1: "d1 = append_audit pr ''validation.schedule'' ''assessment_run'' (us rid) req
        [(''horizons'', JList (map JInt hs))] d2"
    and vs: "vs = filter (\<lambda>v. val_horizon v \<in> set hs) (run_validations rid d1)"
    using assms by (rule schedule_validations_cases)
  let ?p = "case dec_price_target c of Some t \<Rightarrow> if ver = ''validation.v2'' then insert_basis now rid t d else d
             | None \<Rightarrow> d"
  have "r \<in> set (db_runs d) \<and> run_id r = rid"
    using arg_cong [OF rows, of set] by (auto simp: decided_rows_def)
  moreover have pv: "db_validations ?p = db_validations d" by (simp split: option.split)
  from insert_horizons_adds [OF ins] obtain new where new: "db_validations d2 = db_validations d @ new"
    and fresh: "list_all (scheduled_row rid (set hs)) new" and all: "\<forall>h \<in> set hs. has_horizon rid h d2"
    unfolding pv by blast
  moreover have "\<forall>h \<in> set hs. \<exists>v \<in> set vs. val_run v = rid \<and> val_horizon v = h"
    using all by (fastforce simp: vs run_validations_def has_horizon_def d1)
  moreover have "\<exists>e. schedule_validations us xnys now' ver rid hs pr' req' d1 = Inr (e, vs)
          \<and> db_validations e = db_validations d1 \<and> db_bases e = db_bases d1"
  proof -
    have frame: "db_runs ?p = db_runs d \<and> db_requests ?p = db_requests d
        \<and> db_instruments ?p = db_instruments d \<and> db_decisions ?p = db_decisions d"
      by (simp split: option.split)
    have rows1: "decided_rows rid d1 = (r, q, i, c) # rest"
      using insert_horizons_frame [OF ins] frame rows by (subst decided_rows_cong [of _ d]) (simp_all add: d1)
    let ?e = "case dec_price_target c of Some t \<Rightarrow> if ver = ''validation.v2'' then insert_basis now' rid t d1 else d1
             | None \<Rightarrow> d1"
    have bases: "db_bases ?e = db_bases d1"
    proof (cases "dec_price_target c")
      case (Some t)
      have "ver = ''validation.v2'' \<Longrightarrow> list_ex (\<lambda>b. pb_run b = rid) (db_bases d1)"
        using insert_horizons_frame [OF ins] by (auto simp: Some d1 insert_basis_def)
      then show ?thesis by (simp add: Some insert_basis_def)
    qed simp
    have vals: "db_validations ?e = db_validations d1" by (simp split: option.split)
    have "\<forall>h \<in> set hs. has_horizon rid h ?e"
      using all vals by (simp add: has_horizon_def d1)
    from insert_horizons_again [OF ins this] obtain e' where
      e': "insert_horizons xnys ver rid i (req_analysis_date q) hs ?e = Inr e'"
      and v': "db_validations e' = db_validations d1" and b': "db_bases e' = db_bases d1"
      using vals bases by metis
    let ?r = "append_audit pr' ''validation.schedule'' ''assessment_run'' (us rid) req'
        [(''horizons'', JList (map JInt hs))] e'"
    have "schedule_validations us xnys now' ver rid hs pr' req' d1 = Inr (?r, vs)"
      using e' v' by (simp add: schedule_validations_def rows1 st vs run_validations_def)
    then show ?thesis using v' b' by (intro exI [of _ ?r]) simp
  qed
  ultimately show ?thesis using st by (auto simp: d1)
qed

section \<open>A concrete state\<close>

definition late_instrument :: instrument where
  "late_instrument = \<lparr>ins_id = 3, ins_ticker = ''BTC-USD'', ins_asset_type = ''crypto'',
     ins_exchange = None, ins_name = None, ins_metadata = []\<rparr>"

definition late_run :: run where
  "late_run = \<lparr>run_id = 1, run_request = 2, run_attempt = 1, run_status = SUCCEEDED,
     run_snapshot = None, run_retry_of = None, run_clean_of = None, run_version = 9,
     run_created_at = 0, run_admitted_at = None, run_started_at = None, run_finished_at = None,
     run_error_code = None, run_error_summary = None\<rparr>"

definition late_start :: db where
  "late_start = empty_db\<lparr>db_instruments := [late_instrument],
     db_requests := [\<lparr>req_id = 2, req_batch = 4, req_instrument = 3, req_analysis_date = 719163,
        req_config = []\<rparr>],
     db_runs := [late_run],
     db_decisions := [\<lparr>dec_id = 5, dec_run = 1, dec_rating = ''Buy'', dec_executive_summary = [],
        dec_investment_thesis = [], dec_price_target = None, dec_time_horizon = None\<rparr>]\<rparr>"

definition late_principal :: principal where
  "late_principal = SYSTEM_VALIDATION_PRINCIPAL"

definition late_schedule :: "(db \<times> validation list) result" where
  "late_schedule = schedule_validations nat_digits no_calendar 0 ''validation.v2'' 1 [1, 5] late_principal ''q'' late_start"

definition late_scheduled :: db where
  "late_scheduled = (case late_schedule of Inr (d, _) \<Rightarrow> d | Inl _ \<Rightarrow> late_start)"

text \<open>Worker A claims on the tenth day, worker B six minutes later; B completes, then A ends.\<close>

definition claim_a :: "db \<times> claimed_validation option" where
  "claim_a = claim_validation nat_digits json_dumps 2 ''a'' {} (10 * DAY) late_scheduled"

definition claim_b :: "db \<times> claimed_validation option" where
  "claim_b = claim_validation nat_digits json_dumps 2 ''b'' {} (10 * DAY + 6 * MINUTE) (fst claim_a)"

definition late_env :: job_env where
  "late_env = \<lparr>je_uuid = nat_digits, je_show = (\<lambda>_. []), je_sha = id, je_root = [''srv''],
     je_series = (\<lambda>_. []), je_provider = (\<lambda>_. []), je_canonical = (\<lambda>_. []), je_iso = nat_digits \<circ> nat\<rparr>"

definition late_series :: price_series where
  "late_series = \<lparr>ps_ticker = ''BTC-USD'', ps_sessions = [], ps_open = [], ps_high = [], ps_low = [],
     ps_close = [], ps_adjusted_close = []\<rparr>"

definition late_output :: job_output where
  "late_output = Output_v1 late_series late_series \<lparr>o1_raw_return = 0, o1_benchmark_return = 0,
     o1_alpha = 0, o1_mae = 0, o1_mfe = 0, o1_entry_session = 719163, o1_exit_session = 719164,
     o1_trigger_results = []\<rparr>"

definition finish_by :: "claimed_validation option \<Rightarrow> files \<times> db \<Rightarrow> files \<times> db" where
  "finish_by c w = (case c of None \<Rightarrow> w
     | Some x \<Rightarrow> finish_validation late_env (10 * DAY + 7 * MINUTE) x (Inr late_output) w)"

definition status_of :: "nat \<Rightarrow> db \<Rightarrow> (string \<times> string option) option" where
  "status_of i d = map_option (\<lambda>v. (val_status v, val_error_code v)) (find_validation i d)"

text \<open>The validation that both workers claim has the identifier 0, the first one drawn.\<close>

lemma late_worker_trace:
  "status_of 0 late_scheduled = Some (''scheduled'', None)
   \<and> status_of 0 (fst claim_a) = Some (''running'', None)
   \<and> map_option cv_id (snd claim_a) = Some 0 \<and> map_option cv_id (snd claim_b) = Some 0
   \<and> status_of 0 (snd (finish_by (snd claim_b) (Map.empty, fst claim_b))) = Some (''completed'', None)
   \<and> status_of 0 (snd (finish_by (snd claim_a) (finish_by (snd claim_b) (Map.empty, fst claim_b))))
      = Some (''failed'', Some ''calculation_error'')"
  by code_simp

lemma late_schedule_eq: "late_schedule = Inr (late_scheduled, snd (projr late_schedule))"
proof -
  have "case late_schedule of Inr _ \<Rightarrow> True | Inl _ \<Rightarrow> False" by code_simp
  then obtain d vs where e: "late_schedule = Inr (d, vs)" by (auto split: sum.splits)
  have "late_scheduled = d" unfolding late_scheduled_def e by simp
  moreover have "snd (projr late_schedule) = vs" unfolding e by simp
  ultimately show ?thesis using e by metis
qed

lemma schedule_idempotent_witness:
  "(\<exists>r \<in> set (db_runs late_start). run_id r = 1 \<and> run_status r = SUCCEEDED)
   \<and> (\<exists>v \<in> set (snd (projr late_schedule)). val_run v = 1 \<and> val_horizon v = 5)"
  using schedule_idempotent [OF late_schedule_eq [unfolded late_schedule_def [abs_def]]]
  by (fold late_schedule_def) simp

lemma validation_lifecycle_witness:
  "val_status (hd (db_validations late_scheduled)) \<in> set VALIDATION_STATUSES
   \<and> (val_status (hd (db_validations late_scheduled)) = ''running'' \<longleftrightarrow>
        leased (val_claimed_at (hd (db_validations late_scheduled)))
          (val_lease_expires_at (hd (db_validations late_scheduled)))
          (val_worker_instance (hd (db_validations late_scheduled))))"
proof -
  have "jobs_init late_start" by code_simp
  then have "reach jobs_init job_step late_start" by (rule reach_init)
  moreover have "job_step late_start late_scheduled"
    using late_schedule_eq unfolding late_schedule_def by (rule step_schedule)
  ultimately have r: "reach jobs_init job_step late_scheduled" by (rule reach_step)
  have "db_validations late_scheduled \<noteq> []" by code_simp
  then have "hd (db_validations late_scheduled) \<in> set (db_validations late_scheduled)" by simp
  from validation_lifecycle [OF r this] show ?thesis by blast
qed

lemma claim_exclusive_witness: "running_validations (fst claim_a) \<le> 2"
proof -
  have u: "unique_keys val_id (db_validations late_scheduled)" by code_simp
  have "snd claim_a \<noteq> None" by code_simp
  then obtain c where "claim_a = (fst claim_a, Some c)" by (metis prod.collapse not_None_eq)
  then have "claim_validation nat_digits json_dumps 2 ''a'' {} (10 * DAY) late_scheduled = (fst claim_a, Some c)"
    by (simp add: claim_a_def)
  from claim_exclusive [OF u this] show ?thesis by blast
qed

lemma settlement_schedule_witness:
  "\<exists>v'. find_validation 0 (settle_validation 0 (10 * DAY) (NetworkError ''reset'') (fst claim_a)) = Some v'
     \<and> val_status v' = ''retry_wait'' \<and> val_attempts v' = 1"
proof -
  have "map_option val_attempts (find_validation 0 (fst claim_a)) = Some 1" by code_simp
  then obtain v where v: "find_validation 0 (fst claim_a) = Some v" and a: "val_attempts v = 1" by auto
  from settlement_schedule [OF v, of "10 * DAY" "NetworkError ''reset''"] a show ?thesis by auto
qed

lemma late_worker_overwrites_witness:
  "\<exists>v' e. find_validation 0 (snd (finish_by (snd claim_a) (finish_by (snd claim_b) (Map.empty, fst claim_b)))) = Some v'
     \<and> val_status v' \<in> {''failed'', ''unavailable'', ''retry_wait''} \<and> val_error_code v' = Some e"
proof -
  obtain fs d where w: "finish_by (snd claim_b) (Map.empty, fst claim_b) = (fs, d)" by fastforce
  have "status_of 0 d = Some (''completed'', None)" using late_worker_trace w by simp
  then obtain v where v: "find_validation 0 d = Some v" "val_status v = ''completed''"
    by (auto simp: status_of_def)
  from late_worker_trace obtain c where c: "snd claim_a = Some c" and "cv_id c = 0" by auto
  moreover have "finish_by (Some c) (fs, d)
      = finish_validation late_env (10 * DAY + 7 * MINUTE) c (Inr late_output) (fs, d)"
    by (simp add: finish_by_def)
  ultimately show ?thesis unfolding w c
    using late_worker_overwrites [of c d v late_env "10 * DAY + 7 * MINUTE" "Inr late_output" fs] v by auto
qed

end
