(* ===== verification/RunRepo.thy ===== *)
theory RunRepo
  imports Admission ValidationJobs
begin

text \<open>
  The repository of assessments (\<open>assessments/repository.py\<close>): contexts and views of runs,
  the creation of runs, retries and clean reassessments, the deletion of a run's graph of
  rows, and the paged listings. A join is a list comprehension over the tables.
\<close>

section \<open>Contexts and views\<close>

record run_context =
  rc_run :: run
  rc_request :: request
  rc_instrument :: instrument
  rc_batch :: batch
  rc_owner :: user

record run_view =
  rv_id :: nat
  rv_request_id :: nat
  rv_ticker :: string
  rv_instrument_name :: "string option"
  rv_exchange :: "string option"
  rv_asset_type :: string
  rv_analysis_date :: int
  rv_status :: run_status
  rv_attempt :: int
  rv_created_at :: int

definition run_view_of :: "run \<times> request \<times> instrument \<Rightarrow> run_view" where
  "run_view_of rqi = (case rqi of (r, q, i) \<Rightarrow>
     \<lparr>rv_id = run_id r, rv_request_id = req_id q, rv_ticker = ins_ticker i,
      rv_instrument_name = ins_name i, rv_exchange = ins_exchange i,
      rv_asset_type = ins_asset_type i, rv_analysis_date = req_analysis_date q,
      rv_status = run_status r, rv_attempt = run_attempt r, rv_created_at = run_created_at r\<rparr>)"

definition context_rows :: "nat \<Rightarrow> db \<Rightarrow> run_context list" where
  "context_rows rid d = [\<lparr>rc_run = r, rc_request = q, rc_instrument = i, rc_batch = b, rc_owner = u\<rparr>.
     (r, q, i) \<leftarrow> run_rows d, run_id r = rid, b \<leftarrow> db_batches d, req_batch q = bat_id b,
     u \<leftarrow> db_users d, bat_submitted_by b = usr_id u]"

definition get_run_context :: "nat \<Rightarrow> db \<Rightarrow> run_context option" where
  "get_run_context rid d = (case context_rows rid d of [] \<Rightarrow> None | c # _ \<Rightarrow> Some c)"

definition get_run :: "nat \<Rightarrow> db \<Rightarrow> run_view option" where
  "get_run rid d = (case filter (\<lambda>(r, q, i). run_id r = rid) (run_rows d) of
     [] \<Rightarrow> None | x # _ \<Rightarrow> Some (run_view_of x))"

definition creation_key :: "run \<times> request \<times> instrument \<Rightarrow> int \<times> nat" where
  "creation_key rqi = (case rqi of (r, q, i) \<Rightarrow> (run_created_at r, run_id r))"

definition list_batch_runs :: "nat \<Rightarrow> db \<Rightarrow> run_view list" where
  "list_batch_runs bid d = map run_view_of
     (sort_key creation_key (filter (\<lambda>(r, q, i). req_batch q = bid) (run_rows d)))"

definition find_batch_id :: "nat \<Rightarrow> string \<Rightarrow> db \<Rightarrow> batch option" where
  "find_batch_id uid key d =
     find (\<lambda>b. bat_submitted_by b = uid \<and> bat_idempotency_key b = key) (db_batches d)"

definition find_batch :: "nat \<Rightarrow> string \<Rightarrow> db \<Rightarrow> run_view list option" where
  "find_batch uid key d = map_option (\<lambda>b. list_batch_runs (bat_id b) d) (find_batch_id uid key d)"

definition get_batch_submission_hash :: "nat \<Rightarrow> string \<Rightarrow> db \<Rightarrow> json option" where
  "get_batch_submission_hash uid key d =
     (case find_batch_id uid key d of None \<Rightarrow> None
      | Some b \<Rightarrow> dict_get ''_submission_sha256'' (bat_defaults b))"

section \<open>Creation\<close>

record data_requirement =
  dq_provider_request_id :: string
  dq_external_request_key :: string
  dq_required_products :: "string list"
  dq_progress :: dict

definition add_request :: "nat \<Rightarrow> nat \<Rightarrow> int \<Rightarrow> dict \<Rightarrow> db \<Rightarrow> db \<times> request" where
  "add_request bid iid analysis_date config d =
     (let q = \<lparr>req_id = uuid4 d, req_batch = bid, req_instrument = iid,
            req_analysis_date = analysis_date, req_config = config\<rparr>
      in ((drawn d)\<lparr>db_requests := db_requests d @ [q]\<rparr>, q))"

definition add_run ::
    "int \<Rightarrow> nat \<Rightarrow> int \<Rightarrow> run_status \<Rightarrow> nat option \<Rightarrow> nat option \<Rightarrow> db \<Rightarrow> db \<times> run" where
  "add_run now qid attempt status retry_of clean_of d =
     (let r = \<lparr>run_id = uuid4 d, run_request = qid, run_attempt = attempt, run_status = status,
            run_snapshot = None, run_retry_of = retry_of, run_clean_of = clean_of,
            run_version = 1, run_created_at = now, run_admitted_at = None, run_started_at = None,
            run_finished_at = None, run_error_code = None, run_error_summary = None\<rparr>
      in ((drawn d)\<lparr>db_runs := db_runs d @ [r]\<rparr>, r))"

definition add_requirement :: "int \<Rightarrow> nat \<Rightarrow> data_requirement \<Rightarrow> db \<Rightarrow> db" where
  "add_requirement now rid q d = (drawn d)\<lparr>db_requirements := db_requirements d @
     [\<lparr>dr_id = uuid4 d, dr_run = rid, dr_provider_request_id = dq_provider_request_id q,
       dr_external_request_key = dq_external_request_key q,
       dr_required_products = dq_required_products q, dr_status = ''waiting'',
       dr_progress = dq_progress q, dr_manifest_snapshot_id = None, dr_manifest_sha256 = None,
       dr_next_poll_at = Some now, dr_lease_owner = None, dr_lease_expires_at = None,
       dr_fingerprint = None, dr_version = 1, dr_created_at = now\<rparr>]\<rparr>"

text \<open>
  The part the three creations share: the requirement and the first event of the run, whose
  payload has the progress after the given pairs.
\<close>

definition open_run :: "int \<Rightarrow> nat \<Rightarrow> data_requirement option \<Rightarrow> dict \<Rightarrow> db \<Rightarrow> db" where
  "open_run now rid requirement payload d =
     (case requirement of
        None \<Rightarrow> append_event now rid ''assessment.queued'' payload d
      | Some q \<Rightarrow> append_event now rid ''assessment.waiting_for_data''
          (payload @ [(''progress'', JObj (dq_progress q))]) (add_requirement now rid q d))"

definition create_request_and_run ::
    "int \<Rightarrow> nat \<Rightarrow> nat \<Rightarrow> int \<Rightarrow> dict \<Rightarrow> run_status \<Rightarrow> data_requirement option \<Rightarrow> db \<Rightarrow> db \<times> run" where
  "create_request_and_run now bid iid analysis_date config status requirement d =
     (case add_request bid iid analysis_date config d of (d1, q) \<Rightarrow>
      case add_run now (req_id q) 1 status None None d1 of (d2, r) \<Rightarrow>
        (open_run now (run_id r) requirement [] d2, r))"

definition create_retry ::
    "(nat \<Rightarrow> string) \<Rightarrow> int \<Rightarrow> run_context \<Rightarrow> dict option \<Rightarrow> run_status \<Rightarrow> data_requirement option \<Rightarrow> db
       \<Rightarrow> db \<times> run" where
  "create_retry uuid_str now c config status requirement d =
     (case add_request (req_batch (rc_request c)) (req_instrument (rc_request c))
         (req_analysis_date (rc_request c))
         (case config of Some x \<Rightarrow> x | None \<Rightarrow> req_config (rc_request c)) d of (d1, q) \<Rightarrow>
      case add_run now (req_id q) (run_attempt (rc_run c) + 1) status (Some (run_id (rc_run c))) None d1
      of (d2, r) \<Rightarrow>
        (open_run now (run_id r) requirement
           [(''retry_of_run_id'', JStr (uuid_str (run_id (rc_run c))))] d2, r))"

definition clean_defaults :: "(nat \<Rightarrow> string) \<Rightarrow> run_context \<Rightarrow> string \<Rightarrow> dict" where
  "clean_defaults uuid_str c policy =
     dict_update (dict_pop ''_submission_sha256'' (bat_defaults (rc_batch c)))
       [(''memory_mode'', JStr ''independent''),
        (''clean_reassessment_of_run_id'', JStr (uuid_str (run_id (rc_run c)))),
        (''integrity_policy_version'', JStr policy)]"

definition create_clean_reassessment ::
    "(nat \<Rightarrow> string) \<Rightarrow> int \<Rightarrow> run_context \<Rightarrow> string \<Rightarrow> dict \<Rightarrow> run_status \<Rightarrow> data_requirement option \<Rightarrow> db
       \<Rightarrow> db \<times> run_view" where
  "create_clean_reassessment uuid_str now c policy config status requirement d =
     (let b = \<lparr>bat_id = uuid4 d, bat_submitted_by = usr_id (rc_owner c),
            bat_idempotency_key = ''clean-'' @ uuid_str (run_id (rc_run c)) @ ''-'' @ policy,
            bat_defaults = clean_defaults uuid_str c policy\<rparr>;
          d0 = (drawn d)\<lparr>db_batches := db_batches d @ [b]\<rparr>
      in case add_request (bat_id b) (req_instrument (rc_request c))
           (req_analysis_date (rc_request c)) config d0 of (d1, q) \<Rightarrow>
         case add_run now (req_id q) 1 status None (Some (run_id (rc_run c))) d1 of (d2, r) \<Rightarrow>
           (open_run now (run_id r) requirement
              [(''clean_reassessment_of_run_id'', JStr (uuid_str (run_id (rc_run c)))),
               (''integrity_policy_version'', JStr policy)] d2,
            run_view_of (r, q, rc_instrument c)))"

definition find_clean_reassessment :: "nat \<Rightarrow> db \<Rightarrow> run_view option" where
  "find_clean_reassessment source d =
     (case sort_key creation_key (filter (\<lambda>(r, q, i). run_clean_of r = Some source) (run_rows d)) of
        [] \<Rightarrow> None | x # _ \<Rightarrow> Some (run_view_of x))"

section \<open>Deletion\<close>

definition find_dependent_run_ids :: "nat \<Rightarrow> db \<Rightarrow> nat list" where
  "find_dependent_run_ids rid d = map run_id (sort_key (\<lambda>r. (run_created_at r, run_id r))
     (filter (\<lambda>r. run_retry_of r = Some rid \<or> run_clean_of r = Some rid) (db_runs d)))"

definition has_active_work :: "nat \<Rightarrow> db \<Rightarrow> bool" where
  "has_active_work rid d \<longleftrightarrow> list_ex (\<lambda>l. ls_run l = rid) (db_leases d)
     \<or> list_ex (\<lambda>v. val_run v = rid \<and> val_status v = ''running'') (db_validations d)
     \<or> list_ex (\<lambda>b. pb_run b = rid \<and> pb_status b = ''running'') (db_bases d)"

definition run_event_ids :: "nat \<Rightarrow> db \<Rightarrow> nat set" where
  "run_event_ids rid d = ev_id ` set (filter (\<lambda>e. ev_run e = rid) (db_events d))"

text \<open>The fourteen deletions that name the run, in the order of the foreign keys.\<close>

definition delete_run_rows :: "nat \<Rightarrow> db \<Rightarrow> db" where
  "delete_run_rows rid d = d\<lparr>
     db_deliveries := delete_where (\<lambda>x. dl_event x \<in> run_event_ids rid d) (db_deliveries d),
     db_integrity := delete_where (\<lambda>x. itg_run x = rid) (db_integrity d),
     db_validations := delete_where (\<lambda>x. val_run x = rid) (db_validations d),
     db_bases := delete_where (\<lambda>x. pb_run x = rid) (db_bases d),
     db_evidence := delete_where (\<lambda>x. evd_run x = rid) (db_evidence d),
     db_reviews := delete_where (\<lambda>x. rvw_run x = rid) (db_reviews d),
     db_comments := delete_where (\<lambda>x. cmt_run x = rid) (db_comments d),
     db_decisions := delete_where (\<lambda>x. dec_run x = rid) (db_decisions d),
     db_leases := delete_where (\<lambda>x. ls_run x = rid) (db_leases d),
     db_steps := delete_where (\<lambda>x. st_run x = rid) (db_steps d),
     db_artifacts := delete_where (\<lambda>x. art_run x = rid) (db_artifacts d),
     db_events := delete_where (\<lambda>x. ev_run x = rid) (db_events d),
     db_requirements := delete_where (\<lambda>x. dr_run x = rid) (db_requirements d),
     db_runs := delete_where (\<lambda>x. run_id x = rid) (db_runs d)\<rparr>"

definition delete_request_rows :: "nat \<Rightarrow> nat \<Rightarrow> db \<Rightarrow> db" where
  "delete_request_rows qid bid d =
     (if list_ex (\<lambda>r. run_request r = qid) (db_runs d) then d
      else let d1 = d\<lparr>db_requests := delete_where (\<lambda>q. req_id q = qid) (db_requests d)\<rparr>
           in if list_ex (\<lambda>q. req_batch q = bid) (db_requests d1) then d1
              else d1\<lparr>db_batches := delete_where (\<lambda>b. bat_id b = bid) (db_batches d1)\<rparr>)"

definition delete_snapshot_row :: "nat option \<Rightarrow> db \<Rightarrow> db" where
  "delete_snapshot_row snapshot d =
     (case snapshot of None \<Rightarrow> d
      | Some sid \<Rightarrow> (if list_ex (\<lambda>r. run_snapshot r = Some sid) (db_runs d) then d
          else d\<lparr>db_snapshots := delete_where (\<lambda>s. cfg_id s = sid) (db_snapshots d)\<rparr>))"

definition delete_assessment_graph :: "run_context \<Rightarrow> db \<Rightarrow> db" where
  "delete_assessment_graph c d =
     delete_snapshot_row (run_snapshot (rc_run c))
       (delete_request_rows (req_id (rc_request c)) (req_batch (rc_request c))
         (delete_run_rows (run_id (rc_run c)) d))"

text \<open>The numbers of deleted rows, as the audit event reports them.\<close>

definition count_where :: "('a \<Rightarrow> bool) \<Rightarrow> 'a list \<Rightarrow> json" where
  "count_where P t = JInt (int (length (filter P t)))"

definition deletion_counts :: "run_context \<Rightarrow> db \<Rightarrow> dict" where
  "deletion_counts c d =
     (let rid = run_id (rc_run c); qid = req_id (rc_request c); bid = req_batch (rc_request c);
          d1 = delete_run_rows rid d; d2 = delete_request_rows qid bid d1;
          free_request = \<not> list_ex (\<lambda>r. run_request r = qid) (db_runs d1);
          free_batch = \<not> list_ex (\<lambda>q. req_batch q = bid) (db_requests d2)
      in [(''webhook_deliveries'', count_where (\<lambda>x. dl_event x \<in> run_event_ids rid d) (db_deliveries d)),
          (''integrity_assessments'', count_where (\<lambda>x. itg_run x = rid) (db_integrity d)),
          (''validations'', count_where (\<lambda>x. val_run x = rid) (db_validations d)),
          (''decision_price_bases'', count_where (\<lambda>x. pb_run x = rid) (db_bases d)),
          (''evidence_items'', count_where (\<lambda>x. evd_run x = rid) (db_evidence d)),
          (''reviews'', count_where (\<lambda>x. rvw_run x = rid) (db_reviews d)),
          (''comments'', count_where (\<lambda>x. cmt_run x = rid) (db_comments d)),
          (''decisions'', count_where (\<lambda>x. dec_run x = rid) (db_decisions d)),
          (''worker_leases'', count_where (\<lambda>x. ls_run x = rid) (db_leases d)),
          (''run_steps'', count_where (\<lambda>x. st_run x = rid) (db_steps d)),
          (''artifacts'', count_where (\<lambda>x. art_run x = rid) (db_artifacts d)),
          (''events'', count_where (\<lambda>x. ev_run x = rid) (db_events d)),
          (''data_requirements'', count_where (\<lambda>x. dr_run x = rid) (db_requirements d)),
          (''runs'', count_where (\<lambda>x. run_id x = rid) (db_runs d))]
         @ (if free_request then [(''requests'', count_where (\<lambda>q. req_id q = qid) (db_requests d1))] else [])
         @ (if free_request \<and> free_batch then [(''batches'', count_where (\<lambda>b. bat_id b = bid) (db_batches d1))] else [])
         @ (case run_snapshot (rc_run c) of None \<Rightarrow> []
            | Some sid \<Rightarrow> (if list_ex (\<lambda>r. run_snapshot r = Some sid) (db_runs d1) then []
                else [(''config_snapshots'', count_where (\<lambda>s. cfg_id s = sid) (db_snapshots d))])))"

section \<open>Data requirements\<close>

definition update_requirement :: "nat \<Rightarrow> (requirement \<Rightarrow> requirement) \<Rightarrow> db \<Rightarrow> db" where
  "update_requirement i f d = d\<lparr>db_requirements := update_row dr_id i f (db_requirements d)\<rparr>"

definition cancel_data_requirement :: "nat \<Rightarrow> db \<Rightarrow> db" where
  "cancel_data_requirement rid d =
     (case find (\<lambda>q. dr_run q = rid) (db_requirements d) of
        None \<Rightarrow> d
      | Some q \<Rightarrow>
          (if dr_status q \<notin> {''waiting'', ''retry_wait''} then d
           else update_requirement (dr_id q) (\<lambda>x. x\<lparr>dr_status := ''cancelled'', dr_next_poll_at := None,
              dr_lease_owner := None, dr_lease_expires_at := None, dr_version := dr_version x + 1\<rparr>) d))"

section \<open>Listings\<close>

record run_filters =
  rf_ticker :: "string option"
  rf_status :: "run_status list"
  rf_submitted_by :: "nat option"
  rf_created_from :: "int option"
  rf_created_to :: "int option"
  rf_limit :: nat

text \<open>
  A cursor is the creation time and the identifier of the last run of a page. Its text form, base64 of
  JSON, and the error for a text that is none are outside the model.
\<close>

type_synonym cursor = "int \<times> nat"

definition filters_match :: "run_filters \<Rightarrow> run \<Rightarrow> instrument \<Rightarrow> batch \<Rightarrow> bool" where
  "filters_match f r i b \<longleftrightarrow>
     (case rf_ticker f of None \<Rightarrow> True | Some t \<Rightarrow> t = [] \<or> ins_ticker i = t)
     \<and> (rf_status f = [] \<or> run_status r \<in> set (rf_status f))
     \<and> (case rf_submitted_by f of None \<Rightarrow> True | Some u \<Rightarrow> bat_submitted_by b = u)
     \<and> (case rf_created_from f of None \<Rightarrow> True | Some t \<Rightarrow> t \<le> run_created_at r)
     \<and> (case rf_created_to f of None \<Rightarrow> True | Some t \<Rightarrow> run_created_at r \<le> t)"

definition matching_rows :: "run_filters \<Rightarrow> db \<Rightarrow> (run \<times> request \<times> instrument) list" where
  "matching_rows f d = [(r, q, i). (r, q, i) \<leftarrow> run_rows d, b \<leftarrow> db_batches d,
     req_batch q = bat_id b, filters_match f r i b]"

definition before_cursor :: "cursor option \<Rightarrow> run \<times> request \<times> instrument \<Rightarrow> bool" where
  "before_cursor c x = (case c of None \<Rightarrow> True | Some (t, i) \<Rightarrow>
     fst (creation_key x) < t \<or> (fst (creation_key x) = t \<and> snd (creation_key x) < i))"

definition descending_key :: "run \<times> request \<times> instrument \<Rightarrow> int \<times> int" where
  "descending_key x = (- fst (creation_key x), - int (snd (creation_key x)))"

definition list_runs :: "run_filters \<Rightarrow> cursor option \<Rightarrow> db \<Rightarrow> run_view list \<times> cursor option" where
  "list_runs f c d =
     (let rows = take (rf_limit f + 1)
            (sort_key descending_key (filter (before_cursor c) (matching_rows f d)));
          visible = take (rf_limit f) rows
      in (map run_view_of visible,
          if length rows > rf_limit f \<and> visible \<noteq> [] then Some (creation_key (last visible)) else None))"

definition list_steps :: "(nat \<Rightarrow> int) \<Rightarrow> nat \<Rightarrow> db \<Rightarrow> run_step list" where
  "list_steps created rid d = sort_key (\<lambda>s. (st_attempt s, created (st_id s), st_id s))
     (filter (\<lambda>s. st_run s = rid) (db_steps d))"

definition list_events :: "nat \<Rightarrow> int \<Rightarrow> nat \<Rightarrow> db \<Rightarrow> run_event list" where
  "list_events rid after limit d = take limit
     (sort_key ev_sequence (filter (\<lambda>e. ev_run e = rid \<and> ev_sequence e > after) (db_events d)))"

definition comparison_metadata ::
    "nat list \<Rightarrow> db \<Rightarrow> (nat \<times> run_status \<times> string option \<times> string option) list" where
  "comparison_metadata rids d = [(run_id r, run_status r, map_option dec_rating c, map_option cfg_sha256 s).
     r \<leftarrow> db_runs d, run_id r \<in> set rids,
     c \<leftarrow> outer_rows (\<lambda>x. dec_run x = run_id r) (db_decisions d),
     s \<leftarrow> outer_rows (\<lambda>x. Some (cfg_id x) = run_snapshot r) (db_snapshots d)]"

section \<open>Walking the pages\<close>

text \<open>A client that follows the cursors from the first page, at most \<open>n\<close> pages.\<close>

fun walk_pages :: "nat \<Rightarrow> run_filters \<Rightarrow> cursor option \<Rightarrow> db \<Rightarrow> run_view list option" where
  "walk_pages 0 f c d = None"
| "walk_pages (Suc n) f c d = (case list_runs f c d of
     (vs, None) \<Rightarrow> Some vs
   | (vs, Some c') \<Rightarrow> map_option ((@) vs) (walk_pages n f (Some c') d))"

definition listing :: "run_filters \<Rightarrow> db \<Rightarrow> (run \<times> request \<times> instrument) list" where
  "listing f d = sort_key descending_key (matching_rows f d)"

lemma before_cursor_Some:
  "before_cursor (Some (creation_key y)) x \<longleftrightarrow> descending_key y < descending_key x"
  by (auto simp: before_cursor_def descending_key_def less_prod_def split: prod.split)

lemma filter_sort_key: "filter P (sort_key f xs) = sort_key f (filter P xs)"
  by (rule filter_sort)

lemma drop_strict:
  fixes f :: "'a \<Rightarrow> 'b::linorder"
  assumes "sorted (map f xs)" and "distinct (map f xs)" and "k < length xs"
  shows "filter (\<lambda>x. f (xs ! k) < f x) xs = drop (Suc k) xs"
proof -
  have "sorted_wrt (<) (map f xs)" using assms(1,2) by (simp add: strict_sorted_iff)
  then have lt: "f (xs ! i) < f (xs ! j)" if "i < j" "j < length xs" for i j
    using that sorted_wrt_nth_less [of "(<)" "map f xs" i j] by simp
  have "filter (\<lambda>x. f (xs ! k) < f x) (take (Suc k) xs) = []"
  proof -
    have "\<not> f (xs ! k) < f y" if "y \<in> set (take (Suc k) xs)" for y
    proof -
      from that obtain i where "i < Suc k" "i < length xs" "y = xs ! i"
        by (auto simp: in_set_conv_nth)
      then show ?thesis using lt [of i k] assms(3) by (cases "i = k") auto
    qed
    then show ?thesis by (simp add: filter_empty_conv)
  qed
  moreover have "filter (\<lambda>x. f (xs ! k) < f x) (drop (Suc k) xs) = drop (Suc k) xs"
  proof -
    have "f (xs ! k) < f y" if "y \<in> set (drop (Suc k) xs)" for y
    proof -
      from that obtain i where "i < length xs - Suc k" "y = xs ! (Suc k + i)"
        by (auto simp: in_set_conv_nth)
      then show ?thesis using lt [of k "Suc k + i"] by simp
    qed
    then show ?thesis by (simp add: filter_id_conv)
  qed
  moreover have "filter (\<lambda>x. f (xs ! k) < f x) xs = filter (\<lambda>x. f (xs ! k) < f x) (take (Suc k) xs)
      @ filter (\<lambda>x. f (xs ! k) < f x) (drop (Suc k) xs)"
    by (simp flip: filter_append)
  ultimately show ?thesis by simp
qed

lemma list_runs_drop:
  assumes "filter (before_cursor c) (listing f d) = drop k (listing f d)"
  shows "list_runs f c d = (map run_view_of (take (rf_limit f) (drop k (listing f d))),
     if length (listing f d) - k > rf_limit f \<and> 0 < rf_limit f
     then Some (creation_key (listing f d ! (k + rf_limit f - 1))) else None)"
proof -
  let ?S = "drop k (listing f d)"
  have rows: "sort_key descending_key (filter (before_cursor c) (matching_rows f d)) = ?S"
    using assms by (simp add: listing_def filter_sort_key)
  have last: "last (take (rf_limit f) ?S) = listing f d ! (k + rf_limit f - 1)"
    if "rf_limit f < length (listing f d) - k" "0 < rf_limit f"
  proof -
    have "length (take (rf_limit f) ?S) = rf_limit f" using that by simp
    then have "last (take (rf_limit f) ?S) = take (rf_limit f) ?S ! (rf_limit f - 1)"
      using that(2) by (subst last_conv_nth) auto
    also have "\<dots> = listing f d ! (k + (rf_limit f - 1))" using that by simp
    finally show ?thesis using that(2) by (simp add: Nat.add_diff_assoc)
  qed
  have vis: "take (rf_limit f) (take (rf_limit f + 1) ?S) = take (rf_limit f) ?S" by simp
  have cond: "(rf_limit f < length (take (rf_limit f + 1) ?S) \<and> take (rf_limit f) ?S \<noteq> [])
      \<longleftrightarrow> (length (listing f d) - k > rf_limit f \<and> 0 < rf_limit f)"
    by auto
  show ?thesis
  proof (cases "length (listing f d) - k > rf_limit f \<and> 0 < rf_limit f")
    case True
    then show ?thesis unfolding list_runs_def rows Let_def vis cond using last by (simp only: if_True)
  next
    case False
    then show ?thesis unfolding list_runs_def rows Let_def vis cond by (simp only: if_False)
  qed
qed

lemma walk_pages_drop:
  assumes lim: "0 < rf_limit f" and dist: "distinct (map descending_key (listing f d))"
  shows "filter (before_cursor c) (listing f d) = drop k (listing f d)
    \<Longrightarrow> length (listing f d) - k < n
    \<Longrightarrow> walk_pages n f c d = Some (map run_view_of (drop k (listing f d)))"
proof (induction n arbitrary: c k)
  case (Suc n)
  let ?S = "listing f d" and ?L = "rf_limit f"
  note page = list_runs_drop [OF Suc.prems(1)]
  show ?case
  proof (cases "length ?S - k > ?L")
    case False
    then show ?thesis using page by simp
  next
    case True
    let ?j = "k + ?L - 1"
    have j: "?j < length ?S" using True lim by simp
    have "filter (before_cursor (Some (creation_key (?S ! ?j)))) ?S = drop (Suc ?j) ?S"
      unfolding before_cursor_Some
      by (rule drop_strict [OF _ dist j]) (simp add: listing_def)
    moreover have "Suc ?j = k + ?L" using lim by simp
    ultimately have "walk_pages n f (Some (creation_key (?S ! ?j))) d = Some (map run_view_of (drop (k + ?L) ?S))"
      using Suc.prems(2) lim True by (intro Suc.IH) simp_all
    moreover have "take ?L (drop k ?S) @ drop (k + ?L) ?S = drop k ?S"
      using append_take_drop_id [of ?L "drop k ?S"] by (simp only: drop_drop add.commute)
    moreover have "list_runs f c d = (map run_view_of (take ?L (drop k ?S)), Some (creation_key (?S ! ?j)))"
      using page True lim by (simp only: if_True simp_thms)
    ultimately show ?thesis by (simp only: walk_pages.simps prod.case option.case option.map flip: map_append)
  qed
qed simp

lemma distinct_listing:
  assumes "distinct (map (\<lambda>(r, q, i). run_id r) (matching_rows f d))"
  shows "distinct (map descending_key (listing f d))"
proof -
  have inj: "inj_on descending_key (set (matching_rows f d))"
  proof (rule inj_onI)
    fix x y assume x: "x \<in> set (matching_rows f d)" and y: "y \<in> set (matching_rows f d)"
      and eq: "descending_key x = descending_key y"
    then have "(\<lambda>(r, q, i). run_id r) x = (\<lambda>(r, q, i). run_id r) y"
      by (auto simp: descending_key_def creation_key_def split: prod.splits)
    moreover have "inj_on (\<lambda>(r, q, i). run_id r) (set (matching_rows f d))"
      using assms by (simp add: distinct_map)
    ultimately show "x = y" using x y by (simp add: inj_on_def)
  qed
  have "distinct (matching_rows f d)" using assms by (simp add: distinct_map)
  with inj show ?thesis by (simp add: listing_def distinct_map)
qed

text \<open>
  C36. Paging through the runs terminates and loses nothing: with a page size of at least
  one, a client that follows the cursors sees every matching run exactly once, newest first,
  after at most one page more than there are matching runs,
  whatever the sizes of the pages and even where several runs share a creation time.
\<close>

theorem paging_complete:
  assumes "0 < rf_limit f" and "distinct (map (\<lambda>(r, q, i). run_id r) (matching_rows f d))"
    and "length (matching_rows f d) < n"
  shows "\<exists>vs. walk_pages n f None d = Some vs
     \<and> vs = map run_view_of (listing f d)
     \<and> mset vs = mset (map run_view_of (matching_rows f d))
     \<and> sorted_wrt (\<lambda>a b. rv_created_at b < rv_created_at a
          \<or> (rv_created_at a = rv_created_at b \<and> rv_id b < rv_id a)) vs"
proof -
  note dist = distinct_listing [OF assms(2)]
  have walk: "walk_pages n f None d = Some (map run_view_of (drop 0 (listing f d)))"
    using assms(3) by (intro walk_pages_drop [OF assms(1) dist]) (simp_all add: before_cursor_def listing_def)
  have "sorted_wrt (<) (map descending_key (listing f d))"
    using dist by (simp add: strict_sorted_iff listing_def)
  then have "sorted_wrt (\<lambda>a b. rv_created_at b < rv_created_at a
          \<or> (rv_created_at a = rv_created_at b \<and> rv_id b < rv_id a)) (map run_view_of (listing f d))"
    unfolding sorted_wrt_map
    by (rule sorted_wrt_mono_rel [rotated])
       (auto simp: descending_key_def creation_key_def run_view_of_def less_prod_def split: prod.splits)
  with walk show ?thesis by (simp add: listing_def)
qed

section \<open>Referential integrity\<close>

definition snapshot_refs :: "db \<Rightarrow> nat set" where
  "snapshot_refs d = {s. \<exists>r \<in> set (db_runs d). run_snapshot r = Some s}"

definition run_refs :: "db \<Rightarrow> nat set" where
  "run_refs d = {j. \<exists>r \<in> set (db_runs d). run_retry_of r = Some j \<or> run_clean_of r = Some j}"

definition artifact_refs :: "db \<Rightarrow> (nat \<times> nat) set" where
  "artifact_refs d = {(j, a). (\<exists>v \<in> set (db_validations d). val_run v = j \<and> val_data_artifact v = Some a)
     \<or> (\<exists>e \<in> set (db_evidence d). evd_run e = j \<and> evd_artifact e = Some a)
     \<or> (\<exists>x \<in> set (db_integrity d). itg_run x = j \<and> itg_artifact x = Some a)}"

definition child_runs :: "db \<Rightarrow> nat set" where
  "child_runs d = val_run ` set (db_validations d) \<union> pb_run ` set (db_bases d)
     \<union> evd_run ` set (db_evidence d) \<union> rvw_run ` set (db_reviews d) \<union> cmt_run ` set (db_comments d)
     \<union> dec_run ` set (db_decisions d) \<union> ls_run ` set (db_leases d) \<union> st_run ` set (db_steps d)
     \<union> art_run ` set (db_artifacts d) \<union> ev_run ` set (db_events d) \<union> dr_run ` set (db_requirements d)
     \<union> itg_run ` set (db_integrity d)"

text \<open>Every foreign key of the tables around a run resolves.\<close>

definition fk_ok :: "db \<Rightarrow> bool" where
  "fk_ok d \<longleftrightarrow> bat_submitted_by ` set (db_batches d) \<subseteq> usr_id ` set (db_users d)
     \<and> req_batch ` set (db_requests d) \<subseteq> bat_id ` set (db_batches d)
     \<and> req_instrument ` set (db_requests d) \<subseteq> ins_id ` set (db_instruments d)
     \<and> run_request ` set (db_runs d) \<subseteq> req_id ` set (db_requests d)
     \<and> snapshot_refs d \<subseteq> cfg_id ` set (db_snapshots d)
     \<and> run_refs d \<subseteq> run_id ` set (db_runs d)
     \<and> child_runs d \<subseteq> run_id ` set (db_runs d)
     \<and> dl_event ` set (db_deliveries d) \<subseteq> ev_id ` set (db_events d)
     \<and> artifact_refs d \<subseteq> (\<lambda>a. (art_run a, art_id a)) ` set (db_artifacts d)"

lemma delete_run_rows_frame [simp]:
  "db_users (delete_run_rows rid d) = db_users d"
  "db_batches (delete_run_rows rid d) = db_batches d"
  "db_requests (delete_run_rows rid d) = db_requests d"
  "db_instruments (delete_run_rows rid d) = db_instruments d"
  "db_snapshots (delete_run_rows rid d) = db_snapshots d"
  "db_runs (delete_run_rows rid d) = delete_where (\<lambda>x. run_id x = rid) (db_runs d)"
  by (simp_all add: delete_run_rows_def)

lemma delete_run_rows_children:
  "db_integrity (delete_run_rows rid d) = delete_where (\<lambda>x. itg_run x = rid) (db_integrity d)"
  "db_validations (delete_run_rows rid d) = delete_where (\<lambda>x. val_run x = rid) (db_validations d)"
  "db_bases (delete_run_rows rid d) = delete_where (\<lambda>x. pb_run x = rid) (db_bases d)"
  "db_evidence (delete_run_rows rid d) = delete_where (\<lambda>x. evd_run x = rid) (db_evidence d)"
  "db_reviews (delete_run_rows rid d) = delete_where (\<lambda>x. rvw_run x = rid) (db_reviews d)"
  "db_comments (delete_run_rows rid d) = delete_where (\<lambda>x. cmt_run x = rid) (db_comments d)"
  "db_decisions (delete_run_rows rid d) = delete_where (\<lambda>x. dec_run x = rid) (db_decisions d)"
  "db_leases (delete_run_rows rid d) = delete_where (\<lambda>x. ls_run x = rid) (db_leases d)"
  "db_steps (delete_run_rows rid d) = delete_where (\<lambda>x. st_run x = rid) (db_steps d)"
  "db_artifacts (delete_run_rows rid d) = delete_where (\<lambda>x. art_run x = rid) (db_artifacts d)"
  "db_events (delete_run_rows rid d) = delete_where (\<lambda>x. ev_run x = rid) (db_events d)"
  "db_requirements (delete_run_rows rid d) = delete_where (\<lambda>x. dr_run x = rid) (db_requirements d)"
  by (simp_all add: delete_run_rows_def)

lemma image_delete_where: "f ` set (delete_where (\<lambda>x. f x = k) t) = f ` set t - {k}"
  by auto

lemma child_runs_delete: "child_runs (delete_run_rows rid d) = child_runs d - {rid}"
  by (simp only: child_runs_def delete_run_rows_children image_delete_where Un_Diff)

lemma artifact_refs_delete: "artifact_refs (delete_run_rows rid d) = {x \<in> artifact_refs d. fst x \<noteq> rid}"
  by (simp only: artifact_refs_def delete_run_rows_children set_delete_where) auto

lemma deliveries_delete:
  assumes "dl_event ` set (db_deliveries d) \<subseteq> ev_id ` set (db_events d)"
  shows "dl_event ` set (db_deliveries (delete_run_rows rid d)) \<subseteq> ev_id ` set (db_events (delete_run_rows rid d))"
proof
  fix x assume "x \<in> dl_event ` set (db_deliveries (delete_run_rows rid d))"
  then have x: "x \<in> dl_event ` set (db_deliveries d)" "x \<notin> run_event_ids rid d"
    by (auto simp: delete_run_rows_def)
  with assms obtain e where e: "e \<in> set (db_events d)" "x = ev_id e" by blast
  with x(2) have "ev_run e \<noteq> rid" by (auto simp: run_event_ids_def)
  with e show "x \<in> ev_id ` set (db_events (delete_run_rows rid d))"
    by (auto simp: delete_run_rows_def)
qed

lemma delete_run_rows_fk:
  assumes "fk_ok d" and "rid \<notin> run_refs d"
  shows "fk_ok (delete_run_rows rid d)"
proof -
  let ?d = "delete_run_rows rid d"
  have runs: "set (db_runs ?d) = {r \<in> set (db_runs d). run_id r \<noteq> rid}" by auto
  have "run_refs ?d \<subseteq> run_id ` set (db_runs ?d)"
  proof
    fix j assume "j \<in> run_refs ?d"
    then have "j \<in> run_refs d" by (auto simp: run_refs_def)
    then have "j \<in> run_id ` set (db_runs d)" and "j \<noteq> rid" using assms by (auto simp: fk_ok_def)
    then show "j \<in> run_id ` set (db_runs ?d)" by auto
  qed
  moreover have "child_runs ?d \<subseteq> run_id ` set (db_runs ?d)"
    using assms(1) unfolding child_runs_delete runs fk_ok_def by blast
  moreover have "artifact_refs ?d \<subseteq> (\<lambda>a. (art_run a, art_id a)) ` set (db_artifacts ?d)"
  proof
    fix x assume "x \<in> artifact_refs ?d"
    then have "x \<in> artifact_refs d" and "fst x \<noteq> rid" by (simp_all add: artifact_refs_delete)
    with assms(1) obtain a where "a \<in> set (db_artifacts d)" "x = (art_run a, art_id a)" "art_run a \<noteq> rid"
      unfolding fk_ok_def by force
    then show "x \<in> (\<lambda>a. (art_run a, art_id a)) ` set (db_artifacts ?d)"
      by (auto simp: delete_run_rows_def)
  qed
  moreover have "snapshot_refs ?d \<subseteq> cfg_id ` set (db_snapshots ?d)"
    using assms(1) by (auto simp: fk_ok_def snapshot_refs_def)
  moreover have "run_request ` set (db_runs ?d) \<subseteq> req_id ` set (db_requests ?d)"
    using assms(1) by (auto simp: fk_ok_def)
  ultimately show ?thesis
    using assms(1) deliveries_delete [of d rid] by (simp add: fk_ok_def)
qed

lemma refs_frame [simp]:
  "snapshot_refs (d\<lparr>db_requests := x\<rparr>) = snapshot_refs d"
  "run_refs (d\<lparr>db_requests := x\<rparr>) = run_refs d"
  "child_runs (d\<lparr>db_requests := x\<rparr>) = child_runs d"
  "artifact_refs (d\<lparr>db_requests := x\<rparr>) = artifact_refs d"
  "snapshot_refs (d\<lparr>db_batches := y\<rparr>) = snapshot_refs d"
  "run_refs (d\<lparr>db_batches := y\<rparr>) = run_refs d"
  "child_runs (d\<lparr>db_batches := y\<rparr>) = child_runs d"
  "artifact_refs (d\<lparr>db_batches := y\<rparr>) = artifact_refs d"
  "snapshot_refs (d\<lparr>db_snapshots := z\<rparr>) = snapshot_refs d"
  "run_refs (d\<lparr>db_snapshots := z\<rparr>) = run_refs d"
  "child_runs (d\<lparr>db_snapshots := z\<rparr>) = child_runs d"
  "artifact_refs (d\<lparr>db_snapshots := z\<rparr>) = artifact_refs d"
  by (simp_all add: snapshot_refs_def run_refs_def child_runs_def artifact_refs_def)

lemma subset_delete_where:
  "A \<subseteq> f ` set t \<Longrightarrow> k \<notin> A \<Longrightarrow> A \<subseteq> f ` set (delete_where (\<lambda>x. f x = k) t)"
  "f ` set t \<subseteq> B \<Longrightarrow> f ` set (delete_where P t) \<subseteq> B"
  by auto

lemma fk_ok_delete_request:
  assumes "fk_ok d" and "qid \<notin> run_request ` set (db_runs d)"
  shows "fk_ok (d\<lparr>db_requests := delete_where (\<lambda>q. req_id q = qid) (db_requests d)\<rparr>)"
  using assms unfolding fk_ok_def refs_frame
  by (elim conjE, intro conjI) (simp_all add: subset_delete_where del: set_delete_where)

lemma fk_ok_delete_batch:
  assumes "fk_ok d" and "bid \<notin> req_batch ` set (db_requests d)"
  shows "fk_ok (d\<lparr>db_batches := delete_where (\<lambda>b. bat_id b = bid) (db_batches d)\<rparr>)"
  using assms unfolding fk_ok_def refs_frame
  by (elim conjE, intro conjI) (simp_all add: subset_delete_where del: set_delete_where)

lemma fk_ok_delete_snapshot:
  assumes "fk_ok d" and "sid \<notin> snapshot_refs d"
  shows "fk_ok (d\<lparr>db_snapshots := delete_where (\<lambda>s. cfg_id s = sid) (db_snapshots d)\<rparr>)"
  using assms unfolding fk_ok_def refs_frame
  by (elim conjE, intro conjI) (simp_all add: subset_delete_where del: set_delete_where)

lemma list_ex_image: "list_ex (\<lambda>r. f r = k) t \<longleftrightarrow> k \<in> f ` set t"
  by (auto simp: list_ex_iff)

lemma list_ex_snapshot: "list_ex (\<lambda>r. run_snapshot r = Some s) (db_runs d) \<longleftrightarrow> s \<in> snapshot_refs d"
  by (simp add: list_ex_iff snapshot_refs_def)

lemma delete_request_rows_cases:
  assumes "\<And>d1. d1 = d\<lparr>db_requests := delete_where (\<lambda>q. req_id q = qid) (db_requests d)\<rparr> \<Longrightarrow>
      qid \<notin> run_request ` set (db_runs d) \<Longrightarrow> bid \<in> req_batch ` set (db_requests d1) \<Longrightarrow> P d1"
    and "\<And>d1. d1 = d\<lparr>db_requests := delete_where (\<lambda>q. req_id q = qid) (db_requests d)\<rparr> \<Longrightarrow>
      qid \<notin> run_request ` set (db_runs d) \<Longrightarrow> bid \<notin> req_batch ` set (db_requests d1) \<Longrightarrow>
      P (d1\<lparr>db_batches := delete_where (\<lambda>b. bat_id b = bid) (db_batches d1)\<rparr>)"
    and "qid \<in> run_request ` set (db_runs d) \<Longrightarrow> P d"
  shows "P (delete_request_rows qid bid d)"
  unfolding delete_request_rows_def Let_def list_ex_image
  using assms(1) [OF refl] assms(2) [OF refl] assms(3) by (simp only: split: if_split) blast

lemma delete_request_rows_fk:
  assumes "fk_ok d"
  shows "fk_ok (delete_request_rows qid bid d)"
proof (rule delete_request_rows_cases)
  fix d1 assume d1: "d1 = d\<lparr>db_requests := delete_where (\<lambda>q. req_id q = qid) (db_requests d)\<rparr>"
    and q: "qid \<notin> run_request ` set (db_runs d)"
  show ok: "fk_ok d1" unfolding d1 by (rule fk_ok_delete_request [OF assms q])
  assume "bid \<notin> req_batch ` set (db_requests d1)"
  then show "fk_ok (d1\<lparr>db_batches := delete_where (\<lambda>b. bat_id b = bid) (db_batches d1)\<rparr>)"
    by (rule fk_ok_delete_batch [OF ok])
qed (rule assms)

lemma delete_snapshot_row_fk: "fk_ok d \<Longrightarrow> fk_ok (delete_snapshot_row s d)"
  by (cases s) (simp_all add: delete_snapshot_row_def list_ex_snapshot fk_ok_delete_snapshot)

lemma delete_assessment_graph_fk:
  "fk_ok d \<Longrightarrow> run_id (rc_run c) \<notin> run_refs d \<Longrightarrow> fk_ok (delete_assessment_graph c d)"
  by (simp add: delete_assessment_graph_def delete_snapshot_row_fk delete_request_rows_fk delete_run_rows_fk)

section \<open>What a deletion leaves alone\<close>

lemma concat_map_delete_where:
  "(\<And>x. x \<in> set xs \<Longrightarrow> P x \<Longrightarrow> f x = []) \<Longrightarrow> concat (map f (delete_where P xs)) = concat (map f xs)"
  by (induction xs) auto

definition rest_rows :: "nat \<Rightarrow> db \<Rightarrow> run \<times> request \<times> instrument \<Rightarrow> run_context list" where
  "rest_rows j d x = (case x of (r, q, i) \<Rightarrow> if run_id r \<noteq> j then [] else
     [\<lparr>rc_run = r, rc_request = q, rc_instrument = i, rc_batch = b, rc_owner = u\<rparr>.
        b \<leftarrow> db_batches d, req_batch q = bat_id b, u \<leftarrow> db_users d, bat_submitted_by b = usr_id u])"

lemma concat_map_concat: "concat (map f (concat (map g xs))) = concat (map (\<lambda>x. concat (map f (g x))) xs)"
  by (induction xs) auto

lemma context_rows_by_run:
  "context_rows j d = concat (map (\<lambda>r. concat (map (\<lambda>qi. rest_rows j d (r, qi))
     (request_rows (run_request r) d))) (db_runs d))"
proof -
  have "context_rows j d = concat (map (rest_rows j d) (run_rows d))"
    unfolding context_rows_def rest_rows_def by (auto intro!: arg_cong [where f = concat] map_cong)
  also have "run_rows d = concat (map (\<lambda>r. map (Pair r) (request_rows (run_request r) d)) (db_runs d))"
    unfolding run_rows_def by simp
  finally show ?thesis by (simp add: concat_map_concat comp_def)
qed

lemma rest_rows_other: "run_id r \<noteq> j \<Longrightarrow> rest_rows j d (r, qi) = []"
  by (cases qi) (simp add: rest_rows_def)

lemma context_rows_delete_run:
  assumes "j \<noteq> rid"
  shows "context_rows j (delete_run_rows rid d) = context_rows j d"
proof -
  have "request_rows x (delete_run_rows rid d) = request_rows x d" for x
    by (simp add: request_rows_def cong: if_cong)
  moreover have "rest_rows j (delete_run_rows rid d) x = rest_rows j d x" for x
    by (simp add: rest_rows_def cong: if_cong)
  ultimately show ?thesis
    unfolding context_rows_by_run delete_run_rows_frame
    using assms by (simp only:) (rule concat_map_delete_where, simp add: rest_rows_other)
qed

lemma context_rows_delete_request:
  assumes "qid \<notin> run_request ` set (db_runs d)"
  shows "context_rows j (d\<lparr>db_requests := delete_where (\<lambda>q. req_id q = qid) (db_requests d)\<rparr>) = context_rows j d"
proof -
  let ?d = "d\<lparr>db_requests := delete_where (\<lambda>q. req_id q = qid) (db_requests d)\<rparr>"
  have "request_rows (run_request r) ?d = request_rows (run_request r) d" if "r \<in> set (db_runs d)" for r
  proof -
    have "run_request r \<noteq> qid" using that assms by auto
    then show ?thesis unfolding request_rows_def
      by (simp cong: if_cong) (rule concat_map_delete_where, simp)
  qed
  moreover have "rest_rows j ?d x = rest_rows j d x" for x
    by (simp add: rest_rows_def cong: if_cong)
  ultimately show ?thesis
    unfolding context_rows_by_run by (auto intro!: arg_cong [where f = concat] map_cong)
qed

lemma context_rows_delete_batch:
  assumes "bid \<notin> req_batch ` set (db_requests d)"
  shows "context_rows j (d\<lparr>db_batches := delete_where (\<lambda>b. bat_id b = bid) (db_batches d)\<rparr>) = context_rows j d"
proof -
  let ?d = "d\<lparr>db_batches := delete_where (\<lambda>b. bat_id b = bid) (db_batches d)\<rparr>"
  have same: "request_rows x ?d = request_rows x d" for x
    by (simp add: request_rows_def cong: if_cong)
  have "rest_rows j ?d (r, qi) = rest_rows j d (r, qi)" if "qi \<in> set (request_rows x d)" for r qi x
  proof -
    obtain q i where qi: "qi = (q, i)" by fastforce
    with that have "q \<in> set (db_requests d)" by (auto simp: request_rows_def)
    then have "req_batch q \<noteq> bid" using assms by auto
    then show ?thesis unfolding qi rest_rows_def
      by (simp cong: if_cong) (rule impI, rule concat_map_delete_where, simp)
  qed
  then show ?thesis
    unfolding context_rows_by_run same by (auto intro!: arg_cong [where f = concat] map_cong)
qed

lemma context_rows_delete_snapshot:
  "context_rows j (d\<lparr>db_snapshots := s\<rparr>) = context_rows j d"
  by (simp add: context_rows_def run_rows_def request_rows_def cong: if_cong)

lemma get_run_context_delete_graph:
  assumes "j \<noteq> run_id (rc_run c)"
  shows "get_run_context j (delete_assessment_graph c d) = get_run_context j d"
proof -
  have snap: "context_rows j (delete_snapshot_row s e) = context_rows j e" for s e
    by (simp add: delete_snapshot_row_def context_rows_delete_snapshot split: option.split)
  have req: "context_rows j (delete_request_rows qid bid e) = context_rows j e" for qid bid e
  proof (rule delete_request_rows_cases)
    fix d1 assume d1: "d1 = e\<lparr>db_requests := delete_where (\<lambda>q. req_id q = qid) (db_requests e)\<rparr>"
      and q: "qid \<notin> run_request ` set (db_runs e)"
    show same: "context_rows j d1 = context_rows j e"
      unfolding d1 by (rule context_rows_delete_request [OF q])
    assume "bid \<notin> req_batch ` set (db_requests d1)"
    then show "context_rows j (d1\<lparr>db_batches := delete_where (\<lambda>b. bat_id b = bid) (db_batches d1)\<rparr>) = context_rows j e"
      unfolding same [symmetric] by (rule context_rows_delete_batch)
  qed (rule refl)
  show ?thesis
    by (simp add: get_run_context_def delete_assessment_graph_def snap req context_rows_delete_run [OF assms])
qed

lemma delete_request_rows_frame [simp]:
  "db_runs (delete_request_rows qid bid d) = db_runs d"
  "db_leases (delete_request_rows qid bid d) = db_leases d"
  "db_events (delete_request_rows qid bid d) = db_events d"
  "db_snapshots (delete_request_rows qid bid d) = db_snapshots d"
  "child_runs (delete_request_rows qid bid d) = child_runs d"
  by (simp_all add: delete_request_rows_def Let_def)

lemma delete_snapshot_row_frame [simp]:
  "db_runs (delete_snapshot_row s d) = db_runs d"
  "db_leases (delete_snapshot_row s d) = db_leases d"
  "db_events (delete_snapshot_row s d) = db_events d"
  "db_requests (delete_snapshot_row s d) = db_requests d"
  "db_batches (delete_snapshot_row s d) = db_batches d"
  "child_runs (delete_snapshot_row s d) = child_runs d"
  by (simp_all add: delete_snapshot_row_def split: option.split)

text \<open>Nothing is left that only the deleted run used.\<close>

definition no_orphan :: "run_context \<Rightarrow> db \<Rightarrow> bool" where
  "no_orphan c d \<longleftrightarrow>
     (req_id (rc_request c) \<in> req_id ` set (db_requests d) \<longrightarrow> req_id (rc_request c) \<in> run_request ` set (db_runs d))
     \<and> (\<forall>s. run_snapshot (rc_run c) = Some s \<and> s \<in> cfg_id ` set (db_snapshots d) \<longrightarrow> s \<in> snapshot_refs d)"

lemma delete_graph_no_orphan: "no_orphan c (delete_assessment_graph c d)"
proof -
  let ?qid = "req_id (rc_request c)" and ?bid = "req_batch (rc_request c)"
  have q: "?qid \<in> req_id ` set (db_requests (delete_request_rows ?qid ?bid e)) \<longrightarrow> ?qid \<in> run_request ` set (db_runs e)" for e
  proof (rule delete_request_rows_cases)
    fix d1 assume d1: "d1 = e\<lparr>db_requests := delete_where (\<lambda>q. req_id q = ?qid) (db_requests e)\<rparr>"
    show "?qid \<in> req_id ` set (db_requests d1) \<longrightarrow> ?qid \<in> run_request ` set (db_runs e)"
      unfolding d1 by (simp add: image_delete_where del: set_delete_where)
    then show "?qid \<in> req_id ` set (db_requests (d1\<lparr>db_batches := delete_where (\<lambda>b. bat_id b = ?bid) (db_batches d1)\<rparr>))
        \<longrightarrow> ?qid \<in> run_request ` set (db_runs e)"
      by simp
  qed simp
  have sn: "s \<in> cfg_id ` set (db_snapshots (delete_snapshot_row (Some s) e)) \<longrightarrow> s \<in> snapshot_refs e" for s e
    by (simp add: delete_snapshot_row_def list_ex_snapshot image_delete_where del: set_delete_where)
  have same: "snapshot_refs (delete_snapshot_row x e) = snapshot_refs e" for x e
    by (simp add: snapshot_refs_def)
  let ?e = "delete_run_rows (run_id (rc_run c)) d"
  show ?thesis unfolding no_orphan_def delete_assessment_graph_def
  proof (intro conjI allI impI)
    assume "?qid \<in> req_id ` set (db_requests (delete_snapshot_row (run_snapshot (rc_run c)) (delete_request_rows ?qid ?bid ?e)))"
    then show "?qid \<in> run_request ` set (db_runs (delete_snapshot_row (run_snapshot (rc_run c)) (delete_request_rows ?qid ?bid ?e)))"
      using q [of ?e] by (simp del: set_delete_where)
  next
    fix s assume "run_snapshot (rc_run c) = Some s \<and> s \<in> cfg_id ` set (db_snapshots
      (delete_snapshot_row (run_snapshot (rc_run c)) (delete_request_rows ?qid ?bid ?e)))"
    then show "s \<in> snapshot_refs (delete_snapshot_row (run_snapshot (rc_run c)) (delete_request_rows ?qid ?bid ?e))"
      using sn [of s "delete_request_rows ?qid ?bid ?e"] unfolding same by metis
  qed
qed

lemma delete_graph_gone:
  "run_id (rc_run c) \<notin> run_id ` set (db_runs (delete_assessment_graph c d))"
  "run_id (rc_run c) \<notin> child_runs (delete_assessment_graph c d)"
  by (auto simp: delete_assessment_graph_def child_runs_delete)

lemma delete_graph_runs:
  "db_runs (delete_assessment_graph c d) = delete_where (\<lambda>r. run_id r = run_id (rc_run c)) (db_runs d)"
  by (simp add: delete_assessment_graph_def)

section \<open>A concrete listing\<close>

definition page_run :: "nat \<Rightarrow> int \<Rightarrow> run" where
  "page_run i t = (demo_run QUEUED)\<lparr>run_id := i, run_created_at := t\<rparr>"

definition page_db :: db where
  "page_db = (demo_db QUEUED)\<lparr>db_runs := [page_run 4 7, page_run 5 9, page_run 6 9]\<rparr>"

definition all_runs :: "nat \<Rightarrow> run_filters" where
  "all_runs n = \<lparr>rf_ticker = None, rf_status = [], rf_submitted_by = None, rf_created_from = None,
     rf_created_to = None, rf_limit = n\<rparr>"

lemma paging_complete_witness:
  "\<exists>vs. walk_pages 4 (all_runs 1) None page_db = Some vs
     \<and> vs = map run_view_of (listing (all_runs 1) page_db) \<and> map rv_id vs = [6, 5, 4]"
proof -
  have "0 < rf_limit (all_runs 1)" by (simp add: all_runs_def)
  moreover have "distinct (map (\<lambda>(r, q, i). run_id r) (matching_rows (all_runs 1) page_db))" by code_simp
  moreover have "length (matching_rows (all_runs 1) page_db) < 4" by code_simp
  moreover have "map rv_id (map run_view_of (listing (all_runs 1) page_db)) = [6, 5, 4]" by code_simp
  ultimately show ?thesis using paging_complete [of "all_runs 1" page_db 4] by metis
qed

end
