(* ===== verification/Workers.thy ===== *)
theory Workers
  imports RunRepo
begin

text \<open>
  The worker's side of a run (\<open>worker/repository.py\<close>): registration, claiming, leases and
  heartbeats, the durable copy of the runner's event stream, the three endings of a run,
  automatic retries, and the recovery of stale leases. \<open>now\<close> is the time of the operation,
  \<open>busy\<close> the runs, and \<open>locked\<close> the leases, another transaction has locked; \<open>alive\<close> tells
  whether \<open>/proc/<pid>\<close> exists.
\<close>

section \<open>Workers and leases\<close>

definition SECONDS :: "int \<Rightarrow> int" where
  "SECONDS n = n * 1000000"

definition update_worker :: "nat \<Rightarrow> (worker \<Rightarrow> worker) \<Rightarrow> db \<Rightarrow> db" where
  "update_worker i f d = d\<lparr>db_workers := update_row wk_id i f (db_workers d)\<rparr>"

definition find_lease :: "nat \<Rightarrow> db \<Rightarrow> lease option" where
  "find_lease rid d = find_row ls_run rid (db_leases d)"

definition register_worker :: "int \<Rightarrow> string \<Rightarrow> int \<Rightarrow> dict \<Rightarrow> worker tx" where
  "register_worker now name pid capabilities d =
     (let d1 = (case find_row wk_instance_name name (db_workers d) of
            Some _ \<Rightarrow> d\<lparr>db_workers := update_row wk_instance_name name
               (\<lambda>w. w\<lparr>wk_status := ''idle'', wk_capabilities := capabilities, wk_pid := pid,
                  wk_heartbeat_at := now\<rparr>) (db_workers d)\<rparr>
          | None \<Rightarrow> (drawn d)\<lparr>db_workers := db_workers d @ [\<lparr>wk_id = uuid4 d, wk_instance_name = name,
               wk_status = ''idle'', wk_capabilities = capabilities, wk_pid = pid,
               wk_heartbeat_at = now\<rparr>]\<rparr>)
      in bind_result (of_option (RuntimeError ''worker registration is not visible'')
           (find_row wk_instance_name name (db_workers d1))) (\<lambda>w. Inr (d1, w)))"

record claimed_run =
  cr_run :: nat
  cr_ticker :: string
  cr_asset_type :: string
  cr_analysis_date :: int
  cr_snapshot :: dict

text \<open>The oldest admitted run that is not locked.\<close>

definition admitted_key :: "run \<Rightarrow> int \<times> nat" where
  "admitted_key r = ((case run_admitted_at r of None \<Rightarrow> 0 | Some t \<Rightarrow> t), run_id r)"

definition admitted_runs :: "nat set \<Rightarrow> db \<Rightarrow> run list" where
  "admitted_runs busy d = sort_key admitted_key
     (filter (\<lambda>r. run_status r = ADMITTED \<and> run_id r \<notin> busy) (db_runs d))"

definition claim_rows :: "nat \<Rightarrow> db \<Rightarrow> (run \<times> request \<times> instrument \<times> config_snapshot) list" where
  "claim_rows rid d = [(r, q, i, s). (r, q, i) \<leftarrow> run_rows d, run_id r = rid,
     s \<leftarrow> db_snapshots d, run_snapshot r = Some (cfg_id s)]"

definition add_lease :: "int \<Rightarrow> nat \<Rightarrow> nat \<Rightarrow> db \<Rightarrow> db result" where
  "add_lease now rid wid d =
     (if find_lease rid d \<noteq> None then Inl (IntegrityViolation ''worker_leases'')
      else Inr ((drawn d)\<lparr>db_leases := db_leases d @ [\<lparr>ls_id = uuid4 d, ls_run = rid, ls_worker = wid,
        ls_child_pid = None, ls_child_pgid = None, ls_expires_at = now + SECONDS 60,
        ls_heartbeat_at = now\<rparr>]\<rparr>))"

definition started :: "int \<Rightarrow> run \<Rightarrow> run" where
  "started now r = r\<lparr>run_status := STARTING,
     run_started_at := (case run_started_at r of None \<Rightarrow> Some now | x \<Rightarrow> x),
     run_version := run_version r + 1\<rparr>"

definition claim_run :: "nat set \<Rightarrow> int \<Rightarrow> nat \<Rightarrow> claimed_run option tx" where
  "claim_run busy now wid d =
     (case admitted_runs busy d of
        [] \<Rightarrow> Inr (d, None)
      | r0 # _ \<Rightarrow>
          (case claim_rows (run_id r0) d of
             [] \<Rightarrow> Inl (LookupError ''NoResultFound'')
           | (r, q, i, s) # _ \<Rightarrow>
               bind_result (assert_transition (run_status r) STARTING) (\<lambda>_.
               bind_result (add_lease now (run_id r) wid (update_run (run_id r) (started now) d)) (\<lambda>d1.
               Inr (append_event now (run_id r) ''assessment.starting'' []
                      (update_worker wid (\<lambda>w. w\<lparr>wk_status := ''busy'', wk_heartbeat_at := now\<rparr>) d1),
                    Some \<lparr>cr_run = run_id r, cr_ticker = ins_ticker i, cr_asset_type = ins_asset_type i,
                      cr_analysis_date = req_analysis_date q, cr_snapshot = cfg_content s\<rparr>)))))"

definition update_lease :: "nat \<Rightarrow> (lease \<Rightarrow> lease) \<Rightarrow> db \<Rightarrow> db" where
  "update_lease rid f d = d\<lparr>db_leases := update_row ls_run rid f (db_leases d)\<rparr>"

definition set_child_identity :: "int \<Rightarrow> nat \<Rightarrow> int \<Rightarrow> int \<Rightarrow> db \<Rightarrow> db result" where
  "set_child_identity now rid pid pgid d =
     (if find_lease rid d = None then Inl (RuntimeError ''worker lease disappeared before child launch'')
      else Inr (update_lease rid (\<lambda>l. l\<lparr>ls_child_pid := Some pid, ls_child_pgid := Some pgid,
        ls_heartbeat_at := now\<rparr>) d))"

definition heartbeat :: "int \<Rightarrow> nat \<Rightarrow> nat \<Rightarrow> db \<Rightarrow> db result" where
  "heartbeat now wid rid d =
     (let d1 = update_worker wid (\<lambda>w. w\<lparr>wk_heartbeat_at := now\<rparr>) d;
          mine = (\<lambda>l. ls_run l = rid \<and> ls_worker l = wid)
      in if length (filter mine (db_leases d1)) \<noteq> 1
         then Inl (RuntimeError ''worker lease heartbeat target is missing'')
         else Inr (d1\<lparr>db_leases := update_where mine
           (\<lambda>l. l\<lparr>ls_heartbeat_at := now, ls_expires_at := now + SECONDS 60\<rparr>) (db_leases d1)\<rparr>))"

definition heartbeat_idle :: "int \<Rightarrow> nat \<Rightarrow> db \<Rightarrow> db result" where
  "heartbeat_idle now wid d =
     (if length (filter (\<lambda>w. wk_id w = wid) (db_workers d)) \<noteq> 1
      then Inl (RuntimeError ''idle worker heartbeat target is missing'')
      else Inr (update_worker wid (\<lambda>w. w\<lparr>wk_status := ''idle'', wk_heartbeat_at := now\<rparr>) d))"

definition cancelling_statuses :: "run_status set" where
  "cancelling_statuses = {CANCEL_REQUESTED, CANCELLING}"

definition is_cancel_requested :: "nat \<Rightarrow> db \<Rightarrow> bool" where
  "is_cancel_requested rid d =
     (case find_run rid d of None \<Rightarrow> False | Some r \<Rightarrow> run_status r \<in> cancelling_statuses)"

section \<open>The runner's events\<close>

record runner_event =
  re_sequence :: int
  re_type :: string
  re_name :: string
  re_payload :: dict

text \<open>\<open>int(payload.get(key, default))\<close> on the integers this operation stores.\<close>

definition payload_int :: "string \<Rightarrow> int \<Rightarrow> dict \<Rightarrow> int" where
  "payload_int k dflt p = (case dict_get k p of Some (JInt i) \<Rightarrow> i | _ \<Rightarrow> dflt)"

definition is_runner_event :: "nat \<Rightarrow> run_event \<Rightarrow> bool" where
  "is_runner_event rid e \<longleftrightarrow> ev_run e = rid \<and> starts_with ''runner.'' (ev_type e)"

definition last_runner_sequence :: "run \<Rightarrow> db \<Rightarrow> int" where
  "last_runner_sequence r d =
     (case find (\<lambda>e. payload_int ''runner_attempt'' 1 (ev_payload e) = run_attempt r)
             (sort_key (\<lambda>e. - ev_sequence e) (filter (is_runner_event (run_id r)) (db_events d))) of
        None \<Rightarrow> 0 | Some e \<Rightarrow> payload_int ''runner_sequence'' 0 (ev_payload e))"

definition runner_payload :: "run \<Rightarrow> runner_event \<Rightarrow> dict" where
  "runner_payload r e = dict_update (re_payload e)
     [(''runner_sequence'', JInt (re_sequence e)), (''runner_attempt'', JInt (run_attempt r))]"

definition runner_event_type :: "runner_event \<Rightarrow> string" where
  "runner_event_type e = ''runner.'' @ re_type e @ ''.'' @ re_name e"

definition finish_running_steps :: "int \<Rightarrow> run \<Rightarrow> string \<Rightarrow> string option \<Rightarrow> db \<Rightarrow> db" where
  "finish_running_steps now r status error_code d = d\<lparr>db_steps := update_where
     (\<lambda>s. st_run s = run_id r \<and> st_attempt s = run_attempt r \<and> st_status s = ''running'')
     (\<lambda>s. s\<lparr>st_status := status, st_finished_at := Some now, st_error_code := error_code\<rparr>) (db_steps d)\<rparr>"

definition upsert_step :: "int \<Rightarrow> run \<Rightarrow> runner_event \<Rightarrow> run_status \<Rightarrow> db \<Rightarrow> db" where
  "upsert_step now r e status d =
     (let mine = (\<lambda>s. st_run s = run_id r \<and> st_name s = re_name e \<and> st_attempt s = run_attempt r);
          summary = (case dict_get ''progress_key'' (re_payload e) of None \<Rightarrow> JNull | Some j \<Rightarrow> j)
      in if list_ex mine (db_steps d)
         then (drawn d)\<lparr>db_steps := update_where mine
           (\<lambda>s. s\<lparr>st_status := (if status_value status = re_name e then ''running'' else ''completed''),
              st_summary := summary\<rparr>) (db_steps d)\<rparr>
         else (drawn d)\<lparr>db_steps := db_steps d @ [\<lparr>st_id = uuid4 d, st_run = run_id r,
           st_name = re_name e, st_status = ''running'', st_attempt = run_attempt r,
           st_started_at = Some now, st_finished_at = None, st_error_code = None,
           st_summary = summary\<rparr>]\<rparr>)"

definition set_status :: "nat \<Rightarrow> run_status \<Rightarrow> db \<Rightarrow> db" where
  "set_status rid s d = update_run rid (\<lambda>r. r\<lparr>run_status := s, run_version := run_version r + 1\<rparr>) d"

text \<open>\<open>RunStatus(event.payload.get("status", event.name))\<close>\<close>

definition stage_target :: "runner_event \<Rightarrow> run_status result" where
  "stage_target e = (case dict_get ''status'' (re_payload e) of
     None \<Rightarrow> parse_status (re_name e)
   | Some (JStr s) \<Rightarrow> parse_status s
   | Some _ \<Rightarrow> Inl (ValueError ''RunStatus''))"

definition apply_stage :: "int \<Rightarrow> run \<Rightarrow> runner_event \<Rightarrow> db \<Rightarrow> (db \<times> run_status) result" where
  "apply_stage now r e d =
     bind_result (stage_target e) (\<lambda>target.
       if run_status r \<in> cancelling_statuses then Inr (d, run_status r)
       else if target = run_status r then Inr (upsert_step now r e target d, target)
       else bind_result (assert_transition (run_status r) target) (\<lambda>_.
         Inr (upsert_step now r e target
                (set_status (run_id r) target (finish_running_steps now r ''completed'' None d)), target)))"

definition apply_result :: "int \<Rightarrow> run \<Rightarrow> db \<Rightarrow> (db \<times> run_status) result" where
  "apply_result now r d =
     (if run_status r \<in> cancelling_statuses then Inr (d, run_status r)
      else bind_result (assert_transition (run_status r) FINALIZING) (\<lambda>_.
        Inr (set_status (run_id r) FINALIZING (finish_running_steps now r ''completed'' None d), FINALIZING)))"

definition persist_runner_event :: "int \<Rightarrow> nat \<Rightarrow> runner_event \<Rightarrow> run_status tx" where
  "persist_runner_event now rid e d =
     bind_result (of_option (RuntimeError ''runner event references an unknown run'') (find_run rid d)) (\<lambda>r.
     bind_result (require (re_sequence e = last_runner_sequence r d + 1)
       (ValueError ''expected durable runner sequence'')) (\<lambda>_.
     let d1 = append_event now rid (runner_event_type e) (runner_payload r e) d
     in if re_type e = ''stage'' then apply_stage now r e d1
        else if re_type e = ''result'' then apply_result now r d1
        else Inr (d1, run_status r)))"

section \<open>The endings\<close>

definition release_lease :: "nat \<Rightarrow> db \<Rightarrow> db" where
  "release_lease rid d =
     (let worker = map_option ls_worker (find_lease rid d);
          d1 = d\<lparr>db_leases := delete_where (\<lambda>l. ls_run l = rid) (db_leases d)\<rparr>
      in case worker of None \<Rightarrow> d1 | Some w \<Rightarrow> update_worker w (\<lambda>x. x\<lparr>wk_status := ''idle''\<rparr>) d1)"

definition end_run :: "int \<Rightarrow> nat \<Rightarrow> run_status \<Rightarrow> db \<Rightarrow> db" where
  "end_run now rid s d = update_run rid (\<lambda>r. r\<lparr>run_status := s, run_finished_at := Some now,
     run_version := run_version r + 1\<rparr>) d"

definition finalize_cancelled :: "int \<Rightarrow> nat \<Rightarrow> db \<Rightarrow> db result" where
  "finalize_cancelled now rid d =
     bind_result (of_option (RuntimeError ''cancelled runner references an unknown run'') (find_run rid d)) (\<lambda>r.
     let d1 = finish_running_steps now r ''cancelled'' None d;
         step = (if run_status r = CANCEL_REQUESTED
           then (append_event now rid ''assessment.cancelling'' [] (set_status rid CANCELLING d1), CANCELLING)
           else (d1, run_status r))
     in case step of (d2, current) \<Rightarrow>
       bind_result (assert_transition current CANCELLED) (\<lambda>_.
       Inr (release_lease rid (append_event now rid ''assessment.cancelled'' [] (end_run now rid CANCELLED d2)))))"

definition fail_run :: "int \<Rightarrow> nat \<Rightarrow> string \<Rightarrow> string \<Rightarrow> db \<Rightarrow> db" where
  "fail_run now rid error_code error_summary d = update_run rid (\<lambda>r. r\<lparr>run_status := FAILED,
     run_error_code := Some error_code, run_error_summary := Some (take 2000 error_summary),
     run_finished_at := Some now, run_version := run_version r + 1\<rparr>) d"

definition finalize_failure :: "int \<Rightarrow> nat \<Rightarrow> string \<Rightarrow> string \<Rightarrow> db \<Rightarrow> db result" where
  "finalize_failure now rid error_code error_summary d =
     bind_result (of_option (RuntimeError ''failed runner references an unknown run'') (find_run rid d)) (\<lambda>r.
       if run_status r \<in> cancelling_statuses then finalize_cancelled now rid d
       else bind_result (assert_transition (run_status r) FAILED) (\<lambda>_.
         Inr (release_lease rid
           (append_event now rid ''assessment.failed'' [(''error_code'', JStr error_code)]
             (fail_run now rid error_code error_summary
               (finish_running_steps now r ''failed'' (Some error_code) d))))))"

definition schedule_automatic_retry ::
    "(nat \<Rightarrow> string) \<Rightarrow> int \<Rightarrow> nat \<Rightarrow> string \<Rightarrow> int \<Rightarrow> run option tx" where
  "schedule_automatic_retry uuid_str now rid error_code max_retries d =
     (if error_code \<notin> {''vendor_rate_limit'', ''vendor_transient''} \<or> max_retries \<le> 0 then Inr (d, None)
      else (case find_run rid d of
        None \<Rightarrow> Inr (d, None)
      | Some r \<Rightarrow>
          (if run_status r \<noteq> FAILED \<or> run_attempt r > max_retries then Inr (d, None)
           else if list_ex (\<lambda>x. run_retry_of x = Some rid) (db_runs d) then Inr (d, None)
           else bind_result (of_option (RuntimeError ''automatic retry references an incomplete run context'')
                  (get_run_context rid d)) (\<lambda>c.
             case create_retry uuid_str now c None QUEUED None d of (d1, retry) \<Rightarrow>
               Inr (append_event now rid ''assessment.auto_retry_scheduled''
                 [(''retry_run_id'', JStr (uuid_str (run_id retry))), (''error_code'', JStr error_code),
                  (''attempt'', JInt (run_attempt retry)), (''max_retries'', JInt max_retries)] d1,
                 Some retry)))))"

section \<open>Recovery of stale leases\<close>

definition recover_lease :: "(int \<Rightarrow> bool) \<Rightarrow> int \<Rightarrow> lease \<Rightarrow> db \<times> int \<times> int \<Rightarrow> db \<times> int \<times> int" where
  "recover_lease alive now l acc = (case acc of (d, reclaimed, attention) \<Rightarrow>
     (let drop_lease = (\<lambda>d. d\<lparr>db_leases := delete_where (\<lambda>x. ls_id x = ls_id l) (db_leases d)\<rparr>);
          living = (case ls_child_pid l of None \<Rightarrow> False | Some pid \<Rightarrow> alive pid)
      in case find_run (ls_run l) d of
           None \<Rightarrow> (drop_lease d, reclaimed, attention)
         | Some r \<Rightarrow>
             (let d1 = (if living
                    then update_run (ls_run l) (\<lambda>r. r\<lparr>run_status := NEEDS_ATTENTION,
                       run_error_code := Some ''stale_lease_process_alive'',
                       run_version := run_version r + 1\<rparr>) d
                    else drop_lease (update_run (ls_run l) (\<lambda>r. r\<lparr>run_status := ADMITTED,
                       run_attempt := run_attempt r + 1, run_version := run_version r + 1\<rparr>) d))
              in (append_event now (ls_run l) ''assessment.recovery'' [(''reclaimed'', JBool (\<not> living))] d1,
                  if living then reclaimed else reclaimed + 1,
                  if living then attention + 1 else attention))))"

definition recover_stale_leases ::
    "(int \<Rightarrow> bool) \<Rightarrow> nat set \<Rightarrow> int \<Rightarrow> db \<Rightarrow> db \<times> int \<times> int" where
  "recover_stale_leases alive locked now d =
     fold (recover_lease alive now)
       (filter (\<lambda>l. ls_expires_at l < now \<and> ls_id l \<notin> locked) (db_leases d)) (d, 0, 0)"

section \<open>A successful ending\<close>

text \<open>
  The files of a job directory the worker reads, and the parsers of the standard library and
  of pydantic it applies to them.
\<close>

record work_dir =
  wd_final_state :: "string option"
  wd_decision :: "string option"
  wd_run_config :: "string option"
  wd_memory_context :: "string option"
  wd_evidence :: "string option"
  wd_llm_interactions :: "string option"
  wd_dependency_health :: "string option"
  wd_integrity :: "string option"
  wd_reports :: "(string \<times> string option) list"

record work_env =
  we_sha :: "string \<Rightarrow> string"
  we_uuid :: "nat \<Rightarrow> string"
  we_now :: int
  we_root :: path
  we_loads :: "string \<Rightarrow> dict result"
  we_decimal :: "json \<Rightarrow> rat result"
  we_time :: "json \<Rightarrow> int result"
  we_integrity :: "string \<Rightarrow> integrity_document result"
  we_lines :: "string \<Rightarrow> string list"
  we_calendar :: exchange_calendar

text \<open>\<open>re.sub(r"[^A-Za-z0-9_-]", "_", stem)[:40]\<close>\<close>

definition safe_stem :: "string \<Rightarrow> string" where
  "safe_stem stem = take 40 (map (\<lambda>c. if is_alnum c \<or> c = CHR ''_'' \<or> c = CHR ''-'' then c else CHR ''_'') stem)"

text \<open>\<open>enumerate(sorted(reports.rglob("*")), start=1)\<close>: directories count but have no content.\<close>

fun report_specs :: "nat \<Rightarrow> (string \<times> string option) list \<Rightarrow> (string \<times> string \<times> string) list" where
  "report_specs n [] = []"
| "report_specs n ((stem, None) # rest) = report_specs (Suc n) rest"
| "report_specs n ((stem, Some content) # rest) =
     (''report_'' @ nat_digits n @ ''_'' @ safe_stem stem, ''text/markdown'', content) # report_specs (Suc n) rest"

definition artifact_specs :: "work_dir \<Rightarrow> (string \<times> string \<times> string) list" where
  "artifact_specs w =
     (let json = ''application/json''; ndjson = ''application/x-ndjson'';
          fixed = [(''final_state'', json, wd_final_state w), (''decision'', json, wd_decision w),
            (''run_config'', json, wd_run_config w), (''memory_context'', json, wd_memory_context w),
            (''evidence'', ndjson, wd_evidence w), (''llm_interactions'', ndjson, wd_llm_interactions w),
            (''dependency_health'', ndjson, wd_dependency_health w),
            (''point_in_time_integrity'', json, wd_integrity w)]
      in [(kind, media, content). (kind, media, c) \<leftarrow> fixed, content \<leftarrow> (case c of None \<Rightarrow> [] | Some x \<Rightarrow> [x])]
         @ report_specs 1 (wd_reports w))"

definition manifest_entry :: "stored_artifact \<Rightarrow> json" where
  "manifest_entry s = JObj [(''kind'', JStr (sa_kind s)), (''media_type'', JStr (sa_media_type s)),
     (''size'', JInt (sa_size s)), (''sha256'', JStr (sa_sha256 s)), (''storage_key'', JStr (sa_storage_key s))]"

definition store_one ::
    "work_env \<Rightarrow> nat \<Rightarrow> string \<times> string \<times> string \<Rightarrow> files \<Rightarrow> db
       \<Rightarrow> (files \<times> db \<times> stored_artifact \<times> nat) result" where
  "store_one env rid spec fs d = (case spec of (kind, media, content) \<Rightarrow>
     bind_result (artifact_put (we_sha env) (we_root env) (we_uuid env rid) kind media content fs) (\<lambda>(fs1, s).
     bind_result (insert_artifact (we_now env) [] rid s d) (\<lambda>(d1, a). Inr (fs1, d1, s, a))))"

text \<open>The loop over the specs: the manifest's entries and the identifiers by kind.\<close>

fun store_specs ::
    "work_env \<Rightarrow> nat \<Rightarrow> (string \<times> string \<times> string) list \<Rightarrow> files \<Rightarrow> db
       \<Rightarrow> (files \<times> db \<times> json list \<times> (string \<times> nat) list) result" where
  "store_specs env rid [] fs d = Inr (fs, d, [], [])"
| "store_specs env rid (spec # specs) fs d =
     bind_result (store_one env rid spec fs d) (\<lambda>(fs1, d1, s, a).
     bind_result (store_specs env rid specs fs1 d1) (\<lambda>(fs2, d2, entries, ids).
     Inr (fs2, d2, manifest_entry s # entries, (fst spec, a) # ids)))"

definition kind_id :: "string \<Rightarrow> (string \<times> nat) list \<Rightarrow> nat option" where
  "kind_id kind ids = map_of (rev ids) kind"

definition manifest_text :: "work_env \<Rightarrow> nat \<Rightarrow> json list \<Rightarrow> string" where
  "manifest_text env rid entries =
     json_dumps (JObj [(''run_id'', JStr (we_uuid env rid)), (''artifacts'', JList entries)]) @ newline"

definition required_text :: "string \<Rightarrow> dict \<Rightarrow> string result" where
  "required_text k d = bind_result (of_option (KeyError k) (dict_get k d)) json_string"

definition decision_target :: "work_env \<Rightarrow> dict \<Rightarrow> rat option result" where
  "decision_target env data = (case dict_get ''price_target'' data of
     None \<Rightarrow> Inr None | Some JNull \<Rightarrow> Inr None
   | Some j \<Rightarrow> bind_result (we_decimal env j) (\<lambda>x. Inr (Some x)))"

definition optional_text :: "string \<Rightarrow> dict \<Rightarrow> string option" where
  "optional_text k d = (case dict_get k d of Some (JStr s) \<Rightarrow> Some s | _ \<Rightarrow> None)"

definition persist_decision :: "work_env \<Rightarrow> nat \<Rightarrow> work_dir \<Rightarrow> db \<Rightarrow> db result" where
  "persist_decision env rid w d =
     bind_result (of_option (FileNotFound ''decision.json'') (wd_decision w)) (\<lambda>text.
     bind_result (we_loads env text) (\<lambda>data.
     bind_result (required_text ''rating'' data) (\<lambda>rating.
     bind_result (required_text ''executive_summary'' data) (\<lambda>summary.
     bind_result (required_text ''investment_thesis'' data) (\<lambda>thesis.
     bind_result (decision_target env data) (\<lambda>target.
     bind_result (require (\<not> list_ex (\<lambda>c. dec_run c = rid) (db_decisions d)) (IntegrityViolation ''decisions'')) (\<lambda>_.
     Inr ((drawn d)\<lparr>db_decisions := db_decisions d @ [\<lparr>dec_id = uuid4 d, dec_run = rid,
       dec_rating = rating, dec_executive_summary = summary, dec_investment_thesis = thesis,
       dec_price_target = target, dec_time_horizon = optional_text ''time_horizon'' data\<rparr>]\<rparr>))))))))"

text \<open>\<open>freshness\<close> is a nullable text column: a value that is neither is refused when the row is written.\<close>

definition nullable_text :: "json option \<Rightarrow> string option result" where
  "nullable_text x = (case x of None \<Rightarrow> Inr None | Some JNull \<Rightarrow> Inr None
     | Some j \<Rightarrow> bind_result (json_string j) (\<lambda>s. Inr (Some s)))"

definition evidence_row :: "work_env \<Rightarrow> nat \<Rightarrow> nat option \<Rightarrow> string \<Rightarrow> db \<Rightarrow> db result" where
  "evidence_row env rid artifact line d =
     bind_result (we_loads env line) (\<lambda>item.
     bind_result (of_option (KeyError ''collected_at'') (dict_get ''collected_at'' item)) (\<lambda>collected.
     bind_result (we_time env collected) (\<lambda>collected_at.
     bind_result (required_text ''source'' item) (\<lambda>source.
     bind_result (required_text ''tool_name'' item) (\<lambda>tool.
     bind_result (of_option (KeyError ''arguments'') (dict_get ''arguments'' item)) (\<lambda>arguments.
     bind_result (case dict_get ''effective_at'' item of
          Some (JStr s) \<Rightarrow> bind_result (we_time env (JStr s)) (\<lambda>t. Inr (Some t)) | _ \<Rightarrow> Inr None) (\<lambda>effective_at.
     bind_result (nullable_text (dict_get ''freshness'' item)) (\<lambda>freshness.
     bind_result (required_text ''output_sha256'' item) (\<lambda>hash.
     Inr ((drawn d)\<lparr>db_evidence := db_evidence d @ [\<lparr>evd_id = uuid4 d, evd_run = rid, evd_source = source,
       evd_tool_name = tool, evd_arguments = arguments, evd_collected_at = collected_at,
       evd_effective_at = effective_at, evd_freshness = freshness, evd_artifact = artifact,
       evd_content_hash = hash\<rparr>]\<rparr>))))))))))"

fun persist_evidence_lines :: "work_env \<Rightarrow> nat \<Rightarrow> nat option \<Rightarrow> string list \<Rightarrow> db \<Rightarrow> db result" where
  "persist_evidence_lines env rid artifact [] d = Inr d"
| "persist_evidence_lines env rid artifact (l # ls) d =
     bind_result (evidence_row env rid artifact l d) (persist_evidence_lines env rid artifact ls)"

definition persist_evidence :: "work_env \<Rightarrow> nat \<Rightarrow> work_dir \<Rightarrow> nat option \<Rightarrow> db \<Rightarrow> db result" where
  "persist_evidence env rid w artifact d = (case wd_evidence w of None \<Rightarrow> Inr d
     | Some text \<Rightarrow> persist_evidence_lines env rid artifact (we_lines env text) d)"

text \<open>\<open>_persist_integrity\<close>: a missing document becomes one with an unknown verdict.\<close>

definition missing_integrity :: "(string \<Rightarrow> string) \<Rightarrow> int \<Rightarrow> int \<Rightarrow> integrity_document" where
  "missing_integrity sha now analysis_date =
     integrity_finalize sha (record_finding ''run'' UNKNOWN ''integrity_artifact_missing'' []
       (new_recorder analysis_date now))"

definition persist_integrity :: "work_env \<Rightarrow> int \<Rightarrow> run \<Rightarrow> work_dir \<Rightarrow> nat option \<Rightarrow> db \<Rightarrow> db result" where
  "persist_integrity env now r w artifact d =
     bind_result (of_option (RuntimeError ''integrity persistence references an unknown assessment request'')
       (find_request (run_request r) d)) (\<lambda>q.
     bind_result (case wd_integrity w of Some text \<Rightarrow> we_integrity env text
         | None \<Rightarrow> Inr (missing_integrity (we_sha env) now (req_analysis_date q))) (\<lambda>doc.
     case persist_document now (run_id r) doc artifact ''live'' d of (d1, row) \<Rightarrow>
       Inr (append_event now (run_id r) ''assessment.integrity_recorded''
         [(''integrity_id'', JStr (we_uuid env (itg_id row))), (''policy_version'', JStr (itg_policy_version row)),
          (''status'', JStr (itg_status row))] d1)))"

text \<open>
  \<open>finalize_success\<close>. An error rolls the rows back; the files it may have stored before
  that are content-addressed and not referenced by any row, and are not part of the result.
\<close>

definition finalize_rows ::
    "work_env \<Rightarrow> int \<Rightarrow> run \<Rightarrow> work_dir \<Rightarrow> json list \<Rightarrow> (string \<times> nat) list \<Rightarrow> db \<Rightarrow> db result" where
  "finalize_rows env now r w entries ids d =
     bind_result (persist_decision env (run_id r) w d) (\<lambda>d1.
     bind_result (persist_evidence env (run_id r) w (kind_id ''evidence'' ids) d1) (\<lambda>d2.
     bind_result (persist_integrity env now r w (kind_id ''point_in_time_integrity'' ids) d2) (\<lambda>d3.
     bind_result (assert_transition FINALIZING SUCCEEDED) (\<lambda>_.
     let d4 = append_event now (run_id r) ''assessment.succeeded''
           [(''artifact_count'', JInt (int (length entries) + 1))] (end_run now (run_id r) SUCCEEDED d3)
     in bind_result (schedule_validations (we_uuid env) (we_calendar env) now ''validation.v2'' (run_id r) [1, 5, 20]
           SYSTEM_VALIDATION_PRINCIPAL (''validation-terminal-'' @ we_uuid env (run_id r)) d4) (\<lambda>(d5, _).
        Inr (release_lease (run_id r) d5))))))"

definition finalize_success ::
    "work_env \<Rightarrow> int \<Rightarrow> nat \<Rightarrow> work_dir \<Rightarrow> files \<Rightarrow> db \<Rightarrow> (files \<times> db) result" where
  "finalize_success env now rid w fs d =
     (case acquire_lock {} ''global:archive'' True d of (got, d0) \<Rightarrow>
     bind_result (require got (RuntimeError ''archive coordination lock is unavailable'')) (\<lambda>_.
     bind_result (of_option (RuntimeError ''successful runner is not ready for finalization'') (find_run rid d0)) (\<lambda>r.
     bind_result (require (run_status r = FINALIZING)
       (RuntimeError ''successful runner is not ready for finalization'')) (\<lambda>_.
     bind_result (store_specs env rid (artifact_specs w) fs (finish_running_steps now r ''completed'' None d0))
       (\<lambda>(fs1, d1, entries, ids).
     bind_result (store_one env rid (''manifest'', ''application/json'', manifest_text env rid entries) fs1 d1)
       (\<lambda>(fs2, d2, _, _).
     bind_result (finalize_rows env now r w entries ids d2) (\<lambda>d3. Inr (fs2, d3))))))))"


end
