(* ===== verification/RunService.thy ===== *)
theory RunService
  imports Workers
begin

text \<open>
  The process around a run: the runner's stage tracker and event emitter
  (\<open>runner/events.py\<close>), its error classes (\<open>runner/cli.py\<close>), the protocol the worker
  enforces on the runner's lines, the redaction of diagnostics and the end of
  \<open>WorkerService.run_once\<close> (\<open>worker/service.py\<close>), and the cancellation of the child
  process (\<open>worker/process.py\<close>).
\<close>

section \<open>The stage tracker\<close>

definition STAGE_KEYS :: "(string \<times> string) list" where
  "STAGE_KEYS = [(''market_report'', ''running_analysts''), (''sentiment_report'', ''running_analysts''),
     (''news_report'', ''running_analysts''), (''fundamentals_report'', ''running_analysts''),
     (''investment_debate_state'', ''research_debate''), (''trader_investment_plan'', ''trader_plan''),
     (''risk_debate_state'', ''risk_debate''), (''final_trade_decision'', ''portfolio_decision'')]"

text \<open>\<open>{status: rank for rank, status in enumerate(\<dots>)}\<close>: the last rank of a status counts.\<close>

definition stage_rank :: "string \<Rightarrow> int" where
  "stage_rank status = (case map_of (rev (zip (map snd STAGE_KEYS) [0..<length STAGE_KEYS])) status of
     Some n \<Rightarrow> int n | None \<Rightarrow> 0)"

fun has_progress :: "json \<Rightarrow> bool" where
  "has_progress (JObj d) = list_ex (\<lambda>(k, v). has_progress v) d"
| "has_progress (JList js) = list_ex has_progress js"
| "has_progress j = json_truthy j"

record stage_update =
  su_status :: string
  su_progress_key :: string
  su_content_hash :: string
  su_transitioned :: bool

record tracker =
  tr_rank :: int
  tr_fingerprints :: "(string \<times> string) list"

definition new_tracker :: tracker where
  "new_tracker = \<lparr>tr_rank = - 1, tr_fingerprints = []\<rparr>"

text \<open>A candidate: its rank, its position, key, status and fingerprint.\<close>

type_synonym stage_candidate = "int \<times> nat \<times> string \<times> string \<times> string"

definition stage_candidates :: "(string \<Rightarrow> string) \<Rightarrow> dict \<Rightarrow> tracker \<Rightarrow> stage_candidate list" where
  "stage_candidates sha chunk t = [(stage_rank status, order, key, status, fp).
     (order, key, status) \<leftarrow> zip [0..<length STAGE_KEYS] STAGE_KEYS,
     value \<leftarrow> (case dict_get key chunk of None \<Rightarrow> [] | Some v \<Rightarrow> [v]), has_progress value,
     fp \<leftarrow> [sha (json_dumps value)],
     stage_rank status \<ge> tr_rank t \<and> map_of (tr_fingerprints t) key \<noteq> Some fp]"

definition better_candidate :: "stage_candidate \<Rightarrow> stage_candidate \<Rightarrow> bool" where
  "better_candidate a b \<longleftrightarrow> fst b < fst a \<or> (fst b = fst a \<and> fst (snd b) < fst (snd a))"

definition tracker_consume :: "(string \<Rightarrow> string) \<Rightarrow> dict \<Rightarrow> tracker \<Rightarrow> tracker \<times> stage_update option" where
  "tracker_consume sha chunk t =
     (case stage_candidates sha chunk t of
        [] \<Rightarrow> (t, None)
      | c # cs \<Rightarrow>
          (case fold (\<lambda>a best. if better_candidate a best then a else best) cs c of
             (rank, _, key, status, fp) \<Rightarrow>
               (\<lparr>tr_rank = max (tr_rank t) rank, tr_fingerprints = (key, fp) # tr_fingerprints t\<rparr>,
                Some \<lparr>su_status = status, su_progress_key = key, su_content_hash = fp,
                  su_transitioned = (rank > tr_rank t)\<rparr>)))"

text \<open>The updates of a sequence of chunks.\<close>

fun track :: "(string \<Rightarrow> string) \<Rightarrow> dict list \<Rightarrow> tracker \<Rightarrow> stage_update list" where
  "track sha [] t = []"
| "track sha (chunk # chunks) t =
     (case tracker_consume sha chunk t of
        (t1, None) \<Rightarrow> track sha chunks t1
      | (t1, Some u) \<Rightarrow> u # track sha chunks t1)"

section \<open>The runner's protocol\<close>

text \<open>\<open>EventEmitter.emit\<close> for a list of events, from the sequence number reached so far.\<close>

fun emit_all :: "int \<Rightarrow> (string \<times> string \<times> dict) list \<Rightarrow> runner_event list" where
  "emit_all n [] = []"
| "emit_all n ((ty, name, payload) # rest) =
     \<lparr>re_sequence = n + 1, re_type = ty, re_name = name, re_payload = payload\<rparr> # emit_all (n + 1) rest"

record protocol =
  pt_expected :: int
  pt_saw_result :: bool
  pt_last_error :: "string option"

definition new_protocol :: protocol where
  "new_protocol = \<lparr>pt_expected = 1, pt_saw_result = False, pt_last_error = None\<rparr>"

definition protocol_consume :: "runner_event \<Rightarrow> protocol \<Rightarrow> protocol result" where
  "protocol_consume e p =
     bind_result (require (\<not> pt_saw_result p) (ValueError ''runner emitted data after terminal result'')) (\<lambda>_.
     bind_result (require (re_sequence e = pt_expected p) (ValueError ''expected runner sequence'')) (\<lambda>_.
     Inr \<lparr>pt_expected = pt_expected p + 1, pt_saw_result = (re_type e = ''result''),
       pt_last_error = (case (re_type e = ''error'', dict_get ''error_code'' (re_payload e)) of
          (True, Some (JStr s)) \<Rightarrow> Some s | _ \<Rightarrow> pt_last_error p)\<rparr>))"

fun protocol_run :: "runner_event list \<Rightarrow> protocol \<Rightarrow> protocol result" where
  "protocol_run [] p = Inr p"
| "protocol_run (e # es) p = bind_result (protocol_consume e p) (protocol_run es)"

text \<open>\<open>classify_runner_error\<close> on the lower-cased name of the exception class.\<close>

definition classify_runner_error :: "string \<Rightarrow> string" where
  "classify_runner_error type_name =
     (let n = str_lower type_name; has = (\<lambda>m. contains_str m n) in
      if (has ''vendor'' \<or> has ''alpha'') \<and> has ''ratelimit'' then ''vendor_rate_limit''
      else if (has ''vendor'' \<or> has ''alpha'') \<and> (has ''transient'' \<or> has ''unavailable'' \<or> has ''connection'')
      then ''vendor_transient''
      else if has ''ratelimit'' \<or> has ''toomanyrequests'' \<or> has ''overload'' then ''gateway_overload''
      else if has ''timeout'' \<or> has ''connection'' \<or> has ''internalserver'' \<or> has ''serviceunavailable''
      then ''gateway_unavailable'' else ''runner_unhandled_error'')"

section \<open>Redaction\<close>

text \<open>
  \<open>(?i)(api[_-]?key|authorization|cookie|password|secret|token)(\s*[:=]\s*)(\S+)\<close>, each match
  replaced by its first two groups and \<open>[REDACTED]\<close>. No keyword is a prefix of another, so
  the alternatives exclude each other, and no backtracking changes a match.
\<close>

definition SECRET_WORDS :: "string list" where
  "SECRET_WORDS = [''apikey'', ''api_key'', ''api-key'', ''authorization'', ''cookie'', ''password'',
     ''secret'', ''token'']"

definition secret_word :: "string \<Rightarrow> string option" where
  "secret_word s = find (\<lambda>w. map lower_char (take (length w) s) = w) SECRET_WORDS"

definition split_spaces :: "string \<Rightarrow> string \<times> string" where
  "split_spaces s = (takeWhile is_space s, dropWhile is_space s)"

text \<open>The text of a match at the start: what is kept, and the rest after the secret.\<close>

definition secret_match :: "string \<Rightarrow> (string \<times> string) option" where
  "secret_match s = (case secret_word s of None \<Rightarrow> None
     | Some w \<Rightarrow>
        (case split_spaces (drop (length w) s) of (sp1, r1) \<Rightarrow>
          (case r1 of [] \<Rightarrow> None
           | c # r2 \<Rightarrow>
              (if c \<noteq> CHR '':'' \<and> c \<noteq> CHR ''='' then None
               else case split_spaces r2 of (sp2, r3) \<Rightarrow>
                 (if r3 = [] then None
                  else Some (take (length w) s @ sp1 @ [c] @ sp2, dropWhile (\<lambda>x. \<not> is_space x) r3))))))"

lemma length_secret_match: "secret_match s = Some (kept, rest) \<Longrightarrow> length rest < length s"
proof -
  assume "secret_match s = Some (kept, rest)"
  then obtain w c r2 r3 where w: "secret_word s = Some w"
    and r1: "dropWhile is_space (drop (length w) s) = c # r2" and r3: "r3 = dropWhile is_space r2"
    and rest: "rest = dropWhile (\<lambda>x. \<not> is_space x) r3"
    by (auto simp: secret_match_def split_spaces_def split: option.splits list.splits if_split_asm)
  have "length rest \<le> length r3" unfolding rest by (rule length_dropWhile_le)
  also have "\<dots> \<le> length r2" unfolding r3 by (rule length_dropWhile_le)
  also have "\<dots> < length (dropWhile is_space (drop (length w) s))" by (simp add: r1)
  also have "\<dots> \<le> length s" using length_dropWhile_le [of is_space "drop (length w) s"] by simp
  finally show ?thesis .
qed

function redact :: "string \<Rightarrow> string" where
  "redact s = (case secret_match s of
     Some (kept, rest) \<Rightarrow> kept @ ''[REDACTED]'' @ redact rest
   | None \<Rightarrow> (case s of [] \<Rightarrow> [] | c # cs \<Rightarrow> c # redact cs))"
  by auto
termination
  by (relation "measure length") (auto simp: length_secret_match)

declare redact.simps [simp del]

definition redacted_diagnostic :: "string \<Rightarrow> string" where
  "redacted_diagnostic content = redact (drop (length content - 8192) content)"

section \<open>Dependency health\<close>

record health_event =
  he_scope :: string
  he_healthy :: bool
  he_latency_ms :: int
  he_observed_at :: int
  he_error_code :: "string option"
  he_vendor :: "string option"
  he_category :: "string option"

text \<open>The validator of \<open>DependencyHealthEvent\<close>.\<close>

definition or_default :: "string \<Rightarrow> string option \<Rightarrow> string" where
  "or_default v x = (case x of None \<Rightarrow> v | Some s \<Rightarrow> if s = [] then v else s)"

definition validate_health_event :: "health_event \<Rightarrow> health_event result" where
  "validate_health_event e =
     (if he_scope e = ''vendor'' \<and> (or_default [] (he_vendor e) = [] \<or> or_default [] (he_category e) = [])
      then Inl (ValueError ''vendor and category are required for vendor health events'') else Inr e)"

definition record_health :: "health_event \<Rightarrow> db \<Rightarrow> db" where
  "record_health e d = d\<lparr>db_circuits :=
     (if he_scope e = ''gateway''
      then record_gateway_sample (he_healthy e) (he_latency_ms e) (he_observed_at e) (he_error_code e) None (db_circuits d)
      else record_vendor_sample (or_default ''default'' (he_vendor e)) (or_default ''unknown'' (he_category e))
             (he_healthy e) (he_latency_ms e) (he_observed_at e) (he_error_code e) (db_circuits d))\<rparr>"

definition persist_dependency_health ::
    "(string \<Rightarrow> health_event result) \<Rightarrow> (string \<Rightarrow> string list) \<Rightarrow> string option \<Rightarrow> db \<Rightarrow> (db \<times> nat) result" where
  "persist_dependency_health parse split file d =
     (case file of None \<Rightarrow> Inr (d, 0)
      | Some text \<Rightarrow>
         bind_result (require (int (length text) \<le> 1048576) (ValueError ''dependency health file exceeds one MiB'')) (\<lambda>_.
         bind_result (map_result (\<lambda>l. bind_result (require (int (length l) \<le> 1048576)
              (ValueError ''dependency health event exceeds one MiB'')) (\<lambda>_. bind_result (parse l) validate_health_event))
            (filter (\<lambda>l. l \<noteq> []) (split text))) (\<lambda>events.
         Inr (fold record_health events d, length events))))"

section \<open>The end of a run\<close>

definition failure_of :: "int \<Rightarrow> protocol \<Rightarrow> (int \<Rightarrow> string) \<Rightarrow> (string \<times> string) option" where
  "failure_of return_code p show_int =
     (if return_code \<noteq> 0 then
        Some (case pt_last_error p of None \<Rightarrow> ''runner_nonzero_exit''
                | Some s \<Rightarrow> if s = [] then ''runner_nonzero_exit'' else s,
              ''runner exited with status '' @ show_int return_code)
      else if \<not> pt_saw_result p then
        Some (''runner_missing_result'', ''runner exited without a terminal result event'')
      else None)"

definition store_diagnostic :: "work_env \<Rightarrow> nat \<Rightarrow> string option \<Rightarrow> files \<Rightarrow> db \<Rightarrow> (files \<times> db) result" where
  "store_diagnostic env rid stderr fs d = (case stderr of None \<Rightarrow> Inr (fs, d)
     | Some text \<Rightarrow> bind_result (store_one env rid (''runner_diagnostic'', ''text/plain'', redacted_diagnostic text) fs d)
         (\<lambda>(fs1, d1, _, _). Inr (fs1, d1)))"

definition sample_gateway :: "int \<Rightarrow> bool \<Rightarrow> string option \<Rightarrow> db \<Rightarrow> db" where
  "sample_gateway now healthy code d =
     d\<lparr>db_circuits := record_gateway_sample healthy 0 now code None (db_circuits d)\<rparr>"

definition settle_run ::
    "work_env \<Rightarrow> (string \<Rightarrow> health_event result) \<Rightarrow> int \<Rightarrow> nat \<Rightarrow> bool \<Rightarrow> (string \<times> string) option
       \<Rightarrow> work_dir \<Rightarrow> string option \<Rightarrow> int \<Rightarrow> files \<Rightarrow> db \<Rightarrow> (files \<times> db) result" where
  "settle_run env parse now rid cancel_requested failure w stderr max_retries fs d =
     bind_result (persist_dependency_health parse (we_lines env) (wd_dependency_health w) d) (\<lambda>(d0, _).
     if cancel_requested then bind_result (finalize_cancelled now rid d0) (\<lambda>d1. Inr (fs, d1))
     else case failure of
       None \<Rightarrow> bind_result (finalize_success env now rid w fs d0) (\<lambda>(fs1, d1).
                 Inr (fs1, sample_gateway now True None d1))
     | Some (code, summary) \<Rightarrow>
         bind_result (store_diagnostic env rid stderr fs d0) (\<lambda>(fs1, d1).
         bind_result (finalize_failure now rid code (if summary = [] then code else summary) d1) (\<lambda>d2.
         bind_result (schedule_automatic_retry (we_uuid env) now rid code max_retries d2) (\<lambda>(d3, _).
         Inr (fs1, if code \<in> {''gateway_overload'', ''gateway_unavailable''}
           then sample_gateway now False (Some code) d3 else d3)))))"

section \<open>Cancelling the child\<close>

datatype signal_step = Wait int | Terminate int | Kill int

text \<open>
  \<open>CancellationController.cancel\<close>: the steps it takes; \<open>same1\<close> and \<open>same2\<close> tell whether the
  process still has the identity it was launched with when the code asks.
\<close>

definition cancel_steps :: "int \<Rightarrow> int \<Rightarrow> int \<Rightarrow> int \<Rightarrow> bool \<Rightarrow> bool \<Rightarrow> signal_step list" where
  "cancel_steps node_grace term_grace elapsed pgid same1 same2 =
     (let remaining = node_grace - elapsed
      in (if remaining > 0 then [Wait remaining] else [])
         @ (if \<not> same1 then []
            else [Terminate pgid, Wait term_grace] @ (if same2 then [Kill pgid] else [])))"

section \<open>The runner's input\<close>

text \<open>
  \<open>RunnerInput\<close> and \<open>build_runner_input\<close>. A field is read from the claimed snapshot with
  its type and bounds; pydantic's coercions between JSON types are not modelled, because
  admission writes the snapshot with the types of the fields. \<open>ri_numbers\<close> turns a JSON
  number into a rational and \<open>ri_memory\<close> is \<open>MemorySnapshot.model_validate\<close>.
\<close>

record runner_input =
  ri_run :: nat
  ri_ticker :: string
  ri_asset_type :: string
  ri_analysis_date :: int
  ri_analysts_in :: "string list"
  ri_debate_rounds :: int
  ri_risk_rounds :: int
  ri_language :: string
  ri_codex :: "string \<times> string"
  ri_fast :: "string \<times> string"
  ri_slow :: "string \<times> string"
  ri_work_dir :: path
  ri_data_vendors :: "(string \<times> string) list"
  ri_tool_vendors :: "(string \<times> string) list"
  ri_manifest_snapshot_id :: "string option"
  ri_coordination_dir :: path
  ri_requests_per_minute :: int
  ri_retry_attempts :: int
  ri_retry_base_seconds :: rat
  ri_retry_max_seconds :: rat
  ri_memory_snapshot :: memory_snapshot

definition item_of :: "string \<Rightarrow> dict \<Rightarrow> json result" where
  "item_of k d = of_option (KeyError k) (dict_get k d)"

definition as_dict :: "json \<Rightarrow> dict result" where
  "as_dict j = (case j of JObj d \<Rightarrow> Inr d | _ \<Rightarrow> Inl (TypeError ''dict''))"

definition dict_item :: "string \<Rightarrow> dict \<Rightarrow> dict result" where
  "dict_item k d = bind_result (item_of k d) as_dict"

text \<open>\<open>dict(d.get(k) or {})\<close>\<close>

definition dict_or_empty :: "string \<Rightarrow> dict \<Rightarrow> dict result" where
  "dict_or_empty k d = (case dict_get k d of
     None \<Rightarrow> Inr [] | Some j \<Rightarrow> if json_truthy j then as_dict j else Inr [])"

definition bounded_str :: "nat \<Rightarrow> nat \<Rightarrow> json \<Rightarrow> string result" where
  "bounded_str lo hi j = (case j of
     JStr s \<Rightarrow> (if lo \<le> length s \<and> length s \<le> hi then Inr s else Inl (ValueError ''length''))
   | _ \<Rightarrow> Inl (ValueError ''str''))"

definition bounded_int :: "int \<Rightarrow> int \<Rightarrow> json \<Rightarrow> int result" where
  "bounded_int lo hi j = (case j of
     JInt i \<Rightarrow> (if lo \<le> i \<and> i \<le> hi then Inr i else Inl (ValueError ''range''))
   | _ \<Rightarrow> Inl (ValueError ''int''))"

definition bounded_number :: "(json \<Rightarrow> rat result) \<Rightarrow> rat \<Rightarrow> json \<Rightarrow> rat result" where
  "bounded_number number hi j = bind_result (number j) (\<lambda>x.
     if 0 < x \<and> x \<le> hi then Inr x else Inl (ValueError ''range''))"

definition string_map :: "json \<Rightarrow> (string \<times> string) list result" where
  "string_map j = (case j of
     JObj d \<Rightarrow> map_result (\<lambda>(k, v). case v of JStr s \<Rightarrow> Inr (k, s) | _ \<Rightarrow> Inl (ValueError ''str'')) d
   | _ \<Rightarrow> Inl (ValueError ''dict''))"

definition string_tuple :: "json \<Rightarrow> string list result" where
  "string_tuple j = (case j of
     JList js \<Rightarrow> bind_result (map_result (\<lambda>x. case x of JStr s \<Rightarrow> Inr s | _ \<Rightarrow> Inl (ValueError ''str'')) js)
       (\<lambda>xs. if xs = [] then Inl (ValueError ''min_length'') else Inr xs)
   | _ \<Rightarrow> Inl (ValueError ''tuple''))"

definition route_items :: "dict \<Rightarrow> (json \<times> json) result" where
  "route_items r = bind_result (item_of ''model'' r) (\<lambda>m.
     bind_result (item_of ''reasoning_effort'' r) (\<lambda>e. Inr (m, e)))"

definition route_of :: "json \<times> json \<Rightarrow> (string \<times> string) result" where
  "route_of me = bind_result (bounded_str 1 128 (fst me)) (\<lambda>model.
     bind_result (bounded_str 1 32 (snd me)) (\<lambda>effort. Inr (model, effort)))"

definition legacy_route :: "dict \<Rightarrow> dict result" where
  "legacy_route gateway = bind_result (item_of ''model'' gateway) (\<lambda>m.
     bind_result (item_of ''reasoning_effort'' gateway) (\<lambda>e. Inr [(''model'', m), (''reasoning_effort'', e)]))"

text \<open>\<open>dict(routes.get(k) or legacy_route)\<close>\<close>

definition named_route :: "string \<Rightarrow> dict \<Rightarrow> dict \<Rightarrow> dict result" where
  "named_route k routes legacy = (case dict_get k routes of
     None \<Rightarrow> Inr legacy | Some j \<Rightarrow> if json_truthy j then as_dict j else Inr legacy)"

definition alpha_policy :: "dict \<Rightarrow> dict result" where
  "alpha_policy snapshot = bind_result (dict_or_empty ''vendor_policies'' snapshot) (dict_or_empty ''alpha_vantage'')"

definition dict_default :: "string \<Rightarrow> json \<Rightarrow> dict \<Rightarrow> json" where
  "dict_default k v d = (case dict_get k d of None \<Rightarrow> v | Some j \<Rightarrow> j)"

record input_env =
  ie_job_dir :: path
  ie_uuid_text :: "nat \<Rightarrow> string"
  ie_number :: "json \<Rightarrow> rat result"
  ie_memory :: "json \<Rightarrow> memory_snapshot result"

definition snapshot_memory :: "input_env \<Rightarrow> (string \<Rightarrow> string) \<Rightarrow> (rat \<Rightarrow> string) \<Rightarrow> dict \<Rightarrow> memory_snapshot result" where
  "snapshot_memory env sha show snapshot = (case dict_get ''memory'' snapshot of
     None \<Rightarrow> build_memory_snapshot sha (ie_uuid_text env) show INDEPENDENT [] 1 [] 5
   | Some JNull \<Rightarrow> build_memory_snapshot sha (ie_uuid_text env) show INDEPENDENT [] 1 [] 5
   | Some j \<Rightarrow> ie_memory env j)"

text \<open>
  The values \<open>build_runner_input\<close> passes on, before their validation: the analysts, the two
  rounds, the language, the three routes, the two vendor tables, the manifest and the policy.
\<close>

record raw_input =
  raw_analysts :: json
  raw_rounds :: "json \<times> json"
  raw_language :: json
  raw_codex :: "json \<times> json"
  raw_fast :: "json \<times> json"
  raw_slow :: "json \<times> json"
  raw_vendors :: "json \<times> json"
  raw_manifest :: dict
  raw_alpha :: dict
  raw_memory :: memory_snapshot

definition read_snapshot ::
    "input_env \<Rightarrow> (string \<Rightarrow> string) \<Rightarrow> (rat \<Rightarrow> string) \<Rightarrow> dict \<Rightarrow> raw_input result" where
  "read_snapshot env sha show snapshot =
     bind_result (dict_item ''request'' snapshot) (\<lambda>request.
     bind_result (dict_item ''resolved'' snapshot) (\<lambda>resolved.
     bind_result (dict_item ''gateway'' snapshot) (\<lambda>gateway.
     bind_result (dict_or_empty ''routes'' gateway) (\<lambda>routes.
     bind_result (legacy_route gateway) (\<lambda>legacy.
     bind_result (named_route ''fast'' routes legacy) (\<lambda>fast.
     bind_result (named_route ''slow'' routes legacy) (\<lambda>slow.
     bind_result (snapshot_memory env sha show snapshot) (\<lambda>memory.
     bind_result (alpha_policy snapshot) (\<lambda>alpha.
     bind_result (dict_or_empty ''data_manifest'' request) (\<lambda>manifest.
     bind_result (item_of ''analysts'' request) (\<lambda>analysts.
     bind_result (item_of ''debate_rounds'' resolved) (\<lambda>debate.
     bind_result (item_of ''risk_rounds'' resolved) (\<lambda>risk.
     bind_result (item_of ''language'' request) (\<lambda>language.
     bind_result (route_items gateway) (\<lambda>codex_items.
     bind_result (route_items fast) (\<lambda>fast_items.
     bind_result (route_items slow) (\<lambda>slow_items.
     bind_result (item_of ''data_vendors'' snapshot) (\<lambda>data_vendors.
     bind_result (item_of ''tool_vendors'' snapshot) (\<lambda>tool_vendors.
     Inr \<lparr>raw_analysts = analysts, raw_rounds = (debate, risk), raw_language = language,
       raw_codex = codex_items, raw_fast = fast_items, raw_slow = slow_items,
       raw_vendors = (data_vendors, tool_vendors), raw_manifest = manifest, raw_alpha = alpha,
       raw_memory = memory\<rparr>)))))))))))))))))))"

definition optional_snapshot_id :: "dict \<Rightarrow> string option result" where
  "optional_snapshot_id manifest = (case dict_get ''snapshot_id'' manifest of
     None \<Rightarrow> Inr None | Some JNull \<Rightarrow> Inr None
   | Some j \<Rightarrow> bind_result (bounded_str 0 64 j) (\<lambda>s. Inr (Some s)))"

definition validate_input :: "input_env \<Rightarrow> claimed_run \<Rightarrow> raw_input \<Rightarrow> runner_input result" where
  "validate_input env c raw =
     bind_result (bounded_str 1 32 (JStr (cr_ticker c))) (\<lambda>ticker.
     bind_result (bounded_str 1 32 (JStr (cr_asset_type c))) (\<lambda>asset_type.
     bind_result (string_tuple (raw_analysts raw)) (\<lambda>analysts.
     bind_result (bounded_int 1 5 (fst (raw_rounds raw))) (\<lambda>debate.
     bind_result (bounded_int 1 5 (snd (raw_rounds raw))) (\<lambda>risk.
     bind_result (bounded_str 1 64 (raw_language raw)) (\<lambda>language.
     bind_result (route_of (raw_codex raw)) (\<lambda>codex.
     bind_result (route_of (raw_fast raw)) (\<lambda>fast.
     bind_result (route_of (raw_slow raw)) (\<lambda>slow.
     bind_result (string_map (fst (raw_vendors raw))) (\<lambda>data_vendors.
     bind_result (string_map (snd (raw_vendors raw))) (\<lambda>tool_vendors.
     bind_result (optional_snapshot_id (raw_manifest raw)) (\<lambda>manifest.
     bind_result (bounded_int 1 10000 (dict_default ''requests_per_minute'' (JInt 75) (raw_alpha raw))) (\<lambda>rpm.
     bind_result (bounded_int 1 20 (dict_default ''retry_attempts'' (JInt 6) (raw_alpha raw))) (\<lambda>attempts.
     bind_result (bounded_number (ie_number env) 300 (dict_default ''retry_base_seconds'' (JInt 5) (raw_alpha raw))) (\<lambda>retry_base.
     bind_result (bounded_number (ie_number env) 900 (dict_default ''retry_max_seconds'' (JInt 60) (raw_alpha raw))) (\<lambda>retry_max.
     bind_result (require (retry_base \<le> retry_max) (ValueError ''Alpha Vantage retry base must not exceed its maximum'')) (\<lambda>_.
     Inr \<lparr>ri_run = cr_run c, ri_ticker = ticker, ri_asset_type = asset_type,
       ri_analysis_date = cr_analysis_date c, ri_analysts_in = analysts, ri_debate_rounds = debate,
       ri_risk_rounds = risk, ri_language = language, ri_codex = codex, ri_fast = fast, ri_slow = slow,
       ri_work_dir = ie_job_dir env @ [ie_uuid_text env (cr_run c)], ri_data_vendors = data_vendors,
       ri_tool_vendors = tool_vendors, ri_manifest_snapshot_id = manifest,
       ri_coordination_dir = butlast (ie_job_dir env) @ [''vendor-limits''],
       ri_requests_per_minute = rpm, ri_retry_attempts = attempts, ri_retry_base_seconds = retry_base,
       ri_retry_max_seconds = retry_max, ri_memory_snapshot = raw_memory raw\<rparr>)))))))))))))))))"

definition build_runner_input ::
    "input_env \<Rightarrow> (string \<Rightarrow> string) \<Rightarrow> (rat \<Rightarrow> string) \<Rightarrow> claimed_run \<Rightarrow> runner_input result" where
  "build_runner_input env sha show c =
     bind_result (read_snapshot env sha show (cr_snapshot c)) (validate_input env c)"

section \<open>Serving a run\<close>

definition protocol_line ::
    "(string \<Rightarrow> runner_event result) \<Rightarrow> string \<Rightarrow> protocol \<Rightarrow> (runner_event \<times> protocol) result" where
  "protocol_line parse line p =
     bind_result (require (\<not> pt_saw_result p) (ValueError ''runner emitted data after terminal result'')) (\<lambda>_.
     bind_result (parse line) (\<lambda>e.
     bind_result (protocol_consume e p) (\<lambda>p1. Inr (e, p1))))"

text \<open>
  The loop of \<open>WorkerService.run_once\<close>. A tick is one pass: what other transactions have
  committed since the last one, a line if one has arrived, and the two clocks. The state of
  the loop is the database, the protocol, the last heartbeat and whether the cancellation of
  the child has been started.
\<close>

record tick =
  tk_others :: "db \<Rightarrow> db"
  tk_line :: "string option"
  tk_clock :: int
  tk_now :: int

record serving =
  sv_db :: db
  sv_protocol :: protocol
  sv_last_heartbeat :: int
  sv_cancelling :: bool

text \<open>The protocol has advanced when a line is accepted, also if storing the event fails then.\<close>

definition serve_line ::
    "(string \<Rightarrow> runner_event result) \<Rightarrow> nat \<Rightarrow> int \<Rightarrow> string \<Rightarrow> serving \<Rightarrow> serving \<times> py_error option" where
  "serve_line parse rid now line s =
     (case bind_result (require (int (length line) \<le> 1048576) (ValueError ''runner protocol line exceeds one MiB''))
         (\<lambda>_. protocol_line parse line (sv_protocol s)) of
        Inl err \<Rightarrow> (s, Some err)
      | Inr (e, p) \<Rightarrow> (case persist_runner_event now rid e (sv_db s) of
          Inl err \<Rightarrow> (s\<lparr>sv_protocol := p\<rparr>, Some err)
        | Inr (d, _) \<Rightarrow> (s\<lparr>sv_db := d, sv_protocol := p\<rparr>, None)))"

definition serve_heartbeat :: "nat \<Rightarrow> nat \<Rightarrow> tick \<Rightarrow> serving \<Rightarrow> serving result" where
  "serve_heartbeat wid rid t s =
     (if tk_clock t - sv_last_heartbeat s < SECONDS 10 then Inr s
      else bind_result (heartbeat (tk_now t) wid rid (sv_db s)) (\<lambda>d.
        Inr (s\<lparr>sv_db := d, sv_last_heartbeat := tk_clock t\<rparr>)))"

definition watch_cancel :: "nat \<Rightarrow> serving \<Rightarrow> serving" where
  "watch_cancel rid s = s\<lparr>sv_cancelling := (sv_cancelling s \<or> is_cancel_requested rid (sv_db s))\<rparr>"

definition take_line ::
    "(string \<Rightarrow> runner_event result) \<Rightarrow> nat \<Rightarrow> tick \<Rightarrow> serving \<Rightarrow> serving \<times> py_error option" where
  "take_line parse rid t s = (case tk_line t of None \<Rightarrow> (s, None)
     | Some line \<Rightarrow> serve_line parse rid (tk_now t) line s)"

definition serve_tick ::
    "(string \<Rightarrow> runner_event result) \<Rightarrow> nat \<Rightarrow> nat \<Rightarrow> tick \<Rightarrow> serving \<Rightarrow> serving \<times> py_error option" where
  "serve_tick parse wid rid t s =
     (case take_line parse rid t (s\<lparr>sv_db := tk_others t (sv_db s)\<rparr>) of
        (s1, Some e) \<Rightarrow> (s1, Some e)
      | (s1, None) \<Rightarrow> (case serve_heartbeat wid rid t s1 of
          Inl e \<Rightarrow> (s1, Some e)
        | Inr s2 \<Rightarrow> (watch_cancel rid s2, None)))"

text \<open>
  All ticks up to the end of the child's output. A \<open>ValueError\<close> ends the loop with a
  protocol failure; any other exception leaves \<open>run_once\<close>. Both keep what was committed.
\<close>

datatype served = Ended | ProtocolFailure string | Crashed py_error

fun serve ::
    "(string \<Rightarrow> runner_event result) \<Rightarrow> nat \<Rightarrow> nat \<Rightarrow> tick list \<Rightarrow> serving \<Rightarrow> serving \<times> served" where
  "serve parse wid rid [] s = (s, Ended)"
| "serve parse wid rid (t # ts) s = (case serve_tick parse wid rid t s of
     (s1, None) \<Rightarrow> serve parse wid rid ts s1
   | (s1, Some (ValueError m)) \<Rightarrow> (s1, ProtocolFailure m)
   | (s1, Some e) \<Rightarrow> (s1, Crashed e))"

text \<open>
  \<open>run_once\<close> after a claim. \<open>child\<close> is what the launched process does: its identity, the
  ticks of its output, its exit status, the files it leaves and its error stream; \<open>others\<close> is
  what other transactions commit before the last two steps. The result pairs the committed
  state with the value returned or raised.
\<close>

record child_run =
  ch_pid :: int
  ch_pgid :: int
  ch_ticks :: "tick list"
  ch_return_code :: int
  ch_work_dir :: work_dir
  ch_stderr :: "string option"
  ch_others :: "db \<Rightarrow> db"
  ch_now :: int

record service_env =
  sn_work :: work_env
  sn_input :: input_env
  sn_show :: "rat \<Rightarrow> string"
  sn_parse_event :: "string \<Rightarrow> runner_event result"
  sn_parse_health :: "string \<Rightarrow> health_event result"
  sn_max_retries :: int

definition served_failure :: "child_run \<Rightarrow> serving \<Rightarrow> served \<Rightarrow> (string \<times> string) option" where
  "served_failure child s outcome = (case outcome of
     ProtocolFailure m \<Rightarrow> Some (''runner_protocol_error'', m)
   | _ \<Rightarrow> failure_of (ch_return_code child) (sv_protocol s) int_str)"

definition end_served ::
    "service_env \<Rightarrow> child_run \<Rightarrow> nat \<Rightarrow> serving \<Rightarrow> served \<Rightarrow> files \<Rightarrow> (files \<times> db) \<times> bool result" where
  "end_served env child rid s outcome fs =
     (let requested = is_cancel_requested rid (sv_db s);
          d = ch_others child (sv_db s)
      in case outcome of
           Crashed e \<Rightarrow> ((fs, sv_db s), Inl e)
         | _ \<Rightarrow> (case settle_run (sn_work env) (sn_parse_health env) (ch_now child) rid requested
               (served_failure child s outcome) (ch_work_dir child) (ch_stderr child) (sn_max_retries env) fs d of
             Inl e \<Rightarrow> ((fs, d), Inl e)
           | Inr (fs1, d1) \<Rightarrow> ((fs1, d1), Inr True)))"

definition serve_claimed ::
    "service_env \<Rightarrow> int \<Rightarrow> nat \<Rightarrow> (runner_input \<Rightarrow> child_run) \<Rightarrow> claimed_run \<Rightarrow> files \<Rightarrow> db
       \<Rightarrow> (files \<times> db) \<times> bool result" where
  "serve_claimed env clock wid launch c fs d =
     (case build_runner_input (sn_input env) (we_sha (sn_work env)) (sn_show env) c of
        Inl e \<Rightarrow> ((fs, d), Inl e)
      | Inr input \<Rightarrow>
          (let child = launch input in
           case set_child_identity (ch_now child) (cr_run c) (ch_pid child) (ch_pgid child) d of
             Inl e \<Rightarrow> ((fs, d), Inl e)
           | Inr d1 \<Rightarrow>
               (case serve (sn_parse_event env) wid (cr_run c) (ch_ticks child)
                   \<lparr>sv_db = d1, sv_protocol = new_protocol, sv_last_heartbeat = clock, sv_cancelling = False\<rparr> of
                  (s, outcome) \<Rightarrow> end_served env child (cr_run c) s outcome fs)))"

definition worker_run_once ::
    "service_env \<Rightarrow> nat set \<Rightarrow> int \<Rightarrow> int \<Rightarrow> nat \<Rightarrow> (runner_input \<Rightarrow> child_run) \<Rightarrow> files \<Rightarrow> db
       \<Rightarrow> (files \<times> db) \<times> bool result" where
  "worker_run_once env busy now clock wid launch fs d =
     (case claim_run busy now wid d of
        Inl e \<Rightarrow> ((fs, d), Inl e)
      | Inr (d1, None) \<Rightarrow> ((fs, d1), Inr False)
      | Inr (d1, Some c) \<Rightarrow> serve_claimed env clock wid launch c fs d1)"

end
