(* ===== verification/Leases.thy ===== *)
theory Leases
  imports Workers
begin

text \<open>
  What the operations of the worker repository promise: how they move the status of a run,
  the numbering of the durable runner events, who holds a lease after a claim, how a run
  ends, and what the recovery of stale leases does.
\<close>

section \<open>How the operations move runs\<close>

text \<open>
  \<open>moves P d d'\<close>: every run of \<open>d\<close> is still in \<open>d'\<close>; it is the same row, or \<open>P\<close> holds of it
  and its status has moved along allowed transitions.
\<close>

definition moves :: "(nat \<Rightarrow> run \<Rightarrow> bool) \<Rightarrow> db \<Rightarrow> db \<Rightarrow> bool" where
  "moves P d d' \<longleftrightarrow> (\<forall>j r. find_run j d = Some r \<longrightarrow> find_run j d' = Some r
     \<or> (P j r \<and> (\<exists>r'. find_run j d' = Some r' \<and> run_attempt r' = run_attempt r
           \<and> allowed_step\<^sup>*\<^sup>* (run_status r) (run_status r'))))"

lemma moves_same: "db_runs d' = db_runs d \<Longrightarrow> moves P d d'"
  by (simp add: moves_def find_run_def)

lemma moves_weaken: "moves P d d' \<Longrightarrow> (\<And>j r. P j r \<Longrightarrow> Q j r) \<Longrightarrow> moves Q d d'"
  unfolding moves_def by blast

lemma moves_trans:
  assumes "moves P d d'" and "moves Q d' d''"
    and "\<And>j r r'. find_run j d' = Some r' \<Longrightarrow> Q j r' \<Longrightarrow> find_run j d = Some r \<Longrightarrow>
      r = r' \<or> P j r \<Longrightarrow> P j r"
  shows "moves P d d''"
  unfolding moves_def
proof (intro allI impI)
  fix j r
  let ?to = "\<lambda>x r r'. find_run j x = Some r' \<and> run_attempt r' = run_attempt r
    \<and> allowed_step\<^sup>*\<^sup>* (run_status r) (run_status r')"
  assume r: "find_run j d = Some r"
  with assms(1) consider "find_run j d' = Some r" | r' where "P j r" and "?to d' r r'"
    unfolding moves_def by blast
  then show "find_run j d'' = Some r \<or> (P j r \<and> (\<exists>r'. ?to d'' r r'))"
  proof cases
    case 1
    with assms(2) consider "find_run j d'' = Some r" | r' where "Q j r" and "?to d'' r r'"
      unfolding moves_def by blast
    then show ?thesis by cases (use 1 r assms(3) in blast)+
  next
    case 2
    then obtain r'' where "?to d'' r' r''"
      using assms(2) unfolding moves_def by (metis rtranclp.rtrancl_refl)
    with 2 show ?thesis by (metis rtranclp_trans)
  qed
qed

lemma moves_same_right: "moves P d d' \<Longrightarrow> db_runs d'' = db_runs d' \<Longrightarrow> moves P d d''"
  by (simp add: moves_def find_run_def)

lemma moves_same_left: "moves P d' d'' \<Longrightarrow> db_runs d' = db_runs d \<Longrightarrow> moves P d d''"
  by (simp add: moves_def find_run_def)

lemma moves_update_run:
  assumes "\<And>x. run_id (f x) = run_id x \<and> run_attempt (f x) = run_attempt x" and "find_run rid d = Some r"
    and "allowed_step\<^sup>*\<^sup>* (run_status r) (run_status (f r))" and "P rid r"
  shows "moves P d (update_run rid f d)"
  unfolding moves_def using assms by (simp add: find_run_update)

lemma allowed_stepI: "assert_transition s t = Inr () \<Longrightarrow> allowed_step\<^sup>*\<^sup>* s t"
  by (rule r_into_rtranclp) (simp add: allowed_step_iff)

definition current_status :: "nat \<Rightarrow> db \<Rightarrow> run_status option" where
  "current_status rid d = map_option run_status (find_run rid d)"

text \<open>The rows that only the worker's own tables change.\<close>

lemma worker_frame [simp]:
  "db_runs (update_worker i f d) = db_runs d" "db_leases (update_worker i f d) = db_leases d"
  "db_events (update_worker i f d) = db_events d"
  "db_runs (update_lease rid g d) = db_runs d" "db_events (update_lease rid g d) = db_events d"
  "db_runs (finish_running_steps now r s e d) = db_runs d"
  "db_leases (finish_running_steps now r s e d) = db_leases d"
  "db_events (finish_running_steps now r s e d) = db_events d"
  by (simp_all add: update_worker_def update_lease_def finish_running_steps_def)

lemma upsert_step_frame [simp]:
  "db_runs (upsert_step now r e s d) = db_runs d" "db_leases (upsert_step now r e s d) = db_leases d"
  "db_events (upsert_step now r e s d) = db_events d"
  by (simp_all add: upsert_step_def Let_def)

lemma release_lease_frame [simp]:
  "db_runs (release_lease rid d) = db_runs d" "db_events (release_lease rid d) = db_events d"
  "db_leases (release_lease rid d) = delete_where (\<lambda>l. ls_run l = rid) (db_leases d)"
  by (simp_all add: release_lease_def Let_def split: option.split)

lemma find_run_eq: "db_runs d' = db_runs d \<Longrightarrow> find_run j d' = find_run j d"
  by (simp add: find_run_def)

lemma find_run_set_status:
  "find_run j (set_status rid s d) = (if j = rid
     then map_option (\<lambda>r. r\<lparr>run_status := s, run_version := run_version r + 1\<rparr>) (find_run rid d)
     else find_run j d)"
  by (simp add: set_status_def find_run_update)

text \<open>One runner event.\<close>

lemma apply_stage_moves:
  assumes "apply_stage now r e d = Inr (d', s)" and "find_run rid d = Some r"
  shows "moves (\<lambda>j x. j = rid \<and> run_status x \<notin> cancelling_statuses) d d'
    \<and> db_leases d' = db_leases d \<and> db_events d' = db_events d \<and> current_status rid d' = Some s"
proof -
  have rid: "run_id r = rid" using assms(2) by (auto dest: find_run_Some)
  obtain target where target: "stage_target e = Inr target"
    and rest: "(if run_status r \<in> cancelling_statuses then Inr (d, run_status r)
       else if target = run_status r then Inr (upsert_step now r e target d, target)
       else bind_result (assert_transition (run_status r) target) (\<lambda>_.
         Inr (upsert_step now r e target
                (set_status (run_id r) target (finish_running_steps now r ''completed'' None d)), target)))
      = Inr (d', s)"
    using assms(1) unfolding apply_stage_def by (elim bind_resultE)
  show ?thesis
  proof (cases "run_status r \<in> cancelling_statuses \<or> target = run_status r")
    case True
    then have "db_runs d' = db_runs d" "db_leases d' = db_leases d" "db_events d' = db_events d"
      and "s = run_status r"
      using rest by (auto split: if_split_asm)
    then show ?thesis using assms(2) by (simp add: moves_same current_status_def find_run_eq [of d' d])
  next
    case False
    then have tr: "assert_transition (run_status r) target = Inr ()"
      and d': "d' = upsert_step now r e target (set_status rid target (finish_running_steps now r ''completed'' None d))"
      and s: "s = target"
      using rest rid by (auto elim!: bind_resultE split: if_split_asm)
    let ?f = "\<lambda>r. r\<lparr>run_status := target, run_version := run_version r + 1\<rparr>"
    have m: "moves (\<lambda>j x. j = rid \<and> run_status x \<notin> cancelling_statuses) d (update_run rid ?f d)"
      by (rule moves_update_run) (use assms(2) tr False in \<open>auto intro: allowed_stepI\<close>)
    have runs: "db_runs d' = db_runs (update_run rid ?f d)"
      unfolding d' by (simp add: set_status_def)
    have "current_status rid d' = Some s"
      using assms(2) s unfolding current_status_def find_run_eq [OF runs] by (simp add: find_run_update)
    moreover have "db_leases d' = db_leases d" "db_events d' = db_events d"
      unfolding d' by (simp_all add: set_status_def)
    ultimately show ?thesis using moves_same_right [OF m runs] by blast
  qed
qed

section \<open>The durable copy of the runner's events\<close>

text \<open>The sequence numbers the runner gave to the events of one attempt, in log order.\<close>

definition of_attempt :: "nat \<Rightarrow> int \<Rightarrow> run_event \<Rightarrow> bool" where
  "of_attempt rid a e \<longleftrightarrow> is_runner_event rid e \<and> payload_int ''runner_attempt'' 1 (ev_payload e) = a"

definition runner_log :: "nat \<Rightarrow> int \<Rightarrow> run_event list \<Rightarrow> int list" where
  "runner_log rid a evs = map (\<lambda>e. payload_int ''runner_sequence'' 0 (ev_payload e)) (filter (of_attempt rid a) evs)"

lemma numbered_increasing: "numbered xs \<Longrightarrow> sorted_wrt (<) xs"
  by (auto simp: numbered_def sorted_wrt_iff_nth_less)

lemma sort_descending:
  fixes f :: "'a \<Rightarrow> int"
  assumes "sorted_wrt (<) (map f xs)"
  shows "sort_key (\<lambda>x. - f x) xs = rev xs"
proof -
  have inj: "inj_on f (set xs)"
    using assms by (metis distinct_map strict_sorted_iff)
  then have "inj_on (\<lambda>x. - f x) (set xs)" by (auto simp: inj_on_def)
  then have "sort_key (\<lambda>x. - f x) xs = sort_key (\<lambda>x. - f x) (rev xs)"
    by (intro sort_key_eq_sort_key) simp_all
  also have "sorted (map (\<lambda>x. - f x) (rev xs))"
    using assms by (auto simp: rev_map [symmetric] sorted_wrt_rev sorted_wrt_map intro: sorted_wrt_mono_rel [of xs "\<lambda>x y. f x < f y"])
  then have "sort_key (\<lambda>x. - f x) (rev xs) = rev xs" by (rule sort_key_id_if_sorted)
  finally show ?thesis .
qed

lemma sorted_wrt_filter_map:
  "sorted_wrt R (map f xs) \<Longrightarrow> sorted_wrt R (map f (filter P xs))"
  by (simp add: sorted_wrt_map sorted_wrt_filter)

lemma runner_events_sorted:
  assumes "events_numbered evs"
  shows "sort_key (\<lambda>e. - ev_sequence e) (filter (is_runner_event rid) evs) = rev (filter (is_runner_event rid) evs)"
proof -
  have "sorted_wrt (<) (map ev_sequence (filter (\<lambda>e. ev_run e = rid) evs))"
    using assms by (auto simp: events_numbered_def run_sequences_def intro: numbered_increasing)
  then have "sorted_wrt (<) (map ev_sequence (filter (\<lambda>e. starts_with ''runner.'' (ev_type e))
      (filter (\<lambda>e. ev_run e = rid) evs)))"
    by (rule sorted_wrt_filter_map)
  then have "sorted_wrt (<) (map ev_sequence (filter (is_runner_event rid) evs))"
    by (simp add: is_runner_event_def [abs_def] conj_commute)
  then show ?thesis by (rule sort_descending)
qed

lemma find_rev_filter: "find P (rev (filter Q xs)) = (case rev (filter (\<lambda>x. Q x \<and> P x) xs) of [] \<Rightarrow> None | x # _ \<Rightarrow> Some x)"
  by (induction xs rule: rev_induct) auto

lemma last_runner_sequence_log:
  assumes "events_numbered (db_events d)"
  shows "last_runner_sequence r d = (case rev (runner_log (run_id r) (run_attempt r) (db_events d)) of [] \<Rightarrow> 0 | x # _ \<Rightarrow> x)"
proof -
  let ?es = "filter (of_attempt (run_id r) (run_attempt r)) (db_events d)"
  have "last_runner_sequence r d = (case (case rev ?es of [] \<Rightarrow> None | x # _ \<Rightarrow> Some x) of
      None \<Rightarrow> 0 | Some e \<Rightarrow> payload_int ''runner_sequence'' 0 (ev_payload e))"
    unfolding last_runner_sequence_def runner_events_sorted [OF assms] find_rev_filter
    by (simp add: of_attempt_def [abs_def])
  then show ?thesis
    by (cases "rev ?es") (simp_all add: runner_log_def rev_map)
qed

lemma last_runner_sequence_numbered:
  assumes "events_numbered (db_events d)"
    and "numbered (runner_log (run_id r) (run_attempt r) (db_events d))"
  shows "last_runner_sequence r d = int (length (runner_log (run_id r) (run_attempt r) (db_events d)))"
proof -
  let ?l = "runner_log (run_id r) (run_attempt r) (db_events d)"
  show ?thesis
  proof (cases ?l rule: rev_cases)
    case Nil
    then show ?thesis using last_runner_sequence_log [OF assms(1), of r] by simp
  next
    case (snoc ys y)
    then show ?thesis
      using assms(2) last_runner_sequence_log [OF assms(1), of r] by (simp add: numbered_snoc)
  qed
qed

lemma runner_log_append:
  assumes "db_events d' = db_events d @ [e]"
  shows "runner_log rid a (db_events d') = runner_log rid a (db_events d)
    @ (if of_attempt rid a e then [payload_int ''runner_sequence'' 0 (ev_payload e)] else [])"
  by (simp add: assms runner_log_def)

lemma runner_log_append_event:
  "runner_log j a (db_events (append_event now rid ty p d)) = runner_log j a (db_events d)
    @ (if j = rid \<and> starts_with ''runner.'' ty \<and> payload_int ''runner_attempt'' 1 p = a
       then [payload_int ''runner_sequence'' 0 p] else [])"
proof -
  obtain e where e: "db_events (append_event now rid ty p d) = db_events d @ [e]"
    and "ev_run e = rid" "ev_type e = ty" "ev_payload e = p"
    using append_event_added [of now rid ty p d] by blast
  then show ?thesis
    unfolding runner_log_append [OF e] by (auto simp: of_attempt_def is_runner_event_def)
qed

lemma runner_payload_get:
  "payload_int ''runner_attempt'' x (runner_payload r e) = run_attempt r"
  "payload_int ''runner_sequence'' x (runner_payload r e) = re_sequence e"
  by (simp_all add: payload_int_def runner_payload_def dict_get_update)

lemma runner_event_type_prefix: "starts_with ''runner.'' (runner_event_type e)"
  by (simp add: runner_event_type_def starts_with_def)

lemma persist_cases:
  assumes "persist_runner_event now rid e d = Inr (d', s)"
  obtains r d1 where "find_run rid d = Some r" and "run_id r = rid"
    and "re_sequence e = last_runner_sequence r d + 1"
    and "d1 = append_event now rid (runner_event_type e) (runner_payload r e) d"
    and "moves (\<lambda>j x. j = rid \<and> run_status x \<notin> cancelling_statuses) d d'"
    and "db_leases d' = db_leases d" and "db_events d' = db_events d1"
    and "current_status rid d' = Some s"
proof -
  obtain r where r: "find_run rid d = Some r" and seq: "re_sequence e = last_runner_sequence r d + 1"
    and rest: "(let d1 = append_event now rid (runner_event_type e) (runner_payload r e) d
      in if re_type e = ''stage'' then apply_stage now r e d1
         else if re_type e = ''result'' then apply_result now r d1
         else Inr (d1, run_status r)) = Inr (d', s)"
    using assms unfolding persist_runner_event_def by (auto elim!: bind_resultE)
  have rid: "run_id r = rid" using r by (auto dest: find_run_Some)
  let ?d1 = "append_event now rid (runner_event_type e) (runner_payload r e) d"
  let ?P = "\<lambda>j x. j = rid \<and> run_status x \<notin> cancelling_statuses"
  have r1: "find_run rid ?d1 = Some r" using r by simp
  have "moves ?P ?d1 d' \<and> db_leases d' = db_leases ?d1 \<and> db_events d' = db_events ?d1 \<and> current_status rid d' = Some s"
  proof (cases "re_type e = ''stage''")
    case True
    then have "apply_stage now r e ?d1 = Inr (d', s)" using rest by (simp add: Let_def)
    then show ?thesis by (rule apply_stage_moves [OF _ r1])
  next
    case False
    show ?thesis
    proof (cases "re_type e = ''result'' \<and> run_status r \<notin> cancelling_statuses")
      case True
      then have tr: "assert_transition (run_status r) FINALIZING = Inr ()"
        and d': "d' = set_status rid FINALIZING (finish_running_steps now r ''completed'' None ?d1)"
        and s: "s = FINALIZING"
        using rest rid by (auto simp: Let_def apply_result_def elim!: bind_resultE)
      let ?f = "\<lambda>r. r\<lparr>run_status := FINALIZING, run_version := run_version r + 1\<rparr>"
      have m: "moves ?P ?d1 (update_run rid ?f ?d1)"
        by (rule moves_update_run) (use r1 tr True in \<open>auto intro: allowed_stepI\<close>)
      have runs: "db_runs d' = db_runs (update_run rid ?f ?d1)"
        unfolding d' by (simp add: set_status_def)
      have "current_status rid d' = Some s"
        using r1 s unfolding current_status_def find_run_eq [OF runs] by (simp add: find_run_update)
      moreover have "db_leases d' = db_leases ?d1" "db_events d' = db_events ?d1"
        unfolding d' by (simp_all add: set_status_def)
      ultimately show ?thesis using moves_same_right [OF m runs] by blast
    next
      case False
      with \<open>re_type e \<noteq> ''stage''\<close> have "d' = ?d1" and "s = run_status r"
        using rest by (auto simp: Let_def apply_result_def split: if_split_asm)
      then show ?thesis using r by (simp add: moves_same current_status_def)
    qed
  qed
  then show ?thesis using that [OF r rid seq refl] moves_same_left [of ?P ?d1 d' d] by simp
qed

text \<open>
  The contract of the durable copy: in every attempt the runner's numbers are 1, 2, 3 and so
  on. A runner event is stored only as the next number, other events leave the copy alone.
\<close>

definition runner_logs_ok :: "db \<Rightarrow> bool" where
  "runner_logs_ok d \<longleftrightarrow> events_numbered (db_events d) \<and> (\<forall>rid a. numbered (runner_log rid a (db_events d)))"

lemma persist_runner_log:
  assumes "runner_logs_ok d" and "persist_runner_event now rid e d = Inr (d', s)"
    and "find_run rid d = Some r"
  shows "runner_logs_ok d'
    \<and> runner_log rid (run_attempt r) (db_events d') = runner_log rid (run_attempt r) (db_events d) @ [re_sequence e]
    \<and> re_sequence e = int (length (runner_log rid (run_attempt r) (db_events d))) + 1"
proof -
  obtain r' where r': "find_run rid d = Some r'" and rid: "run_id r' = rid"
    and seq: "re_sequence e = last_runner_sequence r' d + 1"
    and ev: "db_events d' = db_events (append_event now rid (runner_event_type e) (runner_payload r' e) d)"
    by (rule persist_cases [OF assms(2)]) blast
  have eq: "r' = r" using r' assms(3) by simp
  have num: "events_numbered (db_events d)" and logs: "\<And>j a. numbered (runner_log j a (db_events d))"
    using assms(1) by (auto simp: runner_logs_ok_def)
  have next_number: "re_sequence e = int (length (runner_log rid (run_attempt r) (db_events d))) + 1"
    using seq last_runner_sequence_numbered [OF num, of r] logs rid eq by simp
  have log: "runner_log j a (db_events d') = runner_log j a (db_events d)
      @ (if j = rid \<and> run_attempt r = a then [re_sequence e] else [])" for j a
    unfolding ev runner_log_append_event using runner_event_type_prefix [of e] eq
    by (simp add: runner_payload_get)
  have "events_numbered (db_events d')"
    unfolding ev using num by (rule append_event_numbered)
  moreover have "numbered (runner_log j a (db_events d'))" for j a
    unfolding log using logs next_number by (auto simp: numbered_snoc)
  ultimately show ?thesis using log next_number by (simp add: runner_logs_ok_def)
qed

section \<open>Claims, endings and recovery\<close>

lemma set_admitted_runs:
  "r \<in> set (admitted_runs busy d) \<longleftrightarrow> r \<in> set (db_runs d) \<and> run_status r = ADMITTED \<and> run_id r \<notin> busy"
  by (auto simp: admitted_runs_def)

lemma claim_rows_run: "(r, q, i, s) \<in> set (claim_rows rid d) \<Longrightarrow> r \<in> set (db_runs d) \<and> run_id r = rid"
  by (auto simp: claim_rows_def run_rows_def split: if_split_asm)

lemma claim_cases:
  assumes "claim_run busy now wid d = Inr (d', c)" and "unique_keys run_id (db_runs d)"
  obtains "c = None" and "d' = d" and "admitted_runs busy d = []"
  | r q i s where "find_run (run_id r) d = Some r" and "run_status r = ADMITTED" and "run_id r \<notin> busy"
      and "list_all (\<lambda>x. admitted_key r \<le> admitted_key x) (admitted_runs busy d)"
      and "(r, q, i, s) \<in> set (claim_rows (run_id r) d)"
      and "find_lease (run_id r) d = None"
      and "c = Some \<lparr>cr_run = run_id r, cr_ticker = ins_ticker i, cr_asset_type = ins_asset_type i,
             cr_analysis_date = req_analysis_date q, cr_snapshot = cfg_content s\<rparr>"
      and "db_runs d' = update_row run_id (run_id r) (started now) (db_runs d)"
      and "\<exists>l. db_leases d' = db_leases d @ [l] \<and> ls_run l = run_id r \<and> ls_worker l = wid
             \<and> ls_expires_at l = now + SECONDS 60"
      and "\<exists>e. db_events d' = db_events d @ [e] \<and> ev_run e = run_id r
             \<and> ev_type e = ''assessment.starting'' \<and> ev_payload e = []"
proof (cases "admitted_runs busy d")
  case Nil
  then show ?thesis using assms(1) that(1) by (simp add: claim_run_def)
next
  case (Cons r0 rest)
  have r0: "r0 \<in> set (db_runs d)" "run_status r0 = ADMITTED" "run_id r0 \<notin> busy"
    using set_admitted_runs [of r0 busy d] Cons by simp_all
  show ?thesis
  proof (cases "claim_rows (run_id r0) d")
    case Nil
    then show ?thesis using assms(1) Cons by (simp add: claim_run_def)
  next
    case (Cons x xs)
    obtain r q i s where x: "x = (r, q, i, s)" by (cases x) auto
    have mem: "(r, q, i, s) \<in> set (claim_rows (run_id r0) d)" using Cons x by simp
    have "r \<in> set (db_runs d)" "run_id r = run_id r0" using claim_rows_run [OF mem] by auto
    then have r: "r = r0" using r0(1) assms(2) by (auto simp: unique_keys_def distinct_map inj_on_def)
    have found: "find_run (run_id r) d = Some r"
      using r r0(1) assms(2) unfolding find_run_def by (auto intro: find_row_unique)
    obtain d1 where lease: "add_lease now (run_id r) wid (update_run (run_id r) (started now) d) = Inr d1"
      and d': "d' = append_event now (run_id r) ''assessment.starting'' []
                 (update_worker wid (\<lambda>w. w\<lparr>wk_status := ''busy'', wk_heartbeat_at := now\<rparr>) d1)"
      and c: "c = Some \<lparr>cr_run = run_id r, cr_ticker = ins_ticker i, cr_asset_type = ins_asset_type i,
                 cr_analysis_date = req_analysis_date q, cr_snapshot = cfg_content s\<rparr>"
      using assms(1) Cons x \<open>admitted_runs busy d = r0 # rest\<close>
      by (auto simp: claim_run_def elim!: bind_resultE)
    have free: "find_lease (run_id r) d = None"
      and leases: "db_leases d1 = db_leases d @ [\<lparr>ls_id = uuid4 (update_run (run_id r) (started now) d),
        ls_run = run_id r, ls_worker = wid, ls_child_pid = None, ls_child_pgid = None,
        ls_expires_at = now + SECONDS 60, ls_heartbeat_at = now\<rparr>]"
      and runs: "db_runs d1 = update_row run_id (run_id r) (started now) (db_runs d)"
      and events: "db_events d1 = db_events d"
      using lease by (auto simp: add_lease_def find_lease_def split: if_split_asm)
    have "sorted (map admitted_key (admitted_runs busy d))" by (simp add: admitted_runs_def)
    then have least: "list_all (\<lambda>x. admitted_key r \<le> admitted_key x) (admitted_runs busy d)"
      using \<open>admitted_runs busy d = r0 # rest\<close> r by (simp add: list_all_iff)
    have "\<exists>e. db_events d' = db_events d @ [e] \<and> ev_run e = run_id r
        \<and> ev_type e = ''assessment.starting'' \<and> ev_payload e = []"
      using append_event_added [of now "run_id r" "''assessment.starting''" "[]"
        "update_worker wid (\<lambda>w. w\<lparr>wk_status := ''busy'', wk_heartbeat_at := now\<rparr>) d1"] events
      unfolding d' by auto
    then show ?thesis
      using that(2) [OF found _ _ least _ free c] r r0 mem runs leases unfolding d' by simp
  qed
qed

lemma find_run_update_row:
  assumes "db_runs d' = update_row run_id rid f (db_runs d)" and "\<And>x. run_id (f x) = run_id x"
  shows "find_run j d' = (if j = rid then map_option f (find_run rid d) else find_run j d)"
  using find_run_update [of f j rid d] assms by (simp add: find_run_def)

lemma claim_moves:
  assumes "claim_run busy now wid d = Inr (d', c)" and "unique_keys run_id (db_runs d)"
  shows "moves (\<lambda>j x. run_status x = ADMITTED \<and> (\<exists>k. c = Some k \<and> cr_run k = j)) d d'"
proof (rule claim_cases [OF assms])
  assume "d' = d"
  then show ?thesis by (simp add: moves_same)
next
  fix r q i s
  assume found: "find_run (run_id r) d = Some r" and st: "run_status r = ADMITTED"
    and c: "c = Some \<lparr>cr_run = run_id r, cr_ticker = ins_ticker i, cr_asset_type = ins_asset_type i,
             cr_analysis_date = req_analysis_date q, cr_snapshot = cfg_content s\<rparr>"
    and runs: "db_runs d' = update_row run_id (run_id r) (started now) (db_runs d)"
  have "moves (\<lambda>j x. run_status x = ADMITTED \<and> (\<exists>k. c = Some k \<and> cr_run k = j)) d (update_run (run_id r) (started now) d)"
    by (rule moves_update_run) (use found st c in \<open>auto simp: started_def intro: allowed_stepI\<close>)
  then show ?thesis by (rule moves_same_right) (simp add: runs)
qed

lemma end_run_moves:
  assumes "find_run rid d = Some r" and "allowed_step\<^sup>*\<^sup>* (run_status r) s" and "P rid r"
  shows "moves P d (end_run now rid s d)"
  unfolding end_run_def by (rule moves_update_run) (use assms in auto)

lemma end_run_frame [simp]:
  "db_leases (end_run now rid s d) = db_leases d" "db_events (end_run now rid s d) = db_events d"
  "db_leases (set_status rid s d) = db_leases d" "db_events (set_status rid s d) = db_events d"
  "db_leases (fail_run now rid a b d) = db_leases d" "db_events (fail_run now rid a b d) = db_events d"
  by (simp_all add: end_run_def set_status_def fail_run_def)

lemma allowed_to_cancelled:
  "allowed_step\<^sup>*\<^sup>* CANCEL_REQUESTED CANCELLING" "allowed_step\<^sup>*\<^sup>* CANCELLING CANCELLED"
  "allowed_step\<^sup>*\<^sup>* CANCEL_REQUESTED CANCELLED"
  by (auto intro!: allowed_stepI simp: assert_transition_def)

lemma finalize_cancelled_facts:
  assumes "finalize_cancelled now rid d = Inr d'"
  shows "moves (\<lambda>j x. j = rid) d d' \<and> current_status rid d' = Some CANCELLED
    \<and> db_leases d' = delete_where (\<lambda>l. ls_run l = rid) (db_leases d)"
proof -
  obtain r where r: "find_run rid d = Some r"
    using assms unfolding finalize_cancelled_def by (auto elim!: bind_resultE)
  let ?d1 = "finish_running_steps now r ''cancelled'' None d"
  let ?dc = "append_event now rid ''assessment.cancelling'' [] (set_status rid CANCELLING ?d1)"
  let ?fin = "\<lambda>d. release_lease rid (append_event now rid ''assessment.cancelled'' [] (end_run now rid CANCELLED d))"
  let ?g = "\<lambda>r. r\<lparr>run_status := CANCELLING, run_version := run_version r + 1\<rparr>"
  have finish: "moves (\<lambda>j x. j = rid) d (?fin x) \<and> current_status rid (?fin x) = Some CANCELLED
      \<and> db_leases (?fin x) = delete_where (\<lambda>l. ls_run l = rid) (db_leases d)"
    if x: "find_run rid x = Some r1" and m: "moves (\<lambda>j x. j = rid) d x"
      and st: "allowed_step\<^sup>*\<^sup>* (run_status r1) CANCELLED" and l: "db_leases x = db_leases d" for x r1
  proof -
    have "moves (\<lambda>j x. j = rid) x (end_run now rid CANCELLED x)" by (rule end_run_moves [OF x st refl])
    then have "moves (\<lambda>j x. j = rid) d (end_run now rid CANCELLED x)" by (rule moves_trans [OF m]) blast
    moreover have "db_runs (?fin x) = db_runs (end_run now rid CANCELLED x)" by simp
    moreover have "current_status rid (end_run now rid CANCELLED x) = Some CANCELLED"
      using x by (simp add: current_status_def end_run_def find_run_update)
    ultimately show ?thesis
      using l moves_same_right current_status_def find_run_eq [of "?fin x" "end_run now rid CANCELLED x" rid] by auto
  qed
  show ?thesis
  proof (cases "run_status r = CANCEL_REQUESTED")
    case True
    then have d': "d' = ?fin ?dc" using assms r by (auto simp: finalize_cancelled_def Let_def elim!: bind_resultE)
    have "moves (\<lambda>j x. j = rid) d (update_run rid ?g d)"
      by (rule moves_update_run) (use r True allowed_to_cancelled in auto)
    then have "moves (\<lambda>j x. j = rid) d ?dc" by (rule moves_same_right) (simp add: set_status_def)
    moreover have "find_run rid ?dc = Some (?g r)"
      using r by (simp add: set_status_def find_run_update find_run_eq [of ?d1 d])
    ultimately show ?thesis unfolding d' using allowed_to_cancelled by (intro finish [of ?dc "?g r"]) simp_all
  next
    case False
    then have d': "d' = ?fin ?d1" and tr: "assert_transition (run_status r) CANCELLED = Inr ()"
      using assms r by (auto simp: finalize_cancelled_def Let_def elim!: bind_resultE)
    have "moves (\<lambda>j x. j = rid) d ?d1" by (rule moves_same) simp
    then show ?thesis unfolding d' using r tr
      by (intro finish [of ?d1 r]) (simp_all add: find_run_eq [of ?d1 d] allowed_stepI)
  qed
qed

lemma finalize_failure_facts:
  assumes "finalize_failure now rid code summary d = Inr d'"
  shows "moves (\<lambda>j x. j = rid) d d' \<and> db_leases d' = delete_where (\<lambda>l. ls_run l = rid) (db_leases d)
    \<and> (\<exists>r. find_run rid d = Some r \<and>
          current_status rid d' = Some (if run_status r \<in> cancelling_statuses then CANCELLED else FAILED))"
proof -
  obtain r where r: "find_run rid d = Some r"
    using assms unfolding finalize_failure_def by (auto elim!: bind_resultE)
  show ?thesis
  proof (cases "run_status r \<in> cancelling_statuses")
    case True
    then have "finalize_cancelled now rid d = Inr d'" using assms r by (simp add: finalize_failure_def)
    from finalize_cancelled_facts [OF this] r True show ?thesis by auto
  next
    case False
    let ?d1 = "finish_running_steps now r ''failed'' (Some code) d"
    let ?x = "fail_run now rid code summary ?d1"
    have tr: "assert_transition (run_status r) FAILED = Inr ()"
      and d': "d' = release_lease rid (append_event now rid ''assessment.failed'' [(''error_code'', JStr code)] ?x)"
      using assms r False by (auto simp: finalize_failure_def elim!: bind_resultE)
    have r1: "find_run rid ?d1 = Some r" using r by (simp add: find_run_eq [of ?d1 d])
    have "moves (\<lambda>j x. j = rid) ?d1 ?x"
      unfolding fail_run_def by (rule moves_update_run) (use r1 tr in \<open>auto intro: allowed_stepI\<close>)
    then have m: "moves (\<lambda>j x. j = rid) d ?x" by (rule moves_same_left) simp
    have runs: "db_runs d' = db_runs ?x" unfolding d' by simp
    have "current_status rid ?x = Some FAILED"
      using r1 by (simp add: current_status_def fail_run_def find_run_update)
    then have "current_status rid d' = Some FAILED"
      by (simp add: current_status_def find_run_eq [OF runs])
    moreover have "db_leases d' = delete_where (\<lambda>l. ls_run l = rid) (db_leases d)" unfolding d' by simp
    ultimately show ?thesis using moves_same_right [OF m runs] r False by simp
  qed
qed

text \<open>
  \<open>holds d d'\<close>: the runs and the leases are the same, the event log has only grown by events
  that do not come from the runner.
\<close>

definition holds :: "db \<Rightarrow> db \<Rightarrow> bool" where
  "holds d d' \<longleftrightarrow> db_runs d' = db_runs d \<and> db_leases d' = db_leases d"

lemma holds_refl [simp]: "holds d d"
  by (simp add: holds_def)

lemma holds_trans: "holds d d' \<Longrightarrow> holds d' d'' \<Longrightarrow> holds d d''"
  by (simp add: holds_def)

lemma store_one_holds:
  assumes "store_one env rid spec fs d = Inr (fs', d', s, a)" shows "holds d d'"
proof -
  obtain kind media content where spec: "spec = (kind, media, content)" by (cases spec) auto
  obtain fs1 s1 where "insert_artifact (we_now env) [] rid s1 d = Inr (d', a)"
    using assms unfolding store_one_def spec by (auto elim!: bind_resultE)
  then show ?thesis by (auto simp: insert_artifact_def holds_def split: if_split_asm)
qed

lemma store_specs_holds:
  "store_specs env rid specs fs d = Inr (fs', d', entries, ids) \<Longrightarrow> holds d d'"
proof (induction env rid specs fs d arbitrary: fs' d' entries ids rule: store_specs.induct)
  case (2 env rid spec specs fs d)
  obtain fs1 d1 s a entries1 ids1 where one: "store_one env rid spec fs d = Inr (fs1, d1, s, a)"
    and rest: "store_specs env rid specs fs1 d1 = Inr (fs', d', entries1, ids1)"
    using 2(2) by (auto elim!: bind_resultE)
  show ?case using holds_trans [OF store_one_holds [OF one]] 2(1) one rest by blast
qed simp

lemma persist_decision_holds:
  assumes "persist_decision env rid w d = Inr d'" shows "holds d d'"
  using assms by (auto simp: persist_decision_def holds_def elim!: bind_resultE)

lemma evidence_row_holds: "evidence_row env rid a l d = Inr d' \<Longrightarrow> holds d d'"
  by (auto simp: evidence_row_def holds_def elim!: bind_resultE)

lemma persist_evidence_holds:
  assumes "persist_evidence env rid w a d = Inr d'" shows "holds d d'"
proof -
  have lines: "persist_evidence_lines env rid a ls x = Inr y \<Longrightarrow> holds x y" for ls x y
  proof (induction env rid a ls x rule: persist_evidence_lines.induct)
    case (2 env rid a l ls x)
    then obtain z where "evidence_row env rid a l x = Inr z" and "persist_evidence_lines env rid a ls z = Inr y"
      by (auto elim!: bind_resultE)
    with 2(1) show ?case using evidence_row_holds holds_trans by blast
  qed simp
  show ?thesis using assms lines by (auto simp: persist_evidence_def split: option.splits)
qed

lemma persist_integrity_holds:
  assumes "persist_integrity env now r w a d = Inr d'" shows "holds d d'"
  using assms
  by (auto simp: persist_integrity_def persist_document_def holds_def Let_def split: option.splits prod.splits
        elim!: bind_resultE)

lemma schedule_validations_holds:
  assumes "schedule_validations u xnys now version rid hs pr q d = Inr (d', vs)" shows "holds d d'"
proof (cases "decided_rows rid d")
  case Nil
  then show ?thesis using assms by (simp add: schedule_validations_def)
next
  case (Cons x xs)
  obtain r q' i c where x: "x = (r, q', i, c)" by (cases x) auto
  let ?d1 = "case dec_price_target c of Some t \<Rightarrow> if version = ''validation.v2'' then insert_basis now rid t d else d
     | None \<Rightarrow> d"
  obtain d2 where ins: "insert_horizons xnys version rid i (req_analysis_date q') hs ?d1 = Inr d2"
    and d': "db_runs d' = db_runs d2" "db_leases d' = db_leases d2"
    using assms Cons x unfolding schedule_validations_def
    by (auto simp: Let_def elim!: bind_resultE split: if_split_asm)
  have "holds d ?d1" by (simp add: holds_def insert_basis_def split: option.split)
  moreover have "insert_horizons xnys version rid i t hs y = Inr z \<Longrightarrow> holds y z" for t y z
  proof (induction hs arbitrary: y)
    case (Cons h hs)
    then obtain due sch where "insert_horizons xnys version rid i t hs
        (insert_validation rid h due (if version = ''validation.v2'' then version else ''validation.v1'') sch y) = Inr z"
      by (auto elim!: bind_resultE)
    from Cons.IH [OF this] show ?case by (simp add: holds_def insert_validation_def split: if_split_asm)
  qed simp
  ultimately show ?thesis using ins d' by (auto simp: holds_def)
qed

lemma finalize_success_facts:
  assumes "finalize_success env now rid w fs d = Inr (fs', d')"
  shows "current_status rid d = Some FINALIZING \<and> moves (\<lambda>j x. j = rid) d d'
    \<and> current_status rid d' = Some SUCCEEDED \<and> db_leases d' = delete_where (\<lambda>l. ls_run l = rid) (db_leases d)"
proof -
  let ?d0 = "snd (acquire_lock {} ''global:archive'' True d)"
  obtain r fs1 d1 entries ids fs2 d2 s a where r0: "find_run rid ?d0 = Some r"
    and st: "run_status r = FINALIZING"
    and specs: "store_specs env rid (artifact_specs w) fs (finish_running_steps now r ''completed'' None ?d0)
       = Inr (fs1, d1, entries, ids)"
    and man: "store_one env rid (''manifest'', ''application/json'', manifest_text env rid entries) fs1 d1
       = Inr (fs2, d2, s, a)"
    and rows: "finalize_rows env now r w entries ids d2 = Inr d'"
    using assms unfolding finalize_success_def by (auto elim!: bind_resultE split: prod.splits)
  have r: "find_run rid d = Some r" using r0 by (simp add: find_run_def)
  have rid: "run_id r = rid" using r by (auto dest: find_run_Some)
  have h2: "holds d d2"
    using store_specs_holds [OF specs] store_one_holds [OF man] by (simp add: holds_def)
  obtain x y d3 d5 e where steps: "holds d2 x" "holds x y" "holds y d3"
    and sched: "holds (append_event now rid ''assessment.succeeded'' e (end_run now rid SUCCEEDED d3)) d5"
    and d': "d' = release_lease rid d5"
    using rows rid unfolding finalize_rows_def
    by (auto simp: Let_def elim!: bind_resultE
          dest!: persist_decision_holds persist_evidence_holds persist_integrity_holds schedule_validations_holds)
  have h3: "holds d2 d3" using holds_trans [OF holds_trans [OF steps(1,2)] steps(3)] .
  have h: "holds d d3" using holds_trans [OF h2 h3] .
  have r3: "find_run rid d3 = Some r" using r h by (simp add: holds_def find_run_def)
  have "moves (\<lambda>j x. j = rid) d3 (end_run now rid SUCCEEDED d3)"
    by (rule end_run_moves [OF r3 _ refl]) (use st in \<open>auto intro!: allowed_stepI simp: assert_transition_def\<close>)
  then have m: "moves (\<lambda>j x. j = rid) d (end_run now rid SUCCEEDED d3)"
    by (rule moves_same_left) (use h in \<open>simp add: holds_def\<close>)
  have runs: "db_runs d' = db_runs (end_run now rid SUCCEEDED d3)"
    using sched unfolding d' by (simp add: holds_def)
  have "current_status rid (end_run now rid SUCCEEDED d3) = Some SUCCEEDED"
    using r3 by (simp add: current_status_def end_run_def find_run_update)
  then have "current_status rid d' = Some SUCCEEDED" by (simp add: current_status_def find_run_eq [OF runs])
  moreover have "db_leases d' = delete_where (\<lambda>l. ls_run l = rid) (db_leases d)"
    using sched h unfolding d' by (simp add: holds_def)
  moreover have "current_status rid d = Some FINALIZING" using r st by (simp add: current_status_def)
  ultimately show ?thesis using moves_same_right [OF m runs] by blast
qed

text \<open>New runs leave the existing ones alone.\<close>

lemma moves_append: "db_runs d' = db_runs d @ rs \<Longrightarrow> moves P d d'"
  by (simp add: moves_def find_run_def find_row_append split: option.split)

lemma open_run_frame [simp]:
  "db_runs (open_run now rid q p d) = db_runs d" "db_leases (open_run now rid q p d) = db_leases d"
  by (simp_all add: open_run_def add_requirement_def split: option.split)

lemma create_retry_facts:
  assumes "create_retry u now c config status q d = (d', r)"
  shows "db_runs d' = db_runs d @ [r] \<and> db_leases d' = db_leases d \<and> run_status r = status
    \<and> run_retry_of r = Some (run_id (rc_run c)) \<and> run_attempt r = run_attempt (rc_run c) + 1"
  using assms by (auto simp: create_retry_def add_request_def add_run_def Let_def split: prod.splits)

lemma schedule_automatic_retry_facts:
  assumes "schedule_automatic_retry u now rid code k d = Inr (d', x)"
  shows "(\<exists>rs. db_runs d' = db_runs d @ rs \<and> list_all (\<lambda>r. run_status r = QUEUED) rs) \<and> db_leases d' = db_leases d"
proof (cases "d' = d")
  case False
  then obtain c d1 retry where "create_retry u now c None QUEUED None d = (d1, retry)"
    and "db_runs d' = db_runs d1" "db_leases d' = db_leases d1"
    using assms by (auto simp: schedule_automatic_retry_def split: if_split_asm option.splits prod.splits
        elim!: bind_resultE)
  then show ?thesis using create_retry_facts [of u now c None QUEUED None d d1 retry] by auto
qed auto

lemma claim_free:
  assumes "claim_run busy now wid d = Inr (d', Some c)" and "unique_keys run_id (db_runs d)"
  shows "find_lease (cr_run c) d = None"
  by (rule claim_cases [OF assms]) simp_all

text \<open>
  C11. A worker claims the oldest admitted run that nobody has locked: the run is started, it
  gets the only lease of its own, held by this worker for sixty seconds, and no later claim,
  by any worker, can return it again while it stays claimed.
\<close>

theorem claim_oldest_once:
  assumes "unique_keys run_id (db_runs d)" and "unique_keys ls_run (db_leases d)"
    and "claim_run busy now wid d = Inr (d', Some c)"
  shows "current_status (cr_run c) d = Some ADMITTED \<and> current_status (cr_run c) d' = Some STARTING
    \<and> (\<exists>r. find_run (cr_run c) d = Some r
          \<and> list_all (\<lambda>x. admitted_key r \<le> admitted_key x) (admitted_runs busy d))
    \<and> (\<exists>l. find_lease (cr_run c) d' = Some l \<and> ls_worker l = wid \<and> ls_expires_at l = now + SECONDS 60)
    \<and> unique_keys ls_run (db_leases d')
    \<and> (claim_run busy2 now2 wid2 d' = Inr (d2, Some c2) \<longrightarrow> cr_run c2 \<noteq> cr_run c)"
proof (rule claim_cases [OF assms(3,1)])
  assume "Some c = None" then show ?thesis by simp
next
  fix r q i s
  assume found: "find_run (run_id r) d = Some r" and st: "run_status r = ADMITTED"
    and least: "list_all (\<lambda>x. admitted_key r \<le> admitted_key x) (admitted_runs busy d)"
    and free: "find_lease (run_id r) d = None"
    and c: "Some c = Some \<lparr>cr_run = run_id r, cr_ticker = ins_ticker i, cr_asset_type = ins_asset_type i,
             cr_analysis_date = req_analysis_date q, cr_snapshot = cfg_content s\<rparr>"
    and runs: "db_runs d' = update_row run_id (run_id r) (started now) (db_runs d)"
    and leases: "\<exists>l. db_leases d' = db_leases d @ [l] \<and> ls_run l = run_id r \<and> ls_worker l = wid
             \<and> ls_expires_at l = now + SECONDS 60"
  obtain l where l: "db_leases d' = db_leases d @ [l]" "ls_run l = run_id r" "ls_worker l = wid"
    "ls_expires_at l = now + SECONDS 60" using leases by blast
  have rid: "cr_run c = run_id r" using c by simp
  have after: "find_run (run_id r) d' = Some (started now r)"
    using found by (simp add: find_run_update_row [OF runs] started_def)
  have lease: "find_lease (run_id r) d' = Some l"
    using free l by (simp add: find_lease_def find_row_append)
  have unique: "unique_keys ls_run (db_leases d')"
    using assms(2) free l by (simp add: unique_keys_snoc find_lease_def find_row_None)
  have again: "cr_run c2 \<noteq> cr_run c" if two: "claim_run busy2 now2 wid2 d' = Inr (d2, Some c2)"
  proof -
    have "unique_keys run_id (db_runs d')"
      unfolding runs using assms(1) by (simp add: unique_keys_update_row started_def)
    from claim_free [OF two this] have "find_lease (cr_run c2) d' = None" .
    then show ?thesis using lease rid by auto
  qed
  show ?thesis
    using found st least after lease unique again l
    by (simp add: rid current_status_def started_def)
qed

lemma find_run_leases [simp]: "find_run j (db_leases_update f d) = find_run j d"
  by (simp add: find_run_def)

lemma find_run_recover_other:
  "j \<noteq> ls_run l \<Longrightarrow> find_run j (fst (recover_lease alive now l (d, a, b))) = find_run j d"
  by (auto simp: recover_lease_def Let_def find_run_update
      split: option.split)

definition lease_alive :: "(int \<Rightarrow> bool) \<Rightarrow> lease \<Rightarrow> bool" where
  "lease_alive alive l = (case ls_child_pid l of None \<Rightarrow> False | Some pid \<Rightarrow> alive pid)"

lemma find_run_recover_same:
  "find_run (ls_run l) d = Some r \<Longrightarrow> find_run (ls_run l) (fst (recover_lease alive now l (d, a, b)))
     = Some (if lease_alive alive l
         then r\<lparr>run_status := NEEDS_ATTENTION, run_error_code := Some ''stale_lease_process_alive'',
                run_version := run_version r + 1\<rparr>
         else r\<lparr>run_status := ADMITTED, run_attempt := run_attempt r + 1, run_version := run_version r + 1\<rparr>)"
  by (simp add: recover_lease_def lease_alive_def Let_def find_run_update)

lemma fold_recover_other:
  "j \<notin> ls_run ` set ls \<Longrightarrow> find_run j (fst (fold (recover_lease alive now) ls acc)) = find_run j (fst acc)"
proof (induction ls arbitrary: acc)
  case (Cons l ls)
  obtain d a b where acc: "acc = (d, a, b)" by (cases acc) auto
  show ?case using Cons find_run_recover_other [of j l alive now d a b] by (simp add: acc)
qed simp

lemma fold_recover_same:
  assumes "distinct (map ls_run ls)" and "l \<in> set ls" and "find_run (ls_run l) (fst acc) = Some r"
  shows "map_option run_status (find_run (ls_run l) (fst (fold (recover_lease alive now) ls acc)))
    = Some (if lease_alive alive l then NEEDS_ATTENTION else ADMITTED)"
  using assms
proof (induction ls arbitrary: acc)
  case (Cons x ls)
  obtain d a b where acc: "acc = (d, a, b)" by (cases acc) auto
  show ?case
  proof (cases "l = x")
    case True
    then have "ls_run l \<notin> ls_run ` set ls" using Cons.prems(1) by auto
    then show ?thesis using True Cons.prems(3) find_run_recover_same [of x d r alive now a b]
      by (simp add: fold_recover_other acc)
  next
    case False
    then have l: "l \<in> set ls" using Cons.prems(2) by simp
    then have "ls_run l \<in> ls_run ` set ls" by (rule imageI)
    then have "ls_run l \<noteq> ls_run x" using Cons.prems(1) by auto
    then show ?thesis
      using Cons.IH [of "recover_lease alive now x acc"] l Cons.prems find_run_recover_other [of "ls_run l" x alive now d a b]
      by (simp add: acc)
  qed
qed simp

text \<open>
  What the recovery of stale leases does to the run of an expired lease: the run is made
  admitted again, or needs attention when the child still runs, whatever its status was. The
  transition guard is not consulted: a run whose cancellation was requested is admitted again
  and its cancellation is lost, and a run that had already ended is reopened.
\<close>

theorem recovery_bypasses_guard:
  assumes "unique_keys ls_run (db_leases d)" and "l \<in> set (db_leases d)"
    and "ls_expires_at l < now" and "ls_id l \<notin> locked" and "current_status (ls_run l) d = Some s"
  shows "current_status (ls_run l) (fst (recover_stale_leases alive locked now d))
    = Some (if lease_alive alive l then NEEDS_ATTENTION else ADMITTED)"
proof -
  let ?ls = "filter (\<lambda>l. ls_expires_at l < now \<and> ls_id l \<notin> locked) (db_leases d)"
  obtain r where "find_run (ls_run l) d = Some r" using assms(5) by (auto simp: current_status_def)
  moreover have "distinct (map ls_run ?ls)"
    using assms(1) by (simp add: unique_keys_def distinct_map_filter)
  moreover have "l \<in> set ?ls" using assms(2-4) by simp
  ultimately show ?thesis
    using fold_recover_same [of ?ls l "(d, 0, 0)" r alive now]
    unfolding current_status_def recover_stale_leases_def by simp
qed

section \<open>Concrete states\<close>

definition demo_snapshot :: config_snapshot where
  "demo_snapshot = \<lparr>cfg_id = 9, cfg_content = [], cfg_sha256 = ''s'', cfg_gateway_snapshot_id = None\<rparr>"

text \<open>One run in the given status, its snapshot pinned.\<close>

definition pinned_db :: "run_status \<Rightarrow> db" where
  "pinned_db s = (demo_db s)\<lparr>db_runs := [(demo_run s)\<lparr>run_snapshot := Some 9\<rparr>],
     db_snapshots := [demo_snapshot], db_uuid := (\<lambda>n. n + 100)\<rparr>"

definition demo_lease :: lease where
  "demo_lease = \<lparr>ls_id = 70, ls_run = run_id (demo_run QUEUED), ls_worker = 7, ls_child_pid = None,
     ls_child_pgid = None, ls_expires_at = 10, ls_heartbeat_at = 0\<rparr>"

definition leased_db :: "run_status \<Rightarrow> db" where
  "leased_db s = (pinned_db s)\<lparr>db_leases := [demo_lease]\<rparr>"

definition demo_claim :: "(db \<times> claimed_run option) result" where
  "demo_claim = claim_run {} 5 7 (pinned_db ADMITTED)"

lemma demo_claim_run: "map_sum id (\<lambda>x. map_option cr_run (snd x)) demo_claim = Inr (Some (run_id (demo_run QUEUED)))"
  by code_simp

lemma claim_oldest_once_witness:
  "\<exists>d' c. claim_run {} 5 7 (pinned_db ADMITTED) = Inr (d', Some c) \<and> current_status (cr_run c) d' = Some STARTING"
proof -
  obtain d' c where run: "claim_run {} 5 7 (pinned_db ADMITTED) = Inr (d', Some c)"
    using demo_claim_run unfolding demo_claim_def
    by (cases "claim_run {} 5 7 (pinned_db ADMITTED)") (auto simp: map_option_case split: option.splits)
  have "unique_keys run_id (db_runs (pinned_db ADMITTED))" by code_simp
  moreover have "unique_keys ls_run (db_leases (pinned_db ADMITTED))" by code_simp
  ultimately show ?thesis using claim_oldest_once [OF _ _ run] run by blast
qed

lemma recovery_bypasses_guard_witness:
  "current_status (ls_run demo_lease) (leased_db CANCEL_REQUESTED) = Some CANCEL_REQUESTED
   \<and> current_status (ls_run demo_lease) (fst (recover_stale_leases (\<lambda>_. False) {} 20 (leased_db CANCEL_REQUESTED)))
       = Some ADMITTED
   \<and> assert_transition CANCEL_REQUESTED ADMITTED \<noteq> Inr ()"
proof -
  have "unique_keys ls_run (db_leases (leased_db CANCEL_REQUESTED))" by code_simp
  moreover have "demo_lease \<in> set (db_leases (leased_db CANCEL_REQUESTED))" by (simp add: leased_db_def)
  moreover have "ls_expires_at demo_lease < 20" by code_simp
  moreover have st: "current_status (ls_run demo_lease) (leased_db CANCEL_REQUESTED) = Some CANCEL_REQUESTED" by code_simp
  ultimately show ?thesis
    using recovery_bypasses_guard [of "leased_db CANCEL_REQUESTED" demo_lease 20 "{}" CANCEL_REQUESTED "\<lambda>_. False"]
    by (simp add: lease_alive_def demo_lease_def assert_transition_def)
qed

end
