(* ===== verification/Classify.thy ===== *)
theory Classify
  imports Store
begin

text \<open>
  How an instrument gets its asset type (\<open>instruments/classification.py\<close>) and the outcome of
  a StockLean request (\<open>vendors/stocklean.py\<close>, \<open>StockLeanClient._request\<close>). What the HTTP
  client returns is an argument: no response, or a status with a body that may not be JSON.
\<close>

section \<open>Outcomes of requests\<close>

datatype http_outcome = HttpError | HttpResponse int "json option"

record stocklean_error =
  se_code :: string
  se_status_code :: "int option"

definition stocklean_request :: "http_outcome \<Rightarrow> stocklean_error + json" where
  "stocklean_request h = (case h of
     HttpError \<Rightarrow> Inl \<lparr>se_code = ''stocklean_unavailable'', se_status_code = None\<rparr>
   | HttpResponse status body \<Rightarrow>
       (if status \<ge> 400 then
          (let code = (if status = 404 then ''stocklean_not_found'' else ''stocklean_rejected'');
               code = (if status \<ge> 500 then ''stocklean_unavailable'' else code)
           in Inl \<lparr>se_code = code, se_status_code = Some status\<rparr>)
        else (case body of
          None \<Rightarrow> Inl \<lparr>se_code = ''stocklean_invalid_response'', se_status_code = None\<rparr>
        | Some j \<Rightarrow> Inr j)))"

section \<open>Classifications\<close>

record classification =
  cls_ticker :: string
  cls_asset_type :: asset_type
  cls_quote_type :: string
  cls_source :: string
  cls_source_symbol :: string
  cls_exchange :: "string option"
  cls_name :: "string option"

record stocklean_identity =
  si_asset_type :: string
  si_exchange :: "string option"
  si_name :: "string option"
  si_vendor_symbol :: string

text \<open>
  \<open>StockLeanInstrumentClassifier\<close>. \<open>fetch\<close> is the request for a ticker and \<open>parse\<close> the
  validation of its body, whose \<open>ValidationError\<close> is not caught.
\<close>

definition stocklean_asset_type :: "string \<Rightarrow> asset_type option" where
  "stocklean_asset_type v = (if v = ''stock'' then Some STOCK else if v = ''fund'' then Some FUND else None)"

definition stocklean_classification :: "string \<Rightarrow> stocklean_identity \<Rightarrow> asset_type \<Rightarrow> classification" where
  "stocklean_classification ticker si a =
     \<lparr>cls_ticker = ticker, cls_asset_type = a,
      cls_quote_type = (if a = STOCK then ''EQUITY'' else ''ETF''), cls_source = ''stocklean_alpha'',
      cls_source_symbol = si_vendor_symbol si, cls_exchange = si_exchange si, cls_name = si_name si\<rparr>"

definition stocklean_classify ::
    "(string \<Rightarrow> http_outcome) \<Rightarrow> (json \<Rightarrow> stocklean_identity result) \<Rightarrow> string \<Rightarrow> classification result" where
  "stocklean_classify fetch parse ticker = (case stocklean_request (fetch ticker) of
     Inl e \<Rightarrow> Inl (if se_status_code e = Some 404 then ClassificationNotFound ticker
                   else ClassificationUnavailable ticker)
   | Inr j \<Rightarrow> bind_result (parse j) (\<lambda>si.
       case stocklean_asset_type (si_asset_type si) of
         None \<Rightarrow> Inl (TypeUnsupported ticker (str_upper (si_asset_type si)))
       | Some a \<Rightarrow> Inr (stocklean_classification ticker si a)))"

text \<open>\<open>classify_many\<close> of both classifiers: one classification per distinct canonical ticker.\<close>

definition classify_many ::
    "(string \<Rightarrow> classification result) \<Rightarrow> string list \<Rightarrow> (string \<times> classification) list result" where
  "classify_many classify tickers =
     bind_result (map_result canonicalize_ticker tickers) (\<lambda>ts.
     map_result (\<lambda>t. bind_result (classify t) (\<lambda>c. Inr (t, c))) (dedup ts))"

section \<open>Yahoo\<close>

definition QUOTE_TYPE_MAP :: "(string \<times> asset_type) list" where
  "QUOTE_TYPE_MAP = [(''EQUITY'', STOCK), (''ETF'', FUND), (''MUTUALFUND'', FUND), (''CRYPTOCURRENCY'', CRYPTO)]"

definition optional_strip :: "json option \<Rightarrow> string option" where
  "optional_strip v = (case v of Some (JStr s) \<Rightarrow> if str_strip s = [] then None else Some (str_strip s) | _ \<Rightarrow> None)"

definition first_some :: "'a option \<Rightarrow> 'a option \<Rightarrow> 'a option" where
  "first_some a b = (case a of Some x \<Rightarrow> Some x | None \<Rightarrow> b)"

text \<open>The list \<open>quotes\<close> of a response, with the exceptions of the \<open>try\<close> block mapped.\<close>

definition yahoo_quotes :: "string \<Rightarrow> http_outcome \<Rightarrow> json list result" where
  "yahoo_quotes ticker h = (case h of
     HttpResponse status (Some (JObj payload)) \<Rightarrow>
       (if status \<ge> 300 \<or> status < 200 then Inl (ClassificationUnavailable ticker)
        else case dict_get ''quotes'' payload of
          Some (JList quotes) \<Rightarrow> Inr quotes
        | _ \<Rightarrow> Inl (ClassificationUnavailable ticker))
   | HttpResponse status (Some _) \<Rightarrow>
       (if status \<ge> 300 \<or> status < 200 then Inl (ClassificationUnavailable ticker)
        else Inl (AttributeError ''get''))
   | _ \<Rightarrow> Inl (ClassificationUnavailable ticker))"

definition quote_symbol :: "json \<Rightarrow> string option" where
  "quote_symbol q = (case json_get ''symbol'' q of Some (JStr s) \<Rightarrow> Some (str_upper (str_strip s)) | _ \<Rightarrow> None)"

definition quote_type_of :: "json \<Rightarrow> string" where
  "quote_type_of q = (case json_get ''quoteType'' q of Some (JStr s) \<Rightarrow> str_upper (str_strip s) | _ \<Rightarrow> [])"

definition yahoo_classify :: "(string \<Rightarrow> http_outcome) \<Rightarrow> string \<Rightarrow> classification result" where
  "yahoo_classify fetch ticker =
     bind_result (yahoo_quotes ticker (fetch ticker)) (\<lambda>quotes.
     case find (\<lambda>q. quote_symbol q = Some ticker) quotes of
       None \<Rightarrow> Inl (ClassificationNotFound ticker)
     | Some q \<Rightarrow>
         (let ty = quote_type_of q in
          case map_of QUOTE_TYPE_MAP ty of
            None \<Rightarrow> Inl (TypeUnsupported ticker (if ty = [] then ''UNKNOWN'' else ty))
          | Some a \<Rightarrow> Inr \<lparr>cls_ticker = ticker, cls_asset_type = a, cls_quote_type = ty,
              cls_source = ''yahoo_finance_search'', cls_source_symbol = ticker,
              cls_exchange = optional_strip (json_get ''exchange'' q),
              cls_name = first_some (optional_strip (json_get ''longname'' q))
                (optional_strip (json_get ''shortname'' q))\<rparr>))"

end
