(* ===== verification/Assess.thy ===== *)
theory Assess
  imports Workers Classify
begin

text \<open>
  The assessment service (\<open>assessments/service.py\<close>, \<open>assessments/contracts.py\<close>) over the
  repository of runs: submission with its idempotency key, the two ways items are resolved,
  cancellation, retry, deletion and comparison. The classifier and the StockLean client are
  arguments; \<open>others\<close> is what other transactions commit between the service's lookup of a
  batch and its insert (the identity when nothing interleaves).
\<close>

section \<open>Commands\<close>

record assessment_item =
  it_ticker :: string
  it_asset_type :: "asset_type option"
  it_date :: int

record submit_command =
  sc_items :: "assessment_item list"
  sc_analysts :: "string list"
  sc_depth :: string
  sc_memory_mode :: memory_mode
  sc_language :: string
  sc_key :: string

definition assessment_item_of :: "string \<Rightarrow> asset_type option \<Rightarrow> int \<Rightarrow> assessment_item result" where
  "assessment_item_of ticker a date = bind_result (canonicalize_ticker ticker) (\<lambda>t.
     Inr \<lparr>it_ticker = t, it_asset_type = a, it_date = date\<rparr>)"

definition validate_command :: "submit_command \<Rightarrow> submit_command result" where
  "validate_command c =
     bind_result (require (1 \<le> length (sc_items c) \<and> length (sc_items c) \<le> 100) (ValueError ''items'')) (\<lambda>_.
     bind_result (depth_rounds (sc_depth c)) (\<lambda>_.
     bind_result (require (8 \<le> length (sc_key c) \<and> length (sc_key c) \<le> 128) (ValueError ''idempotency_key'')) (\<lambda>_.
     Inr c)))"

definition item_dump :: "assessment_item \<Rightarrow> json" where
  "item_dump i = JObj [(''ticker'', JStr (it_ticker i)),
     (''asset_type'', opt_str (map_option asset_value (it_asset_type i))),
     (''analysis_date'', JStr (iso_date (it_date i)))]"

definition strings_json :: "string list \<Rightarrow> json" where
  "strings_json xs = JList (map JStr xs)"

text \<open>\<open>_submission_sha256\<close>: the hash of the command without its key.\<close>

definition submission_sha256 :: "(string \<Rightarrow> string) \<Rightarrow> submit_command \<Rightarrow> string" where
  "submission_sha256 sha c = sha (json_dumps (JObj
     [(''items'', JList (map item_dump (sc_items c))), (''analysts'', strings_json (sc_analysts c)),
      (''depth'', JStr (sc_depth c)), (''memory_mode'', JStr (memory_mode_value (sc_memory_mode c))),
      (''language'', JStr (sc_language c))]))"

section \<open>Resolution of items\<close>

definition compatible_analysts :: "string list \<Rightarrow> asset_type \<Rightarrow> string list" where
  "compatible_analysts analysts a =
     (if a \<in> {FUND, CRYPTO} then filter (\<lambda>x. x \<noteq> ''fundamentals'') analysts else analysts)"

definition analyst_products :: "string \<Rightarrow> string list" where
  "analyst_products a = (case map_of [(''market'', [''market'']), (''fundamentals'', [''fundamental'']),
     (''news'', [''ticker_news'']), (''social'', [''global_news''])] a of None \<Rightarrow> [] | Some ps \<Rightarrow> ps)"

definition required_products :: "string list \<Rightarrow> string list" where
  "required_products analysts = dedup (concat (map analyst_products analysts) @ [''validation'', ''integrity''])"

record admission_reply =
  ar_key :: string
  ar_candidate_request_id :: "int option"
  ar_scope :: string
  ar_identity :: "stocklean_identity option"
  ar_readiness :: string
  ar_required_products :: "string list"
  ar_job :: "dict option"
  ar_manifest :: "dict option"
  ar_error :: "(string \<times> string) option"

record resolved_item =
  ri_item :: assessment_item
  ri_classification :: classification
  ri_analysts :: "string list"
  ri_admission :: "admission_reply option"

text \<open>The checks both resolutions end with.\<close>

definition accept_item ::
    "string list \<Rightarrow> assessment_item \<Rightarrow> classification \<Rightarrow> admission_reply option \<Rightarrow> resolved_item result" where
  "accept_item analysts i c admission =
     bind_result (case it_asset_type i of
         None \<Rightarrow> Inr ()
       | Some a \<Rightarrow> require (a = cls_asset_type c)
           (AssetTypeConflict (it_ticker i) (asset_value a) (asset_value (cls_asset_type c)))) (\<lambda>_.
     let compatible = compatible_analysts analysts (cls_asset_type c)
     in bind_result (require (compatible \<noteq> [])
          (AnalystsIncompatible (it_ticker i) (asset_value (cls_asset_type c)))) (\<lambda>_.
        Inr \<lparr>ri_item = i, ri_classification = c, ri_analysts = compatible, ri_admission = admission\<rparr>))"

type_synonym classifier = "string list \<Rightarrow> (string \<times> classification) list result"

definition resolve_items :: "classifier \<Rightarrow> submit_command \<Rightarrow> resolved_item list result" where
  "resolve_items classify cmd =
     bind_result (classify (dedup (map it_ticker (sc_items cmd)))) (\<lambda>cs.
     map_result (\<lambda>i. bind_result (of_option (KeyError (it_ticker i)) (map_of cs (it_ticker i))) (\<lambda>c.
       accept_item (sc_analysts cmd) i c None)) (sc_items cmd))"

text \<open>What the service asks StockLean for.\<close>

record candidate_request =
  cq_key :: string
  cq_symbol :: string
  cq_date :: int
  cq_analysts :: "string list"
  cq_products :: "string list"

type_synonym stocklean_client = "string \<Rightarrow> candidate_request list \<Rightarrow> admission_reply list result"

definition external_key :: "(string \<Rightarrow> string) \<Rightarrow> string \<Rightarrow> nat \<Rightarrow> assessment_item \<Rightarrow> string" where
  "external_key sha key n i = ''tradingng:'' @ sha (key @ '':'' @ nat_digits n @ '':'' @ it_ticker i)"

definition keyed_items :: "(string \<Rightarrow> string) \<Rightarrow> submit_command \<Rightarrow> (string \<times> assessment_item) list" where
  "keyed_items sha cmd = map (\<lambda>(n, i). (external_key sha (sc_key cmd) n i, i))
     (zip [0..<length (sc_items cmd)] (sc_items cmd))"

definition candidate_requests :: "(string \<Rightarrow> string) \<Rightarrow> submit_command \<Rightarrow> candidate_request list" where
  "candidate_requests sha cmd = map (\<lambda>(k, i). \<lparr>cq_key = k, cq_symbol = it_ticker i, cq_date = it_date i,
     cq_analysts = sc_analysts cmd, cq_products = required_products (sc_analysts cmd)\<rparr>) (keyed_items sha cmd)"

definition subject_ref :: "(string \<Rightarrow> string) \<Rightarrow> principal \<Rightarrow> string" where
  "subject_ref sha pr = ''principal:'' @ sha (pr_issuer pr @ [CHR 0x00] @ pr_subject pr)"

definition stocklean_class :: "assessment_item \<Rightarrow> stocklean_identity \<Rightarrow> classification" where
  "stocklean_class i si = stocklean_classification (it_ticker i) si
     (if si_asset_type si = ''stock'' then STOCK else FUND)"

definition resolve_reply ::
    "principal \<Rightarrow> string list \<Rightarrow> (string \<times> assessment_item) list \<Rightarrow> admission_reply \<Rightarrow> resolved_item result" where
  "resolve_reply pr analysts keyed a =
     bind_result (of_option (RuntimeError ''StockLean returned an unknown request key'')
       (map_of (rev keyed) (ar_key a))) (\<lambda>i.
     bind_result (require (ar_readiness a \<noteq> ''rejected'')
       (case ar_error a of
          Some (code, message) \<Rightarrow> AdmissionRejected (it_ticker i) code message
        | None \<Rightarrow> AdmissionRejected (it_ticker i) ''stocklean_rejected'' ''StockLean rejected the instrument'')) (\<lambda>_.
     bind_result (of_option (RuntimeError ''StockLean admission did not include instrument identity'')
       (ar_identity a)) (\<lambda>si.
     bind_result (if ar_scope a = ''research'' then principal_require [''research_symbols:enroll''] pr else Inr ()) (\<lambda>_.
     accept_item analysts i (stocklean_class i si) (Some a)))))"

definition resolve_stocklean_items ::
    "(string \<Rightarrow> string) \<Rightarrow> stocklean_client \<Rightarrow> principal \<Rightarrow> submit_command \<Rightarrow> resolved_item list result" where
  "resolve_stocklean_items sha client pr cmd =
     bind_result (client (subject_ref sha pr) (candidate_requests sha cmd)) (\<lambda>replies.
     bind_result (map_result (resolve_reply pr (sc_analysts cmd) (keyed_items sha cmd)) replies) (\<lambda>items.
     bind_result (require (length items = length (sc_items cmd))
       (RuntimeError ''StockLean returned an incomplete admission response'')) (\<lambda>_. Inr items)))"

definition request_config :: "resolved_item \<Rightarrow> dict" where
  "request_config r = [(''analysts'', strings_json (ri_analysts r))] @
     (case ri_admission r of None \<Rightarrow> []
      | Some a \<Rightarrow> (case ar_manifest a of None \<Rightarrow> [] | Some m \<Rightarrow> [(''data_manifest'', JObj m)]))"

definition data_requirement_of :: "resolved_item \<Rightarrow> data_requirement option result" where
  "data_requirement_of r = (case ri_admission r of
     None \<Rightarrow> Inr None
   | Some a \<Rightarrow>
       (if ar_readiness a \<noteq> ''waiting'' then Inr None
        else (case (ar_candidate_request_id a, ar_job a) of
          (Some n, Some job) \<Rightarrow> Inr (Some \<lparr>dq_provider_request_id = int_str n,
             dq_external_request_key = ar_key a, dq_required_products = ar_required_products a,
             dq_progress = job\<rparr>)
        | _ \<Rightarrow> Inl (RuntimeError ''waiting StockLean admission is missing progress references''))))"

definition initial_status :: "resolved_item \<Rightarrow> run_status" where
  "initial_status r = (case ri_admission r of None \<Rightarrow> QUEUED
     | Some a \<Rightarrow> if ar_readiness a = ''waiting'' then WAITING_FOR_DATA else QUEUED)"

section \<open>Submission\<close>

record assess_env =
  ae_sha :: "string \<Rightarrow> string"
  ae_uuid :: "nat \<Rightarrow> string"
  ae_iso :: "int \<Rightarrow> string"

definition classification_metadata :: "assess_env \<Rightarrow> int \<Rightarrow> classification \<Rightarrow> json" where
  "classification_metadata env now c = JObj [(''asset_type'', JStr (asset_value (cls_asset_type c))),
     (''exchange'', opt_str (cls_exchange c)), (''name'', opt_str (cls_name c)),
     (''quote_type'', JStr (cls_quote_type c)), (''resolved_at'', JStr (ae_iso env now)),
     (''source'', JStr (cls_source c)), (''source_symbol'', JStr (cls_source_symbol c))]"

definition classified :: "assess_env \<Rightarrow> int \<Rightarrow> classification \<Rightarrow> instrument \<Rightarrow> instrument" where
  "classified env now c i = i\<lparr>
     ins_metadata := dict_set ''asset_classification'' (classification_metadata env now c) (ins_metadata i),
     ins_exchange := (case ins_exchange i of None \<Rightarrow> cls_exchange c | Some x \<Rightarrow> Some x)\<rparr>"

definition find_ticker :: "string \<Rightarrow> db \<Rightarrow> instrument option" where
  "find_ticker t d = find_row ins_ticker t (db_instruments d)"

definition get_or_create_instrument ::
    "assess_env \<Rightarrow> int \<Rightarrow> string \<Rightarrow> classification \<Rightarrow> instrument tx" where
  "get_or_create_instrument env now ticker c d =
     (let d0 = snd (acquire_lock {} (ticker_lock ticker) True d);
          d1 = (case find_ticker ticker d0 of
              Some _ \<Rightarrow> d0
            | None \<Rightarrow> (drawn d0)\<lparr>db_instruments := db_instruments d0 @ [\<lparr>ins_id = uuid4 d0,
                ins_ticker = ticker, ins_asset_type = asset_value (cls_asset_type c),
                ins_exchange = cls_exchange c, ins_name = None, ins_metadata = []\<rparr>]\<rparr>)
      in bind_result (of_option (RuntimeError ''instrument'') (find_ticker ticker d1)) (\<lambda>i.
         bind_result (require (ins_asset_type i = asset_value (cls_asset_type c))
           (IdentityConflict ticker (ins_asset_type i) (asset_value (cls_asset_type c)))) (\<lambda>_.
         Inr (d1\<lparr>db_instruments := update_row ins_id (ins_id i) (classified env now c) (db_instruments d1)\<rparr>,
              classified env now c i))))"

definition BATCH_CONSTRAINT :: string where
  "BATCH_CONSTRAINT = ''uq_assessment_batches_submitted_by''"

definition create_batch :: "assess_env \<Rightarrow> nat \<Rightarrow> submit_command \<Rightarrow> batch tx" where
  "create_batch env uid cmd d =
     (if find_batch_id uid (sc_key cmd) d \<noteq> None then Inl (IntegrityViolation BATCH_CONSTRAINT)
      else let b = \<lparr>bat_id = uuid4 d, bat_submitted_by = uid, bat_idempotency_key = sc_key cmd,
             bat_defaults = [(''analysts'', strings_json (sc_analysts cmd)), (''depth'', JStr (sc_depth cmd)),
               (''memory_mode'', JStr (memory_mode_value (sc_memory_mode cmd))),
               (''language'', JStr (sc_language cmd)),
               (''_submission_sha256'', JStr (submission_sha256 (ae_sha env) cmd))]\<rparr>
           in Inr ((drawn d)\<lparr>db_batches := db_batches d @ [b]\<rparr>, b))"

definition assert_idempotent_payload :: "assess_env \<Rightarrow> nat \<Rightarrow> submit_command \<Rightarrow> db \<Rightarrow> unit result" where
  "assert_idempotent_payload env uid cmd d =
     (case get_batch_submission_hash uid (sc_key cmd) d of
        None \<Rightarrow> Inr () | Some JNull \<Rightarrow> Inr ()
      | Some j \<Rightarrow> require (j = JStr (submission_sha256 (ae_sha env) cmd)) IdempotencyConflict)"

definition submit_item :: "assess_env \<Rightarrow> int \<Rightarrow> nat \<Rightarrow> resolved_item \<Rightarrow> db \<Rightarrow> db result" where
  "submit_item env now bid r d =
     bind_result (get_or_create_instrument env now (it_ticker (ri_item r)) (ri_classification r) d) (\<lambda>(d1, i).
     bind_result (data_requirement_of r) (\<lambda>requirement.
     Inr (fst (create_request_and_run now bid (ins_id i) (it_date (ri_item r)) (request_config r)
       (initial_status r) requirement d1))))"

fun submit_items :: "assess_env \<Rightarrow> int \<Rightarrow> nat \<Rightarrow> resolved_item list \<Rightarrow> db \<Rightarrow> db result" where
  "submit_items env now bid [] d = Inr d"
| "submit_items env now bid (r # rs) d = bind_result (submit_item env now bid r d) (submit_items env now bid rs)"

text \<open>The batch that already holds the key: its runs, if the payload is the same.\<close>

definition existing_batch :: "assess_env \<Rightarrow> nat \<Rightarrow> submit_command \<Rightarrow> run_view list \<Rightarrow> run_view list tx" where
  "existing_batch env uid cmd views d =
     bind_result (assert_idempotent_payload env uid cmd d) (\<lambda>_. Inr (d, views))"

definition submit_batch ::
    "assess_env \<Rightarrow> int \<Rightarrow> principal \<Rightarrow> submit_command \<Rightarrow> string \<Rightarrow> batch \<Rightarrow> resolved_item list \<Rightarrow> run_view list tx" where
  "submit_batch env now pr cmd rid b items d =
     bind_result (submit_items env now (bat_id b) items d) (\<lambda>d1.
     let d2 = append_audit pr ''assessment.submit'' ''assessment_batch'' (ae_uuid env (bat_id b)) rid
           [(''count'', JInt (int (length (sc_items cmd))))] d1
     in Inr (d2, list_batch_runs (bat_id b) d2))"

definition submit_new ::
    "assess_env \<Rightarrow> int \<Rightarrow> principal \<Rightarrow> submit_command \<Rightarrow> string \<Rightarrow> nat \<Rightarrow> resolved_item list \<Rightarrow> run_view list tx" where
  "submit_new env now pr cmd rid uid items d =
     (case create_batch env uid cmd d of
        Inr (d1, b) \<Rightarrow> submit_batch env now pr cmd rid b items d1
      | Inl _ \<Rightarrow>
          bind_result (of_option (RuntimeError ''idempotent batch winner is not visible'')
            (find_batch uid (sc_key cmd) d)) (\<lambda>views. existing_batch env uid cmd views d))"

definition submit ::
    "assess_env \<Rightarrow> classifier \<Rightarrow> stocklean_client option \<Rightarrow> (db \<Rightarrow> db) \<Rightarrow> int \<Rightarrow> principal \<Rightarrow> submit_command
       \<Rightarrow> string \<Rightarrow> run_view list tx" where
  "submit env classify stocklean others now pr cmd rid d =
     bind_result (principal_require [''assessments:submit''] pr) (\<lambda>_.
     bind_result (if stocklean = None then resolve_items classify cmd else Inr []) (\<lambda>early.
     bind_result (upsert_user pr d) (\<lambda>(d1, u).
     case find_batch (usr_id u) (sc_key cmd) d1 of
       Some views \<Rightarrow> existing_batch env (usr_id u) cmd views d1
     | None \<Rightarrow>
         bind_result (case stocklean of None \<Rightarrow> Inr early
             | Some client \<Rightarrow> resolve_stocklean_items (ae_sha env) client pr cmd) (\<lambda>items.
         submit_new env now pr cmd rid (usr_id u) items (others d1)))))"

section \<open>Cancellation, retry and deletion\<close>

definition require_owner_or_admin :: "principal \<Rightarrow> run_context \<Rightarrow> unit result" where
  "require_owner_or_admin pr c =
     (if ''Admin'' \<in> set (pr_roles pr) \<and> ''assessments:admin'' \<in> set (pr_scopes pr) then Inr ()
      else require (usr_issuer (rc_owner c) = pr_issuer pr \<and> usr_subject (rc_owner c) = pr_subject pr)
        (AccessDenied ''assessment belongs to another principal''))"

definition view_of_context :: "run_context \<Rightarrow> run_view" where
  "view_of_context c = run_view_of (rc_run c, rc_request c, rc_instrument c)"

text \<open>The status write of a cancellation: a run no worker can hold ends at once.\<close>

definition cancel_run :: "int \<Rightarrow> run \<Rightarrow> db \<Rightarrow> db result" where
  "cancel_run now r d =
     (if run_status r \<in> {QUEUED, WAITING_FOR_DATA} then
        bind_result (assert_transition (run_status r) CANCELLED) (\<lambda>_.
        let d1 = update_run (run_id r) (\<lambda>x. x\<lparr>run_status := CANCELLED, run_finished_at := Some now,
                   run_version := run_version x + 1\<rparr>) d;
            d2 = (if run_status r = WAITING_FOR_DATA then cancel_data_requirement (run_id r) d1 else d1)
        in Inr (append_event now (run_id r) ''assessment.cancelled'' [] d2))
      else if run_status r \<notin> terminal_statuses \<and> run_status r \<notin> cancelling_statuses then
        bind_result (assert_transition (run_status r) CANCEL_REQUESTED) (\<lambda>_.
        Inr (append_event now (run_id r) ''assessment.cancel_requested'' [] (set_status (run_id r) CANCEL_REQUESTED d)))
      else Inr d)"

definition cancel_assessment :: "assess_env \<Rightarrow> int \<Rightarrow> principal \<Rightarrow> nat \<Rightarrow> string \<Rightarrow> run_view tx" where
  "cancel_assessment env now pr rid request d =
     bind_result (principal_require [''assessments:cancel''] pr) (\<lambda>_.
     bind_result (of_option (NotFound rid) (get_run_context rid d)) (\<lambda>c.
     bind_result (require_owner_or_admin pr c) (\<lambda>_.
     bind_result (cancel_run now (rc_run c) d) (\<lambda>d1.
     bind_result (of_option (NotFound rid) (find_run rid d1)) (\<lambda>r.
     Inr (append_audit pr ''assessment.cancel'' ''assessment_run'' (ae_uuid env rid) request
            [(''status'', JStr (status_value (run_status r)))] d1,
          view_of_context (c\<lparr>rc_run := r\<rparr>)))))))"

definition retryable_statuses :: "run_status set" where
  "retryable_statuses = {FAILED, CANCELLED, NEEDS_ATTENTION}"

definition has_pinned_manifest :: "dict \<Rightarrow> bool" where
  "has_pinned_manifest config = (case dict_get ''data_manifest'' config of
     Some (JObj m) \<Rightarrow>
       (case dict_get ''snapshot_id'' m of None \<Rightarrow> False | Some j \<Rightarrow> json_truthy j)
       \<and> (case dict_get ''manifest_sha256'' m of Some (JStr s) \<Rightarrow> length s = 64 | _ \<Rightarrow> False)
   | _ \<Rightarrow> False)"

text \<open>\<open>tuple(defaults.get("analysts") or request_config.get("analysts") or ("market",))\<close>\<close>

definition truthy_or :: "json option \<Rightarrow> json \<Rightarrow> json" where
  "truthy_or a b = (case a of Some j \<Rightarrow> if json_truthy j then j else b | None \<Rightarrow> b)"

definition json_strings :: "json \<Rightarrow> string list result" where
  "json_strings j = (case j of JList js \<Rightarrow> map_result json_string js | _ \<Rightarrow> Inl (ValueError ''analysts''))"

definition retry_analysts :: "dict \<Rightarrow> dict \<Rightarrow> string list result" where
  "retry_analysts defaults config = json_strings (truthy_or (dict_get ''analysts'' defaults)
     (truthy_or (dict_get ''analysts'' config) (JList [JStr ''market''])))"

definition text_default :: "string \<Rightarrow> string \<Rightarrow> dict \<Rightarrow> string result" where
  "text_default k v d = (case dict_get k d of None \<Rightarrow> Inr v | Some j \<Rightarrow> json_string j)"

definition retry_command :: "assess_env \<Rightarrow> run_context \<Rightarrow> dict \<Rightarrow> submit_command result" where
  "retry_command env c config =
     (let defaults = bat_defaults (rc_batch c) in
      bind_result (parse_asset_type (ins_asset_type (rc_instrument c))) (\<lambda>a.
      bind_result (assessment_item_of (ins_ticker (rc_instrument c)) (Some a) (req_analysis_date (rc_request c))) (\<lambda>i.
      bind_result (retry_analysts defaults config) (\<lambda>analysts.
      bind_result (text_default ''depth'' ''deep'' defaults) (\<lambda>depth.
      bind_result (bind_result (text_default ''memory_mode'' ''independent'' defaults) parse_memory_mode) (\<lambda>mode.
      bind_result (text_default ''language'' ''Chinese'' defaults) (\<lambda>language.
      validate_command \<lparr>sc_items = [i], sc_analysts = analysts, sc_depth = depth, sc_memory_mode = mode,
        sc_language = language, sc_key = ''retry-'' @ ae_uuid env (run_id (rc_run c)) @ ''-''
          @ int_str (run_attempt (rc_run c) + 1)\<rparr>)))))))"

text \<open>The configuration, first status and data requirement of a retry.\<close>

definition retry_plan ::
    "assess_env \<Rightarrow> stocklean_client option \<Rightarrow> principal \<Rightarrow> run_context
       \<Rightarrow> (dict \<times> run_status \<times> data_requirement option) result" where
  "retry_plan env stocklean pr c =
     (let config = req_config (rc_request c) in
      case stocklean of
        None \<Rightarrow> Inr (config, QUEUED, None)
      | Some client \<Rightarrow>
          (if has_pinned_manifest config then Inr (config, QUEUED, None)
           else bind_result (retry_command env c config) (\<lambda>cmd.
                bind_result (resolve_stocklean_items (ae_sha env) client pr cmd) (\<lambda>items.
                bind_result (data_requirement_of (hd items)) (\<lambda>requirement.
                Inr (dict_update (dict_pop ''data_manifest'' config) (request_config (hd items)),
                     if requirement = None then QUEUED else WAITING_FOR_DATA, requirement))))))"

definition write_retry ::
    "assess_env \<Rightarrow> int \<Rightarrow> principal \<Rightarrow> nat \<Rightarrow> string \<Rightarrow> run_context \<Rightarrow> dict \<times> run_status \<times> data_requirement option
       \<Rightarrow> db \<Rightarrow> db \<times> run" where
  "write_retry env now pr rid request c plan d = (case plan of (config, status, requirement) \<Rightarrow>
     (case create_retry (ae_uuid env) now c (Some config) status requirement d of (d1, retry) \<Rightarrow>
       (append_audit pr ''assessment.retry'' ''assessment_run'' (ae_uuid env (run_id retry)) request
          [(''retry_of_run_id'', JStr (ae_uuid env rid)), (''attempt'', JInt (run_attempt retry))] d1, retry)))"

definition retry_assessment ::
    "assess_env \<Rightarrow> stocklean_client option \<Rightarrow> int \<Rightarrow> principal \<Rightarrow> nat \<Rightarrow> string \<Rightarrow> run_view tx" where
  "retry_assessment env stocklean now pr rid request d =
     bind_result (principal_require [''assessments:submit''] pr) (\<lambda>_.
     bind_result (of_option (NotFound rid) (get_run_context rid d)) (\<lambda>c.
     bind_result (require_owner_or_admin pr c) (\<lambda>_.
     bind_result (require (run_status (rc_run c) \<in> retryable_statuses)
       (RetryNotAllowed (status_value (run_status (rc_run c))))) (\<lambda>_.
     bind_result (retry_plan env stocklean pr c) (\<lambda>plan.
     case write_retry env now pr rid request c plan d of (d1, retry) \<Rightarrow>
       bind_result (of_option (RuntimeError ''new retry is not visible'') (get_run_context (run_id retry) d1))
         (\<lambda>rc. Inr (d1, view_of_context rc)))))))"

record deleted_assessment =
  da_run :: nat
  da_ticker :: string
  da_analysis_date :: int
  da_status :: run_status

definition deletable :: "nat \<Rightarrow> run \<Rightarrow> db \<Rightarrow> unit result" where
  "deletable rid r d =
     bind_result (require (run_status r \<in> terminal_statuses) (DeleteNotAllowed ''run_not_terminal'' [])) (\<lambda>_.
     bind_result (require (\<not> has_active_work rid d) (DeleteNotAllowed ''active_work'' [])) (\<lambda>_.
     require (find_dependent_run_ids rid d = [])
       (DeleteNotAllowed ''dependent_runs_exist'' (find_dependent_run_ids rid d))))"

definition deletion_of :: "run_context \<Rightarrow> deleted_assessment" where
  "deletion_of c = \<lparr>da_run = run_id (rc_run c), da_ticker = ins_ticker (rc_instrument c),
     da_analysis_date = req_analysis_date (rc_request c), da_status = run_status (rc_run c)\<rparr>"

definition deletion_metadata :: "assess_env \<Rightarrow> run_context \<Rightarrow> db \<Rightarrow> dict" where
  "deletion_metadata env c d =
     [(''ticker'', JStr (ins_ticker (rc_instrument c))),
      (''analysis_date'', JStr (iso_date (req_analysis_date (rc_request c)))),
      (''status'', JStr (status_value (run_status (rc_run c)))),
      (''request_id'', JStr (ae_uuid env (req_id (rc_request c)))),
      (''batch_id'', JStr (ae_uuid env (req_batch (rc_request c)))),
      (''deleted'', JObj (deletion_counts c d))]"

definition delete_rows :: "assess_env \<Rightarrow> principal \<Rightarrow> nat \<Rightarrow> string \<Rightarrow> deleted_assessment tx" where
  "delete_rows env pr rid request d =
     bind_result (principal_require [''assessments:admin''] pr) (\<lambda>_.
     bind_result (require (''Admin'' \<in> set (pr_roles pr))
       (AccessDenied ''assessment deletion requires the Admin role'')) (\<lambda>_.
     bind_result (of_option (NotFound rid) (get_run_context rid d)) (\<lambda>c.
     bind_result (deletable rid (rc_run c) d) (\<lambda>_.
     Inr (append_audit pr ''assessment.delete'' ''assessment_run'' (ae_uuid env rid) request
            (deletion_metadata env c d) (delete_assessment_graph c d), deletion_of c)))))"

text \<open>
  After the commit the run's directories go; \<open>existing\<close> lists the paths of the file system.
  A failure there is only logged.
\<close>

definition cleanup_run_files :: "path option \<Rightarrow> path option \<Rightarrow> string \<Rightarrow> path list \<Rightarrow> files \<Rightarrow> files" where
  "cleanup_run_files store job run_text existing fs =
     (let fs1 = (case store of None \<Rightarrow> fs | Some base \<Rightarrow> fst (delete_run_directory base run_text existing fs))
      in case job of None \<Rightarrow> fs1 | Some base \<Rightarrow> fst (delete_run_directory base run_text existing fs1))"

definition delete_assessment ::
    "assess_env \<Rightarrow> path option \<Rightarrow> path option \<Rightarrow> path list \<Rightarrow> principal \<Rightarrow> nat \<Rightarrow> string \<Rightarrow> files \<Rightarrow> db
       \<Rightarrow> (files \<times> db \<times> deleted_assessment) result" where
  "delete_assessment env store job existing pr rid request fs d =
     bind_result (delete_rows env pr rid request d) (\<lambda>(d1, deleted).
     Inr (cleanup_run_files store job (ae_uuid env rid) existing fs, d1, deleted))"

section \<open>Reading\<close>

definition run_steps :: "(nat \<Rightarrow> int) \<Rightarrow> principal \<Rightarrow> nat \<Rightarrow> db \<Rightarrow> run_step list result" where
  "run_steps created pr rid d =
     bind_result (principal_require [''assessments:read''] pr) (\<lambda>_.
     bind_result (of_option (NotFound rid) (get_run rid d)) (\<lambda>_. Inr (list_steps created rid d)))"

definition run_events :: "principal \<Rightarrow> nat \<Rightarrow> int \<Rightarrow> nat \<Rightarrow> db \<Rightarrow> run_event list result" where
  "run_events pr rid after limit d =
     bind_result (principal_require [''assessments:read''] pr) (\<lambda>_.
     bind_result (of_option (NotFound rid) (get_run rid d)) (\<lambda>_. Inr (list_events rid after limit d)))"

record comparison =
  cmp_runs :: "run_view list"
  cmp_ratings :: "(nat \<times> string option) list"
  cmp_changed :: "(string \<times> nat list) list"

type_synonym run_metadata = "run_status \<times> string option \<times> string option"

text \<open>The value of a section of the metadata of one run.\<close>

definition section_value :: "string \<Rightarrow> run_metadata \<Rightarrow> string option" where
  "section_value s m = (case m of (status, rating, snapshot) \<Rightarrow>
     if s = ''status'' then Some (status_value status) else if s = ''rating'' then rating else snapshot)"

definition compare_runs :: "principal \<Rightarrow> nat list \<Rightarrow> db \<Rightarrow> comparison result" where
  "compare_runs pr rids d =
     bind_result (principal_require [''assessments:read''] pr) (\<lambda>_.
     bind_result (map_result (\<lambda>rid. of_option (NotFound rid) (get_run rid d)) rids) (\<lambda>views.
     bind_result (map_result (\<lambda>rid. of_option (KeyError ''run_id'')
         (map_of (rev (comparison_metadata rids d)) rid)) rids) (\<lambda>metadata.
     Inr \<lparr>cmp_runs = views, cmp_ratings = zip rids (map (section_value ''rating'') metadata),
       cmp_changed = [(s, rids). s \<leftarrow> [''status'', ''rating'', ''config_snapshot''],
         length (dedup (map (section_value s) metadata)) > 1]\<rparr>)))"

end
