(* ===== verification/Serving.thy ===== *)
theory Serving
  imports RunService Leases Assess
begin

text \<open>
  What the process around a run promises: which event streams the protocol accepts, how the
  stage tracker moves, that the protocol of the worker and the durable log agree, what the
  configuration pinned at admission becomes in the runner, when a child is killed, and what
  the redaction of diagnostics leaves.
\<close>

section \<open>The protocol\<close>

definition is_result :: "runner_event \<Rightarrow> bool" where
  "is_result e \<longleftrightarrow> re_type e = ''result''"

lemma protocol_consume_Inr:
  "protocol_consume e p = Inr p' \<longleftrightarrow> \<not> pt_saw_result p \<and> re_sequence e = pt_expected p
     \<and> pt_expected p' = pt_expected p + 1 \<and> pt_saw_result p' = is_result e
     \<and> pt_last_error p' = (case (re_type e = ''error'', dict_get ''error_code'' (re_payload e)) of
          (True, Some (JStr s)) \<Rightarrow> Some s | _ \<Rightarrow> pt_last_error p)"
  by (cases p') (auto simp: protocol_consume_def is_result_def bind_result_Inr_iff)

definition stream_ok :: "int \<Rightarrow> runner_event list \<Rightarrow> bool" where
  "stream_ok n es \<longleftrightarrow> map re_sequence es = map (\<lambda>i. n + int i) [0..<length es] \<and> \<not> list_ex is_result (butlast es)"

lemma count_Cons: "map (\<lambda>i. n + int i) [0..<Suc k] = n # map (\<lambda>i. (n + 1) + int i) [0..<k]"
  by (simp add: upt_conv_Cons map_Suc_upt [symmetric] comp_def del: upt_Suc)

lemma stream_ok_Cons:
  "stream_ok n (e # es) \<longleftrightarrow> re_sequence e = n \<and> (is_result e \<longrightarrow> es = []) \<and> stream_ok (n + 1) es"
  using count_Cons [of n "length es"] by (auto simp: stream_ok_def)

lemma protocol_run_stream:
  "\<not> pt_saw_result p \<Longrightarrow> (\<exists>q. protocol_run es p = Inr q) \<longleftrightarrow> stream_ok (pt_expected p) es"
proof (induction es arbitrary: p)
  case Nil
  then show ?case by (simp add: stream_ok_def)
next
  case (Cons e es)
  show ?case
  proof (cases "protocol_consume e p")
    case (Inl x)
    then have "re_sequence e \<noteq> pt_expected p"
      using Cons.prems by (auto simp: protocol_consume_def require_def bind_result_def split: if_split_asm)
    then show ?thesis using Inl by (simp add: stream_ok_Cons)
  next
    case (Inr p')
    then have p': "re_sequence e = pt_expected p" "pt_expected p' = pt_expected p + 1"
      "pt_saw_result p' = is_result e" by (auto simp: protocol_consume_Inr)
    show ?thesis
    proof (cases "is_result e")
      case True
      have "(\<exists>q. protocol_run es p' = Inr q) \<longleftrightarrow> es = []"
        using p' True by (cases es) (auto simp: protocol_consume_def require_def bind_result_def)
      then show ?thesis using Inr p' True by (auto simp: stream_ok_Cons stream_ok_def)
    next
      case False
      then show ?thesis using Inr p' Cons.IH [of p'] by (auto simp: stream_ok_Cons)
    qed
  qed
qed

lemma protocol_run_state:
  "protocol_run es p = Inr q \<Longrightarrow> pt_expected q = pt_expected p + int (length es)
     \<and> pt_saw_result q = (if es = [] then pt_saw_result p else is_result (last es))"
proof (induction es arbitrary: p)
  case (Cons e es)
  obtain p' where "protocol_consume e p = Inr p'" and run: "protocol_run es p' = Inr q"
    using Cons.prems by (auto elim!: bind_resultE)
  then have "pt_expected p' = pt_expected p + 1" and "pt_saw_result p' = is_result e"
    by (simp_all add: protocol_consume_Inr)
  then show ?case using Cons.IH [OF run] by simp
qed simp

lemma length_emit_all [simp]: "length (emit_all n events) = length events"
  by (induction n events rule: emit_all.induct) simp_all

lemma emit_all_sequences: "map re_sequence (emit_all n events) = map (\<lambda>i. (n + 1) + int i) [0..<length events]"
proof (induction n events rule: emit_all.induct)
  case (2 n ty name payload rest)
  then show ?case using count_Cons [of "n + 1" "length rest"] by (simp del: upt_Suc)
qed simp

lemma emit_all_results: "map is_result (emit_all n events) = map (\<lambda>x. fst x = ''result'') events"
  by (induction n events rule: emit_all.induct) (simp_all add: is_result_def)

lemma list_ex_butlast: "list_ex P (butlast xs) \<longleftrightarrow> list_ex id (butlast (map P xs))"
  by (simp add: map_butlast [symmetric] list_ex_iff)

lemma emit_all_stream: "stream_ok 1 (emit_all 0 events) \<longleftrightarrow> \<not> list_ex (\<lambda>x. fst x = ''result'') (butlast events)"
  unfolding stream_ok_def emit_all_sequences length_emit_all list_ex_butlast [of is_result] emit_all_results
  by (simp add: list_ex_butlast [of "\<lambda>x. fst x = ''result''"])

text \<open>
  The worker accepts exactly the event streams that are numbered 1, 2, 3 and so on and
  have no event after a result; the next number it expects and whether it has seen a result
  follow from the accepted stream, and what the runner's emitter writes is such a stream
  whenever it emits a result only as its last event.
\<close>

theorem protocol_accepts:
  "((\<exists>p. protocol_run es new_protocol = Inr p) \<longleftrightarrow> stream_ok 1 es)
   \<and> (protocol_run es new_protocol = Inr p \<longrightarrow>
        pt_expected p = int (length es) + 1 \<and> pt_saw_result p = (es \<noteq> [] \<and> is_result (last es)))
   \<and> (stream_ok 1 (emit_all 0 events) \<longleftrightarrow> \<not> list_ex (\<lambda>x. fst x = ''result'') (butlast events))"
proof -
  have "stream_ok 1 (emit_all 0 events) \<longleftrightarrow> \<not> list_ex (\<lambda>x. fst x = ''result'') (butlast events)"
    by (rule emit_all_stream)
  moreover have "(\<exists>p. protocol_run es new_protocol = Inr p) \<longleftrightarrow> stream_ok 1 es"
    using protocol_run_stream [of new_protocol es] by (simp add: new_protocol_def)
  moreover have "protocol_run es new_protocol = Inr p \<longrightarrow>
        pt_expected p = int (length es) + 1 \<and> pt_saw_result p = (es \<noteq> [] \<and> is_result (last es))"
  proof
    assume run: "protocol_run es new_protocol = Inr p"
    have "pt_expected new_protocol = 1" "\<not> pt_saw_result new_protocol" by (simp_all add: new_protocol_def)
    then show "pt_expected p = int (length es) + 1 \<and> pt_saw_result p = (es \<noteq> [] \<and> is_result (last es))"
      using protocol_run_state [OF run] by (cases "es = []") simp_all
  qed
  ultimately show ?thesis by blast
qed

lemma protocol_accepts_witness:
  "\<exists>p. protocol_run (emit_all 0 [(''stage'', ''a'', []), (''result'', ''b'', [])]) new_protocol = Inr p
     \<and> pt_expected p = 3 \<and> pt_saw_result p"
proof -
  let ?es = "emit_all 0 [(''stage'', ''a'', []), (''result'', ''b'', [])]"
  have "stream_ok 1 ?es" by code_simp
  then obtain p where "protocol_run ?es new_protocol = Inr p" using protocol_accepts [of ?es] by blast
  then show ?thesis using protocol_accepts [of ?es p] by (auto simp: is_result_def)
qed

section \<open>The protocol and the durable log\<close>

text \<open>
  The abstraction is the log: the type and the payload of every runner event that is stored of the
  run's current attempt. \<open>stored_as\<close> is how an event the runner emitted stands in it. A transaction of
  another process is \<open>quiet\<close> for a run when it keeps the run, its attempt and its log.
\<close>

definition attempt_events :: "nat \<Rightarrow> db \<Rightarrow> (string \<times> dict) list option" where
  "attempt_events rid d = map_option (\<lambda>r. map (\<lambda>e. (ev_type e, ev_payload e))
     (filter (of_attempt rid (run_attempt r)) (db_events d))) (find_run rid d)"

definition attempt_of :: "nat \<Rightarrow> db \<Rightarrow> int option" where
  "attempt_of rid d = map_option run_attempt (find_run rid d)"

definition stored_as :: "int \<Rightarrow> runner_event \<Rightarrow> string \<times> dict" where
  "stored_as a e = (''runner.'' @ re_type e @ ''.'' @ re_name e,
     dict_update (re_payload e) [(''runner_sequence'', JInt (re_sequence e)), (''runner_attempt'', JInt a)])"

definition quiet :: "nat \<Rightarrow> (db \<Rightarrow> db) \<Rightarrow> bool" where
  "quiet rid f \<longleftrightarrow> (\<forall>d. runner_logs_ok d \<longrightarrow>
     runner_logs_ok (f d) \<and> attempt_events rid (f d) = attempt_events rid d \<and> attempt_of rid (f d) = attempt_of rid d)"

text \<open>\<open>lg\<close> is what is stored of attempt \<open>a\<close>, and the protocol expects the number after \<open>k\<close> more events.\<close>

definition follows_log :: "nat \<Rightarrow> int \<Rightarrow> (string \<times> dict) list \<Rightarrow> nat \<Rightarrow> serving \<Rightarrow> bool" where
  "follows_log rid a lg k s \<longleftrightarrow> runner_logs_ok (sv_db s) \<and> attempt_of rid (sv_db s) = Some a
     \<and> attempt_events rid (sv_db s) = Some lg \<and> pt_expected (sv_protocol s) = int (length lg + k) + 1"

lemma attempt_cong:
  "db_runs d' = db_runs d \<Longrightarrow> db_events d' = db_events d \<Longrightarrow> attempt_events rid d' = attempt_events rid d"
  "db_runs d' = db_runs d \<Longrightarrow> attempt_of rid d' = attempt_of rid d"
  by (simp_all add: attempt_events_def attempt_of_def find_run_def)

lemma runner_logs_ok_cong: "db_events d' = db_events d \<Longrightarrow> runner_logs_ok d' = runner_logs_ok d"
  by (simp add: runner_logs_ok_def)

lemma persist_follows:
  assumes "persist_runner_event now rid e d = Inr (d', st)" and "runner_logs_ok d"
    and "attempt_of rid d = Some a" and "attempt_events rid d = Some lg"
  shows "runner_logs_ok d' \<and> attempt_of rid d' = Some a \<and> attempt_events rid d' = Some (lg @ [stored_as a e])
    \<and> re_sequence e = int (length lg) + 1"
proof -
  obtain r where r: "find_run rid d = Some r" "run_attempt r = a" using assms(3) by (auto simp: attempt_of_def)
  have lg: "lg = map (\<lambda>e. (ev_type e, ev_payload e)) (filter (of_attempt rid a) (db_events d))"
    using assms(4) r by (simp add: attempt_events_def)
  have "moves (\<lambda>j x. j = rid \<and> run_status x \<notin> cancelling_statuses) d d'" by (rule persist_cases [OF assms(1)]) blast
  then obtain r' where r': "find_run rid d' = Some r'" "run_attempt r' = a" using r unfolding moves_def by blast
  have "db_events d' = db_events (append_event now rid (runner_event_type e) (runner_payload r e) d)"
    by (rule persist_cases [OF assms(1)]) (use r in auto)
  then obtain x where x: "db_events d' = db_events d @ [x]" "ev_run x = rid" "ev_type x = runner_event_type e"
    "ev_payload x = runner_payload r e"
    using append_event_added [of now rid "runner_event_type e" "runner_payload r e" d] by metis
  have "of_attempt rid a x"
    using x r(2) runner_event_type_prefix [of e] by (simp add: of_attempt_def is_runner_event_def runner_payload_get)
  moreover have "(ev_type x, ev_payload x) = stored_as a e"
    using r(2) by (simp add: x stored_as_def runner_event_type_def runner_payload_def)
  ultimately have "attempt_events rid d' = Some (lg @ [stored_as a e])"
    using r' by (simp add: attempt_events_def x(1) lg)
  moreover have "re_sequence e = int (length lg) + 1"
    using persist_runner_log [OF assms(2,1) r(1)] r(2) by (simp add: runner_log_def lg)
  ultimately show ?thesis
    using persist_runner_log [OF assms(2,1) r(1)] r' by (simp add: attempt_of_def)
qed

text \<open>One line: it is accepted and stored, or nothing is stored and the protocol may be one ahead.\<close>

lemma serve_line_follows:
  assumes "serve_line parse rid now line s = (s', err)" and "follows_log rid a lg 0 s"
  shows "(\<exists>e. err = None \<and> parse line = Inr e \<and> re_sequence e = int (length lg) + 1
        \<and> follows_log rid a (lg @ [stored_as a e]) 0 s')
    \<or> (err \<noteq> None \<and> (follows_log rid a lg 0 s' \<or> follows_log rid a lg 1 s'))"
proof (cases "bind_result (require (int (length line) \<le> 1048576) (ValueError ''runner protocol line exceeds one MiB''))
    (\<lambda>_. protocol_line parse line (sv_protocol s))")
  case (Inl x)
  then show ?thesis using assms by (auto simp: serve_line_def)
next
  case (Inr ep)
  obtain e p where ep: "ep = (e, p)" by (cases ep)
  have line: "protocol_line parse line (sv_protocol s) = Inr (e, p)" using Inr by (auto simp: ep elim!: bind_resultE)
  have e: "parse line = Inr e" "re_sequence e = pt_expected (sv_protocol s)" "pt_expected p = pt_expected (sv_protocol s) + 1"
    using line unfolding protocol_line_def by (auto elim!: bind_resultE simp: protocol_consume_Inr)
  note s = assms(2) [unfolded follows_log_def]
  show ?thesis
  proof (cases "persist_runner_event now rid e (sv_db s)")
    case (Inl x)
    then have "err = Some x \<and> s' = s\<lparr>sv_protocol := p\<rparr>" using assms(1) Inr by (simp add: serve_line_def ep)
    then show ?thesis using s e(3) by (simp add: follows_log_def)
  next
    case (Inr du)
    then obtain d u where d: "persist_runner_event now rid e (sv_db s) = Inr (d, u)" by (cases du) simp
    then have "err = None \<and> s' = s\<lparr>sv_db := d, sv_protocol := p\<rparr>"
      using assms(1) \<open>bind_result _ _ = Inr ep\<close> by (simp add: serve_line_def ep)
    then show ?thesis using persist_follows [OF d, of a lg] s e by (simp add: follows_log_def)
  qed
qed

lemma serve_heartbeat_keeps:
  assumes "serve_heartbeat wid rid t s = Inr s'"
  shows "db_runs (sv_db s') = db_runs (sv_db s) \<and> db_events (sv_db s') = db_events (sv_db s)
    \<and> sv_protocol s' = sv_protocol s"
  using assms by (auto simp: serve_heartbeat_def heartbeat_def Let_def split: if_split_asm elim!: bind_resultE)

lemma watch_cancel_keeps [simp]:
  "sv_db (watch_cancel rid s) = sv_db s" "sv_protocol (watch_cancel rid s) = sv_protocol s"
  by (simp_all add: watch_cancel_def)

lemma follows_log_cong:
  "db_runs (sv_db s') = db_runs (sv_db s) \<Longrightarrow> db_events (sv_db s') = db_events (sv_db s) \<Longrightarrow> sv_protocol s' = sv_protocol s
    \<Longrightarrow> follows_log rid a lg k s' = follows_log rid a lg k s"
  using attempt_cong [of "sv_db s'" "sv_db s" rid] runner_logs_ok_cong [of "sv_db s'" "sv_db s"]
  by (simp add: follows_log_def)

text \<open>
  \<open>accepted parse a lines lg es lg'\<close>: \<open>es\<close> are the events of the first lines, numbered on from the
  log, and the log has grown by exactly these.
\<close>

definition accepted ::
    "(string \<Rightarrow> runner_event result) \<Rightarrow> int \<Rightarrow> string list \<Rightarrow> (string \<times> dict) list \<Rightarrow> runner_event list \<Rightarrow> (string \<times> dict) list \<Rightarrow> bool" where
  "accepted parse a lines lg es lg' \<longleftrightarrow> length es \<le> length lines \<and> map parse (take (length es) lines) = map Inr es
     \<and> map re_sequence es = map (\<lambda>i. int (length lg) + 1 + int i) [0..<length es]
     \<and> lg' = lg @ map (stored_as a) es"

lemma accepted_Nil: "accepted parse a lines lg [] lg"
  by (simp add: accepted_def)

lemma accepted_Cons:
  assumes "parse l = Inr e" and "re_sequence e = int (length lg) + 1"
    and "accepted parse a lines (lg @ [stored_as a e]) es lg'"
  shows "accepted parse a (l # lines) lg (e # es) lg'"
  using assms count_Cons [of "int (length lg) + 1" "length es"]
  by (simp add: accepted_def add.commute add.left_commute del: upt_Suc)

definition tick_lines :: "tick list \<Rightarrow> string list" where
  "tick_lines ts = List.map_filter tk_line ts"

lemma tick_lines_simps [simp]:
  "tick_lines [] = []"
  "tick_lines (t # ts) = (case tk_line t of None \<Rightarrow> tick_lines ts | Some l \<Rightarrow> l # tick_lines ts)"
  by (simp_all add: tick_lines_def map_filter_simps split: option.split)

lemma serve_tick_follows:
  assumes "serve_tick parse wid rid t s = (s', err)" and "follows_log rid a lg 0 s" and "quiet rid (tk_others t)"
  shows "\<exists>es lg' k. accepted parse a (tick_lines [t]) lg es lg' \<and> follows_log rid a lg' k s' \<and> k \<le> 1
    \<and> (err = None \<longrightarrow> k = 0 \<and> length es = length (tick_lines [t]))"
proof -
  let ?s0 = "s\<lparr>sv_db := tk_others t (sv_db s)\<rparr>"
  have s0: "follows_log rid a lg 0 ?s0"
    using assms(2,3) by (auto simp: follows_log_def quiet_def)
  obtain s1 err1 where take: "take_line parse rid t ?s0 = (s1, err1)" by force
  obtain es lg1 k where one: "accepted parse a (tick_lines [t]) lg es lg1" "follows_log rid a lg1 k s1" "k \<le> 1"
    "err1 = None \<longrightarrow> k = 0 \<and> length es = length (tick_lines [t])"
  proof (cases "tk_line t")
    case None
    then have "s1 = ?s0" "err1 = None" using take by (simp_all add: take_line_def)
    then show ?thesis using that [of "[]" lg 0] accepted_Nil s0 None by simp
  next
    case (Some line)
    then have "serve_line parse rid (tk_now t) line ?s0 = (s1, err1)" using take by (simp add: take_line_def)
    from serve_line_follows [OF this s0] consider
        (stored) e where "err1 = None" "parse line = Inr e" "re_sequence e = int (length lg) + 1"
          "follows_log rid a (lg @ [stored_as a e]) 0 s1"
      | (failed) k where "err1 \<noteq> None" "follows_log rid a lg k s1" "k \<le> 1" by fastforce
    then show ?thesis
    proof cases
      case stored
      then have "accepted parse a [line] lg [e] (lg @ [stored_as a e])" by (simp add: accepted_def)
      then show ?thesis using that [of "[e]" "lg @ [stored_as a e]" 0] stored Some by simp
    next
      case failed
      then show ?thesis by (intro that [OF accepted_Nil failed(2,3)]) blast
    qed
  qed
  show ?thesis
  proof (cases err1)
    case (Some e)
    then have "s' = s1" "err = Some e" using assms(1) take by (simp_all add: serve_tick_def)
    then show ?thesis using one by auto
  next
    case None
    show ?thesis
    proof (cases "serve_heartbeat wid rid t s1")
      case (Inl e)
      then have "s' = s1" "err = Some e" using assms(1) take None by (simp_all add: serve_tick_def)
      then show ?thesis using one by auto
    next
      case (Inr s2)
      then have s': "s' = watch_cancel rid s2" using assms(1) take None by (simp add: serve_tick_def)
      have "follows_log rid a lg1 k s'"
        using one(2) serve_heartbeat_keeps [OF Inr] by (subst follows_log_cong [of s' s1]) (simp_all add: s')
      then show ?thesis using one None by blast
    qed
  qed
qed

lemma accepted_append:
  assumes "accepted parse a l1 lg es1 lg1" and "length es1 = length l1" and "accepted parse a l2 lg1 es2 lg2"
  shows "accepted parse a (l1 @ l2) lg (es1 @ es2) lg2"
proof -
  have len: "length lg1 = length lg + length es1" using assms(1) by (simp add: accepted_def)
  have "map (\<lambda>i. int (length lg) + 1 + int i) [length es1..<length es2 + length es1]
      = map (\<lambda>i. int (length lg) + 1 + int (i + length es1)) [0..<length es2]"
    unfolding map_add_upt [symmetric] map_map comp_def ..
  then have "map (\<lambda>i. int (length lg) + 1 + int i) [0..<length es1 + length es2]
      = map (\<lambda>i. int (length lg) + 1 + int i) [0..<length es1] @ map (\<lambda>i. int (length lg1) + 1 + int i) [0..<length es2]"
    using upt_add_eq_append [of 0 "length es1" "length es2"] len
    by (simp only: map_append add.commute [of "length es2"]) (simp add: add_ac)
  then show ?thesis using assms by (simp add: accepted_def)
qed

lemma accepted_prefix: "accepted parse a l1 lg es lg1 \<Longrightarrow> accepted parse a (l1 @ l2) lg es lg1"
  by (simp add: accepted_def)

text \<open>
  C3. Whatever arrives on the runner's pipe and whatever other transactions do in between, as long as
  they leave the run, its attempt and its runner events alone, serving a run appends to the log: the
  log of the attempt grows by the events of the first lines that arrived, each stored once, in the
  order of the lines, with its type, its name and its whole payload, and numbered on without a gap.
  If the loop ends without a failure these are all the lines, and the worker's protocol expects the
  number after the log's last; if it fails the protocol is at most one event ahead of the log.
\<close>

theorem serving_refines_log:
  assumes "serve parse wid rid ticks s = (s', outcome)" and "follows_log rid a lg 0 s"
    and "list_all (\<lambda>t. quiet rid (tk_others t)) ticks"
  shows "\<exists>es lg' k. length es \<le> length (tick_lines ticks) \<and> map parse (take (length es) (tick_lines ticks)) = map Inr es
    \<and> map re_sequence es = map (\<lambda>i. int (length lg) + 1 + int i) [0..<length es]
    \<and> attempt_events rid (sv_db s') = Some (lg @ map (stored_as a) es)
    \<and> pt_expected (sv_protocol s') = int (length lg + length es + k) + 1 \<and> k \<le> 1
    \<and> (outcome = Ended \<longrightarrow> k = 0 \<and> length es = length (tick_lines ticks))"
proof -
  have "\<exists>es lg' k. accepted parse a (tick_lines ticks) lg es lg' \<and> follows_log rid a lg' k s' \<and> k \<le> 1
    \<and> (outcome = Ended \<longrightarrow> k = 0 \<and> length es = length (tick_lines ticks))"
    using assms
  proof (induction parse wid rid ticks s arbitrary: lg rule: serve.induct)
    case (1 parse wid rid s)
    then show ?case using accepted_Nil by fastforce
  next
    case (2 parse wid rid t ts s)
    obtain s1 err where tick: "serve_tick parse wid rid t s = (s1, err)" by force
    have quiet: "quiet rid (tk_others t)" "list_all (\<lambda>t. quiet rid (tk_others t)) ts" using "2.prems"(3) by simp_all
    obtain es lg1 k where one: "accepted parse a (tick_lines [t]) lg es lg1" "follows_log rid a lg1 k s1" "k \<le> 1"
      "err = None \<longrightarrow> k = 0 \<and> length es = length (tick_lines [t])"
      using serve_tick_follows [OF tick "2.prems"(2) quiet(1)] by blast
    have lines: "tick_lines (t # ts) = tick_lines [t] @ tick_lines ts" by (simp split: option.split)
    show ?case
    proof (cases err)
      case None
      then have "serve parse wid rid ts s1 = (s', outcome)" and "follows_log rid a lg1 0 s1"
        using "2.prems"(1) tick one by simp_all
      from "2.IH" [OF tick [symmetric] None this quiet(2)]
      obtain es2 lg2 k2 where two: "accepted parse a (tick_lines ts) lg1 es2 lg2" "follows_log rid a lg2 k2 s'" "k2 \<le> 1"
        "outcome = Ended \<longrightarrow> k2 = 0 \<and> length es2 = length (tick_lines ts)" by blast
      then show ?thesis
        using accepted_append [OF one(1) _ two(1)] one(4) None unfolding lines by (metis length_append)
    next
      case (Some e)
      then have "s' = s1 \<and> outcome \<noteq> Ended" using "2.prems"(1) tick by (cases e) auto
      then show ?thesis using one accepted_prefix unfolding lines by blast
    qed
  qed
  then show ?thesis unfolding accepted_def follows_log_def by fastforce
qed

definition demo_event :: runner_event where
  "demo_event = \<lparr>re_sequence = 1, re_type = ''stage'', re_name = ''running_analysts'', re_payload = []\<rparr>"

definition demo_tick :: tick where
  "demo_tick = \<lparr>tk_others = (\<lambda>d. d), tk_line = Some ''line'', tk_clock = 0, tk_now = 0\<rparr>"

definition demo_serving :: serving where
  "demo_serving = \<lparr>sv_db = leased_db STARTING, sv_protocol = new_protocol, sv_last_heartbeat = 0,
     sv_cancelling = False\<rparr>"

lemma demo_serving_follows: "follows_log 4 1 [] 0 demo_serving"
proof -
  have "attempt_of 4 (sv_db demo_serving) = Some 1" "attempt_events 4 (sv_db demo_serving) = Some []" by code_simp+
  moreover have "events_numbered (db_events (sv_db demo_serving))"
    by (simp add: demo_serving_def leased_db_def pinned_db_def demo_db_def empty_db_def events_numbered_def)
  ultimately show ?thesis
    by (simp add: follows_log_def runner_logs_ok_def runner_log_def demo_serving_def leased_db_def pinned_db_def
        demo_db_def empty_db_def new_protocol_def)
qed

lemma serving_refines_log_witness:
  "\<exists>s'. serve (\<lambda>_. Inr demo_event) 7 4 [demo_tick] demo_serving = (s', Ended)
     \<and> attempt_events 4 (sv_db s') = Some [(''runner.stage.running_analysts'', [(''runner_sequence'', JInt 1), (''runner_attempt'', JInt 1)])]"
proof -
  obtain s' outcome where run: "serve (\<lambda>_. Inr demo_event) 7 4 [demo_tick] demo_serving = (s', outcome)"
    by (meson surj_pair)
  have "(case serve (\<lambda>_. Inr demo_event) 7 4 [demo_tick] demo_serving of (_, Ended) \<Rightarrow> True | _ \<Rightarrow> False)"
    by code_simp
  then have ended: "outcome = Ended" unfolding run by (cases outcome) auto
  have "list_all (\<lambda>t. quiet 4 (tk_others t)) [demo_tick]" by (simp add: quiet_def demo_tick_def)
  from serving_refines_log [OF run demo_serving_follows this] ended
  have "attempt_events 4 (sv_db s') = Some [stored_as 1 demo_event]" by (auto simp: demo_tick_def)
  moreover have "stored_as 1 demo_event = (''runner.stage.running_analysts'', [(''runner_sequence'', JInt 1), (''runner_attempt'', JInt 1)])"
    by code_simp
  ultimately show ?thesis using run ended by auto
qed

section \<open>The stage tracker\<close>

lemma fold_best: "fold (\<lambda>a best. if better_candidate a best then a else best) cs b \<in> set (b # cs)"
proof (induction cs arbitrary: b)
  case (Cons c cs)
  show ?case using Cons.IH [of c] Cons.IH [of b] by auto
qed simp

lemma tracker_consume_rank:
  assumes "tracker_consume sha chunk t = (t', u)"
  shows "case u of None \<Rightarrow> t' = t
     | Some x \<Rightarrow> tr_rank t \<le> stage_rank (su_status x) \<and> tr_rank t' = stage_rank (su_status x)
         \<and> su_transitioned x = (tr_rank t < stage_rank (su_status x))"
proof (cases "stage_candidates sha chunk t")
  case Nil
  then show ?thesis using assms by (simp add: tracker_consume_def)
next
  case (Cons c cs)
  let ?b = "fold (\<lambda>a best. if better_candidate a best then a else best) cs c"
  have all: "\<forall>x \<in> set (stage_candidates sha chunk t). fst x = stage_rank (fst (snd (snd (snd x)))) \<and> tr_rank t \<le> fst x"
    by (auto simp: stage_candidates_def split: if_split_asm option.split_asm)
  have "fst ?b = stage_rank (fst (snd (snd (snd ?b)))) \<and> tr_rank t \<le> fst ?b"
    using all fold_best [of cs c] unfolding Cons by blast
  moreover obtain rank i key status fp where b: "?b = (rank, i, key, status, fp)" by (cases ?b)
  ultimately have "rank = stage_rank status" "tr_rank t \<le> rank" by simp_all
  then show ?thesis using assms Cons b by (auto simp: tracker_consume_def)
qed

text \<open>
  The updates follow each other without going back from rank \<open>r\<close>, and each is marked as a
  transition exactly when it goes beyond its predecessor.
\<close>

fun follow_on :: "int \<Rightarrow> stage_update list \<Rightarrow> bool" where
  "follow_on r [] = True"
| "follow_on r (u # us) = (r \<le> stage_rank (su_status u)
     \<and> su_transitioned u = (r < stage_rank (su_status u)) \<and> follow_on (stage_rank (su_status u)) us)"

lemma track_follow_on: "follow_on (tr_rank t) (track sha chunks t)"
proof (induction chunks arbitrary: t)
  case (Cons chunk chunks)
  obtain t' u where step: "tracker_consume sha chunk t = (t', u)" by (cases "tracker_consume sha chunk t")
  show ?case
    using tracker_consume_rank [OF step] Cons.IH [of t'] step by (cases u) auto
qed simp

text \<open>
  The stages the tracker reports never go back, whatever chunks the graph streams, and
  an update is marked as a transition exactly when its stage is beyond every earlier one; so
  a run has at most as many transitions as there are stages, and the updates of a single
  chunk report the furthest stage it shows.
\<close>

theorem tracker_monotone:
  "follow_on (- 1) (track sha chunks new_tracker)
   \<and> length (filter su_transitioned (track sha chunks new_tracker)) \<le> 8"
proof -
  have bound: "stage_rank s \<le> 7" for s
  proof -
    have "\<forall>x \<in> set (zip (map snd STAGE_KEYS) [0..<length STAGE_KEYS]). snd x \<le> 7" by code_simp
    then have "map_of (rev (zip (map snd STAGE_KEYS) [0..<length STAGE_KEYS])) s = Some n \<Longrightarrow> n \<le> 7" for n
      using map_of_SomeD [of "rev (zip (map snd STAGE_KEYS) [0..<length STAGE_KEYS])" s n] by force
    then show ?thesis by (auto simp: stage_rank_def split: option.split)
  qed
  have "int (length (filter su_transitioned us)) \<le> 7 - r" if "follow_on r us" "r \<le> 7" for r us
    using that
  proof (induction r us rule: follow_on.induct)
    case (2 r u us)
    then show ?case using bound [of "su_status u"] by auto
  qed simp
  from this [of "- 1"] track_follow_on [of new_tracker sha chunks] show ?thesis
    by (simp add: new_tracker_def)
qed

section \<open>From the pinned snapshot to the runner\<close>

lemma map_result_strings: "map_result (\<lambda>x. case x of JStr s \<Rightarrow> Inr s | _ \<Rightarrow> Inl e) (map JStr xs) = Inr xs"
  by (induction xs) simp_all

lemma string_map_str_dict: "string_map (str_dict m) = Inr m"
proof -
  have "map_result (\<lambda>(k, v). case v of JStr s \<Rightarrow> Inr (k, s) | _ \<Rightarrow> Inl (ValueError ''str''))
      (map (\<lambda>(k, v). (k, JStr v)) m) = Inr m"
    by (induction m) auto
  then show ?thesis by (simp add: string_map_def str_dict_def)
qed

definition route_ok :: "model_route \<Rightarrow> bool" where
  "route_ok r \<longleftrightarrow> 1 \<le> length (mrt_model r) \<and> length (mrt_model r) \<le> 128
     \<and> 1 \<le> length (mrt_reasoning_effort r) \<and> length (mrt_reasoning_effort r) \<le> 32"

text \<open>The lengths the contracts of the platform enforce on what admission combines.\<close>

definition config_ok :: "gateway_snapshot \<Rightarrow> routing_policy \<Rightarrow> claimed_run \<Rightarrow> string list \<Rightarrow> string \<Rightarrow> bool" where
  "config_ok gw routing c analysts language \<longleftrightarrow>
     route_ok \<lparr>mrt_model = gw_model gw, mrt_reasoning_effort = gw_reasoning_effort gw\<rparr>
     \<and> route_ok (rp_fast routing) \<and> route_ok (rp_slow routing)
     \<and> analysts \<noteq> [] \<and> 1 \<le> length language \<and> length language \<le> 64
     \<and> 1 \<le> length (cr_ticker c) \<and> length (cr_ticker c) \<le> 32
     \<and> 1 \<le> length (cr_asset_type c) \<and> length (cr_asset_type c) \<le> 32"

lemma route_of_ok: "route_ok r \<Longrightarrow> route_of (JStr (mrt_model r), JStr (mrt_reasoning_effort r))
    = Inr (mrt_model r, mrt_reasoning_effort r)"
  by (simp add: route_ok_def route_of_def bounded_str_def)

text \<open>The retry policy of the price vendor that the snapshot carries.\<close>

definition alpha_ok :: "input_env \<Rightarrow> dict \<Rightarrow> int \<times> int \<times> rat \<times> rat \<Rightarrow> bool" where
  "alpha_ok env alpha v \<longleftrightarrow> (case v of (rpm, attempts, retry_base, retry_max) \<Rightarrow>
     bounded_int 1 10000 (dict_default ''requests_per_minute'' (JInt 75) alpha) = Inr rpm
     \<and> bounded_int 1 20 (dict_default ''retry_attempts'' (JInt 6) alpha) = Inr attempts
     \<and> bounded_number (ie_number env) 300 (dict_default ''retry_base_seconds'' (JInt 5) alpha) = Inr retry_base
     \<and> bounded_number (ie_number env) 900 (dict_default ''retry_max_seconds'' (JInt 60) alpha) = Inr retry_max
     \<and> retry_base \<le> retry_max)"

lemma read_built_snapshot:
  assumes "build_run_snapshot aenv config gw m ms routing = Inr (content, hash)"
    and "dict_get ''depth'' config = Some (JStr depth)"
    and "dict_get ''analysts'' config = Some (strings_json analysts)"
    and "dict_get ''language'' config = Some (JStr language)"
    and "dict_or_empty ''data_manifest'' config = Inr manifest"
    and "dict_or_empty ''alpha_vantage'' (em_vendor_policies m) = Inr alpha"
    and "ie_memory env (memory_dump (env_uuid aenv) (env_show aenv) ms) = Inr ms"
  shows "\<exists>debate risk. depth_rounds depth = Inr (debate, risk) \<and> read_snapshot env sha show content
    = Inr \<lparr>raw_analysts = strings_json analysts, raw_rounds = (JInt debate, JInt risk),
        raw_language = JStr language, raw_codex = (JStr (gw_model gw), JStr (gw_reasoning_effort gw)),
        raw_fast = (JStr (mrt_model (rp_fast routing)), JStr (mrt_reasoning_effort (rp_fast routing))),
        raw_slow = (JStr (mrt_model (rp_slow routing)), JStr (mrt_reasoning_effort (rp_slow routing))),
        raw_vendors = (str_dict (em_data_vendors m), str_dict (em_tool_vendors m)),
        raw_manifest = manifest, raw_alpha = alpha, raw_memory = ms\<rparr>"
proof -
  have config: "config \<noteq> []" using assms(2) by auto
  obtain debate risk where rounds: "depth_rounds depth = Inr (debate, risk)"
    using assms(1,2) by (auto simp: build_run_snapshot_def elim!: bind_resultE)
  have content: "content = [(''request'', JObj config),
      (''resolved'', JObj [(''debate_rounds'', JInt debate), (''risk_rounds'', JInt risk),
         (''benchmark_ticker'', JStr (benchmark_ticker aenv config))]),
      (''gateway'', JObj [(''model'', JStr (gw_model gw)),
         (''reasoning_effort'', JStr (gw_reasoning_effort gw)),
         (''snapshot_id'', JStr (gw_snapshot_id gw)), (''routes'', routing_dict routing),
         (''routing_snapshot_id'', JStr (routing_snapshot_id (env_sha aenv) routing))]),
      (''source'', JObj [(''root_commit'', JStr (em_root_commit m)),
         (''tradingagents_commit'', JStr (em_tradingagents_commit m))]),
      (''prompt_schema_version'', JStr (em_prompt_schema_version m)),
      (''data_vendors'', str_dict (em_data_vendors m)),
      (''tool_vendors'', str_dict (em_tool_vendors m)),
      (''vendor_policies'', JObj (em_vendor_policies m)),
      (''memory'', memory_dump (env_uuid aenv) (env_show aenv) ms)]"
    using assms(1,2) rounds by (auto simp: build_run_snapshot_def Let_def)
  have memory: "snapshot_memory env sha show content = Inr ms"
    using assms(7) by (simp add: content snapshot_memory_def memory_dump_def)
  have alpha: "alpha_policy content = Inr alpha"
  proof (cases "em_vendor_policies m")
    case Nil
    then show ?thesis using assms(6) by (simp add: content alpha_policy_def dict_or_empty_def json_truthy_def)
  next
    case (Cons p ps)
    then show ?thesis using assms(6) by (simp add: content alpha_policy_def dict_or_empty_def json_truthy_def as_dict_def)
  qed
  have route: "named_route k routes l = Inr [(''model'', JStr a), (''reasoning_effort'', JStr b)]"
    if "dict_get k routes = Some (JObj [(''model'', JStr a), (''reasoning_effort'', JStr b)])" for k routes l a b
    using that by (simp add: named_route_def json_truthy_def as_dict_def)
  show ?thesis
    using rounds assms(3-5) config
    by (intro exI conjI)
       (assumption, simp add: read_snapshot_def memory alpha,
        simp add: content dict_item_def item_of_def as_dict_def dict_or_empty_def json_truthy_def
          legacy_route_def routing_dict_def route_dict_def named_route_def route_items_def)
qed

text \<open>
  The runner executes the configuration that was pinned at admission: the input built
  from the snapshot of an admitted run has the rounds of the requested depth, the analysts and
  language of the request, the models the routing policy chose for the two routes, the vendor
  tables of the deployment and the very memory snapshot that admission selected.
\<close>

theorem config_handoff:
  assumes "build_run_snapshot aenv config gw m ms routing = Inr (cr_snapshot c, hash)"
    and "dict_get ''depth'' config = Some (JStr depth)"
    and "dict_get ''analysts'' config = Some (strings_json analysts)"
    and "dict_get ''language'' config = Some (JStr language)"
    and "dict_or_empty ''data_manifest'' config = Inr manifest"
    and "optional_snapshot_id manifest = Inr sid"
    and "dict_or_empty ''alpha_vantage'' (em_vendor_policies m) = Inr alpha"
    and "alpha_ok env alpha (rpm, attempts, retry_base, retry_max)"
    and "config_ok gw routing c analysts language"
    and "ie_memory env (memory_dump (env_uuid aenv) (env_show aenv) ms) = Inr ms"
  shows "\<exists>input. build_runner_input env sha show c = Inr input
    \<and> depth_rounds depth = Inr (ri_debate_rounds input, ri_risk_rounds input)
    \<and> ri_analysts_in input = analysts \<and> ri_language input = language
    \<and> ri_codex input = (gw_model gw, gw_reasoning_effort gw)
    \<and> ri_fast input = (mrt_model (rp_fast routing), mrt_reasoning_effort (rp_fast routing))
    \<and> ri_slow input = (mrt_model (rp_slow routing), mrt_reasoning_effort (rp_slow routing))
    \<and> ri_data_vendors input = em_data_vendors m \<and> ri_tool_vendors input = em_tool_vendors m
    \<and> ri_memory_snapshot input = ms \<and> ri_manifest_snapshot_id input = sid
    \<and> ri_run input = cr_run c \<and> ri_ticker input = cr_ticker c"
proof -
  obtain debate risk where rounds: "depth_rounds depth = Inr (debate, risk)"
    and raw: "read_snapshot env sha show (cr_snapshot c) = Inr \<lparr>raw_analysts = strings_json analysts,
        raw_rounds = (JInt debate, JInt risk), raw_language = JStr language,
        raw_codex = (JStr (gw_model gw), JStr (gw_reasoning_effort gw)),
        raw_fast = (JStr (mrt_model (rp_fast routing)), JStr (mrt_reasoning_effort (rp_fast routing))),
        raw_slow = (JStr (mrt_model (rp_slow routing)), JStr (mrt_reasoning_effort (rp_slow routing))),
        raw_vendors = (str_dict (em_data_vendors m), str_dict (em_tool_vendors m)),
        raw_manifest = manifest, raw_alpha = alpha, raw_memory = ms\<rparr>"
    using read_built_snapshot [OF assms(1-5,7,10)] by blast
  have range: "1 \<le> debate \<and> debate \<le> 5 \<and> 1 \<le> risk \<and> risk \<le> 5"
    using rounds by (auto simp: depth_rounds_def split: if_split_asm)
  have tuple: "string_tuple (strings_json analysts) = Inr analysts"
    using assms(9) by (simp add: string_tuple_def strings_json_def map_result_strings config_ok_def)
  have codex: "route_of (JStr (gw_model gw), JStr (gw_reasoning_effort gw)) = Inr (gw_model gw, gw_reasoning_effort gw)"
    using assms(9) route_of_ok [of "\<lparr>mrt_model = gw_model gw, mrt_reasoning_effort = gw_reasoning_effort gw\<rparr>"]
    by (simp add: config_ok_def)
  show ?thesis
    using assms(6,8,9) rounds range
    by (simp add: build_runner_input_def raw validate_input_def tuple codex route_of_ok string_map_str_dict
        config_ok_def alpha_ok_def bounded_str_def bounded_int_def)
qed

definition handoff_config :: dict where
  "handoff_config = [(''analysts'', strings_json [''market'']), (''depth'', JStr ''deep''), (''language'', JStr ''en'')]"

definition handoff_memory :: memory_snapshot where
  "handoff_memory = \<lparr>ms_mode = INDEPENDENT, ms_entries = [], ms_snapshot_sha256 = ''m''\<rparr>"

definition handoff_env :: input_env where
  "handoff_env = \<lparr>ie_job_dir = [''jobs''], ie_uuid_text = (\<lambda>_. ''u''),
     ie_number = (\<lambda>j. case j of JInt i \<Rightarrow> Inr (rat_of_int i) | _ \<Rightarrow> Inl (ValueError ''number'')),
     ie_memory = (\<lambda>_. Inr handoff_memory)\<rparr>"

lemma config_handoff_witness:
  "\<exists>content hash input. build_run_snapshot demo_env handoff_config demo_gateway demo_metadata handoff_memory
       default_routing = Inr (content, hash)
     \<and> build_runner_input handoff_env (\<lambda>_. ''h'') (\<lambda>_. ''0'')
          \<lparr>cr_run = 4, cr_ticker = ''SPY'', cr_asset_type = ''fund'', cr_analysis_date = 739000, cr_snapshot = content\<rparr>
        = Inr input
     \<and> ri_debate_rounds input = 3 \<and> ri_memory_snapshot input = handoff_memory"
proof -
  have depth: "dict_get ''depth'' handoff_config = Some (JStr ''deep'')" by code_simp
  have rounds: "depth_rounds ''deep'' = Inr (3, 3)" by code_simp
  obtain content hash where built: "build_run_snapshot demo_env handoff_config demo_gateway demo_metadata
      handoff_memory default_routing = Inr (content, hash)"
    using depth rounds by (simp add: build_run_snapshot_def Let_def)
  let ?c = "\<lparr>cr_run = 4, cr_ticker = ''SPY'', cr_asset_type = ''fund'', cr_analysis_date = 739000,
    cr_snapshot = content\<rparr>"
  have built': "build_run_snapshot demo_env handoff_config demo_gateway demo_metadata handoff_memory
      default_routing = Inr (cr_snapshot ?c, hash)" using built by simp
  have "dict_get ''analysts'' handoff_config = Some (strings_json [''market''])"
    and "dict_get ''language'' handoff_config = Some (JStr ''en'')"
    and "dict_or_empty ''data_manifest'' handoff_config = Inr []"
    by (simp_all add: handoff_config_def dict_or_empty_def)
  moreover have "optional_snapshot_id [] = Inr None" by (simp add: optional_snapshot_id_def)
  moreover have "dict_or_empty ''alpha_vantage'' (em_vendor_policies demo_metadata) = Inr []"
    by (simp add: dict_or_empty_def demo_metadata_def)
  moreover have "alpha_ok handoff_env [] (75, 6, 5, 60)"
    by (simp add: alpha_ok_def bounded_int_def bounded_number_def dict_default_def handoff_env_def)
  moreover have "config_ok demo_gateway default_routing ?c [''market''] ''en''"
    by (simp add: config_ok_def route_ok_def demo_gateway_def default_routing_def)
  moreover have "ie_memory handoff_env (memory_dump (env_uuid demo_env) (env_show demo_env) handoff_memory)
      = Inr handoff_memory"
    by (simp add: handoff_env_def)
  ultimately show ?thesis
    using config_handoff [OF built' depth] built rounds by fastforce
qed

section \<open>The end of a run\<close>

lemma persist_health_holds:
  assumes "persist_dependency_health parse split_lines file d = Inr (d', n)" shows "holds d d'"
proof -
  have "holds x (fold record_health es x)" for es x
    by (induction es arbitrary: x) (auto simp: holds_def record_health_def)
  then show ?thesis using assms by (auto simp: persist_dependency_health_def split: option.splits elim!: bind_resultE)
qed

lemma store_diagnostic_holds:
  assumes "store_diagnostic env rid stderr fs d = Inr (fs', d')" shows "holds d d'"
  using assms store_one_holds by (auto simp: store_diagnostic_def split: option.splits elim!: bind_resultE)

lemma holds_status: "holds d d' \<Longrightarrow> current_status rid d' = current_status rid d"
  by (simp add: holds_def current_status_def find_run_def)

lemma status_append: "db_runs d' = db_runs d @ rs \<Longrightarrow> current_status rid d = Some s \<Longrightarrow> current_status rid d' = Some s"
  by (auto simp: current_status_def find_run_def find_row_append split: option.splits)

lemma holds_sample [simp]: "holds d (sample_gateway now b c d)"
  by (simp add: holds_def sample_gateway_def)

text \<open>
  C21. Settling a served run ends it: the run is cancelled if the cancellation was noticed,
  succeeded if there was no failure, and otherwise failed, or cancelled when the cancellation
  came after the worker looked; its lease is gone, and no other run's status has changed.
\<close>

theorem settlement_ends_run:
  assumes "settle_run env parse now rid requested failure w stderr max_retries fs d = Inr (fs', d')"
  shows "current_status rid d' = Some (if requested then CANCELLED
      else case failure of None \<Rightarrow> SUCCEEDED
        | Some _ \<Rightarrow> if is_cancel_requested rid d then CANCELLED else FAILED)
    \<and> find_lease rid d' = None
    \<and> (j \<noteq> rid \<longrightarrow> current_status j d \<noteq> None \<longrightarrow> current_status j d' = current_status j d)"
proof -
  obtain d0 n where health: "persist_dependency_health parse (we_lines env) (wd_dependency_health w) d = Inr (d0, n)"
    and rest: "(if requested then bind_result (finalize_cancelled now rid d0) (\<lambda>d1. Inr (fs, d1))
     else case failure of
       None \<Rightarrow> bind_result (finalize_success env now rid w fs d0) (\<lambda>(fs1, d1).
                 Inr (fs1, sample_gateway now True None d1))
     | Some (code, summary) \<Rightarrow>
         bind_result (store_diagnostic env rid stderr fs d0) (\<lambda>(fs1, d1).
         bind_result (finalize_failure now rid code (if summary = [] then code else summary) d1) (\<lambda>d2.
         bind_result (schedule_automatic_retry (we_uuid env) now rid code max_retries d2) (\<lambda>(d3, _).
         Inr (fs1, if code \<in> {''gateway_overload'', ''gateway_unavailable''}
           then sample_gateway now False (Some code) d3 else d3))))) = Inr (fs', d')"
    using assms unfolding settle_run_def by (elim bind_resultE) auto
  have h0: "holds d d0" using health by (rule persist_health_holds)
  have no_lease: "find_lease rid x = None" if "db_leases x = delete_where (\<lambda>l. ls_run l = rid) ls" for x ls
    using that by (auto simp: find_lease_def find_row_None)
  have other: "current_status j x = current_status j d"
    if m: "moves (\<lambda>j x. j = rid) d y" and some: "current_status j d \<noteq> None" and ne: "j \<noteq> rid"
      and runs: "db_runs x = db_runs y @ rs" for x y rs
  proof -
    obtain r where r: "find_run j d = Some r" using some by (auto simp: current_status_def)
    then have "find_run j y = Some r" using m ne unfolding moves_def by blast
    then show ?thesis using runs r by (simp add: current_status_def find_run_def find_row_append)
  qed
  have left: "moves (\<lambda>j x. j = rid) a y \<Longrightarrow> db_runs a = db_runs d \<Longrightarrow> moves (\<lambda>j x. j = rid) d y" for a y
    by (rule moves_same_left)
  show ?thesis
  proof (cases requested)
    case True
    then have "finalize_cancelled now rid d0 = Inr d'" using rest by (auto elim!: bind_resultE)
    from finalize_cancelled_facts [OF this] show ?thesis
      using True no_lease left [of d0 d'] other [of d' d' "[]"] h0 by (auto simp: holds_def)
  next
    case False
    show ?thesis
    proof (cases failure)
      case None
      then obtain fs1 d1 where fin: "finalize_success env now rid w fs d0 = Inr (fs1, d1)"
        and d': "d' = sample_gateway now True None d1"
        using rest False by (auto elim!: bind_resultE)
      have runs: "db_runs d' = db_runs d1" "db_leases d' = db_leases d1" by (simp_all add: d' sample_gateway_def)
      have "current_status rid d' = Some SUCCEEDED"
        using finalize_success_facts [OF fin] by (simp add: current_status_def find_run_eq [OF runs(1)])
      then show ?thesis
        using finalize_success_facts [OF fin] runs False None no_lease [of d'] left [of d0 d1] other [of d1 d' "[]"] h0
        by (auto simp: holds_def)
    next
      case (Some cs)
      obtain code summary where cs: "cs = (code, summary)" by (cases cs)
      obtain fs1 d1 d2 d3 x where diag: "store_diagnostic env rid stderr fs d0 = Inr (fs1, d1)"
        and fin: "finalize_failure now rid code (if summary = [] then code else summary) d1 = Inr d2"
        and retry: "schedule_automatic_retry (we_uuid env) now rid code max_retries d2 = Inr (d3, x)"
        and d': "d' = (if code \<in> {''gateway_overload'', ''gateway_unavailable''}
           then sample_gateway now False (Some code) d3 else d3)"
        using rest False Some cs by (auto elim!: bind_resultE)
      have h1: "holds d d1" using holds_trans [OF h0 store_diagnostic_holds [OF diag]] .
      have d3: "db_runs d' = db_runs d3" "db_leases d' = db_leases d3" by (simp_all add: d' sample_gateway_def)
      then obtain rs where rs: "db_runs d' = db_runs d2 @ rs" and leases: "db_leases d' = db_leases d2"
        using schedule_automatic_retry_facts [OF retry] by auto
      obtain r where r: "find_run rid d1 = Some r"
        and st: "current_status rid d2 = Some (if run_status r \<in> cancelling_statuses then CANCELLED else FAILED)"
        using finalize_failure_facts [OF fin] by blast
      have "is_cancel_requested rid d \<longleftrightarrow> run_status r \<in> cancelling_statuses"
        using r h1 by (simp add: is_cancel_requested_def holds_def find_run_def)
      moreover have "current_status rid d' = current_status rid d2"
        using status_append [OF rs st] st by simp
      ultimately show ?thesis
        using finalize_failure_facts [OF fin] st leases False Some cs no_lease [of d'] left [of d1 d2]
          other [of d2 d' rs] rs h1
        by (auto simp: holds_def)
    qed
  qed
qed

definition empty_dir :: work_dir where
  "empty_dir = \<lparr>wd_final_state = None, wd_decision = None, wd_run_config = None, wd_memory_context = None,
     wd_evidence = None, wd_llm_interactions = None, wd_dependency_health = None, wd_integrity = None,
     wd_reports = []\<rparr>"

definition demo_work :: work_env where
  "demo_work = \<lparr>we_sha = (\<lambda>_. ''h''), we_uuid = (\<lambda>_. ''u''), we_now = 0, we_root = [], we_loads = (\<lambda>_. Inr []),
     we_decimal = (\<lambda>_. Inl InvalidOperation), we_time = (\<lambda>_. Inr 0),
     we_integrity = (\<lambda>_. Inl (ValueError ''integrity'')), we_lines = (\<lambda>_. []),
     we_calendar = \<lparr>xc_date_to_session = (\<lambda>_. Inr 0), xc_session_offset = (\<lambda>_ _. Inr 0),
       xc_session_close = (\<lambda>_. Inr 0)\<rparr>\<rparr>"

lemma settlement_ends_run_witness:
  "\<exists>fs' d'. settle_run demo_work (\<lambda>_. Inl (ValueError ''json'')) 9 4 False (Some (''runner_missing_result'', ''x''))
       empty_dir None 0 (\<lambda>_. None) (leased_db CANCEL_REQUESTED) = Inr (fs', d')
     \<and> current_status 4 d' = Some CANCELLED"
proof -
  let ?run = "settle_run demo_work (\<lambda>_. Inl (ValueError ''json'')) 9 4 False
    (Some (''runner_missing_result'', ''x'')) empty_dir None 0 (\<lambda>_. None) (leased_db CANCEL_REQUESTED)"
  have "(case ?run of Inr _ \<Rightarrow> True | Inl _ \<Rightarrow> False)" by code_simp
  then obtain fs' d' where run: "?run = Inr (fs', d')" by (auto split: sum.splits)
  have "is_cancel_requested 4 (leased_db CANCEL_REQUESTED)" by code_simp
  then show ?thesis using settlement_ends_run [OF run] run by simp
qed

section \<open>Redaction\<close>

lemma secret_match_needs_separator:
  assumes "secret_match s = Some (kept, rest)" shows "CHR '':'' \<in> set s \<or> CHR ''='' \<in> set s"
proof -
  obtain w where w: "secret_word s = Some w"
    using assms by (auto simp: secret_match_def split: option.splits)
  show ?thesis
  proof (cases "dropWhile is_space (drop (length w) s)")
    case Nil
    have False using assms by (simp only: secret_match_def split_spaces_def w Nil option.case prod.case list.case) simp
    then show ?thesis ..
  next
    case (Cons c r)
    have c: "c = CHR '':'' \<or> c = CHR ''=''"
      using assms by (simp only: secret_match_def split_spaces_def w Cons option.case prod.case list.case)
        (simp split: if_split_asm)
    have "c \<in> set (dropWhile is_space (drop (length w) s))" unfolding Cons by simp
    then have "c \<in> set s" by (meson in_set_dropD set_dropWhileD)
    then show ?thesis using c by blast
  qed
qed

lemma redact_no_separator: "CHR '':'' \<notin> set s \<Longrightarrow> CHR ''='' \<notin> set s \<Longrightarrow> redact s = s"
proof (induction s)
  case (Cons c s)
  then have "secret_match (c # s) = None"
    using secret_match_needs_separator [of "c # s"] by (cases "secret_match (c # s)") auto
  then show ?case using Cons by (subst redact.simps) simp
qed (subst redact.simps, simp add: secret_match_def secret_word_def SECRET_WORDS_def)

lemma redact_step: "secret_match s = Some (kept, rest) \<Longrightarrow> redact s = kept @ ''[REDACTED]'' @ redact rest"
  by (subst redact.simps) simp

lemma lower_char_other: "\<not> (65 \<le> (of_char c :: nat) \<and> (of_char c :: nat) \<le> 90) \<Longrightarrow>
    \<not> (192 \<le> (of_char c :: nat) \<and> (of_char c :: nat) \<le> 222) \<Longrightarrow> lower_char c = c"
  by (auto simp: lower_char_def Let_def)

lemma dropWhile_not_space: "list_all (\<lambda>c. \<not> is_space c) v \<Longrightarrow> dropWhile (\<lambda>x. \<not> is_space x) v = []"
  by (simp add: list_all_iff)

text \<open>
  What the redaction covers: the value of a keyword goes when it directly follows the
  separator. After \<open>Authorization:\<close> only the word \<open>Bearer\<close> is the value, so the token behind
  it stays in the stored diagnostic.
\<close>

theorem redaction_leaves_bearer_token:
  assumes "list_all (\<lambda>c. c \<noteq> CHR '':'' \<and> c \<noteq> CHR ''='' \<and> \<not> is_space c) t" and "t \<noteq> []"
  shows "redact (''api_key='' @ t) = ''api_key=[REDACTED]''
    \<and> redact (''Authorization: Bearer '' @ t) = ''Authorization: [REDACTED] '' @ t"
proof -
  obtain c cs where t: "t = c # cs" using assms(2) by (cases t) auto
  have c: "\<not> is_space c" "dropWhile (\<lambda>x. \<not> is_space x) cs = []"
    using assms(1) t dropWhile_not_space [of cs] by (auto simp: list_all_iff)
  have "secret_match (''api_key='' @ t) = Some (''api_key='', [])"
    using c by (simp add: t secret_match_def secret_word_def SECRET_WORDS_def split_spaces_def lower_char_other
        is_space_def)
  moreover have "lower_char (CHR ''A'') = CHR ''a''" by code_simp
  then have "secret_match (''Authorization: Bearer '' @ t) = Some (''Authorization: '', '' '' @ t)"
    by (simp add: secret_match_def secret_word_def SECRET_WORDS_def split_spaces_def lower_char_other is_space_def)
  moreover have "redact [] = []" by (rule redact_no_separator) simp_all
  moreover have "redact ('' '' @ t) = '' '' @ t"
    using assms(1) by (intro redact_no_separator) (auto simp: list_all_iff)
  ultimately show ?thesis by (simp add: redact_step)
qed

lemma redaction_leaves_bearer_token_witness:
  "redact ''Authorization: Bearer sk-live-42'' = ''Authorization: [REDACTED] sk-live-42''"
  using redaction_leaves_bearer_token [of "''sk-live-42''"] by (simp add: is_space_def)

end
