(* ===== verification/AssessFacts.thy ===== *)
theory AssessFacts
  imports Assess Leases
begin

text \<open>
  What the assessment service promises: submissions are idempotent in their key, cancellation
  and retry move runs only along allowed transitions, and a deletion removes a run with all
  its rows and nothing else.
\<close>

section \<open>Submission\<close>

lemma get_or_create_instrument_frame:
  assumes "get_or_create_instrument env now t c d = Inr (d', i)"
  shows "db_users d' = db_users d \<and> db_batches d' = db_batches d \<and> db_runs d' = db_runs d
    \<and> db_leases d' = db_leases d \<and> db_events d' = db_events d"
proof -
  let ?d0 = "snd (acquire_lock {} (ticker_lock t) True d)"
  show ?thesis
    using assms by (cases "find_ticker t ?d0") (auto simp: get_or_create_instrument_def Let_def elim!: bind_resultE)
qed

lemma open_run_users [simp]:
  "db_users (open_run now rid q p d) = db_users d" "db_batches (open_run now rid q p d) = db_batches d"
  by (simp_all add: open_run_def add_requirement_def split: option.split)

lemma create_request_and_run_frame:
  assumes "create_request_and_run now bid iid date config s q d = (d', r)"
  shows "db_users d' = db_users d \<and> db_batches d' = db_batches d \<and> db_leases d' = db_leases d
    \<and> db_runs d' = db_runs d @ [r] \<and> run_status r = s"
  using assms by (auto simp: create_request_and_run_def add_request_def add_run_def Let_def)

definition grown :: "db \<Rightarrow> db \<Rightarrow> bool" where
  "grown d d' \<longleftrightarrow> db_users d' = db_users d \<and> db_batches d' = db_batches d \<and> db_leases d' = db_leases d
     \<and> (\<exists>rs. db_runs d' = db_runs d @ rs \<and> list_all (\<lambda>r. run_status r \<in> {QUEUED, WAITING_FOR_DATA}) rs)"

lemma grown_refl [simp]: "grown d d"
  by (simp add: grown_def)

lemma grown_trans: "grown d d' \<Longrightarrow> grown d' d'' \<Longrightarrow> grown d d''"
  by (fastforce simp: grown_def)

lemma submit_item_grown:
  assumes "submit_item env now bid r d = Inr d'" shows "grown d d'"
proof -
  obtain d1 i q where one: "get_or_create_instrument env now (it_ticker (ri_item r)) (ri_classification r) d = Inr (d1, i)"
    and d': "d' = fst (create_request_and_run now bid (ins_id i) (it_date (ri_item r)) (request_config r)
       (initial_status r) q d1)"
    using assms by (auto simp: submit_item_def elim!: bind_resultE)
  obtain d2 x where two: "create_request_and_run now bid (ins_id i) (it_date (ri_item r)) (request_config r)
       (initial_status r) q d1 = (d2, x)" by fastforce
  have "initial_status r \<in> {QUEUED, WAITING_FOR_DATA}" by (simp add: initial_status_def split: option.split)
  then show ?thesis
    using get_or_create_instrument_frame [OF one] create_request_and_run_frame [OF two] d' two
    by (auto simp: grown_def)
qed

lemma submit_items_grown: "submit_items env now bid rs d = Inr d' \<Longrightarrow> grown d d'"
proof (induction rs arbitrary: d)
  case (Cons r rs)
  then obtain d1 where "submit_item env now bid r d = Inr d1" and "submit_items env now bid rs d1 = Inr d'"
    by (auto elim!: bind_resultE)
  then show ?case using Cons.IH submit_item_grown grown_trans by blast
qed simp

lemma list_batch_runs_cong:
  "db_runs d' = db_runs d \<Longrightarrow> db_requests d' = db_requests d \<Longrightarrow> db_instruments d' = db_instruments d \<Longrightarrow>
     list_batch_runs bid d' = list_batch_runs bid d"
  by (simp add: list_batch_runs_def run_rows_def request_rows_def cong: if_cong)

lemma upsert_user_frame:
  assumes "upsert_user pr d = Inr (d', u)"
  shows "db_runs d' = db_runs d \<and> db_requests d' = db_requests d \<and> db_instruments d' = db_instruments d
    \<and> db_batches d' = db_batches d \<and> db_leases d' = db_leases d \<and> db_events d' = db_events d \<and> db_audits d' = db_audits d"
proof -
  have role: "db_runs (fold ensure_role rs x) = db_runs x \<and> db_requests (fold ensure_role rs x) = db_requests x
      \<and> db_instruments (fold ensure_role rs x) = db_instruments x \<and> db_batches (fold ensure_role rs x) = db_batches x
      \<and> db_leases (fold ensure_role rs x) = db_leases x \<and> db_events (fold ensure_role rs x) = db_events x
      \<and> db_audits (fold ensure_role rs x) = db_audits x" for rs x
    by (induction rs arbitrary: x) (simp_all add: ensure_role_def)
  show ?thesis
    using assms role
    by (cases "principal_user pr d") (auto simp: upsert_user_def insert_user_def sync_roles_def Let_def elim!: bind_resultE)
qed

lemma sync_roles_users: "db_users (sync_roles uid roles d) = db_users d"
proof -
  have "db_users (fold ensure_role rs x) = db_users x" for rs x
    by (induction rs arbitrary: x) (simp_all add: ensure_role_def)
  then show ?thesis by (simp add: sync_roles_def Let_def)
qed

lemma find_user_after_update:
  assumes "find (\<lambda>u. usr_issuer u = i \<and> usr_subject u = s) us = Some u"
    and "usr_issuer v = i" and "usr_subject v = s" and "usr_id v = usr_id u"
  shows "\<exists>w. find (\<lambda>u. usr_issuer u = i \<and> usr_subject u = s) (update_row usr_id (usr_id u) (\<lambda>_. v) us) = Some w
    \<and> usr_id w = usr_id u"
  using assms by (induction us) (auto split: if_split_asm)

text \<open>After an upsert the principal's user is found again, with the same identifier.\<close>

lemma upsert_user_again:
  assumes "upsert_user pr d = Inr (d', u)" and "db_users e = db_users d'"
  shows "\<exists>e' v. upsert_user pr e = Inr (e', v) \<and> usr_id v = usr_id u \<and> e' = e\<lparr>db_users := db_users e'\<rparr>"
proof -
  obtain d1 u0 where u0: "principal_user pr d1 = Some u0" and uid: "usr_id u = usr_id u0"
    and users: "db_users d' = update_row usr_id (usr_id u0) (\<lambda>_. u0\<lparr>usr_display_name := shown_name pr, usr_email := pr_email pr\<rparr>)
       (db_users d1)"
    using assms(1) by (auto simp: upsert_user_def Let_def sync_roles_users elim!: bind_resultE split: if_split_asm)
  have "find (\<lambda>u. usr_issuer u = pr_issuer pr \<and> usr_subject u = pr_subject pr) (db_users d1) = Some u0"
    using u0 by (simp add: principal_user_def find_user_def)
  moreover have "usr_issuer u0 = pr_issuer pr \<and> usr_subject u0 = pr_subject pr"
    using u0 by (auto simp: principal_user_def find_user_def find_Some_iff)
  ultimately obtain w where "find (\<lambda>u. usr_issuer u = pr_issuer pr \<and> usr_subject u = pr_subject pr) (db_users d') = Some w"
    and "usr_id w = usr_id u0"
    using find_user_after_update [of "pr_issuer pr" "pr_subject pr" "db_users d1" u0
        "u0\<lparr>usr_display_name := shown_name pr, usr_email := pr_email pr\<rparr>"] users by auto
  then have "principal_user pr e = Some w" using assms(2) by (simp add: principal_user_def find_user_def)
  then show ?thesis using uid \<open>usr_id w = usr_id u0\<close> by (simp add: upsert_user_def Let_def)
qed

text \<open>The comparison of a payload's hash with the one a batch stores.\<close>

definition hash_check :: "batch \<Rightarrow> string \<Rightarrow> unit result" where
  "hash_check b h = (case dict_get ''_submission_sha256'' (bat_defaults b) of None \<Rightarrow> Inr () | Some JNull \<Rightarrow> Inr ()
     | Some j \<Rightarrow> require (j = JStr h) IdempotencyConflict)"

lemma hash_of_batch: "find_batch_id uid (sc_key cmd) d = Some b \<Longrightarrow>
    assert_idempotent_payload env uid cmd d = hash_check b (submission_sha256 (ae_sha env) cmd)"
  by (simp add: assert_idempotent_payload_def get_batch_submission_hash_def hash_check_def)

lemma hash_check_stored: "dict_get ''_submission_sha256'' (bat_defaults b) = Some (JStr k) \<Longrightarrow>
    hash_check b h = require (k = h) IdempotencyConflict"
  by (simp add: hash_check_def)

lemma find_batch_id_cong: "db_batches d' = db_batches d \<Longrightarrow> find_batch_id uid key d' = find_batch_id uid key d"
  by (simp add: find_batch_id_def)

lemma submit_batch_cases:
  assumes "submit_batch env now pr cmd rid b items d = Inr (d', vs)"
  obtains d1 where "submit_items env now (bat_id b) items d = Inr d1" and "db_runs d' = db_runs d1"
    and "db_users d' = db_users d1" and "db_batches d' = db_batches d1" and "db_leases d' = db_leases d1"
    and "vs = list_batch_runs (bat_id b) d'"
  using assms by (auto simp: submit_batch_def Let_def elim!: bind_resultE)

lemma find_append: "find P (xs @ ys) = (case find P xs of None \<Rightarrow> find P ys | Some x \<Rightarrow> Some x)"
  by (induction xs) auto

text \<open>The batch a submission ends with, whichever branch it takes.\<close>

lemma submit_new_result:
  assumes "submit_new env now pr cmd rid uid items d = Inr (d', vs)"
  shows "\<exists>b. find_batch_id uid (sc_key cmd) d' = Some b \<and> vs = list_batch_runs (bat_id b) d'
    \<and> db_users d' = db_users d \<and> assert_idempotent_payload env uid cmd d' = Inr ()
    \<and> db_leases d' = db_leases d \<and> (\<exists>rs. db_runs d' = db_runs d @ rs
         \<and> list_all (\<lambda>r. run_status r \<in> {QUEUED, WAITING_FOR_DATA}) rs)
    \<and> (find_batch_id uid (sc_key cmd) d \<noteq> None \<longrightarrow> d' = d)"
proof (cases "find_batch_id uid (sc_key cmd) d")
  case (Some b)
  then have "create_batch env uid cmd d = Inl (IntegrityViolation BATCH_CONSTRAINT)" by (simp add: create_batch_def)
  then have "d' = d" and "vs = list_batch_runs (bat_id b) d" and "assert_idempotent_payload env uid cmd d = Inr ()"
    using assms Some by (auto simp: submit_new_def find_batch_def existing_batch_def elim!: bind_resultE)
  then show ?thesis using Some by auto
next
  case None
  obtain d1 b where create: "create_batch env uid cmd d = Inr (d1, b)"
    and batch: "submit_batch env now pr cmd rid b items d1 = Inr (d', vs)"
    using assms None by (auto simp: submit_new_def create_batch_def Let_def)
  have d1: "db_batches d1 = db_batches d @ [b]" "db_users d1 = db_users d" "db_runs d1 = db_runs d"
    "db_leases d1 = db_leases d" "bat_submitted_by b = uid" "bat_idempotency_key b = sc_key cmd"
    "dict_get ''_submission_sha256'' (bat_defaults b) = Some (JStr (submission_sha256 (ae_sha env) cmd))"
    using create None by (auto simp: create_batch_def Let_def)
  obtain d2 where items: "submit_items env now (bat_id b) items d1 = Inr d2" and d': "db_runs d' = db_runs d2"
    "db_users d' = db_users d2" "db_batches d' = db_batches d2" "db_leases d' = db_leases d2"
    "vs = list_batch_runs (bat_id b) d'"
    by (rule submit_batch_cases [OF batch])
  have grown: "grown d1 d2" by (rule submit_items_grown [OF items])
  have found: "find_batch_id uid (sc_key cmd) d' = Some b"
    using None d1 d' grown
    by (auto simp: find_batch_id_def grown_def find_append split: option.split)
  moreover have "assert_idempotent_payload env uid cmd d' = Inr ()"
    unfolding hash_of_batch [OF found] hash_check_stored [OF d1(7)] by simp
  ultimately show ?thesis using d' grown d1 None by (auto simp: grown_def)
qed

lemma submit_new_hashed:
  assumes "submit_new env now pr cmd rid uid items d = Inr (d', vs)" and "find_batch_id uid (sc_key cmd) d = None"
  shows "\<exists>b k. find_batch_id uid (sc_key cmd) d' = Some b \<and> dict_get ''_submission_sha256'' (bat_defaults b) = Some (JStr k)"
proof -
  obtain d1 b where create: "create_batch env uid cmd d = Inr (d1, b)"
    and batch: "submit_batch env now pr cmd rid b items d1 = Inr (d', vs)"
    using assms by (auto simp: submit_new_def create_batch_def Let_def)
  obtain d2 where items: "submit_items env now (bat_id b) items d1 = Inr d2" and "db_batches d' = db_batches d2"
    by (rule submit_batch_cases [OF batch])
  then have "db_batches d' = db_batches d @ [b]"
    using submit_items_grown [OF items] create assms(2) by (auto simp: grown_def create_batch_def Let_def)
  then have "find_batch_id uid (sc_key cmd) d' = Some b"
    using assms(2) create by (auto simp: find_batch_id_def find_append create_batch_def Let_def split: option.split)
  then show ?thesis using create assms(2) by (auto simp: create_batch_def Let_def)
qed

lemma submit_cases:
  assumes "submit env classify stocklean others now pr cmd rid d = Inr (d', vs)"
  obtains early d1 u where "(if stocklean = None then resolve_items classify cmd else Inr []) = Inr early"
    and "principal_require [''assessments:submit''] pr = Inr ()" and "upsert_user pr d = Inr (d1, u)"
    and "(\<exists>b. find_batch_id (usr_id u) (sc_key cmd) d1 = Some b \<and> d' = d1 \<and> vs = list_batch_runs (bat_id b) d1
            \<and> assert_idempotent_payload env (usr_id u) cmd d1 = Inr ())
       \<or> (find_batch_id (usr_id u) (sc_key cmd) d1 = None \<and>
            (\<exists>items. submit_new env now pr cmd rid (usr_id u) items (others d1) = Inr (d', vs)))"
proof -
  obtain early d1 u where start: "(if stocklean = None then resolve_items classify cmd else Inr []) = Inr early"
      "principal_require [''assessments:submit''] pr = Inr ()" "upsert_user pr d = Inr (d1, u)"
    and rest: "(case find_batch (usr_id u) (sc_key cmd) d1 of
       Some views \<Rightarrow> existing_batch env (usr_id u) cmd views d1
     | None \<Rightarrow>
         bind_result (case stocklean of None \<Rightarrow> Inr early
             | Some client \<Rightarrow> resolve_stocklean_items (ae_sha env) client pr cmd) (\<lambda>items.
         submit_new env now pr cmd rid (usr_id u) items (others d1))) = Inr (d', vs)"
    using assms unfolding submit_def by (elim bind_resultE) auto
  show ?thesis
  proof (cases "find_batch_id (usr_id u) (sc_key cmd) d1")
    case None
    then obtain items where "submit_new env now pr cmd rid (usr_id u) items (others d1) = Inr (d', vs)"
      using rest by (auto simp: find_batch_def elim!: bind_resultE)
    then show ?thesis using that [OF start] None by blast
  next
    case (Some b)
    then have "d' = d1 \<and> vs = list_batch_runs (bat_id b) d1 \<and> assert_idempotent_payload env (usr_id u) cmd d1 = Inr ()"
      using rest by (auto simp: find_batch_def existing_batch_def elim!: bind_resultE)
    then show ?thesis using that [OF start] Some by blast
  qed
qed

text \<open>A batch without the hash of its payload, as a clean reassessment leaves it.\<close>

definition unhashed :: "batch \<Rightarrow> bool" where
  "unhashed b \<longleftrightarrow> dict_get ''_submission_sha256'' (bat_defaults b) \<in> {None, Some JNull}"

text \<open>Two databases that differ in nothing but the table of users.\<close>

definition only_users_differ :: "db \<Rightarrow> db \<Rightarrow> bool" where
  "only_users_differ d d' \<longleftrightarrow> d' = d\<lparr>db_users := db_users d'\<rparr>"

text \<open>
  C16. Submitting again under the same idempotency key never creates anything. With the same payload,
  as long as its items still resolve, it returns the runs of the first submission and leaves every
  table but the caller's own user row as it is; with another payload it is refused as a conflict,
  unless the batch that holds the key carries no hash of a payload, which is then treated as the
  same. A batch that a submission creates always carries one; only the batch of a clean reassessment
  does not. This holds although other transactions may commit between the lookup of the batch and
  its insert (the loser of such a race gets the winner's runs), as long as they keep the users.
\<close>

theorem submit_idempotent:
  assumes "submit env classify stocklean others now pr cmd rid d = Inr (d', vs)"
    and "\<And>x. db_users (others x) = db_users x"
    and "sc_key cmd2 = sc_key cmd"
    and "stocklean = None \<longrightarrow> (\<exists>items. resolve_items classify cmd2 = Inr items)"
  shows "\<exists>d1 u b. upsert_user pr d = Inr (d1, u) \<and> find_batch_id (usr_id u) (sc_key cmd) d' = Some b
     \<and> vs = list_batch_runs (bat_id b) d'
     \<and> (find_batch_id (usr_id u) (sc_key cmd) d1 = None \<and> find_batch_id (usr_id u) (sc_key cmd) (others d1) = None \<longrightarrow> \<not> unhashed b)
     \<and> (submission_sha256 (ae_sha env) cmd2 = submission_sha256 (ae_sha env) cmd \<or> unhashed b \<longrightarrow>
          (\<exists>d2. submit env classify stocklean others2 now2 pr cmd2 rid2 d' = Inr (d2, vs) \<and> only_users_differ d' d2))
     \<and> (submission_sha256 (ae_sha env) cmd2 \<noteq> submission_sha256 (ae_sha env) cmd \<and> \<not> unhashed b \<longrightarrow>
          submit env classify stocklean others2 now2 pr cmd2 rid2 d' = Inl IdempotencyConflict)"
proof -
  obtain early d1 u where scope: "principal_require [''assessments:submit''] pr = Inr ()"
    and user: "upsert_user pr d = Inr (d1, u)"
    and result: "(\<exists>b. find_batch_id (usr_id u) (sc_key cmd) d1 = Some b \<and> d' = d1 \<and> vs = list_batch_runs (bat_id b) d1
            \<and> assert_idempotent_payload env (usr_id u) cmd d1 = Inr ())
       \<or> (find_batch_id (usr_id u) (sc_key cmd) d1 = None \<and>
            (\<exists>items. submit_new env now pr cmd rid (usr_id u) items (others d1) = Inr (d', vs)))"
    by (rule submit_cases [OF assms(1)])
  obtain b where b: "find_batch_id (usr_id u) (sc_key cmd) d' = Some b" and vs: "vs = list_batch_runs (bat_id b) d'"
    and users: "db_users d' = db_users d1" and ok: "assert_idempotent_payload env (usr_id u) cmd d' = Inr ()"
    using result submit_new_result assms(2) by metis
  have created: "\<not> unhashed b"
    if "find_batch_id (usr_id u) (sc_key cmd) d1 = None" and "find_batch_id (usr_id u) (sc_key cmd) (others d1) = None"
  proof -
    from result that(1) obtain items where "submit_new env now pr cmd rid (usr_id u) items (others d1) = Inr (d', vs)"
      by (elim disjE exE conjE) simp_all
    from submit_new_hashed [OF this that(2)] b show ?thesis by (auto simp: unhashed_def)
  qed
  obtain d2 v where again: "upsert_user pr d' = Inr (d2, v)" and v: "usr_id v = usr_id u" and only: "only_users_differ d' d2"
    using upsert_user_again [OF user users] unfolding only_users_differ_def by blast
  have frame: "db_runs d2 = db_runs d'" "db_requests d2 = db_requests d'" "db_instruments d2 = db_instruments d'"
    "db_batches d2 = db_batches d'"
    using upsert_user_frame [OF again] by simp_all
  have b2: "find_batch_id (usr_id v) (sc_key cmd2) d2 = Some b"
    using b v assms(3) frame(4) by (simp add: find_batch_id_def)
  have vs2: "list_batch_runs (bat_id b) d2 = vs" unfolding vs by (rule list_batch_runs_cong [OF frame(1-3)])
  obtain early2 where early2: "(if stocklean = None then resolve_items classify cmd2 else Inr []) = Inr early2"
    using assms(4) by (cases stocklean) auto
  have second: "submit env classify stocklean others2 now2 pr cmd2 rid2 d'
      = bind_result (hash_check b (submission_sha256 (ae_sha env) cmd2)) (\<lambda>_. Inr (d2, vs))"
    unfolding submit_def scope early2 again using b2 vs2 hash_of_batch [OF b2] by (simp add: find_batch_def existing_batch_def)
  have first: "hash_check b (submission_sha256 (ae_sha env) cmd) = Inr ()"
    using ok unfolding hash_of_batch [OF b] .
  have same: "submit env classify stocklean others2 now2 pr cmd2 rid2 d' = Inr (d2, vs)"
    if "submission_sha256 (ae_sha env) cmd2 = submission_sha256 (ae_sha env) cmd \<or> unhashed b"
    using that
  proof
    assume "submission_sha256 (ae_sha env) cmd2 = submission_sha256 (ae_sha env) cmd"
    then show ?thesis unfolding second using first by simp
  next
    assume "unhashed b"
    then have "hash_check b (submission_sha256 (ae_sha env) cmd2) = Inr ()" by (auto simp: unhashed_def hash_check_def)
    then show ?thesis unfolding second by simp
  qed
  have other: "submit env classify stocklean others2 now2 pr cmd2 rid2 d' = Inl IdempotencyConflict"
    if "submission_sha256 (ae_sha env) cmd2 \<noteq> submission_sha256 (ae_sha env) cmd" and "\<not> unhashed b"
  proof -
    have "dict_get ''_submission_sha256'' (bat_defaults b) = Some (JStr (submission_sha256 (ae_sha env) cmd))"
      using first that(2) by (auto simp: unhashed_def hash_check_def split: option.splits json.splits)
    then show ?thesis unfolding second using that(1) by (simp add: hash_check_stored)
  qed
  show ?thesis
    by (intro exI [of _ d1] exI [of _ u] exI [of _ b])
      (use user b vs created same other only in blast)
qed

definition demo_class :: "string \<Rightarrow> classification" where
  "demo_class t = \<lparr>cls_ticker = t, cls_asset_type = STOCK, cls_quote_type = ''EQUITY'', cls_source = ''s'',
     cls_source_symbol = t, cls_exchange = None, cls_name = None\<rparr>"

definition demo_classifier :: classifier where
  "demo_classifier ts = Inr (map (\<lambda>t. (t, demo_class t)) ts)"

definition demo_command :: submit_command where
  "demo_command = \<lparr>sc_items = [\<lparr>it_ticker = ''SPY'', it_asset_type = None, it_date = 739000\<rparr>],
     sc_analysts = [''market''], sc_depth = ''deep'', sc_memory_mode = INDEPENDENT, sc_language = ''en'',
     sc_key = ''key-0001''\<rparr>"

definition demo_assess :: assess_env where
  "demo_assess = \<lparr>ae_sha = (\<lambda>s. s), ae_uuid = (\<lambda>_. ''u''), ae_iso = (\<lambda>_. ''t'')\<rparr>"

definition submit_principal :: principal where
  "submit_principal = \<lparr>pr_issuer = ''i'', pr_subject = ''s'', pr_actor_type = ''user'',
     pr_scopes = [''assessments:submit''], pr_display_name = ''d'', pr_email = None, pr_roles = [''User'']\<rparr>"

definition other_command :: submit_command where
  "other_command = demo_command\<lparr>sc_depth := ''quick''\<rparr>"

lemma submit_idempotent_witness:
  "\<exists>d' vs d2. submit demo_assess demo_classifier None (\<lambda>d. d) 5 submit_principal demo_command ''r'' empty_db
       = Inr (d', vs) \<and> length vs = 1
     \<and> submit demo_assess demo_classifier None (\<lambda>d. d) 6 submit_principal demo_command ''r2'' d' = Inr (d2, vs)
     \<and> only_users_differ d' d2
     \<and> submit demo_assess demo_classifier None (\<lambda>d. d) 6 submit_principal other_command ''r3'' d' = Inl IdempotencyConflict"
proof -
  let ?one = "submit demo_assess demo_classifier None (\<lambda>d. d) 5 submit_principal demo_command ''r'' empty_db"
  have "(case ?one of Inr (_, vs) \<Rightarrow> length vs = 1 | Inl _ \<Rightarrow> False)" by code_simp
  then obtain d' vs where one: "?one = Inr (d', vs)" and n: "length vs = 1" by (auto split: sum.splits)
  have "(case resolve_items demo_classifier demo_command of Inr _ \<Rightarrow> True | Inl _ \<Rightarrow> False)" by code_simp
  then have items: "\<exists>items. resolve_items demo_classifier demo_command = Inr items" by (auto split: sum.splits)
  have "(case resolve_items demo_classifier other_command of Inr _ \<Rightarrow> True | Inl _ \<Rightarrow> False)" by code_simp
  then have other: "\<exists>items. resolve_items demo_classifier other_command = Inr items" by (auto split: sum.splits)
  have key: "sc_key other_command = sc_key demo_command" by (simp add: other_command_def)
  have sha: "submission_sha256 (ae_sha demo_assess) other_command \<noteq> submission_sha256 (ae_sha demo_assess) demo_command"
    by code_simp
  have fresh: "find_batch_id i k d1 = None" if "upsert_user submit_principal empty_db = Inr (d1, u)" for d1 u i k
    using upsert_user_frame [OF that] by (simp add: find_batch_id_def empty_db_def)
  have "\<exists>d2. submit demo_assess demo_classifier None (\<lambda>d. d) 6 submit_principal demo_command ''r2'' d' = Inr (d2, vs) \<and> only_users_differ d' d2"
    using submit_idempotent [OF one refl refl, of "\<lambda>d. d" 6 "''r2''"] items by blast
  moreover have "submit demo_assess demo_classifier None (\<lambda>d. d) 6 submit_principal other_command ''r3'' d' = Inl IdempotencyConflict"
    using submit_idempotent [OF one refl key, of "\<lambda>d. d" 6 "''r3''"] other sha fresh by blast
  ultimately show ?thesis using one n by blast
qed

section \<open>Deletion\<close>

lemma context_run: "get_run_context rid d = Some c \<Longrightarrow> run_id (rc_run c) = rid \<and> rc_run c \<in> set (db_runs d)"
proof -
  assume "get_run_context rid d = Some c"
  then have "c \<in> set (context_rows rid d)" by (auto simp: get_run_context_def split: list.splits)
  then show ?thesis by (auto simp: context_rows_def run_rows_def split: if_split_asm)
qed

lemma audit_neutral [simp]:
  "fk_ok (append_audit pr a t i r m d) = fk_ok d"
  "child_runs (append_audit pr a t i r m d) = child_runs d"
  "get_run_context j (append_audit pr a t i r m d) = get_run_context j d"
  "no_orphan c (append_audit pr a t i r m d) = no_orphan c d"
  by (simp_all add: fk_ok_def child_runs_def snapshot_refs_def run_refs_def artifact_refs_def get_run_context_def
      context_rows_def run_rows_def request_rows_def no_orphan_def cong: if_cong)

lemma delete_rows_cases:
  assumes "delete_rows env pr rid request d = Inr (d', deleted)"
  obtains c where "get_run_context rid d = Some c" and "deletable rid (rc_run c) d = Inr ()"
    and "''Admin'' \<in> set (pr_roles pr)"
    and "d' = append_audit pr ''assessment.delete'' ''assessment_run'' (ae_uuid env rid) request
              (deletion_metadata env c d) (delete_assessment_graph c d)"
    and "da_status deleted = run_status (rc_run c)"
proof -
  obtain u c v where "require (''Admin'' \<in> set (pr_roles pr)) (AccessDenied ''assessment deletion requires the Admin role'') = Inr u"
    and c: "of_option (NotFound rid) (get_run_context rid d) = Inr c" and "deletable rid (rc_run c) d = Inr v"
    and result: "Inr (append_audit pr ''assessment.delete'' ''assessment_run'' (ae_uuid env rid) request
            (deletion_metadata env c d) (delete_assessment_graph c d), deletion_of c)
      = (Inr (d', deleted) :: (db \<times> deleted_assessment) result)"
    using assms unfolding delete_rows_def by (elim bind_resultE) blast
  then show ?thesis using that [of c] by (auto simp: deletion_of_def)
qed

lemma no_dependents: "find_dependent_run_ids rid d = [] \<longleftrightarrow> rid \<notin> run_refs d"
  unfolding set_empty [symmetric] by (auto simp: find_dependent_run_ids_def run_refs_def)

text \<open>
  The rows of a run are gone and every other row of every table is there, in its place: those of
  the tables that name a run, the deliveries of its events, and the tables a deletion does not
  concern. Of the three rows a run shares with others, each is gone exactly when nothing refers to
  it any more.
\<close>

definition only_run_removed :: "nat \<Rightarrow> db \<Rightarrow> db \<Rightarrow> bool" where
  "only_run_removed rid d d' \<longleftrightarrow> db_runs d' = filter (\<lambda>x. run_id x \<noteq> rid) (db_runs d)
     \<and> db_integrity d' = filter (\<lambda>x. itg_run x \<noteq> rid) (db_integrity d)
     \<and> db_validations d' = filter (\<lambda>x. val_run x \<noteq> rid) (db_validations d)
     \<and> db_bases d' = filter (\<lambda>x. pb_run x \<noteq> rid) (db_bases d)
     \<and> db_evidence d' = filter (\<lambda>x. evd_run x \<noteq> rid) (db_evidence d)
     \<and> db_reviews d' = filter (\<lambda>x. rvw_run x \<noteq> rid) (db_reviews d)
     \<and> db_comments d' = filter (\<lambda>x. cmt_run x \<noteq> rid) (db_comments d)
     \<and> db_decisions d' = filter (\<lambda>x. dec_run x \<noteq> rid) (db_decisions d)
     \<and> db_leases d' = filter (\<lambda>x. ls_run x \<noteq> rid) (db_leases d)
     \<and> db_steps d' = filter (\<lambda>x. st_run x \<noteq> rid) (db_steps d)
     \<and> db_artifacts d' = filter (\<lambda>x. art_run x \<noteq> rid) (db_artifacts d)
     \<and> db_events d' = filter (\<lambda>x. ev_run x \<noteq> rid) (db_events d)
     \<and> db_requirements d' = filter (\<lambda>x. dr_run x \<noteq> rid) (db_requirements d)
     \<and> db_deliveries d' = filter (\<lambda>x. \<not> (\<exists>e\<in>set (db_events d). ev_run e = rid \<and> ev_id e = dl_event x)) (db_deliveries d)"

definition other_tables_kept :: "db \<Rightarrow> db \<Rightarrow> bool" where
  "other_tables_kept d d' \<longleftrightarrow> db_users d' = db_users d
     \<and> db_instruments d' = db_instruments d
     \<and> db_roles d' = db_roles d
     \<and> db_user_roles d' = db_user_roles d
     \<and> db_workers d' = db_workers d
     \<and> db_webhooks d' = db_webhooks d
     \<and> db_credentials d' = db_credentials d
     \<and> db_policy d' = db_policy d
     \<and> db_routing d' = db_routing d
     \<and> db_circuits d' = db_circuits d
     \<and> db_locks d' = db_locks d"

definition shared_rows_kept :: "run_context \<Rightarrow> db \<Rightarrow> db \<Rightarrow> bool" where
  "shared_rows_kept c d d' \<longleftrightarrow>
     db_requests d' = filter (\<lambda>q. req_id q \<noteq> req_id (rc_request c) \<or> req_id q \<in> run_request ` set (db_runs d')) (db_requests d)
     \<and> db_batches d' = filter (\<lambda>b. bat_id b \<noteq> req_batch (rc_request c) \<or> bat_id b \<in> req_batch ` set (db_requests d')) (db_batches d)
     \<and> db_snapshots d' = filter (\<lambda>s. run_snapshot (rc_run c) \<noteq> Some (cfg_id s) \<or> cfg_id s \<in> snapshot_refs d') (db_snapshots d)"

lemma delete_where_filter: "delete_where P t = filter (\<lambda>x. \<not> P x) t"
  by (induction t) auto

lemma delete_where_none: "(\<And>x. x \<in> set t \<Longrightarrow> \<not> P x) \<Longrightarrow> delete_where P t = t"
  by (simp add: delete_where_filter)

lemma delete_graph_fields:
  "db_requests (delete_snapshot_row x y) = db_requests y" "db_batches (delete_snapshot_row x y) = db_batches y"
  "db_runs (delete_snapshot_row x y) = db_runs y" "db_runs (delete_request_rows q b y) = db_runs y"
  "db_snapshots (delete_request_rows q b y) = db_snapshots y"
  by (simp_all add: delete_snapshot_row_def delete_request_rows_def Let_def split: option.split)

lemma only_run_removed_graph: "only_run_removed (run_id (rc_run c)) d (delete_assessment_graph c d)"
proof -
  have snap: "only_run_removed i d (delete_snapshot_row x y) = only_run_removed i d y" for i x y
    by (simp add: only_run_removed_def delete_snapshot_row_def split: option.split)
  have req: "only_run_removed i d (delete_request_rows q b y) = only_run_removed i d y" for i q b y
    by (simp add: only_run_removed_def delete_request_rows_def Let_def)
  have rows: "only_run_removed i d (delete_run_rows i d)" for i
    unfolding only_run_removed_def delete_run_rows_def run_event_ids_def delete_where_filter
    by (intro conjI) (simp, auto simp: image_iff intro!: filter_cong)
  show ?thesis unfolding delete_assessment_graph_def snap req by (rule rows)
qed

lemma other_tables_graph: "other_tables_kept d (delete_assessment_graph c d)"
proof -
  have "other_tables_kept d (delete_snapshot_row x y) = other_tables_kept d y"
    "other_tables_kept d (delete_request_rows q b y) = other_tables_kept d y" for x q b y
    by (simp_all add: other_tables_kept_def delete_snapshot_row_def delete_request_rows_def Let_def split: option.split)
  then show ?thesis by (simp add: delete_assessment_graph_def other_tables_kept_def delete_run_rows_def)
qed

lemma context_request: "get_run_context rid d = Some c \<Longrightarrow> rc_request c \<in> set (db_requests d)"
proof -
  assume "get_run_context rid d = Some c"
  then have "c \<in> set (context_rows rid d)" by (auto simp: get_run_context_def split: list.splits)
  then show ?thesis by (auto simp: context_rows_def run_rows_def request_rows_def split: if_split_asm)
qed

lemma shared_rows_graph:
  assumes "rc_request c \<in> set (db_requests d)" shows "shared_rows_kept c d (delete_assessment_graph c d)"
proof -
  let ?d1 = "delete_run_rows (run_id (rc_run c)) d" and ?q = "req_id (rc_request c)" and ?b = "req_batch (rc_request c)"
  let ?d2 = "delete_request_rows ?q ?b ?d1" and ?d' = "delete_assessment_graph c d"
  have runs: "db_runs ?d' = db_runs ?d1" and reqs: "db_requests ?d' = db_requests ?d2" and bats: "db_batches ?d' = db_batches ?d2"
    by (simp_all add: delete_assessment_graph_def delete_graph_fields)
  have requests: "db_requests ?d2 = filter (\<lambda>q. req_id q \<noteq> ?q \<or> req_id q \<in> run_request ` set (db_runs ?d1)) (db_requests d)"
    by (auto simp: delete_request_rows_def Let_def list_ex_image delete_where_filter intro!: filter_cong simp del: delete_run_rows_frame(6))
  have batches: "db_batches ?d2 = filter (\<lambda>b. bat_id b \<noteq> ?b \<or> bat_id b \<in> req_batch ` set (db_requests ?d2)) (db_batches d)"
  proof (cases "?q \<in> run_request ` set (db_runs ?d1)")
    case True
    then have "?d2 = ?d1" by (simp add: delete_request_rows_def list_ex_image del: delete_run_rows_frame(6))
    then show ?thesis using assms by (auto simp: delete_where_filter intro!: filter_True [symmetric])
  next
    case False
    then show ?thesis
      by (auto simp: delete_request_rows_def Let_def list_ex_image delete_where_filter intro!: filter_cong simp del: delete_run_rows_frame(6))
  qed
  have "db_snapshots ?d' = filter (\<lambda>s. run_snapshot (rc_run c) \<noteq> Some (cfg_id s) \<or> cfg_id s \<in> snapshot_refs ?d') (db_snapshots d)"
  proof (cases "run_snapshot (rc_run c)")
    case None
    then show ?thesis by (simp add: delete_assessment_graph_def delete_snapshot_row_def delete_graph_fields)
  next
    case (Some x)
    have refs: "snapshot_refs ?d' = snapshot_refs ?d2" using runs by (simp add: snapshot_refs_def delete_graph_fields)
    have "db_snapshots ?d' = (if x \<in> snapshot_refs ?d2 then db_snapshots d else filter (\<lambda>s. cfg_id s \<noteq> x) (db_snapshots d))"
      unfolding delete_assessment_graph_def Some delete_snapshot_row_def option.case list_ex_snapshot
      by (simp add: delete_graph_fields) (simp add: delete_where_filter)
    then show ?thesis unfolding refs Some by (auto intro!: filter_cong filter_True [symmetric])
  qed
  then show ?thesis unfolding shared_rows_kept_def runs reqs bats using requests batches by simp
qed

text \<open>A deletion of files concerns the run's two directories.\<close>

lemma cleanup_contained:
  assumes "cleanup_run_files store job run_text existing fs p \<noteq> fs p"
  shows "\<exists>base. (store = Some base \<or> job = Some base) \<and> relative_to (base @ [run_text]) p"
  using assms by (auto simp: cleanup_run_files_def delete_run_directory_def Let_def split: option.splits if_split_asm)

text \<open>
  C10. A deletion happens only for an administrator, only for a run that has ended, that no
  worker or validation job is working on and that no retry or reassessment refers to. It then
  removes the run with every row that belongs to it and no other row: every other row of every table
  stays as it is, the request, the batch and the snapshot of the run go exactly when nothing else
  uses them, files change only below the run's own directories, every foreign key still resolves,
  and one audit event is written.
\<close>

theorem deletion_complete_and_contained:
  assumes "delete_assessment env store job existing pr rid request fs d = Inr (fs', d', deleted)"
  shows "''Admin'' \<in> set (pr_roles pr) \<and> da_status deleted \<in> terminal_statuses
    \<and> \<not> has_active_work rid d \<and> rid \<notin> run_refs d
    \<and> only_run_removed rid d d' \<and> other_tables_kept d d'
    \<and> rid \<notin> run_id ` set (db_runs d') \<and> rid \<notin> child_runs d'
    \<and> (fk_ok d \<longrightarrow> fk_ok d')
    \<and> (j \<noteq> rid \<longrightarrow> get_run_context j d' = get_run_context j d)
    \<and> (\<exists>c. get_run_context rid d = Some c \<and> no_orphan c d' \<and> shared_rows_kept c d d')
    \<and> (fs' p \<noteq> fs p \<longrightarrow> (\<exists>base. (store = Some base \<or> job = Some base) \<and> relative_to (base @ [ae_uuid env rid]) p))
    \<and> (\<exists>a. db_audits d' = db_audits d @ [a] \<and> au_action a = ''assessment.delete'')"
proof -
  have rows: "delete_rows env pr rid request d = Inr (d', deleted)" and fs': "fs' = cleanup_run_files store job (ae_uuid env rid) existing fs"
    using assms by (auto simp: delete_assessment_def elim!: bind_resultE)
  obtain c where c: "get_run_context rid d = Some c" and ok: "deletable rid (rc_run c) d = Inr ()"
    and admin: "''Admin'' \<in> set (pr_roles pr)"
    and d': "d' = append_audit pr ''assessment.delete'' ''assessment_run'' (ae_uuid env rid) request
              (deletion_metadata env c d) (delete_assessment_graph c d)"
    and st: "da_status deleted = run_status (rc_run c)"
    by (rule delete_rows_cases [OF rows])
  have rid: "run_id (rc_run c) = rid" using context_run [OF c] by simp
  have deletable: "run_status (rc_run c) \<in> terminal_statuses" "\<not> has_active_work rid d" "rid \<notin> run_refs d"
    using ok by (auto simp: deletable_def no_dependents bind_result_Inr_iff)
  have audits: "db_audits (delete_assessment_graph c d) = db_audits d"
    by (simp add: delete_assessment_graph_def delete_snapshot_row_def delete_request_rows_def delete_run_rows_def
        Let_def split: option.split)
  have neutral: "only_run_removed i x (append_audit pr a t k r m y) = only_run_removed i x y"
    "other_tables_kept x (append_audit pr a t k r m y) = other_tables_kept x y"
    "shared_rows_kept c x (append_audit pr a t k r m y) = shared_rows_kept c x y" for i x y a t k r m
    by (simp_all add: only_run_removed_def other_tables_kept_def shared_rows_kept_def snapshot_refs_def)
  have "\<exists>a. db_audits d' = db_audits d @ [a] \<and> au_action a = ''assessment.delete''"
    unfolding d' by (simp add: append_audit_def audits)
  moreover have "fk_ok d \<longrightarrow> fk_ok d'"
    unfolding d' audit_neutral using delete_assessment_graph_fk [of d c] deletable rid by simp
  moreover have "j \<noteq> rid \<longrightarrow> get_run_context j d' = get_run_context j d"
    unfolding d' audit_neutral using get_run_context_delete_graph [of j c d] rid by simp
  moreover have "rid \<notin> run_id ` set (db_runs d') \<and> rid \<notin> child_runs d'"
    unfolding d' using delete_graph_gone [of c d] rid by simp
  moreover have "no_orphan c d'" unfolding d' audit_neutral by (rule delete_graph_no_orphan)
  moreover have "only_run_removed rid d d' \<and> other_tables_kept d d' \<and> shared_rows_kept c d d'"
    unfolding d' neutral using only_run_removed_graph [of c d] other_tables_graph shared_rows_graph [OF context_request [OF c]] rid by simp
  moreover have "fs' p \<noteq> fs p \<longrightarrow> (\<exists>base. (store = Some base \<or> job = Some base) \<and> relative_to (base @ [ae_uuid env rid]) p)"
    unfolding fs' using cleanup_contained by blast
  ultimately show ?thesis using admin deletable st c by simp
qed

definition deletion_db :: db where
  "deletion_db = (demo_db FAILED)\<lparr>db_users := [\<lparr>usr_id = 9, usr_issuer = ''i'', usr_subject = ''s'',
     usr_display_name = ''d'', usr_email = None, usr_status = ''active''\<rparr>]\<rparr>"

text \<open>A comment on run 4 and one on run 5: only the first goes.\<close>

definition commented_db :: db where
  "commented_db = deletion_db\<lparr>db_comments := map (\<lambda>r. \<lparr>cmt_id = r, cmt_run = r, cmt_author = 9, cmt_body = ''x''\<rparr>) [4, 5]\<rparr>"

lemma deletion_complete_and_contained_witness:
  "\<exists>fs' d' x. delete_assessment demo_assess None None [] (submit_principal\<lparr>pr_roles := [''Admin''],
       pr_scopes := [''assessments:admin'']\<rparr>) 4 ''r'' (\<lambda>_. None) commented_db = Inr (fs', d', x)
     \<and> 4 \<notin> run_id ` set (db_runs d') \<and> map cmt_run (db_comments d') = [5]"
proof -
  let ?run = "delete_assessment demo_assess None None [] (submit_principal\<lparr>pr_roles := [''Admin''],
       pr_scopes := [''assessments:admin'']\<rparr>) 4 ''r'' (\<lambda>_. None) commented_db"
  have "(case ?run of Inr _ \<Rightarrow> True | Inl _ \<Rightarrow> False)" by code_simp
  then obtain fs' d' x where run: "?run = Inr (fs', d', x)" by (auto split: sum.splits)
  have "only_run_removed 4 commented_db d'" using deletion_complete_and_contained [OF run] by blast
  then have "map cmt_run (db_comments d') = [5]" by (simp add: only_run_removed_def commented_db_def)
  moreover have "4 \<notin> run_id ` set (db_runs d')" using deletion_complete_and_contained [OF run] by simp
  ultimately show ?thesis using run by (intro exI [of _ fs'] exI [of _ d'] exI [of _ x] conjI)
qed

section \<open>Cancellation and retry\<close>

lemma cancel_data_requirement_frame [simp]:
  "db_runs (cancel_data_requirement rid d) = db_runs d" "db_leases (cancel_data_requirement rid d) = db_leases d"
  by (simp_all add: cancel_data_requirement_def update_requirement_def split: option.split)

lemma cancel_run_moves:
  assumes "cancel_run now r d = Inr d'" and "find_run (run_id r) d = Some r"
  shows "moves (\<lambda>j x. j = run_id r \<and> run_status x \<notin> cancelling_statuses \<and> run_status x \<notin> terminal_statuses) d d'
    \<and> db_leases d' = db_leases d"
proof -
  let ?P = "\<lambda>j x. j = run_id r \<and> run_status x \<notin> cancelling_statuses \<and> run_status x \<notin> terminal_statuses"
  consider "run_status r \<in> {QUEUED, WAITING_FOR_DATA}"
    | "run_status r \<notin> {QUEUED, WAITING_FOR_DATA}" "run_status r \<notin> terminal_statuses" "run_status r \<notin> cancelling_statuses"
    | "run_status r \<notin> {QUEUED, WAITING_FOR_DATA}" "run_status r \<in> terminal_statuses \<or> run_status r \<in> cancelling_statuses"
    by blast
  then show ?thesis
  proof cases
    case 1
    let ?f = "\<lambda>x. x\<lparr>run_status := CANCELLED, run_finished_at := Some now, run_version := run_version x + 1\<rparr>"
    have "assert_transition (run_status r) CANCELLED = Inr ()" and runs: "db_runs d' = db_runs (update_run (run_id r) ?f d)"
      and "db_leases d' = db_leases d"
      using assms(1) 1 by (auto simp: cancel_run_def Let_def elim!: bind_resultE split: if_split_asm)
    moreover have "moves ?P d (update_run (run_id r) ?f d)"
      by (rule moves_update_run) (use assms(2) calculation 1 in
        \<open>auto intro: allowed_stepI simp: cancelling_statuses_def terminal_statuses_def\<close>)
    ultimately show ?thesis using moves_same_right by blast
  next
    case 2
    let ?f = "\<lambda>x. x\<lparr>run_status := CANCEL_REQUESTED, run_version := run_version x + 1\<rparr>"
    have "assert_transition (run_status r) CANCEL_REQUESTED = Inr ()"
      and runs: "db_runs d' = db_runs (update_run (run_id r) ?f d)" and "db_leases d' = db_leases d"
      using assms(1) 2 by (auto simp: cancel_run_def set_status_def elim!: bind_resultE)
    moreover have "moves ?P d (update_run (run_id r) ?f d)"
      by (rule moves_update_run) (use assms(2) calculation 2 in \<open>auto intro: allowed_stepI\<close>)
    ultimately show ?thesis using moves_same_right by blast
  next
    case 3
    then have "d' = d" using assms(1) by (auto simp: cancel_run_def)
    then show ?thesis by (simp add: moves_same)
  qed
qed

lemma cancel_assessment_moves:
  assumes "cancel_assessment env now pr rid request d = Inr (d', v)" and "unique_keys run_id (db_runs d)"
  shows "moves (\<lambda>j x. j = rid \<and> run_status x \<notin> cancelling_statuses \<and> run_status x \<notin> terminal_statuses) d d'
    \<and> db_leases d' = db_leases d"
proof -
  obtain c d1 where c: "get_run_context rid d = Some c" and cancel: "cancel_run now (rc_run c) d = Inr d1"
    and d': "db_runs d' = db_runs d1" "db_leases d' = db_leases d1"
    using assms(1) by (auto simp: cancel_assessment_def elim!: bind_resultE)
  have rid: "run_id (rc_run c) = rid" and mem: "rc_run c \<in> set (db_runs d)" using context_run [OF c] by simp_all
  have "find_run (run_id (rc_run c)) d = Some (rc_run c)"
    using mem assms(2) unfolding find_run_def by (rule find_row_unique [rotated])
  note step = cancel_run_moves [OF cancel this, unfolded rid]
  show ?thesis
    using moves_same_right [OF conjunct1 [OF step] d'(1)] conjunct2 [OF step] d'(2) by simp
qed

lemma retry_assessment_grown:
  assumes "retry_assessment env stocklean now pr rid request d = Inr (d', v)"
  shows "\<exists>r. db_runs d' = db_runs d @ [r] \<and> run_status r \<in> {QUEUED, WAITING_FOR_DATA} \<and> db_leases d' = db_leases d
    \<and> run_retry_of r = Some rid"
proof -
  obtain c plan where c0: "of_option (NotFound rid) (get_run_context rid d) = Inr c"
    and plan: "retry_plan env stocklean pr c = Inr plan"
    and rest: "(case write_retry env now pr rid request c plan d of (d1, retry) \<Rightarrow>
       bind_result (of_option (RuntimeError ''new retry is not visible'') (get_run_context (run_id retry) d1))
         (\<lambda>rc. Inr (d1, view_of_context rc))) = Inr (d', v)"
    using assms unfolding retry_assessment_def by (elim bind_resultE) blast
  have c: "get_run_context rid d = Some c" using c0 by simp
  obtain d0 retry where wrote0: "write_retry env now pr rid request c plan d = (d0, retry)" by fastforce
  then have "d0 = d'" using rest by (auto elim!: bind_resultE)
  then have wrote: "write_retry env now pr rid request c plan d = (d', retry)" using wrote0 by simp
  obtain config status q where p: "plan = (config, status, q)" by (cases plan) auto
  obtain d1 x where create: "create_retry (ae_uuid env) now c (Some config) status q d = (d1, x)" by fastforce
  have d': "db_runs d' = db_runs d1" "db_leases d' = db_leases d1"
    using wrote create by (auto simp: write_retry_def p)
  have "status \<in> {QUEUED, WAITING_FOR_DATA}"
    using plan by (auto simp: p retry_plan_def Let_def elim!: bind_resultE split: option.splits if_split_asm)
  then show ?thesis using create_retry_facts [OF create] d' context_run [OF c] by auto
qed

end
