(* ===== verification/Readiness.thy ===== *)
theory Readiness
  imports Assess
begin

text \<open>
  The data readiness worker (\<open>data_readiness/repository.py\<close>, \<open>data_readiness/service.py\<close>):
  a worker claims the next due requirement of a waiting run, asks StockLean how far the data
  is, and applies the answer under the claim's version and owner. Every apply is one
  transaction of its own, so other transactions may run between a claim and its apply.
\<close>

section \<open>Claims\<close>

record requirement_claim =
  qc_requirement :: nat
  qc_run :: nat
  qc_provider_request_id :: string
  qc_version :: int
  qc_lease_owner :: string

definition over_or_none :: "int \<Rightarrow> int option \<Rightarrow> bool" where
  "over_or_none now t = (case t of None \<Rightarrow> True | Some x \<Rightarrow> x \<le> now)"

definition requirement_due :: "int \<Rightarrow> db \<Rightarrow> requirement \<Rightarrow> bool" where
  "requirement_due now d q \<longleftrightarrow> dr_status q = ''waiting''
     \<and> list_ex (\<lambda>r. run_id r = dr_run q \<and> run_status r = WAITING_FOR_DATA) (db_runs d)
     \<and> over_or_none now (dr_next_poll_at q) \<and> over_or_none now (dr_lease_expires_at q)"

text \<open>PostgreSQL's ascending order: rows without a poll time come last.\<close>

definition poll_key :: "requirement \<Rightarrow> nat \<times> int \<times> int \<times> nat" where
  "poll_key q = (case dr_next_poll_at q of None \<Rightarrow> (1, 0, dr_created_at q, dr_id q)
     | Some t \<Rightarrow> (0, t, dr_created_at q, dr_id q))"

definition due_requirements :: "nat set \<Rightarrow> int \<Rightarrow> db \<Rightarrow> requirement list" where
  "due_requirements locked now d = sort_key poll_key
     (filter (\<lambda>q. requirement_due now d q \<and> dr_id q \<notin> locked) (db_requirements d))"

definition claim_due ::
    "nat set \<Rightarrow> string \<Rightarrow> int \<Rightarrow> int \<Rightarrow> db \<Rightarrow> db \<times> requirement_claim option" where
  "claim_due locked worker lease_seconds now d =
     (case due_requirements locked now d of
        [] \<Rightarrow> (d, None)
      | q # _ \<Rightarrow>
          (update_requirement (dr_id q) (\<lambda>x. x\<lparr>dr_lease_owner := Some worker,
             dr_lease_expires_at := Some (now + SECONDS lease_seconds), dr_version := dr_version x + 1\<rparr>) d,
           Some \<lparr>qc_requirement = dr_id q, qc_run = dr_run q,
             qc_provider_request_id = dr_provider_request_id q, qc_version = dr_version q + 1,
             qc_lease_owner = worker\<rparr>))"

text \<open>\<open>_locked\<close>: the row of the claim, if nobody has written it since.\<close>

definition locked_requirement :: "requirement_claim \<Rightarrow> db \<Rightarrow> requirement option" where
  "locked_requirement c d = find (\<lambda>q. dr_id q = qc_requirement c \<and> dr_version q = qc_version c
     \<and> dr_lease_owner q = Some (qc_lease_owner c)) (db_requirements d)"

section \<open>Answers of StockLean\<close>

record manifest_ref =
  mr_snapshot_id :: string
  mr_manifest_sha256 :: string
  mr_captured_at :: json
  mr_max_observation_date :: json

record research_error =
  rx_code :: string
  rx_message :: string
  rx_retryable :: bool
  rx_retry_after :: "int option"

record candidate_status =
  cst_readiness :: string
  cst_job :: "dict option"
  cst_manifest :: "manifest_ref option"
  cst_error :: "research_error option"

record manifest_item =
  mi_product :: string
  mi_instrument_id :: "int option"
  mi_source_batch_id :: "int option"
  mi_version_ref :: string
  mi_content_sha256 :: string
  mi_max_observation_date :: "int option"

record manifest =
  mf_snapshot_id :: string
  mf_manifest_sha256 :: string
  mf_candidate_request_id :: "int option"
  mf_analysis_date :: int
  mf_items :: "manifest_item list"

definition opt_int :: "int option \<Rightarrow> json" where
  "opt_int x = (case x of None \<Rightarrow> JNull | Some i \<Rightarrow> JInt i)"

definition manifest_item_dump :: "manifest_item \<Rightarrow> json" where
  "manifest_item_dump i = JObj [(''product'', JStr (mi_product i)),
     (''instrument_id'', opt_int (mi_instrument_id i)), (''source_batch_id'', opt_int (mi_source_batch_id i)),
     (''version_ref'', JStr (mi_version_ref i)), (''content_sha256'', JStr (mi_content_sha256 i)),
     (''max_observation_date'', opt_str (map_option iso_date (mi_max_observation_date i)))]"

definition manifest_item_key :: "manifest_item \<Rightarrow> string \<times> int \<times> string" where
  "manifest_item_key i = (mi_product i,
     case mi_instrument_id i of None \<Rightarrow> 0 | Some n \<Rightarrow> n, mi_version_ref i)"

definition calculate_manifest_sha256 :: "(string \<Rightarrow> string) \<Rightarrow> manifest \<Rightarrow> string option" where
  "calculate_manifest_sha256 sha m = (case mf_candidate_request_id m of
     None \<Rightarrow> None
   | Some n \<Rightarrow> Some (sha (json_dump_utf8 (JObj [(''candidate_request_id'', JInt n),
       (''analysis_date'', JStr (iso_date (mf_analysis_date m))),
       (''items'', JList (map manifest_item_dump (sort_key manifest_item_key (mf_items m))))]))))"

definition manifest_ref_dump :: "manifest_ref \<Rightarrow> dict" where
  "manifest_ref_dump m = [(''snapshot_id'', JStr (mr_snapshot_id m)),
     (''manifest_sha256'', JStr (mr_manifest_sha256 m)), (''captured_at'', mr_captured_at m),
     (''max_observation_date'', mr_max_observation_date m)]"

section \<open>Applying an answer\<close>

definition released :: "int option \<Rightarrow> requirement \<Rightarrow> requirement" where
  "released next_poll q = q\<lparr>dr_next_poll_at := next_poll, dr_lease_owner := None,
     dr_lease_expires_at := None, dr_version := dr_version q + 1\<rparr>"

definition progress_fingerprint :: "(string \<Rightarrow> string) \<Rightarrow> dict \<Rightarrow> string" where
  "progress_fingerprint sha progress = sha (json_dumps (JObj progress))"

definition with_locked :: "requirement_claim \<Rightarrow> (requirement \<Rightarrow> db \<times> bool) \<Rightarrow> db \<Rightarrow> db \<times> bool" where
  "with_locked c f d = (case locked_requirement c d of None \<Rightarrow> (d, False) | Some q \<Rightarrow> f q)"

definition apply_waiting ::
    "(string \<Rightarrow> string) \<Rightarrow> int \<Rightarrow> requirement_claim \<Rightarrow> candidate_status \<Rightarrow> int \<Rightarrow> db \<Rightarrow> db \<times> bool" where
  "apply_waiting sha now c status next_poll d = with_locked c (\<lambda>q.
     let progress = (case cst_job status of None \<Rightarrow> [] | Some j \<Rightarrow> j);
         fingerprint = progress_fingerprint sha progress;
         d1 = update_requirement (dr_id q) (\<lambda>x. released (Some next_poll)
                (x\<lparr>dr_progress := progress, dr_fingerprint := Some fingerprint\<rparr>)) d
     in (if Some fingerprint \<noteq> dr_fingerprint q
         then append_event now (qc_run c) ''assessment.data_progress'' [(''progress'', JObj progress)] d1
         else d1, True)) d"

definition ready_requirement :: "manifest \<Rightarrow> requirement \<Rightarrow> requirement" where
  "ready_requirement m q = released None (q\<lparr>dr_status := ''ready'', dr_progress := [(''stage'', JStr ''ready'')],
     dr_manifest_snapshot_id := Some (mf_snapshot_id m), dr_manifest_sha256 := Some (mf_manifest_sha256 m)\<rparr>)"

definition pin_manifest :: "manifest_ref \<Rightarrow> request \<Rightarrow> request" where
  "pin_manifest m q = q\<lparr>req_config := dict_set ''data_manifest'' (JObj (manifest_ref_dump m)) (req_config q)\<rparr>"

definition apply_ready ::
    "int \<Rightarrow> requirement_claim \<Rightarrow> manifest_ref \<Rightarrow> manifest \<Rightarrow> db \<Rightarrow> db \<times> bool" where
  "apply_ready now c ref m d = with_locked c (\<lambda>q.
     case find_run (qc_run c) d of
       None \<Rightarrow> (d, False)
     | Some r \<Rightarrow>
         (if run_status r \<noteq> WAITING_FOR_DATA then (d, False)
          else (case find_request (run_request r) d of
            None \<Rightarrow> (d, False)
          | Some request \<Rightarrow>
              (let d1 = d\<lparr>db_requests := update_row req_id (run_request r) (pin_manifest ref) (db_requests d)\<rparr>;
                   d2 = update_requirement (dr_id q) (ready_requirement m) d1;
                   d3 = set_status (run_id r) QUEUED d2;
                   d4 = append_event now (run_id r) ''assessment.data_ready''
                     [(''snapshot_id'', JStr (mf_snapshot_id m)),
                      (''manifest_sha256'', JStr (mf_manifest_sha256 m))] d3
               in (append_event now (run_id r) ''assessment.queued'' [] d4, True))))) d"

definition ended_run :: "int \<Rightarrow> run_status \<Rightarrow> string \<Rightarrow> string \<Rightarrow> run \<Rightarrow> run" where
  "ended_run now status code summary r = r\<lparr>run_status := status, run_error_code := Some code,
     run_error_summary := Some (take 500 summary), run_finished_at := Some now,
     run_version := run_version r + 1\<rparr>"

text \<open>\<open>_finish\<close>\<close>

definition finish_requirement ::
    "int \<Rightarrow> requirement_claim \<Rightarrow> run_status \<Rightarrow> string \<Rightarrow> string \<Rightarrow> string \<Rightarrow> db \<Rightarrow> db \<times> bool" where
  "finish_requirement now c status requirement_status code summary d = with_locked c (\<lambda>q.
     case find_run (qc_run c) d of
       None \<Rightarrow> (d, False)
     | Some r \<Rightarrow>
         (if run_status r \<noteq> WAITING_FOR_DATA then (d, False)
          else
            (let d1 = update_requirement (dr_id q) (\<lambda>x. released None (x\<lparr>dr_status := requirement_status,
                   dr_progress := [(''stage'', JStr requirement_status), (''error_code'', JStr code)]\<rparr>)) d;
                 d2 = update_run (run_id r) (ended_run now status code summary) d1
             in (append_event now (run_id r) (''assessment.'' @ requirement_status)
                   [(''error_code'', JStr code)] d2, True)))) d"

definition apply_rejected :: "int \<Rightarrow> requirement_claim \<Rightarrow> candidate_status \<Rightarrow> db \<Rightarrow> db \<times> bool" where
  "apply_rejected now c status d = finish_requirement now c FAILED ''failed''
     (case cst_error status of None \<Rightarrow> ''data_preparation_failed'' | Some e \<Rightarrow> rx_code e)
     (case cst_error status of None \<Rightarrow> ''StockLean data preparation failed'' | Some e \<Rightarrow> rx_message e) d"

definition apply_attention :: "int \<Rightarrow> requirement_claim \<Rightarrow> string \<Rightarrow> db \<Rightarrow> db \<times> bool" where
  "apply_attention now c code d = finish_requirement now c NEEDS_ATTENTION ''needs_attention'' code
     ''StockLean manifest integrity verification failed'' d"

definition release_transient :: "requirement_claim \<Rightarrow> string \<Rightarrow> int \<Rightarrow> db \<Rightarrow> db \<times> bool" where
  "release_transient c code next_poll d = with_locked c (\<lambda>q.
     (update_requirement (dr_id q) (\<lambda>x. released (Some next_poll)
        (x\<lparr>dr_progress := dict_set ''transient_error'' (JStr code) (dr_progress x)\<rparr>)) d, True)) d"

section \<open>The number of the request\<close>

section \<open>Reconciliation\<close>

text \<open>
  The decision of \<open>reconcile_one\<close> between the claim and the apply. \<open>ask\<close> and \<open>fetch\<close> are
  the two requests: an error of the client, or a validated answer; the outer error is an
  exception \<open>reconcile_one\<close> does not catch.
\<close>

datatype readiness_action =
    StillWaiting candidate_status int
  | Transient string int
  | Rejected candidate_status
  | Attention string
  | Verified manifest_ref manifest

type_synonym status_client = "int \<Rightarrow> (stocklean_error + candidate_status) result"
type_synonym manifest_client = "string \<Rightarrow> (stocklean_error + manifest) result"

definition verify_manifest :: "(string \<Rightarrow> string) \<Rightarrow> manifest_ref \<Rightarrow> manifest \<Rightarrow> readiness_action" where
  "verify_manifest sha ref m =
     (if mf_manifest_sha256 m \<noteq> mr_manifest_sha256 ref then Attention ''manifest_hash_mismatch''
      else if calculate_manifest_sha256 sha m \<noteq> Some (mf_manifest_sha256 m)
      then Attention ''manifest_content_hash_mismatch'' else Verified ref m)"

definition decide_status ::
    "(string \<Rightarrow> string) \<Rightarrow> manifest_client \<Rightarrow> int \<Rightarrow> candidate_status \<Rightarrow> readiness_action result" where
  "decide_status sha fetch next_poll s =
     (if cst_readiness s = ''waiting'' then Inr (StillWaiting s next_poll)
      else if cst_readiness s = ''rejected'' then
        Inr (case cst_error s of None \<Rightarrow> Rejected s
             | Some e \<Rightarrow> (if rx_retryable e
                 then Transient (rx_code e) (case rx_retry_after e of None \<Rightarrow> next_poll | Some t \<Rightarrow> t)
                 else Rejected s))
      else (case cst_manifest s of
        None \<Rightarrow> Inr (Attention ''manifest_reference_missing'')
      | Some ref \<Rightarrow> bind_result (fetch (mr_snapshot_id ref)) (\<lambda>answer. case answer of
          Inl e \<Rightarrow> Inr (Transient (se_code e) next_poll)
        | Inr m \<Rightarrow> Inr (verify_manifest sha ref m))))"

definition decide_claim ::
    "(string \<Rightarrow> string) \<Rightarrow> status_client \<Rightarrow> manifest_client \<Rightarrow> int \<Rightarrow> requirement_claim
       \<Rightarrow> readiness_action result" where
  "decide_claim sha ask fetch next_poll c =
     bind_result (int_of_text (qc_provider_request_id c)) (\<lambda>number.
     bind_result (ask number) (\<lambda>answer. case answer of
       Inl e \<Rightarrow> Inr (Transient (se_code e) next_poll)
     | Inr s \<Rightarrow> decide_status sha fetch next_poll s))"

fun apply_action ::
    "(string \<Rightarrow> string) \<Rightarrow> int \<Rightarrow> requirement_claim \<Rightarrow> readiness_action \<Rightarrow> db \<Rightarrow> db \<times> bool" where
  "apply_action sha now c (StillWaiting s t) d = apply_waiting sha now c s t d"
| "apply_action sha now c (Transient code t) d = release_transient c code t d"
| "apply_action sha now c (Rejected s) d = apply_rejected now c s d"
| "apply_action sha now c (Attention code) d = apply_attention now c code d"
| "apply_action sha now c (Verified ref m) d = apply_ready now c ref m d"

text \<open>
  \<open>reconcile_one\<close>: the claim is committed first, so it stays when the requests raise;
  \<open>others\<close> is what other transactions commit while the requests are under way. The intervals
  are those of the constructor, \<open>max(2.0, poll_seconds)\<close> and \<open>max(15, lease_seconds)\<close>.
\<close>

definition reconcile_one ::
    "(string \<Rightarrow> string) \<Rightarrow> status_client \<Rightarrow> manifest_client \<Rightarrow> (db \<Rightarrow> db) \<Rightarrow> nat set \<Rightarrow> string
       \<Rightarrow> int \<Rightarrow> int \<Rightarrow> int \<Rightarrow> db \<Rightarrow> db \<times> bool result" where
  "reconcile_one sha ask fetch others locked worker poll_micros lease_seconds now d =
     (case claim_due locked worker (max 15 lease_seconds) now d of
        (d1, None) \<Rightarrow> (d1, Inr False)
      | (d1, Some c) \<Rightarrow>
          (case decide_claim sha ask fetch (now + max (SECONDS 2) poll_micros) c of
             Inl e \<Rightarrow> (others d1, Inl e)
           | Inr a \<Rightarrow> (fst (apply_action sha now c a (others d1)), Inr True)))"

end
