(* ===== verification/ReadinessFacts.thy ===== *)
theory ReadinessFacts
  imports Readiness AssessFacts
begin

text \<open>
  What the data readiness worker promises: the request number it asks for is the one the
  submission stored, a claim stops working as soon as its requirement has been written again,
  and a run leaves the waiting state for the queue only with a manifest whose hash was
  recomputed, in the form the admission asks for.
\<close>

section \<open>The number of the request\<close>

definition shift_digit :: "int \<Rightarrow> char \<Rightarrow> int" where
  "shift_digit a c = 10 * a + (of_char c - 48)"

lemma digits_value_all: "list_all is_digit s \<Longrightarrow> digits_value a s = Some (foldl shift_digit a s)"
  by (induction s arbitrary: a) (auto simp: shift_digit_def)

lemma is_digit_char [simp]: "n < 10 \<Longrightarrow> is_digit (char_of (48 + (n::nat)))"
  by (simp add: is_digit_def Let_def)

lemma nat_digits_all: "list_all is_digit (nat_digits n)"
  by (induction n rule: nat_digits.induct) (subst nat_digits.simps, auto)

lemma nat_digits_nonempty [simp]: "nat_digits n \<noteq> []"
  by (subst nat_digits.simps) simp

lemma shift_digit_char:
  assumes "n < 10"
  shows "shift_digit a (char_of (48 + n)) = 10 * a + int n"
proof -
  have "(of_char (char_of (48 + n) :: char) :: int) = int (of_char (char_of (48 + n) :: char))" by (simp only: of_nat_of_char)
  then show ?thesis using assms by (simp add: shift_digit_def)
qed

lemma nat_digits_value: "foldl shift_digit 0 (nat_digits n) = int n"
proof (induction n rule: nat_digits.induct)
  case (1 n)
  show ?case
  proof (cases "n < 10")
    case True
    then show ?thesis by (subst nat_digits.simps) (simp add: shift_digit_char)
  next
    case False
    then have "nat_digits n = nat_digits (n div 10) @ [char_of (48 + n mod 10)]"
      by (subst nat_digits.simps) simp
    then have "foldl shift_digit 0 (nat_digits n) = 10 * int (n div 10) + int (n mod 10)"
      using 1 False by (simp add: shift_digit_char)
    also have "\<dots> = int (10 * (n div 10) + n mod 10)" by (simp only: of_nat_add of_nat_mult of_nat_numeral)
    finally show ?thesis by (simp only: mult_div_mod_eq)
  qed
qed

lemma unsigned_nat_digits: "unsigned_int (nat_digits n) = Some (int n)"
proof -
  obtain c cs where c: "nat_digits n = c # cs" by (cases "nat_digits n") auto
  have "is_digit c" using nat_digits_all [of n] c by simp
  moreover have "digits_value 0 (nat_digits n) = Some (int n)"
    by (simp only: digits_value_all [OF nat_digits_all] nat_digits_value)
  ultimately show ?thesis by (simp add: unsigned_int_def c)
qed

lemma str_strip_nonspace:
  assumes "list_all (\<lambda>c. \<not> is_space c) s"
  shows "str_strip s = s"
proof -
  have "dropWhile is_space t = t" if "list_all (\<lambda>c. \<not> is_space c) t" for t
    using that by (cases t) auto
  with assms show ?thesis by (simp add: str_strip_def)
qed

lemma digit_not_space: "is_digit c \<Longrightarrow> \<not> is_space c"
  by (auto simp: is_digit_def is_space_def Let_def)

lemma digit_not_sign: "is_digit c \<Longrightarrow> c \<noteq> CHR ''-'' \<and> c \<noteq> CHR ''+''"
  by (auto simp: is_digit_def)

lemma signed_nat_digits: "signed_int (nat_digits n) = Some (int n)"
proof -
  obtain c cs where c: "nat_digits n = c # cs" by (cases "nat_digits n") auto
  have "is_digit c" using nat_digits_all [of n] c by simp
  then show ?thesis
    using digit_not_sign unsigned_nat_digits [of n] by (simp add: signed_int_def c)
qed

lemma int_str_strip: "str_strip (int_str n) = int_str n"
proof (rule str_strip_nonspace)
  have "list_all (\<lambda>c. \<not> is_space c) (nat_digits k)" for k
    using nat_digits_all [of k] by (auto simp: list_all_iff digit_not_space)
  then show "list_all (\<lambda>c. \<not> is_space c) (int_str n)" by (simp add: int_str_def is_space_def)
qed

lemma int_of_int_str: "int_of_text (int_str n) = Inr n"
proof -
  have "signed_int (int_str n) = Some n"
  proof (cases "n < 0")
    case True
    then show ?thesis by (simp add: int_str_def signed_int_def unsigned_nat_digits)
  next
    case False
    then show ?thesis by (simp add: int_str_def signed_nat_digits)
  qed
  then show ?thesis by (simp add: int_of_text_def int_str_strip)
qed

section \<open>Fencing\<close>

text \<open>Identifiers of requirements are drawn, never repeated.\<close>

definition requirements_ok :: "db \<Rightarrow> bool" where
  "requirements_ok d \<longleftrightarrow> inj (db_uuid d) \<and> unique_keys dr_id (db_requirements d)
     \<and> dr_id ` set (db_requirements d) \<subseteq> db_uuid d ` {..<db_drawn d}"

text \<open>
  The transactions that can touch the requirements: claims, applied answers, the cancellation
  of a run, the opening of a requirement, the deletion of a run; every other transaction
  leaves the table alone and may only draw identifiers.
\<close>

inductive requirement_step :: "db \<Rightarrow> db \<Rightarrow> bool" where
  rq_claim: "claim_due locked worker s now d = (d', c) \<Longrightarrow> requirement_step d d'"
| rq_apply: "apply_action sha now c a d = (d', ok) \<Longrightarrow> requirement_step d d'"
| rq_cancel: "requirement_step d (cancel_data_requirement rid d)"
| rq_open: "requirement_step d (add_requirement now rid q d)"
| rq_delete: "requirement_step d (delete_run_rows rid d)"
| rq_other: "db_requirements d' = db_requirements d \<Longrightarrow> db_uuid d' = db_uuid d \<Longrightarrow>
    db_drawn d \<le> db_drawn d' \<Longrightarrow> requirement_step d d'"

text \<open>Every version of the requirement from \<open>k\<close> on.\<close>

definition version_from :: "nat \<Rightarrow> int \<Rightarrow> db \<Rightarrow> bool" where
  "version_from i k d \<longleftrightarrow> requirements_ok d \<and> i \<in> db_uuid d ` {..<db_drawn d}
     \<and> list_all (\<lambda>q. dr_id q = i \<longrightarrow> k \<le> dr_version q) (db_requirements d)"

text \<open>One write of a requirement: the version grows by one.\<close>

definition version_write :: "nat \<Rightarrow> db \<Rightarrow> db \<Rightarrow> bool" where
  "version_write i d d' \<longleftrightarrow> db_uuid d' = db_uuid d \<and> db_drawn d \<le> db_drawn d'
     \<and> (\<exists>g. db_requirements d' = update_row dr_id i g (db_requirements d)
          \<and> (\<forall>x. dr_id (g x) = dr_id x \<and> dr_version (g x) = dr_version x + 1))"

lemma version_writeI:
  assumes "db_requirements d' = update_row dr_id i g (db_requirements d)" and "db_uuid d' = db_uuid d"
    and "db_drawn d \<le> db_drawn d'" and "\<And>x. dr_id (g x) = dr_id x \<and> dr_version (g x) = dr_version x + 1"
  shows "version_write i d d'"
  using assms unfolding version_write_def by blast

lemma update_requirement_frame [simp]:
  "db_runs (update_requirement i f d) = db_runs d" "db_requests (update_requirement i f d) = db_requests d"
  "db_requirements (update_requirement i f d) = update_row dr_id i f (db_requirements d)"
  "db_uuid (update_requirement i f d) = db_uuid d" "db_drawn (update_requirement i f d) = db_drawn d"
  by (simp_all add: update_requirement_def)

lemma claim_due_cases:
  assumes "claim_due locked worker s now d = (d', c)"
  obtains "c = None" and "d' = d"
  | q where "q \<in> set (db_requirements d)" and "version_write (dr_id q) d d'"
      and "db_runs d' = db_runs d" and "db_requests d' = db_requests d"
      and "requirement_due now d q" and "dr_id q \<notin> locked"
      and "c = Some \<lparr>qc_requirement = dr_id q, qc_run = dr_run q,
        qc_provider_request_id = dr_provider_request_id q, qc_version = dr_version q + 1, qc_lease_owner = worker\<rparr>"
proof (cases "due_requirements locked now d")
  case Nil
  then show ?thesis using assms that(1) by (simp add: claim_due_def)
next
  case (Cons q qs)
  then have "q \<in> set (due_requirements locked now d)" by simp
  then have "q \<in> set (db_requirements d)" "requirement_due now d q" "dr_id q \<notin> locked"
    by (auto simp: due_requirements_def)
  moreover have "version_write (dr_id q) d d'"
    using assms Cons by (intro version_writeI) (auto simp: claim_due_def)
  ultimately show ?thesis using assms Cons that(2) by (auto simp: claim_due_def)
qed

lemma locked_requirement_Some:
  "locked_requirement c d = Some q \<Longrightarrow> q \<in> set (db_requirements d) \<and> dr_id q = qc_requirement c
     \<and> dr_version q = qc_version c \<and> dr_lease_owner q = Some (qc_lease_owner c)"
  by (auto simp: locked_requirement_def find_Some_iff)

lemma released_frame [simp]:
  "dr_id (released t q) = dr_id q" "dr_version (released t q) = dr_version q + 1"
  by (simp_all add: released_def)

lemma ready_requirement_frame [simp]:
  "dr_id (ready_requirement m q) = dr_id q" "dr_version (ready_requirement m q) = dr_version q + 1"
  by (simp_all add: ready_requirement_def)

lemma set_status_rows [simp]:
  "db_requirements (set_status rid st d) = db_requirements d" "db_requests (set_status rid st d) = db_requests d"
  "db_uuid (set_status rid st d) = db_uuid d" "db_drawn (set_status rid st d) = db_drawn d"
  by (simp_all add: set_status_def)

text \<open>An applied answer is one write of the claimed row, or nothing at all.\<close>

lemma with_locked_cases:
  assumes "with_locked c f d = (d', ok)"
  obtains "ok = False" and "d' = d"
  | q where "locked_requirement c d = Some q" and "f q = (d', ok)"
  using assms that by (auto simp: with_locked_def split: option.splits)

lemma finish_requirement_cases:
  assumes "finish_requirement now c st rst code summary d = (d', ok)"
  shows "(\<not> ok \<and> d' = d) \<or> (ok \<and> locked_requirement c d \<noteq> None \<and> version_write (qc_requirement c) d d'
     \<and> (\<exists>r. find_run (qc_run c) d = Some r \<and> run_status r = WAITING_FOR_DATA
        \<and> db_runs d' = update_row run_id (run_id r) (ended_run now st code summary) (db_runs d)))"
proof (cases rule: with_locked_cases [OF assms [unfolded finish_requirement_def]])
  case 1
  then show ?thesis by simp
next
  case (2 q)
  have q: "dr_id q = qc_requirement c" using locked_requirement_Some [OF 2(1)] by simp
  show ?thesis
  proof (cases "(\<exists>r. find_run (qc_run c) d = Some r \<and> run_status r = WAITING_FOR_DATA)")
    case False
    then show ?thesis using 2 by (auto split: option.splits if_splits)
  next
    case True
    then have "version_write (qc_requirement c) d d'"
      using 2 q by (intro version_writeI) (auto simp: Let_def)
    then show ?thesis using 2 True by (auto simp: Let_def)
  qed
qed

lemma apply_ready_cases:
  assumes "apply_ready now c ref m d = (d', ok)"
  shows "(\<not> ok \<and> d' = d) \<or> (ok \<and> locked_requirement c d \<noteq> None \<and> version_write (qc_requirement c) d d'
     \<and> (\<exists>r. find_run (qc_run c) d = Some r \<and> run_status r = WAITING_FOR_DATA
        \<and> find_request (run_request r) d \<noteq> None
        \<and> db_runs d' = db_runs (set_status (run_id r) QUEUED d)
        \<and> db_requests d' = update_row req_id (run_request r) (pin_manifest ref) (db_requests d)))"
proof (cases rule: with_locked_cases [OF assms [unfolded apply_ready_def]])
  case 1
  then show ?thesis by simp
next
  case (2 q)
  have q: "dr_id q = qc_requirement c" using locked_requirement_Some [OF 2(1)] by simp
  show ?thesis
  proof (cases "\<exists>r. find_run (qc_run c) d = Some r \<and> run_status r = WAITING_FOR_DATA
      \<and> find_request (run_request r) d \<noteq> None")
    case False
    then show ?thesis using 2 by (auto split: option.splits if_splits)
  next
    case True
    then obtain r request where r: "find_run (qc_run c) d = Some r" "run_status r = WAITING_FOR_DATA"
      and request: "find_request (run_request r) d = Some request" by auto
    have "version_write (qc_requirement c) d d'"
      using 2 q r request by (intro version_writeI [where g = "ready_requirement m"]) (auto simp: Let_def)
    moreover have "ok" and "db_runs d' = db_runs (set_status (run_id r) QUEUED d)"
      and "db_requests d' = update_row req_id (run_request r) (pin_manifest ref) (db_requests d)"
      using 2 r request by (auto simp: Let_def set_status_def)
    ultimately show ?thesis using 2 r request by simp
  qed
qed

lemma apply_waiting_cases:
  assumes "apply_waiting sha now c st t d = (d', ok)"
  shows "(\<not> ok \<and> d' = d) \<or> (ok \<and> locked_requirement c d \<noteq> None \<and> version_write (qc_requirement c) d d'
     \<and> db_runs d' = db_runs d)"
proof (cases rule: with_locked_cases [OF assms [unfolded apply_waiting_def]])
  case 1
  then show ?thesis by simp
next
  case (2 q)
  have q: "dr_id q = qc_requirement c" using locked_requirement_Some [OF 2(1)] by simp
  have "version_write (qc_requirement c) d d'"
    using 2(2) q by (intro version_writeI) (auto simp: Let_def split: if_split_asm)
  then show ?thesis using 2 by (auto simp: Let_def split: if_split_asm)
qed

lemma release_transient_cases:
  assumes "release_transient c code t d = (d', ok)"
  shows "(\<not> ok \<and> d' = d) \<or> (ok \<and> locked_requirement c d \<noteq> None \<and> version_write (qc_requirement c) d d'
     \<and> db_runs d' = db_runs d)"
proof (cases rule: with_locked_cases [OF assms [unfolded release_transient_def]])
  case 1
  then show ?thesis by simp
next
  case (2 q)
  have q: "dr_id q = qc_requirement c" using locked_requirement_Some [OF 2(1)] by simp
  have "version_write (qc_requirement c) d d'"
    using 2(2) q by (intro version_writeI) auto
  then show ?thesis using 2 by auto
qed

lemma apply_action_cases:
  assumes "apply_action sha now c a d = (d', ok)"
  shows "(\<not> ok \<and> d' = d) \<or> (ok \<and> locked_requirement c d \<noteq> None \<and> version_write (qc_requirement c) d d')"
  using assms
  by (cases a) (auto simp: apply_rejected_def apply_attention_def
    dest: apply_waiting_cases release_transient_cases finish_requirement_cases apply_ready_cases)

section \<open>Versions\<close>

lemma version_write_ok:
  assumes "version_write j d d'" and "version_from i k d"
  shows "version_from i (if i = j then k + 1 else k) d'"
proof -
  obtain g where rows: "db_requirements d' = update_row dr_id j g (db_requirements d)"
    and g: "\<And>x. dr_id (g x) = dr_id x \<and> dr_version (g x) = dr_version x + 1"
    and u: "db_uuid d' = db_uuid d" "db_drawn d \<le> db_drawn d'"
    using assms(1) unfolding version_write_def by blast
  have "map dr_id (db_requirements d') = map dr_id (db_requirements d)"
    unfolding rows by (rule map_key_update_row) (simp add: g)
  then have "unique_keys dr_id (db_requirements d') = unique_keys dr_id (db_requirements d)"
    and "dr_id ` set (db_requirements d') = dr_id ` set (db_requirements d)"
    by (simp_all add: unique_keys_def flip: set_map)
  moreover have "db_uuid d ` {..<db_drawn d} \<subseteq> db_uuid d ` {..<db_drawn d'}" using u(2) by (intro image_mono) auto
  moreover have "list_all (\<lambda>q. dr_id q = i \<longrightarrow> (if i = j then k + 1 else k) \<le> dr_version q) (db_requirements d')"
    using assms(2) by (auto simp: version_from_def rows set_update_row list_all_iff g)
  ultimately show ?thesis
    using assms(2) u by (auto simp: version_from_def requirements_ok_def)
qed

lemma version_from_weaken: "version_from i (k + 1) d \<Longrightarrow> version_from i k d"
  by (auto simp: version_from_def list_all_iff)

lemma version_from_same:
  assumes "version_from i k d" and "db_requirements d' = db_requirements d" and "db_uuid d' = db_uuid d"
    and "db_drawn d \<le> db_drawn d'"
  shows "version_from i k d'"
proof -
  have "db_uuid d ` {..<db_drawn d} \<subseteq> db_uuid d ` {..<db_drawn d'}" using assms(4) by (intro image_mono) auto
  with assms show ?thesis by (auto simp: version_from_def requirements_ok_def)
qed

lemma version_write_keeps: "version_write j d d' \<Longrightarrow> version_from i k d \<Longrightarrow> version_from i k d'"
  using version_write_ok [of j d d' i k] version_from_weaken by (auto split: if_split_asm)

lemma drawn_fresh:
  assumes "inj (db_uuid d)" and "i \<in> db_uuid d ` {..<db_drawn d}"
  shows "uuid4 d \<noteq> i"
  using assms by (auto simp: uuid4_def inj_eq)

lemma fresh_requirement:
  assumes "requirements_ok d" and "x \<in> set (db_requirements d)"
  shows "dr_id x \<noteq> uuid4 d"
proof -
  have "inj (db_uuid d)" and "dr_id x \<in> db_uuid d ` {..<db_drawn d}"
    using assms unfolding requirements_ok_def by blast+
  from drawn_fresh [OF this] show ?thesis by simp
qed

lemma add_requirement_frame [simp]:
  "db_uuid (add_requirement now rid q d) = db_uuid d" "db_drawn (add_requirement now rid q d) = Suc (db_drawn d)"
  "\<exists>x. db_requirements (add_requirement now rid q d) = db_requirements d @ [x] \<and> dr_id x = uuid4 d"
  by (simp_all add: add_requirement_def)

lemma add_requirement_version:
  assumes "version_from i k d"
  shows "version_from i k (add_requirement now rid q d)"
proof -
  have ok: "requirements_ok d" and i: "i \<in> db_uuid d ` {..<db_drawn d}" using assms by (auto simp: version_from_def)
  have inj: "inj (db_uuid d)" using ok by (simp add: requirements_ok_def)
  have "uuid4 d \<notin> dr_id ` set (db_requirements d)"
  proof
    assume "uuid4 d \<in> dr_id ` set (db_requirements d)"
    then obtain x where "x \<in> set (db_requirements d)" "uuid4 d = dr_id x" ..
    with fresh_requirement [OF ok this(1)] show False by simp
  qed
  moreover obtain x where x: "db_requirements (add_requirement now rid q d) = db_requirements d @ [x]" "dr_id x = uuid4 d"
    using add_requirement_frame(3) by blast
  moreover have "db_uuid d ` {..<Suc (db_drawn d)} = insert (uuid4 d) (db_uuid d ` {..<db_drawn d})"
    by (simp add: lessThan_Suc uuid4_def)
  ultimately have "requirements_ok (add_requirement now rid q d)"
    using ok by (simp add: requirements_ok_def unique_keys_snoc subset_insertI2)
  moreover have "i \<in> db_uuid d ` {..<Suc (db_drawn d)}" using i by auto
  ultimately show ?thesis
    using assms drawn_fresh [OF inj i] x by (simp add: version_from_def)
qed

lemma delete_run_rows_version:
  assumes "version_from i k d"
  shows "version_from i k (delete_run_rows rid d)"
proof -
  have "db_uuid (delete_run_rows rid d) = db_uuid d" "db_drawn (delete_run_rows rid d) = db_drawn d"
    by (simp_all add: delete_run_rows_def)
  with assms show ?thesis
    by (auto simp: version_from_def requirements_ok_def delete_run_rows_children unique_keys_delete_where list_all_iff)
qed

lemma cancel_data_requirement_version:
  assumes "version_from i k d"
  shows "version_from i k (cancel_data_requirement rid d)"
proof -
  have "cancel_data_requirement rid d = d \<or> (\<exists>j. version_write j d (cancel_data_requirement rid d))"
    unfolding cancel_data_requirement_def
    by (auto split: option.split intro!: exI version_writeI)
  with assms version_write_keeps show ?thesis by auto
qed

interpretation requirement_versions: transition_system "version_from i k" requirement_step "version_from i k" for i k
proof (unfold_locales)
  fix d d'
  assume ok: "version_from i k d" and "requirement_step d d'"
  from this(2) show "version_from i k d'"
  proof cases
    case (rq_claim locked worker s now c)
    then show ?thesis using ok version_write_keeps by (blast elim: claim_due_cases)
  next
    case (rq_apply sha now c a ok')
    then show ?thesis using ok version_write_keeps apply_action_cases by blast
  next
    case (rq_cancel rid)
    then show ?thesis using ok cancel_data_requirement_version by simp
  next
    case (rq_open now rid q)
    then show ?thesis using ok add_requirement_version by simp
  next
    case (rq_delete rid)
    then show ?thesis using ok delete_run_rows_version by simp
  next
    case rq_other
    then show ?thesis using ok version_from_same by simp
  qed
qed

text \<open>The events that outdate a claim: an answer was applied to its requirement, or it was claimed again.\<close>

inductive overtaken :: "nat \<Rightarrow> db \<Rightarrow> db \<Rightarrow> bool" where
  ov_applied: "apply_action sha now c a d = (d', True) \<Longrightarrow> overtaken (qc_requirement c) d d'"
| ov_claimed: "claim_due locked worker s now d = (d', Some c) \<Longrightarrow> overtaken (qc_requirement c) d d'"

lemma overtaken_write: "overtaken i d d' \<Longrightarrow> version_write i d d'"
proof (induction rule: overtaken.induct)
  case (ov_applied sha now c a d d')
  then show ?case using apply_action_cases by blast
next
  case (ov_claimed locked worker s now d d' c)
  from ov_claimed show ?case by (rule claim_due_cases) auto
qed

lemma outdated_claim:
  assumes "version_from (qc_requirement c) (qc_version c + 1) d"
  shows "apply_action sha now c a d = (d, False)"
proof -
  have "locked_requirement c d = None"
  proof (cases "locked_requirement c d")
    case (Some q)
    then show ?thesis using locked_requirement_Some [OF Some] assms by (auto simp: version_from_def list_all_iff)
  qed
  then show ?thesis
    by (cases a) (simp_all add: apply_waiting_def release_transient_def apply_rejected_def apply_attention_def
      finish_requirement_def apply_ready_def with_locked_def)
qed

lemma claim_version:
  assumes "claim_due locked worker s now d = (d', Some c)" and "requirements_ok d"
  shows "version_from (qc_requirement c) (qc_version c) d'"
proof (rule claim_due_cases [OF assms(1)])
  fix q
  assume q: "q \<in> set (db_requirements d)" "version_write (dr_id q) d d'"
    and c: "Some c = Some \<lparr>qc_requirement = dr_id q, qc_run = dr_run q,
        qc_provider_request_id = dr_provider_request_id q, qc_version = dr_version q + 1, qc_lease_owner = worker\<rparr>"
  have "unique_keys dr_id (db_requirements d)" using assms(2) by (simp add: requirements_ok_def)
  then have "version_from (dr_id q) (dr_version q) d"
    using assms(2) q(1) by (auto simp: version_from_def requirements_ok_def list_all_iff unique_keys_def distinct_map inj_on_def)
  from version_write_ok [OF q(2) this] show ?thesis using c by simp
qed simp

text \<open>
  C20. A claim of the readiness worker is fenced: once an answer has been applied to its
  requirement, or the requirement has been claimed again after the lease ran out, applying
  the claim in any later state changes nothing and returns \<open>False\<close>, whatever claims, answers,
  cancellations, submissions, deletions and other transactions come in between.
\<close>

theorem readiness_claim_fenced:
  assumes "requirements_ok d0" and "claim_due locked worker s now d0 = (d1, Some c)"
    and "requirement_step\<^sup>*\<^sup>* d1 d2" and "overtaken (qc_requirement c) d2 d3" and "requirement_step\<^sup>*\<^sup>* d3 d4"
  shows "apply_action sha now' c a d4 = (d4, False)"
proof -
  have "version_from (qc_requirement c) (qc_version c) d2"
    by (rule requirement_versions.steps_inv [OF assms(3) claim_version [OF assms(2,1)]])
  from version_write_ok [OF overtaken_write [OF assms(4)] this]
  have "version_from (qc_requirement c) (qc_version c + 1) d3" by simp
  then have "version_from (qc_requirement c) (qc_version c + 1) d4"
    by (rule requirement_versions.steps_inv [OF assms(5)])
  then show ?thesis by (rule outdated_claim)
qed

definition demo_requirement :: data_requirement where
  "demo_requirement = \<lparr>dq_provider_request_id = ''17'', dq_external_request_key = ''k'',
     dq_required_products = [''p''], dq_progress = []\<rparr>"

definition waiting_db :: db where
  "waiting_db = add_requirement 0 4 demo_requirement (demo_db WAITING_FOR_DATA)"

lemma waiting_db_ok: "requirements_ok waiting_db"
proof -
  have "db_uuid waiting_db = (\<lambda>n. n + 4)" "db_drawn waiting_db = 2" "map dr_id (db_requirements waiting_db) = [5]"
    by (simp_all add: waiting_db_def add_requirement_def demo_db_def uuid4_def empty_db_def)
  moreover from this(3) have "dr_id ` set (db_requirements waiting_db) = {5}" by (metis list.set(1,2) list.set_map)
  moreover have "5 \<in> (\<lambda>n. n + 4) ` {..<2::nat}" by (rule image_eqI [of _ _ 1]) simp_all
  ultimately show ?thesis by (simp add: requirements_ok_def unique_keys_def)
qed

lemma readiness_claim_fenced_witness:
  "\<exists>d1 c d3. claim_due {} ''w'' 30 1 waiting_db = (d1, Some c)
     \<and> apply_action id 2 c (Transient ''x'' 9) d1 = (d3, True) \<and> apply_action id 3 c (Attention ''y'') d3 = (d3, False)"
proof -
  have "(case claim_due {} ''w'' 30 1 waiting_db of
      (d1, Some c) \<Rightarrow> snd (apply_action id 2 c (Transient ''x'' 9) d1) | _ \<Rightarrow> False)" by code_simp
  then obtain d1 c where c: "claim_due {} ''w'' 30 1 waiting_db = (d1, Some c)"
    and "snd (apply_action id 2 c (Transient ''x'' 9) d1)" by (auto split: prod.splits option.splits)
  then obtain d3 where a: "apply_action id 2 c (Transient ''x'' 9) d1 = (d3, True)" by (metis prod.collapse)
  have "apply_action id 3 c (Attention ''y'') d3 = (d3, False)"
    using readiness_claim_fenced [OF waiting_db_ok c rtranclp.rtrancl_refl ov_applied [OF a] rtranclp.rtrancl_refl] .
  with c a show ?thesis by blast
qed

section \<open>Leaving the waiting state\<close>

text \<open>What an applied answer does to a run.\<close>

definition rests_ended :: "int \<Rightarrow> run \<Rightarrow> run option \<Rightarrow> bool" where
  "rests_ended now x y \<longleftrightarrow> (\<exists>st \<in> {FAILED, NEEDS_ATTENTION}. \<exists>code summary. y = Some (ended_run now st code summary x))"

lemma ended_rests: "st \<in> {FAILED, NEEDS_ATTENTION} \<Longrightarrow> rests_ended now x (Some (ended_run now st code summary x))"
  unfolding rests_ended_def by blast

definition requeued :: "run \<Rightarrow> run" where
  "requeued x = x\<lparr>run_status := QUEUED, run_version := run_version x + 1\<rparr>"

lemma finish_requirement_run:
  assumes "finish_requirement now c st rst code summary d = (d', ok)" and "st \<in> {FAILED, NEEDS_ATTENTION}"
    and "find_run rid d = Some x"
  shows "find_run rid d' = Some x \<or> (rid = qc_run c \<and> run_status x = WAITING_FOR_DATA \<and> rests_ended now x (find_run rid d'))"
proof (cases "d' = d")
  case False
  then obtain r where r: "find_run (qc_run c) d = Some r" "run_status r = WAITING_FOR_DATA"
    and runs: "db_runs d' = update_row run_id (run_id r) (ended_run now st code summary) (db_runs d)"
    using finish_requirement_cases [OF assms(1)] by blast
  have id: "run_id r = qc_run c" using find_run_Some [OF r(1)] by simp
  have "find_run rid d' = (if rid = qc_run c then Some (ended_run now st code summary r) else find_run rid d)"
    using find_run_update_row [OF runs] r(1) id by (simp add: ended_run_def)
  then show ?thesis using assms(3) r ended_rests [OF assms(2)] by auto
qed (use assms(3) in simp)

lemma apply_ready_run:
  assumes "apply_ready now c ref m d = (d', ok)" and "find_run rid d = Some x"
  shows "find_run rid d' = Some x \<or> (rid = qc_run c \<and> run_status x = WAITING_FOR_DATA
    \<and> find_run rid d' = Some (requeued x) \<and> find_request (run_request x) d \<noteq> None
    \<and> db_requests d' = update_row req_id (run_request x) (pin_manifest ref) (db_requests d))"
proof (cases "d' = d")
  case False
  then obtain r where r: "find_run (qc_run c) d = Some r" "run_status r = WAITING_FOR_DATA"
    and request: "find_request (run_request r) d \<noteq> None"
    and runs: "db_runs d' = db_runs (set_status (run_id r) QUEUED d)"
    and requests: "db_requests d' = update_row req_id (run_request r) (pin_manifest ref) (db_requests d)"
    using apply_ready_cases [OF assms(1)] by blast
  have id: "run_id r = qc_run c" using find_run_Some [OF r(1)] by simp
  have "find_run rid d' = (if rid = qc_run c then Some (requeued r) else find_run rid d)"
    unfolding find_run_eq [OF runs] id by (simp add: find_run_set_status r(1) requeued_def)
  then show ?thesis using assms(2) r request requests by auto
qed (use assms(2) in simp)

lemma apply_action_run:
  assumes "apply_action sha now c a d = (d', ok)" and "find_run rid d = Some x"
  shows "find_run rid d' = Some x
    \<or> (rid = qc_run c \<and> run_status x = WAITING_FOR_DATA \<and> (rests_ended now x (find_run rid d')
       \<or> (\<exists>ref m. a = Verified ref m \<and> find_run rid d' = Some (requeued x) \<and> find_request (run_request x) d \<noteq> None
            \<and> db_requests d' = update_row req_id (run_request x) (pin_manifest ref) (db_requests d))))"
proof (cases a)
  case (StillWaiting st t)
  then have "db_runs d' = db_runs d" using assms(1) apply_waiting_cases [of sha now c st t d d' ok] by auto
  then show ?thesis using assms(2) by (simp add: find_run_eq [of d' d])
next
  case (Transient code t)
  then have "db_runs d' = db_runs d" using assms(1) release_transient_cases [of c code t d d' ok] by auto
  then show ?thesis using assms(2) by (simp add: find_run_eq [of d' d])
next
  case (Rejected st)
  then show ?thesis using assms finish_requirement_run [of now c FAILED] by (auto simp: apply_rejected_def)
next
  case (Attention code)
  then show ?thesis using assms finish_requirement_run [of now c NEEDS_ATTENTION] by (auto simp: apply_attention_def)
next
  case (Verified ref m)
  then show ?thesis using assms apply_ready_run [of now c ref m d d' ok rid x] by auto
qed

text \<open>The answers that lead to a verified manifest.\<close>

lemma decide_verified:
  assumes "decide_claim sha ask fetch t c = Inr (Verified ref m)"
  shows "\<exists>n st. int_of_text (qc_provider_request_id c) = Inr n \<and> ask n = Inr (Inr st)
    \<and> cst_readiness st \<notin> {''waiting'', ''rejected''} \<and> cst_manifest st = Some ref
    \<and> fetch (mr_snapshot_id ref) = Inr (Inr m) \<and> mf_manifest_sha256 m = mr_manifest_sha256 ref
    \<and> calculate_manifest_sha256 sha m = Some (mf_manifest_sha256 m)"
  using assms
  by (auto simp: decide_claim_def decide_status_def verify_manifest_def elim!: bind_resultE
      split: sum.splits if_split_asm option.splits)

lemma pinned_manifest:
  assumes "length (mr_manifest_sha256 ref) = 64" and "list_all is_lower_hex (mr_manifest_sha256 ref)"
  shows "dict_get ''data_manifest'' (req_config (pin_manifest ref q)) = Some (JObj (manifest_ref_dump ref))
    \<and> (has_verified_data_manifest (req_config (pin_manifest ref q)) \<longleftrightarrow> str_strip (mr_snapshot_id ref) \<noteq> [])"
  using assms by (simp add: pin_manifest_def has_verified_data_manifest_def manifest_ref_dump_def)

text \<open>The evidence under which a waiting run is queued.\<close>

definition verified_answer ::
    "(string \<Rightarrow> string) \<Rightarrow> status_client \<Rightarrow> manifest_client \<Rightarrow> requirement_claim \<Rightarrow> manifest_ref \<Rightarrow> bool" where
  "verified_answer sha ask fetch c ref \<longleftrightarrow> (\<exists>n st m. int_of_text (qc_provider_request_id c) = Inr n
     \<and> ask n = Inr (Inr st) \<and> cst_readiness st \<notin> {''waiting'', ''rejected''} \<and> cst_manifest st = Some ref
     \<and> fetch (mr_snapshot_id ref) = Inr (Inr m) \<and> mf_manifest_sha256 m = mr_manifest_sha256 ref
     \<and> calculate_manifest_sha256 sha m = Some (mr_manifest_sha256 ref))"

lemma calculated_hash: "calculate_manifest_sha256 sha m = Some y \<Longrightarrow> \<exists>t. y = sha t"
  unfolding calculate_manifest_sha256_def by (cases "mf_candidate_request_id m") (simp, metis option.case(2) option.inject)

lemma verified_answer_hash:
  assumes "verified_answer sha ask fetch c ref"
  shows "\<exists>t. mr_manifest_sha256 ref = sha t"
  using assms calculated_hash unfolding verified_answer_def by blast

text \<open>
  C4. One round of the readiness worker takes the run \<open>rid\<close> out of the waiting state in two
  ways only. Either the run fails or needs attention, with its end time. Or StockLean answered
  for the stored request number with a manifest reference, the manifest it names was fetched,
  both carry the same hash, and the hash computed from the items is that hash; then the run is
  queued, its request holds that reference, and the admission accepts it exactly when the
  snapshot id is not blank (a blank id is stored all the same). The hash function gives 64
  hexadecimal digits.
\<close>

theorem queued_only_verified:
  assumes "reconcile_one sha ask fetch others locked worker poll s now d = (d', result)"
    and "claim_due locked worker (max 15 s) now d = (d1, Some c)"
    and "find_run rid (others d1) = Some x" and "find_run rid d' \<noteq> Some x"
    and "\<And>t. length (sha t) = 64 \<and> list_all is_lower_hex (sha t)"
  shows "rid = qc_run c \<and> run_status x = WAITING_FOR_DATA
    \<and> (rests_ended now x (find_run rid d')
       \<or> (\<exists>ref q. verified_answer sha ask fetch c ref \<and> find_run rid d' = Some (requeued x)
            \<and> find_request (run_request x) d' = Some q
            \<and> dict_get ''data_manifest'' (req_config q) = Some (JObj (manifest_ref_dump ref))
            \<and> (has_verified_data_manifest (req_config q) \<longleftrightarrow> str_strip (mr_snapshot_id ref) \<noteq> [])))"
proof -
  let ?t = "now + max (SECONDS 2) poll"
  obtain a where a: "decide_claim sha ask fetch ?t c = Inr a" and d': "d' = fst (apply_action sha now c a (others d1))"
    using assms(1-4) by (cases "decide_claim sha ask fetch ?t c") (auto simp: reconcile_one_def)
  then obtain ok where "apply_action sha now c a (others d1) = (d', ok)" by (cases "apply_action sha now c a (others d1)") auto
  from apply_action_run [OF this assms(3)] assms(4)
  have *: "rid = qc_run c \<and> run_status x = WAITING_FOR_DATA" and
    "rests_ended now x (find_run rid d') \<or> (\<exists>ref m. a = Verified ref m \<and> find_run rid d' = Some (requeued x)
       \<and> find_request (run_request x) (others d1) \<noteq> None
       \<and> db_requests d' = update_row req_id (run_request x) (pin_manifest ref) (db_requests (others d1)))" by auto
  from this(2) show ?thesis
  proof
    assume "rests_ended now x (find_run rid d')"
    with * show ?thesis by blast
  next
    assume "\<exists>ref m. a = Verified ref m \<and> find_run rid d' = Some (requeued x)
       \<and> find_request (run_request x) (others d1) \<noteq> None
       \<and> db_requests d' = update_row req_id (run_request x) (pin_manifest ref) (db_requests (others d1))"
    then obtain ref m q where v: "a = Verified ref m" and x: "find_run rid d' = Some (requeued x)"
      and q: "find_request (run_request x) (others d1) = Some q"
      and rows: "db_requests d' = update_row req_id (run_request x) (pin_manifest ref) (db_requests (others d1))"
      by blast
    have answer: "verified_answer sha ask fetch c ref"
      using decide_verified [OF a [unfolded v]] unfolding verified_answer_def by metis
    then have "length (mr_manifest_sha256 ref) = 64" "list_all is_lower_hex (mr_manifest_sha256 ref)"
      using verified_answer_hash assms(5) by metis+
    moreover have "find_request (run_request x) d' = Some (pin_manifest ref q)"
      using q unfolding find_request_def rows by (simp add: find_update_row pin_manifest_def)
    ultimately show ?thesis using * answer x pinned_manifest [of ref q] by blast
  qed
qed

definition demo_hash :: "string \<Rightarrow> string" where
  "demo_hash t = replicate 64 CHR ''a''"

definition demo_ref :: manifest_ref where
  "demo_ref = \<lparr>mr_snapshot_id = ''s'', mr_manifest_sha256 = demo_hash [], mr_captured_at = JNull,
     mr_max_observation_date = JNull\<rparr>"

definition demo_status :: status_client where
  "demo_status n = Inr (if n = 17 then Inr \<lparr>cst_readiness = ''ready'', cst_job = None, cst_manifest = Some demo_ref,
     cst_error = None\<rparr> else Inl \<lparr>se_code = ''stocklean_not_found'', se_status_code = Some 404\<rparr>)"

definition demo_manifest :: manifest_client where
  "demo_manifest sid = Inr (Inr \<lparr>mf_snapshot_id = sid, mf_manifest_sha256 = demo_hash [],
     mf_candidate_request_id = Some 17, mf_analysis_date = 739000, mf_items = []\<rparr>)"

lemma queued_only_verified_witness:
  "\<exists>d' x x' q. reconcile_one demo_hash demo_status demo_manifest id {} ''w'' 0 30 1 waiting_db = (d', Inr True)
     \<and> find_run 4 waiting_db = Some x \<and> run_status x = WAITING_FOR_DATA
     \<and> find_run 4 d' = Some x' \<and> find_request (run_request x) d' = Some q
     \<and> has_verified_data_manifest (req_config q)"
proof -
  let ?run = "reconcile_one demo_hash demo_status demo_manifest id {} ''w'' 0 30 1 waiting_db"
  let ?claim = "claim_due {} ''w'' (max 15 30) 1 waiting_db"
  have queued: "(case ?run of (d', Inr True) \<Rightarrow> map_option run_status (find_run 4 d') = Some QUEUED | _ \<Rightarrow> False)"
    by code_simp
  have claimed: "(case ?claim of (d1, Some c) \<Rightarrow> find_run 4 (id d1) = find_run 4 waiting_db | _ \<Rightarrow> False)" by code_simp
  have waiting: "map_option run_status (find_run 4 waiting_db) = Some WAITING_FOR_DATA" by code_simp
  obtain d' where run: "?run = (d', Inr True)" and q: "map_option run_status (find_run 4 d') = Some QUEUED"
    using queued by (auto split: prod.splits sum.splits bool.splits)
  obtain d1 c where claim: "?claim = (d1, Some c)" and same: "find_run 4 (id d1) = find_run 4 waiting_db"
    using claimed by (auto split: prod.splits option.splits)
  obtain x where x: "find_run 4 waiting_db = Some x" "run_status x = WAITING_FOR_DATA" using waiting by auto
  have changed: "find_run 4 d' \<noteq> Some x" using q x(2) by auto
  have "\<And>t. length (demo_hash t) = 64 \<and> list_all is_lower_hex (demo_hash t)"
    by (simp add: demo_hash_def list_all_iff is_lower_hex_def)
  from queued_only_verified [OF run claim same [unfolded x(1)] changed this]
  have "\<not> rests_ended 1 x (find_run 4 d') \<longrightarrow> (\<exists>ref q. verified_answer demo_hash demo_status demo_manifest c ref
      \<and> find_request (run_request x) d' = Some q
      \<and> (has_verified_data_manifest (req_config q) \<longleftrightarrow> str_strip (mr_snapshot_id ref) \<noteq> []))" by blast
  moreover have "\<not> rests_ended 1 x (find_run 4 d')" using q by (auto simp: rests_ended_def ended_run_def)
  ultimately obtain ref r where ref: "verified_answer demo_hash demo_status demo_manifest c ref"
    and r: "find_request (run_request x) d' = Some r"
    and ok: "has_verified_data_manifest (req_config r) \<longleftrightarrow> str_strip (mr_snapshot_id ref) \<noteq> []" by blast
  from ref have "ref = demo_ref" by (auto simp: verified_answer_def demo_status_def split: if_split_asm)
  then have "str_strip (mr_snapshot_id ref) \<noteq> []" by (simp add: demo_ref_def str_strip_def is_space_def)
  then show ?thesis using run x r ok q by auto
qed

text \<open>
  The number of a waiting StockLean admission survives the way through the data base:
  the requirement that a submission stores for it is asked for with the same number when the
  readiness worker claims it.
\<close>

theorem request_number_roundtrip:
  assumes "data_requirement_of r = Inr (Some q)"
    and "add_requirement now rid q d = d1" and "claim_due locked worker s later d1 = (d2, Some c)"
    and "requirements_ok d" and "qc_requirement c = uuid4 d"
  shows "\<exists>a n. ri_admission r = Some a \<and> ar_candidate_request_id a = Some n
    \<and> decide_claim sha ask fetch t c = bind_result (ask n) (\<lambda>answer. case answer of
        Inl e \<Rightarrow> Inr (Transient (se_code e) t) | Inr st \<Rightarrow> decide_status sha fetch t st)"
proof -
  obtain a n where a: "ri_admission r = Some a" "ar_candidate_request_id a = Some n"
    and q: "dq_provider_request_id q = int_str n"
    using assms(1) by (auto simp: data_requirement_of_def split: option.splits if_split_asm)
  have fresh: "dr_id x \<noteq> uuid4 d" if "x \<in> set (db_requirements d)" for x
    using fresh_requirement [OF assms(4) that] .
  have "qc_provider_request_id c = int_str n"
    using assms(3)
  proof (rule claim_due_cases)
    fix x
    assume x: "x \<in> set (db_requirements d1)" and c: "Some c = Some \<lparr>qc_requirement = dr_id x, qc_run = dr_run x,
        qc_provider_request_id = dr_provider_request_id x, qc_version = dr_version x + 1, qc_lease_owner = worker\<rparr>"
    have "dr_id x = uuid4 d" using c assms(5) by simp
    then show ?thesis using x c q fresh unfolding assms(2) [symmetric] by (auto simp: add_requirement_def)
  qed simp
  then show ?thesis using a by (simp add: decide_claim_def int_of_int_str bind_result_def)
qed

definition waiting_item :: resolved_item where
  "waiting_item = \<lparr>ri_item = \<lparr>it_ticker = ''T'', it_asset_type = None, it_date = 739000\<rparr>,
     ri_classification = demo_class ''T'', ri_analysts = [''market''],
     ri_admission = Some \<lparr>ar_key = ''k'', ar_candidate_request_id = Some 17, ar_scope = ''research'', ar_identity = None,
       ar_readiness = ''waiting'', ar_required_products = [''p''], ar_job = Some [], ar_manifest = None,
       ar_error = None\<rparr>\<rparr>"

lemma request_number_roundtrip_witness:
  "\<exists>d2 c. claim_due {} ''w'' 30 1 (add_requirement 0 4 demo_requirement (demo_db WAITING_FOR_DATA)) = (d2, Some c)
     \<and> decide_claim id demo_status demo_manifest 9 c = Inr (Attention ''manifest_content_hash_mismatch'')"
proof -
  let ?d = "demo_db WAITING_FOR_DATA"
  let ?claim = "claim_due {} ''w'' 30 1 (add_requirement 0 4 demo_requirement ?d)"
  have "(case ?claim of (d2, Some c) \<Rightarrow> qc_requirement c = uuid4 ?d | _ \<Rightarrow> False)" by code_simp
  then obtain d2 c where claim: "?claim = (d2, Some c)" and mine: "qc_requirement c = uuid4 ?d"
    by (auto split: prod.splits option.splits)
  have "data_requirement_of waiting_item = Inr (Some demo_requirement)" by code_simp
  moreover have "requirements_ok ?d"
    by (simp add: requirements_ok_def unique_keys_def demo_db_def empty_db_def inj_def)
  ultimately obtain a n where a: "ri_admission waiting_item = Some a" "ar_candidate_request_id a = Some n"
    and "decide_claim id demo_status demo_manifest 9 c = bind_result (demo_status n) (\<lambda>answer. case answer of
        Inl e \<Rightarrow> Inr (Transient (se_code e) 9) | Inr st \<Rightarrow> decide_status id demo_manifest 9 st)"
    using request_number_roundtrip [OF _ refl claim _ mine] by metis
  moreover have "n = 17" using a by (auto simp: waiting_item_def)
  moreover have "bind_result (demo_status 17) (\<lambda>answer. case answer of
        Inl e \<Rightarrow> Inr (Transient (se_code e) 9) | Inr st \<Rightarrow> decide_status id demo_manifest 9 st)
      = Inr (Attention ''manifest_content_hash_mismatch'')" by code_simp
  ultimately show ?thesis using claim by auto
qed

end
