(* ===== verification/Lifecycle.thy ===== *)
theory Lifecycle
  imports ReadinessFacts Serving
begin

text \<open>
  The platform as one transition system: the state is the database together with the runs
  that a worker process is serving, a step is one transaction of a component (the assessment
  service, the scheduler, a worker, the data readiness worker, the recovery of stale leases).
  The theory shows how the transition guard governs the life of a run across the components,
  and which runs no component ever moves again.
\<close>

section \<open>Steps of the platform\<close>

type_synonym platform = "db \<times> nat set"

text \<open>
  The transactions. A worker serves a run from its claim to its settlement, or to its own
  crash; \<open>pf_other\<close> stands for all transactions that do not write runs and that at most
  rewrite leases in place (heartbeats, child identities, steps, users, policies, validations
  and the like). The first argument tells whether the recovery of stale leases takes part.
\<close>

inductive platform_step :: "bool \<Rightarrow> platform \<Rightarrow> platform \<Rightarrow> bool" where
  pf_submit: "submit env classify client (\<lambda>x. x) now pr cmd request d = Inr (d', views) \<Longrightarrow>
    platform_step rec (d, S) (d', S)"
| pf_cancel: "cancel_assessment env now pr rid request d = Inr (d', view) \<Longrightarrow> platform_step rec (d, S) (d', S)"
| pf_retry: "retry_assessment env client now pr rid request d = Inr (d', view) \<Longrightarrow> platform_step rec (d, S) (d', S)"
| pf_delete: "delete_rows env pr rid request d = Inr (d', deleted) \<Longrightarrow> platform_step rec (d, S) (d', S)"
| pf_reassess: "create_clean_reassessment uuid now c policy config QUEUED q d = (d', view) \<Longrightarrow>
    platform_step rec (d, S) (d', S)"
| pf_admit: "admit_one aenv held busy now policy gw sys m routing external d = Inr (d', decision) \<Longrightarrow>
    platform_step rec (d, S) (d', S)"
| pf_claim: "claim_run busy now wid d = Inr (d', c) \<Longrightarrow>
    platform_step rec (d, S) (d', S \<union> cr_run ` set_option c)"
| pf_event: "rid \<in> S \<Longrightarrow> persist_runner_event now rid e d = Inr (d', s) \<Longrightarrow> platform_step rec (d, S) (d', S)"
| pf_settle: "rid \<in> S \<Longrightarrow>
    settle_run wenv parse now rid requested failure w stderr max_retries fs d = Inr (fs', d') \<Longrightarrow>
    platform_step rec (d, S) (d', S - {rid})"
| pf_crash: "platform_step rec (d, S) (d, S - {rid})"
| pf_readiness_claim: "claim_due locked worker seconds now d = (d', rc) \<Longrightarrow> platform_step rec (d, S) (d', S)"
| pf_readiness_apply: "apply_action sha now rc action d = (d', ok) \<Longrightarrow> platform_step rec (d, S) (d', S)"
| pf_recover: "platform_step True (d, S) (fst (recover_stale_leases alive locked now d), S)"
| pf_other: "db_runs d' = db_runs d \<Longrightarrow> map ls_run (db_leases d') = map ls_run (db_leases d) \<Longrightarrow>
    platform_step rec (d, S) (d', S)"

text \<open>The primary key of the runs is enforced by the database.\<close>

definition keyed_step :: "bool \<Rightarrow> platform \<Rightarrow> platform \<Rightarrow> bool" where
  "keyed_step rec s t \<longleftrightarrow> platform_step rec s t \<and> unique_keys run_id (db_runs (fst t))"

section \<open>How each transaction moves runs and leases\<close>

text \<open>New leases are only those of \<open>A\<close>.\<close>

definition leases_within :: "nat set \<Rightarrow> db \<Rightarrow> db \<Rightarrow> bool" where
  "leases_within A d d' \<longleftrightarrow> ls_run ` set (db_leases d') \<subseteq> ls_run ` set (db_leases d) \<union> A"

lemma leases_same: "db_leases d' = db_leases d \<Longrightarrow> leases_within A d d'"
  by (simp add: leases_within_def)

lemma leases_deleted: "db_leases d' = delete_where P (db_leases d) \<Longrightarrow> leases_within A d d'"
  by (auto simp: leases_within_def)

lemma no_lease_within:
  "leases_within A d d' \<Longrightarrow> j \<notin> A \<Longrightarrow> find_lease j d = None \<Longrightarrow> find_lease j d' = None"
  by (auto simp: leases_within_def find_lease_def find_row_None)

lemma moves_grow:
  assumes "moves P d d1" and "db_runs d' = db_runs d1 @ rs"
  shows "moves P d d'"
proof -
  have "find_run j d1 = Some r \<Longrightarrow> find_run j d' = Some r" for j r
    by (simp add: find_run_def assms(2) find_row_append)
  with assms(1) show ?thesis unfolding moves_def by blast
qed

lemma submit_moves:
  assumes "submit env classify client (\<lambda>x. x) now pr cmd request d = Inr (d', views)"
  shows "moves (\<lambda>_ _. False) d d' \<and> db_leases d' = db_leases d"
proof (rule submit_cases [OF assms])
  fix d1 u
  assume up: "upsert_user pr d = Inr (d1, u)"
    and cases: "(\<exists>b. find_batch_id (usr_id u) (sc_key cmd) d1 = Some b \<and> d' = d1 \<and> views = list_batch_runs (bat_id b) d1
            \<and> assert_idempotent_payload env (usr_id u) cmd d1 = Inr ())
       \<or> (find_batch_id (usr_id u) (sc_key cmd) d1 = None \<and>
            (\<exists>items. submit_new env now pr cmd request (usr_id u) items d1 = Inr (d', views)))"
  note same = upsert_user_frame [OF up]
  from cases show ?thesis
  proof
    assume "\<exists>b. find_batch_id (usr_id u) (sc_key cmd) d1 = Some b \<and> d' = d1 \<and> views = list_batch_runs (bat_id b) d1
            \<and> assert_idempotent_payload env (usr_id u) cmd d1 = Inr ()"
    then show ?thesis using same by (auto intro: moves_same)
  next
    assume "find_batch_id (usr_id u) (sc_key cmd) d1 = None \<and>
            (\<exists>items. submit_new env now pr cmd request (usr_id u) items d1 = Inr (d', views))"
    then obtain items where "submit_new env now pr cmd request (usr_id u) items d1 = Inr (d', views)" by blast
    from submit_new_result [OF this] obtain rs where "db_runs d' = db_runs d @ rs" "db_leases d' = db_leases d"
      using same by auto
    then show ?thesis using moves_append by blast
  qed
qed

lemma admit_candidate_leases:
  assumes "admit_candidate env now gw m routing c d = Inr d'"
  shows "db_leases d' = db_leases d"
proof -
  have pin: "db_leases (fst (pin_snapshot content hash gw d)) = db_leases d" for content hash
    by (simp add: pin_snapshot_def Let_def split: option.split)
  obtain content hash ms where "(case pin_snapshot content hash gw d of (d1, s) \<Rightarrow> admit_run now s ms (qd_run c) d1) = Inr d'"
    using assms unfolding admit_candidate_def by (auto elim!: bind_resultE)
  then show ?thesis
    using pin [of content hash]
    by (cases "pin_snapshot content hash gw d") (auto simp: admit_run_def elim!: bind_resultE)
qed

lemma admit_one_leases:
  assumes "admit_one env held busy now policy gw sys m routing external d = Inr (d', dec)"
  shows "db_leases d' = db_leases d"
proof -
  obtain l where lock: "acquire_lock held ''global:admission'' False d
      = (''global:admission'' \<notin> held, d\<lparr>db_locks := l\<rparr>)"
    by (rule acquire_lock_obtain)
  let ?d1 = "add_gateway_sample now gw (d\<lparr>db_locks := l\<rparr>)"
  have d1: "db_leases ?d1 = db_leases d" by (simp add: add_gateway_sample_def)
  obtain d2 res miss where pick: "pick_candidate held (manifest_required m) False (queued_rows busy ?d1) ?d1 = (d2, res, miss)"
    by (metis prod_cases3)
  then obtain l2 where d2: "d2 = ?d1\<lparr>db_locks := l2\<rparr>" using pick_candidate_spec by blast
  have chosen: "db_leases d' = db_leases d2"
    if "admit_chosen env now policy gw sys m routing external c d2 = Inr (d', dec)" for c
    using admit_chosen_cases [OF that] admit_candidate_leases by fastforce
  show ?thesis
  proof (cases "''global:admission'' \<in> held")
    case True
    then show ?thesis using assms lock by (auto simp: admit_one_def)
  next
    case False
    have rest: "(if queued_rows busy ?d1 = [] then Inr (?d1, refused ''queue_empty'')
        else case res of None \<Rightarrow> Inr (d2, refused (if miss then ''data_manifest_missing'' else ''ticker_active''))
          | Some c \<Rightarrow> admit_chosen env now policy gw sys m routing external c d2) = Inr (d', dec)"
      using assms False unfolding admit_one_def lock by (simp add: Let_def pick cong: if_cong)
    have d2': "db_leases d2 = db_leases d" unfolding d2 using d1 by simp
    show ?thesis
    proof (cases "queued_rows busy ?d1 = []")
      case True
      then show ?thesis using rest d1 by (simp only: if_True sum.inject prod.inject) auto
    next
      case nonempty: False
      show ?thesis
      proof (cases res)
        case None
        then have "d' = d2" using rest nonempty by simp
        then show ?thesis using d2' by simp
      next
        case (Some c)
        then have "admit_chosen env now policy gw sys m routing external c d2 = Inr (d', dec)"
          using rest nonempty by simp
        from chosen [OF this] d2' show ?thesis by simp
      qed
    qed
  qed
qed

lemma admit_one_moves:
  assumes "admit_one env held busy now policy gw sys m routing external d = Inr (d', dec)"
    and "unique_keys run_id (db_runs d)"
  shows "moves (\<lambda>j x. run_status x = QUEUED) d d'"
  using assms(1)
proof (cases rule: admit_one_cases)
  case refused
  then show ?thesis by (simp add: moves_same)
next
  case (admitted c pre post d2)
  from admitted(13) show ?thesis
  proof (cases rule: admit_candidate_facts)
    case (1 s mode config ms content d1 e)
    have mem: "qd_run c \<in> set (db_runs d)"
      using queued_rows_member [of c busy d] admitted(3) by simp
    then have found: "find_run (run_id (qd_run c)) d = Some (qd_run c)"
      using assms(2) unfolding find_run_def by (rule find_row_unique [rotated])
    have "moves (\<lambda>j x. run_status x = QUEUED) d (update_run (run_id (qd_run c)) (admitted_run now (cfg_id s)) d)"
      by (rule moves_update_run) (use found 1(1) in \<open>auto simp: admitted_run_def intro!: allowed_stepI\<close>)
    then show ?thesis by (rule moves_same_right) (simp add: 1(8) admitted(8))
  qed
qed

lemma claim_leases:
  assumes "claim_run busy now wid d = Inr (d', c)" and "unique_keys run_id (db_runs d)"
  shows "leases_within (cr_run ` set_option c) d d'
    \<and> (\<forall>k. c = Some k \<longrightarrow> current_status (cr_run k) d = Some ADMITTED)"
  by (rule claim_cases [OF assms]) (auto simp: leases_within_def current_status_def)

lemma settle_run_moves:
  assumes "settle_run env parse now rid requested failure w stderr max_retries fs d = Inr (fs', d')"
  shows "moves (\<lambda>j x. j = rid) d d' \<and> leases_within {} d d'"
proof -
  obtain d0 n where health: "persist_dependency_health parse (we_lines env) (wd_dependency_health w) d = Inr (d0, n)"
    and rest: "(if requested then bind_result (finalize_cancelled now rid d0) (\<lambda>d1. Inr (fs, d1))
     else case failure of
       None \<Rightarrow> bind_result (finalize_success env now rid w fs d0) (\<lambda>(fs1, d1).
                 Inr (fs1, sample_gateway now True None d1))
     | Some (code, summary) \<Rightarrow>
         bind_result (store_diagnostic env rid stderr fs d0) (\<lambda>(fs1, d1).
         bind_result (finalize_failure now rid code (if summary = [] then code else summary) d1) (\<lambda>d2.
         bind_result (schedule_automatic_retry (we_uuid env) now rid code max_retries d2) (\<lambda>(d3, _).
         Inr (fs1, if code \<in> {''gateway_overload'', ''gateway_unavailable''}
           then sample_gateway now False (Some code) d3 else d3))))) = Inr (fs', d')"
    using assms unfolding settle_run_def by (elim bind_resultE) auto
  have h0: "db_runs d0 = db_runs d" "db_leases d0 = db_leases d"
    using persist_health_holds [OF health] by (simp_all add: holds_def)
  have goal: ?thesis if "moves (\<lambda>j x. j = rid) a y" and "db_leases y = delete_where (\<lambda>l. ls_run l = rid) (db_leases a)"
      and "db_runs a = db_runs d" and "db_leases a = db_leases d" and "db_runs d' = db_runs y @ rs" and "db_leases d' = db_leases y"
    for a y rs
    using moves_grow [OF moves_same_left [OF that(1,3)] that(5)] leases_deleted [of d' _ d] that by simp
  show ?thesis
  proof (cases requested)
    case True
    then have "finalize_cancelled now rid d0 = Inr d'" using rest by (auto elim!: bind_resultE)
    from finalize_cancelled_facts [OF this] show ?thesis using goal [of d0 d' "[]"] h0 by simp
  next
    case False
    show ?thesis
    proof (cases failure)
      case None
      then obtain fs1 d1 where fin: "finalize_success env now rid w fs d0 = Inr (fs1, d1)"
        and d': "d' = sample_gateway now True None d1"
        using rest False by (auto elim!: bind_resultE)
      from finalize_success_facts [OF fin] show ?thesis
        using goal [of d0 d1 "[]"] h0 by (simp add: d' sample_gateway_def)
    next
      case (Some cs)
      obtain code summary where cs: "cs = (code, summary)" by (cases cs)
      obtain fs1 d1 d2 d3 x where diag: "store_diagnostic env rid stderr fs d0 = Inr (fs1, d1)"
        and fin: "finalize_failure now rid code (if summary = [] then code else summary) d1 = Inr d2"
        and retry: "schedule_automatic_retry (we_uuid env) now rid code max_retries d2 = Inr (d3, x)"
        and d': "d' = (if code \<in> {''gateway_overload'', ''gateway_unavailable''}
           then sample_gateway now False (Some code) d3 else d3)"
        using rest False Some cs by (auto elim!: bind_resultE)
      have d1: "db_runs d1 = db_runs d" "db_leases d1 = db_leases d"
        using store_diagnostic_holds [OF diag] h0 by (simp_all add: holds_def)
      obtain rs where "db_runs d3 = db_runs d2 @ rs" "db_leases d3 = db_leases d2"
        using schedule_automatic_retry_facts [OF retry] by blast
      then show ?thesis
        using goal [of d1 d2 rs] finalize_failure_facts [OF fin] d1 by (simp add: d' sample_gateway_def)
    qed
  qed
qed

text \<open>The readiness worker.\<close>

lemma claim_due_frame: "claim_due locked worker s now d = (d', c) \<Longrightarrow> db_runs d' = db_runs d \<and> db_leases d' = db_leases d"
  by (auto simp: claim_due_def update_requirement_def split: list.splits)

lemma apply_action_leases: "apply_action sha now c a d = (d', ok) \<Longrightarrow> db_leases d' = db_leases d"
  by (cases a) (auto simp: apply_waiting_def release_transient_def apply_rejected_def apply_attention_def
      finish_requirement_def apply_ready_def with_locked_def update_requirement_def set_status_def Let_def
      split: option.splits if_split_asm)

lemma apply_action_moves:
  assumes "apply_action sha now c a d = (d', ok)"
  shows "moves (\<lambda>j x. run_status x = WAITING_FOR_DATA) d d'"
  unfolding moves_def
proof (intro allI impI)
  fix j r
  assume r: "find_run j d = Some r"
  have ended: "run_status r = WAITING_FOR_DATA \<Longrightarrow> rests_ended now r (find_run j d') \<Longrightarrow>
      \<exists>r'. find_run j d' = Some r' \<and> run_attempt r' = run_attempt r \<and> allowed_step\<^sup>*\<^sup>* (run_status r) (run_status r')"
    by (auto simp: rests_ended_def ended_run_def intro!: allowed_stepI)
  have queued: "run_status r = WAITING_FOR_DATA \<Longrightarrow> find_run j d' = Some (requeued r) \<Longrightarrow>
      \<exists>r'. find_run j d' = Some r' \<and> run_attempt r' = run_attempt r \<and> allowed_step\<^sup>*\<^sup>* (run_status r) (run_status r')"
    by (auto simp: requeued_def intro!: allowed_stepI)
  show "find_run j d' = Some r \<or> (run_status r = WAITING_FOR_DATA \<and> (\<exists>r'. find_run j d' = Some r'
      \<and> run_attempt r' = run_attempt r \<and> allowed_step\<^sup>*\<^sup>* (run_status r) (run_status r')))"
    using apply_action_run [OF assms r] ended queued by blast
qed

text \<open>Deletion and reassessment.\<close>

lemma delete_rows_leases:
  assumes "delete_rows env pr rid request d = Inr (d', deleted)"
  shows "db_leases d' = delete_where (\<lambda>l. ls_run l = rid) (db_leases d)"
proof -
  obtain c where c: "get_run_context rid d = Some c"
    and d': "d' = append_audit pr ''assessment.delete'' ''assessment_run'' (ae_uuid env rid) request
              (deletion_metadata env c d) (delete_assessment_graph c d)"
    by (rule delete_rows_cases [OF assms])
  have "db_leases (delete_snapshot_row x y) = db_leases y" "db_leases (delete_request_rows q b y) = db_leases y" for x q b y
    by (simp_all add: delete_snapshot_row_def delete_request_rows_def Let_def split: option.split)
  then show ?thesis using context_run [OF c] by (simp add: d' delete_assessment_graph_def delete_run_rows_children)
qed

lemma delete_rows_run:
  assumes "delete_rows env pr rid request d = Inr (d', deleted)" and "find_run j d = Some r"
    and "unique_keys run_id (db_runs d)"
  shows "(if j = rid then run_status r \<in> terminal_statuses \<and> find_run j d' = None else find_run j d' = Some r)"
    and "leases_within {} d d'"
proof -
  obtain c where c: "get_run_context rid d = Some c" and ok: "deletable rid (rc_run c) d = Inr ()"
    and d': "d' = append_audit pr ''assessment.delete'' ''assessment_run'' (ae_uuid env rid) request
              (deletion_metadata env c d) (delete_assessment_graph c d)"
    by (rule delete_rows_cases [OF assms(1)])
  have rid: "run_id (rc_run c) = rid" and mem: "rc_run c \<in> set (db_runs d)" using context_run [OF c] by simp_all
  have runs: "db_runs d' = delete_where (\<lambda>r. run_id r = rid) (db_runs d)"
    unfolding d' by (simp add: delete_graph_runs rid)
  have found: "find_run rid d = Some (rc_run c)"
    using find_row_unique [OF assms(3) mem] rid by (simp add: find_run_def)
  have ended: "run_status (rc_run c) \<in> terminal_statuses" using ok by (auto simp: deletable_def bind_result_Inr_iff)
  have rj: "run_id r = j" using find_run_Some [OF assms(2)] by simp
  have "find_run j d' = (if j = rid then None else Some r)"
    using find_delete_where [OF assms(3), of j "\<lambda>r. run_id r = rid"] assms(2) rj
    by (simp add: find_run_def runs)
  then show "(if j = rid then run_status r \<in> terminal_statuses \<and> find_run j d' = None else find_run j d' = Some r)"
    using found assms(2) ended by auto
  show "leases_within {} d d'" using delete_rows_leases [OF assms(1)] by (rule leases_deleted)
qed

lemma reassess_frame:
  assumes "create_clean_reassessment uuid now c policy config st q d = (d', view)"
  shows "(\<exists>rs. db_runs d' = db_runs d @ rs) \<and> db_leases d' = db_leases d"
  using assms by (auto simp: create_clean_reassessment_def add_request_def add_run_def Let_def)

text \<open>The recovery of stale leases touches only runs with a lease.\<close>

lemma recover_lease_leases:
  "leases_within {} d (fst (recover_lease alive now l (d, a, b)))"
  by (auto simp: recover_lease_def leases_within_def Let_def split: option.split)

lemma recover_leases_within:
  "leases_within {} (fst acc) (fst (fold (recover_lease alive now) ls acc))"
proof (induction ls arbitrary: acc)
  case (Cons l ls)
  obtain d a b where acc: "acc = (d, a, b)" by (cases acc) auto
  show ?case
    using Cons [of "recover_lease alive now l acc"] recover_lease_leases [of d alive now l a b]
    by (auto simp: acc leases_within_def)
qed (simp add: leases_within_def)

lemma recover_leaves_unleased:
  assumes "find_lease j d = None"
  shows "find_run j (fst (recover_stale_leases alive locked now d)) = find_run j d
    \<and> leases_within {} d (fst (recover_stale_leases alive locked now d))"
proof -
  let ?ls = "filter (\<lambda>l. ls_expires_at l < now \<and> ls_id l \<notin> locked) (db_leases d)"
  have "j \<notin> ls_run ` set ?ls" using assms by (auto simp: find_lease_def find_row_None)
  then show ?thesis
    using fold_recover_other [of j ?ls alive now "(d, 0, 0)"] recover_leases_within [of "(d, 0, 0)" alive now ?ls]
    by (simp add: recover_stale_leases_def)
qed

section \<open>One step\<close>

text \<open>
  The transactions other than recovery: each run stays the same or moves along the guard, and
  only runs that have ended are deleted.
\<close>

lemma step_guarded:
  assumes "platform_step False (d, S) (d', S')" and "unique_keys run_id (db_runs d)" and "find_run j d = Some r"
  shows "(\<exists>r'. find_run j d' = Some r' \<and> run_attempt r' = run_attempt r
      \<and> allowed_step\<^sup>*\<^sup>* (run_status r) (run_status r'))
    \<or> (run_status r \<in> terminal_statuses \<and> find_run j d' = None)"
proof -
  have via: "moves P d d' \<Longrightarrow> \<exists>r'. find_run j d' = Some r' \<and> run_attempt r' = run_attempt r
      \<and> allowed_step\<^sup>*\<^sup>* (run_status r) (run_status r')" for P
    using assms(3) unfolding moves_def by blast
  from assms(1) show ?thesis
  proof cases
    case pf_submit
    then show ?thesis using via submit_moves by blast
  next
    case pf_cancel
    then show ?thesis using via cancel_assessment_moves assms(2) by blast
  next
    case pf_retry
    then show ?thesis using via retry_assessment_grown moves_append by blast
  next
    case pf_delete
    from delete_rows_run(1) [OF pf_delete(2) assms(3,2)] show ?thesis by (auto split: if_split_asm)
  next
    case pf_reassess
    then show ?thesis using via reassess_frame moves_append by blast
  next
    case pf_admit
    then show ?thesis using via admit_one_moves assms(2) by blast
  next
    case pf_claim
    then show ?thesis using via claim_moves assms(2) by blast
  next
    case pf_event
    then show ?thesis using via persist_cases by blast
  next
    case pf_settle
    then show ?thesis using via settle_run_moves by blast
  next
    case pf_crash
    then show ?thesis using assms(3) by auto
  next
    case pf_readiness_claim
    then show ?thesis using via claim_due_frame moves_same by blast
  next
    case pf_readiness_apply
    then show ?thesis using via apply_action_moves by blast
  next
    case pf_other
    then show ?thesis using via moves_same by blast
  qed simp
qed

text \<open>What the recovery does to a run: nothing, or it sets it to one of two statuses.\<close>

definition recovery_statuses :: "run_status set" where
  "recovery_statuses = {ADMITTED, NEEDS_ATTENTION}"

lemma fold_recover_run:
  assumes "find_run j (fst acc) = Some r"
  shows "\<exists>r'. find_run j (fst (fold (recover_lease alive now) ls acc)) = Some r'
    \<and> (r' = r \<or> run_status r' \<in> recovery_statuses \<and> run_attempt r \<le> run_attempt r')"
  using assms
proof (induction ls arbitrary: acc r)
  case (Cons l ls)
  obtain d a b where acc: "acc = (d, a, b)" by (cases acc) auto
  have "\<exists>r1. find_run j (fst (recover_lease alive now l acc)) = Some r1
      \<and> (r1 = r \<or> run_status r1 \<in> recovery_statuses \<and> run_attempt r \<le> run_attempt r1)"
  proof (cases "j = ls_run l")
    case True
    then show ?thesis using Cons.prems find_run_recover_same [of l d r alive now a b]
      by (auto simp: acc recovery_statuses_def)
  next
    case False
    then show ?thesis using Cons.prems find_run_recover_other [of j l alive now d a b] by (auto simp: acc)
  qed
  then obtain r1 where r1: "find_run j (fst (recover_lease alive now l acc)) = Some r1"
    "r1 = r \<or> run_status r1 \<in> recovery_statuses \<and> run_attempt r \<le> run_attempt r1" by blast
  obtain r2 where "find_run j (fst (fold (recover_lease alive now) ls (recover_lease alive now l acc))) = Some r2"
    "r2 = r1 \<or> run_status r2 \<in> recovery_statuses \<and> run_attempt r1 \<le> run_attempt r2"
    using Cons.IH [OF r1(1)] by blast
  then show ?case using r1(2) by auto
qed simp

lemma step_with_recovery:
  assumes "platform_step rec (d, S) (d', S')" and "unique_keys run_id (db_runs d)" and "find_run j d = Some r"
  shows "(\<exists>r'. find_run j d' = Some r' \<and> run_attempt r' = run_attempt r
      \<and> allowed_step\<^sup>*\<^sup>* (run_status r) (run_status r'))
    \<or> (rec \<and> find_lease j d \<noteq> None \<and> (\<exists>r'. find_run j d' = Some r' \<and> run_status r' \<in> recovery_statuses
         \<and> run_attempt r \<le> run_attempt r'))
    \<or> (run_status r \<in> terminal_statuses \<and> find_run j d' = None)"
proof (cases "\<exists>alive locked now. rec \<and> d' = fst (recover_stale_leases alive locked now d)")
  case True
  then obtain alive locked now where rec: "rec" and d': "d' = fst (recover_stale_leases alive locked now d)" by blast
  show ?thesis
  proof (cases "find_lease j d")
    case None
    then show ?thesis using recover_leaves_unleased [OF None, of alive locked now] assms(3) by (simp add: d')
  next
    case (Some l)
    have "find_run j (fst (d, 0 :: int, 0 :: int)) = Some r" using assms(3) by simp
    from fold_recover_run [OF this, of alive now "filter (\<lambda>l. ls_expires_at l < now \<and> ls_id l \<notin> locked) (db_leases d)"]
    show ?thesis using Some rec by (auto simp: d' recover_stale_leases_def)
  qed
next
  case False
  have "platform_step False (d, S) (d', S')"
    using assms(1) False by cases (auto intro: platform_step.intros)
  from step_guarded [OF this assms(2,3)] show ?thesis by blast
qed

text \<open>Leases come only to admitted runs, so that an ended run without one stays without.\<close>

lemma step_leases:
  assumes "platform_step rec (d, S) (d', S')" and "unique_keys run_id (db_runs d)"
  shows "\<exists>A. leases_within A d d' \<and> (\<forall>k\<in>A. current_status k d = Some ADMITTED)"
proof -
  have same: ?thesis if "leases_within {} d d'" using that by blast
  from assms(1) show ?thesis
  proof cases
    case pf_submit
    then show ?thesis using same submit_moves leases_same by blast
  next
    case pf_cancel
    then show ?thesis using same cancel_assessment_moves [OF _ assms(2)] leases_same by blast
  next
    case pf_retry
    then show ?thesis using same retry_assessment_grown leases_same by blast
  next
    case pf_delete
    have "leases_within {} d d'" using delete_rows_leases [OF pf_delete(2)] by (rule leases_deleted)
    then show ?thesis by (rule same)
  next
    case pf_reassess
    then show ?thesis using same reassess_frame leases_same by blast
  next
    case pf_admit
    then show ?thesis using same admit_one_leases leases_same by blast
  next
    case (pf_claim busy now wid c)
    from claim_leases [OF pf_claim(2) assms(2)] show ?thesis by (intro exI [of _ "cr_run ` set_option c"]) auto
  next
    case (pf_event rid now e s)
    have "db_leases d' = db_leases d" by (rule persist_cases [OF pf_event(3)], assumption)
    then show ?thesis using same leases_same by blast
  next
    case pf_settle
    then show ?thesis using same settle_run_moves by blast
  next
    case pf_crash
    then show ?thesis using same leases_same by blast
  next
    case pf_readiness_claim
    then show ?thesis using same claim_due_frame leases_same by blast
  next
    case pf_readiness_apply
    then show ?thesis using same apply_action_leases leases_same by blast
  next
    case (pf_recover alive locked now)
    have "leases_within {} d d'"
      using recover_leases_within [of "(d, 0, 0)" alive now "filter (\<lambda>l. ls_expires_at l < now \<and> ls_id l \<notin> locked) (db_leases d)"] pf_recover
      by (simp add: recover_stale_leases_def)
    then show ?thesis by (rule same)
  next
    case pf_other
    then show ?thesis by (intro same) (metis Un_empty_right leases_within_def list.set_map subset_refl)
  qed
qed

text \<open>What a life keeps: the guard's moves, and the rest of an ended run that no lease names.\<close>

definition life_ok :: "bool \<Rightarrow> nat \<Rightarrow> run \<Rightarrow> bool \<Rightarrow> platform \<Rightarrow> bool" where
  "life_ok rec j r resting s \<longleftrightarrow> unique_keys run_id (db_runs (fst s)) \<and> (\<exists>r'. find_run j (fst s) = Some r'
     \<and> (\<not> rec \<longrightarrow> run_attempt r' = run_attempt r \<and> allowed_step\<^sup>*\<^sup>* (run_status r) (run_status r'))
     \<and> run_attempt r \<le> run_attempt r'
     \<and> (resting \<longrightarrow> run_status r' = run_status r \<and> run_attempt r' = run_attempt r \<and> (rec \<longrightarrow> find_lease j (fst s) = None)))"

lemma ended_stays: "s \<in> terminal_statuses \<Longrightarrow> allowed_step\<^sup>*\<^sup>* s t \<Longrightarrow> t = s"
proof -
  assume "s \<in> terminal_statuses" and step: "allowed_step\<^sup>*\<^sup>* s t"
  then have "\<not> allowed_step s x" for x by (cases s) (auto simp: allowed_step_iff terminal_statuses_def)
  with step show "t = s" by (cases rule: converse_rtranclpE) auto
qed

lemma life_step:
  assumes "life_ok rec j r resting s" and "keyed_step rec s t" and "find_run j (fst t) \<noteq> None"
    and "resting \<longrightarrow> run_status r \<in> terminal_statuses"
  shows "life_ok rec j r resting t"
proof -
  obtain x where u: "unique_keys run_id (db_runs (fst s))" and x: "find_run j (fst s) = Some x"
    "\<not> rec \<longrightarrow> run_attempt x = run_attempt r \<and> allowed_step\<^sup>*\<^sup>* (run_status r) (run_status x)"
    "run_attempt r \<le> run_attempt x"
    "resting \<longrightarrow> run_status x = run_status r \<and> run_attempt x = run_attempt r \<and> (rec \<longrightarrow> find_lease j (fst s) = None)"
    using assms(1) unfolding life_ok_def by blast
  have step: "platform_step rec (fst s, snd s) (fst t, snd t)" and ut: "unique_keys run_id (db_runs (fst t))"
    using assms(2) by (simp_all add: keyed_step_def)
  obtain A where A: "leases_within A (fst s) (fst t)" "\<forall>k\<in>A. current_status k (fst s) = Some ADMITTED"
    using step_leases [OF step u] by blast
  have unleased: "resting \<and> rec \<longrightarrow> find_lease j (fst t) = None"
  proof
    assume "resting \<and> rec"
    then have "find_lease j (fst s) = None" and "current_status j (fst s) \<noteq> Some ADMITTED"
      using x assms(4) by (auto simp: current_status_def terminal_statuses_def)
    then show "find_lease j (fst t) = None" using no_lease_within [OF A(1)] A(2) by blast
  qed
  from step_with_recovery [OF step u x(1)] assms(3) consider
      (guard) y where "find_run j (fst t) = Some y" "run_attempt y = run_attempt x" "allowed_step\<^sup>*\<^sup>* (run_status x) (run_status y)"
    | (recovered) y where "rec" "find_lease j (fst s) \<noteq> None" "find_run j (fst t) = Some y" "run_attempt x \<le> run_attempt y"
    by blast
  then show ?thesis
  proof cases
    case guard
    have "resting \<longrightarrow> run_status y = run_status x" using guard(3) x(4) assms(4) ended_stays by metis
    then show ?thesis unfolding life_ok_def using guard x ut unleased
      by (intro conjI exI [of _ y]) (auto intro: rtranclp_trans)
  next
    case recovered
    then have "\<not> resting" using x(4) by auto
    then show ?thesis unfolding life_ok_def using recovered x ut by auto
  qed
qed

text \<open>
  C1. As long as it is not deleted, a run goes through its life by the transition guard, whatever the
  components do and in whatever order: without the recovery of stale leases every status it ever has
  is reached from the earlier one along allowed transitions, its attempt number never changes and an
  ended run keeps its status for good. With the recovery, a step still moves the run along the guard,
  except that the recovery sets a run that has a lease to admitted or needs-attention; an ended run
  without a lease, as its settlement leaves it, keeps its status and its attempt for good even so. Only an
  ended run is ever deleted.
\<close>

theorem run_follows_guard:
  assumes "(\<lambda>s t. keyed_step rec s t \<and> find_run j (fst t) \<noteq> None)\<^sup>*\<^sup>* (d, S) (d', S')"
    and "unique_keys run_id (db_runs d)" and "find_run j d = Some r"
  shows "\<exists>r'. find_run j d' = Some r'
    \<and> (\<not> rec \<longrightarrow> run_attempt r' = run_attempt r \<and> allowed_step\<^sup>*\<^sup>* (run_status r) (run_status r'))
    \<and> (run_status r \<in> terminal_statuses \<and> (rec \<longrightarrow> find_lease j d = None) \<longrightarrow>
          run_status r' = run_status r \<and> run_attempt r' = run_attempt r)
    \<and> (\<forall>d'' S''. keyed_step rec (d', S') (d'', S'') \<longrightarrow> (case find_run j d'' of
          None \<Rightarrow> run_status r' \<in> terminal_statuses
        | Some r'' \<Rightarrow> allowed_step\<^sup>*\<^sup>* (run_status r') (run_status r'')
            \<or> rec \<and> find_lease j d' \<noteq> None \<and> run_status r'' \<in> {ADMITTED, NEEDS_ATTENTION}))"
proof -
  have life: "life_ok rec j r resting t"
    if "(\<lambda>s t. keyed_step rec s t \<and> find_run j (fst t) \<noteq> None)\<^sup>*\<^sup>* (d, S) t"
      and rest: "resting \<longrightarrow> run_status r \<in> terminal_statuses \<and> (rec \<longrightarrow> find_lease j d = None)" for resting t
    using that(1)
  proof (induction rule: rtranclp_induct)
    case base
    then show ?case using assms(2,3) rest by (simp add: life_ok_def)
  next
    case (step t u)
    then show ?case using life_step [of rec j r resting t u] rest by blast
  qed
  from life [OF assms(1), of False] obtain r' where u: "unique_keys run_id (db_runs d')" and r': "find_run j d' = Some r'"
    "\<not> rec \<longrightarrow> run_attempt r' = run_attempt r \<and> allowed_step\<^sup>*\<^sup>* (run_status r) (run_status r')"
    by (auto simp: life_ok_def)
  have resting: "run_status r' = run_status r \<and> run_attempt r' = run_attempt r"
    if "run_status r \<in> terminal_statuses \<and> (rec \<longrightarrow> find_lease j d = None)"
    using life [OF assms(1), of True] that r'(1) by (auto simp: life_ok_def)
  have one_step: "case find_run j d'' of None \<Rightarrow> run_status r' \<in> terminal_statuses
      | Some r'' \<Rightarrow> allowed_step\<^sup>*\<^sup>* (run_status r') (run_status r'')
          \<or> rec \<and> find_lease j d' \<noteq> None \<and> run_status r'' \<in> {ADMITTED, NEEDS_ATTENTION}"
    if "keyed_step rec (d', S') (d'', S'')" for d'' S''
  proof -
    have "platform_step rec (d', S') (d'', S'')" using that by (simp add: keyed_step_def)
    from step_with_recovery [OF this u r'(1)] show ?thesis by (auto simp: recovery_statuses_def)
  qed
  show ?thesis by (intro exI [of _ r'] conjI r' allI impI) (use resting one_step in blast)+
qed

section \<open>Cancelled runs without a worker\<close>

text \<open>
  A run whose cancellation is requested, that no worker serves and that has no lease. Its
  status counts as active for the admission.
\<close>

definition stranded :: "nat \<Rightarrow> platform \<Rightarrow> bool" where
  "stranded j s \<longleftrightarrow> current_status j (fst s) = Some CANCEL_REQUESTED \<and> find_lease j (fst s) = None \<and> j \<notin> snd s"

lemma moves_keeps:
  assumes "moves P d d'" and "current_status j d = Some st"
    and "\<And>r. find_run j d = Some r \<Longrightarrow> run_status r = st \<Longrightarrow> \<not> P j r"
  shows "current_status j d' = Some st"
  using assms unfolding moves_def current_status_def by fastforce

lemma stranded_moves:
  assumes "stranded j (d, S)" and "moves P d d'" and "leases_within A d d'" and "j \<notin> A" and "j \<notin> S'"
    and "\<And>r. run_status r = CANCEL_REQUESTED \<Longrightarrow> \<not> P j r"
  shows "stranded j (d', S')"
  using assms moves_keeps [of P d d' j CANCEL_REQUESTED] no_lease_within [of A d d' j]
  by (auto simp: stranded_def)

lemma step_stranded:
  assumes "platform_step rec (d, S) (d', S')" and "unique_keys run_id (db_runs d)" and "stranded j (d, S)"
  shows "stranded j (d', S')"
proof -
  have S: "j \<notin> S" using assms(3) by (simp add: stranded_def)
  have via: "stranded j (d', S')" if "moves P d d'" "db_leases d' = db_leases d" "S' = S"
      "\<And>r. run_status r = CANCEL_REQUESTED \<Longrightarrow> \<not> P j r" for P
    using stranded_moves [OF assms(3) that(1) leases_same [OF that(2)], of "{}" S'] that S by simp
  have same: "stranded j (d', S')" if "db_runs d' = db_runs d" "db_leases d' = db_leases d" "S' = S"
    using via [of "\<lambda>_ _. False"] that moves_same by blast
  from assms(1) show ?thesis
  proof cases
    case pf_submit
    then show ?thesis using via [of "\<lambda>_ _. False"] submit_moves by blast
  next
    case pf_cancel
    then show ?thesis using via cancel_assessment_moves [OF _ assms(2)]
      by (fastforce simp: cancelling_statuses_def)
  next
    case pf_retry
    then show ?thesis using via [of "\<lambda>_ _. False"] retry_assessment_grown moves_append by blast
  next
    case (pf_delete env pr rid request deleted)
    obtain r where r: "find_run j d = Some r" "run_status r = CANCEL_REQUESTED"
      using assms(3) by (auto simp: stranded_def current_status_def)
    then have "find_run j d' = Some r"
      using delete_rows_run(1) [OF pf_delete(2) r(1) assms(2)] by (simp add: terminal_statuses_def split: if_split_asm)
    then show ?thesis
      using delete_rows_run(2) [OF pf_delete(2) r(1) assms(2)] no_lease_within [of "{}" d d' j] r assms(3) pf_delete
      by (simp add: stranded_def current_status_def)
  next
    case pf_reassess
    then show ?thesis using via [of "\<lambda>_ _. False"] reassess_frame moves_append by blast
  next
    case pf_admit
    then show ?thesis using via admit_one_moves [OF _ assms(2)] admit_one_leases by fastforce
  next
    case (pf_claim busy now wid c)
    have "current_status j d = Some CANCEL_REQUESTED" using assms(3) by (simp add: stranded_def)
    then have fresh: "j \<notin> cr_run ` set_option c" using claim_leases [OF pf_claim(2) assms(2)] by auto
    then show ?thesis
      using stranded_moves [OF assms(3) claim_moves [OF pf_claim(2) assms(2)] conjunct1 [OF claim_leases [OF pf_claim(2) assms(2)]] fresh, of S']
        pf_claim S by simp
  next
    case (pf_event rid now e s)
    have "moves (\<lambda>j x. j = rid \<and> run_status x \<notin> cancelling_statuses) d d'" "db_leases d' = db_leases d"
      by (rule persist_cases [OF pf_event(3)], assumption)+
    then show ?thesis using via pf_event by (fastforce simp: cancelling_statuses_def)
  next
    case (pf_settle rid wenv parse now requested failure w stderr max_retries fs fs')
    then have "j \<noteq> rid" "j \<notin> S'" using S by auto
    then show ?thesis
      using stranded_moves [OF assms(3) conjunct1 [OF settle_run_moves [OF pf_settle(3)]]
          conjunct2 [OF settle_run_moves [OF pf_settle(3)]]] by simp
  next
    case pf_crash
    then show ?thesis using assms(3) by (auto simp: stranded_def)
  next
    case pf_readiness_claim
    then show ?thesis using same claim_due_frame by blast
  next
    case pf_readiness_apply
    then show ?thesis using via apply_action_moves apply_action_leases by fastforce
  next
    case (pf_recover alive locked now)
    have "find_lease j d = None" using assms(3) by (simp add: stranded_def)
    from recover_leaves_unleased [OF this, of alive locked now] no_lease_within [of "{}" d d' j]
    show ?thesis using assms(3) pf_recover by (simp add: stranded_def current_status_def)
  next
    case pf_other
    then have "leases_within {} d d'" unfolding leases_within_def by (metis Un_empty_right list.set_map subset_refl)
    then show ?thesis
      using stranded_moves [OF assms(3) moves_same [of d' d "\<lambda>_ _. False"], of "{}" S'] pf_other S by simp
  qed
qed

interpretation stranded_runs: transition_system
    "\<lambda>s. stranded j s \<and> unique_keys run_id (db_runs (fst s))" "keyed_step rec"
    "\<lambda>s. stranded j s \<and> unique_keys run_id (db_runs (fst s))" for j rec
proof (unfold_locales)
  fix s t
  assume s: "stranded j s \<and> unique_keys run_id (db_runs (fst s))" and "keyed_step rec s t"
  then have "platform_step rec (fst s, snd s) (fst t, snd t)" "unique_keys run_id (db_runs (fst t))"
    by (simp_all add: keyed_step_def)
  with s step_stranded [of rec "fst s" "snd s" "fst t" "snd t" j]
  show "stranded j t \<and> unique_keys run_id (db_runs (fst t))" by simp
qed

text \<open>
  C37. Cancelling a run that is admitted but not yet claimed strands it: whatever the
  components do afterwards, the recovery of stale leases included, the run is in
  \<open>cancel_requested\<close> for ever. It is never claimed, settled, retried or deleted, and it counts
  as an active run of the admission for good. (Only the worker that serves a run completes a
  cancellation, and a worker claims only admitted runs.)
\<close>

theorem cancelled_admitted_run_stranded:
  assumes "cancel_assessment env now pr j request d = Inr (d1, view)" and "unique_keys run_id (db_runs d)"
    and "current_status j d = Some ADMITTED" and "find_lease j d = None" and "j \<notin> S"
    and "unique_keys run_id (db_runs d1)" and "(keyed_step rec)\<^sup>*\<^sup>* (d1, S) (d2, S2)"
  shows "current_status j d2 = Some CANCEL_REQUESTED \<and> find_lease j d2 = None \<and> j \<notin> S2
    \<and> 1 \<le> active_run_count d2"
proof -
  obtain c d0 x where c: "get_run_context j d = Some c" and cancel: "cancel_run now (rc_run c) d = Inr d0"
    and d1: "db_runs d1 = db_runs d0"
    using assms(1) by (auto simp: cancel_assessment_def elim!: bind_resultE)
  have rid: "run_id (rc_run c) = j" and mem: "rc_run c \<in> set (db_runs d)" using context_run [OF c] by simp_all
  have found: "find_run j d = Some (rc_run c)"
    using find_row_unique [OF assms(2) mem] rid by (simp add: find_run_def)
  then have st: "run_status (rc_run c) = ADMITTED" using assms(3) by (simp add: current_status_def)
  have "db_runs d0 = db_runs (set_status j CANCEL_REQUESTED d)"
    using cancel st rid by (auto simp: cancel_run_def terminal_statuses_def cancelling_statuses_def set_status_def
        elim!: bind_resultE)
  then have "find_run j d1 = find_run j (set_status j CANCEL_REQUESTED d)"
    using d1 by (simp add: find_run_eq [of d1 "set_status j CANCEL_REQUESTED d"])
  then have "current_status j d1 = Some CANCEL_REQUESTED"
    using found by (simp add: current_status_def find_run_set_status)
  moreover have "find_lease j d1 = None"
    using conjunct2 [OF cancel_assessment_moves [OF assms(1,2)]] assms(4) by (simp add: find_lease_def)
  ultimately have "stranded j (d1, S) \<and> unique_keys run_id (db_runs (fst (d1, S)))"
    using assms(5,6) by (simp add: stranded_def)
  from stranded_runs.steps_inv [OF assms(7) this] have strand: "stranded j (d2, S2)" by simp
  then obtain r where "find_run j d2 = Some r" "run_status r = CANCEL_REQUESTED"
    by (auto simp: stranded_def current_status_def)
  then have "r \<in> set (filter (\<lambda>r. run_status r \<in> set ACTIVE_RUN_STATUSES) (db_runs d2))"
    by (auto simp: ACTIVE_RUN_STATUSES_def dest: find_run_Some)
  then have "0 < length (filter (\<lambda>r. run_status r \<in> set ACTIVE_RUN_STATUSES) (db_runs d2))"
    by (rule length_pos_if_in_set)
  then have "1 \<le> active_run_count d2" unfolding active_run_count_def by linarith
  with strand show ?thesis by (simp add: stranded_def)
qed

section \<open>Concrete lives\<close>

definition life_db :: "run_status \<Rightarrow> db" where
  "life_db s = (demo_db s)\<lparr>db_users := db_users deletion_db\<rparr>"

definition life_principal :: principal where
  "life_principal = submit_principal\<lparr>pr_scopes := [''assessments:cancel'']\<rparr>"

lemma life_db_keys: "unique_keys run_id (db_runs (life_db s))"
  by (simp add: life_db_def demo_db_def unique_keys_def)

text \<open>A queued run is cancelled; the recovery that runs afterwards leaves it cancelled.\<close>

lemma run_follows_guard_witness:
  "\<exists>d1 v. cancel_assessment demo_assess 5 life_principal 4 ''r'' (life_db QUEUED) = Inr (d1, v)
     \<and> current_status 4 d1 = Some CANCELLED
     \<and> current_status 4 (fst (recover_stale_leases (\<lambda>_. False) {} 99 d1)) = Some CANCELLED"
proof -
  let ?d = "life_db QUEUED" and ?after = "\<lambda>d1. fst (recover_stale_leases (\<lambda>_. False) {} 99 d1)"
  let ?run = "cancel_assessment demo_assess 5 life_principal 4 ''r'' ?d"
  have "(case ?run of Inr (d1, _) \<Rightarrow> current_status 4 d1 = Some CANCELLED \<and> unique_keys run_id (db_runs d1)
      \<and> find_lease 4 d1 = None \<and> find_run 4 (?after d1) \<noteq> None \<and> unique_keys run_id (db_runs (?after d1))
    | Inl _ \<Rightarrow> False)" by code_simp
  then obtain d1 v where run: "?run = Inr (d1, v)" and st: "current_status 4 d1 = Some CANCELLED"
    and keys: "unique_keys run_id (db_runs d1)" "find_lease 4 d1 = None" "find_run 4 (?after d1) \<noteq> None"
      "unique_keys run_id (db_runs (?after d1))" by (auto split: sum.splits prod.splits)
  obtain r where r: "find_run 4 d1 = Some r" "run_status r = CANCELLED" using st by (auto simp: current_status_def)
  have step: "(\<lambda>s t. keyed_step True s t \<and> find_run 4 (fst t) \<noteq> None)\<^sup>*\<^sup>* (d1, {}) (?after d1, {})"
    using keys by (intro r_into_rtranclp) (simp add: keyed_step_def pf_recover)
  have "run_status r \<in> terminal_statuses" using r(2) by (simp add: terminal_statuses_def)
  with run_follows_guard [OF step keys(1) r(1)] keys(2) obtain r' where "find_run 4 (?after d1) = Some r'" "run_status r' = run_status r"
    by blast
  then show ?thesis using run st r(2) by (auto simp: current_status_def)
qed

lemma cancelled_admitted_run_stranded_witness:
  "\<exists>d1 v. cancel_assessment demo_assess 5 life_principal 4 ''r'' (life_db ADMITTED) = Inr (d1, v)
     \<and> current_status 4 (fst (recover_stale_leases (\<lambda>_. False) {} 99 d1)) = Some CANCEL_REQUESTED"
proof -
  let ?d = "life_db ADMITTED"
  let ?run = "cancel_assessment demo_assess 5 life_principal 4 ''r'' ?d"
  let ?after = "\<lambda>d1. fst (recover_stale_leases (\<lambda>_. False) {} 99 d1)"
  have "(case ?run of Inr (d1, _) \<Rightarrow> unique_keys run_id (db_runs d1) \<and> unique_keys run_id (db_runs (?after d1))
    | Inl _ \<Rightarrow> False)" by code_simp
  then obtain d1 v where run: "?run = Inr (d1, v)" and keys: "unique_keys run_id (db_runs d1)"
    "unique_keys run_id (db_runs (?after d1))" by (auto split: sum.splits prod.splits)
  have "current_status 4 ?d = Some ADMITTED" "find_lease 4 ?d = None"
    by (simp_all add: life_db_def demo_db_def find_run_def demo_run_def current_status_def find_lease_def empty_db_def)
  moreover have "(keyed_step True)\<^sup>*\<^sup>* (d1, {}) (?after d1, {})"
    by (rule r_into_rtranclp) (simp add: keyed_step_def keys pf_recover)
  ultimately show ?thesis
    using cancelled_admitted_run_stranded [OF run life_db_keys _ _ _ keys(1), of "{}" True "?after d1" "{}"] run by auto
qed

end
