(* ===== verification/Quota.thy ===== *)
theory Quota
  imports Integrity Calendars Decimals "HOL-Library.Product_Lexorder"
begin

text \<open>
  Access to Alpha Vantage (\<open>vendors/alpha_vantage.py\<close>, \<open>vendors/alpha_vantage_broker.py\<close>): the
  retry policy, the rate gate shared by processes, the classification of answers, the
  coordinator that hands out request leases, the retry loop of one fetch, the response cache
  and the coalescing of equal requests. Clock readings and float arithmetic are exact
  rationals (the code's doubles are rounded); the random jitter, the HTTP client, \<open>json.loads\<close>,
  \<open>float(text)\<close> and \<open>str(value)\<close> are arguments.
\<close>

section \<open>Retry policy\<close>

record retry_policy =
  rp_attempts :: int
  rp_base :: rat
  rp_max :: rat

definition retry_policy_ok :: "retry_policy \<Rightarrow> unit result" where
  "retry_policy_ok p =
     bind_result (require (1 \<le> rp_attempts p) (ValueError ''retry attempts must be positive'')) (\<lambda>_.
     bind_result (require (0 < rp_base p \<and> 0 < rp_max p) (ValueError ''retry delays must be positive'')) (\<lambda>_.
     require (rp_base p \<le> rp_max p) (ValueError ''retry base must not exceed retry maximum'')))"

definition or_zero :: "rat option \<Rightarrow> rat" where
  "or_zero x = (case x of None \<Rightarrow> 0 | Some r \<Rightarrow> r)"

definition policy_delay :: "retry_policy \<Rightarrow> int \<Rightarrow> rat option \<Rightarrow> rat result" where
  "policy_delay p attempt retry_after =
     bind_result (require (1 \<le> attempt) (ValueError ''retry attempt must be positive'')) (\<lambda>_.
     Inr (min (max (rp_base p * 2 ^ nat (attempt - 1)) (or_zero retry_after)) (rp_max p)))"

section \<open>The gate shared by processes\<close>

text \<open>
  The state file holds the next free time; \<open>None\<close> is a missing or unreadable file, for which
  \<open>_read_state\<close> reads the clock again (\<open>now2\<close>). The result is the reserved time and the new
  state.
\<close>

definition gate_acquire :: "rat \<Rightarrow> rat \<Rightarrow> rat \<Rightarrow> rat option \<Rightarrow> rat \<times> rat option" where
  "gate_acquire interval now now2 state =
     (let reserved = max now (case state of None \<Rightarrow> now2 | Some t \<Rightarrow> t)
      in (reserved, Some (reserved + interval)))"

definition gate_defer :: "rat \<Rightarrow> rat \<Rightarrow> rat \<Rightarrow> rat option \<Rightarrow> rat option" where
  "gate_defer seconds now now2 state =
     (if seconds \<le> 0 then state
      else Some (max (case state of None \<Rightarrow> now2 | Some t \<Rightarrow> t) (now + seconds)))"

section \<open>Answers\<close>

datatype alpha_class = RateLimitAnswer | AuthenticationAnswer | TransientAnswer

definition RATE_LIMIT_MARKERS :: "string list" where
  "RATE_LIMIT_MARKERS = [''rate limit'', ''call frequency'', ''requests per minute'', ''requests per day'',
     ''too many requests'']"

definition AUTHENTICATION_MARKERS :: "string list" where
  "AUTHENTICATION_MARKERS = [''invalid api key'', ''missing api key'', ''api key is invalid'', ''apikey is invalid'']"

definition NOTICE_KEYS :: "string list" where
  "NOTICE_KEYS = [''Information'', ''Note'', ''Error Message'', ''message'', ''error'']"

definition truthy_value :: "dict \<Rightarrow> string \<Rightarrow> json option" where
  "truthy_value d k = (case dict_get k d of Some j \<Rightarrow> if json_truthy j then Some j else None | None \<Rightarrow> None)"

definition classify_alpha_payload :: "(json \<Rightarrow> string) \<Rightarrow> json option \<Rightarrow> alpha_class option" where
  "classify_alpha_payload show payload = (case payload of
     Some (JObj d) \<Rightarrow>
       (let notices = map show (List.map_filter (truthy_value d) NOTICE_KEYS);
            message = str_lower (join_with '' '' notices)
        in if notices = [] then None
           else if list_ex (\<lambda>m. contains_str m message) RATE_LIMIT_MARKERS then Some RateLimitAnswer
           else if list_ex (\<lambda>m. contains_str m message) AUTHENTICATION_MARKERS then Some AuthenticationAnswer
           else Some TransientAnswer)
   | _ \<Rightarrow> None)"

definition alpha_key_fingerprint :: "(string \<Rightarrow> string) \<Rightarrow> string \<Rightarrow> string result" where
  "alpha_key_fingerprint sha key =
     bind_result (require (key \<noteq> []) (ValueError ''Alpha Vantage API key is required'')) (\<lambda>_. Inr (take 16 (sha key)))"

datatype rate_scope = PerMinute | PerDay

definition rate_limit_scope :: "(json \<Rightarrow> string) \<Rightarrow> json option \<Rightarrow> rate_scope" where
  "rate_limit_scope show payload = (case payload of
     Some (JObj d) \<Rightarrow>
       (let message = str_lower (join_with '' '' (map (show \<circ> snd) d))
        in if contains_str ''per day'' message \<or> contains_str ''requests per day'' message then PerDay else PerMinute)
   | _ \<Rightarrow> PerMinute)"

definition numeric_retry_after :: "(string \<Rightarrow> rat option) \<Rightarrow> string option \<Rightarrow> rat option" where
  "numeric_retry_after number value = (case value of None \<Rightarrow> None
     | Some s \<Rightarrow> (case number s of None \<Rightarrow> None | Some r \<Rightarrow> if 0 < r then Some r else None))"

definition json_payload :: "(string \<Rightarrow> json option) \<Rightarrow> string \<Rightarrow> json option" where
  "json_payload loads body =
     (if starts_with ''{'' (dropWhile is_space body) then loads body else None)"

section \<open>The quota coordinator\<close>

datatype quota_state = Normal | Cooldown | ProbeState

text \<open>
  A waiter is known by its sequence number; \<open>wt_done\<close> tells that its caller has been
  cancelled. The heap is kept as the list of its entries in key order: the keys (priority,
  sequence) are distinct, so \<open>heappop\<close> takes the head.
\<close>

record waiter =
  wt_priority :: int
  wt_sequence :: int
  wt_enqueued_at :: rat
  wt_done :: bool

definition waiter_key :: "waiter \<Rightarrow> int \<times> int" where
  "waiter_key w = (wt_priority w, wt_sequence w)"

record coordinator =
  co_max_in_flight :: int
  co_interval :: rat
  co_minute_cooldown :: rat
  co_daily_cooldown :: rat
  co_waiters :: "waiter list"
  co_sequence :: int
  co_in_flight :: int
  co_next_allowed_at :: rat
  co_state :: quota_state
  co_blocked_until :: "rat option"
  co_probe_in_flight :: bool
  co_rate_limits :: nat
  co_closed :: bool

definition new_coordinator :: "int \<Rightarrow> rat \<Rightarrow> int \<Rightarrow> rat \<Rightarrow> rat \<Rightarrow> coordinator" where
  "new_coordinator rpm utilization max_in_flight minute daily =
     \<lparr>co_max_in_flight = max_in_flight, co_interval = 60 / max 1 (of_int rpm * utilization),
      co_minute_cooldown = minute, co_daily_cooldown = daily, co_waiters = [], co_sequence = 0,
      co_in_flight = 0, co_next_allowed_at = 0, co_state = Normal, co_blocked_until = None,
      co_probe_in_flight = False, co_rate_limits = 0, co_closed = False\<rparr>"

datatype broker_error = BrokerAuthentication string | BrokerRateLimit string | BrokerTransient string
  | BrokerCrash string

definition quota_acquire :: "int \<Rightarrow> rat \<Rightarrow> coordinator \<Rightarrow> broker_error + coordinator \<times> int" where
  "quota_acquire priority now c =
     (if co_closed c then Inl (BrokerTransient ''Alpha Vantage broker is stopping'')
      else (let n = co_sequence c + 1;
                w = \<lparr>wt_priority = priority, wt_sequence = n, wt_enqueued_at = now, wt_done = False\<rparr>
            in Inr (c\<lparr>co_sequence := n, co_waiters := insort_key waiter_key w (co_waiters c)\<rparr>, n)))"

text \<open>The cancellation of the caller that waits under a sequence number.\<close>

definition quota_abandon :: "int \<Rightarrow> coordinator \<Rightarrow> coordinator" where
  "quota_abandon n c = c\<lparr>co_waiters :=
     map (\<lambda>w. if wt_sequence w = n then w\<lparr>wt_done := True\<rparr> else w) (co_waiters c)\<rparr>"

text \<open>
  One pass of the dispatch loop: a granted lease (the sequence of the waiter and whether it is
  a probe), an abandoned waiter dropped, or a pause of the given length.
\<close>

datatype dispatch = Granted int bool | Pause "rat option"

definition leave_cooldown :: "rat \<Rightarrow> coordinator \<Rightarrow> coordinator \<times> rat option" where
  "leave_cooldown now c =
     (if co_state c \<noteq> Cooldown then (c, None)
      else (let until = (case co_blocked_until c of None \<Rightarrow> now | Some t \<Rightarrow> if t = 0 then now else t)
            in if until \<le> now then (c\<lparr>co_state := ProbeState, co_blocked_until := None\<rparr>, None)
               else (c, Some (until - now))))"

definition grant_head :: "rat \<Rightarrow> coordinator \<Rightarrow> coordinator \<times> dispatch" where
  "grant_head now c = (case co_waiters c of
     [] \<Rightarrow> (c, Pause None)
   | w # ws \<Rightarrow>
       (if wt_done w then (c\<lparr>co_waiters := ws\<rparr>, Pause None)
        else (let probe = (co_state c = ProbeState)
              in (c\<lparr>co_waiters := ws, co_probe_in_flight := (co_probe_in_flight c \<or> probe),
                    co_in_flight := co_in_flight c + 1, co_next_allowed_at := now + co_interval c\<rparr>,
                  Granted (wt_sequence w) probe))))"

definition dispatch_pass :: "rat \<Rightarrow> coordinator \<Rightarrow> coordinator \<times> dispatch" where
  "dispatch_pass now c0 =
     (let c1 = c0\<lparr>co_waiters := dropWhile wt_done (co_waiters c0)\<rparr>
      in case leave_cooldown now c1 of (c, delay) \<Rightarrow>
        (if delay = None \<and> co_waiters c \<noteq> [] \<and> co_in_flight c < co_max_in_flight c
              \<and> \<not> (co_state c = ProbeState \<and> co_probe_in_flight c)
         then (if co_next_allowed_at c > now then (c, Pause (Some (co_next_allowed_at c - now)))
               else grant_head now c)
         else (c, Pause delay)))"

text \<open>The outcome of a lease; \<open>jitter\<close> is the random extra delay.\<close>

datatype lease_outcome = Success | RateLimited "rat option" rate_scope | TransientOutcome

definition cooldown_base :: "rate_scope \<Rightarrow> coordinator \<Rightarrow> rat" where
  "cooldown_base scope c = (case scope of PerDay \<Rightarrow> co_daily_cooldown c
     | PerMinute \<Rightarrow> co_minute_cooldown c * 2 ^ (co_rate_limits c - 1))"

definition quota_release :: "rat \<Rightarrow> rat \<Rightarrow> bool \<Rightarrow> lease_outcome \<Rightarrow> coordinator \<Rightarrow> coordinator" where
  "quota_release now jitter probe outcome c0 =
     (let c = c0\<lparr>co_in_flight := max 0 (co_in_flight c0 - 1)\<rparr> in
      case outcome of
        RateLimited retry_after scope \<Rightarrow>
          (let c1 = c\<lparr>co_rate_limits := Suc (co_rate_limits c)\<rparr>;
               delay = max (cooldown_base scope c1) (or_zero retry_after) + max 0 jitter
           in c1\<lparr>co_state := Cooldown, co_blocked_until := Some (now + delay), co_probe_in_flight := False\<rparr>)
      | Success \<Rightarrow>
          (if probe then c\<lparr>co_state := Normal, co_blocked_until := None, co_probe_in_flight := False,
             co_rate_limits := 0\<rparr> else c)
      | TransientOutcome \<Rightarrow>
          (if probe then c\<lparr>co_state := Cooldown,
             co_blocked_until := Some (now + min (co_minute_cooldown c) 30), co_probe_in_flight := False\<rparr> else c))"

definition quota_close :: "coordinator \<Rightarrow> coordinator" where
  "quota_close c = c\<lparr>co_closed := True, co_waiters := []\<rparr>"

definition queued_waiters :: "coordinator \<Rightarrow> nat" where
  "queued_waiters c = length (filter (\<lambda>w. \<not> wt_done w) (co_waiters c))"

definition oldest_queued_seconds :: "rat \<Rightarrow> coordinator \<Rightarrow> rat option" where
  "oldest_queued_seconds now c = (case map wt_enqueued_at (filter (\<lambda>w. \<not> wt_done w) (co_waiters c)) of
     [] \<Rightarrow> None | t # ts \<Rightarrow> Some (max 0 (now - fold min ts t)))"

definition blocked_seconds :: "rat \<Rightarrow> coordinator \<Rightarrow> rat option" where
  "blocked_seconds now c = map_option (\<lambda>t. max 0 (t - now)) (co_blocked_until c)"

section \<open>One fetch\<close>

datatype upstream = NoResponse | Upstream int "string option" string

record fetch_env =
  fe_loads :: "string \<Rightarrow> json option"
  fe_show :: "json \<Rightarrow> string"
  fe_number :: "string \<Rightarrow> rat option"

text \<open>What follows the release of a lease: another attempt after a sleep, an error, or the body.\<close>

datatype attempt_end = Again rat | Fails broker_error | Delivers string

record attempt_record =
  at_outcome :: lease_outcome
  at_rejected :: bool
  at_end :: attempt_end

definition again_or :: "int \<Rightarrow> retry_policy \<Rightarrow> rat result \<Rightarrow> broker_error \<Rightarrow> attempt_end" where
  "again_or attempt p sleep e =
     (if attempt = rp_attempts p then Fails e
      else (case sleep of Inl (ValueError m) \<Rightarrow> Fails (BrokerCrash m) | Inl _ \<Rightarrow> Fails (BrokerCrash [])
        | Inr t \<Rightarrow> Again t))"

definition judge_body :: "fetch_env \<Rightarrow> retry_policy \<Rightarrow> int \<Rightarrow> string \<Rightarrow> attempt_record" where
  "judge_body env p attempt body =
     (let payload = json_payload (fe_loads env) body in
      case classify_alpha_payload (fe_show env) payload of
        Some AuthenticationAnswer \<Rightarrow> \<lparr>at_outcome = Success, at_rejected = True,
          at_end = Fails (BrokerAuthentication ''Alpha Vantage rejected the configured credentials'')\<rparr>
      | Some RateLimitAnswer \<Rightarrow>
          (let scope = rate_limit_scope (fe_show env) payload;
               e = BrokerRateLimit ''Alpha Vantage quota is unavailable for the current period''
           in \<lparr>at_outcome = RateLimited None scope, at_rejected = False,
               at_end = (if scope = PerDay then Fails e else again_or attempt p (Inr 0) e)\<rparr>)
      | Some TransientAnswer \<Rightarrow> \<lparr>at_outcome = TransientOutcome, at_rejected = False,
          at_end = again_or attempt p (policy_delay p attempt None)
            (BrokerTransient ''Alpha Vantage returned transient errors after coordinated retries'')\<rparr>
      | None \<Rightarrow> \<lparr>at_outcome = Success, at_rejected = False, at_end = Delivers body\<rparr>)"

definition judge :: "fetch_env \<Rightarrow> retry_policy \<Rightarrow> int \<Rightarrow> upstream \<Rightarrow> attempt_record" where
  "judge env p attempt u = (case u of
     NoResponse \<Rightarrow> \<lparr>at_outcome = TransientOutcome, at_rejected = False,
       at_end = again_or attempt p (policy_delay p attempt None)
         (BrokerTransient ''Alpha Vantage request failed after coordinated retries'')\<rparr>
   | Upstream status retry_after body \<Rightarrow>
       (if status = 429 then
          \<lparr>at_outcome = RateLimited (numeric_retry_after (fe_number env) retry_after) PerMinute, at_rejected = False,
           at_end = again_or attempt p (Inr 0)
             (BrokerRateLimit ''Alpha Vantage rate limit persisted after coordinated retries'')\<rparr>
        else if status \<ge> 500 then
          \<lparr>at_outcome = TransientOutcome, at_rejected = False,
           at_end = again_or attempt p (policy_delay p attempt None)
             (BrokerTransient ''Alpha Vantage service remained unavailable after coordinated retries'')\<rparr>
        else if status \<ge> 400 then
          \<lparr>at_outcome = TransientOutcome, at_rejected = False,
           at_end = Fails (BrokerTransient ''Alpha Vantage rejected the request'')\<rparr>
        else judge_body env p attempt body))"

text \<open>
  The loop over the attempts; \<open>answer\<close> is what the upstream answers to each of them. The
  result is the record of the attempts made and the end of the fetch.
\<close>

fun fetch_attempts ::
    "fetch_env \<Rightarrow> retry_policy \<Rightarrow> (int \<Rightarrow> upstream) \<Rightarrow> int list \<Rightarrow> attempt_record list \<times> (broker_error + string)" where
  "fetch_attempts env p answer [] =
     ([], Inl (BrokerCrash ''unreachable Alpha Vantage broker retry state''))"
| "fetch_attempts env p answer (n # ns) =
     (let r = judge env p n (answer n) in
      case at_end r of
        Fails e \<Rightarrow> ([r], Inl e)
      | Delivers body \<Rightarrow> ([r], Inr body)
      | Again _ \<Rightarrow> (case fetch_attempts env p answer ns of (rs, result) \<Rightarrow> (r # rs, result)))"

definition fetch :: "fetch_env \<Rightarrow> retry_policy \<Rightarrow> (int \<Rightarrow> upstream) \<Rightarrow> attempt_record list \<times> (broker_error + string)" where
  "fetch env p answer = fetch_attempts env p answer [1..rp_attempts p]"

end
