(* ===== verification/QuotaFacts.thy ===== *)
theory QuotaFacts
  imports Quota
begin

text \<open>
  What the quota coordinator guarantees whatever its callers do: the leases it has handed out
  are the requests in flight, they never exceed the cap, and two grants are never closer than
  the pacing interval. The commands below are the points at which its coroutines can be
  interleaved (each runs without suspension under \<open>_lock\<close>); time only moves forward.
\<close>

section \<open>Interleavings\<close>

record quota_world =
  qw_coord :: coordinator
  qw_now :: rat
  qw_leases :: "bool list"
  qw_grants :: "rat list"

datatype quota_cmd = Tick rat | Enqueue int | Abandon int | Dispatch | Release bool rat lease_outcome | Close

text \<open>
  \<open>qw_leases\<close> holds the probe flag of every lease not yet released and \<open>qw_grants\<close> the times of
  the grants, latest first. \<open>None\<close>: the command is not possible in this world.
\<close>

definition quota_apply :: "quota_cmd \<Rightarrow> quota_world \<Rightarrow> quota_world option" where
  "quota_apply cmd w = (case cmd of
     Tick t \<Rightarrow> if qw_now w \<le> t then Some (w\<lparr>qw_now := t\<rparr>) else None
   | Enqueue p \<Rightarrow> (case quota_acquire p (qw_now w) (qw_coord w) of
       Inl _ \<Rightarrow> None | Inr (c, _) \<Rightarrow> Some (w\<lparr>qw_coord := c\<rparr>))
   | Abandon n \<Rightarrow> Some (w\<lparr>qw_coord := quota_abandon n (qw_coord w)\<rparr>)
   | Dispatch \<Rightarrow>
       (if co_closed (qw_coord w) then None
        else (case dispatch_pass (qw_now w) (qw_coord w) of
            (c, Granted n probe) \<Rightarrow> Some (w\<lparr>qw_coord := c, qw_leases := probe # qw_leases w,
               qw_grants := qw_now w # qw_grants w\<rparr>)
          | (c, Pause _) \<Rightarrow> Some (w\<lparr>qw_coord := c\<rparr>)))
   | Release probe jitter outcome \<Rightarrow>
       (if probe \<in> set (qw_leases w)
        then Some (w\<lparr>qw_coord := quota_release (qw_now w) jitter probe outcome (qw_coord w),
               qw_leases := remove1 probe (qw_leases w)\<rparr>) else None)
   | Close \<Rightarrow> Some (w\<lparr>qw_coord := quota_close (qw_coord w)\<rparr>))"

fun quota_run :: "quota_cmd list \<Rightarrow> quota_world \<Rightarrow> quota_world option" where
  "quota_run [] w = Some w"
| "quota_run (cmd # cmds) w = (case quota_apply cmd w of None \<Rightarrow> None | Some w' \<Rightarrow> quota_run cmds w')"

definition quota_init :: "rat \<Rightarrow> coordinator \<Rightarrow> quota_world" where
  "quota_init now c = \<lparr>qw_coord = c, qw_now = now, qw_leases = [], qw_grants = []\<rparr>"

section \<open>The invariant\<close>

text \<open>Grants, latest first, are at least the interval apart.\<close>

fun spaced :: "rat \<Rightarrow> rat list \<Rightarrow> bool" where
  "spaced i (t # u # ts) = (u + i \<le> t \<and> spaced i (u # ts))"
| "spaced i _ = True"

definition quota_inv :: "int \<Rightarrow> rat \<Rightarrow> quota_world \<Rightarrow> bool" where
  "quota_inv cap i w \<longleftrightarrow>
     co_max_in_flight (qw_coord w) = cap \<and> co_interval (qw_coord w) = i
     \<and> co_in_flight (qw_coord w) = int (length (qw_leases w)) \<and> int (length (qw_leases w)) \<le> max 0 cap
     \<and> spaced i (qw_grants w)
     \<and> (qw_grants w = [] \<or> hd (qw_grants w) + i \<le> co_next_allowed_at (qw_coord w))"

lemma spaced_Cons: "spaced i (t # ts) \<longleftrightarrow> (ts = [] \<or> hd ts + i \<le> t) \<and> spaced i ts"
  by (cases ts) auto

text \<open>The pace is kept over any stretch of the grants.\<close>

lemma spaced_stretch:
  assumes "spaced i ts" and "m + n < length ts"
  shows "ts ! (m + n) + of_nat n * i \<le> ts ! m"
  using assms
proof (induction n)
  case (Suc n)
  have "spaced i us \<Longrightarrow> Suc k < length us \<Longrightarrow> us ! Suc k + i \<le> us ! k" for us k
    by (induction us arbitrary: k) (auto simp: spaced_Cons hd_conv_nth nth_Cons split: nat.splits)
  from this [OF Suc.prems(1), of "m + n"] Suc show ?case by (simp add: algebra_simps)
qed simp

subsection \<open>What a pass of the dispatcher changes\<close>

lemma leave_cooldown_frame [simp]:
  "leave_cooldown now c = (c', d) \<Longrightarrow> co_max_in_flight c' = co_max_in_flight c \<and> co_interval c' = co_interval c
     \<and> co_in_flight c' = co_in_flight c \<and> co_next_allowed_at c' = co_next_allowed_at c
     \<and> co_waiters c' = co_waiters c \<and> co_probe_in_flight c' = co_probe_in_flight c \<and> co_closed c' = co_closed c"
  by (auto simp: leave_cooldown_def Let_def split: if_splits)

lemma grant_head_granted:
  "grant_head now c = (c', Granted n probe) \<Longrightarrow> co_max_in_flight c' = co_max_in_flight c
     \<and> co_interval c' = co_interval c \<and> co_in_flight c' = co_in_flight c + 1
     \<and> co_next_allowed_at c' = now + co_interval c"
  by (auto simp: grant_head_def Let_def split: list.splits if_splits)

lemma grant_head_paused:
  "grant_head now c = (c', Pause d) \<Longrightarrow> co_max_in_flight c' = co_max_in_flight c
     \<and> co_interval c' = co_interval c \<and> co_in_flight c' = co_in_flight c
     \<and> co_next_allowed_at c' = co_next_allowed_at c"
  by (auto simp: grant_head_def Let_def split: list.splits if_splits)

lemma dispatch_granted:
  assumes "dispatch_pass now c = (c', Granted n probe)"
  shows "co_in_flight c < co_max_in_flight c \<and> co_next_allowed_at c \<le> now
     \<and> co_max_in_flight c' = co_max_in_flight c \<and> co_interval c' = co_interval c
     \<and> co_in_flight c' = co_in_flight c + 1 \<and> co_next_allowed_at c' = now + co_interval c"
proof -
  obtain c1 d where l: "leave_cooldown now (c\<lparr>co_waiters := dropWhile wt_done (co_waiters c)\<rparr>) = (c1, d)"
    by (metis surj_pair)
  note lf = leave_cooldown_frame [OF l]
  from assms l have "co_in_flight c1 < co_max_in_flight c1" "co_next_allowed_at c1 \<le> now"
    "grant_head now c1 = (c', Granted n probe)"
    by (auto simp: dispatch_pass_def Let_def split: if_splits)
  with lf grant_head_granted [of now c1 c' n probe] show ?thesis by simp
qed

lemma dispatch_paused:
  assumes "dispatch_pass now c = (c', Pause d)"
  shows "co_max_in_flight c' = co_max_in_flight c \<and> co_interval c' = co_interval c
     \<and> co_in_flight c' = co_in_flight c \<and> co_next_allowed_at c' = co_next_allowed_at c"
proof -
  obtain c1 e where l: "leave_cooldown now (c\<lparr>co_waiters := dropWhile wt_done (co_waiters c)\<rparr>) = (c1, e)"
    by (metis surj_pair)
  note lf = leave_cooldown_frame [OF l]
  from assms l have "c' = c1 \<or> grant_head now c1 = (c', Pause d)"
    by (auto simp: dispatch_pass_def Let_def split: if_splits)
  with lf grant_head_paused [of now c1 c' d] show ?thesis by auto
qed

lemma quota_release_frame [simp]:
  "co_max_in_flight (quota_release now j probe oc c) = co_max_in_flight c"
  "co_interval (quota_release now j probe oc c) = co_interval c"
  "co_in_flight (quota_release now j probe oc c) = max 0 (co_in_flight c - 1)"
  "co_next_allowed_at (quota_release now j probe oc c) = co_next_allowed_at c"
  by (simp_all add: quota_release_def Let_def split: lease_outcome.splits)

lemma quota_acquire_frame:
  "quota_acquire p now c = Inr (c', n) \<Longrightarrow> co_max_in_flight c' = co_max_in_flight c
     \<and> co_interval c' = co_interval c \<and> co_in_flight c' = co_in_flight c
     \<and> co_next_allowed_at c' = co_next_allowed_at c"
  by (auto simp: quota_acquire_def Let_def split: if_splits)

lemma quota_apply_inv:
  assumes "quota_apply cmd w = Some w'" and inv: "quota_inv cap i w"
  shows "quota_inv cap i w'"
proof (cases cmd)
  case Dispatch
  with assms obtain c r where d: "dispatch_pass (qw_now w) (qw_coord w) = (c, r)"
    by (metis surj_pair)
  show ?thesis
  proof (cases r)
    case (Granted n probe)
    with assms Dispatch d have w': "w' = w\<lparr>qw_coord := c, qw_leases := probe # qw_leases w,
        qw_grants := qw_now w # qw_grants w\<rparr>"
      by (simp add: quota_apply_def split: if_splits)
    note g = dispatch_granted [OF d [unfolded Granted]]
    have sp: "spaced i (qw_now w # qw_grants w)"
    proof (cases "qw_grants w = []")
      case False
      with inv have "hd (qw_grants w) + i \<le> co_next_allowed_at (qw_coord w)" by (simp add: quota_inv_def)
      also have "\<dots> \<le> qw_now w" using g by simp
      finally show ?thesis using inv by (simp add: spaced_Cons quota_inv_def)
    qed simp
    have "int (length (probe # qw_leases w)) \<le> max 0 cap" using g inv by (simp add: quota_inv_def)
    with sp g inv show ?thesis by (simp add: w' quota_inv_def)
  next
    case (Pause e)
    with assms Dispatch d have "w' = w\<lparr>qw_coord := c\<rparr>"
      by (simp add: quota_apply_def split: if_splits)
    with dispatch_paused [of "qw_now w" "qw_coord w" c e] d Pause inv
    show ?thesis by (simp add: quota_inv_def)
  qed
next
  case (Release probe j oc)
  with assms have "probe \<in> set (qw_leases w)"
    and w': "w' = w\<lparr>qw_coord := quota_release (qw_now w) j probe oc (qw_coord w),
        qw_leases := remove1 probe (qw_leases w)\<rparr>"
    by (simp_all add: quota_apply_def split: if_splits)
  moreover from this have "int (length (qw_leases w) - Suc 0) = int (length (qw_leases w)) - 1"
    using length_pos_if_in_set [of probe "qw_leases w"] by linarith
  ultimately show ?thesis using inv by (auto simp: w' quota_inv_def length_remove1 max_def)
next
  case (Tick t)
  with assms show ?thesis by (auto simp: quota_apply_def quota_inv_def split: if_splits)
next
  case (Enqueue p)
  show ?thesis
  proof (cases "quota_acquire p (qw_now w) (qw_coord w)")
    case (Inl e)
    with assms Enqueue show ?thesis by (simp add: quota_apply_def)
  next
    case (Inr r)
    then obtain c n where r: "quota_acquire p (qw_now w) (qw_coord w) = Inr (c, n)" by (cases r) simp
    with assms Enqueue have "w' = w\<lparr>qw_coord := c\<rparr>" by (simp add: quota_apply_def)
    with quota_acquire_frame [OF r] inv show ?thesis by (simp add: quota_inv_def)
  qed
next
  case (Abandon n)
  with assms(1) have "w' = w\<lparr>qw_coord := quota_abandon n (qw_coord w)\<rparr>" by (simp add: quota_apply_def)
  with inv show ?thesis by (simp add: quota_inv_def quota_abandon_def)
next
  case Close
  with assms(1) have "w' = w\<lparr>qw_coord := quota_close (qw_coord w)\<rparr>" by (simp add: quota_apply_def)
  with inv show ?thesis by (simp add: quota_inv_def quota_close_def)
qed

lemma quota_run_inv:
  "quota_run cmds w = Some w' \<Longrightarrow> quota_inv cap i w \<Longrightarrow> quota_inv cap i w'"
  by (induction cmds arbitrary: w) (auto split: option.splits dest: quota_apply_inv)

lemma quota_init_inv: "co_in_flight c = 0 \<Longrightarrow>
    quota_inv (co_max_in_flight c) (co_interval c) (quota_init now c)"
  by (simp add: quota_inv_def quota_init_def)

text \<open>
  C27. Whatever callers ask for, cancel and release, and however their steps interleave, the
  leases the coordinator has handed out and not taken back are exactly its in-flight count,
  they never exceed the configured maximum, and any \<open>n + 1\<close> grants take at least \<open>n\<close> pacing
  intervals (60 seconds over the effective requests per minute).
\<close>

theorem quota_bounds:
  assumes "quota_run cmds (quota_init now (new_coordinator rpm util cap minute daily)) = Some w"
    and "m + n < length (qw_grants w)"
  shows "co_in_flight (qw_coord w) = int (length (qw_leases w))
    \<and> int (length (qw_leases w)) \<le> max 0 cap
    \<and> qw_grants w ! (m + n) + of_nat n * (60 / max 1 (of_int rpm * util)) \<le> qw_grants w ! m"
proof -
  let ?c = "new_coordinator rpm util cap minute daily"
  have c: "co_in_flight ?c = 0" "co_max_in_flight ?c = cap"
    "co_interval ?c = 60 / max 1 (of_int rpm * util)" by (simp_all add: new_coordinator_def)
  from quota_run_inv [OF assms(1) quota_init_inv [OF c(1)]]
  have inv: "quota_inv cap (60 / max 1 (of_int rpm * util)) w" by (simp add: c)
  with spaced_stretch [OF _ assms(2), of "60 / max 1 (of_int rpm * util)"]
  show ?thesis by (simp add: quota_inv_def)
qed

definition quota_script :: "quota_cmd list" where
  "quota_script = [Enqueue 20, Enqueue 0, Enqueue 0, Dispatch, Dispatch, Tick 2, Dispatch]"

lemma quota_bounds_witness:
  "\<exists>w. quota_run quota_script (quota_init 1 (new_coordinator 60 1 2 60 3600)) = Some w
     \<and> length (qw_leases w) = 2 \<and> qw_grants w ! 1 + 1 \<le> qw_grants w ! 0"
proof -
  have "map_option (\<lambda>w. (qw_leases w, length (qw_grants w)))
      (quota_run quota_script (quota_init 1 (new_coordinator 60 1 2 60 3600))) = Some ([False, False], 2)"
    by code_simp
  then obtain w where w: "quota_run quota_script (quota_init 1 (new_coordinator 60 1 2 60 3600)) = Some w"
    and l: "qw_leases w = [False, False]" and g: "length (qw_grants w) = 2" by auto
  from quota_bounds [OF w, of 0 1] g l w show ?thesis by simp
qed

section \<open>The end of a cool-down\<close>

text \<open>
  Two requests are in flight when the first is rate limited; after the cool-down the probe
  goes out beside the second, which then is rate limited too and starts a longer cool-down,
  to 183 s, while the probe is still unanswered.
\<close>

definition stale_probe_script :: "quota_cmd list" where
  "stale_probe_script = [Enqueue 0, Enqueue 0, Enqueue 0, Enqueue 0, Dispatch, Tick 2, Dispatch,
     Release False 0 (RateLimited None PerMinute), Tick 62, Dispatch, Tick 63,
     Release False 0 (RateLimited None PerMinute), Tick 64]"

definition world_view :: "quota_world \<Rightarrow> quota_state \<times> rat option \<times> nat \<times> rat list" where
  "world_view w = (co_state (qw_coord w), co_blocked_until (qw_coord w), co_rate_limits (qw_coord w), qw_grants w)"

text \<open>
  A successful probe puts the coordinator back to normal whatever it has learnt since the
  probe was sent: a second rate limit that started a cool-down to 183 s is forgotten, its
  back-off count with it, and the next request goes out at 64 s, two minutes before the
  cool-down was to end.
\<close>

theorem stale_probe_ends_cooldown:
  "co_state (quota_release now jitter True Success c) = Normal
   \<and> co_rate_limits (quota_release now jitter True Success c) = 0
   \<and> map_option world_view (quota_run stale_probe_script (quota_init 1 (new_coordinator 60 1 2 60 3600)))
       = Some (Cooldown, Some 183, 2, [62, 2, 1])
   \<and> map_option world_view (quota_run (stale_probe_script @ [Dispatch])
         (quota_init 1 (new_coordinator 60 1 2 60 3600))) = Some (Cooldown, Some 183, 2, [62, 2, 1])
   \<and> map_option world_view (quota_run (stale_probe_script @ [Release True 0 Success, Dispatch])
         (quota_init 1 (new_coordinator 60 1 2 60 3600))) = Some (Normal, None, 0, [64, 62, 2, 1])"
proof -
  have "co_state (quota_release now jitter True Success c) = Normal"
    and "co_rate_limits (quota_release now jitter True Success c) = 0"
    by (simp_all add: quota_release_def)
  moreover have "map_option world_view (quota_run stale_probe_script
      (quota_init 1 (new_coordinator 60 1 2 60 3600))) = Some (Cooldown, Some 183, 2, [62, 2, 1])"
    by code_simp
  moreover have "map_option world_view (quota_run (stale_probe_script @ [Dispatch])
      (quota_init 1 (new_coordinator 60 1 2 60 3600))) = Some (Cooldown, Some 183, 2, [62, 2, 1])"
    by code_simp
  moreover have "map_option world_view (quota_run (stale_probe_script @ [Release True 0 Success, Dispatch])
      (quota_init 1 (new_coordinator 60 1 2 60 3600))) = Some (Normal, None, 0, [64, 62, 2, 1])"
    by code_simp
  ultimately show ?thesis by blast
qed

section \<open>One fetch\<close>

lemma policy_delay_ok:
  assumes "1 \<le> attempt" and "retry_policy_ok p = Inr ()"
  shows "\<exists>t. policy_delay p attempt ra = Inr t \<and> 0 \<le> t \<and> t \<le> rp_max p"
proof -
  have "0 < rp_base p" "0 < rp_max p" using assms(2) by (auto simp: retry_policy_ok_def result_simps)
  hence "0 \<le> rp_base p * 2 ^ nat (attempt - 1)" "0 \<le> rp_max p" by simp_all
  thus ?thesis using assms(1) by (simp add: policy_delay_def le_max_iff_disj)
qed

text \<open>
  What one attempt can lead to: an attempt is repeated only below the limit and after at most
  the maximal delay; a body is delivered only by an answer below 400, whose lease is released
  as a success; and no attempt crashes.
\<close>

definition attempt_fits :: "retry_policy \<Rightarrow> int \<Rightarrow> attempt_record \<Rightarrow> bool" where
  "attempt_fits p n r = (case at_end r of
     Again t \<Rightarrow> n \<noteq> rp_attempts p \<and> 0 \<le> t \<and> t \<le> rp_max p \<and> at_outcome r \<noteq> Success
   | Fails e \<Rightarrow> (case e of BrokerCrash _ \<Rightarrow> False | BrokerAuthentication _ \<Rightarrow> at_rejected r
        | BrokerRateLimit _ \<Rightarrow> (case at_outcome r of RateLimited _ _ \<Rightarrow> True | _ \<Rightarrow> False)
        | BrokerTransient _ \<Rightarrow> at_outcome r = TransientOutcome)
   | Delivers _ \<Rightarrow> at_outcome r = Success \<and> \<not> at_rejected r)"

lemma again_or_fits:
  "again_or n p (Inr t) e = (if n = rp_attempts p then Fails e else Again t)"
  by (simp add: again_or_def)

lemma policy_max: "retry_policy_ok p = Inr () \<Longrightarrow> 0 \<le> rp_max p"
  by (auto simp: retry_policy_ok_def result_simps)

lemma judge_body_fits: "1 \<le> n \<Longrightarrow> retry_policy_ok p = Inr () \<Longrightarrow> attempt_fits p n (judge_body env p n body)"
  using policy_delay_ok [of n p None] policy_max [of p]
  by (auto simp: judge_body_def attempt_fits_def again_or_fits Let_def split: option.splits alpha_class.splits)

lemma judge_fits: "1 \<le> n \<Longrightarrow> retry_policy_ok p = Inr () \<Longrightarrow> attempt_fits p n (judge env p n u)"
  using policy_delay_ok [of n p None] judge_body_fits [of n p env] policy_max [of p]
  by (cases u) (auto simp: judge_def attempt_fits_def again_or_fits)

lemma fetch_attempts_cases:
  "fetch_attempts env p answer (n # ns) = (rs, result) \<Longrightarrow>
     (\<exists>t. at_end (judge env p n (answer n)) = Again t
        \<and> (\<exists>rs'. rs = judge env p n (answer n) # rs' \<and> fetch_attempts env p answer ns = (rs', result)))
   \<or> (\<exists>e. at_end (judge env p n (answer n)) = Fails e \<and> rs = [judge env p n (answer n)] \<and> result = Inl e)
   \<or> (\<exists>b. at_end (judge env p n (answer n)) = Delivers b \<and> rs = [judge env p n (answer n)] \<and> result = Inr b)"
  by (auto simp: Let_def split: attempt_end.splits prod.splits)

definition ended :: "attempt_record \<Rightarrow> broker_error + string \<Rightarrow> bool" where
  "ended r result = (case at_end r of Again _ \<Rightarrow> False | Fails e \<Rightarrow> result = Inl e | Delivers b \<Rightarrow> result = Inr b)"

definition again :: "attempt_record \<Rightarrow> bool" where
  "again r = (case at_end r of Again _ \<Rightarrow> True | _ \<Rightarrow> False)"

lemma fetch_attempts_run:
  assumes "fetch_attempts env p answer [m..rp_attempts p] = (rs, result)" and "1 \<le> m" and "m \<le> rp_attempts p"
    and ok: "retry_policy_ok p = Inr ()"
  shows "rs \<noteq> [] \<and> int (length rs) \<le> rp_attempts p - m + 1
    \<and> rs = map (\<lambda>n. judge env p n (answer n)) [m..m + int (length rs) - 1]
    \<and> list_all again (butlast rs) \<and> ended (last rs) result"
  using assms(1-3)
proof (induction "nat (rp_attempts p - m)" arbitrary: m rs)
  case (0 m)
  then have m: "m = rp_attempts p" by simp
  have "\<not> again (judge env p m (answer m))"
    using judge_fits [OF 0(3) ok, of env "answer m"] m
    by (auto simp: attempt_fits_def again_def split: attempt_end.splits)
  with 0 fetch_attempts_cases [of env p answer m "[]" rs result] show ?case
    by (auto simp: m again_def ended_def)
next
  case (Suc k m)
  then have lt: "m < rp_attempts p" by simp
  let ?r = "judge env p m (answer m)"
  from lt have up: "[m..rp_attempts p] = m # [m + 1..rp_attempts p]" by (simp add: upto_rec1)
  from fetch_attempts_cases [OF Suc.prems(1) [unfolded up]] consider
      (again) t rs' where "at_end ?r = Again t" "rs = ?r # rs'"
        "fetch_attempts env p answer [m + 1..rp_attempts p] = (rs', result)"
    | (stop) "rs = [?r]" "ended ?r result"
    by (auto simp: ended_def)
  then show ?case
  proof cases
    case again
    from Suc.hyps(1) [OF _ again(3)] Suc.hyps(2) Suc.prems(2) lt
    have ih: "rs' \<noteq> []" "int (length rs') \<le> rp_attempts p - m"
      "rs' = map (\<lambda>n. judge env p n (answer n)) [m + 1..m + int (length rs')]"
      "list_all again (butlast rs')" "ended (last rs') result" by (auto simp: algebra_simps)
    have "[m..m + int (length rs')] = m # [m + 1..m + int (length rs')]" by (simp add: upto_rec1)
    with ih again show ?thesis by (auto simp: again_def)
  next
    case stop
    with lt show ?thesis by auto
  qed
qed

text \<open>
  C29. A fetch under a valid policy makes at least one and at most the configured number of attempts,
  each with a lease of its own that is released once; every attempt but the last is repeated after
  a delay between zero and the maximal one, and the last one decides the fetch. It never ends in the
  state the code calls unreachable and no attempt crashes; credentials that are refused or a spent daily
  quota end it at once, and a body is delivered only by an answer that was no notice and no error.
\<close>

theorem fetch_bounded:
  assumes "fetch env p answer = (rs, result)" and "retry_policy_ok p = Inr ()"
  shows "rs \<noteq> [] \<and> int (length rs) \<le> rp_attempts p
    \<and> rs = map (\<lambda>n. judge env p n (answer n)) [1..int (length rs)]
    \<and> list_all again (butlast rs) \<and> ended (last rs) result
    \<and> (\<forall>i < length rs. attempt_fits p (int i + 1) (rs ! i))"
proof -
  have "1 \<le> rp_attempts p" using assms(2) by (auto simp: retry_policy_ok_def result_simps)
  with fetch_attempts_run [of env p answer 1 rs result] assms
  have run: "rs \<noteq> []" "int (length rs) \<le> rp_attempts p"
    "rs = map (\<lambda>n. judge env p n (answer n)) [1..int (length rs)]"
    "list_all again (butlast rs)" "ended (last rs) result" by (simp_all add: fetch_def)
  have "rs ! i = judge env p (int i + 1) (answer (int i + 1))" if "i < length rs" for i
    using that by (subst run(3)) (simp add: add.commute)
  with judge_fits [OF _ assms(2)] run show ?thesis by simp
qed

definition plain_env :: fetch_env where
  "plain_env = \<lparr>fe_loads = (\<lambda>_. Some (JObj [(''Note'', JStr ''requests per day'')])), fe_show = json_dumps,
     fe_number = (\<lambda>_. None)\<rparr>"

definition busy_answers :: "int \<Rightarrow> upstream" where
  "busy_answers n = (if n = 1 then NoResponse else if n = 2 then Upstream 429 None [] else Upstream 200 None ''{}'')"

lemma fetch_bounded_witness:
  "\<exists>rs e. fetch plain_env \<lparr>rp_attempts = 6, rp_base = 5, rp_max = 60\<rparr> busy_answers = (rs, Inl e)
     \<and> int (length rs) \<le> 6 \<and> length rs = 3 \<and> list_all again (butlast rs) \<and> at_end (rs ! 0) = Again 5
     \<and> attempt_fits \<lparr>rp_attempts = 6, rp_base = 5, rp_max = 60\<rparr> 1 (rs ! 0)"
proof -
  let ?p = "\<lparr>rp_attempts = 6, rp_base = 5, rp_max = 60\<rparr>"
  have "(case fetch plain_env ?p busy_answers of (rs, result) \<Rightarrow> (length rs, at_end (rs ! 0), result)) =
      (3, Again 5, Inl (BrokerRateLimit ''Alpha Vantage quota is unavailable for the current period''))"
    by code_simp
  then obtain rs where f: "fetch plain_env ?p busy_answers =
      (rs, Inl (BrokerRateLimit ''Alpha Vantage quota is unavailable for the current period''))"
    and l: "length rs = 3" "at_end (rs ! 0) = Again 5" by (auto split: prod.splits)
  have "retry_policy_ok ?p = Inr ()" by (simp add: retry_policy_ok_def)
  note b = fetch_bounded [OF f this]
  from b have "\<forall>i < length rs. attempt_fits ?p (int i + 1) (rs ! i)" by blast
  hence "attempt_fits ?p 1 (rs ! 0)" using l(1) by (elim allE [of _ 0]) simp
  with b f l show ?thesis by auto
qed

section \<open>The gate shared by processes\<close>

text \<open>
  The processes' calls in the order they hold the file lock, each with its clock readings; the
  result is the times reserved, in that order, and the state left.
\<close>

datatype gate_call = GateAcquire rat rat | GateDefer rat rat rat

fun gate_calls :: "rat \<Rightarrow> gate_call list \<Rightarrow> rat option \<Rightarrow> rat list \<times> rat option" where
  "gate_calls i [] st = ([], st)"
| "gate_calls i (GateAcquire now now2 # cs) st =
     (case gate_acquire i now now2 st of (r, st') \<Rightarrow>
        (case gate_calls i cs st' of (rs, st'') \<Rightarrow> (r # rs, st'')))"
| "gate_calls i (GateDefer s now now2 # cs) st = gate_calls i cs (gate_defer s now now2 st)"

lemma gate_calls_spaced:
  "gate_calls i cs (Some t) = (rs, st) \<Longrightarrow> spaced i (rev rs) \<and> (rs = [] \<or> t \<le> hd rs)"
proof (induction cs arbitrary: t rs)
  case (Cons c cs)
  show ?case
  proof (cases c)
    case (GateAcquire now now2)
    with Cons.prems obtain rs' where r: "gate_calls i cs (Some (max now t + i)) = (rs', st)"
      and rs: "rs = max now t # rs'" by (auto simp: gate_acquire_def Let_def split: prod.splits)
    from Cons.IH [OF r] have ih: "spaced i (rev rs')" "rs' = [] \<or> max now t + i \<le> hd rs'" by auto
    have "spaced i us \<Longrightarrow> us = [] \<or> x + i \<le> last us \<Longrightarrow> spaced i (us @ [x])" for us x
      by (induction us) (auto simp: spaced_Cons hd_append)
    from this [of "rev rs'" "max now t"] ih show ?thesis by (auto simp: rs last_rev)
  next
    case (GateDefer s now now2)
    then show ?thesis
      using Cons.prems Cons.IH [of t rs] Cons.IH [of "max t (now + s)" rs]
      by (auto simp: gate_defer_def split: if_splits)
  qed
qed simp

end
