(* ===== verification/Broker.thy ===== *)
theory Broker
  imports Quota
begin

text \<open>
  The Alpha Vantage broker (\<open>vendors/alpha_vantage_broker.py\<close>: \<open>_ResponseCache\<close>,
  \<open>AlphaVantageBroker\<close>, and the answers of \<open>alpha_vantage_broker_app.py\<close> as
  \<open>alpha_vantage_client.py\<close> reads them): the cache of responses, the coalescing of equal
  queries into one fetch, and the status. A query is the sequence of the steps between which
  other coroutines run: opening, reading the cache, joining or starting the fetch, returning
  or being cancelled. The hash, \<open>repr\<close> and \<open>float\<close> are arguments.
\<close>

section \<open>The response cache\<close>

text \<open>The content of a cache file; \<open>None\<close> is text that \<open>json.loads\<close> refuses.\<close>

type_synonym cache_file = "json option"

definition py_float :: "(string \<Rightarrow> rat option) \<Rightarrow> json \<Rightarrow> rat option" where
  "py_float number j = (case j of JInt i \<Rightarrow> Some (of_int i) | JFloat s \<Rightarrow> number s | JStr s \<Rightarrow> number s
     | JBool b \<Rightarrow> Some (if b then 1 else 0) | _ \<Rightarrow> None)"

text \<open>The result is the body found and whether the file is removed.\<close>

definition cache_get :: "(string \<Rightarrow> rat option) \<Rightarrow> rat \<Rightarrow> cache_file option \<Rightarrow> string option \<times> bool" where
  "cache_get number now f = (case f of
     Some (Some (JObj d)) \<Rightarrow>
       (case dict_get ''expires_at'' d of None \<Rightarrow> (None, False)
        | Some e \<Rightarrow> (case py_float number e of None \<Rightarrow> (None, False)
            | Some t \<Rightarrow> if t \<le> now then (None, True)
                else (case dict_get ''body'' d of Some (JStr body) \<Rightarrow> (Some body, False) | _ \<Rightarrow> (None, False))))
   | _ \<Rightarrow> (None, False))"

definition cache_put :: "(rat \<Rightarrow> string) \<Rightarrow> rat \<Rightarrow> string \<Rightarrow> int \<Rightarrow> cache_file" where
  "cache_put show now body ttl =
     Some (JObj [(''expires_at'', JFloat (show (now + of_int ttl))), (''body'', JStr body)])"

definition cache_ttl_seconds :: "string \<Rightarrow> int" where
  "cache_ttl_seconds f = (let n = str_upper f in
     if n \<in> set [''OVERVIEW'', ''BALANCE_SHEET'', ''CASH_FLOW'', ''INCOME_STATEMENT''] then 6 * 60 * 60
     else if n = ''NEWS_SENTIMENT'' then 5 * 60
     else 15 * 60)"

section \<open>Queries\<close>

definition priority_for_consumer :: "string \<Rightarrow> int" where
  "priority_for_consumer c = (if c = ''research'' then 0 else if c = ''validation'' then 20 else 50)"

definition normalized_params :: "dict \<Rightarrow> dict" where
  "normalized_params params =
     filter (\<lambda>kv. str_lower (fst kv) \<notin> set [''apikey'', ''function'', ''source'']) params"

definition request_key :: "(string \<Rightarrow> string) \<Rightarrow> string \<Rightarrow> string \<Rightarrow> dict \<Rightarrow> string" where
  "request_key sha fingerprint f params = sha (json_dumps (JObj [(''key'', JStr fingerprint),
     (''function'', JStr (str_upper f)), (''params'', JObj params)]))"

record key_runtime =
  kr_api_key :: string
  kr_fingerprint :: string
  kr_coordinator :: coordinator

text \<open>A fetch in its task: the cache key it was started for and, once it is done, its result.\<close>

record fetch_task =
  ft_key :: string
  ft_result :: "(broker_error + string) option"

record broker =
  bk_consumers :: "(string \<times> string) list"
  bk_runtimes :: "key_runtime list"
  bk_auth_failed :: bool
  bk_cache :: "string \<rightharpoonup> cache_file"
  bk_pending :: "string \<rightharpoonup> nat"
  bk_tasks :: "nat \<rightharpoonup> fetch_task"
  bk_next_task :: nat
  bk_requests :: nat
  bk_upstream_requests :: nat
  bk_cache_hits :: nat
  bk_coalesced :: nat
  bk_rate_limits :: nat
  bk_transient_errors :: nat

text \<open>
  Consumers with the same API key share one runtime, so one coordinator: \<open>bk_consumers\<close> maps a
  consumer to the fingerprint of its key.
\<close>

fun add_runtimes ::
    "(string \<Rightarrow> string) \<Rightarrow> coordinator \<Rightarrow> (string \<times> string) list \<Rightarrow> broker \<Rightarrow> broker result" where
  "add_runtimes sha c [] b = Inr b"
| "add_runtimes sha c ((consumer, key) # keys) b =
     (if key = [] then add_runtimes sha c keys b
      else bind_result (alpha_key_fingerprint sha key) (\<lambda>fp.
        (let b1 = (case find_row kr_fingerprint fp (bk_runtimes b) of
             Some _ \<Rightarrow> b
           | None \<Rightarrow> b\<lparr>bk_runtimes := bk_runtimes b @
               [\<lparr>kr_api_key = key, kr_fingerprint = fp, kr_coordinator = c\<rparr>]\<rparr>)
         in add_runtimes sha c keys (b1\<lparr>bk_consumers := bk_consumers b1 @ [(consumer, fp)]\<rparr>))))"

definition empty_broker :: broker where
  "empty_broker = \<lparr>bk_consumers = [], bk_runtimes = [], bk_auth_failed = False, bk_cache = Map.empty,
     bk_pending = Map.empty, bk_tasks = Map.empty, bk_next_task = 0, bk_requests = 0,
     bk_upstream_requests = 0, bk_cache_hits = 0, bk_coalesced = 0, bk_rate_limits = 0,
     bk_transient_errors = 0\<rparr>"

definition new_broker :: "(string \<Rightarrow> string) \<Rightarrow> coordinator \<Rightarrow> (string \<times> string) list \<Rightarrow> broker result" where
  "new_broker sha c keys = add_runtimes sha c keys empty_broker"

definition runtime_for :: "string \<Rightarrow> broker \<Rightarrow> broker_error + key_runtime" where
  "runtime_for consumer b =
     (case Option.bind (map_of (bk_consumers b) consumer) (\<lambda>fp. find_row kr_fingerprint fp (bk_runtimes b)) of
        None \<Rightarrow> Inl (BrokerAuthentication ''Alpha Vantage credentials are not configured for this consumer'')
      | Some r \<Rightarrow> Inr r)"

text \<open>The first step of a query: it counts the request and computes the cache key.\<close>

definition query_open ::
    "(string \<Rightarrow> string) \<Rightarrow> string \<Rightarrow> dict \<Rightarrow> string \<Rightarrow> broker \<Rightarrow> broker \<times> (broker_error + string)" where
  "query_open sha f params consumer b0 =
     (let b = b0\<lparr>bk_requests := Suc (bk_requests b0)\<rparr> in
      if bk_auth_failed b
      then (b, Inl (BrokerAuthentication ''Alpha Vantage rejected the configured credentials''))
      else (case runtime_for consumer b of
          Inl e \<Rightarrow> (b, Inl e)
        | Inr r \<Rightarrow> (b, Inr (request_key sha (kr_fingerprint r) f (normalized_params params)))))"

definition query_lookup :: "(string \<Rightarrow> rat option) \<Rightarrow> rat \<Rightarrow> string \<Rightarrow> broker \<Rightarrow> broker \<times> string option" where
  "query_lookup number now key b = (case cache_get number now (bk_cache b key) of
     (Some body, _) \<Rightarrow> (b\<lparr>bk_cache_hits := Suc (bk_cache_hits b)\<rparr>, Some body)
   | (None, removed) \<Rightarrow> ((if removed then b\<lparr>bk_cache := (bk_cache b)(key := None)\<rparr> else b), None))"

definition query_join :: "string \<Rightarrow> broker \<Rightarrow> broker \<times> nat" where
  "query_join key b = (case bk_pending b key of
     Some n \<Rightarrow> (b\<lparr>bk_coalesced := Suc (bk_coalesced b)\<rparr>, n)
   | None \<Rightarrow> (let n = bk_next_task b in
       (b\<lparr>bk_tasks := (bk_tasks b)(n \<mapsto> \<lparr>ft_key = key, ft_result = None\<rparr>), bk_next_task := Suc n,
          bk_pending := (bk_pending b)(key \<mapsto> n)\<rparr>, n)))"

definition task_result :: "nat \<Rightarrow> broker \<Rightarrow> (broker_error + string) option" where
  "task_result n b = Option.bind (bk_tasks b n) ft_result"

text \<open>The \<open>finally\<close> block, reached by a query that returns and by one that is cancelled.\<close>

definition query_leave :: "string \<Rightarrow> nat \<Rightarrow> broker \<Rightarrow> broker" where
  "query_leave key n b =
     (if task_result n b \<noteq> None \<and> bk_pending b key = Some n
      then b\<lparr>bk_pending := (bk_pending b)(key := None)\<rparr> else b)"

text \<open>A query that waits for its fetch returns once the task is done.\<close>

definition query_return :: "string \<Rightarrow> nat \<Rightarrow> broker \<Rightarrow> (broker \<times> (broker_error + string)) option" where
  "query_return key n b = map_option (\<lambda>r. (query_leave key n b, r)) (task_result n b)"

text \<open>The last steps of a fetch: the body is written to the cache, then the task is done.\<close>

definition fetch_store :: "(rat \<Rightarrow> string) \<Rightarrow> rat \<Rightarrow> string \<Rightarrow> string \<Rightarrow> string \<Rightarrow> broker \<Rightarrow> broker" where
  "fetch_store show now key f body b =
     b\<lparr>bk_cache := (bk_cache b)(key \<mapsto> cache_put show now body (cache_ttl_seconds f))\<rparr>"

definition task_done :: "nat \<Rightarrow> (broker_error + string) \<Rightarrow> broker \<Rightarrow> broker" where
  "task_done n r b = (case bk_tasks b n of None \<Rightarrow> b
     | Some t \<Rightarrow> if ft_result t = None then b\<lparr>bk_tasks := (bk_tasks b)(n \<mapsto> t\<lparr>ft_result := Some r\<rparr>)\<rparr> else b)"

text \<open>What the attempts of a fetch add to the counters and to \<open>_authentication_failed\<close>.\<close>

definition count_attempt :: "attempt_record \<Rightarrow> broker \<Rightarrow> broker" where
  "count_attempt r b0 =
     (let b = b0\<lparr>bk_upstream_requests := Suc (bk_upstream_requests b0)\<rparr> in
      if at_rejected r then b\<lparr>bk_auth_failed := True\<rparr>
      else (case at_outcome r of
          RateLimited _ _ \<Rightarrow> b\<lparr>bk_rate_limits := Suc (bk_rate_limits b)\<rparr>
        | TransientOutcome \<Rightarrow>
            (if at_end r = Fails (BrokerTransient ''Alpha Vantage rejected the request'') then b
             else b\<lparr>bk_transient_errors := Suc (bk_transient_errors b)\<rparr>)
        | Success \<Rightarrow> b))"

section \<open>The status\<close>

record alpha_status =
  as_status :: string
  as_configured :: int
  as_effective :: rat
  as_max_in_flight :: int
  as_in_flight :: int
  as_queued :: nat
  as_oldest_queued :: "rat option"
  as_blocked_until :: "rat option"
  as_requests :: nat
  as_upstream_requests :: nat
  as_cache_hits :: nat
  as_coalesced :: nat
  as_rate_limits :: nat
  as_transient_errors :: nat

definition admission_allowed :: "nat \<Rightarrow> alpha_status \<Rightarrow> bool" where
  "admission_allowed queue_limit s \<longleftrightarrow> as_status s = ''normal'' \<and> as_queued s < queue_limit"

definition unavailable_status :: alpha_status where
  "unavailable_status = \<lparr>as_status = ''unavailable'', as_configured = 0, as_effective = 0,
     as_max_in_flight = 0, as_in_flight = 0, as_queued = 0, as_oldest_queued = None, as_blocked_until = None,
     as_requests = 0, as_upstream_requests = 0, as_cache_hits = 0, as_coalesced = 0, as_rate_limits = 0,
     as_transient_errors = 0\<rparr>"

definition with_counters :: "broker \<Rightarrow> alpha_status \<Rightarrow> alpha_status" where
  "with_counters b s = s\<lparr>as_requests := bk_requests b, as_upstream_requests := bk_upstream_requests b,
     as_cache_hits := bk_cache_hits b, as_coalesced := bk_coalesced b, as_rate_limits := bk_rate_limits b,
     as_transient_errors := bk_transient_errors b\<rparr>"

definition max_of :: "rat list \<Rightarrow> rat option" where
  "max_of xs = (case xs of [] \<Rightarrow> None | x # ys \<Rightarrow> Some (fold max ys x))"

text \<open>\<open>rpm\<close> is the configured requests per minute; \<open>utc\<close> the time of day, \<open>clk\<close> the coordinators' clock.\<close>

definition broker_status :: "int \<Rightarrow> rat \<Rightarrow> rat \<Rightarrow> broker \<Rightarrow> alpha_status" where
  "broker_status rpm utc clk b =
     (if bk_runtimes b = [] \<or> bk_auth_failed b then with_counters b unavailable_status
      else (let cs = map kr_coordinator (bk_runtimes b); states = map co_state cs;
                blocked = filter (\<lambda>t. t \<noteq> 0) (List.map_filter (blocked_seconds clk) cs)
            in with_counters b \<lparr>as_status = (if Cooldown \<in> set states then ''cooldown''
                  else if ProbeState \<in> set states then ''half_open'' else ''normal''),
                as_configured = rpm * int (length cs),
                as_effective = sum_list (map (\<lambda>c. 60 / co_interval c) cs),
                as_max_in_flight = sum_list (map co_max_in_flight cs),
                as_in_flight = sum_list (map co_in_flight cs),
                as_queued = sum_list (map queued_waiters cs),
                as_oldest_queued = max_of (List.map_filter (oldest_queued_seconds clk) cs),
                as_blocked_until = map_option (\<lambda>t. utc + t) (max_of blocked),
                as_requests = 0, as_upstream_requests = 0, as_cache_hits = 0, as_coalesced = 0,
                as_rate_limits = 0, as_transient_errors = 0\<rparr>))"

section \<open>Errors over the wire\<close>

text \<open>
  The broker process answers an error with a status and \<open>code\<close>/\<open>message\<close>; the client of a
  platform process turns that answer back into an error. A crash is a 500 without a body.
\<close>

definition error_response :: "broker_error \<Rightarrow> int \<times> json option" where
  "error_response e = (case e of
     BrokerAuthentication m \<Rightarrow> (401, Some (JObj [(''code'', JStr ''authentication''), (''message'', JStr m)]))
   | BrokerRateLimit m \<Rightarrow> (429, Some (JObj [(''code'', JStr ''rate_limit''), (''message'', JStr m)]))
   | BrokerTransient m \<Rightarrow> (503, Some (JObj [(''code'', JStr ''transient''), (''message'', JStr m)]))
   | BrokerCrash m \<Rightarrow> (500, None))"

definition str_or :: "(json \<Rightarrow> string) \<Rightarrow> json option \<Rightarrow> string \<Rightarrow> string" where
  "str_or show j d = (case j of Some v \<Rightarrow> if json_truthy v then show v else d | None \<Rightarrow> d)"

definition safe_error :: "(json \<Rightarrow> string) \<Rightarrow> json option \<Rightarrow> broker_error" where
  "safe_error show payload =
     (let (code, message) = (case (case payload of None \<Rightarrow> JObj [] | Some j \<Rightarrow> j) of
          JObj d \<Rightarrow> (str_or show (dict_get ''code'' d) ''transient'',
            str_or show (dict_get ''message'' d) ''Alpha Vantage broker request failed'')
        | _ \<Rightarrow> (''transient'', ''Alpha Vantage broker request failed''))
      in if code = ''rate_limit'' \<or> code = ''daily_rate_limit'' then BrokerRateLimit message
         else if code = ''authentication'' then BrokerAuthentication message
         else BrokerTransient message)"

definition client_query :: "(json \<Rightarrow> string) \<Rightarrow> (int \<times> json option) option \<Rightarrow> broker_error + string" where
  "client_query show response = (case response of
     None \<Rightarrow> Inl (BrokerTransient ''Alpha Vantage broker is unavailable'')
   | Some (status, payload) \<Rightarrow>
       (if 400 \<le> status \<and> status \<le> 599 then Inl (safe_error show payload)
        else (case payload of
            Some (JObj d) \<Rightarrow> (case dict_get ''body'' d of Some (JStr body) \<Rightarrow> Inr body
              | _ \<Rightarrow> Inl (BrokerTransient ''Alpha Vantage broker returned an invalid response''))
          | _ \<Rightarrow> Inl (BrokerTransient ''Alpha Vantage broker returned an invalid response''))))"

definition query_response :: "bool \<Rightarrow> broker_error + string \<Rightarrow> int \<times> json option" where
  "query_response hit r = (case r of Inl e \<Rightarrow> error_response e
     | Inr body \<Rightarrow> (200, Some (JObj [(''body'', JStr body), (''cache_hit'', JBool hit)])))"

end
