(* ===== verification/BrokerFacts.thy ===== *)
theory BrokerFacts
  imports Broker
begin

text \<open>
  Coalescing and caching: equal queries share one fetch, what a fetch stores is served until it
  expires, errors survive the way from the broker process to its clients, and what happens when
  every caller of a fetch is cancelled.
\<close>

section \<open>Interleavings of queries\<close>

datatype broker_cmd = Lookup rat string | Join string | Leave string nat
  | StoreBody rat string string string | TaskDone nat "broker_error + string"

fun broker_apply :: "(string \<Rightarrow> rat option) \<Rightarrow> (rat \<Rightarrow> string) \<Rightarrow> broker_cmd \<Rightarrow> broker \<Rightarrow> broker" where
  "broker_apply number show (Lookup now key) b = fst (query_lookup number now key b)"
| "broker_apply number show (Join key) b = fst (query_join key b)"
| "broker_apply number show (Leave key n) b = query_leave key n b"
| "broker_apply number show (StoreBody now key f body) b = fetch_store show now key f body b"
| "broker_apply number show (TaskDone n r) b = task_done n r b"

definition broker_run :: "(string \<Rightarrow> rat option) \<Rightarrow> (rat \<Rightarrow> string) \<Rightarrow> broker_cmd list \<Rightarrow> broker \<Rightarrow> broker" where
  "broker_run number show cmds b = fold (broker_apply number show) cmds b"

text \<open>
  Pending keys lead to a task for that key, every task that is not done is pending, and task
  numbers are fresh.
\<close>

definition flights_ok :: "broker \<Rightarrow> bool" where
  "flights_ok b \<longleftrightarrow>
     (\<forall>k n. bk_pending b k = Some n \<longrightarrow> (\<exists>t. bk_tasks b n = Some t \<and> ft_key t = k))
     \<and> (\<forall>n t. bk_tasks b n = Some t \<longrightarrow> ft_result t = None \<longrightarrow> bk_pending b (ft_key t) = Some n)
     \<and> (\<forall>n. bk_next_task b \<le> n \<longrightarrow> bk_tasks b n = None)"

lemma flights_okD:
  assumes "flights_ok b"
  shows "bk_pending b k = Some n \<Longrightarrow> \<exists>t. bk_tasks b n = Some t \<and> ft_key t = k"
    and "bk_tasks b n = Some t \<Longrightarrow> ft_result t = None \<Longrightarrow> bk_pending b (ft_key t) = Some n"
    and "bk_next_task b \<le> n \<Longrightarrow> bk_tasks b n = None"
  using assms unfolding flights_ok_def by blast+

lemma query_lookup_frame [simp]:
  "bk_pending (fst (query_lookup number now key b)) = bk_pending b"
  "bk_tasks (fst (query_lookup number now key b)) = bk_tasks b"
  "bk_next_task (fst (query_lookup number now key b)) = bk_next_task b"
  by (auto simp: query_lookup_def split: prod.splits option.splits)

lemma query_join_flights: "flights_ok b \<Longrightarrow> flights_ok (fst (query_join key b))"
proof (cases "bk_pending b key")
  case None
  assume ok: "flights_ok b"
  show ?thesis
    unfolding flights_ok_def
  proof (intro conjI allI impI)
    fix k n assume "bk_pending (fst (query_join key b)) k = Some n"
    with None show "\<exists>t. bk_tasks (fst (query_join key b)) n = Some t \<and> ft_key t = k"
      using flights_okD(1) [OF ok, of k n] flights_okD(3) [OF ok, of "bk_next_task b"]
      by (auto simp: query_join_def Let_def split: if_splits)
  next
    fix n t assume "bk_tasks (fst (query_join key b)) n = Some t" and "ft_result t = None"
    with None show "bk_pending (fst (query_join key b)) (ft_key t) = Some n"
      using flights_okD(2) [OF ok, of n t] by (auto simp: query_join_def Let_def split: if_splits)
  next
    fix n assume "bk_next_task (fst (query_join key b)) \<le> n"
    with None show "bk_tasks (fst (query_join key b)) n = None"
      using flights_okD(3) [OF ok, of n] by (auto simp: query_join_def Let_def)
  qed
qed (simp add: query_join_def flights_ok_def)

lemma query_leave_flights: "flights_ok b \<Longrightarrow> flights_ok (query_leave key n b)"
proof (cases "task_result n b \<noteq> None \<and> bk_pending b key = Some n")
  case True
  assume ok: "flights_ok b"
  have other: "ft_key t \<noteq> key" if "bk_tasks b m = Some t" "ft_result t = None" for m t
  proof
    assume "ft_key t = key"
    with flights_okD(2) [OF ok that] True have "m = n" by simp
    with that True show False by (simp add: task_result_def)
  qed
  show ?thesis
    unfolding flights_ok_def
  proof (intro conjI allI impI)
    fix k m assume "bk_pending (query_leave key n b) k = Some m"
    with True flights_okD(1) [OF ok, of k m] show "\<exists>t. bk_tasks (query_leave key n b) m = Some t \<and> ft_key t = k"
      by (simp add: query_leave_def split: if_splits)
  next
    fix m t assume "bk_tasks (query_leave key n b) m = Some t" and "ft_result t = None"
    with True flights_okD(2) [OF ok, of m t] other [of m t]
    show "bk_pending (query_leave key n b) (ft_key t) = Some m" by (simp add: query_leave_def)
  next
    fix m assume "bk_next_task (query_leave key n b) \<le> m"
    with True flights_okD(3) [OF ok, of m] show "bk_tasks (query_leave key n b) m = None"
      by (simp add: query_leave_def)
  qed
qed (auto simp: query_leave_def)

lemma task_done_flights: "flights_ok b \<Longrightarrow> flights_ok (task_done n r b)"
proof (cases "bk_tasks b n")
  case (Some t)
  assume ok: "flights_ok b"
  have "ft_key t = k" if "bk_pending b k = Some n" for k
    using flights_okD(1) [OF ok that] Some by simp
  with Some flights_okD [OF ok] show ?thesis
    unfolding flights_ok_def task_done_def by auto
qed (simp add: task_done_def)

lemma broker_apply_flights: "flights_ok b \<Longrightarrow> flights_ok (broker_apply number show cmd b)"
proof (cases cmd)
  case (StoreBody now key f body)
  then show "flights_ok b \<Longrightarrow> ?thesis" by (simp add: fetch_store_def flights_ok_def)
next
  case (Lookup now key)
  then show "flights_ok b \<Longrightarrow> ?thesis" by (simp add: flights_ok_def)
qed (simp_all add: query_join_flights query_leave_flights task_done_flights)

lemma broker_run_flights: "flights_ok b \<Longrightarrow> flights_ok (broker_run number show cmds b)"
  by (induction cmds arbitrary: b) (simp_all add: broker_run_def broker_apply_flights)

lemma empty_broker_flights: "flights_ok empty_broker"
  by (simp add: flights_ok_def empty_broker_def)

text \<open>
  C26. However queries interleave, return and are cancelled, at most one fetch per cache key is
  running at any time, and a query for that key joins it.
\<close>

theorem single_flight:
  assumes "b = broker_run number show cmds empty_broker"
    and "bk_tasks b m = Some t" and "ft_result t = None"
    and "bk_tasks b n = Some u" and "ft_result u = None" and "ft_key t = ft_key u"
  shows "m = n \<and> snd (query_join (ft_key t) b) = m"
proof -
  have ok: "flights_ok b"
    using assms(1) broker_run_flights [OF empty_broker_flights] by simp
  have "bk_pending b (ft_key t) = Some m" and "bk_pending b (ft_key u) = Some n"
    using flights_okD(2) [OF ok] assms by blast+
  with assms(6) show ?thesis by (simp add: query_join_def)
qed

lemma single_flight_witness:
  "\<exists>t. bk_tasks (broker_run (\<lambda>_. None) (\<lambda>_. []) [Join ''k'', Join ''k'', Leave ''k'' 0] empty_broker) 0 = Some t
     \<and> snd (query_join (ft_key t) (broker_run (\<lambda>_. None) (\<lambda>_. []) [Join ''k'', Join ''k'', Leave ''k'' 0] empty_broker)) = 0"
proof -
  let ?b = "broker_run (\<lambda>_. None) (\<lambda>_. []) [Join ''k'', Join ''k'', Leave ''k'' 0] empty_broker"
  have t: "bk_tasks ?b 0 = Some \<lparr>ft_key = ''k'', ft_result = None\<rparr>" by code_simp
  from single_flight [OF refl t _ t] t show ?thesis by simp
qed

section \<open>The cache\<close>

text \<open>
  C2. A body that a fetch has stored is served to every query for its key until the function's
  time to live is over, and from then on it is not; a query that finds it expired removes it.
  The law assumed of \<open>float\<close> and \<open>repr\<close> is that a printed number reads back as itself.
\<close>

theorem cache_serves_until_expiry:
  assumes "number (show (now + of_int (cache_ttl_seconds f))) = Some (now + of_int (cache_ttl_seconds f))"
  shows "query_lookup number later key (fetch_store show now key f body b) =
    (if later < now + of_int (cache_ttl_seconds f)
     then ((fetch_store show now key f body b)\<lparr>bk_cache_hits := Suc (bk_cache_hits b)\<rparr>, Some body)
     else (b\<lparr>bk_cache := (bk_cache b)(key := None)\<rparr>, None))"
  using assms by (simp add: query_lookup_def fetch_store_def cache_get_def cache_put_def py_float_def)

lemma cache_serves_until_expiry_witness:
  "snd (query_lookup (\<lambda>_. Some 400) 399 ''k'' (fetch_store (\<lambda>_. ''400.0'') 100 ''k'' ''news_sentiment'' ''{}'' empty_broker))
     = Some ''{}''
   \<and> snd (query_lookup (\<lambda>_. Some 400) 400 ''k'' (fetch_store (\<lambda>_. ''400.0'') 100 ''k'' ''news_sentiment'' ''{}'' empty_broker))
     = None"
proof -
  have ttl: "cache_ttl_seconds ''news_sentiment'' = 300" by code_simp
  show ?thesis
    using cache_serves_until_expiry [of "\<lambda>_. Some 400" "\<lambda>_. ''400.0''" 100 "''news_sentiment''" 399 "''k''" "''{}''" empty_broker]
      cache_serves_until_expiry [of "\<lambda>_. Some 400" "\<lambda>_. ''400.0''" 100 "''news_sentiment''" 400 "''k''" "''{}''" empty_broker]
    by (simp add: ttl)
qed

section \<open>A fetch whose callers are gone\<close>

text \<open>
  When the caller of a fetch is cancelled before the fetch is done, nothing takes the
  finished task out of the pending ones: a query for the same key, however long after the
  stored body has expired, misses the cache, joins the old task and is answered with the old
  result at once. Only that query's return clears the entry.
\<close>

theorem cancelled_caller_leaves_stale_result:
  assumes "bk_pending b key = None"
    and "number (show (now + of_int (cache_ttl_seconds f))) = Some (now + of_int (cache_ttl_seconds f))"
    and "now + of_int (cache_ttl_seconds f) \<le> later"
    and "n = snd (query_join key b)"
    and "b' = broker_run number show
      [Join key, Leave key n, StoreBody now key f body, TaskDone n (Inr body), Lookup later key] b"
  shows "cache_get number later (bk_cache b' key) = (None, False)
    \<and> snd (query_join key b') = n
    \<and> query_return key n (fst (query_join key b'))
        = Some ((fst (query_join key b'))\<lparr>bk_pending := (bk_pending b')(key := None)\<rparr>, Inr body)"
proof -
  let ?c = "cache_put show now body (cache_ttl_seconds f)"
  let ?t = "\<lparr>ft_key = key, ft_result = Some (Inr body)\<rparr>"
  have n: "n = bk_next_task b" using assms(1,4) by (simp add: query_join_def Let_def)
  have hit: "cache_get number later (Some ?c) = (None, True)"
    using assms(2,3) by (simp add: cache_get_def cache_put_def py_float_def)
  have b': "bk_pending b' key = Some n" "bk_tasks b' n = Some ?t" "bk_cache b' key = None"
    using assms(1) hit
    by (simp_all add: assms(5) n broker_run_def query_join_def query_leave_def task_result_def Let_def
        fetch_store_def task_done_def query_lookup_def)
  then show ?thesis
    by (simp add: query_join_def query_return_def query_leave_def task_result_def cache_get_def)
qed

lemma cancelled_caller_leaves_stale_result_witness:
  "snd (query_join ''k'' (broker_run (\<lambda>_. Some 400) (\<lambda>_. ''400.0'')
     [Join ''k'', Leave ''k'' 0, StoreBody 100 ''k'' ''news_sentiment'' ''{}'', TaskDone 0 (Inr ''{}''), Lookup 90000 ''k'']
     empty_broker)) = 0"
proof -
  have ttl: "cache_ttl_seconds ''news_sentiment'' = 300" by code_simp
  have "snd (query_join ''k'' empty_broker) = 0" by (simp add: query_join_def empty_broker_def)
  with cancelled_caller_leaves_stale_result [of empty_broker "''k''" "\<lambda>_. Some 400" "\<lambda>_. ''400.0''" 100
      "''news_sentiment''" 90000 0 _ "''{}''", OF _ _ _ _ refl]
  show ?thesis by (simp add: ttl empty_broker_def)
qed

section \<open>Errors over the wire\<close>

text \<open>
  What a client gets is what the broker process had: a body unchanged, an error of the same
  class with its message. Only a crash is reported as a transient error.
\<close>

lemma client_sees_broker_result:
  assumes "\<And>s. show (JStr s) = s"
  shows "client_query show (Some (query_response hit (Inr body))) = Inr body"
    and "m \<noteq> [] \<Longrightarrow> client_query show (Some (query_response hit (Inl (BrokerRateLimit m)))) = Inl (BrokerRateLimit m)"
    and "m \<noteq> [] \<Longrightarrow> client_query show (Some (query_response hit (Inl (BrokerAuthentication m)))) = Inl (BrokerAuthentication m)"
    and "m \<noteq> [] \<Longrightarrow> client_query show (Some (query_response hit (Inl (BrokerTransient m)))) = Inl (BrokerTransient m)"
    and "client_query show (Some (query_response hit (Inl (BrokerCrash m))))
      = Inl (BrokerTransient ''Alpha Vantage broker request failed'')"
  using assms by (simp_all add: client_query_def query_response_def error_response_def safe_error_def
      str_or_def json_truthy_def)

end
