(* ===== verification/Webhooks.thy ===== *)
theory Webhooks
  imports Access PyDates "HOL-Library.Product_Lexorder" "HOL-Library.Option_ord"
begin

text \<open>
  Webhooks (\<open>webhooks/contracts.py\<close>, \<open>webhooks/service.py\<close>, \<open>webhooks/signing.py\<close>,
  \<open>webhooks/worker.py\<close>): registration, the policy for endpoints, the signature, the delivery
  of one event and the queue of deliveries with its claims. URL parsing, name resolution, the
  HTTP client, Fernet, HMAC-SHA256 and the texts of identifiers and times are fields of an
  environment.
\<close>

section \<open>Endpoints\<close>

record url =
  url_scheme :: string
  url_host :: string
  url_userinfo :: string
  url_fragment :: string
  url_port :: "int option"
  url_text :: string

text \<open>An address by what \<open>ipaddress\<close> says of it.\<close>

record address =
  adr_is_global :: bool
  adr_is_private :: bool
  adr_is_loopback :: bool
  adr_is_link_local :: bool
  adr_is_multicast :: bool

datatype resolution = ResolverRejected string | ResolverFailed | Addresses "address list"

definition rstrip_dots :: "string \<Rightarrow> string" where
  "rstrip_dots s = rev (dropWhile (\<lambda>c. c = CHR ''.'') (rev s))"

definition lower_text :: "string \<Rightarrow> string" where
  "lower_text s = map (\<lambda>c. if is_upper_ascii c then char_of (of_char c + (32::nat)) else c) s"

definition public_address :: "address \<Rightarrow> bool" where
  "public_address a \<longleftrightarrow> adr_is_global a \<and> \<not> adr_is_private a \<and> \<not> adr_is_loopback a
     \<and> \<not> adr_is_link_local a \<and> \<not> adr_is_multicast a"

record hook_env =
  he_parse :: "string \<Rightarrow> url option"
  he_resolve :: "string \<Rightarrow> int \<Rightarrow> resolution"
  he_allowlist :: "string list"
  he_encrypt :: "string \<Rightarrow> string"
  he_decrypt :: "string \<Rightarrow> string option"
  he_hmac :: "string \<Rightarrow> string \<Rightarrow> string"
  he_uuid :: "nat \<Rightarrow> string"
  he_iso :: "int \<Rightarrow> string"

definition url_ok :: "url \<Rightarrow> unit result" where
  "url_ok u =
     bind_result (require (url_scheme u = ''https'') (WebhookTargetError ''webhook endpoint must use HTTPS'')) (\<lambda>_.
     bind_result (require (url_host u \<noteq> []) (WebhookTargetError ''webhook endpoint must include a hostname'')) (\<lambda>_.
     bind_result (require (url_userinfo u = []) (WebhookTargetError ''webhook endpoint must not include credentials'')) (\<lambda>_.
     require (url_fragment u = []) (WebhookTargetError ''webhook endpoint must not include a fragment''))))"

definition url_port_or :: "url \<Rightarrow> int" where
  "url_port_or u = (case url_port u of None \<Rightarrow> 443 | Some p \<Rightarrow> if p = 0 then 443 else p)"

definition validate_endpoint :: "hook_env \<Rightarrow> string \<Rightarrow> url result" where
  "validate_endpoint env endpoint =
     bind_result (of_option (WebhookTargetError ''webhook endpoint is invalid'') (he_parse env endpoint)) (\<lambda>u.
     bind_result (url_ok u) (\<lambda>_.
       let host = rstrip_dots (lower_text (url_host u));
           allowlist = map (\<lambda>h. rstrip_dots (lower_text h)) (he_allowlist env) in
       case he_resolve env host (url_port_or u) of
         ResolverRejected m \<Rightarrow> Inl (WebhookTargetError m)
       | ResolverFailed \<Rightarrow> Inl (WebhookTargetError ''webhook hostname resolution failed'')
       | Addresses addresses \<Rightarrow>
           bind_result (require (addresses \<noteq> []) (WebhookTargetError ''webhook hostname did not resolve'')) (\<lambda>_.
           bind_result (require (host \<in> set allowlist \<or> list_all public_address addresses)
             (WebhookTargetError ''webhook endpoint resolved to a non-public address'')) (\<lambda>_. Inr u))))"

section \<open>Registration\<close>

definition SUPPORTED_EVENT_TYPES :: "string list" where
  "SUPPORTED_EVENT_TYPES = [''assessment.admitted'', ''assessment.started'', ''assessment.succeeded'',
     ''assessment.failed'', ''assessment.cancelled'']"

record create_webhook =
  cw_endpoint :: string
  cw_event_types :: "string list"
  cw_secret :: string

definition validate_webhook :: "create_webhook \<Rightarrow> unit result" where
  "validate_webhook c =
     (let types = dedup (cw_event_types c);
          unsupported = filter (\<lambda>t. t \<notin> set SUPPORTED_EVENT_TYPES) types in
      bind_result (require (1 \<le> length (cw_endpoint c) \<and> length (cw_endpoint c) \<le> 2048) (ValueError ''endpoint'')) (\<lambda>_.
      bind_result (require (1 \<le> length types \<and> length types \<le> length SUPPORTED_EVENT_TYPES) (ValueError ''event_types'')) (\<lambda>_.
      bind_result (case sort unsupported of [] \<Rightarrow> Inr ()
         | t # _ \<Rightarrow> Inl (ValueError (''unsupported webhook event type: '' @ t))) (\<lambda>_.
      require (16 \<le> length (cw_secret c) \<and> length (cw_secret c) \<le> 1024) (ValueError ''secret'')))))"

definition secret_encrypt :: "hook_env \<Rightarrow> string \<Rightarrow> string result" where
  "secret_encrypt env secret =
     bind_result (require (16 \<le> length secret) (ValueError ''webhook signing secret must contain at least 16 bytes''))
       (\<lambda>_. Inr (he_encrypt env secret))"

definition secret_decrypt :: "hook_env \<Rightarrow> string \<Rightarrow> string result" where
  "secret_decrypt env text =
     of_option (ValueError ''webhook signing secret cannot be decrypted'') (he_decrypt env text)"

definition create_hook :: "hook_env \<Rightarrow> int \<Rightarrow> principal \<Rightarrow> create_webhook \<Rightarrow> string \<Rightarrow> webhook tx" where
  "create_hook env now pr c rid d =
     bind_result (require_admin pr) (\<lambda>_.
     bind_result (validate_endpoint env (cw_endpoint c)) (\<lambda>u.
     bind_result (secret_encrypt env (cw_secret c)) (\<lambda>encrypted.
     bind_result (upsert_user pr d) (\<lambda>(d1, usr).
       let w = \<lparr>wh_id = uuid4 d1, wh_owner = usr_id usr, wh_endpoint = url_text u,
                wh_event_types = sort (dedup (cw_event_types c)), wh_encrypted_secret = encrypted,
                wh_status = ''active'', wh_created_at = now\<rparr>;
           d2 = (drawn d1)\<lparr>db_webhooks := db_webhooks d1 @ [w]\<rparr>
       in Inr (append_audit pr ''webhook.create'' ''webhook'' (he_uuid env (wh_id w)) rid
             [(''endpoint'', JStr (wh_endpoint w)), (''event_types'', JList (map JStr (wh_event_types w)))] d2, w)))))"

definition webhook_owner :: "principal \<Rightarrow> db \<Rightarrow> nat option" where
  "webhook_owner pr d = map_option usr_id (find_user (pr_issuer pr) (pr_subject pr) d)"

definition list_hooks :: "principal \<Rightarrow> db \<Rightarrow> webhook list result" where
  "list_hooks pr d =
     bind_result (require_admin pr) (\<lambda>_. Inr (case webhook_owner pr d of
        None \<Rightarrow> []
      | Some owner \<Rightarrow> rev (sort_key (\<lambda>w. (wh_created_at w, wh_id w))
          (filter (\<lambda>w. wh_owner w = owner) (db_webhooks d)))))"

definition deactivate_hook :: "hook_env \<Rightarrow> principal \<Rightarrow> nat \<Rightarrow> string \<Rightarrow> unit tx" where
  "deactivate_hook env pr i rid d =
     bind_result (require_admin pr) (\<lambda>_.
       case find_row wh_id i (filter (\<lambda>w. Some (wh_owner w) = webhook_owner pr d) (db_webhooks d)) of
         None \<Rightarrow> Inl (NotFound i)
       | Some w \<Rightarrow>
           (if wh_status w \<noteq> ''disabled''
            then Inr (append_audit pr ''webhook.disable'' ''webhook'' (he_uuid env i) rid
                  [(''endpoint'', JStr (wh_endpoint w))]
                  (d\<lparr>db_webhooks := update_row wh_id i (wh_status_update (\<lambda>_. ''disabled'')) (db_webhooks d)\<rparr>), ())
            else Inr (d, ())))"

section \<open>One delivery\<close>

record delivery_attempt =
  da_status :: string
  da_response_code :: "int option"
  da_next_attempt_at :: "int option"

definition HOOK_RETRY_MINUTES :: "int list" where
  "HOOK_RETRY_MINUTES = [1, 5, 15, 60, 240]"

definition MAX_ATTEMPTS :: int where
  "MAX_ATTEMPTS = 5"

definition next_retry_at :: "int \<Rightarrow> int \<Rightarrow> int option result" where
  "next_retry_at attempt now =
     bind_result (require (1 \<le> attempt) (ValueError ''delivery attempt must be positive'')) (\<lambda>_.
     Inr (if attempt \<ge> MAX_ATTEMPTS then None
          else Some (now + HOOK_RETRY_MINUTES ! nat (attempt - 1) * MINUTE)))"

definition canonical_body :: "dict \<Rightarrow> string" where
  "canonical_body payload = json_dump_utf8 (JObj payload)"

definition signature_headers :: "hook_env \<Rightarrow> string \<Rightarrow> string \<Rightarrow> string \<Rightarrow> int \<Rightarrow> (string \<times> string) list" where
  "signature_headers env secret event_id body timestamp =
     (let signed = int_str timestamp @ ''.'' @ event_id @ ''.'' @ body
      in [(''X-TradingNG-Event-ID'', event_id), (''X-TradingNG-Timestamp'', int_str timestamp),
          (''X-TradingNG-Signature'', ''v1='' @ he_hmac env secret signed)])"

record hook_request =
  hr_url :: url
  hr_body :: string
  hr_headers :: "(string \<times> string) list"

definition retry_or_fail :: "int \<Rightarrow> int \<Rightarrow> int option \<Rightarrow> delivery_attempt result" where
  "retry_or_fail attempt now code =
     bind_result (next_retry_at attempt now) (\<lambda>retry.
     Inr \<lparr>da_status = (if retry = None then ''failed'' else ''pending''), da_response_code = code,
          da_next_attempt_at = retry\<rparr>)"

definition judge_response :: "int \<Rightarrow> int \<Rightarrow> int option \<Rightarrow> delivery_attempt result" where
  "judge_response attempt now response = (case response of
     None \<Rightarrow> retry_or_fail attempt now None
   | Some code \<Rightarrow>
       (if 200 \<le> code \<and> code < 300
        then Inr \<lparr>da_status = ''delivered'', da_response_code = Some code, da_next_attempt_at = None\<rparr>
        else if code = 429 \<or> code \<ge> 500 then retry_or_fail attempt now (Some code)
        else Inr \<lparr>da_status = ''failed'', da_response_code = Some code, da_next_attempt_at = None\<rparr>))"

text \<open>The request sent, if any, and the attempt's result; \<open>post\<close> is the status answered to it.\<close>

definition deliver_webhook ::
    "hook_env \<Rightarrow> (hook_request \<Rightarrow> int option) \<Rightarrow> string \<Rightarrow> string \<Rightarrow> string \<Rightarrow> dict \<Rightarrow> int \<Rightarrow> int
       \<Rightarrow> hook_request option \<times> delivery_attempt result" where
  "deliver_webhook env post endpoint event_id secret payload attempt now =
     (case validate_endpoint env endpoint of
        Inl _ \<Rightarrow> (None, Inr \<lparr>da_status = ''failed'', da_response_code = None, da_next_attempt_at = None\<rparr>)
      | Inr u \<Rightarrow>
          (let body = canonical_body payload;
               request = \<lparr>hr_url = u, hr_body = body,
                 hr_headers = [(''Content-Type'', ''application/json''), (''User-Agent'', ''TradingNG-Webhook/1.0'')]
                   @ signature_headers env secret event_id body (now div 1000000)\<rparr>
           in (Some request, judge_response attempt now (post request))))"

section \<open>The queue\<close>

text \<open>\<open>INSERT \<dots> ON CONFLICT DO NOTHING\<close> on the key (webhook, event).\<close>

definition has_delivery :: "nat \<Rightarrow> nat \<Rightarrow> delivery list \<Rightarrow> bool" where
  "has_delivery w e dls = list_ex (\<lambda>x. dl_webhook x = w \<and> dl_event x = e) dls"

definition insert_delivery :: "int \<Rightarrow> nat \<Rightarrow> nat \<Rightarrow> db \<Rightarrow> db \<times> nat" where
  "insert_delivery now w e d =
     (if has_delivery w e (db_deliveries d) then (d, 0)
      else ((drawn d)\<lparr>db_deliveries := db_deliveries d @
        [\<lparr>dl_id = uuid4 d, dl_webhook = w, dl_event = e, dl_attempt = 0, dl_status = ''pending'',
          dl_response_code = None, dl_next_attempt_at = None, dl_created_at = now\<rparr>]\<rparr>, 1))"

definition missing_events :: "nat \<Rightarrow> webhook \<Rightarrow> db \<Rightarrow> nat list" where
  "missing_events limit w d = map ev_id (take limit (sort_key (\<lambda>e. (ev_created_at e, ev_id e))
     (filter (\<lambda>e. ev_type e \<in> set (wh_event_types w) \<and> \<not> has_delivery (wh_id w) (ev_id e) (db_deliveries d))
       (db_events d))))"

fun insert_deliveries :: "int \<Rightarrow> nat \<Rightarrow> nat list \<Rightarrow> db \<Rightarrow> db \<times> nat" where
  "insert_deliveries now w [] d = (d, 0)"
| "insert_deliveries now w (e # es) d =
     (case insert_delivery now w e d of (d1, n) \<Rightarrow>
        case insert_deliveries now w es d1 of (d2, m) \<Rightarrow> (d2, n + m))"

fun enqueue_hooks :: "int \<Rightarrow> nat \<Rightarrow> webhook list \<Rightarrow> db \<Rightarrow> db \<times> nat" where
  "enqueue_hooks now limit [] d = (d, 0)"
| "enqueue_hooks now limit (w # ws) d =
     (if wh_event_types w = [] then enqueue_hooks now limit ws d
      else case insert_deliveries now (wh_id w) (missing_events limit w d) d of (d1, n) \<Rightarrow>
        case enqueue_hooks now limit ws d1 of (d2, m) \<Rightarrow> (d2, n + m))"

definition enqueue_missing :: "int \<Rightarrow> nat \<Rightarrow> db \<Rightarrow> db \<times> nat" where
  "enqueue_missing now limit d =
     enqueue_hooks now limit (sort_key wh_id (filter (\<lambda>w. wh_status w = ''active'') (db_webhooks d))) d"

definition update_delivery :: "nat \<Rightarrow> (delivery \<Rightarrow> delivery) \<Rightarrow> db \<Rightarrow> db" where
  "update_delivery i f d = d\<lparr>db_deliveries := update_row dl_id i f (db_deliveries d)\<rparr>"

definition claim_over :: "int \<Rightarrow> delivery \<Rightarrow> bool" where
  "claim_over now x \<longleftrightarrow> dl_status x = ''delivering''
     \<and> (case dl_next_attempt_at x of None \<Rightarrow> False | Some t \<Rightarrow> t \<le> now)"

definition recover_expired_claims :: "int \<Rightarrow> db \<Rightarrow> db \<times> nat" where
  "recover_expired_claims now d =
     (d\<lparr>db_deliveries := update_where (claim_over now)
         (\<lambda>x. x\<lparr>dl_status := ''pending'', dl_next_attempt_at := Some now\<rparr>) (db_deliveries d)\<rparr>,
      length (filter (claim_over now) (db_deliveries d)))"

definition find_event :: "nat \<Rightarrow> db \<Rightarrow> run_event option" where
  "find_event i d = find_row ev_id i (db_events d)"

definition find_hook :: "nat \<Rightarrow> db \<Rightarrow> webhook option" where
  "find_hook i d = find_row wh_id i (db_webhooks d)"

text \<open>\<open>locked\<close>: the deliveries whose rows other transactions hold (\<open>SKIP LOCKED\<close>).\<close>

definition claimable :: "int \<Rightarrow> nat set \<Rightarrow> db \<Rightarrow> delivery \<Rightarrow> bool" where
  "claimable now locked d x \<longleftrightarrow> dl_status x = ''pending''
     \<and> (case dl_next_attempt_at x of None \<Rightarrow> True | Some t \<Rightarrow> t \<le> now)
     \<and> (case find_hook (dl_webhook x) d of None \<Rightarrow> False | Some w \<Rightarrow> wh_status w = ''active'')
     \<and> find_event (dl_event x) d \<noteq> None \<and> dl_id x \<notin> locked"

definition claim_key :: "delivery \<Rightarrow> int option \<times> int \<times> nat" where
  "claim_key x = (dl_next_attempt_at x, dl_created_at x, dl_id x)"

record claimed_delivery =
  cl_delivery :: nat
  cl_event :: nat
  cl_attempt :: int
  cl_endpoint :: string
  cl_encrypted_secret :: string
  cl_payload :: dict

definition event_payload :: "hook_env \<Rightarrow> run_event \<Rightarrow> dict" where
  "event_payload env e = [(''id'', JStr (he_uuid env (ev_id e))), (''type'', JStr (ev_type e)),
     (''created_at'', JStr (he_iso env (ev_created_at e))), (''run_id'', JStr (he_uuid env (ev_run e))),
     (''sequence'', JInt (ev_sequence e)), (''data'', JObj (ev_payload e))]"

definition claim_delivery :: "hook_env \<Rightarrow> int \<Rightarrow> nat set \<Rightarrow> db \<Rightarrow> db \<times> claimed_delivery option" where
  "claim_delivery env now locked d =
     (case sort_key claim_key (filter (claimable now locked d) (db_deliveries d)) of
        [] \<Rightarrow> (d, None)
      | x # _ \<Rightarrow>
          (case (find_hook (dl_webhook x) d, find_event (dl_event x) d) of
             (Some w, Some e) \<Rightarrow>
               (update_delivery (dl_id x) (\<lambda>x. x\<lparr>dl_status := ''delivering'', dl_attempt := dl_attempt x + 1,
                  dl_next_attempt_at := Some (now + 5 * MINUTE)\<rparr>) d,
                Some \<lparr>cl_delivery = dl_id x, cl_event = ev_id e, cl_attempt = dl_attempt x + 1,
                  cl_endpoint = wh_endpoint w, cl_encrypted_secret = wh_encrypted_secret w,
                  cl_payload = event_payload env e\<rparr>)
           | _ \<Rightarrow> (d, None)))"

definition holds_claim :: "claimed_delivery \<Rightarrow> delivery \<Rightarrow> bool" where
  "holds_claim c x \<longleftrightarrow> dl_status x = ''delivering'' \<and> dl_attempt x = cl_attempt c"

definition complete_delivery :: "claimed_delivery \<Rightarrow> delivery_attempt \<Rightarrow> db \<Rightarrow> db" where
  "complete_delivery c r d =
     (case find_row dl_id (cl_delivery c) (db_deliveries d) of
        None \<Rightarrow> d
      | Some x \<Rightarrow>
          (if holds_claim c x
           then update_delivery (cl_delivery c) (\<lambda>x. x\<lparr>dl_status := da_status r,
                  dl_response_code := da_response_code r, dl_next_attempt_at := da_next_attempt_at r\<rparr>) d
           else d))"

text \<open>What a claimed delivery leads to: the secret is decrypted, then the event is posted.\<close>

definition attempt_delivery ::
    "hook_env \<Rightarrow> (hook_request \<Rightarrow> int option) \<Rightarrow> int \<Rightarrow> claimed_delivery \<Rightarrow> hook_request option \<times> delivery_attempt result" where
  "attempt_delivery env post now c = (case secret_decrypt env (cl_encrypted_secret c) of
     Inl _ \<Rightarrow> (None, Inr \<lparr>da_status = ''failed'', da_response_code = None, da_next_attempt_at = None\<rparr>)
   | Inr secret \<Rightarrow> deliver_webhook env post (cl_endpoint c) (he_uuid env (cl_event c)) secret
       (cl_payload c) (cl_attempt c) now)"

text \<open>One round of the worker; \<open>others\<close> is what other transactions do while the event is posted.\<close>

definition webhook_once ::
    "hook_env \<Rightarrow> (hook_request \<Rightarrow> int option) \<Rightarrow> (db \<Rightarrow> db) \<Rightarrow> int \<Rightarrow> nat set \<Rightarrow> db \<Rightarrow> (db \<times> bool) result" where
  "webhook_once env post others now locked d0 =
     (let d1 = fst (recover_expired_claims now d0); d2 = fst (enqueue_missing now 100 d1) in
      case claim_delivery env now locked d2 of
        (d3, None) \<Rightarrow> Inr (d3, False)
      | (d3, Some c) \<Rightarrow> bind_result (snd (attempt_delivery env post now c)) (\<lambda>r.
          Inr (complete_delivery c r (others d3), True)))"

end
