(* ===== verification/WebhookFacts.thy ===== *)
theory WebhookFacts
  imports Webhooks
begin

text \<open>
  The delivery queue under every interleaving of its transactions: at most one delivery per
  webhook and event, a settled delivery is final, a worker that comes back after its claim was
  taken over changes nothing; and what is posted, and where to.
\<close>

section \<open>The transactions of the queue\<close>

datatype queue_op = RecoverOp int | EnqueueOp int nat | ClaimOp int "nat set"
  | CompleteOp claimed_delivery delivery_attempt

definition queue_apply :: "hook_env \<Rightarrow> queue_op \<Rightarrow> db \<Rightarrow> db" where
  "queue_apply env op d = (case op of
     RecoverOp now \<Rightarrow> fst (recover_expired_claims now d)
   | EnqueueOp now limit \<Rightarrow> fst (enqueue_missing now limit d)
   | ClaimOp now locked \<Rightarrow> fst (claim_delivery env now locked d)
   | CompleteOp c r \<Rightarrow> complete_delivery c r d)"

definition queue_runs :: "hook_env \<Rightarrow> queue_op list \<Rightarrow> db \<Rightarrow> db" where
  "queue_runs env ops d = fold (queue_apply env) ops d"

definition settled :: "delivery \<Rightarrow> bool" where
  "settled x \<longleftrightarrow> dl_status x \<in> {''delivered'', ''failed''}"

definition delivery_pairs :: "db \<Rightarrow> (nat \<times> nat) list" where
  "delivery_pairs d = map (\<lambda>x. (dl_webhook x, dl_event x)) (db_deliveries d)"

text \<open>
  How one transaction may change the deliveries: the rows stay in their places with their keys,
  a settled row is not touched, an attempt number never falls, and new rows are appended.
\<close>

definition row_moves :: "delivery \<Rightarrow> delivery \<Rightarrow> bool" where
  "row_moves x y \<longleftrightarrow> dl_id y = dl_id x \<and> dl_webhook y = dl_webhook x \<and> dl_event y = dl_event x
     \<and> dl_created_at y = dl_created_at x \<and> dl_attempt x \<le> dl_attempt y
     \<and> (dl_status x \<in> {''delivered'', ''failed''} \<longrightarrow> y = x)"

definition rows_move :: "delivery list \<Rightarrow> delivery list \<Rightarrow> bool" where
  "rows_move xs ys \<longleftrightarrow> (\<exists>zs new. ys = zs @ new \<and> list_all2 row_moves xs zs)"

lemma row_moves_refl [simp]: "row_moves x x"
  by (simp add: row_moves_def)

lemma row_moves_trans: "row_moves x y \<Longrightarrow> row_moves y z \<Longrightarrow> row_moves x z"
  by (auto simp: row_moves_def)

lemma list_all2_row_moves_refl [simp]: "list_all2 row_moves xs xs"
  by (rule list.rel_refl_strong) simp

lemma rows_move_refl [simp]: "rows_move xs xs"
  unfolding rows_move_def by (intro exI [of _ xs] exI [of _ "[]"]) simp

lemma rows_move_trans:
  assumes "rows_move xs ys" and "rows_move ys zs" shows "rows_move xs zs"
proof -
  obtain us new where ys: "ys = us @ new" "list_all2 row_moves xs us"
    using assms(1) by (auto simp: rows_move_def)
  obtain vs more where zs: "zs = vs @ more" "list_all2 row_moves ys vs"
    using assms(2) by (auto simp: rows_move_def)
  then obtain vs1 vs2 where vs: "vs = vs1 @ vs2" "list_all2 row_moves us vs1"
    using ys(1) by (auto simp: list_all2_append1)
  have "list_all2 row_moves xs vs1"
    using list_all2_trans [OF row_moves_trans ys(2) vs(2)] .
  then show ?thesis unfolding rows_move_def zs(1) vs(1) by (metis append.assoc)
qed

lemma rows_move_map: "(\<And>x. x \<in> set xs \<Longrightarrow> row_moves x (f x)) \<Longrightarrow> rows_move xs (map f xs)"
  unfolding rows_move_def by (intro exI [of _ "map f xs"] exI [of _ "[]"])
    (simp add: list_all2_map2 list.rel_refl_strong list_all2_same)

lemma rows_move_snoc [simp]: "rows_move xs (xs @ ys)"
  unfolding rows_move_def by (intro exI [of _ xs] exI [of _ ys]) simp

text \<open>
  The table's uniqueness: one row per webhook and event, identifiers drawn from the injective
  sequence of UUIDs.
\<close>

definition queue_ok :: "db \<Rightarrow> bool" where
  "queue_ok d \<longleftrightarrow> inj (db_uuid d) \<and> distinct (map dl_id (db_deliveries d))
     \<and> dl_id ` set (db_deliveries d) \<subseteq> db_uuid d ` {..<db_drawn d} \<and> distinct (delivery_pairs d)"

definition queue_keeps :: "db \<Rightarrow> db \<Rightarrow> bool" where
  "queue_keeps d d' \<longleftrightarrow> queue_ok d \<longrightarrow> queue_ok d' \<and> rows_move (db_deliveries d) (db_deliveries d')"

lemma queue_keeps_refl [simp]: "queue_keeps d d"
  by (simp add: queue_keeps_def)

lemma queue_keeps_trans: "queue_keeps d e \<Longrightarrow> queue_keeps e f \<Longrightarrow> queue_keeps d f"
  using rows_move_trans by (auto simp: queue_keeps_def)

lemma queue_keeps_map:
  assumes "db_deliveries d' = map f (db_deliveries d)" and "db_uuid d' = db_uuid d" and "db_drawn d' = db_drawn d"
    and moves: "queue_ok d \<Longrightarrow> (\<And>x. x \<in> set (db_deliveries d) \<Longrightarrow> row_moves x (f x))"
  shows "queue_keeps d d'"
  unfolding queue_keeps_def
proof
  assume ok: "queue_ok d"
  note m = moves [OF ok]
  have pairs: "delivery_pairs d' = delivery_pairs d"
    using assms(1) m by (simp add: delivery_pairs_def row_moves_def)
  have ids: "map dl_id (db_deliveries d') = map dl_id (db_deliveries d)"
    using assms(1) m by (simp add: row_moves_def)
  then have "dl_id ` set (db_deliveries d') = dl_id ` set (db_deliveries d)"
    by (metis set_map)
  with ok ids pairs have "queue_ok d'" unfolding queue_ok_def assms(2,3) by simp
  with rows_move_map [OF m] show "queue_ok d' \<and> rows_move (db_deliveries d) (db_deliveries d')"
    by (simp add: assms(1))
qed

lemma reclaim_keeps: "queue_keeps d (fst (recover_expired_claims now d))"
  by (rule queue_keeps_map [of _ "\<lambda>x. if claim_over now x
        then x\<lparr>dl_status := ''pending'', dl_next_attempt_at := Some now\<rparr> else x"])
    (simp_all add: recover_expired_claims_def update_where_def row_moves_def claim_over_def)

lemma insert_delivery_keeps: "queue_keeps d (fst (insert_delivery now w e d))"
proof (cases "has_delivery w e (db_deliveries d)")
  case False
  have "uuid4 d \<notin> db_uuid d ` {..<db_drawn d}" if "inj (db_uuid d)"
    using that by (auto simp: uuid4_def inj_eq)
  then show ?thesis
    using False by (auto simp: insert_delivery_def queue_keeps_def queue_ok_def delivery_pairs_def
        has_delivery_def list_ex_iff drawn_def uuid4_def)
qed (simp add: insert_delivery_def)

lemma insert_deliveries_keeps: "queue_keeps d (fst (insert_deliveries now w es d))"
proof (induction es arbitrary: d)
  case (Cons e es)
  show ?case
    using queue_keeps_trans [OF insert_delivery_keeps Cons.IH, of d now w e]
    by (simp add: case_prod_beta)
qed simp

lemma enqueue_hooks_keeps: "queue_keeps d (fst (enqueue_hooks now limit ws d))"
proof (induction ws arbitrary: d)
  case (Cons w ws)
  show ?case
    using Cons.IH [of d] queue_keeps_trans [OF insert_deliveries_keeps Cons.IH, of d now "wh_id w" "missing_events limit w d"]
    by (simp add: case_prod_beta)
qed simp

lemma update_delivery_keeps:
  assumes "queue_ok d \<Longrightarrow> (\<And>x. x \<in> set (db_deliveries d) \<Longrightarrow> dl_id x = i \<Longrightarrow> row_moves x (f x))"
  shows "queue_keeps d (update_delivery i f d)"
  by (rule queue_keeps_map [of _ "\<lambda>x. if dl_id x = i then f x else x"])
    (use assms in \<open>simp_all add: update_delivery_def update_row_def update_where_def\<close>)

lemma same_delivery:
  "queue_ok d \<Longrightarrow> x \<in> set (db_deliveries d) \<Longrightarrow> y \<in> set (db_deliveries d) \<Longrightarrow> dl_id x = dl_id y \<Longrightarrow> x = y"
  by (auto simp: queue_ok_def distinct_map inj_on_def)

lemma claim_delivery_cases:
  obtains (none) "claim_delivery env now locked d = (d, None)"
  | (claimed) x w e where "x \<in> set (db_deliveries d)" "claimable now locked d x"
      "find_hook (dl_webhook x) d = Some w" "find_event (dl_event x) d = Some e"
      "claim_delivery env now locked d =
        (update_delivery (dl_id x) (\<lambda>x. x\<lparr>dl_status := ''delivering'', dl_attempt := dl_attempt x + 1,
           dl_next_attempt_at := Some (now + 5 * MINUTE)\<rparr>) d,
         Some \<lparr>cl_delivery = dl_id x, cl_event = ev_id e, cl_attempt = dl_attempt x + 1,
           cl_endpoint = wh_endpoint w, cl_encrypted_secret = wh_encrypted_secret w,
           cl_payload = event_payload env e\<rparr>)"
proof (cases "sort_key claim_key (filter (claimable now locked d) (db_deliveries d))")
  case Nil
  then show ?thesis using none by (simp add: claim_delivery_def)
next
  case (Cons x xs)
  then have "x \<in> set (sort_key claim_key (filter (claimable now locked d) (db_deliveries d)))" by simp
  then have x: "x \<in> set (db_deliveries d)" "claimable now locked d x" by simp_all
  then obtain w e where "find_hook (dl_webhook x) d = Some w" "find_event (dl_event x) d = Some e"
    by (auto simp: claimable_def split: option.splits)
  with x Cons claimed show ?thesis by (simp add: claim_delivery_def)
qed

lemma claim_keeps: "queue_keeps d (fst (claim_delivery env now locked d))"
proof (cases rule: claim_delivery_cases [of env now locked d])
  case (claimed x w e)
  show ?thesis unfolding claimed(5) fst_conv
  proof (rule update_delivery_keeps)
    fix y assume "queue_ok d" "y \<in> set (db_deliveries d)" "dl_id y = dl_id x"
    with claimed(1) have "y = x" by (auto intro: same_delivery)
    with claimed(2) show "row_moves y (y\<lparr>dl_status := ''delivering'', dl_attempt := dl_attempt y + 1,
        dl_next_attempt_at := Some (now + 5 * MINUTE)\<rparr>)"
      by (auto simp: row_moves_def claimable_def)
  qed
qed simp

lemma complete_keeps: "queue_keeps d (complete_delivery c r d)"
proof (cases "find_row dl_id (cl_delivery c) (db_deliveries d)")
  case (Some x)
  show ?thesis
  proof (cases "holds_claim c x")
    case True
    from find_row_Some [OF Some] have x: "x \<in> set (db_deliveries d)" "dl_id x = cl_delivery c" by simp_all
    have "queue_keeps d (update_delivery (cl_delivery c) (\<lambda>x. x\<lparr>dl_status := da_status r,
        dl_response_code := da_response_code r, dl_next_attempt_at := da_next_attempt_at r\<rparr>) d)"
    proof (rule update_delivery_keeps)
      fix y assume "queue_ok d" "y \<in> set (db_deliveries d)" "dl_id y = cl_delivery c"
      with x have "y = x" by (auto intro: same_delivery)
      with True show "row_moves y (y\<lparr>dl_status := da_status r,
          dl_response_code := da_response_code r, dl_next_attempt_at := da_next_attempt_at r\<rparr>)"
        by (auto simp: row_moves_def holds_claim_def)
    qed
    then show ?thesis using Some True by (simp add: complete_delivery_def)
  qed (simp add: complete_delivery_def Some)
qed (simp add: complete_delivery_def)

lemma queue_apply_keeps: "queue_keeps d (queue_apply env op d)"
  by (cases op) (simp_all add: queue_apply_def reclaim_keeps enqueue_missing_def enqueue_hooks_keeps
      claim_keeps complete_keeps)

lemma queue_runs_keeps: "queue_keeps d (queue_runs env ops d)"
proof (induction ops arbitrary: d)
  case (Cons op ops)
  show ?case
    using queue_keeps_trans [OF queue_apply_keeps Cons.IH, of d env op] by (simp add: queue_runs_def)
qed (simp add: queue_runs_def)

lemma filter_unique:
  "distinct (map f ys) \<Longrightarrow> x \<in> set ys \<Longrightarrow> filter (\<lambda>y. f y = f x) ys = [x]"
proof (induction ys)
  case (Cons z ys)
  have "filter (\<lambda>y. f y = f z) ys = []" using Cons.prems(1) by (auto simp: filter_empty_conv image_iff)
  then show ?case using Cons by auto
qed simp

section \<open>Properties\<close>

text \<open>
  Whatever the workers' transactions do and however they interleave, a webhook has at most
  one delivery for an event, and once a delivery is delivered or has failed its row never
  changes again: it is neither sent a second time nor settled differently.
\<close>

theorem settled_deliveries_final:
  assumes "queue_ok d" and "d' = queue_runs env ops d"
    and "x \<in> set (db_deliveries d)" and "settled x"
  shows "x \<in> set (db_deliveries d')
    \<and> filter (\<lambda>y. dl_webhook y = dl_webhook x \<and> dl_event y = dl_event x) (db_deliveries d') = [x]"
proof -
  from queue_runs_keeps [of d env ops] assms(1,2) have ok: "queue_ok d'"
    and mv: "rows_move (db_deliveries d) (db_deliveries d')" by (simp_all add: queue_keeps_def)
  then obtain zs new where ys: "db_deliveries d' = zs @ new" "list_all2 row_moves (db_deliveries d) zs"
    by (auto simp: rows_move_def)
  from assms(3) obtain i where i: "i < length (db_deliveries d)" "x = db_deliveries d ! i"
    by (metis in_set_conv_nth)
  then have "row_moves x (zs ! i)" and "i < length zs"
    using ys(2) by (auto simp: list_all2_conv_all_nth)
  then have x: "x \<in> set (db_deliveries d')"
    using assms(4) ys(1) by (auto simp: row_moves_def settled_def)
  with ok filter_unique [of "\<lambda>y. (dl_webhook y, dl_event y)" "db_deliveries d'" x]
  show ?thesis by (simp add: queue_ok_def delivery_pairs_def)
qed

definition hook_demo :: hook_env where
  "hook_demo = \<lparr>he_parse = (\<lambda>t. Some \<lparr>url_scheme = ''https'', url_host = ''Hooks.Example.'', url_userinfo = [],
       url_fragment = [], url_port = None, url_text = t\<rparr>),
     he_resolve = (\<lambda>_ _. Addresses [\<lparr>adr_is_global = True, adr_is_private = False, adr_is_loopback = False,
       adr_is_link_local = False, adr_is_multicast = False\<rparr>]),
     he_allowlist = [], he_encrypt = id, he_decrypt = Some, he_hmac = (\<lambda>k t. ''m''), he_uuid = (\<lambda>_. ''u''),
     he_iso = (\<lambda>_. ''t'')\<rparr>"

definition demo_delivery :: "nat \<Rightarrow> string \<Rightarrow> int \<Rightarrow> delivery" where
  "demo_delivery i st n = \<lparr>dl_id = i, dl_webhook = 7, dl_event = i, dl_attempt = n, dl_status = st,
     dl_response_code = None, dl_next_attempt_at = None, dl_created_at = 0\<rparr>"

definition queue_demo :: db where
  "queue_demo = empty_db\<lparr>db_drawn := 10,
     db_webhooks := [\<lparr>wh_id = 7, wh_owner = 1, wh_endpoint = ''https://h'', wh_event_types = [''assessment.failed''],
       wh_encrypted_secret = ''s'', wh_status = ''active'', wh_created_at = 0\<rparr>],
     db_events := [\<lparr>ev_id = 3, ev_run = 1, ev_sequence = 1, ev_type = ''assessment.failed'', ev_payload = [],
       ev_created_at = 0\<rparr>, \<lparr>ev_id = 4, ev_run = 1, ev_sequence = 2, ev_type = ''assessment.failed'',
       ev_payload = [], ev_created_at = 1\<rparr>],
     db_deliveries := [demo_delivery 3 ''delivered'' 1, demo_delivery 4 ''pending'' 0]\<rparr>"

lemma queue_demo_ok: "queue_ok queue_demo"
  by (simp add: queue_ok_def queue_demo_def empty_db_def demo_delivery_def delivery_pairs_def)

lemma settled_deliveries_final_witness:
  "demo_delivery 3 ''delivered'' 1 \<in> set (db_deliveries
     (queue_runs hook_demo [EnqueueOp 5 100, ClaimOp 5 {}, RecoverOp 900000000] queue_demo))"
  using settled_deliveries_final [OF queue_demo_ok refl, of "demo_delivery 3 ''delivered'' 1" hook_demo
      "[EnqueueOp 5 100, ClaimOp 5 {}, RecoverOp 900000000]"]
  by (simp add: queue_demo_def settled_def demo_delivery_def)

subsection \<open>A claim that was taken over\<close>

definition attempted :: "nat \<Rightarrow> int \<Rightarrow> db \<Rightarrow> bool" where
  "attempted i n d \<longleftrightarrow> (\<exists>y\<in>set (db_deliveries d). dl_id y = i \<and> n \<le> dl_attempt y)"

lemma attempted_moves:
  assumes "rows_move (db_deliveries d) (db_deliveries d')" and "attempted i n d"
  shows "attempted i n d'"
proof -
  obtain zs new where ys: "db_deliveries d' = zs @ new" "list_all2 row_moves (db_deliveries d) zs"
    using assms(1) by (auto simp: rows_move_def)
  from assms(2) obtain k where k: "k < length (db_deliveries d)" "dl_id (db_deliveries d ! k) = i"
    "n \<le> dl_attempt (db_deliveries d ! k)"
    by (auto simp: attempted_def in_set_conv_nth)
  then have "row_moves (db_deliveries d ! k) (zs ! k)" and "zs ! k \<in> set (db_deliveries d')"
    using ys by (auto simp: list_all2_conv_all_nth)
  with k show ?thesis unfolding attempted_def row_moves_def by (intro bexI [of _ "zs ! k"]) auto
qed

lemma attempted_runs: "queue_ok d \<Longrightarrow> attempted i n d \<Longrightarrow> attempted i n (queue_runs env ops d)"
  using queue_runs_keeps [of d env ops] attempted_moves by (auto simp: queue_keeps_def)

lemma queue_runs_ok: "queue_ok d \<Longrightarrow> queue_ok (queue_runs env ops d)"
  using queue_runs_keeps [of d env ops] by (simp add: queue_keeps_def)

text \<open>A claim makes the row's attempt number one more than it was.\<close>

lemma claim_attempted:
  assumes "queue_ok d" and "claim_delivery env now locked d = (d', Some c)"
  shows "queue_ok d' \<and> attempted (cl_delivery c) (cl_attempt c) d'
    \<and> (\<forall>n. attempted (cl_delivery c) n d \<longrightarrow> n < cl_attempt c)"
proof (cases rule: claim_delivery_cases [of env now locked d])
  case (claimed x w e)
  with assms(2) have d': "d' = update_delivery (dl_id x) (\<lambda>x. x\<lparr>dl_status := ''delivering'', dl_attempt := dl_attempt x + 1,
           dl_next_attempt_at := Some (now + 5 * MINUTE)\<rparr>) d"
    and c: "cl_delivery c = dl_id x" "cl_attempt c = dl_attempt x + 1" by auto
  have "queue_ok d'" using claim_keeps [of d env now locked] assms by (simp add: queue_keeps_def)
  moreover have "attempted (dl_id x) (dl_attempt x + 1) d'"
    unfolding attempted_def d' update_delivery_def using claimed(1)
    by (intro bexI [of _ "x\<lparr>dl_status := ''delivering'', dl_attempt := dl_attempt x + 1,
           dl_next_attempt_at := Some (now + 5 * MINUTE)\<rparr>"]) (simp_all add: set_update_row image_iff, force)
  moreover have "n < dl_attempt x + 1" if "attempted (dl_id x) n d" for n
    using that claimed(1) same_delivery [OF assms(1)] by (force simp: attempted_def)
  ultimately show ?thesis by (simp add: c)
qed (use assms in simp)

text \<open>
  C32. A worker whose claim ran out and whose delivery was claimed again comes too late: its
  completion changes nothing, whatever it reports and whatever the queue did in between, so the
  outcome of a delivery is always the one of its last claim.
\<close>

theorem late_completion_ignored:
  assumes "queue_ok d" and "claim_delivery env now locked d = (d1, Some c)"
    and "d2 = queue_runs env ops d1"
    and "claim_delivery env now' locked' d2 = (d3, Some c')" and "cl_delivery c' = cl_delivery c"
    and "d4 = queue_runs env ops' d3"
  shows "complete_delivery c r d4 = d4"
proof -
  note first = claim_attempted [OF assms(1,2)]
  have ok2: "queue_ok d2" and "attempted (cl_delivery c) (cl_attempt c) d2"
    using first attempted_runs queue_runs_ok by (simp_all add: assms(3))
  with claim_attempted [OF ok2 assms(4)] assms(5)
  have lt: "cl_attempt c < cl_attempt c'" and ok3: "queue_ok d3"
    and "attempted (cl_delivery c) (cl_attempt c') d3" by auto
  then have ok4: "queue_ok d4" and "attempted (cl_delivery c) (cl_attempt c') d4"
    using attempted_runs queue_runs_ok by (simp_all add: assms(6))
  then obtain y where y: "y \<in> set (db_deliveries d4)" "dl_id y = cl_delivery c" "cl_attempt c' \<le> dl_attempt y"
    by (auto simp: attempted_def)
  show ?thesis
  proof (cases "find_row dl_id (cl_delivery c) (db_deliveries d4)")
    case (Some x)
    from find_row_Some [OF Some] same_delivery [OF ok4] y have "x = y" by auto
    with y lt have "\<not> holds_claim c x" by (simp add: holds_claim_def)
    with Some show ?thesis by (simp add: complete_delivery_def)
  qed (simp add: complete_delivery_def)
qed

lemma late_completion_ignored_witness:
  "\<exists>c c' d1 d3. claim_delivery hook_demo 5 {} queue_demo = (d1, Some c)
     \<and> claim_delivery hook_demo 900000000 {} (queue_runs hook_demo [RecoverOp 900000000] d1) = (d3, Some c')
     \<and> complete_delivery c \<lparr>da_status = ''failed'', da_response_code = None, da_next_attempt_at = None\<rparr> d3 = d3"
proof -
  let ?claim = "\<lambda>n now. \<lparr>cl_delivery = 4, cl_event = 4, cl_attempt = n, cl_endpoint = ''https://h'',
     cl_encrypted_secret = ''s'', cl_payload = [(''id'', JStr ''u''), (''type'', JStr ''assessment.failed''),
     (''created_at'', JStr ''t''), (''run_id'', JStr ''u''), (''sequence'', JInt 2), (''data'', JObj [])]\<rparr>"
  let ?d1 = "fst (claim_delivery hook_demo 5 {} queue_demo)"
  let ?d2 = "queue_runs hook_demo [RecoverOp 900000000] ?d1"
  have c: "snd (claim_delivery hook_demo 5 {} queue_demo) = Some (?claim 1 5)" by code_simp
  have c': "snd (claim_delivery hook_demo 900000000 {} ?d2) = Some (?claim 2 900000000)" by code_simp
  have one: "claim_delivery hook_demo 5 {} queue_demo = (?d1, Some (?claim 1 5))"
    using c by (metis prod.collapse)
  have two: "claim_delivery hook_demo 900000000 {} ?d2 = (fst (claim_delivery hook_demo 900000000 {} ?d2), Some (?claim 2 900000000))"
    using c' by (metis prod.collapse)
  have "queue_runs hook_demo [] d = d" for d by (simp add: queue_runs_def)
  with late_completion_ignored [where ops' = "[]", OF queue_demo_ok one refl two _ refl]
  have "complete_delivery (?claim 1 5) \<lparr>da_status = ''failed'', da_response_code = None, da_next_attempt_at = None\<rparr>
      (fst (claim_delivery hook_demo 900000000 {} ?d2)) = fst (claim_delivery hook_demo 900000000 {} ?d2)" by simp
  with one two show ?thesis by blast
qed

section \<open>What is sent\<close>

lemma validated_endpoint:
  assumes "validate_endpoint env endpoint = Inr u"
  shows "he_parse env endpoint = Some u \<and> url_ok u = Inr ()
    \<and> (\<exists>as. he_resolve env (rstrip_dots (lower_text (url_host u))) (url_port_or u) = Addresses as \<and> as \<noteq> []
        \<and> (rstrip_dots (lower_text (url_host u)) \<in> set (map (\<lambda>h. rstrip_dots (lower_text h)) (he_allowlist env))
           \<or> list_all public_address as))"
  using assms unfolding validate_endpoint_def Let_def
  by (auto elim!: bind_resultE split: resolution.splits)

text \<open>The contract for the result of an attempt.\<close>

definition retry_until_fifth :: "int \<Rightarrow> int \<Rightarrow> int option \<Rightarrow> delivery_attempt" where
  "retry_until_fifth attempt now code =
     (if attempt < 5
      then \<lparr>da_status = ''pending'', da_response_code = code,
        da_next_attempt_at = Some (now + [1, 5, 15, 60] ! nat (attempt - 1) * MINUTE)\<rparr>
      else \<lparr>da_status = ''failed'', da_response_code = code, da_next_attempt_at = None\<rparr>)"

definition delivery_verdict :: "int \<Rightarrow> int \<Rightarrow> int option \<Rightarrow> delivery_attempt" where
  "delivery_verdict attempt now response = (case response of
     None \<Rightarrow> retry_until_fifth attempt now None
   | Some code \<Rightarrow>
       (if 200 \<le> code \<and> code < 300
        then \<lparr>da_status = ''delivered'', da_response_code = Some code, da_next_attempt_at = None\<rparr>
        else if code = 429 \<or> 500 \<le> code then retry_until_fifth attempt now (Some code)
        else \<lparr>da_status = ''failed'', da_response_code = Some code, da_next_attempt_at = None\<rparr>))"

text \<open>
  An attempt posts nothing unless the stored secret decrypts and the endpoint passes the
  policy at that moment: HTTPS, no credentials, no fragment, and every address the host resolves
  to public unless the host is allow-listed. What it posts is the canonical JSON of the event,
  signed with the secret over the time, the event and that very body. Its result is delivered
  exactly on a 2xx answer; no answer, 429 or 5xx is retried after 1, 5, 15 and 60 minutes, the
  fifth such attempt and any other answer fail.
\<close>

theorem posts_only_validated:
  assumes "attempt_delivery env post now c = (Some rq, r)" and "1 \<le> cl_attempt c"
  shows "url_scheme (hr_url rq) = ''https'' \<and> url_userinfo (hr_url rq) = [] \<and> url_fragment (hr_url rq) = []
    \<and> he_parse env (cl_endpoint c) = Some (hr_url rq)
    \<and> (\<exists>as. he_resolve env (rstrip_dots (lower_text (url_host (hr_url rq)))) (url_port_or (hr_url rq)) = Addresses as
        \<and> (rstrip_dots (lower_text (url_host (hr_url rq))) \<in> set (map (\<lambda>h. rstrip_dots (lower_text h)) (he_allowlist env))
           \<or> list_all public_address as))
    \<and> hr_body rq = json_dump_utf8 (JObj (cl_payload c))
    \<and> (\<exists>secret. he_decrypt env (cl_encrypted_secret c) = Some secret
        \<and> map_of (hr_headers rq) ''X-TradingNG-Signature'' = Some (''v1='' @ he_hmac env secret
            (int_str (now div 1000000) @ ''.'' @ he_uuid env (cl_event c) @ ''.'' @ hr_body rq)))
    \<and> r = Inr (delivery_verdict (cl_attempt c) now (post rq))"
proof -
  from assms(1) obtain secret where secret: "he_decrypt env (cl_encrypted_secret c) = Some secret"
    and del: "deliver_webhook env post (cl_endpoint c) (he_uuid env (cl_event c)) secret (cl_payload c) (cl_attempt c) now = (Some rq, r)"
    by (cases "he_decrypt env (cl_encrypted_secret c)") (auto simp: attempt_delivery_def secret_decrypt_def)
  from del obtain u where u: "validate_endpoint env (cl_endpoint c) = Inr u"
    by (cases "validate_endpoint env (cl_endpoint c)") (auto simp: deliver_webhook_def)
  note del' = del [unfolded deliver_webhook_def u sum.case Let_def prod.inject option.inject]
  have url: "url_scheme u = ''https''" "url_userinfo u = []" "url_fragment u = []"
    using validated_endpoint [OF u] by (auto simp: url_ok_def elim!: bind_resultE)
  have idx: "[1, 5, 15, 60, 240] ! nat (k - 1) = [1, 5, 15, 60::int] ! nat (k - 1)" if "1 \<le> k" "k < 5" for k :: int
  proof -
    from that consider "k = 1" | "k = 2" | "k = 3" | "k = 4" by linarith
    then show ?thesis by cases simp_all
  qed
  have retry: "retry_or_fail (cl_attempt c) now code = Inr (retry_until_fifth (cl_attempt c) now code)" for code
    using assms(2) idx [of "cl_attempt c"]
    by (simp add: retry_or_fail_def retry_until_fifth_def next_retry_at_def MAX_ATTEMPTS_def HOOK_RETRY_MINUTES_def)
  have hu: "hr_url rq = u" and body: "hr_body rq = json_dump_utf8 (JObj (cl_payload c))"
    and sig: "map_of (hr_headers rq) ''X-TradingNG-Signature'' = Some (''v1='' @ he_hmac env secret
            (int_str (now div 1000000) @ ''.'' @ he_uuid env (cl_event c) @ ''.'' @ hr_body rq))"
    using del' by (auto simp: signature_headers_def canonical_body_def)
  have "r = judge_response (cl_attempt c) now (post rq)" using del' by auto
  then have "r = Inr (delivery_verdict (cl_attempt c) now (post rq))"
    by (cases "post rq") (simp_all add: judge_response_def delivery_verdict_def retry)
  with validated_endpoint [OF u] url hu body sig secret show ?thesis by auto
qed

definition demo_hook_claim :: claimed_delivery where
  "demo_hook_claim = \<lparr>cl_delivery = 4, cl_event = 4, cl_attempt = 3, cl_endpoint = ''https://h'',
     cl_encrypted_secret = ''s'', cl_payload = []\<rparr>"

lemma posts_only_validated_witness:
  "\<exists>rq. fst (attempt_delivery hook_demo (\<lambda>_. Some 503) 0 demo_hook_claim) = Some rq
     \<and> snd (attempt_delivery hook_demo (\<lambda>_. Some 503) 0 demo_hook_claim)
       = Inr \<lparr>da_status = ''pending'', da_response_code = Some 503, da_next_attempt_at = Some (15 * MINUTE)\<rparr>"
proof -
  have "fst (attempt_delivery hook_demo (\<lambda>_. Some 503) 0 demo_hook_claim) \<noteq> None" by code_simp
  then obtain rq where rq: "attempt_delivery hook_demo (\<lambda>_. Some 503) 0 demo_hook_claim =
      (Some rq, snd (attempt_delivery hook_demo (\<lambda>_. Some 503) 0 demo_hook_claim))"
    by (metis option.exhaust prod.collapse)
  from posts_only_validated [OF rq] have "snd (attempt_delivery hook_demo (\<lambda>_. Some 503) 0 demo_hook_claim)
      = Inr (delivery_verdict 3 0 (Some 503))" by (simp add: demo_hook_claim_def)
  moreover have "delivery_verdict 3 0 (Some 503)
      = \<lparr>da_status = ''pending'', da_response_code = Some 503, da_next_attempt_at = Some (15 * MINUTE)\<rparr>"
    by (simp add: delivery_verdict_def retry_until_fifth_def)
  ultimately show ?thesis using rq by (metis fst_conv)
qed

end
