(* ===== verification/Statements.thy ===== *)
theory Statements
  imports Integrity
begin

text \<open>
  Publication dates of financial statements and the filter that keeps a reconstruction from
  reading statements that were not yet public (\<open>integrity/financials.py\<close>), with the guarded
  routes of the runner (\<open>runner/tradingagents.py\<close>, \<open>_point_in_time_\<dots>\<close>). \<open>json.loads\<close>,
  \<open>date.fromisoformat\<close>, \<open>str\<close> of a JSON value and the fetch of a URL (HTTP and its disk cache)
  are arguments.
\<close>

section \<open>Availability\<close>

record availability =
  av_available_at :: int
  av_source :: string
  av_assurance :: string

type_synonym resolver = "string \<Rightarrow> int \<Rightarrow> string \<Rightarrow> availability option result"

record stmt_env =
  se_loads :: "string \<Rightarrow> json option"
  se_date :: "string \<Rightarrow> int option"
  se_show :: "json \<Rightarrow> string"
  se_trunc :: "string \<Rightarrow> int option"

definition ends_with :: "string \<Rightarrow> string \<Rightarrow> bool" where
  "ends_with p s = starts_with (rev p) (rev s)"

definition parse_date :: "stmt_env \<Rightarrow> json option \<Rightarrow> int option" where
  "parse_date env j = (case j of Some (JStr s) \<Rightarrow> se_date env s | _ \<Rightarrow> None)"

text \<open>A table given by columns of possibly different lengths, as its rows.\<close>

definition columnar_rows :: "json option \<Rightarrow> dict list" where
  "columnar_rows value = (case value of
     Some (JObj d) \<Rightarrow>
       (let columns = [(k, items). (k, JList items) \<leftarrow> d] in
        if columns = [] then []
        else map (\<lambda>i. [(k, items ! i). (k, items) \<leftarrow> columns, i < length items])
               [0..<fold max (map (length \<circ> snd) columns) 0])
   | _ \<Rightarrow> [])"

subsection \<open>SEC filings\<close>

definition ANNUAL_FORMS :: "string list" where
  "ANNUAL_FORMS = [''10-K'', ''20-F'', ''40-F'']"

definition QUARTERLY_FORMS :: "string list" where
  "QUARTERLY_FORMS = [''10-Q'', ''6-K'']"

definition SEC_TICKERS_URL :: string where
  "SEC_TICKERS_URL = ''https://www.sec.gov/files/company_tickers.json''"

definition SEC_SUBMISSIONS_BASE :: string where
  "SEC_SUBMISSIONS_BASE = ''https://data.sec.gov/submissions''"

text \<open>\<open>int(raw)\<close>; \<open>None\<close> is a \<open>TypeError\<close> or a \<open>ValueError\<close>.\<close>

definition py_int :: "stmt_env \<Rightarrow> json option \<Rightarrow> int option" where
  "py_int env j = (case j of Some (JInt i) \<Rightarrow> Some i | Some (JBool b) \<Rightarrow> Some (if b then 1 else 0)
     | Some (JFloat s) \<Rightarrow> se_trunc env s
     | Some (JStr s) \<Rightarrow> (case int_of_text s of Inl _ \<Rightarrow> None | Inr i \<Rightarrow> Some i)
     | _ \<Rightarrow> None)"

text \<open>\<open>f"{i:010d}"\<close>\<close>

definition padded_cik :: "int \<Rightarrow> string" where
  "padded_cik i = (if i < 0 then ''-'' @ pad_left 9 (nat_digits (nat (- i))) else pad_left 10 (nat_digits (nat i)))"

definition ticker_entry :: "stmt_env \<Rightarrow> json \<Rightarrow> (string \<times> string) list" where
  "ticker_entry env item = (case item of
     JObj d \<Rightarrow>
       (let ticker = str_upper (case dict_get ''ticker'' d of None \<Rightarrow> []
              | Some j \<Rightarrow> if json_truthy j then se_show env j else [])
        in case py_int env (dict_get ''cik_str'' d) of None \<Rightarrow> []
           | Some i \<Rightarrow> if ticker = [] then [] else [(ticker, padded_cik i)])
   | _ \<Rightarrow> [])"

definition ticker_mapping :: "stmt_env \<Rightarrow> json \<Rightarrow> (string \<times> string) list" where
  "ticker_mapping env payload = (case payload of
     JObj d \<Rightarrow> concat (map (ticker_entry env \<circ> snd) d) | _ \<Rightarrow> [])"

definition unique_cik :: "string \<Rightarrow> (string \<times> string) list \<Rightarrow> string option" where
  "unique_cik ticker mapping =
     (case dedup (map snd (filter (\<lambda>p. fst p = str_upper ticker) mapping)) of [cik] \<Rightarrow> Some cik | _ \<Rightarrow> None)"

fun older_rows :: "(string \<Rightarrow> json result) \<Rightarrow> json list \<Rightarrow> dict list result" where
  "older_rows fetch [] = Inr []"
| "older_rows fetch (item # items) =
     (case json_get ''name'' item of
        Some (JStr name) \<Rightarrow>
          (if ends_with ''.json'' name
           then bind_result (fetch (SEC_SUBMISSIONS_BASE @ ''/'' @ name)) (\<lambda>payload.
             bind_result (older_rows fetch items) (\<lambda>rows. Inr (columnar_rows (Some payload) @ rows)))
           else older_rows fetch items)
      | _ \<Rightarrow> older_rows fetch items)"

definition filing_rows :: "(string \<Rightarrow> json result) \<Rightarrow> string \<Rightarrow> dict list result" where
  "filing_rows fetch cik =
     bind_result (fetch (SEC_SUBMISSIONS_BASE @ ''/CIK'' @ cik @ ''.json'')) (\<lambda>payload.
       case json_get ''filings'' payload of
         Some (JObj filings) \<Rightarrow>
           (case dict_get ''files'' filings of
              Some (JList files) \<Rightarrow> bind_result (older_rows fetch files)
                (\<lambda>rows. Inr (columnar_rows (dict_get ''recent'' filings) @ rows))
            | _ \<Rightarrow> Inr (columnar_rows (dict_get ''recent'' filings)))
       | _ \<Rightarrow> Inr [])"

definition filing_matches :: "string list \<Rightarrow> int \<Rightarrow> dict \<Rightarrow> bool" where
  "filing_matches forms fiscal_end row \<longleftrightarrow>
     (case dict_get ''form'' row of Some (JStr f) \<Rightarrow> f \<in> set forms | _ \<Rightarrow> False)
     \<and> dict_get ''reportDate'' row = Some (JStr (iso_date fiscal_end))"

definition earliest :: "int list \<Rightarrow> int option" where
  "earliest xs = (case xs of [] \<Rightarrow> None | x # ys \<Rightarrow> Some (fold min ys x))"

definition sec_lookup :: "stmt_env \<Rightarrow> (string \<Rightarrow> json result) \<Rightarrow> (string \<times> string) list \<Rightarrow> resolver" where
  "sec_lookup env fetch mapping ticker fiscal_end frequency = (case unique_cik ticker mapping of
     None \<Rightarrow> Inr None
   | Some cik \<Rightarrow> bind_result (filing_rows fetch cik) (\<lambda>rows.
       let forms = (if frequency = ''annual'' then ANNUAL_FORMS else QUARTERLY_FORMS);
           dates = List.map_filter (\<lambda>row. parse_date env (dict_get ''filingDate'' row))
             (filter (filing_matches forms fiscal_end) rows)
       in Inr (map_option (\<lambda>d. \<lparr>av_available_at = d, av_source = ''sec'', av_assurance = ''high''\<rparr>) (earliest dates))))"

text \<open>The client with its two memo tables.\<close>

record sec_client =
  sc_tickers :: "(string \<times> string) list option"
  sc_resolved :: "((string \<times> int \<times> string) \<times> availability option) list"

definition sec_tickers ::
    "stmt_env \<Rightarrow> (string \<Rightarrow> json result) \<Rightarrow> sec_client \<Rightarrow> (sec_client \<times> (string \<times> string) list) result" where
  "sec_tickers env fetch c = (case sc_tickers c of
     Some m \<Rightarrow> Inr (c, m)
   | None \<Rightarrow> bind_result (fetch SEC_TICKERS_URL) (\<lambda>payload.
       let m = ticker_mapping env payload in Inr (c\<lparr>sc_tickers := Some m\<rparr>, m)))"

definition sec_resolve ::
    "stmt_env \<Rightarrow> (string \<Rightarrow> json result) \<Rightarrow> string \<Rightarrow> int \<Rightarrow> string \<Rightarrow> sec_client
       \<Rightarrow> (sec_client \<times> availability option) result" where
  "sec_resolve env fetch ticker fiscal_end frequency c =
     (let key = (str_upper ticker, fiscal_end, frequency) in
      case map_of (sc_resolved c) key of
        Some a \<Rightarrow> Inr (c, a)
      | None \<Rightarrow> bind_result (sec_tickers env fetch c) (\<lambda>(c1, m).
          bind_result (sec_lookup env fetch m ticker fiscal_end frequency) (\<lambda>a.
          Inr (c1\<lparr>sc_resolved := (key, a) # sc_resolved c1\<rparr>, a))))"

subsection \<open>Earnings of Alpha Vantage\<close>

text \<open>What the loader returns: text or an object; \<open>_load\<close> turns what it cannot use into \<open>None\<close>.\<close>

datatype loaded = LoadedText string | LoadedValue json

definition load_earnings :: "stmt_env \<Rightarrow> (string \<Rightarrow> loaded result) \<Rightarrow> string \<Rightarrow> dict option result" where
  "load_earnings env loader ticker = (case loader (str_upper ticker) of
     Inl (TypeError m) \<Rightarrow> Inr None
   | Inl (ValueError m) \<Rightarrow> Inr None
   | Inl e \<Rightarrow> Inl e
   | Inr raw \<Rightarrow> Inr (case (case raw of LoadedText t \<Rightarrow> se_loads env t | LoadedValue j \<Rightarrow> Some j) of
       Some (JObj d) \<Rightarrow> Some d | _ \<Rightarrow> None))"

definition reported_dates :: "stmt_env \<Rightarrow> int \<Rightarrow> json list \<Rightarrow> int list" where
  "reported_dates env fiscal_end rows = List.map_filter (\<lambda>row.
     case row of JObj d \<Rightarrow>
       (if dict_get ''fiscalDateEnding'' d = Some (JStr (iso_date fiscal_end))
        then (case parse_date env (dict_get ''reportedDate'' d) of
           Some t \<Rightarrow> if fiscal_end \<le> t then Some t else None | None \<Rightarrow> None) else None)
     | _ \<Rightarrow> None) rows"

definition alpha_lookup :: "stmt_env \<Rightarrow> (string \<Rightarrow> loaded result) \<Rightarrow> resolver" where
  "alpha_lookup env loader ticker fiscal_end frequency =
     bind_result (load_earnings env loader ticker) (\<lambda>payload.
     Inr (case payload of None \<Rightarrow> None
       | Some d \<Rightarrow> (case dict_get (if frequency = ''annual'' then ''annualEarnings'' else ''quarterlyEarnings'') d of
           Some (JList rows) \<Rightarrow> (case reported_dates env fiscal_end rows of
               [t] \<Rightarrow> Some \<lparr>av_available_at = t, av_source = ''alpha_vantage_earnings'', av_assurance = ''medium''\<rparr>
             | _ \<Rightarrow> None)
         | _ \<Rightarrow> None)))"

subsection \<open>The two together\<close>

definition resolver_error_caught :: "py_error \<Rightarrow> bool" where
  "resolver_error_caught e = (case e of NetworkError _ \<Rightarrow> True | FileNotFound _ \<Rightarrow> True | RuntimeError _ \<Rightarrow> True
     | ValueError _ \<Rightarrow> True | _ \<Rightarrow> False)"

fun composite_resolve :: "resolver list \<Rightarrow> resolver" where
  "composite_resolve [] ticker fiscal_end frequency = Inr None"
| "composite_resolve (r # rs) ticker fiscal_end frequency = (case r ticker fiscal_end frequency of
     Inl e \<Rightarrow> if resolver_error_caught e then composite_resolve rs ticker fiscal_end frequency else Inl e
   | Inr None \<Rightarrow> composite_resolve rs ticker fiscal_end frequency
   | Inr (Some a) \<Rightarrow> Inr (Some a))"

section \<open>The filter\<close>

definition EMPTY_NOTICE :: string where
  "EMPTY_NOTICE = ''Historical statement data was unavailable under point-in-time.v1.''"

definition filtered_finding :: "string \<Rightarrow> string \<Rightarrow> dict \<Rightarrow> finding" where
  "filtered_finding tool reason details =
     \<lparr>fnd_tool_name = tool, fnd_status = SAFE, fnd_reason_code = reason, fnd_details = details\<rparr>"

definition period_details :: "string \<Rightarrow> int \<Rightarrow> dict" where
  "period_details frequency fiscal_end =
     [(''frequency'', JStr frequency), (''fiscal_date_ending'', JStr (iso_date fiscal_end))]"

definition availability_details :: "availability \<Rightarrow> dict" where
  "availability_details a = [(''available_at'', JStr (iso_date (av_available_at a))),
     (''availability_source'', JStr (av_source a)), (''assurance'', JStr (av_assurance a))]"

text \<open>One row: whether it is retained, and its finding.\<close>

definition filter_row ::
    "stmt_env \<Rightarrow> resolver \<Rightarrow> string \<Rightarrow> int \<Rightarrow> string \<Rightarrow> string \<Rightarrow> json \<Rightarrow> (bool \<times> finding) result" where
  "filter_row env resolve ticker analysis_date kind frequency row = (case row of
     JObj d \<Rightarrow>
       (case parse_date env (dict_get ''fiscalDateEnding'' d) of
          None \<Rightarrow> Inr (False, filtered_finding kind ''invalid_fiscal_date_filtered'' [])
        | Some fiscal_end \<Rightarrow> bind_result (resolve ticker fiscal_end frequency) (\<lambda>a.
            Inr (case a of
              None \<Rightarrow> (False, filtered_finding kind ''publication_unverified_filtered'' (period_details frequency fiscal_end))
            | Some x \<Rightarrow>
                (let details = period_details frequency fiscal_end @ availability_details x in
                 if av_available_at x > analysis_date
                 then (False, filtered_finding kind ''future_publication_filtered'' details)
                 else (True, filtered_finding kind ''publication_verified'' details)))))
   | _ \<Rightarrow> Inr (False, filtered_finding kind ''unknown_schema_filtered'' []))"

fun filter_rows ::
    "stmt_env \<Rightarrow> resolver \<Rightarrow> string \<Rightarrow> int \<Rightarrow> string \<Rightarrow> string \<Rightarrow> json list \<Rightarrow> (json list \<times> finding list) result" where
  "filter_rows env resolve ticker analysis_date kind frequency [] = Inr ([], [])"
| "filter_rows env resolve ticker analysis_date kind frequency (row # rows) =
     bind_result (filter_row env resolve ticker analysis_date kind frequency row) (\<lambda>(keep, f).
     bind_result (filter_rows env resolve ticker analysis_date kind frequency rows) (\<lambda>(kept, fs).
     Inr ((if keep then row # kept else kept), f # fs)))"

text \<open>One of the two reports: the rows retained, their findings and how many rows were seen.\<close>

definition filter_report ::
    "stmt_env \<Rightarrow> resolver \<Rightarrow> string \<Rightarrow> int \<Rightarrow> string \<Rightarrow> string \<times> string \<Rightarrow> dict \<Rightarrow> (json list \<times> finding list) result" where
  "filter_report env resolve ticker analysis_date kind report payload =
     (case dict_get (fst report) payload of
        Some (JList rows) \<Rightarrow> filter_rows env resolve ticker analysis_date kind (snd report) rows
      | _ \<Rightarrow> Inr ([], []))"

definition empty_reports :: dict where
  "empty_reports = [(''annualReports'', JList []), (''quarterlyReports'', JList []),
     (''integrityNotice'', JStr EMPTY_NOTICE)]"

definition empty_statement :: "string \<Rightarrow> dict" where
  "empty_statement ticker = (''symbol'', JStr ticker) # empty_reports"

definition filter_statement ::
    "stmt_env \<Rightarrow> resolver \<Rightarrow> string \<Rightarrow> int \<Rightarrow> string \<Rightarrow> dict \<Rightarrow> (dict \<times> finding list) result" where
  "filter_statement env resolve ticker analysis_date kind payload =
     bind_result (filter_report env resolve ticker analysis_date kind (''annualReports'', ''annual'') payload) (\<lambda>(annual, fa).
     bind_result (filter_report env resolve ticker analysis_date kind (''quarterlyReports'', ''quarterly'') payload) (\<lambda>(quarterly, fq).
       let findings = (if fa @ fq = [] then [filtered_finding kind ''no_statement_records'' []] else fa @ fq);
           kept = dict_set ''quarterlyReports'' (JList quarterly) (dict_set ''annualReports'' (JList annual) payload)
       in Inr (if annual = [] \<and> quarterly = [] then dict_set ''integrityNotice'' (JStr EMPTY_NOTICE) kept else kept,
               findings)))"

definition filter_statement_payload ::
    "stmt_env \<Rightarrow> resolver \<Rightarrow> string \<Rightarrow> int \<Rightarrow> string \<Rightarrow> json \<Rightarrow> (string \<times> finding list) result" where
  "filter_statement_payload env resolve ticker analysis_date kind payload_text =
     (case (case payload_text of JStr t \<Rightarrow> se_loads env t | _ \<Rightarrow> None) of
        Some (JObj payload) \<Rightarrow>
          bind_result (filter_statement env resolve ticker analysis_date kind payload)
            (\<lambda>(out, findings). Inr (json_spaced json_quote (JObj out), findings))
      | _ \<Rightarrow> Inr (json_spaced json_quote (JObj (empty_statement ticker)),
               [filtered_finding kind ''unknown_schema_filtered'' []]))"

section \<open>The guarded routes of a reconstruction\<close>

definition record_all :: "finding list \<Rightarrow> recorder \<Rightarrow> recorder" where
  "record_all fs r = fold (\<lambda>f. record_finding (fnd_tool_name f) (fnd_status f) (fnd_reason_code f) (fnd_details f)) fs r"

text \<open>\<open>route\<close> is the vendor's route; \<open>ticker\<close> the argument as given.\<close>

definition guarded_statement ::
    "stmt_env \<Rightarrow> resolver \<Rightarrow> int \<Rightarrow> string \<Rightarrow> (string \<Rightarrow> json result) \<Rightarrow> json \<Rightarrow> recorder \<Rightarrow> (recorder \<times> string) result" where
  "guarded_statement env resolve analysis_date kind route ticker r =
     (case ticker of
        JStr t \<Rightarrow>
          (if str_strip t = [] then
             Inr (record_finding kind SAFE ''invalid_ticker_filtered'' [] r, json_spaced json_quote (JObj empty_reports))
           else bind_result (route t) (\<lambda>payload.
             bind_result (filter_statement_payload env resolve t analysis_date kind payload) (\<lambda>(text, findings).
             Inr (record_all findings r, text))))
      | _ \<Rightarrow> Inr (record_finding kind SAFE ''invalid_ticker_filtered'' [] r,
               json_spaced json_quote (JObj empty_reports)))"

definition unavailable_text :: "string \<Rightarrow> int \<Rightarrow> string" where
  "unavailable_text tool analysis_date = ''POINT_IN_TIME_DATA_UNAVAILABLE: '' @ tool @ '' cannot guarantee data as of ''
     @ iso_date analysis_date @ ''. Proceed without it and do not use current data, estimate, or fabricate values.''"

definition blocked_route :: "string \<Rightarrow> int \<Rightarrow> recorder \<Rightarrow> recorder \<times> string" where
  "blocked_route tool analysis_date r =
     (record_finding tool SAFE ''current_snapshot_blocked'' [] r, unavailable_text tool analysis_date)"

definition blocked_social :: "string \<Rightarrow> int \<Rightarrow> recorder \<Rightarrow> recorder \<times> string" where
  "blocked_social name analysis_date r =
     (record_finding name SAFE ''current_snapshot_blocked'' [] r,
      ''<point-in-time unavailable: '' @ name @ '' cannot guarantee data as of '' @ iso_date analysis_date
        @ ''; proceed without it and do not use current data>'')"

definition vintage_params :: "string \<Rightarrow> int \<Rightarrow> dict \<Rightarrow> dict" where
  "vintage_params path analysis_date params =
     (if path = ''series/observations''
      then dict_update params [(''realtime_start'', JStr (iso_date analysis_date)), (''realtime_end'', JStr (iso_date analysis_date))]
      else params)"

definition vintage_route ::
    "(string \<Rightarrow> string \<Rightarrow> int option \<Rightarrow> string result) \<Rightarrow> int \<Rightarrow> string \<Rightarrow> int option \<Rightarrow> recorder \<Rightarrow> (recorder \<times> string) result" where
  "vintage_route route analysis_date indicator look_back r =
     bind_result (route indicator (iso_date analysis_date) look_back) (\<lambda>report.
     Inr (record_finding ''get_macro_indicators'' SAFE ''fred_vintage_applied'' [] r,
       ''POINT_IN_TIME_VINTAGE: FRED observations are limited to values available on '' @ iso_date analysis_date
         @ ''. Later releases and revisions are excluded.'' @ [CHR 0x0A, CHR 0x0A] @ report))"

end
