(* ===== verification/EvidenceAudit.thy ===== *)
theory EvidenceAudit
  imports Statements ValidationJobs
begin

text \<open>
  The retrospective audit (\<open>integrity/audit.py\<close>) and the summary (\<open>integrity/service.py\<close>): the
  evidence a succeeded run has sealed is read line by line, each tool call is classified again,
  and the resulting document is archived and stored once.
\<close>

section \<open>Reading archived outputs\<close>

definition AUDIT_SNAPSHOT_TOOLS :: "string list" where
  "AUDIT_SNAPSHOT_TOOLS = [''get_fundamentals'', ''get_insider_transactions'', ''get_prediction_markets'',
     ''fetch_stocktwits_messages'', ''fetch_reddit_posts'']"

text \<open>\<open>_mapping\<close>: the object an output holds, through any number of \<open>content\<close> wrappers.\<close>

fun audit_mapping :: "(string \<Rightarrow> json option) \<Rightarrow> json \<Rightarrow> dict option" where
  "audit_mapping loads (JObj d) =
     (case map_of (map (\<lambda>(k, v). (k, audit_mapping loads v)) d) ''content'' of Some r \<Rightarrow> r | None \<Rightarrow> Some d)"
| "audit_mapping loads (JStr s) = (case loads s of Some (JObj d) \<Rightarrow> Some d | _ \<Rightarrow> None)"
| "audit_mapping loads j = None"

definition audit_render :: "json \<Rightarrow> string" where
  "audit_render j = (case j of JStr s \<Rightarrow> s | _ \<Rightarrow> json_spaced json_quote j)"

text \<open>
  The non-overlapping matches of \<open>(?<!\d)(\d{4}-\d{2}-\d{2})(?!\d)\<close>; the first argument tells
  whether the character before is a digit.
\<close>

definition date_shaped :: "string \<Rightarrow> bool" where
  "date_shaped s \<longleftrightarrow> length s = 10 \<and> list_all is_digit (take 4 s) \<and> s ! 4 = CHR ''-''
     \<and> list_all is_digit (take 2 (drop 5 s)) \<and> s ! 7 = CHR ''-'' \<and> list_all is_digit (drop 8 s)"

definition date_at :: "bool \<Rightarrow> string \<Rightarrow> bool" where
  "date_at digit_before s \<longleftrightarrow> \<not> digit_before \<and> date_shaped (take 10 s)
     \<and> (case drop 10 s of [] \<Rightarrow> True | c # _ \<Rightarrow> \<not> is_digit c)"

function iso_matches :: "bool \<Rightarrow> string \<Rightarrow> string list" where
  "iso_matches digit_before [] = []"
| "iso_matches digit_before (c # cs) =
     (if date_at digit_before (c # cs) then take 10 (c # cs) # iso_matches True (drop 9 cs)
      else iso_matches (is_digit c) cs)"
  by pat_completeness auto
termination by (relation "measure (\<lambda>(b, s). length s)") auto

definition dates_in :: "stmt_env \<Rightarrow> json \<Rightarrow> int list" where
  "dates_in env j = dedup (List.map_filter (se_date env) (iso_matches False (audit_render j)))"

section \<open>Classifying archived tool calls\<close>

text \<open>A finding is a validated record: its tool name has at most 128 characters.\<close>

definition record_checked :: "string \<Rightarrow> integrity_status \<Rightarrow> string \<Rightarrow> dict \<Rightarrow> recorder \<Rightarrow> recorder result" where
  "record_checked tool status reason details r =
     bind_result (require (1 \<le> length tool \<and> length tool \<le> 128) (ValueError ''tool_name''))
       (\<lambda>_. Inr (record_finding tool status reason details r))"

definition audit_row ::
    "stmt_env \<Rightarrow> resolver \<Rightarrow> string \<Rightarrow> int \<Rightarrow> string \<Rightarrow> string \<Rightarrow> json \<Rightarrow> recorder \<Rightarrow> recorder result" where
  "audit_row env resolve ticker analysis_date tool frequency row r = (case row of
     JObj d \<Rightarrow>
       (case parse_date env (dict_get ''fiscalDateEnding'' d) of
          None \<Rightarrow> record_checked tool UNKNOWN ''fiscal_date_invalid'' [] r
        | Some fiscal_end \<Rightarrow> bind_result (resolve ticker fiscal_end frequency) (\<lambda>a.
            case a of
              None \<Rightarrow> record_checked tool UNKNOWN ''publication_unverified'' (period_details frequency fiscal_end) r
            | Some x \<Rightarrow>
                (let exposed = (av_available_at x > analysis_date) in
                 record_checked tool (if exposed then AT_RISK else SAFE)
                   (if exposed then ''future_publication_exposed'' else ''publication_verified'')
                   (period_details frequency fiscal_end @ availability_details x) r)))
   | _ \<Rightarrow> record_checked tool UNKNOWN ''statement_row_invalid'' [] r)"

fun audit_rows ::
    "stmt_env \<Rightarrow> resolver \<Rightarrow> string \<Rightarrow> int \<Rightarrow> string \<Rightarrow> string \<Rightarrow> json list \<Rightarrow> recorder \<Rightarrow> recorder result" where
  "audit_rows env resolve ticker analysis_date tool frequency [] r = Inr r"
| "audit_rows env resolve ticker analysis_date tool frequency (row # rows) r =
     bind_result (audit_row env resolve ticker analysis_date tool frequency row r)
       (audit_rows env resolve ticker analysis_date tool frequency rows)"

definition report_rows :: "string \<Rightarrow> dict \<Rightarrow> json list" where
  "report_rows key payload = (case dict_get key payload of Some (JList rows) \<Rightarrow> rows | _ \<Rightarrow> [])"

definition audit_statement ::
    "stmt_env \<Rightarrow> resolver \<Rightarrow> string \<Rightarrow> int \<Rightarrow> string \<Rightarrow> dict \<Rightarrow> recorder \<Rightarrow> recorder result" where
  "audit_statement env resolve ticker analysis_date tool payload r =
     (let annual = report_rows ''annualReports'' payload; quarterly = report_rows ''quarterlyReports'' payload in
      bind_result (audit_rows env resolve ticker analysis_date tool ''annual'' annual r) (\<lambda>r1.
      bind_result (audit_rows env resolve ticker analysis_date tool ''quarterly'' quarterly r1) (\<lambda>r2.
      if annual = [] \<and> quarterly = [] then record_checked tool SAFE ''no_statement_records'' [] r2 else Inr r2)))"

definition audit_financial ::
    "stmt_env \<Rightarrow> resolver \<Rightarrow> string \<Rightarrow> int \<Rightarrow> string \<Rightarrow> json \<Rightarrow> recorder \<Rightarrow> recorder result" where
  "audit_financial env resolve ticker analysis_date tool output r =
     (case audit_mapping (se_loads env) output of
        None \<Rightarrow> record_checked tool UNKNOWN ''statement_output_unparseable'' [] r
      | Some payload \<Rightarrow> audit_statement env resolve ticker analysis_date tool payload r)"

definition audit_date_bounded :: "stmt_env \<Rightarrow> string \<Rightarrow> json \<Rightarrow> dict \<Rightarrow> int \<Rightarrow> recorder \<Rightarrow> recorder result" where
  "audit_date_bounded env tool output arguments analysis_date r =
     (case dates_in env (JObj [(''arguments'', JObj arguments), (''output'', output)]) of
        [] \<Rightarrow> record_checked tool UNKNOWN ''date_boundary_unverified'' [] r
      | t # ts \<Rightarrow>
          (let future = list_ex (\<lambda>d. d > analysis_date) (t # ts) in
           record_checked tool (if future then AT_RISK else SAFE)
             (if future then ''future_dated_output'' else ''date_boundary_verified'')
             [(''latest_date'', JStr (iso_date (fold max ts t))), (''analysis_date'', JStr (iso_date analysis_date))] r))"

definition audit_snapshot :: "string \<Rightarrow> json \<Rightarrow> recorder \<Rightarrow> recorder result" where
  "audit_snapshot tool output r =
     (let text = audit_render output;
          blocked = (contains_str ''POINT_IN_TIME_DATA_UNAVAILABLE:'' text \<or> contains_str ''<point-in-time unavailable:'' text)
      in record_checked tool (if blocked then SAFE else AT_RISK)
           (if blocked then ''current_snapshot_blocked'' else ''current_snapshot_exposed'') [] r)"

definition audit_macro :: "string \<Rightarrow> json \<Rightarrow> recorder \<Rightarrow> recorder result" where
  "audit_macro tool output r =
     (let text = visible_text output; vintage = starts_with ''POINT_IN_TIME_VINTAGE:'' text;
          unavailable = starts_with ''DATA_UNAVAILABLE:'' text
      in record_checked tool (if vintage \<or> unavailable then SAFE else AT_RISK)
           (if vintage then ''fred_vintage_applied''
            else if unavailable then ''macro_data_unavailable'' else ''macro_vintage_missing'') [] r)"

definition audit_tool ::
    "stmt_env \<Rightarrow> resolver \<Rightarrow> string \<Rightarrow> int \<Rightarrow> string \<Rightarrow> json \<Rightarrow> dict \<Rightarrow> recorder \<Rightarrow> recorder result" where
  "audit_tool env resolve ticker analysis_date tool output arguments r =
     (if tool \<in> set FINANCIAL_STATEMENT_TOOLS then audit_financial env resolve ticker analysis_date tool output r
      else if tool \<in> set AUDIT_SNAPSHOT_TOOLS then audit_snapshot tool output r
      else if tool = ''get_macro_indicators'' then audit_macro tool output r
      else if tool \<in> set DATE_BOUNDED_TOOLS then audit_date_bounded env tool output arguments analysis_date r
      else record_checked tool UNKNOWN ''unregistered_tool'' [] r)"

text \<open>One line of the evidence: the number of tool calls it counts for, and the recorder.\<close>

definition audit_line ::
    "stmt_env \<Rightarrow> resolver \<Rightarrow> string \<Rightarrow> int \<Rightarrow> string \<Rightarrow> recorder \<Rightarrow> (nat \<times> recorder) result" where
  "audit_line env resolve ticker analysis_date line r =
     (if str_strip line = [] then Inr (0, r)
      else (case se_loads env line of
        Some (JObj item) \<Rightarrow>
          (case dict_get ''tool_name'' item of
             Some (JStr (c # cs)) \<Rightarrow>
               bind_result (audit_tool env resolve ticker analysis_date (c # cs)
                   (case dict_get ''output'' item of None \<Rightarrow> JNull | Some j \<Rightarrow> j)
                   (case dict_get ''arguments'' item of Some (JObj a) \<Rightarrow> a | _ \<Rightarrow> []) r)
                 (\<lambda>r'. Inr (1, r'))
           | _ \<Rightarrow> bind_result (record_checked ''evidence'' UNKNOWN ''tool_name_missing'' [] r) (\<lambda>r'. Inr (0, r')))
      | _ \<Rightarrow> bind_result (record_checked ''evidence'' UNKNOWN ''evidence_line_invalid'' [] r) (\<lambda>r'. Inr (0, r'))))"

fun audit_lines ::
    "stmt_env \<Rightarrow> resolver \<Rightarrow> string \<Rightarrow> int \<Rightarrow> string list \<Rightarrow> recorder \<Rightarrow> (nat \<times> recorder) result" where
  "audit_lines env resolve ticker analysis_date [] r = Inr (0, r)"
| "audit_lines env resolve ticker analysis_date (l # ls) r =
     bind_result (audit_line env resolve ticker analysis_date l r) (\<lambda>(n, r1).
     bind_result (audit_lines env resolve ticker analysis_date ls r1) (\<lambda>(m, r2). Inr (n + m, r2)))"

text \<open>\<open>splitlines\<close> is the argument \<open>split\<close>; an evidence file that is there can be read.\<close>

definition audit_evidence ::
    "stmt_env \<Rightarrow> (string \<Rightarrow> string) \<Rightarrow> (string \<Rightarrow> string list) \<Rightarrow> resolver \<Rightarrow> string \<Rightarrow> int \<Rightarrow> int \<Rightarrow> string option
       \<Rightarrow> integrity_document result" where
  "audit_evidence env sha split resolve ticker analysis_date now content =
     (let r = new_recorder analysis_date now in
      case content of
        None \<Rightarrow> Inr (integrity_finalize sha (record_finding ''evidence'' UNKNOWN ''evidence_missing'' [] r))
      | Some text \<Rightarrow>
          bind_result (audit_lines env resolve ticker analysis_date (split text)
            (record_finding ''evidence'' SAFE ''sealed_evidence_verified'' [(''sha256'', JStr (sha text))] r)) (\<lambda>(observed, r1).
          Inr (integrity_finalize sha
            (if observed = 0 then record_finding ''evidence'' UNKNOWN ''evidence_empty'' [] r1 else r1))))"

section \<open>The audit of a run\<close>

record audit_env =
  ae_stmt :: stmt_env
  ae_sha :: "string \<Rightarrow> string"
  ae_split :: "string \<Rightarrow> string list"
  ae_root :: path
  ae_uuid :: "nat \<Rightarrow> string"
  ae_dump :: "integrity_document \<Rightarrow> string"
  ae_resolve :: resolver

definition evidence_artifact :: "nat \<Rightarrow> db \<Rightarrow> artifact option" where
  "evidence_artifact rid d =
     (case rev (sort_key (\<lambda>a. (art_created_at a, art_id a))
         (filter (\<lambda>a. art_run a = rid \<and> art_kind a = ''evidence'') (db_artifacts d))) of
        [] \<Rightarrow> None | a # _ \<Rightarrow> Some a)"

definition unknown_document :: "(string \<Rightarrow> string) \<Rightarrow> int \<Rightarrow> string \<Rightarrow> int \<Rightarrow> integrity_document" where
  "unknown_document sha analysis_date reason now =
     integrity_finalize sha (record_finding ''evidence'' UNKNOWN reason [] (new_recorder analysis_date now))"

definition audit_artifact ::
    "audit_env \<Rightarrow> artifact option \<Rightarrow> string \<Rightarrow> int \<Rightarrow> int \<Rightarrow> files \<Rightarrow> integrity_document result" where
  "audit_artifact env artifact ticker analysis_date now fs = (case artifact of
     None \<Rightarrow> Inr (unknown_document (ae_sha env) analysis_date ''evidence_missing'' now)
   | Some a \<Rightarrow>
       bind_result (artifact_verify (ae_sha env) (ae_root env) (art_storage_key a) (art_sha256 a) fs) (\<lambda>ok.
       if \<not> ok then Inr (unknown_document (ae_sha env) analysis_date ''evidence_hash_mismatch'' now)
       else bind_result (artifact_resolve (ae_root env) (art_storage_key a)) (\<lambda>p.
         audit_evidence (ae_stmt env) (ae_sha env) (ae_split env) (ae_resolve env) ticker analysis_date now (fs p))))"

definition find_document :: "nat \<Rightarrow> integrity_document \<Rightarrow> db \<Rightarrow> integrity option" where
  "find_document rid doc d = find (\<lambda>i. itg_run i = rid \<and> itg_policy_version i = idoc_policy_version doc
     \<and> itg_fingerprint i = idoc_input_fingerprint doc) (db_integrity d)"

definition archive_document ::
    "audit_env \<Rightarrow> int \<Rightarrow> nat \<Rightarrow> integrity_document \<Rightarrow> files \<Rightarrow> db \<Rightarrow> (files \<times> db \<times> nat) result" where
  "archive_document env now rid doc fs d =
     bind_result (artifact_put (ae_sha env) (ae_root env) (ae_uuid env rid) ''point_in_time_integrity_retro''
       ''application/json'' (ae_dump env doc) fs) (\<lambda>(fs1, s).
     bind_result (insert_artifact now [(''policy_version'', JStr (idoc_policy_version doc)),
       (''input_fingerprint'', JStr (idoc_input_fingerprint doc))] rid s d) (\<lambda>(d1, a). Inr (fs1, d1, a)))"

definition store_audit :: "audit_env \<Rightarrow> int \<Rightarrow> nat \<Rightarrow> integrity_document \<Rightarrow> files \<Rightarrow> db \<Rightarrow> (files \<times> db \<times> integrity) result" where
  "store_audit env now rid doc fs d = (case find_document rid doc d of
     Some existing \<Rightarrow> Inr (fs, d, existing)
   | None \<Rightarrow>
       bind_result (archive_document env now rid doc fs d) (\<lambda>(fs1, d1, a).
       case persist_document now rid doc (Some a) ''retrospective'' d1 of (d2, row) \<Rightarrow>
         Inr (fs1, append_event now rid ''assessment.integrity_reaudited''
           [(''integrity_id'', JStr (ae_uuid env (itg_id row))), (''policy_version'', JStr (itg_policy_version row)),
            (''status'', JStr (itg_status row))] d2, row)))"

definition audit_one :: "audit_env \<Rightarrow> int \<Rightarrow> nat \<Rightarrow> files \<Rightarrow> db \<Rightarrow> (files \<times> db \<times> integrity) result" where
  "audit_one env now rid fs d =
     bind_result (of_option (ValueError ''assessment run was not found'') (find_run rid d)) (\<lambda>r.
     bind_result (of_option (ValueError ''assessment run was not found'') (find_request (run_request r) d)) (\<lambda>q.
     bind_result (of_option (ValueError ''assessment run was not found'') (find_instrument (req_instrument q) d)) (\<lambda>ins.
     bind_result (require (run_status r = SUCCEEDED) (ValueError ''only succeeded assessment runs can be audited'')) (\<lambda>_.
     bind_result (audit_artifact env (evidence_artifact rid d) (ins_ticker ins) (req_analysis_date q) now fs) (\<lambda>doc.
     store_audit env now rid doc fs d)))))"

definition audit_due :: "db \<Rightarrow> run \<Rightarrow> bool" where
  "audit_due d r \<longleftrightarrow> run_status r = SUCCEEDED
     \<and> \<not> list_ex (\<lambda>i. itg_run i = run_id r \<and> itg_policy_version i = CURRENT_POLICY_VERSION) (db_integrity d)"

definition pending_audits :: "nat \<Rightarrow> db \<Rightarrow> nat list" where
  "pending_audits limit d = map run_id (take limit (sort_key (\<lambda>r. (run_created_at r, run_id r))
     (filter (audit_due d) (db_runs d))))"

text \<open>The runs are audited one after the other, each in a transaction of its own.\<close>

fun audit_each :: "audit_env \<Rightarrow> int \<Rightarrow> nat list \<Rightarrow> files \<Rightarrow> db \<Rightarrow> (files \<times> db \<times> integrity list) result" where
  "audit_each env now [] fs d = Inr (fs, d, [])"
| "audit_each env now (rid # rids) fs d =
     bind_result (audit_one env now rid fs d) (\<lambda>(fs1, d1, row).
     bind_result (audit_each env now rids fs1 d1) (\<lambda>(fs2, d2, rows). Inr (fs2, d2, row # rows)))"

definition audit_pending :: "audit_env \<Rightarrow> int \<Rightarrow> int \<Rightarrow> files \<Rightarrow> db \<Rightarrow> (files \<times> db \<times> integrity list) result" where
  "audit_pending env now limit fs d =
     bind_result (require (1 \<le> limit \<and> limit \<le> 500) (ValueError ''integrity audit limit must be between 1 and 500'')) (\<lambda>_.
     audit_each env now (pending_audits (nat limit) d) fs d)"

section \<open>The summary\<close>

record integrity_summary =
  is_total :: int
  is_safe :: int
  is_at_risk :: int
  is_unknown :: int
  is_unassessed :: int

definition integrity_of_run :: "db \<Rightarrow> run \<Rightarrow> string" where
  "integrity_of_run d r = (case latest_integrity (run_id r) d of
     None \<Rightarrow> ''unassessed'' | Some i \<Rightarrow> if itg_status i = [] then ''unassessed'' else itg_status i)"

definition count_integrity :: "string \<Rightarrow> db \<Rightarrow> int" where
  "count_integrity s d =
     int (length (filter (\<lambda>r. run_status r = SUCCEEDED \<and> integrity_of_run d r = s) (db_runs d)))"

definition integrity_summary_of :: "principal \<Rightarrow> db \<Rightarrow> integrity_summary result" where
  "integrity_summary_of pr d =
     bind_result (principal_require [''assessments:read''] pr) (\<lambda>_.
       let safe = count_integrity ''safe'' d; at_risk = count_integrity ''at_risk'' d;
           unknown = count_integrity ''unknown'' d; unassessed = count_integrity ''unassessed'' d
       in Inr \<lparr>is_total = safe + at_risk + unknown + unassessed, is_safe = safe, is_at_risk = at_risk,
            is_unknown = unknown, is_unassessed = unassessed\<rparr>)"

end
