(* ===== verification/AuditFacts.thy ===== *)
theory AuditFacts
  imports EvidenceAudit
begin

text \<open>
  The point-in-time guarantees: the statement filter lets through exactly what was public, the
  audit of what it let through finds nothing, auditing is idempotent and makes progress, and the
  summary partitions the succeeded runs.
\<close>

section \<open>The filter\<close>

text \<open>The contract: a row was public on the analysis date.\<close>

definition published :: "stmt_env \<Rightarrow> resolver \<Rightarrow> string \<Rightarrow> int \<Rightarrow> string \<Rightarrow> json \<Rightarrow> bool" where
  "published env resolve ticker analysis_date frequency row = (case row of
     JObj d \<Rightarrow>
       (case parse_date env (dict_get ''fiscalDateEnding'' d) of
          None \<Rightarrow> False
        | Some fiscal_end \<Rightarrow> (case resolve ticker fiscal_end frequency of
            Inr (Some a) \<Rightarrow> av_available_at a \<le> analysis_date | _ \<Rightarrow> False))
   | _ \<Rightarrow> False)"

lemma filter_row_published:
  assumes "filter_row env resolve ticker d kind frequency row = Inr (keep, f)"
  shows "(keep \<longleftrightarrow> published env resolve ticker d frequency row) \<and> fnd_status f = SAFE
    \<and> fnd_tool_name f = kind \<and> (keep \<longleftrightarrow> fnd_reason_code f = ''publication_verified'')"
  using assms unfolding filter_row_def published_def filtered_finding_def
  by (auto simp: Let_def split: json.splits option.splits if_splits elim!: bind_resultE)

lemma filter_rows_published:
  "filter_rows env resolve ticker d kind frequency rows = Inr (kept, fs) \<Longrightarrow>
     kept = filter (published env resolve ticker d frequency) rows \<and> length fs = length rows
     \<and> list_all (\<lambda>f. fnd_status f = SAFE \<and> fnd_tool_name f = kind) fs"
proof (induction rows arbitrary: kept fs)
  case (Cons row rows)
  from Cons.prems obtain keep f kept' fs' where
    row: "filter_row env resolve ticker d kind frequency row = Inr (keep, f)" and
    rest: "filter_rows env resolve ticker d kind frequency rows = Inr (kept', fs')" and
    res: "kept = (if keep then row # kept' else kept')" "fs = f # fs'"
    by (auto elim!: bind_resultE)
  from filter_row_published [OF row] Cons.IH [OF rest] show ?case by (simp add: res)
qed simp

lemma filter_report_published:
  assumes "filter_report env resolve ticker d kind (key, frequency) payload = Inr (kept, fs)"
  shows "kept = filter (published env resolve ticker d frequency) (report_rows key payload)
    \<and> length fs = length (report_rows key payload)
    \<and> list_all (\<lambda>f. fnd_status f = SAFE \<and> fnd_tool_name f = kind) fs"
  using assms filter_rows_published [of env resolve ticker d kind frequency _ kept fs]
  by (auto simp: filter_report_def report_rows_def split: option.splits json.splits)

lemma filter_statement_reports:
  assumes "filter_statement env resolve ticker d kind payload = Inr (out, findings)"
  shows "dict_get ''annualReports'' out
      = Some (JList (filter (published env resolve ticker d ''annual'') (report_rows ''annualReports'' payload)))
    \<and> dict_get ''quarterlyReports'' out
      = Some (JList (filter (published env resolve ticker d ''quarterly'') (report_rows ''quarterlyReports'' payload)))
    \<and> list_all (\<lambda>f. fnd_status f = SAFE \<and> fnd_tool_name f = kind) findings
    \<and> length findings = max 1 (length (report_rows ''annualReports'' payload) + length (report_rows ''quarterlyReports'' payload))"
proof -
  from assms obtain annual fa quarterly fq where
    a: "filter_report env resolve ticker d kind (''annualReports'', ''annual'') payload = Inr (annual, fa)" and
    q: "filter_report env resolve ticker d kind (''quarterlyReports'', ''quarterly'') payload = Inr (quarterly, fq)" and
    fs: "findings = (if fa @ fq = [] then [filtered_finding kind ''no_statement_records'' []] else fa @ fq)" and
    out: "dict_get ''annualReports'' out = Some (JList annual)" "dict_get ''quarterlyReports'' out = Some (JList quarterly)"
    by (auto simp: filter_statement_def Let_def elim!: bind_resultE)
  from filter_report_published [OF a] filter_report_published [OF q]
  show ?thesis unfolding fs out
    by (cases "fa @ fq = []") (auto simp: filtered_finding_def max_def Suc_le_eq)
qed

text \<open>
  C5. What an agent of a reconstruction reads of a financial statement is exactly the reports
  whose publication date is known and not after the analysis date, in their order: no report
  published later gets through, none published in time is lost. Every report leaves one finding.
\<close>

theorem statement_filter_no_lookahead:
  assumes "filter_statement env resolve ticker analysis_date kind payload = Inr (out, findings)"
  shows "report_rows ''annualReports'' out
      = filter (published env resolve ticker analysis_date ''annual'') (report_rows ''annualReports'' payload)
    \<and> report_rows ''quarterlyReports'' out
      = filter (published env resolve ticker analysis_date ''quarterly'') (report_rows ''quarterlyReports'' payload)
    \<and> list_all (\<lambda>f. fnd_status f = SAFE) findings
    \<and> length findings = max 1 (length (report_rows ''annualReports'' payload) + length (report_rows ''quarterlyReports'' payload))"
  using filter_statement_reports [OF assms] by (auto simp: report_rows_def list_all_iff)

text \<open>A statement with one report in time and one too early, from a resolver that knows both.\<close>

definition demo_stmt :: stmt_env where
  "demo_stmt = \<lparr>se_loads = (\<lambda>_. None), se_date = (\<lambda>t. if t = ''q1'' then Some 90 else if t = ''q2'' then Some 180 else None),
     se_show = json_dumps, se_trunc = (\<lambda>_. None)\<rparr>"

definition demo_resolver :: resolver where
  "demo_resolver t fiscal_end freq = Inr (Some \<lparr>av_available_at = fiscal_end + 40, av_source = ''sec'', av_assurance = ''high''\<rparr>)"

definition demo_statement :: dict where
  "demo_statement = [(''quarterlyReports'', JList [JObj [(''fiscalDateEnding'', JStr ''q2'')], JObj [(''fiscalDateEnding'', JStr ''q1'')]])]"

lemma statement_filter_no_lookahead_witness:
  "\<exists>out fs. filter_statement demo_stmt demo_resolver ''T'' 200 ''get_cashflow'' demo_statement = Inr (out, fs)
     \<and> report_rows ''quarterlyReports'' out = [JObj [(''fiscalDateEnding'', JStr ''q1'')]] \<and> length fs = 2"
proof -
  let ?out = "[(''quarterlyReports'', JList [JObj [(''fiscalDateEnding'', JStr ''q1'')]]), (''annualReports'', JList [])]"
  obtain fs where f: "filter_statement demo_stmt demo_resolver ''T'' 200 ''get_cashflow'' demo_statement = Inr (?out, fs)"
    by (simp add: filter_statement_def filter_report_def filter_row_def demo_statement_def demo_stmt_def
        demo_resolver_def parse_date_def Let_def)
  from statement_filter_no_lookahead [OF f] f show ?thesis by (simp add: report_rows_def demo_statement_def)
qed

section \<open>Auditing what the filter let through\<close>

lemma record_checked_Inr:
  "1 \<le> length tool \<Longrightarrow> length tool \<le> 128 \<Longrightarrow> record_checked tool st reason details r = Inr (record_finding tool st reason details r)"
  by (simp add: record_checked_def)

definition adds_safe :: "recorder \<Rightarrow> recorder result \<Rightarrow> nat \<Rightarrow> bool" where
  "adds_safe r res n \<longleftrightarrow> (\<exists>r' new. res = Inr r' \<and> rec_findings r' = rec_findings r @ new \<and> length new = n
     \<and> list_all (\<lambda>f. fnd_status f = SAFE) new)"

lemma audit_row_published:
  assumes "published env resolve ticker d frequency row" and "1 \<le> length tool" and "length tool \<le> 128"
  shows "adds_safe r (audit_row env resolve ticker d tool frequency row r) 1"
  using assms unfolding published_def audit_row_def adds_safe_def
  by (auto simp: record_checked_Inr Let_def split: json.splits option.splits sum.splits)

lemma audit_rows_published:
  assumes "list_all (published env resolve ticker d frequency) rows" and "1 \<le> length tool" and "length tool \<le> 128"
  shows "adds_safe r (audit_rows env resolve ticker d tool frequency rows r) (length rows)"
  using assms(1)
proof (induction rows arbitrary: r)
  case Nil
  show ?case by (simp add: adds_safe_def)
next
  case (Cons row rows)
  then have "published env resolve ticker d frequency row" by simp
  from audit_row_published [OF this assms(2,3), of r]
  obtain r1 n1 where one: "audit_row env resolve ticker d tool frequency row r = Inr r1"
    "rec_findings r1 = rec_findings r @ n1" "length n1 = 1" "list_all (\<lambda>f. fnd_status f = SAFE) n1"
    unfolding adds_safe_def by blast
  have "list_all (published env resolve ticker d frequency) rows" using Cons.prems by simp
  from Cons.IH [OF this, of r1]
  obtain r2 n2 where two: "audit_rows env resolve ticker d tool frequency rows r1 = Inr r2"
    "rec_findings r2 = rec_findings r1 @ n2" "length n2 = length rows" "list_all (\<lambda>f. fnd_status f = SAFE) n2"
    unfolding adds_safe_def by blast
  with one show ?case unfolding adds_safe_def by (intro exI [of _ r2] exI [of _ "n1 @ n2"]) simp
qed

text \<open>
  The filter and the audit each have their own resolver: both ask the regulator first, then different
  files of earnings. The second upholds the first when every report the first dates in time it dates in time too.
\<close>

definition upholds :: "string \<Rightarrow> int \<Rightarrow> resolver \<Rightarrow> resolver \<Rightarrow> bool" where
  "upholds ticker analysis_date later resolve \<longleftrightarrow> (\<forall>fiscal_end frequency a.
     resolve ticker fiscal_end frequency = Inr (Some a) \<longrightarrow> av_available_at a \<le> analysis_date \<longrightarrow>
       (\<exists>b. later ticker fiscal_end frequency = Inr (Some b) \<and> av_available_at b \<le> analysis_date))"

lemma published_upheld:
  assumes "upholds ticker d later resolve" "published env resolve ticker d frequency row"
  shows "published env later ticker d frequency row"
  using assms by (fastforce simp: upholds_def published_def split: json.splits option.splits sum.splits)

text \<open>
  C22. The filter and the audit agree: a statement as the filter delivered it, audited with the
  audit's own resolver, which dates in time whatever the filter's dated in time, gets one finding
  per report (one for a statement without reports), all of them safe, whatever was in the statement before.
\<close>

theorem filtered_statement_audits_safe:
  assumes "filter_statement env resolve ticker analysis_date kind payload = Inr (out, findings)"
    and "upholds ticker analysis_date later resolve"
    and "1 \<le> length tool" and "length tool \<le> 128"
  shows "\<exists>r' new. audit_statement env later ticker analysis_date tool out r = Inr r'
    \<and> rec_findings r' = rec_findings r @ new \<and> list_all (\<lambda>f. fnd_status f = SAFE) new
    \<and> length new = max 1 (length (report_rows ''annualReports'' out) + length (report_rows ''quarterlyReports'' out))"
proof -
  let ?a = "report_rows ''annualReports'' out" and ?q = "report_rows ''quarterlyReports'' out"
  have "list_all (published env later ticker analysis_date ''annual'') ?a"
    and "list_all (published env later ticker analysis_date ''quarterly'') ?q"
    using filter_statement_reports [OF assms(1)] published_upheld [OF assms(2)] by (auto simp: report_rows_def list_all_iff)
  then obtain r1 n1 r2 n2 where
    one: "audit_rows env later ticker analysis_date tool ''annual'' ?a r = Inr r1"
      "rec_findings r1 = rec_findings r @ n1" "length n1 = length ?a" "list_all (\<lambda>f. fnd_status f = SAFE) n1" and
    two: "audit_rows env later ticker analysis_date tool ''quarterly'' ?q r1 = Inr r2"
      "rec_findings r2 = rec_findings r1 @ n2" "length n2 = length ?q" "list_all (\<lambda>f. fnd_status f = SAFE) n2"
    using audit_rows_published [OF _ assms(3,4)] unfolding adds_safe_def by meson
  show ?thesis
  proof (cases "?a = [] \<and> ?q = []")
    case True
    then have "audit_statement env later ticker analysis_date tool out r = Inr (record_finding tool SAFE ''no_statement_records'' [] r)"
      using one two assms(3,4) by (simp add: audit_statement_def record_checked_Inr)
    then show ?thesis using True by simp
  next
    case False
    then have "audit_statement env later ticker analysis_date tool out r = Inr r2"
      using one two by (auto simp: audit_statement_def)
    moreover have "length (n1 @ n2) = max 1 (length ?a + length ?q)" using False one(3) two(3)
      by (cases ?a; cases ?q) simp_all
    ultimately show ?thesis using one two by (intro exI [of _ r2] exI [of _ "n1 @ n2"]) simp
  qed
qed

text \<open>An audit that knows an earlier date.\<close>

definition demo_later :: resolver where
  "demo_later t fiscal_end freq = Inr (Some \<lparr>av_available_at = fiscal_end + 30, av_source = ''earnings'', av_assurance = ''medium''\<rparr>)"

lemma filtered_statement_audits_safe_witness:
  "\<exists>out fs r'. filter_statement demo_stmt demo_resolver ''T'' 200 ''get_cashflow'' demo_statement = Inr (out, fs)
     \<and> audit_statement demo_stmt demo_later ''T'' 200 ''get_cashflow'' out (new_recorder 200 0) = Inr r'
     \<and> length (rec_findings r') = 1 \<and> list_all (\<lambda>f. fnd_status f = SAFE) (rec_findings r')"
proof -
  let ?out = "[(''quarterlyReports'', JList [JObj [(''fiscalDateEnding'', JStr ''q1'')]]), (''annualReports'', JList [])]"
  obtain fs where f: "filter_statement demo_stmt demo_resolver ''T'' 200 ''get_cashflow'' demo_statement = Inr (?out, fs)"
    by (simp add: filter_statement_def filter_report_def filter_row_def demo_statement_def demo_stmt_def
        demo_resolver_def parse_date_def Let_def)
  moreover have "upholds ''T'' 200 demo_later demo_resolver" by (auto simp: upholds_def demo_later_def demo_resolver_def)
  ultimately show ?thesis
    using filtered_statement_audits_safe [of demo_stmt demo_resolver "''T''" 200 "''get_cashflow''" demo_statement ?out fs demo_later
        "''get_cashflow''" "new_recorder 200 0"]
    by (auto simp: report_rows_def new_recorder_def)
qed

section \<open>The time of the audit does not matter\<close>

definition set_time :: "int \<Rightarrow> recorder \<Rightarrow> recorder" where
  "set_time t r = r\<lparr>rec_checked_at := t\<rparr>"

text \<open>An operation on recorders that neither reads nor writes the time.\<close>

definition timeless :: "(recorder \<Rightarrow> recorder result) \<Rightarrow> bool" where
  "timeless f \<longleftrightarrow> (\<forall>t r. f (set_time t r) = map_sum id (set_time t) (f r))"

named_theorems timeless_intros

lemma timeless_Inr [timeless_intros]: "timeless Inr"
  by (simp add: timeless_def)

lemma timeless_record [timeless_intros]: "timeless (record_checked tool st reason details)"
  by (simp add: timeless_def record_checked_def bind_result_def require_def record_finding_def set_time_def)

lemma timeless_bind [timeless_intros]: "timeless f \<Longrightarrow> timeless g \<Longrightarrow> timeless (\<lambda>r. bind_result (f r) g)"
  by (auto simp: timeless_def bind_result_def split: sum.splits)

lemma timeless_bind_value [timeless_intros]:
  "(\<And>a. timeless (f a)) \<Longrightarrow> timeless (\<lambda>r. bind_result x (\<lambda>a. f a r))"
  by (cases x) (simp_all add: timeless_def bind_result_def)

lemma timeless_audit_row [timeless_intros]: "timeless (audit_row env resolve ticker d tool frequency row)"
proof -
  have "timeless (\<lambda>r. case a of None \<Rightarrow> record_checked tool s1 c1 x1 r | Some x \<Rightarrow> f x r)"
    if "\<And>x. timeless (f x)" for a s1 c1 x1 f
    using that timeless_record by (cases a) (simp_all add: timeless_def)
  note opt = this
  show ?thesis
  proof (cases row)
    case (JObj dd)
    show ?thesis
    proof (cases "parse_date env (dict_get ''fiscalDateEnding'' dd)")
      case None
      then show ?thesis using JObj by (simp add: audit_row_def [abs_def] timeless_record)
    next
      case (Some fe)
      then have "audit_row env resolve ticker d tool frequency row = (\<lambda>r. bind_result (resolve ticker fe frequency) (\<lambda>a.
          case a of None \<Rightarrow> record_checked tool UNKNOWN ''publication_unverified'' (period_details frequency fe) r
            | Some x \<Rightarrow> (let exposed = (av_available_at x > d) in
                 record_checked tool (if exposed then AT_RISK else SAFE)
                   (if exposed then ''future_publication_exposed'' else ''publication_verified'')
                   (period_details frequency fe @ availability_details x) r)))"
        using JObj by (simp add: audit_row_def [abs_def])
      then show ?thesis
        by (simp only: Let_def) (intro timeless_bind_value opt timeless_record)
    qed
  qed (simp_all add: audit_row_def [abs_def] timeless_record)
qed

lemma timeless_audit_rows [timeless_intros]: "timeless (audit_rows env resolve ticker d tool frequency rows)"
proof (induction rows)
  case (Cons row rows)
  have "audit_rows env resolve ticker d tool frequency (row # rows) =
      (\<lambda>r. bind_result (audit_row env resolve ticker d tool frequency row r) (audit_rows env resolve ticker d tool frequency rows))"
    by (simp add: fun_eq_iff)
  then show ?case using timeless_bind [OF timeless_audit_row Cons.IH] by simp
qed (simp add: timeless_def)

lemma timeless_if [timeless_intros]: "timeless f \<Longrightarrow> timeless g \<Longrightarrow> timeless (\<lambda>r. if c then f r else g r)"
  by (cases c) simp_all

lemma timeless_audit_tool: "timeless (audit_tool env resolve ticker d tool output arguments)"
proof -
  have st: "timeless (audit_statement env resolve ticker d tool payload)" for payload
    unfolding audit_statement_def [abs_def] Let_def by (intro timeless_intros)
  then have fin: "timeless (audit_financial env resolve ticker d tool output)"
    unfolding audit_financial_def [abs_def]
    by (cases "audit_mapping (se_loads env) output") (simp_all add: timeless_record)
  have "timeless (audit_date_bounded env tool output arguments d)"
    unfolding audit_date_bounded_def [abs_def]
    by (cases "dates_in env (JObj [(''arguments'', JObj arguments), (''output'', output)])") (simp_all add: timeless_record Let_def)
  moreover have "timeless (audit_snapshot tool output)" "timeless (audit_macro tool output)"
    unfolding audit_snapshot_def [abs_def] audit_macro_def [abs_def] Let_def by (rule timeless_record)+
  ultimately show ?thesis using fin unfolding audit_tool_def [abs_def] by (intro timeless_intros)
qed

definition with_time :: "int \<Rightarrow> nat \<times> recorder \<Rightarrow> nat \<times> recorder" where
  "with_time t p = (fst p, set_time t (snd p))"

lemma bind_timeless:
  assumes "timeless f"
  shows "bind_result (f (set_time t r)) (\<lambda>r'. Inr (n, r')) = map_sum id (with_time t) (bind_result (f r) (\<lambda>r'. Inr (n, r')))"
  using assms by (cases "f r") (simp_all add: timeless_def with_time_def)

lemma audit_line_time:
  "audit_line env resolve ticker d line (set_time t r) = map_sum id (with_time t) (audit_line env resolve ticker d line r)"
  unfolding audit_line_def
  by (auto simp: bind_timeless timeless_audit_tool timeless_record with_time_def split: option.splits json.splits list.splits)

lemma audit_lines_time:
  "audit_lines env resolve ticker d ls (set_time t r) = map_sum id (with_time t) (audit_lines env resolve ticker d ls r)"
proof (induction ls arbitrary: r)
  case (Cons l ls)
  show ?case
    using Cons.IH by (cases "audit_line env resolve ticker d l r")
      (auto simp: audit_line_time with_time_def bind_result_def split: sum.splits prod.splits)
qed (simp add: with_time_def)

lemma finalize_time:
  "integrity_finalize sha (set_time t r) = (integrity_finalize sha r)\<lparr>idoc_checked_at := t\<rparr>"
  by (simp add: integrity_finalize_def finalize_findings_def set_time_def Let_def)

lemma recorder_time:
  "(d \<ge> date_of now) = (d \<ge> date_of now') \<Longrightarrow> new_recorder d now' = set_time now' (new_recorder d now)"
  by (simp add: new_recorder_def set_time_def)

lemma record_finding_time: "record_finding a b c e (set_time t r) = set_time t (record_finding a b c e r)"
  by (simp add: record_finding_def set_time_def)

lemma audit_evidence_time:
  assumes "(d \<ge> date_of now) = (d \<ge> date_of now')"
  shows "audit_evidence env sha split resolve ticker d now' content
    = map_sum id (idoc_checked_at_update (\<lambda>_. now')) (audit_evidence env sha split resolve ticker d now content)"
proof (cases content)
  case None
  then show ?thesis
    by (simp add: audit_evidence_def Let_def recorder_time [OF assms] record_finding_time finalize_time)
next
  case (Some body)
  let ?r = "record_finding ''evidence'' SAFE ''sealed_evidence_verified'' [(''sha256'', JStr (sha body))] (new_recorder d now)"
  show ?thesis
    using Some by (cases "audit_lines env resolve ticker d (split body) ?r")
      (auto simp: audit_evidence_def Let_def recorder_time [OF assms] record_finding_time audit_lines_time
        with_time_def finalize_time split: prod.splits)
qed

lemma audit_artifact_time:
  assumes "(d \<ge> date_of now) = (d \<ge> date_of now')"
  shows "audit_artifact env a ticker d now' fs
    = map_sum id (idoc_checked_at_update (\<lambda>_. now')) (audit_artifact env a ticker d now fs)"
  unfolding audit_artifact_def unknown_document_def
  by (auto simp: audit_evidence_time [OF assms] recorder_time [OF assms] record_finding_time finalize_time bind_result_def
      split: option.splits sum.splits)

section \<open>The audit of a run\<close>

lemma audit_policy_version [simp]: "idoc_policy_version (integrity_finalize sha r) = CURRENT_POLICY_VERSION"
  by (simp add: integrity_finalize_def Let_def)

lemma audit_artifact_policy:
  assumes "audit_artifact env a ticker d now fs = Inr doc"
  shows "idoc_policy_version doc = CURRENT_POLICY_VERSION"
  using assms unfolding audit_artifact_def unknown_document_def
  by (auto simp: audit_evidence_def Let_def split: option.splits if_splits prod.splits elim!: bind_resultE)

lemma persist_document_find:
  "persist_document now rid doc a mode d = (case find_document rid doc d of
     Some existing \<Rightarrow> (d, existing)
   | None \<Rightarrow> (let row = \<lparr>itg_id = uuid4 d, itg_run = rid, itg_artifact = a,
                 itg_policy_version = idoc_policy_version doc,
                 itg_status = integrity_value (idoc_status doc), itg_audit_mode = mode,
                 itg_temporal_scope = idoc_temporal_scope doc,
                 itg_analysis_date = idoc_analysis_date doc, itg_checked_at = idoc_checked_at doc,
                 itg_reason_codes = idoc_reason_codes doc,
                 itg_findings = JList (map finding_dump (idoc_findings doc)),
                 itg_fingerprint = idoc_input_fingerprint doc, itg_created_at = now\<rparr>
           in ((drawn d)\<lparr>db_integrity := db_integrity d @ [row]\<rparr>, row)))"
  by (simp add: persist_document_def find_document_def)

text \<open>The cases of \<open>audit_one\<close>: the row is there already, or it is added.\<close>

definition sealed_run :: "nat \<Rightarrow> db \<Rightarrow> run \<Rightarrow> request \<Rightarrow> instrument \<Rightarrow> bool" where
  "sealed_run rid d r q ins \<longleftrightarrow> find_run rid d = Some r \<and> find_request (run_request r) d = Some q
     \<and> find_instrument (req_instrument q) d = Some ins \<and> run_status r = SUCCEEDED"

lemma audit_one_parts:
  assumes "audit_one env now rid fs d = Inr (fs', d', row)"
  obtains r q ins doc where "sealed_run rid d r q ins"
    "audit_artifact env (evidence_artifact rid d) (ins_ticker ins) (req_analysis_date q) now fs = Inr doc"
    "store_audit env now rid doc fs d = Inr (fs', d', row)"
  using assms unfolding audit_one_def
proof (elim bind_resultE, goal_cases)
  case (1 r q ins u doc)
  then show ?case using that [of r q ins doc] by (simp add: sealed_run_def)
qed

lemma audit_one_cases:
  assumes "audit_one env now rid fs d = Inr (fs', d', row)"
  obtains (existing) r q ins doc where "sealed_run rid d r q ins"
      "audit_artifact env (evidence_artifact rid d) (ins_ticker ins) (req_analysis_date q) now fs = Inr doc"
      "find_document rid doc d = Some row" "fs' = fs" "d' = d"
  | (added) r q ins doc d1 a where "sealed_run rid d r q ins"
      "audit_artifact env (evidence_artifact rid d) (ins_ticker ins) (req_analysis_date q) now fs = Inr doc"
      "find_document rid doc d = None" "archive_document env now rid doc fs d = Inr (fs', d1, a)"
      "db_integrity d' = db_integrity d @ [row]" "itg_run row = rid" "itg_policy_version row = idoc_policy_version doc"
      "itg_fingerprint row = idoc_input_fingerprint doc" "db_artifacts d' = db_artifacts d1"
      "db_runs d' = db_runs d" "db_requests d' = db_requests d" "db_instruments d' = db_instruments d"
proof -
  from assms obtain r q ins doc where
    sr: "sealed_run rid d r q ins" and
    doc: "audit_artifact env (evidence_artifact rid d) (ins_ticker ins) (req_analysis_date q) now fs = Inr doc" and
    rest: "store_audit env now rid doc fs d = Inr (fs', d', row)"
    by (rule audit_one_parts)
  show ?thesis
  proof (cases "find_document rid doc d")
    case (Some e)
    with rest have "e = row" "fs' = fs" "d' = d" by (simp_all add: store_audit_def)
    with Some show ?thesis by (intro existing [OF sr doc]) simp_all
  next
    case None
    with rest obtain d1 a d2 where
      arch: "archive_document env now rid doc fs d = Inr (fs', d1, a)" and
      pers: "persist_document now rid doc (Some a) ''retrospective'' d1 = (d2, row)" and
      d': "d' = append_event now rid ''assessment.integrity_reaudited''
               [(''integrity_id'', JStr (ae_uuid env (itg_id row))), (''policy_version'', JStr (itg_policy_version row)),
                (''status'', JStr (itg_status row))] d2"
      unfolding store_audit_def None option.case by (elim bind_resultE) (auto split: prod.splits)
    have d1: "db_integrity d1 = db_integrity d" "db_runs d1 = db_runs d" "db_requests d1 = db_requests d"
      "db_instruments d1 = db_instruments d"
      using arch by (auto simp: archive_document_def insert_artifact_def drawn_def elim!: bind_resultE split: if_splits)
    have "find_document rid doc d1 = None" using None d1(1) by (simp add: find_document_def)
    with pers have "db_integrity d2 = db_integrity d1 @ [row]" "itg_run row = rid"
      "itg_policy_version row = idoc_policy_version doc" "itg_fingerprint row = idoc_input_fingerprint doc"
      "db_artifacts d2 = db_artifacts d1" "db_runs d2 = db_runs d1" "db_requests d2 = db_requests d1"
      "db_instruments d2 = db_instruments d1"
      by (auto simp: persist_document_find Let_def drawn_def)
    with d1 show ?thesis by (intro added [OF sr doc None arch]) (simp_all add: d')
  qed
qed

subsection \<open>Auditing twice\<close>

text \<open>
  The storage is as the platform writes it: plain names for the root, the run's directory and
  the digests, and the run's evidence under the key \<open>put\<close> gave it.
\<close>

definition stored_plainly :: "audit_env \<Rightarrow> nat \<Rightarrow> db \<Rightarrow> bool" where
  "stored_plainly env rid d \<longleftrightarrow> list_all plain_name (ae_root env) \<and> plain_name (ae_uuid env rid)
     \<and> (case evidence_artifact rid d of None \<Rightarrow> True
        | Some a \<Rightarrow> plain_name (art_sha256 a)
            \<and> art_storage_key a = join_with ''/'' [ae_uuid env rid, ''evidence'', art_sha256 a])"

lemma retro_kind: "artifact_kind_ok ''point_in_time_integrity_retro''"
  by code_simp

lemma plain_evidence: "plain_name ''evidence''"
  by code_simp

lemma archive_document_effect:
  assumes "archive_document env now rid doc fs d = Inr (fs', d1, a)" and "stored_plainly env rid d"
  shows "evidence_artifact rid d1 = evidence_artifact rid d
    \<and> audit_artifact env (evidence_artifact rid d) ticker ad t fs' = audit_artifact env (evidence_artifact rid d) ticker ad t fs"
proof -
  have plain: "list_all plain_name (ae_root env)" "plain_name (ae_uuid env rid)"
    using assms(2) by (simp_all add: stored_plainly_def)
  note put = artifact_put_eq [OF plain retro_kind, of "ae_sha env" "''application/json''" "ae_dump env doc" fs]
  from assms(1) put have fs': "fs' = fs(content_path (ae_sha env) (ae_root env)
      (ae_uuid env rid, ''point_in_time_integrity_retro'') (ae_dump env doc) \<mapsto> ae_dump env doc)"
    and art: "\<exists>n. db_artifacts d1 = db_artifacts d @ [n] \<and> art_kind n = ''point_in_time_integrity_retro''"
    by (auto simp: archive_document_def insert_artifact_def elim!: bind_resultE split: if_splits)
  have "evidence_artifact rid d1 = evidence_artifact rid d"
    using art by (auto simp: evidence_artifact_def)
  moreover have "audit_artifact env (evidence_artifact rid d) ticker ad t fs' = audit_artifact env (evidence_artifact rid d) ticker ad t fs"
  proof (cases "evidence_artifact rid d")
    case (Some e)
    with assms(2) have e: "art_storage_key e = join_with ''/'' [ae_uuid env rid, ''evidence'', art_sha256 e]"
      "plain_name (art_sha256 e)" by (simp_all add: stored_plainly_def)
    with plain plain_evidence have res: "artifact_resolve (ae_root env) (art_storage_key e)
        = Inr (ae_root env @ [ae_uuid env rid, ''evidence'', art_sha256 e])"
      unfolding e(1) by (intro resolve_key) (simp_all del: join_with.simps)
    have "fs' (ae_root env @ [ae_uuid env rid, ''evidence'', art_sha256 e]) = fs (ae_root env @ [ae_uuid env rid, ''evidence'', art_sha256 e])"
      by (simp add: fs' content_path_def)
    with Some res show ?thesis by (simp add: audit_artifact_def artifact_verify_def)
  qed (simp add: audit_artifact_def)
  ultimately show ?thesis by blast
qed

text \<open>
  Auditing a run again, at any later time that leaves it in the same temporal scope, finds
  the document it stored: it returns the same row and changes neither the tables nor the files.
\<close>

theorem audit_idempotent:
  assumes "audit_one env now rid fs d = Inr (fs1, d1, row)" and "stored_plainly env rid d"
    and "find_run rid d = Some r" and "find_request (run_request r) d = Some q"
    and "(req_analysis_date q \<ge> date_of now) = (req_analysis_date q \<ge> date_of now')"
  shows "audit_one env now' rid fs1 d1 = Inr (fs1, d1, row)"
proof -
  have again: "audit_one env now' rid fs2 d2 = Inr (fs2, d2, row)"
    if "sealed_run rid d2 r' q' ins" "find_document rid doc d2 = Some row"
      "audit_artifact env (evidence_artifact rid d2) (ins_ticker ins) (req_analysis_date q') now fs2 = Inr doc"
      "(req_analysis_date q' \<ge> date_of now) = (req_analysis_date q' \<ge> date_of now')" for r' q' ins doc fs2 d2
  proof -
    have "audit_artifact env (evidence_artifact rid d2) (ins_ticker ins) (req_analysis_date q') now' fs2
        = Inr (doc\<lparr>idoc_checked_at := now'\<rparr>)"
      using that(3) audit_artifact_time [OF that(4)] by simp
    moreover have "find_document rid (doc\<lparr>idoc_checked_at := now'\<rparr>) d2 = Some row"
      using that(2) by (simp add: find_document_def)
    ultimately show ?thesis using that(1) by (simp add: audit_one_def sealed_run_def store_audit_def)
  qed
  from assms(1) show ?thesis
  proof (cases rule: audit_one_cases)
    case (existing r' q' ins doc)
    with assms(3,4,5) have "(req_analysis_date q' \<ge> date_of now) = (req_analysis_date q' \<ge> date_of now')"
      by (simp add: sealed_run_def)
    from again [OF existing(1,3,2) this] show ?thesis using existing by simp
  next
    case (added r' q' ins doc d0 a)
    note eff = archive_document_effect [OF added(4) assms(2)]
    have ev: "evidence_artifact rid d1 = evidence_artifact rid d"
      using eff added(9) by (simp add: evidence_artifact_def)
    have "sealed_run rid d1 r' q' ins"
      using added by (simp add: sealed_run_def find_run_def find_request_def find_instrument_def)
    moreover have "find_document rid doc d1 = Some row"
    proof -
      have "find P (xs @ [x]) = (case find P xs of None \<Rightarrow> if P x then Some x else None | Some y \<Rightarrow> Some y)"
        for P :: "integrity \<Rightarrow> bool" and xs x by (induction xs) auto
      with added show ?thesis by (simp add: find_document_def)
    qed
    moreover have "audit_artifact env (evidence_artifact rid d1) (ins_ticker ins) (req_analysis_date q') now fs1 = Inr doc"
      using added(2) eff by (simp add: ev)
    moreover have "(req_analysis_date q' \<ge> date_of now) = (req_analysis_date q' \<ge> date_of now')"
      using added(1) assms(3,4,5) by (simp add: sealed_run_def)
    ultimately show ?thesis by (rule again)
  qed
qed

definition demo_audit :: audit_env where
  "demo_audit = \<lparr>ae_stmt = demo_stmt, ae_sha = (\<lambda>_. ''ab''), ae_split = (\<lambda>t. [t]), ae_root = [''srv''], ae_uuid = (\<lambda>_. ''r1''),
     ae_dump = (\<lambda>_. ''{}''), ae_resolve = demo_resolver\<rparr>"

definition audit_db :: db where
  "audit_db = empty_db\<lparr>db_instruments := [\<lparr>ins_id = 1, ins_ticker = ''T'', ins_asset_type = ''equity'',
       ins_exchange = None, ins_name = None, ins_metadata = []\<rparr>],
     db_requests := [\<lparr>req_id = 2, req_batch = 1, req_instrument = 1, req_analysis_date = 10, req_config = []\<rparr>],
     db_runs := [\<lparr>run_id = 3, run_request = 2, run_attempt = 1, run_status = SUCCEEDED, run_snapshot = None,
       run_retry_of = None, run_clean_of = None, run_version = 1, run_created_at = 0, run_admitted_at = None,
       run_started_at = None, run_finished_at = None, run_error_code = None, run_error_summary = None\<rparr>]\<rparr>"

lemma audit_db_facts:
  "stored_plainly demo_audit 3 audit_db"
  "find_run 3 audit_db = Some (hd (db_runs audit_db))"
  "find_request (run_request (hd (db_runs audit_db))) audit_db = Some (hd (db_requests audit_db))"
proof -
  have "plain_name ''srv''" "plain_name ''r1''" by code_simp+
  then show "stored_plainly demo_audit 3 audit_db"
    by (simp add: stored_plainly_def demo_audit_def evidence_artifact_def audit_db_def empty_db_def)
qed (simp_all add: audit_db_def find_run_def find_request_def)

lemma audit_idempotent_witness:
  "\<exists>fs1 d1 row. audit_one demo_audit (midnight 20) 3 Map.empty audit_db = Inr (fs1, d1, row)
     \<and> audit_one demo_audit (midnight 25) 3 fs1 d1 = Inr (fs1, d1, row)"
proof -
  have "(case audit_one demo_audit (midnight 20) 3 Map.empty audit_db of Inr _ \<Rightarrow> True | Inl _ \<Rightarrow> False)"
    by code_simp
  then obtain fs1 d1 row where a: "audit_one demo_audit (midnight 20) 3 Map.empty audit_db = Inr (fs1, d1, row)"
    by (auto split: sum.splits)
  from audit_idempotent [OF a audit_db_facts, of "midnight 25"] a show ?thesis
    by (simp add: audit_db_def)
qed

subsection \<open>Progress\<close>

lemma audit_one_due:
  assumes "audit_one env now rid fs d = Inr (fs', d', row)"
  shows "db_runs d' = db_runs d \<and> (\<forall>r. audit_due d' r \<longleftrightarrow> audit_due d r \<and> run_id r \<noteq> rid)"
  using assms
proof (cases rule: audit_one_cases)
  case (existing r q ins doc)
  from existing(3) have "row \<in> set (db_integrity d)" "itg_run row = rid" "itg_policy_version row = idoc_policy_version doc"
    by (auto simp: find_document_def find_Some_iff)
  with audit_artifact_policy [OF existing(2)] show ?thesis
    by (auto simp: existing audit_due_def list_ex_iff)
next
  case (added r q ins doc d1 a)
  with audit_artifact_policy [OF added(2)] show ?thesis by (auto simp: audit_due_def)
qed

lemma audit_each_due:
  "audit_each env now rids fs d = Inr (fs', d', rows) \<Longrightarrow> length rows = length rids \<and> db_runs d' = db_runs d
     \<and> (\<forall>r. audit_due d' r \<longleftrightarrow> audit_due d r \<and> run_id r \<notin> set rids)"
proof (induction rids arbitrary: fs d rows)
  case (Cons rid rids)
  from Cons.prems obtain fs1 d1 row rows' where
    one: "audit_one env now rid fs d = Inr (fs1, d1, row)" and
    rest: "audit_each env now rids fs1 d1 = Inr (fs', d', rows')" and rows: "rows = row # rows'"
    by (auto elim!: bind_resultE)
  from audit_one_due [OF one] Cons.IH [OF rest] show ?case by (simp add: rows)
qed simp

text \<open>
  A round of the audit takes the oldest succeeded runs without an assessment under the
  current policy, as many as the limit allows, gives each exactly one result and leaves none of
  them due; when it stops short of the limit, no succeeded run is left unassessed.
\<close>

theorem audit_round_progress:
  assumes "audit_pending env now limit fs d = Inr (fs', d', rows)"
  shows "length rows = min (nat limit) (length (filter (audit_due d) (db_runs d)))
    \<and> (\<forall>r. audit_due d' r \<longleftrightarrow> audit_due d r \<and> run_id r \<notin> set (pending_audits (nat limit) d))
    \<and> (length rows < nat limit \<longrightarrow> filter (audit_due d') (db_runs d') = [])"
proof -
  let ?due = "sort_key (\<lambda>r. (run_created_at r, run_id r)) (filter (audit_due d) (db_runs d))"
  from assms have each: "audit_each env now (pending_audits (nat limit) d) fs d = Inr (fs', d', rows)"
    by (auto simp: audit_pending_def elim!: bind_resultE)
  note e = audit_each_due [OF each]
  have len: "length rows = min (nat limit) (length ?due)"
    using e by (simp add: pending_audits_def min.commute)
  have "filter (audit_due d') (db_runs d') = []" if "length rows < nat limit"
  proof -
    have "take (nat limit) ?due = ?due" using that len by simp
    then have "set (pending_audits (nat limit) d) = run_id ` {r \<in> set (db_runs d). audit_due d r}"
      by (simp add: pending_audits_def)
    then show ?thesis using e by (auto simp: filter_empty_conv)
  qed
  with e len show ?thesis by simp
qed

lemma audit_round_progress_witness:
  "\<exists>fs' d' rows. audit_pending demo_audit (midnight 20) 50 Map.empty audit_db = Inr (fs', d', rows)
     \<and> length rows = 1 \<and> filter (audit_due d') (db_runs d') = []"
proof -
  have "(case audit_pending demo_audit (midnight 20) 50 Map.empty audit_db of Inr (_, _, rows) \<Rightarrow> length rows = 1 | Inl _ \<Rightarrow> False)"
    by code_simp
  then obtain fs' d' rows where a: "audit_pending demo_audit (midnight 20) 50 Map.empty audit_db = Inr (fs', d', rows)"
    and l: "length rows = 1" by (auto split: sum.splits)
  from audit_round_progress [OF a] a l show ?thesis by auto
qed

section \<open>The summary\<close>

lemma latest_integrity_member: "latest_integrity rid d = Some i \<Longrightarrow> i \<in> set (db_integrity d)"
proof -
  have fold_in: "fold (\<lambda>j best. if newer_integrity j best then j else best) xs x \<in> insert x (set xs)" for xs x
    by (induction xs arbitrary: x) (auto split: if_splits)
  assume "latest_integrity rid d = Some i"
  then obtain x xs where f: "filter (\<lambda>i. itg_run i = rid \<and> itg_policy_version i = CURRENT_POLICY_VERSION) (db_integrity d) = x # xs"
    and i: "i = fold (\<lambda>j best. if newer_integrity j best then j else best) xs x"
    by (auto simp: latest_integrity_def split: list.splits)
  have "insert x (set xs) \<subseteq> set (db_integrity d)"
    using f [THEN arg_cong, of set] by auto
  with fold_in [of xs x] i show ?thesis by blast
qed

lemma count_four:
  assumes "\<And>x. x \<in> set xs \<Longrightarrow> f x \<in> {a, b, c, e}" and "distinct [a, b, c, e]"
  shows "length (filter (\<lambda>x. P x \<and> f x = a) xs) + length (filter (\<lambda>x. P x \<and> f x = b) xs)
    + length (filter (\<lambda>x. P x \<and> f x = c) xs) + length (filter (\<lambda>x. P x \<and> f x = e) xs) = length (filter P xs)"
  using assms by (induction xs) auto

text \<open>
  The summary partitions the succeeded runs: every one is counted once, as safe, at risk,
  unknown or not yet assessed, so the total is their number, and only safe ones are eligible.
\<close>

theorem summary_partitions_runs:
  assumes "integrity_summary_of pr d = Inr s"
    and "list_all (\<lambda>i. itg_status i \<in> {''safe'', ''at_risk'', ''unknown''}) (db_integrity d)"
  shows "is_total s = int (length (filter (\<lambda>r. run_status r = SUCCEEDED) (db_runs d)))
    \<and> is_safe s = int (length (filter (\<lambda>r. run_status r = SUCCEEDED \<and> integrity_of_run d r = ''safe'') (db_runs d)))
    \<and> is_total s = is_safe s + is_at_risk s + is_unknown s + is_unassessed s"
proof -
  have "integrity_of_run d r \<in> {''safe'', ''at_risk'', ''unknown'', ''unassessed''}" for r
  proof (cases "latest_integrity (run_id r) d")
    case (Some i)
    with assms(2) latest_integrity_member [OF Some] have "itg_status i \<in> {''safe'', ''at_risk'', ''unknown''}"
      by (auto simp: list_all_iff)
    then show ?thesis by (auto simp: integrity_of_run_def Some)
  qed (simp add: integrity_of_run_def)
  from count_four [of "db_runs d" "integrity_of_run d", OF this, of "\<lambda>r. run_status r = SUCCEEDED"] assms(1)
  show ?thesis by (auto simp: integrity_summary_of_def count_integrity_def Let_def elim!: bind_resultE)
qed

lemma summary_partitions_runs_witness:
  "\<exists>s. integrity_summary_of \<lparr>pr_issuer = ''i'', pr_subject = ''s'', pr_actor_type = ''human'',
       pr_scopes = [''assessments:read''], pr_display_name = [], pr_email = None, pr_roles = []\<rparr> audit_db = Inr s
     \<and> is_total s = 1"
proof -
  let ?pr = "\<lparr>pr_issuer = ''i'', pr_subject = ''s'', pr_actor_type = ''human'',
       pr_scopes = [''assessments:read''], pr_display_name = [], pr_email = None, pr_roles = []\<rparr>"
  obtain s where s: "integrity_summary_of ?pr audit_db = Inr s"
    by (simp add: integrity_summary_of_def principal_require_def Let_def)
  from summary_partitions_runs [OF s] s show ?thesis by (simp add: audit_db_def empty_db_def)
qed

section \<open>A live run audited later\<close>

text \<open>
  The audit judges a run by what its tools returned, not by when it ran: a run of its own
  day whose evidence holds a current snapshot is safe when it runs, since a live recorder
  observes nothing, and at risk as soon as it is audited, even on that day.
\<close>

theorem audit_flags_live_snapshot:
  assumes "date_of now \<le> analysis_date"
    and "se_loads env line = Some (JObj item)" and "str_strip line \<noteq> []"
    and "dict_get ''tool_name'' item = Some (JStr ''get_fundamentals'')" and "dict_get ''output'' item = Some (JStr out)"
    and "\<not> contains_str ''POINT_IN_TIME_DATA_UNAVAILABLE:'' out" and "\<not> contains_str ''<point-in-time unavailable:'' out"
    and "split content = [line]"
  shows "idoc_status (integrity_finalize sha (observe_tools (new_recorder analysis_date now) [(''get_fundamentals'', JStr out)])) = SAFE
    \<and> (\<exists>doc. audit_evidence env sha split resolve ticker analysis_date now' (Some content) = Inr doc \<and> idoc_status doc = AT_RISK)"
proof
  have "\<not> is_historical (new_recorder analysis_date now)"
    using assms(1) by (simp add: is_historical_def new_recorder_def)
  then show "idoc_status (integrity_finalize sha (observe_tools (new_recorder analysis_date now) [(''get_fundamentals'', JStr out)])) = SAFE"
    using assms(1) by (simp add: record_observed_tool_def idoc_status_finalize finalize_findings_def new_recorder_def)
next
  let ?r = "record_finding ''get_fundamentals'' AT_RISK ''current_snapshot_exposed'' []
    (record_finding ''evidence'' SAFE ''sealed_evidence_verified'' [(''sha256'', JStr (sha content))] (new_recorder analysis_date now'))"
  have "audit_line env resolve ticker analysis_date line r = Inr (1, record_finding ''get_fundamentals'' AT_RISK ''current_snapshot_exposed'' [] r)" for r
    using assms(2-7) by (simp add: audit_line_def audit_tool_def audit_snapshot_def audit_render_def record_checked_def
        FINANCIAL_STATEMENT_TOOLS_def AUDIT_SNAPSHOT_TOOLS_def)
  then have doc: "audit_evidence env sha split resolve ticker analysis_date now' (Some content) = Inr (integrity_finalize sha ?r)"
    using assms(8) by (simp add: audit_evidence_def Let_def)
  have ne: "map fnd_status (finalize_findings ?r) \<noteq> []" by (simp add: finalize_findings_nonempty)
  have "AT_RISK \<in> set (map fnd_status (finalize_findings ?r))" by (simp add: finalize_findings_def)
  with worst_is_at_risk [OF ne] have "idoc_status (integrity_finalize sha ?r) = AT_RISK"
    by (simp only: idoc_status_finalize) blast
  with doc show "\<exists>doc. audit_evidence env sha split resolve ticker analysis_date now' (Some content) = Inr doc \<and> idoc_status doc = AT_RISK"
    by blast
qed

lemma audit_flags_live_snapshot_witness:
  "idoc_status (integrity_finalize id (observe_tools (new_recorder 20 (midnight 20)) [(''get_fundamentals'', JStr ''PE 12'')])) = SAFE"
proof -
  let ?env = "demo_stmt\<lparr>se_loads := (\<lambda>_. Some (JObj [(''tool_name'', JStr ''get_fundamentals''), (''output'', JStr ''PE 12'')]))\<rparr>"
  have "str_strip ''line'' \<noteq> []" and "\<not> contains_str ''POINT_IN_TIME_DATA_UNAVAILABLE:'' ''PE 12''"
    and "\<not> contains_str ''<point-in-time unavailable:'' ''PE 12''" by code_simp+
  with audit_flags_live_snapshot [of "midnight 20" 20 ?env "''line''" "[(''tool_name'', JStr ''get_fundamentals''), (''output'', JStr ''PE 12'')]"
      "''PE 12''" "\<lambda>t. [t]" "''line''" id]
  show ?thesis by (simp add: demo_stmt_def)
qed

end
