(* ===== verification/Decision.thy ===== *)
theory Decision
  imports Domain
begin

text \<open>
  The decision of a run (\<open>parse_decision\<close> in \<open>runner/tradingagents.py\<close>): the labelled sections
  of the portfolio manager's markdown, the rating and the price target. \<open>str.splitlines\<close> is an
  argument; \<open>Decimal(text)\<close> and \<open>format(d, "f")\<close> are defined for the characters that reach them.
\<close>

section \<open>Sections\<close>

definition lower_ascii :: "string \<Rightarrow> string" where
  "lower_ascii s = map (\<lambda>c. if is_upper_ascii c then char_of (of_char c + (32::nat)) else c) s"

definition DECISION_LABELS :: "string list" where
  "DECISION_LABELS = [''rating'', ''executive summary'', ''investment thesis'', ''price target'', ''time horizon'']"

text \<open>\<open>^\s*\*\*(Rating|\<dots>)\*\*\s*:\s*(.*)$\<close>, ignoring case: the label in lower case and the rest.\<close>

definition label_match :: "string \<Rightarrow> (string \<times> string) option" where
  "label_match line =
     (let s = dropWhile is_space line in
      if \<not> starts_with ''**'' s then None
      else (case find (\<lambda>l. starts_with (l @ ''**'') (lower_ascii (drop 2 s))) DECISION_LABELS of
          None \<Rightarrow> None
        | Some l \<Rightarrow>
            (case dropWhile is_space (drop (4 + length l) s) of
               c # rest \<Rightarrow> if c = CHR '':'' then Some (l, dropWhile is_space rest) else None
             | [] \<Rightarrow> None)))"

text \<open>A dictionary from labels to lines, in insertion order, and the section being read.\<close>

type_synonym sections = "(string \<times> string list) list"

definition section_key :: "string \<Rightarrow> string" where
  "section_key l = map (\<lambda>c. if c = CHR '' '' then CHR ''_'' else c) l"

fun put_section :: "string \<Rightarrow> (string list \<Rightarrow> string list) \<Rightarrow> sections \<Rightarrow> sections" where
  "put_section k f [] = [(k, f [])]"
| "put_section k f ((k', ls) # ss) = (if k' = k then (k, f ls) # ss else (k', ls) # put_section k f ss)"

fun read_sections :: "string list \<Rightarrow> string option \<Rightarrow> sections \<Rightarrow> sections" where
  "read_sections [] current ss = ss"
| "read_sections (line # lines) current ss = (case label_match line of
     Some (l, rest) \<Rightarrow> read_sections lines (Some (section_key l))
       (put_section (section_key l) (\<lambda>_. [str_strip rest]) ss)
   | None \<Rightarrow> (case current of
       None \<Rightarrow> read_sections lines current ss
     | Some k \<Rightarrow> read_sections lines current (put_section k (\<lambda>ls. ls @ [line]) ss)))"

fun join_lines :: "string list \<Rightarrow> string" where
  "join_lines [] = []"
| "join_lines [l] = l"
| "join_lines (l # m # ls) = l @ CHR 0x0A # join_lines (m # ls)"

definition section_values :: "sections \<Rightarrow> (string \<times> string) list" where
  "section_values ss = map (\<lambda>(k, ls). (k, str_strip (join_lines ls))) ss"

section \<open>Rating and price target\<close>

definition RATINGS :: "string list" where
  "RATINGS = [''Buy'', ''Overweight'', ''Hold'', ''Underweight'', ''Sell'']"

definition is_letter :: "char \<Rightarrow> bool" where
  "is_letter c \<longleftrightarrow> is_upper_ascii c \<or> is_lower_ascii c"

definition title_upper :: "char \<Rightarrow> char" where
  "title_upper c = (if is_lower_ascii c then char_of (of_char c - (32::nat)) else c)"

definition title_lower :: "char \<Rightarrow> char" where
  "title_lower c = (if is_upper_ascii c then char_of (of_char c + (32::nat)) else c)"

text \<open>\<open>str.title()\<close>; the first argument tells whether a letter came before.\<close>

fun title_from :: "bool \<Rightarrow> string \<Rightarrow> string" where
  "title_from letter [] = []"
| "title_from letter (c # cs) =
     (if letter then title_lower c else title_upper c) # title_from (is_letter c) cs"

definition strip_chars :: "string \<Rightarrow> string \<Rightarrow> string" where
  "strip_chars cs s = rev (dropWhile (\<lambda>c. c \<in> set cs) (rev (dropWhile (\<lambda>c. c \<in> set cs) s)))"

definition rating_of :: "string \<Rightarrow> string result" where
  "rating_of s = (let r = title_from False (strip_chars ''* '' s) in
     bind_result (require (r \<in> set RATINGS) (ValueError (''unsupported portfolio rating: '' @ r))) (\<lambda>_. Inr r))"

definition numeric_char :: "char \<Rightarrow> bool" where
  "numeric_char c \<longleftrightarrow> is_digit c \<or> c = CHR ''.'' \<or> c = CHR ''+'' \<or> c = CHR ''-''"

text \<open>\<open>format(Decimal(s), "f")\<close> for digits with at most one point, without a sign.\<close>

definition strip_zeros :: "string \<Rightarrow> string" where
  "strip_zeros s = (case dropWhile (\<lambda>c. c = CHR ''0'') s of [] \<Rightarrow> ''0'' | t \<Rightarrow> t)"

definition unsigned_decimal :: "string \<Rightarrow> string option" where
  "unsigned_decimal s =
     (let whole = takeWhile is_digit s; rest = dropWhile is_digit s in
      case rest of
        [] \<Rightarrow> if whole = [] then None else Some (strip_zeros whole)
      | p # frac \<Rightarrow>
          (if p = CHR ''.'' \<and> list_all is_digit frac \<and> (whole \<noteq> [] \<or> frac \<noteq> [])
           then Some (strip_zeros whole @ (if frac = [] then [] else CHR ''.'' # frac)) else None))"

definition fixed_decimal :: "string \<Rightarrow> string option" where
  "fixed_decimal s = (case s of [] \<Rightarrow> None
     | c # cs \<Rightarrow> (if c = CHR ''-'' then map_option (\<lambda>t. CHR ''-'' # t) (unsigned_decimal cs)
         else if c = CHR ''+'' then unsigned_decimal cs else unsigned_decimal s))"

text \<open>The argument is the first line of the section.\<close>

definition price_target_of :: "string \<Rightarrow> string result" where
  "price_target_of line =
     of_option (ValueError ''price target is not numeric'') (fixed_decimal (filter numeric_char line))"

section \<open>The decision\<close>

record parsed_decision =
  pd_rating :: string
  pd_executive_summary :: string
  pd_investment_thesis :: string
  pd_price_target :: "string option"
  pd_time_horizon :: "string option"
  pd_structured :: "(string \<times> string) list"

definition nonempty_value :: "string \<Rightarrow> (string \<times> string) list \<Rightarrow> string option" where
  "nonempty_value k vs = (case map_of vs k of None \<Rightarrow> None | Some s \<Rightarrow> if s = [] then None else Some s)"

definition parse_decision :: "(string \<Rightarrow> string list) \<Rightarrow> string \<Rightarrow> parsed_decision result" where
  "parse_decision splitlines markdown =
     (let vs = section_values (read_sections (splitlines markdown) None []);
          missing = ValueError ''final decision is missing required labeled sections'' in
      bind_result (of_option missing (nonempty_value ''rating'' vs)) (\<lambda>rating_text.
      bind_result (of_option missing (nonempty_value ''executive_summary'' vs)) (\<lambda>summary.
      bind_result (of_option missing (nonempty_value ''investment_thesis'' vs)) (\<lambda>thesis.
      bind_result (rating_of rating_text) (\<lambda>rating.
      bind_result (case nonempty_value ''price_target'' vs of None \<Rightarrow> Inr None
         | Some p \<Rightarrow> map_sum id Some (price_target_of (hd (splitlines p)))) (\<lambda>target.
      Inr \<lparr>pd_rating = rating, pd_executive_summary = summary, pd_investment_thesis = thesis,
        pd_price_target = target, pd_time_horizon = nonempty_value ''time_horizon'' vs, pd_structured = vs\<rparr>))))))"

section \<open>Lemmas\<close>

definition digits :: "string \<Rightarrow> bool" where
  "digits s \<longleftrightarrow> s \<noteq> [] \<and> list_all is_digit s"

lemma strip_zeros_digits: "list_all is_digit s \<Longrightarrow> digits (strip_zeros s)"
proof -
  assume s: "list_all is_digit s"
  have "set (dropWhile P s) \<subseteq> set s" for P by (rule set_dropWhileD [THEN subsetI])
  with s have "list_all is_digit (dropWhile (\<lambda>c. c = CHR ''0'') s)" by (auto simp: list_all_iff)
  moreover have "is_digit (CHR ''0'')" by code_simp
  ultimately show ?thesis unfolding strip_zeros_def digits_def by (auto split: list.splits)
qed

text \<open>A decimal in plain notation: an optional minus, digits and possibly a point with more digits.\<close>

definition plain_decimal :: "string \<Rightarrow> bool" where
  "plain_decimal s \<longleftrightarrow> (\<exists>w. digits w \<and> (\<exists>sign\<in>{[], ''-''}. s = sign @ w \<or> (\<exists>f. digits f \<and> s = sign @ w @ CHR ''.'' # f)))"

lemma unsigned_decimal_shape:
  assumes "unsigned_decimal s = Some t"
  shows "\<exists>w. digits w \<and> (t = w \<or> (\<exists>f. digits f \<and> t = w @ CHR ''.'' # f))"
proof -
  have tw: "list_all is_digit (takeWhile is_digit s)" by (auto simp: list_all_iff dest: set_takeWhileD)
  note z = strip_zeros_digits [OF tw]
  from assms show ?thesis
    unfolding unsigned_decimal_def Let_def
    using z by (cases "dropWhile is_digit s") (auto simp: digits_def split: if_splits)
qed

lemma fixed_decimal_plain:
  assumes "fixed_decimal s = Some t"
  shows "plain_decimal t"
proof -
  have "s \<noteq> []" using assms by (auto simp: fixed_decimal_def)
  then obtain c cs where s: "s = c # cs" by (cases s) simp_all
  consider (minus) u where "unsigned_decimal cs = Some u" "t = CHR ''-'' # u" | (plus) "unsigned_decimal cs = Some t"
    | (plain) "unsigned_decimal s = Some t"
    using assms by (auto simp: s fixed_decimal_def split: if_splits)
  then show ?thesis
  proof cases
    case minus
    with unsigned_decimal_shape [OF minus(1)] show ?thesis
      unfolding plain_decimal_def by (metis append_Cons append_Nil insert_iff)
  next
    case plus
    with unsigned_decimal_shape show ?thesis unfolding plain_decimal_def by (metis append_Nil insert_iff)
  next
    case plain
    with unsigned_decimal_shape show ?thesis unfolding plain_decimal_def by (metis append_Nil insert_iff)
  qed
qed

text \<open>
  A decision that is accepted has one of the five ratings, a non-empty summary and a
  non-empty thesis, and a price target that is absent or a plain decimal number.
\<close>

theorem parsed_decision_wellformed:
  assumes "parse_decision splitlines markdown = Inr p"
  shows "pd_rating p \<in> {''Buy'', ''Overweight'', ''Hold'', ''Underweight'', ''Sell''}
    \<and> pd_executive_summary p \<noteq> [] \<and> pd_investment_thesis p \<noteq> []
    \<and> (case pd_price_target p of None \<Rightarrow> True | Some t \<Rightarrow> plain_decimal t)"
proof -
  have ne: "nonempty_value k vs = Some v \<Longrightarrow> v \<noteq> []" for k v vs
    by (auto simp: nonempty_value_def split: option.splits if_splits)
  have rating: "rating_of s = Inr r \<Longrightarrow> r \<in> {''Buy'', ''Overweight'', ''Hold'', ''Underweight'', ''Sell''}" for s r
    by (auto simp: rating_of_def RATINGS_def Let_def elim!: bind_resultE)
  have target: "map_sum id Some (price_target_of l) = Inr t \<Longrightarrow> case t of None \<Rightarrow> True | Some x \<Rightarrow> plain_decimal x" for l t
    by (cases "fixed_decimal (filter numeric_char l)") (auto simp: price_target_of_def dest: fixed_decimal_plain)
  show ?thesis
    using assms unfolding parse_decision_def Let_def
    by (elim bind_resultE) (auto dest: ne rating target split: option.splits)
qed

text \<open>
  C2. The price target takes every digit of its line: a figure that follows the price on the
  same line is appended to it, so \<open>$150 (12% upside)\<close> is stored as 15012.
\<close>

theorem price_target_merges_numbers:
  assumes "digits a" and "digits b"
  shows "price_target_of (''$'' @ a @ '' ('' @ b @ ''% upside)'') = Inr (strip_zeros (a @ b))"
proof -
  have keep: "filter numeric_char s = s" if "list_all is_digit s" for s
    using that by (induction s) (auto simp: numeric_char_def)
  have drop: "filter numeric_char ''$'' = []" "filter numeric_char '' ('' = []" "filter numeric_char ''% upside)'' = []"
    by code_simp+
  have "filter numeric_char (''$'' @ a @ '' ('' @ b @ ''% upside)'') = a @ b"
    using assms by (simp only: filter_append drop digits_def keep append_Nil append_Nil2)
  moreover have "fixed_decimal s = Some (strip_zeros s)" if "digits s" for s
  proof -
    from that have "s \<noteq> []" by (simp add: digits_def)
    then obtain c cs where s: "s = c # cs" by (cases s) simp_all
    have "is_digit c" using that by (simp add: s digits_def)
    moreover have "\<not> is_digit (CHR ''-'')" "\<not> is_digit (CHR ''+'')" by code_simp+
    ultimately have "c \<noteq> CHR ''-''" "c \<noteq> CHR ''+''" by auto
    moreover have "takeWhile is_digit s = s" "dropWhile is_digit s = []"
      using that by (simp_all add: digits_def list_all_iff)
    ultimately show ?thesis by (simp add: s fixed_decimal_def unsigned_decimal_def)
  qed
  moreover have "digits (a @ b)" using assms by (simp add: digits_def)
  ultimately show ?thesis by (simp add: price_target_of_def)
qed

lemma price_target_merges_numbers_witness:
  "price_target_of ''$150 (12% upside)'' = Inr ''15012''"
proof -
  have "digits ''150''" "digits ''12''" and z: "strip_zeros ''15012'' = ''15012''" by code_simp+
  with price_target_merges_numbers [of "''150''" "''12''"] show ?thesis by (simp add: z)
qed

definition demo_lines :: "string \<Rightarrow> string list" where
  "demo_lines s = (if s = ''md'' then [''**Rating**: buy'', ''**Executive Summary**: grow'', ''more'',
     ''**Investment Thesis**: cash'', ''**Price Target**: $1,250.50''] else [s])"

lemma parsed_decision_wellformed_witness:
  "\<exists>p. parse_decision demo_lines ''md'' = Inr p \<and> pd_rating p = ''Buy'' \<and> pd_executive_summary p \<noteq> []
     \<and> pd_price_target p = Some ''1250.50''"
proof -
  have "(case parse_decision demo_lines ''md'' of Inr p \<Rightarrow> pd_rating p = ''Buy'' \<and> pd_price_target p = Some ''1250.50'' | Inl _ \<Rightarrow> False)"
    by code_simp
  then obtain p where p: "parse_decision demo_lines ''md'' = Inr p" "pd_rating p = ''Buy''" "pd_price_target p = Some ''1250.50''"
    by (auto split: sum.splits)
  from parsed_decision_wellformed [OF p(1)] p show ?thesis by blast
qed

end
