(* ===== verification/Identity.thy ===== *)
theory Identity
  imports Access
begin

text \<open>
  User administration (\<open>identity/service.py\<close>, \<open>identity/repository.py\<close>): administrators change
  users in Keycloak and the platform keeps a local copy of them, inside one transaction that
  holds the guard lock. Keycloak's state is a type of its own: an operation of the client
  (\<open>identity/keycloak.py\<close>) maps it to a new state and a result, and what it did there stays
  done when the local transaction rolls back.
\<close>

section \<open>The identity provider\<close>

record keycloak_user =
  ku_subject :: string
  ku_username :: string
  ku_display_name :: string
  ku_email :: "string option"
  ku_enabled :: bool
  ku_role :: string

type_synonym ('k, 'a) remote = "'k \<Rightarrow> 'k \<times> 'a result"

record 'k keycloak =
  kc_get :: "string \<Rightarrow> ('k, keycloak_user) remote"
  kc_list :: "string option \<Rightarrow> ('k, keycloak_user list) remote"
  kc_create :: "string \<Rightarrow> string \<Rightarrow> string \<Rightarrow> bool \<Rightarrow> ('k, string) remote"
  kc_update :: "string \<Rightarrow> string \<Rightarrow> string \<Rightarrow> bool \<Rightarrow> ('k, unit) remote"
  kc_replace_role :: "string \<Rightarrow> string \<Rightarrow> ('k, unit) remote"
  kc_set_password :: "string \<Rightarrow> string \<Rightarrow> ('k, unit) remote"
  kc_logout :: "string \<Rightarrow> ('k, unit) remote"
  kc_sessions :: "string \<Rightarrow> ('k, int list) remote"

definition rbind :: "('k, 'a) remote \<Rightarrow> ('a \<Rightarrow> ('k, 'b) remote) \<Rightarrow> ('k, 'b) remote" where
  "rbind f g k = (case f k of (k1, Inl e) \<Rightarrow> (k1, Inl e) | (k1, Inr a) \<Rightarrow> g a k1)"

definition local_step :: "'a result \<Rightarrow> ('k, 'a) remote" where
  "local_step r k = (k, r)"

definition perform_if :: "bool \<Rightarrow> ('k, unit) remote \<Rightarrow> ('k, unit) remote" where
  "perform_if b f = (if b then f else local_step (Inr ()))"

section \<open>The local copy\<close>

definition MANAGED_ROLES :: "string list" where
  "MANAGED_ROLES = [''Admin'', ''User'', ''Analyst'', ''Viewer'']"

definition formal_role_of :: "nat \<Rightarrow> db \<Rightarrow> string option" where
  "formal_role_of uid d = sole (dedup (filter (\<lambda>r. r \<in> set FORMAL_ROLES) (user_role_names uid d)))"

definition user_by_id :: "nat \<Rightarrow> db \<Rightarrow> user result" where
  "user_by_id i d = of_option (IdentityError ''user_not_found'') (find_row usr_id i (db_users d))"

definition enabled_status :: "bool \<Rightarrow> string" where
  "enabled_status enabled = (if enabled then ''active'' else ''disabled'')"

definition insert_authoritative :: "string \<Rightarrow> keycloak_user \<Rightarrow> db \<Rightarrow> db" where
  "insert_authoritative issuer k d =
     (if find_user issuer (ku_subject k) d \<noteq> None then d
      else (drawn d)\<lparr>db_users := db_users d @
        [\<lparr>usr_id = uuid4 d, usr_issuer = issuer, usr_subject = ku_subject k,
          usr_display_name = ku_display_name k, usr_email = ku_email k, usr_status = enabled_status (ku_enabled k)\<rparr>]\<rparr>)"

record identity_sync =
  sy_user :: user
  sy_role :: string
  sy_changed :: "string list"
  sy_old_role :: "string option"
  sy_old_status :: string

text \<open>The role is set after the managed roles of the user are deleted.\<close>

definition set_role :: "nat \<Rightarrow> string \<Rightarrow> db \<Rightarrow> db result" where
  "set_role uid role d0 =
     (let d = fold ensure_role FORMAL_ROLES d0 in
      bind_result (of_option (RuntimeError ''formal role sync failed'') (find (\<lambda>r. rol_name r = role) (db_roles d))) (\<lambda>selected.
      let managed = rol_id ` {r \<in> set (db_roles d). rol_name r \<in> set MANAGED_ROLES};
          kept = delete_where (\<lambda>ur. fst ur = uid \<and> snd ur \<in> managed) (db_user_roles d)
      in Inr (d\<lparr>db_user_roles := kept @ (if (uid, rol_id selected) \<in> set kept then [] else [(uid, rol_id selected)])\<rparr>)))"

definition sync_authoritative :: "string \<Rightarrow> keycloak_user \<Rightarrow> identity_sync tx" where
  "sync_authoritative issuer k d0 =
     (let d1 = insert_authoritative issuer k d0 in
      bind_result (of_option (RuntimeError ''authoritative identity sync did not return a user'')
        (find_user issuer (ku_subject k) d1)) (\<lambda>u.
      let old_role = formal_role_of (usr_id u) d1; status = enabled_status (ku_enabled k);
          changed = (if usr_display_name u \<noteq> ku_display_name k then [''display_name''] else [])
            @ (if usr_email u \<noteq> ku_email k then [''email''] else [])
            @ (if usr_status u \<noteq> status then [''status''] else [])
            @ (if old_role \<noteq> Some (ku_role k) then [''role''] else []);
          u' = u\<lparr>usr_display_name := ku_display_name k, usr_email := ku_email k, usr_status := status\<rparr>;
          d2 = d1\<lparr>db_users := update_row usr_id (usr_id u) (\<lambda>_. u') (db_users d1)\<rparr>
      in bind_result (set_role (usr_id u) (ku_role k) d2) (\<lambda>d3.
         Inr (d3, \<lparr>sy_user = u', sy_role = ku_role k, sy_changed = changed, sy_old_role = old_role,
                sy_old_status = usr_status u\<rparr>))))"

text \<open>
  The join of users, user roles and roles has one row per row of \<open>user_roles\<close>, since the other
  two tables are joined by their primary keys.
\<close>

definition enabled_admin_row :: "db \<Rightarrow> nat \<times> nat \<Rightarrow> bool" where
  "enabled_admin_row d ur \<longleftrightarrow> (case find_row usr_id (fst ur) (db_users d) of None \<Rightarrow> False | Some u \<Rightarrow> usr_status u = ''active'')
     \<and> (case find_row rol_id (snd ur) (db_roles d) of None \<Rightarrow> False | Some r \<Rightarrow> rol_name r = ''Admin'')"

definition enabled_admin_count :: "db \<Rightarrow> nat" where
  "enabled_admin_count d = length (filter (enabled_admin_row d) (db_user_roles d))"

definition AUDIT_KEYS :: "string list" where
  "AUDIT_KEYS = [''changed_fields'', ''old_role'', ''new_role'', ''old_status'', ''new_status'', ''keycloak_subject'', ''result'']"

text \<open>The keys the code passes are all allowed; the check on sensitive words is about the same keys.\<close>

definition identity_audit :: "(nat \<Rightarrow> string) \<Rightarrow> principal \<Rightarrow> string \<Rightarrow> user \<Rightarrow> string \<Rightarrow> dict \<Rightarrow> db \<Rightarrow> db result" where
  "identity_audit uuid_str pr action target rid metadata d =
     bind_result (require (list_all (\<lambda>kv. fst kv \<in> set AUDIT_KEYS) metadata)
       (ValueError ''identity audit metadata contains a forbidden field'')) (\<lambda>_.
     Inr (append_audit pr action ''user'' (uuid_str (usr_id target)) rid metadata d))"

section \<open>Administration\<close>

definition require_user_admin :: "principal \<Rightarrow> unit result" where
  "require_user_admin pr = require (''Admin'' \<in> set (pr_roles pr) \<and> ''users:manage'' \<in> set (pr_scopes pr))
     (PermissionError [''users:manage''])"

record update_command =
  uc_display_name :: "string option"
  uc_email :: "string option"
  uc_role :: "string option"
  uc_enabled :: "bool option"

definition removes_admin :: "string option \<Rightarrow> update_command \<Rightarrow> bool" where
  "removes_admin role c \<longleftrightarrow> role = Some ''Admin'' \<and> uc_role c = Some ''User''"

definition disables_admin :: "string option \<Rightarrow> user \<Rightarrow> update_command \<Rightarrow> bool" where
  "disables_admin role u c \<longleftrightarrow> role = Some ''Admin'' \<and> usr_status u = ''active'' \<and> uc_enabled c = Some False"

definition protect_admin_change :: "principal \<Rightarrow> user \<Rightarrow> string option \<Rightarrow> update_command \<Rightarrow> nat \<Rightarrow> unit result" where
  "protect_admin_change pr u role c admins =
     (let takes = (removes_admin role c \<or> disables_admin role u c) in
      bind_result (require (\<not> (pr_subject pr = usr_subject u \<and> takes)) (IdentityError ''self_admin_change_forbidden'')) (\<lambda>_.
      require (\<not> (admins \<le> 1 \<and> takes)) (IdentityError ''last_admin_protected'')))"

definition or_else :: "'a option \<Rightarrow> 'a \<Rightarrow> 'a" where
  "or_else x y = (case x of None \<Rightarrow> y | Some v \<Rightarrow> v)"

text \<open>What a command asks of the user as Keycloak has it now.\<close>

record user_change =
  uch_display_name :: string
  uch_email :: string
  uch_enabled :: bool
  uch_profile :: bool
  uch_status :: bool
  uch_role :: bool

definition change_of :: "update_command \<Rightarrow> keycloak_user \<Rightarrow> user_change" where
  "change_of c k =
     (let name = (case uc_display_name c of Some n \<Rightarrow> if n = [] then ku_display_name k else n | None \<Rightarrow> ku_display_name k);
          email = (case uc_email c of Some e \<Rightarrow> e | None \<Rightarrow> or_else (ku_email k) []);
          enabled = or_else (uc_enabled c) (ku_enabled k)
      in \<lparr>uch_display_name = name, uch_email = email, uch_enabled = enabled,
          uch_profile = (name \<noteq> ku_display_name k \<or> email \<noteq> or_else (ku_email k) []),
          uch_status = (enabled \<noteq> ku_enabled k),
          uch_role = (case uc_role c of None \<Rightarrow> False | Some r \<Rightarrow> r \<noteq> ku_role k)\<rparr>)"

definition apply_change :: "'k keycloak \<Rightarrow> string \<Rightarrow> update_command \<Rightarrow> user_change \<Rightarrow> ('k, unit) remote" where
  "apply_change kc subject c ch =
     rbind (perform_if (uch_profile ch \<or> uch_status ch) (kc_update kc subject (uch_display_name ch) (uch_email ch) (uch_enabled ch))) (\<lambda>_.
     rbind (perform_if (uch_role ch) (kc_replace_role kc subject (or_else (uc_role c) []))) (\<lambda>_.
     perform_if (uch_role ch \<or> uch_status ch) (kc_logout kc subject)))"

definition update_audits ::
    "(nat \<Rightarrow> string) \<Rightarrow> principal \<Rightarrow> string \<Rightarrow> user_change \<Rightarrow> keycloak_user \<Rightarrow> keycloak_user \<Rightarrow> user \<Rightarrow> db \<Rightarrow> db result" where
  "update_audits uuid_str pr rid ch current authoritative target d =
     (let base = (\<lambda>fields. (''changed_fields'', JList (map JStr fields)));
          tail = [(''keycloak_subject'', JStr (usr_subject target)), (''result'', JStr ''succeeded'')] in
      bind_result (if uch_profile ch then identity_audit uuid_str pr ''user.profile_update'' target rid
          (base [''display_name'', ''email''] # tail) d else Inr d) (\<lambda>d1.
      bind_result (if uch_role ch then identity_audit uuid_str pr ''user.role_change'' target rid
          ([base [''role''], (''old_role'', JStr (ku_role current)), (''new_role'', JStr (ku_role authoritative))] @ tail) d1
        else Inr d1) (\<lambda>d2.
      if uch_status ch then identity_audit uuid_str pr (if uch_enabled ch then ''user.enable'' else ''user.disable'') target rid
          ([base [''status''], (''old_status'', JStr (enabled_status (ku_enabled current))),
            (''new_status'', JStr (enabled_status (uch_enabled ch)))] @ tail) d2
        else Inr d2)))"

text \<open>
  The transaction of \<open>update_user\<close>; the lock \<open>identity-admin-guard\<close> keeps other administrators'
  transactions away from \<open>d\<close> meanwhile. The value is the synchronised user and the number of
  enabled administrators afterwards.
\<close>

definition update_transaction ::
    "'k keycloak \<Rightarrow> (nat \<Rightarrow> string) \<Rightarrow> string \<Rightarrow> principal \<Rightarrow> nat \<Rightarrow> update_command \<Rightarrow> string \<Rightarrow> db
       \<Rightarrow> ('k, db \<times> user \<times> nat) remote" where
  "update_transaction kc uuid_str issuer pr i c rid d =
     rbind (local_step (user_by_id i d)) (\<lambda>u.
     rbind (kc_get kc (usr_subject u)) (\<lambda>current.
     rbind (local_step (protect_admin_change pr u (formal_role_of i d) c (enabled_admin_count d))) (\<lambda>_.
     rbind (apply_change kc (usr_subject u) c (change_of c current)) (\<lambda>_.
     rbind (kc_get kc (usr_subject u)) (\<lambda>authoritative.
     local_step (bind_result (sync_authoritative issuer authoritative d) (\<lambda>(d1, sync).
       bind_result (update_audits uuid_str pr rid (change_of c current) current authoritative (sy_user sync) d1) (\<lambda>d2.
       Inr (d2, sy_user sync, enabled_admin_count d2)))))))))"

text \<open>Errors that are not identity errors are reported as a pending synchronisation.\<close>

definition as_identity_error :: "'a result \<Rightarrow> 'a result" where
  "as_identity_error r = (case r of Inr a \<Rightarrow> Inr a | Inl (IdentityError c) \<Rightarrow> Inl (IdentityError c)
     | Inl _ \<Rightarrow> Inl (IdentityError ''identity_sync_pending''))"

text \<open>The detail view's flags.\<close>

definition change_allowed :: "principal \<Rightarrow> user \<Rightarrow> string option \<Rightarrow> nat \<Rightarrow> bool" where
  "change_allowed pr u role admins \<longleftrightarrow>
     \<not> (pr_subject pr = usr_subject u \<and> role = Some ''Admin'')
     \<and> \<not> (role = Some ''Admin'' \<and> usr_status u = ''active'' \<and> admins \<le> 1)"

text \<open>The operation up to its commit; the detail view that is read after it changes nothing.\<close>

definition update_user ::
    "'k keycloak \<Rightarrow> (nat \<Rightarrow> string) \<Rightarrow> string \<Rightarrow> principal \<Rightarrow> nat \<Rightarrow> update_command \<Rightarrow> string \<Rightarrow> db
       \<Rightarrow> ('k, db \<times> user \<times> nat) remote" where
  "update_user kc uuid_str issuer pr i c rid d k =
     (case require_user_admin pr of Inl e \<Rightarrow> (k, Inl e)
      | Inr _ \<Rightarrow> (case update_transaction kc uuid_str issuer pr i c rid d k of (k1, r) \<Rightarrow> (k1, as_identity_error r)))"

definition subject_audit :: "(nat \<Rightarrow> string) \<Rightarrow> principal \<Rightarrow> string \<Rightarrow> string \<Rightarrow> string \<Rightarrow> user \<Rightarrow> db \<Rightarrow> db result" where
  "subject_audit uuid_str pr rid action field target d = identity_audit uuid_str pr action target rid
     [(''changed_fields'', JList [JStr field]), (''keycloak_subject'', JStr (usr_subject target)), (''result'', JStr ''succeeded'')] d"

text \<open>\<open>reset_password\<close> and \<open>logout_user\<close> differ in the change, the audit action and the error policy.\<close>

definition touch_transaction ::
    "'k keycloak \<Rightarrow> (nat \<Rightarrow> string) \<Rightarrow> string \<Rightarrow> principal \<Rightarrow> nat \<Rightarrow> (string \<Rightarrow> ('k, unit) remote) \<Rightarrow> string \<Rightarrow> string \<Rightarrow> string \<Rightarrow> db
       \<Rightarrow> ('k, db \<times> user \<times> nat) remote" where
  "touch_transaction kc uuid_str issuer pr i change action field rid d =
     rbind (local_step (user_by_id i d)) (\<lambda>u.
     rbind (change (usr_subject u)) (\<lambda>_.
     rbind (kc_get kc (usr_subject u)) (\<lambda>authoritative.
     local_step (bind_result (sync_authoritative issuer authoritative d) (\<lambda>(d1, sync).
       bind_result (subject_audit uuid_str pr rid action field (sy_user sync) d1) (\<lambda>d2.
       Inr (d2, sy_user sync, enabled_admin_count d2)))))))"

definition reset_password ::
    "'k keycloak \<Rightarrow> (nat \<Rightarrow> string) \<Rightarrow> string \<Rightarrow> principal \<Rightarrow> nat \<Rightarrow> string \<Rightarrow> string \<Rightarrow> db \<Rightarrow> ('k, db \<times> user \<times> nat) remote" where
  "reset_password kc uuid_str issuer pr i password rid d k =
     (case require_user_admin pr of Inl e \<Rightarrow> (k, Inl e)
      | Inr _ \<Rightarrow> (case touch_transaction kc uuid_str issuer pr i
            (\<lambda>s. rbind (kc_set_password kc s password) (\<lambda>_. kc_logout kc s)) ''user.password_reset'' ''password'' rid d k of
          (k1, r) \<Rightarrow> (k1, as_identity_error r)))"

definition logout_user ::
    "'k keycloak \<Rightarrow> (nat \<Rightarrow> string) \<Rightarrow> string \<Rightarrow> principal \<Rightarrow> nat \<Rightarrow> string \<Rightarrow> db \<Rightarrow> ('k, db \<times> user \<times> nat) remote" where
  "logout_user kc uuid_str issuer pr i rid d k =
     (case require_user_admin pr of Inl e \<Rightarrow> (k, Inl e)
      | Inr _ \<Rightarrow> touch_transaction kc uuid_str issuer pr i (kc_logout kc) ''user.logout'' ''sessions'' rid d k)"

record create_command =
  cc_username :: string
  cc_display_name :: string
  cc_email :: string
  cc_role :: string

definition lower_case :: "string \<Rightarrow> string" where
  "lower_case s = map (\<lambda>c. if is_upper_ascii c then char_of (of_char c + (32::nat)) else c) s"

definition assert_unique :: "'k keycloak \<Rightarrow> create_command \<Rightarrow> ('k, unit) remote" where
  "assert_unique kc c =
     rbind (kc_list kc (Some (cc_username c))) (\<lambda>us.
     rbind (local_step (require (\<not> list_ex (\<lambda>u. lower_case (ku_username u) = lower_case (cc_username c)) us)
       (IdentityError ''username_conflict''))) (\<lambda>_.
     rbind (kc_list kc (Some (cc_email c))) (\<lambda>es.
     local_step (require (\<not> list_ex (\<lambda>u. lower_case (or_else (ku_email u) []) = lower_case (cc_email c)) es)
       (IdentityError ''email_conflict'')))))"

text \<open>A user is created disabled, given the role and the password, and only then enabled.\<close>

definition provision_remote :: "'k keycloak \<Rightarrow> create_command \<Rightarrow> string \<Rightarrow> ('k, keycloak_user) remote" where
  "provision_remote kc c password =
     rbind (kc_create kc (cc_username c) (cc_display_name c) (cc_email c) False) (\<lambda>subject.
     rbind (kc_replace_role kc subject (cc_role c)) (\<lambda>_.
     rbind (kc_set_password kc subject password) (\<lambda>_.
     rbind (kc_update kc subject (cc_display_name c) (cc_email c) True) (\<lambda>_.
     rbind (kc_logout kc subject) (\<lambda>_. kc_get kc subject)))))"

definition record_created ::
    "(nat \<Rightarrow> string) \<Rightarrow> string \<Rightarrow> principal \<Rightarrow> create_command \<Rightarrow> string \<Rightarrow> keycloak_user \<Rightarrow> user tx" where
  "record_created uuid_str issuer pr c rid k d =
     bind_result (sync_authoritative issuer k d) (\<lambda>(d1, sync).
     bind_result (identity_audit uuid_str pr ''user.create'' (sy_user sync) rid
       [(''changed_fields'', JList (map JStr [''username'', ''display_name'', ''email'', ''role'', ''status''])),
        (''new_role'', JStr (cc_role c)), (''new_status'', JStr ''active''),
        (''keycloak_subject'', JStr (ku_subject k)), (''result'', JStr ''succeeded'')] d1) (\<lambda>d2.
     Inr (d2, sy_user sync)))"

definition create_user ::
    "'k keycloak \<Rightarrow> (nat \<Rightarrow> string) \<Rightarrow> string \<Rightarrow> principal \<Rightarrow> create_command \<Rightarrow> string \<Rightarrow> string \<Rightarrow> db \<Rightarrow> ('k, db \<times> user) remote" where
  "create_user kc uuid_str issuer pr c password rid d k =
     (case require_user_admin pr of Inl e \<Rightarrow> (k, Inl e)
      | Inr _ \<Rightarrow> rbind (assert_unique kc c) (\<lambda>_.
          rbind (provision_remote kc c password) (\<lambda>u.
          local_step (as_identity_error (record_created uuid_str issuer pr c rid u d)))) k)"

section \<open>Reading\<close>

fun sync_users :: "string \<Rightarrow> keycloak_user list \<Rightarrow> db \<Rightarrow> (db \<times> identity_sync list) result" where
  "sync_users issuer [] d = Inr (d, [])"
| "sync_users issuer (k # ks) d =
     bind_result (sync_authoritative issuer k d) (\<lambda>(d1, s).
     bind_result (sync_users issuer ks d1) (\<lambda>(d2, ss). Inr (d2, s # ss)))"

definition page_of :: "nat \<Rightarrow> nat \<Rightarrow> 'a list \<Rightarrow> 'a list" where
  "page_of page per xs = take per (drop ((page - 1) * per) xs)"

definition user_selected :: "string option \<Rightarrow> string option \<Rightarrow> keycloak_user \<Rightarrow> bool" where
  "user_selected role status u \<longleftrightarrow> (role = None \<or> role = Some (ku_role u))
     \<and> (status = None \<or> status = Some (enabled_status (ku_enabled u)))"

text \<open>The page of synchronised users and the number of users selected.\<close>

definition list_users ::
    "'k keycloak \<Rightarrow> string \<Rightarrow> principal \<Rightarrow> string option \<Rightarrow> string option \<Rightarrow> string option \<Rightarrow> nat \<Rightarrow> nat \<Rightarrow> db
       \<Rightarrow> ('k, db \<times> identity_sync list \<times> nat) remote" where
  "list_users kc issuer pr search role status page per d =
     rbind (local_step (require_user_admin pr)) (\<lambda>_.
     rbind (kc_list kc search) (\<lambda>us.
     let users = filter (user_selected role status) us in
     local_step (bind_result (sync_users issuer (page_of page per users) d) (\<lambda>(d1, views).
       Inr (d1, views, length users)))))"

definition get_user ::
    "'k keycloak \<Rightarrow> string \<Rightarrow> principal \<Rightarrow> nat \<Rightarrow> db \<Rightarrow> ('k, db \<times> user \<times> nat) remote" where
  "get_user kc issuer pr i d =
     rbind (local_step (require_user_admin pr)) (\<lambda>_.
     rbind (local_step (user_by_id i d)) (\<lambda>u.
     rbind (kc_get kc (usr_subject u)) (\<lambda>authoritative.
     local_step (bind_result (sync_authoritative issuer authoritative d) (\<lambda>(d1, sync).
       Inr (d1, sy_user sync, enabled_admin_count d1))))))"

end
