(* ===== verification/IdentityFacts.thy ===== *)
theory IdentityFacts
  imports Identity
begin

text \<open>
  User administration never leaves the platform without an enabled administrator, as long as
  the local copy of the user that is changed agrees with Keycloak; what the synchronisation
  writes; and what a failed transaction leaves behind.
\<close>

section \<open>The local tables\<close>

definition identity_ok :: "string \<Rightarrow> db \<Rightarrow> bool" where
  "identity_ok issuer d \<longleftrightarrow> distinct (map usr_id (db_users d))
     \<and> distinct (map (\<lambda>u. (usr_issuer u, usr_subject u)) (db_users d))
     \<and> list_all (\<lambda>u. usr_issuer u = issuer) (db_users d)
     \<and> distinct (map rol_id (db_roles d)) \<and> distinct (map rol_name (db_roles d))
     \<and> set FORMAL_ROLES \<subseteq> rol_name ` set (db_roles d) \<and> distinct (db_user_roles d)"

lemma identity_okD:
  assumes "identity_ok issuer d"
  shows "u \<in> set (db_users d) \<Longrightarrow> v \<in> set (db_users d) \<Longrightarrow> usr_id u = usr_id v \<Longrightarrow> u = v"
    and "u \<in> set (db_users d) \<Longrightarrow> v \<in> set (db_users d) \<Longrightarrow> usr_subject u = usr_subject v \<Longrightarrow> u = v"
    and "u \<in> set (db_users d) \<Longrightarrow> usr_issuer u = issuer"
    and "r \<in> set (db_roles d) \<Longrightarrow> q \<in> set (db_roles d) \<Longrightarrow> rol_id r = rol_id q \<Longrightarrow> r = q"
    and "r \<in> set (db_roles d) \<Longrightarrow> q \<in> set (db_roles d) \<Longrightarrow> rol_name r = rol_name q \<Longrightarrow> r = q"
    and "name \<in> set FORMAL_ROLES \<Longrightarrow> \<exists>r\<in>set (db_roles d). rol_name r = name"
  using assms by (auto simp: identity_ok_def distinct_map inj_on_def list_all_iff)

lemma find_user_of:
  assumes "identity_ok issuer d" and "u \<in> set (db_users d)"
  shows "find_user issuer (usr_subject u) d = Some u"
proof -
  have "\<exists>v. find (\<lambda>v. usr_issuer v = issuer \<and> usr_subject v = usr_subject u) (db_users d) = Some v"
    using assms identity_okD(3) [OF assms] by (auto simp: find_None_iff not_None_eq [symmetric] simp del: not_None_eq)
  then obtain v where v: "find (\<lambda>v. usr_issuer v = issuer \<and> usr_subject v = usr_subject u) (db_users d) = Some v" ..
  then have "v \<in> set (db_users d)" "usr_subject v = usr_subject u" by (auto simp: find_Some_iff)
  with identity_okD(2) [OF assms(1)] assms(2) v show ?thesis by (auto simp: find_user_def)
qed

lemma find_row_of_id:
  assumes "identity_ok issuer d" and "u \<in> set (db_users d)"
  shows "find_row usr_id (usr_id u) (db_users d) = Some u"
  using assms by (intro find_row_unique) (auto simp: identity_ok_def unique_keys_def)

lemma ensure_roles_present: "identity_ok issuer d \<Longrightarrow> fold ensure_role FORMAL_ROLES d = d"
  by (auto simp: identity_ok_def FORMAL_ROLES_def ensure_role_def)

section \<open>What a synchronisation writes\<close>

definition synced :: "keycloak_user \<Rightarrow> user \<Rightarrow> user" where
  "synced k u = u\<lparr>usr_display_name := ku_display_name k, usr_email := ku_email k, usr_status := enabled_status (ku_enabled k)\<rparr>"

lemma synced_simps [simp]:
  "usr_id (synced k u) = usr_id u" "usr_subject (synced k u) = usr_subject u" "usr_status (synced k u) = enabled_status (ku_enabled k)"
  by (simp_all add: synced_def)

definition of_others :: "nat \<Rightarrow> (nat \<times> nat) list \<Rightarrow> (nat \<times> nat) list" where
  "of_others uid urs = filter (\<lambda>ur. fst ur \<noteq> uid) urs"

lemma sync_known_user:
  assumes ok: "identity_ok issuer d" and u: "u \<in> set (db_users d)" "ku_subject k = usr_subject u"
    and role: "ku_role k \<in> set FORMAL_ROLES" and sync: "sync_authoritative issuer k d = Inr (d', s)"
  shows "db_roles d' = db_roles d \<and> db_users d' = update_row usr_id (usr_id u) (synced k) (db_users d)
    \<and> of_others (usr_id u) (db_user_roles d') = of_others (usr_id u) (db_user_roles d)
    \<and> (\<exists>r\<in>set (db_roles d). rol_name r = ku_role k \<and> (usr_id u, rol_id r) \<in> set (db_user_roles d'))
    \<and> sy_user s = synced k u"
proof -
  have ins: "insert_authoritative issuer k d = d" and fu: "find_user issuer (ku_subject k) d = Some u"
    using find_user_of [OF ok u(1)] by (simp_all add: insert_authoritative_def u(2))
  let ?d2 = "d\<lparr>db_users := update_row usr_id (usr_id u) (\<lambda>_. synced k u) (db_users d)\<rparr>"
  from sync fu have set: "set_role (usr_id u) (ku_role k) ?d2 = Inr d'" and s: "sy_user s = synced k u"
    by (auto simp: sync_authoritative_def ins Let_def synced_def elim!: bind_resultE)
  have ens: "fold ensure_role FORMAL_ROLES ?d2 = ?d2"
    using ok by (auto simp: identity_ok_def FORMAL_ROLES_def ensure_role_def)
  have "find (\<lambda>r. rol_name r = ku_role k) (db_roles d) \<noteq> None"
    using identity_okD(6) [OF ok role] unfolding find_None_iff by blast
  then obtain r where r: "find (\<lambda>r. rol_name r = ku_role k) (db_roles d) = Some r" by blast
  then have rm: "r \<in> set (db_roles d)" "rol_name r = ku_role k" by (auto simp: find_Some_iff)
  let ?P = "\<lambda>ur. snd ur \<in> rol_id ` {r \<in> set (db_roles d). rol_name r \<in> set MANAGED_ROLES}"
  have "set_role (usr_id u) (ku_role k) ?d2 = Inr (?d2\<lparr>db_user_roles := delete_where (\<lambda>ur. fst ur = usr_id u \<and> ?P ur) (db_user_roles d)
      @ (if (usr_id u, rol_id r) \<in> set (delete_where (\<lambda>ur. fst ur = usr_id u \<and> ?P ur) (db_user_roles d)) then [] else [(usr_id u, rol_id r)])\<rparr>)"
    by (simp add: set_role_def ens r Let_def of_option_def del: Collect_conj_eq)
  with set have d'eq: "d' = ?d2\<lparr>db_user_roles := delete_where (\<lambda>ur. fst ur = usr_id u \<and> ?P ur) (db_user_roles d)
      @ (if (usr_id u, rol_id r) \<in> set (delete_where (\<lambda>ur. fst ur = usr_id u \<and> ?P ur) (db_user_roles d)) then [] else [(usr_id u, rol_id r)])\<rparr>"
    by (simp only: sum.inject)
  have d': "db_roles d' = db_roles d" "db_users d' = db_users ?d2" unfolding d'eq by simp_all
  have "\<exists>P. db_user_roles d' = delete_where (\<lambda>ur. fst ur = usr_id u \<and> P ur) (db_user_roles d)
         @ (if (usr_id u, rol_id r) \<in> set (delete_where (\<lambda>ur. fst ur = usr_id u \<and> P ur) (db_user_roles d)) then [] else [(usr_id u, rol_id r)])"
    by (rule exI [of _ ?P]) (simp only: d'eq db.select_convs db.update_convs db.surjective, simp)
  then obtain P where P: "db_user_roles d' = delete_where (\<lambda>ur. fst ur = usr_id u \<and> P ur) (db_user_roles d)
         @ (if (usr_id u, rol_id r) \<in> set (delete_where (\<lambda>ur. fst ur = usr_id u \<and> P ur) (db_user_roles d)) then [] else [(usr_id u, rol_id r)])"
    by (elim exE)
  have "filter (\<lambda>ur. fst ur \<noteq> usr_id u) (delete_where (\<lambda>ur. fst ur = usr_id u \<and> P ur) urs) = filter (\<lambda>ur. fst ur \<noteq> usr_id u) urs" for urs
    by (induction urs) auto
  then have "of_others (usr_id u) (db_user_roles d') = of_others (usr_id u) (db_user_roles d)"
    by (auto simp: of_others_def P)
  moreover have "(usr_id u, rol_id r) \<in> set (db_user_roles d')" unfolding P by auto
  moreover have "update_row usr_id (usr_id u) (\<lambda>_. synced k u) (db_users d) = update_row usr_id (usr_id u) (synced k) (db_users d)"
    unfolding update_row_def update_where_def
    by (rule map_cong [OF refl]) (use identity_okD(1) [OF ok _ u(1)] in auto)
  ultimately show ?thesis using d' rm s by (intro conjI bexI [of _ r]) simp_all
qed

section \<open>Counting administrators\<close>

lemma count_split:
  "enabled_admin_count d = length (filter (enabled_admin_row d) (of_others uid (db_user_roles d)))
     + length (filter (\<lambda>ur. fst ur = uid \<and> enabled_admin_row d ur) (db_user_roles d))"
proof -
  have "length (filter P urs) = length (filter P (filter (\<lambda>ur. fst ur \<noteq> uid) urs)) + length (filter (\<lambda>ur. fst ur = uid \<and> P ur) urs)"
    for P and urs :: "(nat \<times> nat) list" by (induction urs) auto
  then show ?thesis unfolding enabled_admin_count_def of_others_def .
qed

lemma enabled_admin_row_iff:
  assumes "identity_ok issuer d" and "u \<in> set (db_users d)"
  shows "enabled_admin_row d (usr_id u, x) \<longleftrightarrow> usr_status u = ''active'' \<and> (\<exists>r\<in>set (db_roles d). rol_id r = x \<and> rol_name r = ''Admin'')"
proof -
  have "(case find_row rol_id x (db_roles d) of None \<Rightarrow> False | Some r \<Rightarrow> rol_name r = ''Admin'')
      \<longleftrightarrow> (\<exists>r\<in>set (db_roles d). rol_id r = x \<and> rol_name r = ''Admin'')"
  proof (cases "find_row rol_id x (db_roles d)")
    case None
    then have "x \<notin> rol_id ` set (db_roles d)" by (simp add: find_row_None)
    with None show ?thesis by auto
  next
    case (Some q)
    from find_row_Some [OF Some] have "q \<in> set (db_roles d)" "rol_id q = x" by simp_all
    with identity_okD(4) [OF assms(1)] Some show ?thesis by auto
  qed
  then show ?thesis using find_row_of_id [OF assms] by (simp add: enabled_admin_row_def)
qed

lemma own_admin_rows:
  assumes "identity_ok issuer d" and "u \<in> set (db_users d)"
  shows "length (filter (\<lambda>ur. fst ur = usr_id u \<and> enabled_admin_row d ur) (db_user_roles d)) \<le> 1"
proof -
  let ?rows = "filter (\<lambda>ur. fst ur = usr_id u \<and> enabled_admin_row d ur) (db_user_roles d)"
  have "ur = ur'" if ur: "ur \<in> set ?rows" "ur' \<in> set ?rows" for ur ur'
  proof -
    obtain x where x: "ur = (usr_id u, x)" "enabled_admin_row d (usr_id u, x)" by (cases ur) (use ur(1) in simp)
    obtain x' where x': "ur' = (usr_id u, x')" "enabled_admin_row d (usr_id u, x')" by (cases ur') (use ur(2) in simp)
    from x(2) obtain r where r: "r \<in> set (db_roles d)" "rol_id r = x" "rol_name r = ''Admin''"
      unfolding enabled_admin_row_iff [OF assms] by blast
    from x'(2) obtain q where q: "q \<in> set (db_roles d)" "rol_id q = x'" "rol_name q = ''Admin''"
      unfolding enabled_admin_row_iff [OF assms] by blast
    have "r = q" using identity_okD(5) [OF assms(1) r(1) q(1)] r(3) q(3) by simp
    with x(1) x'(1) r(2) q(2) show ?thesis by simp
  qed
  then have "card (set ?rows) \<le> 1" by (auto simp: card_le_Suc0_iff_eq)
  moreover have "distinct ?rows" using assms(1) by (simp add: identity_ok_def)
  ultimately show ?thesis by (simp only: distinct_card)
qed

text \<open>A user whose only formal role is not the administrator's has no administrator row.\<close>

lemma formal_role_rows:
  assumes "identity_ok issuer d" and "u \<in> set (db_users d)" and "formal_role_of (usr_id u) d = Some role"
    and "(usr_id u, x) \<in> set (db_user_roles d)" and "enabled_admin_row d (usr_id u, x)"
  shows "role = ''Admin'' \<and> usr_status u = ''active''"
proof -
  from assms(5) enabled_admin_row_iff [OF assms(1,2)] obtain r where r: "r \<in> set (db_roles d)" "rol_id r = x" "rol_name r = ''Admin''"
    and act: "usr_status u = ''active''" by auto
  with assms(4) have "''Admin'' \<in> set (user_role_names (usr_id u) d)"
    unfolding user_role_names_def by force
  then have "''Admin'' \<in> set (dedup (filter (\<lambda>r. r \<in> set FORMAL_ROLES) (user_role_names (usr_id u) d)))"
    by (simp add: FORMAL_ROLES_def)
  moreover have "dedup (filter (\<lambda>r. r \<in> set FORMAL_ROLES) (user_role_names (usr_id u) d)) = [role]"
    using assms(3) by (auto simp: formal_role_of_def sole_def split: list.splits)
  ultimately have "''Admin'' \<in> set [role]" by (simp only:)
  then have "role = ''Admin''" by simp
  with act show ?thesis by simp
qed

text \<open>The rows of the other users count as before; the user's own row counts if it should.\<close>

lemma count_after_sync:
  assumes ok: "identity_ok issuer d" and u: "u \<in> set (db_users d)" "ku_subject k = usr_subject u"
    and role: "ku_role k \<in> set FORMAL_ROLES" and sync: "sync_authoritative issuer k d = Inr (d', s)"
  shows "length (filter (enabled_admin_row d) (of_others (usr_id u) (db_user_roles d))) \<le> enabled_admin_count d'"
    and "ku_role k = ''Admin'' \<Longrightarrow> ku_enabled k \<Longrightarrow> 1 \<le> enabled_admin_count d'"
proof -
  note sy = sync_known_user [OF assms]
  have other: "enabled_admin_row d' ur \<longleftrightarrow> enabled_admin_row d ur" if "fst ur \<noteq> usr_id u" for ur
    using that sy find_update_row [of usr_id "synced k" "fst ur" "usr_id u" "db_users d"]
    by (simp add: enabled_admin_row_def)
  have "filter (enabled_admin_row d) (of_others (usr_id u) (db_user_roles d)) = filter (enabled_admin_row d') (of_others (usr_id u) (db_user_roles d'))"
    using sy by (intro filter_cong) (auto simp: of_others_def other)
  then show "length (filter (enabled_admin_row d) (of_others (usr_id u) (db_user_roles d))) \<le> enabled_admin_count d'"
    by (simp add: count_split [of d' "usr_id u"])
next
  note sy = sync_known_user [OF assms]
  assume adm: "ku_role k = ''Admin''" and en: "ku_enabled k"
  from sy obtain r where r: "r \<in> set (db_roles d)" "rol_name r = ''Admin''" "(usr_id u, rol_id r) \<in> set (db_user_roles d')"
    using adm by auto
  have "find_row rol_id (rol_id r) (db_roles d') = Some r"
    using sy r(1) ok find_row_unique [of rol_id "db_roles d" r] by (simp add: identity_ok_def unique_keys_def)
  moreover have "find_row usr_id (usr_id u) (db_users d') = Some (synced k u)"
    using sy find_row_of_id [OF ok u(1)] find_update_row [of usr_id "synced k" "usr_id u" "usr_id u" "db_users d"]
    by simp
  ultimately have "enabled_admin_row d' (usr_id u, rol_id r)"
    using r en by (simp add: enabled_admin_row_def enabled_status_def)
  with r(3) have "(usr_id u, rol_id r) \<in> set (filter (enabled_admin_row d') (db_user_roles d'))" by simp
  then have "0 < length (filter (enabled_admin_row d') (db_user_roles d'))" by (rule length_pos_if_in_set)
  then show "1 \<le> enabled_admin_count d'" by (simp add: enabled_admin_count_def Suc_le_eq)
qed

section \<open>The provider\<close>

text \<open>
  What \<open>update_user\<close> relies on of Keycloak's client: reading changes nothing and returns the
  subject asked for, a successful update or role replacement is what the next read returns, and
  ending sessions does not change the user.
\<close>

definition provider_ok :: "'k keycloak \<Rightarrow> bool" where
  "provider_ok kc \<longleftrightarrow>
     (\<forall>s k k1 u. kc_get kc s k = (k1, Inr u) \<longrightarrow> k1 = k \<and> ku_subject u = s)
     \<and> (\<forall>s n e en k k1 u. kc_get kc s k = (k, Inr u) \<longrightarrow> kc_update kc s n e en k = (k1, Inr ())
          \<longrightarrow> (\<exists>v. kc_get kc s k1 = (k1, Inr v) \<and> ku_enabled v = en \<and> ku_role v = ku_role u))
     \<and> (\<forall>s r k k1 u. kc_get kc s k = (k, Inr u) \<longrightarrow> kc_replace_role kc s r k = (k1, Inr ())
          \<longrightarrow> (\<exists>v. kc_get kc s k1 = (k1, Inr v) \<and> ku_enabled v = ku_enabled u \<and> ku_role v = r))
     \<and> (\<forall>s k k1 u. kc_get kc s k = (k, Inr u) \<longrightarrow> kc_logout kc s k = (k1, Inr ()) \<longrightarrow> kc_get kc s k1 = (k1, Inr u))"

lemma provider_okD:
  assumes "provider_ok kc"
  shows "kc_get kc s k = (k1, Inr u) \<Longrightarrow> k1 = k \<and> ku_subject u = s"
    and "kc_get kc s k = (k, Inr u) \<Longrightarrow> kc_update kc s n e en k = (k1, Inr ())
      \<Longrightarrow> \<exists>v. kc_get kc s k1 = (k1, Inr v) \<and> ku_enabled v = en \<and> ku_role v = ku_role u"
    and "kc_get kc s k = (k, Inr u) \<Longrightarrow> kc_replace_role kc s r k = (k1, Inr ())
      \<Longrightarrow> \<exists>v. kc_get kc s k1 = (k1, Inr v) \<and> ku_enabled v = ku_enabled u \<and> ku_role v = r"
    and "kc_get kc s k = (k, Inr u) \<Longrightarrow> kc_logout kc s k = (k1, Inr ()) \<Longrightarrow> kc_get kc s k1 = (k1, Inr u)"
  using assms unfolding provider_ok_def by blast+

lemma rbindE:
  assumes "rbind f g k = (k', Inr b)"
  obtains k1 a where "f k = (k1, Inr a)" "g a k1 = (k', Inr b)"
  using assms by (auto simp: rbind_def split: prod.splits sum.splits)

lemma local_stepE:
  assumes "local_step r k = (k', Inr b)"
  obtains "k' = k" "r = Inr b"
  using assms by (simp add: local_step_def)

lemma perform_ifE:
  assumes "perform_if b f k = (k', Inr ())"
  obtains "b" "f k = (k', Inr ())" | "\<not> b" "k' = k"
  using assms by (auto simp: perform_if_def local_step_def split: if_splits)

lemma apply_change_effect:
  assumes kc: "provider_ok kc" and cur: "kc_get kc s k = (k, Inr cur)"
    and app: "apply_change kc s c ch k = (k', Inr ())" and same: "uch_status ch = (uch_enabled ch \<noteq> ku_enabled cur)"
  shows "\<exists>u. kc_get kc s k' = (k', Inr u) \<and> ku_enabled u = uch_enabled ch
    \<and> ku_role u = (if uch_role ch then or_else (uc_role c) [] else ku_role cur)"
proof -
  from app obtain k1 k2
    where up: "perform_if (uch_profile ch \<or> uch_status ch) (kc_update kc s (uch_display_name ch) (uch_email ch) (uch_enabled ch)) k = (k1, Inr ())"
      and ro: "perform_if (uch_role ch) (kc_replace_role kc s (or_else (uc_role c) [])) k1 = (k2, Inr ())"
      and lo: "perform_if (uch_role ch \<or> uch_status ch) (kc_logout kc s) k2 = (k', Inr ())"
    unfolding apply_change_def by (elim rbindE) auto
  have "\<exists>u. kc_get kc s k1 = (k1, Inr u) \<and> ku_enabled u = uch_enabled ch \<and> ku_role u = ku_role cur"
    using up provider_okD(2) [OF kc cur] cur same by (elim perform_ifE) auto
  then obtain u1 where u1: "kc_get kc s k1 = (k1, Inr u1)" "ku_enabled u1 = uch_enabled ch" "ku_role u1 = ku_role cur" by blast
  have "\<exists>u. kc_get kc s k2 = (k2, Inr u) \<and> ku_enabled u = uch_enabled ch
      \<and> ku_role u = (if uch_role ch then or_else (uc_role c) [] else ku_role cur)"
    using ro provider_okD(3) [OF kc u1(1)] u1 by (elim perform_ifE) auto
  then obtain u2 where u2: "kc_get kc s k2 = (k2, Inr u2)" "ku_enabled u2 = uch_enabled ch"
      "ku_role u2 = (if uch_role ch then or_else (uc_role c) [] else ku_role cur)" by blast
  have "kc_get kc s k' = (k', Inr u2)"
    using lo provider_okD(4) [OF kc u2(1)] u2(1) by (elim perform_ifE) auto
  with u2 show ?thesis by blast
qed

text \<open>The audit entries leave the tables of users and roles alone.\<close>

lemma identity_audit_rows:
  assumes "identity_audit us pr action t rid m d = Inr d'"
  shows "db_users d' = db_users d \<and> db_roles d' = db_roles d \<and> db_user_roles d' = db_user_roles d"
  using assms by (auto simp: identity_audit_def append_audit_def Let_def elim!: bind_resultE)

lemma count_same_rows:
  "db_users d' = db_users d \<and> db_roles d' = db_roles d \<and> db_user_roles d' = db_user_roles d
     \<Longrightarrow> enabled_admin_count d' = enabled_admin_count d"
  by (simp add: enabled_admin_count_def enabled_admin_row_def [abs_def])

lemma identity_audit_count:
  "identity_audit us pr action t rid m d = Inr d' \<Longrightarrow> enabled_admin_count d' = enabled_admin_count d"
  by (rule count_same_rows, rule identity_audit_rows)

lemma update_audits_count:
  assumes "update_audits us pr rid ch cur auth t d = Inr d'"
  shows "enabled_admin_count d' = enabled_admin_count d"
proof -
  have opt: "enabled_admin_count y = enabled_admin_count x"
    if "(if b then identity_audit us pr action t rid m x else Inr x) = Inr y" for b action m x y
    using that identity_audit_count by (cases b) auto
  from assms obtain d1 d2 where "enabled_admin_count d1 = enabled_admin_count d" "enabled_admin_count d2 = enabled_admin_count d1"
      "enabled_admin_count d' = enabled_admin_count d2"
    unfolding update_audits_def Let_def by (elim bind_resultE) (metis opt)
  then show ?thesis by simp
qed

section \<open>An administrator stays\<close>

lemma protected:
  assumes "protect_admin_change pr u role c admins = Inr ()" and "role = Some ''Admin''" and "usr_status u = ''active''" and "admins \<le> 1"
  shows "uc_role c \<noteq> Some ''User''" and "uc_enabled c \<noteq> Some False"
  using assms by (auto simp: protect_admin_change_def removes_admin_def disables_admin_def Let_def require_def bind_result_def split: if_splits)

lemma update_transactionE:
  assumes "update_user kc us issuer pr i c rid d k = (k', Inr (d', u, n))" and "find_row usr_id i (db_users d) = Some u0"
    and "kc_get kc (usr_subject u0) k = (k, Inr cur)"
  obtains k1 k2 auth d1 s where "protect_admin_change pr u0 (formal_role_of i d) c (enabled_admin_count d) = Inr ()"
    and "apply_change kc (usr_subject u0) c (change_of c cur) k = (k1, Inr ())"
    and "kc_get kc (usr_subject u0) k1 = (k2, Inr auth)"
    and "sync_authoritative issuer auth d = Inr (d1, s)"
    and "update_audits us pr rid (change_of c cur) cur auth (sy_user s) d1 = Inr d'"
    and "n = enabled_admin_count d'"
proof -
  from assms(1) have "update_transaction kc us issuer pr i c rid d k = (k', Inr (d', u, n))"
    by (auto simp: update_user_def as_identity_error_def split: sum.splits prod.splits py_error.splits)
  then show ?thesis unfolding update_transaction_def
    by (elim rbindE local_stepE bind_resultE)
      (auto simp: user_by_id_def of_option_def assms(2,3) split: prod.splits elim!: bind_resultE intro!: that)
qed

text \<open>
  C12. Changing a user never takes the last enabled administrator away, provided the local role
  and status of that user are the ones Keycloak has.
\<close>

theorem last_admin_kept:
  assumes kc: "provider_ok kc" and ok: "identity_ok issuer d" and u: "find_row usr_id i (db_users d) = Some u"
    and cur: "kc_get kc (usr_subject u) k = (k, Inr cur)"
    and agree: "usr_status u = enabled_status (ku_enabled cur)" "formal_role_of i d = Some (ku_role cur)"
    and roles: "ku_role cur \<in> {''Admin'', ''User''}" "uc_role c \<in> {None, Some ''Admin'', Some ''User''}"
    and one: "1 \<le> enabled_admin_count d"
    and run: "update_user kc uuid_str issuer pr i c rid d k = (k', Inr (d', v, n))"
  shows "1 \<le> enabled_admin_count d' \<and> n = enabled_admin_count d'"
proof -
  obtain k1 k2 auth d1 s where prot: "protect_admin_change pr u (formal_role_of i d) c (enabled_admin_count d) = Inr ()"
    and app: "apply_change kc (usr_subject u) c (change_of c cur) k = (k1, Inr ())"
    and get: "kc_get kc (usr_subject u) k1 = (k2, Inr auth)" and sync: "sync_authoritative issuer auth d = Inr (d1, s)"
    and aud: "update_audits uuid_str pr rid (change_of c cur) cur auth (sy_user s) d1 = Inr d'" and n: "n = enabled_admin_count d'"
    by (rule update_transactionE [OF run u cur])
  let ?ch = "change_of c cur"
  from find_row_Some [OF u] have um: "u \<in> set (db_users d)" and i: "usr_id u = i" by simp_all
  have "uch_status ?ch = (uch_enabled ?ch \<noteq> ku_enabled cur)" by (simp add: change_of_def Let_def)
  from apply_change_effect [OF kc cur app this] get
  have auth: "ku_enabled auth = or_else (uc_enabled c) (ku_enabled cur)"
    "ku_role auth = (if uch_role ?ch then or_else (uc_role c) [] else ku_role cur)"
    by (auto simp: change_of_def Let_def)
  have sub: "ku_subject auth = usr_subject u" using provider_okD(1) [OF kc get] by simp
  have formal: "ku_role auth \<in> set FORMAL_ROLES"
    using auth(2) roles by (auto simp: change_of_def Let_def or_else_def FORMAL_ROLES_def)
  note after = count_after_sync [OF ok um sub formal sync]
  have same: "enabled_admin_count d' = enabled_admin_count d1" by (rule update_audits_count [OF aud])
  let ?others = "length (filter (enabled_admin_row d) (of_others (usr_id u) (db_user_roles d)))"
  let ?own = "filter (\<lambda>ur. fst ur = usr_id u \<and> enabled_admin_row d ur) (db_user_roles d)"
  have "1 \<le> enabled_admin_count d1"
  proof (cases "1 \<le> ?others")
    case True
    with after(1) show ?thesis by simp
  next
    case False
    with one count_split [of d "usr_id u"] own_admin_rows [OF ok um]
    have few: "enabled_admin_count d \<le> 1" and "0 < length ?own" by linarith+
    then obtain x where "(usr_id u, x) \<in> set (db_user_roles d)" "enabled_admin_row d (usr_id u, x)"
      by (auto simp: filter_empty_conv)
    from formal_role_rows [OF ok um _ this] agree(2) i
    have adm: "ku_role cur = ''Admin''" and act: "usr_status u = ''active''" by simp_all
    from protected [OF prot _ act few] agree(2) adm have "uc_role c \<noteq> Some ''User''" "uc_enabled c \<noteq> Some False" by simp_all
    moreover from act agree(1) have "ku_enabled cur" by (simp add: enabled_status_def split: if_splits)
    ultimately have "ku_role auth = ''Admin''" "ku_enabled auth"
      using auth adm roles(2) by (auto simp: change_of_def Let_def or_else_def split: option.splits)
    then show ?thesis by (rule after(2))
  qed
  with n same show ?thesis by simp
qed

text \<open>A directory of users, and a platform with two administrators of whom one becomes a user.\<close>

type_synonym directory = "string \<rightharpoonup> keycloak_user"

definition change_entry :: "string \<Rightarrow> (keycloak_user \<Rightarrow> keycloak_user) \<Rightarrow> (directory, unit) remote" where
  "change_entry s f k = (case k s of None \<Rightarrow> (k, Inl (IdentityError ''user_not_found'')) | Some u \<Rightarrow> (k(s \<mapsto> f u), Inr ()))"

definition directory_keycloak :: "directory keycloak" where
  "directory_keycloak = \<lparr>
     kc_get = \<lambda>s k. (k, case k s of None \<Rightarrow> Inl (IdentityError ''user_not_found'') | Some u \<Rightarrow> Inr (u\<lparr>ku_subject := s\<rparr>)),
     kc_list = \<lambda>_ k. (k, Inr []), kc_create = \<lambda>n _ _ _ k. (k, Inr n),
     kc_update = \<lambda>s n e en. change_entry s (\<lambda>u. u\<lparr>ku_display_name := n, ku_email := Some e, ku_enabled := en\<rparr>),
     kc_replace_role = \<lambda>s r. change_entry s (\<lambda>u. u\<lparr>ku_role := r\<rparr>),
     kc_set_password = \<lambda>_ _ k. (k, Inr ()), kc_logout = \<lambda>_ k. (k, Inr ()), kc_sessions = \<lambda>_ k. (k, Inr [])\<rparr>"

lemma directory_ok: "provider_ok directory_keycloak"
  by (auto simp: provider_ok_def directory_keycloak_def change_entry_def split: option.splits)

definition demo_person :: "string \<Rightarrow> keycloak_user" where
  "demo_person s = \<lparr>ku_subject = s, ku_username = s, ku_display_name = s, ku_email = None, ku_enabled = True, ku_role = ''Admin''\<rparr>"

definition demo_directory :: directory where
  "demo_directory = [''ann'' \<mapsto> demo_person ''ann'', ''bob'' \<mapsto> demo_person ''bob'']"

definition demo_local :: "nat \<Rightarrow> string \<Rightarrow> user" where
  "demo_local i s = \<lparr>usr_id = i, usr_issuer = ''kc'', usr_subject = s, usr_display_name = s, usr_email = None, usr_status = ''active''\<rparr>"

definition demo_admins :: db where
  "demo_admins = empty_db\<lparr>db_users := [demo_local 1 ''ann'', demo_local 2 ''bob''],
     db_roles := [\<lparr>rol_id = 1, rol_name = ''Admin''\<rparr>, \<lparr>rol_id = 2, rol_name = ''User''\<rparr>], db_user_roles := [(1, 1), (2, 1)]\<rparr>"

definition demo_demotion :: update_command where
  "demo_demotion = \<lparr>uc_display_name = None, uc_email = None, uc_role = Some ''User'', uc_enabled = None\<rparr>"

definition demo_ann :: principal where
  "demo_ann = (demo_user_principal ''ann'')\<lparr>pr_subject := ''ann'', pr_roles := [''Admin''], pr_scopes := [''users:manage'']\<rparr>"

theorem last_admin_kept_witness:
  "\<exists>k' d' v n. update_user directory_keycloak (\<lambda>_. ''id'') ''kc'' demo_ann 2 demo_demotion ''r'' demo_admins demo_directory
      = (k', Inr (d', v, n)) \<and> 1 \<le> enabled_admin_count d' \<and> n = enabled_admin_count d'"
proof -
  have "case snd (update_user directory_keycloak (\<lambda>_. ''id'') ''kc'' demo_ann 2 demo_demotion ''r'' demo_admins demo_directory)
      of Inl _ \<Rightarrow> False | Inr _ \<Rightarrow> True" by code_simp
  then obtain k' d' v n where run: "update_user directory_keycloak (\<lambda>_. ''id'') ''kc'' demo_ann 2 demo_demotion ''r''
      demo_admins demo_directory = (k', Inr (d', v, n))"
    by (cases "update_user directory_keycloak (\<lambda>_. ''id'') ''kc'' demo_ann 2 demo_demotion ''r'' demo_admins demo_directory")
      (auto split: sum.splits)
  have "1 \<le> enabled_admin_count d' \<and> n = enabled_admin_count d'"
  proof (rule last_admin_kept [OF directory_ok _ _ _ _ _ _ _ _ run])
    show "identity_ok ''kc'' demo_admins" by code_simp
    show "find_row usr_id 2 (db_users demo_admins) = Some (demo_local 2 ''bob'')" by code_simp
    show "kc_get directory_keycloak (usr_subject (demo_local 2 ''bob'')) demo_directory = (demo_directory, Inr (demo_person ''bob''))"
      by (simp add: directory_keycloak_def demo_directory_def demo_local_def demo_person_def)
    show "usr_status (demo_local 2 ''bob'') = enabled_status (ku_enabled (demo_person ''bob''))" by code_simp
    show "formal_role_of 2 demo_admins = Some (ku_role (demo_person ''bob''))" by code_simp
    show "ku_role (demo_person ''bob'') \<in> {''Admin'', ''User''}" by code_simp
    show "uc_role demo_demotion \<in> {None, Some ''Admin'', Some ''User''}" by code_simp
    show "1 \<le> enabled_admin_count demo_admins" by code_simp
  qed
  with run show ?thesis by blast
qed

text \<open>
  A change that would take the last enabled administrator away is refused before Keycloak
  is changed, and nothing is written locally.
\<close>

theorem last_admin_change_refused:
  assumes "provider_ok kc" and "find_row usr_id i (db_users d) = Some u" and "kc_get kc (usr_subject u) k = (k1, Inr cur)"
    and "formal_role_of i d = Some ''Admin''" and "usr_status u = ''active''" and "enabled_admin_count d \<le> 1"
    and "uc_role c = Some ''User'' \<or> uc_enabled c = Some False"
  shows "\<exists>e. update_user kc uuid_str issuer pr i c rid d k = (k, Inl e)"
proof -
  have "k1 = k" using provider_okD(1) [OF assms(1,3)] by simp
  have "\<exists>e. protect_admin_change pr u (formal_role_of i d) c (enabled_admin_count d) = Inl e"
    using protected [OF _ assms(4,5,6)] assms(7)
    by (cases "protect_admin_change pr u (formal_role_of i d) c (enabled_admin_count d)") auto
  then obtain e where "protect_admin_change pr u (formal_role_of i d) c (enabled_admin_count d) = Inl e" ..
  then have "update_transaction kc uuid_str issuer pr i c rid d k = (k, Inl e)"
    using assms(2,3) \<open>k1 = k\<close> by (simp add: update_transaction_def rbind_def local_step_def user_by_id_def of_option_def)
  then show ?thesis
    by (cases "require_user_admin pr"; cases e) (auto simp: update_user_def as_identity_error_def)
qed

theorem last_admin_change_refused_witness:
  "\<exists>e. update_user directory_keycloak (\<lambda>_. ''id'') ''kc'' demo_ann 2 demo_demotion ''r''
     (demo_admins\<lparr>db_user_roles := [(2, 1)]\<rparr>) demo_directory = (demo_directory, Inl e)"
proof (rule last_admin_change_refused [OF directory_ok])
  show "find_row usr_id 2 (db_users (demo_admins\<lparr>db_user_roles := [(2, 1)]\<rparr>)) = Some (demo_local 2 ''bob'')" by code_simp
  show "kc_get directory_keycloak (usr_subject (demo_local 2 ''bob'')) demo_directory = (demo_directory, Inr (demo_person ''bob''))"
    by (simp add: directory_keycloak_def demo_directory_def demo_local_def demo_person_def)
  show "formal_role_of 2 (demo_admins\<lparr>db_user_roles := [(2, 1)]\<rparr>) = Some ''Admin''" by code_simp
  show "usr_status (demo_local 2 ''bob'') = ''active''" by code_simp
  show "enabled_admin_count (demo_admins\<lparr>db_user_roles := [(2, 1)]\<rparr>) \<le> 1" by code_simp
  show "uc_role demo_demotion = Some ''User'' \<or> uc_enabled demo_demotion = Some False" by code_simp
qed

end
