(* ===== verification/GatewaySchema.thy ===== *)
theory GatewaySchema
  imports Json
begin

text \<open>
  The gateway's check of tool schemas (\<open>src/gateway/src/codex_gateway/request_adapter.py\<close>): the
  limits on a raw schema, and the expansion of local references under a budget. A JSON value
  that was decoded from text shares no containers, so the check on repeated containers never
  fires and is left out. The meta-schema check of the package \<open>jsonschema\<close> is an argument.
\<close>

section \<open>Errors\<close>

datatype gateway_error =
    InvalidRequest string "string option"
  | ModelNotFound string
  | RequestTooLarge string
  | CodexContextLimit string
  | CodexRateLimit string
  | CodexRuntimeFailure string
  | CodexInterrupted string
  | CodexUnavailable string
  | CodexTimeout string
  | InternalError

type_synonym 'a gresult = "gateway_error + 'a"

definition gbind :: "'a gresult \<Rightarrow> ('a \<Rightarrow> 'b gresult) \<Rightarrow> 'b gresult" where
  "gbind m f = (case m of Inl e \<Rightarrow> Inl e | Inr x \<Rightarrow> f x)"

definition grequire :: "bool \<Rightarrow> gateway_error \<Rightarrow> unit gresult" where
  "grequire b e = (if b then Inr () else Inl e)"

definition bad_tools :: "string \<Rightarrow> gateway_error" where
  "bad_tools message = InvalidRequest message (Some ''tools'')"

text \<open>The HTTP status and the code of the envelope.\<close>

definition error_status :: "gateway_error \<Rightarrow> int \<times> string" where
  "error_status e = (case e of InvalidRequest _ _ \<Rightarrow> (400, ''invalid_request'') | ModelNotFound _ \<Rightarrow> (404, ''model_not_found'')
     | RequestTooLarge _ \<Rightarrow> (413, ''request_too_large'') | CodexContextLimit _ \<Rightarrow> (400, ''codex_context_limit'')
     | CodexRateLimit _ \<Rightarrow> (429, ''codex_rate_limit'') | CodexRuntimeFailure _ \<Rightarrow> (502, ''codex_runtime_error'')
     | CodexInterrupted _ \<Rightarrow> (502, ''codex_interrupted'') | CodexUnavailable _ \<Rightarrow> (503, ''codex_unavailable'')
     | CodexTimeout _ \<Rightarrow> (504, ''codex_timeout'') | InternalError \<Rightarrow> (500, ''gateway_error''))"

section \<open>Text\<close>

text \<open>\<open>repr\<close> of a string of one-byte characters.\<close>

definition repr_char :: "char \<Rightarrow> char \<Rightarrow> string" where
  "repr_char quote c = (let n = of_char c :: nat in
     if c = quote \<or> n = 92 then [CHR 0x5C, c]
     else if n = 10 then CHR 0x5C # ''n'' else if n = 13 then CHR 0x5C # ''r'' else if n = 9 then CHR 0x5C # ''t''
     else if n < 32 \<or> (127 \<le> n \<and> n \<le> 160) \<or> n = 173 then CHR 0x5C # ''x'' @ [hex_digit (n div 16), hex_digit (n mod 16)]
     else [c])"

definition py_repr :: "string \<Rightarrow> string" where
  "py_repr s = (let quote = (if CHR 0x27 \<in> set s \<and> CHR 0x22 \<notin> set s then CHR 0x22 else CHR 0x27)
     in [quote] @ concat (map (repr_char quote) s) @ [quote])"

text \<open>
  \<open>json.dumps(value, ensure_ascii=False, separators=(",", ":"))\<close> keeps the order of the keys and
  leaves characters above 127 as they are; \<open>utf8_length\<close> is the length of the encoded text.
\<close>

definition raw_char :: "char \<Rightarrow> string" where
  "raw_char c = (if (of_char c :: nat) < 127 then json_escape_char c else [c])"

definition raw_quote :: "string \<Rightarrow> string" where
  "raw_quote s = [CHR 0x22] @ concat (map raw_char s) @ [CHR 0x22]"

fun json_raw :: "json \<Rightarrow> string" where
  "json_raw (JStr s) = raw_quote s"
| "json_raw (JList js) = ''['' @ join_with '','' (map json_raw js) @ '']''"
| "json_raw (JObj d) = ''{'' @ join_with '','' (map (\<lambda>(k, v). raw_quote k @ '':'' @ json_raw v) d) @ ''}''"
| "json_raw j = json_dumps j"

definition utf8_length :: "string \<Rightarrow> nat" where
  "utf8_length s = sum_list (map (\<lambda>c. if (of_char c :: nat) < 128 then 1 else 2) s)"

section \<open>Raw limits\<close>

definition MAX_REF_DEPTH :: nat where
  "MAX_REF_DEPTH = 64"

definition MAX_EXPANDED_NODES :: nat where
  "MAX_EXPANDED_NODES = 10000"

definition MAX_EXPANDED_BYTES :: nat where
  "MAX_EXPANDED_BYTES = 1048576"

definition MAX_RAW_SCHEMA_DEPTH :: nat where
  "MAX_RAW_SCHEMA_DEPTH = 128"

definition MAX_ARRAY_INDEX_DIGITS :: nat where
  "MAX_ARRAY_INDEX_DIGITS = 10"

fun json_children :: "json \<Rightarrow> json list" where
  "json_children (JList js) = js"
| "json_children (JObj d) = map snd d"
| "json_children _ = []"

text \<open>What one value adds to the byte count, its children apart.\<close>

fun basic_bytes :: "json \<Rightarrow> nat" where
  "basic_bytes (JStr s) = utf8_length s"
| "basic_bytes (JList js) = 2"
| "basic_bytes (JObj d) = 2 + sum_list (map (\<lambda>kv. utf8_length (fst kv)) d)"
| "basic_bytes _ = 8"

fun json_nodes :: "json \<Rightarrow> nat" where
  "json_nodes (JList js) = 1 + sum_list (map json_nodes js)"
| "json_nodes (JObj d) = 1 + sum_list (map (\<lambda>(_, v). json_nodes v) d)"
| "json_nodes _ = 1"

definition is_container :: "json \<Rightarrow> bool" where
  "is_container j = (case j of JList _ \<Rightarrow> True | JObj _ \<Rightarrow> True | _ \<Rightarrow> False)"

lemma nodes_children: "json_nodes j = 1 + sum_list (map json_nodes (json_children j))"
  by (cases j) (simp_all add: case_prod_unfold comp_def)

lemma children_nodes: "sum_list (map json_nodes (json_children j)) < json_nodes j"
  by (subst nodes_children [of j]) simp

text \<open>
  The stack's top is the head of the list: children are appended, and the last one is popped
  first.
\<close>

function preflight_loop :: "(json \<times> nat) list \<Rightarrow> nat \<Rightarrow> nat \<Rightarrow> unit gresult" where
  "preflight_loop [] nodes bytes = Inr ()"
| "preflight_loop ((value, depth) # pending) nodes bytes =
     (if MAX_RAW_SCHEMA_DEPTH < depth then Inl (bad_tools ''Tool schema is too complex: raw schema depth limit exceeded'')
      else if MAX_EXPANDED_NODES < nodes + 1 then Inl (bad_tools ''Tool schema is too complex: raw schema node limit exceeded'')
      else if is_container value \<and> MAX_EXPANDED_NODES < nodes + 1 + length pending + length (json_children value)
        then Inl (bad_tools ''Tool schema is too complex: raw schema node limit exceeded'')
      else if MAX_EXPANDED_BYTES < bytes + basic_bytes value
        then Inl (bad_tools ''Tool schema is too complex: raw schema size limit exceeded'')
      else preflight_loop (rev (map (\<lambda>v. (v, depth + 1)) (json_children value)) @ pending) (nodes + 1) (bytes + basic_bytes value))"
  by pat_completeness auto
termination
  by (relation "measure (\<lambda>(pending, _, _). sum_list (map (\<lambda>(v, _). json_nodes v) pending))")
    (auto simp: rev_map [symmetric] comp_def sum_list_rev children_nodes simp del: json_nodes.simps)

definition preflight_raw_schema :: "json \<Rightarrow> unit gresult" where
  "preflight_raw_schema schema = preflight_loop [(schema, 0)] 0 0"

section \<open>The budget of an expansion\<close>

record budget =
  eb_nodes :: nat
  eb_bytes :: nat

definition new_budget :: budget where
  "new_budget = \<lparr>eb_nodes = 0, eb_bytes = 0\<rparr>"

text \<open>
  \<open>left\<close> is what remains of the depth: 65 at the root, so 0 stands for a depth above the limit.
\<close>

definition charge_node :: "nat \<Rightarrow> budget \<Rightarrow> budget gresult" where
  "charge_node left b =
     (if left = 0 then Inl (bad_tools ''Tool schema is too complex: reference depth limit exceeded'')
      else if MAX_EXPANDED_NODES < eb_nodes b + 1
        then Inl (bad_tools ''Tool schema is too complex: expansion node limit exceeded'')
      else Inr (b\<lparr>eb_nodes := eb_nodes b + 1\<rparr>))"

definition encoded_size :: "json \<Rightarrow> nat" where
  "encoded_size j = utf8_length (json_raw j)"

definition charge_output :: "json \<Rightarrow> budget \<Rightarrow> budget gresult" where
  "charge_output j b =
     (if MAX_EXPANDED_BYTES < encoded_size j
        then Inl (bad_tools ''Tool schema is too complex: output size limit exceeded'')
      else if MAX_EXPANDED_BYTES < eb_bytes b + encoded_size j
        then Inl (bad_tools ''Tool schema is too complex: expansion size limit exceeded'')
      else Inr (b\<lparr>eb_bytes := eb_bytes b + encoded_size j\<rparr>))"

section \<open>Pointers\<close>

fun decode_segment :: "string \<Rightarrow> string \<Rightarrow> string gresult" where
  "decode_segment segment [] = Inr []"
| "decode_segment segment (c # cs) =
     (if c \<noteq> CHR 0x7E then gbind (decode_segment segment cs) (\<lambda>t. Inr (c # t))
      else (case cs of
         [] \<Rightarrow> Inl (bad_tools (''Invalid JSON pointer escape: '' @ py_repr segment))
       | e # cs' \<Rightarrow> (if e = CHR ''1'' then gbind (decode_segment segment cs') (\<lambda>t. Inr (CHR ''/'' # t))
           else if e = CHR ''0'' then gbind (decode_segment segment cs') (\<lambda>t. Inr (CHR 0x7E # t))
           else Inl (bad_tools (''Invalid JSON pointer escape: '' @ py_repr segment)))))"

definition decode_pointer_segment :: "string \<Rightarrow> string gresult" where
  "decode_pointer_segment segment = decode_segment segment segment"

definition unresolvable :: "string \<Rightarrow> gateway_error" where
  "unresolvable pointer = bad_tools (''Unresolvable tool schema reference: '' @ pointer)"

text \<open>The position a segment denotes in a list: at most ten digits, no leading zero.\<close>

definition array_index :: "string \<Rightarrow> nat option" where
  "array_index s = (if s \<noteq> [] \<and> list_all is_digit s \<and> length s \<le> MAX_ARRAY_INDEX_DIGITS \<and> \<not> (1 < length s \<and> hd s = CHR ''0'')
     then map_option nat (digits_value 0 s) else None)"

definition step_into :: "string \<Rightarrow> string \<Rightarrow> json \<Rightarrow> json gresult" where
  "step_into pointer segment current =
     (case current of
        JObj d \<Rightarrow> (case dict_get segment d of None \<Rightarrow> Inl (unresolvable pointer) | Some v \<Rightarrow> Inr v)
      | JList js \<Rightarrow> (case array_index segment of None \<Rightarrow> Inl (unresolvable pointer)
          | Some i \<Rightarrow> (if i < length js then Inr (js ! i) else Inl (unresolvable pointer)))
      | _ \<Rightarrow> Inl (unresolvable pointer))"

fun walk_pointer :: "string \<Rightarrow> string list \<Rightarrow> json \<Rightarrow> json gresult" where
  "walk_pointer pointer [] current = Inr current"
| "walk_pointer pointer (raw # raws) current =
     gbind (decode_pointer_segment raw) (\<lambda>segment.
     gbind (step_into pointer segment current) (walk_pointer pointer raws))"

definition resolve_pointer :: "json \<Rightarrow> string \<Rightarrow> json gresult" where
  "resolve_pointer schema pointer =
     (if pointer = ''#'' then Inr schema
      else if take 2 pointer \<noteq> ''#/'' then Inl (bad_tools ''Tool schemas must not contain external $ref values'')
      else walk_pointer pointer (split_char (CHR ''/'') (drop 2 pointer)) schema)"

section \<open>Expansion\<close>

text \<open>Which parts of an entry of a schema are schemas themselves.\<close>

datatype schema_part = NamedSchemas "(string \<times> json) list" | SchemaList "json list" | OneSchema json | PlainValue json

definition is_schema :: "json \<Rightarrow> bool" where
  "is_schema j = (case j of JBool _ \<Rightarrow> True | JObj _ \<Rightarrow> True | _ \<Rightarrow> False)"

definition SCHEMA_KEYS :: "string list" where
  "SCHEMA_KEYS = [''additionalItems'', ''additionalProperties'', ''contains'', ''propertyNames'', ''not'', ''if'', ''then'', ''else'']"

definition schema_part_of :: "string \<Rightarrow> json \<Rightarrow> schema_part" where
  "schema_part_of key value =
     (case value of
        JObj d \<Rightarrow> (if key \<in> {''properties'', ''patternProperties'', ''dependencies''} then NamedSchemas d
          else if key = ''items'' \<or> key \<in> set SCHEMA_KEYS then OneSchema value else PlainValue value)
      | JList js \<Rightarrow> (if key \<in> {''items'', ''allOf'', ''anyOf'', ''oneOf''} then SchemaList js else PlainValue value)
      | JBool b \<Rightarrow> (if key = ''items'' \<or> key \<in> set SCHEMA_KEYS then OneSchema value else PlainValue value)
      | _ \<Rightarrow> PlainValue value)"

text \<open>A visitor of one schema changes the budget; these apply it to the parts in order.\<close>

type_synonym visitor = "json \<Rightarrow> budget \<Rightarrow> (json \<times> budget) gresult"

fun visit_list :: "visitor \<Rightarrow> json list \<Rightarrow> budget \<Rightarrow> (json list \<times> budget) gresult" where
  "visit_list f [] b = Inr ([], b)"
| "visit_list f (j # js) b = gbind (f j b) (\<lambda>(j', b1). gbind (visit_list f js b1) (\<lambda>(js', b2). Inr (j' # js', b2)))"

text \<open>In \<open>dependencies\<close> only schemas are visited, lists of names are kept.\<close>

fun visit_named :: "visitor \<Rightarrow> bool \<Rightarrow> (string \<times> json) list \<Rightarrow> budget \<Rightarrow> ((string \<times> json) list \<times> budget) gresult" where
  "visit_named f keep [] b = Inr ([], b)"
| "visit_named f keep ((k, v) # kvs) b =
     gbind (if keep \<and> \<not> is_schema v then Inr (v, b) else f v b) (\<lambda>(v', b1).
     gbind (visit_named f keep kvs b1) (\<lambda>(kvs', b2). Inr ((k, v') # kvs', b2)))"

definition visit_value :: "visitor \<Rightarrow> string \<Rightarrow> json \<Rightarrow> budget \<Rightarrow> (json \<times> budget) gresult" where
  "visit_value f key value b =
     (case schema_part_of key value of
        NamedSchemas d \<Rightarrow> gbind (visit_named f (key = ''dependencies'') d b) (\<lambda>(d', b'). Inr (JObj d', b'))
      | SchemaList js \<Rightarrow> gbind (visit_list f js b) (\<lambda>(js', b'). Inr (JList js', b'))
      | OneSchema j \<Rightarrow> f j b
      | PlainValue j \<Rightarrow> Inr (j, b))"

fun visit_entries :: "visitor \<Rightarrow> (string \<times> json) list \<Rightarrow> budget \<Rightarrow> ((string \<times> json) list \<times> budget) gresult" where
  "visit_entries f [] b = Inr ([], b)"
| "visit_entries f ((k, v) # kvs) b =
     (if k \<in> {''$defs'', ''definitions''} then visit_entries f kvs b
      else gbind (visit_value f k v b) (\<lambda>(v', b1). gbind (visit_entries f kvs b1) (\<lambda>(kvs', b2). Inr ((k, v') # kvs', b2))))"

primrec visit_schema :: "nat \<Rightarrow> json \<Rightarrow> string list \<Rightarrow> visitor" where
  "visit_schema 0 schema stack node b = gbind (charge_node 0 b) (\<lambda>b1. Inr (node, b1))"
| "visit_schema (Suc left) schema stack node b =
     gbind (charge_node (Suc left) b) (\<lambda>b1.
       (case node of
          JBool _ \<Rightarrow> gbind (charge_output node b1) (\<lambda>b2. Inr (node, b2))
        | JObj d \<Rightarrow>
            (case dict_get ''$ref'' d of
               Some (JStr reference) \<Rightarrow>
                 (if reference \<in> set stack then Inl (bad_tools (''Recursive tool schema reference: '' @ reference))
                  else gbind (resolve_pointer schema reference) (\<lambda>target. visit_schema left schema (reference # stack) target b1))
             | Some _ \<Rightarrow> Inl (bad_tools ''Tool schema $ref values must be strings'')
             | None \<Rightarrow>
                 gbind (visit_entries (visit_schema left schema stack) d b1) (\<lambda>(d', b2).
                 gbind (charge_output (JObj d') b2) (\<lambda>b3. Inr (JObj d', b3))))
        | _ \<Rightarrow> Inl (bad_tools ''Tool schema references must resolve to a schema'')))"

definition inline_local_refs :: "json \<Rightarrow> budget \<Rightarrow> (json \<times> budget) gresult" where
  "inline_local_refs schema b = visit_schema (Suc MAX_REF_DEPTH) schema [] schema b"

end
