(* ===== verification/GatewaySchemaFacts.thy ===== *)
theory GatewaySchemaFacts
  imports GatewaySchema
begin

text \<open>
  The raw check decides exactly its three limits; what an expansion returns holds no
  reference where a schema can stand, stays within the budget, and is the schema itself when
  there was nothing to expand.
\<close>

section \<open>The raw check\<close>

fun json_height :: "json \<Rightarrow> nat" where
  "json_height (JList js) = (if js = [] then 0 else 1 + Max (set (map json_height js)))"
| "json_height (JObj d) = (if d = [] then 0 else 1 + Max (set (map (\<lambda>(_, v). json_height v) d)))"
| "json_height _ = 0"

fun json_bytes :: "json \<Rightarrow> nat" where
  "json_bytes (JList js) = 2 + sum_list (map json_bytes js)"
| "json_bytes (JObj d) = 2 + sum_list (map (\<lambda>(k, v). utf8_length k + json_bytes v) d)"
| "json_bytes j = basic_bytes j"

lemma bytes_children: "json_bytes j = basic_bytes j + sum_list (map json_bytes (json_children j))"
  by (cases j) (simp_all add: case_prod_unfold comp_def sum_list_addf)

lemma height_children: "d + json_height j \<le> m \<longleftrightarrow> d \<le> m \<and> (\<forall>c\<in>set (json_children j). d + 1 + json_height c \<le> m)"
proof -
  have Max: "d + (if xs = [] then 0 else 1 + Max (set (map f xs))) \<le> m \<longleftrightarrow> d \<le> m \<and> (\<forall>x\<in>set xs. d + 1 + f x \<le> m)"
    for xs :: "'b list" and f
  proof (cases "xs = []")
    case False
    have "d + (1 + Max (set (map f xs))) \<le> m \<longleftrightarrow> d + 1 \<le> m \<and> Max (set (map f xs)) \<le> m - (d + 1)" by linarith
    also have "Max (set (map f xs)) \<le> m - (d + 1) \<longleftrightarrow> (\<forall>x\<in>set xs. f x \<le> m - (d + 1))" using False by (subst Max_le_iff) auto
    finally show ?thesis using False by (cases xs) (auto, force+)
  qed simp
  show ?thesis using Max [of "[]"] Max [of _ json_height] Max [of _ "\<lambda>(_, v). json_height v"]
    by (cases j) (simp_all add: case_prod_unfold split del: if_split)
qed

lemma nodes_pos: "1 \<le> json_nodes j"
  by (cases j) simp_all

lemma nodes_many: "length js \<le> sum_list (map json_nodes js)"
proof (induction js)
  case (Cons a js)
  with nodes_pos [of a] show ?case by simp
qed simp

lemma preflight_loop_iff:
  assumes "nodes \<le> MAX_EXPANDED_NODES" and "bytes \<le> MAX_EXPANDED_BYTES"
  shows "preflight_loop pending nodes bytes = Inr () \<longleftrightarrow>
    (\<forall>(v, d)\<in>set pending. d + json_height v \<le> MAX_RAW_SCHEMA_DEPTH)
    \<and> nodes + sum_list (map (json_nodes \<circ> fst) pending) \<le> MAX_EXPANDED_NODES
    \<and> bytes + sum_list (map (json_bytes \<circ> fst) pending) \<le> MAX_EXPANDED_BYTES"
  using assms
proof (induction pending nodes bytes rule: preflight_loop.induct)
  case 1
  then show ?case by simp
next
  case (2 j depth pending nodes bytes)
  let ?cs = "json_children j"
  let ?early = "is_container j \<and> MAX_EXPANDED_NODES < nodes + 1 + length pending + length ?cs"
  have sums: "sum_list (map (f \<circ> fst) (rev (map (\<lambda>v. (v, depth + 1)) ?cs) @ pending)) = sum_list (map f ?cs) + sum_list (map (f \<circ> fst) pending)"
    for f :: "json \<Rightarrow> nat"
    by (simp add: rev_map [symmetric] comp_def sum_list_rev)
  have many: "length pending \<le> sum_list (map (json_nodes \<circ> fst) pending)"
    using nodes_many [of "map fst pending"] by (simp add: comp_def)
  have above: "\<not> nodes + sum_list (map (json_nodes \<circ> fst) ((j, depth) # pending)) \<le> MAX_EXPANDED_NODES" if ?early
    using that many nodes_many [of ?cs] by (simp add: nodes_children [of j])
  show ?case
  proof (cases "MAX_RAW_SCHEMA_DEPTH < depth \<or> MAX_EXPANDED_NODES < nodes + 1 \<or> ?early \<or> MAX_EXPANDED_BYTES < bytes + basic_bytes j")
    case True
    then have "preflight_loop ((j, depth) # pending) nodes bytes \<noteq> Inr ()"
      by (auto simp del: preflight_loop.simps simp: preflight_loop.simps(2))
    moreover have "MAX_RAW_SCHEMA_DEPTH < depth + json_height j
        \<or> MAX_EXPANDED_NODES < nodes + sum_list (map (json_nodes \<circ> fst) ((j, depth) # pending))
        \<or> MAX_EXPANDED_BYTES < bytes + sum_list (map (json_bytes \<circ> fst) ((j, depth) # pending))"
      using True above nodes_pos [of j] bytes_children [of j] by (auto simp: not_le)
    ultimately show ?thesis by (auto simp: comp_def simp del: preflight_loop.simps)
  next
    case False
    then have go: "preflight_loop ((j, depth) # pending) nodes bytes
        = preflight_loop (rev (map (\<lambda>v. (v, depth + 1)) ?cs) @ pending) (nodes + 1) (bytes + basic_bytes j)"
      by (auto simp del: preflight_loop.simps simp: preflight_loop.simps(2))
    let ?next = "rev (map (\<lambda>v. (v, depth + 1)) ?cs) @ pending"
    have IH: "preflight_loop ?next (nodes + 1) (bytes + basic_bytes j) = Inr () \<longleftrightarrow>
        (\<forall>(v, d)\<in>set ?next. d + json_height v \<le> MAX_RAW_SCHEMA_DEPTH)
        \<and> nodes + 1 + sum_list (map (json_nodes \<circ> fst) ?next) \<le> MAX_EXPANDED_NODES
        \<and> bytes + basic_bytes j + sum_list (map (json_bytes \<circ> fst) ?next) \<le> MAX_EXPANDED_BYTES"
      by (rule "2.IH") (use False in simp_all)
    have deep: "(\<forall>(v, d)\<in>set ?next. d + json_height v \<le> MAX_RAW_SCHEMA_DEPTH)
        \<longleftrightarrow> (\<forall>(v, d)\<in>set ((j, depth) # pending). d + json_height v \<le> MAX_RAW_SCHEMA_DEPTH)"
      using False height_children [of depth j MAX_RAW_SCHEMA_DEPTH] by (auto simp: ball_Un)
    have "sum_list (map (json_nodes \<circ> fst) ((j, depth) # pending)) = 1 + sum_list (map (json_nodes \<circ> fst) ?next)"
      "sum_list (map (json_bytes \<circ> fst) ((j, depth) # pending)) = basic_bytes j + sum_list (map (json_bytes \<circ> fst) ?next)"
      unfolding sums using nodes_children [of j] bytes_children [of j] by simp_all
    then show ?thesis unfolding go IH deep by (simp only: add.assoc)
  qed
qed

text \<open>
  The check of a raw schema accepts exactly the schemas of at most 10000 values, a nesting
  of at most 128 and a text of at most one mebibyte, although it stops reading at the first
  limit it sees broken.
\<close>

theorem preflight_decides_limits:
  "preflight_raw_schema schema = Inr () \<longleftrightarrow>
     json_height schema \<le> 128 \<and> json_nodes schema \<le> 10000 \<and> json_bytes schema \<le> 1048576"
  unfolding preflight_raw_schema_def
  by (subst preflight_loop_iff) (simp_all add: MAX_EXPANDED_NODES_def MAX_EXPANDED_BYTES_def MAX_RAW_SCHEMA_DEPTH_def)

section \<open>The expansion\<close>

lemma gbindE:
  assumes "gbind m f = Inr y"
  obtains x where "m = Inr x" "f x = Inr y"
  using assms by (auto simp: gbind_def split: sum.splits)

lemma gbind_simps [simp]: "gbind (Inr x) f = f x" "gbind (Inl e) f = Inl e"
  by (simp_all add: gbind_def)

text \<open>No reference and no definitions where a schema stands, at any depth.\<close>

definition part_schemas :: "string \<times> json \<Rightarrow> json list" where
  "part_schemas kv = (case schema_part_of (fst kv) (snd kv) of
     NamedSchemas d \<Rightarrow> filter (\<lambda>j. fst kv \<noteq> ''dependencies'' \<or> is_schema j) (map snd d)
   | SchemaList js \<Rightarrow> js | OneSchema j \<Rightarrow> [j] | PlainValue _ \<Rightarrow> [])"

inductive closed_schema :: "json \<Rightarrow> bool" where
  closed_bool: "closed_schema (JBool b)"
| closed_obj: "dict_get ''$ref'' d = None \<Longrightarrow> list_all (\<lambda>kv. fst kv \<notin> {''$defs'', ''definitions''}) d
    \<Longrightarrow> \<forall>kv\<in>set d. \<forall>j\<in>set (part_schemas kv). closed_schema j \<Longrightarrow> closed_schema (JObj d)"

lemma closed_is_schema: "closed_schema j \<Longrightarrow> is_schema j"
  by (erule closed_schema.cases) (simp_all add: is_schema_def)

definition closes :: "visitor \<Rightarrow> bool" where
  "closes f \<longleftrightarrow> (\<forall>j b j' b'. f j b = Inr (j', b') \<longrightarrow> closed_schema j')"

lemma closesD: "closes f \<Longrightarrow> f j b = Inr (j', b') \<Longrightarrow> closed_schema j'"
  by (auto simp: closes_def)

lemma visit_list_closed:
  assumes "closes f" and "visit_list f js b = Inr (js', b')"
  shows "\<forall>j\<in>set js'. closed_schema j"
  using assms(2) by (induction js arbitrary: js' b b') (auto elim!: gbindE dest: closesD [OF assms(1)])

lemma visit_named_closed:
  assumes "closes f" and "visit_named f keep d b = Inr (d', b')"
  shows "\<forall>kv\<in>set d'. closed_schema (snd kv) \<or> keep \<and> \<not> is_schema (snd kv)"
  using assms(2)
proof (induction d arbitrary: d' b b')
  case (Cons kv d)
  obtain k v where kv: "kv = (k, v)" by force
  from Cons.prems obtain v' b1 d1 b2 where v': "(if keep \<and> \<not> is_schema v then Inr (v, b) else f v b) = Inr (v', b1)"
    and d1: "visit_named f keep d b1 = Inr (d1, b2)" and d': "d' = (k, v') # d1"
    by (auto simp: kv elim!: gbindE simp del: split_paired_Ex split_paired_All)
  have "closed_schema v' \<or> keep \<and> \<not> is_schema v'"
  proof (cases "keep \<and> \<not> is_schema v")
    case True
    with v' show ?thesis by simp
  next
    case False
    then have "f v b = Inr (v', b1)" using v' by (simp only: if_False)
    then show ?thesis using closesD [OF assms(1)] by blast
  qed
  moreover from Cons.IH [OF d1]
  have "\<forall>kv\<in>set d1. closed_schema (snd kv) \<or> keep \<and> \<not> is_schema (snd kv)" .
  ultimately show ?case by (simp add: d')
qed simp

lemma visit_value_closed:
  assumes f: "closes f" and "visit_value f k v b = Inr (v', b')"
  shows "\<forall>j\<in>set (part_schemas (k, v')). closed_schema j"
proof (cases "schema_part_of k v")
  case (NamedSchemas d)
  with assms(2) obtain d' where d': "visit_named f (k = ''dependencies'') d b = Inr (d', b')" "v' = JObj d'"
    by (auto simp: visit_value_def elim!: gbindE)
  from NamedSchemas have "k \<in> {''properties'', ''patternProperties'', ''dependencies''}"
    by (auto simp: schema_part_of_def split: json.splits if_splits)
  with visit_named_closed [OF f d'(1)] d'(2) show ?thesis by (auto simp: part_schemas_def schema_part_of_def)
next
  case (SchemaList js)
  with assms(2) obtain js' where js': "visit_list f js b = Inr (js', b')" "v' = JList js'"
    by (auto simp: visit_value_def elim!: gbindE)
  from SchemaList have "k \<in> {''items'', ''allOf'', ''anyOf'', ''oneOf''}"
    by (auto simp: schema_part_of_def split: json.splits if_splits)
  with visit_list_closed [OF f js'(1)] js'(2) show ?thesis by (auto simp: part_schemas_def schema_part_of_def)
next
  case (OneSchema j)
  with assms(2) have c: "closed_schema v'" by (auto simp: visit_value_def dest: closesD [OF f])
  from OneSchema have "k = ''items'' \<or> k \<in> set SCHEMA_KEYS"
    by (auto simp: schema_part_of_def split: json.splits if_splits)
  moreover from c obtain e where "v' = JBool e \<or> (\<exists>d. v' = JObj d)" by (cases rule: closed_schema.cases) auto
  ultimately show ?thesis using c by (auto simp: part_schemas_def schema_part_of_def SCHEMA_KEYS_def)
next
  case (PlainValue j)
  then have "part_schemas (k, v) = []" "v' = v" using assms(2)
    by (auto simp: part_schemas_def visit_value_def schema_part_of_def split: json.splits if_splits)
  then show ?thesis by simp
qed

lemma visit_entries_closed:
  assumes f: "closes f" and "visit_entries f d b = Inr (d', b')"
  shows "(\<forall>kv\<in>set d'. fst kv \<in> fst ` set d \<and> fst kv \<notin> {''$defs'', ''definitions''} \<and> (\<forall>j\<in>set (part_schemas kv). closed_schema j))"
  using assms(2)
proof (induction d arbitrary: d' b b')
  case (Cons kv d)
  obtain k v where kv: "kv = (k, v)" by force
  show ?case
  proof (cases "k \<in> {''$defs'', ''definitions''}")
    case True
    with Cons show ?thesis by (auto simp: kv)
  next
    case False
    with Cons.prems obtain v' b1 d1 b2 where v': "visit_value f k v b = Inr (v', b1)"
      and d1: "visit_entries f d b1 = Inr (d1, b2)" and "d' = (k, v') # d1"
      by (auto simp: kv elim!: gbindE)
    with Cons.IH [OF d1] visit_value_closed [OF f v'] False show ?thesis by (auto simp: kv)
  qed
qed simp

lemma visit_schema_closed: "visit_schema left schema stack node b = Inr (out, b') \<Longrightarrow> closed_schema out"
proof (induction left arbitrary: stack node b out b')
  case 0
  then show ?case by (simp add: charge_node_def)
next
  case (Suc left)
  from Suc.prems obtain b1 where b1: "charge_node (Suc left) b = Inr b1" by (auto elim!: gbindE)
  show ?case
  proof (cases node)
    case (JBool e)
    with Suc.prems b1 show ?thesis by (auto elim!: gbindE intro: closed_bool)
  next
    case (JObj d)
    show ?thesis
    proof (cases "dict_get ''$ref'' d")
      case None
      with Suc.prems b1 JObj obtain d' b2 where d': "visit_entries (visit_schema left schema stack) d b1 = Inr (d', b2)"
        and out: "out = JObj d'" by (auto elim!: gbindE)
      have "closes (visit_schema left schema stack)" using Suc.IH by (auto simp: closes_def)
      note c = visit_entries_closed [OF this d']
      from None have "''$ref'' \<notin> fst ` set d" by (simp add: dict_get_None_iff)
      with c have "\<forall>kv\<in>set d'. fst kv \<noteq> ''$ref''" by metis
      then have "dict_get ''$ref'' d' = None" by (auto simp: dict_get_None_iff)
      with c show ?thesis unfolding out by (intro closed_obj) (auto simp: list_all_iff)
    next
      case (Some r)
      with Suc.prems b1 JObj Suc.IH show ?thesis by (auto elim!: gbindE split: json.splits if_splits)
    qed
  qed (use Suc.prems b1 in \<open>auto elim!: gbindE\<close>)
qed

section \<open>The budget\<close>

definition within :: "budget \<Rightarrow> budget \<Rightarrow> bool" where
  "within b b' \<longleftrightarrow> eb_nodes b \<le> eb_nodes b' \<and> eb_bytes b \<le> eb_bytes b'
     \<and> (eb_nodes b \<le> MAX_EXPANDED_NODES \<longrightarrow> eb_nodes b' \<le> MAX_EXPANDED_NODES)
     \<and> (eb_bytes b \<le> MAX_EXPANDED_BYTES \<longrightarrow> eb_bytes b' \<le> MAX_EXPANDED_BYTES)"

lemma within_refl: "within b b"
  by (simp add: within_def)

lemma within_trans [trans]: "within a b \<Longrightarrow> within b c \<Longrightarrow> within a c"
  by (auto simp: within_def)

definition charges :: "visitor \<Rightarrow> bool" where
  "charges f \<longleftrightarrow> (\<forall>j b j' b'. f j b = Inr (j', b') \<longrightarrow> within b b')"

lemma chargesD: "charges f \<Longrightarrow> f j b = Inr (j', b') \<Longrightarrow> within b b'"
  by (auto simp: charges_def)

lemma charge_node_within: "charge_node left b = Inr b' \<Longrightarrow> within b b'"
  by (auto simp: charge_node_def within_def split: if_splits)

lemma charge_output_within:
  "charge_output j b = Inr b' \<Longrightarrow> within b b' \<and> eb_bytes b' = eb_bytes b + encoded_size j"
  by (auto simp: charge_output_def within_def split: if_splits)

lemma visit_list_within: "charges f \<Longrightarrow> visit_list f js b = Inr (js', b') \<Longrightarrow> within b b'"
proof (induction js arbitrary: js' b b')
  case (Cons j js)
  from Cons.prems(2) obtain j' b1 js1 where j: "f j b = Inr (j', b1)" and js: "visit_list f js b1 = Inr (js1, b')"
    by (auto elim!: gbindE)
  note chargesD [OF Cons.prems(1) j]
  also note Cons.IH [OF Cons.prems(1) js]
  finally show ?case .
qed (simp add: within_refl)

lemma visit_named_within: "charges f \<Longrightarrow> visit_named f keep d b = Inr (d', b') \<Longrightarrow> within b b'"
proof (induction d arbitrary: d' b b')
  case (Cons kv d)
  obtain k v where kv: "kv = (k, v)" by force
  from Cons.prems(2) obtain v' b1 d1 where v: "(if keep \<and> \<not> is_schema v then Inr (v, b) else f v b) = Inr (v', b1)"
    and d: "visit_named f keep d b1 = Inr (d1, b')"
    by (auto simp: kv elim!: gbindE simp del: split_paired_Ex split_paired_All)
  have "within b b1"
  proof (cases "keep \<and> \<not> is_schema v")
    case True
    with v within_refl show ?thesis by simp
  next
    case False
    then have "f v b = Inr (v', b1)" using v by (simp only: if_False)
    then show ?thesis by (rule chargesD [OF Cons.prems(1)])
  qed
  also note Cons.IH [OF Cons.prems(1) d]
  finally show ?case .
qed (simp add: within_refl)

lemma visit_value_within: "charges f \<Longrightarrow> visit_value f k v b = Inr (v', b') \<Longrightarrow> within b b'"
  by (auto simp: visit_value_def split: schema_part.splits elim!: gbindE
      intro: visit_named_within visit_list_within within_refl dest: chargesD)

lemma visit_entries_within: "charges f \<Longrightarrow> visit_entries f d b = Inr (d', b') \<Longrightarrow> within b b'"
proof (induction d arbitrary: d' b b')
  case (Cons kv d)
  obtain k v where kv: "kv = (k, v)" by force
  show ?case
  proof (cases "k \<in> {''$defs'', ''definitions''}")
    case True
    with Cons show ?thesis by (auto simp: kv)
  next
    case False
    with Cons.prems(2) obtain v' b1 d1 where v: "visit_value f k v b = Inr (v', b1)" and d: "visit_entries f d b1 = Inr (d1, b')"
      by (auto simp: kv elim!: gbindE)
    note visit_value_within [OF Cons.prems(1) v]
    also note Cons.IH [OF Cons.prems(1) d]
    finally show ?thesis .
  qed
qed (simp add: within_refl)

lemma visit_schema_within:
  "visit_schema left schema stack node b = Inr (out, b') \<Longrightarrow> within b b' \<and> eb_bytes b + encoded_size out \<le> eb_bytes b' \<and> eb_nodes b < eb_nodes b'"
proof (induction left arbitrary: stack node b out b')
  case 0
  then show ?case by (simp add: charge_node_def)
next
  case (Suc left)
  from Suc.prems obtain b1 where b1: "charge_node (Suc left) b = Inr b1" by (auto elim!: gbindE)
  then have same: "eb_bytes b1 = eb_bytes b" "eb_nodes b < eb_nodes b1" by (auto simp: charge_node_def split: if_splits)
  have step: ?case if "within b1 b' \<and> eb_bytes b1 + encoded_size out \<le> eb_bytes b'"
  proof -
    from that have "within b1 b'" by simp
    with within_trans [OF charge_node_within [OF b1]] have "within b b'" by blast
    with that same show ?thesis by (auto simp: within_def)
  qed
  show ?case
  proof (cases node)
    case (JBool e)
    with Suc.prems b1 have "charge_output node b1 = Inr b'" "out = node" by (auto elim!: gbindE)
    with charge_output_within show ?thesis by (intro step) fastforce
  next
    case (JObj d)
    show ?thesis
    proof (cases "dict_get ''$ref'' d")
      case None
      with Suc.prems b1 JObj obtain d' b2 where d': "visit_entries (visit_schema left schema stack) d b1 = Inr (d', b2)"
        and out: "out = JObj d'" "charge_output (JObj d') b2 = Inr b'" by (auto elim!: gbindE)
      have "charges (visit_schema left schema stack)" using Suc.IH by (auto simp: charges_def)
      from visit_entries_within [OF this d'] charge_output_within [OF out(2)] show ?thesis
        by (intro step) (auto simp: within_def out(1))
    next
      case (Some r)
      with Suc.prems b1 JObj Suc.IH show ?thesis
        by (intro step) (auto elim!: gbindE split: json.splits if_splits)
    qed
  qed (use Suc.prems b1 in \<open>auto elim!: gbindE\<close>)
qed

text \<open>
  C30. A schema that \<open>inline_local_refs\<close> returns holds no reference and no definitions at any
  place where a schema stands; it is at most as large as what it took from the budget, which
  the tools of a request share and never overdraw.
\<close>

theorem expansion_closed_and_bounded:
  assumes "inline_local_refs schema b = Inr (out, b')" and "eb_nodes b \<le> 10000" and "eb_bytes b \<le> 1048576"
  shows "closed_schema out \<and> eb_bytes b + encoded_size out \<le> eb_bytes b' \<and> eb_bytes b' \<le> 1048576
    \<and> eb_nodes b < eb_nodes b' \<and> eb_nodes b' \<le> 10000"
proof -
  have v: "visit_schema (Suc MAX_REF_DEPTH) schema [] schema b = Inr (out, b')"
    using assms(1) by (simp add: inline_local_refs_def)
  show ?thesis
    using visit_schema_closed [OF v] visit_schema_within [OF v] assms(2,3)
    by (auto simp: within_def MAX_EXPANDED_NODES_def MAX_EXPANDED_BYTES_def)
qed

definition demo_schema :: json where
  "demo_schema = JObj [(''properties'', JObj [(''a'', JObj [(''$ref'', JStr ''#/definitions/x'')])]),
     (''definitions'', JObj [(''x'', JBool True)])]"

lemma demo_expansion:
  "inline_local_refs demo_schema new_budget
     = Inr (JObj [(''properties'', JObj [(''a'', JBool True)])], \<lparr>eb_nodes = 3, eb_bytes = 29\<rparr>)"
proof -
  obtain n where n: "MAX_REF_DEPTH = Suc (Suc n)" by (rule that [of 62]) (simp add: MAX_REF_DEPTH_def)
  have "resolve_pointer demo_schema ''#/definitions/x'' = Inr (JBool True)" by code_simp
  then show ?thesis
    by (simp add: inline_local_refs_def demo_schema_def new_budget_def n charge_node_def
        charge_output_def MAX_EXPANDED_NODES_def MAX_EXPANDED_BYTES_def visit_value_def schema_part_of_def
        encoded_size_def utf8_length_def raw_quote_def raw_char_def json_escape_char_def)
qed

theorem expansion_closed_and_bounded_witness:
  "\<exists>out b'. inline_local_refs demo_schema new_budget = Inr (out, b') \<and> closed_schema out
     \<and> eb_bytes new_budget + encoded_size out \<le> eb_bytes b' \<and> eb_bytes b' \<le> 1048576
     \<and> eb_nodes new_budget < eb_nodes b' \<and> eb_nodes b' \<le> 10000"
  using expansion_closed_and_bounded [OF demo_expansion] demo_expansion by (auto simp: new_budget_def)

section \<open>Schemas without references\<close>

definition keeps :: "visitor \<Rightarrow> bool" where
  "keeps f \<longleftrightarrow> (\<forall>j b j' b'. closed_schema j \<longrightarrow> f j b = Inr (j', b') \<longrightarrow> j' = j)"

lemma keepsD: "keeps f \<Longrightarrow> closed_schema j \<Longrightarrow> f j b = Inr (j', b') \<Longrightarrow> j' = j"
  by (auto simp: keeps_def)

lemma visit_list_keeps:
  "keeps f \<Longrightarrow> \<forall>j\<in>set js. closed_schema j \<Longrightarrow> visit_list f js b = Inr (js', b') \<Longrightarrow> js' = js"
  by (induction js arbitrary: js' b b') (auto elim!: gbindE dest: keepsD)

lemma visit_named_keeps:
  "keeps f \<Longrightarrow> \<forall>j\<in>set (filter (\<lambda>j. \<not> keep \<or> is_schema j) (map snd d)). closed_schema j
    \<Longrightarrow> visit_named f keep d b = Inr (d', b') \<Longrightarrow> d' = d"
proof (induction d arbitrary: d' b b')
  case (Cons kv d)
  obtain k v where kv: "kv = (k, v)" by force
  from Cons.prems(3) obtain v' b1 d1 where v: "(if keep \<and> \<not> is_schema v then Inr (v, b) else f v b) = Inr (v', b1)"
    and d: "visit_named f keep d b1 = Inr (d1, b')" and d': "d' = (k, v') # d1"
    by (auto simp: kv elim!: gbindE simp del: split_paired_Ex split_paired_All)
  have "v' = v"
  proof (cases "keep \<and> \<not> is_schema v")
    case True
    with v show ?thesis by simp
  next
    case False
    then have "f v b = Inr (v', b1)" using v by (simp only: if_False)
    moreover have "closed_schema v" using Cons.prems(2) False by (auto simp: kv)
    ultimately show ?thesis using keepsD [OF Cons.prems(1)] by blast
  qed
  moreover have "d1 = d" by (rule Cons.IH [OF Cons.prems(1) _ d]) (use Cons.prems(2) in auto)
  ultimately show ?case by (simp add: d' kv)
qed simp

lemma visit_value_keeps:
  assumes f: "keeps f" and c: "\<forall>j\<in>set (part_schemas (k, v)). closed_schema j" and v: "visit_value f k v b = Inr (v', b')"
  shows "v' = v"
proof (cases "schema_part_of k v")
  case (NamedSchemas d)
  then have "v = JObj d" by (auto simp: schema_part_of_def split: json.splits if_splits)
  moreover from v NamedSchemas obtain d' where d': "visit_named f (k = ''dependencies'') d b = Inr (d', b')" "v' = JObj d'"
    by (auto simp: visit_value_def elim!: gbindE)
  moreover have "d' = d" by (rule visit_named_keeps [OF f _ d'(1)]) (use c NamedSchemas in \<open>auto simp: part_schemas_def\<close>)
  ultimately show ?thesis by simp
next
  case (SchemaList js)
  then have "v = JList js" by (auto simp: schema_part_of_def split: json.splits if_splits)
  moreover from v SchemaList obtain js' where js': "visit_list f js b = Inr (js', b')" "v' = JList js'"
    by (auto simp: visit_value_def elim!: gbindE)
  moreover have "js' = js" by (rule visit_list_keeps [OF f _ js'(1)]) (use c SchemaList in \<open>auto simp: part_schemas_def\<close>)
  ultimately show ?thesis by simp
next
  case (OneSchema j)
  then have "v = j" by (auto simp: schema_part_of_def split: json.splits if_splits)
  with v c OneSchema keepsD [OF f] show ?thesis by (auto simp: visit_value_def part_schemas_def)
next
  case (PlainValue j)
  then have "v = j" by (auto simp: schema_part_of_def split: json.splits if_splits)
  with v PlainValue show ?thesis by (auto simp: visit_value_def)
qed

lemma visit_entries_keeps:
  "keeps f \<Longrightarrow> list_all (\<lambda>kv. fst kv \<notin> {''$defs'', ''definitions''}) d
    \<Longrightarrow> \<forall>kv\<in>set d. \<forall>j\<in>set (part_schemas kv). closed_schema j \<Longrightarrow> visit_entries f d b = Inr (d', b') \<Longrightarrow> d' = d"
proof (induction d arbitrary: d' b b')
  case (Cons kv d)
  obtain k v where kv: "kv = (k, v)" by force
  with Cons.prems(2,4) obtain v' b1 d1 where v: "visit_value f k v b = Inr (v', b1)" and d: "visit_entries f d b1 = Inr (d1, b')"
    and d': "d' = (k, v') # d1"
    by (auto elim!: gbindE)
  have "v' = v" by (rule visit_value_keeps [OF Cons.prems(1) _ v]) (use Cons.prems(3) in \<open>auto simp: kv\<close>)
  moreover have "d1 = d" by (rule Cons.IH [OF Cons.prems(1) _ _ d]) (use Cons.prems(2,3) in auto)
  ultimately show ?case by (simp add: d' kv)
qed simp

lemma visit_schema_keeps: "keeps (visit_schema left schema stack)"
proof (induction left arbitrary: stack)
  case 0
  then show ?case by (simp add: keeps_def charge_node_def)
next
  case (Suc left)
  show ?case unfolding keeps_def
  proof (intro allI impI)
    fix j b j' b' assume c: "closed_schema j" and v: "visit_schema (Suc left) schema stack j b = Inr (j', b')"
    from v obtain b1 where b1: "charge_node (Suc left) b = Inr b1" by (auto elim!: gbindE)
    from c show "j' = j"
    proof cases
      case (closed_bool e)
      with v b1 show ?thesis by (auto elim!: gbindE)
    next
      case (closed_obj d)
      with v b1 obtain d' b2 where d': "visit_entries (visit_schema left schema stack) d b1 = Inr (d', b2)"
        and out: "j' = JObj d'" by (auto elim!: gbindE)
      with visit_entries_keeps [OF Suc closed_obj(3,4) d'] closed_obj(1) show ?thesis by simp
    qed
  qed
qed

lemma expansion_keeps_closed:
  "closed_schema schema \<Longrightarrow> inline_local_refs schema b = Inr (out, b') \<Longrightarrow> out = schema"
  using keepsD [OF visit_schema_keeps] unfolding inline_local_refs_def by blast

end
