(* ===== verification/GatewayRoutes.thy ===== *)
theory GatewayRoutes
  imports Serving GatewayChat GatewaySchemaFacts
begin

text \<open>
  From the snapshot that admission pins to the models Codex runs: the runner's configuration of
  the agent graph (\<open>TradingAgentsRunner._build_config\<close>) sends the routes of its input as headers,
  and the gateway reads them back. The default configuration of the graph is an argument, and
  the graph sends \<open>llm_default_headers\<close> with every request.
\<close>

definition llm_headers :: "input_env \<Rightarrow> runner_input \<Rightarrow> dict" where
  "llm_headers env input =
     [(''X-TradingNG-Run-ID'', JStr (ie_uuid_text env (ri_run input))),
      (''X-TradingNG-Codex-Fast-Model'', JStr (fst (ri_fast input))),
      (''X-TradingNG-Codex-Fast-Reasoning-Effort'', JStr (snd (ri_fast input))),
      (''X-TradingNG-Codex-Slow-Model'', JStr (fst (ri_slow input))),
      (''X-TradingNG-Codex-Slow-Reasoning-Effort'', JStr (snd (ri_slow input)))]"

text \<open>\<open>directory\<close> gives the path of one of the directories of the run as text.\<close>

definition rstrip_slash :: "string \<Rightarrow> string" where
  "rstrip_slash s = rev (dropWhile (\<lambda>c. c = CHR ''/'') (rev s))"

definition build_config :: "dict \<Rightarrow> input_env \<Rightarrow> string \<Rightarrow> (string \<Rightarrow> string) \<Rightarrow> runner_input \<Rightarrow> dict" where
  "build_config default_config env gateway_url directory input = dict_update default_config
     [(''llm_provider'', JStr ''openai_compatible''), (''deep_think_llm'', JStr ''codex-slow''),
      (''quick_think_llm'', JStr ''codex-fast''), (''backend_url'', JStr (rstrip_slash gateway_url @ ''/v1'')),
      (''output_language'', JStr (ri_language input)), (''max_debate_rounds'', JInt (ri_debate_rounds input)),
      (''max_risk_discuss_rounds'', JInt (ri_risk_rounds input)), (''checkpoint_enabled'', JBool True),
      (''data_cache_dir'', JStr (directory ''cache'')), (''results_dir'', JStr (directory ''results'')),
      (''memory_log_path'', JStr (directory ''memory'' @ ''/trading_memory.md'')),
      (''data_vendors'', str_dict (ri_data_vendors input)), (''tool_vendors'', str_dict (ri_tool_vendors input)),
      (''llm_default_headers'', JObj (llm_headers env input))]"

text \<open>
  The headers as the gateway receives them: HTTP drops blanks around a value, so that a model or an
  effort that begins or ends with one is outside the model.
\<close>

definition header_text :: "string \<Rightarrow> json \<Rightarrow> string option" where
  "header_text k headers = (case json_get k headers of Some (JStr s) \<Rightarrow> Some s | _ \<Rightarrow> None)"

definition read_pins :: "json \<Rightarrow> pin_headers" where
  "read_pins headers = \<lparr>ph_run_id = header_text ''X-TradingNG-Run-ID'' headers,
     ph_model = header_text ''X-TradingNG-Codex-Model'' headers,
     ph_effort = header_text ''X-TradingNG-Codex-Reasoning-Effort'' headers,
     ph_fast_model = header_text ''X-TradingNG-Codex-Fast-Model'' headers,
     ph_fast_effort = header_text ''X-TradingNG-Codex-Fast-Reasoning-Effort'' headers,
     ph_slow_model = header_text ''X-TradingNG-Codex-Slow-Model'' headers,
     ph_slow_effort = header_text ''X-TradingNG-Codex-Slow-Reasoning-Effort'' headers\<rparr>"

section \<open>Routes\<close>

lemma read_own_headers: "read_pins (JObj (llm_headers env input)) =
    \<lparr>ph_run_id = Some (ie_uuid_text env (ri_run input)), ph_model = None, ph_effort = None,
     ph_fast_model = Some (fst (ri_fast input)), ph_fast_effort = Some (snd (ri_fast input)),
     ph_slow_model = Some (fst (ri_slow input)), ph_slow_effort = Some (snd (ri_slow input))\<rparr>"
  by (simp add: read_pins_def llm_headers_def header_text_def)

lemma has_text_Some: "has_text (Some s) \<longleftrightarrow> str_strip s \<noteq> []"
  by (simp add: has_text_def)

lemma complete_pair: "str_strip m \<noteq> [] \<Longrightarrow> str_strip e \<noteq> []
    \<Longrightarrow> complete_or_crash \<lparr>ec_model = Some m, ec_effort = Some e\<rparr> = Inr \<lparr>ec_model = Some m, ec_effort = Some e\<rparr>"
  by (simp add: complete_or_crash_def require_complete_def has_text_Some)

definition pair_config :: "string \<times> string \<Rightarrow> effective_config" where
  "pair_config p = \<lparr>ec_model = Some (fst p), ec_effort = Some (snd p)\<rparr>"

text \<open>A blank route is one the gateway takes for missing.\<close>

definition route_fits :: "string \<times> string \<Rightarrow> bool" where
  "route_fits p \<longleftrightarrow> str_strip (fst p) \<noteq> [] \<and> length (fst p) \<le> 128 \<and> str_strip (snd p) \<noteq> [] \<and> length (snd p) \<le> 32"

lemma blank_empty: "str_strip s \<noteq> [] \<Longrightarrow> s \<noteq> []"
  by (auto simp: str_strip_def)

lemma route_by_alias:
  assumes "route_fits (ri_fast input)" and "route_fits (ri_slow input)" and "run_id_ok (ie_uuid_text env (ri_run input))"
    and id: "str_strip (ie_uuid_text env (ri_run input)) \<noteq> []" and "cr_model r \<in> {''codex-fast'', ''codex-slow''}"
  shows "resolve_route catalog r (read_pins (JObj (llm_headers env input)))
    = Inr (Some (pair_config (if cr_model r = ''codex-fast'' then ri_fast input else ri_slow input)), True)"
  using assms
  by (auto simp: resolve_route_def private_route_def read_own_headers has_text_Some complete_pair check_pin_def grequire_def
      short_enough_def route_fits_def pair_config_def)

text \<open>
  C13. The models that admission pinned are the models Codex runs: whatever the agent graph asks
  of the gateway under one of the two aliases its configuration names, with the headers that
  configuration gives it, runs with exactly the model and effort the routing policy chose for
  that route when the run was admitted, and never with what Codex would otherwise use.
\<close>

theorem pinned_routes_reach_codex:
  assumes "build_run_snapshot aenv config gw m ms routing = Inr (cr_snapshot c, hash)"
    and "dict_get ''depth'' config = Some (JStr depth)"
    and "dict_get ''analysts'' config = Some (strings_json analysts)"
    and "dict_get ''language'' config = Some (JStr language)"
    and "dict_or_empty ''data_manifest'' config = Inr manifest"
    and "optional_snapshot_id manifest = Inr sid"
    and "dict_or_empty ''alpha_vantage'' (em_vendor_policies m) = Inr alpha"
    and "alpha_ok env alpha (rpm, attempts, retry_base, retry_max)"
    and "config_ok gw routing c analysts language"
    and "ie_memory env (memory_dump (env_uuid aenv) (env_show aenv) ms) = Inr ms"
    and "str_strip (mrt_model (rp_fast routing)) \<noteq> []" "str_strip (mrt_reasoning_effort (rp_fast routing)) \<noteq> []"
    and "str_strip (mrt_model (rp_slow routing)) \<noteq> []" "str_strip (mrt_reasoning_effort (rp_slow routing)) \<noteq> []"
    and "run_id_ok (ie_uuid_text env (cr_run c))" "str_strip (ie_uuid_text env (cr_run c)) \<noteq> []"
  shows "\<exists>input graph headers. build_runner_input env sha show c = Inr input
    \<and> build_config default_config env gateway_url directory input = graph
    \<and> dict_get ''quick_think_llm'' graph = Some (JStr ''codex-fast'')
    \<and> dict_get ''deep_think_llm'' graph = Some (JStr ''codex-slow'')
    \<and> dict_get ''llm_default_headers'' graph = Some headers
    \<and> (\<forall>r catalog. cr_model r = ''codex-fast'' \<longrightarrow> resolve_route catalog r (read_pins headers)
         = Inr (Some \<lparr>ec_model = Some (mrt_model (rp_fast routing)), ec_effort = Some (mrt_reasoning_effort (rp_fast routing))\<rparr>, True))
    \<and> (\<forall>r catalog. cr_model r = ''codex-slow'' \<longrightarrow> resolve_route catalog r (read_pins headers)
         = Inr (Some \<lparr>ec_model = Some (mrt_model (rp_slow routing)), ec_effort = Some (mrt_reasoning_effort (rp_slow routing))\<rparr>, True))"
proof -
  obtain input where input: "build_runner_input env sha show c = Inr input"
    and fast: "ri_fast input = (mrt_model (rp_fast routing), mrt_reasoning_effort (rp_fast routing))"
    and slow: "ri_slow input = (mrt_model (rp_slow routing), mrt_reasoning_effort (rp_slow routing))"
    and run: "ri_run input = cr_run c"
    using config_handoff [OF assms(1-10)] by blast
  have "route_fits (ri_fast input)" "route_fits (ri_slow input)"
    using assms(9,11-14) by (simp_all add: route_fits_def fast slow config_ok_def route_ok_def)
  note routed = route_by_alias [OF this, of env, unfolded run, OF assms(15,16)]
  let ?graph = "build_config default_config env gateway_url directory input"
  have "dict_get ''quick_think_llm'' ?graph = Some (JStr ''codex-fast'')"
    "dict_get ''deep_think_llm'' ?graph = Some (JStr ''codex-slow'')"
    "dict_get ''llm_default_headers'' ?graph = Some (JObj (llm_headers env input))"
    by (simp_all add: build_config_def)
  with input routed show ?thesis by (auto simp: pair_config_def fast slow)
qed

definition route_request :: "string \<Rightarrow> chat_request" where
  "route_request model = \<lparr>cr_model = model, cr_reasoning_effort = None, cr_messages = [], cr_tools = [], cr_tool_choice = None, cr_parallel = None\<rparr>"

theorem pinned_routes_reach_codex_witness:
  "\<exists>content hash input headers. build_run_snapshot demo_env handoff_config demo_gateway demo_metadata handoff_memory
       default_routing = Inr (content, hash)
     \<and> build_runner_input handoff_env (\<lambda>_. ''h'') (\<lambda>_. ''0'')
          \<lparr>cr_run = 4, cr_ticker = ''SPY'', cr_asset_type = ''fund'', cr_analysis_date = 739000, cr_snapshot = content\<rparr>
        = Inr input
     \<and> dict_get ''llm_default_headers'' (build_config [] handoff_env ''http://g/'' (\<lambda>d. d) input) = Some headers
     \<and> resolve_route (Inr []) (route_request ''codex-fast'') (read_pins headers)
        = Inr (Some \<lparr>ec_model = Some ''gpt-5.6-terra'', ec_effort = Some ''high''\<rparr>, True)"
proof -
  have depth: "dict_get ''depth'' handoff_config = Some (JStr ''deep'')" by code_simp
  have rounds: "depth_rounds ''deep'' = Inr (3, 3)" by code_simp
  obtain content hash where built: "build_run_snapshot demo_env handoff_config demo_gateway demo_metadata
      handoff_memory default_routing = Inr (content, hash)"
    using depth rounds by (simp add: build_run_snapshot_def Let_def)
  let ?c = "\<lparr>cr_run = 4, cr_ticker = ''SPY'', cr_asset_type = ''fund'', cr_analysis_date = 739000,
    cr_snapshot = content\<rparr>"
  have built': "build_run_snapshot demo_env handoff_config demo_gateway demo_metadata handoff_memory
      default_routing = Inr (cr_snapshot ?c, hash)" using built by simp
  have "dict_get ''analysts'' handoff_config = Some (strings_json [''market''])"
    and "dict_get ''language'' handoff_config = Some (JStr ''en'')"
    and "dict_or_empty ''data_manifest'' handoff_config = Inr []"
    by (simp_all add: handoff_config_def dict_or_empty_def)
  moreover have "optional_snapshot_id [] = Inr None" by (simp add: optional_snapshot_id_def)
  moreover have "dict_or_empty ''alpha_vantage'' (em_vendor_policies demo_metadata) = Inr []"
    by (simp add: dict_or_empty_def demo_metadata_def)
  moreover have "alpha_ok handoff_env [] (75, 6, 5, 60)"
    by (simp add: alpha_ok_def bounded_int_def bounded_number_def dict_default_def handoff_env_def)
  moreover have "config_ok demo_gateway default_routing ?c [''market''] ''en''"
    by (simp add: config_ok_def route_ok_def demo_gateway_def default_routing_def)
  moreover have "ie_memory handoff_env (memory_dump (env_uuid demo_env) (env_show demo_env) handoff_memory)
      = Inr handoff_memory"
    by (simp add: handoff_env_def)
  moreover have "str_strip (mrt_model (rp_fast default_routing)) \<noteq> []" "str_strip (mrt_reasoning_effort (rp_fast default_routing)) \<noteq> []"
      "str_strip (mrt_model (rp_slow default_routing)) \<noteq> []" "str_strip (mrt_reasoning_effort (rp_slow default_routing)) \<noteq> []"
      "run_id_ok (ie_uuid_text handoff_env (cr_run ?c))" "str_strip (ie_uuid_text handoff_env (cr_run ?c)) \<noteq> []"
    by code_simp+
  ultimately have "\<exists>input graph headers. build_runner_input handoff_env (\<lambda>_. ''h'') (\<lambda>_. ''0'') ?c = Inr input
    \<and> build_config [] handoff_env ''http://g/'' (\<lambda>d. d) input = graph
    \<and> dict_get ''quick_think_llm'' graph = Some (JStr ''codex-fast'')
    \<and> dict_get ''deep_think_llm'' graph = Some (JStr ''codex-slow'')
    \<and> dict_get ''llm_default_headers'' graph = Some headers
    \<and> (\<forall>r catalog. cr_model r = ''codex-fast'' \<longrightarrow> resolve_route catalog r (read_pins headers)
         = Inr (Some \<lparr>ec_model = Some (mrt_model (rp_fast default_routing)), ec_effort = Some (mrt_reasoning_effort (rp_fast default_routing))\<rparr>, True))
    \<and> (\<forall>r catalog. cr_model r = ''codex-slow'' \<longrightarrow> resolve_route catalog r (read_pins headers)
         = Inr (Some \<lparr>ec_model = Some (mrt_model (rp_slow default_routing)), ec_effort = Some (mrt_reasoning_effort (rp_slow default_routing))\<rparr>, True))"
    by (rule pinned_routes_reach_codex [OF built' depth])
  then obtain input graph headers where i: "build_runner_input handoff_env (\<lambda>_. ''h'') (\<lambda>_. ''0'') ?c = Inr input"
    and g: "build_config [] handoff_env ''http://g/'' (\<lambda>d. d) input = graph" "dict_get ''llm_default_headers'' graph = Some headers"
    and r: "\<And>r catalog. cr_model r = ''codex-fast'' \<Longrightarrow> resolve_route catalog r (read_pins headers)
         = Inr (Some \<lparr>ec_model = Some (mrt_model (rp_fast default_routing)), ec_effort = Some (mrt_reasoning_effort (rp_fast default_routing))\<rparr>, True)"
    by blast
  have "resolve_route (Inr []) (route_request ''codex-fast'') (read_pins headers)
      = Inr (Some \<lparr>ec_model = Some ''gpt-5.6-terra'', ec_effort = Some ''high''\<rparr>, True)"
    using r [of "route_request ''codex-fast''" "Inr []"] by (simp add: route_request_def default_routing_def)
  then show ?thesis using built i g(2) unfolding g(1) [symmetric] by blast
qed

end
