(* ===== verification/GatewayRuntime.thy ===== *)
theory GatewayRuntime
  imports GatewayChat Complex_Main
begin

text \<open>
  The runtime of the gateway (\<open>runtime.py\<close>): one app-server process at a time, the turns it
  serves, its replacement and its restart. Between two awaits the event loop runs nothing else,
  so each definition is such a segment and theorems interleave them freely. A transport is a
  number; \<open>rt_alive\<close> lists those whose process runs and that were not stopped: only on these does a
  request succeed. \<open>rt_launching\<close> is the launch that holds the lifecycle lock, and whether the restart
  loop made it; an operation that needs the lock changes nothing until it is free. Times are those of the monotonic clock. \<open>trunc\<close> is \<open>int\<close> of a float's text.
\<close>

section \<open>State\<close>

datatype future = Waiting | Answered json token_usage | Broken gateway_error | Cancelled

record activity =
  av_started_at :: int
  av_last_progress_at :: int
  av_request_id :: "string option"
  av_run_id :: "string option"
  av_retry_count :: int
  av_thread_id :: "string option"
  av_turn_id :: "string option"
  av_transport :: "nat option"

record turn_state =
  ts_future :: future
  ts_activity :: nat
  ts_message :: "json option"
  ts_usage :: token_usage

record runtime =
  rt_transport :: "nat option"
  rt_alive :: "nat list"
  rt_next_transport :: nat
  rt_launching :: "(nat \<times> bool) option"
  rt_turns :: "string \<Rightarrow> turn_state option"
  rt_activities :: "(nat \<times> activity) list"
  rt_next_activity :: nat
  rt_ready :: bool
  rt_stopping :: bool
  rt_restart :: "nat option"
  rt_exits :: nat
  rt_last_error :: string

definition new_runtime :: runtime where
  "new_runtime = \<lparr>rt_transport = None, rt_alive = [], rt_next_transport = 0, rt_launching = None, rt_turns = (\<lambda>_. None),
     rt_activities = [], rt_next_activity = 1, rt_ready = False, rt_stopping = False, rt_restart = None, rt_exits = 0,
     rt_last_error = ''not started''\<rparr>"

record runtime_activity =
  ra_accepting :: bool
  ra_active :: nat
  ra_oldest :: "int option"
  ra_stalest :: "int option"

definition longest :: "int \<Rightarrow> int list \<Rightarrow> int option" where
  "longest now ts = (case ts of [] \<Rightarrow> None | _ \<Rightarrow> Some (foldr max (map (\<lambda>t. max 0 (now - t)) ts) 0))"

definition activity_snapshot :: "int \<Rightarrow> runtime \<Rightarrow> runtime_activity" where
  "activity_snapshot now rt = \<lparr>ra_accepting = (rt_ready rt \<and> \<not> rt_stopping rt), ra_active = length (rt_activities rt),
     ra_oldest = longest now (map (av_started_at \<circ> snd) (rt_activities rt)),
     ra_stalest = longest now (map (av_last_progress_at \<circ> snd) (rt_activities rt))\<rparr>"

section \<open>Error codes\<close>

definition casefold_char :: "char \<Rightarrow> char" where
  "casefold_char c = (if is_upper_ascii c then char_of (of_char c + (32 :: nat)) else c)"

definition normalize_error_info :: "json option \<Rightarrow> string option" where
  "normalize_error_info info =
     (let code = (\<lambda>raw. case filter (\<lambda>c. is_lower_ascii c \<or> is_digit c) (map casefold_char raw) of [] \<Rightarrow> None | s \<Rightarrow> Some s) in
      case info of Some (JStr raw) \<Rightarrow> code raw | Some (JObj ((k, _) # _)) \<Rightarrow> code k | _ \<Rightarrow> None)"

definition RATE_LIMIT_CODES :: "string list" where
  "RATE_LIMIT_CODES = [''usagelimitexceeded'', ''serveroverloaded'', ''sessionbudgetexceeded'']"

definition UNAUTHORIZED_CODES :: "string list" where
  "UNAUTHORIZED_CODES = [''unauthorized'']"

definition CONTEXT_LIMIT_CODES :: "string list" where
  "CONTEXT_LIMIT_CODES = [''contextwindowexceeded'']"

definition turn_error :: "json option \<Rightarrow> string option \<Rightarrow> gateway_error" where
  "turn_error status code =
     (if code \<in> Some ` set RATE_LIMIT_CODES then CodexRateLimit ''Codex capacity or session budget was exceeded''
      else if code \<in> Some ` set UNAUTHORIZED_CODES then CodexUnavailable ''Codex authentication is unavailable''
      else if code \<in> Some ` set CONTEXT_LIMIT_CODES then CodexContextLimit ''Codex context window was exceeded''
      else if status = Some (JStr ''interrupted'') then CodexInterrupted ''Codex turn was interrupted''
      else CodexRuntimeFailure ''Codex turn failed'')"

section \<open>Notifications\<close>

text \<open>\<open>d.get(k) or {}\<close>, used as a dictionary; \<open>None\<close> is an \<open>AttributeError\<close>.\<close>

definition sub_dict :: "string \<Rightarrow> (string \<times> json) list \<Rightarrow> (string \<times> json) list option" where
  "sub_dict k d = (case dict_get k d of None \<Rightarrow> Some []
     | Some j \<Rightarrow> if \<not> json_truthy j then Some [] else (case j of JObj e \<Rightarrow> Some e | _ \<Rightarrow> None))"

definition token_count :: "(string \<Rightarrow> int option) \<Rightarrow> json option \<Rightarrow> int option" where
  "token_count trunc v = (case v of None \<Rightarrow> Some 0 | Some (JInt i) \<Rightarrow> Some i | Some (JBool b) \<Rightarrow> Some (if b then 1 else 0)
     | Some (JFloat s) \<Rightarrow> trunc s | Some (JStr s) \<Rightarrow> (case int_of_text s of Inr i \<Rightarrow> Some i | Inl _ \<Rightarrow> None) | Some _ \<Rightarrow> None)"

definition null_none :: "json option \<Rightarrow> json option" where
  "null_none v = (if v = Some JNull then None else v)"

fun last_message :: "json list \<Rightarrow> json option option" where
  "last_message [] = Some None"
| "last_message (JObj d # items) =
     (if dict_get ''type'' d = Some (JStr ''agentMessage'') then Some (null_none (dict_get ''text'' d)) else last_message items)"
| "last_message (_ # items) = None"

definition turn_items :: "(string \<times> json) list \<Rightarrow> json list option" where
  "turn_items d = (case dict_get ''items'' d of None \<Rightarrow> Some []
     | Some j \<Rightarrow> if \<not> json_truthy j then Some [] else (case j of JList l \<Rightarrow> Some l | _ \<Rightarrow> None))"

definition final_message :: "turn_state \<Rightarrow> (string \<times> json) list \<Rightarrow> json option option" where
  "final_message t d = (case ts_message t of Some m \<Rightarrow> Some (Some m)
     | None \<Rightarrow> (case turn_items d of None \<Rightarrow> None | Some items \<Rightarrow> last_message (rev items)))"

text \<open>
  The state of the turn after a notification and whether Codex has lost its authorisation;
  \<open>None\<close> is an exception, which breaks the turn.
\<close>

definition turn_completed :: "(string \<times> json) list \<Rightarrow> turn_state \<Rightarrow> (turn_state \<times> bool) option" where
  "turn_completed d t =
     (case (final_message t d, sub_dict ''error'' d) of
        (Some m, Some err) \<Rightarrow>
          (let code = normalize_error_info (dict_get ''codexErrorInfo'' err); status = dict_get ''status'' d; t1 = t\<lparr>ts_message := m\<rparr> in
           (case (status = Some (JStr ''completed''), m) of
              (True, Some text) \<Rightarrow> Some (t1\<lparr>ts_future := Answered text (ts_usage t)\<rparr>, False)
            | _ \<Rightarrow> Some (t1\<lparr>ts_future := Broken (turn_error status code)\<rparr>,
                   code \<notin> Some ` set RATE_LIMIT_CODES \<and> code \<in> Some ` set UNAUTHORIZED_CODES)))
      | _ \<Rightarrow> None)"

definition apply_notification ::
    "(string \<Rightarrow> int option) \<Rightarrow> string \<Rightarrow> (string \<times> json) list \<Rightarrow> turn_state \<Rightarrow> (turn_state \<times> bool) option" where
  "apply_notification trunc method params t =
     (if method = ''item/completed'' then
        (case sub_dict ''item'' params of None \<Rightarrow> None
         | Some d \<Rightarrow> Some (if dict_get ''type'' d = Some (JStr ''agentMessage'')
             then t\<lparr>ts_message := null_none (dict_get ''text'' d)\<rparr> else t, False))
      else if method = ''thread/tokenUsage/updated'' then
        (case sub_dict ''tokenUsage'' params of None \<Rightarrow> None
         | Some u \<Rightarrow> (case sub_dict ''last'' u of None \<Rightarrow> None
            | Some l \<Rightarrow> (case (token_count trunc (dict_get ''inputTokens'' l), token_count trunc (dict_get ''outputTokens'' l)) of
                (Some i, Some out) \<Rightarrow> Some (t\<lparr>ts_usage := \<lparr>tu_prompt = i, tu_completion = out\<rparr>\<rparr>, False)
              | _ \<Rightarrow> None)))
      else if method \<noteq> ''turn/completed'' \<or> ts_future t \<noteq> Waiting then Some (t, False)
      else (case sub_dict ''turn'' params of None \<Rightarrow> None | Some d \<Rightarrow> turn_completed d t))"

definition break_turn :: "gateway_error \<Rightarrow> turn_state \<Rightarrow> turn_state" where
  "break_turn e t = (if ts_future t = Waiting then t\<lparr>ts_future := Broken e\<rparr> else t)"

definition fail_turns :: "gateway_error \<Rightarrow> runtime \<Rightarrow> runtime" where
  "fail_turns e rt = rt\<lparr>rt_turns := map_option (break_turn e) \<circ> rt_turns rt\<rparr>"

definition on_activity :: "nat \<Rightarrow> (activity \<Rightarrow> activity) \<Rightarrow> runtime \<Rightarrow> runtime" where
  "on_activity i f rt = rt\<lparr>rt_activities := map (\<lambda>(j, a). (j, if j = i then f a else a)) (rt_activities rt)\<rparr>"

definition handle_notification ::
    "(string \<Rightarrow> int option) \<Rightarrow> int \<Rightarrow> string \<Rightarrow> (string \<times> json) list \<Rightarrow> runtime \<Rightarrow> runtime" where
  "handle_notification trunc now method params rt =
     (case dict_get ''threadId'' params of
        Some (JStr thread) \<Rightarrow>
          (case rt_turns rt thread of
             None \<Rightarrow> rt
           | Some t \<Rightarrow>
               (let rt1 = on_activity (ts_activity t) (\<lambda>a. a\<lparr>av_last_progress_at := now\<rparr>) rt in
                (case apply_notification trunc method params t of
                   None \<Rightarrow> rt1\<lparr>rt_turns := (rt_turns rt)(thread \<mapsto> break_turn (CodexRuntimeFailure ''Codex app-server notification was invalid'') t)\<rparr>
                 | Some (t', lost) \<Rightarrow>
                     (let rt2 = rt1\<lparr>rt_turns := (rt_turns rt)(thread \<mapsto> t')\<rparr> in
                      if lost then rt2\<lparr>rt_ready := False, rt_last_error := ''Codex authentication is unavailable''\<rparr> else rt2))))
      | _ \<Rightarrow> rt)"

definition on_notification ::
    "(string \<Rightarrow> int option) \<Rightarrow> int \<Rightarrow> nat \<Rightarrow> string \<Rightarrow> (string \<times> json) list \<Rightarrow> runtime \<Rightarrow> runtime" where
  "on_notification trunc now t method params rt =
     (if rt_transport rt = Some t then handle_notification trunc now method params rt else rt)"

section \<open>The process\<close>

definition RESTART_DELAYS :: "rat list" where
  "RESTART_DELAYS = [1/2, 1, 2, 4, 5]"

definition restart_delay :: "nat \<Rightarrow> rat" where
  "restart_delay attempt = RESTART_DELAYS ! min attempt (length RESTART_DELAYS - 1)"

definition schedule_restart :: "runtime \<Rightarrow> runtime" where
  "schedule_restart rt = (if \<not> rt_stopping rt \<and> rt_restart rt = None then rt\<lparr>rt_restart := Some 0\<rparr> else rt)"

definition let_go :: "nat option \<Rightarrow> runtime \<Rightarrow> runtime" where
  "let_go t rt = (case t of None \<Rightarrow> rt | Some n \<Rightarrow> rt\<lparr>rt_alive := removeAll n (rt_alive rt)\<rparr>)"

text \<open>The first half of \<open>_start_transport\<close>, up to the requests of the initialisation.\<close>

definition launch :: "bool \<Rightarrow> runtime \<Rightarrow> runtime" where
  "launch by_restart rt =
     (let rt1 = (case rt_transport rt of None \<Rightarrow> rt
            | Some t \<Rightarrow> let_go (Some t) (fail_turns (CodexRuntimeFailure ''Codex app-server was replaced'') (rt\<lparr>rt_transport := None\<rparr>)));
          t = rt_next_transport rt
      in rt1\<lparr>rt_transport := Some t, rt_alive := t # rt_alive rt1, rt_next_transport := t + 1, rt_launching := Some (t, by_restart)\<rparr>)"

definition is_running :: "runtime \<Rightarrow> bool" where
  "is_running rt \<longleftrightarrow> (case rt_transport rt of None \<Rightarrow> False | Some t \<Rightarrow> t \<in> set (rt_alive rt))"

text \<open>
  \<open>start\<close> with the outcome of \<open>_validate_environment\<close>: \<open>CodexUnavailable\<close> is reported, any other
  exception (a missing or old CLI) leaves \<open>start\<close> itself.
\<close>

datatype environment_check = Validated | LoggedOut string | Unusable

definition start_runtime :: "environment_check \<Rightarrow> runtime \<Rightarrow> runtime" where
  "start_runtime env rt0 =
     (let rt = rt0\<lparr>rt_stopping := False\<rparr> in
      if rt_launching rt \<noteq> None then rt0
      else if rt_ready rt \<and> is_running rt then rt
      else (case env of LoggedOut message \<Rightarrow> rt\<lparr>rt_last_error := message, rt_ready := False\<rparr>
        | Unusable \<Rightarrow> rt
        | Validated \<Rightarrow> launch False rt))"

text \<open>The second half: \<open>fails\<close> is the name of an exception of the initialisation.\<close>

definition launched_ok :: "runtime \<Rightarrow> bool" where
  "launched_ok rt \<longleftrightarrow> map_option fst (rt_launching rt) = rt_transport rt \<and> is_running rt"

definition abandon_launch :: "runtime \<Rightarrow> runtime" where
  "abandon_launch rt =
     (let t = map_option fst (rt_launching rt) in
      (let_go t rt)\<lparr>rt_launching := None, rt_transport := (if rt_transport rt = t then None else rt_transport rt)\<rparr>)"

definition finish_launch :: "string option \<Rightarrow> runtime \<Rightarrow> runtime" where
  "finish_launch fails rt =
     (case rt_launching rt of
        None \<Rightarrow> rt
      | Some (_, by_restart) \<Rightarrow>
          (if fails = None \<and> launched_ok rt then
             rt\<lparr>rt_launching := None, rt_ready := True, rt_last_error := ''ready'', rt_restart := (if by_restart then None else rt_restart rt)\<rparr>
           else
             (let e = (case fails of Some e \<Rightarrow> e | None \<Rightarrow> ''TransportClosed''); rt1 = abandon_launch rt in
              if by_restart then
                rt1\<lparr>rt_last_error := ''restart failed: '' @ e, rt_restart := (if rt_stopping rt then None else map_option Suc (rt_restart rt))\<rparr>
              else schedule_restart (rt1\<lparr>rt_ready := False, rt_last_error := ''app-server start failed: '' @ e\<rparr>))))"

text \<open>One round of the restart loop after its sleep.\<close>

definition restart_round :: "runtime \<Rightarrow> runtime" where
  "restart_round rt =
     (if rt_restart rt = None \<or> rt_launching rt \<noteq> None then rt
      else if rt_stopping rt \<or> (rt_ready rt \<and> is_running rt) then rt\<lparr>rt_restart := None\<rparr>
      else launch True rt)"

text \<open>\<open>stop\<close> up to the lifecycle lock, where a launch of the restart loop is cancelled, and under it.\<close>

definition stop_asked :: "runtime \<Rightarrow> runtime" where
  "stop_asked rt =
     (let rt1 = (case rt_launching rt of Some (_, True) \<Rightarrow> abandon_launch rt | _ \<Rightarrow> rt) in
      rt1\<lparr>rt_stopping := True, rt_restart := None\<rparr>)"

definition stop_locked :: "runtime \<Rightarrow> runtime" where
  "stop_locked rt =
     (if rt_launching rt \<noteq> None then rt
      else fail_turns (CodexRuntimeFailure ''Codex runtime stopped'')
        ((let_go (rt_transport rt) rt)\<lparr>rt_ready := False, rt_last_error := ''stopped'', rt_transport := None\<rparr>))"

definition process_died :: "nat \<Rightarrow> runtime \<Rightarrow> runtime" where
  "process_died t rt = let_go (Some t) rt"

text \<open>\<open>_handle_exit\<close> up to the stop of the transport, and what follows it.\<close>

definition handle_exit :: "nat \<Rightarrow> string \<Rightarrow> runtime \<Rightarrow> runtime" where
  "handle_exit t e rt =
     (if rt_transport rt \<noteq> Some t then rt
      else fail_turns (CodexRuntimeFailure ''Codex app-server exited'')
        ((let_go (Some t) rt)\<lparr>rt_transport := None, rt_ready := False, rt_last_error := e, rt_exits := rt_exits rt + 1\<rparr>))"

definition exit_handled :: "runtime \<Rightarrow> runtime" where
  "exit_handled rt = (if rt_exits rt = 0 then rt else schedule_restart (rt\<lparr>rt_exits := rt_exits rt - 1\<rparr>))"

section \<open>Completions\<close>

definition open_completion ::
    "int \<Rightarrow> string option \<Rightarrow> string option \<Rightarrow> int \<Rightarrow> runtime \<Rightarrow> (runtime \<times> nat) gresult" where
  "open_completion now request_id run_id retry_count rt =
     (case (rt_ready rt, rt_transport rt) of
        (True, Some _) \<Rightarrow>
          (let i = rt_next_activity rt in
           Inr (rt\<lparr>rt_next_activity := i + 1, rt_activities := rt_activities rt @ [(i, \<lparr>av_started_at = now, av_last_progress_at = now,
              av_request_id = request_id, av_run_id = run_id, av_retry_count = retry_count, av_thread_id = None, av_turn_id = None,
              av_transport = None\<rparr>)]\<rparr>, i))
      | _ \<Rightarrow> Inl (CodexUnavailable (rt_last_error rt)))"

text \<open>\<open>_run_turn\<close> as it begins, in the task \<open>wait_for\<close> makes for it when the gateway has a timeout.\<close>

definition enter_turn :: "nat \<Rightarrow> runtime \<Rightarrow> runtime" where
  "enter_turn i rt = on_activity i (\<lambda>a. if av_transport a = None then a\<lparr>av_transport := rt_transport rt\<rparr> else a) rt"

definition turn_config :: "effective_config option \<Rightarrow> json \<Rightarrow> effective_config gresult" where
  "turn_config pinned response =
     (case (case pinned of Some c \<Rightarrow> require_complete c | None \<Rightarrow> from_read_response response) of
        Inr c \<Rightarrow> Inr c | Inl _ \<Rightarrow> Inl (CodexRuntimeFailure ''Codex app-server request failed''))"

definition thread_params :: "string \<Rightarrow> effective_config \<Rightarrow> (string \<times> json) list" where
  "thread_params cwd c = [(''cwd'', JStr cwd), (''approvalPolicy'', JStr ''never''), (''sandbox'', JStr ''read-only''),
     (''ephemeral'', JBool True)] @ (case ec_model c of None \<Rightarrow> [] | Some m \<Rightarrow> [(''model'', JStr m)])"

definition turn_params :: "string \<Rightarrow> string \<Rightarrow> json \<Rightarrow> effective_config \<Rightarrow> (string \<times> json) list" where
  "turn_params thread prompt schema c = [(''threadId'', JStr thread),
     (''input'', JList [JObj [(''type'', JStr ''text''), (''text'', JStr prompt)]]), (''approvalPolicy'', JStr ''never''),
     (''sandboxPolicy'', JObj [(''type'', JStr ''readOnly''), (''networkAccess'', JBool True)]), (''outputSchema'', schema)]
     @ (case ec_effort c of None \<Rightarrow> [] | Some e \<Rightarrow> [(''effort'', JStr e)])"

text \<open>
  The end of a completion, however it ends: its turn and its activity are forgotten. A thread
  whose id is the empty string stays in the table, its future cancelled.
\<close>

definition forget_turn :: "nat \<Rightarrow> string \<Rightarrow> runtime \<Rightarrow> runtime" where
  "forget_turn i thread rt = rt\<lparr>rt_turns := (rt_turns rt)(thread :=
     (if thread \<noteq> [] then None
      else map_option (\<lambda>t. if ts_activity t = i \<and> ts_future t = Waiting then t\<lparr>ts_future := Cancelled\<rparr> else t) (rt_turns rt thread)))\<rparr>"

definition close_completion :: "nat \<Rightarrow> runtime \<Rightarrow> runtime" where
  "close_completion i rt =
     (let rt1 = (case map_option av_thread_id (map_of (rt_activities rt) i) of Some (Some thread) \<Rightarrow> forget_turn i thread rt | _ \<Rightarrow> rt) in
      rt1\<lparr>rt_activities := filter (\<lambda>ia. fst ia \<noteq> i) (rt_activities rt)\<rparr>)"

definition serves :: "nat \<Rightarrow> runtime \<Rightarrow> bool" where
  "serves i rt \<longleftrightarrow> (case map_of (rt_activities rt) i of None \<Rightarrow> False | Some a \<Rightarrow> av_transport a \<in> Some ` set (rt_alive rt))"

text \<open>
  After the answers to \<open>thread/start\<close> (which a completion asks for once) and \<open>turn/start\<close>; a completion
  whose transport is gone by then, or whose request fails, ends.
\<close>

definition thread_started :: "int \<Rightarrow> nat \<Rightarrow> string \<Rightarrow> runtime \<Rightarrow> runtime" where
  "thread_started now i thread rt =
     (if \<not> serves i rt \<or> map_option av_thread_id (map_of (rt_activities rt) i) \<noteq> Some None then close_completion i rt
      else (on_activity i (\<lambda>a. a\<lparr>av_thread_id := Some thread, av_last_progress_at := now\<rparr>) rt)
        \<lparr>rt_turns := (rt_turns rt)(thread \<mapsto> \<lparr>ts_future = Waiting, ts_activity = i, ts_message = None,
            ts_usage = \<lparr>tu_prompt = 0, tu_completion = 0\<rparr>\<rparr>)\<rparr>)"

definition turn_started :: "int \<Rightarrow> nat \<Rightarrow> string \<Rightarrow> runtime \<Rightarrow> runtime" where
  "turn_started now i turn rt =
     (if \<not> serves i rt then close_completion i rt
      else on_activity i (\<lambda>a. a\<lparr>av_turn_id := Some turn, av_last_progress_at := now\<rparr>) rt)"

text \<open>What a completion that waits for its turn returns once the turn is settled.\<close>

definition completion_result :: "nat \<Rightarrow> runtime \<Rightarrow> (json \<times> token_usage) gresult option" where
  "completion_result i rt =
     (case map_of (rt_activities rt) i of None \<Rightarrow> None
      | Some a \<Rightarrow> (case av_thread_id a of None \<Rightarrow> None
        | Some thread \<Rightarrow> (case rt_turns rt thread of None \<Rightarrow> None
          | Some t \<Rightarrow> (case ts_future t of Waiting \<Rightarrow> None | Answered m u \<Rightarrow> Some (Inr (m, u)) | Broken e \<Rightarrow> Some (Inl e) | Cancelled \<Rightarrow> None))))"

text \<open>A completion that is cancelled interrupts its turn if it has started.\<close>

definition interrupt_request :: "nat \<Rightarrow> runtime \<Rightarrow> (string \<times> string) option" where
  "interrupt_request i rt = (case map_of (rt_activities rt) i of None \<Rightarrow> None
     | Some a \<Rightarrow> (case (av_thread_id a, av_turn_id a) of (Some th, Some tu) \<Rightarrow> if th \<noteq> [] \<and> tu \<noteq> [] then Some (th, tu) else None | _ \<Rightarrow> None))"

definition available_models :: "json option \<Rightarrow> runtime \<Rightarrow> model_option list gresult" where
  "available_models response rt =
     (case (rt_ready rt, rt_transport rt) of
        (True, Some t) \<Rightarrow>
          (case (if t \<in> set (rt_alive rt) then response else None) of
             None \<Rightarrow> Inl (CodexUnavailable ''Codex model catalog is unavailable'')
           | Some r \<Rightarrow> (case normalize_model_catalog r of
               Inr ms \<Rightarrow> Inr ms | Inl _ \<Rightarrow> Inl (CodexUnavailable ''Codex model catalog is unavailable'')))
      | _ \<Rightarrow> Inl (CodexUnavailable (rt_last_error rt)))"

end
