(* ===== verification/GatewayRuntimeFacts.thy ===== *)
theory GatewayRuntimeFacts
  imports GatewayRuntime
begin

text \<open>
  What the gateway's runtime keeps through any interleaving of its segments: the tables of turns
  and completions, who waits for which process, and that it is always on its way to a process.
\<close>

section \<open>Runs\<close>

datatype rt_event = Start environment_check | LaunchEnds "string option" | RestartRound | StopAsked | StopLocked
  | Died nat | Exits nat string | ExitHandled | Notified int nat string "(string \<times> json) list"
  | Opened int "string option" "string option" int | Entered nat | ThreadStarted int nat string | TurnStarted int nat string
  | Closed nat

fun rt_step :: "(string \<Rightarrow> int option) \<Rightarrow> rt_event \<Rightarrow> runtime \<Rightarrow> runtime" where
  "rt_step trunc (Start env) rt = start_runtime env rt"
| "rt_step trunc (LaunchEnds fails) rt = finish_launch fails rt"
| "rt_step trunc RestartRound rt = restart_round rt"
| "rt_step trunc StopAsked rt = stop_asked rt"
| "rt_step trunc StopLocked rt = stop_locked rt"
| "rt_step trunc (Died t) rt = process_died t rt"
| "rt_step trunc (Exits t e) rt = handle_exit t e rt"
| "rt_step trunc ExitHandled rt = exit_handled rt"
| "rt_step trunc (Notified now t meth params) rt = on_notification trunc now t meth params rt"
| "rt_step trunc (Opened now request run n) rt = (case open_completion now request run n rt of Inr (rt', _) \<Rightarrow> rt' | Inl _ \<Rightarrow> rt)"
| "rt_step trunc (Entered i) rt = enter_turn i rt"
| "rt_step trunc (ThreadStarted now i thread) rt = thread_started now i thread rt"
| "rt_step trunc (TurnStarted now i turn) rt = turn_started now i turn rt"
| "rt_step trunc (Closed i) rt = close_completion i rt"

fun rt_run :: "(string \<Rightarrow> int option) \<Rightarrow> rt_event list \<Rightarrow> runtime \<Rightarrow> runtime" where
  "rt_run trunc [] rt = rt"
| "rt_run trunc (e # es) rt = rt_run trunc es (rt_step trunc e rt)"

lemma rt_run_keeps:
  assumes "I rt" and "\<And>e rt. e \<in> set es \<Longrightarrow> I rt \<Longrightarrow> I (rt_step trunc e rt)"
  shows "I (rt_run trunc es rt)"
  using assms by (induction es arbitrary: rt) auto

named_theorems rt_ops

lemma break_turn_fields [simp]:
  "ts_activity (break_turn e t) = ts_activity t" "ts_future (break_turn e t) \<noteq> Waiting"
  "ts_future t \<noteq> Waiting \<Longrightarrow> break_turn e t = t"
  by (auto simp: break_turn_def)

lemma fail_turns_fields [simp]:
  "rt_turns (fail_turns e rt) th = map_option (break_turn e) (rt_turns rt th)"
  "rt_transport (fail_turns e rt) = rt_transport rt" "rt_alive (fail_turns e rt) = rt_alive rt"
  "rt_next_transport (fail_turns e rt) = rt_next_transport rt" "rt_launching (fail_turns e rt) = rt_launching rt"
  "rt_activities (fail_turns e rt) = rt_activities rt" "rt_next_activity (fail_turns e rt) = rt_next_activity rt"
  "rt_ready (fail_turns e rt) = rt_ready rt" "rt_stopping (fail_turns e rt) = rt_stopping rt"
  "rt_restart (fail_turns e rt) = rt_restart rt" "rt_exits (fail_turns e rt) = rt_exits rt"
  by (simp_all add: fail_turns_def)

lemma let_go_fields [simp]:
  "rt_turns (let_go t rt) = rt_turns rt" "rt_transport (let_go t rt) = rt_transport rt"
  "set (rt_alive (let_go t rt)) = set (rt_alive rt) - set_option t"
  "rt_next_transport (let_go t rt) = rt_next_transport rt" "rt_launching (let_go t rt) = rt_launching rt"
  "rt_activities (let_go t rt) = rt_activities rt" "rt_next_activity (let_go t rt) = rt_next_activity rt"
  "rt_ready (let_go t rt) = rt_ready rt" "rt_stopping (let_go t rt) = rt_stopping rt"
  "rt_restart (let_go t rt) = rt_restart rt" "rt_exits (let_go t rt) = rt_exits rt"
  by (auto simp: let_go_def split: option.splits)

lemma on_activity_fields [simp]:
  "rt_turns (on_activity i f rt) = rt_turns rt" "rt_transport (on_activity i f rt) = rt_transport rt"
  "rt_alive (on_activity i f rt) = rt_alive rt"
  "rt_next_transport (on_activity i f rt) = rt_next_transport rt" "rt_launching (on_activity i f rt) = rt_launching rt"
  "rt_next_activity (on_activity i f rt) = rt_next_activity rt"
  "rt_ready (on_activity i f rt) = rt_ready rt" "rt_stopping (on_activity i f rt) = rt_stopping rt"
  "rt_restart (on_activity i f rt) = rt_restart rt" "rt_exits (on_activity i f rt) = rt_exits rt"
  by (simp_all add: on_activity_def)

lemma on_activity_list [simp]:
  "map fst (rt_activities (on_activity i f rt)) = map fst (rt_activities rt)"
  "map_of (rt_activities (on_activity i f rt)) j = map_option (if j = i then f else id) (map_of (rt_activities rt) j)"
proof -
  show "map fst (rt_activities (on_activity i f rt)) = map fst (rt_activities rt)"
    by (auto simp: on_activity_def)
  have "map_of (map (\<lambda>(j, a). (j, if j = i then f a else a)) l) j = map_option (if j = i then f else id) (map_of l j)" for l
    by (induction l) (auto split: prod.splits)
  thus "map_of (rt_activities (on_activity i f rt)) j = map_option (if j = i then f else id) (map_of (rt_activities rt) j)"
    by (simp add: on_activity_def)
qed

lemma map_of_filter_fst [simp]: "map_of (filter (\<lambda>ia. fst ia \<noteq> i) l) j = (if j = i then None else map_of l j)"
  by (induction l) (auto split: prod.splits)

lemma schedule_restart_fields [simp]:
  "rt_turns (schedule_restart rt) = rt_turns rt" "rt_transport (schedule_restart rt) = rt_transport rt"
  "rt_alive (schedule_restart rt) = rt_alive rt" "rt_next_transport (schedule_restart rt) = rt_next_transport rt"
  "rt_launching (schedule_restart rt) = rt_launching rt" "rt_activities (schedule_restart rt) = rt_activities rt"
  "rt_next_activity (schedule_restart rt) = rt_next_activity rt" "rt_ready (schedule_restart rt) = rt_ready rt"
  "rt_stopping (schedule_restart rt) = rt_stopping rt" "rt_exits (schedule_restart rt) = rt_exits rt"
  "rt_restart (schedule_restart rt) = (if \<not> rt_stopping rt \<and> rt_restart rt = None then Some 0 else rt_restart rt)"
  by (auto simp: schedule_restart_def)

lemma forget_turn_fields [simp]:
  "rt_transport (forget_turn i th rt) = rt_transport rt" "rt_alive (forget_turn i th rt) = rt_alive rt"
  "rt_next_transport (forget_turn i th rt) = rt_next_transport rt" "rt_launching (forget_turn i th rt) = rt_launching rt"
  "rt_activities (forget_turn i th rt) = rt_activities rt" "rt_next_activity (forget_turn i th rt) = rt_next_activity rt"
  "rt_ready (forget_turn i th rt) = rt_ready rt" "rt_stopping (forget_turn i th rt) = rt_stopping rt"
  "rt_restart (forget_turn i th rt) = rt_restart rt" "rt_exits (forget_turn i th rt) = rt_exits rt"
  by (simp_all add: forget_turn_def)

section \<open>What a notification and a completion change\<close>

definition same_processes :: "runtime \<Rightarrow> runtime \<Rightarrow> bool" where
  "same_processes rt rt' \<longleftrightarrow> rt_transport rt' = rt_transport rt \<and> rt_alive rt' = rt_alive rt \<and> rt_next_transport rt' = rt_next_transport rt
     \<and> rt_launching rt' = rt_launching rt \<and> rt_restart rt' = rt_restart rt \<and> rt_exits rt' = rt_exits rt
     \<and> rt_stopping rt' = rt_stopping rt \<and> (rt_ready rt' \<longrightarrow> rt_ready rt)"

lemma same_processes_refl [simp]: "same_processes rt rt"
  by (simp add: same_processes_def)

lemma close_same_processes [simp]: "same_processes rt (close_completion i rt)"
  by (simp add: close_completion_def same_processes_def Let_def split: option.splits)

lemma notification_same_processes [simp]: "same_processes rt (on_notification trunc now t meth params rt)"
  by (auto simp: on_notification_def handle_notification_def same_processes_def Let_def split: option.splits json.splits prod.splits if_splits)

lemma completion_same_processes [simp]:
  "same_processes rt (thread_started now i thread rt)" "same_processes rt (turn_started now i turn rt)" "same_processes rt (enter_turn i rt)"
  using close_same_processes [of rt i] by (simp_all add: thread_started_def turn_started_def enter_turn_def same_processes_def)

lemma opened_same_processes:
  "open_completion now request run n rt = Inr (rt', i) \<Longrightarrow> same_processes rt rt'"
  by (auto simp: open_completion_def same_processes_def Let_def split: option.splits bool.splits)

text \<open>One turn after a notification: of the same completion, and settled as it was if it was settled.\<close>

lemma apply_notification_turn:
  assumes "apply_notification trunc meth params t = Some (t', lost)"
  shows "ts_activity t' = ts_activity t" and "ts_future t \<noteq> Waiting \<Longrightarrow> ts_future t' = ts_future t"
  using assms by (auto simp: apply_notification_def turn_completed_def Let_def split: if_splits option.splits prod.splits bool.splits)

lemma notification_turns:
  obtains "rt_turns (on_notification trunc now u meth params rt) = rt_turns rt"
          "rt_activities (on_notification trunc now u meth params rt) = rt_activities rt"
  | th t t' where "rt_transport rt = Some u" "rt_turns rt th = Some t"
      "rt_turns (on_notification trunc now u meth params rt) = (rt_turns rt)(th \<mapsto> t')"
      "rt_activities (on_notification trunc now u meth params rt)
         = rt_activities (on_activity (ts_activity t) (\<lambda>a. a\<lparr>av_last_progress_at := now\<rparr>) rt)"
      "ts_activity t' = ts_activity t" "ts_future t \<noteq> Waiting \<Longrightarrow> ts_future t' = ts_future t"
proof (cases "\<exists>th t. rt_transport rt = Some u \<and> dict_get ''threadId'' params = Some (JStr th) \<and> rt_turns rt th = Some t")
  case True
  then obtain th t where T: "rt_transport rt = Some u" "dict_get ''threadId'' params = Some (JStr th)" "rt_turns rt th = Some t" by blast
  show ?thesis
  proof (cases "apply_notification trunc meth params t")
    case None
    show ?thesis using T None
      by (intro that(2) [of th t "break_turn (CodexRuntimeFailure ''Codex app-server notification was invalid'') t"])
         (simp_all add: on_notification_def handle_notification_def Let_def)
  next
    case (Some r)
    obtain t' lost where r: "r = (t', lost)" by (cases r)
    show ?thesis
      using T Some apply_notification_turn [OF Some [unfolded r]] unfolding r
      by (intro that(2) [of th t t'])
         (simp_all add: on_notification_def handle_notification_def Let_def)
  qed
next
  case False
  hence "on_notification trunc now u meth params rt = rt"
    by (auto simp: on_notification_def handle_notification_def split: option.splits json.splits)
  thus ?thesis using that(1) by simp
qed

section \<open>The processes\<close>

definition procs_ok :: "runtime \<Rightarrow> bool" where
  "procs_ok rt \<longleftrightarrow> set (rt_alive rt) \<subseteq> set_option (rt_transport rt) \<and> (\<forall>t. rt_transport rt = Some t \<longrightarrow> t < rt_next_transport rt)
     \<and> (\<forall>t b. rt_launching rt = Some (t, b) \<longrightarrow> rt_transport rt \<in> {None, Some t} \<and> t < rt_next_transport rt \<and> (b \<longrightarrow> rt_restart rt \<noteq> None))"

lemma procs_ok_same: "same_processes rt rt' \<Longrightarrow> procs_ok rt \<Longrightarrow> procs_ok rt'"
  by (simp add: procs_ok_def same_processes_def)

lemma launch_fields [simp]:
  "rt_transport (launch b rt) = Some (rt_next_transport rt)" "rt_next_transport (launch b rt) = Suc (rt_next_transport rt)"
  "rt_launching (launch b rt) = Some (rt_next_transport rt, b)" "rt_restart (launch b rt) = rt_restart rt"
  "rt_stopping (launch b rt) = rt_stopping rt" "rt_exits (launch b rt) = rt_exits rt" "rt_ready (launch b rt) = rt_ready rt"
  "rt_activities (launch b rt) = rt_activities rt" "rt_next_activity (launch b rt) = rt_next_activity rt"
  "set (rt_alive (launch b rt)) = insert (rt_next_transport rt) (set (rt_alive rt) - set_option (rt_transport rt))"
  "rt_turns (launch b rt) th = (if rt_transport rt = None then rt_turns rt th
     else map_option (break_turn (CodexRuntimeFailure ''Codex app-server was replaced'')) (rt_turns rt th))"
  by (auto simp: launch_def Let_def split: option.splits)

lemma abandon_fields [simp]:
  "rt_turns (abandon_launch rt) = rt_turns rt" "rt_next_transport (abandon_launch rt) = rt_next_transport rt"
  "rt_launching (abandon_launch rt) = None" "rt_restart (abandon_launch rt) = rt_restart rt"
  "rt_stopping (abandon_launch rt) = rt_stopping rt" "rt_exits (abandon_launch rt) = rt_exits rt" "rt_ready (abandon_launch rt) = rt_ready rt"
  "rt_activities (abandon_launch rt) = rt_activities rt" "rt_next_activity (abandon_launch rt) = rt_next_activity rt"
  "set (rt_alive (abandon_launch rt)) = set (rt_alive rt) - set_option (map_option fst (rt_launching rt))"
  "rt_transport (abandon_launch rt) = (if rt_transport rt = map_option fst (rt_launching rt) then None else rt_transport rt)"
  by (simp_all add: abandon_launch_def Let_def)

lemma launch_procs_ok: "procs_ok rt \<Longrightarrow> (b \<Longrightarrow> rt_restart rt \<noteq> None) \<Longrightarrow> procs_ok (launch b rt)"
  by (auto simp: procs_ok_def)

lemma abandon_procs_ok: "procs_ok rt \<Longrightarrow> procs_ok (abandon_launch rt)"
  by (cases "rt_launching rt") (auto simp: procs_ok_def)

lemma schedule_procs_ok: "procs_ok rt \<Longrightarrow> procs_ok (schedule_restart rt)"
  by (auto simp: procs_ok_def schedule_restart_def)

lemma start_procs_ok: "procs_ok rt \<Longrightarrow> procs_ok (start_runtime env rt)"
  unfolding start_runtime_def Let_def
  by (auto simp: procs_ok_def split: environment_check.split)

lemma finish_procs_ok:
  assumes "procs_ok rt" shows "procs_ok (finish_launch fails rt)"
proof (cases "rt_launching rt")
  case (Some tb)
  have "procs_ok (abandon_launch rt)" by (rule abandon_procs_ok [OF assms])
  with assms show ?thesis
    by (auto simp: finish_launch_def Let_def procs_ok_def schedule_restart_def Some split: prod.split)
qed (use assms in \<open>simp add: finish_launch_def\<close>)

lemma stop_procs_ok: "procs_ok rt \<Longrightarrow> procs_ok (stop_locked rt)"
  by (auto simp: procs_ok_def stop_locked_def)

lemma stop_asked_procs_ok:
  assumes "procs_ok rt" shows "procs_ok (stop_asked rt)"
proof -
  have "procs_ok (abandon_launch rt)" by (rule abandon_procs_ok [OF assms])
  with assms show ?thesis
    by (auto simp: stop_asked_def procs_ok_def Let_def split: option.split prod.split bool.split)
qed

lemma exit_procs_ok: "procs_ok rt \<Longrightarrow> procs_ok (handle_exit t e rt)"
  by (auto simp: procs_ok_def handle_exit_def)

lemma exit_handled_procs_ok: "procs_ok rt \<Longrightarrow> procs_ok (exit_handled rt)"
  by (auto simp: procs_ok_def exit_handled_def schedule_restart_def)

lemma died_procs_ok: "procs_ok rt \<Longrightarrow> procs_ok (process_died t rt)"
  by (auto simp: procs_ok_def process_died_def)

lemma restart_procs_ok: "procs_ok rt \<Longrightarrow> procs_ok (restart_round rt)"
  using launch_procs_ok [of rt True] by (auto simp: restart_round_def procs_ok_def)

lemma step_procs_ok:
  assumes "procs_ok rt" shows "procs_ok (rt_step trunc e rt)"
proof (cases e)
  case (Opened now request run n)
  show ?thesis using assms opened_same_processes [of now request run n rt]
    by (auto simp: Opened procs_ok_same split: sum.splits prod.splits)
qed (use assms in \<open>simp_all add: start_procs_ok finish_procs_ok stop_procs_ok stop_asked_procs_ok exit_procs_ok
   exit_handled_procs_ok died_procs_ok restart_procs_ok procs_ok_same [OF close_same_processes]
   procs_ok_same [OF completion_same_processes(1)] procs_ok_same [OF completion_same_processes(2)]
   procs_ok_same [OF completion_same_processes(3)] procs_ok_same [OF notification_same_processes]\<close>)

section \<open>The tables of turns and completions\<close>

definition keyed :: "runtime \<Rightarrow> bool" where
  "keyed rt \<longleftrightarrow> distinct (map fst (rt_activities rt)) \<and> (\<forall>i \<in> set (map fst (rt_activities rt)). i < rt_next_activity rt)"

definition held :: "runtime \<Rightarrow> string \<Rightarrow> turn_state \<Rightarrow> bool" where
  "held rt th t \<longleftrightarrow> rt_turns rt th = Some t \<and> (th \<noteq> [] \<or> ts_future t = Waiting)"

definition owned :: "runtime \<Rightarrow> string \<Rightarrow> turn_state \<Rightarrow> bool" where
  "owned rt th t \<longleftrightarrow> (\<exists>a. map_of (rt_activities rt) (ts_activity t) = Some a \<and> av_thread_id a = Some th)"

lemma ownedE:
  assumes "owned rt th t" obtains a where "map_of (rt_activities rt) (ts_activity t) = Some a" "av_thread_id a = Some th"
  using assms by (auto simp: owned_def)

lemma ownedI: "map_of (rt_activities rt) (ts_activity t) = Some a \<Longrightarrow> av_thread_id a = Some th \<Longrightarrow> owned rt th t"
  by (simp add: owned_def)

definition tables_ok :: "runtime \<Rightarrow> bool" where
  "tables_ok rt \<longleftrightarrow> keyed rt \<and> (\<forall>th t. held rt th t \<longrightarrow> owned rt th t)"

lemma tables_ok_turn: "tables_ok rt \<Longrightarrow> held rt th t \<Longrightarrow> owned rt th t"
  by (simp add: tables_ok_def)

lemma tables_okI: "keyed rt \<Longrightarrow> (\<And>th t. held rt th t \<Longrightarrow> owned rt th t) \<Longrightarrow> tables_ok rt"
  by (simp add: tables_ok_def)

lemma keyed_same:
  "keyed rt \<Longrightarrow> map fst (rt_activities rt') = map fst (rt_activities rt) \<Longrightarrow> rt_next_activity rt' = rt_next_activity rt \<Longrightarrow> keyed rt'"
  by (simp add: keyed_def del: set_map)

definition breaks_only :: "runtime \<Rightarrow> runtime \<Rightarrow> bool" where
  "breaks_only rt rt' \<longleftrightarrow> rt_activities rt' = rt_activities rt \<and> rt_next_activity rt' = rt_next_activity rt
     \<and> (rt_turns rt' = rt_turns rt \<or> (\<exists>e. rt_turns rt' = map_option (break_turn e) \<circ> rt_turns rt))"

lemma fail_turns_turns: "rt_turns (fail_turns e rt) = map_option (break_turn e) \<circ> rt_turns rt"
  by (simp add: fail_turns_def)

lemma launch_breaks_only: "breaks_only rt (launch b rt)"
  by (auto simp: breaks_only_def launch_def Let_def fail_turns_turns split: option.splits)

lemma start_breaks_only: "breaks_only rt (start_runtime env rt)"
  using launch_breaks_only [of "rt\<lparr>rt_stopping := False\<rparr>" False]
  by (auto simp: start_runtime_def breaks_only_def Let_def split: environment_check.split)

lemma finish_breaks_only: "breaks_only rt (finish_launch fails rt)"
  by (auto simp: finish_launch_def breaks_only_def Let_def split: option.split prod.split)

lemma restart_breaks_only: "breaks_only rt (restart_round rt)"
  using launch_breaks_only [of rt True] by (auto simp: restart_round_def breaks_only_def)

lemma stop_breaks_only: "breaks_only rt (stop_asked rt)" "breaks_only rt (stop_locked rt)"
  by (auto simp: stop_asked_def stop_locked_def breaks_only_def fail_turns_turns Let_def split: option.split prod.split bool.split)

lemma exit_breaks_only: "breaks_only rt (process_died t rt)" "breaks_only rt (handle_exit t e rt)" "breaks_only rt (exit_handled rt)"
  by (auto simp: process_died_def handle_exit_def exit_handled_def breaks_only_def fail_turns_turns)

lemmas process_breaks_only =
  start_breaks_only finish_breaks_only restart_breaks_only stop_breaks_only exit_breaks_only

lemma breaks_only_tables:
  assumes "breaks_only rt rt'" "tables_ok rt"
  shows "tables_ok rt'"
proof (rule tables_okI)
  show "keyed rt'" using assms by (simp add: tables_ok_def breaks_only_def keyed_def)
next
  fix th t assume t: "held rt' th t"
  obtain t0 where "held rt th t0" "ts_activity t0 = ts_activity t"
    using assms(1) t by (auto simp: breaks_only_def held_def)
  moreover have "rt_activities rt' = rt_activities rt" using assms(1) by (simp add: breaks_only_def)
  ultimately show "owned rt' th t" using tables_ok_turn [OF assms(2), of th t0] by (simp add: owned_def)
qed

lemma notification_next [simp]: "rt_next_activity (on_notification trunc now u meth params rt) = rt_next_activity rt"
  by (auto simp: on_notification_def handle_notification_def Let_def split: option.splits json.splits prod.splits)

lemma notification_tables:
  assumes "tables_ok rt" shows "tables_ok (on_notification trunc now u meth params rt)" (is "tables_ok ?rt'")
proof (cases rule: notification_turns [of trunc now u meth params rt])
  case 1
  thus ?thesis using assms keyed_same [of rt ?rt'] by (intro tables_okI) (simp_all add: tables_ok_def held_def owned_def)
next
  case (2 th t t')
  show ?thesis
  proof (rule tables_okI)
    show "keyed ?rt'" using assms keyed_same [of rt ?rt'] by (simp add: 2(4) tables_ok_def)
  next
    fix th' s assume s: "held ?rt' th' s"
    obtain s0 where s0: "held rt th' s0" "ts_activity s0 = ts_activity s"
    proof (cases "th' = th")
      case True
      hence "s = t'" using s 2(3) by (simp add: held_def)
      hence "held rt th' t" using s 2(2,6) True by (cases "ts_future t = Waiting") (auto simp: held_def)
      thus ?thesis using that 2(5) \<open>s = t'\<close> by simp
    qed (use s 2(3) that in \<open>simp add: held_def\<close>)
    from tables_ok_turn [OF assms s0(1)] obtain a where "map_of (rt_activities rt) (ts_activity s) = Some a" "av_thread_id a = Some th'"
      unfolding s0(2) [symmetric] by (rule ownedE)
    thus "owned ?rt' th' s"
      by (intro ownedI [of ?rt' s "if ts_activity s = ts_activity t then a\<lparr>av_last_progress_at := now\<rparr> else a"]) (simp_all add: 2(4))
  qed
qed

lemma close_turns:
  "rt_turns (close_completion i rt) th = (if map_option av_thread_id (map_of (rt_activities rt) i) = Some (Some th)
     then (if th \<noteq> [] then None else map_option (\<lambda>t. if ts_activity t = i \<and> ts_future t = Waiting then t\<lparr>ts_future := Cancelled\<rparr> else t) (rt_turns rt th))
     else rt_turns rt th)"
  by (auto simp: close_completion_def forget_turn_def Let_def split: option.splits)

lemma close_activities [simp]:
  "rt_activities (close_completion i rt) = filter (\<lambda>ia. fst ia \<noteq> i) (rt_activities rt)"
  "rt_next_activity (close_completion i rt) = rt_next_activity rt"
  by (simp_all add: close_completion_def Let_def split: option.split)

lemma keyed_filter: "keyed rt \<Longrightarrow> keyed (close_completion i rt)"
  by (simp add: keyed_def distinct_map_filter)

lemma close_held:
  assumes "held (close_completion i rt) th t"
  shows "held rt th t"
    and "map_of (rt_activities rt) i = Some a \<Longrightarrow> av_thread_id a = Some th \<Longrightarrow> ts_activity t \<noteq> i"
proof -
  have t: "rt_turns (close_completion i rt) th = Some t" "th \<noteq> [] \<or> ts_future t = Waiting" using assms by (simp_all add: held_def)
  show "held rt th t"
    using t unfolding close_turns held_def by (cases "th = []") (auto split: if_splits)
  assume "map_of (rt_activities rt) i = Some a" "av_thread_id a = Some th"
  thus "ts_activity t \<noteq> i"
    using t unfolding close_turns by (cases "th = []"; cases "rt_turns rt th") (auto split: if_splits)
qed

lemma close_tables:
  assumes "tables_ok rt" shows "tables_ok (close_completion i rt)"
proof (rule tables_okI)
  show "keyed (close_completion i rt)" using assms keyed_filter by (simp add: tables_ok_def)
next
  fix th t assume t: "held (close_completion i rt) th t"
  from tables_ok_turn [OF assms close_held(1) [OF t]]
  obtain a where a: "map_of (rt_activities rt) (ts_activity t) = Some a" "av_thread_id a = Some th" by (rule ownedE)
  have "ts_activity t \<noteq> i" using close_held(2) [OF t] a by auto
  thus "owned (close_completion i rt) th t" using a by (intro ownedI [of _ t a]) simp_all
qed

lemma on_activity_owned:
  assumes "owned rt th t" and f: "\<And>a. av_thread_id (f a) = av_thread_id a"
  shows "owned (on_activity i f rt) th t"
proof -
  obtain a where a: "map_of (rt_activities rt) (ts_activity t) = Some a" "av_thread_id a = Some th" using assms(1) by (rule ownedE)
  show ?thesis by (rule ownedI [of _ t "if ts_activity t = i then f a else a"]) (simp_all add: a f)
qed

lemma on_activity_tables:
  assumes "tables_ok rt" and f: "\<And>a. av_thread_id (f a) = av_thread_id a"
  shows "tables_ok (on_activity i f rt)"
proof (rule tables_okI)
  show "keyed (on_activity i f rt)" using assms keyed_same [of rt "on_activity i f rt"] by (simp add: tables_ok_def)
next
  fix th t assume "held (on_activity i f rt) th t"
  hence "held rt th t" by (simp add: held_def)
  thus "owned (on_activity i f rt) th t" by (intro on_activity_owned tables_ok_turn [OF assms(1)] f)
qed

lemma thread_started_cases:
  obtains "thread_started now i thread rt = close_completion i rt"
  | a where "map_of (rt_activities rt) i = Some a" "av_thread_id a = None" "av_transport a \<in> Some ` set (rt_alive rt)"
      "thread_started now i thread rt = (on_activity i (\<lambda>a. a\<lparr>av_thread_id := Some thread, av_last_progress_at := now\<rparr>) rt)
        \<lparr>rt_turns := (rt_turns rt)(thread \<mapsto> \<lparr>ts_future = Waiting, ts_activity = i, ts_message = None,
            ts_usage = \<lparr>tu_prompt = 0, tu_completion = 0\<rparr>\<rparr>)\<rparr>"
proof (cases "\<not> serves i rt \<or> map_option av_thread_id (map_of (rt_activities rt) i) \<noteq> Some None")
  case True
  thus ?thesis by (intro that(1)) (simp add: thread_started_def)
next
  case False
  then obtain a where "map_of (rt_activities rt) i = Some a" by (cases "map_of (rt_activities rt) i") auto
  thus ?thesis using False by (intro that(2) [of a]) (simp_all add: thread_started_def serves_def)
qed

lemma thread_started_tables:
  assumes "tables_ok rt" shows "tables_ok (thread_started now i thread rt)" (is "tables_ok ?rt'")
proof (cases rule: thread_started_cases [of now i thread rt])
  case 1
  thus ?thesis using close_tables [OF assms] by simp
next
  case (2 a)
  show ?thesis
  proof (rule tables_okI)
    show "keyed ?rt'" using assms keyed_same [of rt ?rt'] by (simp add: 2(4) tables_ok_def)
  next
    fix th t assume t: "held ?rt' th t"
    show "owned ?rt' th t"
    proof (cases "th = thread")
      case True
      thus ?thesis using t 2(1) unfolding 2(4) by (intro ownedI [of _ t "a\<lparr>av_thread_id := Some thread, av_last_progress_at := now\<rparr>"])
        (auto simp: held_def)
    next
      case False
      hence "held rt th t" using t by (simp add: 2(4) held_def)
      then obtain b where b: "map_of (rt_activities rt) (ts_activity t) = Some b" "av_thread_id b = Some th"
        using tables_ok_turn [OF assms] ownedE by blast
      hence "ts_activity t \<noteq> i" using 2 by auto
      thus ?thesis using b by (intro ownedI [of _ t b]) (simp_all add: 2(4))
    qed
  qed
qed

lemma turn_started_tables:
  assumes "tables_ok rt" shows "tables_ok (turn_started now i turn rt)"
  using close_tables [OF assms] on_activity_tables [OF assms] by (simp add: turn_started_def)

lemma opened_shape:
  assumes "open_completion now request run n rt = Inr (rt', i)"
  obtains a where "rt_activities rt' = rt_activities rt @ [(rt_next_activity rt, a)]" "av_thread_id a = None" "av_transport a = None"
    "rt_turns rt' = rt_turns rt" "rt_next_activity rt' = Suc (rt_next_activity rt)" "i = rt_next_activity rt" "rt_ready rt"
    "rt_transport rt \<noteq> None"
proof (cases "rt_ready rt \<and> rt_transport rt \<noteq> None")
  case True
  let ?a = "\<lparr>av_started_at = now, av_last_progress_at = now, av_request_id = request,
        av_run_id = run, av_retry_count = n, av_thread_id = None, av_turn_id = None, av_transport = None\<rparr>"
  have "rt' = rt\<lparr>rt_next_activity := rt_next_activity rt + 1, rt_activities := rt_activities rt @ [(rt_next_activity rt, ?a)]\<rparr>"
      "i = rt_next_activity rt"
    using assms True by (auto simp: open_completion_def Let_def)
  thus ?thesis using True by (intro that [of ?a]) simp_all
qed (use assms in \<open>auto simp: open_completion_def split: option.splits bool.splits\<close>)

lemma keyed_opened:
  "keyed rt \<Longrightarrow> rt_activities rt' = rt_activities rt @ [(rt_next_activity rt, a)] \<Longrightarrow> rt_next_activity rt' = Suc (rt_next_activity rt) \<Longrightarrow> keyed rt'"
  by (auto simp: keyed_def)

lemma opened_tables:
  assumes "tables_ok rt" "open_completion now request run n rt = Inr (rt', i)" shows "tables_ok rt'"
proof -
  obtain a where a: "rt_activities rt' = rt_activities rt @ [(rt_next_activity rt, a)]" "rt_turns rt' = rt_turns rt"
      "rt_next_activity rt' = Suc (rt_next_activity rt)"
    using opened_shape [OF assms(2)] by metis
  show ?thesis
  proof (rule tables_okI)
    show "keyed rt'" using assms(1) keyed_opened [OF _ a(1,3)] by (simp add: tables_ok_def)
  next
    fix th t assume "held rt' th t"
    hence "held rt th t" by (simp add: held_def a)
    from tables_ok_turn [OF assms(1) this] obtain b where "map_of (rt_activities rt) (ts_activity t) = Some b" "av_thread_id b = Some th"
      by (rule ownedE)
    thus "owned rt' th t" by (intro ownedI [of _ t b]) (simp_all add: a(1))
  qed
qed

lemma step_tables_ok:
  assumes "tables_ok rt" shows "tables_ok (rt_step trunc e rt)"
proof (cases e)
  case (Opened now request run n)
  show ?thesis using assms opened_tables [OF assms, of now request run n]
    by (auto simp: Opened split: sum.splits prod.splits)
qed (use assms in \<open>simp_all add: breaks_only_tables [OF process_breaks_only(1)] breaks_only_tables [OF process_breaks_only(2)]
   breaks_only_tables [OF process_breaks_only(3)] breaks_only_tables [OF process_breaks_only(4)]
   breaks_only_tables [OF process_breaks_only(5)] breaks_only_tables [OF process_breaks_only(6)]
   breaks_only_tables [OF process_breaks_only(7)] breaks_only_tables [OF process_breaks_only(8)]
   notification_tables close_tables thread_started_tables turn_started_tables enter_turn_def on_activity_tables\<close>)

section \<open>Who waits for which process\<close>

text \<open>
  Two moments at which the runtime does not protect a turn: a launch that replaces a dead process
  while the runtime still counts as ready, and a completion that picks up its process during a launch.
\<close>

definition calm_step :: "rt_event \<Rightarrow> runtime \<Rightarrow> runtime \<Rightarrow> bool" where
  "calm_step e rt rt' \<longleftrightarrow> (rt_launching rt = None \<and> rt_launching rt' \<noteq> None \<longrightarrow> \<not> rt_ready rt)
     \<and> (case e of Entered _ \<Rightarrow> rt_launching rt = None | _ \<Rightarrow> True)"

fun calm :: "(string \<Rightarrow> int option) \<Rightarrow> rt_event list \<Rightarrow> runtime \<Rightarrow> bool" where
  "calm trunc [] rt \<longleftrightarrow> True"
| "calm trunc (e # es) rt \<longleftrightarrow> calm_step e rt (rt_step trunc e rt) \<and> calm trunc es (rt_step trunc e rt)"

definition transports_known :: "runtime \<Rightarrow> bool" where
  "transports_known rt \<longleftrightarrow> (\<forall>ia \<in> set (rt_activities rt). \<forall>t. av_transport (snd ia) = Some t \<longrightarrow> t < rt_next_transport rt)"

definition launch_unused :: "runtime \<Rightarrow> bool" where
  "launch_unused rt \<longleftrightarrow> (\<forall>t b. rt_launching rt = Some (t, b) \<longrightarrow>
     \<not> rt_ready rt \<and> (\<forall>ia \<in> set (rt_activities rt). av_transport (snd ia) \<noteq> Some t))"

definition waits_current :: "runtime \<Rightarrow> bool" where
  "waits_current rt \<longleftrightarrow> (\<forall>th t a. rt_turns rt th = Some t \<longrightarrow> ts_future t = Waiting \<longrightarrow>
     map_of (rt_activities rt) (ts_activity t) = Some a \<longrightarrow> rt_transport rt \<noteq> None \<and> av_transport a = rt_transport rt)"

definition waits_ok :: "runtime \<Rightarrow> bool" where
  "waits_ok rt \<longleftrightarrow> transports_known rt \<and> launch_unused rt \<and> waits_current rt"

lemma waits_currentD:
  "waits_current rt \<Longrightarrow> rt_turns rt th = Some t \<Longrightarrow> ts_future t = Waiting \<Longrightarrow> map_of (rt_activities rt) (ts_activity t) = Some a \<Longrightarrow>
     rt_transport rt \<noteq> None \<and> av_transport a = rt_transport rt"
  by (simp add: waits_current_def)

lemma waits_currentI:
  "(\<And>th t a. rt_turns rt th = Some t \<Longrightarrow> ts_future t = Waiting \<Longrightarrow> map_of (rt_activities rt) (ts_activity t) = Some a \<Longrightarrow>
     rt_transport rt \<noteq> None \<and> av_transport a = rt_transport rt) \<Longrightarrow> waits_current rt"
  by (simp add: waits_current_def)

lemma no_transport_no_waiting:
  "waits_current rt \<Longrightarrow> rt_transport rt = None \<Longrightarrow> rt_turns rt th = Some t \<Longrightarrow> map_of (rt_activities rt) (ts_activity t) = Some a \<Longrightarrow>
     ts_future t \<noteq> Waiting"
  using waits_currentD by blast

lemma launch_waits:
  assumes "waits_ok rt" "\<not> rt_ready rt" shows "waits_ok (launch b rt)"
proof -
  have "waits_current (launch b rt)"
    using no_transport_no_waiting [of rt] assms
    by (intro waits_currentI) (fastforce simp: waits_ok_def split: if_splits)
  thus ?thesis using assms by (fastforce simp: waits_ok_def transports_known_def launch_unused_def)
qed

lemma abandon_waits:
  assumes "waits_ok rt" shows "waits_ok (abandon_launch rt)"
proof (cases "rt_launching rt")
  case None
  hence "rt_transport (abandon_launch rt) = rt_transport rt" by simp
  thus ?thesis using assms by (simp add: waits_ok_def transports_known_def launch_unused_def waits_current_def)
next
  case (Some tb)
  obtain t b where tb: "tb = (t, b)" by (cases tb)
  have no: "av_transport a \<noteq> Some t" if "map_of (rt_activities rt) i = Some a" for i a
    using assms map_of_SomeD [OF that] by (auto simp: waits_ok_def launch_unused_def Some tb)
  have "waits_current (abandon_launch rt)"
  proof (rule waits_currentI)
    fix th s a assume "rt_turns (abandon_launch rt) th = Some s" "ts_future s = Waiting"
      "map_of (rt_activities (abandon_launch rt)) (ts_activity s) = Some a"
    with waits_currentD [of rt th s a] assms no [of "ts_activity s" a]
    show "rt_transport (abandon_launch rt) \<noteq> None \<and> av_transport a = rt_transport (abandon_launch rt)"
      by (auto simp: waits_ok_def Some tb)
  qed
  thus ?thesis using assms by (simp add: waits_ok_def transports_known_def launch_unused_def)
qed

lemma waits_ok_fields:
  assumes "waits_ok rt" "rt_turns rt' = rt_turns rt" "rt_activities rt' = rt_activities rt" "rt_transport rt' = rt_transport rt"
    "rt_next_transport rt' = rt_next_transport rt" "rt_launching rt' = rt_launching rt \<and> (rt_ready rt' \<longrightarrow> rt_ready rt) \<or> rt_launching rt' = None"
  shows "waits_ok rt'"
  using assms by (auto simp: waits_ok_def transports_known_def launch_unused_def waits_current_def)

lemma waits_ok_broken:
  assumes "waits_ok rt" "rt_turns rt' = map_option (break_turn e) \<circ> rt_turns rt" "rt_activities rt' = rt_activities rt"
    "rt_next_transport rt' = rt_next_transport rt" "rt_launching rt' = rt_launching rt \<and> (rt_ready rt' \<longrightarrow> rt_ready rt)"
  shows "waits_ok rt'"
proof -
  have "waits_current rt'" by (rule waits_currentI) (auto simp: assms(2))
  thus ?thesis using assms by (auto simp: waits_ok_def transports_known_def launch_unused_def)
qed

lemma start_waits:
  assumes "waits_ok rt" "calm_step (Start env) rt (start_runtime env rt)" shows "waits_ok (start_runtime env rt)"
proof (cases "rt_launching rt \<noteq> None \<or> rt_ready rt \<and> is_running (rt\<lparr>rt_stopping := False\<rparr>) \<or> env \<noteq> Validated")
  case True
  thus ?thesis
    by (intro waits_ok_fields [OF assms(1)]) (auto simp: start_runtime_def Let_def split: environment_check.split)
next
  case False
  hence eq: "start_runtime env rt = launch False (rt\<lparr>rt_stopping := False\<rparr>)" by (auto simp: start_runtime_def Let_def)
  have "rt_launching rt = None" using False by blast
  hence "\<not> rt_ready rt" using assms(2) by (simp add: calm_step_def eq)
  moreover have "waits_ok (rt\<lparr>rt_stopping := False\<rparr>)" by (rule waits_ok_fields [OF assms(1)]) simp_all
  ultimately show ?thesis unfolding eq by (intro launch_waits) simp_all
qed

lemma restart_waits:
  assumes "waits_ok rt" "calm_step RestartRound rt (restart_round rt)" shows "waits_ok (restart_round rt)"
proof (cases "rt_restart rt = None \<or> rt_launching rt \<noteq> None \<or> rt_stopping rt \<or> rt_ready rt \<and> is_running rt")
  case True
  thus ?thesis by (intro waits_ok_fields [OF assms(1)]) (auto simp: restart_round_def)
next
  case False
  hence eq: "restart_round rt = launch True rt" by (auto simp: restart_round_def)
  have "rt_launching rt = None" using False by blast
  hence "\<not> rt_ready rt" using assms(2) by (simp add: calm_step_def eq)
  thus ?thesis unfolding eq by (rule launch_waits [OF assms(1)])
qed

lemma finish_waits:
  assumes "waits_ok rt" shows "waits_ok (finish_launch fails rt)"
proof (cases "rt_launching rt = None \<or> fails = None \<and> launched_ok rt")
  case True
  thus ?thesis by (intro waits_ok_fields [OF assms(1)]) (auto simp: finish_launch_def Let_def split: option.split prod.split)
next
  case False
  show ?thesis
    by (rule waits_ok_fields [OF abandon_waits [OF assms]])
      (use False in \<open>auto simp: finish_launch_def Let_def split: option.split prod.split\<close>)
qed

lemma stop_waits:
  assumes "waits_ok rt" shows "waits_ok (stop_asked rt)" "waits_ok (stop_locked rt)"
proof -
  show "waits_ok (stop_asked rt)"
  proof (cases "\<exists>t. rt_launching rt = Some (t, True)")
    case True
    show ?thesis by (rule waits_ok_fields [OF abandon_waits [OF assms]]) (use True in \<open>auto simp: stop_asked_def Let_def\<close>)
  next
    case False
    show ?thesis by (rule waits_ok_fields [OF assms])
      (use False in \<open>auto simp: stop_asked_def Let_def split: option.split prod.split bool.split\<close>)
  qed
  show "waits_ok (stop_locked rt)"
  proof (cases "rt_launching rt = None")
    case True
    show ?thesis by (rule waits_ok_broken [OF assms]) (use True in \<open>auto simp: stop_locked_def fail_turns_turns\<close>)
  qed (use assms in \<open>simp add: stop_locked_def\<close>)
qed

lemma exit_waits:
  assumes "waits_ok rt"
  shows "waits_ok (process_died t rt)" "waits_ok (handle_exit t e rt)" "waits_ok (exit_handled rt)"
proof -
  show "waits_ok (process_died t rt)" by (rule waits_ok_fields [OF assms]) (simp_all add: process_died_def)
  show "waits_ok (exit_handled rt)" by (rule waits_ok_fields [OF assms]) (simp_all add: exit_handled_def)
  show "waits_ok (handle_exit t e rt)"
  proof (cases "rt_transport rt = Some t")
    case True
    show ?thesis by (rule waits_ok_broken [OF assms]) (use True in \<open>auto simp: handle_exit_def fail_turns_turns\<close>)
  qed (use assms in \<open>simp add: handle_exit_def\<close>)
qed

lemma on_activity_in:
  assumes "ia \<in> set (rt_activities (on_activity i f rt))"
  obtains a where "(fst ia, a) \<in> set (rt_activities rt)" "snd ia = (if fst ia = i then f a else a)"
  using assms by (auto simp: on_activity_def split: if_splits)

lemma on_activity_known:
  assumes "transports_known rt" "launch_unused rt" and f: "\<And>a. av_transport (f a) = av_transport a"
  shows "transports_known (on_activity i f rt)" "launch_unused (on_activity i f rt)"
proof -
  have "\<exists>ib \<in> set (rt_activities rt). av_transport (snd ib) = av_transport (snd ia)" if "ia \<in> set (rt_activities (on_activity i f rt))" for ia
    using that by (rule on_activity_in) (metis f snd_conv)
  thus "transports_known (on_activity i f rt)" "launch_unused (on_activity i f rt)"
    using assms(1,2) by (fastforce simp: transports_known_def launch_unused_def)+
qed

lemma on_activity_waits:
  assumes "waits_ok rt" and f: "\<And>a. av_transport (f a) = av_transport a" shows "waits_ok (on_activity i f rt)"
proof -
  have "waits_current (on_activity i f rt)"
    using assms f by (intro waits_currentI) (auto simp: waits_ok_def split: if_splits dest: waits_currentD)
  thus ?thesis using assms on_activity_known by (simp add: waits_ok_def)
qed

lemma close_waits:
  assumes "waits_ok rt" shows "waits_ok (close_completion i rt)"
proof -
  have same: "rt_transport (close_completion i rt) = rt_transport rt" "rt_launching (close_completion i rt) = rt_launching rt"
      "rt_next_transport (close_completion i rt) = rt_next_transport rt" "rt_ready (close_completion i rt) \<longrightarrow> rt_ready rt"
    using close_same_processes [of rt i] by (simp_all add: same_processes_def)
  have "waits_current (close_completion i rt)"
  proof (rule waits_currentI)
    fix th t a assume t: "rt_turns (close_completion i rt) th = Some t" "ts_future t = Waiting"
      "map_of (rt_activities (close_completion i rt)) (ts_activity t) = Some a"
    have "held rt th t" using close_held(1) [of i rt th t] t by (simp add: held_def)
    with waits_currentD [of rt th t a] assms t same
    show "rt_transport (close_completion i rt) \<noteq> None \<and> av_transport a = rt_transport (close_completion i rt)"
      by (auto simp: waits_ok_def held_def split: if_splits)
  qed
  thus ?thesis using assms same by (auto simp: waits_ok_def transports_known_def launch_unused_def)
qed

lemma thread_started_waits:
  assumes "waits_ok rt" "procs_ok rt" shows "waits_ok (thread_started now i thread rt)" (is "waits_ok ?rt'")
proof (cases rule: thread_started_cases [of now i thread rt])
  case 1
  thus ?thesis using close_waits [OF assms(1)] by simp
next
  case (2 a)
  let ?rt = "on_activity i (\<lambda>a. a\<lparr>av_thread_id := Some thread, av_last_progress_at := now\<rparr>) rt"
  have W: "waits_ok ?rt" by (rule on_activity_waits [OF assms(1)]) simp
  have "rt_transport rt \<noteq> None \<and> av_transport a = rt_transport rt"
    using assms(2) 2(3) by (auto simp: procs_ok_def)
  hence "waits_current ?rt'" using W 2(1) unfolding 2(4)
    by (intro waits_currentI) (auto simp: waits_ok_def split: if_splits dest: waits_currentD)
  thus ?thesis using W unfolding 2(4) by (simp add: waits_ok_def transports_known_def launch_unused_def)
qed

lemma turn_started_waits: "waits_ok rt \<Longrightarrow> waits_ok (turn_started now i turn rt)"
  by (simp add: turn_started_def close_waits on_activity_waits)

lemma entered_waits:
  assumes "waits_ok rt" "procs_ok rt" "rt_launching rt = None" shows "waits_ok (enter_turn i rt)"
proof -
  have "transports_known (enter_turn i rt)"
    unfolding transports_known_def
  proof (intro ballI allI impI)
    fix ia t assume ia: "ia \<in> set (rt_activities (enter_turn i rt))" "av_transport (snd ia) = Some t"
    from ia(1) [unfolded enter_turn_def] obtain a where "(fst ia, a) \<in> set (rt_activities rt)"
        "snd ia = (if fst ia = i then (if av_transport a = None then a\<lparr>av_transport := rt_transport rt\<rparr> else a) else a)"
      by (rule on_activity_in)
    thus "t < rt_next_transport (enter_turn i rt)"
      using ia(2) assms by (fastforce simp: enter_turn_def waits_ok_def transports_known_def procs_ok_def split: if_splits)
  qed
  moreover have "launch_unused (enter_turn i rt)" using assms(3) by (simp add: launch_unused_def enter_turn_def)
  moreover have "waits_current (enter_turn i rt)"
    using assms(1) by (intro waits_currentI) (auto simp: enter_turn_def waits_ok_def split: if_splits dest: waits_currentD)
  ultimately show ?thesis by (simp add: waits_ok_def)
qed

lemma opened_waits:
  assumes "waits_ok rt" "tables_ok rt" "open_completion now request run n rt = Inr (rt', i)" shows "waits_ok rt'"
proof -
  obtain a where a: "rt_activities rt' = rt_activities rt @ [(rt_next_activity rt, a)]" "av_transport a = None" "rt_turns rt' = rt_turns rt"
    using opened_shape [OF assms(3)] by metis
  have same: "rt_transport rt' = rt_transport rt" "rt_launching rt' = rt_launching rt" "rt_next_transport rt' = rt_next_transport rt"
      "rt_ready rt' \<longrightarrow> rt_ready rt"
    using opened_same_processes [OF assms(3)] by (simp_all add: same_processes_def)
  have "waits_current rt'"
  proof (rule waits_currentI)
    fix th t b assume t: "rt_turns rt' th = Some t" "ts_future t = Waiting" "map_of (rt_activities rt') (ts_activity t) = Some b"
    have "held rt th t" using t by (simp add: held_def a(3))
    then obtain c where "map_of (rt_activities rt) (ts_activity t) = Some c" using tables_ok_turn [OF assms(2)] ownedE by blast
    hence "map_of (rt_activities rt) (ts_activity t) = Some b" using t(3) by (simp add: a(1))
    with waits_currentD [of rt th t b] assms(1) t
    show "rt_transport rt' \<noteq> None \<and> av_transport b = rt_transport rt'" by (simp add: a(3) same waits_ok_def)
  qed
  thus ?thesis using assms(1) a same by (auto simp: waits_ok_def transports_known_def launch_unused_def)
qed

lemma notification_waits:
  assumes "waits_ok rt" shows "waits_ok (on_notification trunc now u meth params rt)" (is "waits_ok ?rt'")
proof -
  have same: "rt_transport ?rt' = rt_transport rt" "rt_launching ?rt' = rt_launching rt" "rt_next_transport ?rt' = rt_next_transport rt"
      "rt_ready ?rt' \<longrightarrow> rt_ready rt"
    using notification_same_processes [of rt trunc now u meth params] by (simp_all add: same_processes_def)
  show ?thesis
  proof (cases rule: notification_turns [of trunc now u meth params rt])
    case 1
    show ?thesis by (rule waits_ok_fields [OF assms]) (use 1 same in simp_all)
  next
    case (2 th t t')
    let ?rt = "on_activity (ts_activity t) (\<lambda>a. a\<lparr>av_last_progress_at := now\<rparr>) rt"
    have W: "waits_ok ?rt" by (rule on_activity_waits [OF assms]) simp
    have "waits_current ?rt'"
    proof (rule waits_currentI)
      fix th' s a assume s: "rt_turns ?rt' th' = Some s" "ts_future s = Waiting" "map_of (rt_activities ?rt') (ts_activity s) = Some a"
      obtain s0 where "rt_turns rt th' = Some s0" "ts_future s0 = Waiting" "ts_activity s0 = ts_activity s"
        using s(1,2) 2(2,3,5,6) by (cases "th' = th"; cases "ts_future t = Waiting") auto
      moreover have "map_of (rt_activities ?rt) (ts_activity s) = Some a" using s(3) by (simp only: 2(4))
      ultimately show "rt_transport ?rt' \<noteq> None \<and> av_transport a = rt_transport ?rt'"
        using waits_currentD [of ?rt th' s0 a] W by (simp add: same waits_ok_def)
    qed
    moreover have "transports_known ?rt'" "launch_unused ?rt'"
      using W same by (auto simp: waits_ok_def transports_known_def launch_unused_def 2(4))
    ultimately show ?thesis by (simp add: waits_ok_def)
  qed
qed

definition runtime_ok :: "runtime \<Rightarrow> bool" where
  "runtime_ok rt \<longleftrightarrow> procs_ok rt \<and> tables_ok rt \<and> waits_ok rt"

lemma step_waits_ok:
  assumes "runtime_ok rt" "calm_step e rt (rt_step trunc e rt)" shows "waits_ok (rt_step trunc e rt)"
proof -
  have I: "procs_ok rt" "tables_ok rt" "waits_ok rt" using assms(1) by (simp_all add: runtime_ok_def)
  show ?thesis
  proof (cases e)
    case (Start env)
    thus ?thesis using start_waits [OF I(3)] assms(2) by simp
  next
    case RestartRound
    thus ?thesis using restart_waits [OF I(3)] assms(2) by simp
  next
    case (Opened now request run n)
    show ?thesis using I opened_waits [OF I(3,2), of now request run n] by (auto simp: Opened split: sum.splits prod.splits)
  next
    case (Entered i)
    thus ?thesis using entered_waits [OF I(3,1)] assms(2) by (simp add: calm_step_def)
  qed (use I in \<open>simp_all add: finish_waits stop_waits exit_waits notification_waits close_waits thread_started_waits turn_started_waits\<close>)
qed

lemma run_keeps_ok:
  assumes "runtime_ok rt" "calm trunc es rt" shows "runtime_ok (rt_run trunc es rt)"
  using assms
proof (induction es arbitrary: rt)
  case (Cons e es)
  have "runtime_ok (rt_step trunc e rt)"
    using Cons.prems step_waits_ok [of rt e trunc] step_procs_ok [of rt trunc e] step_tables_ok [of rt trunc e]
    by (simp add: runtime_ok_def)
  thus ?case using Cons by simp
qed simp

lemma new_runtime_ok: "runtime_ok new_runtime"
  by (simp add: runtime_ok_def procs_ok_def tables_ok_def keyed_def held_def waits_ok_def transports_known_def launch_unused_def
      waits_current_def new_runtime_def)

lemma runtime_ok_waiting:
  assumes "runtime_ok rt" "rt_turns rt th = Some t" "ts_future t = Waiting"
  shows "\<exists>a p. map_of (rt_activities rt) (ts_activity t) = Some a \<and> av_thread_id a = Some th \<and> av_transport a = Some p \<and> rt_transport rt = Some p"
proof -
  have "held rt th t" using assms by (simp add: held_def)
  then obtain a where a: "map_of (rt_activities rt) (ts_activity t) = Some a" "av_thread_id a = Some th"
    using assms(1) tables_ok_turn ownedE unfolding runtime_ok_def by blast
  with waits_currentD [of rt th t a] assms have "rt_transport rt \<noteq> None \<and> av_transport a = rt_transport rt"
    by (simp add: runtime_ok_def waits_ok_def)
  thus ?thesis using a by auto
qed

text \<open>
  C7. In every interleaving of starts, exits, restarts, stops, notifications and completions in
  which no launch begins while the runtime still counts as ready and no completion picks up its process
  during a launch, a turn that still waits belongs to a completion in progress, and the process that
  completion talks to is the one the runtime has now: nobody waits on a process that was replaced,
  stopped or has exited. (\<open>abandoned_launch_leaves_turn_waiting\<close> shows what happens otherwise.)
\<close>

theorem nobody_waits_on_a_lost_process:
  assumes "calm trunc es new_runtime" and "rt = rt_run trunc es new_runtime"
    and "rt_turns rt th = Some t" and "ts_future t = Waiting"
  shows "\<exists>a p. map_of (rt_activities rt) (ts_activity t) = Some a \<and> av_thread_id a = Some th \<and> av_transport a = Some p \<and> rt_transport rt = Some p"
proof -
  have "runtime_ok rt" unfolding assms(2) by (rule run_keeps_ok [OF new_runtime_ok assms(1)])
  thus ?thesis using assms(3,4) by (rule runtime_ok_waiting)
qed

definition demo_turn_events :: "rt_event list" where
  "demo_turn_events = [Start Validated, LaunchEnds None, Opened 5 None None 0, Entered 1, ThreadStarted 6 1 ''th'', TurnStarted 7 1 ''tu'']"

lemma nobody_waits_on_a_lost_process_witness:
  "\<exists>t a p. rt_turns (rt_run (\<lambda>_. None) demo_turn_events new_runtime) ''th'' = Some t \<and> ts_future t = Waiting
     \<and> map_of (rt_activities (rt_run (\<lambda>_. None) demo_turn_events new_runtime)) (ts_activity t) = Some a
     \<and> av_transport a = Some p \<and> rt_transport (rt_run (\<lambda>_. None) demo_turn_events new_runtime) = Some p"
proof -
  have c: "calm (\<lambda>_. None) demo_turn_events new_runtime" by code_simp
  have "(case rt_turns (rt_run (\<lambda>_. None) demo_turn_events new_runtime) ''th'' of Some t \<Rightarrow> ts_future t = Waiting | None \<Rightarrow> False)"
    by code_simp
  then obtain t where t: "rt_turns (rt_run (\<lambda>_. None) demo_turn_events new_runtime) ''th'' = Some t" "ts_future t = Waiting"
    by (auto split: option.splits)
  from nobody_waits_on_a_lost_process [OF c refl t] t show ?thesis by blast
qed

section \<open>How a turn is settled\<close>

lemma breaks_only_future:
  assumes "breaks_only rt rt'" "rt_turns rt th = Some t" "rt_turns rt' th = Some t'"
  shows "ts_future t' = ts_future t \<or> ts_future t = Waiting \<and> (\<exists>e. ts_future t' = Broken e)"
  using assms by (auto simp: breaks_only_def break_turn_def split: if_splits)

lemma notification_answer:
  assumes "rt_turns rt th = Some t" "rt_turns (on_notification trunc now p meth params rt) th = Some t'"
    and "ts_future t = Waiting" "ts_future t' = Answered m u"
  shows "meth = ''turn/completed'' \<and> rt_transport rt = Some p \<and> dict_get ''threadId'' params = Some (JStr th)
    \<and> (\<exists>d. sub_dict ''turn'' params = Some d \<and> dict_get ''status'' d = Some (JStr ''completed'') \<and> final_message t d = Some (Some m) \<and> u = ts_usage t)"
  using assms
  by (auto simp: on_notification_def handle_notification_def apply_notification_def turn_completed_def break_turn_def Let_def
      split: if_splits option.splits json.splits prod.splits bool.splits)

lemma notification_settled:
  assumes "rt_turns rt th = Some t" "rt_turns (on_notification trunc now p meth params rt) th = Some t'" "ts_future t \<noteq> Waiting"
  shows "ts_future t' = ts_future t"
  by (cases rule: notification_turns [of trunc now p meth params rt]) (use assms in \<open>auto split: if_splits\<close>)

lemma close_future:
  assumes "rt_turns rt th = Some t" "rt_turns (close_completion i rt) th = Some t'"
  shows "ts_future t' = ts_future t \<or> ts_future t = Waiting \<and> ts_future t' = Cancelled"
  using assms unfolding close_turns by (auto split: if_splits)

lemma thread_started_future:
  assumes "tables_ok rt" "th \<noteq> []" "rt_turns rt th = Some t" "rt_turns (thread_started now i thread rt) th = Some t'"
    "ts_activity t' = ts_activity t"
  shows "ts_future t' = ts_future t \<or> ts_future t = Waiting \<and> ts_future t' = Cancelled"
proof (cases rule: thread_started_cases [of now i thread rt])
  case 1
  thus ?thesis using close_future assms by simp
next
  case (2 a)
  have "held rt th t" using assms by (simp add: held_def)
  hence "owned rt th t" by (rule tables_ok_turn [OF assms(1)])
  hence "ts_activity t \<noteq> i" using 2(1,2) by (auto simp: owned_def)
  thus ?thesis using assms 2(4) by (auto split: if_splits)
qed

definition completed_by :: "rt_event \<Rightarrow> runtime \<Rightarrow> string \<Rightarrow> turn_state \<Rightarrow> json \<Rightarrow> token_usage \<Rightarrow> bool" where
  "completed_by e rt th t m u \<longleftrightarrow> (case e of
     Notified now p meth params \<Rightarrow> meth = ''turn/completed'' \<and> rt_transport rt = Some p \<and> dict_get ''threadId'' params = Some (JStr th)
       \<and> (case sub_dict ''turn'' params of None \<Rightarrow> False
            | Some d \<Rightarrow> dict_get ''status'' d = Some (JStr ''completed'') \<and> final_message t d = Some (Some m) \<and> u = ts_usage t)
   | _ \<Rightarrow> False)"

definition settles :: "rt_event \<Rightarrow> runtime \<Rightarrow> string \<Rightarrow> turn_state \<Rightarrow> turn_state \<Rightarrow> bool" where
  "settles e rt th t t' \<longleftrightarrow> ts_future t' = ts_future t
     \<or> ts_future t = Waiting \<and> (case ts_future t' of Answered m u \<Rightarrow> completed_by e rt th t m u | _ \<Rightarrow> True)"

lemma settles_breaks:
  "breaks_only rt rt' \<Longrightarrow> rt_turns rt th = Some t \<Longrightarrow> rt_turns rt' th = Some t' \<Longrightarrow> settles e rt th t t'"
  using breaks_only_future [of rt rt' th t t'] by (auto simp: settles_def)

lemma settles_close:
  "rt_turns rt th = Some t \<Longrightarrow> rt_turns (close_completion i rt) th = Some t' \<Longrightarrow> settles e rt th t t'"
  using close_future [of rt th t i t'] by (auto simp: settles_def)

lemma settles_notified:
  assumes "rt_turns rt th = Some t" "rt_turns (on_notification trunc now p meth params rt) th = Some t'"
  shows "settles (Notified now p meth params) rt th t t'"
proof (cases "ts_future t = Waiting")
  case True
  show ?thesis
  proof (cases "ts_future t'")
    case (Answered m u)
    show ?thesis using notification_answer [OF assms True Answered] True Answered
      by (auto simp: settles_def completed_by_def)
  qed (use True in \<open>simp_all add: settles_def\<close>)
qed (use notification_settled [OF assms] in \<open>simp add: settles_def\<close>)

lemma step_settles:
  assumes "tables_ok rt" "th \<noteq> []" "rt_turns rt th = Some t" "rt_turns (rt_step trunc e rt) th = Some t'" "ts_activity t' = ts_activity t"
  shows "settles e rt th t t'"
proof (cases e)
  case (Opened now request run n)
  hence "rt_turns (rt_step trunc e rt) = rt_turns rt"
    using opened_shape [of now request run n rt] by (auto split: sum.splits prod.splits)
  thus ?thesis using assms by (simp add: settles_def)
next
  case (Entered i)
  thus ?thesis using assms by (simp add: enter_turn_def settles_def)
next
  case (ThreadStarted now i thread)
  have "rt_turns (thread_started now i thread rt) th = Some t'" using assms(4) by (simp add: ThreadStarted)
  from thread_started_future [OF assms(1,2,3) this assms(5)] show ?thesis by (auto simp: settles_def)
next
  case (TurnStarted now i turn)
  thus ?thesis using assms settles_close [OF assms(3), of i t' e]
    by (auto simp: turn_started_def settles_def split: if_splits)
next
  case (Closed i)
  thus ?thesis using assms settles_close [OF assms(3), of i t' e] by simp
next
  case (Notified now p meth params)
  thus ?thesis using assms settles_notified by simp
qed (use assms in \<open>auto intro: settles_breaks process_breaks_only\<close>)

lemma run_tables_ok: "tables_ok rt \<Longrightarrow> tables_ok (rt_run trunc es rt)"
  by (rule rt_run_keeps [where I = tables_ok]) (auto intro: step_tables_ok)

text \<open>
  C8. A turn is settled once: what its completion will return does not change any more,
  whatever happens. And it is answered only by a \<open>turn/completed\<close> notification of its own thread
  from the process the runtime has now, with status \<open>completed\<close>, with the message that
  notification or an earlier one carried and the usage counted so far.
\<close>

theorem turn_settled_once:
  assumes "rt = rt_run trunc es new_runtime" and "th \<noteq> []" and "rt_turns rt th = Some t"
    and "rt_turns (rt_step trunc e rt) th = Some t'" and "ts_activity t' = ts_activity t"
  shows "ts_future t' = ts_future t
     \<or> ts_future t = Waiting \<and> (case ts_future t' of Answered m u \<Rightarrow> completed_by e rt th t m u | _ \<Rightarrow> True)"
proof -
  have "tables_ok rt" unfolding assms(1) by (rule run_tables_ok) (use new_runtime_ok in \<open>simp add: runtime_ok_def\<close>)
  from step_settles [OF this assms(2-5)] show ?thesis by (simp only: settles_def)
qed

definition demo_completed :: rt_event where
  "demo_completed = Notified 8 0 ''turn/completed'' [(''threadId'', JStr ''th''), (''turn'', JObj [(''status'', JStr ''completed''),
     (''items'', JList [JObj [(''type'', JStr ''agentMessage''), (''text'', JStr ''done'')]])])]"

lemma turn_settled_once_witness:
  "(case rt_turns (rt_run (\<lambda>_. None) demo_turn_events new_runtime) ''th'' of None \<Rightarrow> False | Some t \<Rightarrow>
     completed_by demo_completed (rt_run (\<lambda>_. None) demo_turn_events new_runtime) ''th'' t (JStr ''done'') \<lparr>tu_prompt = 0, tu_completion = 0\<rparr>)"
proof -
  let ?rt = "rt_run (\<lambda>_. None) demo_turn_events new_runtime"
  let ?t = "\<lparr>ts_future = Waiting, ts_activity = 1, ts_message = None, ts_usage = \<lparr>tu_prompt = 0, tu_completion = 0\<rparr>\<rparr>"
  let ?u = "\<lparr>ts_future = Answered (JStr ''done'') \<lparr>tu_prompt = 0, tu_completion = 0\<rparr>, ts_activity = 1, ts_message = Some (JStr ''done''),
     ts_usage = \<lparr>tu_prompt = 0, tu_completion = 0\<rparr>\<rparr>"
  have a: "rt_turns ?rt ''th'' = Some ?t" by code_simp
  have b: "rt_turns (rt_step (\<lambda>_. None) demo_completed ?rt) ''th'' = Some ?u" by code_simp
  from turn_settled_once [OF refl _ a b] show ?thesis by (simp add: a)
qed

section \<open>Always on the way to a process\<close>

definition tended :: "runtime \<Rightarrow> bool" where
  "tended rt \<longleftrightarrow> \<not> rt_stopping rt \<and> (rt_transport rt \<noteq> None \<or> rt_launching rt \<noteq> None \<or> rt_restart rt \<noteq> None \<or> rt_exits rt > 0)"

lemma tended_same: "same_processes rt rt' \<Longrightarrow> tended rt \<Longrightarrow> tended rt'"
  by (simp add: tended_def same_processes_def)

fun stops :: "rt_event \<Rightarrow> bool" where
  "stops StopAsked \<longleftrightarrow> True" | "stops StopLocked \<longleftrightarrow> True" | "stops _ \<longleftrightarrow> False"

lemma start_tended: "tended rt \<Longrightarrow> tended (start_runtime env rt)"
  by (auto simp: start_runtime_def tended_def Let_def split: environment_check.split)

lemma finish_tended:
  assumes "tended rt" "procs_ok rt" shows "tended (finish_launch fails rt)"
proof (cases "rt_launching rt")
  case (Some tb)
  obtain t b where tb: "tb = (t, b)" by (cases tb)
  have "b \<Longrightarrow> rt_restart rt \<noteq> None" "launched_ok rt \<Longrightarrow> rt_transport rt \<noteq> None"
    using assms(2) by (auto simp: procs_ok_def Some tb launched_ok_def dest: sym)
  thus ?thesis using assms(1) by (cases b) (auto simp: finish_launch_def Some tb tended_def Let_def)
qed (use assms in \<open>simp add: finish_launch_def\<close>)

lemma restart_tended: "tended rt \<Longrightarrow> tended (restart_round rt)"
  by (auto simp: restart_round_def tended_def is_running_def split: option.splits)

lemma exit_tended:
  "tended rt \<Longrightarrow> tended (process_died t rt)" "tended rt \<Longrightarrow> tended (handle_exit t e rt)" "tended rt \<Longrightarrow> tended (exit_handled rt)"
  by (auto simp: process_died_def handle_exit_def exit_handled_def schedule_restart_def tended_def)

lemma step_tended:
  assumes "tended rt" "procs_ok rt" "\<not> stops e" shows "tended (rt_step trunc e rt)"
proof (cases e)
  case (Opened now request run n)
  show ?thesis using assms(1) opened_same_processes [of now request run n rt]
    by (auto simp: Opened tended_same split: sum.splits prod.splits)
qed (use assms in \<open>simp_all add: start_tended finish_tended restart_tended exit_tended tended_same [OF close_same_processes]
   tended_same [OF completion_same_processes(1)] tended_same [OF completion_same_processes(2)]
   tended_same [OF completion_same_processes(3)] tended_same [OF notification_same_processes]\<close>)

lemma run_tended:
  assumes "tended rt" "procs_ok rt" "list_all (\<lambda>e. \<not> stops e) es"
  shows "tended (rt_run trunc es rt) \<and> procs_ok (rt_run trunc es rt)"
  using assms by (induction es arbitrary: rt) (simp_all add: step_tended step_procs_ok)

lemma run_procs_ok: "procs_ok rt \<Longrightarrow> procs_ok (rt_run trunc es rt)"
  by (rule rt_run_keeps [where I = procs_ok]) (auto intro: step_procs_ok)

lemma start_launches: "rt_launching rt = None \<Longrightarrow> tended (start_runtime Validated rt)"
  by (auto simp: start_runtime_def tended_def is_running_def Let_def split: option.splits)

definition serving :: "runtime \<Rightarrow> bool" where
  "serving rt \<longleftrightarrow> rt_ready rt \<and> is_running rt"

lemma launch_serves: "\<not> rt_stopping rt \<Longrightarrow> serving (finish_launch None (launch True rt))"
  by (simp add: serving_def finish_launch_def launched_ok_def is_running_def)

lemma round_serves:
  assumes "rt_launching rt = None" "rt_restart rt \<noteq> None" "\<not> rt_stopping rt"
  shows "serving (finish_launch None (restart_round rt))"
proof (cases "rt_ready rt \<and> is_running rt")
  case True
  moreover have "restart_round rt = rt\<lparr>rt_restart := None\<rparr>" using True assms by (auto simp: restart_round_def)
  ultimately show ?thesis using assms(1) by (cases "rt_transport rt") (simp_all add: serving_def finish_launch_def is_running_def)
next
  case False
  hence "restart_round rt = launch True rt" using assms by (auto simp: restart_round_def)
  thus ?thesis using launch_serves [OF assms(3)] by simp
qed

lemma failed_launch_retries:
  assumes "procs_ok rt" "rt_launching rt \<noteq> None" "\<not> rt_stopping rt"
  shows "rt_restart (finish_launch (Some x) rt) \<noteq> None"
proof -
  obtain t b where tb: "rt_launching rt = Some (t, b)" using assms(2) by auto
  have "b \<Longrightarrow> rt_restart rt \<noteq> None" using assms(1) by (auto simp: procs_ok_def tb)
  thus ?thesis using assms(3) by (cases b) (simp_all add: finish_launch_def tb Let_def)
qed

lemma handled_exit_retries: "0 < rt_exits rt \<Longrightarrow> \<not> rt_stopping rt \<Longrightarrow> rt_restart (exit_handled rt) \<noteq> None"
  by (simp add: exit_handled_def)

text \<open>
  C14. Once a start has got past its login check, and until a stop, the runtime always
  has a process, is launching one, has a restart scheduled or is about to schedule one, through any
  exits and failed launches; a launch that fails and an exit that is handled lead to a restart, and a
  restart round whose initialisation succeeds leaves the runtime ready on a running process.
\<close>

theorem runtime_always_tended:
  assumes "rt_launching (rt_run trunc before new_runtime) = None" and "list_all (\<lambda>e. \<not> stops e) es"
    and "rt = rt_run trunc (Start Validated # es) (rt_run trunc before new_runtime)"
  shows "tended rt
    \<and> (if rt_launching rt \<noteq> None then rt_restart (finish_launch (Some x) rt) \<noteq> None
       else if rt_restart rt \<noteq> None then serving (finish_launch None (restart_round rt))
       else if rt_exits rt > 0 then rt_restart (exit_handled rt) \<noteq> None
       else rt_transport rt \<noteq> None)"
proof -
  let ?s = "start_runtime Validated (rt_run trunc before new_runtime)"
  have "procs_ok new_runtime" using new_runtime_ok by (simp add: runtime_ok_def)
  hence "procs_ok ?s" by (intro start_procs_ok run_procs_ok)
  with start_launches [OF assms(1)] have T: "tended rt" "procs_ok rt"
    using run_tended [OF _ _ assms(2), of ?s trunc] by (simp_all add: assms(3))
  hence ns: "\<not> rt_stopping rt" by (simp add: tended_def)
  have "rt_launching rt \<noteq> None \<Longrightarrow> rt_restart (finish_launch (Some x) rt) \<noteq> None" by (rule failed_launch_retries [OF T(2) _ ns])
  moreover have "rt_launching rt = None \<Longrightarrow> rt_restart rt \<noteq> None \<Longrightarrow> serving (finish_launch None (restart_round rt))"
    by (rule round_serves [OF _ _ ns])
  moreover have "rt_exits rt > 0 \<Longrightarrow> rt_restart (exit_handled rt) \<noteq> None" by (rule handled_exit_retries [OF _ ns])
  moreover have "rt_launching rt = None \<Longrightarrow> rt_restart rt = None \<Longrightarrow> \<not> 0 < rt_exits rt \<Longrightarrow> rt_transport rt \<noteq> None"
    using T(1) by (auto simp: tended_def)
  ultimately show ?thesis using T(1) by presburger
qed

lemma runtime_always_tended_witness:
  "(\<exists>rt. rt = rt_run (\<lambda>_. None) [Start Validated, LaunchEnds None, Died 0, Exits 0 ''gone'', ExitHandled] new_runtime
     \<and> rt_transport rt = None \<and> tended rt \<and> serving (finish_launch None (restart_round rt)))"
proof -
  let ?rt = "rt_run (\<lambda>_. None) [Start Validated, LaunchEnds None, Died 0, Exits 0 ''gone'', ExitHandled] new_runtime"
  have "rt_launching ?rt = None" "rt_transport ?rt = None" "rt_restart ?rt \<noteq> None" by code_simp+
  moreover have "rt_launching (rt_run (\<lambda>_. None) [] new_runtime) = None" by code_simp
  moreover have "list_all (\<lambda>e. \<not> stops e) [LaunchEnds None, Died 0, Exits 0 ''gone'', ExitHandled]" by simp
  ultimately show ?thesis
    using runtime_always_tended [of "\<lambda>_. None" "[]" "[LaunchEnds None, Died 0, Exits 0 ''gone'', ExitHandled]" ?rt "''x''"] by simp
qed

section \<open>The two moments without protection\<close>

text \<open>
  A launch that replaces a dead process while the runtime still counts as ready, and fails after a
  completion has used it, leaves that completion's turn waiting with no process to answer it.
\<close>

definition hung_events :: "rt_event list" where
  "hung_events = [Start Validated, Exits 0 ''gone'', LaunchEnds None, RestartRound, LaunchEnds None, ExitHandled, Died 1, RestartRound,
     Opened 5 None None 0, Entered 1, ThreadStarted 6 1 ''th'', TurnStarted 7 1 ''tu'', Died 2, LaunchEnds None, Exits 2 ''gone'']"

lemma abandoned_launch_leaves_turn_waiting:
  "(let rt = rt_run (\<lambda>_. None) hung_events new_runtime in
     rt_transport rt = None \<and> rt_alive rt = [] \<and> map_option ts_future (rt_turns rt ''th'') = Some Waiting)"
  by code_simp

end
