(* ===== verification/Callbacks.thy ===== *)
theory Callbacks
  imports RunService EvidenceAudit GatewaySchema
begin

text \<open>
  The callback that a run's agent graph calls around every tool and model (\<open>runner/callbacks.py\<close>).
  It writes three files of JSON lines: the evidence, which the worker turns into rows and the
  audit reads again, the model interactions, and the health of the dependencies, which the worker
  turns into samples. The values LangChain passes are the JSON that \<open>_jsonable\<close> makes of them; clock
  readings are arguments (\<open>now\<close> of the wall clock, \<open>clock\<close> microseconds of the monotonic one).
\<close>

section \<open>Lines of JSON\<close>

text \<open>\<open>json.dumps(record, sort_keys=True, separators=(",", ":"), ensure_ascii=False)\<close>.\<close>

fun json_text :: "json \<Rightarrow> string" where
  "json_text (JStr s) = raw_quote s"
| "json_text (JList js) = ''['' @ join_with '','' (map json_text js) @ '']''"
| "json_text (JObj d) = ''{'' @ join_with '',''
     (map (\<lambda>(k, t). raw_quote k @ '':'' @ t)
        (sort_key fst (map (\<lambda>(k, v). (k, json_text v)) d))) @ ''}''"
| "json_text j = json_dumps j"

definition file_text :: "json list \<Rightarrow> string option" where
  "file_text records = (if records = [] then None else Some (concat (map (\<lambda>r. json_text r @ newline) records)))"

text \<open>\<open>str.splitlines\<close> on one-byte characters: more than the newline ends a line.\<close>

definition line_break :: "char \<Rightarrow> bool" where
  "line_break c \<longleftrightarrow> (let n = of_char c :: nat in (10 \<le> n \<and> n \<le> 13) \<or> (28 \<le> n \<and> n \<le> 30) \<or> n = 133)"

fun split_breaks :: "string \<Rightarrow> string \<Rightarrow> string list" where
  "split_breaks acc [] = (if acc = [] then [] else [rev acc])"
| "split_breaks acc (c # cs) =
     (if \<not> line_break c then split_breaks (c # acc) cs
      else rev acc # (case cs of d # ds \<Rightarrow> if c = CHR 0x0D \<and> d = CHR 0x0A then split_breaks [] ds else split_breaks [] cs
        | [] \<Rightarrow> []))"

definition splitlines :: "string \<Rightarrow> string list" where
  "splitlines s = split_breaks [] s"

section \<open>Redaction\<close>

text \<open>\<open>_SENSITIVE_KEY.search(key)\<close>; the words are those of the worker's pattern.\<close>

definition sensitive_key :: "string \<Rightarrow> bool" where
  "sensitive_key k \<longleftrightarrow> list_ex (\<lambda>i. secret_word (drop i k) \<noteq> None) [0..<length k]"

text \<open>
  \<open>(?i)((?:[?&]|\b)(?:api[_-]?key|apikey|access_token|token|secret|password)=)[^&\s)\]}>'"]+\<close>. A
  question mark or an ampersand is no word character, so the boundary alone decides where a name may
  stand; \<open>query_name\<close> is the length of a name and its equals sign.
\<close>

definition word_char :: "char \<Rightarrow> bool" where
  "word_char c \<longleftrightarrow> is_alnum c \<or> c = CHR ''_'' \<or> (let n = of_char c :: nat in
     n \<in> {170, 178, 179, 181, 185, 186, 188, 189, 190} \<or> 192 \<le> n \<and> n \<noteq> 215 \<and> n \<noteq> 247)"

definition QUERY_NAMES :: "string list" where
  "QUERY_NAMES = [''apikey='', ''api_key='', ''api-key='', ''access_token='', ''token='', ''secret='', ''password='']"

definition query_name :: "string \<Rightarrow> nat option" where
  "query_name s = map_option length (find (\<lambda>w. map lower_char (take (length w) s) = w) QUERY_NAMES)"

definition secret_char :: "char \<Rightarrow> bool" where
  "secret_char c \<longleftrightarrow> \<not> is_space c \<and> c \<notin> {CHR ''&'', CHR '')'', CHR '']'', CHR ''}'', CHR ''>'', CHR 0x27, CHR 0x22}"

function redact_text :: "bool \<Rightarrow> string \<Rightarrow> string" where
  "redact_text after_word [] = []"
| "redact_text after_word (c # cs) =
     (case (if after_word then None else query_name (c # cs)) of
        Some n \<Rightarrow>
          (if takeWhile secret_char (drop n (c # cs)) = [] then c # redact_text (word_char c) cs
           else take n (c # cs) @ ''[REDACTED]'' @ redact_text False (dropWhile secret_char (drop n (c # cs))))
      | None \<Rightarrow> c # redact_text (word_char c) cs)"
  by pat_completeness auto
termination
proof (relation "measure (\<lambda>(b, s). length s)")
  fix after_word c cs n
  assume "takeWhile secret_char (drop n (c # cs)) \<noteq> []"
  hence "length (dropWhile secret_char (drop n (c # cs))) < length (drop n (c # cs))"
    by (metis length_append length_greater_0_conv less_add_same_cancel2 takeWhile_dropWhile_id)
  also have "\<dots> \<le> length (c # cs)" by simp
  finally show "((False, dropWhile secret_char (drop n (c # cs))), (after_word, c # cs)) \<in> measure (\<lambda>(b, s). length s)" by simp
qed simp_all

declare redact_text.simps [simp del]

fun redact_value :: "json \<Rightarrow> json" where
  "redact_value (JStr s) = JStr (redact_text False s)"
| "redact_value (JObj d) = JObj (map (\<lambda>(k, v). (k, if sensitive_key k then JStr ''[REDACTED]'' else redact_value v)) d)"
| "redact_value (JList js) = JList (map redact_value js)"
| "redact_value j = j"

section \<open>The callback\<close>

record callback_env =
  cl_data_vendors :: "string \<Rightarrow> string option"
  cl_tool_vendors :: "string \<Rightarrow> string option"
  cl_model_routes :: "string \<Rightarrow> (string \<times> string \<times> string) option"
  cl_analysis_date :: "int option"
  cl_iso :: "int \<Rightarrow> string"
  cl_sha :: "string \<Rightarrow> string"
  cl_show :: "json \<Rightarrow> string"
  cl_loads :: "string \<Rightarrow> json option"

record tool_call =
  tc_name :: string
  tc_arguments :: json
  tc_started :: "int option"

record callback =
  cl_tools :: "nat \<Rightarrow> tool_call option"
  cl_models :: "nat \<Rightarrow> (dict \<times> int option) option"
  cl_evidence :: "json list"
  cl_llm :: "json list"
  cl_health :: "json list"
  cl_recorder :: "recorder option"

definition new_callback :: "recorder option \<Rightarrow> callback" where
  "new_callback r = \<lparr>cl_tools = (\<lambda>_. None), cl_models = (\<lambda>_. None), cl_evidence = [], cl_llm = [], cl_health = [], cl_recorder = r\<rparr>"

definition TOOL_CATEGORIES :: "(string \<times> string) list" where
  "TOOL_CATEGORIES = [(''get_stock_data'', ''core_stock_apis''), (''get_verified_market_snapshot'', ''core_stock_apis''),
     (''get_indicators'', ''technical_indicators''), (''get_fundamentals'', ''fundamental_data''),
     (''get_balance_sheet'', ''fundamental_data''), (''get_cashflow'', ''fundamental_data''),
     (''get_income_statement'', ''fundamental_data''), (''get_news'', ''news_data''), (''get_global_news'', ''news_data''),
     (''get_macro_indicators'', ''macro_data''), (''get_prediction_markets'', ''prediction_markets'')]"

definition elapsed_ms :: "int \<Rightarrow> int option \<Rightarrow> int" where
  "elapsed_ms clock since = (case since of None \<Rightarrow> 0 | Some t \<Rightarrow> max 0 ((clock - t) div 1000))"

definition dependency_error_code :: "string \<Rightarrow> string \<Rightarrow> string" where
  "dependency_error_code error_type scope =
     (let rate_limited = list_ex (\<lambda>m. contains_str m (str_lower error_type)) [''ratelimit'', ''toomanyrequests'', ''overload''] in
      if scope = ''gateway'' then (if rate_limited then ''gateway_overload'' else ''gateway_unavailable'')
      else if rate_limited then ''vendor_rate_limit'' else ''vendor_unavailable'')"

definition content_hash :: "callback_env \<Rightarrow> json \<Rightarrow> string" where
  "content_hash env v = cl_sha env (json_dumps v)"

definition tool_source :: "callback_env \<Rightarrow> string \<Rightarrow> string \<times> string" where
  "tool_source env tool =
     (let category = (case map_of TOOL_CATEGORIES tool of None \<Rightarrow> ''unknown'' | Some c \<Rightarrow> c);
          source = (case cl_tool_vendors env tool of Some (c # cs) \<Rightarrow> Some (c # cs) | _ \<Rightarrow> cl_data_vendors env category)
      in (or_default ''default'' source, category))"

text \<open>The source a successful call is filed under: an empty vendor of the tool is not replaced by its category's.\<close>

definition evidence_source :: "callback_env \<Rightarrow> string \<Rightarrow> string" where
  "evidence_source env tool = or_default ''default'' (case cl_tool_vendors env tool of Some s \<Rightarrow> Some s
     | None \<Rightarrow> (case map_of TOOL_CATEGORIES tool of None \<Rightarrow> None | Some c \<Rightarrow> cl_data_vendors env c))"

definition health_record :: "callback_env \<Rightarrow> int \<Rightarrow> string \<Rightarrow> bool \<Rightarrow> int \<Rightarrow> string option \<Rightarrow> (string \<times> string) option \<Rightarrow> json" where
  "health_record env now scope healthy latency code vendor = JObj [(''scope'', JStr scope), (''healthy'', JBool healthy),
     (''latency_ms'', JInt latency), (''observed_at'', JStr (cl_iso env now)), (''error_code'', opt_str code),
     (''vendor'', opt_str (map_option fst vendor)), (''category'', opt_str (map_option snd vendor))]"

definition evidence_record ::
    "callback_env \<Rightarrow> int \<Rightarrow> tool_call \<Rightarrow> string \<Rightarrow> json \<Rightarrow> string \<Rightarrow> int option \<times> string option \<Rightarrow> json" where
  "evidence_record env now t source output hash temporal = JObj [(''tool_name'', JStr (tc_name t)), (''source'', JStr source),
     (''arguments'', redact_value (tc_arguments t)), (''output'', output), (''output_sha256'', JStr hash),
     (''collected_at'', JStr (cl_iso env now)), (''effective_at'', opt_str (map_option (cl_iso env) (fst temporal))),
     (''freshness'', opt_str (snd temporal)), (''retention_class'', JStr ''raw_180d'')]"

definition tool_text :: "callback_env \<Rightarrow> json \<Rightarrow> string" where
  "tool_text env j = (case j of JStr s \<Rightarrow> s | _ \<Rightarrow> cl_show env j)"

definition tool_name_of :: "callback_env \<Rightarrow> dict \<Rightarrow> string" where
  "tool_name_of env serialized =
     (case filter json_truthy (List.map_filter (\<lambda>k. dict_get k serialized) [''name'', ''id'']) of
        j # _ \<Rightarrow> tool_text env j | [] \<Rightarrow> ''unknown_tool'')"

definition on_tool_start :: "callback_env \<Rightarrow> int \<Rightarrow> nat \<Rightarrow> dict \<Rightarrow> string \<Rightarrow> json option \<Rightarrow> callback \<Rightarrow> callback" where
  "on_tool_start env clock i serialized input_str inputs c =
     c\<lparr>cl_tools := (cl_tools c)(i \<mapsto> \<lparr>tc_name = tool_name_of env serialized,
       tc_arguments = (case inputs of Some j \<Rightarrow> j | None \<Rightarrow> (case cl_loads env input_str of Some j \<Rightarrow> j | None \<Rightarrow> JStr input_str)),
       tc_started = Some clock\<rparr>)\<rparr>"

definition pending_tool :: "nat \<Rightarrow> callback \<Rightarrow> tool_call" where
  "pending_tool i c = (case cl_tools c i of Some t \<Rightarrow> t
     | None \<Rightarrow> \<lparr>tc_name = ''unknown_tool'', tc_arguments = JObj [], tc_started = None\<rparr>)"

definition on_tool_end :: "callback_env \<Rightarrow> int \<Rightarrow> int \<Rightarrow> nat \<Rightarrow> json \<Rightarrow> callback \<Rightarrow> callback" where
  "on_tool_end env now clock i output c =
     (let t = pending_tool i c; tool = tc_name t in
      c\<lparr>cl_tools := (cl_tools c)(i := None),
        cl_evidence := cl_evidence c @ [evidence_record env now t (evidence_source env tool) (redact_value output)
          (content_hash env output) (evidence_temporal_metadata tool (cl_analysis_date env) output now)],
        cl_recorder := record_observed_tool (cl_recorder c) tool output,
        cl_health := cl_health c @ [health_record env now ''vendor'' True (elapsed_ms clock (tc_started t)) None (Some (tool_source env tool))]\<rparr>)"

definition on_tool_error :: "callback_env \<Rightarrow> int \<Rightarrow> int \<Rightarrow> nat \<Rightarrow> string \<Rightarrow> callback \<Rightarrow> callback" where
  "on_tool_error env now clock i error_type c =
     (let t = pending_tool i c; tool = tc_name t; output = JObj [(''error_type'', JStr error_type)] in
      c\<lparr>cl_tools := (cl_tools c)(i := None),
        cl_evidence := cl_evidence c @ [evidence_record env now t (fst (tool_source env tool)) output (content_hash env output)
          (None, Some ''collection_failed'')],
        cl_health := cl_health c @ [health_record env now ''vendor'' False (elapsed_ms clock (tc_started t))
          (Some (dependency_error_code error_type ''vendor'')) (Some (tool_source env tool))]\<rparr>)"

text \<open>\<open>invocation\<close> is \<open>invocation_params\<close>; the alias is the text of the first of two entries.\<close>

definition model_alias :: "dict \<Rightarrow> json" where
  "model_alias invocation = (case filter json_truthy (List.map_filter (\<lambda>k. dict_get k invocation) [''model_name'']) of
     j # _ \<Rightarrow> j | [] \<Rightarrow> (case dict_get ''model'' invocation of Some j \<Rightarrow> j | None \<Rightarrow> JNull))"

definition model_label :: "dict \<Rightarrow> json" where
  "model_label serialized = (case filter json_truthy (List.map_filter (\<lambda>k. dict_get k serialized) [''name'', ''id'']) of
     j # _ \<Rightarrow> j | [] \<Rightarrow> JStr ''unknown_model'')"

definition on_chat_model_start :: "callback_env \<Rightarrow> int \<Rightarrow> int \<Rightarrow> nat \<Rightarrow> dict \<Rightarrow> dict \<Rightarrow> json \<Rightarrow> callback \<Rightarrow> callback" where
  "on_chat_model_start env now clock i serialized invocation messages c =
     (let alias_text = tool_text env (model_alias invocation);
          pending = [(''model'', model_label serialized), (''messages'', redact_value messages), (''started_at'', JStr (cl_iso env now))];
          routed = (case cl_model_routes env alias_text of None \<Rightarrow> []
            | Some (route, model, effort) \<Rightarrow> [(''route'', JStr route), (''model_alias'', JStr alias_text),
                (''physical_model'', JStr model), (''reasoning_effort'', JStr effort)])
      in c\<lparr>cl_models := (cl_models c)(i \<mapsto> (pending @ routed, Some clock))\<rparr>)"

definition pending_model :: "nat \<Rightarrow> callback \<Rightarrow> dict \<times> int option" where
  "pending_model i c = (case cl_models c i of Some p \<Rightarrow> p | None \<Rightarrow> ([], None))"

definition on_llm_end :: "callback_env \<Rightarrow> int \<Rightarrow> int \<Rightarrow> nat \<Rightarrow> json \<Rightarrow> json \<Rightarrow> callback \<Rightarrow> callback" where
  "on_llm_end env now clock i visible usage c =
     (case pending_model i c of (pending, since) \<Rightarrow>
      let duration = elapsed_ms clock since in
      c\<lparr>cl_models := (cl_models c)(i := None),
        cl_llm := cl_llm c @ [JObj (dict_update pending [(''status'', JStr ''completed''), (''response'', redact_value visible),
          (''response_sha256'', JStr (content_hash env visible)), (''token_usage'', redact_value usage),
          (''completed_at'', JStr (cl_iso env now)), (''duration_ms'', JInt duration), (''retention_class'', JStr ''raw_180d'')])],
        cl_health := cl_health c @ [health_record env now ''gateway'' True duration None None]\<rparr>)"

definition on_llm_error :: "callback_env \<Rightarrow> int \<Rightarrow> int \<Rightarrow> nat \<Rightarrow> string \<Rightarrow> callback \<Rightarrow> callback" where
  "on_llm_error env now clock i error_type c =
     (case pending_model i c of (pending, since) \<Rightarrow>
      let duration = elapsed_ms clock since; code = dependency_error_code error_type ''gateway'' in
      c\<lparr>cl_models := (cl_models c)(i := None),
        cl_llm := cl_llm c @ [JObj (dict_update pending [(''status'', JStr ''failed''), (''error_type'', JStr error_type),
          (''error_code'', JStr code), (''completed_at'', JStr (cl_iso env now)), (''duration_ms'', JInt duration),
          (''retention_class'', JStr ''raw_180d'')])],
        cl_health := cl_health c @ [health_record env now ''gateway'' False duration (Some code) None]\<rparr>)"

end
