(* ===== verification/CallbackFacts.thy ===== *)
theory CallbackFacts
  imports Callbacks Serving
begin

text \<open>
  What reaches the database of what the callback writes: the lines of its files read back, one row
  for every tool call that ended, and the one character of a tool's output that prevents it.
\<close>

section \<open>Lines\<close>

definition NEL :: char where
  "NEL = char_of (133 :: nat)"



definition unbroken :: "string \<Rightarrow> bool" where
  "unbroken s \<longleftrightarrow> list_all (\<lambda>c. \<not> line_break c) s"

lemma unbroken_simps [simp]:
  "unbroken []" "unbroken (c # s) \<longleftrightarrow> \<not> line_break c \<and> unbroken s" "unbroken (s @ t) \<longleftrightarrow> unbroken s \<and> unbroken t"
  by (simp_all add: unbroken_def)











lemma split_unbroken: "unbroken l \<Longrightarrow> split_breaks acc (l @ s) = split_breaks (rev l @ acc) s"
  by (induction l arbitrary: acc) simp_all

lemma split_newline: "split_breaks acc (newline @ s) = rev acc # split_breaks [] s"
  by (cases s) (simp_all add: newline_def line_break_def)



section \<open>Lines that a character breaks\<close>

lemma split_at_newline: "split_breaks acc (x @ newline @ y) = split_breaks acc (x @ newline) @ split_breaks [] y"
proof (induction acc x rule: split_breaks.induct)
  case (1 acc)
  show ?case using split_newline [of acc y] split_newline [of acc "[]"] by simp
next
  case (2 acc c cs)
  show ?case
  proof (cases "line_break c")
    case False
    thus ?thesis using 2(1) by simp
  next
    case True
    note l = True
    show ?thesis
    proof (cases cs)
      case Nil
      have "split_breaks [] (newline @ y) = [] # split_breaks [] y" using split_newline [of "[]" y] by simp
      thus ?thesis using l by (cases "c = CHR 0x0D") (simp_all add: Nil newline_def line_break_def)
    next
      case (Cons d ds)
      show ?thesis
      proof (cases "c = CHR 0x0D \<and> d = CHR 0x0A")
        case True
        thus ?thesis using 2(2) [of d ds] l by (simp add: Cons)
      next
        case False
        have "split_breaks acc ((c # cs) @ t) = rev acc # split_breaks [] (cs @ t)" for t
          using l False by (auto simp: Cons)
        thus ?thesis using 2(3) [of d ds] l False Cons by (simp del: split_breaks.simps)
      qed
    qed
  qed
qed

lemma splitlines_first:
  assumes "\<not> unbroken l"
  shows "\<exists>ls. splitlines (l @ newline) = takeWhile (\<lambda>c. \<not> line_break c) l # ls"
proof -
  let ?a = "takeWhile (\<lambda>c. \<not> line_break c) l"
  have "dropWhile (\<lambda>c. \<not> line_break c) l \<noteq> []" using assms by (auto simp: unbroken_def list_all_iff)
  then obtain b rest where b: "dropWhile (\<lambda>c. \<not> line_break c) l = b # rest" unfolding neq_Nil_conv by blast
  hence lb: "line_break b" using hd_dropWhile [of "\<lambda>c. \<not> line_break c" l] by simp
  have "l = ?a @ b # rest" using takeWhile_dropWhile_id [of "\<lambda>c. \<not> line_break c" l] b by simp
  hence "split_breaks [] (l @ newline) = split_breaks [] (?a @ (b # rest @ newline))" by (metis append.assoc append_Cons)
  also have "\<dots> = split_breaks (rev ?a) (b # rest @ newline)"
    by (subst split_unbroken) (auto simp: unbroken_def list_all_iff dest: set_takeWhileD)
  also have "\<exists>ls. \<dots> = ?a # ls" using lb by (auto split: list.split)
  finally show ?thesis by (simp add: splitlines_def)
qed

lemma splitlines_file:
  assumes "l \<in> set ls" "\<not> unbroken l"
  shows "takeWhile (\<lambda>c. \<not> line_break c) l \<in> set (splitlines (concat (map (\<lambda>l. l @ newline) ls)))"
  using assms(1)
proof (induction ls)
  case (Cons m ls)
  have "splitlines (concat (map (\<lambda>l. l @ newline) (m # ls))) = splitlines (m @ newline) @ splitlines (concat (map (\<lambda>l. l @ newline) ls))"
    using split_at_newline [of "[]" m] by (simp add: splitlines_def)
  moreover have "takeWhile (\<lambda>c. \<not> line_break c) l \<in> set (splitlines (l @ newline))" using splitlines_first [OF assms(2)] by auto
  ultimately show ?case using Cons by (metis Un_iff set_ConsD set_append)
qed simp

section \<open>Runs of the callback\<close>

datatype cl_event = ToolStarted int nat dict string "json option" | ToolEnded int int nat json | ToolFailed int int nat string
  | ModelStarted int int nat dict dict json | ModelEnded int int nat json json | ModelFailed int int nat string

fun cl_step :: "callback_env \<Rightarrow> cl_event \<Rightarrow> callback \<Rightarrow> callback" where
  "cl_step env (ToolStarted clock i serialized input_str inputs) c = on_tool_start env clock i serialized input_str inputs c"
| "cl_step env (ToolEnded now clock i output) c = on_tool_end env now clock i output c"
| "cl_step env (ToolFailed now clock i error_type) c = on_tool_error env now clock i error_type c"
| "cl_step env (ModelStarted now clock i serialized invocation messages) c = on_chat_model_start env now clock i serialized invocation messages c"
| "cl_step env (ModelEnded now clock i visible usage) c = on_llm_end env now clock i visible usage c"
| "cl_step env (ModelFailed now clock i error_type) c = on_llm_error env now clock i error_type c"

fun cl_run :: "callback_env \<Rightarrow> cl_event list \<Rightarrow> callback \<Rightarrow> callback" where
  "cl_run env [] c = c"
| "cl_run env (e # es) c = cl_run env es (cl_step env e c)"

text \<open>
  The calls that ended, in the order they ended: name, source, arguments without secrets, the time the
  call ended, the time its output is from and what bounds that, and the hash of what it returned.
  A call of which no start was seen has no name and no arguments.
\<close>

type_synonym ended_call = "string \<times> string \<times> json \<times> int \<times> int option \<times> string option \<times> string"

definition call_arguments :: "callback_env \<Rightarrow> string \<Rightarrow> json option \<Rightarrow> json" where
  "call_arguments env input_str inputs = (case inputs of Some j \<Rightarrow> j
     | None \<Rightarrow> (case cl_loads env input_str of Some j \<Rightarrow> j | None \<Rightarrow> JStr input_str))"

definition call_at :: "(nat \<Rightarrow> (string \<times> json) option) \<Rightarrow> nat \<Rightarrow> string \<times> json" where
  "call_at opened i = (case opened i of Some c \<Rightarrow> c | None \<Rightarrow> (''unknown_tool'', JObj []))"

definition returned_call :: "callback_env \<Rightarrow> string \<times> json \<Rightarrow> int \<Rightarrow> json \<Rightarrow> ended_call" where
  "returned_call env c now out = (case evidence_temporal_metadata (fst c) (cl_analysis_date env) out now of (effective, freshness) \<Rightarrow>
     (fst c, evidence_source env (fst c), redact_value (snd c), now, effective, freshness, content_hash env out))"

definition failed_call :: "callback_env \<Rightarrow> string \<times> json \<Rightarrow> int \<Rightarrow> string \<Rightarrow> ended_call" where
  "failed_call env c now error_type = (fst c, fst (tool_source env (fst c)), redact_value (snd c), now, None,
     Some ''collection_failed'', content_hash env (JObj [(''error_type'', JStr error_type)]))"

fun ended_calls :: "callback_env \<Rightarrow> (nat \<Rightarrow> (string \<times> json) option) \<Rightarrow> cl_event list \<Rightarrow> ended_call list" where
  "ended_calls env opened [] = []"
| "ended_calls env opened (ToolStarted clock i serialized input_str inputs # es) =
     ended_calls env (opened(i \<mapsto> (tool_name_of env serialized, call_arguments env input_str inputs))) es"
| "ended_calls env opened (ToolEnded now clock i output # es) =
     returned_call env (call_at opened i) now output # ended_calls env (opened(i := None)) es"
| "ended_calls env opened (ToolFailed now clock i error_type # es) =
     failed_call env (call_at opened i) now error_type # ended_calls env (opened(i := None)) es"
| "ended_calls env opened (e # es) = ended_calls env opened es"

definition shaped :: "callback_env \<Rightarrow> json \<Rightarrow> ended_call \<Rightarrow> bool" where
  "shaped env r call \<longleftrightarrow> (case call of (tool, source, arguments, now, effective, freshness, hash) \<Rightarrow>
     (\<exists>t output. tc_name t = tool \<and> redact_value (tc_arguments t) = arguments
        \<and> r = evidence_record env now t source output hash (effective, freshness)))"

definition open_calls :: "callback \<Rightarrow> nat \<Rightarrow> (string \<times> json) option" where
  "open_calls c = (\<lambda>i. map_option (\<lambda>t. (tc_name t, tc_arguments t)) (cl_tools c i))"

lemma call_at_pending: "call_at (open_calls c) i = (tc_name (pending_tool i c), tc_arguments (pending_tool i c))"
  by (simp add: call_at_def pending_tool_def open_calls_def split: option.split)

lemma open_calls_step:
  "open_calls (on_tool_start env clock i serialized input_str inputs c) =
     (open_calls c)(i \<mapsto> (tool_name_of env serialized, call_arguments env input_str inputs))"
  "open_calls (on_tool_end env now clock i out c) = (open_calls c)(i := None)"
  "open_calls (on_tool_error env now clock i error_type c) = (open_calls c)(i := None)"
  "open_calls (on_chat_model_start env now clock i serialized invocation messages c) = open_calls c"
  "open_calls (on_llm_end env now clock i visible usage c) = open_calls c"
  "open_calls (on_llm_error env now clock i error_type c) = open_calls c"
  by (auto simp: open_calls_def on_tool_start_def on_tool_end_def on_tool_error_def on_chat_model_start_def on_llm_end_def
      on_llm_error_def call_arguments_def Let_def fun_eq_iff split: prod.split)

lemma end_shaped:
  "\<exists>r. cl_evidence (on_tool_end env now clock i out c) = cl_evidence c @ [r]
     \<and> shaped env r (returned_call env (call_at (open_calls c) i) now out)"
  by (auto simp: on_tool_end_def Let_def shaped_def returned_call_def call_at_pending split: prod.split)

lemma error_shaped:
  "\<exists>r. cl_evidence (on_tool_error env now clock i error_type c) = cl_evidence c @ [r]
     \<and> shaped env r (failed_call env (call_at (open_calls c) i) now error_type)"
  by (auto simp: on_tool_error_def Let_def shaped_def failed_call_def call_at_pending)

lemma run_evidence:
  "\<exists>rs. cl_evidence (cl_run env es c) = cl_evidence c @ rs
     \<and> list_all2 (shaped env) rs (ended_calls env (open_calls c) es)"
proof (induction es arbitrary: c)
  case (Cons e es)
  obtain rs where rs: "cl_evidence (cl_run env (e # es) c) = cl_evidence (cl_step env e c) @ rs"
      "list_all2 (shaped env) rs (ended_calls env (open_calls (cl_step env e c)) es)"
    using Cons.IH [of "cl_step env e c"] by auto
  show ?case
  proof (cases e)
    case (ToolStarted clock i serialized input_str inputs)
    thus ?thesis using rs by (simp add: open_calls_step) (simp add: on_tool_start_def)
  next
    case (ToolEnded now clock i out)
    obtain r where "cl_evidence (on_tool_end env now clock i out c) = cl_evidence c @ [r]"
        "shaped env r (returned_call env (call_at (open_calls c) i) now out)"
      using end_shaped by blast
    thus ?thesis using rs by (intro exI [of _ "r # rs"]) (simp add: ToolEnded open_calls_step)
  next
    case (ToolFailed now clock i error_type)
    obtain r where "cl_evidence (on_tool_error env now clock i error_type c) = cl_evidence c @ [r]"
        "shaped env r (failed_call env (call_at (open_calls c) i) now error_type)"
      using error_shaped by blast
    thus ?thesis using rs by (intro exI [of _ "r # rs"]) (simp add: ToolFailed open_calls_step)
  next
    case (ModelStarted now clock i serialized invocation messages)
    thus ?thesis using rs by (simp add: open_calls_step) (simp add: on_chat_model_start_def Let_def)
  next
    case (ModelEnded now clock i visible usage)
    thus ?thesis using rs by (simp add: open_calls_step) (simp add: on_llm_end_def Let_def split: prod.splits)
  next
    case (ModelFailed now clock i error_type)
    thus ?thesis using rs by (simp add: open_calls_step) (simp add: on_llm_error_def Let_def split: prod.splits)
  qed
qed simp

section \<open>The rows\<close>

fun sort_keys :: "json \<Rightarrow> json" where
  "sort_keys (JObj d) = JObj (sort_key fst (map (\<lambda>(k, v). (k, sort_keys v)) d))"
| "sort_keys (JList js) = JList (map sort_keys js)"
| "sort_keys j = j"








text \<open>Times as unary numerals, which can be read back.\<close>

definition demo_iso :: "int \<Rightarrow> string" where
  "demo_iso t = (if 0 \<le> t then replicate (nat t) CHR ''t'' else CHR ''-'' # replicate (nat (- t)) CHR ''t'')"

definition demo_time :: "json \<Rightarrow> int result" where
  "demo_time j = (case j of JStr (CHR ''-'' # s) \<Rightarrow> Inr (- int (length s)) | JStr s \<Rightarrow> Inr (int (length s))
     | _ \<Rightarrow> Inl (TypeError ''str''))"


definition demo_callback_env :: callback_env where
  "demo_callback_env = \<lparr>cl_data_vendors = (\<lambda>_. Some ''yfinance''), cl_tool_vendors = (\<lambda>_. None), cl_model_routes = (\<lambda>_. None),
     cl_analysis_date = Some 739000, cl_iso = demo_iso, cl_sha = (\<lambda>_. ''h''), cl_show = (\<lambda>_. ''?''), cl_loads = (\<lambda>_. None)\<rparr>"

definition demo_arguments :: json where
  "demo_arguments = JObj [(''ticker'', JStr ''SPY''), (''api_key'', JStr ''k'')]"

definition demo_calls :: "string \<Rightarrow> cl_event list" where
  "demo_calls out = [ToolStarted 0 1 [(''name'', JStr ''get_news'')] [] (Some demo_arguments), ToolEnded 9 4 1 (JStr out)]"

definition demo_evidence :: "string \<Rightarrow> json list" where
  "demo_evidence out = cl_evidence (cl_run demo_callback_env (demo_calls out) (new_callback None))"

definition demo_effective :: int where
  "demo_effective = midnight 739000 + DAY - 1"

definition demo_fields :: "string \<Rightarrow> dict" where
  "demo_fields out = [(''tool_name'', JStr ''get_news''), (''source'', JStr ''yfinance''),
     (''arguments'', JObj [(''ticker'', JStr ''SPY''), (''api_key'', JStr ''[REDACTED]'')]),
     (''output'', JStr (redact_text False out)), (''output_sha256'', JStr ''h''), (''collected_at'', JStr (demo_iso 9)),
     (''effective_at'', JStr (demo_iso demo_effective)),
     (''freshness'', JStr ''point_in_time_bounded''), (''retention_class'', JStr ''raw_180d'')]"

definition demo_reader :: "string \<Rightarrow> work_env" where
  "demo_reader out = demo_work\<lparr>we_lines := splitlines, we_time := demo_time,
     we_loads := (\<lambda>l. if l = json_text (JObj (demo_fields out)) then Inr (map (\<lambda>(k, v). (k, sort_keys v)) (demo_fields out))
       else Inl (ValueError ''json''))\<rparr>"

lemma demo_redacted:
  "redact_value demo_arguments = JObj [(''ticker'', JStr ''SPY''), (''api_key'', JStr ''[REDACTED]'')]"
  unfolding demo_arguments_def by code_simp

lemma demo_evidence_eq: "demo_evidence out = [JObj (demo_fields out)]"
  by (simp add: demo_evidence_def demo_calls_def demo_callback_env_def new_callback_def on_tool_start_def on_tool_end_def
      pending_tool_def Let_def tool_name_of_def tool_text_def evidence_record_def evidence_source_def or_default_def TOOL_CATEGORIES_def
      content_hash_def evidence_temporal_metadata_def DATE_BOUNDED_TOOLS_def opt_str_def json_truthy_def demo_fields_def
      map_filter_simps demo_redacted demo_effective_def)






section \<open>The character that stops a settlement\<close>

lemma NEL_facts: "line_break NEL" "\<not> secret_char NEL" "\<not> word_char NEL" "raw_char NEL = [NEL]" "NEL \<noteq> CHR ''[''"
  by code_simp+

lemma redact_text_keeps: "NEL \<in> set s \<Longrightarrow> NEL \<in> set (redact_text after_word s)"
proof (induction after_word s rule: redact_text.induct)
  case (2 after_word c cs)
  show ?case
  proof (cases "if after_word then None else query_name (c # cs)")
    case None
    thus ?thesis using 2(1) [OF None] None 2(4) by (subst redact_text.simps) auto
  next
    case (Some n)
    let ?v = "takeWhile secret_char (drop n (c # cs))" and ?rest = "dropWhile secret_char (drop n (c # cs))"
    show ?thesis
    proof (cases "?v = []")
      case True
      thus ?thesis using 2(2) [OF Some True] True 2(4) by (subst redact_text.simps) (auto simp: Some)
    next
      case False
      have "NEL \<notin> set ?v" using NEL_facts(2) by (auto dest: set_takeWhileD)
      hence "NEL \<in> set (take n (c # cs)) \<or> NEL \<in> set ?rest"
        using 2(4) by (metis Un_iff append_take_drop_id set_append takeWhile_dropWhile_id)
      thus ?thesis using 2(3) [OF Some False] False by (subst redact_text.simps) (auto simp: Some)
    qed
  qed
qed simp

lemma join_has: "x \<in> set xs \<Longrightarrow> set x \<subseteq> set (join_with sep xs)"
  by (induction sep xs rule: join_with.induct) auto

lemma json_text_entry:
  assumes "(k, v) \<in> set d" shows "set (json_text v) \<subseteq> set (json_text (JObj d))"
proof -
  let ?lines = "map (\<lambda>(k, t). raw_quote k @ '':'' @ t) (sort_key fst (map (\<lambda>(k, v). (k, json_text v)) d))"
  have "raw_quote k @ '':'' @ json_text v \<in> set ?lines" using assms by force
  hence "set (raw_quote k @ '':'' @ json_text v) \<subseteq> set (join_with '','' ?lines)" by (rule join_has)
  thus ?thesis by auto
qed

lemma raw_quote_has: "NEL \<in> set s \<Longrightarrow> NEL \<in> set (raw_quote s)"
  using NEL_facts(4) by (force simp: raw_quote_def)

lemma broken_record:
  assumes "NEL \<in> set s" shows "\<not> unbroken (json_text (evidence_record env now t source (redact_value (JStr s)) hash temporal))"
proof -
  have "NEL \<in> set (json_text (JStr (redact_text False s)))" using raw_quote_has [OF redact_text_keeps [OF assms]] by simp
  moreover have "set (json_text (redact_value (JStr s))) \<subseteq> set (json_text (evidence_record env now t source (redact_value (JStr s)) hash temporal))"
    unfolding evidence_record_def by (rule json_text_entry [of "''output''"]) simp
  ultimately have "NEL \<in> set (json_text (evidence_record env now t source (redact_value (JStr s)) hash temporal))" by auto
  thus ?thesis using NEL_facts(1) by (auto simp: unbroken_def list_all_iff)
qed

text \<open>No proper beginning of a line is JSON.\<close>

definition rejects_prefixes :: "work_env \<Rightarrow> json \<Rightarrow> bool" where
  "rejects_prefixes wenv r \<longleftrightarrow> (\<forall>a b. json_text r = a @ b \<longrightarrow> b \<noteq> [] \<longrightarrow> (\<exists>e. we_loads wenv a = Inl e))"

lemma lines_rejected:
  assumes "a \<in> set ls" "we_loads wenv a = Inl e" shows "\<exists>e'. persist_evidence_lines wenv rid i ls d = Inl e'"
  using assms
proof (induction ls arbitrary: d)
  case (Cons l ls)
  show ?case
  proof (cases "evidence_row wenv rid i l d")
    case (Inr d1)
    hence "l \<noteq> a" using Cons.prems(2) by (auto simp: evidence_row_def)
    thus ?thesis using Cons Inr by auto
  qed simp
qed simp

lemma evidence_rejected:
  assumes "r \<in> set rs" "\<not> unbroken (json_text r)" "rejects_prefixes wenv r" "we_lines wenv = splitlines" "wd_evidence w = file_text rs"
  shows "\<exists>e. persist_evidence wenv rid w i d = Inl e"
proof -
  let ?a = "takeWhile (\<lambda>c. \<not> line_break c) (json_text r)"
  have "dropWhile (\<lambda>c. \<not> line_break c) (json_text r) \<noteq> []" using assms(2) by (auto simp: unbroken_def list_all_iff)
  then obtain e where e: "we_loads wenv ?a = Inl e"
    using assms(3) takeWhile_dropWhile_id [of "\<lambda>c. \<not> line_break c" "json_text r"] unfolding rejects_prefixes_def by metis
  have whole: "file_text rs = Some (concat (map (\<lambda>l. l @ newline) (map json_text rs)))"
    using assms(1) by (auto simp: file_text_def comp_def)
  have "?a \<in> set (splitlines (concat (map (\<lambda>l. l @ newline) (map json_text rs))))"
    by (rule splitlines_file [OF _ assms(2)]) (use assms(1) in simp)
  from lines_rejected [OF this e] show ?thesis by (simp add: persist_evidence_def assms(4,5) whole)
qed

lemma result_not_Inr: "(\<And>x. r \<noteq> Inr x) \<Longrightarrow> \<exists>e. r = Inl e"
  by (cases r) auto

lemma settlement_rejected:
  assumes "\<And>i d. \<exists>e. persist_evidence wenv rid w i d = Inl e"
  shows "\<exists>e. settle_run wenv parse now rid False None w stderr n fs d = Inl e"
proof -
  have rows: "finalize_rows wenv now r w entries ids d \<noteq> Inr x" if "run_id r = rid" for r entries ids d x
  proof
    assume "finalize_rows wenv now r w entries ids d = Inr x"
    then obtain d1 d2 where "persist_evidence wenv (run_id r) w (kind_id ''evidence'' ids) d1 = Inr d2"
      unfolding finalize_rows_def by (auto elim!: bind_resultE)
    moreover obtain e where "persist_evidence wenv rid w (kind_id ''evidence'' ids) d1 = Inl e" using assms by blast
    ultimately show False using that by simp
  qed
  have "finalize_success wenv now rid w fs d \<noteq> Inr x" for fs d x
  proof
    assume "finalize_success wenv now rid w fs d = Inr x"
    then obtain r d0 d2 d3 entries ids where "find_run rid d0 = Some r" "finalize_rows wenv now r w entries ids d2 = Inr d3"
      unfolding finalize_success_def by (auto elim!: bind_resultE split: prod.splits)
    thus False using rows find_run_Some by metis
  qed
  thus ?thesis unfolding settle_run_def by (intro result_not_Inr) (auto elim!: bind_resultE)
qed

text \<open>
  C39. One output with the character U+0085, which news and posts may hold, makes the settlement of
  the run fail whatever else happened: redaction keeps the character, the evidence is written
  without escaping it, and \<open>splitlines\<close> ends a line there, so that \<open>json.loads\<close> gets the beginning of
  a record. The transaction is rolled back, and a run that has succeeded is not stored.
\<close>

theorem line_break_blocks_settlement:
  assumes "rs = cl_evidence (cl_run env (before @ ToolEnded ended clock i (JStr s) # after) (new_callback recorder))"
    and "NEL \<in> set s" and "list_all (rejects_prefixes wenv) rs"
    and "we_lines wenv = splitlines" and "wd_evidence w = file_text rs"
  shows "\<exists>e. settle_run wenv parse now rid False None w stderr n fs d = Inl e"
proof -
  let ?c = "cl_run env before (new_callback recorder)"
  let ?r = "\<lambda>t hash temporal. evidence_record env ended t (evidence_source env (tc_name t)) (redact_value (JStr s)) hash temporal"
  have run: "cl_run env (before @ e # after) c = cl_run env after (cl_step env e (cl_run env before c))" for e c
    by (induction before arbitrary: c) simp_all
  let ?t = "pending_tool i ?c"
  let ?x = "?r ?t (content_hash env (JStr s)) (evidence_temporal_metadata (tc_name ?t) (cl_analysis_date env) (JStr s) ended)"
  have "?x \<in> set (cl_evidence (cl_step env (ToolEnded ended clock i (JStr s)) ?c))"
    by (simp add: on_tool_end_def Let_def)
  hence x: "?x \<in> set rs"
    using run_evidence [of env after "cl_step env (ToolEnded ended clock i (JStr s)) ?c"] by (auto simp: assms(1) run)
  hence "rejects_prefixes wenv ?x" using assms(3) by (simp only: list_all_iff)
  hence "\<exists>e. persist_evidence wenv rid w a d = Inl e" for a d
    by (rule evidence_rejected [OF x broken_record [OF assms(2)] _ assms(4,5)])
  thus ?thesis by (rule settlement_rejected)
qed

definition broken_text :: string where
  "broken_text = ''up'' @ [NEL] @ ''down''"

lemma line_break_blocks_settlement_witness:
  "\<exists>e. settle_run (demo_reader broken_text) (\<lambda>_. Inl (ValueError ''json'')) 9 4 False None
     (empty_dir\<lparr>wd_evidence := file_text (demo_evidence broken_text)\<rparr>) None 0 (\<lambda>_. None) (leased_db FINALIZING) = Inl e"
proof -
  let ?before = "[ToolStarted 0 1 [(''name'', JStr ''get_news'')] [] (Some demo_arguments)]"
  have "NEL \<in> set broken_text" by (simp add: broken_text_def)
  moreover have "list_all (rejects_prefixes (demo_reader broken_text)) (demo_evidence broken_text)"
    by (auto simp: demo_evidence_eq rejects_prefixes_def demo_reader_def)
  moreover have "we_lines (demo_reader broken_text) = splitlines" by (simp add: demo_reader_def)
  moreover have "demo_calls broken_text = ?before @ ToolEnded 9 4 1 (JStr broken_text) # []"
    by (simp add: demo_calls_def)
  ultimately show ?thesis
    by (intro line_break_blocks_settlement [where rs = "demo_evidence broken_text" and env = demo_callback_env
          and before = ?before and after = "[]" and recorder = None
          and ended = 9 and clock = 4 and i = 1 and s = broken_text]) (simp_all add: demo_evidence_def)
qed

section \<open>What is never written\<close>

text \<open>No entry with the name of a secret keeps its value, at any depth of what is recorded.\<close>

fun secrets_hidden :: "json \<Rightarrow> bool" where
  "secrets_hidden (JObj d) \<longleftrightarrow> list_all (\<lambda>(k, v). (sensitive_key k \<longrightarrow> v = JStr ''[REDACTED]'') \<and> secrets_hidden v) d"
| "secrets_hidden (JList js) \<longleftrightarrow> list_all secrets_hidden js"
| "secrets_hidden j \<longleftrightarrow> True"

lemma redact_hides_secrets: "secrets_hidden (redact_value j)"
  by (induction j rule: redact_value.induct) (auto simp: list_all_iff)

section \<open>Health\<close>

text \<open>The event a health record is read as; the worker takes every record the callback writes.\<close>

lemma source_nonempty: "fst (tool_source env tool) \<noteq> [] \<and> snd (tool_source env tool) \<noteq> []"
proof -
  have "list_all (\<lambda>(k, v). v \<noteq> []) TOOL_CATEGORIES" by code_simp
  hence "map_of TOOL_CATEGORIES tool = Some c \<Longrightarrow> c \<noteq> []" for c
    by (auto simp: list_all_iff dest: map_of_SomeD)
  thus ?thesis by (auto simp: tool_source_def Let_def or_default_def split: option.split)
qed

lemma tool_health_accepted:
  "he_scope e = ''vendor'' \<Longrightarrow> he_vendor e = Some (fst (tool_source env tool)) \<Longrightarrow> he_category e = Some (snd (tool_source env tool))
     \<Longrightarrow> validate_health_event e = Inr e"
  using source_nonempty [of env tool] by (simp add: validate_health_event_def or_default_def)

end
