(* ===== verification/Providers.thy ===== *)
theory Providers
  imports ValidationJobs Broker Classify
begin

text \<open>
  Where validations get their prices (\<open>validation/providers.py\<close>, \<open>daily_prices\<close> of
  \<open>vendors/stocklean.py\<close>): three adapters that turn what a vendor answers into a validated series,
  the limiter and the retries of the direct requests, and the router that asks one after the other.
  HTTP answers, the frames of \<open>yfinance\<close>, \<open>json.loads\<close>, \<open>Decimal(text)\<close>, \<open>str(value)\<close>, the hash and
  \<open>date.fromisoformat\<close> are arguments; clock readings of the limiter are rational seconds.
\<close>

section \<open>Errors of a provider\<close>

text \<open>\<open>ProviderRateLimited\<close> is a subclass of \<open>ProviderUnavailable\<close>; \<open>Provider_raises\<close> is any other exception.\<close>

datatype provider_error =
    Provider_unavailable string
  | Provider_rate_limited string
  | Provider_unsupported string
  | Provider_invalid string
  | Provider_raises py_error

fun py_error_of :: "provider_error \<Rightarrow> py_error" where
  "py_error_of (Provider_unavailable m) = ProviderUnavailable m"
| "py_error_of (Provider_rate_limited m) = ProviderUnavailable m"
| "py_error_of (Provider_unsupported m) = RuntimeError m"
| "py_error_of (Provider_invalid m) = ProviderInvalidData m"
| "py_error_of (Provider_raises e) = e"

type_synonym 'a answer = "provider_error + 'a"

definition bind_answer :: "'a answer \<Rightarrow> ('a \<Rightarrow> 'b answer) \<Rightarrow> 'b answer" where
  "bind_answer m f = (case m of Inl e \<Rightarrow> Inl e | Inr x \<Rightarrow> f x)"

definition raising :: "'a result \<Rightarrow> 'a answer" where
  "raising = map_sum Provider_raises id"

fun map_answer :: "('a \<Rightarrow> 'b answer) \<Rightarrow> 'a list \<Rightarrow> 'b list answer" where
  "map_answer f [] = Inr []"
| "map_answer f (x # xs) = bind_answer (f x) (\<lambda>y. bind_answer (map_answer f xs) (\<lambda>ys. Inr (y # ys)))"

section \<open>A series from what was read\<close>

datatype decimal = Finite rat | Infinite bool | NaN

record price_env =
  pe_decimal :: "string \<Rightarrow> decimal option"
  pe_date :: "string \<Rightarrow> int option"
  pe_date_field :: "json \<Rightarrow> int option"
  pe_sha :: "string \<Rightarrow> string"
  pe_loads :: "string \<Rightarrow> json option"
  pe_show :: "json \<Rightarrow> string"
  pe_number :: "string \<Rightarrow> rat option"
  pe_now :: int

definition price_fingerprint :: "price_env \<Rightarrow> string \<Rightarrow> string \<Rightarrow> int \<Rightarrow> int \<Rightarrow> dict \<Rightarrow> string" where
  "price_fingerprint env provider ticker start until options = pe_sha env (json_dumps (JObj
     [(''provider'', JStr provider), (''ticker'', JStr (str_upper ticker)), (''start'', JStr (iso_date start)),
      (''end'', JStr (iso_date until)), (''options'', JObj options)]))"

record raw_prices =
  rw_sessions :: "int list"
  rw_open :: "decimal list"
  rw_high :: "decimal list"
  rw_low :: "decimal list"
  rw_close :: "decimal list"
  rw_adjusted_close :: "decimal list"
  rw_cash_distributions :: "decimal list"
  rw_split_coefficient :: "decimal list"

fun finite_of :: "decimal \<Rightarrow> rat result" where
  "finite_of (Finite r) = Inr r"
| "finite_of _ = Inl (ValueError ''Input should be a finite number'')"

definition length_within :: "nat \<Rightarrow> string \<Rightarrow> bool" where
  "length_within n s \<longleftrightarrow> s \<noteq> [] \<and> length s \<le> n"

text \<open>The construction of a \<open>ProviderPriceSeries\<close>: its fields first, then the validator of the whole.\<close>

definition price_fields ::
    "price_env \<Rightarrow> string \<times> string \<times> ohlc_basis \<Rightarrow> dict \<Rightarrow> string \<Rightarrow> string \<Rightarrow> string option \<Rightarrow> int \<Rightarrow> int
       \<Rightarrow> raw_prices \<Rightarrow> provider_series result" where
  "price_fields env adapter options ticker symbol zone start until w = (case adapter of (provider, version, basis) \<Rightarrow>
     bind_result (require (length_within 32 (str_upper ticker) \<and> length_within 64 symbol
       \<and> (case zone of None \<Rightarrow> True | Some z \<Rightarrow> length z \<le> 64)) (ValueError ''String length'')) (\<lambda>_.
     bind_result (map_result finite_of (rw_open w)) (\<lambda>opens.
     bind_result (map_result finite_of (rw_high w)) (\<lambda>highs.
     bind_result (map_result finite_of (rw_low w)) (\<lambda>lows.
     bind_result (map_result finite_of (rw_close w)) (\<lambda>closes.
     bind_result (map_result finite_of (rw_adjusted_close w)) (\<lambda>adjusted_closes.
     bind_result (map_result finite_of (rw_cash_distributions w)) (\<lambda>cash.
     bind_result (map_result finite_of (rw_split_coefficient w)) (\<lambda>splits.
     Inr \<lparr>pv_ticker = str_upper ticker, pv_provider_symbol = symbol, pv_provider_id = provider,
       pv_provider_adapter_version = version,
       pv_request_fingerprint = price_fingerprint env provider ticker start until options,
       pv_currency = None, pv_timezone = zone, pv_collected_at = pe_now env, pv_ohlc_basis = basis,
       pv_sessions = rw_sessions w, pv_open = opens, pv_high = highs, pv_low = lows, pv_close = closes,
       pv_adjusted_close = Some adjusted_closes, pv_cash_distributions = cash, pv_split_coefficient = splits\<rparr>)))))))))"

definition build_series ::
    "price_env \<Rightarrow> string \<times> string \<times> ohlc_basis \<Rightarrow> dict \<Rightarrow> string \<Rightarrow> string \<Rightarrow> string option \<Rightarrow> int \<Rightarrow> int
       \<Rightarrow> raw_prices \<Rightarrow> provider_series answer" where
  "build_series env adapter options ticker symbol zone start until w =
     raising (bind_result (price_fields env adapter options ticker symbol zone start until w) validate_provider_series)"

section \<open>StockLean\<close>

record daily_price =
  dp_session :: int
  dp_open :: string
  dp_high :: string
  dp_low :: string
  dp_close :: string
  dp_adjusted_close :: string
  dp_volume :: string
  dp_dividend_amount :: string
  dp_split_coefficient :: string
  dp_content_sha256 :: string

record daily_prices =
  ds_symbol :: string
  ds_rows :: "daily_price list"
  ds_max_observation_date :: "int option"

definition field_error :: "string \<Rightarrow> py_error" where
  "field_error k = ValueError (''invalid field '' @ k)"

definition text_field :: "string \<Rightarrow> dict \<Rightarrow> string result" where
  "text_field k d = (case dict_get k d of Some (JStr s) \<Rightarrow> Inr s | _ \<Rightarrow> Inl (field_error k))"

definition hash_text :: "string \<Rightarrow> bool" where
  "hash_text s \<longleftrightarrow> length s = 64 \<and> list_all (\<lambda>c. c \<in> set ''0123456789abcdef'') s"

definition parse_daily_price :: "price_env \<Rightarrow> json \<Rightarrow> daily_price result" where
  "parse_daily_price env j = (case j of JObj d \<Rightarrow>
       bind_result (of_option (field_error ''session_date'') (Option.bind (dict_get ''session_date'' d) (pe_date_field env))) (\<lambda>session.
       bind_result (map_result (\<lambda>k. text_field k d) [''open'', ''high'', ''low'', ''close'', ''adjusted_close'', ''volume'',
         ''dividend_amount'', ''split_coefficient'', ''content_sha256'']) (\<lambda>ts.
       bind_result (require (hash_text (ts ! 8)) (field_error ''content_sha256'')) (\<lambda>_.
       Inr \<lparr>dp_session = session, dp_open = ts ! 0, dp_high = ts ! 1, dp_low = ts ! 2, dp_close = ts ! 3,
         dp_adjusted_close = ts ! 4, dp_volume = ts ! 5, dp_dividend_amount = ts ! 6, dp_split_coefficient = ts ! 7,
         dp_content_sha256 = ts ! 8\<rparr>)))
     | _ \<Rightarrow> Inl (field_error ''rows''))"

definition parse_daily_prices :: "price_env \<Rightarrow> json \<Rightarrow> daily_prices result" where
  "parse_daily_prices env j = (case j of JObj d \<Rightarrow>
       bind_result (require (dict_get ''contract_version'' d = Some (JStr ''stocklean.alpha.v1'')) (field_error ''contract_version'')) (\<lambda>_.
       bind_result (text_field ''symbol'' d) (\<lambda>symbol.
       bind_result (case dict_get ''rows'' d of Some (JList js) \<Rightarrow> map_result (parse_daily_price env) js
         | _ \<Rightarrow> Inl (field_error ''rows'')) (\<lambda>rows.
       bind_result (case dict_get ''max_observation_date'' d of None \<Rightarrow> Inr None | Some JNull \<Rightarrow> Inr None
         | Some v \<Rightarrow> bind_result (of_option (field_error ''max_observation_date'') (pe_date_field env v)) (Inr \<circ> Some)) (\<lambda>latest.
       Inr \<lparr>ds_symbol = symbol, ds_rows = rows, ds_max_observation_date = latest\<rparr>))))
     | _ \<Rightarrow> Inl (field_error ''payload''))"

text \<open>The query of \<open>daily_prices\<close>; \<open>http\<close> is the answer to it.\<close>

definition daily_params :: "string \<Rightarrow> int \<Rightarrow> int \<Rightarrow> dict" where
  "daily_params symbol start until = [(''symbol'', JStr symbol), (''start'', JStr (iso_date start)),
     (''end'', JStr (iso_date until)), (''limit'', JInt 5000)]"

definition decimal_column :: "price_env \<Rightarrow> string \<Rightarrow> (daily_price \<Rightarrow> string) \<Rightarrow> daily_price list \<Rightarrow> decimal list answer" where
  "decimal_column env name f rows = map_answer (\<lambda>r. case pe_decimal env (f r) of
     None \<Rightarrow> Inl (Provider_invalid (''StockLean returned invalid '' @ name)) | Some x \<Rightarrow> Inr x) rows"

definition stocklean_history ::
    "price_env \<Rightarrow> (dict \<Rightarrow> http_outcome) \<Rightarrow> string \<Rightarrow> int \<Rightarrow> int \<Rightarrow> provider_series answer" where
  "stocklean_history env http ticker start until =
     (case stocklean_request (http (daily_params ticker start until)) of
        Inl _ \<Rightarrow> Inl (Provider_unavailable ''StockLean price service is unavailable'')
      | Inr j \<Rightarrow>
        bind_answer (raising (parse_daily_prices env j)) (\<lambda>p.
        let rows = ds_rows p in
        if rows = [] then Inl (Provider_invalid ''StockLean returned no observations'')
        else
          bind_answer (decimal_column env ''open'' dp_open rows) (\<lambda>opens.
          bind_answer (decimal_column env ''high'' dp_high rows) (\<lambda>highs.
          bind_answer (decimal_column env ''low'' dp_low rows) (\<lambda>lows.
          bind_answer (decimal_column env ''close'' dp_close rows) (\<lambda>closes.
          bind_answer (decimal_column env ''adjusted_close'' dp_adjusted_close rows) (\<lambda>adjusted_closes.
          bind_answer (decimal_column env ''dividend_amount'' dp_dividend_amount rows) (\<lambda>cash.
          bind_answer (decimal_column env ''split_coefficient'' dp_split_coefficient rows) (\<lambda>splits.
          build_series env (''stocklean'', ''stocklean.alpha.v1'', AS_TRADED)
            [(''contract_version'', JStr ''stocklean.alpha.v1'')] ticker (ds_symbol p) (Some ''America/New_York'') start until
            \<lparr>rw_sessions = map dp_session rows, rw_open = opens, rw_high = highs, rw_low = lows, rw_close = closes,
             rw_adjusted_close = adjusted_closes, rw_cash_distributions = cash, rw_split_coefficient = splits\<rparr>)))))))))"

section \<open>Alpha Vantage: requests\<close>

text \<open>
  One of the limiter's rounds under its lock, on the instants it remembers and at the clock's \<open>now\<close>:
  \<open>None\<close> admits the caller, \<open>Some delay\<close> makes it sleep before the next round.
\<close>

definition limiter_round :: "int \<Rightarrow> rat \<Rightarrow> rat list \<Rightarrow> rat list \<times> rat option" where
  "limiter_round per_minute now observed =
     (let kept = dropWhile (\<lambda>t. t \<le> now - 60) observed in
      if int (length kept) < per_minute then (kept @ [now], None)
      else (kept, Some (max (hd kept + 60 - now) (1 / 1000))))"

definition new_limiter :: "int \<Rightarrow> rat list result" where
  "new_limiter per_minute =
     bind_result (require (1 \<le> per_minute) (ValueError ''requests per minute must be positive'')) (\<lambda>_. Inr [])"

datatype alpha_verdict = Ask_again "rat option" | Ends "dict answer"

definition direct_verdict :: "price_env \<Rightarrow> upstream \<Rightarrow> alpha_verdict" where
  "direct_verdict env u = (case u of
     NoResponse \<Rightarrow> Ends (Inl (Provider_unavailable ''Alpha Vantage request failed''))
   | Upstream status retry_after body \<Rightarrow>
       (if status = 429 then Ask_again (numeric_retry_after (pe_number env) retry_after)
        else if status < 200 \<or> 300 \<le> status then Ends (Inl (Provider_unavailable ''Alpha Vantage request failed''))
        else (case pe_loads env body of
            None \<Rightarrow> Ends (Inl (Provider_unavailable ''Alpha Vantage request failed''))
          | Some j \<Rightarrow> (case classify_alpha_payload (pe_show env) (Some j) of
              None \<Rightarrow> Ends (case j of JObj d \<Rightarrow> Inr d
                | _ \<Rightarrow> Inl (Provider_invalid ''Alpha Vantage response is not an object''))
            | Some AuthenticationAnswer \<Rightarrow>
                Ends (Inl (Provider_unavailable ''Alpha Vantage rejected the configured credentials''))
            | Some TransientAnswer \<Rightarrow> Ends (Inl (Provider_invalid ''Alpha Vantage returned an invalid response''))
            | Some RateLimitAnswer \<Rightarrow> Ask_again None))))"

text \<open>The loop over the attempts, with the delays slept between them.\<close>

fun direct_attempts ::
    "price_env \<Rightarrow> retry_policy \<Rightarrow> (int \<Rightarrow> upstream) \<Rightarrow> int list \<Rightarrow> rat list \<times> dict answer" where
  "direct_attempts env p answer [] = ([], Inl (Provider_raises (RuntimeError ''unreachable Alpha Vantage retry state'')))"
| "direct_attempts env p answer (n # ns) =
     (case direct_verdict env (answer n) of
        Ends r \<Rightarrow> ([], r)
      | Ask_again retry_after \<Rightarrow>
          (if n = rp_attempts p
           then ([], Inl (Provider_rate_limited ''Alpha Vantage request limit persisted after delayed retries''))
           else (case policy_delay p n retry_after of
               Inl e \<Rightarrow> ([], Inl (Provider_raises e))
             | Inr t \<Rightarrow> (case direct_attempts env p answer ns of (ts, r) \<Rightarrow> (t # ts, r)))))"

text \<open>How a provider reaches the vendor: through the broker, or itself with a key.\<close>

datatype alpha_access =
    Through_broker "string \<Rightarrow> dict \<Rightarrow> broker_error + string"
  | Direct string retry_policy "dict \<Rightarrow> int \<Rightarrow> upstream"

definition broker_payload :: "price_env \<Rightarrow> broker_error + string \<Rightarrow> dict answer" where
  "broker_payload env r = (case r of
     Inl (BrokerRateLimit m) \<Rightarrow> Inl (Provider_rate_limited m)
   | Inl (BrokerAuthentication m) \<Rightarrow> Inl (Provider_unavailable m)
   | Inl (BrokerTransient m) \<Rightarrow> Inl (Provider_unavailable m)
   | Inl (BrokerCrash m) \<Rightarrow> Inl (Provider_raises (RuntimeError m))
   | Inr body \<Rightarrow> (case pe_loads env body of
         None \<Rightarrow> Inl (Provider_invalid ''Alpha Vantage response is not JSON'')
       | Some (JObj d) \<Rightarrow> Inr d
       | Some _ \<Rightarrow> Inl (Provider_invalid ''Alpha Vantage response is not an object'')))"

definition request_payload :: "price_env \<Rightarrow> alpha_access \<Rightarrow> dict \<Rightarrow> dict answer" where
  "request_payload env access params = (case access of
     Through_broker query \<Rightarrow>
       broker_payload env (query (str_or (pe_show env) (dict_get ''function'' params) []) (dict_pop ''function'' params))
   | Direct key p http \<Rightarrow>
       snd (direct_attempts env p (http (dict_update params [(''apikey'', JStr key)])) [1..rp_attempts p]))"

definition new_alpha ::
    "string option \<Rightarrow> int \<Rightarrow> retry_policy \<Rightarrow> (string \<Rightarrow> dict \<Rightarrow> broker_error + string) option
       \<Rightarrow> (dict \<Rightarrow> int \<Rightarrow> upstream) \<Rightarrow> alpha_access result" where
  "new_alpha key per_minute p broker http =
     bind_result (require ((key \<noteq> None \<and> key \<noteq> Some []) \<or> broker \<noteq> None) (ValueError ''Alpha Vantage API key is required'')) (\<lambda>_.
     bind_result (new_limiter per_minute) (\<lambda>_.
     Inr (case broker of Some query \<Rightarrow> Through_broker query
       | None \<Rightarrow> Direct (case key of Some k \<Rightarrow> k | None \<Rightarrow> []) p http)))"

section \<open>Alpha Vantage: the series\<close>

definition alpha_params :: "string \<Rightarrow> dict" where
  "alpha_params ticker = [(''function'', JStr ''TIME_SERIES_DAILY_ADJUSTED''), (''symbol'', JStr (str_upper ticker)),
     (''outputsize'', JStr ''full'')]"

fun alpha_rows :: "price_env \<Rightarrow> int \<Rightarrow> int \<Rightarrow> dict \<Rightarrow> (int \<times> dict) list answer" where
  "alpha_rows env start until [] = Inr []"
| "alpha_rows env start until ((raw, v) # rest) =
     (case pe_date env raw of
        None \<Rightarrow> Inl (Provider_invalid ''Alpha Vantage returned an invalid session'')
      | Some session \<Rightarrow>
          (if start \<le> session \<and> session \<le> until
           then (case v of
               JObj d \<Rightarrow> bind_answer (alpha_rows env start until rest) (\<lambda>rows. Inr ((session, d) # rows))
             | _ \<Rightarrow> Inl (Provider_invalid ''Alpha Vantage returned invalid daily values''))
           else alpha_rows env start until rest))"

definition alpha_column :: "price_env \<Rightarrow> string \<Rightarrow> (int \<times> dict) list \<Rightarrow> decimal list answer" where
  "alpha_column env k rows = map_answer (\<lambda>r.
     case Option.bind (dict_get k (snd r)) (\<lambda>j. pe_decimal env (pe_show env j)) of
       None \<Rightarrow> Inl (Provider_invalid (''Alpha Vantage response is missing '' @ k)) | Some x \<Rightarrow> Inr x) rows"

definition alpha_timezone :: "price_env \<Rightarrow> dict \<Rightarrow> string option" where
  "alpha_timezone env payload = (case dict_get ''Meta Data'' payload of
     Some (JObj m) \<Rightarrow> map_option (pe_show env) (truthy_value m ''5. Time Zone'')
   | _ \<Rightarrow> None)"

definition alpha_selected :: "price_env \<Rightarrow> int \<Rightarrow> int \<Rightarrow> dict \<Rightarrow> (int \<times> dict) list answer" where
  "alpha_selected env start until payload =
     (if dict_get ''Error Message'' payload \<noteq> None then Inl (Provider_invalid ''Alpha Vantage rejected the symbol'')
      else (case dict_get ''Time Series (Daily)'' payload of
          Some (JObj observations) \<Rightarrow>
            bind_answer (alpha_rows env start until observations) (\<lambda>rows.
            if rows = [] then Inl (Provider_invalid ''Alpha Vantage returned no observations in range'')
            else Inr (sort_key fst rows))
        | _ \<Rightarrow> Inl (Provider_invalid ''Alpha Vantage response is missing daily prices'')))"

definition alpha_history :: "price_env \<Rightarrow> alpha_access \<Rightarrow> string \<Rightarrow> int \<Rightarrow> int \<Rightarrow> provider_series answer" where
  "alpha_history env access ticker start until =
     bind_answer (request_payload env access (alpha_params ticker)) (\<lambda>payload.
     bind_answer (alpha_selected env start until payload) (\<lambda>rows.
     bind_answer (alpha_column env ''1. open'' rows) (\<lambda>opens.
     bind_answer (alpha_column env ''2. high'' rows) (\<lambda>highs.
     bind_answer (alpha_column env ''3. low'' rows) (\<lambda>lows.
     bind_answer (alpha_column env ''4. close'' rows) (\<lambda>closes.
     bind_answer (alpha_column env ''5. adjusted close'' rows) (\<lambda>adjusted_closes.
     bind_answer (alpha_column env ''7. dividend amount'' rows) (\<lambda>cash.
     bind_answer (alpha_column env ''8. split coefficient'' rows) (\<lambda>splits.
     build_series env (''alphavantage'', ''alphavantage.v1'', AS_TRADED)
       [(''function'', JStr ''TIME_SERIES_DAILY_ADJUSTED''), (''outputsize'', JStr ''full'')]
       ticker (str_upper ticker) (alpha_timezone env payload) start until
       \<lparr>rw_sessions = map fst rows, rw_open = opens, rw_high = highs, rw_low = lows, rw_close = closes,
        rw_adjusted_close = adjusted_closes, rw_cash_distributions = cash, rw_split_coefficient = splits\<rparr>)))))))))"

section \<open>Yahoo\<close>

text \<open>
  A frame of \<open>yfinance\<close>: its sessions and its columns, each with a value per session (\<open>None\<close> where
  it is missing, else the decimal of the number's text), or several tickers under one name.
\<close>

datatype column = Column "decimal option list" | Ambiguous

record frame =
  fr_index :: "int list"
  fr_columns :: "(string \<times> column) list"

definition frame_column :: "frame \<Rightarrow> string \<Rightarrow> decimal option list option answer" where
  "frame_column f name = (case map_of (fr_columns f) name of
     None \<Rightarrow> Inr None
   | Some (Column xs) \<Rightarrow> Inr (Some xs)
   | Some Ambiguous \<Rightarrow> Inl (Provider_invalid ''price provider returned ambiguous ticker columns''))"

definition price_column :: "frame \<Rightarrow> string \<Rightarrow> decimal option list answer" where
  "price_column f name = bind_answer (frame_column f name) (\<lambda>c. case c of
     None \<Rightarrow> Inl (Provider_invalid ''yfinance response is missing price columns'') | Some xs \<Rightarrow> Inr xs)"

definition kept_rows :: "nat list \<Rightarrow> 'a list \<Rightarrow> 'a list" where
  "kept_rows is xs = map (\<lambda>i. xs ! i) is"

definition complete_rows :: "nat \<Rightarrow> decimal option list list \<Rightarrow> nat list" where
  "complete_rows n columns = filter (\<lambda>i. list_all (\<lambda>c. c ! i \<noteq> None) columns) [0..<n]"

text \<open>\<open>reindex\<close> refuses an index with duplicates unless it is asked for the same index.\<close>

definition action_column :: "frame \<Rightarrow> nat list \<Rightarrow> string \<Rightarrow> decimal list answer" where
  "action_column f is name = bind_answer (frame_column f name) (\<lambda>c. case c of
     None \<Rightarrow> Inr (replicate (length is) (Finite 0))
   | Some xs \<Rightarrow>
       (if kept_rows is (fr_index f) \<noteq> fr_index f \<and> \<not> distinct (fr_index f)
        then Inl (Provider_raises (ValueError ''cannot reindex on an axis with duplicate labels''))
        else Inr (map (\<lambda>x. case x of None \<Rightarrow> Finite 0 | Some v \<Rightarrow> v) (kept_rows is xs))))"

fun add_decimals :: "decimal \<times> decimal \<Rightarrow> decimal answer" where
  "add_decimals (Finite a, Finite b) = Inr (Finite (round28 (a + b)))"
| "add_decimals (Infinite a, Infinite b) = (if a = b then Inr (Infinite a) else Inl (Provider_raises InvalidOperation))"
| "add_decimals (NaN, _) = Inr NaN"
| "add_decimals (_, NaN) = Inr NaN"
| "add_decimals (Infinite a, _) = Inr (Infinite a)"
| "add_decimals (_, Infinite b) = Inr (Infinite b)"

definition yahoo_history ::
    "price_env \<Rightarrow> (string \<Rightarrow> int \<Rightarrow> int \<Rightarrow> frame result) \<Rightarrow> string \<Rightarrow> int \<Rightarrow> int \<Rightarrow> provider_series answer" where
  "yahoo_history env download ticker start until =
     (case download ticker start (until + 1) of
        Inl (NetworkError _) \<Rightarrow> Inl (Provider_unavailable ''yfinance request failed'')
      | Inl e \<Rightarrow> Inl (Provider_raises e)
      | Inr f \<Rightarrow>
        (if fr_index f = [] \<or> fr_columns f = [] then Inl (Provider_invalid ''yfinance returned no observations'')
         else
         bind_answer (map_answer (price_column f) [''Open'', ''High'', ''Low'', ''Close'', ''Adj Close'']) (\<lambda>columns.
         let is = complete_rows (length (fr_index f)) columns; prices = map (\<lambda>c. map the (kept_rows is c)) columns in
         if is = [] then Inl (Provider_invalid ''yfinance returned no complete observations'')
         else
         bind_answer (action_column f is ''Dividends'') (\<lambda>dividends.
         bind_answer (action_column f is ''Capital Gains'') (\<lambda>gains.
         bind_answer (action_column f is ''Stock Splits'') (\<lambda>splits.
         bind_answer (map_answer add_decimals (zip dividends gains)) (\<lambda>cash.
         build_series env (''yfinance'', ''yfinance.v2'', SPLIT_NORMALIZED)
           [(''auto_adjust'', JBool False), (''actions'', JBool True), (''threads'', JBool False)]
           ticker (str_upper ticker) None start until
           \<lparr>rw_sessions = kept_rows is (fr_index f), rw_open = prices ! 0, rw_high = prices ! 1, rw_low = prices ! 2,
            rw_close = prices ! 3, rw_adjusted_close = prices ! 4, rw_cash_distributions = cash,
            rw_split_coefficient = map (\<lambda>x. if x = Finite 0 then Finite 1 else x) splits\<rparr>)))))))"

section \<open>The router\<close>

record provider =
  pr_id :: string
  pr_history :: "string \<Rightarrow> int \<Rightarrow> int \<Rightarrow> provider_series answer"

fun passes_on :: "provider_error \<Rightarrow> bool" where
  "passes_on (Provider_unavailable _) = True"
| "passes_on (Provider_rate_limited _) = True"
| "passes_on (Provider_unsupported _) = True"
| "passes_on _ = False"

fun router_history :: "provider list \<Rightarrow> string \<Rightarrow> int \<Rightarrow> int \<Rightarrow> provider_series answer" where
  "router_history [] ticker start until = Inl (Provider_unavailable ''all configured validation price providers failed'')"
| "router_history (p # ps) ticker start until = (case pr_history p ticker start until of
     Inr s \<Rightarrow> Inr s
   | Inl e \<Rightarrow> if passes_on e then router_history ps ticker start until else Inl e)"

definition new_router :: "provider list \<Rightarrow> provider list result" where
  "new_router ps = bind_result (require (ps \<noteq> []) (ValueError ''at least one validation price provider is required'')) (\<lambda>_. Inr ps)"

definition provider_ids :: "provider list \<Rightarrow> string list" where
  "provider_ids ps = map pr_id ps"

text \<open>What a validation job calls: the router, and for the first calculator its series without the actions.\<close>

definition job_history :: "(nat \<Rightarrow> provider list) \<Rightarrow> provider_series history" where
  "job_history ps k ticker start until = map_sum py_error_of id (router_history (ps k) ticker start until)"

definition legacy_history :: "(nat \<Rightarrow> provider list) \<Rightarrow> price_series history" where
  "legacy_history ps k ticker start until =
     bind_result (job_history ps k ticker start until) (\<lambda>raw.
     bind_result (of_option (ValueError ''adjusted_close'') (pv_adjusted_close raw)) (\<lambda>adjusted_closes.
     validate_price_series \<lparr>ps_ticker = pv_ticker raw, ps_sessions = pv_sessions raw, ps_open = pv_open raw,
       ps_high = pv_high raw, ps_low = pv_low raw, ps_close = pv_close raw, ps_adjusted_close = adjusted_closes\<rparr>))"

section \<open>The configured router\<close>

record price_settings =
  st_providers :: "string list"
  st_stocklean_token :: string
  st_alpha_key :: "string option"
  st_per_minute :: int
  st_policy :: retry_policy

text \<open>The clients a caller may pass, and those that are built when it does not.\<close>

record price_clients =
  pc_stocklean :: "(dict \<Rightarrow> http_outcome) option"
  pc_broker :: "string \<Rightarrow> dict \<Rightarrow> broker_error + string"
  pc_default_stocklean :: "dict \<Rightarrow> http_outcome"
  pc_download :: "string \<Rightarrow> int \<Rightarrow> int \<Rightarrow> frame result"

definition stocklean_client :: "price_settings \<Rightarrow> price_clients \<Rightarrow> (dict \<Rightarrow> http_outcome) result" where
  "stocklean_client st cl = (case pc_stocklean cl of
     Some http \<Rightarrow> Inr http
   | None \<Rightarrow>
       bind_result (require (st_stocklean_token st \<noteq> []) (ValueError ''TRADINGNG_STOCKLEAN_INTERNAL_TOKEN is required'')) (\<lambda>_.
       bind_result (require (str_strip (st_stocklean_token st) \<noteq> []) (ValueError ''StockLean internal token is required'')) (\<lambda>_.
       Inr (pc_default_stocklean cl))))"

definition configured_provider :: "price_env \<Rightarrow> price_settings \<Rightarrow> price_clients \<Rightarrow> string \<Rightarrow> provider list result" where
  "configured_provider env st cl i =
     (if i = ''stocklean'' then
        bind_result (stocklean_client st cl) (\<lambda>http. Inr [\<lparr>pr_id = i, pr_history = stocklean_history env http\<rparr>])
      else if i = ''alphavantage'' then
        (if st_alpha_key st = None then Inr []
         else
           bind_result (retry_policy_ok (st_policy st)) (\<lambda>_.
           bind_result (new_alpha None (st_per_minute st) (st_policy st) (Some (pc_broker cl)) (\<lambda>_ _. NoResponse)) (\<lambda>access.
           Inr [\<lparr>pr_id = i, pr_history = alpha_history env access\<rparr>])))
      else if i = ''yfinance'' then Inr [\<lparr>pr_id = i, pr_history = yahoo_history env (pc_download cl)\<rparr>]
      else Inr [])"

definition build_price_provider :: "price_env \<Rightarrow> price_settings \<Rightarrow> price_clients \<Rightarrow> provider list result" where
  "build_price_provider env st cl =
     bind_result (map_result (configured_provider env st cl) (st_providers st)) (\<lambda>pss. new_router (concat pss))"

end
