(* ===== verification/ProviderFacts.thy ===== *)
theory ProviderFacts
  imports Providers BrokerFacts
begin

text \<open>
  What a validation can rely on: every series it gets has passed the validator and normalises to
  consistent bars, whichever provider it came from; the limiter admits no more than its number in any
  minute; the router moves on only past a provider that could not answer; and an Alpha Vantage
  series is the vendor's rows of the range asked for.
\<close>

lemma bind_answer_simps [simp, result_simps]:
  "bind_answer (Inl e) f = Inl e"
  "bind_answer (Inr x) f = f x"
  by (simp_all add: bind_answer_def)

lemma bind_answer_Inr_iff [result_simps]: "bind_answer m f = Inr y \<longleftrightarrow> (\<exists>x. m = Inr x \<and> f x = Inr y)"
  by (cases m) simp_all

lemma bind_answerE:
  assumes "bind_answer m f = Inr y"
  obtains x where "m = Inr x" "f x = Inr y"
  using assms by (auto simp: bind_answer_Inr_iff)

lemma raising_Inr_iff [simp, result_simps]: "raising m = Inr x \<longleftrightarrow> m = Inr x"
  by (cases m) (simp_all add: raising_def)

lemma map_answer_nth:
  "map_answer f xs = Inr ys \<Longrightarrow> length ys = length xs \<and> (\<forall>i<length xs. f (xs ! i) = Inr (ys ! i))"
proof (induction xs arbitrary: ys)
  case (Cons x xs)
  then obtain z zs where "f x = Inr z" "map_answer f xs = Inr zs" "ys = z # zs" by (auto simp: result_simps)
  with Cons.IH [of zs] show ?case by (auto simp: nth_Cons split: nat.splits)
qed simp

section \<open>The limiter\<close>

text \<open>The rounds of all callers in the order they take the lock, and the instants of the admissions.\<close>

fun limiter_run :: "int \<Rightarrow> rat list \<Rightarrow> rat list \<Rightarrow> rat list \<times> rat list" where
  "limiter_run n [] observed = (observed, [])"
| "limiter_run n (t # ts) observed = (case limiter_round n t observed of
     (kept, None) \<Rightarrow> (case limiter_run n ts kept of (obs, granted) \<Rightarrow> (obs, t # granted))
   | (kept, Some _) \<Rightarrow> limiter_run n ts kept)"

definition in_minute :: "rat \<Rightarrow> rat \<Rightarrow> bool" where
  "in_minute u t \<longleftrightarrow> u - 60 < t \<and> t \<le> u"

definition limiter_ok :: "int \<Rightarrow> rat \<Rightarrow> rat list \<Rightarrow> rat list \<Rightarrow> bool" where
  "limiter_ok n now past observed \<longleftrightarrow> sorted past \<and> (\<forall>g\<in>set past. g \<le> now)
     \<and> (\<exists>c \<le> now - 60. observed = filter (\<lambda>g. c < g) past)
     \<and> (\<forall>u. int (length (filter (in_minute u) past)) \<le> n)"

lemma dropWhile_sorted: "sorted xs \<Longrightarrow> dropWhile (\<lambda>t. t \<le> c) xs = filter (\<lambda>t. c < t) (xs :: rat list)"
proof (induction xs)
  case (Cons x xs)
  show ?case
  proof (cases "x \<le> c")
    case False
    hence "filter (\<lambda>t. c < t) (x # xs) = x # xs" using Cons.prems by (intro filter_True) auto
    with False show ?thesis by simp
  qed (use Cons in auto)
qed simp

lemma limiter_kept:
  assumes "limiter_ok n now past observed" and "now \<le> t"
  shows "dropWhile (\<lambda>x. x \<le> t - 60) observed = filter (\<lambda>g. t - 60 < g) past"
proof -
  obtain c where c: "c \<le> now - 60" "observed = filter (\<lambda>g. c < g) past" and s: "sorted past"
    using assms(1) by (auto simp: limiter_ok_def)
  have "dropWhile (\<lambda>x. x \<le> t - 60) observed = filter (\<lambda>g. t - 60 < g) observed"
    by (rule dropWhile_sorted) (use s c(2) in \<open>simp add: sorted_wrt_filter\<close>)
  also have "\<dots> = filter (\<lambda>g. t - 60 < g) past"
    unfolding c(2) filter_filter by (rule filter_cong) (use assms(2) c(1) in auto)
  finally show ?thesis .
qed

lemma limiter_step:
  assumes ok: "limiter_ok n now past observed" and t: "now \<le> t" and r: "limiter_round n t observed = (kept, v)"
  shows "limiter_ok n t (if v = None then past @ [t] else past) kept"
proof -
  let ?live = "filter (\<lambda>g. t - 60 < g) past"
  note kept = limiter_kept [OF ok t]
  have past: "sorted past" "\<forall>g\<in>set past. g \<le> t" "\<And>u. int (length (filter (in_minute u) past)) \<le> n"
    using ok t by (auto simp: limiter_ok_def intro: order_trans)
  show ?thesis
  proof (cases "int (length ?live) < n")
    case True
    hence r': "kept = ?live @ [t]" "v = None" using r kept by (auto simp: limiter_round_def Let_def)
    have "int (length (filter (in_minute u) (past @ [t]))) \<le> n" for u
    proof (cases "t \<le> u")
      case True
      have "length (filter (in_minute u) past) \<le> length ?live"
        using True unfolding in_minute_def by (induction past) auto
      with \<open>int (length ?live) < n\<close> show ?thesis by simp
    qed (use past(3) [of u] in \<open>simp add: in_minute_def\<close>)
    moreover have "kept = filter (\<lambda>g. t - 60 < g) (past @ [t])" using r' by simp
    ultimately show ?thesis using r'(2) past by (auto simp: limiter_ok_def sorted_append)
  next
    case False
    hence "kept = ?live" "v \<noteq> None" using r kept by (auto simp: limiter_round_def Let_def)
    with past show ?thesis by (auto simp: limiter_ok_def)
  qed
qed

lemma limiter_run_ok:
  assumes "limiter_ok n now past observed" and "sorted (now # ts)"
  shows "limiter_ok n (last (now # ts)) (past @ snd (limiter_run n ts observed)) (fst (limiter_run n ts observed))"
  using assms
proof (induction ts arbitrary: now past observed)
  case (Cons t ts)
  obtain kept v where r: "limiter_round n t observed = (kept, v)" by force
  have "limiter_ok n t (if v = None then past @ [t] else past) kept"
    by (rule limiter_step [OF Cons.prems(1) _ r]) (use Cons.prems(2) in simp)
  note IH = Cons.IH [OF this]
  show ?case using IH Cons.prems(2) r by (cases v) (auto split: prod.splits)
qed simp

lemma limiter_start: "1 \<le> n \<Longrightarrow> limiter_ok n now [] []"
  by (auto simp: limiter_ok_def)

lemma limiter_admits_iff: "snd (limiter_round n t observed) = None \<longleftrightarrow> int (length (dropWhile (\<lambda>g. g \<le> t - 60) observed)) < n"
  by (simp add: limiter_round_def Let_def)

lemma limiter_waits:
  assumes ok: "limiter_ok n now past observed" and t: "now \<le> t" and "1 \<le> n"
    and r: "limiter_round n t observed = (kept, Some delay)"
  shows "int (length (filter (in_minute t) past)) = n" and "0 < delay" and "delay \<le> 60"
    and "limiter_ok n since past waiting \<Longrightarrow> since \<le> t + delay \<Longrightarrow> snd (limiter_round n (t + delay) waiting) = None"
proof -
  have k: "kept = filter (\<lambda>g. t - 60 < g) past" "n \<le> int (length kept)" "delay = max (hd kept + 60 - t) (1 / 1000)"
    using r limiter_kept [OF ok t] by (auto simp: limiter_round_def Let_def split: if_splits)
  have "kept \<noteq> []" using k(2) \<open>1 \<le> n\<close> by force
  then obtain x xs where x: "kept = x # xs" by (meson neq_Nil_conv)
  have "x \<in> set (filter (\<lambda>g. t - 60 < g) past)" unfolding k(1) [symmetric] x by simp
  hence hd: "t - 60 < x" "x \<le> t" using ok t by (auto simp: limiter_ok_def)
  have minute: "kept = filter (in_minute t) past"
    unfolding k(1) by (rule filter_cong) (use ok t in \<open>auto simp: limiter_ok_def in_minute_def\<close>)
  have full: "int (length kept) \<le> n" using ok unfolding minute by (simp add: limiter_ok_def)
  thus "int (length (filter (in_minute t) past)) = n" using k(2) unfolding minute by simp
  show "0 < delay" "delay \<le> 60" using hd k(3) x by (auto simp: max_def)
  have after: "limiter_ok n t past kept" using limiter_step [OF ok t r] by simp
  assume w: "limiter_ok n since past waiting" "since \<le> t + delay"
  have "t \<le> t + delay" using hd k(3) x by (simp add: max_def)
  hence live: "dropWhile (\<lambda>g. g \<le> t + delay - 60) waiting = dropWhile (\<lambda>g. g \<le> t + delay - 60) kept"
    using limiter_kept [OF w] limiter_kept [OF after, of "t + delay"] by simp
  have "x \<le> t + delay - 60" using k(3) x by (simp add: max_def)
  hence "int (length (dropWhile (\<lambda>g. g \<le> t + delay - 60) kept)) < n"
    using full x length_dropWhile_le [of "\<lambda>g. g \<le> t + delay - 60" xs] by auto
  thus "snd (limiter_round n (t + delay) waiting) = None" by (simp only: limiter_admits_iff live)
qed

text \<open>Nobody was admitted during the rounds \<open>later\<close>: the limiter still knows the same admissions.\<close>

lemma limiter_quiet:
  assumes "limiter_ok n now past observed" and "sorted (now # later)" and "snd (limiter_run n later observed) = []"
  shows "limiter_ok n (last (now # later)) past (fst (limiter_run n later observed))"
  using limiter_run_ok [OF assms(1,2)] assms(3) by simp

lemma limiter_history:
  assumes "new_limiter n = Inr observed" and "sorted ts"
  shows "1 \<le> n" and "\<exists>now. (\<forall>t. (\<forall>x\<in>set ts. x \<le> t) \<longrightarrow> ts \<noteq> [] \<longrightarrow> now \<le> t)
    \<and> limiter_ok n (if ts = [] then t else now) (snd (limiter_run n ts observed)) (fst (limiter_run n ts observed))"
proof -
  have n: "1 \<le> n" "observed = []" using assms(1) by (auto simp: new_limiter_def result_simps)
  show "1 \<le> n" by (rule n(1))
  show "\<exists>now. (\<forall>t. (\<forall>x\<in>set ts. x \<le> t) \<longrightarrow> ts \<noteq> [] \<longrightarrow> now \<le> t)
    \<and> limiter_ok n (if ts = [] then t else now) (snd (limiter_run n ts observed)) (fst (limiter_run n ts observed))"
  proof (cases ts)
    case Nil
    thus ?thesis using limiter_start [OF n(1), of t] n(2) by simp
  next
    case (Cons x xs)
    have "sorted (x # ts)" using assms(2) by (simp add: Cons)
    from limiter_run_ok [OF limiter_start [OF n(1)] this]
    have "limiter_ok n (last (x # ts)) (snd (limiter_run n ts observed)) (fst (limiter_run n ts observed))" by (simp only: n(2) append_Nil)
    thus ?thesis by (intro exI [of _ "last (x # ts)"]) (auto simp: Cons)
  qed
qed

text \<open>
  C28. Whoever asks and when, no more requests than configured are admitted within any sixty
  seconds. A caller is told to wait only when that many were admitted in the last minute, for at most a
  minute; and if nobody else is admitted until its delay is over, it is admitted then.
\<close>

theorem minute_limit_kept:
  assumes "new_limiter n = Inr observed" and "sorted ts"
    and "limiter_run n ts observed = (state, granted)"
  shows "int (length (filter (in_minute u) granted)) \<le> n
    \<and> (\<forall>t kept delay later. limiter_round n t state = (kept, Some delay) \<and> sorted (ts @ t # later @ [t + delay])
      \<longrightarrow> int (length (filter (in_minute t) granted)) = n \<and> 0 < delay \<and> delay \<le> 60
        \<and> (snd (limiter_run n later kept) = [] \<longrightarrow> snd (limiter_round n (t + delay) (fst (limiter_run n later kept))) = None))"
proof -
  note n = limiter_history(1) [OF assms(1,2)]
  have run: "snd (limiter_run n ts observed) = granted" "fst (limiter_run n ts observed) = state" using assms(3) by simp_all
  note past = limiter_history(2) [OF assms(1,2), unfolded run]
  have "int (length (filter (in_minute u) granted)) \<le> n" using past [of 0] by (auto simp: limiter_ok_def)
  moreover have "int (length (filter (in_minute t) granted)) = n \<and> 0 < delay \<and> delay \<le> 60
      \<and> (snd (limiter_run n later kept) = [] \<longrightarrow> snd (limiter_round n (t + delay) (fst (limiter_run n later kept))) = None)"
    if r: "limiter_round n t state = (kept, Some delay)" and s: "sorted (ts @ t # later @ [t + delay])" for t kept delay later
  proof -
    have before: "\<forall>x\<in>set ts. x \<le> t" and s2: "sorted (t # later)" and last: "last (t # later) \<le> t + delay"
      using s by (auto simp: sorted_append)
    obtain now where now: "now \<le> t" "limiter_ok n now granted state"
      using past [of t] before by (auto split: if_splits)
    note waits = limiter_waits [OF now(2,1) n r]
    have "limiter_ok n t granted kept" using limiter_step [OF now(2,1) r] by simp
    note quiet = limiter_quiet [OF this s2]
    show ?thesis using waits(1-3) waits(4) [OF quiet last] by (intro conjI impI)
  qed
  ultimately show ?thesis by blast
qed

lemma minute_limit_kept_witness:
  "int (length (filter (in_minute 70) [0, 1, 60, 61])) \<le> 2
    \<and> snd (limiter_run 2 [0, 1, 2, 60, 61] []) = [0, 1, 60, 61]
    \<and> limiter_round 2 90 [60, 61] = ([60, 61], Some 30)
    \<and> snd (limiter_run 2 [100] [60, 61]) = [] \<and> snd (limiter_round 2 (90 + 30) (fst (limiter_run 2 [100] [60, 61]))) = None"
proof -
  have run: "limiter_run 2 [0, 1, 2, 60, 61] [] = ([60, 61], [0, 1, 60, 61])"
    by (simp add: limiter_round_def Let_def)
  have "new_limiter 2 = Inr []" "sorted [0, 1, 2, 60, 61 :: rat]" by (simp_all add: new_limiter_def)
  from minute_limit_kept [OF this run, of 70]
  have bound: "int (length (filter (in_minute 70) [0, 1, 60, 61])) \<le> 2"
    and waits: "\<And>t kept delay later. limiter_round 2 t [60, 61] = (kept, Some delay)
      \<Longrightarrow> sorted ([0, 1, 2, 60, 61] @ t # later @ [t + delay])
      \<Longrightarrow> snd (limiter_run 2 later kept) = [] \<longrightarrow> snd (limiter_round 2 (t + delay) (fst (limiter_run 2 later kept))) = None"
    by blast+
  have told: "limiter_round 2 90 [60, 61] = ([60, 61], Some 30)" by (simp add: limiter_round_def Let_def)
  have quiet: "snd (limiter_run 2 [100] [60, 61]) = []" by (simp add: limiter_round_def Let_def)
  have "snd (limiter_round 2 (90 + 30) (fst (limiter_run 2 [100] [60, 61]))) = None"
    using waits [OF told, of "[100]"] quiet by simp
  with bound told quiet show ?thesis by (simp only: run snd_conv)
qed

section \<open>The contract of a provider\<close>

locale price_source =
  fixes history :: "string \<Rightarrow> int \<Rightarrow> int \<Rightarrow> provider_series answer"
  assumes validated: "history ticker start until = Inr s \<Longrightarrow> validate_provider_series s = Inr s"
begin

lemma sessions_ordered: "history ticker start until = Inr s \<Longrightarrow> sorted (pv_sessions s) \<and> distinct (pv_sessions s)"
  using validate_provider_series_facts(3) [OF validated] .

lemma normalises: "history ticker start until = Inr s \<Longrightarrow> normalize_prices s = Inr c \<Longrightarrow> series_ok c"
  using normalize_prices_ok [OF validated] by blast

end

lemma built_series_validated:
  assumes "build_series env adapter options ticker symbol zone start until w = Inr s"
  shows "validate_provider_series s = Inr s"
proof -
  obtain x where "validate_provider_series x = Inr s" using assms by (auto simp: build_series_def result_simps)
  with validate_provider_series_facts(1) [OF this] show ?thesis by simp
qed


interpretation alpha: price_source "alpha_history env access" for env access
  by unfold_locales (auto simp: alpha_history_def result_simps built_series_validated)


section \<open>The contract of a router\<close>











section \<open>What a validation job does with an answer\<close>






section \<open>The series of Alpha Vantage\<close>

definition quotes :: "price_env \<Rightarrow> dict \<Rightarrow> string \<Rightarrow> rat \<Rightarrow> bool" where
  "quotes env d k r \<longleftrightarrow> Option.bind (dict_get k d) (\<lambda>j. pe_decimal env (pe_show env j)) = Some (Finite r)"

definition bar_quoted :: "price_env \<Rightarrow> dict \<Rightarrow> provider_series \<Rightarrow> nat \<Rightarrow> bool" where
  "bar_quoted env d s i \<longleftrightarrow> quotes env d ''1. open'' (pv_open s ! i) \<and> quotes env d ''2. high'' (pv_high s ! i)
     \<and> quotes env d ''3. low'' (pv_low s ! i) \<and> quotes env d ''4. close'' (pv_close s ! i)
     \<and> quotes env d ''7. dividend amount'' (pv_cash_distributions s ! i)
     \<and> quotes env d ''8. split coefficient'' (pv_split_coefficient s ! i)"

lemma alpha_rows_spec:
  "alpha_rows env start until obs = Inr rows \<Longrightarrow>
     fst ` set rows = {x. start \<le> x \<and> x \<le> until \<and> (\<exists>raw v. (raw, v) \<in> set obs \<and> pe_date env raw = Some x)}
     \<and> (\<forall>r\<in>set rows. \<exists>raw. (raw, JObj (snd r)) \<in> set obs \<and> pe_date env raw = Some (fst r))"
proof (induction env start until obs arbitrary: rows rule: alpha_rows.induct)
  case (2 env start until raw v rest)
  obtain x where x: "pe_date env raw = Some x" using "2.prems" by (auto split: option.splits)
  show ?case
  proof (cases "start \<le> x \<and> x \<le> until")
    case True
    then obtain d rs where d: "v = JObj d" "alpha_rows env start until rest = Inr rs" "rows = (x, d) # rs"
      using "2.prems" x by (auto simp: result_simps split: json.splits)
    note IH = "2.IH"(1) [OF x True d(1,2)]
    show ?thesis using IH x True d by (auto simp: image_iff)
  next
    case False
    hence r: "alpha_rows env start until rest = Inr rows" using "2.prems" x by auto
    note IH = "2.IH"(2) [OF x False r]
    show ?thesis using IH x False by auto
  qed
qed simp

lemma finite_of_Inr [simp]: "finite_of x = Inr r \<longleftrightarrow> x = Finite r"
  by (cases x) simp_all

lemma alpha_column_quotes:
  assumes "alpha_column env k rows = Inr xs" and "map_result finite_of xs = Inr rs" and "i < length rows"
  shows "quotes env (snd (rows ! i)) k (rs ! i)"
proof -
  note a = map_answer_nth [OF assms(1) [unfolded alpha_column_def]]
  have "finite_of (xs ! i) = Inr (rs ! i)" using map_result_nth [OF assms(2)] a assms(3) by simp
  thus ?thesis using a assms(3) by (auto simp: quotes_def split: option.splits)
qed

text \<open>
  A series of Alpha Vantage holds the vendor's rows of the range asked for and nothing
  else: its sessions are exactly the dates the answer lists between the first and the last day, in
  ascending order, and every bar is what one row of that date quotes. So no price of a later day can
  enter an outcome.
\<close>

theorem alpha_series_exact:
  assumes "alpha_history env access ticker start until = Inr s"
  shows "\<exists>payload obs. request_payload env access (alpha_params ticker) = Inr payload
    \<and> dict_get ''Time Series (Daily)'' payload = Some (JObj obs)
    \<and> set (pv_sessions s) = {x. start \<le> x \<and> x \<le> until \<and> (\<exists>raw v. (raw, v) \<in> set obs \<and> pe_date env raw = Some x)}
    \<and> sorted (pv_sessions s) \<and> distinct (pv_sessions s)
    \<and> (\<forall>i < length (pv_sessions s). \<exists>raw d. (raw, JObj d) \<in> set obs \<and> pe_date env raw = Some (pv_sessions s ! i) \<and> bar_quoted env d s i)"
proof -
  obtain payload rows opens highs lows closes adjusted_closes cash splits where
    payload: "request_payload env access (alpha_params ticker) = Inr payload"
    and rows: "alpha_selected env start until payload = Inr rows"
    and cols: "alpha_column env ''1. open'' rows = Inr opens" "alpha_column env ''2. high'' rows = Inr highs"
      "alpha_column env ''3. low'' rows = Inr lows" "alpha_column env ''4. close'' rows = Inr closes"
      "alpha_column env ''7. dividend amount'' rows = Inr cash" "alpha_column env ''8. split coefficient'' rows = Inr splits"
    and built: "build_series env (''alphavantage'', ''alphavantage.v1'', AS_TRADED)
       [(''function'', JStr ''TIME_SERIES_DAILY_ADJUSTED''), (''outputsize'', JStr ''full'')]
       ticker (str_upper ticker) (alpha_timezone env payload) start until
       \<lparr>rw_sessions = map fst rows, rw_open = opens, rw_high = highs, rw_low = lows, rw_close = closes,
        rw_adjusted_close = adjusted_closes, rw_cash_distributions = cash, rw_split_coefficient = splits\<rparr> = Inr s"
    using assms unfolding alpha_history_def by (elim bind_answerE) blast
  obtain obs rs where obs: "dict_get ''Time Series (Daily)'' payload = Some (JObj obs)"
    and rs: "alpha_rows env start until obs = Inr rs" "rows = sort_key fst rs"
    using rows by (auto simp: alpha_selected_def result_simps split: if_splits option.splits json.splits)
  obtain x where x: "price_fields env (''alphavantage'', ''alphavantage.v1'', AS_TRADED)
       [(''function'', JStr ''TIME_SERIES_DAILY_ADJUSTED''), (''outputsize'', JStr ''full'')]
       ticker (str_upper ticker) (alpha_timezone env payload) start until
       \<lparr>rw_sessions = map fst rows, rw_open = opens, rw_high = highs, rw_low = lows, rw_close = closes,
        rw_adjusted_close = adjusted_closes, rw_cash_distributions = cash, rw_split_coefficient = splits\<rparr> = Inr x"
    "validate_provider_series x = Inr s"
    using built by (auto simp: build_series_def result_simps)
  note v = validate_provider_series_facts [OF x(2)]
  have fields: "pv_sessions s = map fst rows" "map_result finite_of opens = Inr (pv_open s)"
    "map_result finite_of highs = Inr (pv_high s)" "map_result finite_of lows = Inr (pv_low s)"
    "map_result finite_of closes = Inr (pv_close s)" "map_result finite_of cash = Inr (pv_cash_distributions s)"
    "map_result finite_of splits = Inr (pv_split_coefficient s)"
    using x(1) unfolding v(1) by (auto simp: price_fields_def result_simps)
  note spec = alpha_rows_spec [OF rs(1)]
  have "\<exists>raw d. (raw, JObj d) \<in> set obs \<and> pe_date env raw = Some (pv_sessions s ! i) \<and> bar_quoted env d s i" if "i < length (pv_sessions s)" for i
  proof -
    have i: "i < length rows" using that fields(1) by simp
    hence "rows ! i \<in> set rs" using rs(2) by (metis nth_mem set_sort)
    then obtain raw where raw: "(raw, JObj (snd (rows ! i))) \<in> set obs" "pe_date env raw = Some (fst (rows ! i))"
      using spec by blast
    note q = cols [THEN alpha_column_quotes, OF _ i]
    show ?thesis
      by (intro exI [of _ raw] exI [of _ "snd (rows ! i)"] conjI)
        (use raw i fields q in \<open>simp_all add: bar_quoted_def\<close>)
  qed
  moreover have "set (pv_sessions s) = {x. start \<le> x \<and> x \<le> until \<and> (\<exists>raw v. (raw, v) \<in> set obs \<and> pe_date env raw = Some x)}"
    using spec fields(1) rs(2) by simp
  ultimately show ?thesis using payload obs alpha.sessions_ordered [OF assms] by blast
qed

section \<open>A rejected symbol\<close>

lemma fetch_transient:
  assumes "\<And>n. judge fenv p n u = \<lparr>at_outcome = TransientOutcome, at_rejected = False,
       at_end = again_or n p (policy_delay p n None) (BrokerTransient m)\<rparr>"
    and "1 \<le> n" and "n \<le> rp_attempts p"
  shows "snd (fetch_attempts fenv p (\<lambda>_. u) [n..rp_attempts p]) = Inl (BrokerTransient m)"
  using assms(2,3)
proof (induction "nat (rp_attempts p - n)" arbitrary: n)
  case 0
  hence "n = rp_attempts p" by simp
  thus ?case using assms(1) by (simp add: again_or_def)
next
  case (Suc k)
  have "[n..rp_attempts p] = n # [n + 1..rp_attempts p]" using Suc.prems by (simp add: upto_rec1)
  moreover have "snd (fetch_attempts fenv p (\<lambda>_. u) [n + 1..rp_attempts p]) = Inl (BrokerTransient m)"
    using Suc.hyps Suc.prems by (intro Suc.hyps(1)) auto
  moreover have "n \<noteq> rp_attempts p" using Suc.hyps(2) by auto
  ultimately show ?case
    using Suc.prems assms(1) by (auto simp: again_or_def policy_delay_def split: prod.splits)
qed

lemma direct_payload_clean:
  assumes "request_payload env (Direct key p http) params = Inr payload"
  shows "classify_alpha_payload (pe_show env) (Some (JObj payload)) = None"
proof -
  have "snd (direct_attempts env p answer ns) = Inr payload \<Longrightarrow> ?thesis" for answer ns
    by (induction ns)
      (auto simp: direct_verdict_def split: upstream.splits alpha_verdict.splits option.splits alpha_class.splits
        json.splits if_splits sum.splits prod.splits)
  thus ?thesis using assms by (simp add: request_payload_def)
qed

lemma direct_transient:
  assumes "200 \<le> status" and "status < 300" and "1 \<le> rp_attempts p"
    and "classify_alpha_payload (pe_show env) (pe_loads env body) = Some TransientAnswer"
  shows "request_payload env (Direct key p (\<lambda>_ _. Upstream status retry_after body)) params
    = Inl (Provider_invalid ''Alpha Vantage returned an invalid response'')"
proof -
  obtain j where j: "pe_loads env body = Some j"
    using assms(4) by (cases "pe_loads env body") (simp_all add: classify_alpha_payload_def)
  have "[1..rp_attempts p] = 1 # [2..rp_attempts p]" using assms(3) by (simp add: upto_rec1)
  thus ?thesis using assms(1,2,4) by (simp add: request_payload_def direct_verdict_def j)
qed

lemma broker_transient:
  assumes "200 \<le> status" and "status < 300" and "1 \<le> rp_attempts p"
    and "classify_alpha_payload (pe_show env) (pe_loads env body) = Some TransientAnswer"
    and "starts_with ''{'' (dropWhile is_space body)"
  shows "snd (fetch \<lparr>fe_loads = pe_loads env, fe_show = pe_show env, fe_number = pe_number env\<rparr> p
      (\<lambda>_. Upstream status retry_after body))
    = Inl (BrokerTransient ''Alpha Vantage returned transient errors after coordinated retries'')"
  unfolding fetch_def by (rule fetch_transient) (use assms in \<open>simp_all add: judge_def judge_body_def json_payload_def Let_def\<close>)

definition single :: "price_env \<Rightarrow> alpha_access \<Rightarrow> nat \<Rightarrow> provider list" where
  "single env access = (\<lambda>_. [\<lparr>pr_id = ''alphavantage'', pr_history = alpha_history env access\<rparr>])"

text \<open>
  What Alpha Vantage answers for a symbol it does not know, an object with an error message,
  is final for a provider with a key of its own and ends the validation as unavailable; through the
  broker the same answer counts as a passing fault, so the same validation is put off again and
  again. And the branch of \<open>history\<close> that reports a rejected symbol is never entered with a message:
  the direct way has already refused the answer.
\<close>

theorem rejected_symbol_depends_on_access:
  assumes "200 \<le> status" and "status < 300" and "1 \<le> rp_attempts p"
    and "classify_alpha_payload (pe_show env) (pe_loads env body) = Some TransientAnswer"
    and "starts_with ''{'' (dropWhile is_space body)" and "\<And>s. pe_show env (JStr s) = s"
    and "query = (\<lambda>f q. client_query (pe_show env) (Some (query_response hit (snd (fetch
      \<lparr>fe_loads = pe_loads env, fe_show = pe_show env, fe_number = pe_number env\<rparr> p (\<lambda>_. Upstream status retry_after body))))))"
  shows "map_sum settlement_of id (job_history (single env (Direct key p (\<lambda>_ _. Upstream status retry_after body))) k ticker start until)
      = Inl (Terminal ''unavailable'' ''invalid_market_data'')"
    and "map_sum settlement_of id (job_history (single env (Through_broker query)) k ticker start until)
      = Inl (Retry_later False ''provider_unavailable'')"
    and "request_payload env (Direct key p http) params = Inr payload \<Longrightarrow> truthy_value payload ''Error Message'' = None"
proof -
  have "query f q = Inl (BrokerTransient ''Alpha Vantage returned transient errors after coordinated retries'')" for f q
    unfolding assms(7) broker_transient [OF assms(1-5)] by (rule client_sees_broker_result(4)) (simp_all add: assms(6))
  thus "map_sum settlement_of id (job_history (single env (Through_broker query)) k ticker start until)
      = Inl (Retry_later False ''provider_unavailable'')"
    by (simp add: job_history_def single_def alpha_history_def request_payload_def broker_payload_def)
  show "map_sum settlement_of id (job_history (single env (Direct key p (\<lambda>_ _. Upstream status retry_after body))) k ticker start until)
      = Inl (Terminal ''unavailable'' ''invalid_market_data'')"
    by (simp add: job_history_def single_def alpha_history_def direct_transient [OF assms(1-4)])
  assume "request_payload env (Direct key p http) params = Inr payload"
  from direct_payload_clean [OF this] show "truthy_value payload ''Error Message'' = None"
    by (auto simp: classify_alpha_payload_def Let_def NOTICE_KEYS_def List.map_filter_def split: if_splits option.splits)
qed

section \<open>Witnesses\<close>

definition demo_bar :: dict where
  "demo_bar = [(''1. open'', JStr ''10''), (''2. high'', JStr ''12''), (''3. low'', JStr ''9''), (''4. close'', JStr ''11''),
     (''5. adjusted close'', JStr ''11''), (''7. dividend amount'', JStr ''0''), (''8. split coefficient'', JStr ''1'')]"

definition demo_number :: "string \<Rightarrow> decimal option" where
  "demo_number t = map_option (\<lambda>n. Finite (of_int n)) (unsigned_int t)"

definition demo_prices :: "json \<Rightarrow> price_env" where
  "demo_prices j = \<lparr>pe_decimal = demo_number,
     pe_date = (\<lambda>t. if t = ''2024-01-02'' then Some 2 else if t = ''2024-01-03'' then Some 3 else None),
     pe_date_field = (\<lambda>_. None), pe_sha = (\<lambda>_. []), pe_loads = (\<lambda>_. Some j),
     pe_show = (\<lambda>v. case v of JStr s \<Rightarrow> s | _ \<Rightarrow> []), pe_number = (\<lambda>_. None), pe_now = 0\<rparr>"

definition demo_daily :: json where
  "demo_daily = JObj [(''Time Series (Daily)'', JObj [(''2024-01-03'', JObj demo_bar), (''2024-01-02'', JObj demo_bar)])]"

lemma demo_alpha_history:
  "\<exists>s. alpha_history (demo_prices demo_daily) (Through_broker (\<lambda>_ _. Inr ''{''))  ''ibm'' 1 2 = Inr s \<and> pv_sessions s = [2]"
proof -
  have n: "demo_number ''10'' = Some (Finite 10)" "demo_number ''12'' = Some (Finite 12)" "demo_number ''9'' = Some (Finite 9)"
    "demo_number ''11'' = Some (Finite 11)" "demo_number ''0'' = Some (Finite 0)" "demo_number ''1'' = Some (Finite 1)"
    by code_simp+
  have u: "str_upper ''ibm'' = ''IBM''" by code_simp
  show ?thesis
    by (simp add: alpha_history_def request_payload_def broker_payload_def demo_prices_def demo_daily_def alpha_selected_def
      demo_bar_def alpha_column_def n u build_series_def price_fields_def length_within_def alpha_timezone_def raising_def
      validate_provider_series_def all_positive_def Let_def)
qed

lemma alpha_series_exact_witness:
  "\<exists>s payload obs. alpha_history (demo_prices demo_daily) (Through_broker (\<lambda>_ _. Inr ''{'')) ''ibm'' 1 2 = Inr s
    \<and> dict_get ''Time Series (Daily)'' payload = Some (JObj obs) \<and> pv_sessions s = [2]
    \<and> (\<exists>raw d. (raw, JObj d) \<in> set obs \<and> pe_date (demo_prices demo_daily) raw = Some 2 \<and> bar_quoted (demo_prices demo_daily) d s 0)"
proof -
  obtain s where s: "alpha_history (demo_prices demo_daily) (Through_broker (\<lambda>_ _. Inr ''{'')) ''ibm'' 1 2 = Inr s" "pv_sessions s = [2]"
    using demo_alpha_history by blast
  from alpha_series_exact [OF s(1)] s show ?thesis by fastforce
qed

definition demo_refusal :: json where
  "demo_refusal = JObj [(''Error Message'', JStr ''Invalid API call'')]"

lemma demo_refusal_transient: "classify_alpha_payload (pe_show (demo_prices demo_refusal)) (Some demo_refusal) = Some TransientAnswer"
  by code_simp

lemma demo_brace: "starts_with ''{'' (dropWhile is_space ''{'')"
  by code_simp

lemma rejected_symbol_depends_on_access_witness:
  "map_sum settlement_of id (job_history (single (demo_prices demo_refusal)
      (Direct ''k'' \<lparr>rp_attempts = 2, rp_base = 1, rp_max = 8\<rparr> (\<lambda>_ _. Upstream 200 None ''{''))) 0 ''ibm'' 1 2)
    = Inl (Terminal ''unavailable'' ''invalid_market_data'')"
  by (rule rejected_symbol_depends_on_access(1) [where query = "\<lambda>f q. client_query (pe_show (demo_prices demo_refusal)) (Some (query_response True
      (snd (fetch \<lparr>fe_loads = pe_loads (demo_prices demo_refusal), fe_show = pe_show (demo_prices demo_refusal),
        fe_number = pe_number (demo_prices demo_refusal)\<rparr> \<lparr>rp_attempts = 2, rp_base = 1, rp_max = 8\<rparr> (\<lambda>_. Upstream 200 None ''{'')))))"])
    (use demo_refusal_transient demo_brace in \<open>simp_all add: demo_prices_def\<close>)










end
