(* ===== verification/Names.thy ===== *)
theory Names
  imports Callbacks Assess Broker
begin

text \<open>
  The names of instruments (\<open>instruments/names.py\<close>): the resolver that finds a registered name in
  the documents of the SEC, with its file cache and the spacing of its requests, the rows of the
  instruments it is due for, what a success and a failure write into them, and the count of their
  states in \<open>system/service.py\<close>. HTTP answers, file contents, \<open>json.loads\<close>, \<open>str(value)\<close>, \<open>int(float)\<close>,
  the hash and the reading of aware timestamps are arguments.
\<close>

section \<open>Constants\<close>

definition TICKERS_INDEX_URL :: string where
  "TICKERS_INDEX_URL = ''https://www.sec.gov/files/company_tickers.json''"

definition SUBMISSIONS_BASE :: string where
  "SUBMISSIONS_BASE = ''https://data.sec.gov/submissions''"

definition TICKER_CACHE_TTL :: int where "TICKER_CACHE_TTL = 24 * HOUR"
definition SUBMISSION_CACHE_TTL :: int where "SUBMISSION_CACHE_TTL = 7 * DAY"
definition TRANSIENT_RETRY_DELAY :: int where "TRANSIENT_RETRY_DELAY = 15 * MINUTE"
definition PERMANENT_RETRY_DELAY :: int where "PERMANENT_RETRY_DELAY = 24 * HOUR"
definition MAX_PENDING_SCAN :: nat where "MAX_PENDING_SCAN = 500"
definition SEC_MIN_REQUEST_INTERVAL :: rat where "SEC_MIN_REQUEST_INTERVAL = 1 / 8"

definition EXCHANGE_ALIASES :: "(string \<times> string) list" where
  "EXCHANGE_ALIASES = [(''ASE'', ''AMEX''), (''AMEX'', ''AMEX''), (''NASDAQ'', ''NASDAQ''), (''NASD'', ''NASDAQ''),
     (''NMS'', ''NASDAQ''), (''NGM'', ''NASDAQ''), (''NCM'', ''NASDAQ''), (''NYSE'', ''NYSE''), (''NYQ'', ''NYSE'')]"

section \<open>Reading the documents\<close>

record name_env =
  ne_sha :: "string \<Rightarrow> string"
  ne_loads :: "string \<Rightarrow> json option"
  ne_show :: "json \<Rightarrow> string"
  ne_float_int :: "string \<Rightarrow> int option"
  ne_time :: "string \<Rightarrow> int option"
  ne_iso :: "int \<Rightarrow> string"
  ne_uuid :: "nat \<Rightarrow> string"

definition trimmed_text :: "json option \<Rightarrow> string option" where
  "trimmed_text j = (case j of
     Some (JStr s) \<Rightarrow> if str_strip s = [] then None else Some (str_strip s)
   | _ \<Rightarrow> None)"

definition normalize_exchange :: "json option \<Rightarrow> string option" where
  "normalize_exchange j = map_option (\<lambda>t. case map_of EXCHANGE_ALIASES (str_upper t) of
     Some a \<Rightarrow> a | None \<Rightarrow> str_upper t) (trimmed_text j)"

text \<open>\<open>int(value)\<close> of a JSON value, and the CIK with ten digits.\<close>

definition json_int :: "name_env \<Rightarrow> json option \<Rightarrow> int option" where
  "json_int env j = (case j of
     Some (JInt n) \<Rightarrow> Some n
   | Some (JBool b) \<Rightarrow> Some (if b then 1 else 0)
   | Some (JFloat s) \<Rightarrow> ne_float_int env s
   | Some (JStr s) \<Rightarrow> (case int_of_text s of Inr n \<Rightarrow> Some n | Inl _ \<Rightarrow> None)
   | _ \<Rightarrow> None)"

definition cik_text :: "int \<Rightarrow> string" where
  "cik_text n = (if n < 0 then ''-'' @ pad_left 9 (nat_digits (nat (- n))) else pad_left 10 (nat_digits (nat n)))"

definition sec_candidates :: "name_env \<Rightarrow> dict \<Rightarrow> string \<Rightarrow> string list" where
  "sec_candidates env payload ticker = dedup (List.map_filter (\<lambda>(k, v). case v of
     JObj d \<Rightarrow> (if str_upper (str_strip (str_or (ne_show env) (dict_get ''ticker'' d) [])) \<noteq> ticker then None
       else map_option cik_text (json_int env (dict_get ''cik_str'' d)))
   | _ \<Rightarrow> None) payload)"

text \<open>The exchanges on which a submission lists the ticker, as far as the expected one allows.\<close>

definition listed_exchanges :: "string \<Rightarrow> string option \<Rightarrow> json list \<Rightarrow> json list \<Rightarrow> string option list" where
  "listed_exchanges ticker expected tickers exchanges = List.map_filter (\<lambda>(i, candidate). case candidate of
     JStr s \<Rightarrow>
       (let exchange = normalize_exchange (if i < length exchanges then Some (exchanges ! i) else None) in
        if str_upper (str_strip s) \<noteq> ticker then None
        else if expected \<noteq> None \<and> exchange \<noteq> expected then None
        else Some exchange)
   | _ \<Rightarrow> None) (enumerate 0 tickers)"

definition submission_identity :: "dict \<Rightarrow> string \<Rightarrow> string option \<Rightarrow> (string \<times> string option) option" where
  "submission_identity payload ticker expected_exchange =
     (case trimmed_text (dict_get ''name'' payload) of
        None \<Rightarrow> None
      | Some name \<Rightarrow>
          (if length name > 255 then None
           else (case (dict_get ''tickers'' payload, dict_get ''exchanges'' payload) of
               (Some (JList tickers), Some (JList exchanges)) \<Rightarrow>
                 (case dedup (listed_exchanges ticker (normalize_exchange (map_option JStr expected_exchange)) tickers exchanges) of
                    [exchange] \<Rightarrow> Some (name, exchange)
                  | _ \<Rightarrow> None)
             | _ \<Rightarrow> None)))"

section \<open>Requests and their cache\<close>

text \<open>
  \<open>Name_failure\<close> is a \<open>NameResolutionError\<close> with its \<open>transient\<close> flag, \<open>Name_crash\<close> any other exception.
  The cache maps a file name to the file's text.
\<close>

datatype name_error = Name_failure string bool | Name_crash

type_synonym name_cache = "string \<Rightarrow> string option"

definition cache_file :: "name_env \<Rightarrow> string \<Rightarrow> string" where
  "cache_file env url = ne_sha env url @ ''.json''"

definition read_cache :: "name_env \<Rightarrow> string \<Rightarrow> (int \<times> dict) option" where
  "read_cache env s = (case ne_loads env s of
     Some (JObj e) \<Rightarrow>
       (case (dict_get ''fetched_at'' e, dict_get ''payload'' e) of
          (Some (JStr t), Some (JObj payload)) \<Rightarrow> map_option (\<lambda>since. (since, payload)) (ne_time env t)
        | _ \<Rightarrow> None)
   | _ \<Rightarrow> None)"

definition write_cache :: "name_env \<Rightarrow> int \<Rightarrow> dict \<Rightarrow> string" where
  "write_cache env fetched_at payload = json_text (JObj [(''fetched_at'', JStr (ne_iso env fetched_at)), (''payload'', JObj payload)])"

definition usable_json :: "http_outcome \<Rightarrow> json option" where
  "usable_json h = (case h of HttpResponse status body \<Rightarrow> if 200 \<le> status \<and> status < 300 then body else None | HttpError \<Rightarrow> None)"

definition fetch_json ::
    "name_env \<Rightarrow> int \<Rightarrow> http_outcome \<Rightarrow> string \<Rightarrow> int \<Rightarrow> name_cache \<Rightarrow> (name_error + dict) \<times> name_cache" where
  "fetch_json env now answer url ttl cache =
     (let cached = Option.bind (cache (cache_file env url)) (read_cache env);
          fallback = (\<lambda>reason. case cached of Some (_, payload) \<Rightarrow> (Inr payload, cache) | None \<Rightarrow> (Inl (Name_failure reason True), cache))
      in case (case cached of Some (since, payload) \<Rightarrow> if now - since \<le> ttl then Some payload else None | None \<Rightarrow> None) of
           Some payload \<Rightarrow> (Inr payload, cache)
         | None \<Rightarrow> (case usable_json answer of
             None \<Rightarrow> fallback ''upstream_unavailable''
           | Some (JObj payload) \<Rightarrow> (Inr payload, cache(cache_file env url \<mapsto> write_cache env now payload))
           | Some _ \<Rightarrow> fallback ''invalid_payload''))"

text \<open>
  The spacing of requests under the lock: the start of the last one, the clock's \<open>now\<close> and its reading
  after a sleep. The result is the sleep asked for and the start of this request.
\<close>

definition request_start :: "rat \<Rightarrow> rat \<Rightarrow> rat option \<Rightarrow> rat option \<times> rat" where
  "request_start now after last_start = (case last_start of
     None \<Rightarrow> (None, now)
   | Some t \<Rightarrow>
       (let wait = SEC_MIN_REQUEST_INTERVAL - (now - t) in
        if wait > 0 then (Some wait, after) else (None, now)))"

section \<open>Resolution\<close>

record resolved_name =
  rn_name :: string
  rn_exchange :: "string option"
  rn_source :: string
  rn_identifier :: string
  rn_url :: string
  rn_locale :: string

definition submission_url :: "string \<Rightarrow> string" where
  "submission_url cik = SUBMISSIONS_BASE @ ''/CIK'' @ cik @ ''.json''"

text \<open>The candidates one after the other; the k-th request sees the clock \<open>clock k\<close> and the answer \<open>http k\<close>.\<close>

fun sec_matches ::
    "name_env \<Rightarrow> (nat \<Rightarrow> int) \<Rightarrow> (nat \<Rightarrow> string \<Rightarrow> http_outcome) \<Rightarrow> nat \<Rightarrow> string \<Rightarrow> string option \<Rightarrow> string list
       \<Rightarrow> name_cache \<Rightarrow> (name_error + (string \<times> string \<times> string option) list) \<times> name_cache" where
  "sec_matches env clock http k ticker exchange [] cache = (Inr [], cache)"
| "sec_matches env clock http k ticker exchange (cik # ciks) cache =
     (case fetch_json env (clock k) (http k (submission_url cik)) (submission_url cik) SUBMISSION_CACHE_TTL cache of
        (Inl e, cache1) \<Rightarrow> (Inl e, cache1)
      | (Inr payload, cache1) \<Rightarrow>
          (case sec_matches env clock http (Suc k) ticker exchange ciks cache1 of
             (Inl e, cache2) \<Rightarrow> (Inl e, cache2)
           | (Inr found, cache2) \<Rightarrow>
               (Inr (case submission_identity payload ticker exchange of
                   None \<Rightarrow> found | Some identity \<Rightarrow> (cik, identity) # found), cache2)))"

definition resolve_name ::
    "name_env \<Rightarrow> (nat \<Rightarrow> int) \<Rightarrow> (nat \<Rightarrow> string \<Rightarrow> http_outcome) \<Rightarrow> string \<Rightarrow> string option \<Rightarrow> name_cache
       \<Rightarrow> (name_error + resolved_name) \<times> name_cache" where
  "resolve_name env clock http ticker exchange cache =
     (case canonicalize_ticker ticker of
        Inl _ \<Rightarrow> (Inl Name_crash, cache)
      | Inr normalized \<Rightarrow>
          (case fetch_json env (clock 0) (http 0 TICKERS_INDEX_URL) TICKERS_INDEX_URL TICKER_CACHE_TTL cache of
             (Inl e, cache1) \<Rightarrow> (Inl e, cache1)
           | (Inr index, cache1) \<Rightarrow>
               (let candidates = sec_candidates env index normalized in
                if candidates = [] then (Inl (Name_failure ''ticker_not_listed'' False), cache1)
                else (case sec_matches env clock http 1 normalized exchange candidates cache1 of
                    (Inl e, cache2) \<Rightarrow> (Inl e, cache2)
                  | (Inr [], cache2) \<Rightarrow> (Inl (Name_failure ''exchange_mismatch'' False), cache2)
                  | (Inr [(cik, name, resolved_exchange)], cache2) \<Rightarrow>
                      (Inr \<lparr>rn_name = name, rn_exchange = resolved_exchange, rn_source = ''sec_edgar'',
                         rn_identifier = ''CIK'' @ cik, rn_url = submission_url cik, rn_locale = ''en-US''\<rparr>, cache2)
                  | (Inr (_ # _ # _), cache2) \<Rightarrow> (Inl (Name_failure ''ambiguous_cik'' False), cache2)))))"

section \<open>The rows\<close>

record pending_instrument =
  pi_id :: nat
  pi_ticker :: string
  pi_asset_type :: string
  pi_exchange :: "string option"
  pi_name :: "string option"

definition aware_timestamp :: "name_env \<Rightarrow> json option \<Rightarrow> string \<Rightarrow> int option" where
  "aware_timestamp env j k = (case j of
     Some (JObj d) \<Rightarrow> (case dict_get k d of Some (JStr s) \<Rightarrow> ne_time env s | _ \<Rightarrow> None)
   | _ \<Rightarrow> None)"

definition after_now :: "int \<Rightarrow> int option \<Rightarrow> bool" where
  "after_now now t = (case t of None \<Rightarrow> False | Some t \<Rightarrow> now < t)"

definition name_due :: "name_env \<Rightarrow> int \<Rightarrow> instrument \<Rightarrow> bool" where
  "name_due env now i =
     (case dict_get ''name_resolution'' (ins_metadata i) of
        Some (JObj r) \<Rightarrow>
          (if dict_get ''provider'' r = Some (JStr ''sec_edgar'')
           then (let retry_at = (case aware_timestamp env (dict_get ''name_resolution_last_failure'' (ins_metadata i)) ''next_retry_at'' of
                     Some t \<Rightarrow> Some t | None \<Rightarrow> aware_timestamp env (Some (JObj r)) ''next_retry_at'')
                 in if after_now now retry_at then False
                    else \<not> (dict_get ''status'' r = Some (JStr ''resolved'')
                      \<and> after_now now (aware_timestamp env (Some (JObj r)) ''next_refresh_at'')))
           else True)
      | _ \<Rightarrow> True)"

text \<open>
  The table is kept in the order of creation, by which the query sorts.
\<close>

definition next_due :: "name_env \<Rightarrow> int \<Rightarrow> db \<Rightarrow> pending_instrument option" where
  "next_due env now d = map_option (\<lambda>i. \<lparr>pi_id = ins_id i, pi_ticker = ins_ticker i, pi_asset_type = ins_asset_type i,
       pi_exchange = ins_exchange i, pi_name = ins_name i\<rparr>)
     (find (name_due env now) (take MAX_PENDING_SCAN (db_instruments d)))"

definition archive_resolution :: "string option \<Rightarrow> dict \<Rightarrow> dict \<Rightarrow> dict result" where
  "archive_resolution name resolution metadata =
     (let archived = dict_update [(''name'', opt_str name)] resolution in
      bind_result (case dict_get ''name_resolution_history'' metadata of
          None \<Rightarrow> Inr []
        | Some (JList items) \<Rightarrow> Inr (List.map_filter (\<lambda>j. case j of JObj d \<Rightarrow> Some d | _ \<Rightarrow> None) items)
        | Some (JObj _) \<Rightarrow> Inr []
        | Some (JStr _) \<Rightarrow> Inr []
        | Some _ \<Rightarrow> Inl (TypeError ''object is not iterable'')) (\<lambda>history.
      Inr (dict_set ''name_resolution_history''
        (JList (map JObj (if list_ex (same_dict archived) history then history else history @ [archived]))) metadata)))"

definition update_instrument :: "nat \<Rightarrow> (instrument \<Rightarrow> instrument) \<Rightarrow> db \<Rightarrow> db" where
  "update_instrument i f d = d\<lparr>db_instruments := update_row ins_id i f (db_instruments d)\<rparr>"

definition NAME_ACTOR :: principal where
  "NAME_ACTOR = \<lparr>pr_issuer = [], pr_subject = ''instrument-name-enrichment'', pr_actor_type = ''system'', pr_scopes = [],
     pr_display_name = [], pr_email = None, pr_roles = []\<rparr>"

definition resolved_metadata :: "name_env \<Rightarrow> int \<Rightarrow> resolved_name \<Rightarrow> dict" where
  "resolved_metadata env now r = [(''status'', JStr ''resolved''), (''provider'', JStr (rn_source r)),
     (''source_identifier'', JStr (rn_identifier r)), (''source_url'', JStr (rn_url r)), (''locale'', JStr (rn_locale r)),
     (''verified_at'', JStr (ne_iso env now)), (''next_refresh_at'', JStr (ne_iso env (now + 7 * DAY)))]"

definition provider_of :: "dict \<Rightarrow> json option" where
  "provider_of metadata = (case dict_get ''name_resolution'' metadata of
     Some (JObj r) \<Rightarrow> (case dict_get ''provider'' r of Some JNull \<Rightarrow> None | p \<Rightarrow> p) | _ \<Rightarrow> None)"

definition name_changes :: "resolved_name \<Rightarrow> instrument \<Rightarrow> bool" where
  "name_changes r i \<longleftrightarrow> ins_name i \<noteq> Some (rn_name r) \<or> provider_of (ins_metadata i) \<noteq> Some (JStr (rn_source r))"

definition with_resolution :: "dict \<Rightarrow> dict \<Rightarrow> dict" where
  "with_resolution resolution metadata =
     dict_pop ''name_resolution_last_failure'' (dict_set ''name_resolution'' (JObj resolution) metadata)"

definition mark_resolved :: "name_env \<Rightarrow> string \<Rightarrow> nat \<Rightarrow> resolved_name \<Rightarrow> int \<Rightarrow> db \<Rightarrow> db result" where
  "mark_resolved env request_id iid r now d = (case find_instrument iid d of
     None \<Rightarrow> Inr d
   | Some i \<Rightarrow>
       bind_result (case dict_get ''name_resolution'' (ins_metadata i) of
           Some (JObj previous) \<Rightarrow> if name_changes r i then archive_resolution (ins_name i) previous (ins_metadata i) else Inr (ins_metadata i)
         | _ \<Rightarrow> Inr (ins_metadata i)) (\<lambda>metadata.
       let d1 = update_instrument iid (\<lambda>x. x\<lparr>ins_name := Some (rn_name r),
             ins_exchange := (case rn_exchange r of None \<Rightarrow> ins_exchange x | Some e \<Rightarrow> Some e),
             ins_metadata := with_resolution (resolved_metadata env now r) metadata\<rparr>) d
       in Inr (if name_changes r i
          then append_audit NAME_ACTOR ''instrument.name_resolved'' ''instrument'' (ne_uuid env iid) request_id
            [(''ticker'', JStr (ins_ticker i)), (''provider'', JStr (rn_source r)), (''source_identifier'', JStr (rn_identifier r)),
             (''previous_name'', opt_str (ins_name i)), (''name'', JStr (rn_name r))] d1
          else d1)))"

definition failure_metadata :: "name_env \<Rightarrow> int \<Rightarrow> int \<Rightarrow> string \<Rightarrow> bool \<Rightarrow> dict" where
  "failure_metadata env attempted_at retry_at reason transient = [(''attempted_at'', JStr (ne_iso env attempted_at)),
     (''next_retry_at'', JStr (ne_iso env retry_at)), (''reason'', JStr reason), (''transient'', JBool transient)]"

definition officially_named :: "instrument \<Rightarrow> bool" where
  "officially_named i \<longleftrightarrow> ins_name i \<noteq> None \<and> (case dict_get ''name_resolution'' (ins_metadata i) of
     Some (JObj r) \<Rightarrow> dict_get ''provider'' r = Some (JStr ''sec_edgar'') \<and> dict_get ''status'' r = Some (JStr ''resolved'')
   | _ \<Rightarrow> False)"

definition mark_unresolved :: "name_env \<Rightarrow> nat \<Rightarrow> int \<Rightarrow> int \<Rightarrow> string \<Rightarrow> bool \<Rightarrow> db \<Rightarrow> db result" where
  "mark_unresolved env iid attempted_at retry_at reason transient d = (case find_instrument iid d of
     None \<Rightarrow> Inr d
   | Some i \<Rightarrow>
       (if officially_named i
        then Inr (update_instrument iid (\<lambda>x. x\<lparr>ins_metadata := dict_set ''name_resolution_last_failure''
          (JObj (failure_metadata env attempted_at retry_at reason transient)) (ins_metadata x)\<rparr>) d)
        else
          bind_result (case dict_get ''name_resolution'' (ins_metadata i) of
              Some (JObj previous) \<Rightarrow> archive_resolution (ins_name i) previous (ins_metadata i)
            | _ \<Rightarrow> Inr (ins_metadata i)) (\<lambda>metadata.
          Inr (update_instrument iid (\<lambda>x. x\<lparr>ins_name := None,
            ins_metadata := with_resolution ([(''status'', JStr ''unresolved''), (''provider'', JStr ''sec_edgar'')]
              @ failure_metadata env attempted_at retry_at reason transient) metadata\<rparr>) d))))"

section \<open>The service\<close>

text \<open>
  One round: \<open>resolver\<close> is the provider's answer and \<open>meanwhile\<close> what other transactions do while it
  works. \<open>enrichment_round\<close> is a pass of the loop, which survives any error, with its next delay.
\<close>

definition enrich_once ::
    "name_env \<Rightarrow> int \<Rightarrow> (string \<Rightarrow> string option \<Rightarrow> name_error + resolved_name) \<Rightarrow> string \<Rightarrow> (db \<Rightarrow> db) \<Rightarrow> db \<Rightarrow> db \<times> bool result" where
  "enrich_once env now resolver request_id meanwhile d = (case next_due env now d of
     None \<Rightarrow> (d, Inr False)
   | Some p \<Rightarrow>
       (let d1 = meanwhile d;
            settled = (case resolver (pi_ticker p) (pi_exchange p) of
               Inl (Name_failure reason transient) \<Rightarrow> mark_unresolved env (pi_id p) now
                 (now + (if transient then TRANSIENT_RETRY_DELAY else PERMANENT_RETRY_DELAY)) reason transient d1
             | Inl Name_crash \<Rightarrow> mark_unresolved env (pi_id p) now (now + TRANSIENT_RETRY_DELAY) ''internal_error'' True d1
             | Inr r \<Rightarrow> mark_resolved env request_id (pi_id p) r now d1)
        in (case settled of Inl e \<Rightarrow> (d1, Inl e) | Inr d2 \<Rightarrow> (d2, Inr True))))"

definition enrichment_delay :: "bool result \<Rightarrow> int" where
  "enrichment_delay r = (if r = Inr True then 1 else 30)"

text \<open>Rounds of the loop on the cache and the database, with nothing in between.\<close>

record name_round =
  nr_now :: int
  nr_clock :: "nat \<Rightarrow> int"
  nr_http :: "nat \<Rightarrow> string \<Rightarrow> http_outcome"
  nr_request_id :: string

definition name_round_apply :: "name_env \<Rightarrow> name_round \<Rightarrow> name_cache \<times> db \<Rightarrow> name_cache \<times> db" where
  "name_round_apply env r w = (case w of (cache, d) \<Rightarrow>
     (case next_due env (nr_now r) d of
        None \<Rightarrow> (cache, d)
      | Some p \<Rightarrow>
          (case resolve_name env (nr_clock r) (nr_http r) (pi_ticker p) (pi_exchange p) cache of
             (answer, cache1) \<Rightarrow> (cache1, fst (enrich_once env (nr_now r) (\<lambda>_ _. answer) (nr_request_id r) id d)))))"

definition name_rounds :: "name_env \<Rightarrow> name_round list \<Rightarrow> name_cache \<times> db \<Rightarrow> name_cache \<times> db" where
  "name_rounds env rs w = fold (name_round_apply env) rs w"

section \<open>The count of their states\<close>

datatype name_state = Official | Pending_name | Unresolved_name | Conflicting

definition name_state_of :: "instrument \<Rightarrow> name_state" where
  "name_state_of i =
     (let r = (case dict_get ''name_resolution'' (ins_metadata i) of Some (JObj r) \<Rightarrow> r | _ \<Rightarrow> []) in
      if dict_get ''provider'' r = Some (JStr ''sec_edgar'') \<and> dict_get ''status'' r = Some (JStr ''resolved'') then Official
      else if dict_get ''reason'' r \<in> {Some (JStr ''ambiguous_cik''), Some (JStr ''exchange_mismatch'')} then Conflicting
      else if dict_get ''status'' r = Some (JStr ''unresolved'') then Unresolved_name
      else Pending_name)"

definition name_health :: "db \<Rightarrow> (string \<times> nat) list" where
  "name_health d = (let states = map name_state_of (db_instruments d) in
     [(''total'', length states), (''official'', count_list states Official), (''pending'', count_list states Pending_name),
      (''unresolved'', count_list states Unresolved_name), (''conflicts'', count_list states Conflicting)])"

end
