(* ===== verification/NameFacts.thy ===== *)
theory NameFacts
  imports Names
begin

text \<open>
  What the enrichment of names guarantees: a name comes from the one submission of the SEC that lists
  the ticker, an official name is never lost to a failure, a change is in the audit trail, the
  requests keep their distance, and the instruments that are scanned are all tended; those
  after the first five hundred never are.
\<close>

section \<open>A resolved name\<close>

lemma listed_exchanges_expected:
  "e \<in> set (listed_exchanges ticker expected tickers exchanges) \<Longrightarrow> expected \<noteq> None \<Longrightarrow> e = expected"
  by (auto simp: listed_exchanges_def List.map_filter_def Let_def split: json.splits if_splits)

lemma submission_identity_facts:
  assumes "submission_identity payload ticker exchange = Some (name, found)"
  shows "name \<noteq> [] \<and> length name \<le> 255 \<and> trimmed_text (dict_get ''name'' payload) = Some name"
    and "normalize_exchange (map_option JStr exchange) \<noteq> None \<Longrightarrow> found = normalize_exchange (map_option JStr exchange)"
    and "\<exists>s. JStr s \<in> set (case dict_get ''tickers'' payload of Some (JList js) \<Rightarrow> js | _ \<Rightarrow> []) \<and> str_upper (str_strip s) = ticker"
proof -
  obtain tickers exchanges where t: "dict_get ''tickers'' payload = Some (JList tickers)"
    and n: "trimmed_text (dict_get ''name'' payload) = Some name" "length name \<le> 255"
    and d: "dedup (listed_exchanges ticker (normalize_exchange (map_option JStr exchange)) tickers exchanges) = [found]"
    using assms by (auto simp: submission_identity_def split: option.splits if_splits json.splits list.splits)
  have "found \<in> set (dedup (listed_exchanges ticker (normalize_exchange (map_option JStr exchange)) tickers exchanges))"
    unfolding d by simp
  hence f: "found \<in> set (listed_exchanges ticker (normalize_exchange (map_option JStr exchange)) tickers exchanges)"
    by (simp only: set_dedup)
  show "name \<noteq> [] \<and> length name \<le> 255 \<and> trimmed_text (dict_get ''name'' payload) = Some name"
    using n by (auto simp: trimmed_text_def split: option.splits json.splits if_splits)
  show "normalize_exchange (map_option JStr exchange) \<noteq> None \<Longrightarrow> found = normalize_exchange (map_option JStr exchange)"
    using listed_exchanges_expected [OF f] by simp
  obtain i c where c: "(i, c) \<in> set (enumerate 0 tickers)" "case c of JStr s \<Rightarrow> str_upper (str_strip s) = ticker | _ \<Rightarrow> False"
    using f by (auto simp: listed_exchanges_def List.map_filter_def Let_def split: json.splits if_splits)
  from c(1) have "c \<in> set tickers" by (auto simp: in_set_enumerate_eq)
  with c(2) have "\<exists>s. JStr s \<in> set tickers \<and> str_upper (str_strip s) = ticker" by (cases c) auto
  thus "\<exists>s. JStr s \<in> set (case dict_get ''tickers'' payload of Some (JList js) \<Rightarrow> js | _ \<Rightarrow> []) \<and> str_upper (str_strip s) = ticker"
    by (simp add: t)
qed

text \<open>A submission that lists the ticker, on the exchange that is known of the instrument if one is.\<close>

definition lists_ticker :: "dict \<Rightarrow> string \<Rightarrow> string option \<Rightarrow> bool" where
  "lists_ticker payload ticker exchange \<longleftrightarrow> (\<exists>tickers exchanges j s. dict_get ''tickers'' payload = Some (JList tickers)
     \<and> dict_get ''exchanges'' payload = Some (JList exchanges) \<and> j < length tickers \<and> tickers ! j = JStr s \<and> str_upper (str_strip s) = ticker
     \<and> (normalize_exchange (map_option JStr exchange) = None
        \<or> normalize_exchange (if j < length exchanges then Some (exchanges ! j) else None) = normalize_exchange (map_option JStr exchange)))"

lemma identity_lists_ticker:
  assumes "submission_identity payload ticker exchange = Some (name, found)"
  shows "lists_ticker payload ticker exchange" and "trimmed_text (dict_get ''name'' payload) = Some name"
proof -
  let ?expected = "normalize_exchange (map_option JStr exchange)"
  obtain tickers exchanges where t: "dict_get ''tickers'' payload = Some (JList tickers)" "dict_get ''exchanges'' payload = Some (JList exchanges)"
    and n: "trimmed_text (dict_get ''name'' payload) = Some name"
    and d: "dedup (listed_exchanges ticker ?expected tickers exchanges) = [found]"
    using assms by (auto simp: submission_identity_def split: option.splits if_splits json.splits list.splits)
  show "trimmed_text (dict_get ''name'' payload) = Some name" by (rule n)
  have "found \<in> set (dedup (listed_exchanges ticker ?expected tickers exchanges))" unfolding d by simp
  hence f: "found \<in> set (listed_exchanges ticker ?expected tickers exchanges)" by (simp only: set_dedup)
  obtain j s where j: "(j, JStr s) \<in> set (enumerate 0 tickers)" "str_upper (str_strip s) = ticker"
    and e: "?expected = None \<or> normalize_exchange (if j < length exchanges then Some (exchanges ! j) else None) = ?expected"
    using f by (auto simp: listed_exchanges_def List.map_filter_def Let_def split: json.splits if_splits)
  from j(1) have "j < length tickers" "tickers ! j = JStr s" by (auto simp: in_set_enumerate_eq)
  thus "lists_ticker payload ticker exchange" using t j(2) e unfolding lists_ticker_def by blast
qed

text \<open>The documents the candidates' requests were served with, from the cache or the answers.\<close>

fun sec_documents ::
    "name_env \<Rightarrow> (nat \<Rightarrow> int) \<Rightarrow> (nat \<Rightarrow> string \<Rightarrow> http_outcome) \<Rightarrow> nat \<Rightarrow> string list \<Rightarrow> name_cache \<Rightarrow> (string \<times> dict) list" where
  "sec_documents env clock http k [] cache = []"
| "sec_documents env clock http k (cik # ciks) cache =
     (case fetch_json env (clock k) (http k (submission_url cik)) (submission_url cik) SUBMISSION_CACHE_TTL cache of
        (Inl e, cache1) \<Rightarrow> []
      | (Inr payload, cache1) \<Rightarrow> (cik, payload) # sec_documents env clock http (Suc k) ciks cache1)"

lemma sec_documents_ciks: "fst ` set (sec_documents env clock http k ciks cache) \<subseteq> set ciks"
proof (induction ciks arbitrary: k cache)
  case (Cons c cs)
  show ?case
  proof (cases "fetch_json env (clock k) (http k (submission_url c)) (submission_url c) SUBMISSION_CACHE_TTL cache")
    case (Pair p cache1)
    thus ?thesis using Cons.IH [of "Suc k" cache1] by (auto split: sum.split)
  qed
qed simp

lemma sec_matches_documents:
  "fst (sec_matches env clock http k ticker exchange ciks cache) = Inr found
     \<Longrightarrow> found = List.map_filter (\<lambda>(cik, payload). map_option (Pair cik) (submission_identity payload ticker exchange))
       (sec_documents env clock http k ciks cache)"
proof (induction ciks arbitrary: k cache found)
  case (Cons c cs)
  obtain p cache1 where f: "fetch_json env (clock k) (http k (submission_url c)) (submission_url c) SUBMISSION_CACHE_TTL cache = (p, cache1)"
    by force
  with Cons.prems obtain payload where p: "p = Inr payload" by (cases p) auto
  obtain q cache2 where m: "sec_matches env clock http (Suc k) ticker exchange cs cache1 = (q, cache2)" by force
  with Cons.prems f p obtain rest where q: "q = Inr rest" by (cases q) auto
  have "found = (case submission_identity payload ticker exchange of None \<Rightarrow> rest | Some i \<Rightarrow> (c, i) # rest)"
    using Cons.prems by (simp add: f p m q)
  moreover have "rest = List.map_filter (\<lambda>(cik, payload). map_option (Pair cik) (submission_identity payload ticker exchange))
      (sec_documents env clock http (Suc k) cs cache1)"
    using Cons.IH [of "Suc k" cache1 rest] by (simp add: m q)
  ultimately show ?case by (simp add: f p map_filter_simps split: option.split)
qed (simp add: map_filter_simps)

lemma map_filter_single:
  assumes "List.map_filter f xs = [y]"
  shows "\<exists>x\<in>set xs. f x = Some y" and "\<And>x z. x \<in> set xs \<Longrightarrow> f x = Some z \<Longrightarrow> z = y"
proof -
  have s: "set (List.map_filter f xs) = {z. \<exists>x\<in>set xs. f x = Some z}" by (force simp: List.map_filter_def image_iff)
  show "\<exists>x\<in>set xs. f x = Some y" using s assms by auto
  show "z = y" if "x \<in> set xs" "f x = Some z" for x z using s assms that by auto
qed

text \<open>
  Where a name comes from: in the index the round was served with, the ticker has the CIK; of
  the submissions served for the CIKs of the ticker, that one and no other identifies it; and
  the submission lists the ticker on its exchange and has the name.
\<close>

definition named_by_sec :: "name_env \<Rightarrow> (nat \<Rightarrow> int) \<Rightarrow> (nat \<Rightarrow> string \<Rightarrow> http_outcome) \<Rightarrow> name_cache \<Rightarrow> string \<Rightarrow> string option \<Rightarrow> string \<Rightarrow> bool" where
  "named_by_sec env clock http cache ticker exchange name \<longleftrightarrow> (\<exists>t index cache1 documents cik payload. canonicalize_ticker ticker = Inr t
     \<and> fetch_json env (clock 0) (http 0 TICKERS_INDEX_URL) TICKERS_INDEX_URL TICKER_CACHE_TTL cache = (Inr index, cache1)
     \<and> documents = sec_documents env clock http 1 (sec_candidates env index t) cache1
     \<and> cik \<in> set (sec_candidates env index t) \<and> (cik, payload) \<in> set documents
     \<and> lists_ticker payload t exchange \<and> trimmed_text (dict_get ''name'' payload) = Some name
     \<and> (\<forall>(c, p) \<in> set documents. submission_identity p t exchange \<noteq> None \<longrightarrow> c = cik))"

lemma resolve_name_identity:
  assumes "fst (resolve_name env clock http ticker exchange cache) = Inr r"
  shows "named_by_sec env clock http cache ticker exchange (rn_name r)" and "rn_source r = ''sec_edgar''"
proof -
  obtain t index cache1 where t: "canonicalize_ticker ticker = Inr t"
    and index: "fetch_json env (clock 0) (http 0 TICKERS_INDEX_URL) TICKERS_INDEX_URL TICKER_CACHE_TTL cache = (Inr index, cache1)"
    using assms by (auto simp: resolve_name_def split: sum.splits prod.splits)
  let ?ciks = "sec_candidates env index t"
  let ?documents = "sec_documents env clock http 1 ?ciks cache1"
  obtain found cache2 where m: "sec_matches env clock http (Suc 0) t exchange ?ciks cache1 = (Inr found, cache2)"
    using assms by (auto simp: resolve_name_def t index Let_def split: sum.splits prod.splits if_splits)
  obtain cik name ex where found: "found = [(cik, name, ex)]" "rn_name r = name" and source: "rn_source r = ''sec_edgar''"
    using assms by (auto simp: resolve_name_def t index m Let_def split: if_splits list.splits)
  show "rn_source r = ''sec_edgar''" by (rule source)
  have "List.map_filter (\<lambda>(cik, payload). map_option (Pair cik) (submission_identity payload t exchange)) ?documents = [(cik, name, ex)]"
    using sec_matches_documents [of env clock http "Suc 0" t exchange ?ciks cache1 found] m found(1) by simp
  note single = map_filter_single [OF this]
  obtain payload where p: "(cik, payload) \<in> set ?documents" "submission_identity payload t exchange = Some (name, ex)"
    using single(1) by auto
  have others: "\<forall>(c, p) \<in> set ?documents. submission_identity p t exchange \<noteq> None \<longrightarrow> c = cik"
    using single(2) by fastforce
  have "cik \<in> set ?ciks" using p(1) sec_documents_ciks [of env clock http 1 ?ciks cache1] by force
  with t index p(1) identity_lists_ticker [OF p(2)] others found(2)
  show "named_by_sec env clock http cache ticker exchange (rn_name r)" unfolding named_by_sec_def by blast
qed

section \<open>The effect of one round on the rows\<close>

definition history_ok :: "instrument \<Rightarrow> bool" where
  "history_ok i \<longleftrightarrow> (case dict_get ''name_resolution_history'' (ins_metadata i) of None \<Rightarrow> True | Some (JList _) \<Rightarrow> True | _ \<Rightarrow> False)"

definition same_instrument :: "instrument \<Rightarrow> instrument \<Rightarrow> bool" where
  "same_instrument i i' \<longleftrightarrow> ins_id i' = ins_id i \<and> ins_ticker i' = ins_ticker i \<and> ins_asset_type i' = ins_asset_type i"

definition tended :: "name_env \<Rightarrow> int \<Rightarrow> instrument \<Rightarrow> instrument \<Rightarrow> bool" where
  "tended env t i i' \<longleftrightarrow> same_instrument i i' \<and> (officially_named i \<longrightarrow> officially_named i')
     \<and> (\<forall>u < t + TRANSIENT_RETRY_DELAY. \<not> name_due env u i') \<and> (history_ok i \<longrightarrow> history_ok i')"

lemma update_row_const:
  "unique_keys key t \<Longrightarrow> find_row key k t = Some r \<Longrightarrow> update_row key k f t = update_row key k (\<lambda>_. f r) t"
  by (rule nth_equalityI) (auto simp: update_row_def update_where_def find_row_def find_Some_iff unique_keys_def distinct_conv_nth)

lemma update_row_same: "find_row key k t = Some r \<Longrightarrow> unique_keys key t \<Longrightarrow> update_row key k (\<lambda>_. r) t = t"
  using update_row_const [of key t k r "\<lambda>x. x"] by (simp add: update_row_def update_where_def)

lemma update_instrument_audits [simp]: "db_audits (update_instrument i f d) = db_audits d"
  by (simp add: update_instrument_def)

lemma archive_effect:
  assumes "archive_resolution name res m = Inr m'"
  shows "k \<noteq> ''name_resolution_history'' \<Longrightarrow> dict_get k m' = dict_get k m"
    and "\<exists>js. dict_get ''name_resolution_history'' m' = Some (JList js)"
  using assms by (auto simp: archive_resolution_def Let_def result_simps)

lemma archive_fails: "archive_resolution name res (ins_metadata i) = Inl e \<Longrightarrow> \<not> history_ok i"
  by (auto simp: archive_resolution_def history_ok_def Let_def result_simps split: option.splits json.splits)

lemma due_after_failure:
  assumes "dict_get ''name_resolution'' (ins_metadata i) = Some (JObj r)" and "dict_get ''provider'' r = Some (JStr ''sec_edgar'')"
    and "aware_timestamp env (dict_get ''name_resolution_last_failure'' (ins_metadata i)) ''next_retry_at'' = Some rt" and "u < rt"
  shows "\<not> name_due env u i"
  using assms by (simp add: name_due_def after_now_def)

lemma due_after_unresolved:
  assumes "dict_get ''name_resolution'' (ins_metadata i) = Some (JObj r)" and "dict_get ''provider'' r = Some (JStr ''sec_edgar'')"
    and "dict_get ''name_resolution_last_failure'' (ins_metadata i) = None"
    and "aware_timestamp env (Some (JObj r)) ''next_retry_at'' = Some rt" and "u < rt"
  shows "\<not> name_due env u i"
  using assms by (simp add: name_due_def after_now_def aware_timestamp_def)

lemma due_after_resolved:
  assumes "dict_get ''name_resolution'' (ins_metadata i) = Some (JObj r)" and "dict_get ''provider'' r = Some (JStr ''sec_edgar'')"
    and "dict_get ''status'' r = Some (JStr ''resolved'')"
    and "aware_timestamp env (Some (JObj r)) ''next_refresh_at'' = Some rt" and "u < rt"
  shows "\<not> name_due env u i"
  using assms by (auto simp: name_due_def after_now_def Let_def)

lemma unresolved_row:
  assumes times: "\<And>x. ne_time env (ne_iso env x) = Some x"
    and found: "find_instrument iid d = Some i" and unique: "unique_keys ins_id (db_instruments d)"
    and rt: "t + TRANSIENT_RETRY_DELAY \<le> rt" and marked: "mark_unresolved env iid t rt reason tr d = Inr d'"
  shows "\<exists>i'. db_instruments d' = update_row ins_id iid (\<lambda>_. i') (db_instruments d) \<and> tended env t i i'
    \<and> db_audits d' = db_audits d \<and> (ins_name i' = ins_name i \<or> ins_name i' = None)"
proof -
  have rows: "db_instruments (update_instrument iid f d) = update_row ins_id iid (\<lambda>_. f i) (db_instruments d)" for f
    by (simp add: update_instrument_def) (rule update_row_const [OF unique found [unfolded find_instrument_def]])
  show ?thesis
  proof (cases "officially_named i")
    case True
    let ?i' = "i\<lparr>ins_metadata := dict_set ''name_resolution_last_failure'' (JObj (failure_metadata env t rt reason tr)) (ins_metadata i)\<rparr>"
    obtain r where r: "dict_get ''name_resolution'' (ins_metadata i) = Some (JObj r)" "dict_get ''provider'' r = Some (JStr ''sec_edgar'')"
      using True by (auto simp: officially_named_def split: option.splits json.splits)
    have "\<not> name_due env u ?i'" if "u < t + TRANSIENT_RETRY_DELAY" for u
      by (rule due_after_failure [where r = r and rt = rt])
        (use r rt that times in \<open>simp_all add: aware_timestamp_def failure_metadata_def\<close>)
    hence "tended env t i ?i'" using True by (simp add: tended_def same_instrument_def officially_named_def history_ok_def)
    moreover have "d' = update_instrument iid (\<lambda>x. x\<lparr>ins_metadata := dict_set ''name_resolution_last_failure''
        (JObj (failure_metadata env t rt reason tr)) (ins_metadata x)\<rparr>) d"
      using marked found True by (simp add: mark_unresolved_def)
    ultimately show ?thesis by (intro exI [of _ ?i']) (simp add: rows)
  next
    case False
    obtain m where m: "(case dict_get ''name_resolution'' (ins_metadata i) of
              Some (JObj previous) \<Rightarrow> archive_resolution (ins_name i) previous (ins_metadata i)
            | _ \<Rightarrow> Inr (ins_metadata i)) = Inr m"
      and d': "d' = update_instrument iid (\<lambda>x. x\<lparr>ins_name := None,
            ins_metadata := with_resolution ([(''status'', JStr ''unresolved''), (''provider'', JStr ''sec_edgar'')]
              @ failure_metadata env t rt reason tr) m\<rparr>) d"
      using marked found False by (auto simp: mark_unresolved_def elim!: bind_resultE)
    let ?r = "[(''status'', JStr ''unresolved''), (''provider'', JStr ''sec_edgar'')] @ failure_metadata env t rt reason tr"
    let ?i' = "i\<lparr>ins_name := None, ins_metadata := with_resolution ?r m\<rparr>"
    have "\<not> name_due env u ?i'" if "u < t + TRANSIENT_RETRY_DELAY" for u
      by (rule due_after_unresolved [where r = ?r and rt = rt])
        (use rt that times in \<open>simp_all add: aware_timestamp_def failure_metadata_def with_resolution_def\<close>)
    moreover have "history_ok i \<longrightarrow> history_ok ?i'"
      using m archive_effect(2) [of "ins_name i" _ "ins_metadata i" m]
      by (fastforce simp: history_ok_def with_resolution_def split: option.splits json.splits)
    ultimately have "tended env t i ?i'" using False by (simp add: tended_def same_instrument_def)
    thus ?thesis by (intro exI [of _ ?i']) (simp add: d' rows)
  qed
qed

lemma resolved_row:
  assumes times: "\<And>x. ne_time env (ne_iso env x) = Some x"
    and found: "find_instrument iid d = Some i" and unique: "unique_keys ins_id (db_instruments d)"
    and source: "rn_source r = ''sec_edgar''" and marked: "mark_resolved env request_id iid r t d = Inr d'"
  shows "\<exists>i'. db_instruments d' = update_row ins_id iid (\<lambda>_. i') (db_instruments d) \<and> tended env t i i' \<and> officially_named i'
    \<and> ins_name i' = Some (rn_name r) \<and> (ins_name i' \<noteq> ins_name i \<longrightarrow> (\<exists>e. db_audits d' = db_audits d @ [e]
      \<and> au_action e = ''instrument.name_resolved'' \<and> dict_get ''name'' (au_metadata e) = Some (JStr (rn_name r))
      \<and> dict_get ''previous_name'' (au_metadata e) = Some (opt_str (ins_name i))))"
proof -
  have rows: "db_instruments (update_instrument iid f d) = update_row ins_id iid (\<lambda>_. f i) (db_instruments d)" for f
    by (simp add: update_instrument_def) (rule update_row_const [OF unique found [unfolded find_instrument_def]])
  obtain m where m: "(case dict_get ''name_resolution'' (ins_metadata i) of
           Some (JObj previous) \<Rightarrow> if name_changes r i then archive_resolution (ins_name i) previous (ins_metadata i) else Inr (ins_metadata i)
         | _ \<Rightarrow> Inr (ins_metadata i)) = Inr m"
    and d': "d' = (let d1 = update_instrument iid (\<lambda>x. x\<lparr>ins_name := Some (rn_name r),
             ins_exchange := (case rn_exchange r of None \<Rightarrow> ins_exchange x | Some e \<Rightarrow> Some e),
             ins_metadata := with_resolution (resolved_metadata env t r) m\<rparr>) d
       in if name_changes r i
          then append_audit NAME_ACTOR ''instrument.name_resolved'' ''instrument'' (ne_uuid env iid) request_id
            [(''ticker'', JStr (ins_ticker i)), (''provider'', JStr (rn_source r)), (''source_identifier'', JStr (rn_identifier r)),
             (''previous_name'', opt_str (ins_name i)), (''name'', JStr (rn_name r))] d1
          else d1)"
    using marked found by (auto simp: mark_resolved_def Let_def elim!: bind_resultE)
  let ?i' = "i\<lparr>ins_name := Some (rn_name r), ins_exchange := (case rn_exchange r of None \<Rightarrow> ins_exchange i | Some e \<Rightarrow> Some e),
      ins_metadata := with_resolution (resolved_metadata env t r) m\<rparr>"
  have "\<not> name_due env u ?i'" if "u < t + TRANSIENT_RETRY_DELAY" for u
    by (rule due_after_resolved [where r = "resolved_metadata env t r" and rt = "t + 7 * DAY"])
      (use that times source in \<open>simp_all add: aware_timestamp_def resolved_metadata_def with_resolution_def TRANSIENT_RETRY_DELAY_def
        MINUTE_def DAY_def\<close>)
  moreover have "history_ok i \<longrightarrow> history_ok ?i'"
    using m archive_effect(2) [of "ins_name i" _ "ins_metadata i" m]
    by (fastforce simp: history_ok_def with_resolution_def split: option.splits json.splits if_splits)
  moreover have official: "officially_named ?i'" using source by (simp add: officially_named_def with_resolution_def resolved_metadata_def)
  ultimately have "tended env t i ?i'" by (simp add: tended_def same_instrument_def)
  moreover have "ins_name ?i' \<noteq> ins_name i \<Longrightarrow> name_changes r i" by (auto simp: name_changes_def)
  ultimately show ?thesis
    using official by (intro exI [of _ ?i']) (auto simp: d' Let_def rows append_audit_def)
qed

section \<open>Rounds\<close>

text \<open>A name written over another one: where it comes from, and the entry of the audit trail.\<close>

definition official_change :: "name_env \<Rightarrow> name_round \<Rightarrow> name_cache \<Rightarrow> instrument \<Rightarrow> instrument \<Rightarrow> audit_event list \<Rightarrow> audit_event list \<Rightarrow> bool" where
  "official_change env r cache i i' before after \<longleftrightarrow> (\<exists>name e. ins_name i' = Some name \<and> officially_named i'
     \<and> named_by_sec env (nr_clock r) (nr_http r) cache (ins_ticker i) (ins_exchange i) name
     \<and> after = before @ [e] \<and> au_action e = ''instrument.name_resolved''
     \<and> dict_get ''name'' (au_metadata e) = Some (JStr name) \<and> dict_get ''previous_name'' (au_metadata e) = Some (opt_str (ins_name i)))"

definition scanned :: "db \<Rightarrow> instrument list" where
  "scanned d = take MAX_PENDING_SCAN (db_instruments d)"

lemma due_row:
  assumes "next_due env t d = Some p" and "unique_keys ins_id (db_instruments d)"
  obtains i where "find (name_due env t) (scanned d) = Some i" and "find_instrument (ins_id i) d = Some i"
    and "pi_id p = ins_id i" and "pi_ticker p = ins_ticker i" and "pi_exchange p = ins_exchange i"
proof -
  obtain i where i: "find (name_due env t) (scanned d) = Some i" "p = \<lparr>pi_id = ins_id i, pi_ticker = ins_ticker i,
      pi_asset_type = ins_asset_type i, pi_exchange = ins_exchange i, pi_name = ins_name i\<rparr>"
    using assms(1) by (auto simp: next_due_def scanned_def)
  have "i \<in> set (scanned d)" using i(1) by (auto simp: find_Some_iff)
  hence "i \<in> set (db_instruments d)" by (auto simp: scanned_def dest: in_set_takeD)
  hence "find_instrument (ins_id i) d = Some i" using find_row_unique [OF assms(2)] by (simp add: find_instrument_def)
  with i that show ?thesis by simp
qed

text \<open>A round leaves everything alone, or settles the first row that is due.\<close>

lemma round_effect:
  assumes times: "\<And>x. ne_time env (ne_iso env x) = Some x" and unique: "unique_keys ins_id (db_instruments d)"
    and round: "name_round_apply env r (cache, d) = (cache', d')"
  shows "d' = d \<and> (next_due env (nr_now r) d = None \<or> \<not> list_all history_ok (db_instruments d))
    \<or> (\<exists>i i'. find (name_due env (nr_now r)) (scanned d) = Some i \<and> tended env (nr_now r) i i'
        \<and> db_instruments d' = update_row ins_id (ins_id i) (\<lambda>_. i') (db_instruments d)
        \<and> (ins_name i' = ins_name i \<or> ins_name i' = None \<or> official_change env r cache i i' (db_audits d) (db_audits d')))"
proof (cases "next_due env (nr_now r) d")
  case None
  thus ?thesis using round by (simp add: name_round_apply_def)
next
  case (Some p)
  obtain i where i: "find (name_due env (nr_now r)) (scanned d) = Some i" "find_instrument (ins_id i) d = Some i"
    "pi_id p = ins_id i" "pi_ticker p = ins_ticker i" "pi_exchange p = ins_exchange i"
    using due_row [OF Some unique] .
  obtain answer where answer: "answer = fst (resolve_name env (nr_clock r) (nr_http r) (ins_ticker i) (ins_exchange i) cache)"
    and d': "d' = fst (enrich_once env (nr_now r) (\<lambda>_ _. answer) (nr_request_id r) id d)"
    using round Some i by (auto simp: name_round_apply_def split: prod.splits)
  show ?thesis
  proof (cases answer)
    case (Inl e)
    define rt reason tr where e: "rt = nr_now r + (case e of Name_failure _ t \<Rightarrow> if t then TRANSIENT_RETRY_DELAY else PERMANENT_RETRY_DELAY
        | Name_crash \<Rightarrow> TRANSIENT_RETRY_DELAY)" "reason = (case e of Name_failure x _ \<Rightarrow> x | Name_crash \<Rightarrow> ''internal_error'')"
      "tr = (case e of Name_failure _ t \<Rightarrow> t | Name_crash \<Rightarrow> True)"
    have rt: "nr_now r + TRANSIENT_RETRY_DELAY \<le> rt"
      by (simp add: e TRANSIENT_RETRY_DELAY_def PERMANENT_RETRY_DELAY_def MINUTE_def HOUR_def split: name_error.split)
    have step: "d' = (case mark_unresolved env (ins_id i) (nr_now r) rt reason tr d of Inl _ \<Rightarrow> d | Inr d2 \<Rightarrow> d2)"
      by (simp add: d' enrich_once_def Some i Inl e Let_def split: name_error.split sum.split)
    show ?thesis
    proof (cases "mark_unresolved env (ins_id i) (nr_now r) rt reason tr d")
      case failed: (Inl x)
      have "i \<in> set (db_instruments d)" using i(2) by (auto simp: find_instrument_def dest: find_row_Some)
      hence "\<not> list_all history_ok (db_instruments d)"
        using failed i(2)
        by (auto simp: mark_unresolved_def list_all_iff result_simps
          dest: archive_fails split: if_splits option.splits json.splits)
      thus ?thesis using step failed by simp
    next
      case (Inr d2)
      with step have "mark_unresolved env (ins_id i) (nr_now r) rt reason tr d = Inr d'" by simp
      from unresolved_row [OF times i(2) unique rt this] i(1) show ?thesis by auto
    qed
  next
    case (Inr n)
    have n: "named_by_sec env (nr_clock r) (nr_http r) cache (ins_ticker i) (ins_exchange i) (rn_name n)" "rn_source n = ''sec_edgar''"
      using resolve_name_identity [of env "nr_clock r" "nr_http r" "ins_ticker i" "ins_exchange i" cache n] answer Inr by auto
    have step: "d' = (case mark_resolved env (nr_request_id r) (ins_id i) n (nr_now r) d of Inl _ \<Rightarrow> d | Inr d2 \<Rightarrow> d2)"
      by (simp add: d' enrich_once_def Some i Inr Let_def split: sum.split)
    show ?thesis
    proof (cases "mark_resolved env (nr_request_id r) (ins_id i) n (nr_now r) d")
      case failed: (Inl x)
      have "i \<in> set (db_instruments d)" using i(2) by (auto simp: find_instrument_def dest: find_row_Some)
      hence "\<not> list_all history_ok (db_instruments d)"
        using failed i(2)
        by (auto simp: mark_resolved_def Let_def list_all_iff result_simps
          dest: archive_fails split: if_splits option.splits json.splits)
      thus ?thesis using step failed by simp
    next
      case (Inr d2)
      with step have "mark_resolved env (nr_request_id r) (ins_id i) n (nr_now r) d = Inr d'" by simp
      from resolved_row [OF times i(2) unique n(2) this] obtain i' where i': "db_instruments d' = update_row ins_id (ins_id i) (\<lambda>_. i') (db_instruments d)"
        "tended env (nr_now r) i i'" "officially_named i'" "ins_name i' = Some (rn_name n)" "ins_name i' \<noteq> ins_name i \<longrightarrow> (\<exists>e. db_audits d' = db_audits d @ [e]
      \<and> au_action e = ''instrument.name_resolved'' \<and> dict_get ''name'' (au_metadata e) = Some (JStr (rn_name n))
      \<and> dict_get ''previous_name'' (au_metadata e) = Some (opt_str (ins_name i)))" by blast
      have "ins_name i' = ins_name i \<or> official_change env r cache i i' (db_audits d) (db_audits d')"
        using i'(3-5) n unfolding official_change_def by blast
      with i(1) i'(1,2) show ?thesis by blast
    qed
  qed
qed

lemma update_row_nth: "n < length t \<Longrightarrow> update_row key k f t ! n = (if key (t ! n) = k then f (t ! n) else t ! n)"
  by (simp add: update_row_def update_where_def)

lemma update_row_absent: "k \<notin> key ` set t \<Longrightarrow> update_row key k f t = t"
  by (induction t) auto

lemma update_row_take: "take m (update_row key k f t) = update_row key k f (take m t)"
  by (simp add: update_row_def update_where_def take_map)

lemma unique_take: "unique_keys key t \<Longrightarrow> unique_keys key (take m t)"
  by (simp add: unique_keys_def take_map [symmetric])

lemma update_count:
  "unique_keys key t \<Longrightarrow> x \<in> set t \<Longrightarrow> P x \<Longrightarrow> \<not> P y
    \<Longrightarrow> length (filter P (update_row key (key x) (\<lambda>_. y) t)) < length (filter P t)"
proof (induction t)
  case (Cons a t)
  show ?case
  proof (cases "x = a")
    case True
    with Cons.prems have "key a \<notin> key ` set t" by (simp add: unique_keys_def)
    with True Cons.prems show ?thesis by (simp add: update_row_absent)
  next
    case False
    with Cons.prems have "x \<in> set t" "unique_keys key t" "key a \<noteq> key x" by (auto simp: unique_keys_def)
    thus ?thesis using Cons.IH Cons.prems(3,4) by simp
  qed
qed simp

lemma after_earlier: "after_now u x \<Longrightarrow> t \<le> u \<Longrightarrow> after_now t x"
  by (auto simp: after_now_def split: option.splits)

lemma due_later:
  assumes "name_due env t i" and "t \<le> u" shows "name_due env u i"
proof (cases "\<exists>r. dict_get ''name_resolution'' (ins_metadata i) = Some (JObj r)")
  case True
  then obtain r where r: "dict_get ''name_resolution'' (ins_metadata i) = Some (JObj r)" by blast
  show ?thesis
    using assms(1) after_earlier [OF _ assms(2)] unfolding name_due_def r Let_def option.case json.case by (metis (full_types))
next
  case False
  thus ?thesis by (auto simp: name_due_def split: option.split json.split)
qed

lemma round_nth:
  assumes times: "\<And>x. ne_time env (ne_iso env x) = Some x" and unique: "unique_keys ins_id (db_instruments d)"
    and round: "name_round_apply env r (cache, d) = (cache', d')" and n: "n < length (db_instruments d)"
  shows "db_instruments d' ! n = db_instruments d ! n \<or> n < MAX_PENDING_SCAN \<and> tended env (nr_now r) (db_instruments d ! n) (db_instruments d' ! n)
    \<and> (ins_name (db_instruments d' ! n) = ins_name (db_instruments d ! n) \<or> ins_name (db_instruments d' ! n) = None
      \<or> official_change env r cache (db_instruments d ! n) (db_instruments d' ! n) (db_audits d) (db_audits d'))"
proof (cases "d' = d")
  case False
  then obtain i i' where i: "find (name_due env (nr_now r)) (scanned d) = Some i"
    and e: "tended env (nr_now r) i i'" "db_instruments d' = update_row ins_id (ins_id i) (\<lambda>_. i') (db_instruments d)"
    and name: "ins_name i' = ins_name i \<or> ins_name i' = None \<or> official_change env r cache i i' (db_audits d) (db_audits d')"
    using round_effect [OF times unique round] by blast
  obtain m where m: "m < MAX_PENDING_SCAN" "m < length (db_instruments d)" "db_instruments d ! m = i"
    using i by (auto simp: find_Some_iff scanned_def)
  show ?thesis
  proof (cases "ins_id (db_instruments d ! n) = ins_id i")
    case True
    hence "n = m" using unique m n by (simp add: unique_keys_def distinct_conv_nth) (metis length_map nth_map)
    thus ?thesis using m e name by (simp add: update_row_nth)
  next
    case False
    thus ?thesis using n e(2) by (simp add: update_row_nth)
  qed
qed simp

lemma round_length:
  assumes times: "\<And>x. ne_time env (ne_iso env x) = Some x" and unique: "unique_keys ins_id (db_instruments d)"
    and round: "name_round_apply env r (cache, d) = (cache', d')"
  shows "length (db_instruments d') = length (db_instruments d)"
  using round_effect [OF times unique round] by auto

definition kept_row :: "instrument \<Rightarrow> instrument \<Rightarrow> bool" where
  "kept_row i i' \<longleftrightarrow> same_instrument i i' \<and> (officially_named i \<longrightarrow> officially_named i') \<and> (history_ok i \<longrightarrow> history_ok i')"

definition kept_table :: "db \<Rightarrow> db \<Rightarrow> bool" where
  "kept_table d d' \<longleftrightarrow> list_all2 kept_row (db_instruments d) (db_instruments d')
     \<and> drop MAX_PENDING_SCAN (db_instruments d') = drop MAX_PENDING_SCAN (db_instruments d)"

lemma kept_refl: "kept_table d d"
  by (auto simp: kept_table_def kept_row_def same_instrument_def list_all2_conv_all_nth)

lemma kept_trans: "kept_table a b \<Longrightarrow> kept_table b c \<Longrightarrow> kept_table a c"
  by (auto simp: kept_table_def kept_row_def same_instrument_def list_all2_conv_all_nth)

lemma kept_unique: "kept_table d d' \<Longrightarrow> unique_keys ins_id (db_instruments d) \<Longrightarrow> unique_keys ins_id (db_instruments d')"
proof -
  assume k: "kept_table d d'" and u: "unique_keys ins_id (db_instruments d)"
  have "map ins_id (db_instruments d') = map ins_id (db_instruments d)"
    using k by (intro nth_equalityI) (auto simp: kept_table_def kept_row_def same_instrument_def list_all2_conv_all_nth)
  thus ?thesis using u by (simp add: unique_keys_def)
qed

lemma round_kept:
  assumes times: "\<And>x. ne_time env (ne_iso env x) = Some x" and unique: "unique_keys ins_id (db_instruments d)"
    and round: "name_round_apply env r (cache, d) = (cache', d')"
  shows "kept_table d d'"
proof -
  note len = round_length [OF times unique round]
  note nth = round_nth [OF times unique round]
  have "kept_row (db_instruments d ! n) (db_instruments d' ! n)" if "n < length (db_instruments d)" for n
    using nth [OF that] by (auto simp: kept_row_def tended_def same_instrument_def)
  moreover have "drop MAX_PENDING_SCAN (db_instruments d') = drop MAX_PENDING_SCAN (db_instruments d)"
  proof (rule nth_equalityI)
    fix j
    assume "j < length (drop MAX_PENDING_SCAN (db_instruments d'))"
    with nth [of "MAX_PENDING_SCAN + j"] len
    show "drop MAX_PENDING_SCAN (db_instruments d') ! j = drop MAX_PENDING_SCAN (db_instruments d) ! j" by auto
  qed (simp add: len)
  ultimately show ?thesis using len by (simp add: kept_table_def list_all2_conv_all_nth)
qed

lemma rounds_kept:
  assumes times: "\<And>x. ne_time env (ne_iso env x) = Some x" and unique: "unique_keys ins_id (db_instruments d)"
  shows "kept_table d (snd (name_rounds env rs (cache, d)))"
  using unique
proof (induction rs arbitrary: cache d)
  case (Cons r rs)
  obtain c1 d1 where r: "name_round_apply env r (cache, d) = (c1, d1)" by force
  note k = round_kept [OF times Cons.prems r]
  show ?case using kept_trans [OF k Cons.IH [OF kept_unique [OF k Cons.prems]]] r by (simp add: name_rounds_def)
qed (simp add: name_rounds_def kept_refl)

lemma no_due_iff: "next_due env t d = None \<longleftrightarrow> filter (name_due env t) (scanned d) = []"
  by (auto simp: next_due_def scanned_def find_None_iff filter_empty_conv)

lemma round_settles:
  assumes times: "\<And>x. ne_time env (ne_iso env x) = Some x" and unique: "unique_keys ins_id (db_instruments d)"
    and round: "name_round_apply env r (cache, d) = (cache', d')" and history: "list_all history_ok (db_instruments d)"
    and due: "next_due env (nr_now r) d \<noteq> None" and u: "nr_now r \<le> u" "u < nr_now r + TRANSIENT_RETRY_DELAY"
  shows "length (filter (name_due env u) (scanned d')) < length (filter (name_due env u) (scanned d))"
proof -
  obtain i i' where i: "find (name_due env (nr_now r)) (scanned d) = Some i" and e: "tended env (nr_now r) i i'"
    "db_instruments d' = update_row ins_id (ins_id i) (\<lambda>_. i') (db_instruments d)"
    using round_effect [OF times unique round] due history by blast
  have "i \<in> set (scanned d)" "name_due env (nr_now r) i" using i by (auto simp: find_Some_iff)
  moreover have "\<not> name_due env u i'" using e(1) u(2) by (simp add: tended_def)
  ultimately show ?thesis
    using update_count [OF unique_take [OF unique, of MAX_PENDING_SCAN], of i "name_due env u" i'] due_later [OF _ u(1)]
    by (simp add: scanned_def e(2) update_row_take)
qed

lemma round_stays_tended:
  assumes times: "\<And>x. ne_time env (ne_iso env x) = Some x" and unique: "unique_keys ins_id (db_instruments d)"
    and round: "name_round_apply env r (cache, d) = (cache', d')" and t: "t \<le> nr_now r" and none: "next_due env t d = None"
  shows "next_due env t d' = None"
proof (cases "d' = d")
  case False
  then obtain i i' where e: "tended env (nr_now r) i i'" "db_instruments d' = update_row ins_id (ins_id i) (\<lambda>_. i') (db_instruments d)"
    using round_effect [OF times unique round] by blast
  have "\<not> name_due env t i'" using e(1) t by (simp add: tended_def TRANSIENT_RETRY_DELAY_def MINUTE_def)
  moreover have "x \<in> set (scanned d') \<Longrightarrow> x = i' \<or> x \<in> set (scanned d)" for x
    unfolding scanned_def e(2) update_row_take by (auto simp: update_row_def update_where_def split: if_splits)
  ultimately show ?thesis using none by (auto simp: no_due_iff filter_empty_conv)
qed (simp add: none)

text \<open>
  C23. Whatever the SEC and the network answer, a round of the enrichment never loses an official
  name: an instrument that has one keeps one. When the round writes a new name, the index it was
  served with gives the ticker the CIK, the one submission of the ticker's CIKs that identifies it
  has that name and lists the ticker on the exchange, and the audit trail gains an entry with both names.
\<close>

theorem official_names_kept:
  assumes "\<And>x. ne_time env (ne_iso env x) = Some x" and "unique_keys ins_id (db_instruments d0)"
    and "name_rounds env rs (cache0, d0) = (cache, d)" and "name_round_apply env r (cache, d) = (cache', d')"
    and "n < length (db_instruments d0)"
  shows "same_instrument (db_instruments d0 ! n) (db_instruments d' ! n)
    \<and> (officially_named (db_instruments d0 ! n) \<longrightarrow> officially_named (db_instruments d' ! n))
    \<and> (ins_name (db_instruments d' ! n) = ins_name (db_instruments d ! n) \<or> ins_name (db_instruments d' ! n) = None
      \<or> official_change env r cache (db_instruments d ! n) (db_instruments d' ! n) (db_audits d) (db_audits d'))"
proof -
  have k: "kept_table d0 d" using rounds_kept [OF assms(1,2), of rs cache0] assms(3) by simp
  have u: "unique_keys ins_id (db_instruments d)" by (rule kept_unique [OF k assms(2)])
  have k': "kept_table d0 d'" by (rule kept_trans [OF k round_kept [OF assms(1) u assms(4)]])
  have n: "n < length (db_instruments d)" using k assms(5) by (auto simp: kept_table_def list_all2_lengthD)
  show ?thesis
    using k' assms(5) round_nth [OF assms(1) u assms(4) n] by (auto simp: kept_table_def kept_row_def list_all2_conv_all_nth)
qed

lemma rounds_stay_tended:
  assumes times: "\<And>x. ne_time env (ne_iso env x) = Some x"
  shows "unique_keys ins_id (db_instruments d) \<Longrightarrow> list_all (\<lambda>r. t \<le> nr_now r) rs \<Longrightarrow> next_due env t d = None
    \<Longrightarrow> next_due env t (snd (name_rounds env rs (cache, d))) = None"
proof (induction rs arbitrary: cache d)
  case (Cons r rs)
  obtain c1 d1 where r: "name_round_apply env r (cache, d) = (c1, d1)" by force
  have "next_due env t d1 = None" by (rule round_stays_tended [OF times Cons.prems(1) r]) (use Cons.prems in simp_all)
  with Cons.IH [OF kept_unique [OF round_kept [OF times Cons.prems(1) r] Cons.prems(1)]] Cons.prems r
  show ?case by (simp add: name_rounds_def)
qed (simp add: name_rounds_def)

lemma rounds_tend:
  assumes times: "\<And>x. ne_time env (ne_iso env x) = Some x" and u: "u < t + TRANSIENT_RETRY_DELAY" "t \<le> u"
  shows "unique_keys ins_id (db_instruments d) \<Longrightarrow> list_all history_ok (db_instruments d)
    \<Longrightarrow> list_all (\<lambda>r. t \<le> nr_now r \<and> nr_now r \<le> u) rs
    \<Longrightarrow> length (filter (name_due env u) (scanned d)) \<le> length rs \<Longrightarrow> next_due env t (snd (name_rounds env rs (cache, d))) = None"
proof (induction rs arbitrary: cache d)
  case Nil
  hence "next_due env u d = None" by (simp add: no_due_iff)
  thus ?case using due_later [OF _ u(2)] by (auto simp: name_rounds_def no_due_iff filter_empty_conv)
next
  case (Cons r rs)
  obtain c1 d1 where r: "name_round_apply env r (cache, d) = (c1, d1)" by force
  have now: "t \<le> nr_now r" "nr_now r \<le> u" "u < nr_now r + TRANSIENT_RETRY_DELAY" using Cons.prems(3) u(1) by auto
  note k = round_kept [OF times Cons.prems(1) r]
  have h: "list_all history_ok (db_instruments d1)"
    using k Cons.prems(2) by (auto simp: kept_table_def kept_row_def list_all2_conv_all_nth list_all_length)
  have "next_due env t (snd (name_rounds env rs (c1, d1))) = None"
  proof (cases "next_due env (nr_now r) d = None")
    case True
    hence "next_due env t d = None" using due_later [OF _ now(1)] by (auto simp: no_due_iff filter_empty_conv)
    moreover have "d1 = d" using r True by (simp add: name_round_apply_def)
    moreover have "list_all (\<lambda>r. t \<le> nr_now r) rs" using Cons.prems(3) by (auto simp: list_all_iff)
    ultimately show ?thesis using rounds_stay_tended [OF times Cons.prems(1), of t rs c1] by simp
  next
    case False
    from round_settles [OF times Cons.prems(1) r Cons.prems(2) this now(2,3)] Cons.prems(4)
    have "length (filter (name_due env u) (scanned d1)) \<le> length rs" by simp
    with Cons.IH [OF kept_unique [OF k Cons.prems(1)] h _ this, of c1] Cons.prems(3) show ?thesis by simp
  qed
  thus ?case using r by (simp add: name_rounds_def)
qed

text \<open>
  C40. The rounds tend the instruments they scan. If the history of every row is a list or
  missing, and rounds are run within a quarter of an hour, the retry delay, as many as instruments are or
  become due in it, then no scanned instrument that was due at the start is still due.
  But only the five hundred oldest are scanned, due or not: whatever number of rounds are run, and
  whenever, an instrument after them is never touched, so that once five hundred exist no new one gets a name.
\<close>

theorem only_oldest_instruments_tended:
  assumes "\<And>x. ne_time env (ne_iso env x) = Some x" and "unique_keys ins_id (db_instruments d)"
  shows "(\<forall>t u. list_all history_ok (db_instruments d) \<and> t \<le> u \<and> u < t + TRANSIENT_RETRY_DELAY
        \<and> list_all (\<lambda>r. t \<le> nr_now r \<and> nr_now r \<le> u) rs \<and> length (filter (name_due env u) (scanned d)) \<le> length rs
      \<longrightarrow> next_due env t (snd (name_rounds env rs (cache, d))) = None)
    \<and> drop MAX_PENDING_SCAN (db_instruments (snd (name_rounds env rs (cache, d)))) = drop MAX_PENDING_SCAN (db_instruments d)"
  using rounds_tend [OF assms(1) _ _ assms(2)] rounds_kept [OF assms] by (auto simp: kept_table_def)

section \<open>Requests and counts\<close>

text \<open>Two requests of a provider start at least an eighth of a second apart, if a sleep lasts as long as asked.\<close>

lemma requests_spaced:
  assumes "request_start now after (Some t) = (sleep, start)" and "\<And>w. sleep = Some w \<Longrightarrow> now + w \<le> after"
  shows "t + SEC_MIN_REQUEST_INTERVAL \<le> start"
  using assms by (auto simp: request_start_def Let_def split: if_splits)

text \<open>A document younger than its lifetime is served without a request, and an old one when the request fails.\<close>

lemma cached_document:
  assumes "cache (cache_file env url) = Some s" and "read_cache env s = Some (since, payload)"
  shows "now - since \<le> ttl \<Longrightarrow> fetch_json env now answer url ttl cache = (Inr payload, cache)"
    and "usable_json answer = None \<Longrightarrow> fetch_json env now answer url ttl cache = (Inr payload, cache)"
  using assms by (simp_all add: fetch_json_def Let_def)

lemma name_health_partition:
  "map_of (name_health d) ''total'' = Some (length (db_instruments d))
   \<and> length (db_instruments d) = count_list (map name_state_of (db_instruments d)) Official
     + count_list (map name_state_of (db_instruments d)) Pending_name
     + count_list (map name_state_of (db_instruments d)) Unresolved_name
     + count_list (map name_state_of (db_instruments d)) Conflicting"
proof -
  have "length xs = count_list xs Official + count_list xs Pending_name + count_list xs Unresolved_name + count_list xs Conflicting" for xs
  proof (induction xs)
    case (Cons x xs)
    thus ?case by (cases x) simp_all
  qed simp
  thus ?thesis by (simp add: name_health_def Let_def) (metis length_map)
qed

section \<open>Witnesses\<close>

definition unary_iso :: "int \<Rightarrow> string" where
  "unary_iso x = (if x < 0 then CHR ''-'' # replicate (nat (- x)) (CHR ''1'') else replicate (nat x) (CHR ''1''))"

definition unary_time :: "string \<Rightarrow> int option" where
  "unary_time s = Some (case s of [] \<Rightarrow> 0 | c # cs \<Rightarrow> if c = CHR ''-'' then - int (length cs) else int (length s))"

lemma unary_times: "unary_time (unary_iso x) = Some x"
proof (cases "nat x")
  case (Suc k)
  hence "int k = x - 1" by arith
  thus ?thesis using Suc by (simp add: unary_time_def unary_iso_def)
qed (simp add: unary_time_def unary_iso_def)

definition demo_name_env :: name_env where
  "demo_name_env = \<lparr>ne_sha = id, ne_loads = (\<lambda>_. None), ne_show = (\<lambda>j. case j of JStr s \<Rightarrow> s | _ \<Rightarrow> []), ne_float_int = (\<lambda>_. None),
     ne_time = unary_time, ne_iso = unary_iso, ne_uuid = nat_digits\<rparr>"

definition crowd :: "nat \<Rightarrow> db" where
  "crowd n = empty_db\<lparr>db_instruments := map (\<lambda>k. \<lparr>ins_id = k, ins_ticker = ''IBM'', ins_asset_type = ''stock'',
     ins_exchange = None, ins_name = None, ins_metadata = []\<rparr>) [0..<n]\<rparr>"

definition offline_round :: name_round where
  "offline_round = \<lparr>nr_now = 0, nr_clock = (\<lambda>_. 0), nr_http = (\<lambda>_ _. HttpError), nr_request_id = ''q''\<rparr>"

lemma crowd_facts: "unique_keys ins_id (db_instruments (crowd n))" "list_all history_ok (db_instruments (crowd n))"
  "length (db_instruments (crowd n)) = n"
  by (simp_all add: crowd_def unique_keys_def comp_def history_ok_def list_all_iff)

lemma demo_times: "ne_time demo_name_env (ne_iso demo_name_env x) = Some x"
  by (simp add: demo_name_env_def unary_times)

definition demo_index :: dict where
  "demo_index = [(''0'', JObj [(''cik_str'', JInt 51143), (''ticker'', JStr ''IBM'')])]"

definition demo_submission :: dict where
  "demo_submission = [(''name'', JStr ''IBM Corp''), (''tickers'', JList [JStr ''IBM'']), (''exchanges'', JList [JStr ''NYSE''])]"

definition online_round :: name_round where
  "online_round = \<lparr>nr_now = 0, nr_clock = (\<lambda>_. 0), nr_http = (\<lambda>k url. if url = TICKERS_INDEX_URL then HttpResponse 200 (Some (JObj demo_index))
     else HttpResponse 200 (Some (JObj demo_submission))), nr_request_id = ''q''\<rparr>"

lemma online_name:
  "ins_name (db_instruments (snd (name_round_apply demo_name_env online_round (Map.empty, crowd 1))) ! 0) = Some ''IBM Corp''"
proof -
  let ?submission = "submission_url ''0000051143''"
  have ticker: "canonicalize_ticker ''IBM'' = Inr ''IBM''" by code_simp
  have cik: "cik_text 51143 = ''0000051143''"
    by (simp add: cik_text_def pad_left_def nat_digits.simps) code_simp
  have upper: "str_upper (str_strip ''IBM'') = ''IBM''" by code_simp
  have candidates: "sec_candidates demo_name_env demo_index ''IBM'' = [''0000051143'']"
    by (simp add: sec_candidates_def demo_index_def demo_name_env_def json_int_def str_or_def json_truthy_def map_filter_simps upper cik)
  have other: "(?submission = TICKERS_INDEX_URL) = False" by code_simp
  have named: "submission_identity demo_submission ''IBM'' None = Some (''IBM Corp'', Some ''NYSE'')" by code_simp
  have index: "fetch_json demo_name_env 0 (HttpResponse 200 (Some (JObj demo_index))) TICKERS_INDEX_URL TICKER_CACHE_TTL Map.empty
      = (Inr demo_index, Map.empty(cache_file demo_name_env TICKERS_INDEX_URL \<mapsto> write_cache demo_name_env 0 demo_index))"
    by (simp add: fetch_json_def usable_json_def Let_def)
  have submission: "fst (fetch_json demo_name_env 0 (HttpResponse 200 (Some (JObj demo_submission))) ?submission SUBMISSION_CACHE_TTL c)
      = Inr demo_submission" if "c (cache_file demo_name_env ?submission) = None" for c
    using that by (simp add: fetch_json_def usable_json_def Let_def)
  have free: "(Map.empty(cache_file demo_name_env TICKERS_INDEX_URL \<mapsto> x)) (cache_file demo_name_env ?submission) = None" for x :: string
    using other by (simp add: cache_file_def demo_name_env_def)
  have resolved: "\<exists>c n. resolve_name demo_name_env (nr_clock online_round) (nr_http online_round) ''IBM'' None Map.empty = (Inr n, c)
      \<and> rn_name n = ''IBM Corp''"
    using submission [of "[cache_file demo_name_env TICKERS_INDEX_URL \<mapsto> write_cache demo_name_env 0 demo_index]", OF free]
    by (auto simp: resolve_name_def ticker online_round_def index candidates other named Let_def split: prod.splits)
  then obtain c n where "resolve_name demo_name_env (nr_clock online_round) (nr_http online_round) ''IBM'' None Map.empty = (Inr n, c)"
      "rn_name n = ''IBM Corp''" by blast
  thus ?thesis
    by (simp add: name_round_apply_def crowd_def next_due_def name_due_def MAX_PENDING_SCAN_def enrich_once_def mark_resolved_def
        find_instrument_def find_row_def update_instrument_def update_row_def update_where_def append_audit_def Let_def empty_db_def)
qed

lemma official_names_kept_witness:
  "officially_named (db_instruments (snd (name_round_apply demo_name_env online_round (Map.empty, crowd 1))) ! 0)
   \<and> named_by_sec demo_name_env (nr_clock online_round) (nr_http online_round) Map.empty ''IBM'' None ''IBM Corp''"
proof -
  obtain cache d where r: "name_round_apply demo_name_env online_round (Map.empty, crowd 1) = (cache, d)" by force
  have none: "name_rounds demo_name_env [] (Map.empty, crowd 1) = (Map.empty, crowd 1)" by (simp add: name_rounds_def)
  have row: "ins_name (db_instruments (crowd 1) ! 0) = None" "ins_ticker (db_instruments (crowd 1) ! 0) = ''IBM''"
    "ins_exchange (db_instruments (crowd 1) ! 0) = None" by (simp_all add: crowd_def)
  have "ins_name (db_instruments d ! 0) = Some ''IBM Corp''" using online_name by (simp only: r snd_conv)
  moreover have "0 < length (db_instruments (crowd 1))" by (simp add: crowd_facts(3))
  ultimately have "official_change demo_name_env online_round Map.empty (db_instruments (crowd 1) ! 0) (db_instruments d ! 0)
      (db_audits (crowd 1)) (db_audits d)"
    using official_names_kept [OF demo_times crowd_facts(1) none r, of 0] row by simp
  thus ?thesis unfolding r snd_conv using \<open>ins_name (db_instruments d ! 0) = _\<close> row by (auto simp: official_change_def)
qed

definition later_round :: name_round where
  "later_round = offline_round\<lparr>nr_now := MINUTE\<rparr>"

lemma only_oldest_instruments_tended_witness:
  "next_due demo_name_env 0 (snd (name_rounds demo_name_env [offline_round, later_round] (Map.empty, crowd 2))) = None
   \<and> next_due demo_name_env 0 (crowd 2) \<noteq> None
   \<and> drop MAX_PENDING_SCAN (db_instruments (snd (name_rounds demo_name_env [offline_round, later_round] (Map.empty, crowd (Suc MAX_PENDING_SCAN)))))
     = drop MAX_PENDING_SCAN (db_instruments (crowd (Suc MAX_PENDING_SCAN)))"
proof -
  let ?rs = "[offline_round, later_round]"
  have "length (filter (name_due demo_name_env MINUTE) (scanned (crowd 2))) \<le> length ?rs"
    by (rule order_trans [OF length_filter_le]) (simp add: scanned_def crowd_facts(3))
  moreover have "list_all (\<lambda>r. 0 \<le> nr_now r \<and> nr_now r \<le> MINUTE) ?rs" "0 \<le> MINUTE" "MINUTE < 0 + TRANSIENT_RETRY_DELAY"
    by (simp_all add: offline_round_def later_round_def TRANSIENT_RETRY_DELAY_def MINUTE_def)
  moreover have "next_due demo_name_env 0 (crowd 2) \<noteq> None"
    by (simp add: next_due_def crowd_def name_due_def MAX_PENDING_SCAN_def numeral_2_eq_2)
  ultimately show ?thesis
    using only_oldest_instruments_tended [OF demo_times crowd_facts(1), of 2 ?rs Map.empty]
      only_oldest_instruments_tended [OF demo_times crowd_facts(1), of "Suc MAX_PENDING_SCAN" ?rs Map.empty] crowd_facts(2) by blast
qed

end
