(* ===== verification/Retention.thy ===== *)
theory Retention
  imports Artifacts PyDates "HOL-Library.Product_Lexorder"
begin

text \<open>
  The retention of artifacts (\<open>retention/policy.py\<close>, \<open>retention/service.py\<close>): which rows are due, and
  the transaction that unlinks their files, marks them and writes the audit trail. A file that was
  unlinked stays so when the transaction is rolled back. \<open>uuid_str\<close> is the text of an identifier and
  \<open>request_id\<close> the identifier drawn for the entry of an artifact; a path that cannot be unlinked (a
  directory, a denied permission) is not modelled.
\<close>

section \<open>The policy\<close>

definition RETENTION_AGE :: "(string \<times> int) list" where
  "RETENTION_AGE = [(''raw_180d'', 180 * DAY), (''diagnostic_90d'', 90 * DAY)]"

definition is_due :: "string \<Rightarrow> int \<Rightarrow> dict \<Rightarrow> int \<Rightarrow> bool" where
  "is_due retention_class created_at metadata now =
     (if dict_get ''legal_hold'' metadata = Some (JBool True) then False
      else (case map_of RETENTION_AGE retention_class of None \<Rightarrow> False | Some age \<Rightarrow> created_at \<le> now - age))"

section \<open>The service\<close>

definition RETENTION_PRINCIPAL :: principal where
  "RETENTION_PRINCIPAL = \<lparr>pr_issuer = ''tradingng-system'', pr_subject = ''retention-worker'', pr_actor_type = ''service'',
     pr_scopes = [], pr_display_name = [], pr_email = None, pr_roles = []\<rparr>"

definition artifact_due :: "int \<Rightarrow> artifact \<Rightarrow> bool" where
  "artifact_due now a \<longleftrightarrow> art_deleted_at a = None \<and> is_due (art_retention_class a) (art_created_at a) (art_metadata a) now"

definition due_artifacts :: "int \<Rightarrow> db \<Rightarrow> artifact list" where
  "due_artifacts now d = filter (artifact_due now) (sort_key (\<lambda>a. (art_created_at a, art_id a)) (db_artifacts d))"

definition retire_artifact :: "(nat \<Rightarrow> string) \<Rightarrow> (nat \<Rightarrow> string) \<Rightarrow> int \<Rightarrow> artifact \<Rightarrow> db \<Rightarrow> db" where
  "retire_artifact uuid_str request_id now a d =
     append_audit RETENTION_PRINCIPAL ''artifact.retained_delete'' ''artifact'' (uuid_str (art_id a))
       (''retention-'' @ request_id (art_id a)) [(''retention_class'', JStr (art_retention_class a))]
       (d\<lparr>db_artifacts := update_row art_id (art_id a) (\<lambda>x. x\<lparr>art_deleted_at := Some now\<rparr>) (db_artifacts d)\<rparr>)"

fun retain_each ::
    "(nat \<Rightarrow> string) \<Rightarrow> (nat \<Rightarrow> string) \<Rightarrow> path \<Rightarrow> int \<Rightarrow> artifact list \<Rightarrow> files \<Rightarrow> db \<Rightarrow> files \<times> db result" where
  "retain_each uuid_str request_id base now [] fs d = (fs, Inr d)"
| "retain_each uuid_str request_id base now (a # as) fs d = (case artifact_resolve base (art_storage_key a) of
     Inl e \<Rightarrow> (fs, Inl e)
   | Inr p \<Rightarrow> retain_each uuid_str request_id base now as (fs(p := None)) (retire_artifact uuid_str request_id now a d))"

text \<open>\<open>RetentionService.run\<close>; \<open>held\<close> are the locks of other transactions, for which it waits.\<close>

definition run_retention ::
    "(nat \<Rightarrow> string) \<Rightarrow> (nat \<Rightarrow> string) \<Rightarrow> path \<Rightarrow> string set \<Rightarrow> bool \<Rightarrow> int \<Rightarrow> files \<Rightarrow> db \<Rightarrow> files \<times> (db \<times> nat list) result" where
  "run_retention uuid_str request_id base held apply_changes now fs d0 =
     (case acquire_lock held ''global:retention'' True d0 of (locked, d) \<Rightarrow>
       (if \<not> locked then (fs, Inl (RuntimeError ''retention coordination lock is unavailable''))
        else let due = due_artifacts now d; ids = map art_id due in
          if \<not> apply_changes then (fs, Inr (d, ids))
          else (case retain_each uuid_str request_id base now due fs d of
              (fs1, Inl e) \<Rightarrow> (fs1, Inl e) | (fs1, Inr d1) \<Rightarrow> (fs1, Inr (d1, ids)))))"

section \<open>What a run deletes\<close>

text \<open>The keys the store hands out: names joined under a root of names, one artifact to a key.\<close>

definition keys_ok :: "path \<Rightarrow> db \<Rightarrow> bool" where
  "keys_ok base d \<longleftrightarrow> list_all plain_name base \<and> unique_keys art_id (db_artifacts d) \<and> unique_keys art_storage_key (db_artifacts d)
     \<and> (\<forall>a\<in>set (db_artifacts d). \<exists>ws. ws \<noteq> [] \<and> list_all plain_name ws \<and> art_storage_key a = join_with ''/'' ws)"

definition artifact_path :: "path \<Rightarrow> artifact \<Rightarrow> path" where
  "artifact_path base a = (case artifact_resolve base (art_storage_key a) of Inr p \<Rightarrow> p | Inl _ \<Rightarrow> [])"

lemma key_resolves:
  assumes "keys_ok base d" and "a \<in> set (db_artifacts d)"
  shows "artifact_resolve base (art_storage_key a) = Inr (artifact_path base a)"
    and "\<exists>ws. art_storage_key a = join_with ''/'' ws \<and> artifact_path base a = base @ ws"
proof -
  obtain ws where ws: "ws \<noteq> []" "list_all plain_name ws" "art_storage_key a = join_with ''/'' ws" and base: "list_all plain_name base"
    using assms by (auto simp: keys_ok_def)
  note r = resolve_key [OF base ws(2,1)]
  show "artifact_resolve base (art_storage_key a) = Inr (artifact_path base a)" by (simp add: artifact_path_def ws(3) r)
  show "\<exists>ws. art_storage_key a = join_with ''/'' ws \<and> artifact_path base a = base @ ws"
    by (intro exI [of _ ws]) (simp add: artifact_path_def ws(3) r)
qed

lemma paths_distinct:
  assumes "keys_ok base d" and "a \<in> set (db_artifacts d)" and "b \<in> set (db_artifacts d)" and "artifact_path base a = artifact_path base b"
  shows "a = b"
proof -
  have "art_storage_key a = art_storage_key b"
    using key_resolves(2) [OF assms(1,2)] key_resolves(2) [OF assms(1,3)] assms(4) by auto
  thus ?thesis using assms(1-3) by (auto simp: keys_ok_def unique_keys_def distinct_map inj_on_def)
qed

definition retired :: "int \<Rightarrow> nat set \<Rightarrow> artifact \<Rightarrow> artifact" where
  "retired now ids x = (if art_id x \<in> ids then x\<lparr>art_deleted_at := Some now\<rparr> else x)"

lemma retain_each_effect:
  "\<forall>a\<in>set as. artifact_resolve base (art_storage_key a) = Inr (artifact_path base a)
    \<Longrightarrow> \<exists>d'. retain_each uuid_str request_id base now as fs d = (\<lambda>p. if p \<in> artifact_path base ` set as then None else fs p, Inr d')
      \<and> db_artifacts d' = map (retired now (art_id ` set as)) (db_artifacts d)
      \<and> map au_object_id (db_audits d') = map au_object_id (db_audits d) @ map (uuid_str \<circ> art_id) as"
proof (induction as arbitrary: fs d)
  case Nil
  show ?case by (intro exI [of _ d]) (simp add: retired_def)
next
  case (Cons a as)
  let ?d = "retire_artifact uuid_str request_id now a d" and ?fs = "fs(artifact_path base a := None)"
  have "\<forall>a\<in>set as. artifact_resolve base (art_storage_key a) = Inr (artifact_path base a)" using Cons.prems by simp
  from Cons.IH [OF this, of ?fs ?d] obtain d' where d': "retain_each uuid_str request_id base now as ?fs ?d = (\<lambda>p. if p \<in> artifact_path base ` set as then None else ?fs p, Inr d')"
    "db_artifacts d' = map (retired now (art_id ` set as)) (db_artifacts ?d)"
    "map au_object_id (db_audits d') = map au_object_id (db_audits ?d) @ map (uuid_str \<circ> art_id) as"
    by blast
  have "db_artifacts d' = map (retired now (art_id ` set (a # as))) (db_artifacts d)"
    by (simp add: d'(2) retire_artifact_def append_audit_def update_row_def update_where_def retired_def)
  moreover have "map au_object_id (db_audits d') = map au_object_id (db_audits d) @ map (uuid_str \<circ> art_id) (a # as)"
    by (simp add: d'(3) retire_artifact_def append_audit_def)
  moreover have "(\<lambda>p. if p \<in> artifact_path base ` set as then None else ?fs p) = (\<lambda>p. if p \<in> artifact_path base ` set (a # as) then None else fs p)"
    by auto
  ultimately show ?case using Cons.prems d'(1) by auto
qed

text \<open>
  A run that is applied deletes what is due and nothing else: it always completes, the file
  of an artifact is gone exactly when the artifact was due (or had no file), an artifact under legal
  hold, of another class or too young keeps its row and its file, every deletion is in the audit
  trail, and a second run at the same time finds nothing to do.
\<close>

theorem retention_deletes_exactly_due:
  assumes "keys_ok base d"
  shows "\<exists>fs' d'. run_retention uuid_str request_id base held True now fs d = (fs', Inr (d', map art_id (due_artifacts now d)))
    \<and> db_artifacts d' = map (\<lambda>a. if artifact_due now a then a\<lparr>art_deleted_at := Some now\<rparr> else a) (db_artifacts d)
    \<and> (\<forall>a\<in>set (db_artifacts d). fs' (artifact_path base a) = (if artifact_due now a then None else fs (artifact_path base a)))
    \<and> (\<forall>p. p \<notin> artifact_path base ` set (db_artifacts d) \<longrightarrow> fs' p = fs p)
    \<and> map au_object_id (db_audits d') = map au_object_id (db_audits d) @ map (uuid_str \<circ> art_id) (due_artifacts now d)
    \<and> due_artifacts now d' = []"
proof -
  obtain locked d1 where lock: "acquire_lock held ''global:retention'' True d = (locked, d1)" by force
  have locked: "locked" using acquire_lock_result [of held "''global:retention''" True d] lock by simp
  have same: "db_artifacts d1 = db_artifacts d" "db_audits d1 = db_audits d"
    using acquire_lock_frame [of held "''global:retention''" True d] lock by simp_all
  let ?due = "due_artifacts now d"
  have set_due: "set ?due = {a \<in> set (db_artifacts d). artifact_due now a}" by (auto simp: due_artifacts_def)
  have due1: "due_artifacts now d1 = ?due" by (simp add: due_artifacts_def same)
  have "\<forall>a\<in>set ?due. artifact_resolve base (art_storage_key a) = Inr (artifact_path base a)"
    using key_resolves(1) [OF assms] set_due by auto
  from retain_each_effect [OF this, of uuid_str request_id now fs d1] obtain d' where
    d': "retain_each uuid_str request_id base now ?due fs d1 = (\<lambda>p. if p \<in> artifact_path base ` set ?due then None else fs p, Inr d')"
      "db_artifacts d' = map (retired now (art_id ` set ?due)) (db_artifacts d)"
      "map au_object_id (db_audits d') = map au_object_id (db_audits d) @ map (uuid_str \<circ> art_id) ?due"
    by (auto simp: same)
  have ids: "art_id a \<in> art_id ` set ?due \<longleftrightarrow> artifact_due now a" if "a \<in> set (db_artifacts d)" for a
    using that assms set_due by (auto simp: keys_ok_def unique_keys_def distinct_map inj_on_def)
  have rows: "db_artifacts d' = map (\<lambda>a. if artifact_due now a then a\<lparr>art_deleted_at := Some now\<rparr> else a) (db_artifacts d)"
    unfolding d'(2) by (rule map_cong) (simp_all add: retired_def ids)
  have files: "artifact_path base a \<in> artifact_path base ` set ?due \<longleftrightarrow> artifact_due now a" if "a \<in> set (db_artifacts d)" for a
    using that paths_distinct [OF assms that] set_due by auto
  have "due_artifacts now d' = []"
    by (auto simp: due_artifacts_def filter_empty_conv rows artifact_due_def)
  thus ?thesis
    by (intro exI [of _ "\<lambda>p. if p \<in> artifact_path base ` set ?due then None else fs p"] exI [of _ d'] conjI)
      (use rows files d'(1,3) set_due lock locked due1 in \<open>auto simp: run_retention_def Let_def\<close>)
qed

text \<open>Two old artifacts, of which the second is under legal hold.\<close>

definition demo_artifact :: "nat \<Rightarrow> string \<Rightarrow> dict \<Rightarrow> artifact" where
  "demo_artifact i key metadata = \<lparr>art_id = i, art_run = 1, art_kind = ''raw'', art_media_type = ''text/plain'', art_size = 1,
     art_sha256 = ''h'', art_storage_key = key, art_retention_class = ''raw_180d'', art_metadata = metadata,
     art_created_at = 0, art_deleted_at = None\<rparr>"

definition demo_artifacts :: db where
  "demo_artifacts = empty_db\<lparr>db_artifacts := [demo_artifact 1 ''a'' [], demo_artifact 2 ''b'' [(''legal_hold'', JBool True)]]\<rparr>"

lemma demo_key:
  "\<exists>ws. ws \<noteq> [] \<and> list_all plain_name ws \<and> ''a'' = join_with ''/'' ws"
  "\<exists>ws. ws \<noteq> [] \<and> list_all plain_name ws \<and> ''b'' = join_with ''/'' ws"
  by (intro exI [of _ "[''a'']"] exI [of _ "[''b'']"], simp add: plain_name_def)+

lemma retention_demo:
  "\<exists>fs' d'. run_retention nat_digits nat_digits [''srv''] {} True (181 * DAY) (\<lambda>_. Some ''x'') demo_artifacts = (fs', Inr (d', [1]))
    \<and> fs' (artifact_path [''srv''] (demo_artifact 1 ''a'' [])) = None
    \<and> fs' (artifact_path [''srv''] (demo_artifact 2 ''b'' [(''legal_hold'', JBool True)])) = Some ''x''"
proof -
  have ok: "keys_ok [''srv''] demo_artifacts"
    using demo_key by (simp add: keys_ok_def demo_artifacts_def demo_artifact_def unique_keys_def plain_name_def [of "''srv''"])
  have due: "artifact_due (181 * DAY) (demo_artifact 1 ''a'' [])"
    "\<not> artifact_due (181 * DAY) (demo_artifact 2 ''b'' [(''legal_hold'', JBool True)])"
    by (simp_all add: artifact_due_def is_due_def demo_artifact_def RETENTION_AGE_def DAY_def)
  have ids: "map art_id (due_artifacts (181 * DAY) demo_artifacts) = [1]"
    using due by (simp add: due_artifacts_def demo_artifacts_def) (simp add: demo_artifact_def)
  from retention_deletes_exactly_due [OF ok, of nat_digits nat_digits "{}" "181 * DAY" "\<lambda>_. Some ''x''"] due
  show ?thesis unfolding ids by (auto simp: demo_artifacts_def)
qed

end
