(* ===== verification/Spec2Isabelle.thy ===== *)
theory Spec2Isabelle
  imports SchedPolicy Circuits Store Memory Access Admission Calendars Prices Artifacts
    ValidationJobs RunRepo Workers RunService Leases Serving Classify Assess AssessFacts
    Readiness ReadinessFacts Lifecycle Quota QuotaFacts Broker BrokerFacts Webhooks WebhookFacts
    Statements EvidenceAudit AuditFacts Decision Identity IdentityFacts GatewaySchema GatewaySchemaFacts
    GatewayChat GatewayChatFacts GatewayRoutes GatewayRuntime GatewayRuntimeFacts
    Callbacks CallbackFacts Providers ProviderFacts Names NameFacts Retention
begin

text \<open>
  A model of the assessment platform of this repository (\<open>src/platform/src/tradingng_platform\<close>)
  and of the gateway its runs reach the language model through (\<open>src/gateway/src/codex_gateway\<close>):
  the platform accepts requests to assess instruments, waits for their data, admits them
  under capacity limits, runs an agent graph for each in a worker process, stores what the
  graph produced, later compares the decisions with prices, and reports all of it.

  Paths below are relative to the platform's directory, or to the gateway's where that is said.

  \<^bold>\<open>How the parts fit together.\<close> A submission (\<open>assessments/service.py\<close>) creates a batch, a request
  and a run; the run waits for its data (\<open>data_readiness\<close>) until it is queued; the scheduler
  (\<open>scheduler\<close>) admits it with a pinned configuration snapshot when the host, the gateway and
  the vendors allow; a worker (\<open>worker\<close>) claims it under a lease, starts the runner
  (\<open>runner\<close>), stores the events it prints and settles the run; the decision is scheduled for
  validation (\<open>validation\<close>), whose results are what later runs remember (\<open>memory\<close>). The
  point-in-time policy (\<open>integrity\<close>) decides what a run about the past may read and audits what
  it has read. Vendors are reached through the quota of \<open>vendors/alpha_vantage_broker.py\<close>.
  The language model is reached through the gateway, a service with an OpenAI interface: it turns
  a chat request into a prompt with an output schema, has the Codex app-server it keeps alive
  complete it, and turns the structured answer back. The model routes pinned at admission travel
  as headers. People and programs are let in by \<open>auth\<close> and \<open>identity\<close>, and told of events by
  \<open>webhooks\<close>. All parts of the platform share one relational database; the transition guard of
  \<open>domain/runs.py\<close> is the contract between those that move a run.

  \<^bold>\<open>Conventions.\<close> A row is a record, the database the record \<open>db\<close> of its tables (\<open>Store\<close>), a
  transaction a function from the database to a \<open>result\<close>, whose \<open>Inl\<close> is the exception (then
  nothing is kept) and whose \<open>Inr\<close> is the new database with the value returned. Instants are
  microseconds as \<open>int\<close> (rational seconds in \<open>Quota\<close> and \<open>Broker\<close>), dates are ordinals as \<open>int\<close>,
  decimals are rationals rounded as Python's decimal context does (\<open>Decimals\<close>), identifiers drawn
  from \<open>uuid4\<close> are numbers drawn from a counter, text is \<open>string\<close>, JSON the datatype \<open>json\<close>. What
  belongs to libraries or to the outside (hashes, encryption, HTTP, the file system's content,
  clocks, parsers, the exchange calendar, Keycloak) is an argument or a field of an environment
  record. Rows locked by other transactions are sets of identifiers (\<open>SKIP LOCKED\<close>), and what
  other transactions do meanwhile is a function on databases or a list of commands. Code of an
  event loop (\<open>Quota\<close>, \<open>Broker\<close>, \<open>GatewayRuntime\<close>) is cut into the segments between its awaits, and
  theorems run lists of segments in any order; errors of the gateway are \<open>gateway_error\<close>.

  \<^bold>\<open>Theories.\<close>

  \<^item> \<open>Prelude\<close>: results, rows and tables, options, the reachability of a step function, and the
    locales of the interfaces shared by components: keyed stores, versioned claims, invariants
    kept by every operation, resumable logs. \<open>Json\<close>: values, rendering and reading of numbers.
    \<open>Decimals\<close>, \<open>PyDates\<close>: decimal arithmetic and dates.
  \<^item> \<open>Domain\<close> (\<open>domain/\<close>), \<open>Store\<close> (\<open>models/\<close>, event log, audit trail, locks).
  \<^item> \<open>SchedPolicy\<close> (\<open>scheduler/policy.py\<close>, \<open>probes.py\<close>), \<open>Circuits\<close> (\<open>scheduler/circuits.py\<close>),
    \<open>Admission\<close> (\<open>scheduler/repository.py\<close>, \<open>model_routing.py\<close>).
  \<^item> \<open>Classify\<close>, \<open>Assess\<close>, \<open>AssessFacts\<close> (\<open>instruments/classification.py\<close>, \<open>vendors/stocklean.py\<close>,
    \<open>assessments/service.py\<close>), \<open>Names\<close>, \<open>NameFacts\<close> (\<open>instruments/names.py\<close>), \<open>RunRepo\<close> (\<open>assessments/repository.py\<close>), \<open>Readiness\<close>,
    \<open>ReadinessFacts\<close> (\<open>data_readiness/\<close>).
  \<^item> \<open>Workers\<close>, \<open>Leases\<close> (\<open>worker/repository.py\<close>), \<open>RunService\<close>, \<open>Serving\<close> (\<open>worker/service.py\<close>,
    \<open>runner/events.py\<close>, \<open>cli.py\<close>, \<open>contracts.py\<close>), \<open>Decision\<close> (\<open>parse_decision\<close> of
    \<open>runner/tradingagents.py\<close>), \<open>Artifacts\<close> (\<open>artifacts/store.py\<close>), \<open>Retention\<close> (\<open>retention/\<close>).
  \<^item> \<open>Lifecycle\<close>: the composition of all of them as one step relation on the database.
  \<^item> \<open>Callbacks\<close>, \<open>CallbackFacts\<close> (\<open>runner/callbacks.py\<close>): the evidence a run collects, up to its rows.
  \<^item> \<open>Calendars\<close>, \<open>Prices\<close>, \<open>ValidationJobs\<close>, \<open>Providers\<close>, \<open>ProviderFacts\<close> (\<open>validation/\<close>), \<open>Memory\<close>
    (\<open>memory/\<close>).
  \<^item> \<open>Integrity\<close> (\<open>integrity/policy.py\<close>, \<open>repository.py\<close>), \<open>Statements\<close> (\<open>integrity/financials.py\<close> and
    the guarded routes of \<open>runner/tradingagents.py\<close>), \<open>EvidenceAudit\<close>, \<open>AuditFacts\<close>
    (\<open>integrity/audit.py\<close>, \<open>service.py\<close>).
  \<^item> \<open>Quota\<close>, \<open>QuotaFacts\<close>, \<open>Broker\<close>, \<open>BrokerFacts\<close> (\<open>vendors/alpha_vantage.py\<close>,
    \<open>alpha_vantage_broker.py\<close>, \<open>alpha_vantage_client.py\<close>).
  \<^item> \<open>Access\<close> (\<open>auth/\<close>, \<open>identity/access.py\<close>), \<open>Identity\<close>, \<open>IdentityFacts\<close> (\<open>identity/service.py\<close>,
    \<open>repository.py\<close>), \<open>Webhooks\<close>, \<open>WebhookFacts\<close> (\<open>webhooks/\<close>).
  \<^item> Of the gateway: \<open>GatewaySchema\<close>, \<open>GatewaySchemaFacts\<close> (tool schemas of \<open>request_adapter.py\<close>),
    \<open>GatewayChat\<close>, \<open>GatewayChatFacts\<close> (\<open>models.py\<close>, the prompt of \<open>request_adapter.py\<close>,
    \<open>response_adapter.py\<close>, \<open>model_catalog.py\<close>, \<open>effective_config.py\<close>, the chat endpoint of \<open>app.py\<close>),
    \<open>GatewayRuntime\<close>, \<open>GatewayRuntimeFacts\<close> (\<open>runtime.py\<close>), and \<open>GatewayRoutes\<close>, which joins it to the
    configuration of \<open>runner/tradingagents.py\<close>.

  \<^bold>\<open>What is shown.\<close> Safety of the composition: whatever the components do and in whatever order, a
  run moves only along the allowed transitions (but for the recovery of stale leases, which does not
  look at them), admission keeps its limits, claims are exclusive,
  late workers of the webhooks and of the readiness loop are fenced (and those of the validation
  are not, which is shown too). Refinement: serving a run is appending what the runner emitted to a
  log. No look-ahead: memory and statements contain nothing published after the analysis date, and an audit
  that dates in time what the filter dated in time finds only safe reports. Prices: whichever provider answered, the series is validated, and what happens to
  the job follows from the providers' answers. Names: an official name is not lost to a failure, and
  which instruments are never reached. Numbers: prices stay consistent through normalisation, excursions bracket the
  return, quotas, delays and requests per minute are bounded. The gateway: a request cannot leave its block of the
  prompt, an answer calls only what the request allows, no turn waits for a process that is gone as long as
  no launch overtakes a readiness or a completion,
  a turn is settled once, the runtime always comes back, and the routes pinned at admission are
  those Codex runs. Round trips: the calls of tools, their arguments and provenance reach the rows of
  evidence, and artifacts and configuration are read back. Retention deletes what is due and nothing else. Errors:
  the delays and terminal codes of retries, and the behaviours listed as findings.

  \<^bold>\<open>Bounds and fuel.\<close> Loops over lists are structural. \<open>fetch_attempts\<close> is bounded by the policy's
  attempts (\<open>fetch_bounded\<close>), the expansion of a schema by one level more than \<open>MAX_REF_DEPTH\<close>, where
  the code itself refuses, its raw check by the nodes that remain (\<open>preflight_loop\<close>), paging by the rows that remain (\<open>paging_complete\<close>), the dates of an
  output by its length (\<open>iso_matches\<close>). A loop that polls for ever (\<open>run_forever\<close>, the dispatch loop)
  is modelled by its round, and the theorems quantify over lists of rounds.

  \<^bold>\<open>Not modelled.\<close> FastAPI and MCP routes (\<open>api/\<close>, \<open>mcp/\<close>), which only call the services; the
  read views of \<open>records/\<close>; the HTTP clients of vendors and of Keycloak, which are arguments; the agent
  graph and the patches that install its routes; of the gateway the pipe to the app-server process
  and the recording proxy with its files; the text form of the cursors of the listing; metrics, settings, migrations and scripts. Time zones other than UTC, floating-point rounding of clocks and the
  SQL engine's isolation below what the code's own locks give are not modelled either.
\<close>

end
